(* ===== verification/Prelude.thy ===== *)
theory Prelude
  imports Main "HOL-Library.Word" "HOL-Library.Signed_Division"
begin

text \<open>
  The shared vocabulary of the development: the machine integers of Go, the errors the SDK
  returns, the result type of a fallible Go function, the loops that stop at the first error,
  slices, \<open>copy\<close>, and the digit and byte encodings of the Go standard library that the SDK
  rests on (\<open>encoding/binary\<close>, \<open>encoding/hex\<close>, \<open>encoding/base32\<close>, a few functions of
  \<open>strings\<close>). The collections \<open>go_defs\<close> and \<open>go_len\<close> gather the unfolding and the length
  facts the component theories use.
\<close>

named_theorems go_defs \<open>definitions the component proofs unfold\<close>
named_theorems go_len \<open>lengths of encoded values\<close>

section \<open>Machine integers, errors and results\<close>

type_synonym u8 = "8 word"
type_synonym u16 = "16 word"
type_synonym u32 = "32 word"
type_synonym u64 = "64 word"

type_synonym byte = u8

text \<open>
  The errors of \<open>sdk/errors.go\<close> have a constructor each; an error made in place with
  \<open>errors.New\<close> or \<open>fmt.Errorf\<close> is \<open>NewError\<close> with its text, one wrapped with \<open>errors.Wrap\<close> is \<open>Wrapped\<close>; the errors of the standard
  library and of the imported packages follow. \<open>Panicked\<close> is a run-time panic (a nil
  dereference, a slice out of range): no caller in the modelled code recovers from one, so it
  propagates exactly as an error return does.
\<close>

datatype go_error =
    ErrResourceNotFound | ErrArgumentNotValid | ErrInvalidRequest | ErrInternalError | ErrNotAcceptedResponseStatusCode
  | ErrMetadataEmptyAddresses | ErrMetadataNilAdress | ErrMetadataEmptyMosaicIds | ErrMetadataNilMosaicId | ErrMetadataEmptyNamespaceIds | ErrMetadataNilNamespaceId
  | ErrNilAssetId | ErrEmptyAssetIds | ErrUnknownBlockchainType | ErrInvalidHashLength | ErrInvalidSignatureLength
  | ErrEmptyMosaicIds | ErrNilMosaicId | ErrWrongBitMosaicId | ErrInvalidOwnerPublicKey | ErrNilMosaicProperties
  | ErrNamespaceTooManyPart | ErrNilNamespaceId | ErrWrongBitNamespaceId | ErrEmptyNamespaceIds | ErrInvalidNamespaceName
  | ErrNilOrZeroHeight | ErrNilOrZeroLimit | ErrNilSecret | ErrNilProof
  | ErrEmptyAddressesIds | ErrNilAddress | ErrBlankAddress | ErrNilAccount | ErrInvalidAddress | ErrInvalidReputationConfig
  | NewError string
  | Wrapped string go_error
  | HexInvalidByte byte
  | HexErrLength
  | Base32CorruptInput
  | PackageError string
  | Panicked

type_synonym 'a result = "go_error + 'a"

fun res_bind :: "'a result \<Rightarrow> ('a \<Rightarrow> 'b result) \<Rightarrow> 'b result" where
  "res_bind (Inl e) f = Inl e"
| "res_bind (Inr x) f = f x"

definition res_map :: "('a \<Rightarrow> 'b) \<Rightarrow> 'a result \<Rightarrow> 'b result" where
  "res_map f r = res_bind r (\<lambda>x. Inr (f x))"

lemma res_map_simps [simp]:
  "res_map f (Inl e) = Inl e" "res_map f (Inr x) = Inr (f x)"
  by (simp_all add: res_map_def)

lemma res_bind_Inr_iff: "res_bind r f = Inr y \<longleftrightarrow> (\<exists>x. r = Inr x \<and> f x = Inr y)"
  by (cases r) auto

lemma res_bind_Inl_iff:
  "res_bind r f = Inl e \<longleftrightarrow> r = Inl e \<or> (\<exists>x. r = Inr x \<and> f x = Inl e)"
  by (cases r) auto

lemma res_map_Inr_iff: "res_map f r = Inr y \<longleftrightarrow> (\<exists>x. r = Inr x \<and> y = f x)"
  by (cases r) auto

lemma res_bind_assoc: "res_bind (res_bind r f) g = res_bind r (\<lambda>x. res_bind (f x) g)"
  by (cases r) auto

lemma res_bind_cong [fundef_cong]:
  "r = r' \<Longrightarrow> (\<And>x. r' = Inr x \<Longrightarrow> f x = f' x) \<Longrightarrow> res_bind r f = res_bind r' f'"
  by (cases r') auto

definition is_ok :: "'a result \<Rightarrow> bool" where
  "is_ok r = (case r of Inl _ \<Rightarrow> False | Inr _ \<Rightarrow> True)"

lemma is_ok_simps [simp]: "\<not> is_ok (Inl e)" "is_ok (Inr x)"
  by (simp_all add: is_ok_def)

text \<open>A nil dereference panics.\<close>

definition deref :: "'a option \<Rightarrow> 'a result" where
  "deref p = (case p of None \<Rightarrow> Inl Panicked | Some x \<Rightarrow> Inr x)"

lemma deref_simps [simp]: "deref None = Inl Panicked" "deref (Some x) = Inr x"
  by (simp_all add: deref_def)

text \<open>
  \<open>for i, x := range xs { ys[i], err = f(x); if err != nil { return nil, err } }\<close>: the results
  in order, or the first error.
\<close>

fun mapR :: "('a \<Rightarrow> 'b result) \<Rightarrow> 'a list \<Rightarrow> 'b list result" where
  "mapR f [] = Inr []"
| "mapR f (x # xs) = res_bind (f x) (\<lambda>y. res_bind (mapR f xs) (\<lambda>ys. Inr (y # ys)))"

lemma mapR_cong [fundef_cong]:
  "xs = ys \<Longrightarrow> (\<And>x. x \<in> set ys \<Longrightarrow> f x = g x) \<Longrightarrow> mapR f xs = mapR g ys"
  by (induction ys arbitrary: xs) auto

lemma mapR_Inr_iff: "mapR f xs = Inr ys \<longleftrightarrow> list_all2 (\<lambda>x y. f x = Inr y) xs ys"
proof (induction xs arbitrary: ys)
  case Nil
  then show ?case by auto
next
  case (Cons x xs)
  then show ?case by (cases "f x") (auto simp: res_bind_Inr_iff list_all2_Cons1)
qed

lemma mapR_length: "mapR f xs = Inr ys \<Longrightarrow> length ys = length xs"
  by (auto simp: mapR_Inr_iff dest: list_all2_lengthD)

lemma mapR_total: "(\<And>x. x \<in> set xs \<Longrightarrow> f x = Inr (g x)) \<Longrightarrow> mapR f xs = Inr (map g xs)"
  by (induction xs) auto

lemma mapR_first_error:
  "mapR f xs = Inl e \<longleftrightarrow>
     (\<exists>us v ws. xs = us @ v # ws \<and> is_ok (mapR f us) \<and> f v = Inl e)"
proof (induction xs)
  case Nil
  then show ?case by simp
next
  case (Cons x xs)
  show ?case
  proof (cases "f x")
    case (Inl d)
    then show ?thesis
      by (force simp: Cons_eq_append_conv)
  next
    case (Inr y)
    have ok: "is_ok (mapR f (x # us)) = is_ok (mapR f us)" for us
      using Inr by (cases "mapR f us") auto
    from Inr have "mapR f (x # xs) = Inl e \<longleftrightarrow> mapR f xs = Inl e"
      by (auto simp: res_bind_Inl_iff)
    also have "\<dots> \<longleftrightarrow> (\<exists>us v ws. x # xs = us @ v # ws \<and> is_ok (mapR f us) \<and> f v = Inl e)"
      unfolding Cons.IH
    proof (intro iffI; elim exE conjE)
      fix us v ws
      assume "xs = us @ v # ws" "is_ok (mapR f us)" "f v = Inl e"
      then show "\<exists>us v ws. x # xs = us @ v # ws \<and> is_ok (mapR f us) \<and> f v = Inl e"
        using ok by (intro exI [of _ "x # us"] exI [of _ v] exI [of _ ws]) simp
    next
      fix us v ws
      assume a: "x # xs = us @ v # ws" "is_ok (mapR f us)" "f v = Inl e"
      with Inr obtain us' where "us = x # us'" by (cases us) auto
      with a ok show "\<exists>us v ws. xs = us @ v # ws \<and> is_ok (mapR f us) \<and> f v = Inl e"
        by auto
    qed
    finally show ?thesis .
  qed
qed

section \<open>Slices and copy\<close>

text \<open>
  \<open>s[lo:hi]\<close> panics unless \<open>0 \<le> lo \<le> hi \<le> cap(s)\<close>. Every slice expression of the modelled code
  is applied to a slice whose capacity is its length, or stays within its length when the
  program is correct; the model takes the length as the limit.
\<close>

definition subslice :: "'a list \<Rightarrow> nat \<Rightarrow> nat \<Rightarrow> 'a list result" where
  "subslice s lo hi = (if lo \<le> hi \<and> hi \<le> length s then Inr (take (hi - lo) (drop lo s)) else Inl Panicked)"

definition subslice_from :: "'a list \<Rightarrow> nat \<Rightarrow> 'a list result" where
  "subslice_from s lo = subslice s lo (length s)"

text \<open>\<open>copy(dst[at:], src)\<close>: as many elements as fit, in place.\<close>

definition copy_at :: "'a list \<Rightarrow> nat \<Rightarrow> 'a list \<Rightarrow> 'a list" where
  "copy_at dst at src =
     (let n = min (length dst - at) (length src)
      in take at dst @ take n src @ drop (at + n) dst)"

text \<open>\<open>copy(dst[lo:hi], src)\<close>: the slice must be within bounds.\<close>

definition copy_slice :: "'a list \<Rightarrow> nat \<Rightarrow> nat \<Rightarrow> 'a list \<Rightarrow> 'a list result" where
  "copy_slice dst lo hi src =
     res_map (\<lambda>part. take lo dst @ copy_at part 0 src @ drop hi dst) (subslice dst lo hi)"

lemma subslice_ok: "lo \<le> hi \<Longrightarrow> hi \<le> length s \<Longrightarrow> subslice s lo hi = Inr (take (hi - lo) (drop lo s))"
  by (simp add: subslice_def)

lemma subslice_panic: "\<not> (lo \<le> hi \<and> hi \<le> length s) \<Longrightarrow> subslice s lo hi = Inl Panicked"
  by (simp add: subslice_def)

lemma subslice_append_mid:
  "subslice (xs @ ys @ zs) (length xs) (length xs + length ys) = Inr ys"
  by (simp add: subslice_def)

lemma length_copy_at [simp]: "at \<le> length dst \<Longrightarrow> length (copy_at dst at src) = length dst"
  by (simp add: copy_at_def Let_def)

lemma copy_slice_exact:
  assumes "length src = length mid"
  shows "copy_slice (pre @ mid @ post) (length pre) (length pre + length mid) src = Inr (pre @ src @ post)"
  using assms by (simp add: copy_slice_def subslice_def copy_at_def)

lemma copy_slice_fits:
  "lo \<le> hi \<Longrightarrow> hi \<le> length dst \<Longrightarrow> length src = hi - lo \<Longrightarrow>
     copy_slice dst lo hi src = Inr (take lo dst @ src @ drop hi dst)"
  by (simp add: copy_slice_def subslice_def copy_at_def)

lemma copy_at_exact:
  "length src = length mid \<Longrightarrow> copy_at (pre @ mid @ post) (length pre) src = pre @ src @ post"
  by (simp add: copy_at_def Let_def)

end
