(* ===== verification/Encoding.thy ===== *)
theory Encoding
  imports Prelude
begin

text \<open>
  The functions of the Go standard library the SDK encodes and decodes with, and their round
  trips: \<open>encoding/binary\<close> (fixed-width integers, little and big endian), \<open>encoding/hex\<close>,
  \<open>encoding/base32\<close> (\<open>StdEncoding\<close>, padding included) and the functions of \<open>strings\<close> that are
  applied to ASCII text. A Go string is a sequence of bytes: \<^typ>\<open>string\<close> here, a \<^typ>\<open>char\<close> being one
  byte.
\<close>

lemma unat_bounds:
  "unat (b :: 8 word) < 256" "unat (x :: 16 word) < 65536" "unat (y :: 32 word) < 4294967296"
  "unat (z :: 64 word) < 18446744073709551616"
proof -
  have "unat b < 2 ^ LENGTH(8)" "unat x < 2 ^ LENGTH(16)" "unat y < 2 ^ LENGTH(32)"
    "unat z < 2 ^ LENGTH(64)"
    by (rule unsigned_less)+
  then show "unat b < 256" "unat x < 65536" "unat y < 4294967296" "unat z < 18446744073709551616"
    by simp_all
qed

lemma unat_word_of_nat:
  "n < 256 \<Longrightarrow> unat (word_of_nat n :: 8 word) = n"
  "n < 65536 \<Longrightarrow> unat (word_of_nat n :: 16 word) = n"
  "n < 4294967296 \<Longrightarrow> unat (word_of_nat n :: 32 word) = n"
  "n < 18446744073709551616 \<Longrightarrow> unat (word_of_nat n :: 64 word) = n"
  by (simp_all only: unat_of_nat) simp_all

section \<open>Digits in a base\<close>

fun digits :: "nat \<Rightarrow> nat \<Rightarrow> nat \<Rightarrow> nat list" where
  "digits b 0 n = []"
| "digits b (Suc k) n = digits b k (n div b) @ [n mod b]"

definition undigits :: "nat \<Rightarrow> nat list \<Rightarrow> nat" where
  "undigits b ds = foldl (\<lambda>a d. a * b + d) 0 ds"

lemma length_digits [simp]: "length (digits b k n) = k"
  by (induction k arbitrary: n) auto

lemma undigits_simps [simp]:
  "undigits b [] = 0"
  "undigits b (ds @ [d]) = undigits b ds * b + d"
  by (simp_all add: undigits_def)

lemma digits_less: "0 < b \<Longrightarrow> d \<in> set (digits b k n) \<Longrightarrow> d < b"
  by (induction k arbitrary: n) auto

lemma undigits_digits: "n < b ^ k \<Longrightarrow> undigits b (digits b k n) = n"
proof (induction k arbitrary: n)
  case 0
  then show ?case by simp
next
  case (Suc k)
  have "n div b < b ^ k"
    using Suc.prems by (simp add: less_mult_imp_div_less mult.commute)
  then show ?case using Suc.IH by simp
qed

lemma digits_undigits:
  "(\<And>d. d \<in> set ds \<Longrightarrow> d < b) \<Longrightarrow> digits b (length ds) (undigits b ds) = ds"
proof (induction ds rule: rev_induct)
  case Nil
  then show ?case by simp
next
  case (snoc d ds)
  then have "d < b" by simp
  moreover have "digits b (length ds) (undigits b ds) = ds"
    using snoc by simp
  ultimately show ?case by simp
qed

lemma undigits_less: "(\<And>d. d \<in> set ds \<Longrightarrow> d < b) \<Longrightarrow> undigits b ds < b ^ length ds"
proof (induction ds rule: rev_induct)
  case Nil
  then show ?case by simp
next
  case (snoc d ds)
  then have "d < b" and "undigits b ds < b ^ length ds" by simp_all
  then have "undigits b ds * b + d < (undigits b ds + 1) * b"
    by (simp add: algebra_simps)
  also have "\<dots> \<le> b ^ length ds * b"
    using \<open>undigits b ds < b ^ length ds\<close> by (intro mult_right_mono) auto
  finally show ?case by (simp add: mult.commute)
qed

section \<open>encoding/binary\<close>

fun le_bytes :: "nat \<Rightarrow> nat \<Rightarrow> byte list" where
  "le_bytes 0 n = []"
| "le_bytes (Suc k) n = word_of_nat n # le_bytes k (n div 256)"

fun le_nat :: "byte list \<Rightarrow> nat" where
  "le_nat [] = 0"
| "le_nat (b # bs) = unat b + 256 * le_nat bs"

text \<open>\<open>PutUint16\<close>, \<open>PutUint32\<close>, \<open>PutUint64\<close> into a slice of exactly that size.\<close>

definition le16 :: "u16 \<Rightarrow> byte list" where "le16 x = le_bytes 2 (unat x)"
definition le32 :: "u32 \<Rightarrow> byte list" where "le32 x = le_bytes 4 (unat x)"
definition le64 :: "u64 \<Rightarrow> byte list" where "le64 x = le_bytes 8 (unat x)"

definition be32 :: "u32 \<Rightarrow> byte list" where "be32 x = rev (le32 x)"

text \<open>
  \<open>Uint16\<close>, \<open>Uint32\<close>, \<open>Uint64\<close> read the first bytes of a slice and panic on a shorter one.
\<close>

definition read_le :: "nat \<Rightarrow> byte list \<Rightarrow> nat result" where
  "read_le k bs = (if k \<le> length bs then Inr (le_nat (take k bs)) else Inl Panicked)"

definition le_uint64 :: "byte list \<Rightarrow> u64 result" where
  "le_uint64 bs = res_map word_of_nat (read_le 8 bs)"

definition be_uint64 :: "byte list \<Rightarrow> u64 result" where
  "be_uint64 bs = (if 8 \<le> length bs then Inr (word_of_nat (le_nat (rev (take 8 bs)))) else Inl Panicked)"

lemma length_le_bytes [simp]: "length (le_bytes k n) = k"
  by (induction k arbitrary: n) auto

lemma length_le [simp, go_len]:
  "length (le16 x) = 2" "length (le32 y) = 4" "length (le64 z) = 8"
  by (simp_all add: le16_def le32_def le64_def)

lemma le_nat_le_bytes: "le_nat (le_bytes k n) = n mod 256 ^ k"
proof (induction k arbitrary: n)
  case 0
  then show ?case by simp
next
  case (Suc k)
  have "unat (word_of_nat n :: byte) = n mod 256"
    by (simp add: unat_of_nat)
  with Suc show ?case
    by (simp add: mod_mult2_eq)
qed

lemma le_nat_less: "le_nat bs < 256 ^ length bs"
proof (induction bs)
  case Nil
  then show ?case by simp
next
  case (Cons b bs)
  have "unat b < 256" by (rule unat_bounds)
  with Cons show ?case by simp
qed

lemma le_bytes_le_nat: "le_bytes (length bs) (le_nat bs) = bs"
proof (induction bs)
  case Nil
  then show ?case by simp
next
  case (Cons b bs)
  have b: "unat b < 256" by (rule unat_bounds)
  have "unat (word_of_nat (unat b + 256 * le_nat bs) :: byte) = unat b"
    using b by (simp only: unat_of_nat) simp
  then have "word_of_nat (unat b + 256 * le_nat bs) = b"
    by (simp only: word_unat_eq_iff)
  moreover have "(unat b + 256 * le_nat bs) div 256 = le_nat bs"
    using b by simp
  ultimately show ?case using Cons by simp
qed

lemma le_nat_append: "le_nat (xs @ ys) = le_nat xs + 256 ^ length xs * le_nat ys"
  by (induction xs) (auto simp: algebra_simps)

lemma le_nat_le [simp]:
  "le_nat (le16 x) = unat x" "le_nat (le32 y) = unat y" "le_nat (le64 z) = unat z"
  using unat_bounds(2) [of x] unat_bounds(3) [of y] unat_bounds(4) [of z]
  by (simp_all add: le16_def le32_def le64_def le_nat_le_bytes)

lemma le_inj [simp]:
  "le16 a = le16 a' \<longleftrightarrow> a = a'" "le32 b = le32 b' \<longleftrightarrow> b = b'" "le64 c = le64 c' \<longleftrightarrow> c = c'"
  by (metis le_nat_le(1) word_unat_eq_iff) (metis le_nat_le(2) word_unat_eq_iff, metis le_nat_le(3) word_unat_eq_iff)

lemma read_le_le [simp]:
  "read_le 2 (le16 x @ r) = Inr (unat x)" "read_le 4 (le32 y @ r) = Inr (unat y)"
  "read_le 8 (le64 z @ r) = Inr (unat z)"
  by (simp_all add: read_le_def)

lemma le_uint64_le64 [simp]: "le_uint64 (le64 z) = Inr z"
  using read_le_le(3) [of z "[]"] by (simp add: le_uint64_def)

section \<open>strings\<close>

definition string_bytes :: "string \<Rightarrow> byte list" where
  "string_bytes s = map of_char s"

definition bytes_string :: "byte list \<Rightarrow> string" where
  "bytes_string bs = map (\<lambda>b. char_of (unat b)) bs"

lemma length_string_bytes [simp, go_len]: "length (string_bytes s) = length s"
  by (simp add: string_bytes_def)

lemma length_bytes_string [simp, go_len]: "length (bytes_string bs) = length bs"
  by (simp add: bytes_string_def)

lemma of_char_less: "(of_char c :: nat) < 256"
  by (metis mod_less_divisor of_char_mod_256 zero_less_numeral)

lemma bytes_string_string_bytes [simp]: "bytes_string (string_bytes s) = s"
proof -
  have "unat (of_char c :: byte) = of_char c" for c
  proof -
    have "(of_char c :: byte) = word_of_nat (of_char c)"
      by (simp add: of_nat_of_char)
    then show ?thesis
      using of_char_less [of c] by (simp add: unat_of_nat)
  qed
  then show ?thesis by (simp add: bytes_string_def string_bytes_def map_idI)
qed

lemma string_bytes_bytes_string [simp]: "string_bytes (bytes_string bs) = bs"
proof -
  have "(of_char (char_of (unat b)) :: byte) = b" for b :: byte
  proof -
    have "(of_char (char_of (unat b)) :: byte) =
        word_of_nat (of_char (char_of (unat b) :: char))"
      by (simp only: of_nat_of_char)
    also have "(of_char (char_of (unat b) :: char) :: nat) = unat b"
      using unat_bounds(1) [of b] by simp
    finally show ?thesis by simp
  qed
  then show ?thesis by (simp add: bytes_string_def string_bytes_def map_idI)
qed

definition to_upper_char :: "char \<Rightarrow> char" where
  "to_upper_char c =
     (let n = of_char c :: nat in if 97 \<le> n \<and> n \<le> 122 then char_of (n - 32) else c)"

text \<open>\<open>strings.ToUpper\<close> on ASCII text, \<open>strings.Replace(s, c, "", -1)\<close>, \<open>strings.Repeat\<close>.\<close>

definition ToUpper :: "string \<Rightarrow> string" where
  "ToUpper s = map to_upper_char s"

definition remove_char :: "char \<Rightarrow> string \<Rightarrow> string" where
  "remove_char c s = filter (\<lambda>x. x \<noteq> c) s"

definition Repeat :: "string \<Rightarrow> nat \<Rightarrow> string" where
  "Repeat s n = concat (replicate n s)"

lemma length_ToUpper [simp]: "length (ToUpper s) = length s"
  by (simp add: ToUpper_def)

lemma ToUpper_append [simp]: "ToUpper (s @ t) = ToUpper s @ ToUpper t"
  by (simp add: ToUpper_def)

section \<open>encoding/hex\<close>

definition hex_digit :: "nat \<Rightarrow> char" where
  "hex_digit n = char_of (if n < 10 then 48 + n else 87 + n)"

definition from_hex_char :: "char \<Rightarrow> nat option" where
  "from_hex_char c =
     (let n = of_char c :: nat in
      if 48 \<le> n \<and> n \<le> 57 then Some (n - 48)
      else if 97 \<le> n \<and> n \<le> 102 then Some (n - 87)
      else if 65 \<le> n \<and> n \<le> 70 then Some (n - 55)
      else None)"

fun hex_encode :: "byte list \<Rightarrow> string" where
  "hex_encode [] = []"
| "hex_encode (b # bs) = hex_digit (unat b div 16) # hex_digit (unat b mod 16) # hex_encode bs"

text \<open>
  \<open>hex.DecodeString\<close>: the first bad character is reported before an odd length is; the length
  error comes last, and only if the odd character is a hex digit.
\<close>

fun hex_decode :: "string \<Rightarrow> byte list result" where
  "hex_decode [] = Inr []"
| "hex_decode [a] =
     (case from_hex_char a of
        None \<Rightarrow> Inl (HexInvalidByte (of_char a))
      | Some _ \<Rightarrow> Inl HexErrLength)"
| "hex_decode (a # b # s) =
     (case from_hex_char a of
        None \<Rightarrow> Inl (HexInvalidByte (of_char a))
      | Some x \<Rightarrow>
          (case from_hex_char b of
             None \<Rightarrow> Inl (HexInvalidByte (of_char b))
           | Some y \<Rightarrow> res_map ((#) (word_of_nat (16 * x + y))) (hex_decode s)))"

lemma length_hex_encode [simp, go_len]: "length (hex_encode bs) = 2 * length bs"
  by (induction bs) auto

lemma hex_encode_Nil_iff [simp]: "hex_encode bs = [] \<longleftrightarrow> bs = []"
  by (cases bs) simp_all

lemma hex_encode_append [simp]: "hex_encode (xs @ ys) = hex_encode xs @ hex_encode ys"
  by (induction xs) auto

lemma from_hex_char_digit: "n < 16 \<Longrightarrow> from_hex_char (hex_digit n) = Some n"
  by (auto simp: from_hex_char_def hex_digit_def Let_def)

lemma from_hex_char_upper: "n < 16 \<Longrightarrow> from_hex_char (to_upper_char (hex_digit n)) = Some n"
  by (auto simp: from_hex_char_def hex_digit_def to_upper_char_def Let_def)

lemma byte_nibbles: "word_of_nat (16 * (unat b div 16) + unat b mod 16) = (b :: byte)"
  by simp

lemma byte_nibble_less: "unat (b :: byte) div 16 < 16"
  using unat_bounds(1) [of b] by simp

lemma hex_decode_encode [simp]: "hex_decode (hex_encode bs) = Inr bs"
  by (induction bs) (simp_all add: from_hex_char_digit byte_nibble_less)

lemma hex_decode_upper [simp]: "hex_decode (ToUpper (hex_encode bs)) = Inr bs"
  by (induction bs) (simp_all add: ToUpper_def from_hex_char_upper byte_nibble_less)

lemma hex_decode_length: "hex_decode s = Inr bs \<Longrightarrow> length s = 2 * length bs"
  by (induction s arbitrary: bs rule: hex_decode.induct)
    (auto split: option.splits simp: res_map_Inr_iff)

lemma hex_decode_append:
  "hex_decode s = Inr bs \<Longrightarrow> hex_decode (s @ t) = res_map ((@) bs) (hex_decode t)"
proof (induction s arbitrary: bs rule: hex_decode.induct)
  case 1
  then show ?case by (cases "hex_decode t") auto
next
  case (2 a)
  then show ?case by (auto split: option.splits)
next
  case (3 a b s)
  then show ?case
    by (cases "hex_decode t") (auto split: option.splits simp: res_map_Inr_iff)
qed

section \<open>encoding/base32\<close>

text \<open>
  \<open>base32.StdEncoding\<close>: groups of five bytes are eight digits of the alphabet \<open>A..Z2..7\<close>; a short
  last group is padded with \<open>=\<close>.
\<close>

definition b32_digit :: "nat \<Rightarrow> char" where
  "b32_digit n = char_of (if n < 26 then 65 + n else 24 + n)"

definition from_b32_char :: "char \<Rightarrow> nat option" where
  "from_b32_char c =
     (let n = of_char c :: nat in
      if 65 \<le> n \<and> n \<le> 90 then Some (n - 65)
      else if 50 \<le> n \<and> n \<le> 55 then Some (n - 24)
      else None)"

definition b32_group_digits :: "byte list \<Rightarrow> nat list" where
  "b32_group_digits bs = digits 32 8 (undigits 256 (map unat bs))"

definition b32_chars :: "nat \<Rightarrow> nat" where
  "b32_chars k = (if k = 1 then 2 else if k = 2 then 4 else if k = 3 then 5 else if k = 4 then 7 else 8)"

definition b32_bytes :: "nat \<Rightarrow> nat" where
  "b32_bytes d = (if d = 2 then 1 else if d = 4 then 2 else if d = 5 then 3 else if d = 7 then 4 else 5)"

definition b32_encode_group :: "byte list \<Rightarrow> string" where
  "b32_encode_group bs =
     (let k = b32_chars (length bs) in
      map b32_digit (take k (b32_group_digits (bs @ replicate (5 - length bs) 0)))
        @ replicate (8 - k) CHR ''='')"

fun b32_encode :: "byte list \<Rightarrow> string" where
  "b32_encode [] = []"
| "b32_encode (a # b # c # d # e # bs) = b32_encode_group [a, b, c, d, e] @ b32_encode bs"
| "b32_encode bs = b32_encode_group bs"

text \<open>
  One quantum of the decoder: up to eight characters, at position \<open>j\<close> of the quantum. The result
  is the digits read, whether the padding ended the input, and the rest of the input.
\<close>

fun b32_quantum :: "nat list \<Rightarrow> string \<Rightarrow> (nat list \<times> bool \<times> string) result" where
  "b32_quantum ds src =
     (if 8 \<le> length ds then Inr (ds, False, src)
      else case src of
        [] \<Rightarrow> Inl Base32CorruptInput
      | c # rest \<Rightarrow>
          if c = CHR ''='' \<and> 2 \<le> length ds \<and> length rest < 8 then
            if length rest + length ds < 7 \<or> (\<exists>x \<in> set (take (7 - length ds) rest). x \<noteq> CHR ''='')
               \<or> length ds \<in> {3, 6}
            then Inl Base32CorruptInput
            else Inr (ds, True, rest)
          else case from_b32_char c of
            None \<Rightarrow> Inl Base32CorruptInput
          | Some d \<Rightarrow> b32_quantum (ds @ [d]) rest)"

declare b32_quantum.simps [simp del]

definition b32_group_bytes :: "nat list \<Rightarrow> byte list" where
  "b32_group_bytes ds =
     take (b32_bytes (length ds))
       (map word_of_nat (digits 256 5 (undigits 32 (ds @ replicate (8 - length ds) 0))))"

lemma b32_quantum_shorter:
  "b32_quantum ds src = Inr (es, e, rest) \<Longrightarrow> length ds < 8 \<Longrightarrow> length rest < length src"
proof (induction "8 - length ds" arbitrary: ds src)
  case 0
  then show ?case by simp
next
  case (Suc k)
  show ?case
  proof (cases src)
    case Nil
    then show ?thesis using Suc.prems by (simp add: b32_quantum.simps)
  next
    case (Cons c s)
    show ?thesis
    proof (cases "from_b32_char c")
      case None
      then show ?thesis using Suc.prems Cons
        by (auto simp: b32_quantum.simps [of ds "c # s"] split: if_splits)
    next
      case (Some d)
      have "length rest < length src"
        if "b32_quantum (ds @ [d]) s = Inr (es, e, rest)"
      proof (cases "length ds < 7")
        case True
        then show ?thesis using Suc.hyps(1) [of "ds @ [d]" s] Suc.hyps(2) that Cons by fastforce
      next
        case False
        then show ?thesis using that Suc.prems(2) Cons by (simp add: b32_quantum.simps)
      qed
      then show ?thesis using Suc.prems Cons Some
        by (auto simp: b32_quantum.simps [of ds "c # s"] split: if_splits)
    qed
  qed
qed

function b32_decode_quanta :: "string \<Rightarrow> byte list result" where
  "b32_decode_quanta src =
     (if src = [] then Inr []
      else res_bind (b32_quantum [] src) (\<lambda>(ds, fin, rest).
        if fin then Inr (b32_group_bytes ds)
        else res_map ((@) (b32_group_bytes ds)) (b32_decode_quanta rest)))"
  by pat_completeness auto
termination
  by (relation "measure length") (auto dest: b32_quantum_shorter)

declare b32_decode_quanta.simps [simp del]

text \<open>\<open>DecodeString\<close> drops the line breaks first.\<close>

definition b32_decode :: "string \<Rightarrow> byte list result" where
  "b32_decode s = b32_decode_quanta (filter (\<lambda>c. c \<noteq> CHR 0x0D \<and> c \<noteq> CHR 0x0A) s)"

lemma from_b32_digit: "n < 32 \<Longrightarrow> from_b32_char (b32_digit n) = Some n"
  by (auto simp: from_b32_char_def b32_digit_def Let_def)

lemma b32_digit_plain:
  "n < 32 \<Longrightarrow> b32_digit n \<noteq> CHR ''=''"
  "n < 32 \<Longrightarrow> b32_digit n \<noteq> CHR 0x0D"
  "n < 32 \<Longrightarrow> b32_digit n \<noteq> CHR 0x0A"
  by (auto simp: b32_digit_def dest!: arg_cong [where f = "of_char :: char \<Rightarrow> nat"] split: if_splits)

lemma b32_quantum_digits:
  "length ds + length es = 8 \<Longrightarrow> \<forall>d \<in> set es. d < 32 \<Longrightarrow>
     b32_quantum ds (map b32_digit es @ rest) = Inr (ds @ es, False, rest)"
proof (induction es arbitrary: ds)
  case Nil
  then show ?case by (simp add: b32_quantum.simps)
next
  case (Cons e es)
  then show ?case
    by (simp add: b32_quantum.simps [of ds] b32_digit_plain from_b32_digit)
qed

lemma b32_group_digits_range: "\<forall>d \<in> set (b32_group_digits bs). d < 32"
  by (auto simp: b32_group_digits_def dest: digits_less [rotated])

lemma b32_group_roundtrip:
  assumes "length bs = 5"
  shows "b32_group_bytes (b32_group_digits bs) = bs"
proof -
  let ?ns = "map unat bs"
  have less: "d < 256" if "d \<in> set ?ns" for d
    using that unat_bounds(1) by auto
  have "undigits 256 ?ns < 256 ^ 5"
    using undigits_less [of ?ns 256] less assms by simp
  then have "undigits 32 (b32_group_digits bs) = undigits 256 ?ns"
    unfolding b32_group_digits_def by (intro undigits_digits) simp
  moreover have "digits 256 5 (undigits 256 ?ns) = ?ns"
    using digits_undigits [of ?ns 256] less assms by simp
  moreover have "length (b32_group_digits bs) = 8"
    by (simp add: b32_group_digits_def)
  ultimately show ?thesis
    using assms by (simp add: b32_group_bytes_def b32_bytes_def o_def)
qed

lemma b32_encode_group5:
  "length bs = 5 \<Longrightarrow> b32_encode_group bs = map b32_digit (b32_group_digits bs)"
  by (simp add: b32_encode_group_def b32_chars_def b32_group_digits_def)

lemma b32_encode_clean:
  "length bs mod 5 = 0 \<Longrightarrow> filter (\<lambda>c. c \<noteq> CHR 0x0D \<and> c \<noteq> CHR 0x0A) (b32_encode bs) = b32_encode bs"
proof (induction bs rule: b32_encode.induct)
  case (2 a b c d e bs)
  have "filter (\<lambda>c. c \<noteq> CHR 0x0D \<and> c \<noteq> CHR 0x0A) (map b32_digit (b32_group_digits [a, b, c, d, e])) =
      map b32_digit (b32_group_digits [a, b, c, d, e])"
    using b32_group_digits_range by (auto simp: filter_id_conv b32_digit_plain)
  then show ?case using 2 by (simp add: b32_encode_group5)
qed auto

lemma b32_decode_encode:
  assumes "length bs mod 5 = 0"
  shows "b32_decode (b32_encode bs) = Inr bs"
proof -
  have "b32_decode_quanta (b32_encode bs) = Inr bs"
    using assms
  proof (induction bs rule: b32_encode.induct)
    case (2 a b c d e bs)
    let ?g = "b32_group_digits [a, b, c, d, e]"
    have len: "length ?g = 8" by (simp add: b32_group_digits_def)
    have "b32_quantum [] (b32_encode (a # b # c # d # e # bs)) = Inr (?g, False, b32_encode bs)"
      using b32_quantum_digits [of "[]" ?g "b32_encode bs"] len b32_group_digits_range
      by (simp add: b32_encode_group5)
    moreover have "b32_encode (a # b # c # d # e # bs) \<noteq> []"
      using len by (auto simp: b32_encode_group5)
    ultimately show ?case
      using 2 b32_group_roundtrip [of "[a, b, c, d, e]"]
      by (subst b32_decode_quanta.simps) simp
  qed (auto simp: b32_decode_quanta.simps)
  then show ?thesis using assms by (simp add: b32_decode_def b32_encode_clean)
qed

lemma length_b32_encode: "length bs mod 5 = 0 \<Longrightarrow> length (b32_encode bs) = 8 * (length bs div 5)"
  by (induction bs rule: b32_encode.induct) (auto simp: b32_encode_group5 b32_group_digits_def)

section \<open>Decimal printing\<close>

text \<open>\<open>fmt.Sprintf("%d", n)\<close>.\<close>

fun dec_nat :: "nat \<Rightarrow> string" where
  "dec_nat n = (if n < 10 then [char_of (48 + n)] else dec_nat (n div 10) @ [char_of (48 + n mod 10)])"

declare dec_nat.simps [simp del]

definition dec_int :: "int \<Rightarrow> string" where
  "dec_int i = (if i < 0 then CHR ''-'' # dec_nat (nat (- i)) else dec_nat (nat i))"

definition dec_value :: "string \<Rightarrow> nat" where
  "dec_value s = foldl (\<lambda>a c. 10 * a + (of_char c - 48)) 0 s"

lemma dec_value_dec_nat [simp]: "dec_value (dec_nat n) = n"
proof (induction n rule: dec_nat.induct)
  case (1 n)
  show ?case
  proof (cases "n < 10")
    case True
    then show ?thesis by (simp add: dec_nat.simps [of n] dec_value_def)
  next
    case False
    then have "foldl (\<lambda>a c. 10 * a + (of_char c - 48)) 0 (dec_nat (n div 10)) = n div 10"
      using 1 by (simp add: dec_value_def)
    then show ?thesis using False
      by (simp add: dec_nat.simps [of n] dec_value_def)
  qed
qed

lemma dec_nat_inj [simp]: "dec_nat m = dec_nat n \<longleftrightarrow> m = n"
  by (metis dec_value_dec_nat)

end
