(* ===== verification/FbFormat.thy ===== *)
theory FbFormat
  imports Encoding
begin

text \<open>
  The binary format of FlatBuffers, as its documentation describes it, as far as the SDK's buffers
  go: tables with a vtable of 16-bit field offsets, vectors with a 32-bit count, 32-bit forward
  references relative to the place they stand at, all little endian. \<open>fbval\<close> is a value, \<open>fb_at\<close> says
  that a buffer holds a value at a position.
\<close>

section \<open>Values\<close>

text \<open>
  A vector has the width of its elements; a table has its slots in order, \<open>Absent\<close> for a field
  that was not stored because it had its default.
\<close>

datatype fbval = FVec nat "fbfield list" | FTable "fbfield list"
  and fbfield = Absent | Scalar "byte list" | Ref fbval

definition get_u32 :: "byte list \<Rightarrow> nat \<Rightarrow> u32" where
  "get_u32 buf p = word_of_nat (le_nat (take 4 (drop p buf)))"

definition get_u16 :: "byte list \<Rightarrow> nat \<Rightarrow> nat" where
  "get_u16 buf p = le_nat (take 2 (drop p buf))"

text \<open>The vtable of the table at \<open>p\<close>: where it is, and the offset of slot \<open>i\<close> (0 for an absent one).\<close>

definition vtable_at :: "byte list \<Rightarrow> nat \<Rightarrow> nat" where
  "vtable_at buf p = unat (word_of_nat p - get_u32 buf p)"

definition vslot :: "byte list \<Rightarrow> nat \<Rightarrow> nat \<Rightarrow> nat" where
  "vslot buf vt i = (if 4 + 2 * i < get_u16 buf vt then get_u16 buf (vt + 4 + 2 * i) else 0)"

fun fb_at :: "byte list \<Rightarrow> nat \<Rightarrow> fbval \<Rightarrow> bool"
  and field_at :: "byte list \<Rightarrow> nat \<Rightarrow> fbfield \<Rightarrow> bool"
  and elems_at :: "byte list \<Rightarrow> nat \<Rightarrow> nat \<Rightarrow> fbfield list \<Rightarrow> bool"
  and slots_at :: "byte list \<Rightarrow> nat \<Rightarrow> nat \<Rightarrow> nat \<Rightarrow> fbfield list \<Rightarrow> bool"
where
  "fb_at buf p (FVec w fs) \<longleftrightarrow>
     p + 4 \<le> length buf \<and> unat (get_u32 buf p) = length fs \<and> elems_at buf (p + 4) w fs"
| "fb_at buf p (FTable fs) \<longleftrightarrow>
     p + 4 \<le> length buf \<and>
     (let vt = vtable_at buf p in
      vt + 4 \<le> length buf \<and> even (get_u16 buf vt) \<and> vt + get_u16 buf vt \<le> length buf
      \<and> slots_at buf p vt 0 fs)"
| "field_at buf q Absent \<longleftrightarrow> False"
| "field_at buf q (Scalar bs) \<longleftrightarrow> q + length bs \<le> length buf \<and> take (length bs) (drop q buf) = bs"
| "field_at buf q (Ref v) \<longleftrightarrow>
     q + 4 \<le> length buf \<and> q + unat (get_u32 buf q) \<le> length buf \<and> fb_at buf (q + unat (get_u32 buf q)) v"
| "elems_at buf q w [] \<longleftrightarrow> q \<le> length buf"
| "elems_at buf q w (f # fs) \<longleftrightarrow>
     (case f of Absent \<Rightarrow> False | Scalar bs \<Rightarrow> length bs = w | Ref _ \<Rightarrow> w = 4)
     \<and> field_at buf q f \<and> elems_at buf (q + w) w fs"
| "slots_at buf p vt i [] \<longleftrightarrow> True"
| "slots_at buf p vt i (f # fs) \<longleftrightarrow>
     (let off = vslot buf vt i in
      if off = 0 then f = Absent else f \<noteq> Absent \<and> field_at buf (p + off) f)
     \<and> slots_at buf p vt (Suc i) fs"

text \<open>A finished buffer: the position of the root table is its first word.\<close>

definition fb_root :: "byte list \<Rightarrow> fbval \<Rightarrow> bool" where
  "fb_root buf v \<longleftrightarrow> 4 \<le> length buf \<and> fb_at buf (unat (get_u32 buf 0)) v"

lemma slots_at_nth:
  "slots_at buf p vt i fs \<longleftrightarrow>
     (\<forall>j < length fs. let off = vslot buf vt (i + j) in
        if off = 0 then fs ! j = Absent else fs ! j \<noteq> Absent \<and> field_at buf (p + off) (fs ! j))"
  by (induction fs arbitrary: i) (auto simp: All_less_Suc2 Let_def simp del: field_at.simps)

lemma elems_at_nth:
  "elems_at buf q w fs \<Longrightarrow> j < length fs \<Longrightarrow>
     field_at buf (q + j * w) (fs ! j) \<and>
     (case fs ! j of Absent \<Rightarrow> False | Scalar bs \<Rightarrow> length bs = w | Ref _ \<Rightarrow> w = 4)"
proof (induction fs arbitrary: q j)
  case (Cons f fs)
  show ?case
  proof (cases j)
    case (Suc k)
    then show ?thesis
      using Cons.IH [of "q + w" k] Cons.prems by (simp add: add.assoc del: field_at.simps)
  qed (use Cons.prems in simp)
qed simp

section \<open>Frame\<close>

text \<open>What a buffer holds it still holds, further on, when bytes are put in front of it.\<close>

lemma get_append [simp]:
  "get_u32 (pre @ buf) (length pre + p) = get_u32 buf p"
  "get_u16 (pre @ buf) (length pre + p) = get_u16 buf p"
  by (simp_all add: get_u32_def get_u16_def)

lemma get_u32_mid: "length pre = p \<Longrightarrow> get_u32 (pre @ le32 x @ post) p = x"
  by (simp add: get_u32_def)

lemma get_u16_mid: "length pre = p \<Longrightarrow> get_u16 (pre @ le16 x @ post) p = unat x"
  by (simp add: get_u16_def)

lemma vslot_append [simp]: "vslot (pre @ buf) (length pre + vt) i = vslot buf vt i"
  using get_append(2) [of pre buf "vt + 4 + 2 * i"]
  by (simp add: vslot_def add.assoc)

lemma vtable_at_append:
  assumes "length (pre @ buf) < 4294967296" "vtable_at buf p \<le> length buf"
  shows "vtable_at (pre @ buf) (length pre + p) = length pre + vtable_at buf p"
proof -
  let ?d = "word_of_nat p - get_u32 buf p :: u32"
  have "word_of_nat (length pre + p) - get_u32 buf p = word_of_nat (length pre + unat ?d)"
    by simp
  moreover have "unat (word_of_nat (length pre + unat ?d) :: u32) = length pre + unat ?d"
    by (rule unat_word_of_nat(3)) (use assms in \<open>simp add: vtable_at_def\<close>)
  ultimately show ?thesis
    by (simp only: vtable_at_def get_append)
qed

lemma fb_at_append:
  "fb_at buf p v \<Longrightarrow> length (pre @ buf) < 4294967296 \<Longrightarrow> fb_at (pre @ buf) (length pre + p) v"
  "field_at buf q f \<Longrightarrow> length (pre @ buf) < 4294967296 \<Longrightarrow> field_at (pre @ buf) (length pre + q) f"
  "elems_at buf q w fs \<Longrightarrow> length (pre @ buf) < 4294967296 \<Longrightarrow> elems_at (pre @ buf) (length pre + q) w fs"
  "slots_at buf p vt i fs \<Longrightarrow> length (pre @ buf) < 4294967296 \<Longrightarrow>
     slots_at (pre @ buf) (length pre + p) (length pre + vt) i fs"
proof (induction buf p v and buf q f and buf q w fs and buf p vt i fs
    rule: fb_at_field_at_elems_at_slots_at.induct)
  case (2 buf p fs)
  have "vtable_at (pre @ buf) (length pre + p) = length pre + vtable_at buf p"
    using 2(2,3) by (intro vtable_at_append) (simp_all add: Let_def)
  then show ?case using 2 by (simp add: Let_def add.assoc)
next
  case (5 buf q v)
  then show ?case by (simp add: add.assoc)
next
  case (9 buf p vt i f fs)
  then show ?case by (auto simp: Let_def add.assoc split: if_splits)
qed (auto simp: add.assoc split: fbfield.splits)

end
