(* ===== verification/FbBuilder.thy ===== *)
theory FbBuilder
  imports FbFormat
begin

text \<open>
  The builder of \<open>github.com/google/flatbuffers/go\<close> is not in the repository: its methods are the
  fields of the record \<open>fb_api\<close>, an argument of the definitions that call them. The locale
  \<open>flatbuffers\<close> is the interface the SDK relies on: a relation \<open>R\<close> between a builder and a ghost state
  that says which values have been written at which offsets, and one law per method for the
  protocol its documentation asks for (vectors and tables are not nested, elements are prepended
  last to first, a field equal to its default is not stored, an object's offset is fresh and not
  zero, the finished buffer holds the root object in the documented format).

  Go code that uses a builder is a function from builders to results with a builder: the type
  \<open>fb_prog\<close>, with \<open>fb_bind\<close> for sequencing. \<open>fb_wp\<close> states what such a program does from a given
  builder, its error returns included, and \<open>fbinv\<close> is the assertion about builders the proofs carry.
\<close>

record 'b fb_api =
  fb_NewBuilder :: "nat \<Rightarrow> 'b"
  fb_StartVector :: "nat \<Rightarrow> nat \<Rightarrow> nat \<Rightarrow> 'b \<Rightarrow> 'b"
  fb_PrependByte :: "byte \<Rightarrow> 'b \<Rightarrow> 'b"
  fb_PrependUint32 :: "u32 \<Rightarrow> 'b \<Rightarrow> 'b"
  fb_PrependUOffsetT :: "u32 \<Rightarrow> 'b \<Rightarrow> 'b"
  fb_EndVector :: "nat \<Rightarrow> 'b \<Rightarrow> u32 \<times> 'b"
  fb_CreateString :: "string \<Rightarrow> 'b \<Rightarrow> u32 \<times> 'b"
  fb_StartObject :: "nat \<Rightarrow> 'b \<Rightarrow> 'b"
  fb_PrependByteSlot :: "nat \<Rightarrow> byte \<Rightarrow> byte \<Rightarrow> 'b \<Rightarrow> 'b"
  fb_PrependInt8Slot :: "nat \<Rightarrow> 8 word \<Rightarrow> 8 word \<Rightarrow> 'b \<Rightarrow> 'b"
  fb_PrependUint16Slot :: "nat \<Rightarrow> u16 \<Rightarrow> u16 \<Rightarrow> 'b \<Rightarrow> 'b"
  fb_PrependUint32Slot :: "nat \<Rightarrow> u32 \<Rightarrow> u32 \<Rightarrow> 'b \<Rightarrow> 'b"
  fb_PrependUOffsetTSlot :: "nat \<Rightarrow> u32 \<Rightarrow> u32 \<Rightarrow> 'b \<Rightarrow> 'b"
  fb_EndObject :: "'b \<Rightarrow> u32 \<times> 'b"
  fb_Finish :: "u32 \<Rightarrow> 'b \<Rightarrow> 'b"
  fb_FinishedBytes :: "'b \<Rightarrow> byte list"

section \<open>The ghost state and the laws\<close>

text \<open>
  \<open>Idle off\<close>: between objects, the last one finished being at \<open>off\<close>; \<open>InVec w n fs\<close>: inside a vector of
  \<open>n\<close> elements of \<open>w\<close> bytes, of which the last ones, \<open>fs\<close>, are written; \<open>InTable fs\<close>: inside a table.
  \<open>st_used\<close> is an upper bound of the bytes written, with alignment.
\<close>

datatype fbmode = Idle u32 | InVec nat nat "fbfield list" | InTable "fbfield list"

record fbstate =
  st_mode :: fbmode
  st_vals :: "u32 \<Rightarrow> fbval option"
  st_used :: nat

text \<open>The builder panics at two gigabytes; the laws promise nothing beyond this bound.\<close>

definition fb_limit :: nat where
  "fb_limit = 2 ^ 28"

definition stored :: "u32 \<Rightarrow> fbval \<Rightarrow> fbstate \<Rightarrow> fbstate" where
  "stored off v s = s\<lparr>st_mode := Idle off, st_vals := (st_vals s)(off \<mapsto> v)\<rparr>"

text \<open>The object \<open>v\<close> was written at a new offset, the first component of \<open>r\<close>.\<close>

definition new_object :: "('b \<Rightarrow> fbstate \<Rightarrow> bool) \<Rightarrow> fbstate \<Rightarrow> fbval \<Rightarrow> u32 \<times> 'b \<Rightarrow> bool" where
  "new_object R s v r \<longleftrightarrow> fst r \<noteq> 0 \<and> st_vals s (fst r) = None \<and> R (snd r) (stored (fst r) v s)"

definition string_vec :: "string \<Rightarrow> fbval" where
  "string_vec t = FVec 1 (map (\<lambda>c. Scalar [of_char c]) t)"

locale flatbuffers =
  fixes F :: "'b fb_api"
    and R :: "'b \<Rightarrow> fbstate \<Rightarrow> bool"
  assumes NewBuilder: "R (fb_NewBuilder F 0) \<lparr>st_mode = Idle 0, st_vals = (\<lambda>_. None), st_used = 0\<rparr>"
    and StartVector:
      "\<lbrakk>R b s; st_mode s = Idle l; 0 < w\<rbrakk> \<Longrightarrow>
        R (fb_StartVector F w n w b) (s\<lparr>st_mode := InVec w n [], st_used := st_used s + 16 + w * n\<rparr>)"
    and PrependByte:
      "\<lbrakk>R b s; st_mode s = InVec 1 n fs; length fs < n\<rbrakk> \<Longrightarrow>
        R (fb_PrependByte F x b) (s\<lparr>st_mode := InVec 1 n (Scalar [x] # fs)\<rparr>)"
    and PrependUint32:
      "\<lbrakk>R b s; st_mode s = InVec 4 n fs; length fs < n\<rbrakk> \<Longrightarrow>
        R (fb_PrependUint32 F y b) (s\<lparr>st_mode := InVec 4 n (Scalar (le32 y) # fs)\<rparr>)"
    and PrependUOffsetT:
      "\<lbrakk>R b s; st_mode s = InVec 4 n fs; length fs < n; st_vals s off = Some v\<rbrakk> \<Longrightarrow>
        R (fb_PrependUOffsetT F off b) (s\<lparr>st_mode := InVec 4 n (Ref v # fs)\<rparr>)"
    and EndVector:
      "\<lbrakk>R b s; st_mode s = InVec w n fs; length fs = n; st_used s \<le> fb_limit\<rbrakk> \<Longrightarrow>
        new_object R s (FVec w fs) (fb_EndVector F n b)"
    and CreateString:
      "\<lbrakk>R b s; st_mode s = Idle l; s' = s\<lparr>st_used := st_used s + 20 + length t\<rparr>; st_used s' \<le> fb_limit\<rbrakk> \<Longrightarrow>
        new_object R s' (string_vec t) (fb_CreateString F t b)"
    and StartObject:
      "\<lbrakk>R b s; st_mode s = Idle l; n \<le> 100\<rbrakk> \<Longrightarrow>
        R (fb_StartObject F n b)
          (s\<lparr>st_mode := InTable (replicate n Absent), st_used := st_used s + 24 + 12 * n\<rparr>)"
    and PrependByteSlot:
      "\<lbrakk>R b s; st_mode s = InTable fs; i < length fs; fs ! i = Absent\<rbrakk> \<Longrightarrow>
        R (fb_PrependByteSlot F i x 0 b)
          (s\<lparr>st_mode := InTable (fs[i := if x = 0 then Absent else Scalar [x]])\<rparr>)"
    and PrependInt8Slot:
      "\<lbrakk>R b s; st_mode s = InTable fs; i < length fs; fs ! i = Absent\<rbrakk> \<Longrightarrow>
        R (fb_PrependInt8Slot F i x 0 b)
          (s\<lparr>st_mode := InTable (fs[i := if x = 0 then Absent else Scalar [x]])\<rparr>)"
    and PrependUint16Slot:
      "\<lbrakk>R b s; st_mode s = InTable fs; i < length fs; fs ! i = Absent\<rbrakk> \<Longrightarrow>
        R (fb_PrependUint16Slot F i h 0 b)
          (s\<lparr>st_mode := InTable (fs[i := if h = 0 then Absent else Scalar (le16 h)])\<rparr>)"
    and PrependUint32Slot:
      "\<lbrakk>R b s; st_mode s = InTable fs; i < length fs; fs ! i = Absent\<rbrakk> \<Longrightarrow>
        R (fb_PrependUint32Slot F i y 0 b)
          (s\<lparr>st_mode := InTable (fs[i := if y = 0 then Absent else Scalar (le32 y)])\<rparr>)"
    and PrependUOffsetTSlot:
      "\<lbrakk>R b s; st_mode s = InTable fs; i < length fs; fs ! i = Absent; st_vals s off = Some v; off \<noteq> 0\<rbrakk> \<Longrightarrow>
        R (fb_PrependUOffsetTSlot F i off 0 b) (s\<lparr>st_mode := InTable (fs[i := Ref v])\<rparr>)"
    and EndObject:
      "\<lbrakk>R b s; st_mode s = InTable fs; st_used s \<le> fb_limit\<rbrakk> \<Longrightarrow>
        new_object R s (FTable fs) (fb_EndObject F b)"
    and Finish:
      "\<lbrakk>R b s; st_mode s = Idle off; st_vals s off = Some (FTable fs); length fs \<le> 100; st_used s \<le> fb_limit\<rbrakk> \<Longrightarrow>
        fb_root (fb_FinishedBytes F (fb_Finish F off b)) (FTable fs)
        \<and> length (fb_FinishedBytes F (fb_Finish F off b)) < 2 ^ 31
        \<and> get_u32 (fb_FinishedBytes F (fb_Finish F off b)) 0 < 256"

section \<open>Programs with a builder\<close>

type_synonym ('b, 'a) fb_prog = "'b \<Rightarrow> ('a \<times> 'b) result"

definition fb_return :: "'a \<Rightarrow> ('b, 'a) fb_prog" where
  "fb_return x b = Inr (x, b)"

definition fb_bind :: "('b, 'a) fb_prog \<Rightarrow> ('a \<Rightarrow> ('b, 'c) fb_prog) \<Rightarrow> ('b, 'c) fb_prog" where
  "fb_bind m f b = res_bind (m b) (\<lambda>(x, b'). f x b')"

definition fb_then :: "('b, unit) fb_prog \<Rightarrow> ('b, 'c) fb_prog \<Rightarrow> ('b, 'c) fb_prog" where
  "fb_then m k = fb_bind m (\<lambda>_. k)"

text \<open>A call that does not touch the builder: its error is returned.\<close>

definition fb_lift :: "'a result \<Rightarrow> ('b, 'a) fb_prog" where
  "fb_lift r b = res_map (\<lambda>x. (x, b)) r"

definition fb_do :: "('b \<Rightarrow> 'b) \<Rightarrow> ('b, unit) fb_prog" where
  "fb_do f b = Inr ((), f b)"

definition fb_call :: "('b \<Rightarrow> 'a \<times> 'b) \<Rightarrow> ('b, 'a) fb_prog" where
  "fb_call f b = Inr (f b)"

definition fb_read :: "('b \<Rightarrow> 'a result) \<Rightarrow> ('b, 'a) fb_prog" where
  "fb_read f b = res_map (\<lambda>x. (x, b)) (f b)"

text \<open>\<open>for i, x := range xs { ys[i] = f(x) }\<close>, and a loop without results.\<close>

fun fb_mapM :: "('a \<Rightarrow> ('b, 'c) fb_prog) \<Rightarrow> 'a list \<Rightarrow> ('b, 'c list) fb_prog" where
  "fb_mapM f [] = fb_return []"
| "fb_mapM f (x # xs) = fb_bind (f x) (\<lambda>y. fb_bind (fb_mapM f xs) (\<lambda>ys. fb_return (y # ys)))"

fun fb_for :: "('a \<Rightarrow> ('b, unit) fb_prog) \<Rightarrow> 'a list \<Rightarrow> ('b, unit) fb_prog" where
  "fb_for f [] = fb_return ()"
| "fb_for f (x # xs) = fb_then (f x) (fb_for f xs)"

text \<open>\<open>builder := flatbuffers.NewBuilder(0)\<close>, and the program's result.\<close>

definition fb_run :: "'b fb_api \<Rightarrow> ('b, 'a) fb_prog \<Rightarrow> 'a result" where
  "fb_run F m = res_map fst (m (fb_NewBuilder F 0))"

definition fb_wp ::
  "('b, 'a) fb_prog \<Rightarrow> ('a \<Rightarrow> 'b \<Rightarrow> bool) \<Rightarrow> (go_error \<Rightarrow> bool) \<Rightarrow> 'b \<Rightarrow> bool" where
  "fb_wp m Q E b = (case m b of Inl e \<Rightarrow> E e | Inr (x, b') \<Rightarrow> Q x b')"

named_theorems fb_rules \<open>how a step of a builder program establishes its postcondition\<close>

lemma fb_wp_return: "Q x b \<Longrightarrow> fb_wp (fb_return x) Q E b"
  by (simp add: fb_wp_def fb_return_def)

lemma fb_wp_bind: "fb_wp m (\<lambda>x. fb_wp (f x) Q E) E b \<Longrightarrow> fb_wp (fb_bind m f) Q E b"
  by (auto simp: fb_wp_def fb_bind_def split: sum.splits)

lemma fb_wp_then: "fb_wp m (\<lambda>_. fb_wp k Q E) E b \<Longrightarrow> fb_wp (fb_then m k) Q E b"
  unfolding fb_then_def by (rule fb_wp_bind)

lemma fb_wp_lift:
  "(\<And>e. r = Inl e \<Longrightarrow> E e) \<Longrightarrow> (\<And>x. r = Inr x \<Longrightarrow> Q x b) \<Longrightarrow> fb_wp (fb_lift r) Q E b"
  by (cases r) (simp_all add: fb_wp_def fb_lift_def)

lemma fb_wp_mono:
  "fb_wp m Q E b \<Longrightarrow> (\<And>x b'. Q x b' \<Longrightarrow> Q' x b') \<Longrightarrow> (\<And>e. E e \<Longrightarrow> E' e) \<Longrightarrow> fb_wp m Q' E' b"
  by (auto simp: fb_wp_def split: sum.splits)

lemma fb_wp_run:
  "fb_wp m (\<lambda>x _. r = Inr x) (\<lambda>e. r = Inl e) (fb_NewBuilder F 0) \<Longrightarrow> fb_run F m = r"
  by (auto simp: fb_wp_def fb_run_def split: sum.splits)

text \<open>
  The assertion: as long as at most \<open>u\<close> bytes, with \<open>u\<close> within the limit, the builder is in mode \<open>m\<close> and
  the offsets of \<open>K\<close> hold the values \<open>K\<close> says.
\<close>

definition knows :: "fbstate \<Rightarrow> (u32 \<times> fbval) list \<Rightarrow> bool" where
  "knows s K \<longleftrightarrow> (\<forall>off v. (off, v) \<in> set K \<longrightarrow> off \<noteq> 0 \<and> st_vals s off = Some v)"

definition fbinv :: "('b \<Rightarrow> fbstate \<Rightarrow> bool) \<Rightarrow> 'b \<Rightarrow> fbmode \<Rightarrow> (u32 \<times> fbval) list \<Rightarrow> nat \<Rightarrow> bool" where
  "fbinv R b m K u \<longleftrightarrow>
     (u \<le> fb_limit \<longrightarrow> (\<exists>s. R b s \<and> st_mode s = m \<and> st_used s \<le> u \<and> knows s K))"

lemma knowsD: "knows s K \<Longrightarrow> (off, v) \<in> set K \<Longrightarrow> off \<noteq> 0 \<and> st_vals s off = Some v"
  by (auto simp: knows_def)

lemma knows_mono: "knows s K \<Longrightarrow> set K' \<subseteq> set K \<Longrightarrow> knows s K'"
  by (auto simp: knows_def)

lemma knows_vals: "knows s K \<Longrightarrow> st_vals s' = st_vals s \<Longrightarrow> knows s' K"
  by (auto simp: knows_def)

lemma knows_stored:
  "knows s K \<Longrightarrow> st_vals s off = None \<Longrightarrow> off \<noteq> 0 \<Longrightarrow> knows (stored off v s) ((off, v) # K)"
  by (auto simp: knows_def stored_def)

lemma fbinv_weaken: "fbinv R b m K u \<Longrightarrow> set K' \<subseteq> set K \<Longrightarrow> u \<le> u' \<Longrightarrow> fbinv R b m K' u'"
proof (unfold fbinv_def, intro impI)
  assume "u \<le> fb_limit \<longrightarrow> (\<exists>s. R b s \<and> st_mode s = m \<and> st_used s \<le> u \<and> knows s K)"
    and sub: "set K' \<subseteq> set K" and le: "u \<le> u'" "u' \<le> fb_limit"
  then obtain s where s: "R b s" "st_mode s = m" "st_used s \<le> u" "knows s K" by auto
  from s(4) sub have "knows s K'" by (rule knows_mono)
  with s le show "\<exists>s. R b s \<and> st_mode s = m \<and> st_used s \<le> u' \<and> knows s K'" by auto
qed

lemma fbinv_new_object:
  assumes "fbinv R b m K u"
    and "\<And>s. R b s \<Longrightarrow> st_mode s = m \<Longrightarrow> st_used s \<le> u \<Longrightarrow> u + c \<le> fb_limit \<Longrightarrow>
      \<exists>s'. st_vals s' = st_vals s \<and> st_used s' \<le> u + c \<and> new_object R s' v r"
  shows "fbinv R (snd r) (Idle (fst r)) ((fst r, v) # K) (u + c)"
  unfolding fbinv_def
proof
  assume lim: "u + c \<le> fb_limit"
  then obtain s where s: "R b s" "st_mode s = m" "st_used s \<le> u" "knows s K"
    using assms(1) by (auto simp: fbinv_def)
  then obtain s' where s': "st_vals s' = st_vals s" "st_used s' \<le> u + c" "new_object R s' v r"
    using assms(2) lim by blast
  then have n: "R (snd r) (stored (fst r) v s')" "fst r \<noteq> 0" "st_vals s' (fst r) = None"
    by (auto simp: new_object_def)
  have "knows (stored (fst r) v s') ((fst r, v) # K)"
    by (rule knows_stored [OF knows_vals [OF s(4) s'(1)] n(3,2)])
  then show "\<exists>s. R (snd r) s \<and> st_mode s = Idle (fst r) \<and> st_used s \<le> u + c \<and> knows s ((fst r, v) # K)"
    using n(1) s'(2) by (intro exI [of _ "stored (fst r) v s'"]) (simp add: stored_def)
qed

lemma fbinv_step:
  assumes "fbinv R b m K u"
    and "\<And>s. R b s \<Longrightarrow> st_mode s = m \<Longrightarrow> knows s K \<Longrightarrow>
      \<exists>s'. R b' s' \<and> st_mode s' = m' \<and> st_vals s' = st_vals s \<and> st_used s' \<le> st_used s + c"
  shows "fbinv R b' m' K (u + c)"
  unfolding fbinv_def
proof
  assume "u + c \<le> fb_limit"
  then obtain s where s: "R b s" "st_mode s = m" "st_used s \<le> u" "knows s K"
    using assms(1) by (auto simp: fbinv_def)
  with assms(2) obtain s' where "R b' s'" "st_mode s' = m'" "st_vals s' = st_vals s" "st_used s' \<le> st_used s + c"
    by blast
  then show "\<exists>s. R b' s \<and> st_mode s = m' \<and> st_used s \<le> u + c \<and> knows s K"
    using s knows_vals by (intro exI [of _ s']) auto
qed

text \<open>The value of a slot: a scalar equal to its default is not stored.\<close>

definition sc8 :: "byte \<Rightarrow> fbfield" where
  "sc8 x = (if x = 0 then Absent else Scalar [x])"

definition sc16 :: "u16 \<Rightarrow> fbfield" where
  "sc16 x = (if x = 0 then Absent else Scalar (le16 x))"

definition sc32 :: "u32 \<Rightarrow> fbfield" where
  "sc32 x = (if x = 0 then Absent else Scalar (le32 x))"

definition byte_vec :: "byte list \<Rightarrow> fbval" where
  "byte_vec bs = FVec 1 (map (\<lambda>b. Scalar [b]) bs)"

definition word_vec :: "u32 list \<Rightarrow> fbval" where
  "word_vec ws = FVec 4 (map (\<lambda>w. Scalar (le32 w)) ws)"

definition ref_vec :: "fbval list \<Rightarrow> fbval" where
  "ref_vec vs = FVec 4 (map Ref vs)"

lemma string_vec_eq: "string_vec t = byte_vec (string_bytes t)"
  by (simp add: string_vec_def byte_vec_def string_bytes_def)

definition cost_vec :: "nat \<Rightarrow> nat \<Rightarrow> nat" where
  "cost_vec w n = 16 + w * n"

definition cost_table :: "nat \<Rightarrow> nat" where
  "cost_table n = 24 + 12 * n"

lemma for_down:
  assumes step: "\<And>i b. i < n \<Longrightarrow> I (Suc i) b \<Longrightarrow> fb_wp (f i) (\<lambda>_. I i) E b"
    and "I k b" "k \<le> n" "\<And>b. I 0 b \<Longrightarrow> Q () b"
  shows "fb_wp (fb_for f (rev [0..<k])) Q E b"
  using assms(2,3)
proof (induction k arbitrary: b)
  case 0
  then show ?case using assms(4) by (simp add: fb_wp_return)
next
  case (Suc k)
  have "fb_wp (f k) (\<lambda>_. I k) E b" using step Suc.prems by simp
  then have "fb_wp (f k) (\<lambda>_. fb_wp (fb_for f (rev [0..<k])) Q E) E b"
    by (rule fb_wp_mono) (use Suc in auto)
  then show ?case by (simp add: fb_wp_then)
qed

context flatbuffers
begin

lemma fbinv_NewBuilder: "fbinv R (fb_NewBuilder F 0) (Idle 0) [] 0"
  unfolding fbinv_def by (intro impI exI conjI, rule NewBuilder) (simp_all add: knows_def)

lemma fbinv_StartVector:
  assumes "fbinv R b (Idle l) K u" "0 < w"
  shows "fbinv R (fb_StartVector F w n w b) (InVec w n []) K (u + cost_vec w n)"
  using assms(1)
  by (rule fbinv_step) (use StartVector [OF _ _ assms(2)] in \<open>fastforce simp: cost_vec_def\<close>)

lemma fbinv_PrependByte:
  assumes "fbinv R b (InVec 1 n fs) K u" "length fs < n"
  shows "fbinv R (fb_PrependByte F x b) (InVec 1 n (Scalar [x] # fs)) K u"
  using fbinv_step [OF assms(1), where c = 0 and b' = "fb_PrependByte F x b"
      and m' = "InVec 1 n (Scalar [x] # fs)"] PrependByte [OF _ _ assms(2)]
  by fastforce

lemma fbinv_PrependUint32:
  assumes "fbinv R b (InVec 4 n fs) K u" "length fs < n"
  shows "fbinv R (fb_PrependUint32 F x b) (InVec 4 n (Scalar (le32 x) # fs)) K u"
  using fbinv_step [OF assms(1), where c = 0 and b' = "fb_PrependUint32 F x b"
      and m' = "InVec 4 n (Scalar (le32 x) # fs)"] PrependUint32 [OF _ _ assms(2)]
  by fastforce

lemma fbinv_PrependUOffsetT:
  assumes "fbinv R b (InVec 4 n fs) K u" "length fs < n" "(off, v) \<in> set K"
  shows "fbinv R (fb_PrependUOffsetT F off b) (InVec 4 n (Ref v # fs)) K u"
  using fbinv_step [OF assms(1), where c = 0 and b' = "fb_PrependUOffsetT F off b"
      and m' = "InVec 4 n (Ref v # fs)"] PrependUOffsetT [OF _ _ assms(2)] knowsD [OF _ assms(3)]
  by fastforce

lemma fbinv_EndVector:
  assumes "fbinv R b (InVec w n fs) K u" "length fs = n" "fb_EndVector F n b = (off, b')"
  shows "fbinv R b' (Idle off) ((off, FVec w fs) # K) u"
  using fbinv_new_object [OF assms(1), where c = 0 and r = "(off, b')" and v = "FVec w fs"]
    EndVector [OF _ _ assms(2)] assms(3)
  by fastforce

lemma fbinv_CreateString:
  assumes "fbinv R b (Idle l) K u" "fb_CreateString F t b = (off, b')"
  shows "fbinv R b' (Idle off) ((off, string_vec t) # K) (u + (20 + length t))"
proof -
  have "\<exists>s'. st_vals s' = st_vals s \<and> st_used s' \<le> u + (20 + length t) \<and>
      new_object R s' (string_vec t) (off, b')"
    if "R b s" "st_mode s = Idle l" "st_used s \<le> u" "u + (20 + length t) \<le> fb_limit" for s
    using CreateString [OF that(1,2) refl, of t] that(3,4) assms(2)
    by (intro exI [of _ "s\<lparr>st_used := st_used s + 20 + length t\<rparr>"]) simp
  from fbinv_new_object [OF assms(1) this] show ?thesis by simp
qed

lemma fbinv_StartObject:
  assumes "fbinv R b (Idle l) K u" "n \<le> 100"
  shows "fbinv R (fb_StartObject F n b) (InTable (replicate n Absent)) K (u + cost_table n)"
  using assms(1)
  by (rule fbinv_step) (use StartObject [OF _ _ assms(2)] in \<open>fastforce simp: cost_table_def\<close>)

lemma fbinv_EndObject:
  assumes "fbinv R b (InTable fs) K u" "fb_EndObject F b = (off, b')"
  shows "fbinv R b' (Idle off) ((off, FTable fs) # K) u"
  using fbinv_new_object [OF assms(1), where c = 0 and r = "(off, b')" and v = "FTable fs"] EndObject assms(2)
  by fastforce

text \<open>The slots of a table.\<close>

lemma fbinv_slot:
  assumes "fbinv R b (InTable fs) K u" "i < length fs" "fs ! i = Absent"
    and "\<And>s. R b s \<Longrightarrow> st_mode s = InTable fs \<Longrightarrow> knows s K \<Longrightarrow> R b' (s\<lparr>st_mode := InTable (fs[i := f])\<rparr>)"
  shows "fbinv R b' (InTable (fs[i := f])) K u"
  using fbinv_step [OF assms(1), where c = 0 and b' = b' and m' = "InTable (fs[i := f])"] assms(4)
  by fastforce

lemmas fbinv_slots =
  fbinv_slot [where f = "sc8 x" for x, OF _ _ _ PrependByteSlot [folded sc8_def]]
  fbinv_slot [where f = "sc8 x" for x, OF _ _ _ PrependInt8Slot [folded sc8_def]]
  fbinv_slot [where f = "sc16 x" for x, OF _ _ _ PrependUint16Slot [folded sc16_def]]
  fbinv_slot [where f = "sc32 x" for x, OF _ _ _ PrependUint32Slot [folded sc32_def]]

lemma wp_do:
  "fbinv R (f b) m K u \<Longrightarrow> (\<And>b'. fbinv R b' m K u \<Longrightarrow> Q () b') \<Longrightarrow> fb_wp (fb_do f) Q E b"
  by (simp add: fb_wp_def fb_do_def)

lemma wp_ByteSlot [fb_rules]:
  "\<lbrakk>fbinv R b (InTable fs) K u; i < length fs; fs ! i = Absent;
    \<And>b'. fbinv R b' (InTable (fs[i := sc8 x])) K u \<Longrightarrow> Q () b'\<rbrakk>
   \<Longrightarrow> fb_wp (fb_do (fb_PrependByteSlot F i x 0)) Q E b"
  by (rule wp_do) (rule fbinv_slots(1))

lemma wp_Int8Slot [fb_rules]:
  "\<lbrakk>fbinv R b (InTable fs) K u; i < length fs; fs ! i = Absent;
    \<And>b'. fbinv R b' (InTable (fs[i := sc8 x])) K u \<Longrightarrow> Q () b'\<rbrakk>
   \<Longrightarrow> fb_wp (fb_do (fb_PrependInt8Slot F i x 0)) Q E b"
  by (rule wp_do) (rule fbinv_slots(2))

lemma wp_Uint16Slot [fb_rules]:
  "\<lbrakk>fbinv R b (InTable fs) K u; i < length fs; fs ! i = Absent;
    \<And>b'. fbinv R b' (InTable (fs[i := sc16 h])) K u \<Longrightarrow> Q () b'\<rbrakk>
   \<Longrightarrow> fb_wp (fb_do (fb_PrependUint16Slot F i h 0)) Q E b"
  by (rule wp_do) (rule fbinv_slots(3))

lemma wp_Uint32Slot [fb_rules]:
  "\<lbrakk>fbinv R b (InTable fs) K u; i < length fs; fs ! i = Absent;
    \<And>b'. fbinv R b' (InTable (fs[i := sc32 y])) K u \<Longrightarrow> Q () b'\<rbrakk>
   \<Longrightarrow> fb_wp (fb_do (fb_PrependUint32Slot F i y 0)) Q E b"
  by (rule wp_do) (rule fbinv_slots(4))

lemma wp_UOffsetTSlot [fb_rules]:
  assumes "fbinv R b (InTable fs) K u" "i < length fs" "fs ! i = Absent" "(off, v) \<in> set K"
    and "\<And>b'. fbinv R b' (InTable (fs[i := Ref v])) K u \<Longrightarrow> Q () b'"
  shows "fb_wp (fb_do (fb_PrependUOffsetTSlot F i off 0)) Q E b"
proof (rule wp_do)
  show "fbinv R (fb_PrependUOffsetTSlot F i off 0 b) (InTable (fs[i := Ref v])) K u"
    by (rule fbinv_slot [OF assms(1-3)])
      (use PrependUOffsetTSlot [OF _ _ assms(2,3)] knowsD [OF _ assms(4)] in blast)
qed (rule assms(5))

lemma wp_StartObject [fb_rules]:
  "\<lbrakk>fbinv R b (Idle l) K u; n \<le> 100;
    \<And>b'. fbinv R b' (InTable (replicate n Absent)) K (u + cost_table n) \<Longrightarrow> Q () b'\<rbrakk>
   \<Longrightarrow> fb_wp (fb_do (fb_StartObject F n)) Q E b"
  by (rule wp_do) (rule fbinv_StartObject)

lemma wp_EndObject [fb_rules]:
  "\<lbrakk>fbinv R b (InTable fs) K u;
    \<And>off b'. fbinv R b' (Idle off) ((off, FTable fs) # K) u \<Longrightarrow> Q off b'\<rbrakk>
   \<Longrightarrow> fb_wp (fb_call (fb_EndObject F)) Q E b"
  using fbinv_EndObject by (auto simp: fb_wp_def fb_call_def split: prod.splits)

lemma wp_CreateString [fb_rules]:
  "\<lbrakk>fbinv R b (Idle l) K u;
    \<And>off b'. fbinv R b' (Idle off) ((off, string_vec t) # K) (u + (20 + length t)) \<Longrightarrow> Q off b'\<rbrakk>
   \<Longrightarrow> fb_wp (fb_call (fb_CreateString F t)) Q E b"
  using fbinv_CreateString by (auto simp: fb_wp_def fb_call_def split: prod.splits)

lemma wp_EndVector:
  "\<lbrakk>fbinv R b (InVec w n fs) K u; length fs = n;
    \<And>off b'. fbinv R b' (Idle off) ((off, FVec w fs) # K) u \<Longrightarrow> Q off b'\<rbrakk>
   \<Longrightarrow> fb_wp (fb_call (fb_EndVector F n)) Q E b"
  using fbinv_EndVector by (auto simp: fb_wp_def fb_call_def split: prod.splits)

text \<open>
  A vector written from its last element to its first by a loop over the indices, whose step \<open>f i\<close>
  prepends \<open>g i\<close>.
\<close>

lemma wp_vector:
  assumes "fbinv R b (Idle l) K u" "0 < w"
    and step: "\<And>i b fs. i < n \<Longrightarrow> length fs < n \<Longrightarrow> fbinv R b (InVec w n fs) K (u + cost_vec w n) \<Longrightarrow>
      fb_wp (f i) (\<lambda>_ b'. fbinv R b' (InVec w n (g i # fs)) K (u + cost_vec w n)) E b"
    and post: "\<And>off b'. fbinv R b' (Idle off) ((off, FVec w (map g [0..<n])) # K) (u + cost_vec w n) \<Longrightarrow> Q off b'"
  shows "fb_wp (fb_then (fb_do (fb_StartVector F w n w))
      (fb_then (fb_for f (rev [0..<n])) (fb_call (fb_EndVector F n)))) Q E b"
proof (rule fb_wp_then, rule wp_do, rule fbinv_StartVector [OF assms(1,2)], rule fb_wp_then)
  fix b'
  assume b': "fbinv R b' (InVec w n []) K (u + cost_vec w n)"
  let ?I = "\<lambda>k b. fbinv R b (InVec w n (map g [k..<n])) K (u + cost_vec w n)"
  show "fb_wp (fb_for f (rev [0..<n])) (\<lambda>_. fb_wp (fb_call (fb_EndVector F n)) Q E) E b'"
  proof (rule for_down [where I = ?I and n = n])
    show "fb_wp (f i) (\<lambda>_. ?I i) E b" if "i < n" "?I (Suc i) b" for i b
      using step [of i "map g [Suc i..<n]" b] that by (simp add: upt_conv_Cons)
    show "?I n b'" using b' by simp
    show "fb_wp (fb_call (fb_EndVector F n)) Q E b" if "?I 0 b" for b
      by (rule wp_EndVector [OF that]) (simp_all add: post)
  qed simp
qed

end

section \<open>Loops over a list of objects\<close>

text \<open>
  \<open>builds R p r\<close>: from any idle builder, the program \<open>p\<close> returns the error of \<open>r\<close>, or writes the value of \<open>r\<close>,
  at the cost in bytes of \<open>r\<close>.
\<close>

definition builds ::
  "('b \<Rightarrow> fbstate \<Rightarrow> bool) \<Rightarrow> ('b, u32) fb_prog \<Rightarrow> (fbval \<times> nat) result \<Rightarrow> bool" where
  "builds R p r \<longleftrightarrow>
     (\<forall>b l K u. fbinv R b (Idle l) K u \<longrightarrow>
        fb_wp p (\<lambda>off b'. \<exists>v c. r = Inr (v, c) \<and> fbinv R b' (Idle off) ((off, v) # K) (u + c))
          (\<lambda>e. r = Inl e) b)"

lemma builds_wp:
  assumes "builds R p r" "fbinv R b (Idle l) K u"
    and "\<And>e. r = Inl e \<Longrightarrow> E e"
    and "\<And>off b' v c. r = Inr (v, c) \<Longrightarrow> fbinv R b' (Idle off) ((off, v) # K) (u + c) \<Longrightarrow> Q off b'"
  shows "fb_wp p Q E b"
proof -
  have "fb_wp p (\<lambda>off b'. \<exists>v c. r = Inr (v, c) \<and> fbinv R b' (Idle off) ((off, v) # K) (u + c))
      (\<lambda>e. r = Inl e) b"
    using assms(1,2) unfolding builds_def by blast
  then show ?thesis by (rule fb_wp_mono) (use assms(3,4) in blast)+
qed

definition holds :: "(u32 \<times> fbval) list \<Rightarrow> u32 list \<Rightarrow> fbval list \<Rightarrow> bool" where
  "holds K offs vs \<longleftrightarrow> list_all2 (\<lambda>off v. (off, v) \<in> set K) offs vs"

lemma holds_mono: "holds K offs vs \<Longrightarrow> set K \<subseteq> set K' \<Longrightarrow> holds K' offs vs"
  unfolding holds_def by (erule list_all2_mono) auto

lemma wp_mapM:
  assumes "\<And>x. x \<in> set xs \<Longrightarrow> builds R (f x) (g x)" "fbinv R b (Idle l) K u"
    and "\<And>e. mapR g xs = Inl e \<Longrightarrow> E e"
    and "\<And>offs b' l' K' vcs. mapR g xs = Inr vcs \<Longrightarrow> set K \<subseteq> set K' \<Longrightarrow> holds K' offs (map fst vcs) \<Longrightarrow>
      fbinv R b' (Idle l') K' (u + sum_list (map snd vcs)) \<Longrightarrow> Q offs b'"
  shows "fb_wp (fb_mapM f xs) Q E b"
  using assms
proof (induction xs arbitrary: b l K u Q E)
  case Nil
  show ?case
    using Nil.prems(4) [of "[]" K "[]" b l] Nil.prems(2) by (simp add: fb_wp_return holds_def)
next
  case (Cons x xs)
  have bx: "builds R (f x) (g x)" using Cons.prems(1) by simp
  show ?case
  proof (simp, rule fb_wp_bind, rule builds_wp [OF bx Cons.prems(2)])
    show "E e" if "g x = Inl e" for e
      using Cons.prems(3) that by simp
    fix off b1 v c
    assume gx: "g x = Inr (v, c)" and inv: "fbinv R b1 (Idle off) ((off, v) # K) (u + c)"
    show "fb_wp (fb_bind (fb_mapM f xs) (\<lambda>ys. fb_return (off # ys))) Q E b1"
    proof (rule fb_wp_bind, rule Cons.IH [OF _ inv])
      show "builds R (f y) (g y)" if "y \<in> set xs" for y
        using Cons.prems(1) that by simp
      show "E e" if "mapR g xs = Inl e" for e
        using Cons.prems(3) that gx by simp
      fix offs b2 l2 K2 vcs
      assume r: "mapR g xs = Inr vcs" and K: "set ((off, v) # K) \<subseteq> set K2"
        and h: "holds K2 offs (map fst vcs)" and i: "fbinv R b2 (Idle l2) K2 (u + c + sum_list (map snd vcs))"
      show "fb_wp (fb_return (off # offs)) Q E b2"
        by (rule fb_wp_return, rule Cons.prems(4) [of "(v, c) # vcs" K2])
          (use gx r K h i in \<open>simp_all add: holds_def add.assoc\<close>)
    qed
  qed
qed

end
