(* ===== verification/Schema.thy ===== *)
theory Schema
  imports FbBuilder
begin

text \<open>
  \<open>sdk/sdk_schema.go\<close>: the schemas that turn a finished FlatBuffers buffer into the bytes of a
  transaction. The reading functions compute with 32-bit words, wrap-around included, and a slice
  out of range panics. \<open>flatten\<close> is the specification: what a schema makes of a value, with
  no buffer in sight; the refinement theorem says that serializing a buffer that holds the value
  gives exactly that.
\<close>

section \<open>Reading a buffer\<close>

type_synonym VarSize = u32

definition ByteSize :: VarSize where "ByteSize = 1"
definition ShortSize :: VarSize where "ShortSize = 2"
definition IntSize :: VarSize where "IntSize = 4"

definition readUint32 :: "u32 \<Rightarrow> byte list \<Rightarrow> u32 result" where
  "readUint32 offset buffer =
     res_bind (subslice buffer (unat offset) (unat (offset + 4))) (\<lambda>s. res_map word_of_nat (read_le 4 s))"

definition readUint16 :: "u32 \<Rightarrow> byte list \<Rightarrow> u32 result" where
  "readUint16 offset buffer =
     res_bind (subslice buffer (unat offset) (unat (offset + 2))) (\<lambda>s. res_map word_of_nat (read_le 2 s))"

definition schema_offset :: "u32 \<Rightarrow> u32 \<Rightarrow> byte list \<Rightarrow> u32 result" where
  "schema_offset innerObjectPosition position buffer =
     res_bind (readUint32 innerObjectPosition buffer) (\<lambda>so.
       let vtable = innerObjectPosition - so in
       res_bind (readUint16 vtable buffer) (\<lambda>size.
         if position < size then readUint16 (vtable + position) buffer else Inr 0))"

definition vectorLength :: "u32 \<Rightarrow> byte list \<Rightarrow> u32 result" where
  "vectorLength offset buffer =
     res_bind (readUint32 offset buffer) (\<lambda>x. readUint32 (offset + x) buffer)"

definition indirect :: "u32 \<Rightarrow> byte list \<Rightarrow> u32 result" where
  "indirect offset buffer = res_map (\<lambda>x. offset + x) (readUint32 offset buffer)"

definition vector_start :: "u32 \<Rightarrow> byte list \<Rightarrow> u32 result" where
  "vector_start offset buffer = res_map (\<lambda>x. offset + x + 4) (readUint32 offset buffer)"

definition findParam :: "u32 \<Rightarrow> u32 \<Rightarrow> byte list \<Rightarrow> VarSize \<Rightarrow> byte list result" where
  "findParam innerObjectPosition position buffer sz =
     res_bind (schema_offset innerObjectPosition position buffer) (\<lambda>offset.
       if offset = 0 then Inr [0]
       else subslice buffer (unat (offset + innerObjectPosition)) (unat (offset + innerObjectPosition + sz)))"

definition findVector :: "u32 \<Rightarrow> u32 \<Rightarrow> byte list \<Rightarrow> VarSize \<Rightarrow> byte list result" where
  "findVector innerObjectPosition position buffer sz =
     res_bind (schema_offset innerObjectPosition position buffer) (\<lambda>offset.
       let offsetLong = offset + innerObjectPosition in
       res_bind (vector_start offsetLong buffer) (\<lambda>vecStart.
       res_bind (vectorLength offsetLong buffer) (\<lambda>n.
         let vecLength = n * sz in
         if offset = 0 then Inr [0]
         else subslice buffer (unat vecStart) (unat (vecStart + vecLength)))))"

definition findObjectStartPosition :: "u32 \<Rightarrow> u32 \<Rightarrow> byte list \<Rightarrow> u32 result" where
  "findObjectStartPosition innerObjectPosition position buffer =
     res_bind (schema_offset innerObjectPosition position buffer) (\<lambda>offset.
       indirect (offset + innerObjectPosition) buffer)"

definition findArrayLength :: "u32 \<Rightarrow> u32 \<Rightarrow> byte list \<Rightarrow> u32 result" where
  "findArrayLength innerObjectPosition position buffer =
     res_bind (schema_offset innerObjectPosition position buffer) (\<lambda>offset.
       if offset = 0 then Inr 0 else vectorLength (innerObjectPosition + offset) buffer)"

definition findObjectArrayElementStartPosition :: "u32 \<Rightarrow> u32 \<Rightarrow> byte list \<Rightarrow> u32 \<Rightarrow> u32 result" where
  "findObjectArrayElementStartPosition innerObjectPosition position buffer startPosition =
     res_bind (schema_offset innerObjectPosition position buffer) (\<lambda>offset.
     res_bind (vector_start (innerObjectPosition + offset) buffer) (\<lambda>vector.
       indirect (vector + startPosition * 4) buffer))"

section \<open>Schemas\<close>

text \<open>The names of the attributes are not used by the code and are kept for the reader.\<close>

datatype schemaAttribute =
    arrayAttribute string VarSize
  | scalarAttribute string VarSize
  | tableArrayAttribute string "schemaAttribute list"
  | tableAttribute string "schemaAttribute list"

text \<open>
  \<open>serialize\<close> of the four attributes; \<open>serialize_fields\<close> is the loop over a schema's attributes from
  number \<open>j\<close> on, \<open>serialize_elems\<close> the loop over the elements \<open>is\<close> of a vector of tables.
\<close>

function (sequential)
  serialize_attr :: "schemaAttribute \<Rightarrow> byte list \<Rightarrow> u32 \<Rightarrow> u32 \<Rightarrow> byte list result"
  and serialize_fields :: "schemaAttribute list \<Rightarrow> byte list \<Rightarrow> nat \<Rightarrow> u32 \<Rightarrow> byte list result"
  and serialize_elems :: "schemaAttribute list \<Rightarrow> byte list \<Rightarrow> u32 \<Rightarrow> u32 \<Rightarrow> nat list \<Rightarrow> byte list result"
where
  "serialize_attr (arrayAttribute name sz) buffer position innerObjectPosition =
     findVector innerObjectPosition position buffer sz"
| "serialize_attr (scalarAttribute name sz) buffer position innerObjectPosition =
     findParam innerObjectPosition position buffer sz"
| "serialize_attr (tableArrayAttribute name schema) buffer position innerObjectPosition =
     res_bind (findArrayLength innerObjectPosition position buffer) (\<lambda>arrayLength.
       serialize_elems schema buffer position innerObjectPosition [0..<unat arrayLength])"
| "serialize_attr (tableAttribute name schema) buffer position innerObjectPosition =
     res_bind (findObjectStartPosition innerObjectPosition position buffer) (\<lambda>tableStartPosition.
       serialize_fields schema buffer 0 tableStartPosition)"
| "serialize_fields [] buffer j start = Inr []"
| "serialize_fields (element # schema) buffer j start =
     res_bind (serialize_attr element buffer (4 + word_of_nat j * 2) start) (\<lambda>tmp.
       res_map ((@) tmp) (serialize_fields schema buffer (Suc j) start))"
| "serialize_elems schema buffer position innerObjectPosition [] = Inr []"
| "serialize_elems schema buffer position innerObjectPosition (i # is) =
     res_bind (findObjectArrayElementStartPosition innerObjectPosition position buffer (word_of_nat i))
       (\<lambda>startArrayPosition.
     res_bind (serialize_fields schema buffer 0 startArrayPosition) (\<lambda>tmp.
       res_map ((@) tmp) (serialize_elems schema buffer position innerObjectPosition is)))"
  by pat_completeness auto
termination
  by (relation "measures [\<lambda>p. case p of Inl (a, _) \<Rightarrow> 2 * size a
        | Inr (Inl (as, _)) \<Rightarrow> 2 * size_list size as | Inr (Inr (as, _)) \<Rightarrow> Suc (2 * size_list size as),
      \<lambda>p. case p of Inr (Inr (_, _, _, _, is)) \<Rightarrow> length is | _ \<Rightarrow> 0]") auto

text \<open>\<open>uint32(bytes[0])\<close> is the position of the root table: the code reads one byte of it.\<close>

definition schema_serialize :: "schemaAttribute list \<Rightarrow> byte list \<Rightarrow> byte list result" where
  "schema_serialize s bytes =
     (case s of [] \<Rightarrow> Inr []
      | _ \<Rightarrow> (case bytes of [] \<Rightarrow> Inl Panicked
              | b # _ \<Rightarrow> serialize_fields s bytes 0 (ucast b)))"

section \<open>The specification\<close>

text \<open>
  A scalar that is absent (zero) is one zero byte, whatever its size. A vector must be there.
\<close>

function (sequential)
  flatten_attr :: "schemaAttribute \<Rightarrow> fbfield \<Rightarrow> byte list option"
  and flatten_fields :: "schemaAttribute list \<Rightarrow> fbfield list \<Rightarrow> byte list option"
  and flatten_elems :: "schemaAttribute list \<Rightarrow> fbfield list \<Rightarrow> byte list option"
where
  "flatten_attr (arrayAttribute name sz) f =
     (case f of Ref (FVec w fs) \<Rightarrow>
        if w = unat sz \<and> list_all (\<lambda>g. case g of Scalar _ \<Rightarrow> True | _ \<Rightarrow> False) fs
        then Some (concat (map (\<lambda>g. case g of Scalar bs \<Rightarrow> bs | _ \<Rightarrow> []) fs)) else None
      | _ \<Rightarrow> None)"
| "flatten_attr (scalarAttribute name sz) f =
     (case f of Absent \<Rightarrow> Some [0]
      | Scalar bs \<Rightarrow> if length bs = unat sz then Some bs else None
      | Ref _ \<Rightarrow> None)"
| "flatten_attr (tableArrayAttribute name schema) f =
     (case f of Absent \<Rightarrow> Some []
      | Ref (FVec w fs) \<Rightarrow> if w = 4 then flatten_elems schema fs else None
      | _ \<Rightarrow> None)"
| "flatten_attr (tableAttribute name schema) f =
     (case f of Ref (FTable gs) \<Rightarrow> flatten_fields schema gs | _ \<Rightarrow> None)"
| "flatten_fields [] gs = Some []"
| "flatten_fields (a # as) [] = None"
| "flatten_fields (a # as) (g # gs) =
     (case flatten_attr a g of None \<Rightarrow> None
      | Some bs \<Rightarrow> (case flatten_fields as gs of None \<Rightarrow> None | Some cs \<Rightarrow> Some (bs @ cs)))"
| "flatten_elems as [] = Some []"
| "flatten_elems as (Ref (FTable gs) # fs) =
     (case flatten_fields as gs of None \<Rightarrow> None
      | Some bs \<Rightarrow> (case flatten_elems as fs of None \<Rightarrow> None | Some cs \<Rightarrow> Some (bs @ cs)))"
| "flatten_elems as (g # fs) = None"
  by pat_completeness auto
termination
  by (relation "measures [\<lambda>p. case p of Inl (a, _) \<Rightarrow> 2 * size a
        | Inr (Inl (as, _)) \<Rightarrow> 2 * size_list size as | Inr (Inr (as, _)) \<Rightarrow> Suc (2 * size_list size as),
      \<lambda>p. case p of Inr (Inr (_, fs)) \<Rightarrow> length fs | _ \<Rightarrow> 0]") auto

section \<open>Refinement\<close>

text \<open>A position in the buffer, as the code's word.\<close>

lemma pos_unat: "p < 2 ^ 31 \<Longrightarrow> unat (word_of_nat p :: u32) = p"
  by (rule unat_word_of_nat(3)) simp

lemma pos_add: "word_of_nat p + word_of_nat q = (word_of_nat (p + q) :: u32)"
  by simp

lemma read_slice:
  "p + k \<le> length buf \<Longrightarrow> subslice buf p (p + k) = Inr (take k (drop p buf))"
  "length s = k \<Longrightarrow> read_le k s = Inr (le_nat s)"
  by (simp_all add: subslice_def read_le_def)

lemma readUint32_at:
  assumes "p + 4 \<le> length buf" "length buf < 2 ^ 31"
  shows "readUint32 (word_of_nat p) buf = Inr (get_u32 buf p)"
proof -
  have u: "unat (word_of_nat p :: u32) = p" "unat (word_of_nat (p + 4) :: u32) = p + 4"
    using assms by (intro pos_unat; simp)+
  have "word_of_nat p + 4 = (word_of_nat (p + 4) :: u32)" by simp
  then show ?thesis
    unfolding readUint32_def using assms
    by (simp only: u read_slice(1) res_bind.simps) (simp add: read_slice(2) get_u32_def)
qed

lemma readUint16_at:
  assumes "p + 2 \<le> length buf" "length buf < 2 ^ 31"
  shows "readUint16 (word_of_nat p) buf = Inr (word_of_nat (get_u16 buf p))"
proof -
  have u: "unat (word_of_nat p :: u32) = p" "unat (word_of_nat (p + 2) :: u32) = p + 2"
    using assms by (intro pos_unat; simp)+
  have "word_of_nat p + 2 = (word_of_nat (p + 2) :: u32)" by simp
  then show ?thesis
    unfolding readUint16_def using assms
    by (simp only: u read_slice(1) res_bind.simps) (simp add: read_slice(2) get_u16_def)
qed

lemma get_u16_less: "get_u16 buf p < 65536"
proof -
  have "le_nat (take 2 (drop p buf)) < 256 ^ length (take 2 (drop p buf))" by (rule le_nat_less)
  also have "\<dots> \<le> 256 ^ 2" by (rule power_increasing) simp_all
  finally show ?thesis by (simp add: get_u16_def)
qed

text \<open>What is known of a table: its header is in the buffer.\<close>

definition table_header :: "byte list \<Rightarrow> nat \<Rightarrow> bool" where
  "table_header buf p \<longleftrightarrow>
     p + 4 \<le> length buf \<and> vtable_at buf p + 4 \<le> length buf
     \<and> even (get_u16 buf (vtable_at buf p))
     \<and> vtable_at buf p + get_u16 buf (vtable_at buf p) \<le> length buf \<and> length buf < 2 ^ 31"

lemma schema_offset_at:
  assumes "table_header buf p" "j < 1000"
  shows "schema_offset (word_of_nat p) (4 + word_of_nat j * 2) buf = Inr (word_of_nat (vslot buf (vtable_at buf p) j))"
proof -
  let ?vt = "vtable_at buf p"
  let ?pos = "4 + word_of_nat j * 2 :: u32"
  have h: "p + 4 \<le> length buf" "?vt + 4 \<le> length buf" "even (get_u16 buf ?vt)" "?vt + get_u16 buf ?vt \<le> length buf" "length buf < 2 ^ 31"
    using assms(1) by (auto simp: table_header_def)
  have vt: "word_of_nat p - get_u32 buf p = (word_of_nat ?vt :: u32)"
    by (simp add: vtable_at_def)
  have pos: "?pos = word_of_nat (4 + 2 * j)" by simp
  have cmp: "?pos < word_of_nat (get_u16 buf ?vt) \<longleftrightarrow> 4 + 2 * j < get_u16 buf ?vt"
    unfolding pos word_less_nat_alt
    using get_u16_less [of buf ?vt] pos_unat [of "4 + 2 * j"] pos_unat [of "get_u16 buf ?vt"] assms(2)
    by simp
  have "readUint16 (word_of_nat ?vt) buf = Inr (word_of_nat (get_u16 buf ?vt))"
    by (rule readUint16_at) (use h in simp_all)
  moreover have "readUint16 (word_of_nat ?vt + ?pos) buf = Inr (word_of_nat (get_u16 buf (?vt + 4 + 2 * j)))"
    if "4 + 2 * j < get_u16 buf ?vt"
  proof -
    have eq: "word_of_nat ?vt + ?pos = (word_of_nat (?vt + 4 + 2 * j) :: u32)" by simp
    have "4 + 2 * j + 2 \<le> get_u16 buf ?vt"
      using that h(3) by presburger
    then show ?thesis
      unfolding eq by (intro readUint16_at) (use h in simp_all)
  qed
  ultimately show ?thesis
    using readUint32_at [OF h(1,5)] vt cmp
    by (simp add: schema_offset_def Let_def vslot_def)
qed

definition slot_is :: "byte list \<Rightarrow> nat \<Rightarrow> nat \<Rightarrow> fbfield \<Rightarrow> bool" where
  "slot_is buf p j f \<longleftrightarrow>
     (let off = vslot buf (vtable_at buf p) j in
      if off = 0 then f = Absent else f \<noteq> Absent \<and> field_at buf (p + off) f)"

lemma fb_at_table:
  "fb_at buf p (FTable fs) \<Longrightarrow> length buf < 2 ^ 31 \<Longrightarrow>
     table_header buf p \<and> (\<forall>j < length fs. slot_is buf p j (fs ! j))"
  by (simp add: table_header_def slot_is_def slots_at_nth Let_def)

lemma vslot_small: "vslot buf vt j < 65536"
  using get_u16_less by (simp add: vslot_def)

text \<open>A present slot: the offset that the code computes leads to its field.\<close>

lemma slot_present:
  assumes "table_header buf p" "slot_is buf p j f" "f \<noteq> Absent" "j < 1000"
  obtains off where "schema_offset (word_of_nat p) (4 + word_of_nat j * 2) buf = Inr (word_of_nat off)"
    "(word_of_nat off :: u32) \<noteq> 0" "off < 65536" "field_at buf (p + off) f"
proof -
  let ?off = "vslot buf (vtable_at buf p) j"
  have "?off \<noteq> 0" "field_at buf (p + ?off) f"
    using assms(2,3) by (auto simp: slot_is_def Let_def split: if_splits)
  moreover have "(word_of_nat ?off :: u32) \<noteq> 0"
    using \<open>?off \<noteq> 0\<close> vslot_small [of buf "vtable_at buf p" j] pos_unat [of ?off] by auto
  ultimately show ?thesis
    using schema_offset_at [OF assms(1,4)] vslot_small that by blast
qed

lemma slot_absent:
  assumes "table_header buf p" "slot_is buf p j Absent" "j < 1000"
  shows "schema_offset (word_of_nat p) (4 + word_of_nat j * 2) buf = Inr 0"
proof -
  have "vslot buf (vtable_at buf p) j = 0"
    using assms(2) by (auto simp: slot_is_def Let_def split: if_splits)
  then show ?thesis using schema_offset_at [OF assms(1,3)] by simp
qed

lemma subslice_at:
  assumes "q + n \<le> length buf" "length buf < 2 ^ 31"
  shows "subslice buf (unat (word_of_nat q :: u32)) (unat (word_of_nat q + word_of_nat n :: u32)) =
    Inr (take n (drop q buf))"
proof -
  have "unat (word_of_nat q :: u32) = q" "unat (word_of_nat (q + n) :: u32) = q + n"
    using assms by (intro pos_unat; simp)+
  then show ?thesis
    using assms by (simp only: pos_add subslice_def) simp
qed

lemma findParam_absent:
  "table_header buf p \<Longrightarrow> slot_is buf p j Absent \<Longrightarrow> j < 1000 \<Longrightarrow>
     findParam (word_of_nat p) (4 + word_of_nat j * 2) buf sz = Inr [0]"
  by (simp add: findParam_def slot_absent)

lemma findParam_present:
  assumes "table_header buf p" "slot_is buf p j (Scalar bs)" "j < 1000" "length bs = unat sz"
  shows "findParam (word_of_nat p) (4 + word_of_nat j * 2) buf sz = Inr bs"
proof -
  obtain off where o: "schema_offset (word_of_nat p) (4 + word_of_nat j * 2) buf = Inr (word_of_nat off)"
    "(word_of_nat off :: u32) \<noteq> 0" "field_at buf (p + off) (Scalar bs)"
    using slot_present [OF assms(1,2) _ assms(3)] by (metis fbfield.distinct(1))
  have len: "length buf < 2 ^ 31" using assms(1) by (simp add: table_header_def)
  have f: "p + off + unat sz \<le> length buf" "take (unat sz) (drop (p + off) buf) = bs"
    using o(3) assms(4) by simp_all
  have w: "word_of_nat off + word_of_nat p = (word_of_nat (p + off) :: u32)" by (simp add: add.commute)
  show ?thesis
    using subslice_at [OF f(1) len] o f(2) by (simp only: findParam_def res_bind.simps w if_False) simp
qed

text \<open>A field that refers to a vector.\<close>

lemma vector_field:
  assumes "field_at buf q (Ref (FVec w fs))" "length buf < 2 ^ 31"
  obtains v where "vector_start (word_of_nat q) buf = Inr (word_of_nat v)"
    "vectorLength (word_of_nat q) buf = Inr (word_of_nat (length fs))"
    "elems_at buf v w fs" "unat (word_of_nat (length fs) :: u32) = length fs"
proof -
  let ?r = "get_u32 buf q"
  have q: "q + 4 \<le> length buf" and t: "q + unat ?r + 4 \<le> length buf"
    "unat (get_u32 buf (q + unat ?r)) = length fs" "elems_at buf (q + unat ?r + 4) w fs"
    using assms(1) by simp_all
  have w: "word_of_nat q + ?r = word_of_nat (q + unat ?r)" by simp
  have n: "get_u32 buf (q + unat ?r) = word_of_nat (length fs)"
    using t(2) [symmetric] by simp
  show ?thesis
  proof (rule that)
    show "vector_start (word_of_nat q) buf = Inr (word_of_nat (q + unat ?r + 4))"
      by (simp add: vector_start_def readUint32_at [OF q assms(2)])
    show "vectorLength (word_of_nat q) buf = Inr (word_of_nat (length fs))"
      unfolding vectorLength_def readUint32_at [OF q assms(2)] res_bind.simps w
      using readUint32_at [OF t(1) assms(2)] n by simp
    show "elems_at buf (q + unat ?r + 4) w fs" by (rule t(3))
    show "unat (word_of_nat (length fs) :: u32) = length fs"
      using t(2) n by simp
  qed
qed

lemma elems_at_bounds: "elems_at buf q w fs \<Longrightarrow> q + w * length fs \<le> length buf"
  by (induction fs arbitrary: q) (simp, fastforce simp: algebra_simps)

lemma elems_at_scalars:
  "elems_at buf q w fs \<Longrightarrow> list_all (\<lambda>g. case g of Scalar _ \<Rightarrow> True | _ \<Rightarrow> False) fs \<Longrightarrow>
     take (w * length fs) (drop q buf) = concat (map (\<lambda>g. case g of Scalar bs \<Rightarrow> bs | _ \<Rightarrow> []) fs)"
proof (induction fs arbitrary: q)
  case (Cons f fs)
  then obtain bs where f: "f = Scalar bs" by (cases f) auto
  have "take (w + w * length fs) (drop q buf) = take w (drop q buf) @ take (w * length fs) (drop (q + w) buf)"
    by (simp add: take_add add.commute)
  then show ?case using Cons f by auto
qed simp

lemma findVector_present:
  assumes "table_header buf p" "slot_is buf p j (Ref (FVec w fs))" "j < 1000" "w = unat sz"
    and "list_all (\<lambda>g. case g of Scalar _ \<Rightarrow> True | _ \<Rightarrow> False) fs"
  shows "findVector (word_of_nat p) (4 + word_of_nat j * 2) buf sz =
    Inr (concat (map (\<lambda>g. case g of Scalar bs \<Rightarrow> bs | _ \<Rightarrow> []) fs))"
proof -
  obtain off where o: "schema_offset (word_of_nat p) (4 + word_of_nat j * 2) buf = Inr (word_of_nat off)"
    "(word_of_nat off :: u32) \<noteq> 0" "field_at buf (p + off) (Ref (FVec w fs))"
    using slot_present [OF assms(1,2) _ assms(3)] by (metis fbfield.distinct(3))
  have len: "length buf < 2 ^ 31" using assms(1) by (simp add: table_header_def)
  obtain v where v: "vector_start (word_of_nat (p + off)) buf = Inr (word_of_nat v)"
    "vectorLength (word_of_nat (p + off)) buf = Inr (word_of_nat (length fs))" "elems_at buf v w fs"
    using vector_field [OF o(3) len] by blast
  have w: "word_of_nat off + word_of_nat p = (word_of_nat (p + off) :: u32)" by (simp add: add.commute)
  have m: "word_of_nat (length fs) * sz = (word_of_nat (w * length fs) :: u32)"
    using assms(4) by (simp add: mult.commute)
  show ?thesis
    using subslice_at [OF elems_at_bounds [OF v(3)] len] elems_at_scalars [OF v(3) assms(5)] o v
    by (simp only: findVector_def res_bind.simps w Let_def m if_False)
qed

lemma indirect_at:
  assumes "q + 4 \<le> length buf" "length buf < 2 ^ 31"
  shows "indirect (word_of_nat q) buf = Inr (word_of_nat (q + unat (get_u32 buf q)))"
  by (simp add: indirect_def readUint32_at [OF assms])

text \<open>
  The elements of a vector of tables, seen from the table that refers to it: element \<open>i\<close> is where the
  code's \<open>findObjectArrayElementStartPosition\<close> says.
\<close>

definition elem_starts :: "byte list \<Rightarrow> u32 \<Rightarrow> u32 \<Rightarrow> nat \<Rightarrow> fbfield list \<Rightarrow> bool" where
  "elem_starts buf inner position k fs \<longleftrightarrow>
     (\<forall>i < length fs. \<forall>gs. fs ! i = Ref (FTable gs) \<longrightarrow>
        (\<exists>s. findObjectArrayElementStartPosition inner position buf (word_of_nat (k + i)) = Inr (word_of_nat s)
           \<and> fb_at buf s (FTable gs)))"

lemma elem_starts_Cons:
  "elem_starts buf inner position k (f # fs) \<Longrightarrow> elem_starts buf inner position (Suc k) fs"
  unfolding elem_starts_def
proof (intro allI impI)
  fix i gs
  assume a: "\<forall>i < length (f # fs). \<forall>gs. (f # fs) ! i = Ref (FTable gs) \<longrightarrow>
      (\<exists>s. findObjectArrayElementStartPosition inner position buf (word_of_nat (k + i)) = Inr (word_of_nat s)
         \<and> fb_at buf s (FTable gs))"
    and "i < length fs" "fs ! i = Ref (FTable gs)"
  then have "Suc i < length (f # fs)" "(f # fs) ! Suc i = Ref (FTable gs)" by simp_all
  then show "\<exists>s. findObjectArrayElementStartPosition inner position buf (word_of_nat (Suc k + i)) =
      Inr (word_of_nat s) \<and> fb_at buf s (FTable gs)"
    using a by (metis add_Suc add_Suc_right)
qed

lemma elem_starts_vector:
  assumes "table_header buf p" "slot_is buf p j (Ref (FVec 4 fs))" "j < 1000"
  shows "elem_starts buf (word_of_nat p) (4 + word_of_nat j * 2) 0 fs
    \<and> findArrayLength (word_of_nat p) (4 + word_of_nat j * 2) buf = Inr (word_of_nat (length fs))
    \<and> unat (word_of_nat (length fs) :: u32) = length fs"
proof -
  obtain off where o: "schema_offset (word_of_nat p) (4 + word_of_nat j * 2) buf = Inr (word_of_nat off)"
    "(word_of_nat off :: u32) \<noteq> 0" "field_at buf (p + off) (Ref (FVec 4 fs))"
    using slot_present [OF assms(1,2) _ assms(3)] by (metis fbfield.distinct(3))
  have len: "length buf < 2 ^ 31" using assms(1) by (simp add: table_header_def)
  obtain v where v: "vector_start (word_of_nat (p + off)) buf = Inr (word_of_nat v)"
    "vectorLength (word_of_nat (p + off)) buf = Inr (word_of_nat (length fs))" "elems_at buf v 4 fs"
    "unat (word_of_nat (length fs) :: u32) = length fs"
    using vector_field [OF o(3) len] by blast
  have w: "word_of_nat p + word_of_nat off = (word_of_nat (p + off) :: u32)" by simp
  have "elem_starts buf (word_of_nat p) (4 + word_of_nat j * 2) 0 fs"
    unfolding elem_starts_def
  proof (intro allI impI)
    fix i gs assume i: "i < length fs" "fs ! i = Ref (FTable gs)"
    let ?q = "v + i * 4"
    have f: "field_at buf ?q (Ref (FTable gs))"
      using elems_at_nth [OF v(3) i(1)] i(2) by simp
    then have q: "?q + 4 \<le> length buf" by simp
    have e: "word_of_nat v + word_of_nat (0 + i) * 4 = (word_of_nat ?q :: u32)" by simp
    have "findObjectArrayElementStartPosition (word_of_nat p) (4 + word_of_nat j * 2) buf (word_of_nat (0 + i)) =
        Inr (word_of_nat (?q + unat (get_u32 buf ?q)))"
      unfolding findObjectArrayElementStartPosition_def o(1) res_bind.simps w v(1) e
      by (rule indirect_at [OF q len])
    moreover have "fb_at buf (?q + unat (get_u32 buf ?q)) (FTable gs)"
      using f by (simp only: field_at.simps)
    ultimately show "\<exists>s. findObjectArrayElementStartPosition (word_of_nat p) (4 + word_of_nat j * 2) buf
        (word_of_nat (0 + i)) = Inr (word_of_nat s) \<and> fb_at buf s (FTable gs)"
      by blast
  qed
  then show ?thesis
    using o v w by (simp only: findArrayLength_def res_bind.simps if_False simp_thms)
qed

lemma serialize_correct:
  "flatten_attr a f = Some bs \<Longrightarrow> size a < 1000 \<Longrightarrow> j < 1000 \<Longrightarrow> table_header buf p \<Longrightarrow> slot_is buf p j f \<Longrightarrow>
     serialize_attr a buf (4 + word_of_nat j * 2) (word_of_nat p) = Inr bs"
  "flatten_fields as gs = Some bs \<Longrightarrow> j + size_list size as < 1000 \<Longrightarrow> table_header buf p \<Longrightarrow>
     (\<forall>i < length gs. slot_is buf p (j + i) (gs ! i)) \<Longrightarrow>
     serialize_fields as buf j (word_of_nat p) = Inr bs"
  "flatten_elems as fs = Some bs \<Longrightarrow> size_list size as < 1000 \<Longrightarrow> length buf < 2 ^ 31 \<Longrightarrow>
     elem_starts buf inner position k fs \<Longrightarrow>
     serialize_elems as buf position inner [k..<k + length fs] = Inr bs"
proof (induction a f and as gs and as fs arbitrary: bs j p and bs j p and bs k inner position
    rule: flatten_attr_flatten_fields_flatten_elems.induct)
  case (1 name sz f)
  then show ?case
    by (auto split: fbfield.splits fbval.splits if_splits simp: findVector_present)
next
  case (2 name sz f)
  then show ?case
    by (auto split: fbfield.splits if_splits simp: findParam_present findParam_absent)
next
  case (3 name schema f)
  show ?case
  proof (cases "f = Absent")
    case True
    then show ?thesis using 3(2-) by (simp add: findArrayLength_def slot_absent)
  next
    case False
    then obtain fs where f: "f = Ref (FVec 4 fs)" "flatten_elems schema fs = Some bs"
      using 3(2) by (auto split: fbfield.splits fbval.splits if_splits)
    have s: "slot_is buf p j (Ref (FVec 4 fs))" using 3(6) f(1) by simp
    have len: "length buf < 2 ^ 31" using 3(5) by (simp add: table_header_def)
    have e: "elem_starts buf (word_of_nat p) (4 + word_of_nat j * 2) 0 fs"
      using elem_starts_vector [OF 3(5) s 3(4)] by blast
    have "serialize_elems schema buf (4 + word_of_nat j * 2) (word_of_nat p) [0..<0 + length fs] = Inr bs"
      by (rule 3(1) [OF f(1) refl refl f(2) _ len e]) (use 3(3) in simp)
    then show ?thesis
      using elem_starts_vector [OF 3(5) s 3(4)] by simp
  qed
next
  case (4 name schema f)
  then obtain gs where f: "f = Ref (FTable gs)" "flatten_fields schema gs = Some bs"
    by (auto split: fbfield.splits fbval.splits)
  have len: "length buf < 2 ^ 31" using 4(5) by (simp add: table_header_def)
  obtain off where o: "schema_offset (word_of_nat p) (4 + word_of_nat j * 2) buf = Inr (word_of_nat off)"
    "field_at buf (p + off) (Ref (FTable gs))"
    using slot_present [OF 4(5) _ _ 4(4)] 4(6) f(1) by (metis fbfield.distinct(3))
  let ?s = "p + off + unat (get_u32 buf (p + off))"
  have q: "p + off + 4 \<le> length buf" and t: "fb_at buf ?s (FTable gs)"
    using o(2) by (simp_all only: field_at.simps)
  have w: "word_of_nat off + word_of_nat p = (word_of_nat (p + off) :: u32)" by (simp add: add.commute)
  have "findObjectStartPosition (word_of_nat p) (4 + word_of_nat j * 2) buf = Inr (word_of_nat ?s)"
    unfolding findObjectStartPosition_def o(1) res_bind.simps w by (rule indirect_at [OF q len])
  moreover have "serialize_fields schema buf 0 (word_of_nat ?s) = Inr bs"
    by (rule 4(1) [OF f(1) refl f(2)]) (use fb_at_table [OF t len] 4(3) in simp_all)
  ultimately show ?case by (simp only: serialize_attr.simps res_bind.simps)
next
  case (7 a as g gs)
  then obtain b1 b2 where b: "flatten_attr a g = Some b1" "flatten_fields as gs = Some b2" "bs = b1 @ b2"
    by (auto split: option.splits)
  have "serialize_attr a buf (4 + word_of_nat j * 2) (word_of_nat p) = Inr b1"
    by (rule 7(1) [OF b(1)]) (use 7(4,5) 7(6) in \<open>force+\<close>)
  moreover have "serialize_fields as buf (Suc j) (word_of_nat p) = Inr b2"
  proof (rule 7(2) [OF b(1,2)])
    show "\<forall>i < length gs. slot_is buf p (Suc j + i) (gs ! i)"
    proof (intro allI impI)
      fix i assume "i < length gs"
      then show "slot_is buf p (Suc j + i) (gs ! i)"
        using 7(6) [rule_format, of "Suc i"] by simp
    qed
  qed (use 7(4,5) in simp_all)
  ultimately show ?case using b(3) by simp
next
  case (9 as gs fs)
  then obtain b1 b2 where b: "flatten_fields as gs = Some b1" "flatten_elems as fs = Some b2" "bs = b1 @ b2"
    by (auto split: option.splits)
  obtain s where s: "findObjectArrayElementStartPosition inner position buf (word_of_nat k) = Inr (word_of_nat s)"
    "fb_at buf s (FTable gs)"
    using 9(6) by (auto simp: elem_starts_def dest!: spec [of _ 0])
  have "serialize_fields as buf 0 (word_of_nat s) = Inr b1"
    by (rule 9(1) [OF b(1)]) (use fb_at_table [OF s(2) 9(5)] 9(4) in simp_all)
  moreover have "serialize_elems as buf position inner [Suc k..<Suc k + length fs] = Inr b2"
    by (rule 9(2) [OF b(1,2) 9(4,5)]) (rule elem_starts_Cons [OF 9(6)])
  moreover have "[k..<k + length (Ref (FTable gs) # fs)] = k # [Suc k..<Suc k + length fs]"
    by (subst upt_conv_Cons) simp_all
  ultimately show ?case using b(3) s(1) by (simp only: serialize_elems.simps res_bind.simps res_map_simps)
qed simp_all

text \<open>The finished buffer of a root table.\<close>

theorem schema_serialize_correct:
  assumes "fb_root buf (FTable fs)" "length buf < 2 ^ 31" "get_u32 buf 0 < 256"
    and "flatten_fields sch fs = Some bs" "size_list size sch < 1000"
  shows "schema_serialize sch buf = Inr bs"
proof (cases sch)
  case Nil
  then show ?thesis using assms(4) by (simp add: schema_serialize_def)
next
  case (Cons a as)
  obtain b0 r where buf: "buf = b0 # r" and r: "3 \<le> length r"
    using assms(1) by (cases buf) (auto simp: fb_root_def)
  let ?n = "le_nat (take 3 r)"
  have "le_nat (take 4 buf) = unat b0 + 256 * ?n"
    unfolding buf by (simp add: numeral_eq_Suc)
  moreover have "length (take 4 buf) = 4" using buf r by simp
  then have "le_nat (take 4 buf) < 4294967296"
    using le_nat_less [of "take 4 buf"] by simp
  ultimately have u: "unat (get_u32 buf 0) = unat b0 + 256 * ?n"
    using unat_word_of_nat(3) [of "unat b0 + 256 * ?n"] by (simp only: get_u32_def drop_0)
  have "unat (get_u32 buf 0) < 256"
    using assms(3) by (simp add: word_less_nat_alt)
  then have "unat (get_u32 buf 0) = unat b0" using u by simp
  then have root: "ucast b0 = (word_of_nat (unat (get_u32 buf 0)) :: u32)" by simp
  have t: "fb_at buf (unat (get_u32 buf 0)) (FTable fs)" using assms(1) by (simp add: fb_root_def)
  have "serialize_fields sch buf 0 (word_of_nat (unat (get_u32 buf 0))) = Inr bs"
    by (rule serialize_correct(2) [OF assms(4)]) (use fb_at_table [OF t assms(2)] assms(5) in simp_all)
  then show ?thesis using Cons root buf by (simp add: schema_serialize_def)
qed

end
