(* ===== verification/SchemaProperties.thy ===== *)
theory SchemaProperties
  imports Schema
begin

text \<open>
  What a schema makes of a finished buffer, and the short form of a scalar field that is zero.
\<close>

section \<open>A small buffer\<close>

text \<open>
  A root table at 12 with its vtable at 4: the first field is the 32-bit word \<open>x\<close>, the second is absent.
\<close>

definition small_buffer :: "u32 \<Rightarrow> byte list" where
  "small_buffer x = le32 12 @ le16 8 @ le16 8 @ le16 4 @ le16 0 @ le32 8 @ le32 x"

definition small_schema :: "schemaAttribute list" where
  "small_schema = [scalarAttribute ''first'' IntSize, scalarAttribute ''second'' IntSize]"

lemma small_buffer_bytes:
  "small_buffer 42 = [12, 0, 0, 0, 8, 0, 8, 0, 4, 0, 0, 0, 8, 0, 0, 0, 42, 0, 0, 0]"
  by code_simp

lemma small_buffer_root: "fb_root (small_buffer 42) (FTable [Scalar [42, 0, 0, 0], Absent])"
  "length (small_buffer 42) < 2 ^ 31" "get_u32 (small_buffer 42) 0 < 256"
  by (simp_all add: small_buffer_bytes fb_root_def get_u32_def get_u16_def vtable_at_def vslot_def)

lemma small_schema_flatten:
  "flatten_fields small_schema [Scalar [42, 0, 0, 0], Absent] = Some [42, 0, 0, 0, 0]"
  "size_list size small_schema < 1000"
  by (simp_all add: small_schema_def IntSize_def)

section \<open>Properties\<close>

text \<open>
  C6. Serializing refines the specification: from a buffer that holds a table (in the documented
  FlatBuffers format, at whatever offsets the builder chose), the schema reads exactly the bytes
  \<open>flatten_fields\<close> computes from the table's value, with no read out of range.
\<close>

theorem schema_reads_value:
  assumes "fb_root buf (FTable fs)" "length buf < 2 ^ 31" "get_u32 buf 0 < 256"
    and "flatten_fields sch fs = Some bs" "size_list size sch < 1000"
  shows "schema_serialize sch buf = Inr bs"
  by (rule schema_serialize_correct [OF assms])

theorem schema_reads_value_witness:
  "schema_serialize small_schema (small_buffer 42) = Inr [42, 0, 0, 0, 0]"
  by (rule schema_reads_value [OF small_buffer_root small_schema_flatten])

text \<open>
  A scalar field that is not stored because it is zero takes one byte instead of its own width.
\<close>

lemma zero_scalar_is_one_byte:
  "schema_offset start position buf = Inr 0 \<Longrightarrow>
   serialize_attr (scalarAttribute name sz) buf position start = Inr [0]"
  by (simp add: findParam_def)

end
