(* ===== verification/TxBuffers.thy ===== *)
theory TxBuffers
  imports Schema
begin

text \<open>
  The builder functions of the package \<open>transactions\<close> that the SDK calls: the common header of all
  transactions and the creation of vectors (\<open>transactions/transaction_buffer.go\<close>), and the numbers of
  the slots of every table. Each creation function has a lemma that says which value it
  writes; the slot functions are unfolded (\<open>fb_defs\<close>) and handled by the laws of the builder.
\<close>

named_theorems fb_defs \<open>the slot numbers of the tables\<close>

section \<open>Vectors\<close>

definition TransferTransactionBufferStartMosaicsVector :: "'b fb_api \<Rightarrow> nat \<Rightarrow> ('b, unit) fb_prog" where
  "TransferTransactionBufferStartMosaicsVector F numElems = fb_do (fb_StartVector F 4 numElems 4)"

definition TransactionBufferCreateUint32Vector :: "'b fb_api \<Rightarrow> u32 list \<Rightarrow> ('b, u32) fb_prog" where
  "TransactionBufferCreateUint32Vector F data =
     fb_then (fb_do (fb_StartVector F 4 (length data) 4))
    (fb_then (fb_for (\<lambda>i. fb_do (fb_PrependUint32 F (data ! i))) (rev [0..<length data]))
    (fb_call (fb_EndVector F (length data))))"

definition TransactionBufferCreateByteVector :: "'b fb_api \<Rightarrow> byte list \<Rightarrow> ('b, u32) fb_prog" where
  "TransactionBufferCreateByteVector F data =
     fb_then (fb_do (fb_StartVector F 1 (length data) 1))
    (fb_then (fb_for (\<lambda>i. fb_do (fb_PrependByte F (data ! i))) (rev [0..<length data]))
    (fb_call (fb_EndVector F (length data))))"

definition TransactionBufferCreateUOffsetVector :: "'b fb_api \<Rightarrow> u32 list \<Rightarrow> ('b, u32) fb_prog" where
  "TransactionBufferCreateUOffsetVector F data =
     fb_then (TransferTransactionBufferStartMosaicsVector F (length data))
    (fb_then (fb_for (\<lambda>i. fb_do (fb_PrependUOffsetT F (data ! i))) (rev [0..<length data]))
    (fb_call (fb_EndVector F (length data))))"

text \<open>An array of two words.\<close>

definition words2 :: "u32 \<times> u32 \<Rightarrow> u32 list" where
  "words2 a = [fst a, snd a]"

section \<open>Tables\<close>

text \<open>\<open>transactions/account_link_transaction_buffer.go\<close>\<close>

definition AccountLinkTransactionBufferStart :: "'b fb_api \<Rightarrow> ('b, unit) fb_prog" where [fb_defs]:
  "AccountLinkTransactionBufferStart F = fb_do (fb_StartObject F 9)"

definition AccountLinkTransactionBufferAddRemoteAccountKey ::
  "'b fb_api \<Rightarrow> u32 \<Rightarrow> ('b, unit) fb_prog" where [fb_defs]:
  "AccountLinkTransactionBufferAddRemoteAccountKey F remoteAccountKey =
     fb_do (fb_PrependUOffsetTSlot F 7 remoteAccountKey 0)"

definition AccountLinkTransactionBufferAddLinkAction ::
  "'b fb_api \<Rightarrow> byte \<Rightarrow> ('b, unit) fb_prog" where [fb_defs]:
  "AccountLinkTransactionBufferAddLinkAction F linkAction = fb_do (fb_PrependByteSlot F 8 linkAction 0)"

text \<open>\<open>transactions/account_properties_transaction_buffer.go\<close>\<close>

definition PropertyModificationBufferStart :: "'b fb_api \<Rightarrow> ('b, unit) fb_prog" where [fb_defs]:
  "PropertyModificationBufferStart F = fb_do (fb_StartObject F 2)"

definition PropertyModificationBufferAddModificationType ::
  "'b fb_api \<Rightarrow> byte \<Rightarrow> ('b, unit) fb_prog" where [fb_defs]:
  "PropertyModificationBufferAddModificationType F modificationType =
     fb_do (fb_PrependByteSlot F 0 modificationType 0)"

definition PropertyModificationBufferAddValue ::
  "'b fb_api \<Rightarrow> u32 \<Rightarrow> ('b, unit) fb_prog" where [fb_defs]:
  "PropertyModificationBufferAddValue F value = fb_do (fb_PrependUOffsetTSlot F 1 value 0)"

definition PropertyModificationBufferEnd :: "'b fb_api \<Rightarrow> ('b, u32) fb_prog" where [fb_defs]:
  "PropertyModificationBufferEnd F = fb_call (fb_EndObject F)"

definition AccountPropertiesTransactionBufferStart ::
  "'b fb_api \<Rightarrow> ('b, unit) fb_prog" where [fb_defs]:
  "AccountPropertiesTransactionBufferStart F = fb_do (fb_StartObject F 10)"

definition AccountPropertiesTransactionBufferAddPropertyType ::
  "'b fb_api \<Rightarrow> byte \<Rightarrow> ('b, unit) fb_prog" where [fb_defs]:
  "AccountPropertiesTransactionBufferAddPropertyType F propertyType =
     fb_do (fb_PrependByteSlot F 7 propertyType 0)"

definition AccountPropertiesTransactionBufferAddModificationCount ::
  "'b fb_api \<Rightarrow> byte \<Rightarrow> ('b, unit) fb_prog" where [fb_defs]:
  "AccountPropertiesTransactionBufferAddModificationCount F modificationCount =
     fb_do (fb_PrependByteSlot F 8 modificationCount 0)"

definition AccountPropertiesTransactionBufferAddModifications ::
  "'b fb_api \<Rightarrow> u32 \<Rightarrow> ('b, unit) fb_prog" where [fb_defs]:
  "AccountPropertiesTransactionBufferAddModifications F modifications =
     fb_do (fb_PrependUOffsetTSlot F 9 modifications 0)"

definition AccountPropertiesTransactionBufferEnd ::
  "'b fb_api \<Rightarrow> ('b, u32) fb_prog" where [fb_defs]:
  "AccountPropertiesTransactionBufferEnd F = fb_call (fb_EndObject F)"

text \<open>\<open>transactions/aggregate_transaction_buffer.go\<close>\<close>

definition AggregateTransactionBufferStart :: "'b fb_api \<Rightarrow> ('b, unit) fb_prog" where [fb_defs]:
  "AggregateTransactionBufferStart F = fb_do (fb_StartObject F 9)"

definition AggregateTransactionBufferAddTransactionsSize ::
  "'b fb_api \<Rightarrow> u32 \<Rightarrow> ('b, unit) fb_prog" where [fb_defs]:
  "AggregateTransactionBufferAddTransactionsSize F transactionsSize =
     fb_do (fb_PrependUint32Slot F 7 transactionsSize 0)"

definition AggregateTransactionBufferAddTransactions ::
  "'b fb_api \<Rightarrow> u32 \<Rightarrow> ('b, unit) fb_prog" where [fb_defs]:
  "AggregateTransactionBufferAddTransactions F transactions =
     fb_do (fb_PrependUOffsetTSlot F 8 transactions 0)"

text \<open>\<open>transactions/alias_transaction_buffer.go\<close>\<close>

definition AliasTransactionBufferStart :: "'b fb_api \<Rightarrow> ('b, unit) fb_prog" where [fb_defs]:
  "AliasTransactionBufferStart F = fb_do (fb_StartObject F 10)"

definition AliasTransactionBufferAddActionType ::
  "'b fb_api \<Rightarrow> byte \<Rightarrow> ('b, unit) fb_prog" where [fb_defs]:
  "AliasTransactionBufferAddActionType F actionType = fb_do (fb_PrependByteSlot F 7 actionType 0)"

definition AliasTransactionBufferAddNamespaceId ::
  "'b fb_api \<Rightarrow> u32 \<Rightarrow> ('b, unit) fb_prog" where [fb_defs]:
  "AliasTransactionBufferAddNamespaceId F namespaceId = fb_do (fb_PrependUOffsetTSlot F 8 namespaceId 0)"

definition AliasTransactionBufferAddAliasId ::
  "'b fb_api \<Rightarrow> u32 \<Rightarrow> ('b, unit) fb_prog" where [fb_defs]:
  "AliasTransactionBufferAddAliasId F aliasId = fb_do (fb_PrependUOffsetTSlot F 9 aliasId 0)"

text \<open>\<open>transactions/blockchain_update_transaction_buffer.go\<close>\<close>

definition BlockchainUpgradeTransactionBufferStart ::
  "'b fb_api \<Rightarrow> ('b, unit) fb_prog" where [fb_defs]:
  "BlockchainUpgradeTransactionBufferStart F = fb_do (fb_StartObject F 9)"

definition BlockchainUpgradeTransactionBufferAddUpgradePeriod ::
  "'b fb_api \<Rightarrow> u32 \<Rightarrow> ('b, unit) fb_prog" where [fb_defs]:
  "BlockchainUpgradeTransactionBufferAddUpgradePeriod F upgradePeriod =
     fb_do (fb_PrependUOffsetTSlot F 7 upgradePeriod 0)"

definition BlockchainUpgradeTransactionBufferAddNewBlockChainVersion ::
  "'b fb_api \<Rightarrow> u32 \<Rightarrow> ('b, unit) fb_prog" where [fb_defs]:
  "BlockchainUpgradeTransactionBufferAddNewBlockChainVersion F newBlockChainVersion =
     fb_do (fb_PrependUOffsetTSlot F 8 newBlockChainVersion 0)"

text \<open>\<open>transactions/cosignatory_modification_buffer.go\<close>\<close>

definition CosignatoryModificationBufferStart :: "'b fb_api \<Rightarrow> ('b, unit) fb_prog" where [fb_defs]:
  "CosignatoryModificationBufferStart F = fb_do (fb_StartObject F 2)"

definition CosignatoryModificationBufferAddType ::
  "'b fb_api \<Rightarrow> byte \<Rightarrow> ('b, unit) fb_prog" where [fb_defs]:
  "CosignatoryModificationBufferAddType F typ = fb_do (fb_PrependByteSlot F 0 typ 0)"

definition CosignatoryModificationBufferAddCosignatoryPublicKey ::
  "'b fb_api \<Rightarrow> u32 \<Rightarrow> ('b, unit) fb_prog" where [fb_defs]:
  "CosignatoryModificationBufferAddCosignatoryPublicKey F cosignatoryPublicKey =
     fb_do (fb_PrependUOffsetTSlot F 1 cosignatoryPublicKey 0)"

text \<open>\<open>transactions/lock_funds_transaction_buffer.go\<close>\<close>

definition LockFundsTransactionBufferStart :: "'b fb_api \<Rightarrow> ('b, unit) fb_prog" where [fb_defs]:
  "LockFundsTransactionBufferStart F = fb_do (fb_StartObject F 11)"

definition LockFundsTransactionBufferAddMosaicId ::
  "'b fb_api \<Rightarrow> u32 \<Rightarrow> ('b, unit) fb_prog" where [fb_defs]:
  "LockFundsTransactionBufferAddMosaicId F mosaicId = fb_do (fb_PrependUOffsetTSlot F 7 mosaicId 0)"

definition LockFundsTransactionBufferAddMosaicAmount ::
  "'b fb_api \<Rightarrow> u32 \<Rightarrow> ('b, unit) fb_prog" where [fb_defs]:
  "LockFundsTransactionBufferAddMosaicAmount F mosaicAmount =
     fb_do (fb_PrependUOffsetTSlot F 8 mosaicAmount 0)"

definition LockFundsTransactionBufferAddDuration ::
  "'b fb_api \<Rightarrow> u32 \<Rightarrow> ('b, unit) fb_prog" where [fb_defs]:
  "LockFundsTransactionBufferAddDuration F duration = fb_do (fb_PrependUOffsetTSlot F 9 duration 0)"

definition LockFundsTransactionBufferAddHash ::
  "'b fb_api \<Rightarrow> u32 \<Rightarrow> ('b, unit) fb_prog" where [fb_defs]:
  "LockFundsTransactionBufferAddHash F hash = fb_do (fb_PrependUOffsetTSlot F 10 hash 0)"

text \<open>\<open>transactions/message_buffer.go\<close>\<close>

definition MessageBufferStart :: "'b fb_api \<Rightarrow> ('b, unit) fb_prog" where [fb_defs]:
  "MessageBufferStart F = fb_do (fb_StartObject F 2)"

definition MessageBufferAddType ::
  "'b fb_api \<Rightarrow> byte \<Rightarrow> ('b, unit) fb_prog" where [fb_defs]:
  "MessageBufferAddType F typ = fb_do (fb_PrependByteSlot F 0 typ 0)"

definition MessageBufferAddPayload ::
  "'b fb_api \<Rightarrow> u32 \<Rightarrow> ('b, unit) fb_prog" where [fb_defs]:
  "MessageBufferAddPayload F payload = fb_do (fb_PrependUOffsetTSlot F 1 payload 0)"

text \<open>\<open>transactions/modify_contract_transaction_buffer.go\<close>\<close>

definition ModifyContractTransactionBufferStart ::
  "'b fb_api \<Rightarrow> ('b, unit) fb_prog" where [fb_defs]:
  "ModifyContractTransactionBufferStart F = fb_do (fb_StartObject F 15)"

definition ModifyContractTransactionBufferAddDurationDelta ::
  "'b fb_api \<Rightarrow> u32 \<Rightarrow> ('b, unit) fb_prog" where [fb_defs]:
  "ModifyContractTransactionBufferAddDurationDelta F durationDelta =
     fb_do (fb_PrependUOffsetTSlot F 7 durationDelta 0)"

definition ModifyContractTransactionBufferAddHash ::
  "'b fb_api \<Rightarrow> u32 \<Rightarrow> ('b, unit) fb_prog" where [fb_defs]:
  "ModifyContractTransactionBufferAddHash F hash = fb_do (fb_PrependUOffsetTSlot F 8 hash 0)"

definition ModifyContractTransactionBufferAddNumCustomers ::
  "'b fb_api \<Rightarrow> byte \<Rightarrow> ('b, unit) fb_prog" where [fb_defs]:
  "ModifyContractTransactionBufferAddNumCustomers F numCustomers =
     fb_do (fb_PrependByteSlot F 9 numCustomers 0)"

definition ModifyContractTransactionBufferAddNumExecutors ::
  "'b fb_api \<Rightarrow> byte \<Rightarrow> ('b, unit) fb_prog" where [fb_defs]:
  "ModifyContractTransactionBufferAddNumExecutors F numExecutors =
     fb_do (fb_PrependByteSlot F 10 numExecutors 0)"

definition ModifyContractTransactionBufferAddNumVerifiers ::
  "'b fb_api \<Rightarrow> byte \<Rightarrow> ('b, unit) fb_prog" where [fb_defs]:
  "ModifyContractTransactionBufferAddNumVerifiers F numVerifiers =
     fb_do (fb_PrependByteSlot F 11 numVerifiers 0)"

definition ModifyContractTransactionBufferAddCustomers ::
  "'b fb_api \<Rightarrow> u32 \<Rightarrow> ('b, unit) fb_prog" where [fb_defs]:
  "ModifyContractTransactionBufferAddCustomers F customers = fb_do (fb_PrependUOffsetTSlot F 12 customers 0)"

definition ModifyContractTransactionBufferAddExecutors ::
  "'b fb_api \<Rightarrow> u32 \<Rightarrow> ('b, unit) fb_prog" where [fb_defs]:
  "ModifyContractTransactionBufferAddExecutors F executors = fb_do (fb_PrependUOffsetTSlot F 13 executors 0)"

definition ModifyContractTransactionBufferAddVerifiers ::
  "'b fb_api \<Rightarrow> u32 \<Rightarrow> ('b, unit) fb_prog" where [fb_defs]:
  "ModifyContractTransactionBufferAddVerifiers F verifiers = fb_do (fb_PrependUOffsetTSlot F 14 verifiers 0)"

text \<open>\<open>transactions/modify_metadata_transaction_buffer.go\<close>\<close>

definition MetadataModificationBufferStart :: "'b fb_api \<Rightarrow> ('b, unit) fb_prog" where [fb_defs]:
  "MetadataModificationBufferStart F = fb_do (fb_StartObject F 6)"

definition MetadataModificationBufferAddSize ::
  "'b fb_api \<Rightarrow> u32 \<Rightarrow> ('b, unit) fb_prog" where [fb_defs]:
  "MetadataModificationBufferAddSize F sz = fb_do (fb_PrependUint32Slot F 0 sz 0)"

definition MetadataModificationBufferAddModificationType ::
  "'b fb_api \<Rightarrow> byte \<Rightarrow> ('b, unit) fb_prog" where [fb_defs]:
  "MetadataModificationBufferAddModificationType F modificationType =
     fb_do (fb_PrependByteSlot F 1 modificationType 0)"

definition MetadataModificationBufferAddKeySize ::
  "'b fb_api \<Rightarrow> byte \<Rightarrow> ('b, unit) fb_prog" where [fb_defs]:
  "MetadataModificationBufferAddKeySize F keySize = fb_do (fb_PrependByteSlot F 2 keySize 0)"

definition MetadataModificationBufferAddValueSize ::
  "'b fb_api \<Rightarrow> u32 \<Rightarrow> ('b, unit) fb_prog" where [fb_defs]:
  "MetadataModificationBufferAddValueSize F valueSize = fb_do (fb_PrependUOffsetTSlot F 3 valueSize 0)"

definition MetadataModificationBufferAddKey ::
  "'b fb_api \<Rightarrow> u32 \<Rightarrow> ('b, unit) fb_prog" where [fb_defs]:
  "MetadataModificationBufferAddKey F key = fb_do (fb_PrependUOffsetTSlot F 4 key 0)"

definition MetadataModificationBufferAddValue ::
  "'b fb_api \<Rightarrow> u32 \<Rightarrow> ('b, unit) fb_prog" where [fb_defs]:
  "MetadataModificationBufferAddValue F value = fb_do (fb_PrependUOffsetTSlot F 5 value 0)"

definition MetadataModificationBufferEnd :: "'b fb_api \<Rightarrow> ('b, u32) fb_prog" where [fb_defs]:
  "MetadataModificationBufferEnd F = fb_call (fb_EndObject F)"

definition ModifyMetadataTransactionBufferStart ::
  "'b fb_api \<Rightarrow> ('b, unit) fb_prog" where [fb_defs]:
  "ModifyMetadataTransactionBufferStart F = fb_do (fb_StartObject F 10)"

definition ModifyMetadataTransactionBufferAddMetadataType ::
  "'b fb_api \<Rightarrow> byte \<Rightarrow> ('b, unit) fb_prog" where [fb_defs]:
  "ModifyMetadataTransactionBufferAddMetadataType F metadataType =
     fb_do (fb_PrependByteSlot F 7 metadataType 0)"

definition ModifyMetadataTransactionBufferAddMetadataId ::
  "'b fb_api \<Rightarrow> u32 \<Rightarrow> ('b, unit) fb_prog" where [fb_defs]:
  "ModifyMetadataTransactionBufferAddMetadataId F metadataId =
     fb_do (fb_PrependUOffsetTSlot F 8 metadataId 0)"

definition ModifyMetadataTransactionBufferAddModifications ::
  "'b fb_api \<Rightarrow> u32 \<Rightarrow> ('b, unit) fb_prog" where [fb_defs]:
  "ModifyMetadataTransactionBufferAddModifications F modifications =
     fb_do (fb_PrependUOffsetTSlot F 9 modifications 0)"

text \<open>\<open>transactions/modify_multisig_account_transaction_buffer.go\<close>\<close>

definition ModifyMultisigAccountTransactionBufferStart ::
  "'b fb_api \<Rightarrow> ('b, unit) fb_prog" where [fb_defs]:
  "ModifyMultisigAccountTransactionBufferStart F = fb_do (fb_StartObject F 11)"

definition ModifyMultisigAccountTransactionBufferAddMinRemovalDelta ::
  "'b fb_api \<Rightarrow> 8 word \<Rightarrow> ('b, unit) fb_prog" where [fb_defs]:
  "ModifyMultisigAccountTransactionBufferAddMinRemovalDelta F minRemovalDelta =
     fb_do (fb_PrependInt8Slot F 7 minRemovalDelta 0)"

definition ModifyMultisigAccountTransactionBufferAddMinApprovalDelta ::
  "'b fb_api \<Rightarrow> 8 word \<Rightarrow> ('b, unit) fb_prog" where [fb_defs]:
  "ModifyMultisigAccountTransactionBufferAddMinApprovalDelta F minApprovalDelta =
     fb_do (fb_PrependInt8Slot F 8 minApprovalDelta 0)"

definition ModifyMultisigAccountTransactionBufferAddNumModifications ::
  "'b fb_api \<Rightarrow> byte \<Rightarrow> ('b, unit) fb_prog" where [fb_defs]:
  "ModifyMultisigAccountTransactionBufferAddNumModifications F numModifications =
     fb_do (fb_PrependByteSlot F 9 numModifications 0)"

definition ModifyMultisigAccountTransactionBufferAddModifications ::
  "'b fb_api \<Rightarrow> u32 \<Rightarrow> ('b, unit) fb_prog" where [fb_defs]:
  "ModifyMultisigAccountTransactionBufferAddModifications F modifications =
     fb_do (fb_PrependUOffsetTSlot F 10 modifications 0)"

text \<open>\<open>transactions/mosaic_buffer.go\<close>\<close>

definition MosaicBufferStart :: "'b fb_api \<Rightarrow> ('b, unit) fb_prog" where [fb_defs]:
  "MosaicBufferStart F = fb_do (fb_StartObject F 2)"

definition MosaicBufferAddId ::
  "'b fb_api \<Rightarrow> u32 \<Rightarrow> ('b, unit) fb_prog" where [fb_defs]:
  "MosaicBufferAddId F idV = fb_do (fb_PrependUOffsetTSlot F 0 idV 0)"

definition MosaicBufferAddAmount ::
  "'b fb_api \<Rightarrow> u32 \<Rightarrow> ('b, unit) fb_prog" where [fb_defs]:
  "MosaicBufferAddAmount F amount = fb_do (fb_PrependUOffsetTSlot F 1 amount 0)"

definition MosaicBufferEnd :: "'b fb_api \<Rightarrow> ('b, u32) fb_prog" where [fb_defs]:
  "MosaicBufferEnd F = fb_call (fb_EndObject F)"

text \<open>\<open>transactions/mosaic_definition_transaction_buffer.go\<close>\<close>

definition MosaicPropertyStart :: "'b fb_api \<Rightarrow> ('b, unit) fb_prog" where [fb_defs]:
  "MosaicPropertyStart F = fb_do (fb_StartObject F 2)"

definition MosaicPropertyAddMosaicPropertyId ::
  "'b fb_api \<Rightarrow> byte \<Rightarrow> ('b, unit) fb_prog" where [fb_defs]:
  "MosaicPropertyAddMosaicPropertyId F mosaicPropertyId = fb_do (fb_PrependByteSlot F 0 mosaicPropertyId 0)"

definition MosaicPropertyAddValue ::
  "'b fb_api \<Rightarrow> u32 \<Rightarrow> ('b, unit) fb_prog" where [fb_defs]:
  "MosaicPropertyAddValue F value = fb_do (fb_PrependUOffsetTSlot F 1 value 0)"

definition MosaicDefinitionTransactionBufferStart ::
  "'b fb_api \<Rightarrow> ('b, unit) fb_prog" where [fb_defs]:
  "MosaicDefinitionTransactionBufferStart F = fb_do (fb_StartObject F 13)"

definition MosaicDefinitionTransactionBufferAddMosaicNonce ::
  "'b fb_api \<Rightarrow> u32 \<Rightarrow> ('b, unit) fb_prog" where [fb_defs]:
  "MosaicDefinitionTransactionBufferAddMosaicNonce F mosaicNonce =
     fb_do (fb_PrependUint32Slot F 7 mosaicNonce 0)"

definition MosaicDefinitionTransactionBufferAddMosaicId ::
  "'b fb_api \<Rightarrow> u32 \<Rightarrow> ('b, unit) fb_prog" where [fb_defs]:
  "MosaicDefinitionTransactionBufferAddMosaicId F mosaicId = fb_do (fb_PrependUOffsetTSlot F 8 mosaicId 0)"

definition MosaicDefinitionTransactionBufferAddNumOptionalProperties ::
  "'b fb_api \<Rightarrow> byte \<Rightarrow> ('b, unit) fb_prog" where [fb_defs]:
  "MosaicDefinitionTransactionBufferAddNumOptionalProperties F numOptionalProperties =
     fb_do (fb_PrependByteSlot F 9 numOptionalProperties 0)"

definition MosaicDefinitionTransactionBufferAddFlags ::
  "'b fb_api \<Rightarrow> byte \<Rightarrow> ('b, unit) fb_prog" where [fb_defs]:
  "MosaicDefinitionTransactionBufferAddFlags F flags = fb_do (fb_PrependByteSlot F 10 flags 0)"

definition MosaicDefinitionTransactionBufferAddDivisibility ::
  "'b fb_api \<Rightarrow> byte \<Rightarrow> ('b, unit) fb_prog" where [fb_defs]:
  "MosaicDefinitionTransactionBufferAddDivisibility F divisibility =
     fb_do (fb_PrependByteSlot F 11 divisibility 0)"

definition MosaicDefinitionTransactionBufferAddOptionalProperties ::
  "'b fb_api \<Rightarrow> u32 \<Rightarrow> ('b, unit) fb_prog" where [fb_defs]:
  "MosaicDefinitionTransactionBufferAddOptionalProperties F optionalProperties =
     fb_do (fb_PrependUOffsetTSlot F 12 optionalProperties 0)"

text \<open>\<open>transactions/mosaic_supply_change_transaction_buffer.go\<close>\<close>

definition MosaicSupplyChangeTransactionBufferStart ::
  "'b fb_api \<Rightarrow> ('b, unit) fb_prog" where [fb_defs]:
  "MosaicSupplyChangeTransactionBufferStart F = fb_do (fb_StartObject F 10)"

definition MosaicSupplyChangeTransactionBufferAddMosaicId ::
  "'b fb_api \<Rightarrow> u32 \<Rightarrow> ('b, unit) fb_prog" where [fb_defs]:
  "MosaicSupplyChangeTransactionBufferAddMosaicId F mosaicId = fb_do (fb_PrependUOffsetTSlot F 7 mosaicId 0)"

definition MosaicSupplyChangeTransactionBufferAddDirection ::
  "'b fb_api \<Rightarrow> byte \<Rightarrow> ('b, unit) fb_prog" where [fb_defs]:
  "MosaicSupplyChangeTransactionBufferAddDirection F direction = fb_do (fb_PrependByteSlot F 8 direction 0)"

definition MosaicSupplyChangeTransactionBufferAddDelta ::
  "'b fb_api \<Rightarrow> u32 \<Rightarrow> ('b, unit) fb_prog" where [fb_defs]:
  "MosaicSupplyChangeTransactionBufferAddDelta F delta = fb_do (fb_PrependUOffsetTSlot F 9 delta 0)"

text \<open>\<open>transactions/network_config_transaction_buffer.go\<close>\<close>

definition NetworkConfigTransactionBufferStart ::
  "'b fb_api \<Rightarrow> ('b, unit) fb_prog" where [fb_defs]:
  "NetworkConfigTransactionBufferStart F = fb_do (fb_StartObject F 12)"

definition NetworkConfigTransactionBufferAddApplyHeightDelta ::
  "'b fb_api \<Rightarrow> u32 \<Rightarrow> ('b, unit) fb_prog" where [fb_defs]:
  "NetworkConfigTransactionBufferAddApplyHeightDelta F applyHeightDelta =
     fb_do (fb_PrependUOffsetTSlot F 7 applyHeightDelta 0)"

definition NetworkConfigTransactionBufferAddNetworkConfigSize ::
  "'b fb_api \<Rightarrow> u16 \<Rightarrow> ('b, unit) fb_prog" where [fb_defs]:
  "NetworkConfigTransactionBufferAddNetworkConfigSize F networkConfigSize =
     fb_do (fb_PrependUint16Slot F 8 networkConfigSize 0)"

definition NetworkConfigTransactionBufferAddSupportedEntityVersionsSize ::
  "'b fb_api \<Rightarrow> u16 \<Rightarrow> ('b, unit) fb_prog" where [fb_defs]:
  "NetworkConfigTransactionBufferAddSupportedEntityVersionsSize F supportedEntityVersionsSize =
     fb_do (fb_PrependUint16Slot F 9 supportedEntityVersionsSize 0)"

definition NetworkConfigTransactionBufferAddNetworkConfig ::
  "'b fb_api \<Rightarrow> u32 \<Rightarrow> ('b, unit) fb_prog" where [fb_defs]:
  "NetworkConfigTransactionBufferAddNetworkConfig F networkConfig =
     fb_do (fb_PrependUOffsetTSlot F 10 networkConfig 0)"

definition NetworkConfigTransactionBufferAddSupportedEntityVersions ::
  "'b fb_api \<Rightarrow> u32 \<Rightarrow> ('b, unit) fb_prog" where [fb_defs]:
  "NetworkConfigTransactionBufferAddSupportedEntityVersions F supportedEntityVersions =
     fb_do (fb_PrependUOffsetTSlot F 11 supportedEntityVersions 0)"

definition NetworkConfigTransactionBufferEnd :: "'b fb_api \<Rightarrow> ('b, u32) fb_prog" where [fb_defs]:
  "NetworkConfigTransactionBufferEnd F = fb_call (fb_EndObject F)"

text \<open>\<open>transactions/register_namespace_transaction_buffer.go\<close>\<close>

definition RegisterNamespaceTransactionBufferStart ::
  "'b fb_api \<Rightarrow> ('b, unit) fb_prog" where [fb_defs]:
  "RegisterNamespaceTransactionBufferStart F = fb_do (fb_StartObject F 12)"

definition RegisterNamespaceTransactionBufferAddNamespaceType ::
  "'b fb_api \<Rightarrow> byte \<Rightarrow> ('b, unit) fb_prog" where [fb_defs]:
  "RegisterNamespaceTransactionBufferAddNamespaceType F namespaceType =
     fb_do (fb_PrependByteSlot F 7 namespaceType 0)"

definition RegisterNamespaceTransactionBufferAddDurationParentId ::
  "'b fb_api \<Rightarrow> u32 \<Rightarrow> ('b, unit) fb_prog" where [fb_defs]:
  "RegisterNamespaceTransactionBufferAddDurationParentId F durationParentId =
     fb_do (fb_PrependUOffsetTSlot F 8 durationParentId 0)"

definition RegisterNamespaceTransactionBufferAddNamespaceId ::
  "'b fb_api \<Rightarrow> u32 \<Rightarrow> ('b, unit) fb_prog" where [fb_defs]:
  "RegisterNamespaceTransactionBufferAddNamespaceId F namespaceId =
     fb_do (fb_PrependUOffsetTSlot F 9 namespaceId 0)"

definition RegisterNamespaceTransactionBufferAddNamespaceNameSize ::
  "'b fb_api \<Rightarrow> byte \<Rightarrow> ('b, unit) fb_prog" where [fb_defs]:
  "RegisterNamespaceTransactionBufferAddNamespaceNameSize F namespaceNameSize =
     fb_do (fb_PrependByteSlot F 10 namespaceNameSize 0)"

definition RegisterNamespaceTransactionBufferAddNamespaceName ::
  "'b fb_api \<Rightarrow> u32 \<Rightarrow> ('b, unit) fb_prog" where [fb_defs]:
  "RegisterNamespaceTransactionBufferAddNamespaceName F namespaceName =
     fb_do (fb_PrependUOffsetTSlot F 11 namespaceName 0)"

text \<open>\<open>transactions/secret_lock_transaction_buffer.go\<close>\<close>

definition SecretLockTransactionBufferStart :: "'b fb_api \<Rightarrow> ('b, unit) fb_prog" where [fb_defs]:
  "SecretLockTransactionBufferStart F = fb_do (fb_StartObject F 13)"

definition SecretLockTransactionBufferAddMosaicId ::
  "'b fb_api \<Rightarrow> u32 \<Rightarrow> ('b, unit) fb_prog" where [fb_defs]:
  "SecretLockTransactionBufferAddMosaicId F mosaicId = fb_do (fb_PrependUOffsetTSlot F 7 mosaicId 0)"

definition SecretLockTransactionBufferAddMosaicAmount ::
  "'b fb_api \<Rightarrow> u32 \<Rightarrow> ('b, unit) fb_prog" where [fb_defs]:
  "SecretLockTransactionBufferAddMosaicAmount F mosaicAmount =
     fb_do (fb_PrependUOffsetTSlot F 8 mosaicAmount 0)"

definition SecretLockTransactionBufferAddDuration ::
  "'b fb_api \<Rightarrow> u32 \<Rightarrow> ('b, unit) fb_prog" where [fb_defs]:
  "SecretLockTransactionBufferAddDuration F duration = fb_do (fb_PrependUOffsetTSlot F 9 duration 0)"

definition SecretLockTransactionBufferAddHashAlgorithm ::
  "'b fb_api \<Rightarrow> byte \<Rightarrow> ('b, unit) fb_prog" where [fb_defs]:
  "SecretLockTransactionBufferAddHashAlgorithm F hashAlgorithm =
     fb_do (fb_PrependByteSlot F 10 hashAlgorithm 0)"

definition SecretLockTransactionBufferAddSecret ::
  "'b fb_api \<Rightarrow> u32 \<Rightarrow> ('b, unit) fb_prog" where [fb_defs]:
  "SecretLockTransactionBufferAddSecret F secret = fb_do (fb_PrependUOffsetTSlot F 11 secret 0)"

definition SecretLockTransactionBufferAddRecipient ::
  "'b fb_api \<Rightarrow> u32 \<Rightarrow> ('b, unit) fb_prog" where [fb_defs]:
  "SecretLockTransactionBufferAddRecipient F recipient = fb_do (fb_PrependUOffsetTSlot F 12 recipient 0)"

text \<open>\<open>transactions/secret_proof_transaction_buffer.go\<close>\<close>

definition SecretProofTransactionBufferStart :: "'b fb_api \<Rightarrow> ('b, unit) fb_prog" where [fb_defs]:
  "SecretProofTransactionBufferStart F = fb_do (fb_StartObject F 12)"

definition SecretProofTransactionBufferAddHashAlgorithm ::
  "'b fb_api \<Rightarrow> byte \<Rightarrow> ('b, unit) fb_prog" where [fb_defs]:
  "SecretProofTransactionBufferAddHashAlgorithm F hashAlgorithm =
     fb_do (fb_PrependByteSlot F 7 hashAlgorithm 0)"

definition SecretProofTransactionBufferAddSecret ::
  "'b fb_api \<Rightarrow> u32 \<Rightarrow> ('b, unit) fb_prog" where [fb_defs]:
  "SecretProofTransactionBufferAddSecret F secret = fb_do (fb_PrependUOffsetTSlot F 8 secret 0)"

definition SecretProofTransactionBufferAddRecipient ::
  "'b fb_api \<Rightarrow> u32 \<Rightarrow> ('b, unit) fb_prog" where [fb_defs]:
  "SecretProofTransactionBufferAddRecipient F recipient = fb_do (fb_PrependUOffsetTSlot F 9 recipient 0)"

definition SecretProofTransactionBufferAddProofSize ::
  "'b fb_api \<Rightarrow> u16 \<Rightarrow> ('b, unit) fb_prog" where [fb_defs]:
  "SecretProofTransactionBufferAddProofSize F proofSize = fb_do (fb_PrependUint16Slot F 10 proofSize 0)"

definition SecretProofTransactionBufferAddProof ::
  "'b fb_api \<Rightarrow> u32 \<Rightarrow> ('b, unit) fb_prog" where [fb_defs]:
  "SecretProofTransactionBufferAddProof F proof = fb_do (fb_PrependUOffsetTSlot F 11 proof 0)"

text \<open>\<open>transactions/transaction_buffer.go\<close>\<close>

definition TransactionBufferAddSize ::
  "'b fb_api \<Rightarrow> nat \<Rightarrow> ('b, unit) fb_prog" where [fb_defs]:
  "TransactionBufferAddSize F sz = fb_do (fb_PrependUint32Slot F 0 (word_of_nat sz) 0)"

definition TransactionBufferAddSignature ::
  "'b fb_api \<Rightarrow> u32 \<Rightarrow> ('b, unit) fb_prog" where [fb_defs]:
  "TransactionBufferAddSignature F signature = fb_do (fb_PrependUOffsetTSlot F 1 signature 0)"

definition TransactionBufferAddSigner ::
  "'b fb_api \<Rightarrow> u32 \<Rightarrow> ('b, unit) fb_prog" where [fb_defs]:
  "TransactionBufferAddSigner F signer = fb_do (fb_PrependUOffsetTSlot F 2 signer 0)"

definition TransactionBufferAddVersion ::
  "'b fb_api \<Rightarrow> u32 \<Rightarrow> ('b, unit) fb_prog" where [fb_defs]:
  "TransactionBufferAddVersion F version = fb_do (fb_PrependUint32Slot F 3 version 0)"

definition TransactionBufferAddType ::
  "'b fb_api \<Rightarrow> u16 \<Rightarrow> ('b, unit) fb_prog" where [fb_defs]:
  "TransactionBufferAddType F typ = fb_do (fb_PrependUint16Slot F 4 typ 0)"

definition TransactionBufferAddMaxFee ::
  "'b fb_api \<Rightarrow> u32 \<Rightarrow> ('b, unit) fb_prog" where [fb_defs]:
  "TransactionBufferAddMaxFee F maxFee = fb_do (fb_PrependUOffsetTSlot F 5 maxFee 0)"

definition TransactionBufferAddDeadline ::
  "'b fb_api \<Rightarrow> u32 \<Rightarrow> ('b, unit) fb_prog" where [fb_defs]:
  "TransactionBufferAddDeadline F deadline = fb_do (fb_PrependUOffsetTSlot F 6 deadline 0)"

definition TransactionBufferEnd :: "'b fb_api \<Rightarrow> ('b, u32) fb_prog" where [fb_defs]:
  "TransactionBufferEnd F = fb_call (fb_EndObject F)"

text \<open>\<open>transactions/transfer_transaction_buffer.go\<close>\<close>

definition TransferTransactionBufferStart :: "'b fb_api \<Rightarrow> ('b, unit) fb_prog" where [fb_defs]:
  "TransferTransactionBufferStart F = fb_do (fb_StartObject F 12)"

definition TransferTransactionBufferAddRecipient ::
  "'b fb_api \<Rightarrow> u32 \<Rightarrow> ('b, unit) fb_prog" where [fb_defs]:
  "TransferTransactionBufferAddRecipient F recipient = fb_do (fb_PrependUOffsetTSlot F 7 recipient 0)"

definition TransferTransactionBufferAddMessageSize ::
  "'b fb_api \<Rightarrow> u16 \<Rightarrow> ('b, unit) fb_prog" where [fb_defs]:
  "TransferTransactionBufferAddMessageSize F messageSize = fb_do (fb_PrependUint16Slot F 8 messageSize 0)"

definition TransferTransactionBufferAddNumMosaics ::
  "'b fb_api \<Rightarrow> byte \<Rightarrow> ('b, unit) fb_prog" where [fb_defs]:
  "TransferTransactionBufferAddNumMosaics F numMosaics = fb_do (fb_PrependByteSlot F 9 numMosaics 0)"

definition TransferTransactionBufferAddMessage ::
  "'b fb_api \<Rightarrow> u32 \<Rightarrow> ('b, unit) fb_prog" where [fb_defs]:
  "TransferTransactionBufferAddMessage F message = fb_do (fb_PrependUOffsetTSlot F 10 message 0)"

definition TransferTransactionBufferAddMosaics ::
  "'b fb_api \<Rightarrow> u32 \<Rightarrow> ('b, unit) fb_prog" where [fb_defs]:
  "TransferTransactionBufferAddMosaics F mosaics = fb_do (fb_PrependUOffsetTSlot F 11 mosaics 0)"


section \<open>What the vectors hold\<close>

context flatbuffers
begin

lemma wp_CreateByteVector [fb_rules]:
  assumes "fbinv R b (Idle l) K u"
    and "\<And>off b'. fbinv R b' (Idle off) ((off, byte_vec data) # K) (u + cost_vec 1 (length data)) \<Longrightarrow> Q off b'"
  shows "fb_wp (TransactionBufferCreateByteVector F data) Q E b"
  unfolding TransactionBufferCreateByteVector_def
proof (rule wp_vector [OF assms(1), where g = "\<lambda>i. Scalar [data ! i]"])
  fix i b fs assume "length fs < length data" "fbinv R b (InVec 1 (length data) fs) K (u + cost_vec 1 (length data))"
  then show "fb_wp (fb_do (fb_PrependByte F (data ! i)))
      (\<lambda>_ b'. fbinv R b' (InVec 1 (length data) (Scalar [data ! i] # fs)) K (u + cost_vec 1 (length data))) E b"
    by - (rule wp_do, rule fbinv_PrependByte, assumption+)
next
  have "map (\<lambda>i. Scalar [data ! i]) [0..<length data] = map (\<lambda>x. Scalar [x]) data"
    by (rule nth_equalityI) simp_all
  then show "Q off b'" if "fbinv R b' (Idle off)
      ((off, FVec 1 (map (\<lambda>i. Scalar [data ! i]) [0..<length data])) # K) (u + cost_vec 1 (length data))" for off b'
    using that assms(2) by (simp add: byte_vec_def)
qed simp

lemma wp_CreateUint32Vector [fb_rules]:
  assumes "fbinv R b (Idle l) K u"
    and "\<And>off b'. fbinv R b' (Idle off) ((off, word_vec data) # K) (u + cost_vec 4 (length data)) \<Longrightarrow> Q off b'"
  shows "fb_wp (TransactionBufferCreateUint32Vector F data) Q E b"
  unfolding TransactionBufferCreateUint32Vector_def
proof (rule wp_vector [OF assms(1), where g = "\<lambda>i. Scalar (le32 (data ! i))"])
  fix i b fs assume "length fs < length data" "fbinv R b (InVec 4 (length data) fs) K (u + cost_vec 4 (length data))"
  then show "fb_wp (fb_do (fb_PrependUint32 F (data ! i)))
      (\<lambda>_ b'. fbinv R b' (InVec 4 (length data) (Scalar (le32 (data ! i)) # fs)) K (u + cost_vec 4 (length data))) E b"
    by - (rule wp_do, rule fbinv_PrependUint32, assumption+)
next
  have "map (\<lambda>i. Scalar (le32 (data ! i))) [0..<length data] = map (\<lambda>x. Scalar (le32 x)) data"
    by (rule nth_equalityI) simp_all
  then show "Q off b'" if "fbinv R b' (Idle off)
      ((off, FVec 4 (map (\<lambda>i. Scalar (le32 (data ! i))) [0..<length data])) # K) (u + cost_vec 4 (length data))" for off b'
    using that assms(2) by (simp add: word_vec_def)
qed simp

lemma wp_CreateUOffsetVector:
  assumes "fbinv R b (Idle l) K u" "holds K data vs"
    and "\<And>off b'. fbinv R b' (Idle off) ((off, ref_vec vs) # K) (u + cost_vec 4 (length vs)) \<Longrightarrow> Q off b'"
  shows "fb_wp (TransactionBufferCreateUOffsetVector F data) Q E b"
  unfolding TransactionBufferCreateUOffsetVector_def TransferTransactionBufferStartMosaicsVector_def
proof (rule wp_vector [OF assms(1), where g = "\<lambda>i. Ref (vs ! i)"])
  fix i b fs
  assume "i < length data" "length fs < length data"
    "fbinv R b (InVec 4 (length data) fs) K (u + cost_vec 4 (length data))"
  moreover have "(data ! i, vs ! i) \<in> set K"
    using assms(2) \<open>i < length data\<close> by (auto simp: holds_def list_all2_conv_all_nth)
  ultimately show "fb_wp (fb_do (fb_PrependUOffsetT F (data ! i)))
      (\<lambda>_ b'. fbinv R b' (InVec 4 (length data) (Ref (vs ! i) # fs)) K (u + cost_vec 4 (length data))) E b"
    by - (rule wp_do, rule fbinv_PrependUOffsetT, assumption+)
next
  have len: "length data = length vs" using assms(2) by (auto simp: holds_def dest: list_all2_lengthD)
  have "map (\<lambda>i. Ref (vs ! i)) [0..<length data] = map Ref vs"
    unfolding len by (rule nth_equalityI) simp_all
  then show "Q off b'" if "fbinv R b' (Idle off)
      ((off, FVec 4 (map (\<lambda>i. Ref (vs ! i)) [0..<length data])) # K) (u + cost_vec 4 (length data))" for off b'
    using that assms(3) len by (simp add: ref_vec_def)
qed simp

end

end
