(* ===== verification/TxSchemas.thy ===== *)
theory TxSchemas
  imports TxBuffers
begin

text \<open>
  The schemas of \<open>sdk/transaction_schema.go\<close>, one per kind of transaction, and what each kind of
  attribute makes of the values the builder functions write. \<open>wire_header\<close> is the part that all
  transactions begin with.
\<close>

section \<open>The schemas\<close>

definition accountLinkTransactionSchema :: "schemaAttribute list" where
  "accountLinkTransactionSchema =
    [scalarAttribute ''size'' IntSize,
     arrayAttribute ''signature'' ByteSize,
     arrayAttribute ''signer'' ByteSize,
     scalarAttribute ''version'' IntSize,
     scalarAttribute ''type'' ShortSize,
     arrayAttribute ''maxFee'' IntSize,
     arrayAttribute ''deadline'' IntSize,
     arrayAttribute ''remoteAccountKey'' ByteSize,
     scalarAttribute ''linkAction'' ByteSize]"

definition accountPropertyTransactionSchema :: "schemaAttribute list" where
  "accountPropertyTransactionSchema =
    [scalarAttribute ''size'' IntSize,
     arrayAttribute ''signature'' ByteSize,
     arrayAttribute ''signer'' ByteSize,
     scalarAttribute ''version'' IntSize,
     scalarAttribute ''type'' ShortSize,
     arrayAttribute ''maxFee'' IntSize,
     arrayAttribute ''deadline'' IntSize,
     scalarAttribute ''propertyType'' ByteSize,
     scalarAttribute ''modificationCount'' ByteSize,
     tableArrayAttribute ''modifications''
       [scalarAttribute ''modificationType'' ByteSize,
        arrayAttribute ''value'' ByteSize]]"

definition aliasTransactionSchema :: "schemaAttribute list" where
  "aliasTransactionSchema =
    [scalarAttribute ''size'' IntSize,
     arrayAttribute ''signature'' ByteSize,
     arrayAttribute ''signer'' ByteSize,
     scalarAttribute ''version'' IntSize,
     scalarAttribute ''type'' ShortSize,
     arrayAttribute ''maxFee'' IntSize,
     arrayAttribute ''deadline'' IntSize,
     scalarAttribute ''actionType'' ByteSize,
     arrayAttribute ''namespaceId'' IntSize,
     arrayAttribute ''aliasId'' ByteSize]"

definition aggregateTransactionSchema :: "schemaAttribute list" where
  "aggregateTransactionSchema =
    [scalarAttribute ''size'' IntSize,
     arrayAttribute ''signature'' ByteSize,
     arrayAttribute ''signer'' ByteSize,
     scalarAttribute ''version'' IntSize,
     scalarAttribute ''type'' ShortSize,
     arrayAttribute ''maxFee'' IntSize,
     arrayAttribute ''deadline'' IntSize,
     scalarAttribute ''transactionsSize'' IntSize,
     arrayAttribute ''transactions'' ByteSize]"

definition networkConfigTransactionSchema :: "schemaAttribute list" where
  "networkConfigTransactionSchema =
    [scalarAttribute ''size'' IntSize,
     arrayAttribute ''signature'' ByteSize,
     arrayAttribute ''signer'' ByteSize,
     scalarAttribute ''version'' IntSize,
     scalarAttribute ''type'' ShortSize,
     arrayAttribute ''maxFee'' IntSize,
     arrayAttribute ''deadline'' IntSize,
     arrayAttribute ''applyHeightDelta'' IntSize,
     scalarAttribute ''networkConfigSize'' ShortSize,
     scalarAttribute ''supportedEntityVersionsSize'' ShortSize,
     arrayAttribute ''networkConfig'' ByteSize,
     arrayAttribute ''supportedEntityVersions'' ByteSize]"

definition blockchainUpgradeTransactionSchema :: "schemaAttribute list" where
  "blockchainUpgradeTransactionSchema =
    [scalarAttribute ''size'' IntSize,
     arrayAttribute ''signature'' ByteSize,
     arrayAttribute ''signer'' ByteSize,
     scalarAttribute ''version'' IntSize,
     scalarAttribute ''type'' ShortSize,
     arrayAttribute ''maxFee'' IntSize,
     arrayAttribute ''deadline'' IntSize,
     arrayAttribute ''upgradePeriod'' IntSize,
     arrayAttribute ''newBlockChainVersion'' IntSize]"

definition modifyMetadataTransactionSchema :: "schemaAttribute list" where
  "modifyMetadataTransactionSchema =
    [scalarAttribute ''size'' IntSize,
     arrayAttribute ''signature'' ByteSize,
     arrayAttribute ''signer'' ByteSize,
     scalarAttribute ''version'' IntSize,
     scalarAttribute ''type'' ShortSize,
     arrayAttribute ''maxFee'' IntSize,
     arrayAttribute ''deadline'' IntSize,
     scalarAttribute ''metadataType'' ByteSize,
     arrayAttribute ''metadataId'' ByteSize,
     tableArrayAttribute ''modifications''
       [scalarAttribute ''size'' IntSize,
        scalarAttribute ''modificationType'' ByteSize,
        scalarAttribute ''keySize'' ByteSize,
        arrayAttribute ''valueSize'' ByteSize,
        arrayAttribute ''key'' ByteSize,
        arrayAttribute ''value'' ByteSize]]"

definition mosaicDefinitionTransactionSchema :: "schemaAttribute list" where
  "mosaicDefinitionTransactionSchema =
    [scalarAttribute ''size'' IntSize,
     arrayAttribute ''signature'' ByteSize,
     arrayAttribute ''signer'' ByteSize,
     scalarAttribute ''version'' IntSize,
     scalarAttribute ''type'' ShortSize,
     arrayAttribute ''maxFee'' IntSize,
     arrayAttribute ''deadline'' IntSize,
     scalarAttribute ''mosaicNonce'' IntSize,
     arrayAttribute ''mosaicId'' IntSize,
     scalarAttribute ''numOptionalProperties'' ByteSize,
     scalarAttribute ''flags'' ByteSize,
     scalarAttribute ''divisibility'' ByteSize,
     tableArrayAttribute ''modifications''
       [scalarAttribute ''mosaicPropertyId'' ByteSize,
        arrayAttribute ''value'' IntSize]]"

definition mosaicSupplyChangeTransactionSchema :: "schemaAttribute list" where
  "mosaicSupplyChangeTransactionSchema =
    [scalarAttribute ''size'' IntSize,
     arrayAttribute ''signature'' ByteSize,
     arrayAttribute ''signer'' ByteSize,
     scalarAttribute ''version'' IntSize,
     scalarAttribute ''type'' ShortSize,
     arrayAttribute ''maxFee'' IntSize,
     arrayAttribute ''deadline'' IntSize,
     arrayAttribute ''mosaicId'' IntSize,
     scalarAttribute ''direction'' ByteSize,
     arrayAttribute ''delta'' IntSize]"

definition transferTransactionSchema :: "schemaAttribute list" where
  "transferTransactionSchema =
    [scalarAttribute ''size'' IntSize,
     arrayAttribute ''signature'' ByteSize,
     arrayAttribute ''signer'' ByteSize,
     scalarAttribute ''version'' IntSize,
     scalarAttribute ''type'' ShortSize,
     arrayAttribute ''maxFee'' IntSize,
     arrayAttribute ''deadline'' IntSize,
     arrayAttribute ''recipient'' ByteSize,
     scalarAttribute ''messageSize'' ShortSize,
     scalarAttribute ''numMosaics'' ByteSize,
     tableAttribute ''message''
       [scalarAttribute ''type'' ByteSize,
        arrayAttribute ''payload'' ByteSize],
     tableArrayAttribute ''mosaics''
       [arrayAttribute ''id'' IntSize,
        arrayAttribute ''amount'' IntSize]]"

definition modifyMultisigAccountTransactionSchema :: "schemaAttribute list" where
  "modifyMultisigAccountTransactionSchema =
    [scalarAttribute ''size'' IntSize,
     arrayAttribute ''signature'' ByteSize,
     arrayAttribute ''signer'' ByteSize,
     scalarAttribute ''version'' IntSize,
     scalarAttribute ''type'' ShortSize,
     arrayAttribute ''maxFee'' IntSize,
     arrayAttribute ''deadline'' IntSize,
     scalarAttribute ''minRemovalDelta'' ByteSize,
     scalarAttribute ''minApprovalDelta'' ByteSize,
     scalarAttribute ''numModifications'' ByteSize,
     tableArrayAttribute ''modification''
       [scalarAttribute ''type'' ByteSize,
        arrayAttribute ''cosignatoryPublicKey'' ByteSize]]"

definition modifyContractTransactionSchema :: "schemaAttribute list" where
  "modifyContractTransactionSchema =
    [scalarAttribute ''size'' IntSize,
     arrayAttribute ''signature'' ByteSize,
     arrayAttribute ''signer'' ByteSize,
     scalarAttribute ''version'' IntSize,
     scalarAttribute ''type'' ShortSize,
     arrayAttribute ''maxFee'' IntSize,
     arrayAttribute ''deadline'' IntSize,
     arrayAttribute ''durationDelta'' IntSize,
     arrayAttribute ''hash'' ByteSize,
     scalarAttribute ''numCustomers'' ByteSize,
     scalarAttribute ''numExecutors'' ByteSize,
     scalarAttribute ''numVerifiers'' ByteSize,
     tableArrayAttribute ''customers''
       [scalarAttribute ''type'' ByteSize,
        arrayAttribute ''cosignatoryPublicKey'' ByteSize],
     tableArrayAttribute ''executors''
       [scalarAttribute ''type'' ByteSize,
        arrayAttribute ''cosignatoryPublicKey'' ByteSize],
     tableArrayAttribute ''verifiers''
       [scalarAttribute ''type'' ByteSize,
        arrayAttribute ''cosignatoryPublicKey'' ByteSize]]"

definition registerNamespaceTransactionSchema :: "schemaAttribute list" where
  "registerNamespaceTransactionSchema =
    [scalarAttribute ''size'' IntSize,
     arrayAttribute ''signature'' ByteSize,
     arrayAttribute ''signer'' ByteSize,
     scalarAttribute ''version'' IntSize,
     scalarAttribute ''type'' ShortSize,
     arrayAttribute ''maxFee'' IntSize,
     arrayAttribute ''deadline'' IntSize,
     scalarAttribute ''namespaceType'' ByteSize,
     arrayAttribute ''durationParentId'' IntSize,
     arrayAttribute ''namespaceId'' IntSize,
     scalarAttribute ''namespaceNameSize'' ByteSize,
     arrayAttribute ''name'' ByteSize]"

definition lockFundsTransactionSchema :: "schemaAttribute list" where
  "lockFundsTransactionSchema =
    [scalarAttribute ''size'' IntSize,
     arrayAttribute ''signature'' ByteSize,
     arrayAttribute ''signer'' ByteSize,
     scalarAttribute ''version'' IntSize,
     scalarAttribute ''type'' ShortSize,
     arrayAttribute ''maxFee'' IntSize,
     arrayAttribute ''deadline'' IntSize,
     arrayAttribute ''mosaicId'' IntSize,
     arrayAttribute ''mosaicAmount'' IntSize,
     arrayAttribute ''duration'' IntSize,
     arrayAttribute ''hash'' ByteSize]"

definition secretLockTransactionSchema :: "schemaAttribute list" where
  "secretLockTransactionSchema =
    [scalarAttribute ''size'' IntSize,
     arrayAttribute ''signature'' ByteSize,
     arrayAttribute ''signer'' ByteSize,
     scalarAttribute ''version'' IntSize,
     scalarAttribute ''type'' ShortSize,
     arrayAttribute ''maxFee'' IntSize,
     arrayAttribute ''deadline'' IntSize,
     arrayAttribute ''mosaicId'' IntSize,
     arrayAttribute ''mosaicAmount'' IntSize,
     arrayAttribute ''duration'' IntSize,
     scalarAttribute ''hashAlgorithm'' ByteSize,
     arrayAttribute ''secret'' ByteSize,
     arrayAttribute ''recipient'' ByteSize]"

definition secretProofTransactionSchema :: "schemaAttribute list" where
  "secretProofTransactionSchema =
    [scalarAttribute ''size'' IntSize,
     arrayAttribute ''signature'' ByteSize,
     arrayAttribute ''signer'' ByteSize,
     scalarAttribute ''version'' IntSize,
     scalarAttribute ''type'' ShortSize,
     arrayAttribute ''maxFee'' IntSize,
     arrayAttribute ''deadline'' IntSize,
     scalarAttribute ''hashAlgorithm'' ByteSize,
     arrayAttribute ''secret'' ByteSize,
     arrayAttribute ''recipient'' ByteSize,
     scalarAttribute ''proofSize'' ShortSize,
     arrayAttribute ''proof'' ByteSize]"
lemmas schema_defs =
  accountLinkTransactionSchema_def accountPropertyTransactionSchema_def
  aliasTransactionSchema_def aggregateTransactionSchema_def
  networkConfigTransactionSchema_def blockchainUpgradeTransactionSchema_def
  modifyMetadataTransactionSchema_def mosaicDefinitionTransactionSchema_def
  mosaicSupplyChangeTransactionSchema_def transferTransactionSchema_def
  modifyMultisigAccountTransactionSchema_def modifyContractTransactionSchema_def
  registerNamespaceTransactionSchema_def lockFundsTransactionSchema_def
  secretLockTransactionSchema_def secretProofTransactionSchema_def

section \<open>The bytes of the attributes\<close>

text \<open>A scalar that is zero takes one byte on the wire.\<close>

definition wire16 :: "u16 \<Rightarrow> byte list" where
  "wire16 x = (if x = 0 then [0] else le16 x)"

definition wire32 :: "u32 \<Rightarrow> byte list" where
  "wire32 x = (if x = 0 then [0] else le32 x)"

definition wire_words :: "u32 \<times> u32 \<Rightarrow> byte list" where
  "wire_words a = le32 (fst a) @ le32 (snd a)"

lemma length_wire [simp, go_len]:
  "length (wire16 x) = (if x = 0 then 1 else 2)" "length (wire32 y) = (if y = 0 then 1 else 4)"
  "length (wire_words a) = 8"
  by (simp_all add: wire16_def wire32_def wire_words_def)

named_theorems flatten_rules \<open>what a schema makes of the slots of a table\<close>

lemma size_words [flatten_rules]: "unat ByteSize = 1" "unat ShortSize = 2" "unat IntSize = 4"
  by (simp_all add: ByteSize_def ShortSize_def IntSize_def)

lemma flatten_scalars [flatten_rules]:
  "flatten_attr (scalarAttribute n ByteSize) (sc8 x) = Some [x]"
  "flatten_attr (scalarAttribute n ShortSize) (sc16 y) = Some (wire16 y)"
  "flatten_attr (scalarAttribute n IntSize) (sc32 z) = Some (wire32 z)"
  by (simp_all add: sc8_def sc16_def sc32_def wire16_def wire32_def size_words)

lemma concat_singletons: "concat (map (\<lambda>x. [x]) xs) = xs"
  by (induction xs) simp_all

lemma flatten_byte_vec [flatten_rules]:
  "flatten_attr (arrayAttribute n ByteSize) (Ref (byte_vec bs)) = Some bs"
  by (simp add: byte_vec_def size_words comp_def list_all_iff concat_singletons)

lemma flatten_word_vec [flatten_rules]:
  "flatten_attr (arrayAttribute n IntSize) (Ref (word_vec (words2 a))) = Some (wire_words a)"
  by (simp add: word_vec_def size_words words2_def wire_words_def)

lemma flatten_string_vec [flatten_rules]:
  "flatten_attr (arrayAttribute n ByteSize) (Ref (string_vec s)) = Some (string_bytes s)"
  unfolding string_vec_eq by (rule flatten_byte_vec)

lemma flatten_elems_tables:
  "(\<And>x. x \<in> set xs \<Longrightarrow> flatten_fields s (g x) = Some (h x)) \<Longrightarrow>
     flatten_elems s (map (\<lambda>x. Ref (FTable (g x))) xs) = Some (concat (map h xs))"
  by (induction xs) simp_all

lemma flatten_tables:
  assumes "\<And>x. x \<in> set xs \<Longrightarrow> flatten_fields s (g x) = Some (h x)"
  shows "flatten_attr (tableArrayAttribute n s) (Ref (ref_vec (map (\<lambda>x. FTable (g x)) xs))) = Some (concat (map h xs))"
  using flatten_elems_tables [OF assms] by (simp add: ref_vec_def comp_def)

lemma flatten_step [flatten_rules]:
  "flatten_attr a g = Some bs \<Longrightarrow> flatten_fields as gs = Some cs \<Longrightarrow>
     flatten_fields (a # as) (g # gs) = Some (bs @ cs)"
  by simp

lemma flatten_table [flatten_rules]:
  "flatten_fields s gs = Some bs \<Longrightarrow> flatten_attr (tableAttribute n s) (Ref (FTable gs)) = Some bs"
  by simp

lemma flatten_done [flatten_rules]: "flatten_fields [] gs = Some []"
  by simp

end
