(* ===== verification/FbSymbolic.thy ===== *)
theory FbSymbolic
  imports TxSchemas
begin

text \<open>
  Symbolic execution of builder programs. \<open>fb_sym R p m K u Q E\<close>: from every builder of which the
  assertion \<open>fbinv\<close> holds with mode \<open>m\<close>, known objects \<open>K\<close> and cost \<open>u\<close>, the program \<open>p\<close> returns an
  error of \<open>E\<close>, or a value and a builder with mode, known objects and cost of \<open>Q\<close>. The collection
  \<open>fb_sym_rules\<close> has one introduction rule per step, with the premise that continues the program before
  its side conditions: \<open>(rule fb_sym_rules known_rules)+\<close> runs a program and leaves the final value and
  the side conditions (slots in range and unused, errors).
\<close>

section \<open>Finishing a buffer\<close>

text \<open>\<open>builder.Finish(t)\<close>, then \<open>schema.serialize(builder.FinishedBytes())\<close>.\<close>

definition fb_finish :: "'b fb_api \<Rightarrow> schemaAttribute list \<Rightarrow> u32 \<Rightarrow> ('b, byte list) fb_prog" where
  "fb_finish F sch t =
     fb_then (fb_do (fb_Finish F t)) (fb_read (\<lambda>builder. schema_serialize sch (fb_FinishedBytes F builder)))"

context flatbuffers
begin

lemma finish_bytes:
  assumes "fbinv R b (Idle off) ((off, FTable fs) # K) u" "u \<le> fb_limit" "length fs \<le> 100"
    and "size_list size sch < 1000" "flatten_fields sch fs = Some bs"
  shows "schema_serialize sch (fb_FinishedBytes F (fb_Finish F off b)) = Inr bs"
proof -
  obtain s where s: "R b s" "st_mode s = Idle off" "st_used s \<le> u" "knows s ((off, FTable fs) # K)"
    using assms(1,2) by (auto simp: fbinv_def)
  then have "st_vals s off = Some (FTable fs)" by (auto simp: knows_def)
  from Finish [OF s(1,2) this assms(3)] s(3) assms(2) show ?thesis
    by (intro schema_serialize_correct [OF _ _ _ assms(5,4)]) simp_all
qed

end

section \<open>Symbolic states\<close>

definition fb_sym ::
  "('b \<Rightarrow> fbstate \<Rightarrow> bool) \<Rightarrow> ('b, 'a) fb_prog \<Rightarrow> fbmode \<Rightarrow> (u32 \<times> fbval) list \<Rightarrow> nat
   \<Rightarrow> ('a \<Rightarrow> fbmode \<Rightarrow> (u32 \<times> fbval) list \<Rightarrow> nat \<Rightarrow> bool) \<Rightarrow> (go_error \<Rightarrow> bool) \<Rightarrow> bool" where
  "fb_sym R p m K u Q E \<longleftrightarrow>
     (\<forall>b. fbinv R b m K u \<longrightarrow>
        fb_wp p (\<lambda>x b'. \<exists>m' K' u'. fbinv R b' m' K' u' \<and> Q x m' K' u') E b)"

named_theorems fb_sym_rules \<open>the steps of symbolic execution\<close>

lemma fb_symI:
  "(\<And>b. fbinv R b m K u \<Longrightarrow>
      fb_wp p (\<lambda>x b'. \<exists>m' K' u'. fbinv R b' m' K' u' \<and> Q x m' K' u') E b) \<Longrightarrow> fb_sym R p m K u Q E"
  by (simp add: fb_sym_def)

lemma fb_symD:
  "fb_sym R p m K u Q E \<Longrightarrow> fbinv R b m K u \<Longrightarrow>
     fb_wp p (\<lambda>x b'. \<exists>m' K' u'. fbinv R b' m' K' u' \<and> Q x m' K' u') E b"
  by (simp add: fb_sym_def)

lemma sym_return [fb_sym_rules]: "Q x m K u \<Longrightarrow> fb_sym R (fb_return x) m K u Q E"
  by (rule fb_symI, rule fb_wp_return) blast

lemma sym_bind [fb_sym_rules]:
  assumes "fb_sym R p m K u (\<lambda>x m K u. fb_sym R (f x) m K u Q E) E"
  shows "fb_sym R (fb_bind p f) m K u Q E"
proof (rule fb_symI, rule fb_wp_bind)
  fix b assume "fbinv R b m K u"
  from fb_symD [OF assms this]
  show "fb_wp p (\<lambda>x. fb_wp (f x) (\<lambda>x b'. \<exists>m' K' u'. fbinv R b' m' K' u' \<and> Q x m' K' u') E) E b"
    by (rule fb_wp_mono) (auto intro: fb_symD)
qed

lemma sym_then [fb_sym_rules]:
  "fb_sym R p m K u (\<lambda>_ m K u. fb_sym R k m K u Q E) E \<Longrightarrow> fb_sym R (fb_then p k) m K u Q E"
  unfolding fb_then_def by (rule sym_bind)

lemma sym_lift [fb_sym_rules]:
  "(\<And>x. r = Inr x \<Longrightarrow> Q x m K u) \<Longrightarrow> (\<And>e. r = Inl e \<Longrightarrow> E e) \<Longrightarrow> fb_sym R (fb_lift r) m K u Q E"
  by (rule fb_symI, rule fb_wp_lift) blast+

lemma sym_split [fb_sym_rules]:
  "fb_sym R (f x y) m K u Q E \<Longrightarrow> fb_sym R (case (x, y) of (x, y) \<Rightarrow> f x y) m K u Q E"
  by simp

lemma sym_weaken:
  "fb_sym R p m K u Q E \<Longrightarrow> (\<And>x m K u. Q x m K u \<Longrightarrow> Q' x m K u) \<Longrightarrow> (\<And>e. E e \<Longrightarrow> E' e) \<Longrightarrow> fb_sym R p m K u Q' E'"
  unfolding fb_sym_def by (blast intro: fb_wp_mono)

lemmas known_here = list.set_intros(1)
lemma known_later: "x \<in> set K \<Longrightarrow> x \<in> set (y # K)" by simp
lemma known_before: "x \<in> set K \<Longrightarrow> x \<in> set (K' @ K)" by simp

lemma holds_zip: "length offs = length vs \<Longrightarrow> holds (zip offs vs @ K) offs vs"
  unfolding holds_def by (induction offs vs rule: list_induct2) (auto elim: list_all2_mono)

lemma holds_Cons: "holds K offs vs \<Longrightarrow> holds (x # K) offs vs"
  by (erule holds_mono) auto

lemmas known_rules = known_here known_later known_before holds_zip holds_Cons

context flatbuffers
begin

lemma sym_run:
  assumes "fb_sym R p (Idle 0) [] 0 (\<lambda>x m K u. r = Inr x) (\<lambda>e. r = Inl e)"
  shows "fb_run F p = r"
proof (rule fb_wp_run)
  from fb_symD [OF assms fbinv_NewBuilder]
  show "fb_wp p (\<lambda>x _. r = Inr x) (\<lambda>e. r = Inl e) (fb_NewBuilder F 0)"
    by (rule fb_wp_mono) auto
qed

text \<open>The slots: each rule of \<open>fb_rules\<close> gives a rule of symbolic execution.\<close>

lemma sym_ByteSlot [fb_sym_rules]:
  assumes "Q () (InTable (fs[i := sc8 x])) K u" "i < length fs" "fs ! i = Absent"
  shows "fb_sym R (fb_do (fb_PrependByteSlot F i x 0)) (InTable fs) K u Q E"
  by (rule fb_symI, rule wp_ByteSlot) (use assms in blast)+

lemma sym_Int8Slot [fb_sym_rules]:
  assumes "Q () (InTable (fs[i := sc8 x])) K u" "i < length fs" "fs ! i = Absent"
  shows "fb_sym R (fb_do (fb_PrependInt8Slot F i x 0)) (InTable fs) K u Q E"
  by (rule fb_symI, rule wp_Int8Slot) (use assms in blast)+

lemma sym_Uint16Slot [fb_sym_rules]:
  assumes "Q () (InTable (fs[i := sc16 x])) K u" "i < length fs" "fs ! i = Absent"
  shows "fb_sym R (fb_do (fb_PrependUint16Slot F i x 0)) (InTable fs) K u Q E"
  by (rule fb_symI, rule wp_Uint16Slot) (use assms in blast)+

lemma sym_Uint32Slot [fb_sym_rules]:
  assumes "Q () (InTable (fs[i := sc32 x])) K u" "i < length fs" "fs ! i = Absent"
  shows "fb_sym R (fb_do (fb_PrependUint32Slot F i x 0)) (InTable fs) K u Q E"
  by (rule fb_symI, rule wp_Uint32Slot) (use assms in blast)+

lemma sym_UOffsetTSlot [fb_sym_rules]:
  assumes "(off, v) \<in> set K" "Q () (InTable (fs[i := Ref v])) K u" "i < length fs" "fs ! i = Absent"
  shows "fb_sym R (fb_do (fb_PrependUOffsetTSlot F i off 0)) (InTable fs) K u Q E"
  by (rule fb_symI, rule wp_UOffsetTSlot [where v = v]) (use assms in blast)+

lemma sym_StartObject [fb_sym_rules]:
  assumes "Q () (InTable (replicate n Absent)) K (u + cost_table n)" "n \<le> 100"
  shows "fb_sym R (fb_do (fb_StartObject F n)) (Idle l) K u Q E"
  by (rule fb_symI, rule wp_StartObject) (use assms in blast)+

lemma sym_EndObject [fb_sym_rules]:
  "(\<And>off. Q off (Idle off) ((off, FTable fs) # K) u) \<Longrightarrow>
     fb_sym R (fb_call (fb_EndObject F)) (InTable fs) K u Q E"
  by (rule fb_symI, rule wp_EndObject) blast+

lemma sym_CreateString [fb_sym_rules]:
  "(\<And>off. Q off (Idle off) ((off, byte_vec (string_bytes t)) # K) (u + (20 + length t))) \<Longrightarrow>
     fb_sym R (fb_call (fb_CreateString F t)) (Idle l) K u Q E"
  unfolding string_vec_eq [symmetric] by (rule fb_symI, rule wp_CreateString) blast+

lemma sym_CreateByteVector [fb_sym_rules]:
  "(\<And>off. Q off (Idle off) ((off, byte_vec data) # K) (u + cost_vec 1 (length data))) \<Longrightarrow>
     fb_sym R (TransactionBufferCreateByteVector F data) (Idle l) K u Q E"
  by (rule fb_symI, rule wp_CreateByteVector) blast+

lemma sym_CreateUint32Vector [fb_sym_rules]:
  "(\<And>off. Q off (Idle off) ((off, word_vec data) # K) (u + cost_vec 4 (length data))) \<Longrightarrow>
     fb_sym R (TransactionBufferCreateUint32Vector F data) (Idle l) K u Q E"
  by (rule fb_symI, rule wp_CreateUint32Vector) blast+

lemma sym_CreateUOffsetVector [fb_sym_rules]:
  assumes "holds K data vs" "\<And>off. Q off (Idle off) ((off, ref_vec vs) # K) (u + cost_vec 4 (length vs))"
  shows "fb_sym R (TransactionBufferCreateUOffsetVector F data) (Idle l) K u Q E"
  by (rule fb_symI, rule wp_CreateUOffsetVector) (use assms in blast)+

lemma sym_finish [fb_sym_rules]:
  assumes "case flatten_fields sch fs of None \<Rightarrow> False | Some bs \<Rightarrow> u \<le> fb_limit \<and> (\<forall>m K u. Q bs m K u)"
    and "length fs \<le> 100" "size_list size sch < 1000"
  shows "fb_sym R (fb_finish F sch off) (Idle off) ((off, FTable fs) # K) u Q E"
proof -
  obtain bs where bs: "flatten_fields sch fs = Some bs" "u \<le> fb_limit" "\<And>m K u. Q bs m K u"
    using assms(1) by (cases "flatten_fields sch fs") auto
  show ?thesis
  proof (rule fb_symI)
    fix b assume "fbinv R b (Idle off) ((off, FTable fs) # K) u"
    from finish_bytes [OF this bs(2) assms(2,3) bs(1)]
    have "fb_finish F sch off b = Inr (bs, fb_Finish F off b)"
      by (simp add: fb_finish_def fb_then_def fb_bind_def fb_do_def fb_read_def)
    moreover have "fbinv R b' m' K' (Suc fb_limit)" for b' m' K'
      by (simp add: fbinv_def)
    ultimately show "fb_wp (fb_finish F sch off) (\<lambda>x b'. \<exists>m' K' u'. fbinv R b' m' K' u' \<and> Q x m' K' u') E b"
      using bs(3) by (simp add: fb_wp_def) blast
  qed
qed

end

section \<open>Loops that write tables\<close>

lemma builds_sym:
  assumes "\<And>l K u. fb_sym R p (Idle l) K u
      (\<lambda>off m' K' u'. \<exists>v c. r = Inr (v, c) \<and> m' = Idle off \<and> set ((off, v) # K) \<subseteq> set K' \<and> u' \<le> u + c)
      (\<lambda>e. r = Inl e)"
  shows "builds R p r"
  unfolding builds_def
proof (intro allI impI)
  fix b l K u
  assume "fbinv R b (Idle l) K u"
  from fb_symD [OF assms this]
  show "fb_wp p (\<lambda>off b'. \<exists>v c. r = Inr (v, c) \<and> fbinv R b' (Idle off) ((off, v) # K) (u + c)) (\<lambda>e. r = Inl e) b"
    by (rule fb_wp_mono) (blast intro: fbinv_weaken)+
qed

lemma mapR_map: "mapR (\<lambda>x. res_map G (dec x)) xs = res_map (map G) (mapR dec xs)"
proof (induction xs)
  case (Cons x xs)
  then show ?case by (cases "dec x"; cases "mapR dec xs") simp_all
qed simp

lemma sym_mapM:
  assumes "\<And>x. builds R (f x) (res_map (\<lambda>y. (T y, c y)) (dec x))"
    and "\<And>offs l ys. mapR dec xs = Inr ys \<Longrightarrow> length offs = length (map T ys) \<Longrightarrow>
      Q offs (Idle l) (zip offs (map T ys) @ K) (u + sum_list (map c ys))"
    and "\<And>e. mapR dec xs = Inl e \<Longrightarrow> E e"
  shows "fb_sym R (fb_mapM f xs) (Idle l) K u Q E"
proof (rule fb_symI, rule wp_mapM [where g = "\<lambda>x. res_map (\<lambda>y. (T y, c y)) (dec x)"])
  let ?r = "mapR (\<lambda>x. res_map (\<lambda>y. (T y, c y)) (dec x)) xs"
  show "builds R (f x) (res_map (\<lambda>y. (T y, c y)) (dec x))" if "x \<in> set xs" for x
    by (rule assms(1))
  show "E e" if "?r = Inl e" for e
    using that assms(3) by (cases "mapR dec xs") (simp_all add: mapR_map)
  fix offs b' l' K' vcs
  assume r: "?r = Inr vcs" and K: "set K \<subseteq> set K'" and h: "holds K' offs (map fst vcs)"
    and inv: "fbinv R b' (Idle l') K' (u + sum_list (map snd vcs))"
  obtain ys where ys: "mapR dec xs = Inr ys" "vcs = map (\<lambda>y. (T y, c y)) ys"
    using r by (cases "mapR dec xs") (auto simp: mapR_map)
  have vs: "map fst vcs = map T ys" "map snd vcs = map c ys" by (simp_all add: ys comp_def)
  have "list_all2 (\<lambda>off v. (off, v) \<in> set K') offs (map T ys)"
    using h by (simp add: holds_def vs)
  then have len: "length offs = length (map T ys)" and "set (zip offs (map T ys)) \<subseteq> set K'"
    by (auto simp: list_all2_iff)
  with K inv have "fbinv R b' (Idle l') (zip offs (map T ys) @ K) (u + sum_list (map c ys))"
    by (intro fbinv_weaken [OF inv]) (auto simp: vs)
  with assms(2) [OF ys(1) len] show "\<exists>m' K' u'. fbinv R b' m' K' u' \<and> Q offs m' K' u'" by blast
qed

end
