(* ===== verification/SdkModel.thy ===== *)
theory SdkModel
  imports Encoding
begin

unbundle bit_operations_syntax

text \<open>
  \<open>sdk/sdk_model.go\<close>, \<open>sdk/util.go\<close>, \<open>sdk/sdk_internal.go\<close> and \<open>sdk/transaction_internal.go\<close>: hashes
  and signatures, 64-bit values and their two-word and little-endian forms, blockchain
  versions, timestamps. A Go array \<open>[n]byte\<close> is a byte list of length \<open>n\<close>: the functions that make
  one from a slice are shown to give that length. The locale \<open>blockchainInt64\<close> is the Go interface
  of that name with what its two methods promise; \<open>baseInt64\<close> and \<open>BlockChainVersion\<close> implement it.
\<close>

section \<open>Hashes and signatures\<close>

type_synonym Hash = "byte list"
type_synonym Signature = "byte list"

definition Hash_String :: "Hash \<Rightarrow> string" where
  "Hash_String h = hex_encode h"

definition Signature_String :: "Signature \<Rightarrow> string" where
  "Signature_String s = hex_encode s"

definition Hash_Equal :: "Hash \<Rightarrow> Hash \<Rightarrow> bool" where
  "Hash_Equal h other \<longleftrightarrow> h = other"

definition Hash_Empty :: "Hash \<Rightarrow> bool" where
  "Hash_Empty h = Hash_Equal h (replicate 32 0)"

definition bytesToHash :: "byte list \<Rightarrow> Hash result" where
  "bytesToHash bytes =
     (if length bytes \<noteq> 32 then Inl ErrInvalidHashLength
      else res_map (copy_at (replicate 32 0) 0) (subslice bytes 0 32))"

definition StringToHash :: "string \<Rightarrow> Hash result" where
  "StringToHash hash =
     (if length hash \<noteq> 64 then Inl ErrInvalidHashLength
      else res_bind (hex_decode hash) bytesToHash)"

definition stringToHashPanic :: "string \<Rightarrow> Hash result" where
  "stringToHashPanic hash = (case StringToHash hash of Inl _ \<Rightarrow> Inl Panicked | Inr arr \<Rightarrow> Inr arr)"

definition bytesToSignature :: "byte list \<Rightarrow> Signature result" where
  "bytesToSignature bytes =
     (if length bytes \<noteq> 64 then Inl ErrInvalidSignatureLength
      else res_map (copy_at (replicate 64 0) 0) (subslice bytes 0 64))"

definition StringToSignature :: "string \<Rightarrow> Signature result" where
  "StringToSignature signature =
     (if length signature \<noteq> 128 then Inl ErrInvalidHashLength
      else res_bind (hex_decode signature) bytesToSignature)"

definition stringToSignaturePanic :: "string \<Rightarrow> Signature result" where
  "stringToSignaturePanic s = (case StringToSignature s of Inl _ \<Rightarrow> Inl Panicked | Inr arr \<Rightarrow> Inr arr)"

text \<open>The JSON fields: an empty string is a nil pointer, not an error.\<close>

definition hashDto_Hash :: "string \<Rightarrow> Hash option result" where
  "hashDto_Hash s = (if length s = 0 then Inr None else res_map Some (StringToHash s))"

definition signatureDto_Signature :: "string \<Rightarrow> Signature option result" where
  "signatureDto_Signature s = (if length s = 0 then Inr None else res_map Some (StringToSignature s))"

lemma copy_at_whole: "length bs = n \<Longrightarrow> copy_at (replicate n x) 0 bs = bs"
  using copy_at_exact [of bs "replicate n x" "[]" "[]"] by simp

lemma bytesToHash_eq: "bytesToHash bs = (if length bs = 32 then Inr bs else Inl ErrInvalidHashLength)"
  by (simp add: bytesToHash_def subslice_def copy_at_whole)

lemma bytesToSignature_eq:
  "bytesToSignature bs = (if length bs = 64 then Inr bs else Inl ErrInvalidSignatureLength)"
  by (simp add: bytesToSignature_def subslice_def copy_at_whole)

lemma StringToHash_Inr_iff: "StringToHash s = Inr h \<longleftrightarrow> length s = 64 \<and> hex_decode s = Inr h"
  by (cases "hex_decode s") (auto simp: StringToHash_def bytesToHash_eq dest: hex_decode_length)

lemma StringToHash_length: "StringToHash s = Inr h \<Longrightarrow> length h = 32"
  by (auto simp: StringToHash_Inr_iff dest: hex_decode_length)

lemma StringToSignature_Inr_iff:
  "StringToSignature s = Inr h \<longleftrightarrow> length s = 128 \<and> hex_decode s = Inr h"
  by (cases "hex_decode s") (auto simp: StringToSignature_def bytesToSignature_eq dest: hex_decode_length)

lemma StringToSignature_length: "StringToSignature s = Inr h \<Longrightarrow> length h = 64"
  by (auto simp: StringToSignature_Inr_iff dest: hex_decode_length)

section \<open>64-bit values\<close>

text \<open>An \<open>int64\<close> and a \<open>uint64\<close> are the same 64 bits; \<^const>\<open>sint\<close> reads the first, \<^const>\<open>unat\<close> the other.\<close>

type_synonym baseInt64 = u64
type_synonym Amount = baseInt64
type_synonym Height = baseInt64
type_synonym Duration = baseInt64
type_synonym Difficulty = baseInt64
type_synonym uint64DTO = "u32 \<times> u32"

definition hasBits :: "u64 \<Rightarrow> u64 \<Rightarrow> bool" where
  "hasBits number bits \<longleftrightarrow> number AND bits = bits"

definition uint64ToArray :: "u64 \<Rightarrow> u32 \<times> u32" where
  "uint64ToArray x = (ucast x, ucast (drop_bit 32 x))"

definition uint64DTO_toUint64 :: "uint64DTO \<Rightarrow> u64 result" where
  "uint64DTO_toUint64 dto =
     (let b = replicate 8 0;
          b = copy_at b 0 (be32 (snd dto));
          b = copy_at b 4 (be32 (fst dto))
      in be_uint64 b)"

definition uint64DTO_toStruct :: "uint64DTO \<Rightarrow> baseInt64 result" where
  "uint64DTO_toStruct dto = uint64DTO_toUint64 dto"

definition uint32ToHex :: "u32 \<Rightarrow> string" where
  "uint32ToHex u = hex_encode (be32 u)"

definition uint64ToHex :: "u64 \<Rightarrow> string" where
  "uint64ToHex x = (let u = uint64ToArray x in ToUpper (uint32ToHex (snd u) @ uint32ToHex (fst u)))"

definition baseInt64_String :: "baseInt64 \<Rightarrow> string" where
  "baseInt64_String m = dec_int (sint m)"

definition baseInt64_toArray :: "baseInt64 \<Rightarrow> u32 \<times> u32" where
  "baseInt64_toArray m = uint64ToArray m"

definition baseInt64_toLittleEndian :: "baseInt64 \<Rightarrow> byte list" where
  "baseInt64_toLittleEndian m = le64 m"

text \<open>The value of the two words, high word last.\<close>

definition u64_of_words :: "u32 \<times> u32 \<Rightarrow> u64" where
  "u64_of_words a = word_of_nat (unat (fst a) + 4294967296 * unat (snd a))"

lemma uint64DTO_toUint64_eq: "uint64DTO_toUint64 dto = Inr (u64_of_words dto)"
proof -
  have "copy_at (copy_at (replicate 8 0) 0 (be32 (snd dto))) 4 (be32 (fst dto)) =
      be32 (snd dto) @ be32 (fst dto)"
    by (simp add: copy_at_def be32_def numeral_eq_Suc)
  moreover have "le_nat (rev (be32 (snd dto) @ be32 (fst dto))) =
      unat (fst dto) + 4294967296 * unat (snd dto)"
    by (simp add: be32_def le_nat_append)
  ultimately show ?thesis
    by (simp add: uint64DTO_toUint64_def be_uint64_def Let_def u64_of_words_def be32_def)
qed

lemma unat_u64_of_words: "unat (u64_of_words a) = unat (fst a) + 4294967296 * unat (snd a)"
  using unat_bounds(3) [of "fst a"] unat_bounds(3) [of "snd a"]
  unfolding u64_of_words_def by (intro unat_word_of_nat) simp

lemma uint64ToArray_unat:
  "unat (fst (uint64ToArray x)) = unat x mod 4294967296"
  "unat (snd (uint64ToArray x)) = unat x div 4294967296"
proof -
  have "unat x div 4294967296 < 4294967296"
    using unat_bounds(4) [of x] by simp
  then show "unat (fst (uint64ToArray x)) = unat x mod 4294967296"
    "unat (snd (uint64ToArray x)) = unat x div 4294967296"
    by (simp_all add: uint64ToArray_def unsigned_ucast_eq unat_div_distrib drop_bit_eq_div take_bit_eq_mod)
qed

lemma u64_of_words_array [simp]: "u64_of_words (uint64ToArray x) = x"
  by (simp add: word_unat_eq_iff unat_u64_of_words uint64ToArray_unat)

lemma array_u64_of_words [simp]: "uint64ToArray (u64_of_words a) = a"
  using unat_bounds(3) [of "fst a"]
  by (simp add: prod_eq_iff word_unat_eq_iff uint64ToArray_unat unat_u64_of_words)

text \<open>
  The interface \<open>blockchainInt64\<close>: both methods are faithful encodings of the 64 bits that the
  value holds.
\<close>

locale blockchainInt64 =
  fixes bits_of :: "'a \<Rightarrow> u64"
    and toArray :: "'a \<Rightarrow> u32 \<times> u32"
    and toLittleEndian :: "'a \<Rightarrow> byte list"
  assumes toArray_bits: "uint64DTO_toUint64 (toArray m) = Inr (bits_of m)"
    and toLittleEndian_bits: "le_uint64 (toLittleEndian m) = Inr (bits_of m)"
    and toLittleEndian_len: "length (toLittleEndian m) = 8"
begin

lemma toArray_eq: "toArray m = uint64ToArray (bits_of m)"
  using toArray_bits [of m] by (simp add: uint64DTO_toUint64_eq) (metis array_u64_of_words)

lemma toLittleEndian_eq: "toLittleEndian m = le64 (bits_of m)"
proof -
  let ?b = "toLittleEndian m"
  have b: "bits_of m = word_of_nat (le_nat ?b)"
    using toLittleEndian_bits [of m] toLittleEndian_len [of m] by (simp add: le_uint64_def read_le_def)
  have "unat (bits_of m) = le_nat ?b"
    unfolding b using le_nat_less [of ?b] toLittleEndian_len [of m]
    by (intro unat_word_of_nat) simp
  then show ?thesis
    using le_bytes_le_nat [of ?b] toLittleEndian_len [of m] by (simp add: le64_def)
qed

lemma encodings_agree:
  "toArray m = toArray m' \<longleftrightarrow> toLittleEndian m = toLittleEndian m'"
  by (metis toArray_eq toLittleEndian_eq le_inj(3) u64_of_words_array)

end

interpretation base_int: blockchainInt64 "\<lambda>m. m" baseInt64_toArray baseInt64_toLittleEndian
  by unfold_locales (simp_all add: baseInt64_toArray_def baseInt64_toLittleEndian_def uint64DTO_toUint64_eq)

section \<open>Blockchain versions\<close>

type_synonym BlockChainVersion = u64

definition NewBlockChainVersion :: "u16 \<Rightarrow> u16 \<Rightarrow> u16 \<Rightarrow> u16 \<Rightarrow> BlockChainVersion" where
  "NewBlockChainVersion major minor revision build =
     (let version = 0;
          version = version OR push_bit 48 (ucast major);
          version = version OR push_bit 32 (ucast minor);
          version = version OR push_bit 16 (ucast revision);
          version = version OR push_bit 0 (ucast build)
      in version)"

definition getTwoBytesByShift :: "BlockChainVersion \<Rightarrow> nat \<Rightarrow> u16" where
  "getTwoBytesByShift number shift = ucast (drop_bit shift number) AND 0xFF"

definition BlockChainVersion_String :: "BlockChainVersion \<Rightarrow> string" where
  "BlockChainVersion_String m =
     dec_nat (unat m) @ '' [Major '' @ dec_nat (unat (getTwoBytesByShift m 48))
       @ '', Minor '' @ dec_nat (unat (getTwoBytesByShift m 32))
       @ '', Revision '' @ dec_nat (unat (getTwoBytesByShift m 16))
       @ '', Build '' @ dec_nat (unat (getTwoBytesByShift m 0)) @ '']''"

definition BlockChainVersion_toArray :: "BlockChainVersion \<Rightarrow> u32 \<times> u32" where
  "BlockChainVersion_toArray m = uint64ToArray m"

definition BlockChainVersion_toLittleEndian :: "BlockChainVersion \<Rightarrow> byte list" where
  "BlockChainVersion_toLittleEndian m = le64 m"

interpretation chain_version: blockchainInt64 "\<lambda>m. m" BlockChainVersion_toArray BlockChainVersion_toLittleEndian
  by unfold_locales
    (simp_all add: BlockChainVersion_toArray_def BlockChainVersion_toLittleEndian_def uint64DTO_toUint64_eq)

lemma version_parts:
  "ucast (drop_bit 48 (NewBlockChainVersion a b c d)) = a"
  "ucast (drop_bit 32 (NewBlockChainVersion a b c d)) = b"
  "ucast (drop_bit 16 (NewBlockChainVersion a b c d)) = c"
  "ucast (NewBlockChainVersion a b c d) = d"
  by (rule bit_word_eqI; auto simp: NewBlockChainVersion_def bit_simps Let_def dest: bit_imp_le_length)+

section \<open>Timestamps\<close>

text \<open>
  \<open>time.Unix(0, ns)\<close> is the time \<open>ns\<close> nanoseconds from the epoch and \<open>UnixNano\<close> gives \<open>ns\<close> again, so a
  \<open>Timestamp\<close> is its \<open>int64\<close> of nanoseconds. \<open>/\<close> on \<open>int64\<close> truncates towards zero.
\<close>

record BlockchainTimestamp = bt_baseInt64 :: baseInt64
record Timestamp = ts_nanos :: u64
record Deadline = dl_Timestamp :: Timestamp

definition TimestampNemesisBlockMilliseconds :: u64 where
  "TimestampNemesisBlockMilliseconds = 1459468800 * 1000"

definition int64_quot :: "u64 \<Rightarrow> int \<Rightarrow> u64" where
  "int64_quot x d = word_of_int (sint x sdiv d)"

definition NewBlockchainTimestamp :: "u64 \<Rightarrow> BlockchainTimestamp" where
  "NewBlockchainTimestamp milliseconds = \<lparr>bt_baseInt64 = milliseconds\<rparr>"

definition NewTimestamp :: "u64 \<Rightarrow> Timestamp" where
  "NewTimestamp milliseconds = \<lparr>ts_nanos = milliseconds * 1000000\<rparr>"

definition ToTimestamp :: "BlockchainTimestamp \<Rightarrow> Timestamp" where
  "ToTimestamp t = NewTimestamp (bt_baseInt64 t + TimestampNemesisBlockMilliseconds)"

definition ToBlockchainTimestamp :: "Timestamp \<Rightarrow> BlockchainTimestamp" where
  "ToBlockchainTimestamp t =
     NewBlockchainTimestamp (int64_quot (ts_nanos t) 1000000 - TimestampNemesisBlockMilliseconds)"

text \<open>\<open>time.Now()\<close> is an argument.\<close>

definition NewDeadline :: "u64 \<Rightarrow> u64 \<Rightarrow> Deadline" where
  "NewDeadline now delta = \<lparr>dl_Timestamp = \<lparr>ts_nanos = now + delta\<rparr>\<rparr>"

definition NewDeadlineFromBlockchainTimestamp :: "BlockchainTimestamp \<Rightarrow> Deadline" where
  "NewDeadlineFromBlockchainTimestamp timestamp = \<lparr>dl_Timestamp = ToTimestamp timestamp\<rparr>"

definition blockchainTimestampDTO_toStruct :: "uint64DTO \<Rightarrow> BlockchainTimestamp result" where
  "blockchainTimestampDTO_toStruct dto = res_map NewBlockchainTimestamp (uint64DTO_toUint64 dto)"

lemma int64_quot_mult:
  assumes "- (2 ^ 63) \<le> sint x * 1000000" "sint x * 1000000 < 2 ^ 63"
  shows "int64_quot (x * 1000000) 1000000 = x"
proof -
  have "sint (x * 1000000) = signed_take_bit 63 (sint x * sint (1000000 :: u64))"
    using sint_word_ariths(3) [of x 1000000] by simp
  also have "\<dots> = sint x * 1000000"
    using assms by (simp add: signed_take_bit_int_eq_self)
  finally have "sint (x * 1000000) sdiv 1000000 = sint x"
    by (cases "sint x" "0 :: int" rule: linorder_cases)
      (simp_all add: signed_divide_int_def sgn_mult abs_mult)
  then show ?thesis by (simp add: int64_quot_def)
qed

section \<open>Properties\<close>

text \<open>
  Every 64-bit value survives the two encodings it is sent in (the two-word array of the JSON
  and buffer formats, eight little-endian bytes) and its hexadecimal form determines it.
\<close>

theorem uint64_encodings_roundtrip:
  "uint64DTO_toUint64 (uint64ToArray x) = Inr x
   \<and> uint64ToArray (u64_of_words a) = a \<and> uint64DTO_toUint64 a = Inr (u64_of_words a)
   \<and> le_uint64 (baseInt64_toLittleEndian x) = Inr x"
  by (simp add: uint64DTO_toUint64_eq baseInt64_toLittleEndian_def)

text \<open>
  Hashes parse from exactly the 64-character hexadecimal strings, with the value those
  characters spell, and a printed hash parses back; every other string is an error.
\<close>

theorem hash_string_roundtrip:
  "(StringToHash s = Inr h \<longleftrightarrow> length s = 64 \<and> hex_decode s = Inr h)
   \<and> StringToHash (Hash_String h) = (if length h = 32 then Inr h else Inl ErrInvalidHashLength)"
  unfolding StringToHash_Inr_iff by (simp add: Hash_String_def StringToHash_def bytesToHash_eq)

text \<open>
  A blockchain version keeps its four 16-bit parts apart: each is recovered from its place in
  the 64 bits, so two versions are equal only if all parts are.
\<close>

theorem version_parts_roundtrip:
  "ucast (drop_bit 48 (NewBlockChainVersion major minor revision build)) = major
   \<and> ucast (drop_bit 32 (NewBlockChainVersion major minor revision build)) = minor
   \<and> ucast (drop_bit 16 (NewBlockChainVersion major minor revision build)) = revision
   \<and> ucast (NewBlockChainVersion major minor revision build) = build"
  by (simp only: version_parts simp_thms)

text \<open>
  A blockchain timestamp converts to a wall-clock timestamp and back without loss, as long as
  the nanoseconds since 1970 fit into an \<open>int64\<close>.
\<close>

theorem timestamp_roundtrip:
  assumes "- (2 ^ 63) \<le> sint (bt_baseInt64 t + TimestampNemesisBlockMilliseconds) * 1000000"
    and "sint (bt_baseInt64 t + TimestampNemesisBlockMilliseconds) * 1000000 < 2 ^ 63"
  shows "ToBlockchainTimestamp (ToTimestamp t) = t"
  using int64_quot_mult [OF assms]
  by (simp add: ToBlockchainTimestamp_def ToTimestamp_def NewTimestamp_def NewBlockchainTimestamp_def)

theorem timestamp_roundtrip_witness:
  "ToBlockchainTimestamp (ToTimestamp \<lparr>bt_baseInt64 = 7\<rparr>) = \<lparr>bt_baseInt64 = 7\<rparr>"
  by (rule timestamp_roundtrip) (simp_all add: TimestampNemesisBlockMilliseconds_def)

text \<open>
  The printed version is not the version: each part is masked to its low byte, so version 256.0.0.0
  prints like version 0.0.0.0 in the bracketed part.
\<close>

lemma version_string_drops_high_bytes:
  "getTwoBytesByShift (NewBlockChainVersion 256 0 0 0) 48 = getTwoBytesByShift (NewBlockChainVersion 0 0 0 0) 48"
  by (simp add: getTwoBytesByShift_def NewBlockChainVersion_def)

text \<open>A signature string of the wrong length is reported as a hash of the wrong length.\<close>

lemma signature_length_error: "StringToSignature [] = Inl ErrInvalidHashLength"
  by (simp add: StringToSignature_def)

end
