(* ===== verification/Crypto.thy ===== *)
theory Crypto
  imports Prelude
begin

text \<open>
  The cryptographic packages the SDK calls (\<open>golang.org/x/crypto/sha3\<close>,
  \<open>github.com/proximax-storage/go-xpx-crypto\<close>, \<open>go-xpx-utils\<close>) are not in the repository: they are
  the fields of the record \<open>crypto\<close>, an argument of every definition that uses them. The type
  variable is their key material (private keys, public keys and key pairs alike). The last two fields
  are \<open>json.MarshalIndent\<close> and \<open>json.Unmarshal\<close> of \<open>github.com/json-iterator/go\<close> on a list of names,
  numerals and versions (\<open>supportedEntitiesDTO\<close>); printing does not fail. The predicates
  below name the documented facts about them that a lemma may rely on.
\<close>

record 'k crypto =
  cr_sha3_New256_Sum :: "byte list \<Rightarrow> byte list"
  cr_HashesSha3_256 :: "byte list \<Rightarrow> byte list result"
  cr_HashesKeccak_256 :: "byte list \<Rightarrow> byte list result"
  cr_HashesRipemd160 :: "byte list \<Rightarrow> byte list result"
  cr_HashesSha_256 :: "byte list \<Rightarrow> byte list result"
  cr_NewPrivateKeyfromHexString :: "string \<Rightarrow> 'k result"
  cr_NewPublicKeyfromHex :: "string \<Rightarrow> 'k result"
  cr_NewKeyPair :: "'k option \<Rightarrow> 'k option \<Rightarrow> 'k result"
  cr_PublicKey_Raw :: "'k \<Rightarrow> byte list"
  cr_PublicKey_String :: "'k \<Rightarrow> string"
  cr_PrivateKey :: "'k \<Rightarrow> 'k"
  cr_Sign :: "'k \<Rightarrow> byte list \<Rightarrow> byte list result"
  cr_Encrypt :: "'k \<Rightarrow> 'k \<Rightarrow> byte list \<Rightarrow> byte list result"
  cr_Decrypt :: "'k \<Rightarrow> 'k \<Rightarrow> byte list \<Rightarrow> byte list result"
  cr_HexDecodeStringOdd :: "string \<Rightarrow> byte list result"
  cr_MarshalEntities :: "(string \<times> string \<times> u32 list) list \<Rightarrow> byte list"
  cr_UnmarshalEntities :: "byte list \<Rightarrow> (string \<times> string \<times> u32 list) list result"

text \<open>The digests have the length their names say and hashing does not fail.\<close>

definition hashes_ok :: "'k crypto \<Rightarrow> bool" where
  "hashes_ok C \<longleftrightarrow>
     (\<forall>bs. length (cr_sha3_New256_Sum C bs) = 32
         \<and> (\<exists>h. cr_HashesSha3_256 C bs = Inr h \<and> length h = 32)
         \<and> (\<exists>h. cr_HashesKeccak_256 C bs = Inr h \<and> length h = 32)
         \<and> (\<exists>h. cr_HashesRipemd160 C bs = Inr h \<and> length h = 20)
         \<and> (\<exists>h. cr_HashesSha_256 C bs = Inr h \<and> length h = 32))"

text \<open>An ed25519 key pair: 32 bytes of public key, printed in hexadecimal, 64 bytes of signature.\<close>

definition signer_ok :: "'k crypto \<Rightarrow> 'k \<Rightarrow> bool" where
  "signer_ok C kp \<longleftrightarrow>
     length (cr_PublicKey_Raw C kp) = 32
     \<and> (\<forall>bs. \<exists>s. cr_Sign C kp bs = Inr s \<and> length s = 64)"

lemma hashes_okD:
  assumes "hashes_ok C"
  shows "length (cr_sha3_New256_Sum C bs) = 32"
    and "\<exists>h. cr_HashesSha3_256 C bs = Inr h \<and> length h = 32"
    and "\<exists>h. cr_HashesKeccak_256 C bs = Inr h \<and> length h = 32"
    and "\<exists>h. cr_HashesRipemd160 C bs = Inr h \<and> length h = 20"
    and "\<exists>h. cr_HashesSha_256 C bs = Inr h \<and> length h = 32"
  using assms by (auto simp: hashes_ok_def)

text \<open>
  A concrete instance of the record, for the examples: the digests truncate or pad their input,
  a key is its bytes, and a signature is the key followed by a digest of the data.
\<close>

definition fit :: "nat \<Rightarrow> byte list \<Rightarrow> byte list" where
  "fit n bs = take n (bs @ replicate n 0)"

lemma length_fit [simp]: "length (fit n bs) = n"
  by (simp add: fit_def)

definition sample_crypto :: "byte list crypto" where
  "sample_crypto = \<lparr>
     cr_sha3_New256_Sum = fit 32,
     cr_HashesSha3_256 = (\<lambda>bs. Inr (fit 32 bs)),
     cr_HashesKeccak_256 = (\<lambda>bs. Inr (fit 32 (rev bs))),
     cr_HashesRipemd160 = (\<lambda>bs. Inr (fit 20 bs)),
     cr_HashesSha_256 = (\<lambda>bs. Inr (fit 32 (1 # bs))),
     cr_NewPrivateKeyfromHexString = (\<lambda>s. Inr (fit 32 (map of_char s))),
     cr_NewPublicKeyfromHex = (\<lambda>s. Inr (fit 32 (map of_char s))),
     cr_NewKeyPair = (\<lambda>a b. case a of Some k \<Rightarrow> Inr k | None \<Rightarrow> deref b),
     cr_PublicKey_Raw = fit 32,
     cr_PublicKey_String = (\<lambda>k. replicate 64 CHR ''0''),
     cr_PrivateKey = (\<lambda>k. k),
     cr_Sign = (\<lambda>k bs. Inr (fit 32 k @ fit 32 bs)),
     cr_Encrypt = (\<lambda>a b bs. Inr bs),
     cr_Decrypt = (\<lambda>a b bs. Inr bs),
     cr_HexDecodeStringOdd = (\<lambda>s. Inr (fit 32 (map of_char s))),
     cr_MarshalEntities = (\<lambda>es. map of_char (concat (map fst es))),
     cr_UnmarshalEntities = (\<lambda>bs. Inr [(map (\<lambda>b. char_of (unat b)) bs, ''16724'', [3])])\<rparr>"

lemma sample_hashes_ok: "hashes_ok sample_crypto"
  by (simp add: hashes_ok_def sample_crypto_def)

lemma sample_signer_ok: "signer_ok sample_crypto kp"
  by (simp add: signer_ok_def sample_crypto_def)

end
