(* ===== verification/AssetIds.thy ===== *)
theory AssetIds
  imports SdkModel Crypto
begin

text \<open>
  \<open>sdk/mosaic_model.go\<close>, \<open>sdk/mosaic_internal.go\<close>, \<open>sdk/namespace_model.go\<close>,
  \<open>sdk/namespace_internal.go\<close>: mosaic and namespace identifiers and the interface \<open>AssetId\<close> they
  implement (a locale over \<open>blockchainInt64\<close>, interpreted on the sum of the two), the identifiers
  derived from a nonce and a key or from a dotted name, mosaics and their properties, and the
  conversions from the JSON structures. A pointer that the code may leave nil is an option.
\<close>

section \<open>Identifiers\<close>

record MosaicId = mosaicId_baseInt64 :: baseInt64
record NamespaceId = namespaceId_baseInt64 :: baseInt64

datatype AssetIdType = NamespaceAssetIdType | MosaicAssetIdType

datatype AssetId = MosaicAsset MosaicId | NamespaceAsset NamespaceId

definition NamespaceBit :: u64 where
  "NamespaceBit = push_bit 63 1"

definition newMosaicIdPanic :: "u64 \<Rightarrow> MosaicId" where
  "newMosaicIdPanic i = \<lparr>mosaicId_baseInt64 = i\<rparr>"

definition NewMosaicId :: "u64 \<Rightarrow> MosaicId result" where
  "NewMosaicId i = (if hasBits i NamespaceBit then Inl ErrWrongBitMosaicId else Inr (newMosaicIdPanic i))"

definition newNamespaceIdPanic :: "u64 \<Rightarrow> NamespaceId" where
  "newNamespaceIdPanic i = \<lparr>namespaceId_baseInt64 = i\<rparr>"

definition NewNamespaceId :: "u64 \<Rightarrow> NamespaceId result" where
  "NewNamespaceId i =
     (if i \<noteq> 0 \<and> \<not> hasBits i NamespaceBit then Inl ErrWrongBitNamespaceId else Inr (newNamespaceIdPanic i))"

text \<open>The methods of the interface, dispatched on the implementation.\<close>

fun AssetId_Type :: "AssetId \<Rightarrow> AssetIdType" where
  "AssetId_Type (MosaicAsset m) = MosaicAssetIdType"
| "AssetId_Type (NamespaceAsset n) = NamespaceAssetIdType"

fun AssetId_Id :: "AssetId \<Rightarrow> u64" where
  "AssetId_Id (MosaicAsset m) = mosaicId_baseInt64 m"
| "AssetId_Id (NamespaceAsset n) = namespaceId_baseInt64 n"

definition AssetId_toHexString :: "AssetId \<Rightarrow> string" where
  "AssetId_toHexString a = uint64ToHex (AssetId_Id a)"

definition AssetId_String :: "AssetId \<Rightarrow> string" where
  "AssetId_String a = AssetId_toHexString a"

definition AssetId_Equals :: "AssetId \<Rightarrow> AssetId \<Rightarrow> bool" where
  "AssetId_Equals m a \<longleftrightarrow> AssetId_Id m = AssetId_Id a"

definition AssetId_toArray :: "AssetId \<Rightarrow> u32 \<times> u32" where
  "AssetId_toArray a = baseInt64_toArray (AssetId_Id a)"

definition AssetId_toLittleEndian :: "AssetId \<Rightarrow> byte list" where
  "AssetId_toLittleEndian a = baseInt64_toLittleEndian (AssetId_Id a)"

lemma NewMosaicId_iff [simp]:
  "NewMosaicId i = Inr m \<longleftrightarrow> \<not> hasBits i NamespaceBit \<and> m = newMosaicIdPanic i"
  by (auto simp: NewMosaicId_def)

lemma NewNamespaceId_iff [simp]:
  "NewNamespaceId i = Inr n \<longleftrightarrow> (i = 0 \<or> hasBits i NamespaceBit) \<and> n = newNamespaceIdPanic i"
  by (auto simp: NewNamespaceId_def)

lemma newIds_inj [simp]:
  "newMosaicIdPanic i = newMosaicIdPanic j \<longleftrightarrow> i = j"
  "newNamespaceIdPanic i = newNamespaceIdPanic j \<longleftrightarrow> i = j"
  by (simp_all add: newMosaicIdPanic_def newNamespaceIdPanic_def)

lemma hasBits_push_bit: "n < 64 \<Longrightarrow> hasBits i (push_bit n 1) \<longleftrightarrow> bit i n"
  unfolding hasBits_def by (auto simp: bit_eq_iff [where 'a = "64 word"] bit_simps)

lemma hasBits_NamespaceBit: "hasBits i NamespaceBit \<longleftrightarrow> bit i 63"
  unfolding NamespaceBit_def by (rule hasBits_push_bit) simp

lemma uint64ToHex_decode: "hex_decode (uint64ToHex x) = Inr (rev (le64 x))"
proof -
  have eq: "rev (le64 x) = be32 (snd (uint64ToArray x)) @ be32 (fst (uint64ToArray x))"
  proof -
    have "le_nat (rev (be32 (snd (uint64ToArray x)) @ be32 (fst (uint64ToArray x)))) = unat x"
      by (simp add: be32_def le_nat_append uint64ToArray_unat)
    then have "le64 x = rev (be32 (snd (uint64ToArray x)) @ be32 (fst (uint64ToArray x)))"
      unfolding le64_def
      using le_bytes_le_nat [of "rev (be32 (snd (uint64ToArray x)) @ be32 (fst (uint64ToArray x)))"]
      by (simp add: be32_def)
    then show ?thesis by simp
  qed
  have "uint64ToHex x = ToUpper (hex_encode (rev (le64 x)))"
    unfolding eq by (simp add: uint64ToHex_def uint32ToHex_def Let_def)
  then show ?thesis by simp
qed

lemma uint64ToHex_inj [simp]: "uint64ToHex x = uint64ToHex y \<longleftrightarrow> x = y"
  by (auto dest: arg_cong [where f = hex_decode] simp: uint64ToHex_decode)

text \<open>
  The interface \<open>AssetId\<close>: a \<open>blockchainInt64\<close> whose bits are \<open>Id()\<close>, whose string determines them
  and whose equality compares them.
\<close>

locale AssetId_interface = blockchainInt64 Id toArray toLittleEndian
  for Id :: "'a \<Rightarrow> u64" and toArray and toLittleEndian +
  fixes String :: "'a \<Rightarrow> string"
    and Equals :: "'a \<Rightarrow> 'a \<Rightarrow> bool"
  assumes String_Id: "String a = uint64ToHex (Id a)"
    and Equals_Id: "Equals a b \<longleftrightarrow> Id a = Id b"
begin

lemma Equals_equiv: "Equals a a" "Equals a b \<Longrightarrow> Equals b a" "Equals a b \<Longrightarrow> Equals b c \<Longrightarrow> Equals a c"
  by (simp_all add: Equals_Id)

lemma Equals_iff_String: "Equals a b \<longleftrightarrow> String a = String b"
  by (simp add: String_Id Equals_Id)

lemma String_decodes: "hex_decode (String a) = Inr (rev (toLittleEndian a))"
  by (simp add: String_Id uint64ToHex_decode toLittleEndian_eq)

lemma Equals_iff_bytes: "Equals a b \<longleftrightarrow> toLittleEndian a = toLittleEndian b"
  by (simp add: toLittleEndian_eq Equals_Id)

lemma Equals_iff_array: "Equals a b \<longleftrightarrow> toArray a = toArray b"
  using Equals_iff_bytes encodings_agree by simp

end

interpretation asset: AssetId_interface AssetId_Id AssetId_toArray AssetId_toLittleEndian
  AssetId_String AssetId_Equals
  by unfold_locales
    (simp_all add: AssetId_toArray_def AssetId_toLittleEndian_def AssetId_String_def
      AssetId_toHexString_def AssetId_Equals_def base_int.toArray_bits
      base_int.toLittleEndian_bits base_int.toLittleEndian_len)

section \<open>From the JSON structures\<close>

text \<open>The JSON forms: a structure with two fields is a pair.\<close>

type_synonym mosaicIdDTO = uint64DTO
type_synonym mosaicIdDTOs = "mosaicIdDTO list"
type_synonym namespaceIdDTO = uint64DTO
type_synonym namespaceIdDTOs = "namespaceIdDTO list"

definition mosaicIdDTO_toStruct :: "mosaicIdDTO \<Rightarrow> MosaicId result" where
  "mosaicIdDTO_toStruct dto = res_bind (uint64DTO_toUint64 dto) NewMosaicId"

definition mosaicIdDTOs_toStruct :: "mosaicIdDTOs \<Rightarrow> MosaicId list result" where
  "mosaicIdDTOs_toStruct dto = mapR mosaicIdDTO_toStruct dto"

definition namespaceIdDTO_toStruct :: "namespaceIdDTO \<Rightarrow> NamespaceId result" where
  "namespaceIdDTO_toStruct dto = res_bind (uint64DTO_toUint64 dto) NewNamespaceId"

definition namespaceIdDTOs_toStruct :: "namespaceIdDTOs \<Rightarrow> NamespaceId list result" where
  "namespaceIdDTOs_toStruct dto = mapR namespaceIdDTO_toStruct dto"

definition assetIdDTO_toStruct :: "uint64DTO \<Rightarrow> AssetId result" where
  "assetIdDTO_toStruct dto =
     res_bind (uint64DTO_toUint64 dto) (\<lambda>i.
       if hasBits i NamespaceBit then res_map NamespaceAsset (namespaceIdDTO_toStruct dto)
       else res_map MosaicAsset (mosaicIdDTO_toStruct dto))"

text \<open>The identifier that the high bit says it is; no 64-bit value is rejected.\<close>

definition asset_of_bits :: "u64 \<Rightarrow> AssetId" where
  "asset_of_bits i =
     (if bit i 63 then NamespaceAsset (newNamespaceIdPanic i) else MosaicAsset (newMosaicIdPanic i))"

lemma assetIdDTO_toStruct_eq:
  "assetIdDTO_toStruct dto = Inr (asset_of_bits (u64_of_words dto))"
  by (simp add: assetIdDTO_toStruct_def mosaicIdDTO_toStruct_def namespaceIdDTO_toStruct_def
      uint64DTO_toUint64_eq NewMosaicId_def NewNamespaceId_def asset_of_bits_def hasBits_NamespaceBit)

section \<open>Mosaics\<close>

record Mosaic =
  mosaic_AssetId :: AssetId
  mosaic_Amount :: Amount

definition newMosaicPanic :: "AssetId \<Rightarrow> Amount \<Rightarrow> Mosaic" where
  "newMosaicPanic assetId amount = \<lparr>mosaic_AssetId = assetId, mosaic_Amount = amount\<rparr>"

definition NewMosaic :: "AssetId option \<Rightarrow> Amount \<Rightarrow> Mosaic result" where
  "NewMosaic assetId amount =
     (case assetId of None \<Rightarrow> Inl ErrNilAssetId | Some a \<Rightarrow> Inr (newMosaicPanic a amount))"

type_synonym mosaicDTO = "uint64DTO \<times> uint64DTO"

definition mosaicDTO_toStruct :: "mosaicDTO \<Rightarrow> Mosaic result" where
  "mosaicDTO_toStruct dto =
     res_bind (assetIdDTO_toStruct (fst dto)) (\<lambda>assetId.
     res_bind (uint64DTO_toStruct (snd dto)) (\<lambda>amount. NewMosaic (Some assetId) amount))"

type_synonym MosaicPropertyId = u8

definition MosaicPropertyFlagsId :: MosaicPropertyId where "MosaicPropertyFlagsId = 0"
definition MosaicPropertyDivisibilityId :: MosaicPropertyId where "MosaicPropertyDivisibilityId = 1"
definition MosaicPropertyDurationId :: MosaicPropertyId where "MosaicPropertyDurationId = 2"

definition Supply_Mutable :: u64 where "Supply_Mutable = 1"
definition Transferable :: u64 where "Transferable = 2"

record MosaicProperty =
  mp_Id :: MosaicPropertyId
  mp_Value :: baseInt64

record MosaicProperties =
  mps_SupplyMutable :: bool
  mps_Transferable :: bool
  mps_Divisibility :: u8
  mps_OptionalProperties :: "MosaicProperty list"

definition NewMosaicProperties :: "bool \<Rightarrow> bool \<Rightarrow> u8 \<Rightarrow> Duration \<Rightarrow> MosaicProperties" where
  "NewMosaicProperties supplyMutable transferable divisibility duration =
     (let properties = (if duration \<noteq> 0
                        then [\<lparr>mp_Id = MosaicPropertyDurationId, mp_Value = duration\<rparr>] else [])
      in \<lparr>mps_SupplyMutable = supplyMutable, mps_Transferable = transferable,
          mps_Divisibility = divisibility, mps_OptionalProperties = properties\<rparr>)"

fun first_duration :: "MosaicProperty list \<Rightarrow> Duration" where
  "first_duration [] = 0"
| "first_duration (property # ps) =
     (if mp_Id property = MosaicPropertyDurationId then mp_Value property else first_duration ps)"

definition MosaicProperties_Duration :: "MosaicProperties \<Rightarrow> Duration" where
  "MosaicProperties_Duration mp = first_duration (mps_OptionalProperties mp)"

type_synonym mosaicPropertyDTO = "MosaicPropertyId \<times> uint64DTO"
type_synonym mosaicPropertiesDTO = "mosaicPropertyDTO list"

text \<open>One pass of the loop over the JSON properties: flags, divisibility, duration so far.\<close>

fun mosaic_properties_loop ::
  "mosaicPropertiesDTO \<Rightarrow> u64 \<times> u8 \<times> Duration \<Rightarrow> (u64 \<times> u8 \<times> Duration) result" where
  "mosaic_properties_loop [] acc = Inr acc"
| "mosaic_properties_loop ((pid, v) # ps) (flags, divisibility, duration) =
     res_bind (uint64DTO_toUint64 v) (\<lambda>x.
       if pid = MosaicPropertyFlagsId then mosaic_properties_loop ps (x, divisibility, duration)
       else if pid = MosaicPropertyDivisibilityId then mosaic_properties_loop ps (flags, ucast x, duration)
       else if pid = MosaicPropertyDurationId then mosaic_properties_loop ps (flags, divisibility, x)
       else Inl (NewError ''Unknown Property Id''))"

definition mosaicPropertiesDTO_toStruct :: "mosaicPropertiesDTO \<Rightarrow> MosaicProperties result" where
  "mosaicPropertiesDTO_toStruct dto =
     res_bind (mosaic_properties_loop dto (0, 0, 0)) (\<lambda>(flags, divisibility, duration).
       Inr (NewMosaicProperties (hasBits flags Supply_Mutable) (hasBits flags Transferable)
              divisibility duration))"

lemma Duration_NewMosaicProperties [simp]:
  "MosaicProperties_Duration (NewMosaicProperties s t d duration) = duration"
  by (simp add: MosaicProperties_Duration_def NewMosaicProperties_def)

text \<open>The request body with the identifiers of a list of mosaics.\<close>

definition comma_join :: "string list \<Rightarrow> string" where
  "comma_join ss = (case ss of [] \<Rightarrow> [] | s # r \<Rightarrow> s @ concat (map (\<lambda>t. CHR '','' # t) r))"

type_synonym mosaicIds = "MosaicId list"

definition mosaicIds_MarshalJSON :: "mosaicIds \<Rightarrow> byte list result" where
  "mosaicIds_MarshalJSON ids =
     Inr (string_bytes (''{'' @ [CHR 0x22] @ ''mosaicIds'' @ [CHR 0x22] @ '': ['' @
       comma_join (map (\<lambda>m. [CHR 0x22] @ AssetId_toHexString (MosaicAsset m) @ [CHR 0x22]) ids) @ '']}''))"

definition namespaceIds_MarshalJSON :: "NamespaceId list \<Rightarrow> byte list result" where
  "namespaceIds_MarshalJSON ids =
     Inr (string_bytes (''{'' @ [CHR 0x22] @ ''namespaceIds'' @ [CHR 0x22] @ '': ['' @
       comma_join (map (\<lambda>m. [CHR 0x22] @ AssetId_toHexString (NamespaceAsset m) @ [CHR 0x22]) ids) @ '']}''))"

record MosaicName =
  mname_MosaicId :: MosaicId
  mname_Names :: "string list"

record NamespaceName =
  nname_NamespaceId :: NamespaceId
  nname_FullName :: string

type_synonym mosaicNameDTO = "mosaicIdDTO \<times> string list"
type_synonym mosaicNameDTOs = "mosaicNameDTO list"

definition mosaicNameDTO_toStruct :: "mosaicNameDTO \<Rightarrow> MosaicName result" where
  "mosaicNameDTO_toStruct m =
     res_bind (mosaicIdDTO_toStruct (fst m)) (\<lambda>mosaicId.
       Inr \<lparr>mname_MosaicId = mosaicId, mname_Names = snd m\<rparr>)"

definition mosaicNameDTOs_toStruct :: "mosaicNameDTOs \<Rightarrow> MosaicName list result" where
  "mosaicNameDTOs_toStruct dtos = mapR mosaicNameDTO_toStruct dtos"

type_synonym namespaceNameDTO = "namespaceIdDTO \<times> string"
type_synonym namespaceNameDTOs = "namespaceNameDTO list"

definition namespaceNameDTO_toStruct :: "namespaceNameDTO \<Rightarrow> NamespaceName result" where
  "namespaceNameDTO_toStruct dto =
     res_bind (namespaceIdDTO_toStruct (fst dto)) (\<lambda>nsId.
       Inr \<lparr>nname_NamespaceId = nsId, nname_FullName = snd dto\<rparr>)"

definition namespaceNameDTOs_toStruct :: "namespaceNameDTOs \<Rightarrow> NamespaceName list result" where
  "namespaceNameDTOs_toStruct dtos = mapR namespaceNameDTO_toStruct dtos"

section \<open>Identifiers derived by hashing\<close>

definition generateMosaicId :: "'k crypto \<Rightarrow> u32 \<Rightarrow> string \<Rightarrow> MosaicId result" where
  "generateMosaicId C nonce ownerPublicKey =
     (let nonceB = le32 nonce in
      res_bind (hex_decode ownerPublicKey) (\<lambda>ownerBytes.
        let t = cr_sha3_New256_Sum C (nonceB @ ownerBytes) in
        res_bind (le_uint64 t) (\<lambda>i. NewMosaicId (i AND NOT NamespaceBit))))"

definition NewMosaicIdFromNonceAndOwner :: "'k crypto \<Rightarrow> u32 \<Rightarrow> string \<Rightarrow> MosaicId result" where
  "NewMosaicIdFromNonceAndOwner C nonce ownerPublicKey =
     (if length ownerPublicKey \<noteq> 64 then Inl ErrInvalidOwnerPublicKey
      else generateMosaicId C nonce ownerPublicKey)"

definition generateNamespaceId :: "'k crypto \<Rightarrow> string \<Rightarrow> NamespaceId \<Rightarrow> NamespaceId result" where
  "generateNamespaceId C name parentId =
     (let b = baseInt64_toLittleEndian (namespaceId_baseInt64 parentId);
          t = cr_sha3_New256_Sum C (b @ string_bytes name)
      in res_bind (le_uint64 t) (\<lambda>i. NewNamespaceId (i OR NamespaceBit)))"

text \<open>\<open>strings.Split\<close> by a one-character separator; the regular expression \<open>^[a-z0-9][a-z0-9-_]*$\<close>.\<close>

fun Split :: "char \<Rightarrow> string \<Rightarrow> string list" where
  "Split c [] = [[]]"
| "Split c (x # s) =
     (if x = c then [] # Split c s
      else (case Split c s of [] \<Rightarrow> [[x]] | p # ps \<Rightarrow> (x # p) # ps))"

definition lower_alnum :: "char \<Rightarrow> bool" where
  "lower_alnum c =
     (let n = of_char c :: nat in (97 \<le> n \<and> n \<le> 122) \<or> (48 \<le> n \<and> n \<le> 57))"

definition regValidNamespace :: "string \<Rightarrow> bool" where
  "regValidNamespace s =
     (case s of [] \<Rightarrow> False
      | c # r \<Rightarrow> lower_alnum c \<and> list_all (\<lambda>x. lower_alnum x \<or> x = CHR ''-'' \<or> x = CHR ''_'') r)"

fun namespace_path_loop :: "'k crypto \<Rightarrow> string list \<Rightarrow> NamespaceId \<Rightarrow> NamespaceId list \<Rightarrow> NamespaceId list result" where
  "namespace_path_loop C [] namespaceId path = Inr path"
| "namespace_path_loop C (part # parts) namespaceId path =
     (if \<not> regValidNamespace part then Inl ErrInvalidNamespaceName
      else res_bind (generateNamespaceId C part namespaceId) (\<lambda>n.
        namespace_path_loop C parts n (path @ [n])))"

definition GenerateNamespacePath :: "'k crypto \<Rightarrow> string \<Rightarrow> NamespaceId list result" where
  "GenerateNamespacePath C name =
     (let parts = Split CHR ''.'' name in
      if length parts = 0 then Inl ErrInvalidNamespaceName
      else if length parts > 3 then Inl ErrNamespaceTooManyPart
      else namespace_path_loop C parts (newNamespaceIdPanic 0) [])"

definition NewNamespaceIdFromName :: "'k crypto \<Rightarrow> string \<Rightarrow> NamespaceId result" where
  "NewNamespaceIdFromName C namespaceName =
     res_bind (GenerateNamespacePath C namespaceName) (\<lambda>l.
       if length l = 0 then Inl ErrInvalidNamespaceName else Inr (l ! (length l - 1)))"

text \<open>
  \<open>Xem\<close> and \<open>Xpx\<close> use the identifiers of \<open>nem.xem\<close> and \<open>prx.xpx\<close>, computed once at start-up with the
  error ignored; the panic stands for the nil pointer that would give.
\<close>

definition Xem :: "'k crypto \<Rightarrow> u64 \<Rightarrow> Mosaic result" where
  "Xem C amount = (case NewNamespaceIdFromName C ''nem.xem'' of
     Inl _ \<Rightarrow> Inl Panicked | Inr n \<Rightarrow> Inr (newMosaicPanic (NamespaceAsset n) amount))"

definition Xpx :: "'k crypto \<Rightarrow> u64 \<Rightarrow> Mosaic result" where
  "Xpx C amount = (case NewNamespaceIdFromName C ''prx.xpx'' of
     Inl _ \<Rightarrow> Inl Panicked | Inr n \<Rightarrow> Inr (newMosaicPanic (NamespaceAsset n) amount))"

definition XemRelative :: "'k crypto \<Rightarrow> u64 \<Rightarrow> Mosaic result" where
  "XemRelative C amount = Xem C (1000000 * amount)"

definition XpxRelative :: "'k crypto \<Rightarrow> u64 \<Rightarrow> Mosaic result" where
  "XpxRelative C amount = Xpx C (1000000 * amount)"

lemma Split_not_Nil [simp]: "Split c s \<noteq> []"
  by (induction s) (auto split: list.splits)

lemma Split_snoc:
  "c \<notin> set part \<Longrightarrow> Split c part = [part]"
  "c \<notin> set part \<Longrightarrow> Split c (s @ c # part) = Split c s @ [part]"
proof -
  show one: "c \<notin> set part \<Longrightarrow> Split c part = [part]"
    by (induction part) auto
  show "c \<notin> set part \<Longrightarrow> Split c (s @ c # part) = Split c s @ [part]"
  proof (induction s)
    case Nil
    then show ?case using one by simp
  next
    case (Cons x s)
    then show ?case by (cases "Split c s") auto
  qed
qed

lemma generateNamespaceId_ok:
  assumes "hashes_ok C"
  shows "\<exists>n. generateNamespaceId C name p = Inr n \<and> bit (namespaceId_baseInt64 n) 63"
proof -
  let ?t = "cr_sha3_New256_Sum C (baseInt64_toLittleEndian (namespaceId_baseInt64 p) @ string_bytes name)"
  have "length ?t = 32" by (rule hashes_okD(1) [OF assms])
  then obtain i where i: "le_uint64 ?t = Inr i"
    by (auto simp: le_uint64_def read_le_def)
  have b: "bit (i OR NamespaceBit) 63"
    by (simp add: NamespaceBit_def bit_simps)
  then have "i OR NamespaceBit \<noteq> 0" by (metis bit_0_eq bot_apply bot_bool_def)
  with i b show ?thesis
    by (simp add: generateNamespaceId_def Let_def NewNamespaceId_def hasBits_NamespaceBit
        newNamespaceIdPanic_def)
qed

lemma generateMosaicId_ok:
  assumes "hashes_ok C" "hex_decode key = Inr bs"
  shows "\<exists>m. generateMosaicId C nonce key = Inr m \<and> \<not> bit (mosaicId_baseInt64 m) 63"
proof -
  have "length (cr_sha3_New256_Sum C (le32 nonce @ bs)) = 32" by (rule hashes_okD(1) [OF assms(1)])
  then obtain i where i: "le_uint64 (cr_sha3_New256_Sum C (le32 nonce @ bs)) = Inr i"
    by (auto simp: le_uint64_def read_le_def)
  have b: "\<not> bit (i AND NOT NamespaceBit) 63"
    by (simp add: NamespaceBit_def bit_simps)
  with i assms(2) show ?thesis
    by (simp add: generateMosaicId_def Let_def NewMosaicId_def hasBits_NamespaceBit
        newMosaicIdPanic_def)
qed

text \<open>The loop as a specification: each identifier is generated from the one before it.\<close>

lemma namespace_path_loop_snoc:
  "namespace_path_loop C (parts @ [part]) n path =
     res_bind (namespace_path_loop C parts n path) (\<lambda>path'.
       if \<not> regValidNamespace part then Inl ErrInvalidNamespaceName
       else res_map (\<lambda>m. path' @ [m])
         (generateNamespaceId C part (last (n # drop (length path) path'))))"
proof (induction parts arbitrary: n path)
  case Nil
  then show ?case by (cases "generateNamespaceId C part n") auto
next
  case (Cons q parts)
  show ?case
  proof (cases "regValidNamespace q")
    case True
    show ?thesis
    proof (cases "generateNamespaceId C q n")
      case (Inr m)
      have pre: "\<exists>r. path' = path @ m # r" if "namespace_path_loop C parts m (path @ [m]) = Inr path'" for path'
      proof -
        have "\<exists>r. path' = p @ r" if "namespace_path_loop C ps k p = Inr path'" for ps k p path'
          using that by (induction ps arbitrary: k p) (auto simp: res_bind_Inr_iff split: if_splits, fastforce)
        from this [OF that] show ?thesis by simp
      qed
      show ?thesis using True Inr Cons.IH [of m "path @ [m]"] pre
        by (cases "namespace_path_loop C parts m (path @ [m])") fastforce+
    qed (simp add: True)
  qed simp
qed

lemma namespace_path_loop_ids:
  assumes "hashes_ok C" "list_all regValidNamespace parts"
  shows "\<exists>ids. namespace_path_loop C parts n path = Inr (path @ ids) \<and> length ids = length parts
    \<and> (\<forall>i \<in> set ids. bit (namespaceId_baseInt64 i) 63)"
  using assms(2)
proof (induction parts arbitrary: n path)
  case (Cons part parts)
  obtain m where m: "generateNamespaceId C part n = Inr m" "bit (namespaceId_baseInt64 m) 63"
    using generateNamespaceId_ok [OF assms(1)] by blast
  obtain ids where "namespace_path_loop C parts m (path @ [m]) = Inr ((path @ [m]) @ ids)"
    "length ids = length parts" "\<forall>i \<in> set ids. bit (namespaceId_baseInt64 i) 63"
    using Cons.IH [of m "path @ [m]"] Cons.prems by auto
  then show ?case using m Cons.prems by (intro exI [of _ "m # ids"]) simp
qed simp

lemma namespace_path_loop_invalid:
  "hashes_ok C \<Longrightarrow> \<not> list_all regValidNamespace parts \<Longrightarrow>
     namespace_path_loop C parts n path = Inl ErrInvalidNamespaceName"
proof (induction parts arbitrary: n path)
  case (Cons part parts)
  then obtain m where "generateNamespaceId C part n = Inr m"
    using generateNamespaceId_ok by blast
  with Cons show ?case by auto
qed simp

section \<open>Properties\<close>

text \<open>An identifier is well formed if the high bit agrees with its kind; namespace zero is not.\<close>

fun asset_wf :: "AssetId \<Rightarrow> bool" where
  "asset_wf (MosaicAsset m) = (\<not> bit (mosaicId_baseInt64 m) 63)"
| "asset_wf (NamespaceAsset n) = bit (namespaceId_baseInt64 n) 63"

text \<open>
  Parsing an asset identifier inverts its two-word form: a pair of words parses to \<open>a\<close> exactly
  when \<open>a\<close> is well formed and the words are its array, so parsing never fails and the kind is read
  off the high bit.
\<close>

theorem asset_id_roundtrip:
  "assetIdDTO_toStruct dto = Inr a \<longleftrightarrow> asset_wf a \<and> AssetId_toArray a = dto"
proof
  assume "assetIdDTO_toStruct dto = Inr a"
  then show "asset_wf a \<and> AssetId_toArray a = dto"
    by (auto simp: assetIdDTO_toStruct_eq asset_of_bits_def AssetId_toArray_def baseInt64_toArray_def
        newMosaicIdPanic_def newNamespaceIdPanic_def)
next
  assume "asset_wf a \<and> AssetId_toArray a = dto"
  then show "assetIdDTO_toStruct dto = Inr a"
    by (cases a) (auto simp: assetIdDTO_toStruct_eq asset_of_bits_def AssetId_toArray_def
        baseInt64_toArray_def newMosaicIdPanic_def newNamespaceIdPanic_def)
qed

text \<open>
  \<open>Equals\<close> on asset identifiers is an equivalence that compares exactly what is printed and what
  is sent: equal identifiers have equal strings, equal arrays and equal bytes, and conversely. (The
  kind needs no comparison of its own when both are well formed, since the bits hold it.)
\<close>

theorem asset_equality:
  "(AssetId_Equals a b \<longleftrightarrow> AssetId_String a = AssetId_String b)
   \<and> (AssetId_Equals a b \<longleftrightarrow> AssetId_toArray a = AssetId_toArray b)
   \<and> (AssetId_Equals a b \<longleftrightarrow> AssetId_toLittleEndian a = AssetId_toLittleEndian b)
   \<and> (asset_wf a \<and> asset_wf b \<and> AssetId_Equals a b \<longleftrightarrow> asset_wf a \<and> a = b)"
proof -
  have "a = b" if "asset_wf a" "asset_wf b" "AssetId_Equals a b"
    using that by (cases a; cases b) (auto simp: AssetId_Equals_def)
  then show ?thesis
    using asset.Equals_iff_String asset.Equals_iff_array asset.Equals_iff_bytes asset.Equals_equiv(1) by metis
qed

text \<open>
  A child's path extends its parent's: appending \<open>.part\<close> to a name of at most two parts keeps the
  path of the name and adds the identifier generated from the last one, or reports an invalid part.
\<close>

theorem namespace_path_extends:
  assumes "CHR ''.'' \<notin> set part" "length (Split CHR ''.'' name) < 3"
  shows "GenerateNamespacePath C (name @ CHR ''.'' # part) =
    res_bind (GenerateNamespacePath C name) (\<lambda>path.
      if \<not> regValidNamespace part then Inl ErrInvalidNamespaceName
      else res_map (\<lambda>n. path @ [n])
        (generateNamespaceId C part (last (newNamespaceIdPanic 0 # path))))"
  using assms
  by (simp add: GenerateNamespacePath_def Split_snoc namespace_path_loop_snoc cong: if_cong)

theorem namespace_path_extends_witness:
  "GenerateNamespacePath sample_crypto (''prx'' @ CHR ''.'' # ''xpx'') =
    res_bind (GenerateNamespacePath sample_crypto ''prx'') (\<lambda>path.
      if \<not> regValidNamespace ''xpx'' then Inl ErrInvalidNamespaceName
      else res_map (\<lambda>n. path @ [n])
        (generateNamespaceId sample_crypto ''xpx'' (last (newNamespaceIdPanic 0 # path))))"
  by (rule namespace_path_extends) simp_all

text \<open>
  C39. The outcome of generating a namespace path, for every name: more than three parts is one error,
  an invalid part another, and otherwise there is one identifier per part, each a namespace
  identifier (high bit set).
\<close>

theorem namespace_path_outcome:
  assumes "hashes_ok C"
  shows "let parts = Split CHR ''.'' name; r = GenerateNamespacePath C name in
    if 3 < length parts then r = Inl ErrNamespaceTooManyPart
    else if \<not> list_all regValidNamespace parts then r = Inl ErrInvalidNamespaceName
    else (case r of Inl e \<Rightarrow> False
          | Inr ids \<Rightarrow> length ids = length parts \<and> list_all (\<lambda>i. bit (namespaceId_baseInt64 i) 63) ids)"
proof (cases "list_all regValidNamespace (Split CHR ''.'' name)")
  case True
  from namespace_path_loop_ids [OF assms True, of "newNamespaceIdPanic 0" "[]"] obtain ids where
    "namespace_path_loop C (Split CHR ''.'' name) (newNamespaceIdPanic 0) [] = Inr ids"
    "length ids = length (Split CHR ''.'' name)" "list_all (\<lambda>i. bit (namespaceId_baseInt64 i) 63) ids"
    by (auto simp: list_all_iff)
  with True show ?thesis by (simp add: GenerateNamespacePath_def Let_def)
next
  case False
  then show ?thesis
    using namespace_path_loop_invalid [OF assms] by (simp add: GenerateNamespacePath_def Let_def)
qed

theorem namespace_path_outcome_witness:
  "case GenerateNamespacePath sample_crypto ''prx.xpx'' of Inl e \<Rightarrow> False
   | Inr ids \<Rightarrow> length ids = 2 \<and> list_all (\<lambda>i. bit (namespaceId_baseInt64 i) 63) ids"
  using namespace_path_outcome [OF sample_hashes_ok, of "''prx.xpx''"]
  by (simp add: regValidNamespace_def lower_alnum_def split: sum.splits)

end
