(* ===== verification/Constants.thy ===== *)
theory Constants
  imports SdkModel
begin

text \<open>
  The constants of \<open>sdk/transaction_model.go\<close> and \<open>sdk/network_model.go\<close>: network types, entity
  types and versions, the enumerations of the transactions' fields, and the sizes in bytes of their
  parts. Sizes are natural numbers: the code adds them, and where it subtracts the model writes the
  bound out. \<open>go_sizes\<close> evaluates them.
\<close>

named_theorems go_sizes \<open>the sizes of transaction parts, as numerals\<close>
named_theorems go_consts \<open>the enumeration constants, as numerals\<close>

section \<open>Network types\<close>

type_synonym NetworkType = u8

definition Mijin :: NetworkType where [go_consts]: "Mijin = 96"
definition MijinTest :: NetworkType where [go_consts]: "MijinTest = 144"
definition Public :: NetworkType where [go_consts]: "Public = 184"
definition PublicTest :: NetworkType where [go_consts]: "PublicTest = 168"
definition Private :: NetworkType where [go_consts]: "Private = 200"
definition PrivateTest :: NetworkType where [go_consts]: "PrivateTest = 176"
definition NotSupportedNet :: NetworkType where [go_consts]: "NotSupportedNet = 0"
definition AliasAddress :: NetworkType where [go_consts]: "AliasAddress = 145"

definition NetworkTypeFromString :: "string \<Rightarrow> NetworkType" where
  "NetworkTypeFromString networkType =
     (if networkType = ''mijin'' then Mijin
      else if networkType = ''mijinTest'' then MijinTest
      else if networkType = ''public'' then Public
      else if networkType = ''publicTest'' then PublicTest
      else if networkType = ''private'' then Private
      else if networkType = ''privateTest'' then PrivateTest
      else NotSupportedNet)"

text \<open>\<open>uint32(version) >> 24\<close> and \<open>uint32(version) & 0xFFFFFF\<close> of an \<open>int64\<close>.\<close>

type_synonym EntityType = u16
type_synonym EntityVersion = u32

definition ExtractNetworkType :: "u64 \<Rightarrow> NetworkType" where
  "ExtractNetworkType version = ucast (drop_bit 24 (ucast version :: u32))"

definition ExtractVersion :: "u64 \<Rightarrow> EntityVersion" where
  "ExtractVersion version = (ucast version :: u32) AND 0xFFFFFF"

section \<open>Entity types and versions\<close>

definition ET_AccountPropertyAddress :: EntityType where [go_consts]: "ET_AccountPropertyAddress = 0x4150"
definition ET_AccountPropertyMosaic :: EntityType where [go_consts]: "ET_AccountPropertyMosaic = 0x4250"
definition ET_AccountPropertyEntityType :: EntityType where [go_consts]: "ET_AccountPropertyEntityType = 0x4350"
definition ET_AddressAlias :: EntityType where [go_consts]: "ET_AddressAlias = 0x424e"
definition ET_AggregateBonded :: EntityType where [go_consts]: "ET_AggregateBonded = 0x4241"
definition ET_AggregateCompleted :: EntityType where [go_consts]: "ET_AggregateCompleted = 0x4141"
definition ET_Block :: EntityType where [go_consts]: "ET_Block = 0x8143"
definition ET_NemesisBlock :: EntityType where [go_consts]: "ET_NemesisBlock = 0x8043"
definition ET_NetworkConfigEntityType :: EntityType where [go_consts]: "ET_NetworkConfigEntityType = 0x4159"
definition ET_BlockchainUpgrade :: EntityType where [go_consts]: "ET_BlockchainUpgrade = 0x4158"
definition ET_LinkAccount :: EntityType where [go_consts]: "ET_LinkAccount = 0x414c"
definition ET_Lock :: EntityType where [go_consts]: "ET_Lock = 0x4148"
definition ET_MetadataAddress :: EntityType where [go_consts]: "ET_MetadataAddress = 0x413d"
definition ET_MetadataMosaic :: EntityType where [go_consts]: "ET_MetadataMosaic = 0x423d"
definition ET_MetadataNamespace :: EntityType where [go_consts]: "ET_MetadataNamespace = 0x433d"
definition ET_ModifyContract :: EntityType where [go_consts]: "ET_ModifyContract = 0x4157"
definition ET_ModifyMultisig :: EntityType where [go_consts]: "ET_ModifyMultisig = 0x4155"
definition ET_MosaicAlias :: EntityType where [go_consts]: "ET_MosaicAlias = 0x434e"
definition ET_MosaicDefinition :: EntityType where [go_consts]: "ET_MosaicDefinition = 0x414d"
definition ET_MosaicSupplyChange :: EntityType where [go_consts]: "ET_MosaicSupplyChange = 0x424d"
definition ET_RegisterNamespace :: EntityType where [go_consts]: "ET_RegisterNamespace = 0x414e"
definition ET_SecretLock :: EntityType where [go_consts]: "ET_SecretLock = 0x4152"
definition ET_SecretProof :: EntityType where [go_consts]: "ET_SecretProof = 0x4252"
definition ET_Transfer :: EntityType where [go_consts]: "ET_Transfer = 0x4154"

definition AccountPropertyAddressVersion :: EntityVersion where [go_consts]: "AccountPropertyAddressVersion = 1"
definition AccountPropertyMosaicVersion :: EntityVersion where [go_consts]: "AccountPropertyMosaicVersion = 1"
definition AccountPropertyEntityTypeVersion :: EntityVersion where [go_consts]: "AccountPropertyEntityTypeVersion = 1"
definition AddressAliasVersion :: EntityVersion where [go_consts]: "AddressAliasVersion = 1"
definition AggregateBondedVersion :: EntityVersion where [go_consts]: "AggregateBondedVersion = 2"
definition AggregateCompletedVersion :: EntityVersion where [go_consts]: "AggregateCompletedVersion = 2"
definition NetworkConfigVersion :: EntityVersion where [go_consts]: "NetworkConfigVersion = 1"
definition BlockchainUpgradeVersion :: EntityVersion where [go_consts]: "BlockchainUpgradeVersion = 1"
definition LinkAccountVersion :: EntityVersion where [go_consts]: "LinkAccountVersion = 2"
definition LockVersion :: EntityVersion where [go_consts]: "LockVersion = 1"
definition MetadataAddressVersion :: EntityVersion where [go_consts]: "MetadataAddressVersion = 1"
definition MetadataMosaicVersion :: EntityVersion where [go_consts]: "MetadataMosaicVersion = 1"
definition MetadataNamespaceVersion :: EntityVersion where [go_consts]: "MetadataNamespaceVersion = 1"
definition ModifyContractVersion :: EntityVersion where [go_consts]: "ModifyContractVersion = 3"
definition ModifyMultisigVersion :: EntityVersion where [go_consts]: "ModifyMultisigVersion = 3"
definition MosaicAliasVersion :: EntityVersion where [go_consts]: "MosaicAliasVersion = 1"
definition MosaicDefinitionVersion :: EntityVersion where [go_consts]: "MosaicDefinitionVersion = 3"
definition MosaicSupplyChangeVersion :: EntityVersion where [go_consts]: "MosaicSupplyChangeVersion = 2"
definition RegisterNamespaceVersion :: EntityVersion where [go_consts]: "RegisterNamespaceVersion = 2"
definition SecretLockVersion :: EntityVersion where [go_consts]: "SecretLockVersion = 1"
definition SecretProofVersion :: EntityVersion where [go_consts]: "SecretProofVersion = 1"
definition TransferVersion :: EntityVersion where [go_consts]: "TransferVersion = 3"

section \<open>Field enumerations\<close>

type_synonym AccountLinkAction = u8

definition AccountLink :: AccountLinkAction where [go_consts]: "AccountLink = 0"
definition AccountUnlink :: AccountLinkAction where [go_consts]: "AccountUnlink = 1"

type_synonym AliasActionType = u8

definition AliasLink :: AliasActionType where [go_consts]: "AliasLink = 0"
definition AliasUnlink :: AliasActionType where [go_consts]: "AliasUnlink = 1"

type_synonym AliasType = u8

definition NoneAliasType :: AliasType where [go_consts]: "NoneAliasType = 0"
definition MosaicAliasType :: AliasType where [go_consts]: "MosaicAliasType = 1"
definition AddressAliasType :: AliasType where [go_consts]: "AddressAliasType = 2"

type_synonym PropertyModificationType = u8

definition AddProperty :: PropertyModificationType where [go_consts]: "AddProperty = 0"
definition RemoveProperty :: PropertyModificationType where [go_consts]: "RemoveProperty = 1"

type_synonym MultisigCosignatoryModificationType = u8

definition Add :: MultisigCosignatoryModificationType where [go_consts]: "Add = 0"
definition Remove :: MultisigCosignatoryModificationType where [go_consts]: "Remove = 1"

type_synonym MetadataModificationType = u8

definition AddMetadata :: MetadataModificationType where [go_consts]: "AddMetadata = 0"
definition RemoveMetadata :: MetadataModificationType where [go_consts]: "RemoveMetadata = 1"

type_synonym MetadataType = u8

definition MetadataNone :: MetadataType where [go_consts]: "MetadataNone = 0"
definition MetadataAddressType :: MetadataType where [go_consts]: "MetadataAddressType = 1"
definition MetadataMosaicType :: MetadataType where [go_consts]: "MetadataMosaicType = 2"
definition MetadataNamespaceType :: MetadataType where [go_consts]: "MetadataNamespaceType = 3"

type_synonym MosaicSupplyType = u8

definition Decrease :: MosaicSupplyType where [go_consts]: "Decrease = 0"
definition Increase :: MosaicSupplyType where [go_consts]: "Increase = 1"

type_synonym NamespaceType = u8

definition Root :: NamespaceType where [go_consts]: "Root = 0"
definition Sub :: NamespaceType where [go_consts]: "Sub = 1"

type_synonym PropertyType = u8

definition AllowAddress :: PropertyType where [go_consts]: "AllowAddress = 0x01"
definition AllowMosaic :: PropertyType where [go_consts]: "AllowMosaic = 0x02"
definition AllowTransaction :: PropertyType where [go_consts]: "AllowTransaction = 0x04"
definition Sentinel :: PropertyType where [go_consts]: "Sentinel = 0x05"
definition BlockAddress :: PropertyType where [go_consts]: "BlockAddress = 0x80 + 0x01"
definition BlockMosaic :: PropertyType where [go_consts]: "BlockMosaic = 0x80 + 0x02"
definition BlockTransaction :: PropertyType where [go_consts]: "BlockTransaction = 0x80 + 0x04"

section \<open>Sizes\<close>

definition AddressSize :: nat where [go_sizes]: "AddressSize = 25"
definition BaseInt64Size :: nat where [go_sizes]: "BaseInt64Size = 8"
definition AmountSize :: nat where [go_sizes]: "AmountSize = BaseInt64Size"
definition KeySize :: nat where [go_sizes]: "KeySize = 32"
definition Hash256 :: nat where [go_sizes]: "Hash256 = 32"
definition MosaicIdSize :: nat where [go_sizes]: "MosaicIdSize = BaseInt64Size"
definition NamespaceSize :: nat where [go_sizes]: "NamespaceSize = BaseInt64Size"
definition SizeSize :: nat where [go_sizes]: "SizeSize = 4"
definition MaxStringSize :: nat where [go_sizes]: "MaxStringSize = 2"
definition SignerSize :: nat where [go_sizes]: "SignerSize = KeySize"
definition SignatureSize :: nat where [go_sizes]: "SignatureSize = 64"
definition HalfOfSignature :: nat where [go_sizes]: "HalfOfSignature = SignatureSize div 2"
definition VersionSize :: nat where [go_sizes]: "VersionSize = 4"
definition TypeSize :: nat where [go_sizes]: "TypeSize = 2"
definition MaxFeeSize :: nat where [go_sizes]: "MaxFeeSize = BaseInt64Size"
definition DeadLineSize :: nat where [go_sizes]: "DeadLineSize = BaseInt64Size"
definition DurationSize :: nat where [go_sizes]: "DurationSize = BaseInt64Size"
definition TransactionHeaderSize :: nat where [go_sizes]: "TransactionHeaderSize = SizeSize + SignerSize + SignatureSize + VersionSize + TypeSize + MaxFeeSize + DeadLineSize"
definition PropertyTypeSize :: nat where [go_sizes]: "PropertyTypeSize = 2"
definition PropertyModificationTypeSize :: nat where [go_sizes]: "PropertyModificationTypeSize = 1"
definition AccountPropertiesAddressModificationSize :: nat where [go_sizes]: "AccountPropertiesAddressModificationSize = PropertyModificationTypeSize + AddressSize"
definition AccountPropertiesMosaicModificationSize :: nat where [go_sizes]: "AccountPropertiesMosaicModificationSize = PropertyModificationTypeSize + MosaicIdSize"
definition AccountPropertiesEntityModificationSize :: nat where [go_sizes]: "AccountPropertiesEntityModificationSize = PropertyModificationTypeSize + TypeSize"
definition AccountPropertyAddressHeader :: nat where [go_sizes]: "AccountPropertyAddressHeader = TransactionHeaderSize + PropertyTypeSize"
definition AccountPropertyMosaicHeader :: nat where [go_sizes]: "AccountPropertyMosaicHeader = TransactionHeaderSize + PropertyTypeSize"
definition AccountPropertyEntityTypeHeader :: nat where [go_sizes]: "AccountPropertyEntityTypeHeader = TransactionHeaderSize + PropertyTypeSize"
definition LinkActionSize :: nat where [go_sizes]: "LinkActionSize = 1"
definition AccountLinkTransactionSize :: nat where [go_sizes]: "AccountLinkTransactionSize = TransactionHeaderSize + KeySize + LinkActionSize"
definition AliasActionSize :: nat where [go_sizes]: "AliasActionSize = 1"
definition AliasTransactionHeaderSize :: nat where [go_sizes]: "AliasTransactionHeaderSize = TransactionHeaderSize + NamespaceSize + AliasActionSize"
definition AggregateBondedHeaderSize :: nat where [go_sizes]: "AggregateBondedHeaderSize = TransactionHeaderSize + SizeSize"
definition NetworkConfigHeaderSize :: nat where [go_sizes]: "NetworkConfigHeaderSize = TransactionHeaderSize + BaseInt64Size + MaxStringSize + MaxStringSize"
definition BlockchainUpgradeTransactionSize :: nat where [go_sizes]: "BlockchainUpgradeTransactionSize = TransactionHeaderSize + DurationSize + BaseInt64Size"
definition HashTypeSize :: nat where [go_sizes]: "HashTypeSize = 1"
definition LockSize :: nat where [go_sizes]: "LockSize = TransactionHeaderSize + MosaicIdSize + AmountSize + DurationSize + Hash256"
definition MetadataTypeSize :: nat where [go_sizes]: "MetadataTypeSize = 1"
definition MetadataHeaderSize :: nat where [go_sizes]: "MetadataHeaderSize = TransactionHeaderSize + MetadataTypeSize"
definition ModificationsSizeSize :: nat where [go_sizes]: "ModificationsSizeSize = 1"
definition ModifyContractHeaderSize :: nat where [go_sizes]: "ModifyContractHeaderSize = TransactionHeaderSize + DurationSize + Hash256 + 3 * ModificationsSizeSize"
definition MinApprovalSize :: nat where [go_sizes]: "MinApprovalSize = 1"
definition MinRemovalSize :: nat where [go_sizes]: "MinRemovalSize = 1"
definition ModifyMultisigHeaderSize :: nat where [go_sizes]: "ModifyMultisigHeaderSize = TransactionHeaderSize + MinApprovalSize + MinRemovalSize + ModificationsSizeSize"
definition MosaicNonceSize :: nat where [go_sizes]: "MosaicNonceSize = 4"
definition MosaicPropertiesHeaderSize :: nat where [go_sizes]: "MosaicPropertiesHeaderSize = 3"
definition MosaicPropertyIdSize :: nat where [go_sizes]: "MosaicPropertyIdSize = 1"
definition MosaicOptionalPropertySize :: nat where [go_sizes]: "MosaicOptionalPropertySize = MosaicPropertyIdSize + BaseInt64Size"
definition MosaicDefinitionTransactionHeaderSize :: nat where [go_sizes]: "MosaicDefinitionTransactionHeaderSize = TransactionHeaderSize + MosaicNonceSize + MosaicIdSize + MosaicPropertiesHeaderSize"
definition MosaicSupplyDirectionSize :: nat where [go_sizes]: "MosaicSupplyDirectionSize = 1"
definition MosaicSupplyChangeTransactionSize :: nat where [go_sizes]: "MosaicSupplyChangeTransactionSize = TransactionHeaderSize + MosaicIdSize + AmountSize + MosaicSupplyDirectionSize"
definition NamespaceTypeSize :: nat where [go_sizes]: "NamespaceTypeSize = 1"
definition NamespaceNameSizeSize :: nat where [go_sizes]: "NamespaceNameSizeSize = 1"
definition RegisterNamespaceHeaderSize :: nat where [go_sizes]: "RegisterNamespaceHeaderSize = TransactionHeaderSize + NamespaceTypeSize + DurationSize + NamespaceSize + NamespaceNameSizeSize"
definition SecretLockSize :: nat where [go_sizes]: "SecretLockSize = TransactionHeaderSize + MosaicIdSize + AmountSize + DurationSize + HashTypeSize + Hash256 + AddressSize"
definition ProofSizeSize :: nat where [go_sizes]: "ProofSizeSize = 2"
definition SecretProofHeaderSize :: nat where [go_sizes]: "SecretProofHeaderSize = TransactionHeaderSize + HashTypeSize + Hash256 + AddressSize + ProofSizeSize"
definition MosaicsSizeSize :: nat where [go_sizes]: "MosaicsSizeSize = 1"
definition MessageSizeSize :: nat where [go_sizes]: "MessageSizeSize = 2"
definition TransferHeaderSize :: nat where [go_sizes]: "TransferHeaderSize = TransactionHeaderSize + AddressSize + MosaicsSizeSize + MessageSizeSize"

lemma TransactionHeaderSize_value: "TransactionHeaderSize = 122"
  by (simp add: go_sizes)

text \<open>Network type and version packed into one field and taken out again.\<close>

lemma ExtractVersion_packed:
  fixes nt :: NetworkType and v :: EntityVersion
  assumes "v AND 0xFFFFFF = v"
  shows "ExtractVersion (ucast (push_bit 24 (ucast nt) OR v)) = v"
    and "ExtractNetworkType (ucast (push_bit 24 (ucast nt) OR v)) = nt"
proof -
  have v: "bit v n \<Longrightarrow> n < 24" for n
  proof -
    assume "bit v n"
    then have "bit (v AND mask 24) n" using assms by (simp add: mask_eq_exp_minus_1)
    then show "n < 24" by (simp add: bit_simps)
  qed
  have m: "(0xFFFFFF :: 32 word) = mask 24" by (simp add: mask_eq_exp_minus_1)
  show "ExtractVersion (ucast (push_bit 24 (ucast nt) OR v)) = v"
    unfolding ExtractVersion_def m
    by (rule bit_word_eqI) (use v in \<open>auto simp: bit_simps\<close>)
  show "ExtractNetworkType (ucast (push_bit 24 (ucast nt) OR v)) = nt"
    unfolding ExtractNetworkType_def
    by (rule bit_word_eqI) (use v in \<open>auto simp: bit_simps dest: bit_imp_le_length\<close>)
qed

end
