(* ===== verification/Accounts.thy ===== *)
theory Accounts
  imports AssetIds Constants
begin

text \<open>
  \<open>sdk/account_model.go\<close>, \<open>sdk/account_internal.go\<close> and \<open>NewAddressFromNamespace\<close> of
  \<open>sdk/namespace_model.go\<close>: addresses and how they are derived, parsed and printed, accounts, and
  the conversions of the account service's JSON structures. The encoded form of an address is
  network byte, 20 bytes of key digest, four bytes of checksum, in base32.
\<close>

section \<open>Addresses\<close>

record Address =
  addr_Type :: NetworkType
  addr_Address :: string

record PublicAccount =
  pa_Address :: Address
  pa_PublicKey :: string

definition addressNet :: "u8 \<Rightarrow> NetworkType option" where
  "addressNet b =
     (if b = 96 then Some Mijin
      else if b = 144 then Some MijinTest
      else if b = 145 then Some AliasAddress
      else if b = 184 then Some Public
      else if b = 168 then Some PublicTest
      else if b = 200 then Some Private
      else if b = 176 then Some PrivateTest
      else None)"

definition NewAddress :: "string \<Rightarrow> NetworkType \<Rightarrow> Address" where
  "NewAddress address networkType =
     (let address = remove_char CHR ''-'' address;
          address = ToUpper address
      in \<lparr>addr_Type = networkType, addr_Address = address\<rparr>)"

definition NewAddressFromRaw :: "string \<Rightarrow> Address result" where
  "NewAddressFromRaw address =
     res_bind (b32_decode address) (\<lambda>pH.
       case pH of [] \<Rightarrow> Inl Panicked
       | b # _ \<Rightarrow> (case addressNet b of
           Some nType \<Rightarrow> Inr (NewAddress address nType)
         | None \<Rightarrow> Inl ErrInvalidAddress))"

definition NUM_CHECKSUM_BYTES :: nat where
  "NUM_CHECKSUM_BYTES = 4"

definition GenerateChecksum :: "'k crypto \<Rightarrow> byte list \<Rightarrow> byte list result" where
  "GenerateChecksum C b =
     res_bind (cr_HashesSha3_256 C b) (\<lambda>sha3StepThreeHash.
       subslice sha3StepThreeHash 0 NUM_CHECKSUM_BYTES)"

definition generateEncodedAddress :: "'k crypto \<Rightarrow> string \<Rightarrow> NetworkType \<Rightarrow> string result" where
  "generateEncodedAddress C pKey version =
     res_bind (hex_decode pKey) (\<lambda>pKeyD.
     res_bind (cr_HashesSha3_256 C pKeyD) (\<lambda>sha3PublicKeyHash.
     res_bind (cr_HashesRipemd160 C sha3PublicKeyHash) (\<lambda>ripemd160StepOneHash.
       let versionPrefixedRipemd160Hash = [version] @ ripemd160StepOneHash in
       res_bind (GenerateChecksum C versionPrefixedRipemd160Hash) (\<lambda>stepThreeChecksum.
         let concatStepThreeAndStepSix = versionPrefixedRipemd160Hash @ stepThreeChecksum in
         Inr (b32_encode concatStepThreeAndStepSix)))))"

definition NewAddressFromPublicKey :: "'k crypto \<Rightarrow> string \<Rightarrow> NetworkType \<Rightarrow> Address result" where
  "NewAddressFromPublicKey C pKey networkType =
     res_bind (generateEncodedAddress C pKey networkType) (\<lambda>ad. Inr (NewAddress ad networkType))"

definition NewAddressFromBase32 :: "string \<Rightarrow> Address result" where
  "NewAddressFromBase32 encoded =
     res_bind (hex_decode encoded) (\<lambda>pH.
       let parsed = b32_encode pH in NewAddressFromRaw parsed)"

definition EncodedStringToAddresses :: "string list \<Rightarrow> Address list result" where
  "EncodedStringToAddresses addresses = mapR NewAddressFromBase32 addresses"

text \<open>\<open>fmt.Sprintf("%X", int(AliasAddress))\<close> is \<open>"91"\<close>.\<close>

definition NewAddressFromNamespace :: "NamespaceId \<Rightarrow> Address result" where
  "NewAddressFromNamespace namespaceId =
     (let a = ToUpper (hex_encode [AliasAddress]);
          namespaceB = copy_at (replicate 8 0) 0 (le64 (namespaceId_baseInt64 namespaceId));
          a = a @ hex_encode namespaceB;
          a = a @ Repeat ''00'' 16
      in NewAddressFromBase32 a)"

text \<open>Six groups of six characters and the last four; the slices panic on a shorter string.\<close>

fun pretty_loop :: "string \<Rightarrow> nat list \<Rightarrow> string \<Rightarrow> string result" where
  "pretty_loop ad [] res = Inr res"
| "pretty_loop ad (i # is) res =
     res_bind (subslice ad (i * 6) (i * 6 + 6)) (\<lambda>g. pretty_loop ad is (res @ g @ ''-''))"

definition Address_Pretty :: "Address \<Rightarrow> string result" where
  "Address_Pretty ad =
     res_bind (pretty_loop (addr_Address ad) [0, 1, 2, 3, 4, 5] []) (\<lambda>res.
       if length (addr_Address ad) < 4 then Inl Panicked
       else res_bind (subslice_from (addr_Address ad) (length (addr_Address ad) - 4)) (\<lambda>g. Inr (res @ g)))"

section \<open>Accounts\<close>

record 'k Account =
  acc_PublicAccount :: PublicAccount
  acc_KeyPair :: 'k
  acc_generationHash :: "Hash option"

definition EmptyPublicKey :: string where
  "EmptyPublicKey = replicate 64 CHR ''0''"

definition NewAccountFromPublicKey :: "'k crypto \<Rightarrow> string \<Rightarrow> NetworkType \<Rightarrow> PublicAccount result" where
  "NewAccountFromPublicKey C pKey networkType =
     res_bind (NewAddressFromPublicKey C pKey networkType) (\<lambda>ad.
       Inr \<lparr>pa_Address = ad, pa_PublicKey = pKey\<rparr>)"

definition NewAccountFromPrivateKey ::
  "'k crypto \<Rightarrow> string \<Rightarrow> NetworkType \<Rightarrow> Hash option \<Rightarrow> 'k Account result" where
  "NewAccountFromPrivateKey C pKey networkType generationHash =
     res_bind (cr_NewPrivateKeyfromHexString C pKey) (\<lambda>k.
     res_bind (cr_NewKeyPair C (Some k) None) (\<lambda>kp.
     res_bind (NewAccountFromPublicKey C (cr_PublicKey_String C kp) networkType) (\<lambda>pa.
       Inr \<lparr>acc_PublicAccount = pa, acc_KeyPair = kp, acc_generationHash = generationHash\<rparr>)))"

text \<open>A fresh key pair, as \<open>NewKeyPairByEngine\<close> returned it, is an argument.\<close>

definition NewAccount ::
  "'k crypto \<Rightarrow> 'k result \<Rightarrow> NetworkType \<Rightarrow> Hash option \<Rightarrow> 'k Account result" where
  "NewAccount C fresh networkType generationHash =
     res_bind fresh (\<lambda>kp.
     res_bind (NewAccountFromPublicKey C (cr_PublicKey_String C kp) networkType) (\<lambda>pa.
       Inr \<lparr>acc_PublicAccount = pa, acc_KeyPair = kp, acc_generationHash = generationHash\<rparr>))"

section \<open>From the JSON structures\<close>

record propertiesDTO =
  pd_PropertyType :: PropertyType
  pd_MosaicIds :: mosaicIdDTOs
  pd_Addresses :: "string list"
  pd_EntityTypes :: "EntityType list"

record AccountProperties =
  ap_Address :: Address
  ap_AllowedAddresses :: "Address list"
  ap_AllowedMosaicId :: "MosaicId list"
  ap_AllowedEntityTypes :: "EntityType list"
  ap_BlockedAddresses :: "Address list"
  ap_BlockedMosaicId :: "MosaicId list"
  ap_BlockedEntityTypes :: "EntityType list"

text \<open>One round of the loop over the properties; an unknown type is skipped.\<close>

definition account_property_step :: "propertiesDTO \<Rightarrow> AccountProperties \<Rightarrow> AccountProperties result" where
  "account_property_step p props =
     (if pd_PropertyType p = AllowAddress then
        res_map (\<lambda>a. props\<lparr>ap_AllowedAddresses := a\<rparr>) (EncodedStringToAddresses (pd_Addresses p))
      else if pd_PropertyType p = AllowMosaic then
        res_map (\<lambda>m. props\<lparr>ap_AllowedMosaicId := m\<rparr>) (mosaicIdDTOs_toStruct (pd_MosaicIds p))
      else if pd_PropertyType p = AllowTransaction then
        Inr (props\<lparr>ap_AllowedEntityTypes := pd_EntityTypes p\<rparr>)
      else if pd_PropertyType p = BlockAddress then
        res_map (\<lambda>a. props\<lparr>ap_BlockedAddresses := a\<rparr>) (EncodedStringToAddresses (pd_Addresses p))
      else if pd_PropertyType p = BlockMosaic then
        res_map (\<lambda>m. props\<lparr>ap_BlockedMosaicId := m\<rparr>) (mosaicIdDTOs_toStruct (pd_MosaicIds p))
      else if pd_PropertyType p = BlockTransaction then
        Inr (props\<lparr>ap_BlockedEntityTypes := pd_EntityTypes p\<rparr>)
      else Inr props)"

fun account_properties_loop :: "propertiesDTO list \<Rightarrow> AccountProperties \<Rightarrow> AccountProperties result" where
  "account_properties_loop [] props = Inr props"
| "account_properties_loop (p # ps) props =
     res_bind (account_property_step p props) (account_properties_loop ps)"

definition accountPropertiesDTO_toStruct :: "string \<Rightarrow> propertiesDTO list \<Rightarrow> AccountProperties result" where
  "accountPropertiesDTO_toStruct address ps =
     res_bind (NewAddressFromBase32 address) (\<lambda>a.
       account_properties_loop ps
         \<lparr>ap_Address = a, ap_AllowedAddresses = [], ap_AllowedMosaicId = [], ap_AllowedEntityTypes = [],
          ap_BlockedAddresses = [], ap_BlockedMosaicId = [], ap_BlockedEntityTypes = []\<rparr>)"

type_synonym accountPropertiesDTO = "string \<times> propertiesDTO list"
type_synonym accountPropertiesDTOs = "accountPropertiesDTO list"

definition accountPropertiesDTOs_toStruct :: "accountPropertiesDTOs \<Rightarrow> AccountProperties list result" where
  "accountPropertiesDTOs_toStruct a = mapR (\<lambda>(address, ps). accountPropertiesDTO_toStruct address ps) a"

text \<open>
  Reputations are floating point: their type is a variable, and \<open>float64(x)\<close> of a \<open>uint64\<close> an
  argument. \<open>/\<close> is the division of \<open>uint64\<close>, which panics on zero.
\<close>

record 'f reputationConfig =
  rep_minInteractions :: u64
  rep_defaultReputation :: 'f

definition NewReputationConfig :: "u64 \<Rightarrow> 'f::{zero,one,ord} \<Rightarrow> 'f reputationConfig result" where
  "NewReputationConfig minInter defaultRep =
     (if defaultRep < 0 \<or> defaultRep > 1 then Inl ErrInvalidReputationConfig
      else Inr \<lparr>rep_minInteractions = minInter, rep_defaultReputation = defaultRep\<rparr>)"

type_synonym reputationDTO = "uint64DTO \<times> uint64DTO"

definition reputationDTO_toFloat ::
  "(u64 \<Rightarrow> 'f) \<Rightarrow> reputationDTO \<Rightarrow> 'f reputationConfig \<Rightarrow> 'f result" where
  "reputationDTO_toFloat float64 ref repConfig =
     res_bind (uint64DTO_toUint64 (fst ref)) (\<lambda>posInter.
     res_bind (uint64DTO_toUint64 (snd ref)) (\<lambda>negInter.
       if posInter < rep_minInteractions repConfig then Inr (rep_defaultReputation repConfig)
       else if posInter = 0 then Inl Panicked
       else (let rep = (posInter - negInter) div posInter in Inr (float64 rep))))"

type_synonym AccountType = u8

definition UnlinkedAccount :: AccountType where [go_consts]: "UnlinkedAccount = 0"
definition MainAccount :: AccountType where [go_consts]: "MainAccount = 1"
definition RemoteAccount :: AccountType where [go_consts]: "RemoteAccount = 2"
definition RemoteUnlinkedAccount :: AccountType where [go_consts]: "RemoteUnlinkedAccount = 3"

record accountInfoDTO =
  aid_Address :: string
  aid_AddressHeight :: uint64DTO
  aid_PublicKey :: string
  aid_PublicKeyHeight :: uint64DTO
  aid_AccountType :: AccountType
  aid_LinkedAccountPublicKey :: string
  aid_Mosaics :: "mosaicDTO list"
  aid_Reputation :: "reputationDTO option"

record 'f AccountInfo =
  ai_Address :: Address
  ai_AddressHeight :: Height
  ai_PublicKey :: string
  ai_PublicKeyHeight :: Height
  ai_AccountType :: AccountType
  ai_LinkedAccount :: "PublicAccount option"
  ai_Mosaics :: "Mosaic list"
  ai_Reputation :: 'f

definition accountInfoDTO_toStruct ::
  "'k crypto \<Rightarrow> (u64 \<Rightarrow> 'f) \<Rightarrow> accountInfoDTO \<Rightarrow> 'f reputationConfig \<Rightarrow> 'f AccountInfo result" where
  "accountInfoDTO_toStruct C float64 dto repConfig =
     res_bind (mapR mosaicDTO_toStruct (aid_Mosaics dto)) (\<lambda>ms.
     res_bind (NewAddressFromBase32 (aid_Address dto)) (\<lambda>add.
     res_bind
       (if aid_AccountType dto \<noteq> UnlinkedAccount \<and> aid_AccountType dto \<noteq> RemoteUnlinkedAccount
        then res_map Some (NewAccountFromPublicKey C (aid_LinkedAccountPublicKey dto) (addr_Type add))
        else Inr None) (\<lambda>linkedAccount.
     res_bind (uint64DTO_toStruct (aid_AddressHeight dto)) (\<lambda>addressHeight.
     res_bind (uint64DTO_toStruct (aid_PublicKeyHeight dto)) (\<lambda>publicKeyHeight.
     res_bind
       (case aid_Reputation dto of
          None \<Rightarrow> Inr (rep_defaultReputation repConfig)
        | Some r \<Rightarrow> reputationDTO_toFloat float64 r repConfig) (\<lambda>reputation.
       Inr \<lparr>ai_Address = add, ai_AddressHeight = addressHeight, ai_PublicKey = aid_PublicKey dto,
            ai_PublicKeyHeight = publicKeyHeight, ai_AccountType = aid_AccountType dto,
            ai_LinkedAccount = linkedAccount, ai_Mosaics = ms, ai_Reputation = reputation\<rparr>))))))"

type_synonym accountInfoDTOs = "accountInfoDTO list"

definition accountInfoDTOs_toStruct ::
  "'k crypto \<Rightarrow> (u64 \<Rightarrow> 'f) \<Rightarrow> accountInfoDTOs \<Rightarrow> 'f reputationConfig \<Rightarrow> 'f AccountInfo list result" where
  "accountInfoDTOs_toStruct C float64 a repConfig =
     mapR (\<lambda>dto. accountInfoDTO_toStruct C float64 dto repConfig) a"

record multisigAccountInfoDTO =
  mad_Account :: string
  mad_MinApproval :: u32
  mad_MinRemoval :: u32
  mad_Cosignatories :: "string list"
  mad_MultisigAccounts :: "string list"

record MultisigAccountInfo =
  mai_Account :: PublicAccount
  mai_MinApproval :: u32
  mai_MinRemoval :: u32
  mai_Cosignatories :: "PublicAccount list"
  mai_MultisigAccounts :: "PublicAccount list"

definition multisigAccountInfoDTO_toStruct ::
  "'k crypto \<Rightarrow> multisigAccountInfoDTO \<Rightarrow> NetworkType \<Rightarrow> MultisigAccountInfo result" where
  "multisigAccountInfoDTO_toStruct C dto networkType =
     res_bind (NewAccountFromPublicKey C (mad_Account dto) networkType) (\<lambda>acc.
     res_bind (mapR (\<lambda>c. NewAccountFromPublicKey C c networkType) (mad_Cosignatories dto)) (\<lambda>cs.
     res_bind (mapR (\<lambda>m. NewAccountFromPublicKey C m networkType) (mad_MultisigAccounts dto)) (\<lambda>ms.
       Inr \<lparr>mai_Account = acc, mai_MinApproval = mad_MinApproval dto, mai_MinRemoval = mad_MinRemoval dto,
            mai_Cosignatories = cs, mai_MultisigAccounts = ms\<rparr>)))"

type_synonym multisigAccountGraphInfoDTOEntry = "u32 \<times> multisigAccountInfoDTO list"
type_synonym multisigAccountGraphInfoDTOS = "multisigAccountGraphInfoDTOEntry list"
type_synonym MultisigAccountGraphInfo = "u32 \<rightharpoonup> MultisigAccountInfo list"

fun multisig_graph_loop ::
  "'k crypto \<Rightarrow> NetworkType \<Rightarrow> multisigAccountGraphInfoDTOS
     \<Rightarrow> MultisigAccountGraphInfo \<Rightarrow> MultisigAccountGraphInfo result" where
  "multisig_graph_loop C networkType [] ms = Inr ms"
| "multisig_graph_loop C networkType ((level, multisigs) # dto) ms =
     res_bind (mapR (\<lambda>c. multisigAccountInfoDTO_toStruct C c networkType) multisigs) (\<lambda>mAccInfos.
       multisig_graph_loop C networkType dto (ms(level \<mapsto> mAccInfos)))"

definition multisigAccountGraphInfoDTOS_toStruct ::
  "'k crypto \<Rightarrow> multisigAccountGraphInfoDTOS \<Rightarrow> NetworkType
     \<Rightarrow> MultisigAccountGraphInfo result" where
  "multisigAccountGraphInfoDTOS_toStruct C dto networkType =
     multisig_graph_loop C networkType dto (\<lambda>_. None)"

record AccountName =
  an_Address :: Address
  an_Names :: "string list"

type_synonym accountNamesDTO = "string \<times> string list"
type_synonym accountNamesDTOs = "accountNamesDTO list"

definition accountNamesDTO_toStruct :: "accountNamesDTO \<Rightarrow> AccountName result" where
  "accountNamesDTO_toStruct m =
     res_bind (NewAddressFromBase32 (fst m)) (\<lambda>address.
       Inr \<lparr>an_Address = address, an_Names = snd m\<rparr>)"

definition accountNamesDTOs_toStruct :: "accountNamesDTOs \<Rightarrow> AccountName list result" where
  "accountNamesDTOs_toStruct dtos = mapR accountNamesDTO_toStruct dtos"

type_synonym addresses = "Address list"

definition addresses_MarshalJSON :: "addresses \<Rightarrow> byte list result" where
  "addresses_MarshalJSON as =
     Inr (string_bytes (''{'' @ [CHR 0x22] @ ''addresses'' @ [CHR 0x22] @ '':['' @
       comma_join (map (\<lambda>a. [CHR 0x22] @ addr_Address a @ [CHR 0x22]) as) @ '']}''))"

text \<open>
  Namespaces: aliases and the description of a namespace. The pointer to the alias structure is
  dereferenced without a check.
\<close>

record NamespaceAlias =
  na_mosaicId :: "MosaicId option"
  na_address :: "Address option"
  na_Type :: AliasType

record namespaceAliasDTO =
  nad_MosaicId :: "uint64DTO option"
  nad_Address :: string
  nad_Type :: AliasType

definition namespaceAliasDTO_toStruct :: "namespaceAliasDTO option \<Rightarrow> NamespaceAlias result" where
  "namespaceAliasDTO_toStruct p =
     res_bind (deref p) (\<lambda>dto.
       let alias = \<lparr>na_mosaicId = None, na_address = None, na_Type = nad_Type dto\<rparr> in
       if na_Type alias = AddressAliasType then
         res_bind (NewAddressFromBase32 (nad_Address dto)) (\<lambda>a. Inr (alias\<lparr>na_address := Some a\<rparr>))
       else if na_Type alias = MosaicAliasType then
         res_bind (deref (nad_MosaicId dto)) (\<lambda>d.
         res_bind (mosaicIdDTO_toStruct d) (\<lambda>mosaicId. Inr (alias\<lparr>na_mosaicId := Some mosaicId\<rparr>)))
       else Inr alias)"

record namespaceInfoDTO =
  nid_Active :: bool
  nid_Type :: int
  nid_Depth :: int
  nid_Level0 :: "uint64DTO option"
  nid_Level1 :: "uint64DTO option"
  nid_Level2 :: "uint64DTO option"
  nid_Alias :: "namespaceAliasDTO option"
  nid_ParentId :: uint64DTO
  nid_Owner :: string
  nid_StartHeight :: uint64DTO
  nid_EndHeight :: uint64DTO

record NamespaceInfo =
  ni_NamespaceId :: NamespaceId
  ni_Active :: bool
  ni_TypeSpace :: NamespaceType
  ni_Depth :: int
  ni_Levels :: "NamespaceId list"
  ni_Alias :: NamespaceAlias
  ni_Parent :: "NamespaceId option"
  ni_Owner :: PublicAccount
  ni_StartHeight :: Height
  ni_EndHeight :: Height

definition extractLevel :: "uint64DTO option \<Rightarrow> NamespaceId list \<Rightarrow> NamespaceId list result" where
  "extractLevel level levels =
     (case level of None \<Rightarrow> Inr levels
      | Some l \<Rightarrow> res_bind (namespaceIdDTO_toStruct l) (\<lambda>nsName. Inr (levels @ [nsName])))"

definition extractLevels :: "namespaceInfoDTO \<Rightarrow> NamespaceId list result" where
  "extractLevels ref =
     res_bind (extractLevel (nid_Level0 ref) []) (\<lambda>levels.
     res_bind (extractLevel (nid_Level1 ref) levels) (\<lambda>levels.
       extractLevel (nid_Level2 ref) levels))"

text \<open>
  The parent is a structure of which only the identifier is set, and it is nil for the identifier
  zero. The owner's network type is read from the namespace's type field, as the code does.
\<close>

definition namespaceInfoDTO_toStruct :: "'k crypto \<Rightarrow> namespaceInfoDTO \<Rightarrow> NamespaceInfo result" where
  "namespaceInfoDTO_toStruct C ref =
     res_bind (NewAccountFromPublicKey C (nid_Owner ref) (word_of_int (nid_Type ref))) (\<lambda>pubAcc.
     res_bind (namespaceIdDTO_toStruct (nid_ParentId ref)) (\<lambda>parentId.
     res_bind (extractLevels ref) (\<lambda>levels.
       if length levels = 0 then Inl ErrNilNamespaceId
       else
     res_bind (namespaceAliasDTO_toStruct (nid_Alias ref)) (\<lambda>alias.
     res_bind (uint64DTO_toStruct (nid_StartHeight ref)) (\<lambda>startHeight.
     res_bind (uint64DTO_toStruct (nid_EndHeight ref)) (\<lambda>endHeight.
       Inr \<lparr>ni_NamespaceId = levels ! (length levels - 1), ni_Active = nid_Active ref,
            ni_TypeSpace = word_of_int (nid_Type ref), ni_Depth = nid_Depth ref, ni_Levels = levels,
            ni_Alias = alias,
            ni_Parent = (if namespaceId_baseInt64 parentId \<noteq> 0 then Some parentId else None),
            ni_Owner = pubAcc, ni_StartHeight = startHeight, ni_EndHeight = endHeight\<rparr>))))))"

type_synonym namespaceInfoDTOs = "namespaceInfoDTO list"

definition namespaceInfoDTOs_toStruct :: "'k crypto \<Rightarrow> namespaceInfoDTOs \<Rightarrow> NamespaceInfo list result" where
  "namespaceInfoDTOs_toStruct C dtos = mapR (namespaceInfoDTO_toStruct C) dtos"

text \<open>Mosaic descriptions: fewer than three properties is an error, whatever they are.\<close>

record mosaicDefinitionDTO =
  mdd_MosaicId :: uint64DTO
  mdd_Supply :: uint64DTO
  mdd_Height :: uint64DTO
  mdd_Owner :: string
  mdd_Revision :: u32
  mdd_Properties :: mosaicPropertiesDTO

record MosaicInfo =
  mi_MosaicId :: MosaicId
  mi_Supply :: Amount
  mi_Height :: Height
  mi_Owner :: PublicAccount
  mi_Revision :: u32
  mi_Properties :: MosaicProperties

text \<open>\<open>mosaicInfoDTO\<close> holds a definition and nothing else.\<close>

type_synonym mosaicInfoDTO = mosaicDefinitionDTO

definition mosaicInfoDTO_toStruct :: "'k crypto \<Rightarrow> mosaicInfoDTO \<Rightarrow> NetworkType \<Rightarrow> MosaicInfo result" where
  "mosaicInfoDTO_toStruct C ref networkType =
     res_bind (NewAccountFromPublicKey C (mdd_Owner ref) networkType) (\<lambda>publicAcc.
       if length (mdd_Properties ref) < 3 then Inl (NewError ''mosaic Properties is not valid'')
       else
     res_bind (mosaicIdDTO_toStruct (mdd_MosaicId ref)) (\<lambda>mosaicId.
     res_bind (mosaicPropertiesDTO_toStruct (mdd_Properties ref)) (\<lambda>properties.
     res_bind (uint64DTO_toStruct (mdd_Supply ref)) (\<lambda>supply.
     res_bind (uint64DTO_toStruct (mdd_Height ref)) (\<lambda>height.
       Inr \<lparr>mi_MosaicId = mosaicId, mi_Supply = supply, mi_Height = height, mi_Owner = publicAcc,
            mi_Revision = mdd_Revision ref, mi_Properties = properties\<rparr>)))))"

type_synonym mosaicInfoDTOs = "mosaicInfoDTO list"

definition mosaicInfoDTOs_toStruct ::
  "'k crypto \<Rightarrow> mosaicInfoDTOs \<Rightarrow> NetworkType \<Rightarrow> MosaicInfo list result" where
  "mosaicInfoDTOs_toStruct C dtos networkType = mapR (\<lambda>dto. mosaicInfoDTO_toStruct C dto networkType) dtos"

section \<open>Lemmas\<close>

text \<open>Base32 text has no dashes and no lower-case letters: \<open>NewAddress\<close> leaves it alone.\<close>

lemma b32_digit_upper:
  assumes "n < 32"
  shows "b32_digit n \<noteq> CHR ''-''" "to_upper_char (b32_digit n) = b32_digit n"
proof -
  have "(of_char (b32_digit n) :: nat) = (if n < 26 then 65 + n else 24 + n)"
    using assms by (simp add: b32_digit_def)
  then show "b32_digit n \<noteq> CHR ''-''" "to_upper_char (b32_digit n) = b32_digit n"
    using assms by (auto simp: to_upper_char_def Let_def split: if_splits)
qed

lemma b32_encode_chars:
  "length bs mod 5 = 0 \<Longrightarrow> c \<in> set (b32_encode bs) \<Longrightarrow> c \<noteq> CHR ''-'' \<and> to_upper_char c = c"
proof (induction bs rule: b32_encode.induct)
  case (2 a b c d e bs)
  then show ?case
    using b32_group_digits_range [of "[a, b, c, d, e]"]
    by (auto simp: b32_encode_group5 b32_digit_upper)
qed auto

lemma NewAddress_b32:
  assumes "length bs mod 5 = 0"
  shows "NewAddress (b32_encode bs) nt = \<lparr>addr_Type = nt, addr_Address = b32_encode bs\<rparr>"
proof -
  have "remove_char CHR ''-'' (b32_encode bs) = b32_encode bs"
    using b32_encode_chars [OF assms] by (auto simp: remove_char_def filter_id_conv)
  moreover have "ToUpper (b32_encode bs) = b32_encode bs"
    using b32_encode_chars [OF assms] by (auto simp: ToUpper_def intro!: map_idI)
  ultimately show ?thesis by (simp add: NewAddress_def)
qed

lemma NewAddressFromRaw_b32:
  assumes "length bs mod 5 = 0" "bs = b # r" "addressNet b = Some nt"
  shows "NewAddressFromRaw (b32_encode bs) = Inr \<lparr>addr_Type = nt, addr_Address = b32_encode bs\<rparr>"
  using b32_decode_encode [OF assms(1)] NewAddress_b32 [OF assms(1)] assms(2,3)
  by (simp add: NewAddressFromRaw_def)

lemma addressNet_idem: "addressNet b = Some nt \<longleftrightarrow> nt = b \<and> b \<in> {96, 144, 145, 184, 168, 200, 176}"
  by (auto simp: addressNet_def go_consts)

lemma generateEncodedAddress_eq:
  assumes "hashes_ok C" "hex_decode key = Inr bs"
  shows "\<exists>digest rip sum. cr_HashesSha3_256 C bs = Inr digest \<and> cr_HashesRipemd160 C digest = Inr rip
    \<and> cr_HashesSha3_256 C (nt # rip) = Inr sum \<and> length rip = 20 \<and> length sum = 32
    \<and> generateEncodedAddress C key nt = Inr (b32_encode (nt # rip @ take 4 sum))"
proof -
  obtain h where h: "cr_HashesSha3_256 C bs = Inr h"
    using hashes_okD(2) [OF assms(1)] by blast
  obtain rip where rip: "cr_HashesRipemd160 C h = Inr rip" "length rip = 20"
    using hashes_okD(4) [OF assms(1)] by blast
  obtain sum where sum: "cr_HashesSha3_256 C (nt # rip) = Inr sum" "length sum = 32"
    using hashes_okD(2) [OF assms(1)] by blast
  show ?thesis
    using assms(2) h rip sum
    by (auto simp: generateEncodedAddress_def GenerateChecksum_def NUM_CHECKSUM_BYTES_def subslice_def)
qed

lemma Repeat_zeros: "Repeat ''00'' n = hex_encode (replicate n 0)"
proof -
  have "hex_digit 0 = CHR ''0''" by code_simp
  then show ?thesis by (induction n) (simp_all add: Repeat_def)
qed

section \<open>Properties\<close>

text \<open>
  C36. The address of a public key: for a hexadecimal key, the address is the base32 form of the
  network byte, the RIPEMD-160 digest of the SHA3-256 digest of the key's bytes, and the first four bytes of
  the SHA3-256 digest of both, 40 characters long, with the network it was made for; when the SDK knows the network, parsing that text
  gives the same address.
\<close>

theorem address_of_public_key:
  assumes "hashes_ok C" "hex_decode key = Inr bs"
  shows "\<exists>digest rip sum ad. cr_HashesSha3_256 C bs = Inr digest \<and> cr_HashesRipemd160 C digest = Inr rip
    \<and> cr_HashesSha3_256 C (nt # rip) = Inr sum
    \<and> NewAddressFromPublicKey C key nt = Inr ad
    \<and> addr_Type ad = nt \<and> length (addr_Address ad) = 40
    \<and> b32_decode (addr_Address ad) = Inr (nt # rip @ take 4 sum)
    \<and> (addressNet nt = Some nt \<longrightarrow> NewAddressFromRaw (addr_Address ad) = Inr ad)"
proof -
  obtain digest rip sum where d: "cr_HashesSha3_256 C bs = Inr digest" "cr_HashesRipemd160 C digest = Inr rip"
    and r: "cr_HashesSha3_256 C (nt # rip) = Inr sum" "length rip = 20" "length sum = 32"
    and g: "generateEncodedAddress C key nt = Inr (b32_encode (nt # rip @ take 4 sum))"
    using generateEncodedAddress_eq [OF assms] by blast
  have len: "length (nt # rip @ take 4 sum) mod 5 = 0" using r by simp
  show ?thesis
    using d g r NewAddress_b32 [OF len] b32_decode_encode [OF len] length_b32_encode [OF len]
      NewAddressFromRaw_b32 [OF len refl]
    by (intro exI [of _ digest] exI [of _ rip] exI [of _ sum]) (simp add: NewAddressFromPublicKey_def)
qed

theorem address_of_public_key_witness:
  "\<exists>sum ad. cr_HashesSha3_256 sample_crypto (Public # replicate 20 7) = Inr sum
    \<and> NewAddressFromPublicKey sample_crypto (hex_encode (replicate 32 7)) Public = Inr ad
    \<and> addr_Type ad = Public \<and> length (addr_Address ad) = 40
    \<and> b32_decode (addr_Address ad) = Inr (Public # replicate 20 7 @ take 4 sum)
    \<and> NewAddressFromRaw (addr_Address ad) = Inr ad"
proof -
  have "cr_HashesSha3_256 sample_crypto (replicate 32 7) = Inr (replicate 32 7)"
    "cr_HashesRipemd160 sample_crypto (replicate 32 7) = Inr (replicate 20 7)"
    by (simp_all add: sample_crypto_def fit_def)
  moreover have "addressNet Public = Some Public" by (simp add: addressNet_def go_consts)
  ultimately show ?thesis
    using address_of_public_key [OF sample_hashes_ok hex_decode_encode [of "replicate 32 7"], where nt = Public] by auto
qed

text \<open>
  The address of a namespace is its identifier's eight little-endian bytes behind the alias
  byte, zero padded to 25 bytes; it never fails and has the alias network type.
\<close>

theorem address_of_namespace:
  "NewAddressFromNamespace n =
     Inr \<lparr>addr_Type = AliasAddress,
          addr_Address = b32_encode ([AliasAddress] @ le64 (namespaceId_baseInt64 n) @ replicate 16 0)\<rparr>"
proof -
  let ?bs = "[AliasAddress] @ le64 (namespaceId_baseInt64 n) @ replicate 16 0"
  have z: "Repeat ''00'' 16 = hex_encode (replicate 16 0)"
    by (rule Repeat_zeros)
  have u: "ToUpper (hex_encode [AliasAddress]) = hex_encode [AliasAddress]"
    by (simp add: go_consts ToUpper_def hex_digit_def to_upper_char_def)
  have "hex_decode (ToUpper (hex_encode [AliasAddress]) @
      hex_encode (copy_at (replicate 8 0) 0 (le64 (namespaceId_baseInt64 n))) @ Repeat ''00'' 16) = Inr ?bs"
    unfolding u z copy_at_whole [OF length_le(3)]
    by (simp only: hex_encode_append [symmetric] hex_decode_encode append_assoc)
  moreover have "NewAddressFromRaw (b32_encode ?bs) =
      Inr \<lparr>addr_Type = AliasAddress, addr_Address = b32_encode ?bs\<rparr>"
    by (rule NewAddressFromRaw_b32 [where b = AliasAddress and r = "le64 (namespaceId_baseInt64 n) @ replicate 16 0"])
      (simp_all add: addressNet_idem, simp add: go_consts)
  ultimately show ?thesis
    by (simp add: NewAddressFromNamespace_def NewAddressFromBase32_def)
qed

text \<open>
  The pretty form of a 40-character address is its groups of six joined by dashes, and reading
  it back with \<open>NewAddress\<close> gives the address.
\<close>

theorem pretty_roundtrip:
  assumes "length (addr_Address ad) = 40" "CHR ''-'' \<notin> set (addr_Address ad)"
    and "ToUpper (addr_Address ad) = addr_Address ad"
  shows "res_map (\<lambda>s. NewAddress s (addr_Type ad)) (Address_Pretty ad) = Inr ad"
proof -
  let ?a = "addr_Address ad"
  let ?g = "\<lambda>i. take 6 (drop (i * 6) ?a)"
  have pretty: "Address_Pretty ad = Inr (?g 0 @ ''-'' @ ?g 1 @ ''-'' @ ?g 2 @ ''-'' @ ?g 3 @ ''-'' @
      ?g 4 @ ''-'' @ ?g 5 @ ''-'' @ drop 36 ?a)"
    using assms(1) by (simp add: Address_Pretty_def subslice_def subslice_from_def)
  have keep: "filter (\<lambda>x. x \<noteq> CHR ''-'') (take k (drop m ?a)) = take k (drop m ?a)"
    "filter (\<lambda>x. x \<noteq> CHR ''-'') (drop m ?a) = drop m ?a" for k m
    using assms(2) by (auto simp: filter_id_conv dest!: in_set_takeD in_set_dropD)
  have upper: "ToUpper (take k (drop m ?a)) = take k (drop m ?a)" "ToUpper (drop m ?a) = drop m ?a" for k m
    using assms(3) by (metis ToUpper_def drop_map take_map)+
  have split: "drop m ?a = take 6 (drop m ?a) @ drop (m + 6) ?a" for m
    by (metis append_take_drop_id drop_drop add.commute)
  have whole: "?g 0 @ ?g 1 @ ?g 2 @ ?g 3 @ ?g 4 @ ?g 5 @ drop 36 ?a = ?a"
    using split [of 0] split [of 6] split [of 12] split [of 18] split [of 24] split [of 30] by simp
  have "NewAddress (?g 0 @ ''-'' @ ?g 1 @ ''-'' @ ?g 2 @ ''-'' @ ?g 3 @ ''-'' @
      ?g 4 @ ''-'' @ ?g 5 @ ''-'' @ drop 36 ?a) nt = \<lparr>addr_Type = nt, addr_Address = ?a\<rparr>" for nt
    using whole assms(3) keep upper keep(1) [of 6 0] upper(1) [of 6 0] by (simp add: NewAddress_def remove_char_def)
  then show ?thesis by (simp add: pretty)
qed

theorem pretty_roundtrip_witness:
  "res_map (\<lambda>s. NewAddress s Public) (Address_Pretty \<lparr>addr_Type = Public, addr_Address = replicate 40 CHR ''A''\<rparr>)
     = Inr \<lparr>addr_Type = Public, addr_Address = replicate 40 CHR ''A''\<rparr>"
  using pretty_roundtrip [of "\<lparr>addr_Type = Public, addr_Address = replicate 40 CHR ''A''\<rparr>"]
  by (simp add: ToUpper_def to_upper_char_def)

text \<open>
  What the reputation of an account is: below the threshold the default; otherwise an integer
  quotient, which is 0 as soon as there is a negative interaction and no underflow, not the
  fraction \<open>(pos - neg) / pos\<close>.
\<close>

lemma reputation_is_truncated:
  assumes "unat neg \<le> unat pos" "0 < unat neg" "\<not> pos < rep_minInteractions cfg"
  shows "reputationDTO_toFloat fl (uint64ToArray pos, uint64ToArray neg) cfg = Inr (fl 0)"
proof -
  have le: "neg \<le> pos" using assms(1) by (simp add: word_le_nat_alt)
  have pos: "pos \<noteq> 0" using assms(1,2) by (auto simp: unat_0_iff)
  have "unat (pos - neg) < unat pos"
    using le assms(1,2) by (simp add: unat_sub)
  then have "unat ((pos - neg) div pos) = 0"
    by (simp add: unat_div_distrib)
  then have "(pos - neg) div pos = 0"
    by (simp add: unat_eq_0)
  then show ?thesis
    using assms(3) pos by (simp add: reputationDTO_toFloat_def uint64DTO_toUint64_eq)
qed

text \<open>An account without positive interactions and a threshold of zero: a division by zero.\<close>

lemma reputation_divides_by_zero:
  "reputationDTO_toFloat fl ((0, 0), neg) \<lparr>rep_minInteractions = 0, rep_defaultReputation = d\<rparr> = Inl Panicked"
  by (simp add: reputationDTO_toFloat_def uint64DTO_toUint64_eq u64_of_words_def)

text \<open>An address whose base32 decodes to nothing makes the parser index an empty slice.\<close>

lemma empty_raw_address_panics: "NewAddressFromRaw [] = Inl Panicked"
  by (simp add: NewAddressFromRaw_def b32_decode_def b32_decode_quanta.simps)

end
