(* ===== verification/Secrets.thy ===== *)
theory Secrets
  imports Accounts
begin

text \<open>
  \<open>sdk/secret.go\<close> and \<open>sdk/message.go\<close>: the secrets of hash locks and the proofs that unlock them, and
  the messages of transfers, plain or encrypted. Hashing and the block cipher are parameters
  (theory \<open>Crypto\<close>).
\<close>

section \<open>Secrets and proofs\<close>

type_synonym HashType = u8

definition SHA3_256 :: HashType where [go_consts]: "SHA3_256 = 0"
definition KECCAK_256 :: HashType where [go_consts]: "KECCAK_256 = 1"
definition HASH_160 :: HashType where [go_consts]: "HASH_160 = 2"
definition SHA_256 :: HashType where [go_consts]: "SHA_256 = 3"

record Secret =
  secret_Hash :: Hash
  secret_Type :: HashType

record Proof = proof_Data :: "byte list"

definition Secret_HashString :: "Secret \<Rightarrow> string" where
  "Secret_HashString s = ToUpper (hex_encode (secret_Hash s))"

text \<open>\<open>var arr [32]byte; copy(arr[:], hash[:32])\<close>\<close>

definition NewSecret :: "byte list \<Rightarrow> HashType \<Rightarrow> Secret result" where
  "NewSecret hash hashType =
     (let l = length hash;
          mk = (\<lambda>hash. res_map (\<lambda>h. \<lparr>secret_Hash = copy_at (replicate 32 0) 0 h, secret_Type = hashType\<rparr>)
                 (subslice hash 0 32))
      in if hashType = SHA3_256 \<or> hashType = KECCAK_256 \<or> hashType = SHA_256 then
           if l \<noteq> 32 then Inl (NewError ''the length of Secret is wrong'') else mk hash
         else if hashType = HASH_160 then
           if l \<noteq> 20 \<and> l \<noteq> 32 then Inl (NewError ''the length of HASH_160 Secret is wrong'')
           else if l = 20 then mk (hash @ replicate 12 0) else mk hash
         else Inl (NewError ''Not supported HashType NewSecret''))"

definition NewSecretFromHexString :: "string \<Rightarrow> HashType \<Rightarrow> Secret result" where
  "NewSecretFromHexString hash hashType = res_bind (hex_decode hash) (\<lambda>bytes. NewSecret bytes hashType)"

definition Proof_ProofString :: "Proof \<Rightarrow> string" where
  "Proof_ProofString p = ToUpper (hex_encode (proof_Data p))"

definition Proof_Size :: "Proof \<Rightarrow> nat" where
  "Proof_Size p = length (proof_Data p)"

definition NewProofFromBytes :: "byte list \<Rightarrow> Proof" where
  "NewProofFromBytes proof = \<lparr>proof_Data = proof\<rparr>"

definition NewProofFromString :: "string \<Rightarrow> Proof" where
  "NewProofFromString proof = \<lparr>proof_Data = string_bytes proof\<rparr>"

definition NewProofFromHexString :: "string \<Rightarrow> Proof result" where
  "NewProofFromHexString hexProof = res_map (\<lambda>proofB. \<lparr>proof_Data = proofB\<rparr>) (hex_decode hexProof)"

definition NewProofFromUint8 :: "u8 \<Rightarrow> Proof" where
  "NewProofFromUint8 number = \<lparr>proof_Data = [number]\<rparr>"

definition NewProofFromUint16 :: "u16 \<Rightarrow> Proof" where
  "NewProofFromUint16 number = \<lparr>proof_Data = le16 number\<rparr>"

definition NewProofFromUint32 :: "u32 \<Rightarrow> Proof" where
  "NewProofFromUint32 number = \<lparr>proof_Data = le32 number\<rparr>"

definition NewProofFromUint64 :: "u64 \<Rightarrow> Proof" where
  "NewProofFromUint64 number = \<lparr>proof_Data = le64 number\<rparr>"

definition generateSecret :: "'k crypto \<Rightarrow> byte list \<Rightarrow> HashType \<Rightarrow> byte list result" where
  "generateSecret C proofB hashType =
     (if hashType = SHA3_256 then cr_HashesSha3_256 C proofB
      else if hashType = KECCAK_256 then cr_HashesKeccak_256 C proofB
      else if hashType = HASH_160 then
        res_bind (cr_HashesSha_256 C proofB) (\<lambda>secretFirstB. cr_HashesRipemd160 C secretFirstB)
      else if hashType = SHA_256 then
        res_bind (cr_HashesSha_256 C proofB) (\<lambda>secretFirstB. cr_HashesSha_256 C secretFirstB)
      else Inl (NewError ''Not supported HashType generateSecret''))"

definition Proof_Secret :: "'k crypto \<Rightarrow> Proof \<Rightarrow> HashType \<Rightarrow> Secret result" where
  "Proof_Secret C p hashType =
     res_bind (generateSecret C (proof_Data p) hashType) (\<lambda>secretB. NewSecret secretB hashType)"

definition CalculateSecretLockInfoHash ::
  "'k crypto \<Rightarrow> Secret option \<Rightarrow> Address option \<Rightarrow> Hash result" where
  "CalculateSecretLockInfoHash C secret recipient =
     (case secret of None \<Rightarrow> Inl ErrNilSecret
      | Some secret \<Rightarrow>
        (case recipient of None \<Rightarrow> Inl ErrNilAddress
         | Some recipient \<Rightarrow>
           res_bind (b32_decode (addr_Address recipient)) (\<lambda>addr.
           res_bind (cr_HashesSha3_256 C (secret_Hash secret @ addr)) (\<lambda>bytes.
             bytesToHash bytes))))"

section \<open>Messages\<close>

text \<open>The interface \<open>Message\<close> with its two implementations.\<close>

type_synonym MessageType = u8

definition PlainMessageType :: MessageType where [go_consts]: "PlainMessageType = 0"
definition SecureMessageType :: MessageType where [go_consts]: "SecureMessageType = 1"

datatype Message = PlainMessage "byte list" | SecureMessage "byte list"

fun Message_Type :: "Message \<Rightarrow> MessageType" where
  "Message_Type (PlainMessage payload) = PlainMessageType"
| "Message_Type (SecureMessage encodedData) = SecureMessageType"

fun Message_Payload :: "Message \<Rightarrow> byte list" where
  "Message_Payload (PlainMessage payload) = payload"
| "Message_Payload (SecureMessage encodedData) = encodedData"

definition NewPlainMessage :: "string \<Rightarrow> Message" where
  "NewPlainMessage payload = PlainMessage (string_bytes payload)"

definition NewSecureMessage :: "byte list \<Rightarrow> Message" where
  "NewSecureMessage encodedData = SecureMessage encodedData"

definition NewPlainMessageFromEncodedData :: "'k crypto \<Rightarrow> byte list \<Rightarrow> 'k \<Rightarrow> 'k \<Rightarrow> Message result" where
  "NewPlainMessageFromEncodedData C encodedData recipient sender =
     res_bind (cr_NewKeyPair C (Some recipient) None) (\<lambda>rkp.
     res_bind (cr_NewKeyPair C None (Some sender)) (\<lambda>skp.
     res_bind (cr_Decrypt C skp rkp encodedData) (\<lambda>plaintText.
       Inr (NewPlainMessage (bytes_string plaintText)))))"

definition NewSecureMessageFromPlaintText :: "'k crypto \<Rightarrow> string \<Rightarrow> 'k \<Rightarrow> 'k \<Rightarrow> Message result" where
  "NewSecureMessageFromPlaintText C plaintText sender recipient =
     res_bind (cr_NewKeyPair C (Some sender) None) (\<lambda>skp.
     res_bind (cr_NewKeyPair C None (Some recipient)) (\<lambda>rkp.
     res_bind (cr_Encrypt C skp rkp (string_bytes plaintText)) (\<lambda>encodedData.
       Inr (NewSecureMessage encodedData))))"

record messageDTO =
  md_Type :: MessageType
  md_Payload :: string

definition messageDTO_toStruct :: "messageDTO \<Rightarrow> Message result" where
  "messageDTO_toStruct m =
     res_bind (if length (md_Payload m) \<noteq> 0 then hex_decode (md_Payload m) else Inr []) (\<lambda>b.
       if md_Type m = PlainMessageType then Inr (NewPlainMessage (bytes_string b))
       else if md_Type m = SecureMessageType then Inr (NewSecureMessage b)
       else Inl (NewError ''Not supported MessageType''))"

section \<open>What they compute\<close>

lemma NewSecret_ok:
  "length h = 32 \<Longrightarrow> t \<in> {SHA3_256, KECCAK_256, HASH_160, SHA_256} \<Longrightarrow>
     NewSecret h t = Inr \<lparr>secret_Hash = h, secret_Type = t\<rparr>"
  by (auto simp: NewSecret_def Let_def subslice_def copy_at_whole)

lemma NewSecret_short:
  "length h = 20 \<Longrightarrow> NewSecret h HASH_160 = Inr \<lparr>secret_Hash = h @ replicate 12 0, secret_Type = HASH_160\<rparr>"
  by (auto simp: NewSecret_def Let_def subslice_def copy_at_whole go_consts)

lemma NewSecret_length: "NewSecret h t = Inr s \<Longrightarrow> length (secret_Hash s) = 32 \<and> secret_Type s = t"
  by (auto simp: NewSecret_def Let_def subslice_def copy_at_whole res_map_Inr_iff split: if_splits)

text \<open>
  The digest of a proof under an algorithm, as the protocol's documentation words it: one hash, or
  two in a row, filled up with zeros to 32 bytes.
\<close>

definition lock_digest :: "'k crypto \<Rightarrow> byte list \<Rightarrow> HashType \<Rightarrow> byte list option" where
  "lock_digest C proof t =
     (let run = (\<lambda>h x. case h C x of Inr d \<Rightarrow> d | Inl _ \<Rightarrow> [])
      in if t = 0 then Some (run cr_HashesSha3_256 proof)
         else if t = 1 then Some (run cr_HashesKeccak_256 proof)
         else if t = 2 then Some (run cr_HashesRipemd160 (run cr_HashesSha_256 proof) @ replicate 12 0)
         else if t = 3 then Some (run cr_HashesSha_256 (run cr_HashesSha_256 proof))
         else None)"

lemma Proof_Secret_eq:
  assumes "hashes_ok C"
  shows "Proof_Secret C p t =
    (case lock_digest C (proof_Data p) t of
       Some d \<Rightarrow> Inr \<lparr>secret_Hash = d, secret_Type = t\<rparr>
     | None \<Rightarrow> Inl (NewError ''Not supported HashType generateSecret''))"
proof -
  obtain a where a: "cr_HashesSha3_256 C (proof_Data p) = Inr a" "length a = 32"
    using hashes_okD(2) [OF assms] by blast
  obtain b where b: "cr_HashesKeccak_256 C (proof_Data p) = Inr b" "length b = 32"
    using hashes_okD(3) [OF assms] by blast
  obtain c where c: "cr_HashesSha_256 C (proof_Data p) = Inr c" "length c = 32"
    using hashes_okD(5) [OF assms] by blast
  obtain d where d: "cr_HashesRipemd160 C c = Inr d" "length d = 20"
    using hashes_okD(4) [OF assms] by blast
  obtain e where e: "cr_HashesSha_256 C c = Inr e" "length e = 32"
    using hashes_okD(5) [OF assms] by blast
  show ?thesis
    using NewSecret_ok [of a t] NewSecret_ok [of b t] NewSecret_short [of d] NewSecret_ok [of e t] a b c d e
    by (auto simp: Proof_Secret_def generateSecret_def lock_digest_def go_consts)
qed

section \<open>Properties\<close>

text \<open>
  C38. The secret of a proof is, for each of the four hash algorithms, the documented digest of the
  proof's bytes, 32 bytes long (a HASH_160 digest is filled up with twelve zeros); any other
  algorithm is refused.
\<close>

theorem proof_secret:
  assumes "hashes_ok C"
  shows "Proof_Secret C p t =
      (case lock_digest C (proof_Data p) t of
         Some d \<Rightarrow> Inr \<lparr>secret_Hash = d, secret_Type = t\<rparr>
       | None \<Rightarrow> Inl (NewError ''Not supported HashType generateSecret''))
    \<and> (\<forall>s. Proof_Secret C p t = Inr s \<longrightarrow> length (secret_Hash s) = 32)"
proof -
  have "length (secret_Hash s) = 32" if "Proof_Secret C p t = Inr s" for s
    using that NewSecret_length by (auto simp: Proof_Secret_def res_bind_Inr_iff)
  then show ?thesis using Proof_Secret_eq [OF assms] by simp
qed

theorem proof_secret_witness:
  "Proof_Secret sample_crypto (NewProofFromUint8 7) HASH_160 =
     Inr \<lparr>secret_Hash = [1, 7] @ replicate 30 0, secret_Type = 2\<rparr>
   \<and> Proof_Secret sample_crypto (NewProofFromUint8 7) 9 =
     Inl (NewError ''Not supported HashType generateSecret'')"
proof -
  have "lock_digest sample_crypto [7] 2 = Some ([1, 7] @ replicate 30 0)" "lock_digest sample_crypto [7] 9 = None"
    by code_simp+
  then show ?thesis
    using proof_secret [OF sample_hashes_ok, of "NewProofFromUint8 7" HASH_160]
      proof_secret [OF sample_hashes_ok, of "NewProofFromUint8 7" 9]
    by (simp add: go_consts NewProofFromUint8_def)
qed

text \<open>
  A message survives its transport form: the REST representation (type and hexadecimal
  payload) of any message reads back as that message.
\<close>

theorem message_roundtrip:
  "messageDTO_toStruct \<lparr>md_Type = Message_Type m, md_Payload = hex_encode (Message_Payload m)\<rparr> = Inr m"
proof (cases m)
  case (PlainMessage bs)
  then show ?thesis
    by (cases "bs = []") (simp_all add: messageDTO_toStruct_def go_consts NewPlainMessage_def)
next
  case (SecureMessage bs)
  then show ?thesis
    by (cases "bs = []") (simp_all add: messageDTO_toStruct_def go_consts NewSecureMessage_def)
qed

text \<open>
  What the crypto package promises of keys and of its block cipher, each law on its own. A pair made of a private key holds
  it, and its printed public key reads as the key \<open>public\<close> of the private one, which makes a pair alone. The cipher works with the
  secret \<open>agreed\<close> that follows from one's own private key and the other's public key: two private keys agree on it whichever
  side computes it; encrypting with it is \<open>seal\<close> (for the salt the call draws), decrypting is \<open>unseal\<close>, and what is sealed with a secret is
  unsealed with the same secret.
\<close>

definition cipher_laws ::
  "'k crypto \<Rightarrow> ('k \<Rightarrow> 'k) \<Rightarrow> ('k \<Rightarrow> 'k \<Rightarrow> 's) \<Rightarrow> ('s \<Rightarrow> byte list \<Rightarrow> byte list) \<Rightarrow> ('s \<Rightarrow> byte list \<Rightarrow> byte list result) \<Rightarrow> bool" where
  "cipher_laws C public agreed seal unseal \<longleftrightarrow>
     (\<forall>k kp. cr_NewKeyPair C (Some k) None = Inr kp \<longrightarrow>
        cr_PrivateKey C kp = k \<and> cr_NewPublicKeyfromHex C (cr_PublicKey_String C kp) = Inr (public k)
        \<and> (\<exists>half. cr_NewKeyPair C None (Some (public k)) = Inr half))
   \<and> (\<forall>k kp k' kp' half.
        cr_NewKeyPair C (Some k) None = Inr kp \<longrightarrow> cr_NewKeyPair C (Some k') None = Inr kp' \<longrightarrow>
        cr_NewKeyPair C None (Some (public k')) = Inr half \<longrightarrow>
        (\<forall>m. cr_Encrypt C kp half m = Inr (seal (agreed k (public k')) m))
        \<and> (\<forall>e. cr_Decrypt C half kp e = unseal (agreed k (public k')) e)
        \<and> agreed k (public k') = agreed k' (public k))
   \<and> (\<forall>secret m. unseal secret (seal secret m) = Inr m)"

lemma secure_message_transport:
  fixes msg :: string
  assumes laws: "cipher_laws C public agreed seal unseal"
    and keys: "cr_NewKeyPair C (Some k) None = Inr kp" "cr_NewKeyPair C (Some k') None = Inr kp'"
  defines "e \<equiv> seal (agreed k (public k')) (string_bytes msg)"
  shows "NewSecureMessageFromPlaintText C msg k (public k') = Inr (NewSecureMessage e)"
    and "NewPlainMessageFromEncodedData C e k' (public k) = Inr (NewPlainMessage msg)"
    and "NewPlainMessageFromEncodedData C e k (public k') = Inr (NewPlainMessage msg)"
proof -
  obtain half half' where h: "cr_NewKeyPair C None (Some (public k)) = Inr half" "cr_NewKeyPair C None (Some (public k')) = Inr half'"
    using laws keys unfolding cipher_laws_def by metis
  have c: "cr_Encrypt C kp half' m = Inr (seal (agreed k (public k')) m)" "cr_Decrypt C half' kp x = unseal (agreed k (public k')) x"
    "cr_Decrypt C half kp' x = unseal (agreed k (public k')) x" for m x
    using laws keys h unfolding cipher_laws_def by metis+
  have u: "unseal (agreed k (public k')) e = Inr (string_bytes msg)"
    using laws unfolding cipher_laws_def e_def by metis
  show "NewSecureMessageFromPlaintText C msg k (public k') = Inr (NewSecureMessage e)"
    by (simp add: NewSecureMessageFromPlaintText_def keys h c e_def)
  show "NewPlainMessageFromEncodedData C e k' (public k) = Inr (NewPlainMessage msg)"
    "NewPlainMessageFromEncodedData C e k (public k') = Inr (NewPlainMessage msg)"
    by (simp_all add: NewPlainMessageFromEncodedData_def keys h c u)
qed

end
