(* ===== verification/Network.thy ===== *)
theory Network
  imports Crypto Constants "HOL-Library.Sublist" "HOL-Library.List_Lexorder" "HOL-Library.Char_ord"
begin

text \<open>
  The network configuration of \<open>sdk/network_model.go\<close> and its conversion to text, as the
  network-config transaction carries it. A Go map is the list of its entries in the order the loop
  over it visits them. \<open>sort.Slice\<close> is \<open>sort_key\<close>: where two entries have the same key the code leaves
  their order open, and the model keeps the order of the visit. JSON printing is the parameter
  \<open>cr_MarshalEntities\<close>. Parsing is in theory \<open>NetworkParse\<close>.
\<close>

section \<open>Trimming white space\<close>

text \<open>The UTF-8 forms of the characters \<open>unicode.IsSpace\<close> accepts.\<close>

definition white :: "string list" where
  "white = map (map char_of)
     ([[9], [10], [11], [12], [13], [32], [0xC2, 0x85], [0xC2, 0xA0], [0xE1, 0x9A, 0x80 :: nat]]
      @ map (\<lambda>b. [0xE2, 0x80, b]) ([0x80..<0x8B] @ [0xA8, 0xA9, 0xAF])
      @ [[0xE2, 0x81, 0x9F], [0xE3, 0x80, 0x80]])"

lemma white_not_Nil: "w \<in> set white \<Longrightarrow> w \<noteq> []"
  by (auto simp: white_def)

function trim_left :: "string \<Rightarrow> string" where
  "trim_left s = (case find (\<lambda>w. prefix w s) white of None \<Rightarrow> s | Some w \<Rightarrow> trim_left (drop (length w) s))"
  by pat_completeness auto
termination
proof (relation "measure length")
  fix s w
  assume "find (\<lambda>w. prefix w s) white = Some w"
  then have "w \<in> set white" "prefix w s" by (auto simp: find_Some_iff)
  then have "w \<noteq> []" "length w \<le> length s" using white_not_Nil prefix_length_le by blast+
  then show "(drop (length w) s, s) \<in> measure length" by (cases w) auto
qed simp

function trim_right :: "string \<Rightarrow> string" where
  "trim_right s = (case find (\<lambda>w. suffix w s) white of None \<Rightarrow> s
     | Some w \<Rightarrow> trim_right (take (length s - length w) s))"
  by pat_completeness auto
termination
proof (relation "measure length")
  fix s w
  assume "find (\<lambda>w. suffix w s) white = Some w"
  then have "w \<in> set white" "suffix w s" by (auto simp: find_Some_iff)
  then have "w \<noteq> []" "length w \<le> length s" using white_not_Nil suffix_length_le by blast+
  then show "(take (length s - length w) s, s) \<in> measure length" by (cases w) auto
qed simp

declare trim_left.simps [simp del] trim_right.simps [simp del]

definition TrimSpace :: "string \<Rightarrow> string" where
  "TrimSpace s = trim_right (trim_left s)"

section \<open>Configuration\<close>

record Field =
  field_Key :: string
  field_Value :: string
  field_Comment :: string
  field_Index :: nat

record ConfigBag =
  bag_Name :: string
  bag_Comment :: string
  bag_Index :: nat
  bag_Fields :: "(string \<times> Field) list"

record NetworkConfig = nc_Sections :: "(string \<times> ConfigBag) list"

record Entity =
  ent_Name :: string
  ent_Type :: EntityType
  ent_SupportedVersions :: "EntityVersion list"

record SupportedEntities = se_Entities :: "(EntityType \<times> Entity) list"

text \<open>The newline that the two printing functions put after a comment that is not blank.\<close>

definition Field_String :: "Field \<Rightarrow> string" where
  "Field_String c =
     (let s = field_Comment c;
          s = (if length (TrimSpace s) \<noteq> 0 then s @ [CHR 0x0A] else s)
      in s @ field_Key c @ '' = '' @ field_Value c)"

definition ConfigBag_String :: "ConfigBag \<Rightarrow> string" where
  "ConfigBag_String c =
     (let s = bag_Comment c;
          s = (if length (TrimSpace s) \<noteq> 0 then s @ [CHR 0x0A] else s);
          s = s @ ''['' @ bag_Name c @ '']'' @ [CHR 0x0A];
          fields = sort_key field_Index (map snd (bag_Fields c))
      in s @ concat (map (\<lambda>f. Field_String f @ [CHR 0x0A]) fields))"

definition NetworkConfig_String :: "NetworkConfig \<Rightarrow> string" where
  "NetworkConfig_String c =
     (let sections = sort_key bag_Index (map snd (nc_Sections c))
      in concat (map ConfigBag_String sections))"

definition NetworkConfig_MarshalBinary :: "NetworkConfig \<Rightarrow> byte list result" where
  "NetworkConfig_MarshalBinary c = Inr (string_bytes (NetworkConfig_String c))"

definition SupportedEntities_MarshalBinary :: "'k crypto \<Rightarrow> SupportedEntities \<Rightarrow> byte list result" where
  "SupportedEntities_MarshalBinary C s =
     (let dtos = map (\<lambda>(_, e). (ent_Name e, dec_nat (unat (ent_Type e)), ent_SupportedVersions e)) (se_Entities s)
      in Inr (cr_MarshalEntities C (sort_key fst dtos)))"

definition SupportedEntities_String :: "'k crypto \<Rightarrow> SupportedEntities \<Rightarrow> string" where
  "SupportedEntities_String C s =
     (case SupportedEntities_MarshalBinary C s of Inr b \<Rightarrow> bytes_string b | Inl _ \<Rightarrow> [])"

end
