(* ===== verification/Transactions.thy ===== *)
theory Transactions
  imports Secrets Network
begin

text \<open>
  \<open>sdk/transaction_model.go\<close>: the transactions, their constructors, their sizes and the predicates on
  their state. A struct is a record whose first field is the embedded \<open>AbstractTransaction\<close>; the
  interface \<open>Transaction\<close> is the datatype of all kinds. A pointer that the code may leave nil is an
  option (the deadline, the signer, the target of a metadata transaction, the hash of a contract, the
  parent of a namespace); the pointers every constructor checks, and the elements of slices of
  pointers, are plain values. A nil slice is told from an empty one only where the code does.
\<close>

section \<open>The common part\<close>

record TransactionInfo =
  ti_Height :: Height
  ti_Index :: u32
  ti_Id :: string
  ti_TransactionHash :: "Hash option"
  ti_MerkleComponentHash :: "Hash option"
  ti_AggregateHash :: "Hash option"
  ti_AggregateId :: string

record AbstractTransaction =
  tx_TransactionInfo :: "TransactionInfo option"
  tx_NetworkType :: NetworkType
  tx_Deadline :: "Deadline option"
  tx_Type :: EntityType
  tx_Version :: EntityVersion
  tx_MaxFee :: Amount
  tx_Signature :: string
  tx_Signer :: "PublicAccount option"

text \<open>\<open>Hash.Equal\<close> on pointers: a nil one panics.\<close>

definition info_hashes_equal :: "TransactionInfo \<Rightarrow> bool result" where
  "info_hashes_equal info =
     res_bind (deref (ti_TransactionHash info)) (\<lambda>h.
     res_bind (deref (ti_MerkleComponentHash info)) (\<lambda>m. Inr (Hash_Equal h m)))"

definition IsUnconfirmed :: "AbstractTransaction \<Rightarrow> bool result" where
  "IsUnconfirmed tx =
     (case tx_TransactionInfo tx of None \<Rightarrow> Inr False
      | Some info \<Rightarrow> if ti_Height info = 0 then info_hashes_equal info else Inr False)"

definition IsConfirmed :: "AbstractTransaction \<Rightarrow> bool" where
  "IsConfirmed tx = (case tx_TransactionInfo tx of None \<Rightarrow> False | Some info \<Rightarrow> ti_Height info > 0)"

definition HasMissingSignatures :: "AbstractTransaction \<Rightarrow> bool result" where
  "HasMissingSignatures tx =
     (case tx_TransactionInfo tx of None \<Rightarrow> Inr False
      | Some info \<Rightarrow> if ti_Height info = 0 then res_map Not (info_hashes_equal info) else Inr False)"

definition IsUnannounced :: "AbstractTransaction \<Rightarrow> bool" where
  "IsUnannounced tx = (tx_TransactionInfo tx = None)"

definition ToAggregate :: "PublicAccount option \<Rightarrow> AbstractTransaction \<Rightarrow> AbstractTransaction" where
  "ToAggregate signer tx = tx\<lparr>tx_Signer := signer\<rparr>"

text \<open>The literal \<open>AbstractTransaction{Version: v, Deadline: deadline, Type: t, NetworkType: networkType}\<close>.\<close>

definition newAbstract ::
  "EntityVersion \<Rightarrow> Deadline option \<Rightarrow> EntityType \<Rightarrow> NetworkType \<Rightarrow> AbstractTransaction" where
  "newAbstract v deadline t networkType =
     \<lparr>tx_TransactionInfo = None, tx_NetworkType = networkType, tx_Deadline = deadline, tx_Type = t,
      tx_Version = v, tx_MaxFee = 0, tx_Signature = [], tx_Signer = None\<rparr>"

section \<open>The kinds of transactions\<close>

record AccountPropertiesAddressModification =
  apam_ModificationType :: PropertyModificationType
  apam_Address :: Address

record AccountPropertiesAddressTransaction =
  apa_AbstractTransaction :: AbstractTransaction
  apa_PropertyType :: PropertyType
  apa_Modifications :: "AccountPropertiesAddressModification list"

record AccountPropertiesMosaicModification =
  apmm_ModificationType :: PropertyModificationType
  apmm_AssetId :: AssetId

record AccountPropertiesMosaicTransaction =
  apm_AbstractTransaction :: AbstractTransaction
  apm_PropertyType :: PropertyType
  apm_Modifications :: "AccountPropertiesMosaicModification list"

record AccountPropertiesEntityTypeModification =
  apem_ModificationType :: PropertyModificationType
  apem_EntityType :: EntityType

record AccountPropertiesEntityTypeTransaction =
  ape_AbstractTransaction :: AbstractTransaction
  ape_PropertyType :: PropertyType
  ape_Modifications :: "AccountPropertiesEntityTypeModification list"

record AliasTransaction =
  al_AbstractTransaction :: AbstractTransaction
  al_ActionType :: AliasActionType
  al_NamespaceId :: NamespaceId

record AddressAliasTransaction =
  aal_AliasTransaction :: AliasTransaction
  aal_Address :: Address

record MosaicAliasTransaction =
  mal_AliasTransaction :: AliasTransaction
  mal_MosaicId :: MosaicId

record AccountLinkTransaction =
  link_AbstractTransaction :: AbstractTransaction
  link_RemoteAccount :: PublicAccount
  link_LinkAction :: AccountLinkAction

record NetworkConfigTransaction =
  nct_AbstractTransaction :: AbstractTransaction
  nct_ApplyHeightDelta :: Duration
  nct_NetworkConfig :: NetworkConfig
  nct_SupportedEntities :: SupportedEntities

record BlockchainUpgradeTransaction =
  bu_AbstractTransaction :: AbstractTransaction
  bu_UpgradePeriod :: Duration
  bu_NewBlockChainVersion :: BlockChainVersion

record MetadataModification =
  mm_Type :: MetadataModificationType
  mm_Key :: string
  mm_Value :: string

record ModifyMetadataTransaction =
  mmt_AbstractTransaction :: AbstractTransaction
  mmt_MetadataType :: MetadataType
  mmt_Modifications :: "MetadataModification list"

record ModifyMetadataAddressTransaction =
  mma_ModifyMetadataTransaction :: ModifyMetadataTransaction
  mma_Address :: "Address option"

record ModifyMetadataMosaicTransaction =
  mmm_ModifyMetadataTransaction :: ModifyMetadataTransaction
  mmm_MosaicId :: "MosaicId option"

record ModifyMetadataNamespaceTransaction =
  mmn_ModifyMetadataTransaction :: ModifyMetadataTransaction
  mmn_NamespaceId :: "NamespaceId option"

record MosaicDefinitionTransaction =
  mdt_AbstractTransaction :: AbstractTransaction
  mdt_MosaicProperties :: MosaicProperties
  mdt_MosaicNonce :: u32
  mdt_MosaicId :: MosaicId

record MosaicSupplyChangeTransaction =
  msc_AbstractTransaction :: AbstractTransaction
  msc_MosaicSupplyType :: MosaicSupplyType
  msc_AssetId :: AssetId
  msc_Delta :: Amount

record TransferTransaction =
  tr_AbstractTransaction :: AbstractTransaction
  tr_Message :: Message
  tr_Mosaics :: "Mosaic list"
  tr_Recipient :: Address

record MultisigCosignatoryModification =
  mcm_Type :: MultisigCosignatoryModificationType
  mcm_PublicAccount :: PublicAccount

record ModifyMultisigAccountTransaction =
  mms_AbstractTransaction :: AbstractTransaction
  mms_MinApprovalDelta :: "8 word"
  mms_MinRemovalDelta :: "8 word"
  mms_Modifications :: "MultisigCosignatoryModification list"

record ModifyContractTransaction =
  mct_AbstractTransaction :: AbstractTransaction
  mct_DurationDelta :: Duration
  mct_Hash :: "Hash option"
  mct_Customers :: "MultisigCosignatoryModification list"
  mct_Executors :: "MultisigCosignatoryModification list"
  mct_Verifiers :: "MultisigCosignatoryModification list"

record RegisterNamespaceTransaction =
  rn_AbstractTransaction :: AbstractTransaction
  rn_NamespaceId :: NamespaceId
  rn_NamespaceType :: NamespaceType
  rn_NamspaceName :: string
  rn_Duration :: Duration
  rn_ParentId :: "NamespaceId option"

record SignedTransaction =
  st_EntityType :: EntityType
  st_Payload :: string
  st_Hash :: "Hash option"

record LockFundsTransaction =
  lf_AbstractTransaction :: AbstractTransaction
  lf_Mosaic :: Mosaic
  lf_Duration :: Duration
  lf_SignedTransaction :: SignedTransaction

record SecretLockTransaction =
  sl_AbstractTransaction :: AbstractTransaction
  sl_Mosaic :: Mosaic
  sl_Duration :: Duration
  sl_Secret :: Secret
  sl_Recipient :: Address

record SecretProofTransaction =
  sp_AbstractTransaction :: AbstractTransaction
  sp_HashType :: HashType
  sp_Proof :: Proof
  sp_Recipient :: Address

record AggregateTransactionCosignature =
  ac_Signature :: string
  ac_Signer :: PublicAccount

text \<open>
  The inner transactions of an aggregate are transactions again: the type is a parameter here. A
  cosignature may be nil: the REST conversion leaves one so.
\<close>

datatype 't AggregateTransaction =
  AggregateTransaction
    (ag_AbstractTransaction: AbstractTransaction)
    (ag_InnerTransactions: "'t list")
    (ag_Cosignatures: "AggregateTransactionCosignature option list")

datatype Transaction =
    TxAccountPropertiesAddress AccountPropertiesAddressTransaction
  | TxAccountPropertiesMosaic AccountPropertiesMosaicTransaction
  | TxAccountPropertiesEntityType AccountPropertiesEntityTypeTransaction
  | TxAddressAlias AddressAliasTransaction
  | TxMosaicAlias MosaicAliasTransaction
  | TxAccountLink AccountLinkTransaction
  | TxNetworkConfig NetworkConfigTransaction
  | TxBlockchainUpgrade BlockchainUpgradeTransaction
  | TxAggregate "Transaction AggregateTransaction"
  | TxModifyMetadataAddress ModifyMetadataAddressTransaction
  | TxModifyMetadataMosaic ModifyMetadataMosaicTransaction
  | TxModifyMetadataNamespace ModifyMetadataNamespaceTransaction
  | TxMosaicDefinition MosaicDefinitionTransaction
  | TxMosaicSupplyChange MosaicSupplyChangeTransaction
  | TxTransfer TransferTransaction
  | TxModifyMultisigAccount ModifyMultisigAccountTransaction
  | TxModifyContract ModifyContractTransaction
  | TxRegisterNamespace RegisterNamespaceTransaction
  | TxLockFunds LockFundsTransaction
  | TxSecretLock SecretLockTransaction
  | TxSecretProof SecretProofTransaction

record CosignatureTransaction = ct_TransactionToCosign :: "Transaction AggregateTransaction"

record CosignatureSignedTransaction =
  cs_ParentHash :: "Hash option"
  cs_Signature :: Signature
  cs_Signer :: string

end
