(* ===== verification/TxConstructors.thy ===== *)
theory TxConstructors
  imports Transactions
begin

text \<open>
  The constructors of the transactions (\<open>New...Transaction\<close> of \<open>sdk/transaction_model.go\<close>), their
  sizes in bytes (\<open>Size\<close>) and the access to their common part. A pointer argument that the code
  compares with nil is an option.
\<close>

section \<open>Constructors\<close>

definition NewAccountPropertiesAddressTransaction ::
  "Deadline option \<Rightarrow> PropertyType \<Rightarrow> AccountPropertiesAddressModification list \<Rightarrow> NetworkType
   \<Rightarrow> AccountPropertiesAddressTransaction result" where
  "NewAccountPropertiesAddressTransaction deadline propertyType modifications networkType =
     (if length modifications = 0 then Inl (NewError ''modifications must not be empty'')
      else if propertyType AND AllowAddress = 0
      then Inl (NewError ''wrong propertyType for address account properties'')
      else Inr \<lparr>apa_AbstractTransaction =
                  newAbstract AccountPropertyAddressVersion deadline ET_AccountPropertyAddress networkType,
                apa_PropertyType = propertyType, apa_Modifications = modifications\<rparr>)"

definition NewAccountPropertiesMosaicTransaction ::
  "Deadline option \<Rightarrow> PropertyType \<Rightarrow> AccountPropertiesMosaicModification list \<Rightarrow> NetworkType
   \<Rightarrow> AccountPropertiesMosaicTransaction result" where
  "NewAccountPropertiesMosaicTransaction deadline propertyType modifications networkType =
     (if length modifications = 0 then Inl (NewError ''modifications must not be empty'')
      else if propertyType AND AllowMosaic = 0
      then Inl (NewError ''wrong propertyType for mosaic account properties'')
      else Inr \<lparr>apm_AbstractTransaction =
                  newAbstract AccountPropertyMosaicVersion deadline ET_AccountPropertyMosaic networkType,
                apm_PropertyType = propertyType, apm_Modifications = modifications\<rparr>)"

definition NewAccountPropertiesEntityTypeTransaction ::
  "Deadline option \<Rightarrow> PropertyType \<Rightarrow> AccountPropertiesEntityTypeModification list \<Rightarrow> NetworkType
   \<Rightarrow> AccountPropertiesEntityTypeTransaction result" where
  "NewAccountPropertiesEntityTypeTransaction deadline propertyType modifications networkType =
     (if length modifications = 0 then Inl (NewError ''modifications must not be empty'')
      else if propertyType AND AllowTransaction = 0
      then Inl (NewError ''wrong propertyType for entityType account properties'')
      else Inr \<lparr>ape_AbstractTransaction =
                  newAbstract AccountPropertyEntityTypeVersion deadline ET_AccountPropertyEntityType networkType,
                ape_PropertyType = propertyType, ape_Modifications = modifications\<rparr>)"

definition NewAddressAliasTransaction ::
  "Deadline option \<Rightarrow> Address option \<Rightarrow> NamespaceId option \<Rightarrow> AliasActionType \<Rightarrow> NetworkType
   \<Rightarrow> AddressAliasTransaction result" where
  "NewAddressAliasTransaction deadline address namespaceId actionType networkType =
     (case address of None \<Rightarrow> Inl (NewError ''address must not be nil'')
      | Some address \<Rightarrow>
        (case namespaceId of None \<Rightarrow> Inl (NewError ''namespaceId must not be nil'')
         | Some namespaceId \<Rightarrow>
           Inr \<lparr>aal_AliasTransaction =
                  \<lparr>al_AbstractTransaction = newAbstract AddressAliasVersion deadline ET_AddressAlias networkType,
                   al_ActionType = actionType, al_NamespaceId = namespaceId\<rparr>,
                aal_Address = address\<rparr>))"

definition NewMosaicAliasTransaction ::
  "Deadline option \<Rightarrow> MosaicId option \<Rightarrow> NamespaceId option \<Rightarrow> AliasActionType \<Rightarrow> NetworkType
   \<Rightarrow> MosaicAliasTransaction result" where
  "NewMosaicAliasTransaction deadline mosaicId namespaceId actionType networkType =
     (case mosaicId of None \<Rightarrow> Inl (NewError ''mosaicId must not bu nil'')
      | Some mosaicId \<Rightarrow>
        (case namespaceId of None \<Rightarrow> Inl (NewError ''namespaceId must not bu nil'')
         | Some namespaceId \<Rightarrow>
           Inr \<lparr>mal_AliasTransaction =
                  \<lparr>al_AbstractTransaction = newAbstract MosaicAliasVersion deadline ET_MosaicAlias networkType,
                   al_ActionType = actionType, al_NamespaceId = namespaceId\<rparr>,
                mal_MosaicId = mosaicId\<rparr>))"

definition NewAccountLinkTransaction ::
  "Deadline option \<Rightarrow> PublicAccount option \<Rightarrow> AccountLinkAction \<Rightarrow> NetworkType
   \<Rightarrow> AccountLinkTransaction result" where
  "NewAccountLinkTransaction deadline remoteAccount linkAction networkType =
     (case remoteAccount of None \<Rightarrow> Inl (NewError ''remoteAccount must not be nil'')
      | Some remoteAccount \<Rightarrow>
        Inr \<lparr>link_AbstractTransaction = newAbstract LinkAccountVersion deadline ET_LinkAccount networkType,
             link_RemoteAccount = remoteAccount, link_LinkAction = linkAction\<rparr>)"

definition NewNetworkConfigTransaction ::
  "Deadline option \<Rightarrow> Duration \<Rightarrow> NetworkConfig option \<Rightarrow> SupportedEntities option \<Rightarrow> NetworkType
   \<Rightarrow> NetworkConfigTransaction result" where
  "NewNetworkConfigTransaction deadline delta config entities networkType =
     (case entities of None \<Rightarrow> Inl (NewError ''Entities should not be nil'')
      | Some entities \<Rightarrow>
        (case config of None \<Rightarrow> Inl (NewError ''NetworkConfig should not be nil'')
         | Some config \<Rightarrow>
           Inr \<lparr>nct_AbstractTransaction =
                  newAbstract NetworkConfigVersion deadline ET_NetworkConfigEntityType networkType,
                nct_ApplyHeightDelta = delta, nct_NetworkConfig = config,
                nct_SupportedEntities = entities\<rparr>))"

definition NewBlockchainUpgradeTransaction ::
  "Deadline option \<Rightarrow> Duration \<Rightarrow> BlockChainVersion \<Rightarrow> NetworkType \<Rightarrow> BlockchainUpgradeTransaction result" where
  "NewBlockchainUpgradeTransaction deadline upgradePeriod newBlockChainVersion networkType =
     Inr \<lparr>bu_AbstractTransaction = newAbstract BlockchainUpgradeVersion deadline ET_BlockchainUpgrade networkType,
          bu_UpgradePeriod = upgradePeriod, bu_NewBlockChainVersion = newBlockChainVersion\<rparr>"

definition NewCompleteAggregateTransaction ::
  "Deadline option \<Rightarrow> Transaction list option \<Rightarrow> NetworkType \<Rightarrow> Transaction AggregateTransaction result" where
  "NewCompleteAggregateTransaction deadline innerTxs networkType =
     (case innerTxs of None \<Rightarrow> Inl (NewError ''innerTransactions must not be nil'')
      | Some innerTxs \<Rightarrow>
        Inr (AggregateTransaction
          (newAbstract AggregateCompletedVersion deadline ET_AggregateCompleted networkType) innerTxs []))"

definition NewBondedAggregateTransaction ::
  "Deadline option \<Rightarrow> Transaction list option \<Rightarrow> NetworkType \<Rightarrow> Transaction AggregateTransaction result" where
  "NewBondedAggregateTransaction deadline innerTxs networkType =
     (case innerTxs of None \<Rightarrow> Inl (NewError ''innerTransactions must not be nil'')
      | Some innerTxs \<Rightarrow>
        Inr (AggregateTransaction
          (newAbstract AggregateBondedVersion deadline ET_AggregateBonded networkType) innerTxs []))"

definition NewModifyMetadataAddressTransaction ::
  "Deadline option \<Rightarrow> Address option \<Rightarrow> MetadataModification list \<Rightarrow> NetworkType
   \<Rightarrow> ModifyMetadataAddressTransaction result" where
  "NewModifyMetadataAddressTransaction deadline address modifications networkType =
     (if length modifications = 0 then Inl (NewError ''modifications must not empty'')
      else Inr \<lparr>mma_ModifyMetadataTransaction =
                  \<lparr>mmt_AbstractTransaction =
                     newAbstract MetadataAddressVersion deadline ET_MetadataAddress networkType,
                   mmt_MetadataType = MetadataAddressType, mmt_Modifications = modifications\<rparr>,
                mma_Address = address\<rparr>)"

definition NewModifyMetadataMosaicTransaction ::
  "Deadline option \<Rightarrow> MosaicId option \<Rightarrow> MetadataModification list \<Rightarrow> NetworkType
   \<Rightarrow> ModifyMetadataMosaicTransaction result" where
  "NewModifyMetadataMosaicTransaction deadline mosaicId modifications networkType =
     (if length modifications = 0 then Inl (NewError ''modifications must not empty'')
      else Inr \<lparr>mmm_ModifyMetadataTransaction =
                  \<lparr>mmt_AbstractTransaction =
                     newAbstract MetadataMosaicVersion deadline ET_MetadataMosaic networkType,
                   mmt_MetadataType = MetadataMosaicType, mmt_Modifications = modifications\<rparr>,
                mmm_MosaicId = mosaicId\<rparr>)"

definition NewModifyMetadataNamespaceTransaction ::
  "Deadline option \<Rightarrow> NamespaceId option \<Rightarrow> MetadataModification list \<Rightarrow> NetworkType
   \<Rightarrow> ModifyMetadataNamespaceTransaction result" where
  "NewModifyMetadataNamespaceTransaction deadline namespaceId modifications networkType =
     (if length modifications = 0 then Inl (NewError ''modifications must not empty'')
      else Inr \<lparr>mmn_ModifyMetadataTransaction =
                  \<lparr>mmt_AbstractTransaction =
                     newAbstract MetadataNamespaceVersion deadline ET_MetadataNamespace networkType,
                   mmt_MetadataType = MetadataNamespaceType, mmt_Modifications = modifications\<rparr>,
                mmn_NamespaceId = namespaceId\<rparr>)"

definition NewMosaicDefinitionTransaction ::
  "'k crypto \<Rightarrow> Deadline option \<Rightarrow> u32 \<Rightarrow> string \<Rightarrow> MosaicProperties option \<Rightarrow> NetworkType
   \<Rightarrow> MosaicDefinitionTransaction result" where
  "NewMosaicDefinitionTransaction C deadline nonce ownerPublicKey mosaicProps networkType =
     (if length ownerPublicKey \<noteq> 64 then Inl ErrInvalidOwnerPublicKey
      else (case mosaicProps of None \<Rightarrow> Inl ErrNilMosaicProperties
        | Some mosaicProps \<Rightarrow>
          res_bind (NewMosaicIdFromNonceAndOwner C nonce ownerPublicKey) (\<lambda>mosaicId.
            Inr \<lparr>mdt_AbstractTransaction = newAbstract MosaicDefinitionVersion deadline ET_MosaicDefinition networkType,
                 mdt_MosaicProperties = mosaicProps, mdt_MosaicNonce = nonce, mdt_MosaicId = mosaicId\<rparr>)))"

definition NewMosaicSupplyChangeTransaction ::
  "Deadline option \<Rightarrow> AssetId option \<Rightarrow> MosaicSupplyType \<Rightarrow> Duration \<Rightarrow> NetworkType
   \<Rightarrow> MosaicSupplyChangeTransaction result" where
  "NewMosaicSupplyChangeTransaction deadline assetId supplyType delta networkType =
     (case assetId of None \<Rightarrow> Inl ErrNilAssetId
      | Some assetId \<Rightarrow>
        if AssetId_Id assetId = 0 then Inl ErrNilAssetId
        else if \<not> (supplyType = Increase \<or> supplyType = Decrease)
        then Inl (NewError ''supplyType must not be nil'')
        else Inr \<lparr>msc_AbstractTransaction =
                    newAbstract MosaicSupplyChangeVersion deadline ET_MosaicSupplyChange networkType,
                  msc_MosaicSupplyType = supplyType, msc_AssetId = assetId, msc_Delta = delta\<rparr>)"

definition NewTransferTransaction ::
  "Deadline option \<Rightarrow> Address option \<Rightarrow> Mosaic list option \<Rightarrow> Message option \<Rightarrow> NetworkType
   \<Rightarrow> TransferTransaction result" where
  "NewTransferTransaction deadline recipient mosaics message networkType =
     (case recipient of None \<Rightarrow> Inl (NewError ''recipient must not be nil'')
      | Some recipient \<Rightarrow>
        (case mosaics of None \<Rightarrow> Inl (NewError ''mosaics must not be nil'')
         | Some mosaics \<Rightarrow>
           (case message of None \<Rightarrow> Inl (NewError ''message must not be nil, but could be with empty payload'')
            | Some message \<Rightarrow>
              Inr \<lparr>tr_AbstractTransaction = newAbstract TransferVersion deadline ET_Transfer networkType,
                   tr_Message = message, tr_Mosaics = mosaics, tr_Recipient = recipient\<rparr>)))"

definition NewTransferTransactionWithNamespace ::
  "Deadline option \<Rightarrow> NamespaceId option \<Rightarrow> Mosaic list option \<Rightarrow> Message option \<Rightarrow> NetworkType
   \<Rightarrow> TransferTransaction result" where
  "NewTransferTransactionWithNamespace deadline recipient mosaics message networkType =
     (case recipient of None \<Rightarrow> Inl (NewError ''recipient namespace must not be nil'')
      | Some recipient \<Rightarrow>
        (case mosaics of None \<Rightarrow> Inl (NewError ''mosaics must not be nil'')
         | Some mosaics \<Rightarrow>
           (case message of None \<Rightarrow> Inl (NewError ''message must not be nil, but could be with empty payload'')
            | Some message \<Rightarrow>
              res_bind (NewAddressFromNamespace recipient) (\<lambda>address.
                Inr \<lparr>tr_AbstractTransaction = newAbstract TransferVersion deadline ET_Transfer networkType,
                     tr_Message = message, tr_Mosaics = mosaics, tr_Recipient = address\<rparr>))))"

definition NewModifyMultisigAccountTransaction ::
  "Deadline option \<Rightarrow> 8 word \<Rightarrow> 8 word \<Rightarrow> MultisigCosignatoryModification list \<Rightarrow> NetworkType
   \<Rightarrow> ModifyMultisigAccountTransaction result" where
  "NewModifyMultisigAccountTransaction deadline minApprovalDelta minRemovalDelta modifications networkType =
     (if length modifications = 0 \<and> minApprovalDelta = 0 \<and> minRemovalDelta = 0
      then Inl (NewError ''modifications must not empty'')
      else Inr \<lparr>mms_AbstractTransaction = newAbstract ModifyMultisigVersion deadline ET_ModifyMultisig networkType,
                mms_MinApprovalDelta = minApprovalDelta, mms_MinRemovalDelta = minRemovalDelta,
                mms_Modifications = modifications\<rparr>)"

definition NewModifyContractTransaction ::
  "Deadline option \<Rightarrow> Duration \<Rightarrow> Hash option \<Rightarrow> MultisigCosignatoryModification list
   \<Rightarrow> MultisigCosignatoryModification list \<Rightarrow> MultisigCosignatoryModification list \<Rightarrow> NetworkType
   \<Rightarrow> ModifyContractTransaction result" where
  "NewModifyContractTransaction deadline durationDelta hash customers executors verifiers networkType =
     (if length customers = 0 then Inl (NewError ''customers must not empty'')
      else if length executors = 0 then Inl (NewError ''executors must not empty'')
      else if length verifiers = 0 then Inl (NewError ''verifiers must not empty'')
      else Inr \<lparr>mct_AbstractTransaction = newAbstract ModifyContractVersion deadline ET_ModifyContract networkType,
                mct_DurationDelta = durationDelta, mct_Hash = hash, mct_Customers = customers,
                mct_Executors = executors, mct_Verifiers = verifiers\<rparr>)"

definition NewRegisterRootNamespaceTransaction ::
  "'k crypto \<Rightarrow> Deadline option \<Rightarrow> string \<Rightarrow> Duration \<Rightarrow> NetworkType \<Rightarrow> RegisterNamespaceTransaction result" where
  "NewRegisterRootNamespaceTransaction C deadline namespaceName duration networkType =
     (if length namespaceName = 0 then Inl ErrInvalidNamespaceName
      else res_bind (NewNamespaceIdFromName C namespaceName) (\<lambda>nsId.
        Inr \<lparr>rn_AbstractTransaction = newAbstract RegisterNamespaceVersion deadline ET_RegisterNamespace networkType,
             rn_NamespaceId = nsId, rn_NamespaceType = Root, rn_NamspaceName = namespaceName,
             rn_Duration = duration, rn_ParentId = None\<rparr>))"

definition NewRegisterSubNamespaceTransaction ::
  "'k crypto \<Rightarrow> Deadline option \<Rightarrow> string \<Rightarrow> NamespaceId option \<Rightarrow> NetworkType
   \<Rightarrow> RegisterNamespaceTransaction result" where
  "NewRegisterSubNamespaceTransaction C deadline namespaceName parentId networkType =
     (if length namespaceName = 0 then Inl ErrInvalidNamespaceName
      else (case parentId of None \<Rightarrow> Inl ErrNilNamespaceId
        | Some p \<Rightarrow>
          if AssetId_Id (NamespaceAsset p) = 0 then Inl ErrNilNamespaceId
          else res_bind (generateNamespaceId C namespaceName p) (\<lambda>nsId.
            Inr \<lparr>rn_AbstractTransaction =
                   newAbstract RegisterNamespaceVersion deadline ET_RegisterNamespace networkType,
                 rn_NamespaceId = nsId, rn_NamespaceType = Sub, rn_NamspaceName = namespaceName,
                 rn_Duration = 0, rn_ParentId = Some p\<rparr>)))"

definition NewLockFundsTransaction ::
  "Deadline option \<Rightarrow> Mosaic option \<Rightarrow> Duration \<Rightarrow> SignedTransaction option \<Rightarrow> NetworkType
   \<Rightarrow> LockFundsTransaction result" where
  "NewLockFundsTransaction deadline mosaic duration signedTx networkType =
     (case mosaic of None \<Rightarrow> Inl (NewError ''mosaic must not be nil'')
      | Some mosaic \<Rightarrow>
        (case signedTx of None \<Rightarrow> Inl (NewError ''signedTx must not be nil'')
         | Some signedTx \<Rightarrow>
           if st_EntityType signedTx \<noteq> ET_AggregateBonded
           then Inl (NewError ''signedTx must be of type AggregateBonded'')
           else Inr \<lparr>lf_AbstractTransaction = newAbstract LockVersion deadline ET_Lock networkType,
                     lf_Mosaic = mosaic, lf_Duration = duration, lf_SignedTransaction = signedTx\<rparr>))"

definition NewSecretLockTransaction ::
  "Deadline option \<Rightarrow> Mosaic option \<Rightarrow> Duration \<Rightarrow> Secret option \<Rightarrow> Address option \<Rightarrow> NetworkType
   \<Rightarrow> SecretLockTransaction result" where
  "NewSecretLockTransaction deadline mosaic duration secret recipient networkType =
     (case mosaic of None \<Rightarrow> Inl (NewError ''mosaic must not be nil'')
      | Some mosaic \<Rightarrow>
        (case secret of None \<Rightarrow> Inl ErrNilSecret
         | Some secret \<Rightarrow>
           (case recipient of None \<Rightarrow> Inl (NewError ''recipient must not be nil'')
            | Some recipient \<Rightarrow>
              Inr \<lparr>sl_AbstractTransaction = newAbstract SecretLockVersion deadline ET_SecretLock networkType,
                   sl_Mosaic = mosaic, sl_Duration = duration, sl_Secret = secret, sl_Recipient = recipient\<rparr>)))"

definition NewSecretProofTransaction ::
  "Deadline option \<Rightarrow> HashType \<Rightarrow> Proof option \<Rightarrow> Address option \<Rightarrow> NetworkType
   \<Rightarrow> SecretProofTransaction result" where
  "NewSecretProofTransaction deadline hashType proof recipient networkType =
     (case proof of None \<Rightarrow> Inl ErrNilProof
      | Some p \<Rightarrow>
        (case recipient of None \<Rightarrow> Inl ErrNilAddress
         | Some recipient \<Rightarrow>
           Inr \<lparr>sp_AbstractTransaction = newAbstract SecretProofVersion deadline ET_SecretProof networkType,
                sp_HashType = hashType, sp_Proof = p, sp_Recipient = recipient\<rparr>))"

definition NewCosignatureTransaction ::
  "Transaction AggregateTransaction option \<Rightarrow> CosignatureTransaction result" where
  "NewCosignatureTransaction txToCosign =
     (case txToCosign of None \<Rightarrow> Inl (NewError ''txToCosign must not be nil'')
      | Some tx \<Rightarrow> Inr \<lparr>ct_TransactionToCosign = tx\<rparr>)"

definition NewCosignatureTransactionFromHash :: "Hash option \<Rightarrow> CosignatureTransaction" where
  "NewCosignatureTransactionFromHash hash =
     (let info = \<lparr>ti_Height = 0, ti_Index = 0, ti_Id = [], ti_TransactionHash = hash,
                  ti_MerkleComponentHash = None, ti_AggregateHash = None, ti_AggregateId = []\<rparr>
      in \<lparr>ct_TransactionToCosign =
            AggregateTransaction ((newAbstract 0 None 0 0)\<lparr>tx_TransactionInfo := Some info\<rparr>) [] []\<rparr>)"

section \<open>The common part\<close>

fun GetAbstractTransaction :: "Transaction \<Rightarrow> AbstractTransaction" where
  "GetAbstractTransaction (TxAccountPropertiesAddress tx) = apa_AbstractTransaction tx"
| "GetAbstractTransaction (TxAccountPropertiesMosaic tx) = apm_AbstractTransaction tx"
| "GetAbstractTransaction (TxAccountPropertiesEntityType tx) = ape_AbstractTransaction tx"
| "GetAbstractTransaction (TxAddressAlias tx) = al_AbstractTransaction (aal_AliasTransaction tx)"
| "GetAbstractTransaction (TxMosaicAlias tx) = al_AbstractTransaction (mal_AliasTransaction tx)"
| "GetAbstractTransaction (TxAccountLink tx) = link_AbstractTransaction tx"
| "GetAbstractTransaction (TxNetworkConfig tx) = nct_AbstractTransaction tx"
| "GetAbstractTransaction (TxBlockchainUpgrade tx) = bu_AbstractTransaction tx"
| "GetAbstractTransaction (TxAggregate tx) = ag_AbstractTransaction tx"
| "GetAbstractTransaction (TxModifyMetadataAddress tx) = mmt_AbstractTransaction (mma_ModifyMetadataTransaction tx)"
| "GetAbstractTransaction (TxModifyMetadataMosaic tx) = mmt_AbstractTransaction (mmm_ModifyMetadataTransaction tx)"
| "GetAbstractTransaction (TxModifyMetadataNamespace tx) =
     mmt_AbstractTransaction (mmn_ModifyMetadataTransaction tx)"
| "GetAbstractTransaction (TxMosaicDefinition tx) = mdt_AbstractTransaction tx"
| "GetAbstractTransaction (TxMosaicSupplyChange tx) = msc_AbstractTransaction tx"
| "GetAbstractTransaction (TxTransfer tx) = tr_AbstractTransaction tx"
| "GetAbstractTransaction (TxModifyMultisigAccount tx) = mms_AbstractTransaction tx"
| "GetAbstractTransaction (TxModifyContract tx) = mct_AbstractTransaction tx"
| "GetAbstractTransaction (TxRegisterNamespace tx) = rn_AbstractTransaction tx"
| "GetAbstractTransaction (TxLockFunds tx) = lf_AbstractTransaction tx"
| "GetAbstractTransaction (TxSecretLock tx) = sl_AbstractTransaction tx"
| "GetAbstractTransaction (TxSecretProof tx) = sp_AbstractTransaction tx"

section \<open>Sizes\<close>

definition AccountPropertiesAddressTransaction_Size :: "AccountPropertiesAddressTransaction \<Rightarrow> nat" where
  "AccountPropertiesAddressTransaction_Size tx =
     AccountPropertyAddressHeader + AccountPropertiesAddressModificationSize * length (apa_Modifications tx)"

definition AccountPropertiesMosaicTransaction_Size :: "AccountPropertiesMosaicTransaction \<Rightarrow> nat" where
  "AccountPropertiesMosaicTransaction_Size tx =
     AccountPropertyMosaicHeader + AccountPropertiesMosaicModificationSize * length (apm_Modifications tx)"

definition AccountPropertiesEntityTypeTransaction_Size :: "AccountPropertiesEntityTypeTransaction \<Rightarrow> nat" where
  "AccountPropertiesEntityTypeTransaction_Size tx =
     AccountPropertyEntityTypeHeader + AccountPropertiesEntityModificationSize * length (ape_Modifications tx)"

definition AliasTransaction_Size :: "AliasTransaction \<Rightarrow> nat" where
  "AliasTransaction_Size tx = AliasTransactionHeaderSize"

definition AddressAliasTransaction_Size :: "AddressAliasTransaction \<Rightarrow> nat" where
  "AddressAliasTransaction_Size tx = AliasTransaction_Size (aal_AliasTransaction tx) + AddressSize"

definition MosaicAliasTransaction_Size :: "MosaicAliasTransaction \<Rightarrow> nat" where
  "MosaicAliasTransaction_Size tx = AliasTransaction_Size (mal_AliasTransaction tx) + MosaicIdSize"

definition AccountLinkTransaction_Size :: "AccountLinkTransaction \<Rightarrow> nat" where
  "AccountLinkTransaction_Size tx = AccountLinkTransactionSize"

definition NetworkConfigTransaction_Size :: "'k crypto \<Rightarrow> NetworkConfigTransaction \<Rightarrow> nat" where
  "NetworkConfigTransaction_Size C tx =
     NetworkConfigHeaderSize + length (NetworkConfig_String (nct_NetworkConfig tx))
       + length (SupportedEntities_String C (nct_SupportedEntities tx))"

definition BlockchainUpgradeTransaction_Size :: "BlockchainUpgradeTransaction \<Rightarrow> nat" where
  "BlockchainUpgradeTransaction_Size tx = BlockchainUpgradeTransactionSize"

definition MetadataModification_Size :: "MetadataModification \<Rightarrow> nat" where
  "MetadataModification_Size m = SizeSize + 1 + 1 + 2 + length (mm_Key m) + length (mm_Value m)"

definition ModifyMetadataTransaction_Size :: "ModifyMetadataTransaction \<Rightarrow> nat" where
  "ModifyMetadataTransaction_Size tx =
     MetadataHeaderSize + foldl (\<lambda>s m. s + MetadataModification_Size m) 0 (mmt_Modifications tx)"

definition ModifyMetadataAddressTransaction_Size :: "ModifyMetadataAddressTransaction \<Rightarrow> nat" where
  "ModifyMetadataAddressTransaction_Size tx =
     ModifyMetadataTransaction_Size (mma_ModifyMetadataTransaction tx) + AddressSize"

definition ModifyMetadataMosaicTransaction_Size :: "ModifyMetadataMosaicTransaction \<Rightarrow> nat" where
  "ModifyMetadataMosaicTransaction_Size tx =
     ModifyMetadataTransaction_Size (mmm_ModifyMetadataTransaction tx) + MosaicIdSize"

definition ModifyMetadataNamespaceTransaction_Size :: "ModifyMetadataNamespaceTransaction \<Rightarrow> nat" where
  "ModifyMetadataNamespaceTransaction_Size tx =
     ModifyMetadataTransaction_Size (mmn_ModifyMetadataTransaction tx) + NamespaceSize"

definition MosaicDefinitionTransaction_Size :: "MosaicDefinitionTransaction \<Rightarrow> nat" where
  "MosaicDefinitionTransaction_Size tx =
     MosaicDefinitionTransactionHeaderSize
       + length (mps_OptionalProperties (mdt_MosaicProperties tx)) * MosaicOptionalPropertySize"

definition MosaicSupplyChangeTransaction_Size :: "MosaicSupplyChangeTransaction \<Rightarrow> nat" where
  "MosaicSupplyChangeTransaction_Size tx = MosaicSupplyChangeTransactionSize"

definition TransferTransaction_MessageSize :: "TransferTransaction \<Rightarrow> nat" where
  "TransferTransaction_MessageSize tx = length (Message_Payload (tr_Message tx)) + 1"

definition TransferTransaction_Size :: "TransferTransaction \<Rightarrow> nat" where
  "TransferTransaction_Size tx =
     TransferHeaderSize + (MosaicIdSize + AmountSize) * length (tr_Mosaics tx) + TransferTransaction_MessageSize tx"

definition ModifyMultisigAccountTransaction_Size :: "ModifyMultisigAccountTransaction \<Rightarrow> nat" where
  "ModifyMultisigAccountTransaction_Size tx =
     ModifyMultisigHeaderSize + (KeySize + 1) * length (mms_Modifications tx)"

definition ModifyContractTransaction_Size :: "ModifyContractTransaction \<Rightarrow> nat" where
  "ModifyContractTransaction_Size tx =
     ModifyContractHeaderSize
       + (KeySize + 1) * (length (mct_Customers tx) + length (mct_Executors tx) + length (mct_Verifiers tx))"

definition RegisterNamespaceTransaction_Size :: "RegisterNamespaceTransaction \<Rightarrow> nat" where
  "RegisterNamespaceTransaction_Size tx = RegisterNamespaceHeaderSize + length (rn_NamspaceName tx)"

definition LockFundsTransaction_Size :: "LockFundsTransaction \<Rightarrow> nat" where
  "LockFundsTransaction_Size tx = LockSize"

definition SecretLockTransaction_Size :: "SecretLockTransaction \<Rightarrow> nat" where
  "SecretLockTransaction_Size tx = SecretLockSize"

definition SecretProofTransaction_Size :: "SecretProofTransaction \<Rightarrow> nat" where
  "SecretProofTransaction_Size tx = SecretProofHeaderSize + Proof_Size (sp_Proof tx)"

lemmas Size_defs =
  AccountPropertiesAddressTransaction_Size_def AccountPropertiesMosaicTransaction_Size_def
  AccountPropertiesEntityTypeTransaction_Size_def AliasTransaction_Size_def AddressAliasTransaction_Size_def
  MosaicAliasTransaction_Size_def AccountLinkTransaction_Size_def NetworkConfigTransaction_Size_def
  BlockchainUpgradeTransaction_Size_def MetadataModification_Size_def ModifyMetadataTransaction_Size_def
  ModifyMetadataAddressTransaction_Size_def ModifyMetadataMosaicTransaction_Size_def
  ModifyMetadataNamespaceTransaction_Size_def MosaicDefinitionTransaction_Size_def
  MosaicSupplyChangeTransaction_Size_def TransferTransaction_MessageSize_def TransferTransaction_Size_def
  ModifyMultisigAccountTransaction_Size_def ModifyContractTransaction_Size_def
  RegisterNamespaceTransaction_Size_def LockFundsTransaction_Size_def SecretLockTransaction_Size_def
  SecretProofTransaction_Size_def

text \<open>
  An inner transaction is counted without its signature, fee and deadline. The subtraction is on
  integers in the code; every size is larger than what is subtracted (\<open>Size_header\<close> below).
\<close>

fun Tx_Size :: "'k crypto \<Rightarrow> Transaction \<Rightarrow> nat"
  and inner_sizes :: "'k crypto \<Rightarrow> Transaction list \<Rightarrow> nat \<Rightarrow> nat" where
  "Tx_Size C (TxAccountPropertiesAddress tx) = AccountPropertiesAddressTransaction_Size tx"
| "Tx_Size C (TxAccountPropertiesMosaic tx) = AccountPropertiesMosaicTransaction_Size tx"
| "Tx_Size C (TxAccountPropertiesEntityType tx) = AccountPropertiesEntityTypeTransaction_Size tx"
| "Tx_Size C (TxAddressAlias tx) = AddressAliasTransaction_Size tx"
| "Tx_Size C (TxMosaicAlias tx) = MosaicAliasTransaction_Size tx"
| "Tx_Size C (TxAccountLink tx) = AccountLinkTransaction_Size tx"
| "Tx_Size C (TxNetworkConfig tx) = NetworkConfigTransaction_Size C tx"
| "Tx_Size C (TxBlockchainUpgrade tx) = BlockchainUpgradeTransaction_Size tx"
| "Tx_Size C (TxAggregate (AggregateTransaction a itxs cos)) = AggregateBondedHeaderSize + inner_sizes C itxs 0"
| "Tx_Size C (TxModifyMetadataAddress tx) = ModifyMetadataAddressTransaction_Size tx"
| "Tx_Size C (TxModifyMetadataMosaic tx) = ModifyMetadataMosaicTransaction_Size tx"
| "Tx_Size C (TxModifyMetadataNamespace tx) = ModifyMetadataNamespaceTransaction_Size tx"
| "Tx_Size C (TxMosaicDefinition tx) = MosaicDefinitionTransaction_Size tx"
| "Tx_Size C (TxMosaicSupplyChange tx) = MosaicSupplyChangeTransaction_Size tx"
| "Tx_Size C (TxTransfer tx) = TransferTransaction_Size tx"
| "Tx_Size C (TxModifyMultisigAccount tx) = ModifyMultisigAccountTransaction_Size tx"
| "Tx_Size C (TxModifyContract tx) = ModifyContractTransaction_Size tx"
| "Tx_Size C (TxRegisterNamespace tx) = RegisterNamespaceTransaction_Size tx"
| "Tx_Size C (TxLockFunds tx) = LockFundsTransaction_Size tx"
| "Tx_Size C (TxSecretLock tx) = SecretLockTransaction_Size tx"
| "Tx_Size C (TxSecretProof tx) = SecretProofTransaction_Size tx"
| "inner_sizes C [] acc = acc"
| "inner_sizes C (itx # itxs) acc =
     inner_sizes C itxs (acc + (Tx_Size C itx - SignatureSize - MaxFeeSize - DeadLineSize))"

lemma Size_header: "TransactionHeaderSize \<le> Tx_Size C tx"
proof (cases tx)
  case (TxAggregate x)
  then show ?thesis by (cases x) (simp add: go_sizes)
qed (simp_all add: Size_defs go_sizes)

end
