(* ===== verification/TxBytes.thy ===== *)
theory TxBytes
  imports FbSymbolic TxConstructors
begin

text \<open>
  \<open>generateBytes\<close> of \<open>sdk/transaction_model.go\<close>: each transaction is written as a FlatBuffers table
  and the schema of its kind turns the finished buffer into the transaction's bytes. The functions
  are programs over a builder (theory \<open>FbBuilder\<close>); the builder's package is the argument \<open>F\<close>.
\<close>

section \<open>The common part\<close>

definition generateVectors ::
  "'b fb_api \<Rightarrow> AbstractTransaction \<Rightarrow> ('b, u32 \<times> u32 \<times> u32 \<times> u32 \<times> u32) fb_prog" where
  "generateVectors F tx =
     (let v = push_bit 24 (ucast (tx_NetworkType tx)) + tx_Version tx in
      fb_bind (TransactionBufferCreateByteVector F (replicate SignatureSize 0)) (\<lambda>signatureV.
      fb_bind (TransactionBufferCreateByteVector F (replicate SignerSize 0)) (\<lambda>signerV.
      fb_bind (fb_lift (deref (tx_Deadline tx))) (\<lambda>deadline.
      fb_bind (TransactionBufferCreateUint32Vector F
        (words2 (baseInt64_toArray (bt_baseInt64 (ToBlockchainTimestamp (dl_Timestamp deadline)))))) (\<lambda>dV.
      fb_bind (TransactionBufferCreateUint32Vector F (words2 (baseInt64_toArray (tx_MaxFee tx)))) (\<lambda>fV.
      fb_return (v, signatureV, signerV, dV, fV)))))))"

definition buildVectors ::
  "'b fb_api \<Rightarrow> AbstractTransaction \<Rightarrow> u32 \<Rightarrow> u32 \<Rightarrow> u32 \<Rightarrow> u32 \<Rightarrow> u32 \<Rightarrow> ('b, unit) fb_prog" where
  "buildVectors F tx v signatureV signerV dV fV =
     fb_then (TransactionBufferAddSignature F signatureV)
    (fb_then (TransactionBufferAddSigner F signerV)
    (fb_then (TransactionBufferAddVersion F v)
    (fb_then (TransactionBufferAddType F (tx_Type tx))
    (fb_then (TransactionBufferAddMaxFee F fV)
    (TransactionBufferAddDeadline F dV)))))"

text \<open>The loops over modifications, properties and mosaics.\<close>

definition cosignatoryModificationArrayToBuffer ::
  "'k crypto \<Rightarrow> 'b fb_api \<Rightarrow> MultisigCosignatoryModification list \<Rightarrow> ('b, u32) fb_prog" where
  "cosignatoryModificationArrayToBuffer C F modifications =
     fb_bind (fb_mapM (\<lambda>m.
       fb_bind (fb_lift (cr_HexDecodeStringOdd C (pa_PublicKey (mcm_PublicAccount m)))) (\<lambda>b.
       fb_bind (TransactionBufferCreateByteVector F b) (\<lambda>pV.
       fb_then (CosignatoryModificationBufferStart F)
      (fb_then (CosignatoryModificationBufferAddType F (mcm_Type m))
      (fb_then (CosignatoryModificationBufferAddCosignatoryPublicKey F pV)
      (TransactionBufferEnd F)))))) modifications) (\<lambda>msb.
     TransactionBufferCreateUOffsetVector F msb)"

definition metadataModificationArrayToBuffer ::
  "'b fb_api \<Rightarrow> MetadataModification list \<Rightarrow> ('b, u32) fb_prog" where
  "metadataModificationArrayToBuffer F modifications =
     fb_bind (fb_mapM (\<lambda>m.
       let keySize = length (mm_Key m) in
       if keySize = 0 then fb_lift (Inl (NewError ''key must not empty''))
       else fb_bind (TransactionBufferCreateByteVector F (string_bytes (mm_Key m))) (\<lambda>pKey.
         let valueSize = length (mm_Value m);
             valueB = le16 (word_of_nat valueSize)
         in
         fb_bind (TransactionBufferCreateByteVector F valueB) (\<lambda>pValueSize.
         fb_bind (TransactionBufferCreateByteVector F (string_bytes (mm_Value m))) (\<lambda>pValue.
         fb_then (MetadataModificationBufferStart F)
        (fb_then (MetadataModificationBufferAddSize F (word_of_nat (MetadataModification_Size m)))
        (fb_then (MetadataModificationBufferAddModificationType F (mm_Type m))
        (fb_then (MetadataModificationBufferAddKeySize F (word_of_nat keySize))
        (fb_then (MetadataModificationBufferAddValueSize F pValueSize)
        (fb_then (MetadataModificationBufferAddKey F pKey)
        (fb_then (MetadataModificationBufferAddValue F pValue)
        (MetadataModificationBufferEnd F))))))))))) modifications) (\<lambda>msb.
     TransactionBufferCreateUOffsetVector F msb)"

definition mosaicPropertyArrayToBuffer :: "'b fb_api \<Rightarrow> MosaicProperty list \<Rightarrow> ('b, u32) fb_prog" where
  "mosaicPropertyArrayToBuffer F properties =
     fb_bind (fb_mapM (\<lambda>p.
       fb_bind (TransactionBufferCreateUint32Vector F (words2 (baseInt64_toArray (mp_Value p)))) (\<lambda>valueV.
       fb_then (MosaicPropertyStart F)
      (fb_then (MosaicPropertyAddMosaicPropertyId F (mp_Id p))
      (fb_then (MosaicPropertyAddValue F valueV)
      (TransactionBufferEnd F))))) properties) (\<lambda>pBuffer.
     TransactionBufferCreateUOffsetVector F pBuffer)"

definition hashToBuffer :: "'b fb_api \<Rightarrow> Hash option \<Rightarrow> ('b, u32) fb_prog" where
  "hashToBuffer F hash =
     fb_bind (fb_lift (deref hash)) (\<lambda>h. TransactionBufferCreateByteVector F h)"

section \<open>The kinds of transactions\<close>

text \<open>The part all account property transactions share after their loop.\<close>

definition account_properties_table ::
  "'b fb_api \<Rightarrow> AbstractTransaction \<Rightarrow> nat \<Rightarrow> PropertyType \<Rightarrow> nat \<Rightarrow> u32 \<Rightarrow> ('b, byte list) fb_prog" where
  "account_properties_table F a sz propertyType n mV =
     fb_bind (generateVectors F a) (\<lambda>(v, signatureV, signerV, deadlineV, fV).
     fb_then (AccountPropertiesTransactionBufferStart F)
    (fb_then (TransactionBufferAddSize F sz)
    (fb_then (buildVectors F a v signatureV signerV deadlineV fV)
    (fb_then (AccountPropertiesTransactionBufferAddPropertyType F propertyType)
    (fb_then (AccountPropertiesTransactionBufferAddModificationCount F (word_of_nat n))
    (fb_then (AccountPropertiesTransactionBufferAddModifications F mV)
    (fb_bind (AccountPropertiesTransactionBufferEnd F) (\<lambda>t.
     fb_finish F accountPropertyTransactionSchema t))))))))"

definition AccountPropertiesAddressTransaction_generateBytes ::
  "'b fb_api \<Rightarrow> AccountPropertiesAddressTransaction \<Rightarrow> byte list result" where
  "AccountPropertiesAddressTransaction_generateBytes F tx = fb_run F (
     fb_bind (fb_mapM (\<lambda>m.
       fb_bind (fb_lift (b32_decode (addr_Address (apam_Address m)))) (\<lambda>a.
       fb_bind (TransactionBufferCreateByteVector F a) (\<lambda>aV.
       fb_then (PropertyModificationBufferStart F)
      (fb_then (PropertyModificationBufferAddModificationType F (apam_ModificationType m))
      (fb_then (PropertyModificationBufferAddValue F aV)
      (PropertyModificationBufferEnd F)))))) (apa_Modifications tx)) (\<lambda>msb.
     fb_bind (TransactionBufferCreateUOffsetVector F msb) (\<lambda>mV.
     account_properties_table F (apa_AbstractTransaction tx) (AccountPropertiesAddressTransaction_Size tx)
       (apa_PropertyType tx) (length (apa_Modifications tx)) mV)))"

definition AccountPropertiesMosaicTransaction_generateBytes ::
  "'b fb_api \<Rightarrow> AccountPropertiesMosaicTransaction \<Rightarrow> byte list result" where
  "AccountPropertiesMosaicTransaction_generateBytes F tx = fb_run F (
     fb_bind (fb_mapM (\<lambda>m.
       let mosaicB = le64 (AssetId_Id (apmm_AssetId m)) in
       fb_bind (TransactionBufferCreateByteVector F mosaicB) (\<lambda>mV.
       fb_then (PropertyModificationBufferStart F)
      (fb_then (PropertyModificationBufferAddModificationType F (apmm_ModificationType m))
      (fb_then (PropertyModificationBufferAddValue F mV)
      (PropertyModificationBufferEnd F))))) (apm_Modifications tx)) (\<lambda>msb.
     fb_bind (TransactionBufferCreateUOffsetVector F msb) (\<lambda>mV.
     account_properties_table F (apm_AbstractTransaction tx) (AccountPropertiesMosaicTransaction_Size tx)
       (apm_PropertyType tx) (length (apm_Modifications tx)) mV)))"

definition AccountPropertiesEntityTypeTransaction_generateBytes ::
  "'b fb_api \<Rightarrow> AccountPropertiesEntityTypeTransaction \<Rightarrow> byte list result" where
  "AccountPropertiesEntityTypeTransaction_generateBytes F tx = fb_run F (
     fb_bind (fb_mapM (\<lambda>m.
       let typeB = le16 (apem_EntityType m) in
       fb_bind (TransactionBufferCreateByteVector F typeB) (\<lambda>mV.
       fb_then (PropertyModificationBufferStart F)
      (fb_then (PropertyModificationBufferAddModificationType F (apem_ModificationType m))
      (fb_then (PropertyModificationBufferAddValue F mV)
      (PropertyModificationBufferEnd F))))) (ape_Modifications tx)) (\<lambda>msb.
     fb_bind (TransactionBufferCreateUOffsetVector F msb) (\<lambda>mV.
     account_properties_table F (ape_AbstractTransaction tx) (AccountPropertiesEntityTypeTransaction_Size tx)
       (ape_PropertyType tx) (length (ape_Modifications tx)) mV)))"

definition AliasTransaction_generateBytes ::
  "'b fb_api \<Rightarrow> AliasTransaction \<Rightarrow> u32 \<Rightarrow> nat \<Rightarrow> ('b, byte list) fb_prog" where
  "AliasTransaction_generateBytes F tx aliasV sizeOfAlias =
     fb_bind (TransactionBufferCreateUint32Vector F (words2 (AssetId_toArray (NamespaceAsset (al_NamespaceId tx))))) (\<lambda>nV.
     fb_bind (generateVectors F (al_AbstractTransaction tx)) (\<lambda>(v, signatureV, signerV, deadlineV, fV).
     fb_then (AliasTransactionBufferStart F)
    (fb_then (TransactionBufferAddSize F (AliasTransaction_Size tx + sizeOfAlias))
    (fb_then (buildVectors F (al_AbstractTransaction tx) v signatureV signerV deadlineV fV)
    (fb_then (AliasTransactionBufferAddActionType F (al_ActionType tx))
    (fb_then (AliasTransactionBufferAddNamespaceId F nV)
    (fb_then (AliasTransactionBufferAddAliasId F aliasV)
    (fb_bind (TransactionBufferEnd F) (\<lambda>t.
     fb_finish F aliasTransactionSchema t)))))))))"

definition AddressAliasTransaction_generateBytes ::
  "'b fb_api \<Rightarrow> AddressAliasTransaction \<Rightarrow> byte list result" where
  "AddressAliasTransaction_generateBytes F tx = fb_run F (
     fb_bind (fb_lift (b32_decode (addr_Address (aal_Address tx)))) (\<lambda>a.
     fb_bind (TransactionBufferCreateByteVector F a) (\<lambda>aV.
     AliasTransaction_generateBytes F (aal_AliasTransaction tx) aV AddressSize)))"

definition MosaicAliasTransaction_generateBytes ::
  "'b fb_api \<Rightarrow> MosaicAliasTransaction \<Rightarrow> byte list result" where
  "MosaicAliasTransaction_generateBytes F tx = fb_run F (
     let mosaicB = le64 (AssetId_Id (MosaicAsset (mal_MosaicId tx))) in
     fb_bind (TransactionBufferCreateByteVector F mosaicB) (\<lambda>mV.
     AliasTransaction_generateBytes F (mal_AliasTransaction tx) mV MosaicIdSize))"

definition AccountLinkTransaction_generateBytes ::
  "'k crypto \<Rightarrow> 'b fb_api \<Rightarrow> AccountLinkTransaction \<Rightarrow> byte list result" where
  "AccountLinkTransaction_generateBytes C F tx = fb_run F (
     fb_bind (fb_lift (cr_HexDecodeStringOdd C (pa_PublicKey (link_RemoteAccount tx)))) (\<lambda>b.
     fb_bind (TransactionBufferCreateByteVector F b) (\<lambda>pV.
     fb_bind (generateVectors F (link_AbstractTransaction tx)) (\<lambda>(v, signatureV, signerV, dV, fV).
     fb_then (AccountLinkTransactionBufferStart F)
    (fb_then (TransactionBufferAddSize F (AccountLinkTransaction_Size tx))
    (fb_then (buildVectors F (link_AbstractTransaction tx) v signatureV signerV dV fV)
    (fb_then (AccountLinkTransactionBufferAddRemoteAccountKey F pV)
    (fb_then (AccountLinkTransactionBufferAddLinkAction F (link_LinkAction tx))
    (fb_bind (TransactionBufferEnd F) (\<lambda>t.
     fb_finish F accountLinkTransactionSchema t))))))))))"

definition NetworkConfigTransaction_generateBytes ::
  "'k crypto \<Rightarrow> 'b fb_api \<Rightarrow> NetworkConfigTransaction \<Rightarrow> byte list result" where
  "NetworkConfigTransaction_generateBytes C F tx = fb_run F (
     fb_bind (generateVectors F (nct_AbstractTransaction tx)) (\<lambda>(v, signatureV, signerV, dV, fV).
     fb_bind (fb_lift (SupportedEntities_MarshalBinary C (nct_SupportedEntities tx))) (\<lambda>sup.
     fb_bind (fb_lift (NetworkConfig_MarshalBinary (nct_NetworkConfig tx))) (\<lambda>config.
     fb_bind (TransactionBufferCreateUint32Vector F (words2 (baseInt64_toArray (nct_ApplyHeightDelta tx)))) (\<lambda>deltaV.
     fb_bind (TransactionBufferCreateByteVector F config) (\<lambda>configV.
     fb_bind (TransactionBufferCreateByteVector F sup) (\<lambda>supportedV.
     fb_then (NetworkConfigTransactionBufferStart F)
    (fb_then (TransactionBufferAddSize F (NetworkConfigTransaction_Size C tx))
    (fb_then (buildVectors F (nct_AbstractTransaction tx) v signatureV signerV dV fV)
    (fb_then (NetworkConfigTransactionBufferAddApplyHeightDelta F deltaV)
    (fb_then (NetworkConfigTransactionBufferAddNetworkConfigSize F (word_of_nat (length config)))
    (fb_then (NetworkConfigTransactionBufferAddNetworkConfig F configV)
    (fb_then (NetworkConfigTransactionBufferAddSupportedEntityVersionsSize F (word_of_nat (length sup)))
    (fb_then (NetworkConfigTransactionBufferAddSupportedEntityVersions F supportedV)
    (fb_bind (TransactionBufferEnd F) (\<lambda>t.
     fb_finish F networkConfigTransactionSchema t))))))))))))))))"

definition BlockchainUpgradeTransaction_generateBytes ::
  "'b fb_api \<Rightarrow> BlockchainUpgradeTransaction \<Rightarrow> byte list result" where
  "BlockchainUpgradeTransaction_generateBytes F tx = fb_run F (
     fb_bind (generateVectors F (bu_AbstractTransaction tx)) (\<lambda>(v, signatureV, signerV, dV, fV).
     fb_bind (TransactionBufferCreateUint32Vector F (words2 (baseInt64_toArray (bu_UpgradePeriod tx)))) (\<lambda>upgradeV.
     fb_bind (TransactionBufferCreateUint32Vector F
       (words2 (BlockChainVersion_toArray (bu_NewBlockChainVersion tx)))) (\<lambda>versionV.
     fb_then (BlockchainUpgradeTransactionBufferStart F)
    (fb_then (TransactionBufferAddSize F (BlockchainUpgradeTransaction_Size tx))
    (fb_then (buildVectors F (bu_AbstractTransaction tx) v signatureV signerV dV fV)
    (fb_then (BlockchainUpgradeTransactionBufferAddUpgradePeriod F upgradeV)
    (fb_then (BlockchainUpgradeTransactionBufferAddNewBlockChainVersion F versionV)
    (fb_bind (NetworkConfigTransactionBufferEnd F) (\<lambda>t.
     fb_finish F blockchainUpgradeTransactionSchema t))))))))))"

definition ModifyMetadataTransaction_generateBytes ::
  "'b fb_api \<Rightarrow> ModifyMetadataTransaction \<Rightarrow> u32 \<Rightarrow> nat \<Rightarrow> ('b, byte list) fb_prog" where
  "ModifyMetadataTransaction_generateBytes F tx metadataV sizeOfMetadata =
     fb_bind (metadataModificationArrayToBuffer F (mmt_Modifications tx)) (\<lambda>mV.
     fb_bind (generateVectors F (mmt_AbstractTransaction tx)) (\<lambda>(v, signatureV, signerV, deadlineV, fV).
     fb_then (ModifyMetadataTransactionBufferStart F)
    (fb_then (TransactionBufferAddSize F (ModifyMetadataTransaction_Size tx + sizeOfMetadata))
    (fb_then (buildVectors F (mmt_AbstractTransaction tx) v signatureV signerV deadlineV fV)
    (fb_then (ModifyMetadataTransactionBufferAddMetadataType F (mmt_MetadataType tx))
    (fb_then (ModifyMetadataTransactionBufferAddMetadataId F metadataV)
    (fb_then (ModifyMetadataTransactionBufferAddModifications F mV)
    (fb_bind (TransactionBufferEnd F) (\<lambda>t.
     fb_finish F modifyMetadataTransactionSchema t)))))))))"

definition ModifyMetadataAddressTransaction_generateBytes ::
  "'b fb_api \<Rightarrow> ModifyMetadataAddressTransaction \<Rightarrow> byte list result" where
  "ModifyMetadataAddressTransaction_generateBytes F tx = fb_run F (
     fb_bind (fb_lift (deref (mma_Address tx))) (\<lambda>address.
     fb_bind (fb_lift (b32_decode (addr_Address address))) (\<lambda>a.
     fb_bind (TransactionBufferCreateByteVector F a) (\<lambda>aV.
     ModifyMetadataTransaction_generateBytes F (mma_ModifyMetadataTransaction tx) aV AddressSize))))"

definition ModifyMetadataMosaicTransaction_generateBytes ::
  "'b fb_api \<Rightarrow> ModifyMetadataMosaicTransaction \<Rightarrow> byte list result" where
  "ModifyMetadataMosaicTransaction_generateBytes F tx = fb_run F (
     fb_bind (fb_lift (deref (mmm_MosaicId tx))) (\<lambda>mosaicId.
     let mosaicB = le64 (AssetId_Id (MosaicAsset mosaicId)) in
     fb_bind (TransactionBufferCreateByteVector F mosaicB) (\<lambda>mV.
     ModifyMetadataTransaction_generateBytes F (mmm_ModifyMetadataTransaction tx) mV MosaicIdSize)))"

definition ModifyMetadataNamespaceTransaction_generateBytes ::
  "'b fb_api \<Rightarrow> ModifyMetadataNamespaceTransaction \<Rightarrow> byte list result" where
  "ModifyMetadataNamespaceTransaction_generateBytes F tx = fb_run F (
     fb_bind (fb_lift (deref (mmn_NamespaceId tx))) (\<lambda>namespaceId.
     let namespaceB = le64 (AssetId_Id (NamespaceAsset namespaceId)) in
     fb_bind (TransactionBufferCreateByteVector F namespaceB) (\<lambda>mV.
     ModifyMetadataTransaction_generateBytes F (mmn_ModifyMetadataTransaction tx) mV NamespaceSize)))"

definition MosaicDefinitionTransaction_generateBytes ::
  "'b fb_api \<Rightarrow> MosaicDefinitionTransaction \<Rightarrow> byte list result" where
  "MosaicDefinitionTransaction_generateBytes F tx = fb_run F (
     let f = (0 :: u8);
         f = (if mps_SupplyMutable (mdt_MosaicProperties tx) then f + ucast Supply_Mutable else f);
         f = (if mps_Transferable (mdt_MosaicProperties tx) then f + ucast Transferable else f)
     in
     fb_bind (TransactionBufferCreateUint32Vector F (words2 (AssetId_toArray (MosaicAsset (mdt_MosaicId tx))))) (\<lambda>mV.
     fb_bind (mosaicPropertyArrayToBuffer F (mps_OptionalProperties (mdt_MosaicProperties tx))) (\<lambda>pV.
     fb_bind (generateVectors F (mdt_AbstractTransaction tx)) (\<lambda>(v, signatureV, signerV, deadlineV, fV).
     fb_then (MosaicDefinitionTransactionBufferStart F)
    (fb_then (TransactionBufferAddSize F (MosaicDefinitionTransaction_Size tx))
    (fb_then (buildVectors F (mdt_AbstractTransaction tx) v signatureV signerV deadlineV fV)
    (fb_then (MosaicDefinitionTransactionBufferAddMosaicNonce F (mdt_MosaicNonce tx))
    (fb_then (MosaicDefinitionTransactionBufferAddMosaicId F mV)
    (fb_then (MosaicDefinitionTransactionBufferAddFlags F f)
    (fb_then (MosaicDefinitionTransactionBufferAddDivisibility F (mps_Divisibility (mdt_MosaicProperties tx)))
    (fb_then (MosaicDefinitionTransactionBufferAddNumOptionalProperties F
        (word_of_nat (length (mps_OptionalProperties (mdt_MosaicProperties tx)))))
    (fb_then (MosaicDefinitionTransactionBufferAddOptionalProperties F pV)
    (fb_bind (TransactionBufferEnd F) (\<lambda>t.
     fb_finish F mosaicDefinitionTransactionSchema t))))))))))))))"

definition MosaicSupplyChangeTransaction_generateBytes ::
  "'b fb_api \<Rightarrow> MosaicSupplyChangeTransaction \<Rightarrow> byte list result" where
  "MosaicSupplyChangeTransaction_generateBytes F tx = fb_run F (
     fb_bind (TransactionBufferCreateUint32Vector F (words2 (AssetId_toArray (msc_AssetId tx)))) (\<lambda>mV.
     fb_bind (TransactionBufferCreateUint32Vector F (words2 (baseInt64_toArray (msc_Delta tx)))) (\<lambda>dV.
     fb_bind (generateVectors F (msc_AbstractTransaction tx)) (\<lambda>(v, signatureV, signerV, deadlineV, fV).
     fb_then (MosaicSupplyChangeTransactionBufferStart F)
    (fb_then (TransactionBufferAddSize F (MosaicSupplyChangeTransaction_Size tx))
    (fb_then (buildVectors F (msc_AbstractTransaction tx) v signatureV signerV deadlineV fV)
    (fb_then (MosaicSupplyChangeTransactionBufferAddMosaicId F mV)
    (fb_then (MosaicSupplyChangeTransactionBufferAddDirection F (msc_MosaicSupplyType tx))
    (fb_then (MosaicSupplyChangeTransactionBufferAddDelta F dV)
    (fb_bind (TransactionBufferEnd F) (\<lambda>t.
     fb_finish F mosaicSupplyChangeTransactionSchema t)))))))))))"

definition TransferTransaction_generateBytes ::
  "'b fb_api \<Rightarrow> TransferTransaction \<Rightarrow> byte list result" where
  "TransferTransaction_generateBytes F tx = fb_run F (
     let ml = length (tr_Mosaics tx) in
     fb_bind (fb_mapM (\<lambda>mos.
       fb_bind (TransactionBufferCreateUint32Vector F (words2 (AssetId_toArray (mosaic_AssetId mos)))) (\<lambda>i.
       fb_bind (TransactionBufferCreateUint32Vector F (words2 (baseInt64_toArray (mosaic_Amount mos)))) (\<lambda>am.
       fb_then (MosaicBufferStart F)
      (fb_then (MosaicBufferAddId F i)
      (fb_then (MosaicBufferAddAmount F am)
      (MosaicBufferEnd F)))))) (tr_Mosaics tx)) (\<lambda>mb.
     fb_bind (TransactionBufferCreateByteVector F (Message_Payload (tr_Message tx))) (\<lambda>mp.
     fb_then (MessageBufferStart F)
    (fb_then (MessageBufferAddType F (Message_Type (tr_Message tx)))
    (fb_then (MessageBufferAddPayload F mp)
    (fb_bind (TransactionBufferEnd F) (\<lambda>m.
     fb_bind (fb_lift (b32_decode (addr_Address (tr_Recipient tx)))) (\<lambda>r.
     fb_bind (TransactionBufferCreateByteVector F r) (\<lambda>rV.
     fb_bind (TransactionBufferCreateUOffsetVector F mb) (\<lambda>mV.
     fb_bind (generateVectors F (tr_AbstractTransaction tx)) (\<lambda>(v, signatureV, signerV, deadlineV, fV).
     fb_then (TransferTransactionBufferStart F)
    (fb_then (TransactionBufferAddSize F (TransferTransaction_Size tx))
    (fb_then (buildVectors F (tr_AbstractTransaction tx) v signatureV signerV deadlineV fV)
    (fb_then (TransferTransactionBufferAddRecipient F rV)
    (fb_then (TransferTransactionBufferAddNumMosaics F (word_of_nat ml))
    (fb_then (TransferTransactionBufferAddMessageSize F (word_of_nat (TransferTransaction_MessageSize tx)))
    (fb_then (TransferTransactionBufferAddMessage F m)
    (fb_then (TransferTransactionBufferAddMosaics F mV)
    (fb_bind (TransactionBufferEnd F) (\<lambda>t.
     fb_finish F transferTransactionSchema t))))))))))))))))))))"

definition ModifyMultisigAccountTransaction_generateBytes ::
  "'k crypto \<Rightarrow> 'b fb_api \<Rightarrow> ModifyMultisigAccountTransaction \<Rightarrow> byte list result" where
  "ModifyMultisigAccountTransaction_generateBytes C F tx = fb_run F (
     fb_bind (cosignatoryModificationArrayToBuffer C F (mms_Modifications tx)) (\<lambda>mV.
     fb_bind (generateVectors F (mms_AbstractTransaction tx)) (\<lambda>(v, signatureV, signerV, deadlineV, fV).
     fb_then (ModifyMultisigAccountTransactionBufferStart F)
    (fb_then (TransactionBufferAddSize F (ModifyMultisigAccountTransaction_Size tx))
    (fb_then (buildVectors F (mms_AbstractTransaction tx) v signatureV signerV deadlineV fV)
    (fb_then (ModifyMultisigAccountTransactionBufferAddMinRemovalDelta F (mms_MinRemovalDelta tx))
    (fb_then (ModifyMultisigAccountTransactionBufferAddMinApprovalDelta F (mms_MinApprovalDelta tx))
    (fb_then (ModifyMultisigAccountTransactionBufferAddNumModifications F (word_of_nat (length (mms_Modifications tx))))
    (fb_then (ModifyMultisigAccountTransactionBufferAddModifications F mV)
    (fb_bind (TransactionBufferEnd F) (\<lambda>t.
     fb_finish F modifyMultisigAccountTransactionSchema t)))))))))))"

definition ModifyContractTransaction_generateBytes ::
  "'k crypto \<Rightarrow> 'b fb_api \<Rightarrow> ModifyContractTransaction \<Rightarrow> byte list result" where
  "ModifyContractTransaction_generateBytes C F tx = fb_run F (
     fb_bind (generateVectors F (mct_AbstractTransaction tx)) (\<lambda>(v, signatureV, signerV, deadlineV, fV).
     fb_bind (TransactionBufferCreateUint32Vector F (words2 (baseInt64_toArray (mct_DurationDelta tx)))) (\<lambda>durationV.
     fb_bind (hashToBuffer F (mct_Hash tx)) (\<lambda>hashV.
     fb_bind (cosignatoryModificationArrayToBuffer C F (mct_Customers tx)) (\<lambda>customersV.
     fb_bind (cosignatoryModificationArrayToBuffer C F (mct_Executors tx)) (\<lambda>executorsV.
     fb_bind (cosignatoryModificationArrayToBuffer C F (mct_Verifiers tx)) (\<lambda>verifiersV.
     fb_then (ModifyContractTransactionBufferStart F)
    (fb_then (TransactionBufferAddSize F (ModifyContractTransaction_Size tx))
    (fb_then (buildVectors F (mct_AbstractTransaction tx) v signatureV signerV deadlineV fV)
    (fb_then (ModifyContractTransactionBufferAddDurationDelta F durationV)
    (fb_then (ModifyContractTransactionBufferAddHash F hashV)
    (fb_then (ModifyContractTransactionBufferAddNumCustomers F (word_of_nat (length (mct_Customers tx))))
    (fb_then (ModifyContractTransactionBufferAddNumExecutors F (word_of_nat (length (mct_Executors tx))))
    (fb_then (ModifyContractTransactionBufferAddNumVerifiers F (word_of_nat (length (mct_Verifiers tx))))
    (fb_then (ModifyContractTransactionBufferAddCustomers F customersV)
    (fb_then (ModifyContractTransactionBufferAddExecutors F executorsV)
    (fb_then (ModifyContractTransactionBufferAddVerifiers F verifiersV)
    (fb_bind (TransactionBufferEnd F) (\<lambda>t.
     fb_finish F modifyContractTransactionSchema t)))))))))))))))))))"

definition RegisterNamespaceTransaction_generateBytes ::
  "'b fb_api \<Rightarrow> RegisterNamespaceTransaction \<Rightarrow> byte list result" where
  "RegisterNamespaceTransaction_generateBytes F tx = fb_run F (
     fb_bind (TransactionBufferCreateUint32Vector F (words2 (AssetId_toArray (NamespaceAsset (rn_NamespaceId tx))))) (\<lambda>nV.
     fb_bind (if rn_NamespaceType tx = Root
       then TransactionBufferCreateUint32Vector F (words2 (baseInt64_toArray (rn_Duration tx)))
       else fb_bind (fb_lift (deref (rn_ParentId tx))) (\<lambda>p.
         TransactionBufferCreateUint32Vector F (words2 (AssetId_toArray (NamespaceAsset p))))) (\<lambda>dV.
     fb_bind (fb_call (fb_CreateString F (rn_NamspaceName tx))) (\<lambda>n.
     fb_bind (generateVectors F (rn_AbstractTransaction tx)) (\<lambda>(v, signatureV, signerV, deadlineV, fV).
     fb_then (RegisterNamespaceTransactionBufferStart F)
    (fb_then (TransactionBufferAddSize F (RegisterNamespaceTransaction_Size tx))
    (fb_then (buildVectors F (rn_AbstractTransaction tx) v signatureV signerV deadlineV fV)
    (fb_then (RegisterNamespaceTransactionBufferAddNamespaceType F (rn_NamespaceType tx))
    (fb_then (RegisterNamespaceTransactionBufferAddDurationParentId F dV)
    (fb_then (RegisterNamespaceTransactionBufferAddNamespaceId F nV)
    (fb_then (RegisterNamespaceTransactionBufferAddNamespaceNameSize F (word_of_nat (length (rn_NamspaceName tx))))
    (fb_then (RegisterNamespaceTransactionBufferAddNamespaceName F n)
    (fb_bind (TransactionBufferEnd F) (\<lambda>t.
     fb_finish F registerNamespaceTransactionSchema t))))))))))))))"

definition LockFundsTransaction_generateBytes ::
  "'b fb_api \<Rightarrow> LockFundsTransaction \<Rightarrow> byte list result" where
  "LockFundsTransaction_generateBytes F tx = fb_run F (
     fb_bind (TransactionBufferCreateUint32Vector F (words2 (AssetId_toArray (mosaic_AssetId (lf_Mosaic tx))))) (\<lambda>mv.
     fb_bind (TransactionBufferCreateUint32Vector F (words2 (baseInt64_toArray (mosaic_Amount (lf_Mosaic tx))))) (\<lambda>maV.
     fb_bind (TransactionBufferCreateUint32Vector F (words2 (baseInt64_toArray (lf_Duration tx)))) (\<lambda>dV.
     fb_bind (fb_lift (deref (st_Hash (lf_SignedTransaction tx)))) (\<lambda>hash.
     fb_bind (TransactionBufferCreateByteVector F hash) (\<lambda>hV.
     fb_bind (generateVectors F (lf_AbstractTransaction tx)) (\<lambda>(v, signatureV, signerV, deadlineV, fV).
     fb_then (LockFundsTransactionBufferStart F)
    (fb_then (TransactionBufferAddSize F (LockFundsTransaction_Size tx))
    (fb_then (buildVectors F (lf_AbstractTransaction tx) v signatureV signerV deadlineV fV)
    (fb_then (LockFundsTransactionBufferAddMosaicId F mv)
    (fb_then (LockFundsTransactionBufferAddMosaicAmount F maV)
    (fb_then (LockFundsTransactionBufferAddDuration F dV)
    (fb_then (LockFundsTransactionBufferAddHash F hV)
    (fb_bind (TransactionBufferEnd F) (\<lambda>t.
     fb_finish F lockFundsTransactionSchema t)))))))))))))))"

definition SecretLockTransaction_generateBytes ::
  "'b fb_api \<Rightarrow> SecretLockTransaction \<Rightarrow> byte list result" where
  "SecretLockTransaction_generateBytes F tx = fb_run F (
     fb_bind (TransactionBufferCreateUint32Vector F (words2 (AssetId_toArray (mosaic_AssetId (sl_Mosaic tx))))) (\<lambda>mV.
     fb_bind (TransactionBufferCreateUint32Vector F (words2 (baseInt64_toArray (mosaic_Amount (sl_Mosaic tx))))) (\<lambda>maV.
     fb_bind (TransactionBufferCreateUint32Vector F (words2 (baseInt64_toArray (sl_Duration tx)))) (\<lambda>dV.
     fb_bind (TransactionBufferCreateByteVector F (secret_Hash (sl_Secret tx))) (\<lambda>sV.
     fb_bind (fb_lift (b32_decode (addr_Address (sl_Recipient tx)))) (\<lambda>addr.
     fb_bind (TransactionBufferCreateByteVector F addr) (\<lambda>rV.
     fb_bind (generateVectors F (sl_AbstractTransaction tx)) (\<lambda>(v, signatureV, signerV, deadlineV, fV).
     fb_then (SecretLockTransactionBufferStart F)
    (fb_then (TransactionBufferAddSize F (SecretLockTransaction_Size tx))
    (fb_then (buildVectors F (sl_AbstractTransaction tx) v signatureV signerV deadlineV fV)
    (fb_then (SecretLockTransactionBufferAddMosaicId F mV)
    (fb_then (SecretLockTransactionBufferAddMosaicAmount F maV)
    (fb_then (SecretLockTransactionBufferAddDuration F dV)
    (fb_then (SecretLockTransactionBufferAddHashAlgorithm F (secret_Type (sl_Secret tx)))
    (fb_then (SecretLockTransactionBufferAddSecret F sV)
    (fb_then (SecretLockTransactionBufferAddRecipient F rV)
    (fb_bind (TransactionBufferEnd F) (\<lambda>t.
     fb_finish F secretLockTransactionSchema t))))))))))))))))))"

definition SecretProofTransaction_generateBytes ::
  "'k crypto \<Rightarrow> 'b fb_api \<Rightarrow> SecretProofTransaction \<Rightarrow> byte list result" where
  "SecretProofTransaction_generateBytes C F tx = fb_run F (
     fb_bind (fb_lift (Proof_Secret C (sp_Proof tx) (sp_HashType tx))) (\<lambda>secret.
     fb_bind (TransactionBufferCreateByteVector F (secret_Hash secret)) (\<lambda>sV.
     fb_bind (TransactionBufferCreateByteVector F (proof_Data (sp_Proof tx))) (\<lambda>pV.
     fb_bind (generateVectors F (sp_AbstractTransaction tx)) (\<lambda>(v, signatureV, signerV, deadlineV, fV).
     fb_bind (fb_lift (b32_decode (addr_Address (sp_Recipient tx)))) (\<lambda>addr.
     fb_bind (TransactionBufferCreateByteVector F addr) (\<lambda>rV.
     fb_then (SecretProofTransactionBufferStart F)
    (fb_then (TransactionBufferAddSize F (SecretProofTransaction_Size tx))
    (fb_then (buildVectors F (sp_AbstractTransaction tx) v signatureV signerV deadlineV fV)
    (fb_then (SecretProofTransactionBufferAddHashAlgorithm F (sp_HashType tx))
    (fb_then (SecretProofTransactionBufferAddSecret F sV)
    (fb_then (SecretProofTransactionBufferAddRecipient F rV)
    (fb_then (SecretProofTransactionBufferAddProofSize F (word_of_nat (Proof_Size (sp_Proof tx))))
    (fb_then (SecretProofTransactionBufferAddProof F pV)
    (fb_bind (TransactionBufferEnd F) (\<lambda>t.
     fb_finish F secretProofTransactionSchema t))))))))))))))))"

section \<open>Aggregates\<close>

text \<open>
  An inner transaction: the bytes of the transaction (the result of its \<open>generateBytes\<close>, passed as
  \<open>generated\<close>) without signature, fee and deadline, with the signer and the new size filled in.
\<close>

definition toAggregateTransactionBytes :: "Transaction \<Rightarrow> byte list result \<Rightarrow> byte list result" where
  "toAggregateTransactionBytes tx generated =
     (case tx_Signer (GetAbstractTransaction tx) of
        None \<Rightarrow> Inl (NewError ''some of the transaction does not have a signer'')
      | Some signer \<Rightarrow>
        res_bind (hex_decode (pa_PublicKey signer)) (\<lambda>sb.
        res_bind generated (\<lambda>b.
          if length b < SignatureSize + MaxFeeSize + DeadLineSize then Inl Panicked
          else
            let rB = replicate (length b - SignatureSize - MaxFeeSize - DeadLineSize) 0 in
            res_bind (subslice sb 0 SignerSize) (\<lambda>signerB.
            res_bind (copy_slice rB SizeSize (SignerSize + SizeSize) signerB) (\<lambda>rB.
            res_bind (subslice b (SizeSize + SignerSize + SignatureSize)
              (SizeSize + SignerSize + SignatureSize + VersionSize + TypeSize)) (\<lambda>versionB.
            res_bind (copy_slice rB (SignerSize + SizeSize) (SignerSize + SizeSize + VersionSize + TypeSize)
              versionB) (\<lambda>rB.
            res_bind (subslice_from b TransactionHeaderSize) (\<lambda>restB.
            res_bind (copy_slice rB (SignerSize + SizeSize + VersionSize + TypeSize) (length rB) restB) (\<lambda>rB.
              let s = le32 (word_of_nat (length rB)) in
              copy_slice rB 0 (length s) s)))))))))"

text \<open>\<open>inner\<close> is the outcome of the loop over the inner transactions (\<open>inner_bytes\<close> below).\<close>

definition AggregateTransaction_generateBytes ::
  "'b fb_api \<Rightarrow> AbstractTransaction \<Rightarrow> nat \<Rightarrow> byte list result \<Rightarrow> byte list result" where
  "AggregateTransaction_generateBytes F a sz inner = fb_run F (
     fb_bind (fb_lift inner) (\<lambda>txsb.
     fb_bind (TransactionBufferCreateByteVector F txsb) (\<lambda>tV.
     fb_bind (generateVectors F a) (\<lambda>(v, signatureV, signerV, dV, fV).
     fb_then (AggregateTransactionBufferStart F)
    (fb_then (TransactionBufferAddSize F sz)
    (fb_then (buildVectors F a v signatureV signerV dV fV)
    (fb_then (AggregateTransactionBufferAddTransactionsSize F (word_of_nat (length txsb)))
    (fb_then (AggregateTransactionBufferAddTransactions F tV)
    (fb_bind (TransactionBufferEnd F) (\<lambda>t.
     fb_finish F aggregateTransactionSchema t))))))))))"

section \<open>The interface method\<close>

fun generateBytes :: "'k crypto \<Rightarrow> 'b fb_api \<Rightarrow> Transaction \<Rightarrow> byte list result"
  and inner_bytes :: "'k crypto \<Rightarrow> 'b fb_api \<Rightarrow> Transaction list \<Rightarrow> byte list \<Rightarrow> byte list result" where
  "generateBytes C F (TxAccountPropertiesAddress tx) = AccountPropertiesAddressTransaction_generateBytes F tx"
| "generateBytes C F (TxAccountPropertiesMosaic tx) = AccountPropertiesMosaicTransaction_generateBytes F tx"
| "generateBytes C F (TxAccountPropertiesEntityType tx) = AccountPropertiesEntityTypeTransaction_generateBytes F tx"
| "generateBytes C F (TxAddressAlias tx) = AddressAliasTransaction_generateBytes F tx"
| "generateBytes C F (TxMosaicAlias tx) = MosaicAliasTransaction_generateBytes F tx"
| "generateBytes C F (TxAccountLink tx) = AccountLinkTransaction_generateBytes C F tx"
| "generateBytes C F (TxNetworkConfig tx) = NetworkConfigTransaction_generateBytes C F tx"
| "generateBytes C F (TxBlockchainUpgrade tx) = BlockchainUpgradeTransaction_generateBytes F tx"
| "generateBytes C F (TxAggregate (AggregateTransaction a itxs cos)) =
     AggregateTransaction_generateBytes F a (Tx_Size C (TxAggregate (AggregateTransaction a itxs cos)))
       (inner_bytes C F itxs [])"
| "generateBytes C F (TxModifyMetadataAddress tx) = ModifyMetadataAddressTransaction_generateBytes F tx"
| "generateBytes C F (TxModifyMetadataMosaic tx) = ModifyMetadataMosaicTransaction_generateBytes F tx"
| "generateBytes C F (TxModifyMetadataNamespace tx) = ModifyMetadataNamespaceTransaction_generateBytes F tx"
| "generateBytes C F (TxMosaicDefinition tx) = MosaicDefinitionTransaction_generateBytes F tx"
| "generateBytes C F (TxMosaicSupplyChange tx) = MosaicSupplyChangeTransaction_generateBytes F tx"
| "generateBytes C F (TxTransfer tx) = TransferTransaction_generateBytes F tx"
| "generateBytes C F (TxModifyMultisigAccount tx) = ModifyMultisigAccountTransaction_generateBytes C F tx"
| "generateBytes C F (TxModifyContract tx) = ModifyContractTransaction_generateBytes C F tx"
| "generateBytes C F (TxRegisterNamespace tx) = RegisterNamespaceTransaction_generateBytes F tx"
| "generateBytes C F (TxLockFunds tx) = LockFundsTransaction_generateBytes F tx"
| "generateBytes C F (TxSecretLock tx) = SecretLockTransaction_generateBytes F tx"
| "generateBytes C F (TxSecretProof tx) = SecretProofTransaction_generateBytes C F tx"
| "inner_bytes C F [] txsb = Inr txsb"
| "inner_bytes C F (itx # itxs) txsb =
     res_bind (toAggregateTransactionBytes itx (generateBytes C F itx)) (\<lambda>txb. inner_bytes C F itxs (txsb @ txb))"

end
