(* ===== verification/TxWire.thy ===== *)
theory TxWire
  imports TxBytes
begin

text \<open>
  What the transactions look like on the wire, with no buffer in sight: the specification of
  \<open>generateBytes\<close>. Numbers are little-endian; a scalar field wider than a byte that is zero takes
  one byte only (\<open>wire16\<close>, \<open>wire32\<close>); the signature and the signer are left zero, to be filled in
  by signing. The errors come in the order the code meets them. \<open>wire_simps\<close> computes what the
  schemas make of the tables the builder programs write.
\<close>

section \<open>The common part\<close>

definition wire_version :: "AbstractTransaction \<Rightarrow> u32" where
  "wire_version a = push_bit 24 (ucast (tx_NetworkType a)) + tx_Version a"

definition wire_deadline :: "Deadline \<Rightarrow> u64" where
  "wire_deadline d = bt_baseInt64 (ToBlockchainTimestamp (dl_Timestamp d))"

definition wire_header :: "AbstractTransaction \<Rightarrow> Deadline \<Rightarrow> nat \<Rightarrow> byte list" where
  "wire_header a d sz =
     wire32 (word_of_nat sz) @ replicate 64 0 @ replicate 32 0 @ wire32 (wire_version a) @ wire16 (tx_Type a)
       @ le64 (tx_MaxFee a) @ le64 (wire_deadline d)"

definition wire_with :: "AbstractTransaction \<Rightarrow> nat \<Rightarrow> byte list \<Rightarrow> byte list result" where
  "wire_with a sz body = res_map (\<lambda>d. wire_header a d sz @ body) (deref (tx_Deadline a))"

section \<open>The elements of lists\<close>

text \<open>Modifications of properties and of cosignatories: a type and the bytes of a value.\<close>

type_synonym wire_mod = "byte \<times> byte list"

definition mod_wire :: "wire_mod \<Rightarrow> byte list" where
  "mod_wire y = fst y # snd y"

definition address_item :: "AccountPropertiesAddressModification \<Rightarrow> wire_mod result" where
  "address_item m = res_map (Pair (apam_ModificationType m)) (b32_decode (addr_Address (apam_Address m)))"

definition asset_item :: "AccountPropertiesMosaicModification \<Rightarrow> wire_mod" where
  "asset_item m = (apmm_ModificationType m, le64 (AssetId_Id (apmm_AssetId m)))"

definition entity_item :: "AccountPropertiesEntityTypeModification \<Rightarrow> wire_mod" where
  "entity_item m = (apem_ModificationType m, le16 (apem_EntityType m))"

definition cosignatory_item :: "'k crypto \<Rightarrow> MultisigCosignatoryModification \<Rightarrow> wire_mod result" where
  "cosignatory_item C m = res_map (Pair (mcm_Type m)) (cr_HexDecodeStringOdd C (pa_PublicKey (mcm_PublicAccount m)))"

definition mosaic_wire :: "Mosaic \<Rightarrow> byte list" where
  "mosaic_wire m = le64 (AssetId_Id (mosaic_AssetId m)) @ le64 (mosaic_Amount m)"

definition property_wire :: "MosaicProperty \<Rightarrow> byte list" where
  "property_wire p = mp_Id p # le64 (mp_Value p)"

definition metadata_wire :: "MetadataModification \<Rightarrow> byte list" where
  "metadata_wire m =
     wire32 (word_of_nat (MetadataModification_Size m)) @ [mm_Type m, word_of_nat (length (mm_Key m))]
       @ le16 (word_of_nat (length (mm_Value m))) @ string_bytes (mm_Key m) @ string_bytes (mm_Value m)"

section \<open>The kinds of transactions\<close>

definition wire_properties :: "AbstractTransaction \<Rightarrow> nat \<Rightarrow> PropertyType \<Rightarrow> nat \<Rightarrow> wire_mod list \<Rightarrow> byte list result" where
  "wire_properties a sz t n ys = wire_with a sz ([t, word_of_nat n] @ concat (map mod_wire ys))"

definition wire_alias :: "AliasTransaction \<Rightarrow> nat \<Rightarrow> byte list \<Rightarrow> byte list result" where
  "wire_alias al n bs =
     wire_with (al_AbstractTransaction al) (AliasTransaction_Size al + n)
       ([al_ActionType al] @ le64 (AssetId_Id (NamespaceAsset (al_NamespaceId al))) @ bs)"

definition wire_metadata :: "ModifyMetadataTransaction \<Rightarrow> nat \<Rightarrow> byte list \<Rightarrow> byte list result" where
  "wire_metadata tx n bs =
     (if \<exists>m \<in> set (mmt_Modifications tx). mm_Key m = [] then Inl (NewError ''key must not empty'')
      else wire_with (mmt_AbstractTransaction tx) (ModifyMetadataTransaction_Size tx + n)
        ([mmt_MetadataType tx] @ bs @ concat (map metadata_wire (mmt_Modifications tx))))"

fun wire_bytes :: "'k crypto \<Rightarrow> Transaction \<Rightarrow> byte list result" where
  "wire_bytes C (TxAccountPropertiesAddress tx) =
     res_bind (mapR address_item (apa_Modifications tx)) (\<lambda>ys.
       wire_properties (apa_AbstractTransaction tx) (AccountPropertiesAddressTransaction_Size tx)
         (apa_PropertyType tx) (length (apa_Modifications tx)) ys)"
| "wire_bytes C (TxAccountPropertiesMosaic tx) =
     wire_properties (apm_AbstractTransaction tx) (AccountPropertiesMosaicTransaction_Size tx)
       (apm_PropertyType tx) (length (apm_Modifications tx)) (map asset_item (apm_Modifications tx))"
| "wire_bytes C (TxAccountPropertiesEntityType tx) =
     wire_properties (ape_AbstractTransaction tx) (AccountPropertiesEntityTypeTransaction_Size tx)
       (ape_PropertyType tx) (length (ape_Modifications tx)) (map entity_item (ape_Modifications tx))"
| "wire_bytes C (TxAddressAlias tx) =
     res_bind (b32_decode (addr_Address (aal_Address tx))) (\<lambda>a.
       wire_alias (aal_AliasTransaction tx) AddressSize a)"
| "wire_bytes C (TxMosaicAlias tx) =
     wire_alias (mal_AliasTransaction tx) MosaicIdSize (le64 (AssetId_Id (MosaicAsset (mal_MosaicId tx))))"
| "wire_bytes C (TxAccountLink tx) =
     res_bind (cr_HexDecodeStringOdd C (pa_PublicKey (link_RemoteAccount tx))) (\<lambda>b.
       wire_with (link_AbstractTransaction tx) (AccountLinkTransaction_Size tx) (b @ [link_LinkAction tx]))"
| "wire_bytes C (TxNetworkConfig tx) =
     (let config = string_bytes (NetworkConfig_String (nct_NetworkConfig tx));
          entities = string_bytes (SupportedEntities_String C (nct_SupportedEntities tx))
      in wire_with (nct_AbstractTransaction tx) (NetworkConfigTransaction_Size C tx)
           (le64 (nct_ApplyHeightDelta tx) @ wire16 (word_of_nat (length config))
             @ wire16 (word_of_nat (length entities)) @ config @ entities))"
| "wire_bytes C (TxBlockchainUpgrade tx) =
     wire_with (bu_AbstractTransaction tx) (BlockchainUpgradeTransaction_Size tx)
       (le64 (bu_UpgradePeriod tx) @ le64 (bu_NewBlockChainVersion tx))"
| "wire_bytes C (TxModifyMetadataAddress tx) =
     res_bind (deref (mma_Address tx)) (\<lambda>address.
     res_bind (b32_decode (addr_Address address)) (\<lambda>a.
       wire_metadata (mma_ModifyMetadataTransaction tx) AddressSize a))"
| "wire_bytes C (TxModifyMetadataMosaic tx) =
     res_bind (deref (mmm_MosaicId tx)) (\<lambda>i.
       wire_metadata (mmm_ModifyMetadataTransaction tx) MosaicIdSize (le64 (AssetId_Id (MosaicAsset i))))"
| "wire_bytes C (TxModifyMetadataNamespace tx) =
     res_bind (deref (mmn_NamespaceId tx)) (\<lambda>i.
       wire_metadata (mmn_ModifyMetadataTransaction tx) NamespaceSize (le64 (AssetId_Id (NamespaceAsset i))))"
| "wire_bytes C (TxMosaicDefinition tx) =
     (let p = mdt_MosaicProperties tx
      in wire_with (mdt_AbstractTransaction tx) (MosaicDefinitionTransaction_Size tx)
           (wire32 (mdt_MosaicNonce tx) @ le64 (AssetId_Id (MosaicAsset (mdt_MosaicId tx)))
             @ [word_of_nat (length (mps_OptionalProperties p)),
                (if mps_SupplyMutable p then 1 else 0) + (if mps_Transferable p then 2 else 0),
                mps_Divisibility p]
             @ concat (map property_wire (mps_OptionalProperties p))))"
| "wire_bytes C (TxMosaicSupplyChange tx) =
     wire_with (msc_AbstractTransaction tx) (MosaicSupplyChangeTransaction_Size tx)
       (le64 (AssetId_Id (msc_AssetId tx)) @ [msc_MosaicSupplyType tx] @ le64 (msc_Delta tx))"
| "wire_bytes C (TxTransfer tx) =
     res_bind (b32_decode (addr_Address (tr_Recipient tx))) (\<lambda>r.
       wire_with (tr_AbstractTransaction tx) (TransferTransaction_Size tx)
         (r @ wire16 (word_of_nat (TransferTransaction_MessageSize tx)) @ [word_of_nat (length (tr_Mosaics tx))]
           @ [Message_Type (tr_Message tx)] @ Message_Payload (tr_Message tx)
           @ concat (map mosaic_wire (tr_Mosaics tx))))"
| "wire_bytes C (TxModifyMultisigAccount tx) =
     res_bind (mapR (cosignatory_item C) (mms_Modifications tx)) (\<lambda>ys.
       wire_with (mms_AbstractTransaction tx) (ModifyMultisigAccountTransaction_Size tx)
         ([mms_MinRemovalDelta tx, mms_MinApprovalDelta tx, word_of_nat (length (mms_Modifications tx))]
           @ concat (map mod_wire ys)))"
| "wire_bytes C (TxModifyContract tx) =
     res_bind (deref (tx_Deadline (mct_AbstractTransaction tx))) (\<lambda>d.
     res_bind (deref (mct_Hash tx)) (\<lambda>h.
     res_bind (mapR (cosignatory_item C) (mct_Customers tx)) (\<lambda>cs.
     res_bind (mapR (cosignatory_item C) (mct_Executors tx)) (\<lambda>es.
     res_bind (mapR (cosignatory_item C) (mct_Verifiers tx)) (\<lambda>vs.
       Inr (wire_header (mct_AbstractTransaction tx) d (ModifyContractTransaction_Size tx)
         @ le64 (mct_DurationDelta tx) @ h
         @ [word_of_nat (length (mct_Customers tx)), word_of_nat (length (mct_Executors tx)),
            word_of_nat (length (mct_Verifiers tx))]
         @ concat (map mod_wire cs) @ concat (map mod_wire es) @ concat (map mod_wire vs)))))))"
| "wire_bytes C (TxRegisterNamespace tx) =
     res_bind (if rn_NamespaceType tx = Root then Inr (rn_Duration tx)
               else res_map (\<lambda>p. AssetId_Id (NamespaceAsset p)) (deref (rn_ParentId tx))) (\<lambda>x.
       wire_with (rn_AbstractTransaction tx) (RegisterNamespaceTransaction_Size tx)
         ([rn_NamespaceType tx] @ le64 x @ le64 (AssetId_Id (NamespaceAsset (rn_NamespaceId tx)))
           @ [word_of_nat (length (rn_NamspaceName tx))] @ string_bytes (rn_NamspaceName tx)))"
| "wire_bytes C (TxLockFunds tx) =
     res_bind (deref (st_Hash (lf_SignedTransaction tx))) (\<lambda>h.
       wire_with (lf_AbstractTransaction tx) (LockFundsTransaction_Size tx)
         (mosaic_wire (lf_Mosaic tx) @ le64 (lf_Duration tx) @ h))"
| "wire_bytes C (TxSecretLock tx) =
     res_bind (b32_decode (addr_Address (sl_Recipient tx))) (\<lambda>r.
       wire_with (sl_AbstractTransaction tx) (SecretLockTransaction_Size tx)
         (mosaic_wire (sl_Mosaic tx) @ le64 (sl_Duration tx) @ [secret_Type (sl_Secret tx)]
           @ secret_Hash (sl_Secret tx) @ r))"
| "wire_bytes C (TxSecretProof tx) =
     res_bind (Proof_Secret C (sp_Proof tx) (sp_HashType tx)) (\<lambda>s.
     res_bind (deref (tx_Deadline (sp_AbstractTransaction tx))) (\<lambda>d.
     res_bind (b32_decode (addr_Address (sp_Recipient tx))) (\<lambda>r.
       Inr (wire_header (sp_AbstractTransaction tx) d (SecretProofTransaction_Size tx)
         @ [sp_HashType tx] @ secret_Hash s @ r
         @ wire16 (word_of_nat (Proof_Size (sp_Proof tx))) @ proof_Data (sp_Proof tx)))))"
| "wire_bytes C (TxAggregate (AggregateTransaction a itxs cos)) =
     res_bind (mapR (\<lambda>itx. toAggregateTransactionBytes itx (wire_bytes C itx)) itxs) (\<lambda>inner.
       wire_with a (Tx_Size C (TxAggregate (AggregateTransaction a itxs cos)))
         (wire32 (word_of_nat (length (concat inner))) @ concat inner))"

text \<open>
  The laws of the builder hold up to a size. A transaction of up to a megabyte (\<open>within\<close>) stays below it.
\<close>

definition wire_limit :: nat where
  "wire_limit = 2 ^ 20"

definition within :: "byte list result \<Rightarrow> bool" where
  "within r = (case r of Inl _ \<Rightarrow> True | Inr bs \<Rightarrow> length bs \<le> wire_limit)"

end
