(* ===== verification/FbReference.thy ===== *)
theory FbReference
  imports FbBuilder
begin

text \<open>
  A builder that keeps the laws of \<open>FbBuilder\<close>: like the package's own it writes its buffer from the
  end to the front, an offset is the distance of an object from the end, and a table's vtable
  is written in front of it when the table is finished. It leaves out what the laws do not ask for:
  alignment and the sharing of equal vtables. The interpretation at the end discharges the laws, so
  that theorems about any builder with the laws apply to a concrete one.
\<close>

record refb =
  rb_buf :: "byte list"
  rb_vtable :: "nat list"
  rb_start :: nat

definition rb_prepend :: "byte list \<Rightarrow> refb \<Rightarrow> refb" where
  "rb_prepend bs b = b\<lparr>rb_buf := bs @ rb_buf b\<rparr>"

definition rb_offset :: "refb \<Rightarrow> nat" where
  "rb_offset b = length (rb_buf b)"

text \<open>A reference, relative to the place it is written at.\<close>

definition rb_relative :: "u32 \<Rightarrow> refb \<Rightarrow> byte list" where
  "rb_relative off b = le32 (word_of_nat (rb_offset b + 4) - off)"

definition rb_EndVector :: "nat \<Rightarrow> refb \<Rightarrow> u32 \<times> refb" where
  "rb_EndVector n b =
     (let b' = rb_prepend (le32 (word_of_nat n)) b in (word_of_nat (rb_offset b'), b'))"

definition rb_slot :: "nat \<Rightarrow> byte list \<Rightarrow> refb \<Rightarrow> refb" where
  "rb_slot i bs b =
     (let b' = rb_prepend bs b in b'\<lparr>rb_vtable := (rb_vtable b')[i := rb_offset b']\<rparr>)"

definition rb_entry :: "nat \<Rightarrow> nat \<Rightarrow> byte list" where
  "rb_entry obj k = le16 (if k = 0 then 0 else word_of_nat (obj - k))"

definition rb_EndObject :: "refb \<Rightarrow> u32 \<times> refb" where
  "rb_EndObject b =
     (let n = length (rb_vtable b);
          obj = rb_offset b + 4;
          vtable = le16 (word_of_nat (4 + 2 * n)) @ le16 (word_of_nat (obj - rb_start b))
            @ concat (map (rb_entry obj) (rb_vtable b))
      in (word_of_nat obj, rb_prepend (vtable @ le32 (word_of_nat (4 + 2 * n))) b))"

definition reference_builder :: "refb fb_api" where
  "reference_builder = \<lparr>
     fb_NewBuilder = (\<lambda>_. \<lparr>rb_buf = [], rb_vtable = [], rb_start = 0\<rparr>),
     fb_StartVector = (\<lambda>_ _ _ b. b),
     fb_PrependByte = (\<lambda>x. rb_prepend [x]),
     fb_PrependUint32 = (\<lambda>y. rb_prepend (le32 y)),
     fb_PrependUOffsetT = (\<lambda>off b. rb_prepend (rb_relative off b) b),
     fb_EndVector = rb_EndVector,
     fb_CreateString = (\<lambda>t b. rb_EndVector (length t) (rb_prepend (string_bytes t @ [0]) b)),
     fb_StartObject = (\<lambda>n b. b\<lparr>rb_vtable := replicate n 0, rb_start := rb_offset b\<rparr>),
     fb_PrependByteSlot = (\<lambda>i x d b. if x = d then b else rb_slot i [x] b),
     fb_PrependInt8Slot = (\<lambda>i x d b. if x = d then b else rb_slot i [x] b),
     fb_PrependUint16Slot = (\<lambda>i h d b. if h = d then b else rb_slot i (le16 h) b),
     fb_PrependUint32Slot = (\<lambda>i y d b. if y = d then b else rb_slot i (le32 y) b),
     fb_PrependUOffsetTSlot = (\<lambda>i off d b. if off = d then b else rb_slot i (rb_relative off b) b),
     fb_EndObject = rb_EndObject,
     fb_Finish = (\<lambda>off b. rb_prepend (rb_relative off b) b),
     fb_FinishedBytes = rb_buf\<rparr>"

section \<open>The relation to the ghost state\<close>

definition good_vals :: "byte list \<Rightarrow> (u32 \<Rightarrow> fbval option) \<Rightarrow> bool" where
  "good_vals buf vals \<longleftrightarrow>
     (\<forall>off v. vals off = Some v \<longrightarrow>
        off \<noteq> 0 \<and> unat off \<le> length buf \<and> fb_at buf (length buf - unat off) v)"

text \<open>The slot \<open>f\<close> of the open table, stored at distance \<open>k\<close> from the end.\<close>

definition good_slot :: "refb \<Rightarrow> nat \<Rightarrow> fbfield \<Rightarrow> bool" where
  "good_slot b k f \<longleftrightarrow>
     (if k = 0 then f = Absent
      else f \<noteq> Absent \<and> rb_start b < k \<and> k \<le> rb_offset b \<and> field_at (rb_buf b) (rb_offset b - k) f)"

definition absent :: "fbfield list \<Rightarrow> nat" where
  "absent fs = length (filter (\<lambda>f. f = Absent) fs)"

fun good_mode :: "refb \<Rightarrow> (u32 \<Rightarrow> fbval option) \<Rightarrow> nat \<Rightarrow> fbmode \<Rightarrow> bool" where
  "good_mode b vals used (Idle off) \<longleftrightarrow>
     rb_offset b \<le> used
     \<and> (\<forall>fs. vals off = Some (FTable fs) \<longrightarrow> rb_offset b \<le> unat off + 4 + 2 * length fs)"
| "good_mode b vals used (InVec w n fs) \<longleftrightarrow>
     elems_at (rb_buf b) 0 w fs \<and> length fs \<le> n \<and> n \<le> used \<and> rb_offset b + w * (n - length fs) + 4 \<le> used"
| "good_mode b vals used (InTable fs) \<longleftrightarrow>
     list_all2 (good_slot b) (rb_vtable b) fs \<and> length fs \<le> 100
     \<and> rb_start b \<le> rb_offset b
     \<and> rb_offset b + 4 * absent fs \<le> rb_start b + 4 * length fs
     \<and> rb_offset b + 4 * absent fs + 2 * length fs + 8 \<le> used"

definition ref_R :: "refb \<Rightarrow> fbstate \<Rightarrow> bool" where
  "ref_R b s \<longleftrightarrow>
     (st_used s \<le> fb_limit \<longrightarrow>
        good_vals (rb_buf b) (st_vals s) \<and> good_mode b (st_vals s) (st_used s) (st_mode s))"

lemma good_vals_prepend:
  assumes "good_vals buf vals" "length (pre @ buf) < 4294967296"
  shows "good_vals (pre @ buf) vals"
  unfolding good_vals_def
proof (intro allI impI)
  fix off v assume "vals off = Some v"
  then have h: "off \<noteq> 0" "unat off \<le> length buf" "fb_at buf (length buf - unat off) v"
    using assms(1) by (auto simp: good_vals_def)
  have "fb_at (pre @ buf) (length pre + (length buf - unat off)) v"
    by (rule fb_at_append(1) [OF h(3) assms(2)])
  moreover have "length pre + (length buf - unat off) = length (pre @ buf) - unat off"
    using h(2) by simp
  ultimately show "off \<noteq> 0 \<and> unat off \<le> length (pre @ buf) \<and> fb_at (pre @ buf) (length (pre @ buf) - unat off) v"
    using h by simp
qed

lemma rb_prepend_simps [simp]:
  "rb_buf (rb_prepend bs b) = bs @ rb_buf b" "rb_vtable (rb_prepend bs b) = rb_vtable b"
  "rb_start (rb_prepend bs b) = rb_start b" "rb_offset (rb_prepend bs b) = length bs + rb_offset b"
  by (simp_all add: rb_prepend_def rb_offset_def)

lemma length_rb_relative [simp]: "length (rb_relative off b) = 4"
  by (simp add: rb_relative_def)

text \<open>The relative reference in front of the buffer leads to the value.\<close>

lemma field_at_relative:
  assumes "good_vals (rb_buf b) vals" "vals off = Some v" "rb_offset b + 4 < 4294967296"
  shows "field_at (rb_relative off b @ rb_buf b) 0 (Ref v)"
proof -
  let ?d = "word_of_nat (rb_offset b + 4) - off"
  have h: "unat off \<le> length (rb_buf b)" "fb_at (rb_buf b) (length (rb_buf b) - unat off) v"
    using assms(1,2) by (auto simp: good_vals_def)
  have n: "unat (word_of_nat (rb_offset b + 4) :: u32) = rb_offset b + 4"
    by (rule unat_word_of_nat(3)) (rule assms(3))
  have "off \<le> word_of_nat (rb_offset b + 4)"
    unfolding word_le_nat_alt n using h(1) by (simp add: rb_offset_def)
  then have d: "unat ?d = rb_offset b + 4 - unat off"
    by (simp only: unat_sub n)
  have g: "get_u32 (rb_relative off b @ rb_buf b) 0 = ?d"
    using get_u32_mid [of "[]" 0 ?d "rb_buf b"] by (simp add: rb_relative_def)
  have "fb_at (rb_relative off b @ rb_buf b) (4 + (length (rb_buf b) - unat off)) v"
    using fb_at_append(1) [OF h(2), of "rb_relative off b"] assms(3) by (simp add: rb_offset_def)
  moreover have "4 + (length (rb_buf b) - unat off) = unat ?d"
    unfolding d using h(1) by (simp add: rb_offset_def)
  moreover have "unat ?d \<le> 4 + length (rb_buf b)"
    unfolding d by (simp add: rb_offset_def)
  ultimately show ?thesis
    by (simp add: g del: word_of_nat_eq_0_iff)
qed

lemma fb_limit_small: "fb_limit + 300 < 4294967296" "fb_limit + 300 < 2 ^ 31"
  by (simp_all add: fb_limit_def)

section \<open>The laws\<close>

text \<open>A new element at the front of an open vector.\<close>

lemma good_vec_cons:
  assumes "ref_R b s" "st_mode s = InVec w n fs" "length fs < n"
    and "length bs = w" "case f of Absent \<Rightarrow> False | Scalar xs \<Rightarrow> length xs = w | Ref _ \<Rightarrow> w = 4"
    and "st_used s \<le> fb_limit \<Longrightarrow> field_at (bs @ rb_buf b) 0 f"
  shows "ref_R (rb_prepend bs b) (s\<lparr>st_mode := InVec w n (f # fs)\<rparr>)"
proof (cases "st_used s \<le> fb_limit")
  case True
  have g: "good_vals (rb_buf b) (st_vals s)" "elems_at (rb_buf b) 0 w fs" "n \<le> st_used s"
    "rb_offset b + w * (n - length fs) + 4 \<le> st_used s"
    using assms(1,2) True by (auto simp: ref_R_def)
  have slack: "w * (n - length fs) = w + w * (n - length (f # fs))"
  proof -
    have "n - length fs = Suc (n - length (f # fs))" using assms(3) by simp
    then show ?thesis by simp
  qed
  then have len: "length (bs @ rb_buf b) < 4294967296"
    using g(4) True assms(4) fb_limit_small by (simp add: rb_offset_def)
  have "elems_at (bs @ rb_buf b) (length bs + 0) w fs"
    by (rule fb_at_append(3) [OF g(2) len])
  then show ?thesis
    using good_vals_prepend [OF g(1) len] assms(3-6) g(3,4) True slack
    by (simp add: ref_R_def)
qed (simp add: ref_R_def)

lemma good_EndVector:
  assumes "ref_R b s" "st_mode s = InVec w n fs" "length fs = n" "st_used s \<le> fb_limit"
  shows "new_object ref_R s (FVec w fs) (rb_EndVector n b)"
proof -
  let ?b = "rb_prepend (le32 (word_of_nat n)) b"
  let ?off = "word_of_nat (rb_offset ?b) :: u32"
  have g: "good_vals (rb_buf b) (st_vals s)" "elems_at (rb_buf b) 0 w fs" "n \<le> st_used s"
    "rb_offset b + 4 \<le> st_used s"
    using assms by (auto simp: ref_R_def)
  have len: "rb_offset ?b < 4294967296"
    using g(4) assms(4) fb_limit_small by simp
  have off: "unat ?off = rb_offset b + 4"
    using unat_word_of_nat(3) [OF len] by simp
  have n: "unat (word_of_nat n :: u32) = n"
    using g(3) assms(4) fb_limit_small by (intro unat_word_of_nat) simp
  have v': "good_vals (rb_buf ?b) (st_vals s)"
    using good_vals_prepend [OF g(1), of "le32 (word_of_nat n)"] len by (simp add: rb_offset_def)
  have new: "st_vals s ?off = None"
  proof (rule ccontr)
    assume "st_vals s ?off \<noteq> None"
    then have "unat ?off \<le> length (rb_buf b)" using g(1) by (auto simp: good_vals_def)
    then show False unfolding off by (simp add: rb_offset_def)
  qed
  have e: "elems_at (rb_buf ?b) 4 w fs"
    using fb_at_append(3) [OF g(2), of "le32 (word_of_nat n)"] len by (simp add: rb_offset_def)
  have c: "get_u32 (rb_buf ?b) 0 = word_of_nat n"
    using get_u32_mid [of "[]" 0 "word_of_nat n"] by simp
  have "fb_at (rb_buf ?b) 0 (FVec w fs)"
    using e c n assms(3) by simp
  moreover have nz: "?off \<noteq> 0"
    using off by auto
  ultimately have "good_vals (rb_buf ?b) ((st_vals s)(?off \<mapsto> FVec w fs))"
    using v' off unfolding good_vals_def by (auto simp: rb_offset_def)
  then have "ref_R ?b (stored ?off (FVec w fs) s)"
    using g(4) by (simp add: ref_R_def stored_def)
  with new nz show ?thesis
    by (simp add: new_object_def rb_EndVector_def Let_def)
qed

lemma absent_update:
  "i < length fs \<Longrightarrow> fs ! i = Absent \<Longrightarrow> f \<noteq> Absent \<Longrightarrow> Suc (absent (fs[i := f])) = absent fs"
proof (induction fs arbitrary: i)
  case (Cons g gs)
  then show ?case by (cases i) (auto simp: absent_def)
qed simp

lemma good_slot_prepend:
  assumes "good_slot b k f" "length (bs @ rb_buf b) < 4294967296"
  shows "good_slot (rb_prepend bs b) k f"
proof (cases "k = 0")
  case False
  then have "field_at (bs @ rb_buf b) (length bs + (rb_offset b - k)) f"
    using assms fb_at_append(2) [of "rb_buf b" "rb_offset b - k" f bs] by (simp add: good_slot_def)
  moreover have "length bs + (rb_offset b - k) = length bs + rb_offset b - k"
    using assms(1) False by (simp add: good_slot_def)
  ultimately show ?thesis
    using assms(1) False by (simp add: good_slot_def)
qed (use assms(1) in \<open>simp add: good_slot_def\<close>)

lemma good_slot_vtable: "good_slot (b\<lparr>rb_vtable := vt\<rparr>) = good_slot b"
  by (simp add: good_slot_def fun_eq_iff rb_offset_def)

lemma good_slot_add:
  assumes "ref_R b s" "st_mode s = InTable fs" "i < length fs" "fs ! i = Absent"
    and "bs \<noteq> []" "length bs \<le> 4" "f \<noteq> Absent"
    and "st_used s \<le> fb_limit \<Longrightarrow> field_at (bs @ rb_buf b) 0 f"
  shows "ref_R (rb_slot i bs b) (s\<lparr>st_mode := InTable (fs[i := f])\<rparr>)"
proof (cases "st_used s \<le> fb_limit")
  case True
  let ?b = "rb_prepend bs b"
  have g: "good_vals (rb_buf b) (st_vals s)" "list_all2 (good_slot b) (rb_vtable b) fs" "length fs \<le> 100"
    "rb_start b \<le> rb_offset b" "rb_offset b + 4 * absent fs \<le> rb_start b + 4 * length fs"
    "rb_offset b + 4 * absent fs + 2 * length fs + 8 \<le> st_used s"
    using assms(1,2) True by (auto simp: ref_R_def)
  have a: "absent fs = Suc (absent (fs[i := f]))"
    using absent_update [OF assms(3,4,7)] by simp
  have len: "length (bs @ rb_buf b) < 4294967296"
    using g(6) a True assms(6) fb_limit_small by (simp add: rb_offset_def)
  have "good_slot ?b (rb_offset ?b) f"
    using assms(5,7,8) True g(4) by (cases bs) (auto simp: good_slot_def)
  moreover have "list_all2 (good_slot ?b) (rb_vtable b) fs"
    using g(2) by (rule list_all2_mono) (rule good_slot_prepend [OF _ len])
  ultimately have "list_all2 (good_slot ?b) ((rb_vtable b)[i := rb_offset ?b]) (fs[i := f])"
    by (intro list_all2_update_cong)
  then show ?thesis
    using good_vals_prepend [OF g(1) len] g(3-6) a assms(6) True
    by (simp add: ref_R_def rb_slot_def Let_def good_slot_vtable rb_offset_def)
qed (simp add: ref_R_def)

lemma length_rb_entry [simp]: "length (rb_entry obj k) = 2"
  by (simp add: rb_entry_def)

lemma concat_entries_split:
  "i < length vt \<Longrightarrow>
     \<exists>front rest. concat (map (rb_entry obj) vt) = front @ rb_entry obj (vt ! i) @ rest \<and> length front = 2 * i"
proof (induction vt arbitrary: i)
  case (Cons k vt)
  show ?case
  proof (cases i)
    case 0
    show ?thesis
      by (rule exI [of _ "[]"], rule exI [of _ "concat (map (rb_entry obj) vt)"]) (simp add: 0)
  next
    case (Suc j)
    then obtain front rest where f: "concat (map (rb_entry obj) vt) = front @ rb_entry obj (vt ! j) @ rest"
      "length front = 2 * j"
      using Cons.IH [of j] Cons.prems by auto
    show ?thesis
      by (rule exI [of _ "rb_entry obj k @ front"], rule exI [of _ rest]) (use f Suc in simp)
  qed
qed simp

lemma length_entries: "length (concat (map (rb_entry obj) vt)) = 2 * length vt"
  by (induction vt) (simp_all add: rb_entry_def)

text \<open>The finished table: its vtable in front, its fields behind.\<close>

lemma finished_table:
  assumes slots: "list_all2 (good_slot b) (rb_vtable b) fs" and n: "length fs \<le> 100"
    and start: "rb_offset b \<le> rb_start b + 4 * length fs"
    and len: "rb_offset b + 300 < 4294967296"
  shows "fb_at (rb_buf (snd (rb_EndObject b))) (4 + 2 * length fs) (FTable fs)"
proof -
  let ?n = "length fs"
  let ?obj = "rb_offset b + 4"
  let ?vs = "4 + 2 * ?n"
  let ?tab = "concat (map (rb_entry ?obj) (rb_vtable b))"
  let ?hd = "le16 (word_of_nat ?vs) @ le16 (word_of_nat (?obj - rb_start b))"
  let ?pre = "?hd @ ?tab @ le32 (word_of_nat ?vs)"
  let ?buf = "rb_buf (snd (rb_EndObject b))"
  have vt: "length (rb_vtable b) = ?n" using slots by (rule list_all2_lengthD)
  have buf: "?buf = ?pre @ rb_buf b" by (simp add: rb_EndObject_def Let_def vt)
  have lenpre: "length ?pre = ?vs + 4" using vt by (simp add: length_entries)
  have "get_u32 ?buf ?vs = word_of_nat ?vs"
    using get_u32_mid [of "?hd @ ?tab" ?vs "word_of_nat ?vs" "rb_buf b"] vt
    by (simp add: buf length_entries)
  then have t0: "vtable_at ?buf ?vs = 0"
    by (simp add: vtable_at_def)
  have sz: "get_u16 ?buf 0 = ?vs"
  proof -
    have "get_u16 ?buf 0 = unat (word_of_nat ?vs :: u16)"
      using get_u16_mid [of "[]" 0 "word_of_nat ?vs"] by (simp add: buf)
    also have "\<dots> = ?vs" by (rule unat_word_of_nat(2)) (use n in simp)
    finally show ?thesis .
  qed
  have slot: "let off = vslot ?buf 0 j in
      if off = 0 then fs ! j = Absent else fs ! j \<noteq> Absent \<and> field_at ?buf (?vs + off) (fs ! j)"
    if j: "j < ?n" for j
  proof -
    obtain front rest where tab: "?tab = front @ rb_entry ?obj (rb_vtable b ! j) @ rest" "length front = 2 * j"
      using concat_entries_split [of j "rb_vtable b" ?obj] j vt by auto
    let ?k = "rb_vtable b ! j"
    let ?x = "(if ?k = 0 then 0 else word_of_nat (?obj - ?k)) :: u16"
    have "get_u16 ?buf (4 + 2 * j) = unat ?x"
      using get_u16_mid [of "?hd @ front" "4 + 2 * j" ?x] tab by (simp add: buf rb_entry_def)
    then have o: "vslot ?buf 0 j = unat ?x"
      using sz j by (simp add: vslot_def)
    have s: "good_slot b ?k (fs ! j)" using slots j vt by (simp add: list_all2_conv_all_nth)
    show ?thesis
    proof (cases "?k = 0")
      case True
      then show ?thesis using o s by (simp add: good_slot_def)
    next
      case False
      then have k: "rb_start b < ?k" "?k \<le> rb_offset b" "fs ! j \<noteq> Absent"
        "field_at (rb_buf b) (rb_offset b - ?k) (fs ! j)"
        using s by (auto simp: good_slot_def)
      have "unat (word_of_nat (?obj - ?k) :: u16) = ?obj - ?k"
        by (rule unat_word_of_nat(2)) (use start n k(1) in linarith)
      then have o': "vslot ?buf 0 j = ?obj - ?k"
        using o False by simp
      have "field_at ?buf (length ?pre + (rb_offset b - ?k)) (fs ! j)"
        unfolding buf by (rule fb_at_append(2) [OF k(4)]) (use len n lenpre in \<open>simp add: rb_offset_def\<close>)
      moreover have "length ?pre + (rb_offset b - ?k) = ?vs + (?obj - ?k)"
        using k(2) lenpre by simp
      ultimately show ?thesis using o' k(2,3) by (simp add: Let_def)
    qed
  qed
  have "slots_at ?buf ?vs 0 0 fs"
    unfolding slots_at_nth using slot by simp
  moreover have "?vs + 4 \<le> length ?buf" using lenpre by (simp add: buf)
  ultimately show ?thesis
    using t0 sz by (simp add: Let_def)
qed

lemma good_EndObject:
  assumes "ref_R b s" "st_mode s = InTable fs" "st_used s \<le> fb_limit"
  shows "new_object ref_R s (FTable fs) (rb_EndObject b)"
proof -
  let ?b = "snd (rb_EndObject b)"
  let ?n = "length fs"
  let ?off = "word_of_nat (rb_offset b + 4) :: u32"
  have g: "good_vals (rb_buf b) (st_vals s)" "list_all2 (good_slot b) (rb_vtable b) fs" "?n \<le> 100"
    "rb_offset b \<le> rb_start b + 4 * ?n" "rb_offset b + 2 * ?n + 8 \<le> st_used s"
    using assms by (auto simp: ref_R_def)
  have vt: "length (rb_vtable b) = ?n" using g(2) by (rule list_all2_lengthD)
  have fst: "fst (rb_EndObject b) = ?off" by (simp add: rb_EndObject_def Let_def)
  have ofs: "rb_offset ?b = rb_offset b + 8 + 2 * ?n"
    by (simp add: rb_EndObject_def Let_def vt length_entries)
  have len: "rb_offset b + 300 < 4294967296"
    using g(5) assms(3) fb_limit_small by simp
  have off: "unat ?off = rb_offset b + 4"
    by (rule unat_word_of_nat(3)) (use len in simp)
  have t: "fb_at (rb_buf ?b) (4 + 2 * ?n) (FTable fs)"
    by (rule finished_table [OF g(2,3,4) len])
  obtain pre where pre: "rb_buf ?b = pre @ rb_buf b"
    by (simp add: rb_EndObject_def Let_def)
  have v': "good_vals (rb_buf ?b) (st_vals s)"
    unfolding pre by (rule good_vals_prepend [OF g(1)]) (use ofs len g(3) pre in \<open>simp add: rb_offset_def\<close>)
  have new: "st_vals s ?off = None"
  proof (rule ccontr)
    assume "st_vals s ?off \<noteq> None"
    then have "unat ?off \<le> length (rb_buf b)" using g(1) by (auto simp: good_vals_def)
    then show False unfolding off by (simp add: rb_offset_def)
  qed
  have nz: "?off \<noteq> 0" using off by auto
  have pos: "length (rb_buf ?b) - unat ?off = 4 + 2 * ?n"
    unfolding off using ofs by (simp add: rb_offset_def)
  have "good_vals (rb_buf ?b) ((st_vals s)(?off \<mapsto> FTable fs))"
    unfolding good_vals_def
  proof (intro allI impI)
    fix off v assume a: "((st_vals s)(?off \<mapsto> FTable fs)) off = Some v"
    show "off \<noteq> 0 \<and> unat off \<le> length (rb_buf ?b) \<and> fb_at (rb_buf ?b) (length (rb_buf ?b) - unat off) v"
    proof (cases "off = ?off")
      case True
      then have "v = FTable fs" using a by simp
      moreover have "unat ?off \<le> length (rb_buf ?b)"
        unfolding off using ofs by (simp add: rb_offset_def)
      ultimately show ?thesis
        using t nz pos unfolding True by (simp only: simp_thms not_False_eq_True)
    next
      case False
      then show ?thesis using a v' by (auto simp: good_vals_def)
    qed
  qed
  moreover have "good_mode ?b ((st_vals s)(?off \<mapsto> FTable fs)) (st_used s) (Idle ?off)"
    using ofs off g(5) by simp
  ultimately have "ref_R ?b (stored ?off (FTable fs) s)"
    by (simp add: ref_R_def stored_def)
  with new nz show ?thesis
    by (simp add: new_object_def fst)
qed

lemma good_Finish:
  assumes "ref_R b s" "st_mode s = Idle off" "st_vals s off = Some (FTable fs)" "length fs \<le> 100"
    and "st_used s \<le> fb_limit"
  shows "let buf = rb_relative off b @ rb_buf b in
    fb_root buf (FTable fs) \<and> length buf < 2 ^ 31 \<and> get_u32 buf 0 < 256"
proof -
  let ?buf = "rb_relative off b @ rb_buf b"
  let ?d = "word_of_nat (rb_offset b + 4) - off"
  have g: "good_vals (rb_buf b) (st_vals s)" "rb_offset b \<le> st_used s"
    "rb_offset b \<le> unat off + 4 + 2 * length fs"
    using assms by (auto simp: ref_R_def)
  have len: "rb_offset b + 4 < 4294967296" "rb_offset b + 4 < 2 ^ 31"
    using g(2) assms(5) fb_limit_small by simp_all
  have h: "unat off \<le> rb_offset b"
    using g(1) assms(3) by (auto simp: good_vals_def rb_offset_def)
  have n: "unat (word_of_nat (rb_offset b + 4) :: u32) = rb_offset b + 4"
    by (rule unat_word_of_nat(3)) (rule len(1))
  have "off \<le> word_of_nat (rb_offset b + 4)"
    unfolding word_le_nat_alt n using h by simp
  then have d: "unat ?d = rb_offset b + 4 - unat off"
    by (simp only: unat_sub n)
  have get: "get_u32 ?buf 0 = ?d"
    using get_u32_mid [of "[]" 0 ?d "rb_buf b"] by (simp add: rb_relative_def)
  have "unat ?d < 256"
    unfolding d using g(3) assms(4) h by linarith
  then have "?d < 256" by (simp add: word_less_nat_alt)
  moreover have "fb_at ?buf (0 + unat (get_u32 ?buf 0)) (FTable fs)"
    using field_at_relative [OF g(1) assms(3) len(1)] by (simp only: field_at.simps)
  ultimately show ?thesis
    using len(2) get by (simp only: Let_def fb_root_def add_0_left length_append length_rb_relative
        rb_offset_def simp_thms) simp
qed

lemma same_slot:
  "ref_R b s \<Longrightarrow> st_mode s = InTable fs \<Longrightarrow> i < length fs \<Longrightarrow> fs ! i = Absent \<Longrightarrow>
     ref_R b (s\<lparr>st_mode := InTable (fs[i := Absent])\<rparr>)"
  using list_update_id [of fs i] by (simp add: ref_R_def)

lemma le_nonempty: "le16 h \<noteq> []" "le32 y \<noteq> []"
  using length_le(1) [of h] length_le(2) [of y] by (metis list.size(3) zero_neq_numeral)+

lemma elems_at_bytes: "elems_at (pre @ bs @ r) (length pre) 1 (map (\<lambda>x. Scalar [x]) bs)"
proof (induction bs arbitrary: pre)
  case (Cons x bs)
  show ?case using Cons [of "pre @ [x]"] by simp
qed simp

interpretation reference: flatbuffers reference_builder ref_R
proof
  show "ref_R (fb_NewBuilder reference_builder 0) \<lparr>st_mode = Idle 0, st_vals = \<lambda>_. None, st_used = 0\<rparr>"
    by (simp add: ref_R_def reference_builder_def good_vals_def rb_offset_def)
next
  fix b s l w n assume "ref_R b s" "st_mode s = Idle l" "0 < (w :: nat)"
  then show "ref_R (fb_StartVector reference_builder w n w b)
      (s\<lparr>st_mode := InVec w n [], st_used := st_used s + 16 + w * n\<rparr>)"
    by (cases w) (auto simp: ref_R_def reference_builder_def)
next
  fix b s n fs x assume "ref_R b s" "st_mode s = InVec 1 n fs" "length fs < n"
  then show "ref_R (fb_PrependByte reference_builder x b) (s\<lparr>st_mode := InVec 1 n (Scalar [x] # fs)\<rparr>)"
    using good_vec_cons [of b s 1 n fs "[x]" "Scalar [x]"] by (simp add: reference_builder_def)
next
  fix b s n fs y assume "ref_R b s" "st_mode s = InVec 4 n fs" "length fs < n"
  then show "ref_R (fb_PrependUint32 reference_builder y b) (s\<lparr>st_mode := InVec 4 n (Scalar (le32 y) # fs)\<rparr>)"
    using good_vec_cons [of b s 4 n fs "le32 y" "Scalar (le32 y)"] by (simp add: reference_builder_def)
next
  fix b s n fs off v
  assume a: "ref_R b s" "st_mode s = InVec 4 n fs" "length fs < n" "st_vals s off = Some v"
  have "field_at (rb_relative off b @ rb_buf b) 0 (Ref v)" if "st_used s \<le> fb_limit"
    using a that fb_limit_small by (intro field_at_relative [where vals = "st_vals s"]) (auto simp: ref_R_def)
  then show "ref_R (fb_PrependUOffsetT reference_builder off b) (s\<lparr>st_mode := InVec 4 n (Ref v # fs)\<rparr>)"
    using good_vec_cons [of b s 4 n fs "rb_relative off b" "Ref v"] a by (simp add: reference_builder_def)
next
  fix b s w n fs
  assume "ref_R b s" "st_mode s = InVec w n fs" "length fs = n" "st_used s \<le> fb_limit"
  then show "new_object ref_R s (FVec w fs) (fb_EndVector reference_builder n b)"
    using good_EndVector by (simp add: reference_builder_def)
next
  fix b s l s' t
  assume a: "ref_R b s" "st_mode s = Idle l" "s' = s\<lparr>st_used := st_used s + 20 + length (t :: string)\<rparr>"
    "st_used s' \<le> fb_limit"
  let ?b = "rb_prepend (string_bytes t @ [0]) b"
  let ?s = "s'\<lparr>st_mode := InVec 1 (length t) (map (\<lambda>c. Scalar [of_char c]) t)\<rparr>"
  have g: "good_vals (rb_buf b) (st_vals s)" "rb_offset b \<le> st_used s"
    using a by (auto simp: ref_R_def)
  have len: "length ((string_bytes t @ [0]) @ rb_buf b) < 4294967296"
    using g(2) a(3,4) fb_limit_small by (simp add: rb_offset_def)
  have e: "elems_at (string_bytes t @ r) 0 1 (map (\<lambda>c. Scalar [of_char c]) t)" for r
    using elems_at_bytes [of "[]" "string_bytes t" r] by (simp add: string_bytes_def comp_def)
  have "ref_R ?b ?s"
    using good_vals_prepend [OF g(1) len] e [of "0 # rb_buf b"] g(2) a(3)
    by (simp add: ref_R_def)
  then have "new_object ref_R ?s (string_vec t) (rb_EndVector (length t) ?b)"
    using good_EndVector [of ?b ?s 1 "length t"] a(4) by (simp add: string_vec_def)
  then show "new_object ref_R s' (string_vec t) (fb_CreateString reference_builder t b)"
    by (simp add: new_object_def reference_builder_def stored_def)
next
  fix b s l n assume "ref_R b s" "st_mode s = Idle l" "(n :: nat) \<le> 100"
  then show "ref_R (fb_StartObject reference_builder n b)
      (s\<lparr>st_mode := InTable (replicate n Absent), st_used := st_used s + 24 + 12 * n\<rparr>)"
    by (auto simp: ref_R_def reference_builder_def rb_offset_def absent_def good_slot_def
        list_all2_conv_all_nth)
next
  fix b s fs i x
  assume a: "ref_R b s" "st_mode s = InTable fs" "i < length fs" "fs ! i = Absent"
  then show "ref_R (fb_PrependByteSlot reference_builder i x 0 b)
      (s\<lparr>st_mode := InTable (fs[i := if x = 0 then Absent else Scalar [x]])\<rparr>)"
    using good_slot_add [OF a, of "[x]" "Scalar [x]"] same_slot [OF a]
    by (simp add: reference_builder_def)
  then show "ref_R (fb_PrependInt8Slot reference_builder i x 0 b)
      (s\<lparr>st_mode := InTable (fs[i := if x = 0 then Absent else Scalar [x]])\<rparr>)"
    by (simp add: reference_builder_def)
next
  fix b s fs i h
  assume a: "ref_R b s" "st_mode s = InTable fs" "i < length fs" "fs ! i = Absent"
  then show "ref_R (fb_PrependUint16Slot reference_builder i h 0 b)
      (s\<lparr>st_mode := InTable (fs[i := if h = 0 then Absent else Scalar (le16 h)])\<rparr>)"
    using good_slot_add [OF a, of "le16 h" "Scalar (le16 h)"] same_slot [OF a] le_nonempty(1) [of h]
    by (simp add: reference_builder_def)
next
  fix b s fs i y
  assume a: "ref_R b s" "st_mode s = InTable fs" "i < length fs" "fs ! i = Absent"
  then show "ref_R (fb_PrependUint32Slot reference_builder i y 0 b)
      (s\<lparr>st_mode := InTable (fs[i := if y = 0 then Absent else Scalar (le32 y)])\<rparr>)"
    using good_slot_add [OF a, of "le32 y" "Scalar (le32 y)"] same_slot [OF a] le_nonempty(2) [of y]
    by (simp add: reference_builder_def)
next
  fix b s fs i off v
  assume a: "ref_R b s" "st_mode s = InTable fs" "i < length fs" "fs ! i = Absent"
    and v: "st_vals s off = Some v" "off \<noteq> 0"
  have "field_at (rb_relative off b @ rb_buf b) 0 (Ref v)" if "st_used s \<le> fb_limit"
    using a v that fb_limit_small by (intro field_at_relative [where vals = "st_vals s"]) (auto simp: ref_R_def)
  moreover have "rb_relative off b \<noteq> []" by (simp add: rb_relative_def le_nonempty)
  ultimately show "ref_R (fb_PrependUOffsetTSlot reference_builder i off 0 b) (s\<lparr>st_mode := InTable (fs[i := Ref v])\<rparr>)"
    using good_slot_add [OF a, of "rb_relative off b" "Ref v"] v(2) by (simp add: reference_builder_def)
next
  fix b s fs
  assume "ref_R b s" "st_mode s = InTable fs" "st_used s \<le> fb_limit"
  then show "new_object ref_R s (FTable fs) (fb_EndObject reference_builder b)"
    using good_EndObject by (simp add: reference_builder_def)
next
  fix b s off fs
  assume "ref_R b s" "st_mode s = Idle off" "st_vals s off = Some (FTable fs)" "length fs \<le> 100"
    "st_used s \<le> fb_limit"
  from good_Finish [OF this]
  show "fb_root (fb_FinishedBytes reference_builder (fb_Finish reference_builder off b)) (FTable fs)
    \<and> length (fb_FinishedBytes reference_builder (fb_Finish reference_builder off b)) < 2 ^ 31
    \<and> get_u32 (fb_FinishedBytes reference_builder (fb_Finish reference_builder off b)) 0 < 256"
    by (simp only: reference_builder_def fb_api.simps rb_prepend_simps Let_def)
qed

end
