(* ===== verification/TxRefine.thy ===== *)
theory TxRefine
  imports TxWire FbReference
begin

text \<open>
  The refinement: for every kind of transaction, \<open>generateBytes\<close> on any FlatBuffers builder that
  meets its documented contract returns exactly the bytes, or the error, of \<open>wire_bytes\<close>.
\<close>

section \<open>Evaluating schemas on tables\<close>

named_theorems wire_simps \<open>what the schemas make of the tables, and what the tables cost\<close>

lemma wire_words_eq: "wire_words a = le64 (u64_of_words a)"
proof -
  have "le_nat (wire_words a) = unat (u64_of_words a)"
    by (simp add: wire_words_def le_nat_append unat_u64_of_words)
  then show ?thesis
    using le_bytes_le_nat [of "wire_words a"] by (simp add: le64_def)
qed

lemma wire_words_array [simp]:
  "wire_words (baseInt64_toArray x) = le64 x" "wire_words (BlockChainVersion_toArray x) = le64 x"
  "wire_words (AssetId_toArray i) = le64 (AssetId_Id i)"
  by (simp_all add: wire_words_eq base_int.toArray_eq chain_version.toArray_eq asset.toArray_eq)

lemma length_words2 [simp]: "length (words2 a) = 2"
  by (simp add: words2_def)

lemma list_update_numeral [simp]: "(x # xs)[numeral k := y] = x # xs[pred_numeral k := y]"
  by (simp add: numeral_eq_Suc)

lemma replicate_Absent [wire_simps]:
  "replicate (numeral k) Absent = Absent # replicate (pred_numeral k) Absent"
  by (simp add: numeral_eq_Suc)

lemma flatten_table_eq [wire_simps]:
  "flatten_attr (tableAttribute n s) (Ref (FTable gs)) = flatten_fields s gs"
  by simp

declare flatten_attr.simps [simp del]

lemmas [wire_simps] =
  flatten_scalars flatten_byte_vec flatten_word_vec within_def wire_limit_def fb_limit_def
  cost_vec_def cost_table_def wire_header_def wire_with_def

text \<open>The tables that lists of modifications, mosaics and properties are written as, and their costs.\<close>

definition mod_table :: "wire_mod \<Rightarrow> fbval" where
  "mod_table y = FTable [sc8 (fst y), Ref (byte_vec (snd y))]"

definition mod_cost :: "wire_mod \<Rightarrow> nat" where
  "mod_cost y = cost_vec 1 (length (snd y)) + cost_table 2"

definition mosaic_table :: "Mosaic \<Rightarrow> fbval" where
  "mosaic_table m = FTable [Ref (word_vec (words2 (AssetId_toArray (mosaic_AssetId m)))),
     Ref (word_vec (words2 (baseInt64_toArray (mosaic_Amount m))))]"

definition property_table :: "MosaicProperty \<Rightarrow> fbval" where
  "property_table p = FTable [sc8 (mp_Id p), Ref (word_vec (words2 (baseInt64_toArray (mp_Value p))))]"

definition metadata_table :: "MetadataModification \<Rightarrow> fbval" where
  "metadata_table m = FTable [sc32 (word_of_nat (MetadataModification_Size m)), sc8 (mm_Type m),
     sc8 (word_of_nat (length (mm_Key m))), Ref (byte_vec (le16 (word_of_nat (length (mm_Value m))))),
     Ref (byte_vec (string_bytes (mm_Key m))), Ref (byte_vec (string_bytes (mm_Value m)))]"

definition metadata_item :: "MetadataModification \<Rightarrow> MetadataModification result" where
  "metadata_item m = (if mm_Key m = [] then Inl (NewError ''key must not empty'') else Inr m)"

definition metadata_cost :: "MetadataModification \<Rightarrow> nat" where
  "metadata_cost m = cost_vec 1 (length (mm_Key m)) + cost_vec 1 2 + cost_vec 1 (length (mm_Value m)) + cost_table 6"

lemma flatten_mods [wire_simps]:
  "flatten_attr (tableArrayAttribute n [scalarAttribute m ByteSize, arrayAttribute k ByteSize])
     (Ref (ref_vec (map mod_table ys))) = Some (concat (map mod_wire ys))"
  unfolding mod_table_def by (rule flatten_tables) (simp add: wire_simps mod_wire_def)

lemma flatten_mosaics [wire_simps]:
  "flatten_attr (tableArrayAttribute n [arrayAttribute m IntSize, arrayAttribute k IntSize])
     (Ref (ref_vec (map mosaic_table ys))) = Some (concat (map mosaic_wire ys))"
  unfolding mosaic_table_def by (rule flatten_tables) (simp add: wire_simps mosaic_wire_def)

lemma flatten_properties [wire_simps]:
  "flatten_attr (tableArrayAttribute n [scalarAttribute m ByteSize, arrayAttribute k IntSize])
     (Ref (ref_vec (map property_table ys))) = Some (concat (map property_wire ys))"
  unfolding property_table_def by (rule flatten_tables) (simp add: wire_simps property_wire_def)

lemma flatten_metadata [wire_simps]:
  "flatten_attr (tableArrayAttribute n [scalarAttribute a IntSize, scalarAttribute b ByteSize,
       scalarAttribute c ByteSize, arrayAttribute d ByteSize, arrayAttribute e ByteSize, arrayAttribute f ByteSize])
     (Ref (ref_vec (map metadata_table ys))) = Some (concat (map metadata_wire ys))"
  unfolding metadata_table_def by (rule flatten_tables) (simp add: wire_simps metadata_wire_def)

text \<open>Costs and lengths over the same few quantities, so that arithmetic compares them.\<close>

definition sum_of :: "('a \<Rightarrow> nat) \<Rightarrow> 'a list \<Rightarrow> nat" where
  "sum_of f xs = sum_list (map f xs)"

lemma length_mods [wire_simps]: "length (concat (map mod_wire ys)) = length ys + sum_of (\<lambda>y. length (snd y)) ys"
  by (induction ys) (simp_all add: mod_wire_def sum_of_def)

lemma cost_mods [wire_simps]: "sum_list (map mod_cost ys) = 64 * length ys + sum_of (\<lambda>y. length (snd y)) ys"
  by (induction ys) (simp_all add: mod_cost_def cost_vec_def cost_table_def sum_of_def)

lemma length_mosaics [wire_simps]: "length (concat (map mosaic_wire ys)) = 16 * length ys"
  by (induction ys) (simp_all add: mosaic_wire_def)

lemma length_properties [wire_simps]: "length (concat (map property_wire ys)) = 9 * length ys"
  by (induction ys) (simp_all add: property_wire_def)

lemma length_metadata [wire_simps]:
  "length (concat (map metadata_wire ys)) = 4 * length ys + sum_of (\<lambda>m. length (mm_Key m) + length (mm_Value m)) ys
     + sum_of (\<lambda>m. length (wire32 (word_of_nat (MetadataModification_Size m)))) ys"
  by (induction ys) (simp_all add: metadata_wire_def sum_of_def)

declare sum_list_triv [wire_simps]

lemma cost_metadata [wire_simps]:
  "sum_list (map metadata_cost ys) = 146 * length ys + sum_of (\<lambda>m. length (mm_Key m) + length (mm_Value m)) ys"
  by (induction ys) (simp_all add: metadata_cost_def cost_vec_def cost_table_def sum_of_def)

section \<open>Symbolic steps for the shared parts\<close>

definition header_cost :: nat where
  "header_cost = cost_vec 1 64 + cost_vec 1 32 + cost_vec 4 2 + cost_vec 4 2"

declare header_cost_def [wire_simps]

context flatbuffers
begin

lemma sym_generateVectors [fb_sym_rules]:
  assumes "\<And>d s g dv f. tx_Deadline a = Some d \<Longrightarrow>
      Q (wire_version a, s, g, dv, f) (Idle f)
        ((f, word_vec (words2 (baseInt64_toArray (tx_MaxFee a))))
          # (dv, word_vec (words2 (baseInt64_toArray (wire_deadline d))))
          # (g, byte_vec (replicate 32 0)) # (s, byte_vec (replicate 64 0)) # K) (u + header_cost)"
    and "tx_Deadline a = None \<Longrightarrow> E Panicked"
  shows "fb_sym R (generateVectors F a) (Idle l) K u Q E"
  unfolding generateVectors_def Let_def
proof ((rule fb_sym_rules)+, goal_cases)
  case (1 s g d dv f)
  then have "tx_Deadline a = Some d" by (cases "tx_Deadline a") simp_all
  from assms(1) [OF this, of s g dv f] show ?case
    by (simp add: wire_version_def wire_deadline_def header_cost_def go_sizes words2_def cost_vec_def add.assoc)
next
  case (2 s g e)
  then show ?case using assms(2) by (cases "tx_Deadline a") simp_all
qed

lemma sym_buildVectors [fb_sym_rules]:
  assumes "(sV, s) \<in> set K" "(gV, g) \<in> set K" "(fV, f) \<in> set K" "(dV, d) \<in> set K"
    and "Q () (InTable (fs[1 := Ref s, 2 := Ref g, 3 := sc32 v, 4 := sc16 (tx_Type a), 5 := Ref f, 6 := Ref d])) K u"
    and "7 \<le> length fs" "\<forall>i \<in> {1, 2, 3, 4, 5, 6}. fs ! i = Absent"
  shows "fb_sym R (buildVectors F a v sV gV dV fV) (InTable fs) K u Q E"
  unfolding buildVectors_def fb_defs
  by (rule fb_sym_rules assms(1-5))+ (use assms(6,7) in auto)

text \<open>The bodies of the loops, as the programs' definitions unfold to.\<close>

lemma builds_address:
  "builds R (fb_bind (fb_lift (b32_decode (addr_Address (apam_Address m)))) (\<lambda>bs.
      fb_bind (TransactionBufferCreateByteVector F bs) (\<lambda>v.
      fb_then (fb_do (fb_StartObject F 2))
     (fb_then (fb_do (fb_PrependByteSlot F 0 (apam_ModificationType m) 0))
     (fb_then (fb_do (fb_PrependUOffsetTSlot F 1 v 0))
     (fb_call (fb_EndObject F))))))) (res_map (\<lambda>y. (mod_table y, mod_cost y)) (address_item m))"
  by (rule builds_sym, (rule fb_sym_rules known_rules)+)
    (auto simp: address_item_def mod_table_def mod_cost_def replicate_Absent)

lemma builds_cosignatory:
  "builds R (fb_bind (fb_lift (cr_HexDecodeStringOdd C (pa_PublicKey (mcm_PublicAccount m)))) (\<lambda>bs.
      fb_bind (TransactionBufferCreateByteVector F bs) (\<lambda>v.
      fb_then (fb_do (fb_StartObject F 2))
     (fb_then (fb_do (fb_PrependByteSlot F 0 (mcm_Type m) 0))
     (fb_then (fb_do (fb_PrependUOffsetTSlot F 1 v 0))
     (fb_call (fb_EndObject F))))))) (res_map (\<lambda>y. (mod_table y, mod_cost y)) (cosignatory_item C m))"
  by (rule builds_sym, (rule fb_sym_rules known_rules)+)
    (auto simp: cosignatory_item_def mod_table_def mod_cost_def replicate_Absent)

lemma builds_asset:
  "builds R (fb_bind (TransactionBufferCreateByteVector F (le64 (AssetId_Id (apmm_AssetId m)))) (\<lambda>v.
      fb_then (fb_do (fb_StartObject F 2))
     (fb_then (fb_do (fb_PrependByteSlot F 0 (apmm_ModificationType m) 0))
     (fb_then (fb_do (fb_PrependUOffsetTSlot F 1 v 0))
     (fb_call (fb_EndObject F)))))) (res_map (\<lambda>y. (mod_table y, mod_cost y)) (Inr (asset_item m)))"
  by (rule builds_sym, (rule fb_sym_rules known_rules)+)
    (auto simp: asset_item_def mod_table_def mod_cost_def replicate_Absent)

lemma builds_entity:
  "builds R (fb_bind (TransactionBufferCreateByteVector F (le16 (apem_EntityType m))) (\<lambda>v.
      fb_then (fb_do (fb_StartObject F 2))
     (fb_then (fb_do (fb_PrependByteSlot F 0 (apem_ModificationType m) 0))
     (fb_then (fb_do (fb_PrependUOffsetTSlot F 1 v 0))
     (fb_call (fb_EndObject F)))))) (res_map (\<lambda>y. (mod_table y, mod_cost y)) (Inr (entity_item m)))"
  by (rule builds_sym, (rule fb_sym_rules known_rules)+)
    (auto simp: entity_item_def mod_table_def mod_cost_def replicate_Absent)

lemma builds_mosaic:
  "builds R (fb_bind (TransactionBufferCreateUint32Vector F (words2 (AssetId_toArray (mosaic_AssetId m)))) (\<lambda>i.
      fb_bind (TransactionBufferCreateUint32Vector F (words2 (baseInt64_toArray (mosaic_Amount m)))) (\<lambda>am.
      fb_then (fb_do (fb_StartObject F 2))
     (fb_then (fb_do (fb_PrependUOffsetTSlot F 0 i 0))
     (fb_then (fb_do (fb_PrependUOffsetTSlot F 1 am 0))
     (fb_call (fb_EndObject F))))))) (res_map (\<lambda>y. (mosaic_table y, 96)) (Inr m))"
  by (rule builds_sym, (rule fb_sym_rules known_rules)+)
    (auto simp: mosaic_table_def replicate_Absent cost_vec_def cost_table_def)

lemma builds_property:
  "builds R (fb_bind (TransactionBufferCreateUint32Vector F (words2 (baseInt64_toArray (mp_Value p)))) (\<lambda>v.
      fb_then (fb_do (fb_StartObject F 2))
     (fb_then (fb_do (fb_PrependByteSlot F 0 (mp_Id p) 0))
     (fb_then (fb_do (fb_PrependUOffsetTSlot F 1 v 0))
     (fb_call (fb_EndObject F)))))) (res_map (\<lambda>y. (property_table y, 72)) (Inr p))"
  by (rule builds_sym, (rule fb_sym_rules known_rules)+)
    (auto simp: property_table_def replicate_Absent cost_vec_def cost_table_def)

lemma builds_metadata:
  "builds R (if length (mm_Key m) = 0 then fb_lift (Inl (NewError ''key must not empty''))
      else fb_bind (TransactionBufferCreateByteVector F (string_bytes (mm_Key m))) (\<lambda>pKey.
        fb_bind (TransactionBufferCreateByteVector F (le16 (word_of_nat (length (mm_Value m))))) (\<lambda>pValueSize.
        fb_bind (TransactionBufferCreateByteVector F (string_bytes (mm_Value m))) (\<lambda>pValue.
        fb_then (fb_do (fb_StartObject F 6))
       (fb_then (fb_do (fb_PrependUint32Slot F 0 (word_of_nat (MetadataModification_Size m)) 0))
       (fb_then (fb_do (fb_PrependByteSlot F 1 (mm_Type m) 0))
       (fb_then (fb_do (fb_PrependByteSlot F 2 (word_of_nat (length (mm_Key m))) 0))
       (fb_then (fb_do (fb_PrependUOffsetTSlot F 3 pValueSize 0))
       (fb_then (fb_do (fb_PrependUOffsetTSlot F 4 pKey 0))
       (fb_then (fb_do (fb_PrependUOffsetTSlot F 5 pValue 0))
       (fb_call (fb_EndObject F))))))))))))
     (res_map (\<lambda>y. (metadata_table y, metadata_cost y)) (metadata_item m))"
proof (cases "mm_Key m = []")
  case True
  then show ?thesis
    by (simp add: metadata_item_def) (rule builds_sym, rule sym_lift, simp_all)
next
  case False
  show ?thesis
    unfolding if_not_P [OF False [folded length_0_conv]]
    by (rule builds_sym, (rule fb_sym_rules known_rules)+)
      (auto simp: metadata_item_def False metadata_table_def metadata_cost_def replicate_Absent)
qed

lemmas builds_rules =
  sym_mapM builds_address builds_cosignatory builds_asset builds_entity builds_mosaic builds_property builds_metadata

end

lemma mapR_Inr [simp]: "mapR (\<lambda>x. Inr (f x)) xs = Inr (map f xs)"
  by (induction xs) simp_all

lemma mapR_metadata [wire_simps]:
  "mapR metadata_item ms =
     (if \<exists>m \<in> set ms. mm_Key m = [] then Inl (NewError ''key must not empty'') else Inr ms)"
  by (induction ms) (auto simp: metadata_item_def)

lemma length_mapR [simp]: "mapR f xs = Inr ys \<Longrightarrow> length ys = length xs"
  by (rule mapR_length)

lemma network_simps:
  "SupportedEntities_MarshalBinary C e = Inr (string_bytes (SupportedEntities_String C e))"
  "NetworkConfig_MarshalBinary c = Inr (string_bytes (NetworkConfig_String c))"
  by (simp_all add: SupportedEntities_String_def SupportedEntities_MarshalBinary_def
      NetworkConfig_MarshalBinary_def Let_def)

section \<open>The kinds of transactions\<close>

context flatbuffers
begin

lemma refines_account_properties_address:
  assumes "within (wire_bytes C (TxAccountPropertiesAddress tx))"
  shows "AccountPropertiesAddressTransaction_generateBytes F tx = wire_bytes C (TxAccountPropertiesAddress tx)"
  unfolding AccountPropertiesAddressTransaction_generateBytes_def account_properties_table_def fb_defs Let_def
  by (rule sym_run, (rule fb_sym_rules builds_rules known_rules | assumption)+)
    (use assms in \<open>simp_all add: accountPropertyTransactionSchema_def wire_properties_def wire_simps\<close>)

lemma refines_account_properties_mosaic:
  assumes "within (wire_bytes C (TxAccountPropertiesMosaic tx))"
  shows "AccountPropertiesMosaicTransaction_generateBytes F tx = wire_bytes C (TxAccountPropertiesMosaic tx)"
  unfolding AccountPropertiesMosaicTransaction_generateBytes_def account_properties_table_def fb_defs Let_def
  by (rule sym_run, (rule fb_sym_rules builds_rules known_rules | assumption)+)
    (use assms in \<open>simp_all add: accountPropertyTransactionSchema_def wire_properties_def wire_simps\<close>)

lemma refines_account_properties_entity:
  assumes "within (wire_bytes C (TxAccountPropertiesEntityType tx))"
  shows "AccountPropertiesEntityTypeTransaction_generateBytes F tx = wire_bytes C (TxAccountPropertiesEntityType tx)"
  unfolding AccountPropertiesEntityTypeTransaction_generateBytes_def account_properties_table_def fb_defs Let_def
  by (rule sym_run, (rule fb_sym_rules builds_rules known_rules | assumption)+)
    (use assms in \<open>simp_all add: accountPropertyTransactionSchema_def wire_properties_def wire_simps\<close>)

lemma refines_address_alias:
  assumes "within (wire_bytes C (TxAddressAlias tx))"
  shows "AddressAliasTransaction_generateBytes F tx = wire_bytes C (TxAddressAlias tx)"
  unfolding AddressAliasTransaction_generateBytes_def AliasTransaction_generateBytes_def fb_defs Let_def
  by (rule sym_run, (rule fb_sym_rules builds_rules known_rules | assumption)+)
    (use assms in \<open>simp_all add: aliasTransactionSchema_def wire_alias_def wire_simps\<close>)

lemma refines_mosaic_alias:
  assumes "within (wire_bytes C (TxMosaicAlias tx))"
  shows "MosaicAliasTransaction_generateBytes F tx = wire_bytes C (TxMosaicAlias tx)"
  unfolding MosaicAliasTransaction_generateBytes_def AliasTransaction_generateBytes_def fb_defs Let_def
  by (rule sym_run, (rule fb_sym_rules builds_rules known_rules | assumption)+)
    (use assms in \<open>simp_all add: aliasTransactionSchema_def wire_alias_def wire_simps\<close>)

lemma refines_account_link:
  assumes "within (wire_bytes C (TxAccountLink tx))"
  shows "AccountLinkTransaction_generateBytes C F tx = wire_bytes C (TxAccountLink tx)"
  unfolding AccountLinkTransaction_generateBytes_def fb_defs Let_def
  by (rule sym_run, (rule fb_sym_rules builds_rules known_rules | assumption)+)
    (use assms in \<open>simp_all add: accountLinkTransactionSchema_def wire_simps\<close>)

lemma refines_network_config:
  assumes "within (wire_bytes C (TxNetworkConfig tx))"
  shows "NetworkConfigTransaction_generateBytes C F tx = wire_bytes C (TxNetworkConfig tx)"
  unfolding NetworkConfigTransaction_generateBytes_def fb_defs Let_def
  by (rule sym_run, (rule fb_sym_rules builds_rules known_rules | assumption)+)
    (use assms in \<open>simp_all add: networkConfigTransactionSchema_def network_simps wire_simps\<close>)

lemma refines_blockchain_upgrade:
  assumes "within (wire_bytes C (TxBlockchainUpgrade tx))"
  shows "BlockchainUpgradeTransaction_generateBytes F tx = wire_bytes C (TxBlockchainUpgrade tx)"
  unfolding BlockchainUpgradeTransaction_generateBytes_def fb_defs Let_def
  by (rule sym_run, (rule fb_sym_rules builds_rules known_rules | assumption)+)
    (use assms in \<open>simp_all add: blockchainUpgradeTransactionSchema_def wire_simps\<close>)

lemma refines_metadata_address:
  assumes "within (wire_bytes C (TxModifyMetadataAddress tx))"
  shows "ModifyMetadataAddressTransaction_generateBytes F tx = wire_bytes C (TxModifyMetadataAddress tx)"
  unfolding ModifyMetadataAddressTransaction_generateBytes_def ModifyMetadataTransaction_generateBytes_def metadataModificationArrayToBuffer_def fb_defs Let_def
  by (rule sym_run, (rule fb_sym_rules builds_rules known_rules | assumption)+)
    (use assms in \<open>auto simp: modifyMetadataTransactionSchema_def wire_metadata_def wire_simps split: if_split_asm\<close>)

lemma refines_metadata_mosaic:
  assumes "within (wire_bytes C (TxModifyMetadataMosaic tx))"
  shows "ModifyMetadataMosaicTransaction_generateBytes F tx = wire_bytes C (TxModifyMetadataMosaic tx)"
  unfolding ModifyMetadataMosaicTransaction_generateBytes_def ModifyMetadataTransaction_generateBytes_def metadataModificationArrayToBuffer_def fb_defs Let_def
  by (rule sym_run, (rule fb_sym_rules builds_rules known_rules | assumption)+)
    (use assms in \<open>auto simp: modifyMetadataTransactionSchema_def wire_metadata_def wire_simps split: if_split_asm\<close>)

lemma refines_metadata_namespace:
  assumes "within (wire_bytes C (TxModifyMetadataNamespace tx))"
  shows "ModifyMetadataNamespaceTransaction_generateBytes F tx = wire_bytes C (TxModifyMetadataNamespace tx)"
  unfolding ModifyMetadataNamespaceTransaction_generateBytes_def ModifyMetadataTransaction_generateBytes_def metadataModificationArrayToBuffer_def fb_defs Let_def
  by (rule sym_run, (rule fb_sym_rules builds_rules known_rules | assumption)+)
    (use assms in \<open>auto simp: modifyMetadataTransactionSchema_def wire_metadata_def wire_simps split: if_split_asm\<close>)

lemma refines_mosaic_definition:
  assumes "within (wire_bytes C (TxMosaicDefinition tx))"
  shows "MosaicDefinitionTransaction_generateBytes F tx = wire_bytes C (TxMosaicDefinition tx)"
  unfolding MosaicDefinitionTransaction_generateBytes_def mosaicPropertyArrayToBuffer_def fb_defs Let_def
  by (rule sym_run, (rule fb_sym_rules builds_rules known_rules | assumption)+)
    (use assms in \<open>simp_all add: mosaicDefinitionTransactionSchema_def Supply_Mutable_def Transferable_def Let_def wire_simps\<close>)

lemma refines_mosaic_supply_change:
  assumes "within (wire_bytes C (TxMosaicSupplyChange tx))"
  shows "MosaicSupplyChangeTransaction_generateBytes F tx = wire_bytes C (TxMosaicSupplyChange tx)"
  unfolding MosaicSupplyChangeTransaction_generateBytes_def fb_defs Let_def
  by (rule sym_run, (rule fb_sym_rules builds_rules known_rules | assumption)+)
    (use assms in \<open>simp_all add: mosaicSupplyChangeTransactionSchema_def wire_simps\<close>)

lemma refines_transfer:
  assumes "within (wire_bytes C (TxTransfer tx))"
  shows "TransferTransaction_generateBytes F tx = wire_bytes C (TxTransfer tx)"
  unfolding TransferTransaction_generateBytes_def fb_defs Let_def
  by (rule sym_run, (rule fb_sym_rules builds_rules known_rules | assumption)+)
    (use assms in \<open>simp_all add: transferTransactionSchema_def wire_simps\<close>)

lemma refines_multisig:
  assumes "within (wire_bytes C (TxModifyMultisigAccount tx))"
  shows "ModifyMultisigAccountTransaction_generateBytes C F tx = wire_bytes C (TxModifyMultisigAccount tx)"
  unfolding ModifyMultisigAccountTransaction_generateBytes_def cosignatoryModificationArrayToBuffer_def fb_defs Let_def
  by (rule sym_run, (rule fb_sym_rules builds_rules known_rules | assumption)+)
    (use assms in \<open>simp_all add: modifyMultisigAccountTransactionSchema_def wire_simps\<close>)

lemma refines_contract:
  assumes "within (wire_bytes C (TxModifyContract tx))"
  shows "ModifyContractTransaction_generateBytes C F tx = wire_bytes C (TxModifyContract tx)"
  unfolding ModifyContractTransaction_generateBytes_def cosignatoryModificationArrayToBuffer_def hashToBuffer_def fb_defs Let_def
  by (rule sym_run, (rule fb_sym_rules builds_rules known_rules | assumption)+)
    (use assms in \<open>simp_all add: modifyContractTransactionSchema_def wire_simps\<close>)

lemma refines_register_namespace:
  assumes "within (wire_bytes C (TxRegisterNamespace tx))"
  shows "RegisterNamespaceTransaction_generateBytes F tx = wire_bytes C (TxRegisterNamespace tx)"
proof (cases "rn_NamespaceType tx = Root")
  case True
  show ?thesis
    unfolding RegisterNamespaceTransaction_generateBytes_def fb_defs Let_def if_P [OF True]
    by (rule sym_run, (rule fb_sym_rules builds_rules known_rules | assumption)+)
      (use assms in \<open>simp_all add: registerNamespaceTransactionSchema_def True wire_simps\<close>)
next
  case False
  show ?thesis
    unfolding RegisterNamespaceTransaction_generateBytes_def fb_defs Let_def if_not_P [OF False]
    by (rule sym_run, (rule fb_sym_rules builds_rules known_rules | assumption)+)
      (use assms in \<open>simp_all add: registerNamespaceTransactionSchema_def False wire_simps\<close>)
qed

lemma refines_lock_funds:
  assumes "within (wire_bytes C (TxLockFunds tx))"
  shows "LockFundsTransaction_generateBytes F tx = wire_bytes C (TxLockFunds tx)"
  unfolding LockFundsTransaction_generateBytes_def fb_defs Let_def
  by (rule sym_run, (rule fb_sym_rules builds_rules known_rules | assumption)+)
    (use assms in \<open>simp_all add: lockFundsTransactionSchema_def mosaic_wire_def wire_simps\<close>)

lemma refines_secret_lock:
  assumes "within (wire_bytes C (TxSecretLock tx))"
  shows "SecretLockTransaction_generateBytes F tx = wire_bytes C (TxSecretLock tx)"
  unfolding SecretLockTransaction_generateBytes_def fb_defs Let_def
  by (rule sym_run, (rule fb_sym_rules builds_rules known_rules | assumption)+)
    (use assms in \<open>simp_all add: secretLockTransactionSchema_def mosaic_wire_def wire_simps\<close>)

lemma refines_secret_proof:
  assumes "within (wire_bytes C (TxSecretProof tx))"
  shows "SecretProofTransaction_generateBytes C F tx = wire_bytes C (TxSecretProof tx)"
  unfolding SecretProofTransaction_generateBytes_def fb_defs Let_def
  by (rule sym_run, (rule fb_sym_rules builds_rules known_rules | assumption)+)
    (use assms in \<open>simp_all add: secretProofTransactionSchema_def wire_simps\<close>)

lemma refines_aggregate:
  assumes "within (res_bind inner (\<lambda>txsb. wire_with a sz (wire32 (word_of_nat (length txsb)) @ txsb)))"
  shows "AggregateTransaction_generateBytes F a sz inner =
    res_bind inner (\<lambda>txsb. wire_with a sz (wire32 (word_of_nat (length txsb)) @ txsb))"
  unfolding AggregateTransaction_generateBytes_def fb_defs
  by (rule sym_run, (rule fb_sym_rules builds_rules known_rules | assumption)+)
    (use assms in \<open>simp_all add: aggregateTransactionSchema_def wire_simps\<close>)

lemmas refines_kinds =
  refines_account_properties_address refines_account_properties_mosaic refines_account_properties_entity
  refines_address_alias refines_mosaic_alias refines_account_link refines_network_config
  refines_blockchain_upgrade refines_metadata_address refines_metadata_mosaic refines_metadata_namespace
  refines_mosaic_definition refines_mosaic_supply_change refines_transfer refines_multisig
  refines_contract refines_register_namespace refines_lock_funds refines_secret_lock refines_secret_proof

end

section \<open>All transactions\<close>

lemma inner_bytes_mapR:
  "inner_bytes C F itxs txsb =
     res_map (\<lambda>bss. txsb @ concat bss) (mapR (\<lambda>itx. toAggregateTransactionBytes itx (generateBytes C F itx)) itxs)"
proof (induction itxs arbitrary: txsb)
  case (Cons itx itxs)
  then show ?case
    by (cases "toAggregateTransactionBytes itx (generateBytes C F itx)";
        cases "mapR (\<lambda>itx. toAggregateTransactionBytes itx (generateBytes C F itx)) itxs") simp_all
qed simp

text \<open>The transaction, and every transaction within it, is at most a megabyte.\<close>

fun fits :: "'k crypto \<Rightarrow> Transaction \<Rightarrow> bool" where
  "fits C (TxAggregate (AggregateTransaction a itxs cos)) =
     (within (wire_bytes C (TxAggregate (AggregateTransaction a itxs cos))) \<and> list_all (fits C) itxs)"
| "fits C tx = within (wire_bytes C tx)"

lemma fits_within: "fits C tx \<Longrightarrow> within (wire_bytes C tx)"
  by (cases "(C, tx)" rule: fits.cases) simp_all

lemma wire_aggregate:
  "wire_bytes C (TxAggregate (AggregateTransaction a itxs cos)) =
     res_bind (res_map concat (mapR (\<lambda>itx. toAggregateTransactionBytes itx (wire_bytes C itx)) itxs)) (\<lambda>txsb.
       wire_with a (Tx_Size C (TxAggregate (AggregateTransaction a itxs cos)))
         (wire32 (word_of_nat (length txsb)) @ txsb))"
  by (cases "mapR (\<lambda>itx. toAggregateTransactionBytes itx (wire_bytes C itx)) itxs") simp_all

lemma generateBytes_eq:
  assumes "flatbuffers F R"
  shows "fits C tx \<Longrightarrow> generateBytes C F tx = wire_bytes C tx"
proof (induction tx)
  case (TxAggregate ag)
  obtain a itxs cos where ag: "ag = AggregateTransaction a itxs cos" by (cases ag)
  have "generateBytes C F itx = wire_bytes C itx" if "itx \<in> set itxs" for itx
    using TxAggregate that by (simp add: ag list_all_iff)
  then have "inner_bytes C F itxs [] =
      res_map concat (mapR (\<lambda>itx. toAggregateTransactionBytes itx (wire_bytes C itx)) itxs)"
    unfolding inner_bytes_mapR by (simp cong: mapR_cong)
  then show ?case
    using flatbuffers.refines_aggregate [OF assms] fits_within [OF TxAggregate.prems]
    by (simp only: ag generateBytes.simps wire_aggregate)
qed (simp_all add: flatbuffers.refines_kinds [OF assms] del: wire_bytes.simps)

end
