(* ===== verification/TxSizes.thy ===== *)
theory TxSizes
  imports TxRefine
begin

text \<open>
  The sizes the SDK announces (\<open>Size\<close>, written into the first field) against the number of bytes it
  writes. They agree on every transaction that is \<open>sized\<close>: its addresses, keys and hashes have their
  fixed lengths, and no scalar field wider than a byte is zero. The lemmas at the end are the
  exceptions.
\<close>

section \<open>When sizes are right\<close>

definition header_full :: "AbstractTransaction \<Rightarrow> nat \<Rightarrow> bool" where
  "header_full a sz \<longleftrightarrow> (word_of_nat sz :: u32) \<noteq> 0 \<and> wire_version a \<noteq> 0 \<and> tx_Type a \<noteq> 0"

definition decodes_to :: "nat \<Rightarrow> byte list result \<Rightarrow> bool" where
  "decodes_to n r = (case r of Inl _ \<Rightarrow> True | Inr bs \<Rightarrow> length bs = n)"

definition full_address :: "Address \<Rightarrow> bool" where
  "full_address a = decodes_to 25 (b32_decode (addr_Address a))"

definition full_hash :: "Hash option \<Rightarrow> bool" where
  "full_hash h = (case h of None \<Rightarrow> True | Some bs \<Rightarrow> length bs = 32)"

definition full_keys :: "'k crypto \<Rightarrow> MultisigCosignatoryModification list \<Rightarrow> bool" where
  "full_keys C ms = list_all (\<lambda>m. decodes_to 32 (cr_HexDecodeStringOdd C (pa_PublicKey (mcm_PublicAccount m)))) ms"

definition full_metadata :: "ModifyMetadataTransaction \<Rightarrow> bool" where
  "full_metadata tx = list_all (\<lambda>m. (word_of_nat (MetadataModification_Size m) :: u32) \<noteq> 0) (mmt_Modifications tx)"

fun fields_full :: "'k crypto \<Rightarrow> Transaction \<Rightarrow> bool" where
  "fields_full C (TxAccountPropertiesAddress tx) = list_all (\<lambda>m. full_address (apam_Address m)) (apa_Modifications tx)"
| "fields_full C (TxAddressAlias tx) = full_address (aal_Address tx)"
| "fields_full C (TxAccountLink tx) =
     decodes_to 32 (cr_HexDecodeStringOdd C (pa_PublicKey (link_RemoteAccount tx)))"
| "fields_full C (TxNetworkConfig tx) =
     ((word_of_nat (length (NetworkConfig_String (nct_NetworkConfig tx))) :: u16) \<noteq> 0
      \<and> (word_of_nat (length (SupportedEntities_String C (nct_SupportedEntities tx))) :: u16) \<noteq> 0)"
| "fields_full C (TxAggregate (AggregateTransaction a itxs cos)) = ((word_of_nat (inner_sizes C itxs 0) :: u32) \<noteq> 0)"
| "fields_full C (TxModifyMetadataAddress tx) =
     (full_metadata (mma_ModifyMetadataTransaction tx)
      \<and> (case mma_Address tx of None \<Rightarrow> True | Some a \<Rightarrow> full_address a))"
| "fields_full C (TxModifyMetadataMosaic tx) = full_metadata (mmm_ModifyMetadataTransaction tx)"
| "fields_full C (TxModifyMetadataNamespace tx) = full_metadata (mmn_ModifyMetadataTransaction tx)"
| "fields_full C (TxMosaicDefinition tx) = (mdt_MosaicNonce tx \<noteq> 0)"
| "fields_full C (TxTransfer tx) =
     (full_address (tr_Recipient tx) \<and> (word_of_nat (TransferTransaction_MessageSize tx) :: u16) \<noteq> 0)"
| "fields_full C (TxModifyMultisigAccount tx) = full_keys C (mms_Modifications tx)"
| "fields_full C (TxModifyContract tx) =
     (full_hash (mct_Hash tx) \<and> full_keys C (mct_Customers tx) \<and> full_keys C (mct_Executors tx)
      \<and> full_keys C (mct_Verifiers tx))"
| "fields_full C (TxLockFunds tx) = full_hash (st_Hash (lf_SignedTransaction tx))"
| "fields_full C (TxSecretLock tx) = (length (secret_Hash (sl_Secret tx)) = 32 \<and> full_address (sl_Recipient tx))"
| "fields_full C (TxSecretProof tx) =
     (full_address (sp_Recipient tx) \<and> (word_of_nat (Proof_Size (sp_Proof tx)) :: u16) \<noteq> 0)"
| "fields_full C tx = True"

fun sized :: "'k crypto \<Rightarrow> Transaction \<Rightarrow> bool" where
  "sized C (TxAggregate (AggregateTransaction a itxs cos)) =
     (header_full a (Tx_Size C (TxAggregate (AggregateTransaction a itxs cos)))
      \<and> fields_full C (TxAggregate (AggregateTransaction a itxs cos)) \<and> list_all (sized C) itxs)"
| "sized C tx = (header_full (GetAbstractTransaction tx) (Tx_Size C tx) \<and> fields_full C tx)"

section \<open>Lengths\<close>

lemma length_header:
  "header_full a sz \<Longrightarrow> length (wire_header a d sz) = TransactionHeaderSize"
  by (simp add: header_full_def wire_header_def go_sizes)

lemma wire_with_Inr:
  "wire_with a sz body = Inr bs \<longleftrightarrow> (\<exists>d. tx_Deadline a = Some d \<and> bs = wire_header a d sz @ body)"
  by (cases "tx_Deadline a") (auto simp: wire_with_def)

lemma wire_header_at_least: "115 \<le> length (wire_header a d sz)"
  by (simp add: wire_header_def)

lemma sum_of_const: "(\<And>y. y \<in> set ys \<Longrightarrow> f y = n) \<Longrightarrow> sum_of f ys = n * length ys"
  by (induction ys) (simp_all add: sum_of_def)

lemma decoded_total:
  assumes "mapR (\<lambda>m. res_map (Pair (t m)) (g m)) ms = Inr ys" "list_all (\<lambda>m. decodes_to n (g m)) ms"
  shows "sum_of (\<lambda>y. length (snd y)) ys = n * length ms"
  using assms
proof (induction ms arbitrary: ys)
  case (Cons m ms)
  then obtain b zs where "g m = Inr b" "length b = n" "ys = (t m, b) # zs"
    "mapR (\<lambda>m. res_map (Pair (t m)) (g m)) ms = Inr zs"
    by (cases "g m") (auto simp: res_bind_Inr_iff decodes_to_def)
  with Cons show ?case by (simp add: sum_of_def)
qed (simp add: sum_of_def)

lemma address_total:
  "mapR address_item ms = Inr ys \<Longrightarrow> list_all (\<lambda>m. full_address (apam_Address m)) ms \<Longrightarrow>
     sum_of (\<lambda>y. length (snd y)) ys = 25 * length ms"
  by (rule decoded_total [where t = apam_ModificationType and g = "\<lambda>m. b32_decode (addr_Address (apam_Address m))"])
    (simp_all add: address_item_def [abs_def] full_address_def)

lemma cosignatory_total:
  "mapR (cosignatory_item C) ms = Inr ys \<Longrightarrow> full_keys C ms \<Longrightarrow> sum_of (\<lambda>y. length (snd y)) ys = 32 * length ms"
  by (rule decoded_total [where t = mcm_Type and
        g = "\<lambda>m. cr_HexDecodeStringOdd C (pa_PublicKey (mcm_PublicAccount m))"])
    (simp_all add: cosignatory_item_def [abs_def] full_keys_def)

lemma asset_total:
  "length (concat (map (mod_wire \<circ> asset_item) ms)) = 9 * length ms"
  "length (concat (map (mod_wire \<circ> entity_item) es)) = 3 * length es"
  by (induction ms, simp_all add: mod_wire_def asset_item_def) (induction es, simp_all add: mod_wire_def entity_item_def)

lemma deref_Inr: "deref p = Inr x \<longleftrightarrow> p = Some x"
  by (cases p) simp_all

lemma metadata_length:
  "list_all (\<lambda>m. (word_of_nat (MetadataModification_Size m) :: u32) \<noteq> 0) ms \<Longrightarrow>
     length (concat (map metadata_wire ms)) = foldl (\<lambda>s m. s + MetadataModification_Size m) 0 ms"
proof -
  have fold: "foldl (\<lambda>s m. s + MetadataModification_Size m) k ms = k + sum_list (map MetadataModification_Size ms)" for k
    by (induction ms arbitrary: k) simp_all
  assume "list_all (\<lambda>m. (word_of_nat (MetadataModification_Size m) :: u32) \<noteq> 0) ms"
  then show ?thesis
    unfolding fold by (induction ms) (simp_all add: metadata_wire_def MetadataModification_Size_def go_sizes)
qed

lemma wire_metadata_length:
  assumes "wire_metadata tx n bs = Inr out" "full_metadata tx"
    and "header_full (mmt_AbstractTransaction tx) (ModifyMetadataTransaction_Size tx + n)"
    and "length bs = n"
  shows "length out = ModifyMetadataTransaction_Size tx + n"
  using assms
  by (auto simp: wire_metadata_def wire_with_Inr length_header full_metadata_def metadata_length
      ModifyMetadataTransaction_Size_def go_sizes split: if_splits)

lemma toAggregate_length:
  assumes "toAggregateTransactionBytes tx r = Inr txb"
  shows "\<exists>b. r = Inr b \<and> length b = length txb + 80 \<and> 80 \<le> length b"
  using assms
  by (auto simp: toAggregateTransactionBytes_def res_bind_Inr_iff copy_slice_def subslice_def res_map_Inr_iff
      Let_def go_sizes split: option.splits if_splits)

text \<open>What an aggregate embeds of a transaction: new size, signer, version and type, and all after the header.\<close>

lemma toAggregate_eq:
  assumes "tx_Signer (GetAbstractTransaction tx) = Some s" "hex_decode (pa_PublicKey s) = Inr k"
    and "32 \<le> length k" "TransactionHeaderSize \<le> length b"
  shows "toAggregateTransactionBytes tx (Inr b) =
    Inr (le32 (word_of_nat (length b - 80)) @ take 32 k @ take 6 (drop 100 b) @ drop 122 b)"
  using assms
  by (simp add: toAggregateTransactionBytes_def go_sizes subslice_def subslice_from_def copy_slice_fits Let_def)

lemma inner_sizes_eq:
  "inner_sizes C itxs acc = acc + sum_list (map (\<lambda>t. Tx_Size C t - SignatureSize - MaxFeeSize - DeadLineSize) itxs)"
  by (induction itxs arbitrary: acc) simp_all

lemmas size_simps =
  deref_Inr res_bind_Inr_iff res_map_Inr_iff wire_with_Inr wire_properties_def wire_alias_def Let_def length_header
  length_mods length_mosaics length_properties address_total cosignatory_total asset_total
  full_address_def decodes_to_def full_hash_def mosaic_wire_def Size_defs go_sizes

lemma wire_bytes_length:
  assumes "sized C tx" "wire_bytes C tx = Inr bs"
  shows "length bs = Tx_Size C tx"
  using assms
proof (induction tx arbitrary: bs)
  case (TxAggregate ag)
  obtain a itxs cos where ag: "ag = AggregateTransaction a itxs cos" by (cases ag)
  from TxAggregate.prems(2) obtain inner d where
    inner: "mapR (\<lambda>itx. toAggregateTransactionBytes itx (wire_bytes C itx)) itxs = Inr inner" and
    bs: "bs = wire_header a d (Tx_Size C (TxAggregate ag)) @ wire32 (word_of_nat (length (concat inner))) @ concat inner"
    by (auto simp: ag res_bind_Inr_iff wire_with_Inr)
  have "length (concat inner) = inner_sizes C itxs 0"
  proof -
    have "length (concat inner) = sum_list (map (\<lambda>t. Tx_Size C t - SignatureSize - MaxFeeSize - DeadLineSize) its)"
      if "mapR (\<lambda>itx. toAggregateTransactionBytes itx (wire_bytes C itx)) its = Inr inner" "set its \<subseteq> set itxs"
      for its inner
      using that
    proof (induction its arbitrary: inner)
      case (Cons t its)
      then obtain txb rest where t: "toAggregateTransactionBytes t (wire_bytes C t) = Inr txb" "inner = txb # rest"
        "mapR (\<lambda>itx. toAggregateTransactionBytes itx (wire_bytes C itx)) its = Inr rest"
        by (auto simp: res_bind_Inr_iff)
      from toAggregate_length [OF t(1)] obtain b where b: "wire_bytes C t = Inr b" "length b = length txb + 80"
        by auto
      have "t \<in> set itxs" "sized C t"
        using Cons.prems(2) TxAggregate.prems(1) by (auto simp: ag list_all_iff)
      then have "length b = Tx_Size C t"
        using TxAggregate.IH b(1) by (auto simp: ag)
      then show ?case using Cons.IH [OF t(3)] Cons.prems(2) t(2) b(2) by (simp add: go_sizes)
    qed simp
    from this [OF inner subset_refl] show ?thesis by (simp add: inner_sizes_eq)
  qed
  with bs TxAggregate.prems(1) show ?case
    by (simp add: ag length_header go_sizes)
next
  case (TxModifyMetadataAddress tx)
  then show ?case
    by (auto simp: res_bind_Inr_iff ModifyMetadataAddressTransaction_Size_def AddressSize_def full_address_def
        decodes_to_def deref_def dest!: wire_metadata_length split: option.splits)
next
  case (TxModifyMetadataMosaic tx)
  then show ?case
    by (auto simp: res_bind_Inr_iff ModifyMetadataMosaicTransaction_Size_def go_sizes dest!: wire_metadata_length)
next
  case (TxModifyMetadataNamespace tx)
  then show ?case
    by (auto simp: res_bind_Inr_iff ModifyMetadataNamespaceTransaction_Size_def go_sizes dest!: wire_metadata_length)
next
  case (TxModifyContract tx)
  then show ?case by (auto simp: size_simps)
next
  case (TxSecretProof tx)
  then show ?case
    by (auto simp: size_simps Proof_Secret_def Proof_Size_def dest!: NewSecret_length)
next
  case (TxRegisterNamespace tx)
  then show ?case by (auto simp: size_simps)
qed (auto simp: size_simps)

text \<open>All kinds begin with the common header, the announced size first.\<close>

lemma wire_bytes_header:
  assumes "wire_bytes C tx = Inr bs"
  shows "\<exists>d body. tx_Deadline (GetAbstractTransaction tx) = Some d
    \<and> bs = wire_header (GetAbstractTransaction tx) d (Tx_Size C tx) @ body"
  using assms
  by (cases "(C, tx)" rule: fits.cases)
    (auto simp: res_bind_Inr_iff wire_with_Inr wire_properties_def wire_alias_def wire_metadata_def Let_def
      AddressAliasTransaction_Size_def MosaicAliasTransaction_Size_def ModifyMetadataAddressTransaction_Size_def
      ModifyMetadataMosaicTransaction_Size_def ModifyMetadataNamespaceTransaction_Size_def deref_def
      split: if_splits option.splits)

lemma wire_bytes_at_least: "wire_bytes C tx = Inr bs \<Longrightarrow> 115 \<le> length bs"
  using wire_bytes_header [of C tx bs] by (auto simp: wire_header_def)

end
