(* ===== verification/TxProperties.thy ===== *)
theory TxProperties
  imports TxSizes
begin

text \<open>
  The properties of the transactions' bytes: they are those of the specification, as many as
  announced, with a header that reads back; and what of them an aggregate embeds. The sample
  transactions serve the examples.
\<close>

section \<open>Sample transactions\<close>

definition sample_deadline :: Deadline where
  "sample_deadline = NewDeadlineFromBlockchainTimestamp (NewBlockchainTimestamp 5)"

definition sample_address :: Address where
  "sample_address = \<lparr>addr_Type = MijinTest, addr_Address = replicate 40 CHR ''A''\<rparr>"

definition sample_signer :: PublicAccount where
  "sample_signer = \<lparr>pa_Address = sample_address, pa_PublicKey = replicate 64 CHR ''1''\<rparr>"

definition sample_transfer :: Transaction where
  "sample_transfer = TxTransfer \<lparr>tr_AbstractTransaction =
       ToAggregate (Some sample_signer) (newAbstract TransferVersion (Some sample_deadline) ET_Transfer MijinTest),
     tr_Message = NewPlainMessage ''hi'',
     tr_Mosaics = [\<lparr>mosaic_AssetId = MosaicAsset (newMosaicIdPanic 7), mosaic_Amount = 10\<rparr>],
     tr_Recipient = sample_address\<rparr>"

definition sample_aggregate :: "Transaction AggregateTransaction" where
  "sample_aggregate = AggregateTransaction
     (newAbstract AggregateBondedVersion (Some sample_deadline) ET_AggregateBonded MijinTest) [sample_transfer] []"

lemma sample_decode: "b32_decode (replicate 40 CHR ''A'') = Inr (replicate 25 0)"
  by code_simp

lemma sample_header:
  "wire_version (newAbstract TransferVersion (Some sample_deadline) ET_Transfer MijinTest) = 0x90000003"
  "wire_version (newAbstract AggregateBondedVersion (Some sample_deadline) ET_AggregateBonded MijinTest) = 0x90000002"
  by code_simp+

lemma wire_version_signer [simp]: "wire_version (ToAggregate s a) = wire_version a"
  by (simp add: wire_version_def ToAggregate_def)

lemma sample_abstract [simp]:
  "tx_Deadline (newAbstract v d t nt) = d" "tx_Type (newAbstract v d t nt) = t"
  "tx_Deadline (ToAggregate s a) = tx_Deadline a" "tx_Type (ToAggregate s a) = tx_Type a"
  "tx_Signer (ToAggregate s a) = s"
  by (simp_all add: newAbstract_def ToAggregate_def)

lemma sample_transfer_bytes:
  "\<exists>bs. wire_bytes sample_crypto sample_transfer = Inr bs \<and> length bs = 169"
  by (simp add: sample_transfer_def sample_address_def sample_decode wire_with_def wire_header_def sample_header [unfolded go_consts]
      TransferTransaction_Size_def TransferTransaction_MessageSize_def NewPlainMessage_def go_sizes go_consts mosaic_wire_def)

lemma sample_inner_bytes:
  assumes "wire_bytes sample_crypto sample_transfer = Inr bs" "length bs = 169"
  shows "\<exists>txb. toAggregateTransactionBytes sample_transfer (Inr bs) = Inr txb \<and> length txb = 89"
proof -
  have k: "hex_decode (pa_PublicKey sample_signer) = Inr (replicate 32 0x11)" by code_simp
  have s: "tx_Signer (GetAbstractTransaction sample_transfer) = Some sample_signer"
    by (simp add: sample_transfer_def)
  show ?thesis using toAggregate_eq [OF s k, of bs] assms(2) by (simp add: go_sizes)
qed

lemma sample_facts:
  "fits sample_crypto sample_transfer" "sized sample_crypto sample_transfer"
  "fits sample_crypto (TxAggregate sample_aggregate)" "sized sample_crypto (TxAggregate sample_aggregate)"
  "is_ok (wire_bytes sample_crypto (TxAggregate sample_aggregate))"
  "header_full (GetAbstractTransaction sample_transfer) (Tx_Size sample_crypto sample_transfer)"
proof -
  obtain bs where bs: "wire_bytes sample_crypto sample_transfer = Inr bs" "length bs = 169"
    using sample_transfer_bytes by blast
  obtain txb where txb: "toAggregateTransactionBytes sample_transfer (Inr bs) = Inr txb" "length txb = 89"
    using sample_inner_bytes [OF bs] by blast
  show 1: "fits sample_crypto sample_transfer"
    using bs by (simp add: sample_transfer_def within_def wire_limit_def del: wire_bytes.simps)
  show 2: "header_full (GetAbstractTransaction sample_transfer) (Tx_Size sample_crypto sample_transfer)"
    by (simp add: sample_transfer_def header_full_def sample_header [unfolded go_consts] Size_defs go_sizes NewPlainMessage_def go_consts)
  then show 3: "sized sample_crypto sample_transfer"
    by (simp add: sample_transfer_def full_address_def sample_address_def sample_decode decodes_to_def
        TransferTransaction_MessageSize_def NewPlainMessage_def)
  have wire: "wire_bytes sample_crypto (TxAggregate sample_aggregate) =
      wire_with (newAbstract AggregateBondedVersion (Some sample_deadline) ET_AggregateBonded MijinTest)
        (Tx_Size sample_crypto (TxAggregate sample_aggregate)) (wire32 89 @ txb)"
    by (simp add: sample_aggregate_def bs(1) txb)
  then show "is_ok (wire_bytes sample_crypto (TxAggregate sample_aggregate))"
    by (simp add: wire_with_def)
  show "fits sample_crypto (TxAggregate sample_aggregate)"
    using 1 wire txb(2)
    by (simp add: sample_aggregate_def wire_with_def wire_header_def within_def wire_limit_def del: wire_bytes.simps)
  have "Tx_Size sample_crypto sample_transfer = 169"
    by (simp add: sample_transfer_def Size_defs go_sizes NewPlainMessage_def)
  then show "sized sample_crypto (TxAggregate sample_aggregate)"
    using 3 by (simp add: sample_aggregate_def header_full_def sample_header [unfolded go_consts] go_sizes go_consts)
qed

lemma is_okE: "is_ok r \<Longrightarrow> (\<And>x. r = Inr x \<Longrightarrow> P) \<Longrightarrow> P"
  by (cases r) auto

section \<open>Properties\<close>

text \<open>
  C1. For every kind of transaction, aggregates with their inner transactions included, \<open>generateBytes\<close>
  on any FlatBuffers builder that meets its documented contract returns exactly the bytes of the wire
  format (or the error) that \<open>wire_bytes\<close> specifies without buffers, tables or schemas.
\<close>

theorem generate_bytes_wire:
  assumes "flatbuffers F R" "fits C tx"
  shows "generateBytes C F tx = wire_bytes C tx"
  by (rule generateBytes_eq [OF assms])

theorem generate_bytes_wire_witness:
  "generateBytes sample_crypto reference_builder (TxAggregate sample_aggregate)
     = wire_bytes sample_crypto (TxAggregate sample_aggregate)
   \<and> is_ok (generateBytes sample_crypto reference_builder (TxAggregate sample_aggregate))"
  using generate_bytes_wire [OF reference.flatbuffers_axioms sample_facts(3)] sample_facts(5) by simp

text \<open>
  C2. The size a transaction announces is right: if its addresses, keys and hashes have their fixed
  lengths and no wide scalar field is zero, \<open>generateBytes\<close> writes as many bytes as \<open>Size\<close> says, and
  the first four of them are that number.
\<close>

theorem announced_size:
  assumes "flatbuffers F R" "fits C tx" "sized C tx" "generateBytes C F tx = Inr bs"
  shows "length bs = Tx_Size C tx \<and> take 4 bs = le32 (word_of_nat (Tx_Size C tx))"
proof -
  have w: "wire_bytes C tx = Inr bs" using assms(4) generateBytes_eq [OF assms(1,2)] by simp
  have "header_full (GetAbstractTransaction tx) (Tx_Size C tx)"
    using assms(3) by (cases "(C, tx)" rule: sized.cases) simp_all
  then show ?thesis
    using wire_bytes_length [OF assms(3) w] wire_bytes_header [OF w]
    by (auto simp: wire_header_def wire32_def header_full_def)
qed

theorem announced_size_witness:
  "\<exists>bs. generateBytes sample_crypto reference_builder (TxAggregate sample_aggregate) = Inr bs
     \<and> length bs = Tx_Size sample_crypto (TxAggregate sample_aggregate)
     \<and> take 4 bs = le32 (word_of_nat (Tx_Size sample_crypto (TxAggregate sample_aggregate)))"
proof -
  obtain bs where "generateBytes sample_crypto reference_builder (TxAggregate sample_aggregate) = Inr bs"
    using generateBytes_eq [OF reference.flatbuffers_axioms sample_facts(3)] sample_facts(5)
    by (auto elim: is_okE)
  with announced_size [OF reference.flatbuffers_axioms sample_facts(3,4) this] show ?thesis by blast
qed

text \<open>
  C7. The header reads back: from the version field of the bytes, \<open>ExtractNetworkType\<close> and
  \<open>ExtractVersion\<close>, which the REST conversions use, recover the transaction's network type and
  version; the type, fee and deadline fields follow at their fixed places; signature and signer are
  still zero.
\<close>

theorem header_roundtrip:
  assumes "flatbuffers F R" "fits C tx" "generateBytes C F tx = Inr bs"
    and "header_full (GetAbstractTransaction tx) (Tx_Size C tx)"
    and "tx_Version (GetAbstractTransaction tx) AND 0xFFFFFF = tx_Version (GetAbstractTransaction tx)"
  shows "let a = GetAbstractTransaction tx; v = word_of_nat (le_nat (take 4 (drop 100 bs))) in
    ExtractNetworkType v = tx_NetworkType a \<and> ExtractVersion v = tx_Version a
    \<and> take 2 (drop 104 bs) = le16 (tx_Type a) \<and> take 8 (drop 106 bs) = le64 (tx_MaxFee a)
    \<and> (\<exists>d. tx_Deadline a = Some d
        \<and> take 8 (drop 114 bs) = le64 (bt_baseInt64 (ToBlockchainTimestamp (dl_Timestamp d))))
    \<and> take 96 (drop 4 bs) = replicate 96 0"
proof -
  let ?a = "GetAbstractTransaction tx" and ?v = "tx_Version (GetAbstractTransaction tx)"
  have w: "wire_bytes C tx = Inr bs" using assms(3) generateBytes_eq [OF assms(1,2)] by simp
  obtain d body where d: "tx_Deadline ?a = Some d" and bs: "bs = wire_header ?a d (Tx_Size C tx) @ body"
    using wire_bytes_header [OF w] by blast
  have m: "(0xFFFFFF :: 32 word) = mask 24" by (simp add: mask_eq_exp_minus_1)
  have "push_bit 24 (ucast (tx_NetworkType ?a)) AND ?v = 0"
  proof (rule bit_word_eqI)
    fix n
    have "\<not> bit ?v n" if "24 \<le> n"
      using arg_cong [OF assms(5) [unfolded m], of "\<lambda>x. bit x n"] that by (simp add: bit_simps)
    then show "bit (push_bit 24 (ucast (tx_NetworkType ?a)) AND ?v) n = bit (0 :: u32) n"
      by (auto simp: bit_simps)
  qed
  then have v: "wire_version ?a = push_bit 24 (ucast (tx_NetworkType ?a)) OR ?v"
    by (simp add: wire_version_def disjunctive_add_eq_or)
  have vb: "word_of_nat (le_nat (le32 (wire_version ?a))) = (ucast (wire_version ?a) :: u64)"
    by simp
  show ?thesis
    using assms(4) d ExtractVersion_packed [OF assms(5)]
    by (simp add: Let_def bs wire_header_def header_full_def wire32_def wire16_def vb v wire_deadline_def
        flip: replicate_add)
qed

text \<open>
  C8. What an aggregate embeds of a transaction: the new size in four bytes, the signer's public key, the
  version and the type, and all that follows the header; signature, fee and deadline are left out. The
  embedded form is 80 bytes shorter than the transaction.
\<close>

theorem embedded_transaction:
  assumes "flatbuffers F R" "fits C tx" "header_full (GetAbstractTransaction tx) (Tx_Size C tx)"
    and "generateBytes C F tx = Inr b" "tx_Signer (GetAbstractTransaction tx) = Some signer"
    and "hex_decode (pa_PublicKey signer) = Inr key" "length key = 32"
  shows "\<exists>body.
      drop 122 b = body \<and> length body + 122 = length b
    \<and> toAggregateTransactionBytes tx (generateBytes C F tx) =
        Inr (le32 (word_of_nat (length b - 80)) @ key @ le32 (wire_version (GetAbstractTransaction tx))
          @ le16 (tx_Type (GetAbstractTransaction tx)) @ body)"
proof -
  have w: "wire_bytes C tx = Inr b" using assms(4) generateBytes_eq [OF assms(1,2)] by simp
  obtain d body where b: "b = wire_header (GetAbstractTransaction tx) d (Tx_Size C tx) @ body"
    using wire_bytes_header [OF w] by blast
  have len: "length b = 122 + length body"
    using length_header [OF assms(3), of d] by (simp add: b go_sizes)
  have "take 6 (drop 100 b) = le32 (wire_version (GetAbstractTransaction tx)) @ le16 (tx_Type (GetAbstractTransaction tx))"
    "drop 122 b = body"
    using assms(3) by (simp_all add: b wire_header_def header_full_def wire32_def wire16_def)
  then show ?thesis
    using toAggregate_eq [OF assms(5,6), of b] len assms(4,7) by (simp add: go_sizes)
qed

theorem embedded_transaction_witness:
  "\<exists>b body. generateBytes sample_crypto reference_builder sample_transfer = Inr b
    \<and> length body + 122 = length b
    \<and> toAggregateTransactionBytes sample_transfer (generateBytes sample_crypto reference_builder sample_transfer) =
        Inr (le32 (word_of_nat (length b - 80)) @ replicate 32 0x11
          @ le32 (wire_version (GetAbstractTransaction sample_transfer))
          @ le16 (tx_Type (GetAbstractTransaction sample_transfer)) @ body)"
proof -
  obtain b where b: "generateBytes sample_crypto reference_builder sample_transfer = Inr b"
    using generateBytes_eq [OF reference.flatbuffers_axioms sample_facts(1)] sample_transfer_bytes by auto
  have "hex_decode (pa_PublicKey sample_signer) = Inr (replicate 32 0x11)" by code_simp
  moreover have "tx_Signer (GetAbstractTransaction sample_transfer) = Some sample_signer"
    by (simp add: sample_transfer_def)
  ultimately show ?thesis
    using embedded_transaction [OF reference.flatbuffers_axioms sample_facts(1,6) b] b by auto
qed

theorem header_roundtrip_witness:
  "\<exists>bs. generateBytes sample_crypto reference_builder sample_transfer = Inr bs
    \<and> ExtractNetworkType (word_of_nat (le_nat (take 4 (drop 100 bs)))) = MijinTest
    \<and> ExtractVersion (word_of_nat (le_nat (take 4 (drop 100 bs)))) = TransferVersion"
proof -
  obtain b where b: "generateBytes sample_crypto reference_builder sample_transfer = Inr b"
    using generateBytes_eq [OF reference.flatbuffers_axioms sample_facts(1)] sample_transfer_bytes by auto
  have a: "tx_Version (GetAbstractTransaction sample_transfer) = TransferVersion"
    "tx_NetworkType (GetAbstractTransaction sample_transfer) = MijinTest"
    by (simp_all add: sample_transfer_def newAbstract_def ToAggregate_def)
  have "TransferVersion AND 0xFFFFFF = TransferVersion" by (simp add: go_consts)
  with header_roundtrip [OF reference.flatbuffers_axioms sample_facts(1) b sample_facts(6)] a b
  show ?thesis by (auto simp: Let_def)
qed

end
