(* ===== verification/Signing.thy ===== *)
theory Signing
  imports TxBytes
begin

text \<open>
  Signing (\<open>sdk/transaction_model.go\<close>, \<open>sdk/account_model.go\<close>): the payload of a signed transaction,
  its hash, the cosignatures appended to an aggregate, and detached cosignatures. The signer of
  \<open>go-xpx-crypto\<close> is \<open>cr_Sign\<close> with the account's key pair.
\<close>

definition createTransactionHash :: "'k crypto \<Rightarrow> string \<Rightarrow> Hash option \<Rightarrow> Hash result" where
  "createTransactionHash C p generationHash =
     res_bind (hex_decode p) (\<lambda>b.
       let sizeOfGenerationHash = (case generationHash of None \<Rightarrow> 0 | Some h \<Rightarrow> length h) in
       if length b + sizeOfGenerationHash < SizeSize + HalfOfSignature then Inl Panicked
       else
         let sb = replicate (length b + sizeOfGenerationHash - SizeSize - HalfOfSignature) 0 in
         res_bind (subslice b SizeSize (SizeSize + HalfOfSignature)) (\<lambda>rB.
         res_bind (copy_slice sb 0 HalfOfSignature rB) (\<lambda>sb.
         res_bind (subslice b (SizeSize + SignatureSize) (SizeSize + SignatureSize + SignerSize)) (\<lambda>signerB.
         res_bind (copy_slice sb HalfOfSignature (HalfOfSignature + SignerSize) signerB) (\<lambda>sb.
         res_bind (case generationHash of None \<Rightarrow> Inr sb
           | Some h \<Rightarrow> copy_slice sb (HalfOfSignature + SignerSize) (length sb) h) (\<lambda>sb.
         res_bind (subslice_from b (SizeSize + SignatureSize + SignerSize)) (\<lambda>restB.
         res_bind (copy_slice sb (HalfOfSignature + SignerSize + sizeOfGenerationHash) (length sb) restB) (\<lambda>sb.
         res_bind (cr_HashesSha3_256 C sb) (\<lambda>r.
           bytesToHash r)))))))))"

definition signTransactionWith ::
  "'k crypto \<Rightarrow> 'b fb_api \<Rightarrow> Transaction \<Rightarrow> 'k Account \<Rightarrow> SignedTransaction result" where
  "signTransactionWith C F tx a =
     res_bind (generateBytes C F tx) (\<lambda>b.
       if length b < SizeSize + SignerSize + SignatureSize then Inl Panicked
       else
         res_bind (subslice_from b (SizeSize + SignerSize + SignatureSize)) (\<lambda>restB.
           let sb = copy_at (replicate (length b - SizeSize - SignerSize - SignatureSize) 0) 0 restB;
               sb = (case acc_generationHash a of None \<Rightarrow> sb | Some h \<Rightarrow> h @ sb)
           in
           res_bind (cr_Sign C (acc_KeyPair a) sb) (\<lambda>signature.
             let p = replicate (length b) 0 in
             res_bind (subslice b 0 SizeSize) (\<lambda>sizeB.
             res_bind (copy_slice p 0 SizeSize sizeB) (\<lambda>p.
             res_bind (copy_slice p SizeSize (SizeSize + SignatureSize) signature) (\<lambda>p.
             res_bind (copy_slice p (SizeSize + SignatureSize) (SizeSize + SignatureSize + SignerSize)
               (cr_PublicKey_Raw C (acc_KeyPair a))) (\<lambda>p.
             res_bind (subslice_from b (SizeSize + SignatureSize + SignerSize)) (\<lambda>restB.
             res_bind (copy_slice p (SizeSize + SignatureSize + SignerSize) (length p) restB) (\<lambda>p.
               let ph = hex_encode p in
               res_bind (createTransactionHash C ph (acc_generationHash a)) (\<lambda>h.
                 Inr \<lparr>st_EntityType = tx_Type (GetAbstractTransaction tx), st_Payload = ToUpper ph,
                      st_Hash = Some h\<rparr>))))))))))"

text \<open>The loop over the cosignatories: \<open>p += cos.KeyPair.PublicKey.String() + hex.EncodeToString(sb.Bytes())\<close>\<close>

fun cosign_loop :: "'k crypto \<Rightarrow> Hash option \<Rightarrow> 'k Account list \<Rightarrow> string \<Rightarrow> string result" where
  "cosign_loop C hash [] p = Inr p"
| "cosign_loop C hash (cos # cosignatories) p =
     res_bind (deref hash) (\<lambda>h.
     res_bind (cr_Sign C (acc_KeyPair cos) h) (\<lambda>sb.
       cosign_loop C hash cosignatories (p @ cr_PublicKey_String C (acc_KeyPair cos) @ hex_encode sb)))"

definition signTransactionWithCosignatures ::
  "'k crypto \<Rightarrow> 'b fb_api \<Rightarrow> Transaction AggregateTransaction \<Rightarrow> 'k Account \<Rightarrow> 'k Account list
   \<Rightarrow> SignedTransaction result" where
  "signTransactionWithCosignatures C F tx a cosignatories =
     res_bind (signTransactionWith C F (TxAggregate tx) a) (\<lambda>stx.
     res_bind (cosign_loop C (st_Hash stx) cosignatories (st_Payload stx)) (\<lambda>p.
     res_bind (hex_decode p) (\<lambda>pb.
       let s = le32 (word_of_nat (length pb)) in
       res_bind (copy_slice pb 0 (length s) s) (\<lambda>pb.
         Inr \<lparr>st_EntityType = tx_Type (ag_AbstractTransaction tx), st_Payload = hex_encode pb,
              st_Hash = st_Hash stx\<rparr>))))"

definition signCosignatureTransaction ::
  "'k crypto \<Rightarrow> 'k Account \<Rightarrow> CosignatureTransaction \<Rightarrow> CosignatureSignedTransaction result" where
  "signCosignatureTransaction C a tx =
     (case tx_TransactionInfo (ag_AbstractTransaction (ct_TransactionToCosign tx)) of
        None \<Rightarrow> Inl (NewError ''cosignature transaction hash is nil'')
      | Some info \<Rightarrow>
        res_bind (deref (ti_TransactionHash info)) (\<lambda>b.
          if Hash_Empty b then Inl (NewError ''cosignature transaction hash is nil'')
          else
            res_bind (cr_Sign C (acc_KeyPair a) b) (\<lambda>sb.
            res_bind (bytesToSignature sb) (\<lambda>signature.
              Inr \<lparr>cs_ParentHash = ti_TransactionHash info, cs_Signature = signature,
                   cs_Signer = pa_PublicKey (acc_PublicAccount a)\<rparr>))))"

section \<open>The methods of accounts\<close>

definition Account_Sign ::
  "'k crypto \<Rightarrow> 'b fb_api \<Rightarrow> 'k Account \<Rightarrow> Transaction \<Rightarrow> SignedTransaction result" where
  "Account_Sign C F a tx = signTransactionWith C F tx a"

definition Account_SignWithCosignatures ::
  "'k crypto \<Rightarrow> 'b fb_api \<Rightarrow> 'k Account \<Rightarrow> Transaction AggregateTransaction \<Rightarrow> 'k Account list
   \<Rightarrow> SignedTransaction result" where
  "Account_SignWithCosignatures C F a tx cosignatories = signTransactionWithCosignatures C F tx a cosignatories"

definition Account_SignCosignatureTransaction ::
  "'k crypto \<Rightarrow> 'k Account \<Rightarrow> CosignatureTransaction \<Rightarrow> CosignatureSignedTransaction result" where
  "Account_SignCosignatureTransaction C a tx = signCosignatureTransaction C a tx"

definition Account_EncryptMessage ::
  "'k crypto \<Rightarrow> 'k Account \<Rightarrow> string \<Rightarrow> PublicAccount \<Rightarrow> Message result" where
  "Account_EncryptMessage C a message recipientPublicAccount =
     res_bind (cr_NewPublicKeyfromHex C (pa_PublicKey recipientPublicAccount)) (\<lambda>rpk.
       NewSecureMessageFromPlaintText C message (cr_PrivateKey C (acc_KeyPair a)) rpk)"

definition Account_DecryptMessage ::
  "'k crypto \<Rightarrow> 'k Account \<Rightarrow> Message \<Rightarrow> PublicAccount \<Rightarrow> Message result" where
  "Account_DecryptMessage C a encryptedMessage senderPublicAccount =
     res_bind (cr_NewPublicKeyfromHex C (pa_PublicKey senderPublicAccount)) (\<lambda>spk.
       NewPlainMessageFromEncodedData C (Message_Payload encryptedMessage) (cr_PrivateKey C (acc_KeyPair a)) spk)"

end
