(* ===== verification/TxSigning.thy ===== *)
theory TxSigning
  imports TxProperties Signing
begin

text \<open>
  What signing promises: where the signature and the public key go in the payload, which bytes are
  signed and hashed, what a cosignatory adds, and when it fails.
\<close>

section \<open>The hash and the payload\<close>

lemma copy_tail:
  "lo + length src \<le> length dst \<Longrightarrow>
     copy_slice dst lo (length dst) src = Inr (take lo dst @ src @ drop (lo + length src) dst)"
  by (simp add: copy_slice_def subslice_def copy_at_def Let_def add.commute)

lemma copy_tail':
  "n = length dst \<Longrightarrow> lo + length src \<le> length dst \<Longrightarrow>
     copy_slice dst lo n src = Inr (take lo dst @ src @ drop (lo + length src) dst)"
  by (simp add: copy_tail)

definition hash_bytes :: "Hash option \<Rightarrow> byte list" where
  "hash_bytes g = (case g of None \<Rightarrow> [] | Some h \<Rightarrow> h)"

lemma split_payload:
  assumes "100 \<le> length b"
  obtains sz s1 s2 k r where "b = sz @ s1 @ s2 @ k @ r" "length sz = 4" "length s1 = 32" "length s2 = 32" "length k = 32"
proof
  show "b = take 4 b @ take 32 (drop 4 b) @ take 32 (drop 36 b) @ take 32 (drop 68 b) @ drop 100 b"
    by (simp flip: append_assoc take_add)
qed (use assms in simp_all)

lemma createTransactionHash_parts:
  assumes "hex_decode p = Inr (sz @ s1 @ s2 @ k @ r)" "length sz = 4" "length s1 = 32" "length s2 = 32" "length k = 32"
  shows "createTransactionHash C p g = res_bind (cr_HashesSha3_256 C (s1 @ k @ hash_bytes g @ r)) bytesToHash"
proof -
  have 1: "subslice (sz @ s1 @ s2 @ k @ r) 4 36 = Inr s1"
    using assms by (simp add: subslice_def)
  have 2: "subslice (sz @ s1 @ s2 @ k @ r) 68 100 = Inr k"
    using assms by (simp add: subslice_def)
  have 3: "subslice_from (sz @ s1 @ s2 @ k @ r) 100 = Inr r"
    using assms by (simp add: subslice_def subslice_from_def)
  show ?thesis
    using assms(2-5)
    by (cases g) (simp_all add: createTransactionHash_def assms(1) go_sizes 1 2 3 hash_bytes_def copy_slice_fits
        copy_tail' Let_def)
qed

lemma signer_okD: "signer_ok C kp \<Longrightarrow> \<exists>s. cr_Sign C kp bs = Inr s \<and> length s = 64"
  by (simp add: signer_ok_def)

text \<open>What signing makes of the bytes of a transaction.\<close>

definition signed_bytes :: "byte list \<Rightarrow> byte list \<Rightarrow> byte list \<Rightarrow> byte list" where
  "signed_bytes b sig pk = take 4 b @ sig @ pk @ drop 100 b"

lemma length_signed_bytes [simp]:
  "100 \<le> length b \<Longrightarrow> length sig = 64 \<Longrightarrow> length pk = 32 \<Longrightarrow> length (signed_bytes b sig pk) = length b"
  by (simp add: signed_bytes_def)

definition payload_hash :: "'k crypto \<Rightarrow> Hash option \<Rightarrow> byte list \<Rightarrow> byte list \<Rightarrow> byte list \<Rightarrow> Hash result" where
  "payload_hash C g b sig pk = cr_HashesSha3_256 C (take 32 sig @ pk @ hash_bytes g @ drop 100 b)"

lemma signTransactionWith_eq:
  assumes "generateBytes C F tx = Inr b" "100 \<le> length b"
    and "signer_ok C (acc_KeyPair a)" "hashes_ok C"
    and "cr_Sign C (acc_KeyPair a) (hash_bytes (acc_generationHash a) @ drop 100 b) = Inr sig"
  shows "\<exists>h. payload_hash C (acc_generationHash a) b sig (cr_PublicKey_Raw C (acc_KeyPair a)) = Inr h
    \<and> signTransactionWith C F tx a =
        Inr \<lparr>st_EntityType = tx_Type (GetAbstractTransaction tx),
             st_Payload = ToUpper (hex_encode (signed_bytes b sig (cr_PublicKey_Raw C (acc_KeyPair a)))),
             st_Hash = Some h\<rparr>"
proof -
  let ?pk = "cr_PublicKey_Raw C (acc_KeyPair a)"
  have l: "length sig = 64" "length ?pk = 32"
    using assms(3,5) by (auto simp: signer_ok_def) (metis Inr_inject)
  obtain h where h: "payload_hash C (acc_generationHash a) b sig ?pk = Inr h" "length h = 32"
    using hashes_okD(2) [OF assms(4)] by (auto simp: payload_hash_def)
  have sb: "copy_at (replicate (length b - 100) 0) 0 (drop 100 b) = drop 100 b"
    by (simp add: copy_at_def)
  have c: "(case acc_generationHash a of None \<Rightarrow> sb | Some h \<Rightarrow> h @ sb) = hash_bytes (acc_generationHash a) @ sb" for sb
    by (simp add: hash_bytes_def split: option.split)
  have "take 4 b @ sig @ ?pk @ drop 100 b = take 4 b @ take 32 sig @ drop 32 sig @ ?pk @ drop 100 b"
    by (metis append_assoc append_take_drop_id)
  then have p: "hex_decode (hex_encode (take 4 b @ sig @ ?pk @ drop 100 b))
      = Inr (take 4 b @ take 32 sig @ drop 32 sig @ ?pk @ drop 100 b)"
    by (simp only: hex_decode_encode)
  have hash: "createTransactionHash C (hex_encode (take 4 b @ sig @ ?pk @ drop 100 b)) (acc_generationHash a) = Inr h"
    by (subst createTransactionHash_parts [OF p])
      (use h l assms(2) in \<open>simp_all add: payload_hash_def bytesToHash_eq\<close>)
  show ?thesis
    using assms(2) l h hash
    by (simp add: signTransactionWith_def assms(1,5) go_sizes sb c subslice_from_def subslice_ok copy_slice_fits Let_def
        signed_bytes_def)
qed

text \<open>The cosignatures an aggregate is announced with: 96 bytes each.\<close>

definition keys_printed :: "'k crypto \<Rightarrow> 'k \<Rightarrow> bool" where
  "keys_printed C kp \<longleftrightarrow> cr_PublicKey_String C kp = hex_encode (cr_PublicKey_Raw C kp)"

definition cosignature :: "'k crypto \<Rightarrow> Hash \<Rightarrow> 'k Account \<Rightarrow> byte list result" where
  "cosignature C h c = res_map (\<lambda>sig. cr_PublicKey_Raw C (acc_KeyPair c) @ sig) (cr_Sign C (acc_KeyPair c) h)"

lemma cosign_loop_eq:
  assumes "\<forall>c \<in> set cs. keys_printed C (acc_KeyPair c)"
  shows "cosign_loop C (Some h) cs p = res_map (\<lambda>cos. p @ hex_encode (concat cos)) (mapR (cosignature C h) cs)"
  using assms
proof (induction cs arbitrary: p)
  case (Cons c cs)
  then show ?case
    by (cases "cr_Sign C (acc_KeyPair c) h")
      (auto simp: cosignature_def keys_printed_def res_map_def res_bind_assoc)
qed simp

lemma cosignatures_length:
  assumes "mapR (cosignature C h) cs = Inr cos" "\<forall>c \<in> set cs. signer_ok C (acc_KeyPair c)"
  shows "length (concat cos) = 96 * length cs"
  using assms
proof (induction cs arbitrary: cos)
  case (Cons c cs)
  then obtain x xs where x: "cos = x # xs" "cosignature C h c = Inr x" "mapR (cosignature C h) cs = Inr xs"
    by (auto simp: res_bind_Inr_iff)
  then have "length x = 96"
    using Cons.prems(2) by (auto simp: cosignature_def signer_ok_def res_map_Inr_iff) (metis Inr_inject)
  then show ?case using Cons.IH [OF x(3)] Cons.prems(2) x(1) by simp
qed simp

lemma cosignatures_total:
  "\<forall>c \<in> set cs. signer_ok C (acc_KeyPair c) \<Longrightarrow> \<exists>cos. mapR (cosignature C h) cs = Inr cos"
proof (induction cs)
  case (Cons c cs)
  then obtain s where "cr_Sign C (acc_KeyPair c) h = Inr s"
    using signer_okD [of C "acc_KeyPair c" h] by auto
  then show ?case using Cons by (auto simp: cosignature_def)
qed simp

lemma hex_upper_append:
  "hex_decode (ToUpper (hex_encode xs) @ hex_encode ys) = Inr (xs @ ys)"
  by (subst hex_decode_append [of _ "xs"]) simp_all

section \<open>Sample accounts\<close>

definition sample_account :: "byte list Account" where
  "sample_account = \<lparr>acc_PublicAccount = sample_signer, acc_KeyPair = replicate 32 0,
     acc_generationHash = Some (replicate 32 7)\<rparr>"

lemma sample_account_facts:
  "cr_PublicKey_Raw sample_crypto (acc_KeyPair sample_account) = replicate 32 0"
  "tx_Type (GetAbstractTransaction (TxAggregate sample_aggregate)) = ET_AggregateBonded"
  "tx_Type (ag_AbstractTransaction sample_aggregate) = ET_AggregateBonded"
  "keys_printed sample_crypto (acc_KeyPair sample_account)"
  by (simp_all add: sample_account_def sample_crypto_def fit_def sample_aggregate_def keys_printed_def) code_simp

section \<open>Properties\<close>

text \<open>
  C3. Signing a transaction of any kind: the error of its bytes if they cannot be made; otherwise the key
  pair signs the generation hash and everything after the header's signature and signer, the payload is
  the upper-case hexadecimal form of the bytes with the signature and the public key in their places,
  and the hash is the digest of half of the signature, the key, the generation hash and the same rest.
\<close>

theorem sign_transaction:
  assumes "flatbuffers F R" "fits C tx" "signer_ok C (acc_KeyPair a)" "hashes_ok C"
  shows "case wire_bytes C tx of Inl e \<Rightarrow> Account_Sign C F a tx = Inl e
    | Inr b \<Rightarrow> \<exists>sig h.
        cr_Sign C (acc_KeyPair a) (hash_bytes (acc_generationHash a) @ drop 100 b) = Inr sig
      \<and> payload_hash C (acc_generationHash a) b sig (cr_PublicKey_Raw C (acc_KeyPair a)) = Inr h
      \<and> Account_Sign C F a tx = Inr
          \<lparr>st_EntityType = tx_Type (GetAbstractTransaction tx),
           st_Payload = ToUpper (hex_encode (signed_bytes b sig (cr_PublicKey_Raw C (acc_KeyPair a)))),
           st_Hash = Some h\<rparr>"
proof (cases "wire_bytes C tx")
  case (Inl e)
  then show ?thesis by (simp add: Account_Sign_def signTransactionWith_def generateBytes_eq [OF assms(1,2)])
next
  case (Inr b)
  obtain sig where sig: "cr_Sign C (acc_KeyPair a) (hash_bytes (acc_generationHash a) @ drop 100 b) = Inr sig"
    using signer_okD [OF assms(3)] by blast
  have "generateBytes C F tx = Inr b" "100 \<le> length b"
    using Inr wire_bytes_at_least [OF Inr] by (simp_all add: generateBytes_eq [OF assms(1,2)])
  from signTransactionWith_eq [OF this assms(3,4) sig] show ?thesis
    using Inr sig by (auto simp: Account_Sign_def)
qed

theorem sign_transaction_witness:
  "\<exists>b sig h. wire_bytes sample_crypto (TxAggregate sample_aggregate) = Inr b
    \<and> Account_Sign sample_crypto reference_builder sample_account (TxAggregate sample_aggregate) = Inr
        \<lparr>st_EntityType = ET_AggregateBonded,
         st_Payload = ToUpper (hex_encode (signed_bytes b sig (replicate 32 0))), st_Hash = Some h\<rparr>"
proof -
  obtain b where b: "wire_bytes sample_crypto (TxAggregate sample_aggregate) = Inr b"
    using sample_facts(5) by (auto elim: is_okE)
  with sign_transaction [OF reference.flatbuffers_axioms sample_facts(3) sample_signer_ok sample_hashes_ok, of sample_account]
  show ?thesis by (auto simp: sample_account_facts)
qed

text \<open>
  C5. Signing an aggregate with cosignatories: the payload is the signed aggregate with one public key and
  one signature of the transaction's hash appended per cosignatory (96 bytes each, in order), its first
  four bytes are the new length, and the hash is that of the plain signature.
\<close>

theorem sign_with_cosignatures:
  assumes "flatbuffers F R" "fits C (TxAggregate tx)" "wire_bytes C (TxAggregate tx) = Inr b"
    and "signer_ok C (acc_KeyPair a)" "hashes_ok C"
    and "\<forall>c \<in> set cs. signer_ok C (acc_KeyPair c) \<and> keys_printed C (acc_KeyPair c)"
  shows "\<exists>sig h cos.
      cr_Sign C (acc_KeyPair a) (hash_bytes (acc_generationHash a) @ drop 100 b) = Inr sig
    \<and> payload_hash C (acc_generationHash a) b sig (cr_PublicKey_Raw C (acc_KeyPair a)) = Inr h
    \<and> mapR (cosignature C h) cs = Inr cos \<and> length (concat cos) = 96 * length cs
    \<and> Account_SignWithCosignatures C F a tx cs = Inr
        \<lparr>st_EntityType = tx_Type (ag_AbstractTransaction tx),
         st_Payload = hex_encode (le32 (word_of_nat (length b + 96 * length cs))
           @ drop 4 (signed_bytes b sig (cr_PublicKey_Raw C (acc_KeyPair a))) @ concat cos),
         st_Hash = Some h\<rparr>"
proof -
  have ok: "\<forall>c \<in> set cs. signer_ok C (acc_KeyPair c)" "\<forall>c \<in> set cs. keys_printed C (acc_KeyPair c)"
    using assms(6) by auto
  obtain sig where sig: "cr_Sign C (acc_KeyPair a) (hash_bytes (acc_generationHash a) @ drop 100 b) = Inr sig"
      "length sig = 64"
    using signer_okD [OF assms(4)] by blast
  have b: "generateBytes C F (TxAggregate tx) = Inr b" "100 \<le> length b"
    using assms(3) wire_bytes_at_least [OF assms(3)] by (simp_all add: generateBytes_eq [OF assms(1,2)])
  have pk: "length (cr_PublicKey_Raw C (acc_KeyPair a)) = 32" using assms(4) by (simp add: signer_ok_def)
  obtain h where h: "payload_hash C (acc_generationHash a) b sig (cr_PublicKey_Raw C (acc_KeyPair a)) = Inr h"
    and stx: "signTransactionWith C F (TxAggregate tx) a = Inr
      \<lparr>st_EntityType = tx_Type (GetAbstractTransaction (TxAggregate tx)),
       st_Payload = ToUpper (hex_encode (signed_bytes b sig (cr_PublicKey_Raw C (acc_KeyPair a)))), st_Hash = Some h\<rparr>"
    using signTransactionWith_eq [OF b assms(4,5) sig(1)] by blast
  obtain cos where cos: "mapR (cosignature C h) cs = Inr cos" using cosignatures_total [OF ok(1)] by blast
  have len: "length (concat cos) = 96 * length cs" by (rule cosignatures_length [OF cos ok(1)])
  show ?thesis
    using cos len sig h b(2) pk
    by (simp add: Account_SignWithCosignatures_def signTransactionWithCosignatures_def stx cosign_loop_eq [OF ok(2)]
        hex_upper_append copy_slice_fits Let_def del: length_concat)
qed

theorem sign_with_cosignatures_witness:
  "\<exists>b sig h cos. wire_bytes sample_crypto (TxAggregate sample_aggregate) = Inr b
    \<and> mapR (cosignature sample_crypto h) [sample_account, sample_account] = Inr cos \<and> length (concat cos) = 192
    \<and> Account_SignWithCosignatures sample_crypto reference_builder sample_account sample_aggregate
        [sample_account, sample_account] = Inr
        \<lparr>st_EntityType = ET_AggregateBonded,
         st_Payload = hex_encode (le32 (word_of_nat (length b + 192))
           @ drop 4 (signed_bytes b sig (replicate 32 0)) @ concat cos),
         st_Hash = Some h\<rparr>"
proof -
  obtain b where b: "wire_bytes sample_crypto (TxAggregate sample_aggregate) = Inr b"
    using sample_facts(5) by (auto elim: is_okE)
  have "\<forall>c \<in> set [sample_account, sample_account].
      signer_ok sample_crypto (acc_KeyPair c) \<and> keys_printed sample_crypto (acc_KeyPair c)"
    by (simp add: sample_signer_ok sample_account_facts)
  from sign_with_cosignatures [OF reference.flatbuffers_axioms sample_facts(3) b sample_signer_ok sample_hashes_ok this,
      where a = sample_account] b
  show ?thesis by (simp add: sample_account_facts del: mapR.simps length_concat) blast
qed

text \<open>
  C23. A detached cosignature signs the hash of the transaction it names, and nothing else: without
  transaction info, or with an empty hash, it is refused; a missing hash panics; otherwise the result
  carries that hash, the cosignatory's public key and exactly the signature that
  \<open>SignWithCosignatures\<close> appends for the same account and hash.
\<close>

theorem sign_cosignature:
  assumes "signer_ok C (acc_KeyPair a)"
  shows "case tx_TransactionInfo (ag_AbstractTransaction (ct_TransactionToCosign ct)) of
      None \<Rightarrow> Account_SignCosignatureTransaction C a ct = Inl (NewError ''cosignature transaction hash is nil'')
    | Some info \<Rightarrow> (case ti_TransactionHash info of
        None \<Rightarrow> Account_SignCosignatureTransaction C a ct = Inl Panicked
      | Some h \<Rightarrow> if Hash_Empty h
          then Account_SignCosignatureTransaction C a ct = Inl (NewError ''cosignature transaction hash is nil'')
          else \<exists>cs. Account_SignCosignatureTransaction C a ct = Inr cs
            \<and> cs_ParentHash cs = Some h \<and> cs_Signer cs = pa_PublicKey (acc_PublicAccount a)
            \<and> cosignature C h a = Inr (cr_PublicKey_Raw C (acc_KeyPair a) @ cs_Signature cs))"
proof -
  have "\<exists>s. cr_Sign C (acc_KeyPair a) h = Inr s \<and> length s = 64" for h by (rule signer_okD [OF assms])
  then obtain sig where sig: "cr_Sign C (acc_KeyPair a) h = Inr (sig h)" "length (sig h) = 64" for h
    by metis
  show ?thesis
    by (auto simp: Account_SignCosignatureTransaction_def signCosignatureTransaction_def cosignature_def
        bytesToSignature_eq sig split: option.split)
qed

theorem sign_cosignature_witness:
  "\<exists>cs. Account_SignCosignatureTransaction sample_crypto sample_account
      (NewCosignatureTransactionFromHash (Some (replicate 32 1))) = Inr cs
    \<and> cs_ParentHash cs = Some (replicate 32 1)
    \<and> cs_Signer cs = pa_PublicKey sample_signer"
  using sign_cosignature [OF sample_signer_ok, of sample_account "NewCosignatureTransactionFromHash (Some (replicate 32 1))"]
  by (auto simp: NewCosignatureTransactionFromHash_def sample_account_def Hash_Empty_def Hash_Equal_def
      simp del: replicate.simps)

text \<open>
  C24. What a hash depends on: two payloads that differ only in the size field and in the second half of the
  signature have the same hash, whatever the digest.
\<close>

theorem hash_ignores:
  assumes "hex_decode p = Inr (sz @ s1 @ s2 @ rest)" "hex_decode p' = Inr (sz' @ s1 @ s2' @ rest)"
    and "length sz = 4" "length sz' = 4" "length s1 = 32" "length s2 = 32" "length s2' = 32" "32 \<le> length rest"
  shows "createTransactionHash C p g = createTransactionHash C p' g"
proof -
  have r: "rest = take 32 rest @ drop 32 rest" "length (take 32 rest) = 32" using assms(8) by simp_all
  have "hex_decode p = Inr (sz @ s1 @ s2 @ take 32 rest @ drop 32 rest)"
    "hex_decode p' = Inr (sz' @ s1 @ s2' @ take 32 rest @ drop 32 rest)"
    using assms(1,2) by simp_all
  from this [THEN createTransactionHash_parts [where C = C]] show ?thesis using assms(3-8) by simp
qed

theorem hash_ignores_witness:
  "createTransactionHash sample_crypto (hex_encode (replicate 4 0 @ replicate 64 1 @ replicate 32 2 @ [9])) (Some [3])
    = createTransactionHash sample_crypto
        (hex_encode (replicate 4 8 @ replicate 32 1 @ replicate 32 5 @ replicate 32 2 @ [9])) (Some [3])"
proof -
  have "replicate 64 (1 :: byte) = replicate 32 1 @ replicate 32 1" by (simp flip: replicate_add)
  then show ?thesis
    by (intro hash_ignores [where ?s1.0 = "replicate 32 1" and rest = "replicate 32 2 @ [9]"])
      (simp_all only: hex_decode_encode append_assoc, simp_all)
qed

lemma account_of_private_key:
  assumes "cipher_laws C public agreed seal unseal" "NewAccountFromPrivateKey C key nt h = Inr a"
  shows "cr_NewKeyPair C (Some (cr_PrivateKey C (acc_KeyPair a))) None = Inr (acc_KeyPair a)"
    and "cr_NewPublicKeyfromHex C (pa_PublicKey (acc_PublicAccount a)) = Inr (public (cr_PrivateKey C (acc_KeyPair a)))"
proof -
  from assms(2) obtain k kp ad where k: "cr_NewKeyPair C (Some k) None = Inr kp" "acc_KeyPair a = kp"
    "acc_PublicAccount a = \<lparr>pa_Address = ad, pa_PublicKey = cr_PublicKey_String C kp\<rparr>"
    by (auto simp: NewAccountFromPrivateKey_def NewAccountFromPublicKey_def res_bind_Inr_iff)
  with assms(1) show "cr_NewKeyPair C (Some (cr_PrivateKey C (acc_KeyPair a))) None = Inr (acc_KeyPair a)"
    "cr_NewPublicKeyfromHex C (pa_PublicKey (acc_PublicAccount a)) = Inr (public (cr_PrivateKey C (acc_KeyPair a)))"
    unfolding cipher_laws_def by auto
qed

text \<open>
  C37. A message between two accounts, each made from a private key: what one encrypts for the other's public account is a secure
  message, sealed with the secret of the sender's private and the recipient's public key; the recipient reads the original text with
  the sender's public account, and so does the sender with the recipient's. The hypothesis is the crypto package's: how keys relate,
  that two private keys agree on a secret, and that the same secret unseals what it sealed.
\<close>

theorem account_message_roundtrip:
  assumes "cipher_laws C public agreed seal unseal"
    and "NewAccountFromPrivateKey C keyA ntA hashA = Inr a" "NewAccountFromPrivateKey C keyB ntB hashB = Inr b"
  shows "\<exists>m. Account_EncryptMessage C a msg (acc_PublicAccount b) = Inr m \<and> Message_Type m = SecureMessageType
    \<and> Message_Payload m = seal (agreed (cr_PrivateKey C (acc_KeyPair a)) (public (cr_PrivateKey C (acc_KeyPair b)))) (string_bytes msg)
    \<and> Account_DecryptMessage C b m (acc_PublicAccount a) = Inr (NewPlainMessage msg)
    \<and> Account_DecryptMessage C a m (acc_PublicAccount b) = Inr (NewPlainMessage msg)"
proof -
  note a = account_of_private_key [OF assms(1,2)] and b = account_of_private_key [OF assms(1,3)]
  show ?thesis
    using secure_message_transport [OF assms(1) a(1) b(1), of msg]
    by (simp add: Account_EncryptMessage_def Account_DecryptMessage_def a(2) b(2) NewSecureMessage_def)
qed

text \<open>
  A toy cipher of one-byte keys: the public key is the private one plus one, the agreed secret their sum, and the secret is
  added to each byte.
\<close>

datatype toy_key = ToyPrivate byte | ToyPublic byte | ToyPair byte | ToyHalf byte

definition toy_decode :: "(byte \<Rightarrow> toy_key) \<Rightarrow> string \<Rightarrow> toy_key result" where
  "toy_decode f s = (case hex_decode s of Inr (b # _) \<Rightarrow> Inr (f b) | _ \<Rightarrow> Inl ErrInvalidHashLength)"

definition toy_crypto :: "toy_key crypto" where
  "toy_crypto = \<lparr>
     cr_sha3_New256_Sum = fit 32, cr_HashesSha3_256 = (\<lambda>bs. Inr (fit 32 bs)), cr_HashesKeccak_256 = (\<lambda>bs. Inr (fit 32 bs)),
     cr_HashesRipemd160 = (\<lambda>bs. Inr (fit 20 bs)), cr_HashesSha_256 = (\<lambda>bs. Inr (fit 32 bs)),
     cr_NewPrivateKeyfromHexString = toy_decode ToyPrivate, cr_NewPublicKeyfromHex = toy_decode ToyPublic,
     cr_NewKeyPair = (\<lambda>a b. case (a, b) of (Some (ToyPrivate k), None) \<Rightarrow> Inr (ToyPair k)
       | (None, Some (ToyPublic p)) \<Rightarrow> Inr (ToyHalf p) | _ \<Rightarrow> Inl ErrInvalidHashLength),
     cr_PublicKey_Raw = (\<lambda>_. []),
     cr_PublicKey_String = (\<lambda>kp. case kp of ToyPair k \<Rightarrow> hex_encode [k + 1] | _ \<Rightarrow> []),
     cr_PrivateKey = (\<lambda>kp. case kp of ToyPair k \<Rightarrow> ToyPrivate k | _ \<Rightarrow> kp),
     cr_Sign = (\<lambda>_ _. Inr []),
     cr_Encrypt = (\<lambda>own other m. case (own, other) of (ToyPair k, ToyHalf p) \<Rightarrow> Inr (map (\<lambda>x. x + (k + p)) m) | _ \<Rightarrow> Inl ErrInvalidHashLength),
     cr_Decrypt = (\<lambda>other own m. case (own, other) of (ToyPair k, ToyHalf p) \<Rightarrow> Inr (map (\<lambda>x. x - (k + p)) m) | _ \<Rightarrow> Inl ErrInvalidHashLength),
     cr_HexDecodeStringOdd = (\<lambda>_. Inr []), cr_MarshalEntities = (\<lambda>_. []), cr_UnmarshalEntities = (\<lambda>_. Inr [])\<rparr>"

definition toy_public :: "toy_key \<Rightarrow> toy_key" where
  "toy_public k = (case k of ToyPrivate k \<Rightarrow> ToyPublic (k + 1) | _ \<Rightarrow> k)"

definition toy_agreed :: "toy_key \<Rightarrow> toy_key \<Rightarrow> byte" where
  "toy_agreed k p = (case (k, p) of (ToyPrivate k, ToyPublic p) \<Rightarrow> k + p | _ \<Rightarrow> 0)"

lemma toy_cipher_laws:
  "cipher_laws toy_crypto toy_public toy_agreed (\<lambda>secret. map (\<lambda>x. x + secret)) (\<lambda>secret m. Inr (map (\<lambda>x. x - secret) m))"
proof -
  have pair: "cr_NewKeyPair toy_crypto (Some k) None = Inr kp \<longleftrightarrow> (\<exists>b. k = ToyPrivate b \<and> kp = ToyPair b)"
    "cr_NewKeyPair toy_crypto None (Some k) = Inr kp \<longleftrightarrow> (\<exists>b. k = ToyPublic b \<and> kp = ToyHalf b)" for k kp
    by (cases k; auto simp: toy_crypto_def)+
  have "toy_decode ToyPublic (hex_encode [b]) = Inr (ToyPublic b)" for b
    unfolding toy_decode_def hex_decode_encode by simp
  then show ?thesis
    unfolding cipher_laws_def pair by (auto simp: toy_crypto_def toy_public_def toy_agreed_def add_ac comp_def)
qed

lemma toy_account: "\<exists>a. NewAccountFromPrivateKey toy_crypto (hex_encode [k]) nt h = Inr a \<and> acc_KeyPair a = ToyPair k"
proof -
  have "hashes_ok toy_crypto" by (simp add: hashes_ok_def toy_crypto_def)
  from generateEncodedAddress_eq [OF this hex_decode_encode [of "[k + 1]"], where nt = nt] obtain ad where
    "generateEncodedAddress toy_crypto (hex_encode [k + 1]) nt = Inr ad" by blast
  moreover have "cr_NewPrivateKeyfromHexString toy_crypto (hex_encode [k]) = Inr (ToyPrivate k)"
    unfolding toy_crypto_def by (simp add: toy_decode_def hex_decode_encode del: hex_encode.simps)
  ultimately show ?thesis
    by (simp add: NewAccountFromPrivateKey_def NewAccountFromPublicKey_def NewAddressFromPublicKey_def toy_crypto_def
        del: hex_encode.simps)
qed

theorem account_message_roundtrip_witness:
  "\<exists>a b m. NewAccountFromPrivateKey toy_crypto (hex_encode [5]) Public None = Inr a
    \<and> NewAccountFromPrivateKey toy_crypto (hex_encode [9]) Public None = Inr b
    \<and> Account_EncryptMessage toy_crypto a ''hi'' (acc_PublicAccount b) = Inr m
    \<and> Message_Payload m = [119, 120]
    \<and> Account_DecryptMessage toy_crypto b m (acc_PublicAccount a) = Inr (NewPlainMessage ''hi'')"
proof -
  obtain a b where ab: "NewAccountFromPrivateKey toy_crypto (hex_encode [5]) Public None = Inr a" "acc_KeyPair a = ToyPair 5"
    "NewAccountFromPrivateKey toy_crypto (hex_encode [9]) Public None = Inr b" "acc_KeyPair b = ToyPair 9"
    using toy_account by blast
  have "map (\<lambda>x. x + toy_agreed (ToyPrivate 5) (toy_public (ToyPrivate 9))) (string_bytes ''hi'') = [119, 120]"
    by (simp add: toy_agreed_def toy_public_def string_bytes_def)
  with account_message_roundtrip [OF toy_cipher_laws ab(1,3), of "''hi''"] ab show ?thesis
    by (auto simp: toy_crypto_def)
qed

end
