(* ===== verification/NetworkParse.thy ===== *)
theory NetworkParse
  imports Network "HOL-Library.AList"
begin

text \<open>
  Reading a network configuration (\<open>UnmarshalBinary\<close> of \<open>sdk/network_model.go\<close>) and the REST forms
  of \<open>sdk/network_internal.go\<close>. The pointer to the section being read is its name in the map, where the
  code has stored it. On an error the code leaves the sections read so far in the receiver, which every
  caller drops; the model returns the error only.
\<close>

section \<open>Lines\<close>

text \<open>
  \<open>bufio.Reader.ReadLine\<close> with its buffer of 4096 bytes: a line that does not fit in it, newline included,
  comes back as a prefix. The end of the data is \<open>None\<close>; a last line without newline is returned.
\<close>

definition line_limit :: nat where "line_limit = 4096"

definition drop_cr :: "string \<Rightarrow> string" where
  "drop_cr l = (if l \<noteq> [] \<and> last l = CHR 0x0D then butlast l else l)"

definition ReadLine :: "string \<Rightarrow> (string \<times> bool \<times> string) option" where
  "ReadLine d =
     (let l = takeWhile (\<lambda>c. c \<noteq> CHR 0x0A) d in
      if d = [] then None
      else if line_limit \<le> length l then Some (take line_limit d, True, drop line_limit d)
      else (case drop (length l) d of [] \<Rightarrow> Some (l, False, [])
            | _ # rest \<Rightarrow> Some (drop_cr l, False, rest)))"

lemma ReadLine_shorter: "ReadLine d = Some (l, p, rest) \<Longrightarrow> length rest < length d"
  by (auto simp: ReadLine_def Let_def line_limit_def split: if_splits list.splits dest: arg_cong [of _ _ length])

definition string_index :: "string \<Rightarrow> char \<Rightarrow> nat option" where
  "string_index s c = (if c \<in> set s then Some (length (takeWhile (\<lambda>x. x \<noteq> c) s)) else None)"

section \<open>Parsing\<close>

definition NewConfigBag :: ConfigBag where
  "NewConfigBag = \<lparr>bag_Name = [], bag_Comment = [], bag_Index = 0, bag_Fields = []\<rparr>"

definition NewNetworkConfig :: NetworkConfig where
  "NewNetworkConfig = \<lparr>nc_Sections = []\<rparr>"

record config_parser =
  cp_Sections :: "(string \<times> ConfigBag) list"
  cp_bag :: "string option"
  cp_comment :: string

text \<open>The body of the loop, for the trimmed line number \<open>l\<close>.\<close>

definition parse_section :: "nat \<Rightarrow> string \<Rightarrow> config_parser \<Rightarrow> config_parser result" where
  "parse_section l lineS s =
     (case string_index lineS CHR '']'' of
        None \<Rightarrow> Inl (NewError (''Wrong header of section at line '' @ dec_nat l))
      | Some right \<Rightarrow>
          let name = TrimSpace (drop 1 (take right lineS));
              bag = NewConfigBag\<lparr>bag_Name := name, bag_Comment := cp_comment s, bag_Index := length (cp_Sections s)\<rparr>
          in if map_of (cp_Sections s) name \<noteq> None
             then Inl (NewError (''Duplicate section at line '' @ dec_nat l @ '' with name '' @ name))
             else Inr \<lparr>cp_Sections = AList.update name bag (cp_Sections s), cp_bag = Some name, cp_comment = []\<rparr>)"

definition add_field :: "Field \<Rightarrow> ConfigBag \<Rightarrow> ConfigBag" where
  "add_field f bag = bag\<lparr>bag_Fields := AList.update (field_Key f) (f\<lparr>field_Index := length (bag_Fields bag)\<rparr>) (bag_Fields bag)\<rparr>"

definition parse_field :: "nat \<Rightarrow> string \<Rightarrow> config_parser \<Rightarrow> config_parser result" where
  "parse_field l lineS s =
     (case string_index lineS CHR ''='' of
        None \<Rightarrow> Inl (NewError ([CHR 0x27, CHR ''='', CHR 0x27] @ '' character not found at line '' @ dec_nat l))
      | Some separatorIndex \<Rightarrow>
          if separatorIndex = 0 then Inl (NewError (''Key is empty at line '' @ dec_nat l))
          else (case cp_bag s of
              None \<Rightarrow> Inl (NewError (''The section without header at line '' @ dec_nat l))
            | Some name \<Rightarrow>
                let f = \<lparr>field_Key = TrimSpace (take separatorIndex lineS),
                         field_Value = TrimSpace (drop (Suc separatorIndex) lineS),
                         field_Comment = cp_comment s, field_Index = 0\<rparr>
                in Inr (s\<lparr>cp_Sections := AList.map_entry name (add_field f) (cp_Sections s), cp_comment := []\<rparr>)))"

definition parse_line :: "nat \<Rightarrow> string \<Rightarrow> config_parser \<Rightarrow> config_parser result" where
  "parse_line l line s =
     (let lineS = TrimSpace line in
      case lineS of
        [] \<Rightarrow> Inr (s\<lparr>cp_comment := cp_comment s @ [CHR 0x0A]\<rparr>)
      | c # _ \<Rightarrow>
          if c = CHR '';'' \<or> c = CHR ''#'' then Inr (s\<lparr>cp_comment := cp_comment s @ lineS\<rparr>)
          else if c = CHR ''['' then parse_section l lineS s
          else parse_field l lineS s)"

function parse_lines :: "string \<Rightarrow> nat \<Rightarrow> config_parser \<Rightarrow> config_parser result" where
  "parse_lines d l s =
     (case ReadLine d of
        None \<Rightarrow> Inr s
      | Some (line, isPrefix, rest) \<Rightarrow>
          if isPrefix then Inl (NewError (''Line '' @ dec_nat (Suc l) @ '' is to long''))
          else res_bind (parse_line (Suc l) line s) (parse_lines rest (Suc l)))"
  by pat_completeness auto
termination
  by (relation "measure (\<lambda>(d, _). length d)") (auto dest: ReadLine_shorter)

declare parse_lines.simps [simp del]

definition NetworkConfig_UnmarshalBinary :: "NetworkConfig \<Rightarrow> byte list \<Rightarrow> NetworkConfig result" where
  "NetworkConfig_UnmarshalBinary c data =
     res_map (\<lambda>s. \<lparr>nc_Sections = cp_Sections s\<rparr>)
       (parse_lines (bytes_string data) 0 \<lparr>cp_Sections = nc_Sections c, cp_bag = None, cp_comment = []\<rparr>)"

section \<open>Supported entities\<close>

text \<open>
  \<open>strconv.ParseUint(s, 10, 16)\<close>: decimal digits only, at most 65535. The error's text, which repeats the
  input, is left out.
\<close>

definition ParseUint16 :: "string \<Rightarrow> u16 result" where
  "ParseUint16 s =
     (if s = [] \<or> \<not> list_all (\<lambda>c. 48 \<le> (of_char c :: nat) \<and> (of_char c :: nat) \<le> 57) s
      then Inl (NewError ''strconv.ParseUint: invalid syntax'')
      else if 65535 < dec_value s then Inl (NewError ''strconv.ParseUint: value out of range'')
      else Inr (word_of_nat (dec_value s)))"

type_synonym entityDTO = "string \<times> string \<times> u32 list"

definition entityDTO_toStruct :: "entityDTO \<Rightarrow> Entity result" where
  "entityDTO_toStruct dto =
     (case dto of (name, typ, versions) \<Rightarrow>
        res_map (\<lambda>entityType. \<lparr>ent_Name = name, ent_Type = entityType, ent_SupportedVersions = versions\<rparr>)
          (ParseUint16 typ))"

fun supportedEntitiesDTO_toStruct :: "entityDTO list \<Rightarrow> SupportedEntities \<Rightarrow> SupportedEntities result" where
  "supportedEntitiesDTO_toStruct [] ref = Inr ref"
| "supportedEntitiesDTO_toStruct (dto # dtos) ref =
     res_bind (entityDTO_toStruct dto) (\<lambda>entity.
       supportedEntitiesDTO_toStruct dtos (ref\<lparr>se_Entities := AList.update (ent_Type entity) entity (se_Entities ref)\<rparr>))"

definition NewSupportedEntities :: SupportedEntities where
  "NewSupportedEntities = \<lparr>se_Entities = []\<rparr>"

definition SupportedEntities_UnmarshalBinary :: "'k crypto \<Rightarrow> SupportedEntities \<Rightarrow> byte list \<Rightarrow> SupportedEntities result" where
  "SupportedEntities_UnmarshalBinary C s data =
     res_bind (cr_UnmarshalEntities C data) (\<lambda>dto. supportedEntitiesDTO_toStruct dto s)"

section \<open>The REST forms\<close>

record BlockchainConfig =
  bcc_StartedHeight :: Height
  bcc_NetworkConfig :: NetworkConfig
  bcc_SupportedEntityVersions :: SupportedEntities

record blockchainConfigDTO =
  bcd_StartedHeight :: uint64DTO
  bcd_NetworkConfig :: string
  bcd_SupportedEntityVersions :: string

definition blockchainConfigDTO_toStruct :: "'k crypto \<Rightarrow> blockchainConfigDTO \<Rightarrow> BlockchainConfig result" where
  "blockchainConfigDTO_toStruct C dto =
     res_bind (SupportedEntities_UnmarshalBinary C NewSupportedEntities (string_bytes (bcd_SupportedEntityVersions dto))) (\<lambda>s.
     res_bind (NetworkConfig_UnmarshalBinary NewNetworkConfig (string_bytes (bcd_NetworkConfig dto))) (\<lambda>c.
     res_bind (uint64DTO_toUint64 (bcd_StartedHeight dto)) (\<lambda>h.
       Inr \<lparr>bcc_StartedHeight = h, bcc_NetworkConfig = c, bcc_SupportedEntityVersions = s\<rparr>)))"

record NetworkVersion =
  nv_StartedHeight :: Height
  nv_BlockChainVersion :: BlockChainVersion

record networkVersionDTO =
  nvd_StartedHeight :: uint64DTO
  nvd_BlockChainVersion :: uint64DTO

definition networkVersionDTO_toStruct :: "networkVersionDTO \<Rightarrow> NetworkVersion result" where
  "networkVersionDTO_toStruct dto =
     res_bind (uint64DTO_toUint64 (nvd_StartedHeight dto)) (\<lambda>h.
     res_bind (uint64DTO_toUint64 (nvd_BlockChainVersion dto)) (\<lambda>v.
       Inr \<lparr>nv_StartedHeight = h, nv_BlockChainVersion = v\<rparr>))"

end
