(* ===== verification/NetworkRoundtrip.thy ===== *)
theory NetworkRoundtrip
  imports NetworkParse
begin

text \<open>
  Printing a well-formed network configuration and reading it back gives the same configuration, in whatever order the loops over
  its maps visit the entries.
\<close>

section \<open>Trimmed text\<close>

definition trimmed :: "string \<Rightarrow> bool" where
  "trimmed s \<longleftrightarrow> (\<forall>w \<in> set white. \<not> prefix w s \<and> \<not> suffix w s)"

definition black :: "char \<Rightarrow> bool" where
  "black c \<longleftrightarrow> (\<forall>w \<in> set white. c \<notin> set w)"

abbreviation NL :: char where "NL \<equiv> CHR 0x0A"

lemma white_alone_all:
  "list_all (\<lambda>w. (CHR '' '' \<in> set w \<longrightarrow> w = '' '') \<and> (NL \<in> set w \<longrightarrow> w = [NL])) white"
  by code_simp

lemma white_alone:
  "w \<in> set white \<Longrightarrow> CHR '' '' \<in> set w \<Longrightarrow> w = '' ''"
  "w \<in> set white \<Longrightarrow> NL \<in> set w \<Longrightarrow> w = [NL]"
  using white_alone_all by (auto simp: list_all_iff)

lemma white_members_all: "list_all (\<lambda>w. List.member white w) [[NL], '' '', [CHR 0x0D]]"
  by code_simp

lemma white_members: "[NL] \<in> set white" "'' '' \<in> set white" "[CHR 0x0D] \<in> set white"
  using white_members_all by simp_all

lemma black_all: "list_all (\<lambda>c. list_all (\<lambda>w. \<not> List.member w c) white) ''#;=[]''"
  by code_simp

lemma black_marks [simp]: "black CHR ''#''" "black CHR '';''" "black CHR ''=''" "black CHR ''[''" "black CHR '']''"
  using black_all by (simp_all add: black_def list_all_iff)

lemma trim_left_keeps: "\<forall>w \<in> set white. \<not> prefix w s \<Longrightarrow> trim_left s = s"
  by (subst trim_left.simps) (auto split: option.split simp: find_Some_iff dest: nth_mem)

lemma trim_right_keeps: "\<forall>w \<in> set white. \<not> suffix w s \<Longrightarrow> trim_right s = s"
  by (subst trim_right.simps) (auto split: option.split simp: find_Some_iff dest: nth_mem)

lemma TrimSpace_trimmed: "trimmed s \<Longrightarrow> TrimSpace s = s"
  by (simp add: TrimSpace_def trimmed_def trim_left_keeps trim_right_keeps)

lemma trim_left_black: "black c \<Longrightarrow> c \<in> set s \<Longrightarrow> c \<in> set (trim_left s)"
proof (induction s rule: trim_left.induct)
  case (1 s)
  show ?case
  proof (cases "find (\<lambda>w. prefix w s) white")
    case (Some w)
    then have w: "w \<in> set white" "prefix w s" by (auto simp: find_Some_iff)
    then have "c \<notin> set w" using 1(2) by (simp add: black_def)
    then have "c \<in> set (drop (length w) s)" using w(2) 1(3) by (auto elim!: prefixE)
    then show ?thesis using Some 1(1,2) by (subst trim_left.simps) simp
  qed (use 1(3) in \<open>subst trim_left.simps, simp\<close>)
qed

lemma trim_right_black: "black c \<Longrightarrow> c \<in> set s \<Longrightarrow> c \<in> set (trim_right s)"
proof (induction s rule: trim_right.induct)
  case (1 s)
  show ?case
  proof (cases "find (\<lambda>w. suffix w s) white")
    case (Some w)
    then have w: "w \<in> set white" "suffix w s" by (auto simp: find_Some_iff)
    then have "c \<notin> set w" using 1(2) by (simp add: black_def)
    then have "c \<in> set (take (length s - length w) s)" using w(2) 1(3) by (auto elim!: suffixE)
    then show ?thesis using Some 1(1,2) by (subst trim_right.simps) simp
  qed (use 1(3) in \<open>subst trim_right.simps, simp\<close>)
qed

lemma TrimSpace_black: "black c \<Longrightarrow> c \<in> set s \<Longrightarrow> TrimSpace s \<noteq> []"
  using trim_right_black [OF _ trim_left_black] by (force simp: TrimSpace_def)

lemma find_white: "w \<in> set white \<Longrightarrow> (\<And>v. v \<in> set white \<Longrightarrow> P v \<Longrightarrow> v = w) \<Longrightarrow> P w \<Longrightarrow> find P white = Some w"
  by (cases "find P white") (simp add: find_None_iff, metis find_Some_iff nth_mem)

lemma TrimSpace_newlines: "TrimSpace (replicate n NL) = []"
proof (induction n)
  case (Suc n)
  have "find (\<lambda>w. prefix w (replicate (Suc n) NL)) white = Some [NL]"
  proof (rule find_white [OF white_members(1)])
    fix v assume v: "v \<in> set white" "prefix v (replicate (Suc n) NL)"
    then obtain c r where "v = c # r" using white_not_Nil by (meson neq_Nil_conv)
    then have "NL \<in> set v" using v(2) by simp
    then show "v = [NL]" using white_alone v(1) by blast
  qed simp
  then have "trim_left (replicate (Suc n) NL) = trim_left (replicate n NL)"
    by (subst trim_left.simps) simp
  then show ?case using Suc by (simp add: TrimSpace_def)
qed (simp add: TrimSpace_def trim_left_keeps trim_right_keeps white_not_Nil)

text \<open>A line of a key and a value; an empty value leaves a blank behind the sign.\<close>

lemma no_white_prefix:
  assumes "trimmed k" "k \<noteq> []" "w \<in> set white"
  shows "\<not> prefix w (k @ CHR '' '' # r)"
proof
  assume "prefix w (k @ CHR '' '' # r)"
  then consider "prefix w k" | v where "w = k @ v" "prefix v (CHR '' '' # r)" "v \<noteq> []"
    by (auto simp: prefix_append) blast
  then show False
  proof cases
    case 2
    then have "CHR '' '' \<in> set w" by (cases v) auto
    then show False using white_alone(1) [OF assms(3)] 2 assms(2) by (cases k) auto
  qed (use assms in \<open>simp add: trimmed_def\<close>)
qed

lemma no_white_suffix:
  assumes "trimmed v" "v \<noteq> []" "w \<in> set white"
  shows "\<not> suffix w (x @ CHR '' '' # v)"
proof
  assume "suffix w (x @ CHR '' '' # v)"
  then consider "suffix w v" | u where "w = u @ v" "suffix u (x @ '' '')" "u \<noteq> []"
    using suffix_append [of w "x @ '' ''" v] by auto
  then show False
  proof cases
    case 2
    then have "CHR '' '' \<in> set w" by (auto simp: suffix_def)  (metis last_in_set last_snoc last_appendR)
    then show False using white_alone(1) [OF assms(3)] 2 assms(2) by (cases u) auto
  qed (use assms in \<open>simp add: trimmed_def\<close>)
qed

lemma trimmed_white:
  "trimmed s \<Longrightarrow> w \<in> set white \<Longrightarrow> \<not> prefix w s"
  "trimmed s \<Longrightarrow> w \<in> set white \<Longrightarrow> \<not> suffix w s"
  by (simp_all add: trimmed_def)

lemma not_suffix_black: "black c \<Longrightarrow> w \<in> set white \<Longrightarrow> \<not> suffix w (x @ [c])"
  using white_not_Nil by (auto simp: black_def suffix_snoc)

lemma trimmed_ends: "black c \<Longrightarrow> black d \<Longrightarrow> trimmed (c # x @ [d])"
  using white_not_Nil not_suffix_black [of d _ "c # x"] by (auto simp: trimmed_def black_def prefix_Cons)

lemma trim_right_blank: "trimmed k \<Longrightarrow> trim_right (k @ '' '') = k"
proof -
  assume k: "trimmed k"
  have "find (\<lambda>w. suffix w (k @ '' '')) white = Some '' ''"
  proof (rule find_white [OF white_members(2)])
    fix w assume w: "w \<in> set white" "suffix w (k @ '' '')"
    then have "CHR '' '' \<in> set w" using white_not_Nil suffix_snoc [of w k "CHR '' ''"] by auto
    then show "w = '' ''" using white_alone(1) w(1) by blast
  qed (simp add: suffix_def)
  then show "trim_right (k @ '' '') = k"
    using k by (subst trim_right.simps) (simp add: trim_right_keeps trimmed_white)
qed

lemma trim_left_blank: "trimmed v \<Longrightarrow> trim_left (CHR '' '' # v) = v"
proof -
  assume v: "trimmed v"
  have "find (\<lambda>w. prefix w (CHR '' '' # v)) white = Some '' ''"
  proof (rule find_white [OF white_members(2)])
    fix w assume w: "w \<in> set white" "prefix w (CHR '' '' # v)"
    then have "CHR '' '' \<in> set w" using white_not_Nil by (auto simp: prefix_Cons)
    then show "w = '' ''" using white_alone(1) w(1) by blast
  qed simp
  then show "trim_left (CHR '' '' # v) = v"
    using v by (subst trim_left.simps) (simp add: trim_left_keeps trimmed_white)
qed

definition key_ok :: "string \<Rightarrow> bool" where
  "key_ok k \<longleftrightarrow> k \<noteq> [] \<and> trimmed k \<and> CHR ''='' \<notin> set k \<and> NL \<notin> set k \<and> hd k \<notin> {CHR '';'', CHR ''#'', CHR ''[''}"

definition value_ok :: "string \<Rightarrow> bool" where
  "value_ok v \<longleftrightarrow> trimmed v \<and> NL \<notin> set v"

lemma TrimSpace_entry:
  assumes "key_ok k" "value_ok v"
  shows "TrimSpace (k @ '' = '' @ v) = k @ (if v = [] then '' ='' else '' = '' @ v)"
proof -
  have k: "trimmed k" "k \<noteq> []" using assms(1) by (simp_all add: key_ok_def)
  have l: "trim_left (k @ '' = '' @ v) = k @ '' = '' @ v"
    by (rule trim_left_keeps) (simp add: no_white_prefix [OF k])
  show ?thesis
  proof (cases "v = []")
    case True
    have "find (\<lambda>w. suffix w (k @ '' = '')) white = Some '' ''"
    proof (rule find_white [OF white_members(2)])
      fix w assume w: "w \<in> set white" "suffix w (k @ '' = '')"
      then have "CHR '' '' \<in> set w" using white_not_Nil suffix_snoc [of w "k @ '' =''" "CHR '' ''"] by auto
      then show "w = '' ''" using white_alone(1) w(1) by blast
    qed (simp add: suffix_def)
    then have "trim_right (k @ '' = '') = trim_right (k @ '' ='')"
      by (subst trim_right.simps) simp
    also have "\<dots> = k @ '' =''"
      by (rule trim_right_keeps) (use not_suffix_black [of "CHR ''=''" _ "k @ '' ''"] in simp)
    finally show ?thesis using l True by (simp add: TrimSpace_def)
  next
    case False
    have "trim_right (k @ '' = '' @ v) = k @ '' = '' @ v"
      using no_white_suffix [of v _ "k @ '' =''"] assms(2) False
      by (intro trim_right_keeps) (simp add: value_ok_def)
    then show ?thesis using l False by (simp add: TrimSpace_def)
  qed
qed

lemma string_index_append: "c \<notin> set x \<Longrightarrow> string_index (x @ c # y) c = Some (length x)"
  by (induction x) (auto simp: string_index_def)

text \<open>The parts of an entry: up to the sign, and after it.\<close>

lemma trimmed_value [simp]: "value_ok v \<Longrightarrow> trimmed v"
  by (simp add: value_ok_def)

lemma entry_parts:
  assumes "key_ok k" "value_ok v"
  shows "string_index (TrimSpace (k @ '' = '' @ v)) CHR ''='' = Some (Suc (length k))"
    "TrimSpace (take (Suc (length k)) (TrimSpace (k @ '' = '' @ v))) = k"
    "TrimSpace (drop (Suc (Suc (length k))) (TrimSpace (k @ '' = '' @ v))) = v"
proof -
  have k: "trimmed k" "k \<noteq> []" "CHR ''='' \<notin> set (k @ '' '')" using assms(1) by (simp_all add: key_ok_def)
  have split: "TrimSpace (k @ '' = '' @ v) = (k @ '' '') @ CHR ''='' # (if v = [] then [] else CHR '' '' # v)"
    by (subst TrimSpace_entry [OF assms]) simp
  show "string_index (TrimSpace (k @ '' = '' @ v)) CHR ''='' = Some (Suc (length k))"
    unfolding split by (subst string_index_append [OF k(3)]) simp
  have "trim_left (k @ '' '') = k @ '' ''"
    by (rule trim_left_keeps) (use no_white_prefix [OF k(1,2), of _ "[]"] in blast)
  then show "TrimSpace (take (Suc (length k)) (TrimSpace (k @ '' = '' @ v))) = k"
    unfolding split by (simp add: TrimSpace_def trim_right_blank [OF k(1)])
  have "trim_left [] = []" "trim_right [] = []"
    using white_not_Nil by (auto intro!: trim_left_keeps trim_right_keeps)
  moreover have "trim_right v = v" using assms(2) by (simp add: trim_right_keeps trimmed_white)
  ultimately show "TrimSpace (drop (Suc (Suc (length k))) (TrimSpace (k @ '' = '' @ v))) = v"
    unfolding split using trim_left_blank [OF trimmed_value [OF assms(2)]] by (simp add: TrimSpace_def)
qed

lemma header_parts:
  assumes "trimmed n" "CHR '']'' \<notin> set n"
  shows "TrimSpace (''['' @ n @ '']'') = ''['' @ n @ '']''"
    "string_index (''['' @ n @ '']'') CHR '']'' = Some (Suc (length n))"
    "TrimSpace (drop 1 (take (Suc (length n)) (''['' @ n @ '']''))) = n"
  using trimmed_ends [of "CHR ''[''" "CHR '']''" n] string_index_append [of "CHR '']''" "''['' @ n" "[]"] assms
  by (simp_all add: TrimSpace_trimmed)

section \<open>Reading printed lines\<close>

lemma ReadLine_line:
  "NL \<notin> set l \<Longrightarrow> length l < line_limit \<Longrightarrow> ReadLine (l @ NL # rest) = Some (drop_cr l, False, rest)"
proof -
  assume "NL \<notin> set l" "length l < line_limit"
  moreover from this(1) have "takeWhile (\<lambda>c. c \<noteq> NL) (l @ NL # rest) = l" by (induction l) auto
  ultimately show ?thesis by (simp add: ReadLine_def Let_def)
qed

lemma drop_cr_no: "\<not> suffix [CHR 0x0D] l \<Longrightarrow> drop_cr l = l"
  by (cases l rule: rev_cases) (auto simp: drop_cr_def suffix_def)

text \<open>\<open>reads t s s'\<close>: the lines of the text \<open>t\<close> take the reader from \<open>s\<close> to \<open>s'\<close>.\<close>

definition reads :: "string \<Rightarrow> config_parser \<Rightarrow> config_parser \<Rightarrow> bool" where
  "reads t s s' \<longleftrightarrow> (\<forall>rest n. \<exists>n'. parse_lines (t @ rest) n s = parse_lines rest n' s')"

lemma reads_Nil: "reads [] s s"
  by (auto simp: reads_def)

lemma reads_append: "reads t s s' \<Longrightarrow> reads u s' s'' \<Longrightarrow> reads (t @ u) s s''"
  unfolding reads_def by (metis append_assoc)

lemma reads_line:
  assumes "NL \<notin> set l" "length l < line_limit" "\<not> suffix [CHR 0x0D] l" "\<And>n. parse_line n l s = Inr s'"
  shows "reads (l @ [NL]) s s'"
  unfolding reads_def
proof (intro allI exI)
  fix rest n
  show "parse_lines ((l @ [NL]) @ rest) n s = parse_lines rest (Suc n) s'"
    using ReadLine_line [OF assms(1,2), of rest] drop_cr_no [OF assms(3)] assms(4)
    by (subst parse_lines.simps) simp
qed

lemma reads_done: "reads t s s' \<Longrightarrow> parse_lines t n s = Inr s'"
proof -
  assume "reads t s s'"
  then obtain n' where "parse_lines (t @ []) n s = parse_lines [] n' s'" unfolding reads_def by blast
  then show ?thesis by (simp add: parse_lines.simps [of "[]"] ReadLine_def)
qed

section \<open>Comments\<close>

text \<open>
  What reading makes of the lines before a header or an entry: blank lines, then at most one line of
  comment, then blank lines again. (Two lines of comment are joined, see \<open>comment_lines_join\<close>.)
\<close>

definition remark_ok :: "string \<Rightarrow> bool" where
  "remark_ok w \<longleftrightarrow> w \<noteq> [] \<and> hd w \<in> {CHR '';'', CHR ''#''} \<and> trimmed w \<and> NL \<notin> set w \<and> length w < line_limit"

definition comment_ok :: "string \<Rightarrow> bool" where
  "comment_ok c \<longleftrightarrow>
     (\<exists>k m w. c = replicate k NL @ w @ replicate m NL \<and> (w = [] \<or> remark_ok w))"

definition printed_comment :: "string \<Rightarrow> string" where
  "printed_comment c = (if length (TrimSpace c) \<noteq> 0 then c @ [NL] else c)"

lemma TrimSpace_empty [simp]: "TrimSpace [] = []"
  using TrimSpace_newlines [of 0] by simp

lemma reads_newlines: "reads (replicate k NL) s (s\<lparr>cp_comment := cp_comment s @ replicate k NL\<rparr>)"
proof (induction k arbitrary: s)
  case (Suc k)
  have "reads [NL] s (s\<lparr>cp_comment := cp_comment s @ [NL]\<rparr>)"
    using reads_line [of "[]"] by (simp add: parse_line_def line_limit_def)
  from reads_append [OF this Suc] show ?case by simp
qed (simp add: reads_Nil)

lemma reads_remark: "remark_ok w \<Longrightarrow> reads (w @ [NL]) s (s\<lparr>cp_comment := cp_comment s @ w\<rparr>)"
  using trimmed_white(2) white_members(3)
  by (intro reads_line) (auto simp: remark_ok_def parse_line_def TrimSpace_trimmed neq_Nil_conv)

lemma reads_comment:
  assumes "comment_ok c"
  shows "reads (printed_comment c) s (s\<lparr>cp_comment := cp_comment s @ c\<rparr>)"
proof -
  obtain k m w where c: "c = replicate k NL @ w @ replicate m NL" "w = [] \<or> remark_ok w"
    using assms by (auto simp: comment_ok_def)
  show ?thesis
  proof (cases "w = []")
    case True
    then have "c = replicate (k + m) NL" using c(1) by (simp add: replicate_add)
    then show ?thesis using reads_newlines [of "k + m" s] by (simp add: printed_comment_def TrimSpace_newlines)
  next
    case False
    then have w: "remark_ok w" using c(2) by simp
    then have "hd w \<in> set c" "black (hd w)" using c(1) by (auto simp: remark_ok_def)
    then have "printed_comment c = replicate k NL @ (w @ [NL]) @ replicate m NL"
      using TrimSpace_black [of "hd w" c] c(1) by (simp add: printed_comment_def replicate_append_same)
    then show ?thesis
      using reads_append [OF reads_newlines [of k s] reads_append [OF reads_remark [OF w] reads_newlines [of m]]] c(1)
      by simp
  qed
qed

section \<open>Entries and sections\<close>

definition field_ok :: "string \<times> Field \<Rightarrow> bool" where
  "field_ok p \<longleftrightarrow> (case p of (k, f) \<Rightarrow> field_Key f = k \<and> key_ok k \<and> value_ok (field_Value f)
     \<and> comment_ok (field_Comment f) \<and> length k + 3 + length (field_Value f) < line_limit)"

lemma Field_String_eq: "Field_String f = printed_comment (field_Comment f) @ field_Key f @ '' = '' @ field_Value f"
  by (simp add: Field_String_def printed_comment_def)

lemma update_new: "k \<notin> fst ` set al \<Longrightarrow> AList.update k v al = al @ [(k, v)]"
  by (induction al) auto

lemma map_entry_last: "k \<notin> fst ` set al \<Longrightarrow> AList.map_entry k f (al @ [(k, v)]) = al @ [(k, f v)]"
  by (induction al) auto

lemma reads_field:
  assumes "field_ok (k, f)" "field_Index f = length (bag_Fields bag)" "k \<notin> fst ` set (bag_Fields bag)"
    and "n \<notin> fst ` set secs"
  shows "reads (Field_String f @ [NL]) \<lparr>cp_Sections = secs @ [(n, bag)], cp_bag = Some n, cp_comment = []\<rparr>
    \<lparr>cp_Sections = secs @ [(n, bag\<lparr>bag_Fields := bag_Fields bag @ [(k, f)]\<rparr>)], cp_bag = Some n, cp_comment = []\<rparr>"
proof -
  let ?v = "field_Value f" and ?c = "field_Comment f"
  have ok: "key_ok k" "value_ok ?v" "comment_ok ?c" "field_Key f = k" "length k + 3 + length ?v < line_limit"
    using assms(1) by (simp_all add: field_ok_def)
  let ?s = "\<lparr>cp_Sections = secs @ [(n, bag)], cp_bag = Some n, cp_comment = ?c\<rparr>"
  have k: "hd k \<notin> {CHR '';'', CHR ''#'', CHR ''[''}" "k \<noteq> []" using ok(1) by (simp_all add: key_ok_def)
  have t: "hd (TrimSpace (k @ '' = '' @ ?v)) = hd k" "TrimSpace (k @ '' = '' @ ?v) \<noteq> []"
    using k(2) unfolding TrimSpace_entry [OF ok(1,2)] by simp_all
  have "reads ((k @ '' = '' @ ?v) @ [NL]) ?s
    \<lparr>cp_Sections = secs @ [(n, bag\<lparr>bag_Fields := bag_Fields bag @ [(k, f)]\<rparr>)], cp_bag = Some n, cp_comment = []\<rparr>"
  proof (rule reads_line)
    show "NL \<notin> set (k @ '' = '' @ ?v)" using ok(1,2) by (auto simp: key_ok_def value_ok_def)
    show "length (k @ '' = '' @ ?v) < line_limit" using ok(5) by simp
    show "\<not> suffix [CHR 0x0D] (k @ '' = '' @ ?v)"
      using no_white_suffix [OF trimmed_value [OF ok(2)] _ white_members(3), of "k @ '' =''"]
        suffix_snoc [of "[CHR 0x0D]" "k @ '' =''" "CHR '' ''"]
      by (cases "?v = []") simp_all
    fix l
    obtain x xs where line: "TrimSpace (k @ '' = '' @ ?v) = x # xs" "x = hd k"
      using t by (cases "TrimSpace (k @ '' = '' @ ?v)") auto
    then have "parse_line l (k @ '' = '' @ ?v) ?s = parse_field l (TrimSpace (k @ '' = '' @ ?v)) ?s"
      using k(1) by (simp add: parse_line_def)
    also have "\<dots> = Inr \<lparr>cp_Sections = secs @ [(n, bag\<lparr>bag_Fields := bag_Fields bag @ [(k, f)]\<rparr>)],
        cp_bag = Some n, cp_comment = []\<rparr>"
      unfolding parse_field_def entry_parts(1) [OF ok(1,2)]
      using assms(2-4) ok(4)
      by (simp add: entry_parts(2,3) [OF ok(1,2)] map_entry_last add_field_def update_new del: append_Cons)
    finally show "parse_line l (k @ '' = '' @ ?v) ?s = \<dots>" .
  qed
  with reads_comment [OF ok(3), of "\<lparr>cp_Sections = secs @ [(n, bag)], cp_bag = Some n, cp_comment = []\<rparr>"]
  show ?thesis using reads_append by (fastforce simp: Field_String_eq ok(4))
qed

text \<open>The entries of a section, in the order of their indices.\<close>

fun fields_ok :: "nat \<Rightarrow> string set \<Rightarrow> (string \<times> Field) list \<Rightarrow> bool" where
  "fields_ok i ks [] \<longleftrightarrow> True"
| "fields_ok i ks (p # ps) \<longleftrightarrow>
     field_ok p \<and> field_Index (snd p) = i \<and> fst p \<notin> ks \<and> fields_ok (Suc i) (insert (fst p) ks) ps"

lemma reads_fields:
  assumes "fields_ok (length (bag_Fields bag)) (fst ` set (bag_Fields bag)) ps" "n \<notin> fst ` set secs"
  shows "reads (concat (map (\<lambda>f. Field_String f @ [NL]) (map snd ps)))
    \<lparr>cp_Sections = secs @ [(n, bag)], cp_bag = Some n, cp_comment = []\<rparr>
    \<lparr>cp_Sections = secs @ [(n, bag\<lparr>bag_Fields := bag_Fields bag @ ps\<rparr>)], cp_bag = Some n, cp_comment = []\<rparr>"
  using assms
proof (induction ps arbitrary: bag)
  case (Cons p ps)
  obtain k f where p: "p = (k, f)" by (cases p)
  let ?bag = "bag\<lparr>bag_Fields := bag_Fields bag @ [(k, f)]\<rparr>"
  have "reads (Field_String f @ [NL]) \<lparr>cp_Sections = secs @ [(n, bag)], cp_bag = Some n, cp_comment = []\<rparr>
      \<lparr>cp_Sections = secs @ [(n, ?bag)], cp_bag = Some n, cp_comment = []\<rparr>"
    using Cons.prems p by (intro reads_field) simp_all
  moreover have "fields_ok (length (bag_Fields ?bag)) (fst ` set (bag_Fields ?bag)) ps"
    using Cons.prems(1) p by simp
  note Cons.IH [OF this Cons.prems(2)]
  ultimately show ?case using reads_append p by fastforce
qed (simp add: reads_Nil)

definition section_ok :: "string \<times> ConfigBag \<Rightarrow> bool" where
  "section_ok p \<longleftrightarrow> (case p of (n, bag) \<Rightarrow> bag_Name bag = n \<and> trimmed n \<and> CHR '']'' \<notin> set n \<and> NL \<notin> set n
     \<and> length n + 2 < line_limit \<and> comment_ok (bag_Comment bag) \<and> fields_ok 0 {} (bag_Fields bag))"

fun sections_ok :: "nat \<Rightarrow> string set \<Rightarrow> (string \<times> ConfigBag) list \<Rightarrow> bool" where
  "sections_ok i ns [] \<longleftrightarrow> True"
| "sections_ok i ns (p # ps) \<longleftrightarrow>
     section_ok p \<and> bag_Index (snd p) = i \<and> fst p \<notin> ns \<and> sections_ok (Suc i) (insert (fst p) ns) ps"

lemma fields_sorted: "fields_ok i ks ps \<Longrightarrow> sorted (map field_Index (map snd ps)) \<and> (\<forall>f \<in> snd ` set ps. i \<le> field_Index f)"
  by (induction i ks ps rule: fields_ok.induct) force+

lemma sections_sorted: "sections_ok i ks ps \<Longrightarrow> sorted (map bag_Index (map snd ps)) \<and> (\<forall>f \<in> snd ` set ps. i \<le> bag_Index f)"
  by (induction i ks ps rule: sections_ok.induct) force+

lemma ConfigBag_String_eq:
  assumes "section_ok (n, bag)"
  shows "ConfigBag_String bag = printed_comment (bag_Comment bag) @ (''['' @ n @ '']'' @ [NL])
    @ concat (map (\<lambda>f. Field_String f @ [NL]) (map snd (bag_Fields bag)))"
proof -
  have "fields_ok 0 {} (bag_Fields bag)" using assms by (simp add: section_ok_def)
  from fields_sorted [OF this] have "sort_key field_Index (map snd (bag_Fields bag)) = map snd (bag_Fields bag)"
    by (simp add: sort_key_id_if_sorted)
  then show ?thesis using assms by (simp add: ConfigBag_String_def printed_comment_def section_ok_def)
qed

lemma reads_section:
  assumes "section_ok (n, bag)" "bag_Index bag = length secs" "n \<notin> fst ` set secs"
  shows "reads (ConfigBag_String bag) \<lparr>cp_Sections = secs, cp_bag = b, cp_comment = []\<rparr>
    \<lparr>cp_Sections = secs @ [(n, bag)], cp_bag = Some n, cp_comment = []\<rparr>"
proof -
  have ok: "trimmed n" "CHR '']'' \<notin> set n" "NL \<notin> set n" "length n + 2 < line_limit" "comment_ok (bag_Comment bag)"
      "fields_ok 0 {} (bag_Fields bag)" "bag_Name bag = n"
    using assms(1) by (simp_all add: section_ok_def)
  let ?new = "bag\<lparr>bag_Fields := []\<rparr>"
  have "reads ((''['' @ n @ '']'') @ [NL]) \<lparr>cp_Sections = secs, cp_bag = b, cp_comment = bag_Comment bag\<rparr>
      \<lparr>cp_Sections = secs @ [(n, ?new)], cp_bag = Some n, cp_comment = []\<rparr>"
  proof (rule reads_line)
    show "NL \<notin> set (''['' @ n @ '']'')" "length (''['' @ n @ '']'') < line_limit" using ok by simp_all
    show "\<not> suffix [CHR 0x0D] (''['' @ n @ '']'')"
      using suffix_snoc [of "[CHR 0x0D]" "''['' @ n" "CHR '']''"] by simp
    have "map_of secs n = None" using assms(3) by (simp add: map_of_eq_None_iff)
    then show "parse_line l (''['' @ n @ '']'') \<lparr>cp_Sections = secs, cp_bag = b, cp_comment = bag_Comment bag\<rparr>
        = Inr \<lparr>cp_Sections = secs @ [(n, ?new)], cp_bag = Some n, cp_comment = []\<rparr>" for l
      using header_parts [OF ok(1,2)] assms(2,3) ok(7)
      by (simp add: parse_line_def parse_section_def NewConfigBag_def update_new)
  qed
  note header = this
  have "reads (concat (map (\<lambda>f. Field_String f @ [NL]) (map snd (bag_Fields bag))))
      \<lparr>cp_Sections = secs @ [(n, ?new)], cp_bag = Some n, cp_comment = []\<rparr>
      \<lparr>cp_Sections = secs @ [(n, bag)], cp_bag = Some n, cp_comment = []\<rparr>"
    using reads_fields [of ?new "bag_Fields bag" n secs] ok(6) assms(3) by simp
  from reads_append [OF header this]
  have "reads ((''['' @ n @ '']'' @ [NL]) @ concat (map (\<lambda>f. Field_String f @ [NL]) (map snd (bag_Fields bag))))
      \<lparr>cp_Sections = secs, cp_bag = b, cp_comment = bag_Comment bag\<rparr>
      \<lparr>cp_Sections = secs @ [(n, bag)], cp_bag = Some n, cp_comment = []\<rparr>" by simp
  moreover have "reads (printed_comment (bag_Comment bag)) \<lparr>cp_Sections = secs, cp_bag = b, cp_comment = []\<rparr>
      \<lparr>cp_Sections = secs, cp_bag = b, cp_comment = bag_Comment bag\<rparr>"
    using reads_comment [OF ok(5), of "\<lparr>cp_Sections = secs, cp_bag = b, cp_comment = []\<rparr>"] by simp
  ultimately show ?thesis unfolding ConfigBag_String_eq [OF assms(1)] by (rule reads_append [rotated])
qed

lemma reads_sections:
  "sections_ok (length secs) (fst ` set secs) ps \<Longrightarrow>
    \<exists>b'. reads (concat (map ConfigBag_String (map snd ps))) \<lparr>cp_Sections = secs, cp_bag = b, cp_comment = []\<rparr>
      \<lparr>cp_Sections = secs @ ps, cp_bag = b', cp_comment = []\<rparr>"
proof (induction ps arbitrary: secs b)
  case (Cons p ps)
  obtain n bag where p: "p = (n, bag)" by (cases p)
  have 1: "reads (ConfigBag_String bag) \<lparr>cp_Sections = secs, cp_bag = b, cp_comment = []\<rparr>
      \<lparr>cp_Sections = secs @ [(n, bag)], cp_bag = Some n, cp_comment = []\<rparr>"
    using Cons.prems p by (intro reads_section) simp_all
  have "sections_ok (length (secs @ [p])) (fst ` set (secs @ [p])) ps" using Cons.prems by simp
  from Cons.IH [OF this, of "Some n"] obtain b' where
    "reads (concat (map ConfigBag_String (map snd ps))) \<lparr>cp_Sections = secs @ [p], cp_bag = Some n, cp_comment = []\<rparr>
      \<lparr>cp_Sections = (secs @ [p]) @ ps, cp_bag = b', cp_comment = []\<rparr>" by blast
  with reads_append [OF 1] show ?case using p by fastforce
qed (auto intro: reads_Nil)

lemma comment_lines_join:
  "remark_ok v \<Longrightarrow> remark_ok w \<Longrightarrow> reads (v @ [NL] @ w @ [NL]) s (s\<lparr>cp_comment := cp_comment s @ v @ w\<rparr>)"
  using reads_append [OF reads_remark reads_remark, of v w s] by simp

section \<open>Supported entities\<close>

lemma dec_nat_digits: "list_all (\<lambda>c. 48 \<le> (of_char c :: nat) \<and> (of_char c :: nat) \<le> 57) (dec_nat n)"
proof (induction n rule: dec_nat.induct)
  case (1 n)
  have "48 \<le> (of_char (char_of (48 + k) :: char) :: nat) \<and> (of_char (char_of (48 + k) :: char) :: nat) \<le> 57" if "k < 10" for k :: nat
    using that by simp
  moreover have "n mod 10 \<le> 9" by presburger
  ultimately show ?case using 1(1) by (simp add: dec_nat.simps [of n])
qed

lemma dec_nat_not_Nil [simp]: "dec_nat n \<noteq> []"
  by (simp add: dec_nat.simps [of n])

lemma ParseUint16_dec_nat [simp]: "ParseUint16 (dec_nat (unat t)) = Inr t"
  using dec_nat_digits [of "unat t"] unat_bounds(2) [of t] by (simp add: ParseUint16_def)

definition entity_dto :: "Entity \<Rightarrow> entityDTO" where
  "entity_dto e = (ent_Name e, dec_nat (unat (ent_Type e)), ent_SupportedVersions e)"

lemma entity_dto_toStruct [simp]: "entityDTO_toStruct (entity_dto e) = Inr e"
  by (cases e) (simp add: entityDTO_toStruct_def entity_dto_def)

lemma entities_toStruct:
  "supportedEntitiesDTO_toStruct (map entity_dto es) ref
    = Inr \<lparr>se_Entities = fold (\<lambda>e. AList.update (ent_Type e) e) es (se_Entities ref)\<rparr>"
  by (induction es arbitrary: ref) simp_all

lemma find_SomeD: "find P xs = Some x \<Longrightarrow> x \<in> set xs \<and> P x"
  by (induction xs) (auto split: if_splits)

lemma sort_key_map: "sort_key g (map f xs) = map f (sort_key (\<lambda>x. g (f x)) xs)"
proof (induction xs)
  case (Cons x xs)
  have "insort_key g (f x) (map f ys) = map f (insort_key (\<lambda>x. g (f x)) x ys)" for ys
    by (induction ys) simp_all
  then show ?case using Cons by simp
qed simp

lemma fold_update:
  "map_of (fold (\<lambda>e. AList.update (f e) e) es al) t =
     (case find (\<lambda>e. f e = t) (rev es) of Some e \<Rightarrow> Some e | None \<Rightarrow> map_of al t)"
  by (induction es arbitrary: al rule: rev_induct) (simp_all add: update_conv')

section \<open>Properties\<close>

text \<open>
  A Go map has no order: the list of its entries is the order in which one loop happens to visit them. The indices of the entries
  say the order of the text: they are the numbers below the number of entries, each once.
\<close>

definition indexed :: "('a \<Rightarrow> nat) \<Rightarrow> (string \<times> 'a) list \<Rightarrow> bool" where
  "indexed ix al \<longleftrightarrow> distinct (map fst al) \<and> set (map (\<lambda>p. ix (snd p)) al) = {0..<length al}"

definition by_index :: "('a \<Rightarrow> nat) \<Rightarrow> (string \<times> 'a) list \<Rightarrow> (string \<times> 'a) list" where
  "by_index ix al = sort_key (\<lambda>p. ix (snd p)) al"

lemma by_index_values: "sort_key ix (map snd al) = map snd (by_index ix al)"
  by (simp add: by_index_def sort_key_map)

lemma indexed_numbers:
  assumes "indexed ix al"
  shows "map (\<lambda>p. ix (snd p)) (by_index ix al) = [0..<length al]"
proof (rule sorted_distinct_set_unique)
  have s: "set (map (\<lambda>p. ix (snd p)) (by_index ix al)) = {0..<length al}"
    using assms by (simp add: indexed_def by_index_def)
  then have "card (set (map (\<lambda>p. ix (snd p)) (by_index ix al))) = length (map (\<lambda>p. ix (snd p)) (by_index ix al))"
    by (simp add: by_index_def)
  then show "distinct (map (\<lambda>p. ix (snd p)) (by_index ix al))" by (rule card_distinct)
  show "set (map (\<lambda>p. ix (snd p)) (by_index ix al)) = set [0..<length al]" using s by simp
qed (simp_all add: by_index_def)

lemma by_index_keys: "indexed ix al \<Longrightarrow> distinct (map fst (by_index ix al))"
  by (simp add: indexed_def by_index_def distinct_map)

lemma map_of_by_index: "indexed ix al \<Longrightarrow> map_of (by_index ix al) = map_of al"
  by (subst map_of_inject_set) (simp_all add: by_index_keys, simp_all add: indexed_def by_index_def)

definition bag_ok :: "string \<times> ConfigBag \<Rightarrow> bool" where
  "bag_ok p \<longleftrightarrow> (case p of (n, bag) \<Rightarrow> bag_Name bag = n \<and> trimmed n \<and> CHR '']'' \<notin> set n \<and> NL \<notin> set n
     \<and> length n + 2 < line_limit \<and> comment_ok (bag_Comment bag)
     \<and> indexed field_Index (bag_Fields bag) \<and> (\<forall>f \<in> set (bag_Fields bag). field_ok f))"

definition net_config_ok :: "NetworkConfig \<Rightarrow> bool" where
  "net_config_ok c \<longleftrightarrow> indexed bag_Index (nc_Sections c) \<and> (\<forall>p \<in> set (nc_Sections c). bag_ok p)"

text \<open>The same configuration as Go maps: the same sections with the same entries, in whatever order they are visited.\<close>

definition same_bag :: "ConfigBag \<Rightarrow> ConfigBag \<Rightarrow> bool" where
  "same_bag b b' \<longleftrightarrow> bag_Name b' = bag_Name b \<and> bag_Comment b' = bag_Comment b \<and> bag_Index b' = bag_Index b
     \<and> map_of (bag_Fields b') = map_of (bag_Fields b)"

definition same_config :: "NetworkConfig \<Rightarrow> NetworkConfig \<Rightarrow> bool" where
  "same_config c c' \<longleftrightarrow> (\<forall>n. rel_option same_bag (map_of (nc_Sections c) n) (map_of (nc_Sections c') n))"

text \<open>The entries in the order of the text.\<close>

definition ordered_bag :: "ConfigBag \<Rightarrow> ConfigBag" where
  "ordered_bag b = b\<lparr>bag_Fields := by_index field_Index (bag_Fields b)\<rparr>"

definition ordered_config :: "NetworkConfig \<Rightarrow> NetworkConfig" where
  "ordered_config c = \<lparr>nc_Sections = map (\<lambda>(n, b). (n, ordered_bag b)) (by_index bag_Index (nc_Sections c))\<rparr>"

lemma fields_okI:
  "distinct (map fst ps) \<Longrightarrow> fst ` set ps \<inter> ks = {} \<Longrightarrow> map (\<lambda>p. field_Index (snd p)) ps = [i..<i + length ps] \<Longrightarrow>
   (\<forall>p \<in> set ps. field_ok p) \<Longrightarrow> fields_ok i ks ps"
  by (induction i ks ps rule: fields_ok.induct) (auto simp: upt_conv_Cons simp del: upt_Suc)

lemma sections_okI:
  "distinct (map fst ps) \<Longrightarrow> fst ` set ps \<inter> ks = {} \<Longrightarrow> map (\<lambda>p. bag_Index (snd p)) ps = [i..<i + length ps] \<Longrightarrow>
   (\<forall>p \<in> set ps. section_ok p) \<Longrightarrow> sections_ok i ks ps"
  by (induction i ks ps rule: sections_ok.induct) (auto simp: upt_conv_Cons simp del: upt_Suc)

lemma length_by_index [simp]: "length (by_index ix al) = length al"
  by (simp add: by_index_def)

lemma set_by_index [simp]: "set (by_index ix al) = set al"
  by (simp add: by_index_def)

lemma ordered_section_ok:
  assumes "bag_ok (n, bag)"
  shows "section_ok (n, ordered_bag bag)"
proof -
  have "fields_ok 0 {} (by_index field_Index (bag_Fields bag))"
    using assms by (intro fields_okI) (auto simp: bag_ok_def by_index_keys indexed_numbers)
  then show ?thesis using assms by (simp add: bag_ok_def section_ok_def ordered_bag_def)
qed

lemma ordered_sections_ok:
  assumes "net_config_ok c"
  shows "sections_ok 0 {} (nc_Sections (ordered_config c))"
proof (rule sections_okI)
  let ?ps = "by_index bag_Index (nc_Sections c)"
  have i: "indexed bag_Index (nc_Sections c)" using assms by (simp add: net_config_ok_def)
  have "map fst (map (\<lambda>(n, b). (n, ordered_bag b)) ?ps) = map fst ?ps" by (simp add: case_prod_unfold)
  then show "distinct (map fst (nc_Sections (ordered_config c)))"
    using by_index_keys [OF i] by (simp add: ordered_config_def del: map_map)
  have "map (\<lambda>p. bag_Index (snd p)) (map (\<lambda>(n, b). (n, ordered_bag b)) ?ps) = map (\<lambda>p. bag_Index (snd p)) ?ps"
    by (simp add: ordered_bag_def case_prod_unfold)
  then show "map (\<lambda>p. bag_Index (snd p)) (nc_Sections (ordered_config c)) = [0..<0 + length (nc_Sections (ordered_config c))]"
    using indexed_numbers [OF i] by (simp add: ordered_config_def del: map_map)
  show "\<forall>p \<in> set (nc_Sections (ordered_config c)). section_ok p"
    using assms ordered_section_ok by (auto simp: ordered_config_def net_config_ok_def)
qed simp

text \<open>The text does not depend on the order of the visits.\<close>

lemma ConfigBag_String_ordered: "ConfigBag_String (ordered_bag b) = ConfigBag_String b"
  by (simp add: ConfigBag_String_def ordered_bag_def by_index_values) (simp add: by_index_def sort_key_id_if_sorted)

lemma NetworkConfig_String_ordered: "NetworkConfig_String (ordered_config c) = NetworkConfig_String c"
proof -
  have "sort_key bag_Index (map snd (nc_Sections (ordered_config c)))
      = map ordered_bag (sort_key bag_Index (map snd (nc_Sections c)))"
    by (simp add: ordered_config_def by_index_values case_prod_unfold comp_def)
      (simp add: by_index_def sort_key_id_if_sorted comp_def ordered_bag_def sort_key_map flip: map_map)
  then show ?thesis by (simp add: NetworkConfig_String_def comp_def ConfigBag_String_ordered)
qed

lemma ordered_config_same:
  assumes "net_config_ok c"
  shows "same_config c (ordered_config c)"
proof -
  have "same_bag b (ordered_bag b)" if "map_of (nc_Sections c) n = Some b" for n b
    using assms map_of_SomeD [OF that] by (auto simp: net_config_ok_def bag_ok_def same_bag_def ordered_bag_def map_of_by_index)
  moreover have "map_of (nc_Sections (ordered_config c)) n = map_option ordered_bag (map_of (nc_Sections c) n)" for n
    using assms by (simp add: ordered_config_def map_of_map map_of_by_index net_config_ok_def)
  ultimately show ?thesis by (auto simp: same_config_def option.rel_map intro: option.rel_refl_strong)
qed

lemma ordered_config_read:
  assumes "net_config_ok c"
  shows "NetworkConfig_UnmarshalBinary NewNetworkConfig (string_bytes (NetworkConfig_String c)) = Inr (ordered_config c)"
proof -
  let ?c = "ordered_config c"
  have ok: "sections_ok 0 {} (nc_Sections ?c)" by (rule ordered_sections_ok [OF assms])
  have "NetworkConfig_String ?c = concat (map ConfigBag_String (map snd (nc_Sections ?c)))"
    using sections_sorted [OF ok] by (simp add: NetworkConfig_String_def sort_key_id_if_sorted del: map_map)
  moreover obtain b' where "reads (concat (map ConfigBag_String (map snd (nc_Sections ?c))))
      \<lparr>cp_Sections = [], cp_bag = None, cp_comment = []\<rparr>
      \<lparr>cp_Sections = nc_Sections ?c, cp_bag = b', cp_comment = []\<rparr>"
    using reads_sections [of "[]" "nc_Sections ?c" None] ok by auto
  ultimately show ?thesis
    by (simp add: NetworkConfig_UnmarshalBinary_def NewNetworkConfig_def reads_done flip: NetworkConfig_String_ordered [of c])
qed

text \<open>
  C21. Printing a well-formed network configuration and parsing the text gives the configuration back,
  in whatever order the loops over its maps visit the entries: the same sections under the same names, each with its comment and
  index and the same entries, each with its comment, value and index. Well-formed means what the text can
  carry: names, keys and values without the separators and surrounding blanks, lines that fit the
  reader's buffer, comments of one line with blank lines around it, and the indices of the sections, and of the entries of a
  section, the numbers from 0 on, each once.
\<close>

theorem network_config_roundtrip:
  assumes "net_config_ok c"
  shows "\<exists>c'. res_bind (NetworkConfig_MarshalBinary c) (NetworkConfig_UnmarshalBinary NewNetworkConfig) = Inr c'
    \<and> same_config c c'"
  using ordered_config_read [OF assms] ordered_config_same [OF assms] by (simp add: NetworkConfig_MarshalBinary_def)

text \<open>A configuration whose maps are visited against the order of the indices.\<close>

definition sample_network_config :: NetworkConfig where
  "sample_network_config = \<lparr>nc_Sections = [
     (''chain'', \<lparr>bag_Name = ''chain'', bag_Comment = [NL], bag_Index = 1, bag_Fields = []\<rparr>),
     (''network'', \<lparr>bag_Name = ''network'', bag_Comment = ''; main'', bag_Index = 0,
     bag_Fields = [(''empty'', \<lparr>field_Key = ''empty'', field_Value = [], field_Comment = [], field_Index = 1\<rparr>),
       (''identifier'', \<lparr>field_Key = ''identifier'', field_Value = ''public'', field_Comment = [NL], field_Index = 0\<rparr>)]\<rparr>)]\<rparr>"

lemma sample_network_config_ok: "net_config_ok sample_network_config"
proof -
  have "list_all (\<lambda>c. list_all (\<lambda>w. \<not> List.member w c) white) '';nkireypc''" by code_simp
  then have b: "\<forall>c \<in> set '';nkireypc''. black c" by (simp add: black_def list_all_iff)
  have t: "trimmed ''; main''" "trimmed ''network''" "trimmed ''identifier''" "trimmed ''empty''" "trimmed ''public''" "trimmed ''chain''"
    using b trimmed_ends [of "CHR '';''" "CHR ''n''" "'' mai''"] trimmed_ends [of "CHR ''n''" "CHR ''k''" "''etwor''"]
      trimmed_ends [of "CHR ''i''" "CHR ''r''" "''dentifie''"] trimmed_ends [of "CHR ''e''" "CHR ''y''" "''mpt''"]
      trimmed_ends [of "CHR ''p''" "CHR ''c''" "''ubli''"] trimmed_ends [of "CHR ''c''" "CHR ''n''" "''hai''"] by simp_all
  have "trimmed []" using white_not_Nil by (auto simp: trimmed_def)
  moreover have "comment_ok []" unfolding comment_ok_def by (intro exI [of _ 0] exI [of _ "[]"]) simp
  moreover have "comment_ok [NL]" unfolding comment_ok_def by (rule exI [of _ 1], rule exI [of _ 0]) simp
  moreover have "comment_ok ''; main''" unfolding comment_ok_def
    by (rule exI [of _ 0], rule exI [of _ 0]) (simp add: remark_ok_def t line_limit_def)
  moreover have "{0..<2} = {0, 1 :: nat}" by auto
  moreover note t
  ultimately show ?thesis
    by (simp add: net_config_ok_def sample_network_config_def bag_ok_def field_ok_def line_limit_def key_ok_def value_ok_def
        indexed_def insert_commute numeral_2_eq_2 [symmetric])
qed

theorem network_config_roundtrip_witness:
  "\<exists>c'. res_bind (NetworkConfig_MarshalBinary sample_network_config) (NetworkConfig_UnmarshalBinary NewNetworkConfig) = Inr c'
    \<and> same_config sample_network_config c'"
  by (rule network_config_roundtrip [OF sample_network_config_ok])

definition entities_ok :: "SupportedEntities \<Rightarrow> bool" where
  "entities_ok s \<longleftrightarrow> distinct (map fst (se_Entities s)) \<and> (\<forall>(t, e) \<in> set (se_Entities s). ent_Type e = t)"

definition json_ok :: "'k crypto \<Rightarrow> entityDTO list \<Rightarrow> bool" where
  "json_ok C es \<longleftrightarrow> cr_UnmarshalEntities C (cr_MarshalEntities C es) = Inr es"

text \<open>The order in which the JSON form has the entities, and what is read from it.\<close>

definition ordered_entities :: "SupportedEntities \<Rightarrow> SupportedEntities" where
  "ordered_entities s = \<lparr>se_Entities = fold (\<lambda>e. AList.update (ent_Type e) e)
     (sort_key (\<lambda>e. fst (entity_dto e)) (map snd (se_Entities s))) []\<rparr>"

lemma ordered_entities_same:
  assumes "entities_ok s"
  shows "map_of (se_Entities (ordered_entities s)) = map_of (se_Entities s)"
proof
  fix t
  let ?es = "sort_key (\<lambda>e. fst (entity_dto e)) (map snd (se_Entities s))"
  show "map_of (se_Entities (ordered_entities s)) t = map_of (se_Entities s) t"
  proof (cases "find (\<lambda>e. ent_Type e = t) (rev ?es)")
    case None
    then have "\<forall>e \<in> snd ` set (se_Entities s). ent_Type e \<noteq> t" by (simp add: find_None_iff)
    then have "map_of (se_Entities s) t = None"
      using assms(1) by (force simp: entities_ok_def map_of_eq_None_iff)
    then show ?thesis using None by (simp add: ordered_entities_def fold_update)
  next
    case (Some e)
    then have "e \<in> set (rev ?es)" "ent_Type e = t" using find_SomeD [OF Some] by simp_all
    then have "(t, e) \<in> set (se_Entities s)" using assms(1) by (auto simp: entities_ok_def)
    then have "map_of (se_Entities s) t = Some e" using assms(1) by (simp add: entities_ok_def)
    then show ?thesis using Some by (simp add: ordered_entities_def fold_update)
  qed
qed

lemma ordered_entities_read:
  assumes "json_ok C (sort_key fst (map (\<lambda>(_, e). entity_dto e) (se_Entities s)))"
    and "SupportedEntities_MarshalBinary C s = Inr b"
  shows "SupportedEntities_UnmarshalBinary C NewSupportedEntities b = Inr (ordered_entities s)"
proof -
  let ?es = "sort_key (\<lambda>e. fst (entity_dto e)) (map snd (se_Entities s))"
  have "map (\<lambda>(_, e). (ent_Name e, dec_nat (unat (ent_Type e)), ent_SupportedVersions e)) (se_Entities s)
      = map entity_dto (map snd (se_Entities s))"
    by (simp add: entity_dto_def case_prod_unfold)
  moreover have "map (\<lambda>(_, e). entity_dto e) (se_Entities s) = map entity_dto (map snd (se_Entities s))"
    by (simp add: case_prod_unfold)
  then have json: "cr_UnmarshalEntities C (cr_MarshalEntities C (map entity_dto ?es)) = Inr (map entity_dto ?es)"
    using assms(1) by (simp only: json_ok_def sort_key_map)
  ultimately have "b = cr_MarshalEntities C (map entity_dto ?es)"
    using assms(2) by (simp only: SupportedEntities_MarshalBinary_def Let_def sort_key_map sum.inject)
  then show ?thesis
    by (simp add: SupportedEntities_UnmarshalBinary_def json NewSupportedEntities_def entities_toStruct ordered_entities_def del: map_map)
qed

lemma SupportedEntities_Marshal_ok: "\<exists>b. SupportedEntities_MarshalBinary C s = Inr b"
  by (simp add: SupportedEntities_MarshalBinary_def Let_def)

text \<open>
  C22. The supported entities survive their JSON form: if the JSON library reads back what it printed,
  unmarshalling what was marshalled gives the same entity for every type.
\<close>

theorem entities_roundtrip:
  assumes "entities_ok s"
    and "json_ok C (sort_key fst (map (\<lambda>(_, e). entity_dto e) (se_Entities s)))"
  shows "\<exists>s'. res_bind (SupportedEntities_MarshalBinary C s) (SupportedEntities_UnmarshalBinary C NewSupportedEntities) = Inr s'
    \<and> map_of (se_Entities s') = map_of (se_Entities s)"
  using SupportedEntities_Marshal_ok [of C s] ordered_entities_read [OF assms(2)] ordered_entities_same [OF assms(1)]
  by auto

definition sample_entities :: SupportedEntities where
  "sample_entities = \<lparr>se_Entities =
     [(ET_Transfer, \<lparr>ent_Name = ''Transfer'', ent_Type = ET_Transfer, ent_SupportedVersions = [3]\<rparr>)]\<rparr>"

lemma sample_entities_ok:
  "entities_ok sample_entities"
  "json_ok sample_crypto (sort_key fst (map (\<lambda>(_, e). entity_dto e) (se_Entities sample_entities)))"
proof -
  have n: "map char_of [84, 114, 97, 110, 115, 102, 101, 114 :: nat] = ''Transfer''" by code_simp
  have "map char_of [49, 54, 55, 50, 52 :: nat] = ''16724''" by code_simp
  then have "dec_nat 16724 = ''16724''" by (simp add: dec_nat.simps)
  then show "json_ok sample_crypto (sort_key fst (map (\<lambda>(_, e). entity_dto e) (se_Entities sample_entities)))"
    using n by (simp add: json_ok_def sample_crypto_def sample_entities_def entity_dto_def go_consts)
qed (simp add: entities_ok_def sample_entities_def)

theorem entities_roundtrip_witness:
  "\<exists>s'. res_bind (SupportedEntities_MarshalBinary sample_crypto sample_entities)
      (SupportedEntities_UnmarshalBinary sample_crypto NewSupportedEntities) = Inr s'
    \<and> map_of (se_Entities s') = map_of (se_Entities sample_entities)"
  by (rule entities_roundtrip [OF sample_entities_ok])

end
