(* ===== verification/TxDto.thy ===== *)
theory TxDto
  imports TxConstructors NetworkParse
begin

text \<open>
  The REST forms of transactions and their conversion (\<open>toStruct\<close> of \<open>sdk/transaction_model.go\<close>). A DTO is a
  record with the fields of the Go structure (the embedded \<open>Tx\<close> and its parts flattened); \<open>TDto\<close> is the
  \<open>meta\<close> part. A field that is a pointer is an option, since JSON may leave it out; the elements of lists
  of pointers are plain values: a JSON \<open>null\<close> inside a list is not modelled.
\<close>

section \<open>The common parts\<close>

record transactionInfoDTO =
  tid_Height :: uint64DTO
  tid_Index :: u32
  tid_Id :: string
  tid_TransactionHash :: string
  tid_MerkleComponentHash :: string
  tid_AggregateHash :: string
  tid_AggregateId :: string

definition transactionInfoDTO_toStruct :: "transactionInfoDTO \<Rightarrow> TransactionInfo result" where
  "transactionInfoDTO_toStruct dto =
     res_bind (hashDto_Hash (tid_TransactionHash dto)) (\<lambda>transactionHash.
     res_bind (hashDto_Hash (tid_MerkleComponentHash dto)) (\<lambda>merkleComponentHash.
     res_bind (hashDto_Hash (tid_AggregateHash dto)) (\<lambda>aggregateHash.
     res_bind (uint64DTO_toStruct (tid_Height dto)) (\<lambda>height.
       Inr \<lparr>ti_Height = height, ti_Index = tid_Index dto, ti_Id = tid_Id dto,
            ti_TransactionHash = transactionHash, ti_MerkleComponentHash = merkleComponentHash,
            ti_AggregateHash = aggregateHash, ti_AggregateId = tid_AggregateId dto\<rparr>))))"

record abstractTransactionDTO =
  atd_Type :: EntityType
  atd_Version :: u64
  atd_MaxFee :: "uint64DTO option"
  atd_Deadline :: "uint64DTO option"
  atd_Signature :: string
  atd_Signer :: string

definition abstractTransactionDTO_toStruct ::
  "'k crypto \<Rightarrow> abstractTransactionDTO \<Rightarrow> TransactionInfo option \<Rightarrow> AbstractTransaction result" where
  "abstractTransactionDTO_toStruct C dto tInfo =
     (let nt = ExtractNetworkType (atd_Version dto); tv = ExtractVersion (atd_Version dto) in
      res_bind (NewAccountFromPublicKey C (atd_Signer dto) nt) (\<lambda>pa.
      res_bind (case atd_Deadline dto of None \<Rightarrow> Inr None
        | Some t \<Rightarrow> res_map (\<lambda>ts. Some (NewDeadlineFromBlockchainTimestamp ts)) (blockchainTimestampDTO_toStruct t)) (\<lambda>d.
      res_bind (case atd_MaxFee dto of None \<Rightarrow> Inr 0 | Some f \<Rightarrow> uint64DTO_toStruct f) (\<lambda>f.
        Inr \<lparr>tx_TransactionInfo = tInfo, tx_NetworkType = nt, tx_Deadline = d, tx_Type = atd_Type dto,
             tx_Version = tv, tx_MaxFee = f, tx_Signature = atd_Signature dto, tx_Signer = Some pa\<rparr>))))"

text \<open>How every conversion begins: the info, then the abstract part with it.\<close>

definition header_toStruct ::
  "'k crypto \<Rightarrow> abstractTransactionDTO \<Rightarrow> transactionInfoDTO \<Rightarrow> AbstractTransaction result" where
  "header_toStruct C a td =
     res_bind (transactionInfoDTO_toStruct td) (\<lambda>info. abstractTransactionDTO_toStruct C a (Some info))"

section \<open>Account properties\<close>

record accountPropertiesAddressModificationDTO =
  apamd_ModificationType :: PropertyModificationType
  apamd_Address :: string

definition accountPropertiesAddressModificationDTO_toStruct ::
  "accountPropertiesAddressModificationDTO \<Rightarrow> AccountPropertiesAddressModification result" where
  "accountPropertiesAddressModificationDTO_toStruct dto =
     res_map (\<lambda>a. \<lparr>apam_ModificationType = apamd_ModificationType dto, apam_Address = a\<rparr>)
       (NewAddressFromBase32 (apamd_Address dto))"

record accountPropertiesAddressTransactionDTO =
  apad_abstract :: abstractTransactionDTO
  apad_PropertyType :: PropertyType
  apad_Modifications :: "accountPropertiesAddressModificationDTO list"
  apad_TDto :: transactionInfoDTO

definition accountPropertiesAddressTransactionDTO_toStruct ::
  "'k crypto \<Rightarrow> accountPropertiesAddressTransactionDTO \<Rightarrow> Transaction result" where
  "accountPropertiesAddressTransactionDTO_toStruct C dto =
     res_bind (header_toStruct C (apad_abstract dto) (apad_TDto dto)) (\<lambda>atx.
     res_bind (mapR accountPropertiesAddressModificationDTO_toStruct (apad_Modifications dto)) (\<lambda>ms.
       Inr (TxAccountPropertiesAddress \<lparr>apa_AbstractTransaction = atx, apa_PropertyType = apad_PropertyType dto,
         apa_Modifications = ms\<rparr>)))"

record accountPropertiesMosaicModificationDTO =
  apmmd_ModificationType :: PropertyModificationType
  apmmd_AssetId :: uint64DTO

definition accountPropertiesMosaicModificationDTO_toStruct ::
  "accountPropertiesMosaicModificationDTO \<Rightarrow> AccountPropertiesMosaicModification result" where
  "accountPropertiesMosaicModificationDTO_toStruct dto =
     res_map (\<lambda>assetId. \<lparr>apmm_ModificationType = apmmd_ModificationType dto, apmm_AssetId = assetId\<rparr>)
       (assetIdDTO_toStruct (apmmd_AssetId dto))"

record accountPropertiesMosaicTransactionDTO =
  apmd_abstract :: abstractTransactionDTO
  apmd_PropertyType :: PropertyType
  apmd_Modifications :: "accountPropertiesMosaicModificationDTO list"
  apmd_TDto :: transactionInfoDTO

definition accountPropertiesMosaicTransactionDTO_toStruct ::
  "'k crypto \<Rightarrow> accountPropertiesMosaicTransactionDTO \<Rightarrow> Transaction result" where
  "accountPropertiesMosaicTransactionDTO_toStruct C dto =
     res_bind (header_toStruct C (apmd_abstract dto) (apmd_TDto dto)) (\<lambda>atx.
     res_bind (mapR accountPropertiesMosaicModificationDTO_toStruct (apmd_Modifications dto)) (\<lambda>ms.
       Inr (TxAccountPropertiesMosaic \<lparr>apm_AbstractTransaction = atx, apm_PropertyType = apmd_PropertyType dto,
         apm_Modifications = ms\<rparr>)))"

record accountPropertiesEntityTypeModificationDTO =
  apemd_ModificationType :: PropertyModificationType
  apemd_EntityType :: EntityType

definition accountPropertiesEntityTypeModificationDTO_toStruct ::
  "accountPropertiesEntityTypeModificationDTO \<Rightarrow> AccountPropertiesEntityTypeModification result" where
  "accountPropertiesEntityTypeModificationDTO_toStruct dto =
     Inr \<lparr>apem_ModificationType = apemd_ModificationType dto, apem_EntityType = apemd_EntityType dto\<rparr>"

record accountPropertiesEntityTypeTransactionDTO =
  aped_abstract :: abstractTransactionDTO
  aped_PropertyType :: PropertyType
  aped_Modifications :: "accountPropertiesEntityTypeModificationDTO list"
  aped_TDto :: transactionInfoDTO

definition accountPropertiesEntityTypeTransactionDTO_toStruct ::
  "'k crypto \<Rightarrow> accountPropertiesEntityTypeTransactionDTO \<Rightarrow> Transaction result" where
  "accountPropertiesEntityTypeTransactionDTO_toStruct C dto =
     res_bind (header_toStruct C (aped_abstract dto) (aped_TDto dto)) (\<lambda>atx.
     res_bind (mapR accountPropertiesEntityTypeModificationDTO_toStruct (aped_Modifications dto)) (\<lambda>ms.
       Inr (TxAccountPropertiesEntityType \<lparr>ape_AbstractTransaction = atx, ape_PropertyType = aped_PropertyType dto,
         ape_Modifications = ms\<rparr>)))"

section \<open>Aliases and links\<close>

record aliasTransactionDTO =
  ald_abstract :: abstractTransactionDTO
  ald_NamespaceId :: uint64DTO
  ald_ActionType :: AliasActionType

definition aliasTransactionDTO_toStruct ::
  "'k crypto \<Rightarrow> aliasTransactionDTO \<Rightarrow> TransactionInfo option \<Rightarrow> AliasTransaction result" where
  "aliasTransactionDTO_toStruct C dto tInfo =
     res_bind (abstractTransactionDTO_toStruct C (ald_abstract dto) tInfo) (\<lambda>atx.
     res_bind (namespaceIdDTO_toStruct (ald_NamespaceId dto)) (\<lambda>namespaceId.
       Inr \<lparr>al_AbstractTransaction = atx, al_ActionType = ald_ActionType dto, al_NamespaceId = namespaceId\<rparr>))"

record addressAliasTransactionDTO =
  aald_alias :: aliasTransactionDTO
  aald_Address :: string
  aald_TDto :: transactionInfoDTO

definition addressAliasTransactionDTO_toStruct :: "'k crypto \<Rightarrow> addressAliasTransactionDTO \<Rightarrow> Transaction result" where
  "addressAliasTransactionDTO_toStruct C dto =
     res_bind (transactionInfoDTO_toStruct (aald_TDto dto)) (\<lambda>info.
     res_bind (aliasTransactionDTO_toStruct C (aald_alias dto) (Some info)) (\<lambda>atx.
     res_bind (NewAddressFromBase32 (aald_Address dto)) (\<lambda>a.
       Inr (TxAddressAlias \<lparr>aal_AliasTransaction = atx, aal_Address = a\<rparr>))))"

record mosaicAliasTransactionDTO =
  mald_alias :: aliasTransactionDTO
  mald_MosaicId :: "uint64DTO option"
  mald_TDto :: transactionInfoDTO

definition mosaicAliasTransactionDTO_toStruct :: "'k crypto \<Rightarrow> mosaicAliasTransactionDTO \<Rightarrow> Transaction result" where
  "mosaicAliasTransactionDTO_toStruct C dto =
     res_bind (transactionInfoDTO_toStruct (mald_TDto dto)) (\<lambda>info.
     res_bind (aliasTransactionDTO_toStruct C (mald_alias dto) (Some info)) (\<lambda>atx.
     res_bind (res_bind (deref (mald_MosaicId dto)) mosaicIdDTO_toStruct) (\<lambda>mosaicId.
       Inr (TxMosaicAlias \<lparr>mal_AliasTransaction = atx, mal_MosaicId = mosaicId\<rparr>))))"

record accountLinkTransactionDTO =
  linkd_abstract :: abstractTransactionDTO
  linkd_RemoteAccountKey :: string
  linkd_Action :: AccountLinkAction
  linkd_TDto :: transactionInfoDTO

definition accountLinkTransactionDTO_toStruct :: "'k crypto \<Rightarrow> accountLinkTransactionDTO \<Rightarrow> Transaction result" where
  "accountLinkTransactionDTO_toStruct C dto =
     res_bind (header_toStruct C (linkd_abstract dto) (linkd_TDto dto)) (\<lambda>atx.
     res_bind (NewAccountFromPublicKey C (linkd_RemoteAccountKey dto) (tx_NetworkType atx)) (\<lambda>acc.
       Inr (TxAccountLink \<lparr>link_AbstractTransaction = atx, link_RemoteAccount = acc, link_LinkAction = linkd_Action dto\<rparr>)))"

section \<open>The network\<close>

record networkConfigTransactionDTO =
  nctd_abstract :: abstractTransactionDTO
  nctd_ApplyHeightDelta :: uint64DTO
  nctd_NetworkConfig :: string
  nctd_SupportedEntityVersions :: string
  nctd_TDto :: transactionInfoDTO

definition networkConfigTransactionDTO_toStruct :: "'k crypto \<Rightarrow> networkConfigTransactionDTO \<Rightarrow> Transaction result" where
  "networkConfigTransactionDTO_toStruct C dto =
     res_bind (header_toStruct C (nctd_abstract dto) (nctd_TDto dto)) (\<lambda>atx.
     res_bind (uint64DTO_toUint64 (nctd_ApplyHeightDelta dto)) (\<lambda>applyHeightDelta.
     res_bind (SupportedEntities_UnmarshalBinary C NewSupportedEntities
       (string_bytes (nctd_SupportedEntityVersions dto))) (\<lambda>s.
     res_bind (NetworkConfig_UnmarshalBinary NewNetworkConfig (string_bytes (nctd_NetworkConfig dto))) (\<lambda>c.
       Inr (TxNetworkConfig \<lparr>nct_AbstractTransaction = atx, nct_ApplyHeightDelta = applyHeightDelta,
         nct_NetworkConfig = c, nct_SupportedEntities = s\<rparr>)))))"

record blockchainUpgradeTransactionDTO =
  bud_abstract :: abstractTransactionDTO
  bud_UpgradePeriod :: uint64DTO
  bud_NewBlockChainVersion :: uint64DTO
  bud_TDto :: transactionInfoDTO

definition blockchainUpgradeTransactionDTO_toStruct ::
  "'k crypto \<Rightarrow> blockchainUpgradeTransactionDTO \<Rightarrow> Transaction result" where
  "blockchainUpgradeTransactionDTO_toStruct C dto =
     res_bind (header_toStruct C (bud_abstract dto) (bud_TDto dto)) (\<lambda>atx.
     res_bind (uint64DTO_toUint64 (bud_UpgradePeriod dto)) (\<lambda>upgradePeriod.
     res_bind (uint64DTO_toUint64 (bud_NewBlockChainVersion dto)) (\<lambda>newBlockChainVersion.
       Inr (TxBlockchainUpgrade \<lparr>bu_AbstractTransaction = atx, bu_UpgradePeriod = upgradePeriod,
         bu_NewBlockChainVersion = newBlockChainVersion\<rparr>))))"

section \<open>Metadata\<close>

record metadataModificationDTO =
  mmod_Type :: MetadataModificationType
  mmod_Key :: string
  mmod_Value :: string

definition metadataModificationDTO_toStruct :: "metadataModificationDTO \<Rightarrow> NetworkType \<Rightarrow> MetadataModification result" where
  "metadataModificationDTO_toStruct dto networkType =
     Inr \<lparr>mm_Type = mmod_Type dto, mm_Key = mmod_Key dto, mm_Value = mmod_Value dto\<rparr>"

definition metadataDTOArrayToStruct :: "metadataModificationDTO list \<Rightarrow> NetworkType \<Rightarrow> MetadataModification list result" where
  "metadataDTOArrayToStruct modifications networkType =
     mapR (\<lambda>m. metadataModificationDTO_toStruct m networkType) modifications"

record modifyMetadataTransactionDTO =
  mmtd_abstract :: abstractTransactionDTO
  mmtd_MetadataType :: MetadataType
  mmtd_Modifications :: "metadataModificationDTO list"

definition modifyMetadataTransactionDTO_toStruct ::
  "'k crypto \<Rightarrow> modifyMetadataTransactionDTO \<Rightarrow> TransactionInfo option \<Rightarrow> ModifyMetadataTransaction result" where
  "modifyMetadataTransactionDTO_toStruct C dto tInfo =
     res_bind (abstractTransactionDTO_toStruct C (mmtd_abstract dto) tInfo) (\<lambda>atx.
     res_bind (metadataDTOArrayToStruct (mmtd_Modifications dto) (tx_NetworkType atx)) (\<lambda>ms.
       Inr \<lparr>mmt_AbstractTransaction = atx, mmt_MetadataType = mmtd_MetadataType dto, mmt_Modifications = ms\<rparr>))"

record modifyMetadataAddressTransactionDTO =
  mmad_modify :: modifyMetadataTransactionDTO
  mmad_Address :: string
  mmad_TDto :: transactionInfoDTO

definition modifyMetadataAddressTransactionDTO_toStruct ::
  "'k crypto \<Rightarrow> modifyMetadataAddressTransactionDTO \<Rightarrow> Transaction result" where
  "modifyMetadataAddressTransactionDTO_toStruct C dto =
     res_bind (transactionInfoDTO_toStruct (mmad_TDto dto)) (\<lambda>info.
     res_bind (modifyMetadataTransactionDTO_toStruct C (mmad_modify dto) (Some info)) (\<lambda>atx.
     res_bind (NewAddressFromBase32 (mmad_Address dto)) (\<lambda>a.
       Inr (TxModifyMetadataAddress \<lparr>mma_ModifyMetadataTransaction = atx, mma_Address = Some a\<rparr>))))"

record modifyMetadataMosaicTransactionDTO =
  mmmd_modify :: modifyMetadataTransactionDTO
  mmmd_MosaicId :: "uint64DTO option"
  mmmd_TDto :: transactionInfoDTO

definition modifyMetadataMosaicTransactionDTO_toStruct ::
  "'k crypto \<Rightarrow> modifyMetadataMosaicTransactionDTO \<Rightarrow> Transaction result" where
  "modifyMetadataMosaicTransactionDTO_toStruct C dto =
     res_bind (transactionInfoDTO_toStruct (mmmd_TDto dto)) (\<lambda>info.
     res_bind (modifyMetadataTransactionDTO_toStruct C (mmmd_modify dto) (Some info)) (\<lambda>atx.
     res_bind (res_bind (deref (mmmd_MosaicId dto)) mosaicIdDTO_toStruct) (\<lambda>mosaicId.
       Inr (TxModifyMetadataMosaic \<lparr>mmm_ModifyMetadataTransaction = atx, mmm_MosaicId = Some mosaicId\<rparr>))))"

record modifyMetadataNamespaceTransactionDTO =
  mmnd_modify :: modifyMetadataTransactionDTO
  mmnd_NamespaceId :: "uint64DTO option"
  mmnd_TDto :: transactionInfoDTO

definition modifyMetadataNamespaceTransactionDTO_toStruct ::
  "'k crypto \<Rightarrow> modifyMetadataNamespaceTransactionDTO \<Rightarrow> Transaction result" where
  "modifyMetadataNamespaceTransactionDTO_toStruct C dto =
     res_bind (transactionInfoDTO_toStruct (mmnd_TDto dto)) (\<lambda>info.
     res_bind (modifyMetadataTransactionDTO_toStruct C (mmnd_modify dto) (Some info)) (\<lambda>atx.
     res_bind (res_bind (deref (mmnd_NamespaceId dto)) namespaceIdDTO_toStruct) (\<lambda>namespaceId.
       Inr (TxModifyMetadataNamespace \<lparr>mmn_ModifyMetadataTransaction = atx, mmn_NamespaceId = Some namespaceId\<rparr>))))"

section \<open>Mosaics and transfers\<close>

record mosaicDefinitionTransactionDTO =
  mdtd_abstract :: abstractTransactionDTO
  mdtd_Properties :: mosaicPropertiesDTO
  mdtd_MosaicNonce :: u64
  mdtd_MosaicId :: "uint64DTO option"
  mdtd_TDto :: transactionInfoDTO

definition mosaicDefinitionTransactionDTO_toStruct ::
  "'k crypto \<Rightarrow> mosaicDefinitionTransactionDTO \<Rightarrow> Transaction result" where
  "mosaicDefinitionTransactionDTO_toStruct C dto =
     res_bind (header_toStruct C (mdtd_abstract dto) (mdtd_TDto dto)) (\<lambda>atx.
     res_bind (res_bind (deref (mdtd_MosaicId dto)) mosaicIdDTO_toStruct) (\<lambda>mosaicId.
     res_bind (mosaicPropertiesDTO_toStruct (mdtd_Properties dto)) (\<lambda>properties.
       Inr (TxMosaicDefinition \<lparr>mdt_AbstractTransaction = atx, mdt_MosaicProperties = properties,
         mdt_MosaicNonce = ucast (mdtd_MosaicNonce dto), mdt_MosaicId = mosaicId\<rparr>))))"

record mosaicSupplyChangeTransactionDTO =
  mscd_abstract :: abstractTransactionDTO
  mscd_MosaicSupplyType :: MosaicSupplyType
  mscd_AssetId :: "uint64DTO option"
  mscd_Delta :: uint64DTO
  mscd_TDto :: transactionInfoDTO

definition mosaicSupplyChangeTransactionDTO_toStruct ::
  "'k crypto \<Rightarrow> mosaicSupplyChangeTransactionDTO \<Rightarrow> Transaction result" where
  "mosaicSupplyChangeTransactionDTO_toStruct C dto =
     res_bind (header_toStruct C (mscd_abstract dto) (mscd_TDto dto)) (\<lambda>atx.
     res_bind (res_bind (deref (mscd_AssetId dto)) assetIdDTO_toStruct) (\<lambda>assetId.
     res_bind (uint64DTO_toStruct (mscd_Delta dto)) (\<lambda>delta.
       Inr (TxMosaicSupplyChange \<lparr>msc_AbstractTransaction = atx, msc_MosaicSupplyType = mscd_MosaicSupplyType dto,
         msc_AssetId = assetId, msc_Delta = delta\<rparr>))))"

record transferTransactionDTO =
  trd_abstract :: abstractTransactionDTO
  trd_Message :: messageDTO
  trd_Mosaics :: "mosaicDTO list"
  trd_Address :: string
  trd_TDto :: transactionInfoDTO

definition transferTransactionDTO_toStruct :: "'k crypto \<Rightarrow> transferTransactionDTO \<Rightarrow> Transaction result" where
  "transferTransactionDTO_toStruct C dto =
     res_bind (header_toStruct C (trd_abstract dto) (trd_TDto dto)) (\<lambda>atx.
     res_bind (mapR mosaicDTO_toStruct (trd_Mosaics dto)) (\<lambda>mosaics.
     res_bind (NewAddressFromBase32 (trd_Address dto)) (\<lambda>a.
     res_bind (messageDTO_toStruct (trd_Message dto)) (\<lambda>m.
       Inr (TxTransfer \<lparr>tr_AbstractTransaction = atx, tr_Message = m, tr_Mosaics = mosaics, tr_Recipient = a\<rparr>)))))"

section \<open>Cosignatories and contracts\<close>

record multisigCosignatoryModificationDTO =
  mcmd_Type :: MultisigCosignatoryModificationType
  mcmd_PublicAccount :: string

definition multisigCosignatoryModificationDTO_toStruct ::
  "'k crypto \<Rightarrow> multisigCosignatoryModificationDTO \<Rightarrow> NetworkType \<Rightarrow> MultisigCosignatoryModification result" where
  "multisigCosignatoryModificationDTO_toStruct C dto networkType =
     res_map (\<lambda>acc. \<lparr>mcm_Type = mcmd_Type dto, mcm_PublicAccount = acc\<rparr>)
       (NewAccountFromPublicKey C (mcmd_PublicAccount dto) networkType)"

definition multisigCosignatoryDTOArrayToStruct ::
  "'k crypto \<Rightarrow> multisigCosignatoryModificationDTO list \<Rightarrow> NetworkType \<Rightarrow> MultisigCosignatoryModification list result" where
  "multisigCosignatoryDTOArrayToStruct C modifications networkType =
     mapR (\<lambda>m. multisigCosignatoryModificationDTO_toStruct C m networkType) modifications"

record modifyMultisigAccountTransactionDTO =
  mmsd_abstract :: abstractTransactionDTO
  mmsd_MinApprovalDelta :: "8 word"
  mmsd_MinRemovalDelta :: "8 word"
  mmsd_Modifications :: "multisigCosignatoryModificationDTO list"
  mmsd_TDto :: transactionInfoDTO

definition modifyMultisigAccountTransactionDTO_toStruct ::
  "'k crypto \<Rightarrow> modifyMultisigAccountTransactionDTO \<Rightarrow> Transaction result" where
  "modifyMultisigAccountTransactionDTO_toStruct C dto =
     res_bind (header_toStruct C (mmsd_abstract dto) (mmsd_TDto dto)) (\<lambda>atx.
     res_bind (multisigCosignatoryDTOArrayToStruct C (mmsd_Modifications dto) (tx_NetworkType atx)) (\<lambda>ms.
       Inr (TxModifyMultisigAccount \<lparr>mms_AbstractTransaction = atx, mms_MinApprovalDelta = mmsd_MinApprovalDelta dto,
         mms_MinRemovalDelta = mmsd_MinRemovalDelta dto, mms_Modifications = ms\<rparr>)))"

record modifyContractTransactionDTO =
  mctd_abstract :: abstractTransactionDTO
  mctd_DurationDelta :: uint64DTO
  mctd_Hash :: string
  mctd_Customers :: "multisigCosignatoryModificationDTO list"
  mctd_Executors :: "multisigCosignatoryModificationDTO list"
  mctd_Verifiers :: "multisigCosignatoryModificationDTO list"
  mctd_TDto :: transactionInfoDTO

definition modifyContractTransactionDTO_toStruct ::
  "'k crypto \<Rightarrow> modifyContractTransactionDTO \<Rightarrow> Transaction result" where
  "modifyContractTransactionDTO_toStruct C dto =
     res_bind (header_toStruct C (mctd_abstract dto) (mctd_TDto dto)) (\<lambda>atx.
     res_bind (multisigCosignatoryDTOArrayToStruct C (mctd_Customers dto) (tx_NetworkType atx)) (\<lambda>customers.
     res_bind (multisigCosignatoryDTOArrayToStruct C (mctd_Executors dto) (tx_NetworkType atx)) (\<lambda>executors.
     res_bind (multisigCosignatoryDTOArrayToStruct C (mctd_Verifiers dto) (tx_NetworkType atx)) (\<lambda>verifiers.
     res_bind (hashDto_Hash (mctd_Hash dto)) (\<lambda>hash.
     res_bind (uint64DTO_toStruct (mctd_DurationDelta dto)) (\<lambda>d.
       Inr (TxModifyContract \<lparr>mct_AbstractTransaction = atx, mct_DurationDelta = d, mct_Hash = hash,
         mct_Customers = customers, mct_Executors = executors, mct_Verifiers = verifiers\<rparr>)))))))"

section \<open>Namespaces\<close>

record registerNamespaceTransactionDTO =
  rnd_abstract :: abstractTransactionDTO
  rnd_Id :: uint64DTO
  rnd_NamespaceType :: NamespaceType
  rnd_NamspaceName :: string
  rnd_Duration :: uint64DTO
  rnd_ParentId :: uint64DTO
  rnd_TDto :: transactionInfoDTO

definition registerNamespaceTransactionDTO_toStruct ::
  "'k crypto \<Rightarrow> registerNamespaceTransactionDTO \<Rightarrow> Transaction result" where
  "registerNamespaceTransactionDTO_toStruct C dto =
     res_bind (header_toStruct C (rnd_abstract dto) (rnd_TDto dto)) (\<lambda>atx.
     res_bind (if rnd_NamespaceType dto = Root
       then res_map (\<lambda>d. (d, newNamespaceIdPanic 0)) (uint64DTO_toStruct (rnd_Duration dto))
       else res_map (\<lambda>n. (0, n)) (namespaceIdDTO_toStruct (rnd_ParentId dto))) (\<lambda>(d, n).
     res_bind (namespaceIdDTO_toStruct (rnd_Id dto)) (\<lambda>nsId.
       Inr (TxRegisterNamespace \<lparr>rn_AbstractTransaction = atx, rn_NamespaceId = nsId,
         rn_NamespaceType = rnd_NamespaceType dto, rn_NamspaceName = rnd_NamspaceName dto, rn_Duration = d,
         rn_ParentId = Some n\<rparr>))))"

section \<open>Locks\<close>

record lockFundsTransactionDTO =
  lfd_abstract :: abstractTransactionDTO
  lfd_AssetId :: uint64DTO
  lfd_Amount :: uint64DTO
  lfd_Duration :: uint64DTO
  lfd_Hash :: string
  lfd_TDto :: transactionInfoDTO

definition lockFundsTransactionDTO_toStruct :: "'k crypto \<Rightarrow> lockFundsTransactionDTO \<Rightarrow> Transaction result" where
  "lockFundsTransactionDTO_toStruct C dto =
     res_bind (header_toStruct C (lfd_abstract dto) (lfd_TDto dto)) (\<lambda>atx.
     res_bind (assetIdDTO_toStruct (lfd_AssetId dto)) (\<lambda>assetId.
     res_bind (res_bind (uint64DTO_toStruct (lfd_Amount dto)) (NewMosaic (Some assetId))) (\<lambda>mosaic.
     res_bind (hashDto_Hash (lfd_Hash dto)) (\<lambda>hash.
     res_bind (uint64DTO_toStruct (lfd_Duration dto)) (\<lambda>d.
       Inr (TxLockFunds \<lparr>lf_AbstractTransaction = atx, lf_Mosaic = mosaic, lf_Duration = d,
         lf_SignedTransaction = \<lparr>st_EntityType = ET_Lock, st_Payload = [], st_Hash = hash\<rparr>\<rparr>))))))"

record secretLockTransactionDTO =
  sld_abstract :: abstractTransactionDTO
  sld_AssetId :: "uint64DTO option"
  sld_Amount :: "uint64DTO option"
  sld_HashType :: HashType
  sld_Duration :: uint64DTO
  sld_Secret :: string
  sld_Recipient :: string
  sld_TDto :: transactionInfoDTO

definition secretLockTransactionDTO_toStruct :: "'k crypto \<Rightarrow> secretLockTransactionDTO \<Rightarrow> Transaction result" where
  "secretLockTransactionDTO_toStruct C dto =
     res_bind (header_toStruct C (sld_abstract dto) (sld_TDto dto)) (\<lambda>atx.
     res_bind (NewAddressFromBase32 (sld_Recipient dto)) (\<lambda>a.
     res_bind (res_bind (deref (sld_AssetId dto)) assetIdDTO_toStruct) (\<lambda>assetId.
     res_bind (res_bind (res_bind (deref (sld_Amount dto)) uint64DTO_toStruct) (NewMosaic (Some assetId))) (\<lambda>mosaic.
     res_bind (NewSecretFromHexString (sld_Secret dto) (sld_HashType dto)) (\<lambda>secret.
     res_bind (uint64DTO_toStruct (sld_Duration dto)) (\<lambda>d.
       Inr (TxSecretLock \<lparr>sl_AbstractTransaction = atx, sl_Mosaic = mosaic, sl_Duration = d,
         sl_Secret = secret, sl_Recipient = a\<rparr>)))))))"

record secretProofTransactionDTO =
  spd_abstract :: abstractTransactionDTO
  spd_HashType :: HashType
  spd_Proof :: string
  spd_Recipient :: string
  spd_TDto :: transactionInfoDTO

definition secretProofTransactionDTO_toStruct :: "'k crypto \<Rightarrow> secretProofTransactionDTO \<Rightarrow> Transaction result" where
  "secretProofTransactionDTO_toStruct C dto =
     res_bind (header_toStruct C (spd_abstract dto) (spd_TDto dto)) (\<lambda>atx.
     res_bind (NewProofFromHexString (spd_Proof dto)) (\<lambda>proof.
     res_bind (NewAddressFromBase32 (spd_Recipient dto)) (\<lambda>a.
       Inr (TxSecretProof \<lparr>sp_AbstractTransaction = atx, sp_HashType = spd_HashType dto, sp_Proof = proof,
         sp_Recipient = a\<rparr>))))"

section \<open>Aggregates\<close>

record aggregateTransactionCosignatureDTO =
  acd_Signature :: string
  acd_Signer :: string

definition aggregateTransactionCosignatureDTO_toStruct ::
  "'k crypto \<Rightarrow> aggregateTransactionCosignatureDTO \<Rightarrow> NetworkType \<Rightarrow> AggregateTransactionCosignature result" where
  "aggregateTransactionCosignatureDTO_toStruct C dto networkType =
     res_map (\<lambda>acc. \<lparr>ac_Signature = acd_Signature dto, ac_Signer = acc\<rparr>)
       (NewAccountFromPublicKey C (acd_Signer dto) networkType)"

text \<open>
  The loop over the cosignatures goes on after an error and looks at the last one only: an element
  that failed before it stays nil. A panic ends it.
\<close>

fun cosignatures_loop ::
  "'k crypto \<Rightarrow> NetworkType \<Rightarrow> aggregateTransactionCosignatureDTO list \<Rightarrow> go_error option
   \<Rightarrow> AggregateTransactionCosignature option list result" where
  "cosignatures_loop C nt [] err = (case err of None \<Rightarrow> Inr [] | Some e \<Rightarrow> Inl e)"
| "cosignatures_loop C nt (a # as) err =
     (case aggregateTransactionCosignatureDTO_toStruct C a nt of
        Inl Panicked \<Rightarrow> Inl Panicked
      | Inl e \<Rightarrow> res_map ((#) None) (cosignatures_loop C nt as (Some e))
      | Inr c \<Rightarrow> res_map ((#) (Some c)) (cosignatures_loop C nt as None))"

record aggregateTransactionDTO =
  agd_abstract :: abstractTransactionDTO
  agd_Cosignatures :: "aggregateTransactionCosignatureDTO list"
  agd_TDto :: transactionInfoDTO

text \<open>Writing through the pointer that \<open>GetAbstractTransaction\<close> returns.\<close>

fun SetAbstractTransaction :: "AbstractTransaction \<Rightarrow> Transaction \<Rightarrow> Transaction" where
  "SetAbstractTransaction a (TxAccountPropertiesAddress tx) = TxAccountPropertiesAddress (tx\<lparr>apa_AbstractTransaction := a\<rparr>)"
| "SetAbstractTransaction a (TxAccountPropertiesMosaic tx) = TxAccountPropertiesMosaic (tx\<lparr>apm_AbstractTransaction := a\<rparr>)"
| "SetAbstractTransaction a (TxAccountPropertiesEntityType tx) = TxAccountPropertiesEntityType (tx\<lparr>ape_AbstractTransaction := a\<rparr>)"
| "SetAbstractTransaction a (TxAddressAlias tx) =
     TxAddressAlias (tx\<lparr>aal_AliasTransaction := (aal_AliasTransaction tx)\<lparr>al_AbstractTransaction := a\<rparr>\<rparr>)"
| "SetAbstractTransaction a (TxMosaicAlias tx) =
     TxMosaicAlias (tx\<lparr>mal_AliasTransaction := (mal_AliasTransaction tx)\<lparr>al_AbstractTransaction := a\<rparr>\<rparr>)"
| "SetAbstractTransaction a (TxAccountLink tx) = TxAccountLink (tx\<lparr>link_AbstractTransaction := a\<rparr>)"
| "SetAbstractTransaction a (TxNetworkConfig tx) = TxNetworkConfig (tx\<lparr>nct_AbstractTransaction := a\<rparr>)"
| "SetAbstractTransaction a (TxBlockchainUpgrade tx) = TxBlockchainUpgrade (tx\<lparr>bu_AbstractTransaction := a\<rparr>)"
| "SetAbstractTransaction a (TxAggregate tx) =
     TxAggregate (AggregateTransaction a (ag_InnerTransactions tx) (ag_Cosignatures tx))"
| "SetAbstractTransaction a (TxModifyMetadataAddress tx) = TxModifyMetadataAddress
     (tx\<lparr>mma_ModifyMetadataTransaction := (mma_ModifyMetadataTransaction tx)\<lparr>mmt_AbstractTransaction := a\<rparr>\<rparr>)"
| "SetAbstractTransaction a (TxModifyMetadataMosaic tx) = TxModifyMetadataMosaic
     (tx\<lparr>mmm_ModifyMetadataTransaction := (mmm_ModifyMetadataTransaction tx)\<lparr>mmt_AbstractTransaction := a\<rparr>\<rparr>)"
| "SetAbstractTransaction a (TxModifyMetadataNamespace tx) = TxModifyMetadataNamespace
     (tx\<lparr>mmn_ModifyMetadataTransaction := (mmn_ModifyMetadataTransaction tx)\<lparr>mmt_AbstractTransaction := a\<rparr>\<rparr>)"
| "SetAbstractTransaction a (TxMosaicDefinition tx) = TxMosaicDefinition (tx\<lparr>mdt_AbstractTransaction := a\<rparr>)"
| "SetAbstractTransaction a (TxMosaicSupplyChange tx) = TxMosaicSupplyChange (tx\<lparr>msc_AbstractTransaction := a\<rparr>)"
| "SetAbstractTransaction a (TxTransfer tx) = TxTransfer (tx\<lparr>tr_AbstractTransaction := a\<rparr>)"
| "SetAbstractTransaction a (TxModifyMultisigAccount tx) = TxModifyMultisigAccount (tx\<lparr>mms_AbstractTransaction := a\<rparr>)"
| "SetAbstractTransaction a (TxModifyContract tx) = TxModifyContract (tx\<lparr>mct_AbstractTransaction := a\<rparr>)"
| "SetAbstractTransaction a (TxRegisterNamespace tx) = TxRegisterNamespace (tx\<lparr>rn_AbstractTransaction := a\<rparr>)"
| "SetAbstractTransaction a (TxLockFunds tx) = TxLockFunds (tx\<lparr>lf_AbstractTransaction := a\<rparr>)"
| "SetAbstractTransaction a (TxSecretLock tx) = TxSecretLock (tx\<lparr>sl_AbstractTransaction := a\<rparr>)"
| "SetAbstractTransaction a (TxSecretProof tx) = TxSecretProof (tx\<lparr>sp_AbstractTransaction := a\<rparr>)"

definition inherit_header :: "AbstractTransaction \<Rightarrow> Transaction \<Rightarrow> Transaction" where
  "inherit_header atx tx =
     (let iatx = GetAbstractTransaction tx in
      SetAbstractTransaction (iatx\<lparr>tx_Deadline := tx_Deadline atx, tx_Signature := tx_Signature atx,
        tx_MaxFee := tx_MaxFee atx,
        tx_TransactionInfo := (case tx_TransactionInfo iatx of None \<Rightarrow> tx_TransactionInfo atx | Some i \<Rightarrow> Some i)\<rparr>) tx)"

text \<open>\<open>txs\<close> is what \<open>MapTransactions\<close> returns for the inner transactions.\<close>

definition aggregateTransactionDTO_toStruct ::
  "'k crypto \<Rightarrow> Transaction list result \<Rightarrow> aggregateTransactionDTO \<Rightarrow> Transaction result" where
  "aggregateTransactionDTO_toStruct C txs dto =
     res_bind txs (\<lambda>txs.
     res_bind (header_toStruct C (agd_abstract dto) (agd_TDto dto)) (\<lambda>atx.
     res_bind (cosignatures_loop C (tx_NetworkType atx) (agd_Cosignatures dto) None) (\<lambda>as.
       Inr (TxAggregate (AggregateTransaction atx (map (inherit_header atx) txs) as)))))"

section \<open>Dispatch on the type\<close>

text \<open>
  A JSON object with the objects of its list of inner transactions (empty for any other kind). JSON
  values are finite trees, so the objects of an aggregate are smaller than it; that \<open>json.Marshal\<close> and
  \<open>json.Unmarshal\<close> on the decoded list give those objects back is part of this representation. The
  record \<open>json_api\<close> is \<open>json.Unmarshal\<close> of \<open>github.com/json-iterator/go\<close> into each of the structures.
\<close>

datatype 'j raw_json = Raw 'j "'j raw_json list"

record 'j json_api =
  js_Type :: "'j \<Rightarrow> EntityType result"
  js_accountPropertiesAddress :: "'j \<Rightarrow> accountPropertiesAddressTransactionDTO result"
  js_accountPropertiesMosaic :: "'j \<Rightarrow> accountPropertiesMosaicTransactionDTO result"
  js_accountPropertiesEntityType :: "'j \<Rightarrow> accountPropertiesEntityTypeTransactionDTO result"
  js_addressAlias :: "'j \<Rightarrow> addressAliasTransactionDTO result"
  js_aggregate :: "'j \<Rightarrow> aggregateTransactionDTO result"
  js_networkConfig :: "'j \<Rightarrow> networkConfigTransactionDTO result"
  js_blockchainUpgrade :: "'j \<Rightarrow> blockchainUpgradeTransactionDTO result"
  js_accountLink :: "'j \<Rightarrow> accountLinkTransactionDTO result"
  js_lockFunds :: "'j \<Rightarrow> lockFundsTransactionDTO result"
  js_modifyMetadataAddress :: "'j \<Rightarrow> modifyMetadataAddressTransactionDTO result"
  js_modifyMetadataMosaic :: "'j \<Rightarrow> modifyMetadataMosaicTransactionDTO result"
  js_modifyMetadataNamespace :: "'j \<Rightarrow> modifyMetadataNamespaceTransactionDTO result"
  js_modifyContract :: "'j \<Rightarrow> modifyContractTransactionDTO result"
  js_modifyMultisigAccount :: "'j \<Rightarrow> modifyMultisigAccountTransactionDTO result"
  js_mosaicAlias :: "'j \<Rightarrow> mosaicAliasTransactionDTO result"
  js_mosaicDefinition :: "'j \<Rightarrow> mosaicDefinitionTransactionDTO result"
  js_mosaicSupplyChange :: "'j \<Rightarrow> mosaicSupplyChangeTransactionDTO result"
  js_registerNamespace :: "'j \<Rightarrow> registerNamespaceTransactionDTO result"
  js_secretLock :: "'j \<Rightarrow> secretLockTransactionDTO result"
  js_secretProof :: "'j \<Rightarrow> secretProofTransactionDTO result"
  js_transfer :: "'j \<Rightarrow> transferTransactionDTO result"

text \<open>
  One goroutine per element, all of them waited for: a panic in any ends the program, otherwise the
  first error in the order of the list is returned.
\<close>

fun first_error :: "'a result list \<Rightarrow> 'a list result" where
  "first_error [] = Inr []"
| "first_error (r # rs) = res_bind r (\<lambda>x. res_map ((#) x) (first_error rs))"

definition wait_all :: "'a result list \<Rightarrow> 'a list result" where
  "wait_all rs = (if Inl Panicked \<in> set rs then Inl Panicked else first_error rs)"

text \<open>\<open>dtoToTransaction\<close> for a given structure.\<close>

definition dtoToTransaction :: "'d result \<Rightarrow> ('d \<Rightarrow> Transaction result) \<Rightarrow> Transaction result" where
  "dtoToTransaction dto toStruct = res_bind dto toStruct"

definition map_by_type :: "'k crypto \<Rightarrow> 'j json_api \<Rightarrow> 'j \<Rightarrow> Transaction list result \<Rightarrow> EntityType \<Rightarrow> Transaction result" where
  "map_by_type C J b txs t =
     (if t = ET_AccountPropertyAddress
      then dtoToTransaction (js_accountPropertiesAddress J b) (accountPropertiesAddressTransactionDTO_toStruct C)
      else if t = ET_AccountPropertyMosaic
      then dtoToTransaction (js_accountPropertiesMosaic J b) (accountPropertiesMosaicTransactionDTO_toStruct C)
      else if t = ET_AccountPropertyEntityType
      then dtoToTransaction (js_accountPropertiesEntityType J b) (accountPropertiesEntityTypeTransactionDTO_toStruct C)
      else if t = ET_AddressAlias
      then dtoToTransaction (js_addressAlias J b) (addressAliasTransactionDTO_toStruct C)
      else if t = ET_AggregateBonded \<or> t = ET_AggregateCompleted
      then dtoToTransaction (js_aggregate J b) (aggregateTransactionDTO_toStruct C txs)
      else if t = ET_NetworkConfigEntityType
      then dtoToTransaction (js_networkConfig J b) (networkConfigTransactionDTO_toStruct C)
      else if t = ET_BlockchainUpgrade
      then dtoToTransaction (js_blockchainUpgrade J b) (blockchainUpgradeTransactionDTO_toStruct C)
      else if t = ET_LinkAccount
      then dtoToTransaction (js_accountLink J b) (accountLinkTransactionDTO_toStruct C)
      else if t = ET_Lock
      then dtoToTransaction (js_lockFunds J b) (lockFundsTransactionDTO_toStruct C)
      else if t = ET_MetadataAddress
      then dtoToTransaction (js_modifyMetadataAddress J b) (modifyMetadataAddressTransactionDTO_toStruct C)
      else if t = ET_MetadataMosaic
      then dtoToTransaction (js_modifyMetadataMosaic J b) (modifyMetadataMosaicTransactionDTO_toStruct C)
      else if t = ET_MetadataNamespace
      then dtoToTransaction (js_modifyMetadataNamespace J b) (modifyMetadataNamespaceTransactionDTO_toStruct C)
      else if t = ET_ModifyContract
      then dtoToTransaction (js_modifyContract J b) (modifyContractTransactionDTO_toStruct C)
      else if t = ET_ModifyMultisig
      then dtoToTransaction (js_modifyMultisigAccount J b) (modifyMultisigAccountTransactionDTO_toStruct C)
      else if t = ET_MosaicAlias
      then dtoToTransaction (js_mosaicAlias J b) (mosaicAliasTransactionDTO_toStruct C)
      else if t = ET_MosaicDefinition
      then dtoToTransaction (js_mosaicDefinition J b) (mosaicDefinitionTransactionDTO_toStruct C)
      else if t = ET_MosaicSupplyChange
      then dtoToTransaction (js_mosaicSupplyChange J b) (mosaicSupplyChangeTransactionDTO_toStruct C)
      else if t = ET_RegisterNamespace
      then dtoToTransaction (js_registerNamespace J b) (registerNamespaceTransactionDTO_toStruct C)
      else if t = ET_SecretLock
      then dtoToTransaction (js_secretLock J b) (secretLockTransactionDTO_toStruct C)
      else if t = ET_SecretProof
      then dtoToTransaction (js_secretProof J b) (secretProofTransactionDTO_toStruct C)
      else if t = ET_Transfer
      then dtoToTransaction (js_transfer J b) (transferTransactionDTO_toStruct C)
      else Inl (NewError (''dto can'' @ [CHR 0x27] @ ''t be nil'')))"

fun MapTransaction :: "'k crypto \<Rightarrow> 'j json_api \<Rightarrow> 'j raw_json \<Rightarrow> Transaction result" where
  "MapTransaction C J (Raw b inner) =
     res_bind (js_Type J b) (map_by_type C J b (wait_all (map (MapTransaction C J) inner)))"

text \<open>\<open>m\<close> is what \<open>json.Unmarshal\<close> makes of the body: the raw messages of an array, or an error.\<close>

definition MapTransactions :: "'k crypto \<Rightarrow> 'j json_api \<Rightarrow> 'j raw_json list result \<Rightarrow> Transaction list result" where
  "MapTransactions C J m = res_bind m (\<lambda>m. wait_all (map (MapTransaction C J) m))"

section \<open>Statuses\<close>

record TransactionStatus =
  ts_Deadline :: Deadline
  ts_Group :: string
  ts_Status :: string
  ts_Hash :: "Hash option"
  ts_Height :: Height

record transactionStatusDTO =
  tsd_Group :: string
  tsd_Status :: string
  tsd_Hash :: string
  tsd_Deadline :: uint64DTO
  tsd_Height :: uint64DTO

definition transactionStatusDTO_toStruct :: "transactionStatusDTO \<Rightarrow> TransactionStatus result" where
  "transactionStatusDTO_toStruct dto =
     res_bind (hashDto_Hash (tsd_Hash dto)) (\<lambda>hash.
     res_bind (blockchainTimestampDTO_toStruct (tsd_Deadline dto)) (\<lambda>d.
     res_bind (uint64DTO_toStruct (tsd_Height dto)) (\<lambda>h.
       Inr \<lparr>ts_Deadline = NewDeadlineFromBlockchainTimestamp d, ts_Group = tsd_Group dto, ts_Status = tsd_Status dto,
            ts_Hash = hash, ts_Height = h\<rparr>)))"

definition transactionStatusDTOs_toStruct :: "transactionStatusDTO list \<Rightarrow> TransactionStatus list result" where
  "transactionStatusDTOs_toStruct dtos = mapR transactionStatusDTO_toStruct dtos"

end
