(* ===== verification/TxDtoProperties.thy ===== *)
theory TxDtoProperties
  imports TxDto
begin

text \<open>What \<open>MapTransaction\<close> makes of the JSON of the REST server: the kind of the transaction, and the parts of an aggregate.\<close>

section \<open>Every kind of JSON gives its kind of transaction\<close>

text \<open>The entity types under which the server sends a transaction of each kind.\<close>

fun types_of :: "Transaction \<Rightarrow> EntityType list" where
  "types_of (TxAccountPropertiesAddress _) = [ET_AccountPropertyAddress]"
| "types_of (TxAccountPropertiesMosaic _) = [ET_AccountPropertyMosaic]"
| "types_of (TxAccountPropertiesEntityType _) = [ET_AccountPropertyEntityType]"
| "types_of (TxAddressAlias _) = [ET_AddressAlias]"
| "types_of (TxMosaicAlias _) = [ET_MosaicAlias]"
| "types_of (TxAccountLink _) = [ET_LinkAccount]"
| "types_of (TxNetworkConfig _) = [ET_NetworkConfigEntityType]"
| "types_of (TxBlockchainUpgrade _) = [ET_BlockchainUpgrade]"
| "types_of (TxAggregate _) = [ET_AggregateBonded, ET_AggregateCompleted]"
| "types_of (TxModifyMetadataAddress _) = [ET_MetadataAddress]"
| "types_of (TxModifyMetadataMosaic _) = [ET_MetadataMosaic]"
| "types_of (TxModifyMetadataNamespace _) = [ET_MetadataNamespace]"
| "types_of (TxMosaicDefinition _) = [ET_MosaicDefinition]"
| "types_of (TxMosaicSupplyChange _) = [ET_MosaicSupplyChange]"
| "types_of (TxTransfer _) = [ET_Transfer]"
| "types_of (TxModifyMultisigAccount _) = [ET_ModifyMultisig]"
| "types_of (TxModifyContract _) = [ET_ModifyContract]"
| "types_of (TxRegisterNamespace _) = [ET_RegisterNamespace]"
| "types_of (TxLockFunds _) = [ET_Lock]"
| "types_of (TxSecretLock _) = [ET_SecretLock]"
| "types_of (TxSecretProof _) = [ET_SecretProof]"

lemmas toStruct_defs =
  accountPropertiesAddressTransactionDTO_toStruct_def accountPropertiesMosaicTransactionDTO_toStruct_def
  accountPropertiesEntityTypeTransactionDTO_toStruct_def addressAliasTransactionDTO_toStruct_def
  mosaicAliasTransactionDTO_toStruct_def accountLinkTransactionDTO_toStruct_def networkConfigTransactionDTO_toStruct_def
  blockchainUpgradeTransactionDTO_toStruct_def modifyMetadataAddressTransactionDTO_toStruct_def
  modifyMetadataMosaicTransactionDTO_toStruct_def modifyMetadataNamespaceTransactionDTO_toStruct_def
  mosaicDefinitionTransactionDTO_toStruct_def mosaicSupplyChangeTransactionDTO_toStruct_def transferTransactionDTO_toStruct_def
  modifyMultisigAccountTransactionDTO_toStruct_def modifyContractTransactionDTO_toStruct_def
  registerNamespaceTransactionDTO_toStruct_def lockFundsTransactionDTO_toStruct_def secretLockTransactionDTO_toStruct_def
  secretProofTransactionDTO_toStruct_def aggregateTransactionDTO_toStruct_def

lemma dtoToTransaction_types:
  assumes "dtoToTransaction r f = Inr tx" "\<And>d y. f d = Inr y \<Longrightarrow> types_of y = ts"
  shows "types_of tx = ts"
  using assms by (auto simp: dtoToTransaction_def res_bind_Inr_iff)

lemma res_bindE: "res_bind r f = Inr y \<Longrightarrow> (\<And>x. r = Inr x \<Longrightarrow> f x = Inr y \<Longrightarrow> P) \<Longrightarrow> P"
  by (cases r) auto

lemma toStruct_types:
  "accountPropertiesAddressTransactionDTO_toStruct C d1 = Inr y \<Longrightarrow> types_of y = [ET_AccountPropertyAddress]"
  "accountPropertiesMosaicTransactionDTO_toStruct C d2 = Inr y \<Longrightarrow> types_of y = [ET_AccountPropertyMosaic]"
  "accountPropertiesEntityTypeTransactionDTO_toStruct C d3 = Inr y \<Longrightarrow> types_of y = [ET_AccountPropertyEntityType]"
  "addressAliasTransactionDTO_toStruct C d4 = Inr y \<Longrightarrow> types_of y = [ET_AddressAlias]"
  "aggregateTransactionDTO_toStruct C txs d5 = Inr y \<Longrightarrow> types_of y = [ET_AggregateBonded, ET_AggregateCompleted]"
  "networkConfigTransactionDTO_toStruct C d6 = Inr y \<Longrightarrow> types_of y = [ET_NetworkConfigEntityType]"
  "blockchainUpgradeTransactionDTO_toStruct C d7 = Inr y \<Longrightarrow> types_of y = [ET_BlockchainUpgrade]"
  "accountLinkTransactionDTO_toStruct C d8 = Inr y \<Longrightarrow> types_of y = [ET_LinkAccount]"
  "lockFundsTransactionDTO_toStruct C d9 = Inr y \<Longrightarrow> types_of y = [ET_Lock]"
  "modifyMetadataAddressTransactionDTO_toStruct C d10 = Inr y \<Longrightarrow> types_of y = [ET_MetadataAddress]"
  "modifyMetadataMosaicTransactionDTO_toStruct C d11 = Inr y \<Longrightarrow> types_of y = [ET_MetadataMosaic]"
  by (simp only: toStruct_defs; elim res_bindE; force)+

lemma toStruct_types_more:
  "modifyMetadataNamespaceTransactionDTO_toStruct C e1 = Inr y \<Longrightarrow> types_of y = [ET_MetadataNamespace]"
  "modifyContractTransactionDTO_toStruct C e2 = Inr y \<Longrightarrow> types_of y = [ET_ModifyContract]"
  "modifyMultisigAccountTransactionDTO_toStruct C e3 = Inr y \<Longrightarrow> types_of y = [ET_ModifyMultisig]"
  "mosaicAliasTransactionDTO_toStruct C e4 = Inr y \<Longrightarrow> types_of y = [ET_MosaicAlias]"
  "mosaicDefinitionTransactionDTO_toStruct C e5 = Inr y \<Longrightarrow> types_of y = [ET_MosaicDefinition]"
  "mosaicSupplyChangeTransactionDTO_toStruct C e6 = Inr y \<Longrightarrow> types_of y = [ET_MosaicSupplyChange]"
  "registerNamespaceTransactionDTO_toStruct C e7 = Inr y \<Longrightarrow> types_of y = [ET_RegisterNamespace]"
  "secretLockTransactionDTO_toStruct C e8 = Inr y \<Longrightarrow> types_of y = [ET_SecretLock]"
  "secretProofTransactionDTO_toStruct C e9 = Inr y \<Longrightarrow> types_of y = [ET_SecretProof]"
  "transferTransactionDTO_toStruct C e10 = Inr y \<Longrightarrow> types_of y = [ET_Transfer]"
  by (simp only: toStruct_defs; elim res_bindE; force split: prod.splits elim: res_bindE)+

lemma map_by_type_types: "map_by_type C J b txs t = Inr tx \<Longrightarrow> t \<in> set (types_of tx)"
  by (simp only: map_by_type_def split: if_split_asm)
    (auto dest!: dtoToTransaction_types toStruct_types toStruct_types_more)

definition known_type :: "EntityType \<Rightarrow> bool" where
  "known_type t \<longleftrightarrow> (\<exists>tx. t \<in> set (types_of tx))"

lemma unknown_type:
  assumes "\<not> known_type t"
  shows "map_by_type C J b txs t = Inl (NewError (''dto can'' @ [CHR 0x27] @ ''t be nil''))"
proof -
  have n: "t \<notin> set (types_of tx)" for tx using assms by (auto simp: known_type_def)
  show ?thesis
    using n [of "TxAccountPropertiesAddress undefined"] n [of "TxAccountPropertiesMosaic undefined"]
      n [of "TxAccountPropertiesEntityType undefined"] n [of "TxAddressAlias undefined"] n [of "TxMosaicAlias undefined"]
      n [of "TxAccountLink undefined"] n [of "TxNetworkConfig undefined"] n [of "TxBlockchainUpgrade undefined"]
      n [of "TxAggregate undefined"] n [of "TxModifyMetadataAddress undefined"] n [of "TxModifyMetadataMosaic undefined"]
      n [of "TxModifyMetadataNamespace undefined"] n [of "TxMosaicDefinition undefined"] n [of "TxMosaicSupplyChange undefined"]
      n [of "TxTransfer undefined"] n [of "TxModifyMultisigAccount undefined"] n [of "TxModifyContract undefined"]
      n [of "TxRegisterNamespace undefined"] n [of "TxLockFunds undefined"] n [of "TxSecretLock undefined"]
      n [of "TxSecretProof undefined"]
    by (simp add: map_by_type_def)
qed

text \<open>
  C11. \<open>MapTransaction\<close> makes of a JSON object a transaction of the kind its type stands for, and for a type that
  stands for none it returns an error.
\<close>

theorem mapped_kind:
  "case js_Type J b of
     Inl e \<Rightarrow> MapTransaction C J (Raw b inner) = Inl e
   | Inr t \<Rightarrow> (if known_type t
       then (case MapTransaction C J (Raw b inner) of Inl _ \<Rightarrow> True | Inr tx \<Rightarrow> t \<in> set (types_of tx))
       else MapTransaction C J (Raw b inner) = Inl (NewError (''dto can'' @ [CHR 0x27] @ ''t be nil'')))"
  using map_by_type_types [of C J b] unknown_type [of _ C J b]
  by (auto split: sum.split)

section \<open>Aggregates\<close>

lemma first_error_Inr_iff: "first_error rs = Inr xs \<longleftrightarrow> rs = map Inr xs"
  by (induction rs arbitrary: xs) (auto simp: res_bind_Inr_iff res_map_Inr_iff)

lemma wait_all_Inr_iff: "wait_all rs = Inr xs \<longleftrightarrow> rs = map Inr xs"
  by (auto simp: wait_all_def first_error_Inr_iff)

lemma Get_Set_Abstract: "GetAbstractTransaction (SetAbstractTransaction a tx) = a"
  by (cases tx) simp_all

lemma map_aggregate:
  assumes "map_by_type C J b txs t = Inr (TxAggregate ag)"
  shows "\<exists>dto. js_aggregate J b = Inr dto \<and> aggregateTransactionDTO_toStruct C txs dto = Inr (TxAggregate ag)"
proof -
  have "t = ET_AggregateBonded \<or> t = ET_AggregateCompleted"
    using map_by_type_types [OF assms] by simp
  with assms show ?thesis
    by (auto simp: map_by_type_def go_consts dtoToTransaction_def res_bind_Inr_iff)
qed

text \<open>The part of an aggregate with header \<open>a\<close> that a mapped transaction becomes.\<close>

definition inherits :: "AbstractTransaction \<Rightarrow> Transaction \<Rightarrow> Transaction \<Rightarrow> bool" where
  "inherits a tx itx \<longleftrightarrow>
     (let h = GetAbstractTransaction tx; ih = GetAbstractTransaction itx in
      tx_Deadline ih = tx_Deadline a \<and> tx_MaxFee ih = tx_MaxFee a \<and> tx_Signature ih = tx_Signature a
      \<and> tx_TransactionInfo ih = (if tx_TransactionInfo h = None then tx_TransactionInfo a else tx_TransactionInfo h)
      \<and> tx_NetworkType ih = tx_NetworkType h \<and> tx_Type ih = tx_Type h \<and> tx_Version ih = tx_Version h
      \<and> tx_Signer ih = tx_Signer h \<and> SetAbstractTransaction h itx = tx)"

lemma Set_Set_Abstract: "SetAbstractTransaction a (SetAbstractTransaction b tx) = SetAbstractTransaction a tx"
  by (cases tx) simp_all

lemma Set_Get_Abstract: "SetAbstractTransaction (GetAbstractTransaction tx) tx = tx"
  by (cases tx) simp_all

lemma inherits_header: "inherits a tx (inherit_header a tx)"
  by (simp add: inherits_def inherit_header_def Let_def Get_Set_Abstract Set_Set_Abstract Set_Get_Abstract split: option.split)

text \<open>
  C10. An aggregate that is mapped has exactly the transactions its parts map to, in their order; each takes over the
  deadline, the fee and the signature of the aggregate, its information only where it has none of its own, and
  keeps everything else. If any part fails, so does the aggregate.
\<close>

theorem aggregate_parts_inherit:
  assumes "MapTransaction C J (Raw b inner) = Inr (TxAggregate ag)"
  shows "list_all2 (\<lambda>m itx. \<exists>tx. MapTransaction C J m = Inr tx \<and> inherits (ag_AbstractTransaction ag) tx itx)
    inner (ag_InnerTransactions ag)"
proof -
  from assms obtain t where "map_by_type C J b (wait_all (map (MapTransaction C J) inner)) t = Inr (TxAggregate ag)"
    by (auto simp: res_bind_Inr_iff)
  then obtain dto where
    "aggregateTransactionDTO_toStruct C (wait_all (map (MapTransaction C J) inner)) dto = Inr (TxAggregate ag)"
    by (blast dest: map_aggregate)
  then obtain txs where txs: "wait_all (map (MapTransaction C J) inner) = Inr txs"
    "ag_InnerTransactions ag = map (inherit_header (ag_AbstractTransaction ag)) txs"
    unfolding aggregateTransactionDTO_toStruct_def by (elim res_bindE) force
  then have "list_all2 (\<lambda>m tx. MapTransaction C J m = Inr tx) inner txs"
    by (auto simp: wait_all_Inr_iff list_all2_conv_all_nth dest: map_eq_imp_length_eq)
      (metis length_map nth_map)
  then show ?thesis
    unfolding txs(2) list_all2_map2
    by (rule list_all2_mono) (auto intro: inherits_header)
qed

subsection \<open>A concrete aggregate\<close>

lemma NewAccountFromPublicKey_ok:
  assumes "hashes_ok C" "hex_decode key = Inr bs"
  shows "\<exists>ad. NewAccountFromPublicKey C key nt = Inr \<lparr>pa_Address = ad, pa_PublicKey = key\<rparr>"
  using generateEncodedAddress_eq [OF assms, of nt]
  by (auto simp: NewAccountFromPublicKey_def NewAddressFromPublicKey_def)

definition sample_key :: string where "sample_key = hex_encode (replicate 32 7)"

definition sample_abstract_dto :: "EntityType \<Rightarrow> u32 \<Rightarrow> abstractTransactionDTO" where
  "sample_abstract_dto t fee = \<lparr>atd_Type = t, atd_Version = 0x90000002, atd_MaxFee = Some (fee, 0), atd_Deadline = None,
     atd_Signature = [], atd_Signer = sample_key\<rparr>"

definition sample_info_dto :: transactionInfoDTO where
  "sample_info_dto = \<lparr>tid_Height = (1, 0), tid_Index = 0, tid_Id = ''1'', tid_TransactionHash = [],
     tid_MerkleComponentHash = [], tid_AggregateHash = [], tid_AggregateId = []\<rparr>"

text \<open>The JSON 0 is an aggregate, 1 a change of a multisig account, and 2 has an unknown type.\<close>

definition sample_json :: "nat json_api" where
  "sample_json = \<lparr>
     js_Type = (\<lambda>n. Inr (if n = 0 then ET_AggregateBonded else if n = 1 then ET_ModifyMultisig else 0)),
     js_accountPropertiesAddress = (\<lambda>_. Inl Panicked), js_accountPropertiesMosaic = (\<lambda>_. Inl Panicked),
     js_accountPropertiesEntityType = (\<lambda>_. Inl Panicked), js_addressAlias = (\<lambda>_. Inl Panicked),
     js_aggregate = (\<lambda>_. Inr \<lparr>agd_abstract = sample_abstract_dto ET_AggregateBonded 7, agd_Cosignatures = [],
       agd_TDto = sample_info_dto\<rparr>),
     js_networkConfig = (\<lambda>_. Inl Panicked), js_blockchainUpgrade = (\<lambda>_. Inl Panicked), js_accountLink = (\<lambda>_. Inl Panicked),
     js_lockFunds = (\<lambda>_. Inl Panicked), js_modifyMetadataAddress = (\<lambda>_. Inl Panicked),
     js_modifyMetadataMosaic = (\<lambda>_. Inl Panicked), js_modifyMetadataNamespace = (\<lambda>_. Inl Panicked),
     js_modifyContract = (\<lambda>_. Inl Panicked),
     js_modifyMultisigAccount = (\<lambda>_. Inr \<lparr>mmsd_abstract = sample_abstract_dto ET_ModifyMultisig 3, mmsd_MinApprovalDelta = 1,
       mmsd_MinRemovalDelta = 2, mmsd_Modifications = [], mmsd_TDto = sample_info_dto\<rparr>),
     js_mosaicAlias = (\<lambda>_. Inl Panicked), js_mosaicDefinition = (\<lambda>_. Inl Panicked),
     js_mosaicSupplyChange = (\<lambda>_. Inl Panicked), js_registerNamespace = (\<lambda>_. Inl Panicked),
     js_secretLock = (\<lambda>_. Inl Panicked), js_secretProof = (\<lambda>_. Inl Panicked), js_transfer = (\<lambda>_. Inl Panicked)\<rparr>"

lemma sample_header_dto:
  "\<exists>a. header_toStruct sample_crypto (sample_abstract_dto t fee) sample_info_dto = Inr a
     \<and> tx_MaxFee a = u64_of_words (fee, 0) \<and> tx_Type a = t"
proof -
  obtain ad where "NewAccountFromPublicKey sample_crypto sample_key (ExtractNetworkType 0x90000002) =
      Inr \<lparr>pa_Address = ad, pa_PublicKey = sample_key\<rparr>"
    using NewAccountFromPublicKey_ok [OF sample_hashes_ok hex_decode_encode] unfolding sample_key_def by blast
  then show ?thesis
    by (simp add: header_toStruct_def transactionInfoDTO_toStruct_def sample_info_dto_def hashDto_Hash_def
        uint64DTO_toStruct_def uint64DTO_toUint64_eq abstractTransactionDTO_toStruct_def sample_abstract_dto_def)
qed

lemma sample_multisig_json:
  "\<exists>tx. MapTransaction sample_crypto sample_json (Raw 1 []) = Inr tx \<and> tx_MaxFee (GetAbstractTransaction tx) = u64_of_words (3, 0)"
proof -
  obtain a where "header_toStruct sample_crypto (sample_abstract_dto ET_ModifyMultisig 3) sample_info_dto = Inr a"
    "tx_MaxFee a = u64_of_words (3, 0)"
    using sample_header_dto by blast
  then show ?thesis
    by (simp add: sample_json_def map_by_type_def go_consts dtoToTransaction_def modifyMultisigAccountTransactionDTO_toStruct_def
        multisigCosignatoryDTOArrayToStruct_def)
qed

lemma sample_aggregate_json:
  "\<exists>ag. MapTransaction sample_crypto sample_json (Raw 0 [Raw 1 []]) = Inr (TxAggregate ag)
     \<and> tx_MaxFee (ag_AbstractTransaction ag) = u64_of_words (7, 0)"
proof -
  obtain a where a: "header_toStruct sample_crypto (sample_abstract_dto ET_AggregateBonded 7) sample_info_dto = Inr a"
    "tx_MaxFee a = u64_of_words (7, 0)"
    using sample_header_dto by blast
  obtain tx where tx: "MapTransaction sample_crypto sample_json (Raw 1 []) = Inr tx"
    using sample_multisig_json by blast
  have "js_Type sample_json 0 = Inr ET_AggregateBonded" "js_aggregate sample_json 0 =
      Inr \<lparr>agd_abstract = sample_abstract_dto ET_AggregateBonded 7, agd_Cosignatures = [], agd_TDto = sample_info_dto\<rparr>"
    by (simp_all add: sample_json_def)
  then have "MapTransaction sample_crypto sample_json (Raw 0 [Raw 1 []]) =
      aggregateTransactionDTO_toStruct sample_crypto (wait_all [MapTransaction sample_crypto sample_json (Raw 1 [])])
        \<lparr>agd_abstract = sample_abstract_dto ET_AggregateBonded 7, agd_Cosignatures = [], agd_TDto = sample_info_dto\<rparr>"
    by (simp add: map_by_type_def go_consts dtoToTransaction_def del: MapTransaction.simps(1) add: MapTransaction.simps [of _ _ 0])
  with a tx show ?thesis
    by (simp add: wait_all_def aggregateTransactionDTO_toStruct_def del: MapTransaction.simps)
qed

lemma aggregate_parts_inherit_witness:
  "\<exists>ag itx. MapTransaction sample_crypto sample_json (Raw 0 [Raw 1 []]) = Inr (TxAggregate ag)
     \<and> ag_InnerTransactions ag = [itx] \<and> tx_MaxFee (GetAbstractTransaction itx) = u64_of_words (7, 0)"
proof -
  obtain ag where ag: "MapTransaction sample_crypto sample_json (Raw 0 [Raw 1 []]) = Inr (TxAggregate ag)"
    "tx_MaxFee (ag_AbstractTransaction ag) = u64_of_words (7, 0)"
    using sample_aggregate_json by blast
  from aggregate_parts_inherit [OF ag(1)] ag show ?thesis
    by (auto simp: list_all2_Cons1 inherits_def Let_def simp del: MapTransaction.simps)
qed

text \<open>
  The cosignatures of an aggregate: an error in one of them is forgotten when a later one can be read, and
  leaves a nil pointer in the list.
\<close>

lemma cosignature_error_is_lost:
  assumes "hex_decode (acd_Signer d) = Inr bs" "hashes_ok C"
    and "aggregateTransactionCosignatureDTO_toStruct C bad nt = Inl e" "e \<noteq> Panicked"
  shows "\<exists>c. cosignatures_loop C nt [bad, d] None = Inr [None, Some c]"
proof -
  obtain acc where "NewAccountFromPublicKey C (acd_Signer d) nt = Inr acc"
    using NewAccountFromPublicKey_ok [OF assms(2,1)] by blast
  with assms(3,4) show ?thesis
    by (cases e) (simp_all add: aggregateTransactionCosignatureDTO_toStruct_def)
qed

end
