(* ===== verification/TxReport.thy ===== *)
theory TxReport
  imports TxDtoProperties NetworkRoundtrip
begin

text \<open>
  What a node reports of a transaction, and that \<open>MapTransaction\<close> reads it back. \<open>report\<close> is the specification: each field of the
  transaction in the form of the REST interface, numbers as pairs of 32 bits, keys, hashes and addresses in hexadecimal. A JSON document is
  its structure here, so that the reader \<open>report_json\<close> takes it as it is. The transactions inside an aggregate are reported
  without fee, deadline and signature.
\<close>

section \<open>Documents\<close>

datatype document =
    DocAccountPropertiesAddress accountPropertiesAddressTransactionDTO
  | DocAccountPropertiesMosaic accountPropertiesMosaicTransactionDTO
  | DocAccountPropertiesEntityType accountPropertiesEntityTypeTransactionDTO
  | DocAddressAlias addressAliasTransactionDTO
  | DocMosaicAlias mosaicAliasTransactionDTO
  | DocAccountLink accountLinkTransactionDTO
  | DocNetworkConfig networkConfigTransactionDTO
  | DocBlockchainUpgrade blockchainUpgradeTransactionDTO
  | DocAggregate aggregateTransactionDTO
  | DocModifyMetadataAddress modifyMetadataAddressTransactionDTO
  | DocModifyMetadataMosaic modifyMetadataMosaicTransactionDTO
  | DocModifyMetadataNamespace modifyMetadataNamespaceTransactionDTO
  | DocMosaicDefinition mosaicDefinitionTransactionDTO
  | DocMosaicSupplyChange mosaicSupplyChangeTransactionDTO
  | DocTransfer transferTransactionDTO
  | DocModifyMultisigAccount modifyMultisigAccountTransactionDTO
  | DocModifyContract modifyContractTransactionDTO
  | DocRegisterNamespace registerNamespaceTransactionDTO
  | DocLockFunds lockFundsTransactionDTO
  | DocSecretLock secretLockTransactionDTO
  | DocSecretProof secretProofTransactionDTO

fun doc_Type :: "document \<Rightarrow> EntityType" where
  "doc_Type (DocAccountPropertiesAddress d) = atd_Type (apad_abstract d)"
| "doc_Type (DocAccountPropertiesMosaic d) = atd_Type (apmd_abstract d)"
| "doc_Type (DocAccountPropertiesEntityType d) = atd_Type (aped_abstract d)"
| "doc_Type (DocAddressAlias d) = atd_Type (ald_abstract (aald_alias d))"
| "doc_Type (DocMosaicAlias d) = atd_Type (ald_abstract (mald_alias d))"
| "doc_Type (DocAccountLink d) = atd_Type (linkd_abstract d)"
| "doc_Type (DocNetworkConfig d) = atd_Type (nctd_abstract d)"
| "doc_Type (DocBlockchainUpgrade d) = atd_Type (bud_abstract d)"
| "doc_Type (DocAggregate d) = atd_Type (agd_abstract d)"
| "doc_Type (DocModifyMetadataAddress d) = atd_Type (mmtd_abstract (mmad_modify d))"
| "doc_Type (DocModifyMetadataMosaic d) = atd_Type (mmtd_abstract (mmmd_modify d))"
| "doc_Type (DocModifyMetadataNamespace d) = atd_Type (mmtd_abstract (mmnd_modify d))"
| "doc_Type (DocMosaicDefinition d) = atd_Type (mdtd_abstract d)"
| "doc_Type (DocMosaicSupplyChange d) = atd_Type (mscd_abstract d)"
| "doc_Type (DocTransfer d) = atd_Type (trd_abstract d)"
| "doc_Type (DocModifyMultisigAccount d) = atd_Type (mmsd_abstract d)"
| "doc_Type (DocModifyContract d) = atd_Type (mctd_abstract d)"
| "doc_Type (DocRegisterNamespace d) = atd_Type (rnd_abstract d)"
| "doc_Type (DocLockFunds d) = atd_Type (lfd_abstract d)"
| "doc_Type (DocSecretLock d) = atd_Type (sld_abstract d)"
| "doc_Type (DocSecretProof d) = atd_Type (spd_abstract d)"

definition no_document :: "'a result" where
  "no_document = Inl (PackageError ''json'')"

definition report_json :: "document json_api" where
  "report_json = \<lparr>
     js_Type = (\<lambda>d. Inr (doc_Type d)),
     js_accountPropertiesAddress = (\<lambda>d. case d of DocAccountPropertiesAddress x \<Rightarrow> Inr x | _ \<Rightarrow> no_document),
     js_accountPropertiesMosaic = (\<lambda>d. case d of DocAccountPropertiesMosaic x \<Rightarrow> Inr x | _ \<Rightarrow> no_document),
     js_accountPropertiesEntityType = (\<lambda>d. case d of DocAccountPropertiesEntityType x \<Rightarrow> Inr x | _ \<Rightarrow> no_document),
     js_addressAlias = (\<lambda>d. case d of DocAddressAlias x \<Rightarrow> Inr x | _ \<Rightarrow> no_document),
     js_aggregate = (\<lambda>d. case d of DocAggregate x \<Rightarrow> Inr x | _ \<Rightarrow> no_document),
     js_networkConfig = (\<lambda>d. case d of DocNetworkConfig x \<Rightarrow> Inr x | _ \<Rightarrow> no_document),
     js_blockchainUpgrade = (\<lambda>d. case d of DocBlockchainUpgrade x \<Rightarrow> Inr x | _ \<Rightarrow> no_document),
     js_accountLink = (\<lambda>d. case d of DocAccountLink x \<Rightarrow> Inr x | _ \<Rightarrow> no_document),
     js_lockFunds = (\<lambda>d. case d of DocLockFunds x \<Rightarrow> Inr x | _ \<Rightarrow> no_document),
     js_modifyMetadataAddress = (\<lambda>d. case d of DocModifyMetadataAddress x \<Rightarrow> Inr x | _ \<Rightarrow> no_document),
     js_modifyMetadataMosaic = (\<lambda>d. case d of DocModifyMetadataMosaic x \<Rightarrow> Inr x | _ \<Rightarrow> no_document),
     js_modifyMetadataNamespace = (\<lambda>d. case d of DocModifyMetadataNamespace x \<Rightarrow> Inr x | _ \<Rightarrow> no_document),
     js_modifyContract = (\<lambda>d. case d of DocModifyContract x \<Rightarrow> Inr x | _ \<Rightarrow> no_document),
     js_modifyMultisigAccount = (\<lambda>d. case d of DocModifyMultisigAccount x \<Rightarrow> Inr x | _ \<Rightarrow> no_document),
     js_mosaicAlias = (\<lambda>d. case d of DocMosaicAlias x \<Rightarrow> Inr x | _ \<Rightarrow> no_document),
     js_mosaicDefinition = (\<lambda>d. case d of DocMosaicDefinition x \<Rightarrow> Inr x | _ \<Rightarrow> no_document),
     js_mosaicSupplyChange = (\<lambda>d. case d of DocMosaicSupplyChange x \<Rightarrow> Inr x | _ \<Rightarrow> no_document),
     js_registerNamespace = (\<lambda>d. case d of DocRegisterNamespace x \<Rightarrow> Inr x | _ \<Rightarrow> no_document),
     js_secretLock = (\<lambda>d. case d of DocSecretLock x \<Rightarrow> Inr x | _ \<Rightarrow> no_document),
     js_secretProof = (\<lambda>d. case d of DocSecretProof x \<Rightarrow> Inr x | _ \<Rightarrow> no_document),
     js_transfer = (\<lambda>d. case d of DocTransfer x \<Rightarrow> Inr x | _ \<Rightarrow> no_document)\<rparr>"

section \<open>The parts of a report\<close>

definition hash_report :: "Hash option \<Rightarrow> string" where
  "hash_report h = (case h of None \<Rightarrow> [] | Some h \<Rightarrow> hex_encode h)"

definition hash_wf :: "Hash option \<Rightarrow> bool" where
  "hash_wf h \<longleftrightarrow> (case h of None \<Rightarrow> True | Some h \<Rightarrow> length h = 32)"

definition address_report :: "Address \<Rightarrow> string" where
  "address_report a = (case b32_decode (addr_Address a) of Inl _ \<Rightarrow> [] | Inr bs \<Rightarrow> hex_encode bs)"

definition address_wf :: "Address \<Rightarrow> bool" where
  "address_wf a \<longleftrightarrow> (\<exists>b r. length (b # r) mod 5 = 0 \<and> addressNet b = Some (addr_Type a) \<and> addr_Address a = b32_encode (b # r))"

definition account_wf :: "'k crypto \<Rightarrow> NetworkType \<Rightarrow> PublicAccount \<Rightarrow> bool" where
  "account_wf C nt a \<longleftrightarrow> NewAccountFromPublicKey C (pa_PublicKey a) nt = Inr a"

definition info_report :: "TransactionInfo \<Rightarrow> transactionInfoDTO" where
  "info_report i = \<lparr>tid_Height = uint64ToArray (ti_Height i), tid_Index = ti_Index i, tid_Id = ti_Id i,
     tid_TransactionHash = hash_report (ti_TransactionHash i), tid_MerkleComponentHash = hash_report (ti_MerkleComponentHash i),
     tid_AggregateHash = hash_report (ti_AggregateHash i), tid_AggregateId = ti_AggregateId i\<rparr>"

definition info_wf :: "TransactionInfo \<Rightarrow> bool" where
  "info_wf i \<longleftrightarrow> hash_wf (ti_TransactionHash i) \<and> hash_wf (ti_MerkleComponentHash i) \<and> hash_wf (ti_AggregateHash i)"

definition deadline_report :: "Deadline \<Rightarrow> uint64DTO" where
  "deadline_report d = uint64ToArray (bt_baseInt64 (ToBlockchainTimestamp (dl_Timestamp d)))"

text \<open>A time of the chain in milliseconds, not so far that its nanoseconds overflow.\<close>

definition deadline_wf :: "Deadline \<Rightarrow> bool" where
  "deadline_wf d \<longleftrightarrow> (\<exists>t. dl_Timestamp d = ToTimestamp t
     \<and> - (2 ^ 63) \<le> sint (bt_baseInt64 t + TimestampNemesisBlockMilliseconds) * 1000000
     \<and> sint (bt_baseInt64 t + TimestampNemesisBlockMilliseconds) * 1000000 < 2 ^ 63)"

lemma deadline_wf_D: "deadline_wf d \<Longrightarrow> ToTimestamp (ToBlockchainTimestamp (dl_Timestamp d)) = dl_Timestamp d"
  by (auto simp: deadline_wf_def timestamp_roundtrip)

definition header_report :: "bool \<Rightarrow> AbstractTransaction \<Rightarrow> abstractTransactionDTO" where
  "header_report embedded a = \<lparr>atd_Type = tx_Type a,
     atd_Version = ucast (push_bit 24 (ucast (tx_NetworkType a)) OR tx_Version a),
     atd_MaxFee = (if embedded then None else Some (uint64ToArray (tx_MaxFee a))),
     atd_Deadline = (if embedded then None else map_option deadline_report (tx_Deadline a)),
     atd_Signature = (if embedded then [] else tx_Signature a),
     atd_Signer = (case tx_Signer a of None \<Rightarrow> [] | Some s \<Rightarrow> pa_PublicKey s)\<rparr>"

definition tdto :: "AbstractTransaction \<Rightarrow> transactionInfoDTO" where
  "tdto a = info_report (the (tx_TransactionInfo a))"

definition header_wf :: "'k crypto \<Rightarrow> AbstractTransaction \<Rightarrow> bool" where
  "header_wf C a \<longleftrightarrow> tx_Version a AND 0xFFFFFF = tx_Version a
     \<and> (\<exists>i. tx_TransactionInfo a = Some i \<and> info_wf i)
     \<and> (\<exists>s. tx_Signer a = Some s \<and> account_wf C (tx_NetworkType a) s)
     \<and> (\<forall>d. tx_Deadline a = Some d \<longrightarrow> deadline_wf d)"

definition stripped :: "bool \<Rightarrow> AbstractTransaction \<Rightarrow> AbstractTransaction" where
  "stripped embedded a = (if embedded then a\<lparr>tx_MaxFee := 0, tx_Deadline := None, tx_Signature := []\<rparr> else a)"

subsection \<open>They read back\<close>

named_theorems reads_back \<open>a part of a report is read back\<close>

lemma read_u64 [reads_back]: "uint64DTO_toUint64 (uint64ToArray x) = Inr x" "uint64DTO_toStruct (uint64ToArray x) = Inr x"
  by (simp_all add: uint64DTO_toStruct_def uint64DTO_toUint64_eq)

lemma read_hash [reads_back]: "hash_wf h \<Longrightarrow> hashDto_Hash (hash_report h) = Inr h"
  by (cases h) (auto simp: hash_wf_def hash_report_def hashDto_Hash_def StringToHash_def bytesToHash_eq)

lemma read_address [reads_back]:
  assumes "address_wf a"
  shows "NewAddressFromBase32 (address_report a) = Inr a"
proof -
  from assms obtain b r where a: "length (b # r) mod 5 = 0" "addressNet b = Some (addr_Type a)" "addr_Address a = b32_encode (b # r)"
    unfolding address_wf_def by (elim exE conjE) (erule that)
  have "address_report a = hex_encode (b # r)"
    by (simp only: address_report_def a(3) b32_decode_encode [OF a(1)] sum.case)
  then have decoded: "hex_decode (address_report a) = Inr (b # r)"
    by (simp only: hex_decode_encode)
  have "NewAddressFromRaw (b32_encode (b # r)) = Inr a"
    using NewAddressFromRaw_b32 [OF a(1) refl a(2)] a(3) by (cases a) (simp del: b32_encode.simps)
  then show ?thesis
    by (simp add: NewAddressFromBase32_def decoded del: b32_encode.simps)
qed

lemma read_account [reads_back]: "account_wf C nt a \<Longrightarrow> NewAccountFromPublicKey C (pa_PublicKey a) nt = Inr a"
  by (simp add: account_wf_def)

lemma read_asset [reads_back]: "asset_wf a \<Longrightarrow> assetIdDTO_toStruct (uint64ToArray (AssetId_Id a)) = Inr a"
  by (cases a) (simp_all add: assetIdDTO_toStruct_eq asset_of_bits_def newMosaicIdPanic_def newNamespaceIdPanic_def)

lemma read_mosaic_id [reads_back]:
  "asset_wf (MosaicAsset m) \<Longrightarrow> mosaicIdDTO_toStruct (uint64ToArray (mosaicId_baseInt64 m)) = Inr m"
  by (simp add: mosaicIdDTO_toStruct_def reads_back NewMosaicId_def hasBits_NamespaceBit newMosaicIdPanic_def)

definition namespace_wf :: "NamespaceId \<Rightarrow> bool" where
  "namespace_wf n \<longleftrightarrow> namespaceId_baseInt64 n = 0 \<or> bit (namespaceId_baseInt64 n) 63"

lemma read_namespace_id [reads_back]: "namespace_wf n \<Longrightarrow> namespaceIdDTO_toStruct (uint64ToArray (namespaceId_baseInt64 n)) = Inr n"
  by (auto simp: namespace_wf_def namespaceIdDTO_toStruct_def reads_back NewNamespaceId_def hasBits_NamespaceBit newNamespaceIdPanic_def)

lemma read_info [reads_back]: "info_wf i \<Longrightarrow> transactionInfoDTO_toStruct (info_report i) = Inr i"
  by (simp add: transactionInfoDTO_toStruct_def info_report_def info_wf_def reads_back)

lemma read_timestamp: "blockchainTimestampDTO_toStruct (uint64ToArray (bt_baseInt64 t)) = Inr t"
  by (cases t) (simp add: blockchainTimestampDTO_toStruct_def reads_back NewBlockchainTimestamp_def)

lemma read_deadline [reads_back]:
  "deadline_wf d \<Longrightarrow> res_map NewDeadlineFromBlockchainTimestamp (blockchainTimestampDTO_toStruct (deadline_report d)) = Inr d"
  using deadline_wf_D [of d] by (cases d) (simp add: deadline_report_def read_timestamp NewDeadlineFromBlockchainTimestamp_def)

lemma read_abstract [reads_back]:
  assumes "header_wf C a"
  shows "abstractTransactionDTO_toStruct C (header_report embedded a) (tx_TransactionInfo a) = Inr (stripped embedded a)"
proof -
  from assms obtain s where s: "tx_Version a AND 0xFFFFFF = tx_Version a" "tx_Signer a = Some s" "account_wf C (tx_NetworkType a) s"
    "\<And>d. tx_Deadline a = Some d \<Longrightarrow> deadline_wf d"
    by (auto simp: header_wf_def)
  have "res_map (\<lambda>ts. Some (NewDeadlineFromBlockchainTimestamp ts)) (blockchainTimestampDTO_toStruct (deadline_report d)) = Inr (Some d)"
    if "tx_Deadline a = Some d" for d
    using read_deadline [OF s(4) [OF that]] by (auto simp: res_map_Inr_iff)
  then show ?thesis
    using s(1,2) read_account [OF s(3)] ExtractVersion_packed [OF s(1), of "tx_NetworkType a"]
    by (cases embedded; cases "tx_Deadline a")
      (simp_all add: abstractTransactionDTO_toStruct_def header_report_def stripped_def reads_back)
qed

lemma read_tdto [reads_back]: "header_wf C a \<Longrightarrow> transactionInfoDTO_toStruct (tdto a) = Inr (the (tx_TransactionInfo a))"
  by (auto simp: header_wf_def tdto_def reads_back)

lemma read_abstract_info [reads_back]:
  "header_wf C a \<Longrightarrow> abstractTransactionDTO_toStruct C (header_report embedded a) (Some (the (tx_TransactionInfo a))) = Inr (stripped embedded a)"
  using read_abstract [of C a embedded] by (auto simp: header_wf_def)

lemma read_header [reads_back]:
  "header_wf C a \<Longrightarrow> header_toStruct C (header_report embedded a) (tdto a) = Inr (stripped embedded a)"
  by (simp add: header_toStruct_def reads_back)

lemma stripped_NetworkType [simp]: "tx_NetworkType (stripped embedded a) = tx_NetworkType a"
  by (simp add: stripped_def)

section \<open>Reports of transactions\<close>

definition mosaic_report :: "Mosaic \<Rightarrow> uint64DTO \<times> uint64DTO" where
  "mosaic_report m = (uint64ToArray (AssetId_Id (mosaic_AssetId m)), uint64ToArray (mosaic_Amount m))"

definition properties_report :: "MosaicProperties \<Rightarrow> (MosaicPropertyId \<times> uint64DTO) list" where
  "properties_report p =
     [(MosaicPropertyFlagsId, uint64ToArray ((if mps_SupplyMutable p then Supply_Mutable else 0) OR (if mps_Transferable p then Transferable else 0))),
      (MosaicPropertyDivisibilityId, uint64ToArray (ucast (mps_Divisibility p))),
      (MosaicPropertyDurationId, uint64ToArray (MosaicProperties_Duration p))]"

definition properties_wf :: "MosaicProperties \<Rightarrow> bool" where
  "properties_wf p \<longleftrightarrow>
     p = NewMosaicProperties (mps_SupplyMutable p) (mps_Transferable p) (mps_Divisibility p) (MosaicProperties_Duration p)"

definition cosignatory_report :: "MultisigCosignatoryModification \<Rightarrow> multisigCosignatoryModificationDTO" where
  "cosignatory_report m = \<lparr>mcmd_Type = mcm_Type m, mcmd_PublicAccount = pa_PublicKey (mcm_PublicAccount m)\<rparr>"

definition alias_report :: "bool \<Rightarrow> AliasTransaction \<Rightarrow> aliasTransactionDTO" where
  "alias_report e tx = \<lparr>ald_abstract = header_report e (al_AbstractTransaction tx),
     ald_NamespaceId = uint64ToArray (namespaceId_baseInt64 (al_NamespaceId tx)), ald_ActionType = al_ActionType tx\<rparr>"

definition metadata_report :: "bool \<Rightarrow> ModifyMetadataTransaction \<Rightarrow> modifyMetadataTransactionDTO" where
  "metadata_report e tx = \<lparr>mmtd_abstract = header_report e (mmt_AbstractTransaction tx), mmtd_MetadataType = mmt_MetadataType tx,
     mmtd_Modifications = map (\<lambda>m. \<lparr>mmod_Type = mm_Type m, mmod_Key = mm_Key m, mmod_Value = mm_Value m\<rparr>) (mmt_Modifications tx)\<rparr>"

definition cosignature_report :: "AggregateTransactionCosignature option \<Rightarrow> aggregateTransactionCosignatureDTO" where
  "cosignature_report c = (case c of None \<Rightarrow> \<lparr>acd_Signature = [], acd_Signer = []\<rparr>
     | Some c \<Rightarrow> \<lparr>acd_Signature = ac_Signature c, acd_Signer = pa_PublicKey (ac_Signer c)\<rparr>)"

fun document_of :: "'k crypto \<Rightarrow> bool \<Rightarrow> Transaction \<Rightarrow> document" where
  "document_of C e (TxAccountPropertiesAddress tx) = DocAccountPropertiesAddress
     \<lparr>apad_abstract = header_report e (apa_AbstractTransaction tx), apad_PropertyType = apa_PropertyType tx,
      apad_Modifications = map (\<lambda>m. \<lparr>apamd_ModificationType = apam_ModificationType m,
        apamd_Address = address_report (apam_Address m)\<rparr>) (apa_Modifications tx), apad_TDto = tdto (apa_AbstractTransaction tx)\<rparr>"
| "document_of C e (TxAccountPropertiesMosaic tx) = DocAccountPropertiesMosaic
     \<lparr>apmd_abstract = header_report e (apm_AbstractTransaction tx), apmd_PropertyType = apm_PropertyType tx,
      apmd_Modifications = map (\<lambda>m. \<lparr>apmmd_ModificationType = apmm_ModificationType m,
        apmmd_AssetId = uint64ToArray (AssetId_Id (apmm_AssetId m))\<rparr>) (apm_Modifications tx),
      apmd_TDto = tdto (apm_AbstractTransaction tx)\<rparr>"
| "document_of C e (TxAccountPropertiesEntityType tx) = DocAccountPropertiesEntityType
     \<lparr>aped_abstract = header_report e (ape_AbstractTransaction tx), aped_PropertyType = ape_PropertyType tx,
      aped_Modifications = map (\<lambda>m. \<lparr>apemd_ModificationType = apem_ModificationType m,
        apemd_EntityType = apem_EntityType m\<rparr>) (ape_Modifications tx), aped_TDto = tdto (ape_AbstractTransaction tx)\<rparr>"
| "document_of C e (TxAddressAlias tx) = DocAddressAlias
     \<lparr>aald_alias = alias_report e (aal_AliasTransaction tx), aald_Address = address_report (aal_Address tx),
      aald_TDto = tdto (al_AbstractTransaction (aal_AliasTransaction tx))\<rparr>"
| "document_of C e (TxMosaicAlias tx) = DocMosaicAlias
     \<lparr>mald_alias = alias_report e (mal_AliasTransaction tx),
      mald_MosaicId = Some (uint64ToArray (mosaicId_baseInt64 (mal_MosaicId tx))),
      mald_TDto = tdto (al_AbstractTransaction (mal_AliasTransaction tx))\<rparr>"
| "document_of C e (TxAccountLink tx) = DocAccountLink
     \<lparr>linkd_abstract = header_report e (link_AbstractTransaction tx),
      linkd_RemoteAccountKey = pa_PublicKey (link_RemoteAccount tx), linkd_Action = link_LinkAction tx,
      linkd_TDto = tdto (link_AbstractTransaction tx)\<rparr>"
| "document_of C e (TxNetworkConfig tx) = DocNetworkConfig
     \<lparr>nctd_abstract = header_report e (nct_AbstractTransaction tx),
      nctd_ApplyHeightDelta = uint64ToArray (nct_ApplyHeightDelta tx),
      nctd_NetworkConfig = NetworkConfig_String (nct_NetworkConfig tx),
      nctd_SupportedEntityVersions = SupportedEntities_String C (nct_SupportedEntities tx),
      nctd_TDto = tdto (nct_AbstractTransaction tx)\<rparr>"
| "document_of C e (TxBlockchainUpgrade tx) = DocBlockchainUpgrade
     \<lparr>bud_abstract = header_report e (bu_AbstractTransaction tx), bud_UpgradePeriod = uint64ToArray (bu_UpgradePeriod tx),
      bud_NewBlockChainVersion = uint64ToArray (bu_NewBlockChainVersion tx), bud_TDto = tdto (bu_AbstractTransaction tx)\<rparr>"
| "document_of C e (TxAggregate tx) = DocAggregate
     \<lparr>agd_abstract = header_report e (ag_AbstractTransaction tx),
      agd_Cosignatures = map cosignature_report (ag_Cosignatures tx), agd_TDto = tdto (ag_AbstractTransaction tx)\<rparr>"
| "document_of C e (TxModifyMetadataAddress tx) = DocModifyMetadataAddress
     \<lparr>mmad_modify = metadata_report e (mma_ModifyMetadataTransaction tx),
      mmad_Address = (case mma_Address tx of None \<Rightarrow> [] | Some a \<Rightarrow> address_report a),
      mmad_TDto = tdto (mmt_AbstractTransaction (mma_ModifyMetadataTransaction tx))\<rparr>"
| "document_of C e (TxModifyMetadataMosaic tx) = DocModifyMetadataMosaic
     \<lparr>mmmd_modify = metadata_report e (mmm_ModifyMetadataTransaction tx),
      mmmd_MosaicId = map_option (\<lambda>m. uint64ToArray (mosaicId_baseInt64 m)) (mmm_MosaicId tx),
      mmmd_TDto = tdto (mmt_AbstractTransaction (mmm_ModifyMetadataTransaction tx))\<rparr>"
| "document_of C e (TxModifyMetadataNamespace tx) = DocModifyMetadataNamespace
     \<lparr>mmnd_modify = metadata_report e (mmn_ModifyMetadataTransaction tx),
      mmnd_NamespaceId = map_option (\<lambda>n. uint64ToArray (namespaceId_baseInt64 n)) (mmn_NamespaceId tx),
      mmnd_TDto = tdto (mmt_AbstractTransaction (mmn_ModifyMetadataTransaction tx))\<rparr>"
| "document_of C e (TxMosaicDefinition tx) = DocMosaicDefinition
     \<lparr>mdtd_abstract = header_report e (mdt_AbstractTransaction tx),
      mdtd_Properties = properties_report (mdt_MosaicProperties tx), mdtd_MosaicNonce = ucast (mdt_MosaicNonce tx),
      mdtd_MosaicId = Some (uint64ToArray (mosaicId_baseInt64 (mdt_MosaicId tx))), mdtd_TDto = tdto (mdt_AbstractTransaction tx)\<rparr>"
| "document_of C e (TxMosaicSupplyChange tx) = DocMosaicSupplyChange
     \<lparr>mscd_abstract = header_report e (msc_AbstractTransaction tx), mscd_MosaicSupplyType = msc_MosaicSupplyType tx,
      mscd_AssetId = Some (uint64ToArray (AssetId_Id (msc_AssetId tx))), mscd_Delta = uint64ToArray (msc_Delta tx),
      mscd_TDto = tdto (msc_AbstractTransaction tx)\<rparr>"
| "document_of C e (TxTransfer tx) = DocTransfer
     \<lparr>trd_abstract = header_report e (tr_AbstractTransaction tx),
      trd_Message = \<lparr>md_Type = Message_Type (tr_Message tx), md_Payload = hex_encode (Message_Payload (tr_Message tx))\<rparr>,
      trd_Mosaics = map mosaic_report (tr_Mosaics tx), trd_Address = address_report (tr_Recipient tx),
      trd_TDto = tdto (tr_AbstractTransaction tx)\<rparr>"
| "document_of C e (TxModifyMultisigAccount tx) = DocModifyMultisigAccount
     \<lparr>mmsd_abstract = header_report e (mms_AbstractTransaction tx), mmsd_MinApprovalDelta = mms_MinApprovalDelta tx,
      mmsd_MinRemovalDelta = mms_MinRemovalDelta tx, mmsd_Modifications = map cosignatory_report (mms_Modifications tx),
      mmsd_TDto = tdto (mms_AbstractTransaction tx)\<rparr>"
| "document_of C e (TxModifyContract tx) = DocModifyContract
     \<lparr>mctd_abstract = header_report e (mct_AbstractTransaction tx), mctd_DurationDelta = uint64ToArray (mct_DurationDelta tx),
      mctd_Hash = hash_report (mct_Hash tx), mctd_Customers = map cosignatory_report (mct_Customers tx),
      mctd_Executors = map cosignatory_report (mct_Executors tx), mctd_Verifiers = map cosignatory_report (mct_Verifiers tx),
      mctd_TDto = tdto (mct_AbstractTransaction tx)\<rparr>"
| "document_of C e (TxRegisterNamespace tx) = DocRegisterNamespace
     \<lparr>rnd_abstract = header_report e (rn_AbstractTransaction tx),
      rnd_Id = uint64ToArray (namespaceId_baseInt64 (rn_NamespaceId tx)), rnd_NamespaceType = rn_NamespaceType tx,
      rnd_NamspaceName = rn_NamspaceName tx, rnd_Duration = uint64ToArray (rn_Duration tx),
      rnd_ParentId = (case rn_ParentId tx of None \<Rightarrow> (0, 0) | Some n \<Rightarrow> uint64ToArray (namespaceId_baseInt64 n)),
      rnd_TDto = tdto (rn_AbstractTransaction tx)\<rparr>"
| "document_of C e (TxLockFunds tx) = DocLockFunds
     \<lparr>lfd_abstract = header_report e (lf_AbstractTransaction tx),
      lfd_AssetId = uint64ToArray (AssetId_Id (mosaic_AssetId (lf_Mosaic tx))),
      lfd_Amount = uint64ToArray (mosaic_Amount (lf_Mosaic tx)), lfd_Duration = uint64ToArray (lf_Duration tx),
      lfd_Hash = hash_report (st_Hash (lf_SignedTransaction tx)), lfd_TDto = tdto (lf_AbstractTransaction tx)\<rparr>"
| "document_of C e (TxSecretLock tx) = DocSecretLock
     \<lparr>sld_abstract = header_report e (sl_AbstractTransaction tx),
      sld_AssetId = Some (uint64ToArray (AssetId_Id (mosaic_AssetId (sl_Mosaic tx)))),
      sld_Amount = Some (uint64ToArray (mosaic_Amount (sl_Mosaic tx))), sld_HashType = secret_Type (sl_Secret tx),
      sld_Duration = uint64ToArray (sl_Duration tx), sld_Secret = hex_encode (secret_Hash (sl_Secret tx)),
      sld_Recipient = address_report (sl_Recipient tx), sld_TDto = tdto (sl_AbstractTransaction tx)\<rparr>"
| "document_of C e (TxSecretProof tx) = DocSecretProof
     \<lparr>spd_abstract = header_report e (sp_AbstractTransaction tx), spd_HashType = sp_HashType tx,
      spd_Proof = hex_encode (proof_Data (sp_Proof tx)), spd_Recipient = address_report (sp_Recipient tx),
      spd_TDto = tdto (sp_AbstractTransaction tx)\<rparr>"

definition report :: "'k crypto \<Rightarrow> Transaction \<Rightarrow> document raw_json" where
  "report C tx = Raw (document_of C False tx)
     (case tx of TxAggregate ag \<Rightarrow> map (\<lambda>i. Raw (document_of C True i) []) (ag_InnerTransactions ag) | _ \<Rightarrow> [])"

end
