(* ===== verification/TxReportProperties.thy ===== *)
theory TxReportProperties
  imports TxReport
begin

text \<open>
  \<open>MapTransaction\<close> reads back what a node reports of a transaction: every field of every kind, and of the transactions inside an
  aggregate. \<open>reportable\<close> says which transactions have a report at all: addresses of a known network, identifiers with the bit of
  their kind, accounts that their public key derives, hashes of 32 bytes, and so on. The maps of a network configuration are read back
  as maps: the order in which a loop visits them does not count.
\<close>

section \<open>Reportable transactions\<close>

definition cosignatories_wf :: "'k crypto \<Rightarrow> NetworkType \<Rightarrow> MultisigCosignatoryModification list \<Rightarrow> bool" where
  "cosignatories_wf C nt ms \<longleftrightarrow> (\<forall>m \<in> set ms. account_wf C nt (mcm_PublicAccount m))"

text \<open>A network configuration that its text can carry, and entities under their own type, which the JSON library reads as it printed them.\<close>

definition network_wf :: "'k crypto \<Rightarrow> NetworkConfigTransaction \<Rightarrow> bool" where
  "network_wf C tx \<longleftrightarrow> net_config_ok (nct_NetworkConfig tx) \<and> entities_ok (nct_SupportedEntities tx)
     \<and> json_ok C (sort_key fst (map (\<lambda>(_, e). entity_dto e) (se_Entities (nct_SupportedEntities tx))))"

fun contents_wf :: "'k crypto \<Rightarrow> Transaction \<Rightarrow> bool" where
  "contents_wf C (TxAccountPropertiesAddress tx) = (\<forall>m \<in> set (apa_Modifications tx). address_wf (apam_Address m))"
| "contents_wf C (TxAccountPropertiesMosaic tx) = (\<forall>m \<in> set (apm_Modifications tx). asset_wf (apmm_AssetId m))"
| "contents_wf C (TxAccountPropertiesEntityType tx) = True"
| "contents_wf C (TxAddressAlias tx) = (namespace_wf (al_NamespaceId (aal_AliasTransaction tx)) \<and> address_wf (aal_Address tx))"
| "contents_wf C (TxMosaicAlias tx) =
     (namespace_wf (al_NamespaceId (mal_AliasTransaction tx)) \<and> asset_wf (MosaicAsset (mal_MosaicId tx)))"
| "contents_wf C (TxAccountLink tx) = account_wf C (tx_NetworkType (link_AbstractTransaction tx)) (link_RemoteAccount tx)"
| "contents_wf C (TxNetworkConfig tx) = network_wf C tx"
| "contents_wf C (TxBlockchainUpgrade tx) = True"
| "contents_wf C (TxAggregate tx) = False"
| "contents_wf C (TxModifyMetadataAddress tx) = (\<exists>a. mma_Address tx = Some a \<and> address_wf a)"
| "contents_wf C (TxModifyMetadataMosaic tx) = (\<exists>m. mmm_MosaicId tx = Some m \<and> asset_wf (MosaicAsset m))"
| "contents_wf C (TxModifyMetadataNamespace tx) = (\<exists>n. mmn_NamespaceId tx = Some n \<and> namespace_wf n)"
| "contents_wf C (TxMosaicDefinition tx) = (properties_wf (mdt_MosaicProperties tx) \<and> asset_wf (MosaicAsset (mdt_MosaicId tx)))"
| "contents_wf C (TxMosaicSupplyChange tx) = asset_wf (msc_AssetId tx)"
| "contents_wf C (TxTransfer tx) = ((\<forall>m \<in> set (tr_Mosaics tx). asset_wf (mosaic_AssetId m)) \<and> address_wf (tr_Recipient tx))"
| "contents_wf C (TxModifyMultisigAccount tx) =
     cosignatories_wf C (tx_NetworkType (mms_AbstractTransaction tx)) (mms_Modifications tx)"
| "contents_wf C (TxModifyContract tx) =
     (hash_wf (mct_Hash tx) \<and> cosignatories_wf C (tx_NetworkType (mct_AbstractTransaction tx))
        (mct_Customers tx @ mct_Executors tx @ mct_Verifiers tx))"
| "contents_wf C (TxRegisterNamespace tx) =
     (namespace_wf (rn_NamespaceId tx) \<and> (\<exists>n. rn_ParentId tx = Some n \<and>
        (if rn_NamespaceType tx = Root then n = newNamespaceIdPanic 0 else rn_Duration tx = 0 \<and> namespace_wf n)))"
| "contents_wf C (TxLockFunds tx) =
     (asset_wf (mosaic_AssetId (lf_Mosaic tx)) \<and> hash_wf (st_Hash (lf_SignedTransaction tx))
        \<and> st_EntityType (lf_SignedTransaction tx) = ET_Lock \<and> st_Payload (lf_SignedTransaction tx) = [])"
| "contents_wf C (TxSecretLock tx) =
     (asset_wf (mosaic_AssetId (sl_Mosaic tx)) \<and> length (secret_Hash (sl_Secret tx)) = 32
        \<and> secret_Type (sl_Secret tx) \<in> {SHA3_256, KECCAK_256, HASH_160, SHA_256} \<and> address_wf (sl_Recipient tx))"
| "contents_wf C (TxSecretProof tx) = address_wf (sp_Recipient tx)"

definition part_wf :: "'k crypto \<Rightarrow> Transaction \<Rightarrow> bool" where
  "part_wf C tx \<longleftrightarrow> tx_Type (GetAbstractTransaction tx) \<in> set (types_of tx) \<and> header_wf C (GetAbstractTransaction tx) \<and> contents_wf C tx"

definition same_envelope :: "AbstractTransaction \<Rightarrow> AbstractTransaction \<Rightarrow> bool" where
  "same_envelope a b \<longleftrightarrow> tx_Deadline a = tx_Deadline b \<and> tx_Signature a = tx_Signature b \<and> tx_MaxFee a = tx_MaxFee b"

fun reportable :: "'k crypto \<Rightarrow> Transaction \<Rightarrow> bool" where
  "reportable C (TxAggregate ag) \<longleftrightarrow>
     tx_Type (ag_AbstractTransaction ag) \<in> {ET_AggregateBonded, ET_AggregateCompleted} \<and> header_wf C (ag_AbstractTransaction ag)
     \<and> (\<forall>i \<in> set (ag_InnerTransactions ag). part_wf C i \<and> same_envelope (GetAbstractTransaction i) (ag_AbstractTransaction ag))
     \<and> (\<forall>c \<in> set (ag_Cosignatures ag). \<exists>s. c = Some s \<and> account_wf C (tx_NetworkType (ag_AbstractTransaction ag)) (ac_Signer s))"
| "reportable C tx = part_wf C tx"

text \<open>
  What reading gives back: the same transaction. A Go map is the list of its entries as a loop visits them, so that the two maps of a
  network configuration are the same when they have the same entries under the same keys; everything else is equal.
\<close>

definition same_part :: "Transaction \<Rightarrow> Transaction \<Rightarrow> bool" where
  "same_part tx tx' \<longleftrightarrow>
     (case tx of
        TxNetworkConfig t \<Rightarrow> (\<exists>c es. tx' = TxNetworkConfig (t\<lparr>nct_NetworkConfig := c, nct_SupportedEntities := es\<rparr>)
          \<and> same_config (nct_NetworkConfig t) c \<and> map_of (se_Entities es) = map_of (se_Entities (nct_SupportedEntities t)))
      | _ \<Rightarrow> tx' = tx)"

definition same_transaction :: "Transaction \<Rightarrow> Transaction \<Rightarrow> bool" where
  "same_transaction tx tx' \<longleftrightarrow>
     (case tx of
        TxAggregate ag \<Rightarrow> (\<exists>parts. tx' = TxAggregate (AggregateTransaction (ag_AbstractTransaction ag) parts (ag_Cosignatures ag))
          \<and> list_all2 same_part (ag_InnerTransactions ag) parts)
      | _ \<Rightarrow> same_part tx tx')"

definition ordered_part :: "Transaction \<Rightarrow> Transaction" where
  "ordered_part tx =
     (case tx of
        TxNetworkConfig t \<Rightarrow> TxNetworkConfig (t\<lparr>nct_NetworkConfig := ordered_config (nct_NetworkConfig t),
          nct_SupportedEntities := ordered_entities (nct_SupportedEntities t)\<rparr>)
      | _ \<Rightarrow> tx)"

lemma ordered_part_same:
  assumes "contents_wf C tx"
  shows "same_part tx (ordered_part tx)"
proof (cases "\<exists>t. tx = TxNetworkConfig t")
  case True
  then obtain t where t: "tx = TxNetworkConfig t" by blast
  with assms have "same_config (nct_NetworkConfig t) (ordered_config (nct_NetworkConfig t))"
    "map_of (se_Entities (ordered_entities (nct_SupportedEntities t))) = map_of (se_Entities (nct_SupportedEntities t))"
    by (simp_all add: network_wf_def ordered_config_same ordered_entities_same)
  then show ?thesis by (auto simp: t same_part_def ordered_part_def)
next
  case False
  then show ?thesis by (cases tx) (simp_all add: same_part_def ordered_part_def)
qed

lemma ordered_part_header [simp]: "GetAbstractTransaction (ordered_part tx) = GetAbstractTransaction tx"
  by (cases tx) (simp_all add: ordered_part_def)

section \<open>The parts read back\<close>

lemma read_list [reads_back]:
  "(\<And>x. x \<in> set xs \<Longrightarrow> f (g x) = Inr x) \<Longrightarrow> mapR f (map g xs) = Inr xs"
  by (induction xs) auto

lemma read_address_modifications [reads_back]:
  "(\<forall>m \<in> set ms. address_wf (apam_Address m)) \<Longrightarrow>
   mapR accountPropertiesAddressModificationDTO_toStruct (map (\<lambda>m. \<lparr>apamd_ModificationType = apam_ModificationType m,
     apamd_Address = address_report (apam_Address m)\<rparr>) ms) = Inr ms"
  by (rule read_list) (simp add: accountPropertiesAddressModificationDTO_toStruct_def reads_back)

lemma read_mosaic_modifications [reads_back]:
  "(\<forall>m \<in> set ms. asset_wf (apmm_AssetId m)) \<Longrightarrow>
   mapR accountPropertiesMosaicModificationDTO_toStruct (map (\<lambda>m. \<lparr>apmmd_ModificationType = apmm_ModificationType m,
     apmmd_AssetId = uint64ToArray (AssetId_Id (apmm_AssetId m))\<rparr>) ms) = Inr ms"
  by (rule read_list) (simp add: accountPropertiesMosaicModificationDTO_toStruct_def reads_back)

lemma read_entity_modifications [reads_back]:
  "mapR accountPropertiesEntityTypeModificationDTO_toStruct (map (\<lambda>m. \<lparr>apemd_ModificationType = apem_ModificationType m,
     apemd_EntityType = apem_EntityType m\<rparr>) ms) = Inr ms"
  by (rule read_list) (simp add: accountPropertiesEntityTypeModificationDTO_toStruct_def)

lemma read_metadata [reads_back]:
  "metadataDTOArrayToStruct (map (\<lambda>m. \<lparr>mmod_Type = mm_Type m, mmod_Key = mm_Key m, mmod_Value = mm_Value m\<rparr>) ms) nt = Inr ms"
  unfolding metadataDTOArrayToStruct_def by (rule read_list) (simp add: metadataModificationDTO_toStruct_def)

lemma read_cosignatories [reads_back]:
  "cosignatories_wf C nt ms \<Longrightarrow> multisigCosignatoryDTOArrayToStruct C (map cosignatory_report ms) nt = Inr ms"
  unfolding multisigCosignatoryDTOArrayToStruct_def cosignatories_wf_def
  by (rule read_list) (simp add: multisigCosignatoryModificationDTO_toStruct_def cosignatory_report_def reads_back)

lemma cosignatories_wf_append [simp]:
  "cosignatories_wf C nt (xs @ ys) \<longleftrightarrow> cosignatories_wf C nt xs \<and> cosignatories_wf C nt ys"
  by (auto simp: cosignatories_wf_def)

lemma read_mosaics [reads_back]:
  "(\<forall>m \<in> set ms. asset_wf (mosaic_AssetId m)) \<Longrightarrow> mapR mosaicDTO_toStruct (map mosaic_report ms) = Inr ms"
  by (rule read_list) (simp add: mosaicDTO_toStruct_def mosaic_report_def reads_back NewMosaic_def newMosaicPanic_def)

lemma read_message [reads_back]:
  "messageDTO_toStruct \<lparr>md_Type = Message_Type m, md_Payload = hex_encode (Message_Payload m)\<rparr> = Inr m"
  by (rule message_roundtrip)

lemma flag_bits:
  "hasBits ((if s then Supply_Mutable else 0) OR (if t then Transferable else 0)) Supply_Mutable = s"
  "hasBits ((if s then Supply_Mutable else 0) OR (if t then Transferable else 0)) Transferable = t"
  by (simp_all add: hasBits_def Supply_Mutable_def Transferable_def)

lemma widened:
  "(ucast (ucast (x :: u8) :: u64) :: u8) = x" "(ucast (ucast (y :: u32) :: u64) :: u32) = y"
  by (rule bit_word_eqI; simp add: bit_simps)+

lemma read_properties [reads_back]:
  assumes "properties_wf p"
  shows "mosaicPropertiesDTO_toStruct (properties_report p) = Inr p"
proof -
  have "mosaicPropertiesDTO_toStruct (properties_report p) =
      Inr (NewMosaicProperties (mps_SupplyMutable p) (mps_Transferable p) (mps_Divisibility p) (MosaicProperties_Duration p))"
    by (simp add: mosaicPropertiesDTO_toStruct_def properties_report_def reads_back MosaicPropertyFlagsId_def
        MosaicPropertyDivisibilityId_def MosaicPropertyDurationId_def flag_bits widened)
  also have "\<dots> = Inr p" using assms by (simp add: properties_wf_def)
  finally show ?thesis .
qed

lemma read_cosignatures:
  "(\<forall>c \<in> set cs. \<exists>s. c = Some s \<and> account_wf C nt (ac_Signer s)) \<Longrightarrow> cosignatures_loop C nt (map cosignature_report cs) None = Inr cs"
  by (induction cs) (auto simp: cosignature_report_def aggregateTransactionCosignatureDTO_toStruct_def reads_back)

lemma read_secret [reads_back]:
  "length (secret_Hash s) = 32 \<Longrightarrow> secret_Type s \<in> {SHA3_256, KECCAK_256, HASH_160, SHA_256} \<Longrightarrow>
   NewSecretFromHexString (hex_encode (secret_Hash s)) (secret_Type s) = Inr s"
  by (simp add: NewSecretFromHexString_def NewSecret_ok)

lemma read_entities:
  assumes "network_wf C tx"
  shows "SupportedEntities_UnmarshalBinary C NewSupportedEntities (string_bytes (SupportedEntities_String C (nct_SupportedEntities tx)))
    = Inr (ordered_entities (nct_SupportedEntities tx))"
proof -
  obtain b where b: "SupportedEntities_MarshalBinary C (nct_SupportedEntities tx) = Inr b"
    using SupportedEntities_Marshal_ok by blast
  with ordered_entities_read [OF _ b] assms show ?thesis by (simp add: SupportedEntities_String_def network_wf_def)
qed

lemma read_network: "network_wf C tx \<Longrightarrow> NetworkConfig_UnmarshalBinary NewNetworkConfig (string_bytes (NetworkConfig_String (nct_NetworkConfig tx)))
    = Inr (ordered_config (nct_NetworkConfig tx))"
  by (simp add: network_wf_def ordered_config_read)

lemma read_proof [reads_back]: "NewProofFromHexString (hex_encode (proof_Data p)) = Inr p"
  by (simp add: NewProofFromHexString_def)

lemma read_alias [reads_back]:
  "header_wf C (al_AbstractTransaction tx) \<Longrightarrow> namespace_wf (al_NamespaceId tx) \<Longrightarrow>
   aliasTransactionDTO_toStruct C (alias_report e tx) (Some (the (tx_TransactionInfo (al_AbstractTransaction tx)))) =
     Inr (tx\<lparr>al_AbstractTransaction := stripped e (al_AbstractTransaction tx)\<rparr>)"
  by (simp add: aliasTransactionDTO_toStruct_def alias_report_def reads_back)

lemma read_modify_metadata [reads_back]:
  "header_wf C (mmt_AbstractTransaction tx) \<Longrightarrow>
   modifyMetadataTransactionDTO_toStruct C (metadata_report e tx) (Some (the (tx_TransactionInfo (mmt_AbstractTransaction tx)))) =
     Inr (tx\<lparr>mmt_AbstractTransaction := stripped e (mmt_AbstractTransaction tx)\<rparr>)"
  by (simp add: modifyMetadataTransactionDTO_toStruct_def metadata_report_def reads_back)

section \<open>Every kind reads back\<close>

lemma doc_Type_document: "doc_Type (document_of C e tx) = tx_Type (GetAbstractTransaction tx)"
  by (cases tx) (simp_all add: header_report_def alias_report_def metadata_report_def)

lemma map_by_type_at:
  "map_by_type C J b txs ET_AccountPropertyAddress = dtoToTransaction (js_accountPropertiesAddress J b) (accountPropertiesAddressTransactionDTO_toStruct C)"
  "map_by_type C J b txs ET_AccountPropertyMosaic = dtoToTransaction (js_accountPropertiesMosaic J b) (accountPropertiesMosaicTransactionDTO_toStruct C)"
  "map_by_type C J b txs ET_AccountPropertyEntityType = dtoToTransaction (js_accountPropertiesEntityType J b) (accountPropertiesEntityTypeTransactionDTO_toStruct C)"
  "map_by_type C J b txs ET_AddressAlias = dtoToTransaction (js_addressAlias J b) (addressAliasTransactionDTO_toStruct C)"
  "map_by_type C J b txs ET_NetworkConfigEntityType = dtoToTransaction (js_networkConfig J b) (networkConfigTransactionDTO_toStruct C)"
  "map_by_type C J b txs ET_BlockchainUpgrade = dtoToTransaction (js_blockchainUpgrade J b) (blockchainUpgradeTransactionDTO_toStruct C)"
  "map_by_type C J b txs ET_LinkAccount = dtoToTransaction (js_accountLink J b) (accountLinkTransactionDTO_toStruct C)"
  "map_by_type C J b txs ET_Lock = dtoToTransaction (js_lockFunds J b) (lockFundsTransactionDTO_toStruct C)"
  "map_by_type C J b txs ET_MetadataAddress = dtoToTransaction (js_modifyMetadataAddress J b) (modifyMetadataAddressTransactionDTO_toStruct C)"
  "map_by_type C J b txs ET_MetadataMosaic = dtoToTransaction (js_modifyMetadataMosaic J b) (modifyMetadataMosaicTransactionDTO_toStruct C)"
  "map_by_type C J b txs ET_MetadataNamespace = dtoToTransaction (js_modifyMetadataNamespace J b) (modifyMetadataNamespaceTransactionDTO_toStruct C)"
  "map_by_type C J b txs ET_ModifyContract = dtoToTransaction (js_modifyContract J b) (modifyContractTransactionDTO_toStruct C)"
  "map_by_type C J b txs ET_ModifyMultisig = dtoToTransaction (js_modifyMultisigAccount J b) (modifyMultisigAccountTransactionDTO_toStruct C)"
  "map_by_type C J b txs ET_MosaicAlias = dtoToTransaction (js_mosaicAlias J b) (mosaicAliasTransactionDTO_toStruct C)"
  "map_by_type C J b txs ET_MosaicDefinition = dtoToTransaction (js_mosaicDefinition J b) (mosaicDefinitionTransactionDTO_toStruct C)"
  "map_by_type C J b txs ET_MosaicSupplyChange = dtoToTransaction (js_mosaicSupplyChange J b) (mosaicSupplyChangeTransactionDTO_toStruct C)"
  "map_by_type C J b txs ET_RegisterNamespace = dtoToTransaction (js_registerNamespace J b) (registerNamespaceTransactionDTO_toStruct C)"
  "map_by_type C J b txs ET_SecretLock = dtoToTransaction (js_secretLock J b) (secretLockTransactionDTO_toStruct C)"
  "map_by_type C J b txs ET_SecretProof = dtoToTransaction (js_secretProof J b) (secretProofTransactionDTO_toStruct C)"
  "map_by_type C J b txs ET_Transfer = dtoToTransaction (js_transfer J b) (transferTransactionDTO_toStruct C)"
  "map_by_type C J b txs ET_AggregateBonded = dtoToTransaction (js_aggregate J b) (aggregateTransactionDTO_toStruct C txs)"
  "map_by_type C J b txs ET_AggregateCompleted = dtoToTransaction (js_aggregate J b) (aggregateTransactionDTO_toStruct C txs)"
  unfolding map_by_type_def by (simp_all add: go_consts)

lemma read_signed_hash:
  "st_EntityType s = ET_Lock \<Longrightarrow> st_Payload s = [] \<Longrightarrow> \<lparr>st_EntityType = ET_Lock, st_Payload = [], st_Hash = st_Hash s\<rparr> = s"
  by (cases s) simp

lemma read_part:
  assumes "part_wf C tx"
  shows "map_by_type C report_json (document_of C e tx) txs (tx_Type (GetAbstractTransaction tx)) =
    Inr (SetAbstractTransaction (stripped e (GetAbstractTransaction tx)) (ordered_part tx))"
  using assms unfolding part_wf_def
  by (cases tx)
    (auto simp: map_by_type_at report_json_def dtoToTransaction_def toStruct_defs reads_back read_entities read_network ordered_part_def
      widened NewMosaic_def newMosaicPanic_def read_signed_hash)

lemma read_embedded:
  assumes "part_wf C tx"
  shows "MapTransaction C report_json (Raw (document_of C e tx) []) =
    Inr (SetAbstractTransaction (stripped e (GetAbstractTransaction tx)) (ordered_part tx))"
  using read_part [OF assms] by (simp add: doc_Type_document report_json_def)

section \<open>Aggregates\<close>

text \<open>What the report of an embedded transaction leaves out is what \<open>MapTransaction\<close> copies from the aggregate.\<close>

lemma same_envelope_refill:
  "same_envelope h a \<Longrightarrow> tx_TransactionInfo h = Some info \<Longrightarrow>
   h\<lparr>tx_Deadline := tx_Deadline a, tx_Signature := tx_Signature a, tx_MaxFee := tx_MaxFee a, tx_TransactionInfo := Some info\<rparr> = h"
  by (cases h) (simp add: same_envelope_def)

lemma inherit_stripped:
  assumes "part_wf C i" "same_envelope (GetAbstractTransaction i) a"
  shows "inherit_header a (SetAbstractTransaction (stripped True (GetAbstractTransaction i)) (ordered_part i)) = ordered_part i"
proof -
  obtain info where "tx_TransactionInfo (GetAbstractTransaction i) = Some info"
    using assms(1) by (auto simp: part_wf_def header_wf_def)
  then have "inherit_header a (SetAbstractTransaction (stripped True (GetAbstractTransaction i)) (ordered_part i)) =
      SetAbstractTransaction (GetAbstractTransaction (ordered_part i)) (ordered_part i)"
    using same_envelope_refill [OF assms(2)]
    by (simp add: inherit_header_def Let_def Get_Set_Abstract Set_Set_Abstract stripped_def)
  then show ?thesis by (simp only: Set_Get_Abstract)
qed

lemma read_aggregate:
  assumes "reportable C (TxAggregate ag)"
  shows "MapTransaction C report_json (report C (TxAggregate ag)) =
    Inr (TxAggregate (AggregateTransaction (ag_AbstractTransaction ag) (map ordered_part (ag_InnerTransactions ag)) (ag_Cosignatures ag)))"
proof -
  let ?a = "ag_AbstractTransaction ag"
  let ?parts = "map (\<lambda>i. SetAbstractTransaction (stripped True (GetAbstractTransaction i)) (ordered_part i)) (ag_InnerTransactions ag)"
  have "map (\<lambda>i. MapTransaction C report_json (Raw (document_of C True i) [])) (ag_InnerTransactions ag) = map Inr ?parts"
    using assms by (simp add: read_embedded del: MapTransaction.simps)
  then have "wait_all (map (\<lambda>i. MapTransaction C report_json (Raw (document_of C True i) [])) (ag_InnerTransactions ag)) = Inr ?parts"
    by (simp add: wait_all_Inr_iff del: MapTransaction.simps)
  moreover have "map (inherit_header ?a) ?parts = map ordered_part (ag_InnerTransactions ag)"
    using assms by (auto simp: inherit_stripped)
  ultimately have "aggregateTransactionDTO_toStruct C
      (wait_all (map (\<lambda>i. MapTransaction C report_json (Raw (document_of C True i) [])) (ag_InnerTransactions ag)))
      \<lparr>agd_abstract = header_report False ?a, agd_Cosignatures = map cosignature_report (ag_Cosignatures ag), agd_TDto = tdto ?a\<rparr> =
      Inr (TxAggregate (AggregateTransaction (ag_AbstractTransaction ag) (map ordered_part (ag_InnerTransactions ag)) (ag_Cosignatures ag)))"
    using assms by (cases ag) (simp add: aggregateTransactionDTO_toStruct_def reads_back read_cosignatures stripped_def del: map_map)
  then show ?thesis
    using assms
    by (auto simp: report_def MapTransaction.simps [of _ _ "DocAggregate _"] comp_def doc_Type_document report_json_def map_by_type_at
        dtoToTransaction_def header_report_def simp del: MapTransaction.simps)
qed

text \<open>
  C9. \<open>MapTransaction\<close> reads back what a node reports: for a transaction of any of the 21 kinds, the JSON document with every field of
  it gives that transaction, with its information, its network, version, signer and contents, and for an aggregate its inner
  transactions and cosignatures in order. Every field is equal, but for the two maps of a network configuration, which have the same entries.
  \<open>reportable\<close> says which transactions have such a report: the type is one of the kind, the version has 24 bits, the
  information is present with hashes that are nil or of 32 bytes, the deadline is a time of the chain in milliseconds, the accounts are those their public keys
  derive on the network; addresses are base32 with a network the SDK knows, mosaic and namespace identifiers have the bit of their kind,
  mosaic properties come from their constructor, a registered root has parent 0 and a sub-namespace no duration, the lock's
  signed transaction is known by its hash only, secrets have 32 bytes and a known hash type; a network configuration is one its text can carry
  (C21), with entities under their own type whose JSON the JSON library reads as it printed it. The parts of an aggregate are
  not aggregates and share its deadline, fee and signature, and its cosignatures are not nil.
\<close>

theorem reported_transaction_reads_back:
  assumes "reportable C tx"
  shows "\<exists>tx'. MapTransaction C report_json (report C tx) = Inr tx' \<and> same_transaction tx tx'"
proof (cases "\<exists>ag. tx = TxAggregate ag")
  case True
  then obtain ag where tx: "tx = TxAggregate ag" by blast
  have "list_all2 same_part (ag_InnerTransactions ag) (map ordered_part (ag_InnerTransactions ag))"
    using assms unfolding tx by (auto simp: list_all2_map2 list_all2_same part_wf_def intro: ordered_part_same)
  then show ?thesis using read_aggregate assms unfolding tx by (auto simp: same_transaction_def)
next
  case False
  then have tx: "part_wf C tx" "report C tx = Raw (document_of C False tx) []" "same_transaction tx = same_part tx"
    using assms by (cases tx; simp add: report_def same_transaction_def fun_eq_iff)+
  then have "same_part tx (ordered_part tx)" by (auto simp: part_wf_def intro: ordered_part_same)
  then show ?thesis
    using read_embedded [OF tx(1), of False] Set_Get_Abstract [of "ordered_part tx"] tx(2,3)
    by (auto simp: stripped_def simp del: MapTransaction.simps)
qed

subsection \<open>A concrete report\<close>

definition sample_reported_info :: TransactionInfo where
  "sample_reported_info = \<lparr>ti_Height = 5, ti_Index = 1, ti_Id = ''1'', ti_TransactionHash = Some (replicate 32 3),
     ti_MerkleComponentHash = Some (replicate 32 4), ti_AggregateHash = None, ti_AggregateId = []\<rparr>"

definition sample_reported_header :: "Address \<Rightarrow> EntityType \<Rightarrow> AbstractTransaction" where
  "sample_reported_header ad t = \<lparr>tx_TransactionInfo = Some sample_reported_info, tx_NetworkType = MijinTest,
     tx_Deadline = Some \<lparr>dl_Timestamp = ToTimestamp \<lparr>bt_baseInt64 = 7\<rparr>\<rparr>, tx_Type = t, tx_Version = 3, tx_MaxFee = 9,
     tx_Signature = ''AB'', tx_Signer = Some \<lparr>pa_Address = ad, pa_PublicKey = sample_key\<rparr>\<rparr>"

definition sample_reported_transfer :: "Address \<Rightarrow> Transaction" where
  "sample_reported_transfer ad = TxTransfer \<lparr>tr_AbstractTransaction = sample_reported_header ad ET_Transfer,
     tr_Message = PlainMessage [104, 105],
     tr_Mosaics = [\<lparr>mosaic_AssetId = MosaicAsset \<lparr>mosaicId_baseInt64 = 5\<rparr>, mosaic_Amount = 10\<rparr>],
     tr_Recipient = \<lparr>addr_Type = 144, addr_Address = b32_encode [144, 0, 0, 0, 0]\<rparr>\<rparr>"

text \<open>A network configuration whose maps are not visited in the order in which they are printed.\<close>

definition sample_reported_config :: "Address \<Rightarrow> Transaction" where
  "sample_reported_config ad = TxNetworkConfig \<lparr>nct_AbstractTransaction = sample_reported_header ad ET_NetworkConfigEntityType,
     nct_ApplyHeightDelta = 3, nct_NetworkConfig = sample_network_config, nct_SupportedEntities = sample_entities\<rparr>"

definition sample_reported_aggregate :: "Address \<Rightarrow> Transaction" where
  "sample_reported_aggregate ad = TxAggregate (AggregateTransaction (sample_reported_header ad ET_AggregateCompleted)
     [sample_reported_transfer ad, sample_reported_config ad]
     [Some \<lparr>ac_Signature = ''CD'', ac_Signer = \<lparr>pa_Address = ad, pa_PublicKey = sample_key\<rparr>\<rparr>])"

lemma sample_reportable:
  assumes "NewAccountFromPublicKey sample_crypto sample_key MijinTest = Inr \<lparr>pa_Address = ad, pa_PublicKey = sample_key\<rparr>"
  shows "reportable sample_crypto (sample_reported_aggregate ad)"
proof -
  have "deadline_wf \<lparr>dl_Timestamp = ToTimestamp \<lparr>bt_baseInt64 = 7\<rparr>\<rparr>"
    unfolding deadline_wf_def by (rule exI [of _ "\<lparr>bt_baseInt64 = 7\<rparr>"]) (simp add: TimestampNemesisBlockMilliseconds_def)
  then have header: "header_wf sample_crypto (sample_reported_header ad t)" for t
    using assms by (simp add: header_wf_def sample_reported_header_def sample_reported_info_def account_wf_def info_wf_def hash_wf_def)
  have "address_wf \<lparr>addr_Type = 144, addr_Address = b32_encode [144, 0, 0, 0, 0]\<rparr>"
    unfolding address_wf_def by (rule exI [of _ 144], rule exI [of _ "[0, 0, 0, 0]"]) (simp add: addressNet_idem)
  with header have "part_wf sample_crypto (sample_reported_transfer ad)"
    by (simp add: sample_reported_transfer_def part_wf_def del: b32_encode.simps) (simp add: sample_reported_header_def)
  moreover have "part_wf sample_crypto (sample_reported_config ad)"
    using header sample_network_config_ok sample_entities_ok
    by (simp add: sample_reported_config_def part_wf_def network_wf_def) (simp add: sample_reported_header_def)
  moreover have "GetAbstractTransaction (sample_reported_transfer ad) = sample_reported_header ad ET_Transfer"
    "GetAbstractTransaction (sample_reported_config ad) = sample_reported_header ad ET_NetworkConfigEntityType"
    by (simp_all add: sample_reported_transfer_def sample_reported_config_def)
  ultimately show ?thesis
    using header assms
    by (simp add: sample_reported_aggregate_def same_envelope_def account_wf_def) (simp add: sample_reported_header_def)
qed

lemma reported_transaction_reads_back_witness:
  "\<exists>ad tx'. MapTransaction sample_crypto report_json (report sample_crypto (sample_reported_aggregate ad)) = Inr tx'
    \<and> same_transaction (sample_reported_aggregate ad) tx'"
proof -
  obtain ad where "NewAccountFromPublicKey sample_crypto sample_key MijinTest = Inr \<lparr>pa_Address = ad, pa_PublicKey = sample_key\<rparr>"
    using NewAccountFromPublicKey_ok [OF sample_hashes_ok hex_decode_encode] unfolding sample_key_def by blast
  then show ?thesis
    using reported_transaction_reads_back [OF sample_reportable] by blast
qed

end
