(* ===== verification/FbTable.thy ===== *)
theory FbTable
  imports TxSchemas
begin

text \<open>
  Reading FlatBuffers tables. \<open>Table\<close> of \<open>github.com/google/flatbuffers/go\<close>, a buffer with the position of a table in it, is not in
  the repository: its methods are the fields of the record \<open>fb_table\<close>, and the locale \<open>fb_tables\<close> has the laws, which say of
  each method what its documentation does, on the format of \<open>FbFormat\<close>. The code that the FlatBuffers compiler generated for
  the tables (\<open>transactions/*_buffer.go\<close>) has a dozen shapes of accessors, each a definition here; the theories \<open>TxTables\<close> and
  \<open>TxTablesMore\<close> have the accessors. A nil slice is an empty one. A method that writes returns the table with the new
  buffer: that other tables share the buffer is not represented.
\<close>

record Table =
  tab_Bytes :: "byte list"
  tab_Pos :: u32

record fb_table =
  ft_GetUOffsetT :: "byte list \<Rightarrow> u32 result"
  ft_Offset :: "Table \<Rightarrow> u16 \<Rightarrow> u16 result"
  ft_Indirect :: "Table \<Rightarrow> u32 \<Rightarrow> u32 result"
  ft_Vector :: "Table \<Rightarrow> u32 \<Rightarrow> u32 result"
  ft_VectorLen :: "Table \<Rightarrow> u32 \<Rightarrow> int result"
  ft_ByteVector :: "Table \<Rightarrow> u32 \<Rightarrow> byte list result"
  ft_GetByte :: "Table \<Rightarrow> u32 \<Rightarrow> byte result"
  ft_GetInt8 :: "Table \<Rightarrow> u32 \<Rightarrow> 8 word result"
  ft_GetUint16 :: "Table \<Rightarrow> u32 \<Rightarrow> u16 result"
  ft_GetUint32 :: "Table \<Rightarrow> u32 \<Rightarrow> u32 result"
  ft_MutateByte :: "Table \<Rightarrow> u32 \<Rightarrow> byte \<Rightarrow> (bool \<times> Table) result"
  ft_MutateUint32 :: "Table \<Rightarrow> u32 \<Rightarrow> u32 \<Rightarrow> (bool \<times> Table) result"
  ft_MutateByteSlot :: "Table \<Rightarrow> u16 \<Rightarrow> byte \<Rightarrow> (bool \<times> Table) result"
  ft_MutateInt8Slot :: "Table \<Rightarrow> u16 \<Rightarrow> 8 word \<Rightarrow> (bool \<times> Table) result"
  ft_MutateUint16Slot :: "Table \<Rightarrow> u16 \<Rightarrow> u16 \<Rightarrow> (bool \<times> Table) result"
  ft_MutateUint32Slot :: "Table \<Rightarrow> u16 \<Rightarrow> u32 \<Rightarrow> (bool \<times> Table) result"

section \<open>The shapes of generated accessors\<close>

definition table_Init :: "byte list \<Rightarrow> u32 \<Rightarrow> Table" where
  "table_Init buf i = \<lparr>tab_Bytes = buf, tab_Pos = i\<rparr>"

text \<open>\<open>n := flatbuffers.GetUOffsetT(buf[offset:]); x.Init(buf, n+offset)\<close>\<close>

definition table_root :: "fb_table \<Rightarrow> byte list \<Rightarrow> u32 \<Rightarrow> Table result" where
  "table_root T buf offset =
     res_bind (subslice_from buf (unat offset)) (\<lambda>rest.
     res_bind (ft_GetUOffsetT T rest) (\<lambda>n. Inr (table_Init buf (n + offset))))"

text \<open>\<open>o := flatbuffers.UOffsetT(rcv._tab.Offset(slot)); if o != 0 { return k(o) }; return d\<close>\<close>

definition with_slot :: "fb_table \<Rightarrow> u16 \<Rightarrow> Table \<Rightarrow> 'a \<Rightarrow> (u32 \<Rightarrow> 'a result) \<Rightarrow> 'a result" where
  "with_slot T slot rcv d k =
     res_bind (ft_Offset T rcv slot) (\<lambda>off. let off = ucast off in if off \<noteq> 0 then k off else Inr d)"

definition slot_byte :: "fb_table \<Rightarrow> u16 \<Rightarrow> Table \<Rightarrow> byte result" where
  "slot_byte T slot rcv = with_slot T slot rcv 0 (\<lambda>off. ft_GetByte T rcv (off + tab_Pos rcv))"

definition slot_int8 :: "fb_table \<Rightarrow> u16 \<Rightarrow> Table \<Rightarrow> 8 word result" where
  "slot_int8 T slot rcv = with_slot T slot rcv 0 (\<lambda>off. ft_GetInt8 T rcv (off + tab_Pos rcv))"

definition slot_uint16 :: "fb_table \<Rightarrow> u16 \<Rightarrow> Table \<Rightarrow> u16 result" where
  "slot_uint16 T slot rcv = with_slot T slot rcv 0 (\<lambda>off. ft_GetUint16 T rcv (off + tab_Pos rcv))"

definition slot_uint32 :: "fb_table \<Rightarrow> u16 \<Rightarrow> Table \<Rightarrow> u32 result" where
  "slot_uint32 T slot rcv = with_slot T slot rcv 0 (\<lambda>off. ft_GetUint32 T rcv (off + tab_Pos rcv))"

definition slot_len :: "fb_table \<Rightarrow> u16 \<Rightarrow> Table \<Rightarrow> int result" where
  "slot_len T slot rcv = with_slot T slot rcv 0 (\<lambda>off. ft_VectorLen T rcv off)"

definition slot_bytes :: "fb_table \<Rightarrow> u16 \<Rightarrow> Table \<Rightarrow> byte list result" where
  "slot_bytes T slot rcv = with_slot T slot rcv [] (\<lambda>off. ft_ByteVector T rcv (off + tab_Pos rcv))"

definition elem_byte :: "fb_table \<Rightarrow> u16 \<Rightarrow> Table \<Rightarrow> int \<Rightarrow> byte result" where
  "elem_byte T slot rcv j =
     with_slot T slot rcv 0 (\<lambda>off. res_bind (ft_Vector T rcv off) (\<lambda>a. ft_GetByte T rcv (a + word_of_int (j * 1))))"

definition elem_uint32 :: "fb_table \<Rightarrow> u16 \<Rightarrow> Table \<Rightarrow> int \<Rightarrow> u32 result" where
  "elem_uint32 T slot rcv j =
     with_slot T slot rcv 0 (\<lambda>off. res_bind (ft_Vector T rcv off) (\<lambda>a. ft_GetUint32 T rcv (a + word_of_int (j * 4))))"

definition set_elem_byte :: "fb_table \<Rightarrow> u16 \<Rightarrow> Table \<Rightarrow> int \<Rightarrow> byte \<Rightarrow> (bool \<times> Table) result" where
  "set_elem_byte T slot rcv j n =
     with_slot T slot rcv (False, rcv)
       (\<lambda>off. res_bind (ft_Vector T rcv off) (\<lambda>a. ft_MutateByte T rcv (a + word_of_int (j * 1)) n))"

definition set_elem_uint32 :: "fb_table \<Rightarrow> u16 \<Rightarrow> Table \<Rightarrow> int \<Rightarrow> u32 \<Rightarrow> (bool \<times> Table) result" where
  "set_elem_uint32 T slot rcv j n =
     with_slot T slot rcv (False, rcv)
       (\<lambda>off. res_bind (ft_Vector T rcv off) (\<lambda>a. ft_MutateUint32 T rcv (a + word_of_int (j * 4)) n))"

text \<open>Element \<open>j\<close> of a list of tables: \<open>obj\<close> is set to it, or left as it is.\<close>

definition elem_table :: "fb_table \<Rightarrow> u16 \<Rightarrow> Table \<Rightarrow> Table \<Rightarrow> int \<Rightarrow> (bool \<times> Table) result" where
  "elem_table T slot rcv obj j =
     with_slot T slot rcv (False, obj)
       (\<lambda>off. res_bind (ft_Vector T rcv off) (\<lambda>x.
         res_bind (ft_Indirect T rcv (x + word_of_int j * 4)) (\<lambda>x. Inr (True, table_Init (tab_Bytes rcv) x))))"

text \<open>A table inside the table; \<open>None\<close> is nil.\<close>

definition slot_table :: "fb_table \<Rightarrow> u16 \<Rightarrow> Table \<Rightarrow> Table option \<Rightarrow> Table option result" where
  "slot_table T slot rcv obj =
     with_slot T slot rcv None
       (\<lambda>off. res_bind (ft_Indirect T rcv (off + tab_Pos rcv)) (\<lambda>x. Inr (Some (table_Init (tab_Bytes rcv) x))))"

section \<open>The laws of tables\<close>

abbreviation tab :: "byte list \<Rightarrow> nat \<Rightarrow> Table" where
  "tab buf p \<equiv> \<lparr>tab_Bytes = buf, tab_Pos = word_of_nat p\<rparr>"

definition poke :: "byte list \<Rightarrow> nat \<Rightarrow> byte list \<Rightarrow> byte list" where
  "poke buf q bs = take q buf @ bs @ drop (q + length bs) buf"

definition ref_target :: "byte list \<Rightarrow> nat \<Rightarrow> nat" where
  "ref_target buf q = q + unat (get_u32 buf q)"

text \<open>What a write to slot \<open>j\<close> gives: nothing when the slot is absent, or the buffer with the new bytes.\<close>

definition slot_written :: "byte list \<Rightarrow> nat \<Rightarrow> nat \<Rightarrow> byte list \<Rightarrow> bool \<times> Table" where
  "slot_written buf p j bs =
     (let off = vslot buf (vtable_at buf p) j in
      if off = 0 then (False, tab buf p) else (True, tab (poke buf (p + off) bs) p))"

definition slot_room :: "byte list \<Rightarrow> nat \<Rightarrow> nat \<Rightarrow> nat \<Rightarrow> bool" where
  "slot_room buf p j n \<longleftrightarrow> p + vslot buf (vtable_at buf p) j + n \<le> length buf"

locale fb_tables =
  fixes T :: fb_table
  assumes GetUOffsetT: "4 \<le> length buf \<Longrightarrow> ft_GetUOffsetT T buf = Inr (get_u32 buf 0)"
    and Offset: "\<lbrakk>table_header buf p; j < 1000\<rbrakk> \<Longrightarrow>
      ft_Offset T (tab buf p) (4 + 2 * word_of_nat j) = Inr (word_of_nat (vslot buf (vtable_at buf p) j))"
    and Indirect: "\<lbrakk>q + 4 \<le> length buf; length buf < 2 ^ 31\<rbrakk> \<Longrightarrow>
      ft_Indirect T (tab buf p) (word_of_nat q) = Inr (word_of_nat (ref_target buf q))"
    and Vector: "\<lbrakk>p + off + 4 \<le> length buf; length buf < 2 ^ 31\<rbrakk> \<Longrightarrow>
      ft_Vector T (tab buf p) (word_of_nat off) = Inr (word_of_nat (ref_target buf (p + off) + 4))"
    and VectorLen: "\<lbrakk>p + off + 4 \<le> length buf; ref_target buf (p + off) + 4 \<le> length buf; length buf < 2 ^ 31\<rbrakk> \<Longrightarrow>
      ft_VectorLen T (tab buf p) (word_of_nat off) = Inr (int (unat (get_u32 buf (ref_target buf (p + off)))))"
    and ByteVector: "\<lbrakk>q + 4 \<le> length buf; t = ref_target buf q; t + 4 + n \<le> length buf; n = unat (get_u32 buf t);
        length buf < 2 ^ 31\<rbrakk> \<Longrightarrow>
      ft_ByteVector T (tab buf p) (word_of_nat q) = Inr (take n (drop (t + 4) buf))"
    and GetByte: "\<lbrakk>q < length buf; length buf < 2 ^ 31\<rbrakk> \<Longrightarrow> ft_GetByte T (tab buf p) (word_of_nat q) = Inr (buf ! q)"
    and GetInt8: "\<lbrakk>q < length buf; length buf < 2 ^ 31\<rbrakk> \<Longrightarrow> ft_GetInt8 T (tab buf p) (word_of_nat q) = Inr (buf ! q)"
    and GetUint16: "\<lbrakk>q + 2 \<le> length buf; length buf < 2 ^ 31\<rbrakk> \<Longrightarrow>
      ft_GetUint16 T (tab buf p) (word_of_nat q) = Inr (word_of_nat (get_u16 buf q))"
    and GetUint32: "\<lbrakk>q + 4 \<le> length buf; length buf < 2 ^ 31\<rbrakk> \<Longrightarrow>
      ft_GetUint32 T (tab buf p) (word_of_nat q) = Inr (get_u32 buf q)"
    and MutateByte: "\<lbrakk>q < length buf; length buf < 2 ^ 31\<rbrakk> \<Longrightarrow>
      ft_MutateByte T (tab buf p) (word_of_nat q) x = Inr (True, tab (poke buf q [x]) p)"
    and MutateUint32: "\<lbrakk>q + 4 \<le> length buf; length buf < 2 ^ 31\<rbrakk> \<Longrightarrow>
      ft_MutateUint32 T (tab buf p) (word_of_nat q) y = Inr (True, tab (poke buf q (le32 y)) p)"
    and MutateByteSlot: "\<lbrakk>table_header buf p; j < 1000; slot_room buf p j 1\<rbrakk> \<Longrightarrow>
      ft_MutateByteSlot T (tab buf p) (4 + 2 * word_of_nat j) x = Inr (slot_written buf p j [x])"
    and MutateInt8Slot: "\<lbrakk>table_header buf p; j < 1000; slot_room buf p j 1\<rbrakk> \<Longrightarrow>
      ft_MutateInt8Slot T (tab buf p) (4 + 2 * word_of_nat j) x = Inr (slot_written buf p j [x])"
    and MutateUint16Slot: "\<lbrakk>table_header buf p; j < 1000; slot_room buf p j 2\<rbrakk> \<Longrightarrow>
      ft_MutateUint16Slot T (tab buf p) (4 + 2 * word_of_nat j) h = Inr (slot_written buf p j (le16 h))"
    and MutateUint32Slot: "\<lbrakk>table_header buf p; j < 1000; slot_room buf p j 4\<rbrakk> \<Longrightarrow>
      ft_MutateUint32Slot T (tab buf p) (4 + 2 * word_of_nat j) y = Inr (slot_written buf p j (le32 y))"

section \<open>A reader of tables that meets the laws\<close>

text \<open>Positions are added modulo \<open>2 ^ 32\<close>, and a read out of range panics.\<close>

definition rt_u32 :: "byte list \<Rightarrow> u32 \<Rightarrow> u32 result" where
  "rt_u32 buf q = (if unat q + 4 \<le> length buf then Inr (get_u32 buf (unat q)) else Inl Panicked)"

definition rt_u16 :: "byte list \<Rightarrow> u32 \<Rightarrow> u16 result" where
  "rt_u16 buf q = (if unat q + 2 \<le> length buf then Inr (word_of_nat (get_u16 buf (unat q))) else Inl Panicked)"

definition rt_byte :: "byte list \<Rightarrow> u32 \<Rightarrow> byte result" where
  "rt_byte buf q = (if unat q < length buf then Inr (buf ! unat q) else Inl Panicked)"

definition rt_indirect :: "byte list \<Rightarrow> u32 \<Rightarrow> u32 result" where
  "rt_indirect buf q = res_map (\<lambda>d. q + d) (rt_u32 buf q)"

definition rt_offset :: "Table \<Rightarrow> u16 \<Rightarrow> u16 result" where
  "rt_offset t slot =
     res_bind (rt_u32 (tab_Bytes t) (tab_Pos t)) (\<lambda>d.
       let vtable = tab_Pos t - d in
       res_bind (rt_u16 (tab_Bytes t) vtable) (\<lambda>size.
         if slot < size then rt_u16 (tab_Bytes t) (vtable + ucast slot) else Inr 0))"

definition rt_write :: "Table \<Rightarrow> u32 \<Rightarrow> byte list \<Rightarrow> (bool \<times> Table) result" where
  "rt_write t q bs =
     (if unat q + length bs \<le> length (tab_Bytes t) then Inr (True, t\<lparr>tab_Bytes := poke (tab_Bytes t) (unat q) bs\<rparr>)
      else Inl Panicked)"

definition rt_write_slot :: "Table \<Rightarrow> u16 \<Rightarrow> byte list \<Rightarrow> (bool \<times> Table) result" where
  "rt_write_slot t slot bs =
     res_bind (rt_offset t slot) (\<lambda>off. if off \<noteq> 0 then rt_write t (tab_Pos t + ucast off) bs else Inr (False, t))"

definition reference_tables :: fb_table where
  "reference_tables = \<lparr>
     ft_GetUOffsetT = (\<lambda>buf. rt_u32 buf 0),
     ft_Offset = rt_offset,
     ft_Indirect = (\<lambda>t. rt_indirect (tab_Bytes t)),
     ft_Vector = (\<lambda>t off. res_map (\<lambda>x. x + 4) (rt_indirect (tab_Bytes t) (off + tab_Pos t))),
     ft_VectorLen = (\<lambda>t off. res_bind (rt_indirect (tab_Bytes t) (off + tab_Pos t)) (\<lambda>x.
       res_map (\<lambda>n. int (unat n)) (rt_u32 (tab_Bytes t) x))),
     ft_ByteVector = (\<lambda>t q. res_bind (rt_indirect (tab_Bytes t) q) (\<lambda>x. res_bind (rt_u32 (tab_Bytes t) x) (\<lambda>n.
       subslice (tab_Bytes t) (unat (x + 4)) (unat (x + 4 + n))))),
     ft_GetByte = (\<lambda>t. rt_byte (tab_Bytes t)), ft_GetInt8 = (\<lambda>t. rt_byte (tab_Bytes t)),
     ft_GetUint16 = (\<lambda>t. rt_u16 (tab_Bytes t)), ft_GetUint32 = (\<lambda>t. rt_u32 (tab_Bytes t)),
     ft_MutateByte = (\<lambda>t q x. rt_write t q [x]), ft_MutateUint32 = (\<lambda>t q y. rt_write t q (le32 y)),
     ft_MutateByteSlot = (\<lambda>t slot x. rt_write_slot t slot [x]), ft_MutateInt8Slot = (\<lambda>t slot x. rt_write_slot t slot [x]),
     ft_MutateUint16Slot = (\<lambda>t slot h. rt_write_slot t slot (le16 h)),
     ft_MutateUint32Slot = (\<lambda>t slot y. rt_write_slot t slot (le32 y))\<rparr>"

lemma rt_at:
  "\<lbrakk>q + 4 \<le> length buf; length buf < 2 ^ 31\<rbrakk> \<Longrightarrow> rt_u32 buf (word_of_nat q) = Inr (get_u32 buf q)"
  "\<lbrakk>q + 2 \<le> length buf; length buf < 2 ^ 31\<rbrakk> \<Longrightarrow> rt_u16 buf (word_of_nat q) = Inr (word_of_nat (get_u16 buf q))"
  "\<lbrakk>q < length buf; length buf < 2 ^ 31\<rbrakk> \<Longrightarrow> rt_byte buf (word_of_nat q) = Inr (buf ! q)"
  "\<lbrakk>q + 4 \<le> length buf; length buf < 2 ^ 31\<rbrakk> \<Longrightarrow> rt_indirect buf (word_of_nat q) = Inr (word_of_nat (ref_target buf q))"
  using pos_unat [of q] by (auto simp: rt_u32_def rt_u16_def rt_byte_def rt_indirect_def ref_target_def simp del: unat_of_nat)

lemma rt_offset_at:
  assumes "table_header buf p" "j < 1000"
  shows "rt_offset (tab buf p) (4 + 2 * word_of_nat j) = Inr (word_of_nat (vslot buf (vtable_at buf p) j))"
proof -
  let ?vt = "vtable_at buf p"
  let ?slot = "4 + 2 * word_of_nat j :: u16"
  have h: "p + 4 \<le> length buf" "?vt + 4 \<le> length buf" "even (get_u16 buf ?vt)" "?vt + get_u16 buf ?vt \<le> length buf" "length buf < 2 ^ 31"
    using assms(1) by (auto simp: table_header_def)
  have vt: "word_of_nat p - get_u32 buf p = (word_of_nat ?vt :: u32)"
    by (simp add: vtable_at_def)
  have slot: "unat ?slot = 4 + 2 * j"
  proof -
    have "?slot = word_of_nat (4 + 2 * j)" by simp
    then show ?thesis using unat_word_of_nat(2) [of "4 + 2 * j"] assms(2) by simp
  qed
  have cmp: "?slot < word_of_nat (get_u16 buf ?vt) \<longleftrightarrow> 4 + 2 * j < get_u16 buf ?vt"
    unfolding word_less_nat_alt slot using get_u16_less [of buf ?vt] unat_word_of_nat(2) [of "get_u16 buf ?vt"] by simp
  have eq: "word_of_nat ?vt + ucast ?slot = (word_of_nat (?vt + 4 + 2 * j) :: u32)"
  proof -
    have "(ucast ?slot :: u32) = word_of_nat (unat ?slot)" by simp
    then show ?thesis by (simp only: slot) simp
  qed
  have "rt_u16 buf (word_of_nat ?vt + ucast ?slot) = Inr (word_of_nat (get_u16 buf (?vt + 4 + 2 * j)))"
    if "4 + 2 * j < get_u16 buf ?vt"
  proof -
    have "4 + 2 * j + 2 \<le> get_u16 buf ?vt"
      using that h(3) by presburger
    then show ?thesis
      unfolding eq by (intro rt_at(2)) (use h in simp_all)
  qed
  then show ?thesis
    using rt_at(1) [OF h(1,5)] rt_at(2) [of ?vt buf] vt cmp h by (simp add: rt_offset_def Let_def vslot_def)
qed

lemma rt_write_at:
  "q + length bs \<le> length buf \<Longrightarrow> length buf < 2 ^ 31 \<Longrightarrow> rt_write (tab buf p) (word_of_nat q) bs = Inr (True, tab (poke buf q bs) p)"
  using pos_unat [of q] by (simp add: rt_write_def del: unat_of_nat)

lemma rt_write_slot_at:
  assumes "table_header buf p" "j < 1000" "slot_room buf p j (length bs)"
  shows "rt_write_slot (tab buf p) (4 + 2 * word_of_nat j) bs = Inr (slot_written buf p j bs)"
proof -
  let ?off = "vslot buf (vtable_at buf p) j"
  have z: "unat (word_of_nat ?off :: u16) = ?off"
    using unat_word_of_nat(2) [of ?off] vslot_small [of buf "vtable_at buf p" j] by simp
  then have "(word_of_nat ?off :: u16) = 0 \<longleftrightarrow> ?off = 0" by (metis unat_eq_zero of_nat_0)
  moreover have "(ucast (word_of_nat ?off :: u16) :: u32) = word_of_nat ?off"
    using z by (metis of_nat_unat)
  moreover have "rt_write (tab buf p) (word_of_nat (p + ?off)) bs = Inr (True, tab (poke buf (p + ?off) bs) p)"
    using assms by (intro rt_write_at) (auto simp: slot_room_def table_header_def)
  ultimately show ?thesis
    using rt_offset_at [OF assms(1,2)] by (simp add: rt_write_slot_def slot_written_def Let_def)
qed

lemma word_add_flip: "word_of_nat off + word_of_nat p = (word_of_nat (p + off) :: u32)"
  by (simp add: add.commute)

interpretation reference_table: fb_tables reference_tables
proof
  fix buf :: "byte list"
  assume "4 \<le> length buf"
  then show "ft_GetUOffsetT reference_tables buf = Inr (get_u32 buf 0)"
    by (simp add: reference_tables_def rt_u32_def)
next
  fix buf p and j :: nat
  assume h: "table_header buf p" "j < 1000"
  then show "ft_Offset reference_tables (tab buf p) (4 + 2 * word_of_nat j) = Inr (word_of_nat (vslot buf (vtable_at buf p) j))"
    by (simp add: reference_tables_def rt_offset_at)
  show "ft_MutateByteSlot reference_tables (tab buf p) (4 + 2 * word_of_nat j) x = Inr (slot_written buf p j [x])"
    "ft_MutateInt8Slot reference_tables (tab buf p) (4 + 2 * word_of_nat j) x = Inr (slot_written buf p j [x])"
    if "slot_room buf p j 1" for x
    using rt_write_slot_at [OF h, of "[x]"] that by (simp_all add: reference_tables_def)
  show "ft_MutateUint16Slot reference_tables (tab buf p) (4 + 2 * word_of_nat j) w = Inr (slot_written buf p j (le16 w))"
    if "slot_room buf p j 2" for w
    using rt_write_slot_at [OF h, of "le16 w"] that by (simp add: reference_tables_def)
  show "ft_MutateUint32Slot reference_tables (tab buf p) (4 + 2 * word_of_nat j) y = Inr (slot_written buf p j (le32 y))"
    if "slot_room buf p j 4" for y
    using rt_write_slot_at [OF h, of "le32 y"] that by (simp add: reference_tables_def)
next
  fix q and buf :: "byte list" and p
  assume q: "q + 4 \<le> length buf" "length buf < 2 ^ 31"
  then show "ft_Indirect reference_tables (tab buf p) (word_of_nat q) = Inr (word_of_nat (ref_target buf q))"
    "ft_GetUint32 reference_tables (tab buf p) (word_of_nat q) = Inr (get_u32 buf q)"
    "ft_MutateUint32 reference_tables (tab buf p) (word_of_nat q) y = Inr (True, tab (poke buf q (le32 y)) p)" for y
    using rt_write_at [of q "le32 y" buf p] by (simp_all add: reference_tables_def rt_at)
  fix t n
  assume t: "t = ref_target buf q" "t + 4 + n \<le> length buf" "n = unat (get_u32 buf t)"
  have w: "unat (word_of_nat t + 4 :: u32) = t + 4" "unat (word_of_nat t + 4 + get_u32 buf t :: u32) = t + 4 + n"
  proof -
    show "unat (word_of_nat t + 4 :: u32) = t + 4"
      using pos_unat [of "t + 4"] t(2) q(2) by simp
    have "word_of_nat t + 4 + get_u32 buf t = (word_of_nat (t + 4 + n) :: u32)"
      using t(3) by simp
    then show "unat (word_of_nat t + 4 + get_u32 buf t :: u32) = t + 4 + n"
      using pos_unat [of "t + 4 + n"] t(2) q(2) by simp
  qed
  have "rt_indirect buf (word_of_nat q) = Inr (word_of_nat t)" "rt_u32 buf (word_of_nat t) = Inr (get_u32 buf t)"
    using rt_at(4) [OF q] rt_at(1) [of t buf] t q(2) by simp_all
  then show "ft_ByteVector reference_tables (tab buf p) (word_of_nat q) = Inr (take n (drop (t + 4) buf))"
    using t(2) by (simp add: reference_tables_def w subslice_def)
next
  fix p off and buf :: "byte list"
  assume h: "p + off + 4 \<le> length buf" "length buf < 2 ^ 31"
  have t: "rt_indirect buf (word_of_nat off + word_of_nat p) = Inr (word_of_nat (ref_target buf (p + off)))"
    unfolding word_add_flip by (rule rt_at(4) [OF h])
  then show "ft_Vector reference_tables (tab buf p) (word_of_nat off) = Inr (word_of_nat (ref_target buf (p + off) + 4))"
    by (simp add: reference_tables_def)
  show "ft_VectorLen reference_tables (tab buf p) (word_of_nat off) = Inr (int (unat (get_u32 buf (ref_target buf (p + off)))))"
    if "ref_target buf (p + off) + 4 \<le> length buf"
    using rt_at(1) [OF that h(2)] t by (simp add: reference_tables_def)
next
  fix q and buf :: "byte list" and p
  assume q: "q < length buf" "length buf < 2 ^ 31"
  then show "ft_GetByte reference_tables (tab buf p) (word_of_nat q) = Inr (buf ! q)"
    "ft_GetInt8 reference_tables (tab buf p) (word_of_nat q) = Inr (buf ! q)"
    "ft_MutateByte reference_tables (tab buf p) (word_of_nat q) x = Inr (True, tab (poke buf q [x]) p)" for x
    using rt_write_at [of q "[x]" buf p] by (simp_all add: reference_tables_def rt_at)
next
  fix q and buf :: "byte list" and p
  assume q: "q + 2 \<le> length buf" "length buf < 2 ^ 31"
  then show "ft_GetUint16 reference_tables (tab buf p) (word_of_nat q) = Inr (word_of_nat (get_u16 buf q))"
    by (simp add: reference_tables_def rt_at)
qed

section \<open>What the shapes read\<close>

lemma get_u32_Scalar: "field_at buf q (Scalar (le32 y)) \<Longrightarrow> get_u32 buf q = y"
  by (simp add: get_u32_def)

lemma get_u16_Scalar: "field_at buf q (Scalar (le16 h)) \<Longrightarrow> get_u16 buf q = unat h"
  by (simp add: get_u16_def)

lemma nth_Scalar: "field_at buf q (Scalar [x]) \<Longrightarrow> buf ! q = x"
  by (auto simp: take_Suc hd_drop_conv_nth neq_Nil_conv)

abbreviation slot_pos :: "byte list \<Rightarrow> nat \<Rightarrow> nat \<Rightarrow> nat" where
  "slot_pos buf p j \<equiv> vslot buf (vtable_at buf p) j"

lemma slot_field:
  "slot_is buf p j f \<Longrightarrow> f \<noteq> Absent \<Longrightarrow> slot_pos buf p j \<noteq> 0 \<and> field_at buf (p + slot_pos buf p j) f"
  "slot_is buf p j Absent \<Longrightarrow> slot_pos buf p j = 0"
  by (auto simp: slot_is_def Let_def split: if_splits)

definition slot_of :: "nat \<Rightarrow> u16" where
  "slot_of j = 4 + 2 * word_of_nat j"

context fb_tables
begin

lemma with_slot_at:
  assumes "table_header buf p" "j < 1000"
  shows "with_slot T (slot_of j) (tab buf p) d k = (if slot_pos buf p j = 0 then Inr d else k (word_of_nat (slot_pos buf p j)))"
proof -
  let ?off = "slot_pos buf p j"
  have z: "unat (word_of_nat ?off :: u16) = ?off"
    using unat_word_of_nat(2) [of ?off] vslot_small [of buf "vtable_at buf p" j] by simp
  then have u: "(ucast (word_of_nat ?off :: u16) :: u32) = word_of_nat ?off"
    by (metis of_nat_unat)
  have "(word_of_nat ?off :: u32) = 0 \<longleftrightarrow> ?off = 0"
    using vslot_small [of buf "vtable_at buf p" j] pos_unat [of ?off] by auto
  with u show ?thesis
    using Offset [OF assms] by (simp add: with_slot_def Let_def slot_of_def del: unsigned_of_nat word_of_nat_eq_0_iff)
qed

lemma slot_none:
  "table_header buf p \<Longrightarrow> j < 1000 \<Longrightarrow> slot_is buf p j Absent \<Longrightarrow> with_slot T (slot_of j) (tab buf p) d k = Inr d"
  by (simp add: with_slot_at slot_field(2))

lemma slot_some:
  assumes "table_header buf p" "j < 1000" "slot_is buf p j f" "f \<noteq> Absent"
  shows "with_slot T (slot_of j) (tab buf p) d k = k (word_of_nat (slot_pos buf p j))"
  using with_slot_at [OF assms(1,2)] slot_field(1) [OF assms(3,4)] by simp

end

end
