(* ===== verification/FbColumns.thy ===== *)
theory FbColumns
  imports FbTable
begin

text \<open>
  The generated code of a table as a list of columns, one per slot, each with its accessors. \<open>columns_at\<close> says that the accessors
  have the generated shapes, for the slots 0, 1, 2 and so on; \<open>columns_fields\<close> that a table has a field of the right kind in
  each of them; \<open>columns_agree\<close> that a schema describes the same kinds in the same order. \<open>columns_image\<close> is the table in the
  chain's bytes, read through the accessors. A table inside the table comes with its own columns.
\<close>

named_theorems table_defs \<open>the shapes of the accessors\<close>
named_theorems column_defs \<open>the columns of the tables\<close>

datatype column =
    ColByte "Table \<Rightarrow> byte result" "Table \<Rightarrow> byte \<Rightarrow> (bool \<times> Table) result"
  | ColInt8 "Table \<Rightarrow> 8 word result" "Table \<Rightarrow> 8 word \<Rightarrow> (bool \<times> Table) result"
  | ColUint16 "Table \<Rightarrow> u16 result" "Table \<Rightarrow> u16 \<Rightarrow> (bool \<times> Table) result"
  | ColUint32 "Table \<Rightarrow> u32 result" "Table \<Rightarrow> u32 \<Rightarrow> (bool \<times> Table) result"
  | ColBytes "Table \<Rightarrow> byte list result" "Table \<Rightarrow> int result" "Table \<Rightarrow> int \<Rightarrow> byte result"
      "Table \<Rightarrow> int \<Rightarrow> byte \<Rightarrow> (bool \<times> Table) result"
  | ColString "Table \<Rightarrow> byte list result"
  | ColWords "Table \<Rightarrow> int result" "Table \<Rightarrow> int \<Rightarrow> u32 result" "Table \<Rightarrow> int \<Rightarrow> u32 \<Rightarrow> (bool \<times> Table) result"
  | ColTable "Table \<Rightarrow> Table option \<Rightarrow> Table option result" "column list"
  | ColTables "Table \<Rightarrow> int result" "Table \<Rightarrow> Table \<Rightarrow> int \<Rightarrow> (bool \<times> Table) result" "column list"

fun column_at :: "fb_table \<Rightarrow> nat \<Rightarrow> column \<Rightarrow> bool"
  and columns_at :: "fb_table \<Rightarrow> nat \<Rightarrow> column list \<Rightarrow> bool"
where
  "column_at T j (ColByte get put) \<longleftrightarrow> get = slot_byte T (slot_of j) \<and> put = (\<lambda>rcv. ft_MutateByteSlot T rcv (slot_of j))"
| "column_at T j (ColInt8 get put) \<longleftrightarrow> get = slot_int8 T (slot_of j) \<and> put = (\<lambda>rcv. ft_MutateInt8Slot T rcv (slot_of j))"
| "column_at T j (ColUint16 get put) \<longleftrightarrow> get = slot_uint16 T (slot_of j) \<and> put = (\<lambda>rcv. ft_MutateUint16Slot T rcv (slot_of j))"
| "column_at T j (ColUint32 get put) \<longleftrightarrow> get = slot_uint32 T (slot_of j) \<and> put = (\<lambda>rcv. ft_MutateUint32Slot T rcv (slot_of j))"
| "column_at T j (ColBytes bytes len get put) \<longleftrightarrow> bytes = slot_bytes T (slot_of j) \<and> len = slot_len T (slot_of j)
     \<and> get = elem_byte T (slot_of j) \<and> put = set_elem_byte T (slot_of j)"
| "column_at T j (ColString bytes) \<longleftrightarrow> bytes = slot_bytes T (slot_of j)"
| "column_at T j (ColWords len get put) \<longleftrightarrow> len = slot_len T (slot_of j) \<and> get = elem_uint32 T (slot_of j)
     \<and> put = set_elem_uint32 T (slot_of j)"
| "column_at T j (ColTable get cs) \<longleftrightarrow> get = slot_table T (slot_of j) \<and> columns_at T 0 cs"
| "column_at T j (ColTables len get cs) \<longleftrightarrow> len = slot_len T (slot_of j) \<and> get = elem_table T (slot_of j) \<and> columns_at T 0 cs"
| "columns_at T j [] \<longleftrightarrow> True"
| "columns_at T j (c # cs) \<longleftrightarrow> j < 1000 \<and> column_at T j c \<and> columns_at T (Suc j) cs"

fun column_field :: "column \<Rightarrow> fbfield \<Rightarrow> bool"
  and columns_fields :: "column list \<Rightarrow> fbfield list \<Rightarrow> bool"
where
  "column_field (ColByte _ _) f \<longleftrightarrow> (\<exists>x. f = sc8 x)"
| "column_field (ColInt8 _ _) f \<longleftrightarrow> (\<exists>x. f = sc8 x)"
| "column_field (ColUint16 _ _) f \<longleftrightarrow> (\<exists>h. f = sc16 h)"
| "column_field (ColUint32 _ _) f \<longleftrightarrow> (\<exists>y. f = sc32 y)"
| "column_field (ColBytes _ _ _ _) f \<longleftrightarrow> (\<exists>bs. f = Ref (byte_vec bs))"
| "column_field (ColString _) f \<longleftrightarrow> (\<exists>bs. f = Ref (byte_vec bs))"
| "column_field (ColWords _ _ _) f \<longleftrightarrow> (\<exists>ws. f = Ref (word_vec ws))"
| "column_field (ColTable _ cs) f \<longleftrightarrow> (\<exists>gs. f = Ref (FTable gs) \<and> columns_fields cs gs)"
| "column_field (ColTables _ _ cs) f \<longleftrightarrow> (\<exists>ts. f = Ref (ref_vec (map FTable ts)) \<and> (\<forall>gs \<in> set ts. columns_fields cs gs))"
| "columns_fields [] fs \<longleftrightarrow> fs = []"
| "columns_fields (c # cs) fs \<longleftrightarrow> (\<exists>f gs. fs = f # gs \<and> column_field c f \<and> columns_fields cs gs)"

fun column_agrees :: "schemaAttribute \<Rightarrow> column \<Rightarrow> bool"
  and columns_agree :: "schemaAttribute list \<Rightarrow> column list \<Rightarrow> bool"
where
  "column_agrees (scalarAttribute n sz) c \<longleftrightarrow>
     (case c of ColByte _ _ \<Rightarrow> sz = ByteSize | ColInt8 _ _ \<Rightarrow> sz = ByteSize | ColUint16 _ _ \<Rightarrow> sz = ShortSize
      | ColUint32 _ _ \<Rightarrow> sz = IntSize | _ \<Rightarrow> False)"
| "column_agrees (arrayAttribute n sz) c \<longleftrightarrow>
     (case c of ColBytes _ _ _ _ \<Rightarrow> sz = ByteSize | ColString _ \<Rightarrow> sz = ByteSize | ColWords _ _ _ \<Rightarrow> sz = IntSize | _ \<Rightarrow> False)"
| "column_agrees (tableAttribute n s) c \<longleftrightarrow> (case c of ColTable _ cs \<Rightarrow> columns_agree s cs | _ \<Rightarrow> False)"
| "column_agrees (tableArrayAttribute n s) c \<longleftrightarrow> (case c of ColTables _ _ cs \<Rightarrow> columns_agree s cs | _ \<Rightarrow> False)"
| "columns_agree [] cs \<longleftrightarrow> cs = []"
| "columns_agree (a # as) cs \<longleftrightarrow> (case cs of [] \<Rightarrow> False | c # cs \<Rightarrow> column_agrees a c \<and> columns_agree as cs)"

text \<open>The loop \<open>for j := 0; j < n; j++\<close> over the elements of a vector.\<close>

definition elements :: "int result \<Rightarrow> (int \<Rightarrow> byte list result) \<Rightarrow> byte list result" where
  "elements n f = res_bind n (\<lambda>n. res_map concat (mapR (\<lambda>j. f (int j)) [0..<nat n]))"

fun column_image :: "column \<Rightarrow> Table \<Rightarrow> byte list result"
  and columns_image :: "column list \<Rightarrow> Table \<Rightarrow> byte list result"
where
  "column_image (ColByte get _) t = res_map (\<lambda>x. [x]) (get t)"
| "column_image (ColInt8 get _) t = res_map (\<lambda>x. [x]) (get t)"
| "column_image (ColUint16 get _) t = res_map wire16 (get t)"
| "column_image (ColUint32 get _) t = res_map wire32 (get t)"
| "column_image (ColBytes bytes _ _ _) t = bytes t"
| "column_image (ColString bytes) t = bytes t"
| "column_image (ColWords len get _) t = elements (len t) (\<lambda>j. res_map le32 (get t j))"
| "column_image (ColTable get cs) t = res_bind (get t None) (\<lambda>x. res_bind (deref x) (columns_image cs))"
| "column_image (ColTables len get cs) t = elements (len t) (\<lambda>j. res_bind (get t t j) (\<lambda>(_, x). columns_image cs x))"
| "columns_image [] t = Inr []"
| "columns_image (c # cs) t = res_bind (column_image c t) (\<lambda>bs. res_map (\<lambda>cs. bs @ cs) (columns_image cs t))"

text \<open>What the accessors of a column promise of the field: they read the value it was made of.\<close>

fun column_holds :: "column \<Rightarrow> Table \<Rightarrow> fbfield \<Rightarrow> bool"
  and columns_hold :: "column list \<Rightarrow> Table \<Rightarrow> fbfield list \<Rightarrow> bool"
where
  "column_holds (ColByte get _) t f \<longleftrightarrow> (\<forall>x. f = sc8 x \<longrightarrow> get t = Inr x)"
| "column_holds (ColInt8 get _) t f \<longleftrightarrow> (\<forall>x. f = sc8 x \<longrightarrow> get t = Inr x)"
| "column_holds (ColUint16 get _) t f \<longleftrightarrow> (\<forall>x. f = sc16 x \<longrightarrow> get t = Inr x)"
| "column_holds (ColUint32 get _) t f \<longleftrightarrow> (\<forall>x. f = sc32 x \<longrightarrow> get t = Inr x)"
| "column_holds (ColBytes bytes len get _) t f \<longleftrightarrow> (\<forall>bs. f = Ref (byte_vec bs) \<longrightarrow>
     bytes t = Inr bs \<and> len t = Inr (int (length bs)) \<and> (\<forall>i < length bs. get t (int i) = Inr (bs ! i)))"
| "column_holds (ColString bytes) t f \<longleftrightarrow> (\<forall>bs. f = Ref (byte_vec bs) \<longrightarrow> bytes t = Inr bs)"
| "column_holds (ColWords len get _) t f \<longleftrightarrow> (\<forall>ws. f = Ref (word_vec ws) \<longrightarrow>
     len t = Inr (int (length ws)) \<and> (\<forall>i < length ws. get t (int i) = Inr (ws ! i)))"
| "column_holds (ColTable get cs) t f \<longleftrightarrow> (\<forall>gs. f = Ref (FTable gs) \<longrightarrow>
     (\<forall>obj. \<exists>u. get t obj = Inr (Some u) \<and> columns_hold cs u gs))"
| "column_holds (ColTables len get cs) t f \<longleftrightarrow> (\<forall>ts. f = Ref (ref_vec (map FTable ts)) \<longrightarrow>
     len t = Inr (int (length ts)) \<and> (\<forall>i < length ts. \<forall>obj. \<exists>u. get t obj (int i) = Inr (True, u) \<and> columns_hold cs u (ts ! i)))"
| "columns_hold [] t fs \<longleftrightarrow> fs = []"
| "columns_hold (c # cs) t fs \<longleftrightarrow> (\<exists>g gs. fs = g # gs \<and> column_holds c t g \<and> columns_hold cs t gs)"

lemma vec_inject:
  "byte_vec bs = byte_vec cs \<longleftrightarrow> bs = cs" "word_vec ws = word_vec vs \<longleftrightarrow> ws = vs"
  "ref_vec (map FTable ts) = ref_vec (map FTable us) \<longleftrightarrow> ts = us"
  by (auto simp: byte_vec_def word_vec_def ref_vec_def inj_map_eq_map inj_def)

section \<open>Reading a slot\<close>

context fb_tables
begin

lemma read_scalar:
  assumes h: "table_header buf p" "j < 1000"
    and s: "slot_is buf p j (if x = d then Absent else Scalar (enc x))"
    and r: "\<And>q. field_at buf q (Scalar (enc x)) \<Longrightarrow> r (word_of_nat q) = Inr x"
  shows "with_slot T (slot_of j) (tab buf p) d (\<lambda>off. r (off + word_of_nat p)) = Inr x"
proof (cases "x = d")
  case True
  then show ?thesis using slot_none [OF h] s by simp
next
  case False
  then have s: "slot_is buf p j (Scalar (enc x))" using s by simp
  have "r (word_of_nat (p + slot_pos buf p j)) = Inr x"
    by (rule r) (use slot_field(1) [OF s] in blast)
  then show ?thesis
    by (simp only: slot_some [OF h s fbfield.distinct(2)] word_add_flip)
qed

lemma scalar_reads:
  assumes h: "table_header buf p" "j < 1000"
  shows "slot_is buf p j (sc8 x) \<Longrightarrow> slot_byte T (slot_of j) (tab buf p) = Inr x"
    and "slot_is buf p j (sc8 x) \<Longrightarrow> slot_int8 T (slot_of j) (tab buf p) = Inr x"
    and "slot_is buf p j (sc16 w) \<Longrightarrow> slot_uint16 T (slot_of j) (tab buf p) = Inr w"
    and "slot_is buf p j (sc32 y) \<Longrightarrow> slot_uint32 T (slot_of j) (tab buf p) = Inr y"
proof -
  have len: "length buf < 2 ^ 31" using h(1) by (simp add: table_header_def)
  have b: "ft_GetByte T (tab buf p) (word_of_nat q) = Inr x" "ft_GetInt8 T (tab buf p) (word_of_nat q) = Inr x"
    if "field_at buf q (Scalar [x])" for q
    using GetByte [OF _ len] GetInt8 [OF _ len] nth_Scalar [OF that] that by simp_all
  show "slot_byte T (slot_of j) (tab buf p) = Inr x" "slot_int8 T (slot_of j) (tab buf p) = Inr x" if "slot_is buf p j (sc8 x)"
    unfolding slot_byte_def slot_int8_def Table.select_convs
    by (rule read_scalar [where enc = "\<lambda>x. [x]", OF h that [unfolded sc8_def]], rule b, assumption)+
  have "ft_GetUint16 T (tab buf p) (word_of_nat q) = Inr w" if "field_at buf q (Scalar (le16 w))" for q
    using GetUint16 [OF _ len] get_u16_Scalar [OF that] that by simp
  then show "slot_uint16 T (slot_of j) (tab buf p) = Inr w" if "slot_is buf p j (sc16 w)"
    unfolding slot_uint16_def Table.select_convs by (rule read_scalar [where enc = le16, OF h that [unfolded sc16_def]])
  have "ft_GetUint32 T (tab buf p) (word_of_nat q) = Inr y" if "field_at buf q (Scalar (le32 y))" for q
    using GetUint32 [OF _ len] get_u32_Scalar [OF that] that by simp
  then show "slot_uint32 T (slot_of j) (tab buf p) = Inr y" if "slot_is buf p j (sc32 y)"
    unfolding slot_uint32_def Table.select_convs by (rule read_scalar [where enc = le32, OF h that [unfolded sc32_def]])
qed

text \<open>A vector: where its elements begin, and what the accessors do with it.\<close>

definition vec_pos :: "byte list \<Rightarrow> nat \<Rightarrow> nat \<Rightarrow> nat" where
  "vec_pos buf p j = ref_target buf (p + slot_pos buf p j) + 4"

lemma vector_slot:
  assumes h: "table_header buf p" "j < 1000" and s: "slot_is buf p j (Ref (FVec w fs))"
  shows "slot_len T (slot_of j) (tab buf p) = Inr (int (length fs))"
    and "with_slot T (slot_of j) (tab buf p) d (\<lambda>off. res_bind (ft_Vector T (tab buf p) off) g) = g (word_of_nat (vec_pos buf p j))"
    and "slot_bytes T (slot_of j) (tab buf p) = Inr (take (length fs) (drop (vec_pos buf p j) buf)) \<or> w = 0"
    and "elems_at buf (vec_pos buf p j) w fs" "vec_pos buf p j + w * length fs \<le> length buf"
proof -
  let ?q = "p + slot_pos buf p j"
  let ?t = "ref_target buf ?q"
  have len: "length buf < 2 ^ 31" using h(1) by (simp add: table_header_def)
  have "field_at buf ?q (Ref (FVec w fs))" using slot_field(1) [OF s] by simp
  then have v: "?q + 4 \<le> length buf" "?t + 4 \<le> length buf" "unat (get_u32 buf ?t) = length fs" "elems_at buf (?t + 4) w fs"
    by (simp_all add: ref_target_def)
  then have room: "?t + 4 + w * length fs \<le> length buf" using elems_at_bounds by blast
  note at = slot_some [OF h s fbfield.distinct(4)]
  show "slot_len T (slot_of j) (tab buf p) = Inr (int (length fs))"
    using VectorLen [OF v(1,2) len] v(3) by (simp only: slot_len_def at)
  show "with_slot T (slot_of j) (tab buf p) d (\<lambda>off. res_bind (ft_Vector T (tab buf p) off) g) = g (word_of_nat (vec_pos buf p j))"
    using Vector [OF v(1) len] by (simp only: at res_bind.simps vec_pos_def)
  show "elems_at buf (vec_pos buf p j) w fs" "vec_pos buf p j + w * length fs \<le> length buf"
    using v(4) room by (simp_all add: vec_pos_def)
  show "slot_bytes T (slot_of j) (tab buf p) = Inr (take (length fs) (drop (vec_pos buf p j) buf)) \<or> w = 0"
  proof (cases "w = 0")
    case False
    then have "?t + 4 + length fs \<le> length buf" using room by (cases w) auto
    from ByteVector [OF v(1) refl this v(3) [symmetric] len] show ?thesis
      by (simp only: slot_bytes_def at Table.select_convs word_add_flip vec_pos_def simp_thms)
  qed simp
qed

lemma bytes_reads:
  assumes h: "table_header buf p" "j < 1000" and s: "slot_is buf p j (Ref (byte_vec bs))"
  shows "slot_bytes T (slot_of j) (tab buf p) = Inr bs"
    and "slot_len T (slot_of j) (tab buf p) = Inr (int (length bs))"
    and "i < length bs \<Longrightarrow> elem_byte T (slot_of j) (tab buf p) (int i) = Inr (bs ! i)"
proof -
  let ?v = "vec_pos buf p j"
  have len: "length buf < 2 ^ 31" using h(1) by (simp add: table_header_def)
  note v = vector_slot [OF h s [unfolded byte_vec_def]]
  show "slot_len T (slot_of j) (tab buf p) = Inr (int (length bs))" using v(1) by simp
  have "take (1 * length (map (\<lambda>b. Scalar [b]) bs)) (drop ?v buf) = bs"
    using elems_at_scalars [OF v(4)] by (simp add: list_all_iff comp_def concat_singletons)
  then show "slot_bytes T (slot_of j) (tab buf p) = Inr bs" using v(3) by simp
  show "elem_byte T (slot_of j) (tab buf p) (int i) = Inr (bs ! i)" if i: "i < length bs"
  proof -
    have e: "field_at buf (?v + i) (Scalar [bs ! i])" using elems_at_nth [OF v(4), of i] i by simp
    have w: "word_of_nat ?v + word_of_int (int i * 1) = (word_of_nat (?v + i) :: u32)" by simp
    show ?thesis
      unfolding elem_byte_def v(2) w using GetByte [OF _ len, of "?v + i" p] nth_Scalar [OF e] v(5) i by simp
  qed
qed

lemma words_reads:
  assumes h: "table_header buf p" "j < 1000" and s: "slot_is buf p j (Ref (word_vec ws))"
  shows "slot_len T (slot_of j) (tab buf p) = Inr (int (length ws))"
    and "i < length ws \<Longrightarrow> elem_uint32 T (slot_of j) (tab buf p) (int i) = Inr (ws ! i)"
proof -
  let ?v = "vec_pos buf p j"
  have len: "length buf < 2 ^ 31" using h(1) by (simp add: table_header_def)
  note v = vector_slot [OF h s [unfolded word_vec_def]]
  show "slot_len T (slot_of j) (tab buf p) = Inr (int (length ws))" using v(1) by simp
  show "elem_uint32 T (slot_of j) (tab buf p) (int i) = Inr (ws ! i)" if i: "i < length ws"
  proof -
    have e: "field_at buf (?v + i * 4) (Scalar (le32 (ws ! i)))" using elems_at_nth [OF v(4), of i] i by simp
    have w: "word_of_nat ?v + word_of_int (int i * 4) = (word_of_nat (?v + i * 4) :: u32)" by simp
    show ?thesis
      unfolding elem_uint32_def v(2) w using GetUint32 [OF _ len, of "?v + i * 4" p] get_u32_Scalar [OF e] v(5) i by simp
  qed
qed

lemma table_reads:
  assumes h: "table_header buf p" "j < 1000" and s: "slot_is buf p j (Ref (FTable gs))"
  shows "\<exists>q. slot_table T (slot_of j) (tab buf p) obj = Inr (Some (tab buf q)) \<and> fb_at buf q (FTable gs)"
proof -
  let ?q = "p + slot_pos buf p j"
  have len: "length buf < 2 ^ 31" using h(1) by (simp add: table_header_def)
  have "field_at buf ?q (Ref (FTable gs))" using slot_field(1) [OF s] by simp
  then have f: "?q + 4 \<le> length buf" "fb_at buf (ref_target buf ?q) (FTable gs)"
    by (simp_all only: field_at.simps ref_target_def)
  have "slot_table T (slot_of j) (tab buf p) obj = Inr (Some (tab buf (ref_target buf ?q)))"
    using Indirect [OF f(1) len]
    by (simp only: slot_table_def slot_some [OF h s fbfield.distinct(4)] Table.select_convs word_add_flip res_bind.simps table_Init_def)
  with f(2) show ?thesis by blast
qed

lemma tables_reads:
  assumes h: "table_header buf p" "j < 1000" and s: "slot_is buf p j (Ref (ref_vec (map FTable ts)))"
  shows "slot_len T (slot_of j) (tab buf p) = Inr (int (length ts))"
    and "i < length ts \<Longrightarrow> \<exists>q. elem_table T (slot_of j) (tab buf p) obj (int i) = Inr (True, tab buf q) \<and> fb_at buf q (FTable (ts ! i))"
proof -
  let ?v = "vec_pos buf p j"
  have len: "length buf < 2 ^ 31" using h(1) by (simp add: table_header_def)
  note v = vector_slot [OF h s [unfolded ref_vec_def]]
  show "slot_len T (slot_of j) (tab buf p) = Inr (int (length ts))" using v(1) by simp
  show "\<exists>q. elem_table T (slot_of j) (tab buf p) obj (int i) = Inr (True, tab buf q) \<and> fb_at buf q (FTable (ts ! i))"
    if i: "i < length ts"
  proof -
    let ?q = "?v + i * 4"
    have "field_at buf ?q (Ref (FTable (ts ! i)))" using elems_at_nth [OF v(4), of i] i by simp
    then have f: "?q + 4 \<le> length buf" "fb_at buf (ref_target buf ?q) (FTable (ts ! i))"
      by (simp_all only: field_at.simps ref_target_def)
    have w: "word_of_nat ?v + word_of_int (int i) * 4 = (word_of_nat ?q :: u32)" by simp
    have "elem_table T (slot_of j) (tab buf p) obj (int i) = Inr (True, tab buf (ref_target buf ?q))"
      unfolding elem_table_def v(2) w using Indirect [OF f(1) len] by (simp only: res_bind.simps table_Init_def Table.select_convs)
    with f(2) show ?thesis by blast
  qed
qed

section \<open>Every accessor of a table reads its field\<close>

lemma table_of_fb:
  "fb_at buf q (FTable gs) \<Longrightarrow> table_header buf p \<Longrightarrow> table_header buf q \<and> (\<forall>i < length gs. slot_is buf q (0 + i) (gs ! i))"
  using fb_at_table [of buf q gs] by (simp add: table_header_def)

lemma columns_hold:
  "\<lbrakk>column_field c f; column_at T j c; j < 1000; table_header buf p; slot_is buf p j f\<rbrakk> \<Longrightarrow> column_holds c (tab buf p) f"
  "\<lbrakk>columns_fields cs fs; columns_at T j cs; table_header buf p; \<forall>i < length fs. slot_is buf p (j + i) (fs ! i)\<rbrakk> \<Longrightarrow>
     columns_hold cs (tab buf p) fs"
proof (induction c f and cs fs arbitrary: j p and j p rule: column_field_columns_fields.induct)
  case (8 get cs f)
  then obtain gs where f: "f = Ref (FTable gs)" "columns_fields cs gs" "columns_at T 0 cs" "get = slot_table T (slot_of j)"
    by auto
  have "\<exists>u. slot_table T (slot_of j) (tab buf p) obj = Inr (Some u) \<and> columns_hold cs u gs" for obj
    using table_reads [OF 8(5,4), of gs obj] 8(6) f(1) 8(1) [OF f(2,3)] table_of_fb [OF _ 8(5)] by blast
  with f show ?case by simp
next
  case (9 len get cs f)
  then obtain ts where f: "f = Ref (ref_vec (map FTable ts))" "\<And>gs. gs \<in> set ts \<Longrightarrow> columns_fields cs gs" "columns_at T 0 cs"
    "len = slot_len T (slot_of j)" "get = elem_table T (slot_of j)"
    by auto
  have "\<exists>u. elem_table T (slot_of j) (tab buf p) obj (int i) = Inr (True, u) \<and> columns_hold cs u (ts ! i)"
    if i: "i < length ts" for i obj
    using tables_reads(2) [OF 9(5,4) _ i, of obj] 9(6) f(1) 9(1) [OF _ f(2) f(3)] table_of_fb [OF _ 9(5)] i nth_mem by blast
  with f tables_reads(1) [OF 9(5,4)] 9(6) show ?case by (simp add: vec_inject)
next
  case (11 c cs fs)
  then obtain g gs where f: "fs = g # gs" "column_field c g" "columns_fields cs gs" "j < 1000" "column_at T j c" "columns_at T (Suc j) cs"
    by auto
  have s: "slot_is buf p j g" "\<forall>i < length gs. slot_is buf p (Suc j + i) (gs ! i)"
    using 11(6) f(1) by (auto dest: spec [of _ 0] spec [of _ "Suc i" for i])
  have "column_holds c (tab buf p) g" "columns_hold cs (tab buf p) gs"
    using 11(1) [OF f(2,5,4) 11(5) s(1)] 11(2) [OF f(3,6) 11(5) s(2)] .
  with f(1) show ?case by simp
qed (auto simp: scalar_reads bytes_reads words_reads vec_inject)

end

section \<open>The image of a table is what the schema makes of it\<close>

lemma mapR_indices:
  "(\<And>i. i < n \<Longrightarrow> f i = Inr (g i)) \<Longrightarrow> mapR f [0..<n] = Inr (map g [0..<n])"
  by (rule mapR_total) simp

lemma elements_map: "(\<And>i. i < n \<Longrightarrow> f (int i) = Inr (g i)) \<Longrightarrow> elements (Inr (int n)) f = Inr (concat (map g [0..<n]))"
  by (simp add: elements_def mapR_indices)

lemma concat_nth: "concat (map (\<lambda>i. f (xs ! i)) [0..<length xs]) = concat (map f xs)"
  by (rule arg_cong [where f = concat], rule nth_equalityI) simp_all

lemma flatten_words: "flatten_attr (arrayAttribute n IntSize) (Ref (word_vec ws)) = Some (concat (map le32 ws))"
  by (simp add: word_vec_def size_words comp_def list_all_iff)

lemma flatten_elems_refs:
  "(\<And>gs. gs \<in> set ts \<Longrightarrow> flatten_fields s gs = Some (h gs)) \<Longrightarrow>
     flatten_attr (tableArrayAttribute n s) (Ref (ref_vec (map FTable ts))) = Some (concat (map h ts))"
  using flatten_tables [of ts s "\<lambda>gs. gs" h n] by simp

lemma columns_read:
  "\<lbrakk>column_field c f; column_agrees a c; column_holds c t f\<rbrakk> \<Longrightarrow> \<exists>bs. flatten_attr a f = Some bs \<and> column_image c t = Inr bs"
  "\<lbrakk>columns_fields cs fs; columns_agree as cs; columns_hold cs t fs\<rbrakk> \<Longrightarrow>
     \<exists>bs. flatten_fields as fs = Some bs \<and> columns_image cs t = Inr bs"
proof (induction c f and cs fs arbitrary: a t and as t rule: column_field_columns_fields.induct)
  case (1 get put f)
  then obtain x n where f: "f = sc8 x" "a = scalarAttribute n ByteSize" by (cases a) auto
  then have "get t = Inr x" using 1(3) by auto
  with f show ?case by (simp add: flatten_scalars del: flatten_attr.simps)
next
  case (2 get put f)
  then obtain x n where f: "f = sc8 x" "a = scalarAttribute n ByteSize" by (cases a) auto
  then have "get t = Inr x" using 2(3) by auto
  with f show ?case by (simp add: flatten_scalars del: flatten_attr.simps)
next
  case (3 get put f)
  then obtain x n where f: "f = sc16 x" "a = scalarAttribute n ShortSize" by (cases a) auto
  then have "get t = Inr x" using 3(3) by auto
  with f show ?case by (simp add: flatten_scalars del: flatten_attr.simps)
next
  case (4 get put f)
  then obtain x n where f: "f = sc32 x" "a = scalarAttribute n IntSize" by (cases a) auto
  then have "get t = Inr x" using 4(3) by auto
  with f show ?case by (simp add: flatten_scalars del: flatten_attr.simps)
next
  case (5 bytes len get put f)
  then obtain bs n where f: "f = Ref (byte_vec bs)" "a = arrayAttribute n ByteSize" by (cases a) auto
  then have "bytes t = Inr bs" using 5(3) by auto
  with f show ?case by (simp add: flatten_byte_vec del: flatten_attr.simps)
next
  case (6 bytes f)
  then obtain bs n where f: "f = Ref (byte_vec bs)" "a = arrayAttribute n ByteSize" by (cases a) auto
  then have "bytes t = Inr bs" using 6(3) by auto
  with f show ?case by (simp add: flatten_byte_vec del: flatten_attr.simps)
next
  case (7 len get put f)
  then obtain ws n where f: "f = Ref (word_vec ws)" "a = arrayAttribute n IntSize" by (cases a) auto
  then have "elements (len t) (\<lambda>j. res_map le32 (get t j)) = Inr (concat (map (\<lambda>i. le32 (ws ! i)) [0..<length ws]))"
    using 7 by (simp add: elements_map)
  with f show ?case by (simp add: flatten_words concat_nth del: flatten_attr.simps)
next
  case (8 get cs f)
  then obtain gs n s where f: "f = Ref (FTable gs)" "columns_fields cs gs" "a = tableAttribute n s" "columns_agree s cs" by (cases a) auto
  obtain u where u: "get t None = Inr (Some u)" "columns_hold cs u gs" using 8(4) f(1) by auto
  from 8(1) [OF f(2,4) u(2)] f(1,3) u(1) show ?case by auto
next
  case (9 len get cs f)
  then obtain ts n s where f: "f = Ref (ref_vec (map FTable ts))" "\<And>gs. gs \<in> set ts \<Longrightarrow> columns_fields cs gs"
    "a = tableArrayAttribute n s" "columns_agree s cs"
    by (cases a) auto
  define h where "h gs = the (flatten_fields s gs)" for gs
  have e: "flatten_fields s (ts ! i) = Some (h (ts ! i)) \<and>
      res_bind (get t t (int i)) (\<lambda>(_, x). columns_image cs x) = Inr (h (ts ! i))"
    if i: "i < length ts" for i
  proof -
    obtain u where u: "get t t (int i) = Inr (True, u)" "columns_hold cs u (ts ! i)" using 9(4) f(1) i by (auto simp: vec_inject)
    from 9(1) [OF nth_mem f(2) [OF nth_mem] f(4) u(2)] i u(1) show ?thesis by (auto simp: h_def)
  qed
  then have "flatten_attr a f = Some (concat (map h ts))"
    unfolding f(1,3) by (intro flatten_elems_refs) (metis in_set_conv_nth)
  moreover have "len t = Inr (int (length ts))" using 9(4) f(1) by (simp add: vec_inject)
  then have "column_image (ColTables len get cs) t = Inr (concat (map h ts))"
    using e by (simp add: elements_map concat_nth)
  ultimately show ?case by blast
next
  case (10 fs)
  then show ?case by (cases as) auto
next
  case (11 c cs fs)
  then obtain g gs b bs where f: "fs = g # gs" "column_field c g" "columns_fields cs gs" "as = b # bs" "column_agrees b c"
    "columns_agree bs cs" "column_holds c t g" "columns_hold cs t gs"
    by (cases as) auto
  from 11(1) [OF f(2,5,7)] 11(2) [OF f(3,6,8)] f(1,4) show ?case by auto
qed

end
