(* ===== verification/TablesAccounts.thy ===== *)
theory TablesAccounts
  imports FbColumns
begin

text \<open>
  The accessors of the generated tables (\<open>transactions/*_buffer.go\<close>) of accounts: links, properties, aliases, cosignatories and contracts: how a buffer of the table is
  read and changed in place, and the generated functions that write it as far as \<open>TxBuffers\<close> does not have them already.
  \<open>StartVector\<close> also returns an offset, which is dropped. \<open>X_columns\<close> lists the accessors of the table \<open>X\<close> by slot.
\<close>

section \<open>\<open>transactions/cosignatory_modification_buffer.go\<close>\<close>

type_synonym CosignatoryModificationBuffer = Table

definition GetRootAsCosignatoryModificationBuffer :: "fb_table \<Rightarrow> byte list \<Rightarrow> u32 \<Rightarrow> CosignatoryModificationBuffer result" where [table_defs]:
  "GetRootAsCosignatoryModificationBuffer T buf offset = table_root T buf offset"

definition CosignatoryModificationBuffer_Init :: "byte list \<Rightarrow> u32 \<Rightarrow> CosignatoryModificationBuffer" where
  "CosignatoryModificationBuffer_Init buf i = table_Init buf i"

definition CosignatoryModificationBuffer_Table :: "CosignatoryModificationBuffer \<Rightarrow> Table" where
  "CosignatoryModificationBuffer_Table rcv = rcv"

definition CosignatoryModificationBuffer_Type :: "fb_table \<Rightarrow> CosignatoryModificationBuffer \<Rightarrow> byte result" where [table_defs]:
  "CosignatoryModificationBuffer_Type T = slot_byte T 4"

definition CosignatoryModificationBuffer_MutateType :: "fb_table \<Rightarrow> CosignatoryModificationBuffer \<Rightarrow> byte \<Rightarrow> (bool \<times> CosignatoryModificationBuffer) result" where [table_defs]:
  "CosignatoryModificationBuffer_MutateType T = (\<lambda>rcv. ft_MutateByteSlot T rcv 4)"

definition CosignatoryModificationBuffer_CosignatoryPublicKey :: "fb_table \<Rightarrow> CosignatoryModificationBuffer \<Rightarrow> int \<Rightarrow> byte result" where [table_defs]:
  "CosignatoryModificationBuffer_CosignatoryPublicKey T = elem_byte T 6"

definition CosignatoryModificationBuffer_CosignatoryPublicKeyLength :: "fb_table \<Rightarrow> CosignatoryModificationBuffer \<Rightarrow> int result" where [table_defs]:
  "CosignatoryModificationBuffer_CosignatoryPublicKeyLength T = slot_len T 6"

definition CosignatoryModificationBuffer_CosignatoryPublicKeyBytes :: "fb_table \<Rightarrow> CosignatoryModificationBuffer \<Rightarrow> byte list result" where [table_defs]:
  "CosignatoryModificationBuffer_CosignatoryPublicKeyBytes T = slot_bytes T 6"

definition CosignatoryModificationBuffer_MutateCosignatoryPublicKey :: "fb_table \<Rightarrow> CosignatoryModificationBuffer \<Rightarrow> int \<Rightarrow> byte \<Rightarrow> (bool \<times> CosignatoryModificationBuffer) result" where [table_defs]:
  "CosignatoryModificationBuffer_MutateCosignatoryPublicKey T = set_elem_byte T 6"

definition CosignatoryModificationBuffer_columns :: "fb_table \<Rightarrow> column list" where [column_defs]:
  "CosignatoryModificationBuffer_columns T =
    [ColByte (CosignatoryModificationBuffer_Type T) (CosignatoryModificationBuffer_MutateType T),
     ColBytes (CosignatoryModificationBuffer_CosignatoryPublicKeyBytes T) (CosignatoryModificationBuffer_CosignatoryPublicKeyLength T) (CosignatoryModificationBuffer_CosignatoryPublicKey T)
       (CosignatoryModificationBuffer_MutateCosignatoryPublicKey T)]"

definition CosignatoryModificationBufferStartCosignatoryPublicKeyVector :: "'b fb_api \<Rightarrow> nat \<Rightarrow> ('b, unit) fb_prog" where [fb_defs]:
  "CosignatoryModificationBufferStartCosignatoryPublicKeyVector F numElems = fb_do (fb_StartVector F 1 numElems 1)"

definition CosignatoryModificationBufferEnd :: "'b fb_api \<Rightarrow> ('b, u32) fb_prog" where [fb_defs]:
  "CosignatoryModificationBufferEnd F = fb_call (fb_EndObject F)"

section \<open>\<open>transactions/account_link_transaction_buffer.go\<close>\<close>

type_synonym AccountLinkTransactionBuffer = Table

definition GetRootAsAccountLinkTransactionBuffer :: "fb_table \<Rightarrow> byte list \<Rightarrow> u32 \<Rightarrow> AccountLinkTransactionBuffer result" where [table_defs]:
  "GetRootAsAccountLinkTransactionBuffer T buf offset = table_root T buf offset"

definition AccountLinkTransactionBuffer_Init :: "byte list \<Rightarrow> u32 \<Rightarrow> AccountLinkTransactionBuffer" where
  "AccountLinkTransactionBuffer_Init buf i = table_Init buf i"

definition AccountLinkTransactionBuffer_Table :: "AccountLinkTransactionBuffer \<Rightarrow> Table" where
  "AccountLinkTransactionBuffer_Table rcv = rcv"

definition AccountLinkTransactionBuffer_Size :: "fb_table \<Rightarrow> AccountLinkTransactionBuffer \<Rightarrow> u32 result" where [table_defs]:
  "AccountLinkTransactionBuffer_Size T = slot_uint32 T 4"

definition AccountLinkTransactionBuffer_MutateSize :: "fb_table \<Rightarrow> AccountLinkTransactionBuffer \<Rightarrow> u32 \<Rightarrow> (bool \<times> AccountLinkTransactionBuffer) result" where [table_defs]:
  "AccountLinkTransactionBuffer_MutateSize T = (\<lambda>rcv. ft_MutateUint32Slot T rcv 4)"

definition AccountLinkTransactionBuffer_Signature :: "fb_table \<Rightarrow> AccountLinkTransactionBuffer \<Rightarrow> int \<Rightarrow> byte result" where [table_defs]:
  "AccountLinkTransactionBuffer_Signature T = elem_byte T 6"

definition AccountLinkTransactionBuffer_SignatureLength :: "fb_table \<Rightarrow> AccountLinkTransactionBuffer \<Rightarrow> int result" where [table_defs]:
  "AccountLinkTransactionBuffer_SignatureLength T = slot_len T 6"

definition AccountLinkTransactionBuffer_SignatureBytes :: "fb_table \<Rightarrow> AccountLinkTransactionBuffer \<Rightarrow> byte list result" where [table_defs]:
  "AccountLinkTransactionBuffer_SignatureBytes T = slot_bytes T 6"

definition AccountLinkTransactionBuffer_MutateSignature :: "fb_table \<Rightarrow> AccountLinkTransactionBuffer \<Rightarrow> int \<Rightarrow> byte \<Rightarrow> (bool \<times> AccountLinkTransactionBuffer) result" where [table_defs]:
  "AccountLinkTransactionBuffer_MutateSignature T = set_elem_byte T 6"

definition AccountLinkTransactionBuffer_Signer :: "fb_table \<Rightarrow> AccountLinkTransactionBuffer \<Rightarrow> int \<Rightarrow> byte result" where [table_defs]:
  "AccountLinkTransactionBuffer_Signer T = elem_byte T 8"

definition AccountLinkTransactionBuffer_SignerLength :: "fb_table \<Rightarrow> AccountLinkTransactionBuffer \<Rightarrow> int result" where [table_defs]:
  "AccountLinkTransactionBuffer_SignerLength T = slot_len T 8"

definition AccountLinkTransactionBuffer_SignerBytes :: "fb_table \<Rightarrow> AccountLinkTransactionBuffer \<Rightarrow> byte list result" where [table_defs]:
  "AccountLinkTransactionBuffer_SignerBytes T = slot_bytes T 8"

definition AccountLinkTransactionBuffer_MutateSigner :: "fb_table \<Rightarrow> AccountLinkTransactionBuffer \<Rightarrow> int \<Rightarrow> byte \<Rightarrow> (bool \<times> AccountLinkTransactionBuffer) result" where [table_defs]:
  "AccountLinkTransactionBuffer_MutateSigner T = set_elem_byte T 8"

definition AccountLinkTransactionBuffer_Version :: "fb_table \<Rightarrow> AccountLinkTransactionBuffer \<Rightarrow> u32 result" where [table_defs]:
  "AccountLinkTransactionBuffer_Version T = slot_uint32 T 10"

definition AccountLinkTransactionBuffer_MutateVersion :: "fb_table \<Rightarrow> AccountLinkTransactionBuffer \<Rightarrow> u32 \<Rightarrow> (bool \<times> AccountLinkTransactionBuffer) result" where [table_defs]:
  "AccountLinkTransactionBuffer_MutateVersion T = (\<lambda>rcv. ft_MutateUint32Slot T rcv 10)"

definition AccountLinkTransactionBuffer_Type :: "fb_table \<Rightarrow> AccountLinkTransactionBuffer \<Rightarrow> u16 result" where [table_defs]:
  "AccountLinkTransactionBuffer_Type T = slot_uint16 T 12"

definition AccountLinkTransactionBuffer_MutateType :: "fb_table \<Rightarrow> AccountLinkTransactionBuffer \<Rightarrow> u16 \<Rightarrow> (bool \<times> AccountLinkTransactionBuffer) result" where [table_defs]:
  "AccountLinkTransactionBuffer_MutateType T = (\<lambda>rcv. ft_MutateUint16Slot T rcv 12)"

definition AccountLinkTransactionBuffer_MaxFee :: "fb_table \<Rightarrow> AccountLinkTransactionBuffer \<Rightarrow> int \<Rightarrow> u32 result" where [table_defs]:
  "AccountLinkTransactionBuffer_MaxFee T = elem_uint32 T 14"

definition AccountLinkTransactionBuffer_MaxFeeLength :: "fb_table \<Rightarrow> AccountLinkTransactionBuffer \<Rightarrow> int result" where [table_defs]:
  "AccountLinkTransactionBuffer_MaxFeeLength T = slot_len T 14"

definition AccountLinkTransactionBuffer_MutateMaxFee :: "fb_table \<Rightarrow> AccountLinkTransactionBuffer \<Rightarrow> int \<Rightarrow> u32 \<Rightarrow> (bool \<times> AccountLinkTransactionBuffer) result" where [table_defs]:
  "AccountLinkTransactionBuffer_MutateMaxFee T = set_elem_uint32 T 14"

definition AccountLinkTransactionBuffer_Deadline :: "fb_table \<Rightarrow> AccountLinkTransactionBuffer \<Rightarrow> int \<Rightarrow> u32 result" where [table_defs]:
  "AccountLinkTransactionBuffer_Deadline T = elem_uint32 T 16"

definition AccountLinkTransactionBuffer_DeadlineLength :: "fb_table \<Rightarrow> AccountLinkTransactionBuffer \<Rightarrow> int result" where [table_defs]:
  "AccountLinkTransactionBuffer_DeadlineLength T = slot_len T 16"

definition AccountLinkTransactionBuffer_MutateDeadline :: "fb_table \<Rightarrow> AccountLinkTransactionBuffer \<Rightarrow> int \<Rightarrow> u32 \<Rightarrow> (bool \<times> AccountLinkTransactionBuffer) result" where [table_defs]:
  "AccountLinkTransactionBuffer_MutateDeadline T = set_elem_uint32 T 16"

definition AccountLinkTransactionBuffer_RemoteAccountKey :: "fb_table \<Rightarrow> AccountLinkTransactionBuffer \<Rightarrow> int \<Rightarrow> byte result" where [table_defs]:
  "AccountLinkTransactionBuffer_RemoteAccountKey T = elem_byte T 18"

definition AccountLinkTransactionBuffer_RemoteAccountKeyLength :: "fb_table \<Rightarrow> AccountLinkTransactionBuffer \<Rightarrow> int result" where [table_defs]:
  "AccountLinkTransactionBuffer_RemoteAccountKeyLength T = slot_len T 18"

definition AccountLinkTransactionBuffer_RemoteAccountKeyBytes :: "fb_table \<Rightarrow> AccountLinkTransactionBuffer \<Rightarrow> byte list result" where [table_defs]:
  "AccountLinkTransactionBuffer_RemoteAccountKeyBytes T = slot_bytes T 18"

definition AccountLinkTransactionBuffer_MutateRemoteAccountKey :: "fb_table \<Rightarrow> AccountLinkTransactionBuffer \<Rightarrow> int \<Rightarrow> byte \<Rightarrow> (bool \<times> AccountLinkTransactionBuffer) result" where [table_defs]:
  "AccountLinkTransactionBuffer_MutateRemoteAccountKey T = set_elem_byte T 18"

definition AccountLinkTransactionBuffer_LinkAction :: "fb_table \<Rightarrow> AccountLinkTransactionBuffer \<Rightarrow> byte result" where [table_defs]:
  "AccountLinkTransactionBuffer_LinkAction T = slot_byte T 20"

definition AccountLinkTransactionBuffer_MutateLinkAction :: "fb_table \<Rightarrow> AccountLinkTransactionBuffer \<Rightarrow> byte \<Rightarrow> (bool \<times> AccountLinkTransactionBuffer) result" where [table_defs]:
  "AccountLinkTransactionBuffer_MutateLinkAction T = (\<lambda>rcv. ft_MutateByteSlot T rcv 20)"

definition AccountLinkTransactionBuffer_columns :: "fb_table \<Rightarrow> column list" where [column_defs]:
  "AccountLinkTransactionBuffer_columns T =
    [ColUint32 (AccountLinkTransactionBuffer_Size T) (AccountLinkTransactionBuffer_MutateSize T),
     ColBytes (AccountLinkTransactionBuffer_SignatureBytes T) (AccountLinkTransactionBuffer_SignatureLength T) (AccountLinkTransactionBuffer_Signature T)
       (AccountLinkTransactionBuffer_MutateSignature T),
     ColBytes (AccountLinkTransactionBuffer_SignerBytes T) (AccountLinkTransactionBuffer_SignerLength T) (AccountLinkTransactionBuffer_Signer T)
       (AccountLinkTransactionBuffer_MutateSigner T),
     ColUint32 (AccountLinkTransactionBuffer_Version T) (AccountLinkTransactionBuffer_MutateVersion T),
     ColUint16 (AccountLinkTransactionBuffer_Type T) (AccountLinkTransactionBuffer_MutateType T),
     ColWords (AccountLinkTransactionBuffer_MaxFeeLength T) (AccountLinkTransactionBuffer_MaxFee T)
       (AccountLinkTransactionBuffer_MutateMaxFee T),
     ColWords (AccountLinkTransactionBuffer_DeadlineLength T) (AccountLinkTransactionBuffer_Deadline T)
       (AccountLinkTransactionBuffer_MutateDeadline T),
     ColBytes (AccountLinkTransactionBuffer_RemoteAccountKeyBytes T) (AccountLinkTransactionBuffer_RemoteAccountKeyLength T) (AccountLinkTransactionBuffer_RemoteAccountKey T)
       (AccountLinkTransactionBuffer_MutateRemoteAccountKey T),
     ColByte (AccountLinkTransactionBuffer_LinkAction T) (AccountLinkTransactionBuffer_MutateLinkAction T)]"

definition AccountLinkTransactionBufferAddSize :: "'b fb_api \<Rightarrow> u32 \<Rightarrow> ('b, unit) fb_prog" where [fb_defs]:
  "AccountLinkTransactionBufferAddSize F sz = fb_do (fb_PrependUint32Slot F 0 sz 0)"

definition AccountLinkTransactionBufferAddSignature :: "'b fb_api \<Rightarrow> u32 \<Rightarrow> ('b, unit) fb_prog" where [fb_defs]:
  "AccountLinkTransactionBufferAddSignature F signature = fb_do (fb_PrependUOffsetTSlot F 1 signature 0)"

definition AccountLinkTransactionBufferStartSignatureVector :: "'b fb_api \<Rightarrow> nat \<Rightarrow> ('b, unit) fb_prog" where [fb_defs]:
  "AccountLinkTransactionBufferStartSignatureVector F numElems = fb_do (fb_StartVector F 1 numElems 1)"

definition AccountLinkTransactionBufferAddSigner :: "'b fb_api \<Rightarrow> u32 \<Rightarrow> ('b, unit) fb_prog" where [fb_defs]:
  "AccountLinkTransactionBufferAddSigner F signer = fb_do (fb_PrependUOffsetTSlot F 2 signer 0)"

definition AccountLinkTransactionBufferStartSignerVector :: "'b fb_api \<Rightarrow> nat \<Rightarrow> ('b, unit) fb_prog" where [fb_defs]:
  "AccountLinkTransactionBufferStartSignerVector F numElems = fb_do (fb_StartVector F 1 numElems 1)"

definition AccountLinkTransactionBufferAddVersion :: "'b fb_api \<Rightarrow> u32 \<Rightarrow> ('b, unit) fb_prog" where [fb_defs]:
  "AccountLinkTransactionBufferAddVersion F version = fb_do (fb_PrependUint32Slot F 3 version 0)"

definition AccountLinkTransactionBufferAddType :: "'b fb_api \<Rightarrow> u16 \<Rightarrow> ('b, unit) fb_prog" where [fb_defs]:
  "AccountLinkTransactionBufferAddType F type_V = fb_do (fb_PrependUint16Slot F 4 type_V 0)"

definition AccountLinkTransactionBufferAddMaxFee :: "'b fb_api \<Rightarrow> u32 \<Rightarrow> ('b, unit) fb_prog" where [fb_defs]:
  "AccountLinkTransactionBufferAddMaxFee F maxFee = fb_do (fb_PrependUOffsetTSlot F 5 maxFee 0)"

definition AccountLinkTransactionBufferStartMaxFeeVector :: "'b fb_api \<Rightarrow> nat \<Rightarrow> ('b, unit) fb_prog" where [fb_defs]:
  "AccountLinkTransactionBufferStartMaxFeeVector F numElems = fb_do (fb_StartVector F 4 numElems 4)"

definition AccountLinkTransactionBufferAddDeadline :: "'b fb_api \<Rightarrow> u32 \<Rightarrow> ('b, unit) fb_prog" where [fb_defs]:
  "AccountLinkTransactionBufferAddDeadline F deadline = fb_do (fb_PrependUOffsetTSlot F 6 deadline 0)"

definition AccountLinkTransactionBufferStartDeadlineVector :: "'b fb_api \<Rightarrow> nat \<Rightarrow> ('b, unit) fb_prog" where [fb_defs]:
  "AccountLinkTransactionBufferStartDeadlineVector F numElems = fb_do (fb_StartVector F 4 numElems 4)"

definition AccountLinkTransactionBufferStartRemoteAccountKeyVector :: "'b fb_api \<Rightarrow> nat \<Rightarrow> ('b, unit) fb_prog" where [fb_defs]:
  "AccountLinkTransactionBufferStartRemoteAccountKeyVector F numElems = fb_do (fb_StartVector F 1 numElems 1)"

definition AccountLinkTransactionBufferEnd :: "'b fb_api \<Rightarrow> ('b, u32) fb_prog" where [fb_defs]:
  "AccountLinkTransactionBufferEnd F = fb_call (fb_EndObject F)"

section \<open>\<open>transactions/account_properties_transaction_buffer.go\<close>\<close>

type_synonym PropertyModificationBuffer = Table

definition GetRootAsPropertyModificationBuffer :: "fb_table \<Rightarrow> byte list \<Rightarrow> u32 \<Rightarrow> PropertyModificationBuffer result" where [table_defs]:
  "GetRootAsPropertyModificationBuffer T buf offset = table_root T buf offset"

definition PropertyModificationBuffer_Init :: "byte list \<Rightarrow> u32 \<Rightarrow> PropertyModificationBuffer" where
  "PropertyModificationBuffer_Init buf i = table_Init buf i"

definition PropertyModificationBuffer_Table :: "PropertyModificationBuffer \<Rightarrow> Table" where
  "PropertyModificationBuffer_Table rcv = rcv"

definition PropertyModificationBuffer_ModificationType :: "fb_table \<Rightarrow> PropertyModificationBuffer \<Rightarrow> byte result" where [table_defs]:
  "PropertyModificationBuffer_ModificationType T = slot_byte T 4"

definition PropertyModificationBuffer_MutateModificationType :: "fb_table \<Rightarrow> PropertyModificationBuffer \<Rightarrow> byte \<Rightarrow> (bool \<times> PropertyModificationBuffer) result" where [table_defs]:
  "PropertyModificationBuffer_MutateModificationType T = (\<lambda>rcv. ft_MutateByteSlot T rcv 4)"

definition PropertyModificationBuffer_Value :: "fb_table \<Rightarrow> PropertyModificationBuffer \<Rightarrow> int \<Rightarrow> byte result" where [table_defs]:
  "PropertyModificationBuffer_Value T = elem_byte T 6"

definition PropertyModificationBuffer_ValueLength :: "fb_table \<Rightarrow> PropertyModificationBuffer \<Rightarrow> int result" where [table_defs]:
  "PropertyModificationBuffer_ValueLength T = slot_len T 6"

definition PropertyModificationBuffer_ValueBytes :: "fb_table \<Rightarrow> PropertyModificationBuffer \<Rightarrow> byte list result" where [table_defs]:
  "PropertyModificationBuffer_ValueBytes T = slot_bytes T 6"

definition PropertyModificationBuffer_MutateValue :: "fb_table \<Rightarrow> PropertyModificationBuffer \<Rightarrow> int \<Rightarrow> byte \<Rightarrow> (bool \<times> PropertyModificationBuffer) result" where [table_defs]:
  "PropertyModificationBuffer_MutateValue T = set_elem_byte T 6"

definition PropertyModificationBuffer_columns :: "fb_table \<Rightarrow> column list" where [column_defs]:
  "PropertyModificationBuffer_columns T =
    [ColByte (PropertyModificationBuffer_ModificationType T) (PropertyModificationBuffer_MutateModificationType T),
     ColBytes (PropertyModificationBuffer_ValueBytes T) (PropertyModificationBuffer_ValueLength T) (PropertyModificationBuffer_Value T)
       (PropertyModificationBuffer_MutateValue T)]"

type_synonym AccountPropertiesTransactionBuffer = Table

definition GetRootAsAccountPropertiesTransactionBuffer :: "fb_table \<Rightarrow> byte list \<Rightarrow> u32 \<Rightarrow> AccountPropertiesTransactionBuffer result" where [table_defs]:
  "GetRootAsAccountPropertiesTransactionBuffer T buf offset = table_root T buf offset"

definition AccountPropertiesTransactionBuffer_Init :: "byte list \<Rightarrow> u32 \<Rightarrow> AccountPropertiesTransactionBuffer" where
  "AccountPropertiesTransactionBuffer_Init buf i = table_Init buf i"

definition AccountPropertiesTransactionBuffer_Table :: "AccountPropertiesTransactionBuffer \<Rightarrow> Table" where
  "AccountPropertiesTransactionBuffer_Table rcv = rcv"

definition AccountPropertiesTransactionBuffer_Size :: "fb_table \<Rightarrow> AccountPropertiesTransactionBuffer \<Rightarrow> u32 result" where [table_defs]:
  "AccountPropertiesTransactionBuffer_Size T = slot_uint32 T 4"

definition AccountPropertiesTransactionBuffer_MutateSize :: "fb_table \<Rightarrow> AccountPropertiesTransactionBuffer \<Rightarrow> u32 \<Rightarrow> (bool \<times> AccountPropertiesTransactionBuffer) result" where [table_defs]:
  "AccountPropertiesTransactionBuffer_MutateSize T = (\<lambda>rcv. ft_MutateUint32Slot T rcv 4)"

definition AccountPropertiesTransactionBuffer_Signature :: "fb_table \<Rightarrow> AccountPropertiesTransactionBuffer \<Rightarrow> int \<Rightarrow> byte result" where [table_defs]:
  "AccountPropertiesTransactionBuffer_Signature T = elem_byte T 6"

definition AccountPropertiesTransactionBuffer_SignatureLength :: "fb_table \<Rightarrow> AccountPropertiesTransactionBuffer \<Rightarrow> int result" where [table_defs]:
  "AccountPropertiesTransactionBuffer_SignatureLength T = slot_len T 6"

definition AccountPropertiesTransactionBuffer_SignatureBytes :: "fb_table \<Rightarrow> AccountPropertiesTransactionBuffer \<Rightarrow> byte list result" where [table_defs]:
  "AccountPropertiesTransactionBuffer_SignatureBytes T = slot_bytes T 6"

definition AccountPropertiesTransactionBuffer_MutateSignature :: "fb_table \<Rightarrow> AccountPropertiesTransactionBuffer \<Rightarrow> int \<Rightarrow> byte \<Rightarrow> (bool \<times> AccountPropertiesTransactionBuffer) result" where [table_defs]:
  "AccountPropertiesTransactionBuffer_MutateSignature T = set_elem_byte T 6"

definition AccountPropertiesTransactionBuffer_Signer :: "fb_table \<Rightarrow> AccountPropertiesTransactionBuffer \<Rightarrow> int \<Rightarrow> byte result" where [table_defs]:
  "AccountPropertiesTransactionBuffer_Signer T = elem_byte T 8"

definition AccountPropertiesTransactionBuffer_SignerLength :: "fb_table \<Rightarrow> AccountPropertiesTransactionBuffer \<Rightarrow> int result" where [table_defs]:
  "AccountPropertiesTransactionBuffer_SignerLength T = slot_len T 8"

definition AccountPropertiesTransactionBuffer_SignerBytes :: "fb_table \<Rightarrow> AccountPropertiesTransactionBuffer \<Rightarrow> byte list result" where [table_defs]:
  "AccountPropertiesTransactionBuffer_SignerBytes T = slot_bytes T 8"

definition AccountPropertiesTransactionBuffer_MutateSigner :: "fb_table \<Rightarrow> AccountPropertiesTransactionBuffer \<Rightarrow> int \<Rightarrow> byte \<Rightarrow> (bool \<times> AccountPropertiesTransactionBuffer) result" where [table_defs]:
  "AccountPropertiesTransactionBuffer_MutateSigner T = set_elem_byte T 8"

definition AccountPropertiesTransactionBuffer_Version :: "fb_table \<Rightarrow> AccountPropertiesTransactionBuffer \<Rightarrow> u32 result" where [table_defs]:
  "AccountPropertiesTransactionBuffer_Version T = slot_uint32 T 10"

definition AccountPropertiesTransactionBuffer_MutateVersion :: "fb_table \<Rightarrow> AccountPropertiesTransactionBuffer \<Rightarrow> u32 \<Rightarrow> (bool \<times> AccountPropertiesTransactionBuffer) result" where [table_defs]:
  "AccountPropertiesTransactionBuffer_MutateVersion T = (\<lambda>rcv. ft_MutateUint32Slot T rcv 10)"

definition AccountPropertiesTransactionBuffer_Type :: "fb_table \<Rightarrow> AccountPropertiesTransactionBuffer \<Rightarrow> u16 result" where [table_defs]:
  "AccountPropertiesTransactionBuffer_Type T = slot_uint16 T 12"

definition AccountPropertiesTransactionBuffer_MutateType :: "fb_table \<Rightarrow> AccountPropertiesTransactionBuffer \<Rightarrow> u16 \<Rightarrow> (bool \<times> AccountPropertiesTransactionBuffer) result" where [table_defs]:
  "AccountPropertiesTransactionBuffer_MutateType T = (\<lambda>rcv. ft_MutateUint16Slot T rcv 12)"

definition AccountPropertiesTransactionBuffer_MaxFee :: "fb_table \<Rightarrow> AccountPropertiesTransactionBuffer \<Rightarrow> int \<Rightarrow> u32 result" where [table_defs]:
  "AccountPropertiesTransactionBuffer_MaxFee T = elem_uint32 T 14"

definition AccountPropertiesTransactionBuffer_MaxFeeLength :: "fb_table \<Rightarrow> AccountPropertiesTransactionBuffer \<Rightarrow> int result" where [table_defs]:
  "AccountPropertiesTransactionBuffer_MaxFeeLength T = slot_len T 14"

definition AccountPropertiesTransactionBuffer_MutateMaxFee :: "fb_table \<Rightarrow> AccountPropertiesTransactionBuffer \<Rightarrow> int \<Rightarrow> u32 \<Rightarrow> (bool \<times> AccountPropertiesTransactionBuffer) result" where [table_defs]:
  "AccountPropertiesTransactionBuffer_MutateMaxFee T = set_elem_uint32 T 14"

definition AccountPropertiesTransactionBuffer_Deadline :: "fb_table \<Rightarrow> AccountPropertiesTransactionBuffer \<Rightarrow> int \<Rightarrow> u32 result" where [table_defs]:
  "AccountPropertiesTransactionBuffer_Deadline T = elem_uint32 T 16"

definition AccountPropertiesTransactionBuffer_DeadlineLength :: "fb_table \<Rightarrow> AccountPropertiesTransactionBuffer \<Rightarrow> int result" where [table_defs]:
  "AccountPropertiesTransactionBuffer_DeadlineLength T = slot_len T 16"

definition AccountPropertiesTransactionBuffer_MutateDeadline :: "fb_table \<Rightarrow> AccountPropertiesTransactionBuffer \<Rightarrow> int \<Rightarrow> u32 \<Rightarrow> (bool \<times> AccountPropertiesTransactionBuffer) result" where [table_defs]:
  "AccountPropertiesTransactionBuffer_MutateDeadline T = set_elem_uint32 T 16"

definition AccountPropertiesTransactionBuffer_PropertyType :: "fb_table \<Rightarrow> AccountPropertiesTransactionBuffer \<Rightarrow> byte result" where [table_defs]:
  "AccountPropertiesTransactionBuffer_PropertyType T = slot_byte T 18"

definition AccountPropertiesTransactionBuffer_MutatePropertyType :: "fb_table \<Rightarrow> AccountPropertiesTransactionBuffer \<Rightarrow> byte \<Rightarrow> (bool \<times> AccountPropertiesTransactionBuffer) result" where [table_defs]:
  "AccountPropertiesTransactionBuffer_MutatePropertyType T = (\<lambda>rcv. ft_MutateByteSlot T rcv 18)"

definition AccountPropertiesTransactionBuffer_ModificationCount :: "fb_table \<Rightarrow> AccountPropertiesTransactionBuffer \<Rightarrow> byte result" where [table_defs]:
  "AccountPropertiesTransactionBuffer_ModificationCount T = slot_byte T 20"

definition AccountPropertiesTransactionBuffer_MutateModificationCount :: "fb_table \<Rightarrow> AccountPropertiesTransactionBuffer \<Rightarrow> byte \<Rightarrow> (bool \<times> AccountPropertiesTransactionBuffer) result" where [table_defs]:
  "AccountPropertiesTransactionBuffer_MutateModificationCount T = (\<lambda>rcv. ft_MutateByteSlot T rcv 20)"

definition AccountPropertiesTransactionBuffer_Modifications :: "fb_table \<Rightarrow> AccountPropertiesTransactionBuffer \<Rightarrow> PropertyModificationBuffer \<Rightarrow> int \<Rightarrow> (bool \<times> PropertyModificationBuffer) result" where [table_defs]:
  "AccountPropertiesTransactionBuffer_Modifications T = elem_table T 22"

definition AccountPropertiesTransactionBuffer_ModificationsLength :: "fb_table \<Rightarrow> AccountPropertiesTransactionBuffer \<Rightarrow> int result" where [table_defs]:
  "AccountPropertiesTransactionBuffer_ModificationsLength T = slot_len T 22"

definition AccountPropertiesTransactionBuffer_columns :: "fb_table \<Rightarrow> column list" where [column_defs]:
  "AccountPropertiesTransactionBuffer_columns T =
    [ColUint32 (AccountPropertiesTransactionBuffer_Size T) (AccountPropertiesTransactionBuffer_MutateSize T),
     ColBytes (AccountPropertiesTransactionBuffer_SignatureBytes T) (AccountPropertiesTransactionBuffer_SignatureLength T) (AccountPropertiesTransactionBuffer_Signature T)
       (AccountPropertiesTransactionBuffer_MutateSignature T),
     ColBytes (AccountPropertiesTransactionBuffer_SignerBytes T) (AccountPropertiesTransactionBuffer_SignerLength T) (AccountPropertiesTransactionBuffer_Signer T)
       (AccountPropertiesTransactionBuffer_MutateSigner T),
     ColUint32 (AccountPropertiesTransactionBuffer_Version T) (AccountPropertiesTransactionBuffer_MutateVersion T),
     ColUint16 (AccountPropertiesTransactionBuffer_Type T) (AccountPropertiesTransactionBuffer_MutateType T),
     ColWords (AccountPropertiesTransactionBuffer_MaxFeeLength T) (AccountPropertiesTransactionBuffer_MaxFee T)
       (AccountPropertiesTransactionBuffer_MutateMaxFee T),
     ColWords (AccountPropertiesTransactionBuffer_DeadlineLength T) (AccountPropertiesTransactionBuffer_Deadline T)
       (AccountPropertiesTransactionBuffer_MutateDeadline T),
     ColByte (AccountPropertiesTransactionBuffer_PropertyType T) (AccountPropertiesTransactionBuffer_MutatePropertyType T),
     ColByte (AccountPropertiesTransactionBuffer_ModificationCount T) (AccountPropertiesTransactionBuffer_MutateModificationCount T),
     ColTables (AccountPropertiesTransactionBuffer_ModificationsLength T) (AccountPropertiesTransactionBuffer_Modifications T)
       (PropertyModificationBuffer_columns T)]"

definition PropertyModificationBufferStartValueVector :: "'b fb_api \<Rightarrow> nat \<Rightarrow> ('b, unit) fb_prog" where [fb_defs]:
  "PropertyModificationBufferStartValueVector F numElems = fb_do (fb_StartVector F 1 numElems 1)"

definition AccountPropertiesTransactionBufferAddSize :: "'b fb_api \<Rightarrow> u32 \<Rightarrow> ('b, unit) fb_prog" where [fb_defs]:
  "AccountPropertiesTransactionBufferAddSize F sz = fb_do (fb_PrependUint32Slot F 0 sz 0)"

definition AccountPropertiesTransactionBufferAddSignature :: "'b fb_api \<Rightarrow> u32 \<Rightarrow> ('b, unit) fb_prog" where [fb_defs]:
  "AccountPropertiesTransactionBufferAddSignature F signature = fb_do (fb_PrependUOffsetTSlot F 1 signature 0)"

definition AccountPropertiesTransactionBufferStartSignatureVector :: "'b fb_api \<Rightarrow> nat \<Rightarrow> ('b, unit) fb_prog" where [fb_defs]:
  "AccountPropertiesTransactionBufferStartSignatureVector F numElems = fb_do (fb_StartVector F 1 numElems 1)"

definition AccountPropertiesTransactionBufferAddSigner :: "'b fb_api \<Rightarrow> u32 \<Rightarrow> ('b, unit) fb_prog" where [fb_defs]:
  "AccountPropertiesTransactionBufferAddSigner F signer = fb_do (fb_PrependUOffsetTSlot F 2 signer 0)"

definition AccountPropertiesTransactionBufferStartSignerVector :: "'b fb_api \<Rightarrow> nat \<Rightarrow> ('b, unit) fb_prog" where [fb_defs]:
  "AccountPropertiesTransactionBufferStartSignerVector F numElems = fb_do (fb_StartVector F 1 numElems 1)"

definition AccountPropertiesTransactionBufferAddVersion :: "'b fb_api \<Rightarrow> u32 \<Rightarrow> ('b, unit) fb_prog" where [fb_defs]:
  "AccountPropertiesTransactionBufferAddVersion F version = fb_do (fb_PrependUint32Slot F 3 version 0)"

definition AccountPropertiesTransactionBufferAddType :: "'b fb_api \<Rightarrow> u16 \<Rightarrow> ('b, unit) fb_prog" where [fb_defs]:
  "AccountPropertiesTransactionBufferAddType F type_V = fb_do (fb_PrependUint16Slot F 4 type_V 0)"

definition AccountPropertiesTransactionBufferAddMaxFee :: "'b fb_api \<Rightarrow> u32 \<Rightarrow> ('b, unit) fb_prog" where [fb_defs]:
  "AccountPropertiesTransactionBufferAddMaxFee F maxFee = fb_do (fb_PrependUOffsetTSlot F 5 maxFee 0)"

definition AccountPropertiesTransactionBufferStartMaxFeeVector :: "'b fb_api \<Rightarrow> nat \<Rightarrow> ('b, unit) fb_prog" where [fb_defs]:
  "AccountPropertiesTransactionBufferStartMaxFeeVector F numElems = fb_do (fb_StartVector F 4 numElems 4)"

definition AccountPropertiesTransactionBufferAddDeadline :: "'b fb_api \<Rightarrow> u32 \<Rightarrow> ('b, unit) fb_prog" where [fb_defs]:
  "AccountPropertiesTransactionBufferAddDeadline F deadline = fb_do (fb_PrependUOffsetTSlot F 6 deadline 0)"

definition AccountPropertiesTransactionBufferStartDeadlineVector :: "'b fb_api \<Rightarrow> nat \<Rightarrow> ('b, unit) fb_prog" where [fb_defs]:
  "AccountPropertiesTransactionBufferStartDeadlineVector F numElems = fb_do (fb_StartVector F 4 numElems 4)"

definition AccountPropertiesTransactionBufferStartModificationsVector :: "'b fb_api \<Rightarrow> nat \<Rightarrow> ('b, unit) fb_prog" where [fb_defs]:
  "AccountPropertiesTransactionBufferStartModificationsVector F numElems = fb_do (fb_StartVector F 4 numElems 4)"

section \<open>\<open>transactions/alias_transaction_buffer.go\<close>\<close>

type_synonym AliasTransactionBuffer = Table

definition GetRootAsAliasTransactionBuffer :: "fb_table \<Rightarrow> byte list \<Rightarrow> u32 \<Rightarrow> AliasTransactionBuffer result" where [table_defs]:
  "GetRootAsAliasTransactionBuffer T buf offset = table_root T buf offset"

definition AliasTransactionBuffer_Init :: "byte list \<Rightarrow> u32 \<Rightarrow> AliasTransactionBuffer" where
  "AliasTransactionBuffer_Init buf i = table_Init buf i"

definition AliasTransactionBuffer_Table :: "AliasTransactionBuffer \<Rightarrow> Table" where
  "AliasTransactionBuffer_Table rcv = rcv"

definition AliasTransactionBuffer_Size :: "fb_table \<Rightarrow> AliasTransactionBuffer \<Rightarrow> u32 result" where [table_defs]:
  "AliasTransactionBuffer_Size T = slot_uint32 T 4"

definition AliasTransactionBuffer_MutateSize :: "fb_table \<Rightarrow> AliasTransactionBuffer \<Rightarrow> u32 \<Rightarrow> (bool \<times> AliasTransactionBuffer) result" where [table_defs]:
  "AliasTransactionBuffer_MutateSize T = (\<lambda>rcv. ft_MutateUint32Slot T rcv 4)"

definition AliasTransactionBuffer_Signature :: "fb_table \<Rightarrow> AliasTransactionBuffer \<Rightarrow> int \<Rightarrow> byte result" where [table_defs]:
  "AliasTransactionBuffer_Signature T = elem_byte T 6"

definition AliasTransactionBuffer_SignatureLength :: "fb_table \<Rightarrow> AliasTransactionBuffer \<Rightarrow> int result" where [table_defs]:
  "AliasTransactionBuffer_SignatureLength T = slot_len T 6"

definition AliasTransactionBuffer_SignatureBytes :: "fb_table \<Rightarrow> AliasTransactionBuffer \<Rightarrow> byte list result" where [table_defs]:
  "AliasTransactionBuffer_SignatureBytes T = slot_bytes T 6"

definition AliasTransactionBuffer_MutateSignature :: "fb_table \<Rightarrow> AliasTransactionBuffer \<Rightarrow> int \<Rightarrow> byte \<Rightarrow> (bool \<times> AliasTransactionBuffer) result" where [table_defs]:
  "AliasTransactionBuffer_MutateSignature T = set_elem_byte T 6"

definition AliasTransactionBuffer_Signer :: "fb_table \<Rightarrow> AliasTransactionBuffer \<Rightarrow> int \<Rightarrow> byte result" where [table_defs]:
  "AliasTransactionBuffer_Signer T = elem_byte T 8"

definition AliasTransactionBuffer_SignerLength :: "fb_table \<Rightarrow> AliasTransactionBuffer \<Rightarrow> int result" where [table_defs]:
  "AliasTransactionBuffer_SignerLength T = slot_len T 8"

definition AliasTransactionBuffer_SignerBytes :: "fb_table \<Rightarrow> AliasTransactionBuffer \<Rightarrow> byte list result" where [table_defs]:
  "AliasTransactionBuffer_SignerBytes T = slot_bytes T 8"

definition AliasTransactionBuffer_MutateSigner :: "fb_table \<Rightarrow> AliasTransactionBuffer \<Rightarrow> int \<Rightarrow> byte \<Rightarrow> (bool \<times> AliasTransactionBuffer) result" where [table_defs]:
  "AliasTransactionBuffer_MutateSigner T = set_elem_byte T 8"

definition AliasTransactionBuffer_Version :: "fb_table \<Rightarrow> AliasTransactionBuffer \<Rightarrow> u32 result" where [table_defs]:
  "AliasTransactionBuffer_Version T = slot_uint32 T 10"

definition AliasTransactionBuffer_MutateVersion :: "fb_table \<Rightarrow> AliasTransactionBuffer \<Rightarrow> u32 \<Rightarrow> (bool \<times> AliasTransactionBuffer) result" where [table_defs]:
  "AliasTransactionBuffer_MutateVersion T = (\<lambda>rcv. ft_MutateUint32Slot T rcv 10)"

definition AliasTransactionBuffer_Type :: "fb_table \<Rightarrow> AliasTransactionBuffer \<Rightarrow> u16 result" where [table_defs]:
  "AliasTransactionBuffer_Type T = slot_uint16 T 12"

definition AliasTransactionBuffer_MutateType :: "fb_table \<Rightarrow> AliasTransactionBuffer \<Rightarrow> u16 \<Rightarrow> (bool \<times> AliasTransactionBuffer) result" where [table_defs]:
  "AliasTransactionBuffer_MutateType T = (\<lambda>rcv. ft_MutateUint16Slot T rcv 12)"

definition AliasTransactionBuffer_MaxFee :: "fb_table \<Rightarrow> AliasTransactionBuffer \<Rightarrow> int \<Rightarrow> u32 result" where [table_defs]:
  "AliasTransactionBuffer_MaxFee T = elem_uint32 T 14"

definition AliasTransactionBuffer_MaxFeeLength :: "fb_table \<Rightarrow> AliasTransactionBuffer \<Rightarrow> int result" where [table_defs]:
  "AliasTransactionBuffer_MaxFeeLength T = slot_len T 14"

definition AliasTransactionBuffer_MutateMaxFee :: "fb_table \<Rightarrow> AliasTransactionBuffer \<Rightarrow> int \<Rightarrow> u32 \<Rightarrow> (bool \<times> AliasTransactionBuffer) result" where [table_defs]:
  "AliasTransactionBuffer_MutateMaxFee T = set_elem_uint32 T 14"

definition AliasTransactionBuffer_Deadline :: "fb_table \<Rightarrow> AliasTransactionBuffer \<Rightarrow> int \<Rightarrow> u32 result" where [table_defs]:
  "AliasTransactionBuffer_Deadline T = elem_uint32 T 16"

definition AliasTransactionBuffer_DeadlineLength :: "fb_table \<Rightarrow> AliasTransactionBuffer \<Rightarrow> int result" where [table_defs]:
  "AliasTransactionBuffer_DeadlineLength T = slot_len T 16"

definition AliasTransactionBuffer_MutateDeadline :: "fb_table \<Rightarrow> AliasTransactionBuffer \<Rightarrow> int \<Rightarrow> u32 \<Rightarrow> (bool \<times> AliasTransactionBuffer) result" where [table_defs]:
  "AliasTransactionBuffer_MutateDeadline T = set_elem_uint32 T 16"

definition AliasTransactionBuffer_ActionType :: "fb_table \<Rightarrow> AliasTransactionBuffer \<Rightarrow> byte result" where [table_defs]:
  "AliasTransactionBuffer_ActionType T = slot_byte T 18"

definition AliasTransactionBuffer_MutateActionType :: "fb_table \<Rightarrow> AliasTransactionBuffer \<Rightarrow> byte \<Rightarrow> (bool \<times> AliasTransactionBuffer) result" where [table_defs]:
  "AliasTransactionBuffer_MutateActionType T = (\<lambda>rcv. ft_MutateByteSlot T rcv 18)"

definition AliasTransactionBuffer_NamespaceId :: "fb_table \<Rightarrow> AliasTransactionBuffer \<Rightarrow> int \<Rightarrow> u32 result" where [table_defs]:
  "AliasTransactionBuffer_NamespaceId T = elem_uint32 T 20"

definition AliasTransactionBuffer_NamespaceIdLength :: "fb_table \<Rightarrow> AliasTransactionBuffer \<Rightarrow> int result" where [table_defs]:
  "AliasTransactionBuffer_NamespaceIdLength T = slot_len T 20"

definition AliasTransactionBuffer_MutateNamespaceId :: "fb_table \<Rightarrow> AliasTransactionBuffer \<Rightarrow> int \<Rightarrow> u32 \<Rightarrow> (bool \<times> AliasTransactionBuffer) result" where [table_defs]:
  "AliasTransactionBuffer_MutateNamespaceId T = set_elem_uint32 T 20"

definition AliasTransactionBuffer_AliasId :: "fb_table \<Rightarrow> AliasTransactionBuffer \<Rightarrow> int \<Rightarrow> byte result" where [table_defs]:
  "AliasTransactionBuffer_AliasId T = elem_byte T 22"

definition AliasTransactionBuffer_AliasIdLength :: "fb_table \<Rightarrow> AliasTransactionBuffer \<Rightarrow> int result" where [table_defs]:
  "AliasTransactionBuffer_AliasIdLength T = slot_len T 22"

definition AliasTransactionBuffer_AliasIdBytes :: "fb_table \<Rightarrow> AliasTransactionBuffer \<Rightarrow> byte list result" where [table_defs]:
  "AliasTransactionBuffer_AliasIdBytes T = slot_bytes T 22"

definition AliasTransactionBuffer_MutateAliasId :: "fb_table \<Rightarrow> AliasTransactionBuffer \<Rightarrow> int \<Rightarrow> byte \<Rightarrow> (bool \<times> AliasTransactionBuffer) result" where [table_defs]:
  "AliasTransactionBuffer_MutateAliasId T = set_elem_byte T 22"

definition AliasTransactionBuffer_columns :: "fb_table \<Rightarrow> column list" where [column_defs]:
  "AliasTransactionBuffer_columns T =
    [ColUint32 (AliasTransactionBuffer_Size T) (AliasTransactionBuffer_MutateSize T),
     ColBytes (AliasTransactionBuffer_SignatureBytes T) (AliasTransactionBuffer_SignatureLength T) (AliasTransactionBuffer_Signature T)
       (AliasTransactionBuffer_MutateSignature T),
     ColBytes (AliasTransactionBuffer_SignerBytes T) (AliasTransactionBuffer_SignerLength T) (AliasTransactionBuffer_Signer T)
       (AliasTransactionBuffer_MutateSigner T),
     ColUint32 (AliasTransactionBuffer_Version T) (AliasTransactionBuffer_MutateVersion T),
     ColUint16 (AliasTransactionBuffer_Type T) (AliasTransactionBuffer_MutateType T),
     ColWords (AliasTransactionBuffer_MaxFeeLength T) (AliasTransactionBuffer_MaxFee T)
       (AliasTransactionBuffer_MutateMaxFee T),
     ColWords (AliasTransactionBuffer_DeadlineLength T) (AliasTransactionBuffer_Deadline T)
       (AliasTransactionBuffer_MutateDeadline T),
     ColByte (AliasTransactionBuffer_ActionType T) (AliasTransactionBuffer_MutateActionType T),
     ColWords (AliasTransactionBuffer_NamespaceIdLength T) (AliasTransactionBuffer_NamespaceId T)
       (AliasTransactionBuffer_MutateNamespaceId T),
     ColBytes (AliasTransactionBuffer_AliasIdBytes T) (AliasTransactionBuffer_AliasIdLength T) (AliasTransactionBuffer_AliasId T)
       (AliasTransactionBuffer_MutateAliasId T)]"

definition AliasTransactionBufferAddSize :: "'b fb_api \<Rightarrow> u32 \<Rightarrow> ('b, unit) fb_prog" where [fb_defs]:
  "AliasTransactionBufferAddSize F sz = fb_do (fb_PrependUint32Slot F 0 sz 0)"

definition AliasTransactionBufferAddSignature :: "'b fb_api \<Rightarrow> u32 \<Rightarrow> ('b, unit) fb_prog" where [fb_defs]:
  "AliasTransactionBufferAddSignature F signature = fb_do (fb_PrependUOffsetTSlot F 1 signature 0)"

definition AliasTransactionBufferStartSignatureVector :: "'b fb_api \<Rightarrow> nat \<Rightarrow> ('b, unit) fb_prog" where [fb_defs]:
  "AliasTransactionBufferStartSignatureVector F numElems = fb_do (fb_StartVector F 1 numElems 1)"

definition AliasTransactionBufferAddSigner :: "'b fb_api \<Rightarrow> u32 \<Rightarrow> ('b, unit) fb_prog" where [fb_defs]:
  "AliasTransactionBufferAddSigner F signer = fb_do (fb_PrependUOffsetTSlot F 2 signer 0)"

definition AliasTransactionBufferStartSignerVector :: "'b fb_api \<Rightarrow> nat \<Rightarrow> ('b, unit) fb_prog" where [fb_defs]:
  "AliasTransactionBufferStartSignerVector F numElems = fb_do (fb_StartVector F 1 numElems 1)"

definition AliasTransactionBufferAddVersion :: "'b fb_api \<Rightarrow> u32 \<Rightarrow> ('b, unit) fb_prog" where [fb_defs]:
  "AliasTransactionBufferAddVersion F version = fb_do (fb_PrependUint32Slot F 3 version 0)"

definition AliasTransactionBufferAddType :: "'b fb_api \<Rightarrow> u16 \<Rightarrow> ('b, unit) fb_prog" where [fb_defs]:
  "AliasTransactionBufferAddType F type_V = fb_do (fb_PrependUint16Slot F 4 type_V 0)"

definition AliasTransactionBufferAddMaxFee :: "'b fb_api \<Rightarrow> u32 \<Rightarrow> ('b, unit) fb_prog" where [fb_defs]:
  "AliasTransactionBufferAddMaxFee F maxFee = fb_do (fb_PrependUOffsetTSlot F 5 maxFee 0)"

definition AliasTransactionBufferStartMaxFeeVector :: "'b fb_api \<Rightarrow> nat \<Rightarrow> ('b, unit) fb_prog" where [fb_defs]:
  "AliasTransactionBufferStartMaxFeeVector F numElems = fb_do (fb_StartVector F 4 numElems 4)"

definition AliasTransactionBufferAddDeadline :: "'b fb_api \<Rightarrow> u32 \<Rightarrow> ('b, unit) fb_prog" where [fb_defs]:
  "AliasTransactionBufferAddDeadline F deadline = fb_do (fb_PrependUOffsetTSlot F 6 deadline 0)"

definition AliasTransactionBufferStartDeadlineVector :: "'b fb_api \<Rightarrow> nat \<Rightarrow> ('b, unit) fb_prog" where [fb_defs]:
  "AliasTransactionBufferStartDeadlineVector F numElems = fb_do (fb_StartVector F 4 numElems 4)"

definition AliasTransactionBufferStartNamespaceIdVector :: "'b fb_api \<Rightarrow> nat \<Rightarrow> ('b, unit) fb_prog" where [fb_defs]:
  "AliasTransactionBufferStartNamespaceIdVector F numElems = fb_do (fb_StartVector F 4 numElems 4)"

definition AliasTransactionBufferStartAliasIdVector :: "'b fb_api \<Rightarrow> nat \<Rightarrow> ('b, unit) fb_prog" where [fb_defs]:
  "AliasTransactionBufferStartAliasIdVector F numElems = fb_do (fb_StartVector F 1 numElems 1)"

definition AliasTransactionBufferEnd :: "'b fb_api \<Rightarrow> ('b, u32) fb_prog" where [fb_defs]:
  "AliasTransactionBufferEnd F = fb_call (fb_EndObject F)"

section \<open>\<open>transactions/modify_multisig_account_transaction_buffer.go\<close>\<close>

type_synonym ModifyMultisigAccountTransactionBuffer = Table

definition GetRootAsModifyMultisigAccountTransactionBuffer :: "fb_table \<Rightarrow> byte list \<Rightarrow> u32 \<Rightarrow> ModifyMultisigAccountTransactionBuffer result" where [table_defs]:
  "GetRootAsModifyMultisigAccountTransactionBuffer T buf offset = table_root T buf offset"

definition ModifyMultisigAccountTransactionBuffer_Init :: "byte list \<Rightarrow> u32 \<Rightarrow> ModifyMultisigAccountTransactionBuffer" where
  "ModifyMultisigAccountTransactionBuffer_Init buf i = table_Init buf i"

definition ModifyMultisigAccountTransactionBuffer_Table :: "ModifyMultisigAccountTransactionBuffer \<Rightarrow> Table" where
  "ModifyMultisigAccountTransactionBuffer_Table rcv = rcv"

definition ModifyMultisigAccountTransactionBuffer_Size :: "fb_table \<Rightarrow> ModifyMultisigAccountTransactionBuffer \<Rightarrow> u32 result" where [table_defs]:
  "ModifyMultisigAccountTransactionBuffer_Size T = slot_uint32 T 4"

definition ModifyMultisigAccountTransactionBuffer_MutateSize :: "fb_table \<Rightarrow> ModifyMultisigAccountTransactionBuffer \<Rightarrow> u32 \<Rightarrow> (bool \<times> ModifyMultisigAccountTransactionBuffer) result" where [table_defs]:
  "ModifyMultisigAccountTransactionBuffer_MutateSize T = (\<lambda>rcv. ft_MutateUint32Slot T rcv 4)"

definition ModifyMultisigAccountTransactionBuffer_Signature :: "fb_table \<Rightarrow> ModifyMultisigAccountTransactionBuffer \<Rightarrow> int \<Rightarrow> byte result" where [table_defs]:
  "ModifyMultisigAccountTransactionBuffer_Signature T = elem_byte T 6"

definition ModifyMultisigAccountTransactionBuffer_SignatureLength :: "fb_table \<Rightarrow> ModifyMultisigAccountTransactionBuffer \<Rightarrow> int result" where [table_defs]:
  "ModifyMultisigAccountTransactionBuffer_SignatureLength T = slot_len T 6"

definition ModifyMultisigAccountTransactionBuffer_SignatureBytes :: "fb_table \<Rightarrow> ModifyMultisigAccountTransactionBuffer \<Rightarrow> byte list result" where [table_defs]:
  "ModifyMultisigAccountTransactionBuffer_SignatureBytes T = slot_bytes T 6"

definition ModifyMultisigAccountTransactionBuffer_MutateSignature :: "fb_table \<Rightarrow> ModifyMultisigAccountTransactionBuffer \<Rightarrow> int \<Rightarrow> byte \<Rightarrow> (bool \<times> ModifyMultisigAccountTransactionBuffer) result" where [table_defs]:
  "ModifyMultisigAccountTransactionBuffer_MutateSignature T = set_elem_byte T 6"

definition ModifyMultisigAccountTransactionBuffer_Signer :: "fb_table \<Rightarrow> ModifyMultisigAccountTransactionBuffer \<Rightarrow> int \<Rightarrow> byte result" where [table_defs]:
  "ModifyMultisigAccountTransactionBuffer_Signer T = elem_byte T 8"

definition ModifyMultisigAccountTransactionBuffer_SignerLength :: "fb_table \<Rightarrow> ModifyMultisigAccountTransactionBuffer \<Rightarrow> int result" where [table_defs]:
  "ModifyMultisigAccountTransactionBuffer_SignerLength T = slot_len T 8"

definition ModifyMultisigAccountTransactionBuffer_SignerBytes :: "fb_table \<Rightarrow> ModifyMultisigAccountTransactionBuffer \<Rightarrow> byte list result" where [table_defs]:
  "ModifyMultisigAccountTransactionBuffer_SignerBytes T = slot_bytes T 8"

definition ModifyMultisigAccountTransactionBuffer_MutateSigner :: "fb_table \<Rightarrow> ModifyMultisigAccountTransactionBuffer \<Rightarrow> int \<Rightarrow> byte \<Rightarrow> (bool \<times> ModifyMultisigAccountTransactionBuffer) result" where [table_defs]:
  "ModifyMultisigAccountTransactionBuffer_MutateSigner T = set_elem_byte T 8"

definition ModifyMultisigAccountTransactionBuffer_Version :: "fb_table \<Rightarrow> ModifyMultisigAccountTransactionBuffer \<Rightarrow> u32 result" where [table_defs]:
  "ModifyMultisigAccountTransactionBuffer_Version T = slot_uint32 T 10"

definition ModifyMultisigAccountTransactionBuffer_MutateVersion :: "fb_table \<Rightarrow> ModifyMultisigAccountTransactionBuffer \<Rightarrow> u32 \<Rightarrow> (bool \<times> ModifyMultisigAccountTransactionBuffer) result" where [table_defs]:
  "ModifyMultisigAccountTransactionBuffer_MutateVersion T = (\<lambda>rcv. ft_MutateUint32Slot T rcv 10)"

definition ModifyMultisigAccountTransactionBuffer_Type :: "fb_table \<Rightarrow> ModifyMultisigAccountTransactionBuffer \<Rightarrow> u16 result" where [table_defs]:
  "ModifyMultisigAccountTransactionBuffer_Type T = slot_uint16 T 12"

definition ModifyMultisigAccountTransactionBuffer_MutateType :: "fb_table \<Rightarrow> ModifyMultisigAccountTransactionBuffer \<Rightarrow> u16 \<Rightarrow> (bool \<times> ModifyMultisigAccountTransactionBuffer) result" where [table_defs]:
  "ModifyMultisigAccountTransactionBuffer_MutateType T = (\<lambda>rcv. ft_MutateUint16Slot T rcv 12)"

definition ModifyMultisigAccountTransactionBuffer_MaxFee :: "fb_table \<Rightarrow> ModifyMultisigAccountTransactionBuffer \<Rightarrow> int \<Rightarrow> u32 result" where [table_defs]:
  "ModifyMultisigAccountTransactionBuffer_MaxFee T = elem_uint32 T 14"

definition ModifyMultisigAccountTransactionBuffer_MaxFeeLength :: "fb_table \<Rightarrow> ModifyMultisigAccountTransactionBuffer \<Rightarrow> int result" where [table_defs]:
  "ModifyMultisigAccountTransactionBuffer_MaxFeeLength T = slot_len T 14"

definition ModifyMultisigAccountTransactionBuffer_MutateMaxFee :: "fb_table \<Rightarrow> ModifyMultisigAccountTransactionBuffer \<Rightarrow> int \<Rightarrow> u32 \<Rightarrow> (bool \<times> ModifyMultisigAccountTransactionBuffer) result" where [table_defs]:
  "ModifyMultisigAccountTransactionBuffer_MutateMaxFee T = set_elem_uint32 T 14"

definition ModifyMultisigAccountTransactionBuffer_Deadline :: "fb_table \<Rightarrow> ModifyMultisigAccountTransactionBuffer \<Rightarrow> int \<Rightarrow> u32 result" where [table_defs]:
  "ModifyMultisigAccountTransactionBuffer_Deadline T = elem_uint32 T 16"

definition ModifyMultisigAccountTransactionBuffer_DeadlineLength :: "fb_table \<Rightarrow> ModifyMultisigAccountTransactionBuffer \<Rightarrow> int result" where [table_defs]:
  "ModifyMultisigAccountTransactionBuffer_DeadlineLength T = slot_len T 16"

definition ModifyMultisigAccountTransactionBuffer_MutateDeadline :: "fb_table \<Rightarrow> ModifyMultisigAccountTransactionBuffer \<Rightarrow> int \<Rightarrow> u32 \<Rightarrow> (bool \<times> ModifyMultisigAccountTransactionBuffer) result" where [table_defs]:
  "ModifyMultisigAccountTransactionBuffer_MutateDeadline T = set_elem_uint32 T 16"

definition ModifyMultisigAccountTransactionBuffer_MinRemovalDelta :: "fb_table \<Rightarrow> ModifyMultisigAccountTransactionBuffer \<Rightarrow> 8 word result" where [table_defs]:
  "ModifyMultisigAccountTransactionBuffer_MinRemovalDelta T = slot_int8 T 18"

definition ModifyMultisigAccountTransactionBuffer_MutateMinRemovalDelta :: "fb_table \<Rightarrow> ModifyMultisigAccountTransactionBuffer \<Rightarrow> 8 word \<Rightarrow> (bool \<times> ModifyMultisigAccountTransactionBuffer) result" where [table_defs]:
  "ModifyMultisigAccountTransactionBuffer_MutateMinRemovalDelta T = (\<lambda>rcv. ft_MutateInt8Slot T rcv 18)"

definition ModifyMultisigAccountTransactionBuffer_MinApprovalDelta :: "fb_table \<Rightarrow> ModifyMultisigAccountTransactionBuffer \<Rightarrow> 8 word result" where [table_defs]:
  "ModifyMultisigAccountTransactionBuffer_MinApprovalDelta T = slot_int8 T 20"

definition ModifyMultisigAccountTransactionBuffer_MutateMinApprovalDelta :: "fb_table \<Rightarrow> ModifyMultisigAccountTransactionBuffer \<Rightarrow> 8 word \<Rightarrow> (bool \<times> ModifyMultisigAccountTransactionBuffer) result" where [table_defs]:
  "ModifyMultisigAccountTransactionBuffer_MutateMinApprovalDelta T = (\<lambda>rcv. ft_MutateInt8Slot T rcv 20)"

definition ModifyMultisigAccountTransactionBuffer_NumModifications :: "fb_table \<Rightarrow> ModifyMultisigAccountTransactionBuffer \<Rightarrow> byte result" where [table_defs]:
  "ModifyMultisigAccountTransactionBuffer_NumModifications T = slot_byte T 22"

definition ModifyMultisigAccountTransactionBuffer_MutateNumModifications :: "fb_table \<Rightarrow> ModifyMultisigAccountTransactionBuffer \<Rightarrow> byte \<Rightarrow> (bool \<times> ModifyMultisigAccountTransactionBuffer) result" where [table_defs]:
  "ModifyMultisigAccountTransactionBuffer_MutateNumModifications T = (\<lambda>rcv. ft_MutateByteSlot T rcv 22)"

definition ModifyMultisigAccountTransactionBuffer_Modifications :: "fb_table \<Rightarrow> ModifyMultisigAccountTransactionBuffer \<Rightarrow> CosignatoryModificationBuffer \<Rightarrow> int \<Rightarrow> (bool \<times> CosignatoryModificationBuffer) result" where [table_defs]:
  "ModifyMultisigAccountTransactionBuffer_Modifications T = elem_table T 24"

definition ModifyMultisigAccountTransactionBuffer_ModificationsLength :: "fb_table \<Rightarrow> ModifyMultisigAccountTransactionBuffer \<Rightarrow> int result" where [table_defs]:
  "ModifyMultisigAccountTransactionBuffer_ModificationsLength T = slot_len T 24"

definition ModifyMultisigAccountTransactionBuffer_columns :: "fb_table \<Rightarrow> column list" where [column_defs]:
  "ModifyMultisigAccountTransactionBuffer_columns T =
    [ColUint32 (ModifyMultisigAccountTransactionBuffer_Size T) (ModifyMultisigAccountTransactionBuffer_MutateSize T),
     ColBytes (ModifyMultisigAccountTransactionBuffer_SignatureBytes T) (ModifyMultisigAccountTransactionBuffer_SignatureLength T) (ModifyMultisigAccountTransactionBuffer_Signature T)
       (ModifyMultisigAccountTransactionBuffer_MutateSignature T),
     ColBytes (ModifyMultisigAccountTransactionBuffer_SignerBytes T) (ModifyMultisigAccountTransactionBuffer_SignerLength T) (ModifyMultisigAccountTransactionBuffer_Signer T)
       (ModifyMultisigAccountTransactionBuffer_MutateSigner T),
     ColUint32 (ModifyMultisigAccountTransactionBuffer_Version T) (ModifyMultisigAccountTransactionBuffer_MutateVersion T),
     ColUint16 (ModifyMultisigAccountTransactionBuffer_Type T) (ModifyMultisigAccountTransactionBuffer_MutateType T),
     ColWords (ModifyMultisigAccountTransactionBuffer_MaxFeeLength T) (ModifyMultisigAccountTransactionBuffer_MaxFee T)
       (ModifyMultisigAccountTransactionBuffer_MutateMaxFee T),
     ColWords (ModifyMultisigAccountTransactionBuffer_DeadlineLength T) (ModifyMultisigAccountTransactionBuffer_Deadline T)
       (ModifyMultisigAccountTransactionBuffer_MutateDeadline T),
     ColInt8 (ModifyMultisigAccountTransactionBuffer_MinRemovalDelta T) (ModifyMultisigAccountTransactionBuffer_MutateMinRemovalDelta T),
     ColInt8 (ModifyMultisigAccountTransactionBuffer_MinApprovalDelta T) (ModifyMultisigAccountTransactionBuffer_MutateMinApprovalDelta T),
     ColByte (ModifyMultisigAccountTransactionBuffer_NumModifications T) (ModifyMultisigAccountTransactionBuffer_MutateNumModifications T),
     ColTables (ModifyMultisigAccountTransactionBuffer_ModificationsLength T) (ModifyMultisigAccountTransactionBuffer_Modifications T)
       (CosignatoryModificationBuffer_columns T)]"

definition ModifyMultisigAccountTransactionBufferAddSize :: "'b fb_api \<Rightarrow> u32 \<Rightarrow> ('b, unit) fb_prog" where [fb_defs]:
  "ModifyMultisigAccountTransactionBufferAddSize F sz = fb_do (fb_PrependUint32Slot F 0 sz 0)"

definition ModifyMultisigAccountTransactionBufferAddSignature :: "'b fb_api \<Rightarrow> u32 \<Rightarrow> ('b, unit) fb_prog" where [fb_defs]:
  "ModifyMultisigAccountTransactionBufferAddSignature F signature = fb_do (fb_PrependUOffsetTSlot F 1 signature 0)"

definition ModifyMultisigAccountTransactionBufferStartSignatureVector :: "'b fb_api \<Rightarrow> nat \<Rightarrow> ('b, unit) fb_prog" where [fb_defs]:
  "ModifyMultisigAccountTransactionBufferStartSignatureVector F numElems = fb_do (fb_StartVector F 1 numElems 1)"

definition ModifyMultisigAccountTransactionBufferAddSigner :: "'b fb_api \<Rightarrow> u32 \<Rightarrow> ('b, unit) fb_prog" where [fb_defs]:
  "ModifyMultisigAccountTransactionBufferAddSigner F signer = fb_do (fb_PrependUOffsetTSlot F 2 signer 0)"

definition ModifyMultisigAccountTransactionBufferStartSignerVector :: "'b fb_api \<Rightarrow> nat \<Rightarrow> ('b, unit) fb_prog" where [fb_defs]:
  "ModifyMultisigAccountTransactionBufferStartSignerVector F numElems = fb_do (fb_StartVector F 1 numElems 1)"

definition ModifyMultisigAccountTransactionBufferAddVersion :: "'b fb_api \<Rightarrow> u32 \<Rightarrow> ('b, unit) fb_prog" where [fb_defs]:
  "ModifyMultisigAccountTransactionBufferAddVersion F version = fb_do (fb_PrependUint32Slot F 3 version 0)"

definition ModifyMultisigAccountTransactionBufferAddType :: "'b fb_api \<Rightarrow> u16 \<Rightarrow> ('b, unit) fb_prog" where [fb_defs]:
  "ModifyMultisigAccountTransactionBufferAddType F type_V = fb_do (fb_PrependUint16Slot F 4 type_V 0)"

definition ModifyMultisigAccountTransactionBufferAddMaxFee :: "'b fb_api \<Rightarrow> u32 \<Rightarrow> ('b, unit) fb_prog" where [fb_defs]:
  "ModifyMultisigAccountTransactionBufferAddMaxFee F maxFee = fb_do (fb_PrependUOffsetTSlot F 5 maxFee 0)"

definition ModifyMultisigAccountTransactionBufferStartMaxFeeVector :: "'b fb_api \<Rightarrow> nat \<Rightarrow> ('b, unit) fb_prog" where [fb_defs]:
  "ModifyMultisigAccountTransactionBufferStartMaxFeeVector F numElems = fb_do (fb_StartVector F 4 numElems 4)"

definition ModifyMultisigAccountTransactionBufferAddDeadline :: "'b fb_api \<Rightarrow> u32 \<Rightarrow> ('b, unit) fb_prog" where [fb_defs]:
  "ModifyMultisigAccountTransactionBufferAddDeadline F deadline = fb_do (fb_PrependUOffsetTSlot F 6 deadline 0)"

definition ModifyMultisigAccountTransactionBufferStartDeadlineVector :: "'b fb_api \<Rightarrow> nat \<Rightarrow> ('b, unit) fb_prog" where [fb_defs]:
  "ModifyMultisigAccountTransactionBufferStartDeadlineVector F numElems = fb_do (fb_StartVector F 4 numElems 4)"

definition ModifyMultisigAccountTransactionBufferStartModificationsVector :: "'b fb_api \<Rightarrow> nat \<Rightarrow> ('b, unit) fb_prog" where [fb_defs]:
  "ModifyMultisigAccountTransactionBufferStartModificationsVector F numElems = fb_do (fb_StartVector F 4 numElems 4)"

definition ModifyMultisigAccountTransactionBufferEnd :: "'b fb_api \<Rightarrow> ('b, u32) fb_prog" where [fb_defs]:
  "ModifyMultisigAccountTransactionBufferEnd F = fb_call (fb_EndObject F)"

section \<open>\<open>transactions/modify_contract_transaction_buffer.go\<close>\<close>

type_synonym ModifyContractTransactionBuffer = Table

definition GetRootAsModifyContractTransactionBuffer :: "fb_table \<Rightarrow> byte list \<Rightarrow> u32 \<Rightarrow> ModifyContractTransactionBuffer result" where [table_defs]:
  "GetRootAsModifyContractTransactionBuffer T buf offset = table_root T buf offset"

definition ModifyContractTransactionBuffer_Init :: "byte list \<Rightarrow> u32 \<Rightarrow> ModifyContractTransactionBuffer" where
  "ModifyContractTransactionBuffer_Init buf i = table_Init buf i"

definition ModifyContractTransactionBuffer_Table :: "ModifyContractTransactionBuffer \<Rightarrow> Table" where
  "ModifyContractTransactionBuffer_Table rcv = rcv"

definition ModifyContractTransactionBuffer_Size :: "fb_table \<Rightarrow> ModifyContractTransactionBuffer \<Rightarrow> u32 result" where [table_defs]:
  "ModifyContractTransactionBuffer_Size T = slot_uint32 T 4"

definition ModifyContractTransactionBuffer_MutateSize :: "fb_table \<Rightarrow> ModifyContractTransactionBuffer \<Rightarrow> u32 \<Rightarrow> (bool \<times> ModifyContractTransactionBuffer) result" where [table_defs]:
  "ModifyContractTransactionBuffer_MutateSize T = (\<lambda>rcv. ft_MutateUint32Slot T rcv 4)"

definition ModifyContractTransactionBuffer_Signature :: "fb_table \<Rightarrow> ModifyContractTransactionBuffer \<Rightarrow> int \<Rightarrow> byte result" where [table_defs]:
  "ModifyContractTransactionBuffer_Signature T = elem_byte T 6"

definition ModifyContractTransactionBuffer_SignatureLength :: "fb_table \<Rightarrow> ModifyContractTransactionBuffer \<Rightarrow> int result" where [table_defs]:
  "ModifyContractTransactionBuffer_SignatureLength T = slot_len T 6"

definition ModifyContractTransactionBuffer_SignatureBytes :: "fb_table \<Rightarrow> ModifyContractTransactionBuffer \<Rightarrow> byte list result" where [table_defs]:
  "ModifyContractTransactionBuffer_SignatureBytes T = slot_bytes T 6"

definition ModifyContractTransactionBuffer_MutateSignature :: "fb_table \<Rightarrow> ModifyContractTransactionBuffer \<Rightarrow> int \<Rightarrow> byte \<Rightarrow> (bool \<times> ModifyContractTransactionBuffer) result" where [table_defs]:
  "ModifyContractTransactionBuffer_MutateSignature T = set_elem_byte T 6"

definition ModifyContractTransactionBuffer_Signer :: "fb_table \<Rightarrow> ModifyContractTransactionBuffer \<Rightarrow> int \<Rightarrow> byte result" where [table_defs]:
  "ModifyContractTransactionBuffer_Signer T = elem_byte T 8"

definition ModifyContractTransactionBuffer_SignerLength :: "fb_table \<Rightarrow> ModifyContractTransactionBuffer \<Rightarrow> int result" where [table_defs]:
  "ModifyContractTransactionBuffer_SignerLength T = slot_len T 8"

definition ModifyContractTransactionBuffer_SignerBytes :: "fb_table \<Rightarrow> ModifyContractTransactionBuffer \<Rightarrow> byte list result" where [table_defs]:
  "ModifyContractTransactionBuffer_SignerBytes T = slot_bytes T 8"

definition ModifyContractTransactionBuffer_MutateSigner :: "fb_table \<Rightarrow> ModifyContractTransactionBuffer \<Rightarrow> int \<Rightarrow> byte \<Rightarrow> (bool \<times> ModifyContractTransactionBuffer) result" where [table_defs]:
  "ModifyContractTransactionBuffer_MutateSigner T = set_elem_byte T 8"

definition ModifyContractTransactionBuffer_Version :: "fb_table \<Rightarrow> ModifyContractTransactionBuffer \<Rightarrow> u32 result" where [table_defs]:
  "ModifyContractTransactionBuffer_Version T = slot_uint32 T 10"

definition ModifyContractTransactionBuffer_MutateVersion :: "fb_table \<Rightarrow> ModifyContractTransactionBuffer \<Rightarrow> u32 \<Rightarrow> (bool \<times> ModifyContractTransactionBuffer) result" where [table_defs]:
  "ModifyContractTransactionBuffer_MutateVersion T = (\<lambda>rcv. ft_MutateUint32Slot T rcv 10)"

definition ModifyContractTransactionBuffer_Type :: "fb_table \<Rightarrow> ModifyContractTransactionBuffer \<Rightarrow> u16 result" where [table_defs]:
  "ModifyContractTransactionBuffer_Type T = slot_uint16 T 12"

definition ModifyContractTransactionBuffer_MutateType :: "fb_table \<Rightarrow> ModifyContractTransactionBuffer \<Rightarrow> u16 \<Rightarrow> (bool \<times> ModifyContractTransactionBuffer) result" where [table_defs]:
  "ModifyContractTransactionBuffer_MutateType T = (\<lambda>rcv. ft_MutateUint16Slot T rcv 12)"

definition ModifyContractTransactionBuffer_MaxFee :: "fb_table \<Rightarrow> ModifyContractTransactionBuffer \<Rightarrow> int \<Rightarrow> u32 result" where [table_defs]:
  "ModifyContractTransactionBuffer_MaxFee T = elem_uint32 T 14"

definition ModifyContractTransactionBuffer_MaxFeeLength :: "fb_table \<Rightarrow> ModifyContractTransactionBuffer \<Rightarrow> int result" where [table_defs]:
  "ModifyContractTransactionBuffer_MaxFeeLength T = slot_len T 14"

definition ModifyContractTransactionBuffer_MutateMaxFee :: "fb_table \<Rightarrow> ModifyContractTransactionBuffer \<Rightarrow> int \<Rightarrow> u32 \<Rightarrow> (bool \<times> ModifyContractTransactionBuffer) result" where [table_defs]:
  "ModifyContractTransactionBuffer_MutateMaxFee T = set_elem_uint32 T 14"

definition ModifyContractTransactionBuffer_Deadline :: "fb_table \<Rightarrow> ModifyContractTransactionBuffer \<Rightarrow> int \<Rightarrow> u32 result" where [table_defs]:
  "ModifyContractTransactionBuffer_Deadline T = elem_uint32 T 16"

definition ModifyContractTransactionBuffer_DeadlineLength :: "fb_table \<Rightarrow> ModifyContractTransactionBuffer \<Rightarrow> int result" where [table_defs]:
  "ModifyContractTransactionBuffer_DeadlineLength T = slot_len T 16"

definition ModifyContractTransactionBuffer_MutateDeadline :: "fb_table \<Rightarrow> ModifyContractTransactionBuffer \<Rightarrow> int \<Rightarrow> u32 \<Rightarrow> (bool \<times> ModifyContractTransactionBuffer) result" where [table_defs]:
  "ModifyContractTransactionBuffer_MutateDeadline T = set_elem_uint32 T 16"

definition ModifyContractTransactionBuffer_DurationDelta :: "fb_table \<Rightarrow> ModifyContractTransactionBuffer \<Rightarrow> int \<Rightarrow> u32 result" where [table_defs]:
  "ModifyContractTransactionBuffer_DurationDelta T = elem_uint32 T 18"

definition ModifyContractTransactionBuffer_DurationDeltaLength :: "fb_table \<Rightarrow> ModifyContractTransactionBuffer \<Rightarrow> int result" where [table_defs]:
  "ModifyContractTransactionBuffer_DurationDeltaLength T = slot_len T 18"

definition ModifyContractTransactionBuffer_MutateDurationDelta :: "fb_table \<Rightarrow> ModifyContractTransactionBuffer \<Rightarrow> int \<Rightarrow> u32 \<Rightarrow> (bool \<times> ModifyContractTransactionBuffer) result" where [table_defs]:
  "ModifyContractTransactionBuffer_MutateDurationDelta T = set_elem_uint32 T 18"

definition ModifyContractTransactionBuffer_Hash :: "fb_table \<Rightarrow> ModifyContractTransactionBuffer \<Rightarrow> int \<Rightarrow> byte result" where [table_defs]:
  "ModifyContractTransactionBuffer_Hash T = elem_byte T 20"

definition ModifyContractTransactionBuffer_HashLength :: "fb_table \<Rightarrow> ModifyContractTransactionBuffer \<Rightarrow> int result" where [table_defs]:
  "ModifyContractTransactionBuffer_HashLength T = slot_len T 20"

definition ModifyContractTransactionBuffer_HashBytes :: "fb_table \<Rightarrow> ModifyContractTransactionBuffer \<Rightarrow> byte list result" where [table_defs]:
  "ModifyContractTransactionBuffer_HashBytes T = slot_bytes T 20"

definition ModifyContractTransactionBuffer_MutateHash :: "fb_table \<Rightarrow> ModifyContractTransactionBuffer \<Rightarrow> int \<Rightarrow> byte \<Rightarrow> (bool \<times> ModifyContractTransactionBuffer) result" where [table_defs]:
  "ModifyContractTransactionBuffer_MutateHash T = set_elem_byte T 20"

definition ModifyContractTransactionBuffer_NumCustomers :: "fb_table \<Rightarrow> ModifyContractTransactionBuffer \<Rightarrow> byte result" where [table_defs]:
  "ModifyContractTransactionBuffer_NumCustomers T = slot_byte T 22"

definition ModifyContractTransactionBuffer_MutateNumCustomers :: "fb_table \<Rightarrow> ModifyContractTransactionBuffer \<Rightarrow> byte \<Rightarrow> (bool \<times> ModifyContractTransactionBuffer) result" where [table_defs]:
  "ModifyContractTransactionBuffer_MutateNumCustomers T = (\<lambda>rcv. ft_MutateByteSlot T rcv 22)"

definition ModifyContractTransactionBuffer_NumExecutors :: "fb_table \<Rightarrow> ModifyContractTransactionBuffer \<Rightarrow> byte result" where [table_defs]:
  "ModifyContractTransactionBuffer_NumExecutors T = slot_byte T 24"

definition ModifyContractTransactionBuffer_MutateNumExecutors :: "fb_table \<Rightarrow> ModifyContractTransactionBuffer \<Rightarrow> byte \<Rightarrow> (bool \<times> ModifyContractTransactionBuffer) result" where [table_defs]:
  "ModifyContractTransactionBuffer_MutateNumExecutors T = (\<lambda>rcv. ft_MutateByteSlot T rcv 24)"

definition ModifyContractTransactionBuffer_NumVerifiers :: "fb_table \<Rightarrow> ModifyContractTransactionBuffer \<Rightarrow> byte result" where [table_defs]:
  "ModifyContractTransactionBuffer_NumVerifiers T = slot_byte T 26"

definition ModifyContractTransactionBuffer_MutateNumVerifiers :: "fb_table \<Rightarrow> ModifyContractTransactionBuffer \<Rightarrow> byte \<Rightarrow> (bool \<times> ModifyContractTransactionBuffer) result" where [table_defs]:
  "ModifyContractTransactionBuffer_MutateNumVerifiers T = (\<lambda>rcv. ft_MutateByteSlot T rcv 26)"

definition ModifyContractTransactionBuffer_Customers :: "fb_table \<Rightarrow> ModifyContractTransactionBuffer \<Rightarrow> CosignatoryModificationBuffer \<Rightarrow> int \<Rightarrow> (bool \<times> CosignatoryModificationBuffer) result" where [table_defs]:
  "ModifyContractTransactionBuffer_Customers T = elem_table T 28"

definition ModifyContractTransactionBuffer_CustomersLength :: "fb_table \<Rightarrow> ModifyContractTransactionBuffer \<Rightarrow> int result" where [table_defs]:
  "ModifyContractTransactionBuffer_CustomersLength T = slot_len T 28"

definition ModifyContractTransactionBuffer_Executors :: "fb_table \<Rightarrow> ModifyContractTransactionBuffer \<Rightarrow> CosignatoryModificationBuffer \<Rightarrow> int \<Rightarrow> (bool \<times> CosignatoryModificationBuffer) result" where [table_defs]:
  "ModifyContractTransactionBuffer_Executors T = elem_table T 30"

definition ModifyContractTransactionBuffer_ExecutorsLength :: "fb_table \<Rightarrow> ModifyContractTransactionBuffer \<Rightarrow> int result" where [table_defs]:
  "ModifyContractTransactionBuffer_ExecutorsLength T = slot_len T 30"

definition ModifyContractTransactionBuffer_Verifiers :: "fb_table \<Rightarrow> ModifyContractTransactionBuffer \<Rightarrow> CosignatoryModificationBuffer \<Rightarrow> int \<Rightarrow> (bool \<times> CosignatoryModificationBuffer) result" where [table_defs]:
  "ModifyContractTransactionBuffer_Verifiers T = elem_table T 32"

definition ModifyContractTransactionBuffer_VerifiersLength :: "fb_table \<Rightarrow> ModifyContractTransactionBuffer \<Rightarrow> int result" where [table_defs]:
  "ModifyContractTransactionBuffer_VerifiersLength T = slot_len T 32"

definition ModifyContractTransactionBuffer_columns :: "fb_table \<Rightarrow> column list" where [column_defs]:
  "ModifyContractTransactionBuffer_columns T =
    [ColUint32 (ModifyContractTransactionBuffer_Size T) (ModifyContractTransactionBuffer_MutateSize T),
     ColBytes (ModifyContractTransactionBuffer_SignatureBytes T) (ModifyContractTransactionBuffer_SignatureLength T) (ModifyContractTransactionBuffer_Signature T)
       (ModifyContractTransactionBuffer_MutateSignature T),
     ColBytes (ModifyContractTransactionBuffer_SignerBytes T) (ModifyContractTransactionBuffer_SignerLength T) (ModifyContractTransactionBuffer_Signer T)
       (ModifyContractTransactionBuffer_MutateSigner T),
     ColUint32 (ModifyContractTransactionBuffer_Version T) (ModifyContractTransactionBuffer_MutateVersion T),
     ColUint16 (ModifyContractTransactionBuffer_Type T) (ModifyContractTransactionBuffer_MutateType T),
     ColWords (ModifyContractTransactionBuffer_MaxFeeLength T) (ModifyContractTransactionBuffer_MaxFee T)
       (ModifyContractTransactionBuffer_MutateMaxFee T),
     ColWords (ModifyContractTransactionBuffer_DeadlineLength T) (ModifyContractTransactionBuffer_Deadline T)
       (ModifyContractTransactionBuffer_MutateDeadline T),
     ColWords (ModifyContractTransactionBuffer_DurationDeltaLength T) (ModifyContractTransactionBuffer_DurationDelta T)
       (ModifyContractTransactionBuffer_MutateDurationDelta T),
     ColBytes (ModifyContractTransactionBuffer_HashBytes T) (ModifyContractTransactionBuffer_HashLength T) (ModifyContractTransactionBuffer_Hash T)
       (ModifyContractTransactionBuffer_MutateHash T),
     ColByte (ModifyContractTransactionBuffer_NumCustomers T) (ModifyContractTransactionBuffer_MutateNumCustomers T),
     ColByte (ModifyContractTransactionBuffer_NumExecutors T) (ModifyContractTransactionBuffer_MutateNumExecutors T),
     ColByte (ModifyContractTransactionBuffer_NumVerifiers T) (ModifyContractTransactionBuffer_MutateNumVerifiers T),
     ColTables (ModifyContractTransactionBuffer_CustomersLength T) (ModifyContractTransactionBuffer_Customers T)
       (CosignatoryModificationBuffer_columns T),
     ColTables (ModifyContractTransactionBuffer_ExecutorsLength T) (ModifyContractTransactionBuffer_Executors T)
       (CosignatoryModificationBuffer_columns T),
     ColTables (ModifyContractTransactionBuffer_VerifiersLength T) (ModifyContractTransactionBuffer_Verifiers T)
       (CosignatoryModificationBuffer_columns T)]"

definition ModifyContractTransactionBufferAddSize :: "'b fb_api \<Rightarrow> u32 \<Rightarrow> ('b, unit) fb_prog" where [fb_defs]:
  "ModifyContractTransactionBufferAddSize F sz = fb_do (fb_PrependUint32Slot F 0 sz 0)"

definition ModifyContractTransactionBufferAddSignature :: "'b fb_api \<Rightarrow> u32 \<Rightarrow> ('b, unit) fb_prog" where [fb_defs]:
  "ModifyContractTransactionBufferAddSignature F signature = fb_do (fb_PrependUOffsetTSlot F 1 signature 0)"

definition ModifyContractTransactionBufferStartSignatureVector :: "'b fb_api \<Rightarrow> nat \<Rightarrow> ('b, unit) fb_prog" where [fb_defs]:
  "ModifyContractTransactionBufferStartSignatureVector F numElems = fb_do (fb_StartVector F 1 numElems 1)"

definition ModifyContractTransactionBufferAddSigner :: "'b fb_api \<Rightarrow> u32 \<Rightarrow> ('b, unit) fb_prog" where [fb_defs]:
  "ModifyContractTransactionBufferAddSigner F signer = fb_do (fb_PrependUOffsetTSlot F 2 signer 0)"

definition ModifyContractTransactionBufferStartSignerVector :: "'b fb_api \<Rightarrow> nat \<Rightarrow> ('b, unit) fb_prog" where [fb_defs]:
  "ModifyContractTransactionBufferStartSignerVector F numElems = fb_do (fb_StartVector F 1 numElems 1)"

definition ModifyContractTransactionBufferAddVersion :: "'b fb_api \<Rightarrow> u32 \<Rightarrow> ('b, unit) fb_prog" where [fb_defs]:
  "ModifyContractTransactionBufferAddVersion F version = fb_do (fb_PrependUint32Slot F 3 version 0)"

definition ModifyContractTransactionBufferAddType :: "'b fb_api \<Rightarrow> u16 \<Rightarrow> ('b, unit) fb_prog" where [fb_defs]:
  "ModifyContractTransactionBufferAddType F type_V = fb_do (fb_PrependUint16Slot F 4 type_V 0)"

definition ModifyContractTransactionBufferAddMaxFee :: "'b fb_api \<Rightarrow> u32 \<Rightarrow> ('b, unit) fb_prog" where [fb_defs]:
  "ModifyContractTransactionBufferAddMaxFee F maxFee = fb_do (fb_PrependUOffsetTSlot F 5 maxFee 0)"

definition ModifyContractTransactionBufferStartMaxFeeVector :: "'b fb_api \<Rightarrow> nat \<Rightarrow> ('b, unit) fb_prog" where [fb_defs]:
  "ModifyContractTransactionBufferStartMaxFeeVector F numElems = fb_do (fb_StartVector F 4 numElems 4)"

definition ModifyContractTransactionBufferAddDeadline :: "'b fb_api \<Rightarrow> u32 \<Rightarrow> ('b, unit) fb_prog" where [fb_defs]:
  "ModifyContractTransactionBufferAddDeadline F deadline = fb_do (fb_PrependUOffsetTSlot F 6 deadline 0)"

definition ModifyContractTransactionBufferStartDeadlineVector :: "'b fb_api \<Rightarrow> nat \<Rightarrow> ('b, unit) fb_prog" where [fb_defs]:
  "ModifyContractTransactionBufferStartDeadlineVector F numElems = fb_do (fb_StartVector F 4 numElems 4)"

definition ModifyContractTransactionBufferStartDurationDeltaVector :: "'b fb_api \<Rightarrow> nat \<Rightarrow> ('b, unit) fb_prog" where [fb_defs]:
  "ModifyContractTransactionBufferStartDurationDeltaVector F numElems = fb_do (fb_StartVector F 4 numElems 4)"

definition ModifyContractTransactionBufferStartHashVector :: "'b fb_api \<Rightarrow> nat \<Rightarrow> ('b, unit) fb_prog" where [fb_defs]:
  "ModifyContractTransactionBufferStartHashVector F numElems = fb_do (fb_StartVector F 1 numElems 1)"

definition ModifyContractTransactionBufferStartCustomersVector :: "'b fb_api \<Rightarrow> nat \<Rightarrow> ('b, unit) fb_prog" where [fb_defs]:
  "ModifyContractTransactionBufferStartCustomersVector F numElems = fb_do (fb_StartVector F 4 numElems 4)"

definition ModifyContractTransactionBufferStartExecutorsVector :: "'b fb_api \<Rightarrow> nat \<Rightarrow> ('b, unit) fb_prog" where [fb_defs]:
  "ModifyContractTransactionBufferStartExecutorsVector F numElems = fb_do (fb_StartVector F 4 numElems 4)"

definition ModifyContractTransactionBufferStartVerifiersVector :: "'b fb_api \<Rightarrow> nat \<Rightarrow> ('b, unit) fb_prog" where [fb_defs]:
  "ModifyContractTransactionBufferStartVerifiersVector F numElems = fb_do (fb_StartVector F 4 numElems 4)"

definition ModifyContractTransactionBufferEnd :: "'b fb_api \<Rightarrow> ('b, u32) fb_prog" where [fb_defs]:
  "ModifyContractTransactionBufferEnd F = fb_call (fb_EndObject F)"

end
