(* ===== verification/TablesAssets.thy ===== *)
theory TablesAssets
  imports TablesAccounts
begin

text \<open>
  The accessors of the generated tables (\<open>transactions/*_buffer.go\<close>) of mosaics, namespaces and metadata: how a buffer of the table is
  read and changed in place, and the generated functions that write it as far as \<open>TxBuffers\<close> does not have them already.
  \<open>StartVector\<close> also returns an offset, which is dropped. \<open>X_columns\<close> lists the accessors of the table \<open>X\<close> by slot.
\<close>

section \<open>\<open>transactions/mosaic_buffer.go\<close>\<close>

type_synonym MosaicBuffer = Table

definition GetRootAsMosaicBuffer :: "fb_table \<Rightarrow> byte list \<Rightarrow> u32 \<Rightarrow> MosaicBuffer result" where [table_defs]:
  "GetRootAsMosaicBuffer T buf offset = table_root T buf offset"

definition MosaicBuffer_Init :: "byte list \<Rightarrow> u32 \<Rightarrow> MosaicBuffer" where
  "MosaicBuffer_Init buf i = table_Init buf i"

definition MosaicBuffer_Table :: "MosaicBuffer \<Rightarrow> Table" where
  "MosaicBuffer_Table rcv = rcv"

definition MosaicBuffer_Id :: "fb_table \<Rightarrow> MosaicBuffer \<Rightarrow> int \<Rightarrow> u32 result" where [table_defs]:
  "MosaicBuffer_Id T = elem_uint32 T 4"

definition MosaicBuffer_IdLength :: "fb_table \<Rightarrow> MosaicBuffer \<Rightarrow> int result" where [table_defs]:
  "MosaicBuffer_IdLength T = slot_len T 4"

definition MosaicBuffer_MutateId :: "fb_table \<Rightarrow> MosaicBuffer \<Rightarrow> int \<Rightarrow> u32 \<Rightarrow> (bool \<times> MosaicBuffer) result" where [table_defs]:
  "MosaicBuffer_MutateId T = set_elem_uint32 T 4"

definition MosaicBuffer_Amount :: "fb_table \<Rightarrow> MosaicBuffer \<Rightarrow> int \<Rightarrow> u32 result" where [table_defs]:
  "MosaicBuffer_Amount T = elem_uint32 T 6"

definition MosaicBuffer_AmountLength :: "fb_table \<Rightarrow> MosaicBuffer \<Rightarrow> int result" where [table_defs]:
  "MosaicBuffer_AmountLength T = slot_len T 6"

definition MosaicBuffer_MutateAmount :: "fb_table \<Rightarrow> MosaicBuffer \<Rightarrow> int \<Rightarrow> u32 \<Rightarrow> (bool \<times> MosaicBuffer) result" where [table_defs]:
  "MosaicBuffer_MutateAmount T = set_elem_uint32 T 6"

definition MosaicBuffer_columns :: "fb_table \<Rightarrow> column list" where [column_defs]:
  "MosaicBuffer_columns T =
    [ColWords (MosaicBuffer_IdLength T) (MosaicBuffer_Id T)
       (MosaicBuffer_MutateId T),
     ColWords (MosaicBuffer_AmountLength T) (MosaicBuffer_Amount T)
       (MosaicBuffer_MutateAmount T)]"

definition MosaicBufferStartIdVector :: "'b fb_api \<Rightarrow> nat \<Rightarrow> ('b, unit) fb_prog" where [fb_defs]:
  "MosaicBufferStartIdVector F numElems = fb_do (fb_StartVector F 4 numElems 4)"

definition MosaicBufferStartAmountVector :: "'b fb_api \<Rightarrow> nat \<Rightarrow> ('b, unit) fb_prog" where [fb_defs]:
  "MosaicBufferStartAmountVector F numElems = fb_do (fb_StartVector F 4 numElems 4)"

section \<open>\<open>transactions/mosaic_definition_transaction_buffer.go\<close>\<close>

type_synonym MosaicPropertyTable = Table

definition GetRootAsMosaicProperty :: "fb_table \<Rightarrow> byte list \<Rightarrow> u32 \<Rightarrow> MosaicPropertyTable result" where [table_defs]:
  "GetRootAsMosaicProperty T buf offset = table_root T buf offset"

definition MosaicProperty_Init :: "byte list \<Rightarrow> u32 \<Rightarrow> MosaicPropertyTable" where
  "MosaicProperty_Init buf i = table_Init buf i"

definition MosaicProperty_Table :: "MosaicPropertyTable \<Rightarrow> Table" where
  "MosaicProperty_Table rcv = rcv"

definition MosaicProperty_MosaicPropertyId :: "fb_table \<Rightarrow> MosaicPropertyTable \<Rightarrow> byte result" where [table_defs]:
  "MosaicProperty_MosaicPropertyId T = slot_byte T 4"

definition MosaicProperty_MutateMosaicPropertyId :: "fb_table \<Rightarrow> MosaicPropertyTable \<Rightarrow> byte \<Rightarrow> (bool \<times> MosaicPropertyTable) result" where [table_defs]:
  "MosaicProperty_MutateMosaicPropertyId T = (\<lambda>rcv. ft_MutateByteSlot T rcv 4)"

definition MosaicProperty_Value :: "fb_table \<Rightarrow> MosaicPropertyTable \<Rightarrow> int \<Rightarrow> u32 result" where [table_defs]:
  "MosaicProperty_Value T = elem_uint32 T 6"

definition MosaicProperty_ValueLength :: "fb_table \<Rightarrow> MosaicPropertyTable \<Rightarrow> int result" where [table_defs]:
  "MosaicProperty_ValueLength T = slot_len T 6"

definition MosaicProperty_MutateValue :: "fb_table \<Rightarrow> MosaicPropertyTable \<Rightarrow> int \<Rightarrow> u32 \<Rightarrow> (bool \<times> MosaicPropertyTable) result" where [table_defs]:
  "MosaicProperty_MutateValue T = set_elem_uint32 T 6"

definition MosaicProperty_columns :: "fb_table \<Rightarrow> column list" where [column_defs]:
  "MosaicProperty_columns T =
    [ColByte (MosaicProperty_MosaicPropertyId T) (MosaicProperty_MutateMosaicPropertyId T),
     ColWords (MosaicProperty_ValueLength T) (MosaicProperty_Value T)
       (MosaicProperty_MutateValue T)]"

type_synonym MosaicDefinitionTransactionBuffer = Table

definition GetRootAsMosaicDefinitionTransactionBuffer :: "fb_table \<Rightarrow> byte list \<Rightarrow> u32 \<Rightarrow> MosaicDefinitionTransactionBuffer result" where [table_defs]:
  "GetRootAsMosaicDefinitionTransactionBuffer T buf offset = table_root T buf offset"

definition MosaicDefinitionTransactionBuffer_Init :: "byte list \<Rightarrow> u32 \<Rightarrow> MosaicDefinitionTransactionBuffer" where
  "MosaicDefinitionTransactionBuffer_Init buf i = table_Init buf i"

definition MosaicDefinitionTransactionBuffer_Table :: "MosaicDefinitionTransactionBuffer \<Rightarrow> Table" where
  "MosaicDefinitionTransactionBuffer_Table rcv = rcv"

definition MosaicDefinitionTransactionBuffer_Size :: "fb_table \<Rightarrow> MosaicDefinitionTransactionBuffer \<Rightarrow> u32 result" where [table_defs]:
  "MosaicDefinitionTransactionBuffer_Size T = slot_uint32 T 4"

definition MosaicDefinitionTransactionBuffer_MutateSize :: "fb_table \<Rightarrow> MosaicDefinitionTransactionBuffer \<Rightarrow> u32 \<Rightarrow> (bool \<times> MosaicDefinitionTransactionBuffer) result" where [table_defs]:
  "MosaicDefinitionTransactionBuffer_MutateSize T = (\<lambda>rcv. ft_MutateUint32Slot T rcv 4)"

definition MosaicDefinitionTransactionBuffer_Signature :: "fb_table \<Rightarrow> MosaicDefinitionTransactionBuffer \<Rightarrow> int \<Rightarrow> byte result" where [table_defs]:
  "MosaicDefinitionTransactionBuffer_Signature T = elem_byte T 6"

definition MosaicDefinitionTransactionBuffer_SignatureLength :: "fb_table \<Rightarrow> MosaicDefinitionTransactionBuffer \<Rightarrow> int result" where [table_defs]:
  "MosaicDefinitionTransactionBuffer_SignatureLength T = slot_len T 6"

definition MosaicDefinitionTransactionBuffer_SignatureBytes :: "fb_table \<Rightarrow> MosaicDefinitionTransactionBuffer \<Rightarrow> byte list result" where [table_defs]:
  "MosaicDefinitionTransactionBuffer_SignatureBytes T = slot_bytes T 6"

definition MosaicDefinitionTransactionBuffer_MutateSignature :: "fb_table \<Rightarrow> MosaicDefinitionTransactionBuffer \<Rightarrow> int \<Rightarrow> byte \<Rightarrow> (bool \<times> MosaicDefinitionTransactionBuffer) result" where [table_defs]:
  "MosaicDefinitionTransactionBuffer_MutateSignature T = set_elem_byte T 6"

definition MosaicDefinitionTransactionBuffer_Signer :: "fb_table \<Rightarrow> MosaicDefinitionTransactionBuffer \<Rightarrow> int \<Rightarrow> byte result" where [table_defs]:
  "MosaicDefinitionTransactionBuffer_Signer T = elem_byte T 8"

definition MosaicDefinitionTransactionBuffer_SignerLength :: "fb_table \<Rightarrow> MosaicDefinitionTransactionBuffer \<Rightarrow> int result" where [table_defs]:
  "MosaicDefinitionTransactionBuffer_SignerLength T = slot_len T 8"

definition MosaicDefinitionTransactionBuffer_SignerBytes :: "fb_table \<Rightarrow> MosaicDefinitionTransactionBuffer \<Rightarrow> byte list result" where [table_defs]:
  "MosaicDefinitionTransactionBuffer_SignerBytes T = slot_bytes T 8"

definition MosaicDefinitionTransactionBuffer_MutateSigner :: "fb_table \<Rightarrow> MosaicDefinitionTransactionBuffer \<Rightarrow> int \<Rightarrow> byte \<Rightarrow> (bool \<times> MosaicDefinitionTransactionBuffer) result" where [table_defs]:
  "MosaicDefinitionTransactionBuffer_MutateSigner T = set_elem_byte T 8"

definition MosaicDefinitionTransactionBuffer_Version :: "fb_table \<Rightarrow> MosaicDefinitionTransactionBuffer \<Rightarrow> u32 result" where [table_defs]:
  "MosaicDefinitionTransactionBuffer_Version T = slot_uint32 T 10"

definition MosaicDefinitionTransactionBuffer_MutateVersion :: "fb_table \<Rightarrow> MosaicDefinitionTransactionBuffer \<Rightarrow> u32 \<Rightarrow> (bool \<times> MosaicDefinitionTransactionBuffer) result" where [table_defs]:
  "MosaicDefinitionTransactionBuffer_MutateVersion T = (\<lambda>rcv. ft_MutateUint32Slot T rcv 10)"

definition MosaicDefinitionTransactionBuffer_Type :: "fb_table \<Rightarrow> MosaicDefinitionTransactionBuffer \<Rightarrow> u16 result" where [table_defs]:
  "MosaicDefinitionTransactionBuffer_Type T = slot_uint16 T 12"

definition MosaicDefinitionTransactionBuffer_MutateType :: "fb_table \<Rightarrow> MosaicDefinitionTransactionBuffer \<Rightarrow> u16 \<Rightarrow> (bool \<times> MosaicDefinitionTransactionBuffer) result" where [table_defs]:
  "MosaicDefinitionTransactionBuffer_MutateType T = (\<lambda>rcv. ft_MutateUint16Slot T rcv 12)"

definition MosaicDefinitionTransactionBuffer_MaxFee :: "fb_table \<Rightarrow> MosaicDefinitionTransactionBuffer \<Rightarrow> int \<Rightarrow> u32 result" where [table_defs]:
  "MosaicDefinitionTransactionBuffer_MaxFee T = elem_uint32 T 14"

definition MosaicDefinitionTransactionBuffer_MaxFeeLength :: "fb_table \<Rightarrow> MosaicDefinitionTransactionBuffer \<Rightarrow> int result" where [table_defs]:
  "MosaicDefinitionTransactionBuffer_MaxFeeLength T = slot_len T 14"

definition MosaicDefinitionTransactionBuffer_MutateMaxFee :: "fb_table \<Rightarrow> MosaicDefinitionTransactionBuffer \<Rightarrow> int \<Rightarrow> u32 \<Rightarrow> (bool \<times> MosaicDefinitionTransactionBuffer) result" where [table_defs]:
  "MosaicDefinitionTransactionBuffer_MutateMaxFee T = set_elem_uint32 T 14"

definition MosaicDefinitionTransactionBuffer_Deadline :: "fb_table \<Rightarrow> MosaicDefinitionTransactionBuffer \<Rightarrow> int \<Rightarrow> u32 result" where [table_defs]:
  "MosaicDefinitionTransactionBuffer_Deadline T = elem_uint32 T 16"

definition MosaicDefinitionTransactionBuffer_DeadlineLength :: "fb_table \<Rightarrow> MosaicDefinitionTransactionBuffer \<Rightarrow> int result" where [table_defs]:
  "MosaicDefinitionTransactionBuffer_DeadlineLength T = slot_len T 16"

definition MosaicDefinitionTransactionBuffer_MutateDeadline :: "fb_table \<Rightarrow> MosaicDefinitionTransactionBuffer \<Rightarrow> int \<Rightarrow> u32 \<Rightarrow> (bool \<times> MosaicDefinitionTransactionBuffer) result" where [table_defs]:
  "MosaicDefinitionTransactionBuffer_MutateDeadline T = set_elem_uint32 T 16"

definition MosaicDefinitionTransactionBuffer_MosaicNonce :: "fb_table \<Rightarrow> MosaicDefinitionTransactionBuffer \<Rightarrow> u32 result" where [table_defs]:
  "MosaicDefinitionTransactionBuffer_MosaicNonce T = slot_uint32 T 18"

definition MosaicDefinitionTransactionBuffer_MutateMosaicNonce :: "fb_table \<Rightarrow> MosaicDefinitionTransactionBuffer \<Rightarrow> u32 \<Rightarrow> (bool \<times> MosaicDefinitionTransactionBuffer) result" where [table_defs]:
  "MosaicDefinitionTransactionBuffer_MutateMosaicNonce T = (\<lambda>rcv. ft_MutateUint32Slot T rcv 18)"

definition MosaicDefinitionTransactionBuffer_MosaicId :: "fb_table \<Rightarrow> MosaicDefinitionTransactionBuffer \<Rightarrow> int \<Rightarrow> u32 result" where [table_defs]:
  "MosaicDefinitionTransactionBuffer_MosaicId T = elem_uint32 T 20"

definition MosaicDefinitionTransactionBuffer_MosaicIdLength :: "fb_table \<Rightarrow> MosaicDefinitionTransactionBuffer \<Rightarrow> int result" where [table_defs]:
  "MosaicDefinitionTransactionBuffer_MosaicIdLength T = slot_len T 20"

definition MosaicDefinitionTransactionBuffer_MutateMosaicId :: "fb_table \<Rightarrow> MosaicDefinitionTransactionBuffer \<Rightarrow> int \<Rightarrow> u32 \<Rightarrow> (bool \<times> MosaicDefinitionTransactionBuffer) result" where [table_defs]:
  "MosaicDefinitionTransactionBuffer_MutateMosaicId T = set_elem_uint32 T 20"

definition MosaicDefinitionTransactionBuffer_NumOptionalProperties :: "fb_table \<Rightarrow> MosaicDefinitionTransactionBuffer \<Rightarrow> byte result" where [table_defs]:
  "MosaicDefinitionTransactionBuffer_NumOptionalProperties T = slot_byte T 22"

definition MosaicDefinitionTransactionBuffer_MutateNumOptionalProperties :: "fb_table \<Rightarrow> MosaicDefinitionTransactionBuffer \<Rightarrow> byte \<Rightarrow> (bool \<times> MosaicDefinitionTransactionBuffer) result" where [table_defs]:
  "MosaicDefinitionTransactionBuffer_MutateNumOptionalProperties T = (\<lambda>rcv. ft_MutateByteSlot T rcv 22)"

definition MosaicDefinitionTransactionBuffer_Flags :: "fb_table \<Rightarrow> MosaicDefinitionTransactionBuffer \<Rightarrow> byte result" where [table_defs]:
  "MosaicDefinitionTransactionBuffer_Flags T = slot_byte T 24"

definition MosaicDefinitionTransactionBuffer_MutateFlags :: "fb_table \<Rightarrow> MosaicDefinitionTransactionBuffer \<Rightarrow> byte \<Rightarrow> (bool \<times> MosaicDefinitionTransactionBuffer) result" where [table_defs]:
  "MosaicDefinitionTransactionBuffer_MutateFlags T = (\<lambda>rcv. ft_MutateByteSlot T rcv 24)"

definition MosaicDefinitionTransactionBuffer_Divisibility :: "fb_table \<Rightarrow> MosaicDefinitionTransactionBuffer \<Rightarrow> byte result" where [table_defs]:
  "MosaicDefinitionTransactionBuffer_Divisibility T = slot_byte T 26"

definition MosaicDefinitionTransactionBuffer_MutateDivisibility :: "fb_table \<Rightarrow> MosaicDefinitionTransactionBuffer \<Rightarrow> byte \<Rightarrow> (bool \<times> MosaicDefinitionTransactionBuffer) result" where [table_defs]:
  "MosaicDefinitionTransactionBuffer_MutateDivisibility T = (\<lambda>rcv. ft_MutateByteSlot T rcv 26)"

definition MosaicDefinitionTransactionBuffer_OptionalProperties :: "fb_table \<Rightarrow> MosaicDefinitionTransactionBuffer \<Rightarrow> MosaicPropertyTable \<Rightarrow> int \<Rightarrow> (bool \<times> MosaicPropertyTable) result" where [table_defs]:
  "MosaicDefinitionTransactionBuffer_OptionalProperties T = elem_table T 28"

definition MosaicDefinitionTransactionBuffer_OptionalPropertiesLength :: "fb_table \<Rightarrow> MosaicDefinitionTransactionBuffer \<Rightarrow> int result" where [table_defs]:
  "MosaicDefinitionTransactionBuffer_OptionalPropertiesLength T = slot_len T 28"

definition MosaicDefinitionTransactionBuffer_columns :: "fb_table \<Rightarrow> column list" where [column_defs]:
  "MosaicDefinitionTransactionBuffer_columns T =
    [ColUint32 (MosaicDefinitionTransactionBuffer_Size T) (MosaicDefinitionTransactionBuffer_MutateSize T),
     ColBytes (MosaicDefinitionTransactionBuffer_SignatureBytes T) (MosaicDefinitionTransactionBuffer_SignatureLength T) (MosaicDefinitionTransactionBuffer_Signature T)
       (MosaicDefinitionTransactionBuffer_MutateSignature T),
     ColBytes (MosaicDefinitionTransactionBuffer_SignerBytes T) (MosaicDefinitionTransactionBuffer_SignerLength T) (MosaicDefinitionTransactionBuffer_Signer T)
       (MosaicDefinitionTransactionBuffer_MutateSigner T),
     ColUint32 (MosaicDefinitionTransactionBuffer_Version T) (MosaicDefinitionTransactionBuffer_MutateVersion T),
     ColUint16 (MosaicDefinitionTransactionBuffer_Type T) (MosaicDefinitionTransactionBuffer_MutateType T),
     ColWords (MosaicDefinitionTransactionBuffer_MaxFeeLength T) (MosaicDefinitionTransactionBuffer_MaxFee T)
       (MosaicDefinitionTransactionBuffer_MutateMaxFee T),
     ColWords (MosaicDefinitionTransactionBuffer_DeadlineLength T) (MosaicDefinitionTransactionBuffer_Deadline T)
       (MosaicDefinitionTransactionBuffer_MutateDeadline T),
     ColUint32 (MosaicDefinitionTransactionBuffer_MosaicNonce T) (MosaicDefinitionTransactionBuffer_MutateMosaicNonce T),
     ColWords (MosaicDefinitionTransactionBuffer_MosaicIdLength T) (MosaicDefinitionTransactionBuffer_MosaicId T)
       (MosaicDefinitionTransactionBuffer_MutateMosaicId T),
     ColByte (MosaicDefinitionTransactionBuffer_NumOptionalProperties T) (MosaicDefinitionTransactionBuffer_MutateNumOptionalProperties T),
     ColByte (MosaicDefinitionTransactionBuffer_Flags T) (MosaicDefinitionTransactionBuffer_MutateFlags T),
     ColByte (MosaicDefinitionTransactionBuffer_Divisibility T) (MosaicDefinitionTransactionBuffer_MutateDivisibility T),
     ColTables (MosaicDefinitionTransactionBuffer_OptionalPropertiesLength T) (MosaicDefinitionTransactionBuffer_OptionalProperties T)
       (MosaicProperty_columns T)]"

definition MosaicPropertyStartValueVector :: "'b fb_api \<Rightarrow> nat \<Rightarrow> ('b, unit) fb_prog" where [fb_defs]:
  "MosaicPropertyStartValueVector F numElems = fb_do (fb_StartVector F 4 numElems 4)"

definition MosaicPropertyEnd :: "'b fb_api \<Rightarrow> ('b, u32) fb_prog" where [fb_defs]:
  "MosaicPropertyEnd F = fb_call (fb_EndObject F)"

definition MosaicDefinitionTransactionBufferAddSize :: "'b fb_api \<Rightarrow> u32 \<Rightarrow> ('b, unit) fb_prog" where [fb_defs]:
  "MosaicDefinitionTransactionBufferAddSize F sz = fb_do (fb_PrependUint32Slot F 0 sz 0)"

definition MosaicDefinitionTransactionBufferAddSignature :: "'b fb_api \<Rightarrow> u32 \<Rightarrow> ('b, unit) fb_prog" where [fb_defs]:
  "MosaicDefinitionTransactionBufferAddSignature F signature = fb_do (fb_PrependUOffsetTSlot F 1 signature 0)"

definition MosaicDefinitionTransactionBufferStartSignatureVector :: "'b fb_api \<Rightarrow> nat \<Rightarrow> ('b, unit) fb_prog" where [fb_defs]:
  "MosaicDefinitionTransactionBufferStartSignatureVector F numElems = fb_do (fb_StartVector F 1 numElems 1)"

definition MosaicDefinitionTransactionBufferAddSigner :: "'b fb_api \<Rightarrow> u32 \<Rightarrow> ('b, unit) fb_prog" where [fb_defs]:
  "MosaicDefinitionTransactionBufferAddSigner F signer = fb_do (fb_PrependUOffsetTSlot F 2 signer 0)"

definition MosaicDefinitionTransactionBufferStartSignerVector :: "'b fb_api \<Rightarrow> nat \<Rightarrow> ('b, unit) fb_prog" where [fb_defs]:
  "MosaicDefinitionTransactionBufferStartSignerVector F numElems = fb_do (fb_StartVector F 1 numElems 1)"

definition MosaicDefinitionTransactionBufferAddVersion :: "'b fb_api \<Rightarrow> u32 \<Rightarrow> ('b, unit) fb_prog" where [fb_defs]:
  "MosaicDefinitionTransactionBufferAddVersion F version = fb_do (fb_PrependUint32Slot F 3 version 0)"

definition MosaicDefinitionTransactionBufferAddType :: "'b fb_api \<Rightarrow> u16 \<Rightarrow> ('b, unit) fb_prog" where [fb_defs]:
  "MosaicDefinitionTransactionBufferAddType F type_V = fb_do (fb_PrependUint16Slot F 4 type_V 0)"

definition MosaicDefinitionTransactionBufferAddMaxFee :: "'b fb_api \<Rightarrow> u32 \<Rightarrow> ('b, unit) fb_prog" where [fb_defs]:
  "MosaicDefinitionTransactionBufferAddMaxFee F maxFee = fb_do (fb_PrependUOffsetTSlot F 5 maxFee 0)"

definition MosaicDefinitionTransactionBufferStartMaxFeeVector :: "'b fb_api \<Rightarrow> nat \<Rightarrow> ('b, unit) fb_prog" where [fb_defs]:
  "MosaicDefinitionTransactionBufferStartMaxFeeVector F numElems = fb_do (fb_StartVector F 4 numElems 4)"

definition MosaicDefinitionTransactionBufferAddDeadline :: "'b fb_api \<Rightarrow> u32 \<Rightarrow> ('b, unit) fb_prog" where [fb_defs]:
  "MosaicDefinitionTransactionBufferAddDeadline F deadline = fb_do (fb_PrependUOffsetTSlot F 6 deadline 0)"

definition MosaicDefinitionTransactionBufferStartDeadlineVector :: "'b fb_api \<Rightarrow> nat \<Rightarrow> ('b, unit) fb_prog" where [fb_defs]:
  "MosaicDefinitionTransactionBufferStartDeadlineVector F numElems = fb_do (fb_StartVector F 4 numElems 4)"

definition MosaicDefinitionTransactionBufferStartMosaicIdVector :: "'b fb_api \<Rightarrow> nat \<Rightarrow> ('b, unit) fb_prog" where [fb_defs]:
  "MosaicDefinitionTransactionBufferStartMosaicIdVector F numElems = fb_do (fb_StartVector F 4 numElems 4)"

definition MosaicDefinitionTransactionBufferStartOptionalPropertiesVector :: "'b fb_api \<Rightarrow> nat \<Rightarrow> ('b, unit) fb_prog" where [fb_defs]:
  "MosaicDefinitionTransactionBufferStartOptionalPropertiesVector F numElems = fb_do (fb_StartVector F 4 numElems 4)"

definition MosaicDefinitionTransactionBufferEnd :: "'b fb_api \<Rightarrow> ('b, u32) fb_prog" where [fb_defs]:
  "MosaicDefinitionTransactionBufferEnd F = fb_call (fb_EndObject F)"

section \<open>\<open>transactions/mosaic_supply_change_transaction_buffer.go\<close>\<close>

type_synonym MosaicSupplyChangeTransactionBuffer = Table

definition GetRootAsMosaicSupplyChangeTransactionBuffer :: "fb_table \<Rightarrow> byte list \<Rightarrow> u32 \<Rightarrow> MosaicSupplyChangeTransactionBuffer result" where [table_defs]:
  "GetRootAsMosaicSupplyChangeTransactionBuffer T buf offset = table_root T buf offset"

definition MosaicSupplyChangeTransactionBuffer_Init :: "byte list \<Rightarrow> u32 \<Rightarrow> MosaicSupplyChangeTransactionBuffer" where
  "MosaicSupplyChangeTransactionBuffer_Init buf i = table_Init buf i"

definition MosaicSupplyChangeTransactionBuffer_Table :: "MosaicSupplyChangeTransactionBuffer \<Rightarrow> Table" where
  "MosaicSupplyChangeTransactionBuffer_Table rcv = rcv"

definition MosaicSupplyChangeTransactionBuffer_Size :: "fb_table \<Rightarrow> MosaicSupplyChangeTransactionBuffer \<Rightarrow> u32 result" where [table_defs]:
  "MosaicSupplyChangeTransactionBuffer_Size T = slot_uint32 T 4"

definition MosaicSupplyChangeTransactionBuffer_MutateSize :: "fb_table \<Rightarrow> MosaicSupplyChangeTransactionBuffer \<Rightarrow> u32 \<Rightarrow> (bool \<times> MosaicSupplyChangeTransactionBuffer) result" where [table_defs]:
  "MosaicSupplyChangeTransactionBuffer_MutateSize T = (\<lambda>rcv. ft_MutateUint32Slot T rcv 4)"

definition MosaicSupplyChangeTransactionBuffer_Signature :: "fb_table \<Rightarrow> MosaicSupplyChangeTransactionBuffer \<Rightarrow> int \<Rightarrow> byte result" where [table_defs]:
  "MosaicSupplyChangeTransactionBuffer_Signature T = elem_byte T 6"

definition MosaicSupplyChangeTransactionBuffer_SignatureLength :: "fb_table \<Rightarrow> MosaicSupplyChangeTransactionBuffer \<Rightarrow> int result" where [table_defs]:
  "MosaicSupplyChangeTransactionBuffer_SignatureLength T = slot_len T 6"

definition MosaicSupplyChangeTransactionBuffer_SignatureBytes :: "fb_table \<Rightarrow> MosaicSupplyChangeTransactionBuffer \<Rightarrow> byte list result" where [table_defs]:
  "MosaicSupplyChangeTransactionBuffer_SignatureBytes T = slot_bytes T 6"

definition MosaicSupplyChangeTransactionBuffer_MutateSignature :: "fb_table \<Rightarrow> MosaicSupplyChangeTransactionBuffer \<Rightarrow> int \<Rightarrow> byte \<Rightarrow> (bool \<times> MosaicSupplyChangeTransactionBuffer) result" where [table_defs]:
  "MosaicSupplyChangeTransactionBuffer_MutateSignature T = set_elem_byte T 6"

definition MosaicSupplyChangeTransactionBuffer_Signer :: "fb_table \<Rightarrow> MosaicSupplyChangeTransactionBuffer \<Rightarrow> int \<Rightarrow> byte result" where [table_defs]:
  "MosaicSupplyChangeTransactionBuffer_Signer T = elem_byte T 8"

definition MosaicSupplyChangeTransactionBuffer_SignerLength :: "fb_table \<Rightarrow> MosaicSupplyChangeTransactionBuffer \<Rightarrow> int result" where [table_defs]:
  "MosaicSupplyChangeTransactionBuffer_SignerLength T = slot_len T 8"

definition MosaicSupplyChangeTransactionBuffer_SignerBytes :: "fb_table \<Rightarrow> MosaicSupplyChangeTransactionBuffer \<Rightarrow> byte list result" where [table_defs]:
  "MosaicSupplyChangeTransactionBuffer_SignerBytes T = slot_bytes T 8"

definition MosaicSupplyChangeTransactionBuffer_MutateSigner :: "fb_table \<Rightarrow> MosaicSupplyChangeTransactionBuffer \<Rightarrow> int \<Rightarrow> byte \<Rightarrow> (bool \<times> MosaicSupplyChangeTransactionBuffer) result" where [table_defs]:
  "MosaicSupplyChangeTransactionBuffer_MutateSigner T = set_elem_byte T 8"

definition MosaicSupplyChangeTransactionBuffer_Version :: "fb_table \<Rightarrow> MosaicSupplyChangeTransactionBuffer \<Rightarrow> u32 result" where [table_defs]:
  "MosaicSupplyChangeTransactionBuffer_Version T = slot_uint32 T 10"

definition MosaicSupplyChangeTransactionBuffer_MutateVersion :: "fb_table \<Rightarrow> MosaicSupplyChangeTransactionBuffer \<Rightarrow> u32 \<Rightarrow> (bool \<times> MosaicSupplyChangeTransactionBuffer) result" where [table_defs]:
  "MosaicSupplyChangeTransactionBuffer_MutateVersion T = (\<lambda>rcv. ft_MutateUint32Slot T rcv 10)"

definition MosaicSupplyChangeTransactionBuffer_Type :: "fb_table \<Rightarrow> MosaicSupplyChangeTransactionBuffer \<Rightarrow> u16 result" where [table_defs]:
  "MosaicSupplyChangeTransactionBuffer_Type T = slot_uint16 T 12"

definition MosaicSupplyChangeTransactionBuffer_MutateType :: "fb_table \<Rightarrow> MosaicSupplyChangeTransactionBuffer \<Rightarrow> u16 \<Rightarrow> (bool \<times> MosaicSupplyChangeTransactionBuffer) result" where [table_defs]:
  "MosaicSupplyChangeTransactionBuffer_MutateType T = (\<lambda>rcv. ft_MutateUint16Slot T rcv 12)"

definition MosaicSupplyChangeTransactionBuffer_MaxFee :: "fb_table \<Rightarrow> MosaicSupplyChangeTransactionBuffer \<Rightarrow> int \<Rightarrow> u32 result" where [table_defs]:
  "MosaicSupplyChangeTransactionBuffer_MaxFee T = elem_uint32 T 14"

definition MosaicSupplyChangeTransactionBuffer_MaxFeeLength :: "fb_table \<Rightarrow> MosaicSupplyChangeTransactionBuffer \<Rightarrow> int result" where [table_defs]:
  "MosaicSupplyChangeTransactionBuffer_MaxFeeLength T = slot_len T 14"

definition MosaicSupplyChangeTransactionBuffer_MutateMaxFee :: "fb_table \<Rightarrow> MosaicSupplyChangeTransactionBuffer \<Rightarrow> int \<Rightarrow> u32 \<Rightarrow> (bool \<times> MosaicSupplyChangeTransactionBuffer) result" where [table_defs]:
  "MosaicSupplyChangeTransactionBuffer_MutateMaxFee T = set_elem_uint32 T 14"

definition MosaicSupplyChangeTransactionBuffer_Deadline :: "fb_table \<Rightarrow> MosaicSupplyChangeTransactionBuffer \<Rightarrow> int \<Rightarrow> u32 result" where [table_defs]:
  "MosaicSupplyChangeTransactionBuffer_Deadline T = elem_uint32 T 16"

definition MosaicSupplyChangeTransactionBuffer_DeadlineLength :: "fb_table \<Rightarrow> MosaicSupplyChangeTransactionBuffer \<Rightarrow> int result" where [table_defs]:
  "MosaicSupplyChangeTransactionBuffer_DeadlineLength T = slot_len T 16"

definition MosaicSupplyChangeTransactionBuffer_MutateDeadline :: "fb_table \<Rightarrow> MosaicSupplyChangeTransactionBuffer \<Rightarrow> int \<Rightarrow> u32 \<Rightarrow> (bool \<times> MosaicSupplyChangeTransactionBuffer) result" where [table_defs]:
  "MosaicSupplyChangeTransactionBuffer_MutateDeadline T = set_elem_uint32 T 16"

definition MosaicSupplyChangeTransactionBuffer_MosaicId :: "fb_table \<Rightarrow> MosaicSupplyChangeTransactionBuffer \<Rightarrow> int \<Rightarrow> u32 result" where [table_defs]:
  "MosaicSupplyChangeTransactionBuffer_MosaicId T = elem_uint32 T 18"

definition MosaicSupplyChangeTransactionBuffer_MosaicIdLength :: "fb_table \<Rightarrow> MosaicSupplyChangeTransactionBuffer \<Rightarrow> int result" where [table_defs]:
  "MosaicSupplyChangeTransactionBuffer_MosaicIdLength T = slot_len T 18"

definition MosaicSupplyChangeTransactionBuffer_MutateMosaicId :: "fb_table \<Rightarrow> MosaicSupplyChangeTransactionBuffer \<Rightarrow> int \<Rightarrow> u32 \<Rightarrow> (bool \<times> MosaicSupplyChangeTransactionBuffer) result" where [table_defs]:
  "MosaicSupplyChangeTransactionBuffer_MutateMosaicId T = set_elem_uint32 T 18"

definition MosaicSupplyChangeTransactionBuffer_Direction :: "fb_table \<Rightarrow> MosaicSupplyChangeTransactionBuffer \<Rightarrow> byte result" where [table_defs]:
  "MosaicSupplyChangeTransactionBuffer_Direction T = slot_byte T 20"

definition MosaicSupplyChangeTransactionBuffer_MutateDirection :: "fb_table \<Rightarrow> MosaicSupplyChangeTransactionBuffer \<Rightarrow> byte \<Rightarrow> (bool \<times> MosaicSupplyChangeTransactionBuffer) result" where [table_defs]:
  "MosaicSupplyChangeTransactionBuffer_MutateDirection T = (\<lambda>rcv. ft_MutateByteSlot T rcv 20)"

definition MosaicSupplyChangeTransactionBuffer_Delta :: "fb_table \<Rightarrow> MosaicSupplyChangeTransactionBuffer \<Rightarrow> int \<Rightarrow> u32 result" where [table_defs]:
  "MosaicSupplyChangeTransactionBuffer_Delta T = elem_uint32 T 22"

definition MosaicSupplyChangeTransactionBuffer_DeltaLength :: "fb_table \<Rightarrow> MosaicSupplyChangeTransactionBuffer \<Rightarrow> int result" where [table_defs]:
  "MosaicSupplyChangeTransactionBuffer_DeltaLength T = slot_len T 22"

definition MosaicSupplyChangeTransactionBuffer_MutateDelta :: "fb_table \<Rightarrow> MosaicSupplyChangeTransactionBuffer \<Rightarrow> int \<Rightarrow> u32 \<Rightarrow> (bool \<times> MosaicSupplyChangeTransactionBuffer) result" where [table_defs]:
  "MosaicSupplyChangeTransactionBuffer_MutateDelta T = set_elem_uint32 T 22"

definition MosaicSupplyChangeTransactionBuffer_columns :: "fb_table \<Rightarrow> column list" where [column_defs]:
  "MosaicSupplyChangeTransactionBuffer_columns T =
    [ColUint32 (MosaicSupplyChangeTransactionBuffer_Size T) (MosaicSupplyChangeTransactionBuffer_MutateSize T),
     ColBytes (MosaicSupplyChangeTransactionBuffer_SignatureBytes T) (MosaicSupplyChangeTransactionBuffer_SignatureLength T) (MosaicSupplyChangeTransactionBuffer_Signature T)
       (MosaicSupplyChangeTransactionBuffer_MutateSignature T),
     ColBytes (MosaicSupplyChangeTransactionBuffer_SignerBytes T) (MosaicSupplyChangeTransactionBuffer_SignerLength T) (MosaicSupplyChangeTransactionBuffer_Signer T)
       (MosaicSupplyChangeTransactionBuffer_MutateSigner T),
     ColUint32 (MosaicSupplyChangeTransactionBuffer_Version T) (MosaicSupplyChangeTransactionBuffer_MutateVersion T),
     ColUint16 (MosaicSupplyChangeTransactionBuffer_Type T) (MosaicSupplyChangeTransactionBuffer_MutateType T),
     ColWords (MosaicSupplyChangeTransactionBuffer_MaxFeeLength T) (MosaicSupplyChangeTransactionBuffer_MaxFee T)
       (MosaicSupplyChangeTransactionBuffer_MutateMaxFee T),
     ColWords (MosaicSupplyChangeTransactionBuffer_DeadlineLength T) (MosaicSupplyChangeTransactionBuffer_Deadline T)
       (MosaicSupplyChangeTransactionBuffer_MutateDeadline T),
     ColWords (MosaicSupplyChangeTransactionBuffer_MosaicIdLength T) (MosaicSupplyChangeTransactionBuffer_MosaicId T)
       (MosaicSupplyChangeTransactionBuffer_MutateMosaicId T),
     ColByte (MosaicSupplyChangeTransactionBuffer_Direction T) (MosaicSupplyChangeTransactionBuffer_MutateDirection T),
     ColWords (MosaicSupplyChangeTransactionBuffer_DeltaLength T) (MosaicSupplyChangeTransactionBuffer_Delta T)
       (MosaicSupplyChangeTransactionBuffer_MutateDelta T)]"

definition MosaicSupplyChangeTransactionBufferAddSize :: "'b fb_api \<Rightarrow> u32 \<Rightarrow> ('b, unit) fb_prog" where [fb_defs]:
  "MosaicSupplyChangeTransactionBufferAddSize F sz = fb_do (fb_PrependUint32Slot F 0 sz 0)"

definition MosaicSupplyChangeTransactionBufferAddSignature :: "'b fb_api \<Rightarrow> u32 \<Rightarrow> ('b, unit) fb_prog" where [fb_defs]:
  "MosaicSupplyChangeTransactionBufferAddSignature F signature = fb_do (fb_PrependUOffsetTSlot F 1 signature 0)"

definition MosaicSupplyChangeTransactionBufferStartSignatureVector :: "'b fb_api \<Rightarrow> nat \<Rightarrow> ('b, unit) fb_prog" where [fb_defs]:
  "MosaicSupplyChangeTransactionBufferStartSignatureVector F numElems = fb_do (fb_StartVector F 1 numElems 1)"

definition MosaicSupplyChangeTransactionBufferAddSigner :: "'b fb_api \<Rightarrow> u32 \<Rightarrow> ('b, unit) fb_prog" where [fb_defs]:
  "MosaicSupplyChangeTransactionBufferAddSigner F signer = fb_do (fb_PrependUOffsetTSlot F 2 signer 0)"

definition MosaicSupplyChangeTransactionBufferStartSignerVector :: "'b fb_api \<Rightarrow> nat \<Rightarrow> ('b, unit) fb_prog" where [fb_defs]:
  "MosaicSupplyChangeTransactionBufferStartSignerVector F numElems = fb_do (fb_StartVector F 1 numElems 1)"

definition MosaicSupplyChangeTransactionBufferAddVersion :: "'b fb_api \<Rightarrow> u32 \<Rightarrow> ('b, unit) fb_prog" where [fb_defs]:
  "MosaicSupplyChangeTransactionBufferAddVersion F version = fb_do (fb_PrependUint32Slot F 3 version 0)"

definition MosaicSupplyChangeTransactionBufferAddType :: "'b fb_api \<Rightarrow> u16 \<Rightarrow> ('b, unit) fb_prog" where [fb_defs]:
  "MosaicSupplyChangeTransactionBufferAddType F type_V = fb_do (fb_PrependUint16Slot F 4 type_V 0)"

definition MosaicSupplyChangeTransactionBufferAddMaxFee :: "'b fb_api \<Rightarrow> u32 \<Rightarrow> ('b, unit) fb_prog" where [fb_defs]:
  "MosaicSupplyChangeTransactionBufferAddMaxFee F maxFee = fb_do (fb_PrependUOffsetTSlot F 5 maxFee 0)"

definition MosaicSupplyChangeTransactionBufferStartMaxFeeVector :: "'b fb_api \<Rightarrow> nat \<Rightarrow> ('b, unit) fb_prog" where [fb_defs]:
  "MosaicSupplyChangeTransactionBufferStartMaxFeeVector F numElems = fb_do (fb_StartVector F 4 numElems 4)"

definition MosaicSupplyChangeTransactionBufferAddDeadline :: "'b fb_api \<Rightarrow> u32 \<Rightarrow> ('b, unit) fb_prog" where [fb_defs]:
  "MosaicSupplyChangeTransactionBufferAddDeadline F deadline = fb_do (fb_PrependUOffsetTSlot F 6 deadline 0)"

definition MosaicSupplyChangeTransactionBufferStartDeadlineVector :: "'b fb_api \<Rightarrow> nat \<Rightarrow> ('b, unit) fb_prog" where [fb_defs]:
  "MosaicSupplyChangeTransactionBufferStartDeadlineVector F numElems = fb_do (fb_StartVector F 4 numElems 4)"

definition MosaicSupplyChangeTransactionBufferStartMosaicIdVector :: "'b fb_api \<Rightarrow> nat \<Rightarrow> ('b, unit) fb_prog" where [fb_defs]:
  "MosaicSupplyChangeTransactionBufferStartMosaicIdVector F numElems = fb_do (fb_StartVector F 4 numElems 4)"

definition MosaicSupplyChangeTransactionBufferStartDeltaVector :: "'b fb_api \<Rightarrow> nat \<Rightarrow> ('b, unit) fb_prog" where [fb_defs]:
  "MosaicSupplyChangeTransactionBufferStartDeltaVector F numElems = fb_do (fb_StartVector F 4 numElems 4)"

definition MosaicSupplyChangeTransactionBufferEnd :: "'b fb_api \<Rightarrow> ('b, u32) fb_prog" where [fb_defs]:
  "MosaicSupplyChangeTransactionBufferEnd F = fb_call (fb_EndObject F)"

section \<open>\<open>transactions/register_namespace_transaction_buffer.go\<close>\<close>

type_synonym RegisterNamespaceTransactionBuffer = Table

definition GetRootAsRegisterNamespaceTransactionBuffer :: "fb_table \<Rightarrow> byte list \<Rightarrow> u32 \<Rightarrow> RegisterNamespaceTransactionBuffer result" where [table_defs]:
  "GetRootAsRegisterNamespaceTransactionBuffer T buf offset = table_root T buf offset"

definition RegisterNamespaceTransactionBuffer_Init :: "byte list \<Rightarrow> u32 \<Rightarrow> RegisterNamespaceTransactionBuffer" where
  "RegisterNamespaceTransactionBuffer_Init buf i = table_Init buf i"

definition RegisterNamespaceTransactionBuffer_Table :: "RegisterNamespaceTransactionBuffer \<Rightarrow> Table" where
  "RegisterNamespaceTransactionBuffer_Table rcv = rcv"

definition RegisterNamespaceTransactionBuffer_Size :: "fb_table \<Rightarrow> RegisterNamespaceTransactionBuffer \<Rightarrow> u32 result" where [table_defs]:
  "RegisterNamespaceTransactionBuffer_Size T = slot_uint32 T 4"

definition RegisterNamespaceTransactionBuffer_MutateSize :: "fb_table \<Rightarrow> RegisterNamespaceTransactionBuffer \<Rightarrow> u32 \<Rightarrow> (bool \<times> RegisterNamespaceTransactionBuffer) result" where [table_defs]:
  "RegisterNamespaceTransactionBuffer_MutateSize T = (\<lambda>rcv. ft_MutateUint32Slot T rcv 4)"

definition RegisterNamespaceTransactionBuffer_Signature :: "fb_table \<Rightarrow> RegisterNamespaceTransactionBuffer \<Rightarrow> int \<Rightarrow> byte result" where [table_defs]:
  "RegisterNamespaceTransactionBuffer_Signature T = elem_byte T 6"

definition RegisterNamespaceTransactionBuffer_SignatureLength :: "fb_table \<Rightarrow> RegisterNamespaceTransactionBuffer \<Rightarrow> int result" where [table_defs]:
  "RegisterNamespaceTransactionBuffer_SignatureLength T = slot_len T 6"

definition RegisterNamespaceTransactionBuffer_SignatureBytes :: "fb_table \<Rightarrow> RegisterNamespaceTransactionBuffer \<Rightarrow> byte list result" where [table_defs]:
  "RegisterNamespaceTransactionBuffer_SignatureBytes T = slot_bytes T 6"

definition RegisterNamespaceTransactionBuffer_MutateSignature :: "fb_table \<Rightarrow> RegisterNamespaceTransactionBuffer \<Rightarrow> int \<Rightarrow> byte \<Rightarrow> (bool \<times> RegisterNamespaceTransactionBuffer) result" where [table_defs]:
  "RegisterNamespaceTransactionBuffer_MutateSignature T = set_elem_byte T 6"

definition RegisterNamespaceTransactionBuffer_Signer :: "fb_table \<Rightarrow> RegisterNamespaceTransactionBuffer \<Rightarrow> int \<Rightarrow> byte result" where [table_defs]:
  "RegisterNamespaceTransactionBuffer_Signer T = elem_byte T 8"

definition RegisterNamespaceTransactionBuffer_SignerLength :: "fb_table \<Rightarrow> RegisterNamespaceTransactionBuffer \<Rightarrow> int result" where [table_defs]:
  "RegisterNamespaceTransactionBuffer_SignerLength T = slot_len T 8"

definition RegisterNamespaceTransactionBuffer_SignerBytes :: "fb_table \<Rightarrow> RegisterNamespaceTransactionBuffer \<Rightarrow> byte list result" where [table_defs]:
  "RegisterNamespaceTransactionBuffer_SignerBytes T = slot_bytes T 8"

definition RegisterNamespaceTransactionBuffer_MutateSigner :: "fb_table \<Rightarrow> RegisterNamespaceTransactionBuffer \<Rightarrow> int \<Rightarrow> byte \<Rightarrow> (bool \<times> RegisterNamespaceTransactionBuffer) result" where [table_defs]:
  "RegisterNamespaceTransactionBuffer_MutateSigner T = set_elem_byte T 8"

definition RegisterNamespaceTransactionBuffer_Version :: "fb_table \<Rightarrow> RegisterNamespaceTransactionBuffer \<Rightarrow> u32 result" where [table_defs]:
  "RegisterNamespaceTransactionBuffer_Version T = slot_uint32 T 10"

definition RegisterNamespaceTransactionBuffer_MutateVersion :: "fb_table \<Rightarrow> RegisterNamespaceTransactionBuffer \<Rightarrow> u32 \<Rightarrow> (bool \<times> RegisterNamespaceTransactionBuffer) result" where [table_defs]:
  "RegisterNamespaceTransactionBuffer_MutateVersion T = (\<lambda>rcv. ft_MutateUint32Slot T rcv 10)"

definition RegisterNamespaceTransactionBuffer_Type :: "fb_table \<Rightarrow> RegisterNamespaceTransactionBuffer \<Rightarrow> u16 result" where [table_defs]:
  "RegisterNamespaceTransactionBuffer_Type T = slot_uint16 T 12"

definition RegisterNamespaceTransactionBuffer_MutateType :: "fb_table \<Rightarrow> RegisterNamespaceTransactionBuffer \<Rightarrow> u16 \<Rightarrow> (bool \<times> RegisterNamespaceTransactionBuffer) result" where [table_defs]:
  "RegisterNamespaceTransactionBuffer_MutateType T = (\<lambda>rcv. ft_MutateUint16Slot T rcv 12)"

definition RegisterNamespaceTransactionBuffer_MaxFee :: "fb_table \<Rightarrow> RegisterNamespaceTransactionBuffer \<Rightarrow> int \<Rightarrow> u32 result" where [table_defs]:
  "RegisterNamespaceTransactionBuffer_MaxFee T = elem_uint32 T 14"

definition RegisterNamespaceTransactionBuffer_MaxFeeLength :: "fb_table \<Rightarrow> RegisterNamespaceTransactionBuffer \<Rightarrow> int result" where [table_defs]:
  "RegisterNamespaceTransactionBuffer_MaxFeeLength T = slot_len T 14"

definition RegisterNamespaceTransactionBuffer_MutateMaxFee :: "fb_table \<Rightarrow> RegisterNamespaceTransactionBuffer \<Rightarrow> int \<Rightarrow> u32 \<Rightarrow> (bool \<times> RegisterNamespaceTransactionBuffer) result" where [table_defs]:
  "RegisterNamespaceTransactionBuffer_MutateMaxFee T = set_elem_uint32 T 14"

definition RegisterNamespaceTransactionBuffer_Deadline :: "fb_table \<Rightarrow> RegisterNamespaceTransactionBuffer \<Rightarrow> int \<Rightarrow> u32 result" where [table_defs]:
  "RegisterNamespaceTransactionBuffer_Deadline T = elem_uint32 T 16"

definition RegisterNamespaceTransactionBuffer_DeadlineLength :: "fb_table \<Rightarrow> RegisterNamespaceTransactionBuffer \<Rightarrow> int result" where [table_defs]:
  "RegisterNamespaceTransactionBuffer_DeadlineLength T = slot_len T 16"

definition RegisterNamespaceTransactionBuffer_MutateDeadline :: "fb_table \<Rightarrow> RegisterNamespaceTransactionBuffer \<Rightarrow> int \<Rightarrow> u32 \<Rightarrow> (bool \<times> RegisterNamespaceTransactionBuffer) result" where [table_defs]:
  "RegisterNamespaceTransactionBuffer_MutateDeadline T = set_elem_uint32 T 16"

definition RegisterNamespaceTransactionBuffer_NamespaceType :: "fb_table \<Rightarrow> RegisterNamespaceTransactionBuffer \<Rightarrow> byte result" where [table_defs]:
  "RegisterNamespaceTransactionBuffer_NamespaceType T = slot_byte T 18"

definition RegisterNamespaceTransactionBuffer_MutateNamespaceType :: "fb_table \<Rightarrow> RegisterNamespaceTransactionBuffer \<Rightarrow> byte \<Rightarrow> (bool \<times> RegisterNamespaceTransactionBuffer) result" where [table_defs]:
  "RegisterNamespaceTransactionBuffer_MutateNamespaceType T = (\<lambda>rcv. ft_MutateByteSlot T rcv 18)"

definition RegisterNamespaceTransactionBuffer_DurationParentId :: "fb_table \<Rightarrow> RegisterNamespaceTransactionBuffer \<Rightarrow> int \<Rightarrow> u32 result" where [table_defs]:
  "RegisterNamespaceTransactionBuffer_DurationParentId T = elem_uint32 T 20"

definition RegisterNamespaceTransactionBuffer_DurationParentIdLength :: "fb_table \<Rightarrow> RegisterNamespaceTransactionBuffer \<Rightarrow> int result" where [table_defs]:
  "RegisterNamespaceTransactionBuffer_DurationParentIdLength T = slot_len T 20"

definition RegisterNamespaceTransactionBuffer_MutateDurationParentId :: "fb_table \<Rightarrow> RegisterNamespaceTransactionBuffer \<Rightarrow> int \<Rightarrow> u32 \<Rightarrow> (bool \<times> RegisterNamespaceTransactionBuffer) result" where [table_defs]:
  "RegisterNamespaceTransactionBuffer_MutateDurationParentId T = set_elem_uint32 T 20"

definition RegisterNamespaceTransactionBuffer_NamespaceId :: "fb_table \<Rightarrow> RegisterNamespaceTransactionBuffer \<Rightarrow> int \<Rightarrow> u32 result" where [table_defs]:
  "RegisterNamespaceTransactionBuffer_NamespaceId T = elem_uint32 T 22"

definition RegisterNamespaceTransactionBuffer_NamespaceIdLength :: "fb_table \<Rightarrow> RegisterNamespaceTransactionBuffer \<Rightarrow> int result" where [table_defs]:
  "RegisterNamespaceTransactionBuffer_NamespaceIdLength T = slot_len T 22"

definition RegisterNamespaceTransactionBuffer_MutateNamespaceId :: "fb_table \<Rightarrow> RegisterNamespaceTransactionBuffer \<Rightarrow> int \<Rightarrow> u32 \<Rightarrow> (bool \<times> RegisterNamespaceTransactionBuffer) result" where [table_defs]:
  "RegisterNamespaceTransactionBuffer_MutateNamespaceId T = set_elem_uint32 T 22"

definition RegisterNamespaceTransactionBuffer_NamespaceNameSize :: "fb_table \<Rightarrow> RegisterNamespaceTransactionBuffer \<Rightarrow> byte result" where [table_defs]:
  "RegisterNamespaceTransactionBuffer_NamespaceNameSize T = slot_byte T 24"

definition RegisterNamespaceTransactionBuffer_MutateNamespaceNameSize :: "fb_table \<Rightarrow> RegisterNamespaceTransactionBuffer \<Rightarrow> byte \<Rightarrow> (bool \<times> RegisterNamespaceTransactionBuffer) result" where [table_defs]:
  "RegisterNamespaceTransactionBuffer_MutateNamespaceNameSize T = (\<lambda>rcv. ft_MutateByteSlot T rcv 24)"

definition RegisterNamespaceTransactionBuffer_NamespaceName :: "fb_table \<Rightarrow> RegisterNamespaceTransactionBuffer \<Rightarrow> byte list result" where [table_defs]:
  "RegisterNamespaceTransactionBuffer_NamespaceName T = slot_bytes T 26"

definition RegisterNamespaceTransactionBuffer_columns :: "fb_table \<Rightarrow> column list" where [column_defs]:
  "RegisterNamespaceTransactionBuffer_columns T =
    [ColUint32 (RegisterNamespaceTransactionBuffer_Size T) (RegisterNamespaceTransactionBuffer_MutateSize T),
     ColBytes (RegisterNamespaceTransactionBuffer_SignatureBytes T) (RegisterNamespaceTransactionBuffer_SignatureLength T) (RegisterNamespaceTransactionBuffer_Signature T)
       (RegisterNamespaceTransactionBuffer_MutateSignature T),
     ColBytes (RegisterNamespaceTransactionBuffer_SignerBytes T) (RegisterNamespaceTransactionBuffer_SignerLength T) (RegisterNamespaceTransactionBuffer_Signer T)
       (RegisterNamespaceTransactionBuffer_MutateSigner T),
     ColUint32 (RegisterNamespaceTransactionBuffer_Version T) (RegisterNamespaceTransactionBuffer_MutateVersion T),
     ColUint16 (RegisterNamespaceTransactionBuffer_Type T) (RegisterNamespaceTransactionBuffer_MutateType T),
     ColWords (RegisterNamespaceTransactionBuffer_MaxFeeLength T) (RegisterNamespaceTransactionBuffer_MaxFee T)
       (RegisterNamespaceTransactionBuffer_MutateMaxFee T),
     ColWords (RegisterNamespaceTransactionBuffer_DeadlineLength T) (RegisterNamespaceTransactionBuffer_Deadline T)
       (RegisterNamespaceTransactionBuffer_MutateDeadline T),
     ColByte (RegisterNamespaceTransactionBuffer_NamespaceType T) (RegisterNamespaceTransactionBuffer_MutateNamespaceType T),
     ColWords (RegisterNamespaceTransactionBuffer_DurationParentIdLength T) (RegisterNamespaceTransactionBuffer_DurationParentId T)
       (RegisterNamespaceTransactionBuffer_MutateDurationParentId T),
     ColWords (RegisterNamespaceTransactionBuffer_NamespaceIdLength T) (RegisterNamespaceTransactionBuffer_NamespaceId T)
       (RegisterNamespaceTransactionBuffer_MutateNamespaceId T),
     ColByte (RegisterNamespaceTransactionBuffer_NamespaceNameSize T) (RegisterNamespaceTransactionBuffer_MutateNamespaceNameSize T),
     ColString (RegisterNamespaceTransactionBuffer_NamespaceName T)]"

definition RegisterNamespaceTransactionBufferAddSize :: "'b fb_api \<Rightarrow> u32 \<Rightarrow> ('b, unit) fb_prog" where [fb_defs]:
  "RegisterNamespaceTransactionBufferAddSize F sz = fb_do (fb_PrependUint32Slot F 0 sz 0)"

definition RegisterNamespaceTransactionBufferAddSignature :: "'b fb_api \<Rightarrow> u32 \<Rightarrow> ('b, unit) fb_prog" where [fb_defs]:
  "RegisterNamespaceTransactionBufferAddSignature F signature = fb_do (fb_PrependUOffsetTSlot F 1 signature 0)"

definition RegisterNamespaceTransactionBufferStartSignatureVector :: "'b fb_api \<Rightarrow> nat \<Rightarrow> ('b, unit) fb_prog" where [fb_defs]:
  "RegisterNamespaceTransactionBufferStartSignatureVector F numElems = fb_do (fb_StartVector F 1 numElems 1)"

definition RegisterNamespaceTransactionBufferAddSigner :: "'b fb_api \<Rightarrow> u32 \<Rightarrow> ('b, unit) fb_prog" where [fb_defs]:
  "RegisterNamespaceTransactionBufferAddSigner F signer = fb_do (fb_PrependUOffsetTSlot F 2 signer 0)"

definition RegisterNamespaceTransactionBufferStartSignerVector :: "'b fb_api \<Rightarrow> nat \<Rightarrow> ('b, unit) fb_prog" where [fb_defs]:
  "RegisterNamespaceTransactionBufferStartSignerVector F numElems = fb_do (fb_StartVector F 1 numElems 1)"

definition RegisterNamespaceTransactionBufferAddVersion :: "'b fb_api \<Rightarrow> u32 \<Rightarrow> ('b, unit) fb_prog" where [fb_defs]:
  "RegisterNamespaceTransactionBufferAddVersion F version = fb_do (fb_PrependUint32Slot F 3 version 0)"

definition RegisterNamespaceTransactionBufferAddType :: "'b fb_api \<Rightarrow> u16 \<Rightarrow> ('b, unit) fb_prog" where [fb_defs]:
  "RegisterNamespaceTransactionBufferAddType F type_V = fb_do (fb_PrependUint16Slot F 4 type_V 0)"

definition RegisterNamespaceTransactionBufferAddMaxFee :: "'b fb_api \<Rightarrow> u32 \<Rightarrow> ('b, unit) fb_prog" where [fb_defs]:
  "RegisterNamespaceTransactionBufferAddMaxFee F maxFee = fb_do (fb_PrependUOffsetTSlot F 5 maxFee 0)"

definition RegisterNamespaceTransactionBufferStartMaxFeeVector :: "'b fb_api \<Rightarrow> nat \<Rightarrow> ('b, unit) fb_prog" where [fb_defs]:
  "RegisterNamespaceTransactionBufferStartMaxFeeVector F numElems = fb_do (fb_StartVector F 4 numElems 4)"

definition RegisterNamespaceTransactionBufferAddDeadline :: "'b fb_api \<Rightarrow> u32 \<Rightarrow> ('b, unit) fb_prog" where [fb_defs]:
  "RegisterNamespaceTransactionBufferAddDeadline F deadline = fb_do (fb_PrependUOffsetTSlot F 6 deadline 0)"

definition RegisterNamespaceTransactionBufferStartDeadlineVector :: "'b fb_api \<Rightarrow> nat \<Rightarrow> ('b, unit) fb_prog" where [fb_defs]:
  "RegisterNamespaceTransactionBufferStartDeadlineVector F numElems = fb_do (fb_StartVector F 4 numElems 4)"

definition RegisterNamespaceTransactionBufferStartDurationParentIdVector :: "'b fb_api \<Rightarrow> nat \<Rightarrow> ('b, unit) fb_prog" where [fb_defs]:
  "RegisterNamespaceTransactionBufferStartDurationParentIdVector F numElems = fb_do (fb_StartVector F 4 numElems 4)"

definition RegisterNamespaceTransactionBufferStartNamespaceIdVector :: "'b fb_api \<Rightarrow> nat \<Rightarrow> ('b, unit) fb_prog" where [fb_defs]:
  "RegisterNamespaceTransactionBufferStartNamespaceIdVector F numElems = fb_do (fb_StartVector F 4 numElems 4)"

definition RegisterNamespaceTransactionBufferEnd :: "'b fb_api \<Rightarrow> ('b, u32) fb_prog" where [fb_defs]:
  "RegisterNamespaceTransactionBufferEnd F = fb_call (fb_EndObject F)"

section \<open>\<open>transactions/modify_metadata_transaction_buffer.go\<close>\<close>

type_synonym MetadataModificationBuffer = Table

definition GetRootAsMetadataModificationBuffer :: "fb_table \<Rightarrow> byte list \<Rightarrow> u32 \<Rightarrow> MetadataModificationBuffer result" where [table_defs]:
  "GetRootAsMetadataModificationBuffer T buf offset = table_root T buf offset"

definition MetadataModificationBuffer_Init :: "byte list \<Rightarrow> u32 \<Rightarrow> MetadataModificationBuffer" where
  "MetadataModificationBuffer_Init buf i = table_Init buf i"

definition MetadataModificationBuffer_Table :: "MetadataModificationBuffer \<Rightarrow> Table" where
  "MetadataModificationBuffer_Table rcv = rcv"

definition MetadataModificationBuffer_Size :: "fb_table \<Rightarrow> MetadataModificationBuffer \<Rightarrow> u32 result" where [table_defs]:
  "MetadataModificationBuffer_Size T = slot_uint32 T 4"

definition MetadataModificationBuffer_MutateSize :: "fb_table \<Rightarrow> MetadataModificationBuffer \<Rightarrow> u32 \<Rightarrow> (bool \<times> MetadataModificationBuffer) result" where [table_defs]:
  "MetadataModificationBuffer_MutateSize T = (\<lambda>rcv. ft_MutateUint32Slot T rcv 4)"

definition MetadataModificationBuffer_ModificationType :: "fb_table \<Rightarrow> MetadataModificationBuffer \<Rightarrow> byte result" where [table_defs]:
  "MetadataModificationBuffer_ModificationType T = slot_byte T 6"

definition MetadataModificationBuffer_MutateModificationType :: "fb_table \<Rightarrow> MetadataModificationBuffer \<Rightarrow> byte \<Rightarrow> (bool \<times> MetadataModificationBuffer) result" where [table_defs]:
  "MetadataModificationBuffer_MutateModificationType T = (\<lambda>rcv. ft_MutateByteSlot T rcv 6)"

definition MetadataModificationBuffer_KeySize :: "fb_table \<Rightarrow> MetadataModificationBuffer \<Rightarrow> byte result" where [table_defs]:
  "MetadataModificationBuffer_KeySize T = slot_byte T 8"

definition MetadataModificationBuffer_MutateKeySize :: "fb_table \<Rightarrow> MetadataModificationBuffer \<Rightarrow> byte \<Rightarrow> (bool \<times> MetadataModificationBuffer) result" where [table_defs]:
  "MetadataModificationBuffer_MutateKeySize T = (\<lambda>rcv. ft_MutateByteSlot T rcv 8)"

definition MetadataModificationBuffer_ValueSize :: "fb_table \<Rightarrow> MetadataModificationBuffer \<Rightarrow> int \<Rightarrow> byte result" where [table_defs]:
  "MetadataModificationBuffer_ValueSize T = elem_byte T 10"

definition MetadataModificationBuffer_ValueSizeLength :: "fb_table \<Rightarrow> MetadataModificationBuffer \<Rightarrow> int result" where [table_defs]:
  "MetadataModificationBuffer_ValueSizeLength T = slot_len T 10"

definition MetadataModificationBuffer_ValueSizeBytes :: "fb_table \<Rightarrow> MetadataModificationBuffer \<Rightarrow> byte list result" where [table_defs]:
  "MetadataModificationBuffer_ValueSizeBytes T = slot_bytes T 10"

definition MetadataModificationBuffer_MutateValueSize :: "fb_table \<Rightarrow> MetadataModificationBuffer \<Rightarrow> int \<Rightarrow> byte \<Rightarrow> (bool \<times> MetadataModificationBuffer) result" where [table_defs]:
  "MetadataModificationBuffer_MutateValueSize T = set_elem_byte T 10"

definition MetadataModificationBuffer_Key :: "fb_table \<Rightarrow> MetadataModificationBuffer \<Rightarrow> int \<Rightarrow> byte result" where [table_defs]:
  "MetadataModificationBuffer_Key T = elem_byte T 12"

definition MetadataModificationBuffer_KeyLength :: "fb_table \<Rightarrow> MetadataModificationBuffer \<Rightarrow> int result" where [table_defs]:
  "MetadataModificationBuffer_KeyLength T = slot_len T 12"

definition MetadataModificationBuffer_KeyBytes :: "fb_table \<Rightarrow> MetadataModificationBuffer \<Rightarrow> byte list result" where [table_defs]:
  "MetadataModificationBuffer_KeyBytes T = slot_bytes T 12"

definition MetadataModificationBuffer_MutateKey :: "fb_table \<Rightarrow> MetadataModificationBuffer \<Rightarrow> int \<Rightarrow> byte \<Rightarrow> (bool \<times> MetadataModificationBuffer) result" where [table_defs]:
  "MetadataModificationBuffer_MutateKey T = set_elem_byte T 12"

definition MetadataModificationBuffer_Value :: "fb_table \<Rightarrow> MetadataModificationBuffer \<Rightarrow> int \<Rightarrow> byte result" where [table_defs]:
  "MetadataModificationBuffer_Value T = elem_byte T 14"

definition MetadataModificationBuffer_ValueLength :: "fb_table \<Rightarrow> MetadataModificationBuffer \<Rightarrow> int result" where [table_defs]:
  "MetadataModificationBuffer_ValueLength T = slot_len T 14"

definition MetadataModificationBuffer_ValueBytes :: "fb_table \<Rightarrow> MetadataModificationBuffer \<Rightarrow> byte list result" where [table_defs]:
  "MetadataModificationBuffer_ValueBytes T = slot_bytes T 14"

definition MetadataModificationBuffer_MutateValue :: "fb_table \<Rightarrow> MetadataModificationBuffer \<Rightarrow> int \<Rightarrow> byte \<Rightarrow> (bool \<times> MetadataModificationBuffer) result" where [table_defs]:
  "MetadataModificationBuffer_MutateValue T = set_elem_byte T 14"

definition MetadataModificationBuffer_columns :: "fb_table \<Rightarrow> column list" where [column_defs]:
  "MetadataModificationBuffer_columns T =
    [ColUint32 (MetadataModificationBuffer_Size T) (MetadataModificationBuffer_MutateSize T),
     ColByte (MetadataModificationBuffer_ModificationType T) (MetadataModificationBuffer_MutateModificationType T),
     ColByte (MetadataModificationBuffer_KeySize T) (MetadataModificationBuffer_MutateKeySize T),
     ColBytes (MetadataModificationBuffer_ValueSizeBytes T) (MetadataModificationBuffer_ValueSizeLength T) (MetadataModificationBuffer_ValueSize T)
       (MetadataModificationBuffer_MutateValueSize T),
     ColBytes (MetadataModificationBuffer_KeyBytes T) (MetadataModificationBuffer_KeyLength T) (MetadataModificationBuffer_Key T)
       (MetadataModificationBuffer_MutateKey T),
     ColBytes (MetadataModificationBuffer_ValueBytes T) (MetadataModificationBuffer_ValueLength T) (MetadataModificationBuffer_Value T)
       (MetadataModificationBuffer_MutateValue T)]"

type_synonym ModifyMetadataTransactionBuffer = Table

definition GetRootAsModifyMetadataTransactionBuffer :: "fb_table \<Rightarrow> byte list \<Rightarrow> u32 \<Rightarrow> ModifyMetadataTransactionBuffer result" where [table_defs]:
  "GetRootAsModifyMetadataTransactionBuffer T buf offset = table_root T buf offset"

definition ModifyMetadataTransactionBuffer_Init :: "byte list \<Rightarrow> u32 \<Rightarrow> ModifyMetadataTransactionBuffer" where
  "ModifyMetadataTransactionBuffer_Init buf i = table_Init buf i"

definition ModifyMetadataTransactionBuffer_Table :: "ModifyMetadataTransactionBuffer \<Rightarrow> Table" where
  "ModifyMetadataTransactionBuffer_Table rcv = rcv"

definition ModifyMetadataTransactionBuffer_Size :: "fb_table \<Rightarrow> ModifyMetadataTransactionBuffer \<Rightarrow> u32 result" where [table_defs]:
  "ModifyMetadataTransactionBuffer_Size T = slot_uint32 T 4"

definition ModifyMetadataTransactionBuffer_MutateSize :: "fb_table \<Rightarrow> ModifyMetadataTransactionBuffer \<Rightarrow> u32 \<Rightarrow> (bool \<times> ModifyMetadataTransactionBuffer) result" where [table_defs]:
  "ModifyMetadataTransactionBuffer_MutateSize T = (\<lambda>rcv. ft_MutateUint32Slot T rcv 4)"

definition ModifyMetadataTransactionBuffer_Signature :: "fb_table \<Rightarrow> ModifyMetadataTransactionBuffer \<Rightarrow> int \<Rightarrow> byte result" where [table_defs]:
  "ModifyMetadataTransactionBuffer_Signature T = elem_byte T 6"

definition ModifyMetadataTransactionBuffer_SignatureLength :: "fb_table \<Rightarrow> ModifyMetadataTransactionBuffer \<Rightarrow> int result" where [table_defs]:
  "ModifyMetadataTransactionBuffer_SignatureLength T = slot_len T 6"

definition ModifyMetadataTransactionBuffer_SignatureBytes :: "fb_table \<Rightarrow> ModifyMetadataTransactionBuffer \<Rightarrow> byte list result" where [table_defs]:
  "ModifyMetadataTransactionBuffer_SignatureBytes T = slot_bytes T 6"

definition ModifyMetadataTransactionBuffer_MutateSignature :: "fb_table \<Rightarrow> ModifyMetadataTransactionBuffer \<Rightarrow> int \<Rightarrow> byte \<Rightarrow> (bool \<times> ModifyMetadataTransactionBuffer) result" where [table_defs]:
  "ModifyMetadataTransactionBuffer_MutateSignature T = set_elem_byte T 6"

definition ModifyMetadataTransactionBuffer_Signer :: "fb_table \<Rightarrow> ModifyMetadataTransactionBuffer \<Rightarrow> int \<Rightarrow> byte result" where [table_defs]:
  "ModifyMetadataTransactionBuffer_Signer T = elem_byte T 8"

definition ModifyMetadataTransactionBuffer_SignerLength :: "fb_table \<Rightarrow> ModifyMetadataTransactionBuffer \<Rightarrow> int result" where [table_defs]:
  "ModifyMetadataTransactionBuffer_SignerLength T = slot_len T 8"

definition ModifyMetadataTransactionBuffer_SignerBytes :: "fb_table \<Rightarrow> ModifyMetadataTransactionBuffer \<Rightarrow> byte list result" where [table_defs]:
  "ModifyMetadataTransactionBuffer_SignerBytes T = slot_bytes T 8"

definition ModifyMetadataTransactionBuffer_MutateSigner :: "fb_table \<Rightarrow> ModifyMetadataTransactionBuffer \<Rightarrow> int \<Rightarrow> byte \<Rightarrow> (bool \<times> ModifyMetadataTransactionBuffer) result" where [table_defs]:
  "ModifyMetadataTransactionBuffer_MutateSigner T = set_elem_byte T 8"

definition ModifyMetadataTransactionBuffer_Version :: "fb_table \<Rightarrow> ModifyMetadataTransactionBuffer \<Rightarrow> u32 result" where [table_defs]:
  "ModifyMetadataTransactionBuffer_Version T = slot_uint32 T 10"

definition ModifyMetadataTransactionBuffer_MutateVersion :: "fb_table \<Rightarrow> ModifyMetadataTransactionBuffer \<Rightarrow> u32 \<Rightarrow> (bool \<times> ModifyMetadataTransactionBuffer) result" where [table_defs]:
  "ModifyMetadataTransactionBuffer_MutateVersion T = (\<lambda>rcv. ft_MutateUint32Slot T rcv 10)"

definition ModifyMetadataTransactionBuffer_Type :: "fb_table \<Rightarrow> ModifyMetadataTransactionBuffer \<Rightarrow> u16 result" where [table_defs]:
  "ModifyMetadataTransactionBuffer_Type T = slot_uint16 T 12"

definition ModifyMetadataTransactionBuffer_MutateType :: "fb_table \<Rightarrow> ModifyMetadataTransactionBuffer \<Rightarrow> u16 \<Rightarrow> (bool \<times> ModifyMetadataTransactionBuffer) result" where [table_defs]:
  "ModifyMetadataTransactionBuffer_MutateType T = (\<lambda>rcv. ft_MutateUint16Slot T rcv 12)"

definition ModifyMetadataTransactionBuffer_MaxFee :: "fb_table \<Rightarrow> ModifyMetadataTransactionBuffer \<Rightarrow> int \<Rightarrow> u32 result" where [table_defs]:
  "ModifyMetadataTransactionBuffer_MaxFee T = elem_uint32 T 14"

definition ModifyMetadataTransactionBuffer_MaxFeeLength :: "fb_table \<Rightarrow> ModifyMetadataTransactionBuffer \<Rightarrow> int result" where [table_defs]:
  "ModifyMetadataTransactionBuffer_MaxFeeLength T = slot_len T 14"

definition ModifyMetadataTransactionBuffer_MutateMaxFee :: "fb_table \<Rightarrow> ModifyMetadataTransactionBuffer \<Rightarrow> int \<Rightarrow> u32 \<Rightarrow> (bool \<times> ModifyMetadataTransactionBuffer) result" where [table_defs]:
  "ModifyMetadataTransactionBuffer_MutateMaxFee T = set_elem_uint32 T 14"

definition ModifyMetadataTransactionBuffer_Deadline :: "fb_table \<Rightarrow> ModifyMetadataTransactionBuffer \<Rightarrow> int \<Rightarrow> u32 result" where [table_defs]:
  "ModifyMetadataTransactionBuffer_Deadline T = elem_uint32 T 16"

definition ModifyMetadataTransactionBuffer_DeadlineLength :: "fb_table \<Rightarrow> ModifyMetadataTransactionBuffer \<Rightarrow> int result" where [table_defs]:
  "ModifyMetadataTransactionBuffer_DeadlineLength T = slot_len T 16"

definition ModifyMetadataTransactionBuffer_MutateDeadline :: "fb_table \<Rightarrow> ModifyMetadataTransactionBuffer \<Rightarrow> int \<Rightarrow> u32 \<Rightarrow> (bool \<times> ModifyMetadataTransactionBuffer) result" where [table_defs]:
  "ModifyMetadataTransactionBuffer_MutateDeadline T = set_elem_uint32 T 16"

definition ModifyMetadataTransactionBuffer_MetadataType :: "fb_table \<Rightarrow> ModifyMetadataTransactionBuffer \<Rightarrow> byte result" where [table_defs]:
  "ModifyMetadataTransactionBuffer_MetadataType T = slot_byte T 18"

definition ModifyMetadataTransactionBuffer_MutateMetadataType :: "fb_table \<Rightarrow> ModifyMetadataTransactionBuffer \<Rightarrow> byte \<Rightarrow> (bool \<times> ModifyMetadataTransactionBuffer) result" where [table_defs]:
  "ModifyMetadataTransactionBuffer_MutateMetadataType T = (\<lambda>rcv. ft_MutateByteSlot T rcv 18)"

definition ModifyMetadataTransactionBuffer_MetadataId :: "fb_table \<Rightarrow> ModifyMetadataTransactionBuffer \<Rightarrow> int \<Rightarrow> byte result" where [table_defs]:
  "ModifyMetadataTransactionBuffer_MetadataId T = elem_byte T 20"

definition ModifyMetadataTransactionBuffer_MetadataIdLength :: "fb_table \<Rightarrow> ModifyMetadataTransactionBuffer \<Rightarrow> int result" where [table_defs]:
  "ModifyMetadataTransactionBuffer_MetadataIdLength T = slot_len T 20"

definition ModifyMetadataTransactionBuffer_MetadataIdBytes :: "fb_table \<Rightarrow> ModifyMetadataTransactionBuffer \<Rightarrow> byte list result" where [table_defs]:
  "ModifyMetadataTransactionBuffer_MetadataIdBytes T = slot_bytes T 20"

definition ModifyMetadataTransactionBuffer_MutateMetadataId :: "fb_table \<Rightarrow> ModifyMetadataTransactionBuffer \<Rightarrow> int \<Rightarrow> byte \<Rightarrow> (bool \<times> ModifyMetadataTransactionBuffer) result" where [table_defs]:
  "ModifyMetadataTransactionBuffer_MutateMetadataId T = set_elem_byte T 20"

definition ModifyMetadataTransactionBuffer_Modifications :: "fb_table \<Rightarrow> ModifyMetadataTransactionBuffer \<Rightarrow> MetadataModificationBuffer \<Rightarrow> int \<Rightarrow> (bool \<times> MetadataModificationBuffer) result" where [table_defs]:
  "ModifyMetadataTransactionBuffer_Modifications T = elem_table T 22"

definition ModifyMetadataTransactionBuffer_ModificationsLength :: "fb_table \<Rightarrow> ModifyMetadataTransactionBuffer \<Rightarrow> int result" where [table_defs]:
  "ModifyMetadataTransactionBuffer_ModificationsLength T = slot_len T 22"

definition ModifyMetadataTransactionBuffer_columns :: "fb_table \<Rightarrow> column list" where [column_defs]:
  "ModifyMetadataTransactionBuffer_columns T =
    [ColUint32 (ModifyMetadataTransactionBuffer_Size T) (ModifyMetadataTransactionBuffer_MutateSize T),
     ColBytes (ModifyMetadataTransactionBuffer_SignatureBytes T) (ModifyMetadataTransactionBuffer_SignatureLength T) (ModifyMetadataTransactionBuffer_Signature T)
       (ModifyMetadataTransactionBuffer_MutateSignature T),
     ColBytes (ModifyMetadataTransactionBuffer_SignerBytes T) (ModifyMetadataTransactionBuffer_SignerLength T) (ModifyMetadataTransactionBuffer_Signer T)
       (ModifyMetadataTransactionBuffer_MutateSigner T),
     ColUint32 (ModifyMetadataTransactionBuffer_Version T) (ModifyMetadataTransactionBuffer_MutateVersion T),
     ColUint16 (ModifyMetadataTransactionBuffer_Type T) (ModifyMetadataTransactionBuffer_MutateType T),
     ColWords (ModifyMetadataTransactionBuffer_MaxFeeLength T) (ModifyMetadataTransactionBuffer_MaxFee T)
       (ModifyMetadataTransactionBuffer_MutateMaxFee T),
     ColWords (ModifyMetadataTransactionBuffer_DeadlineLength T) (ModifyMetadataTransactionBuffer_Deadline T)
       (ModifyMetadataTransactionBuffer_MutateDeadline T),
     ColByte (ModifyMetadataTransactionBuffer_MetadataType T) (ModifyMetadataTransactionBuffer_MutateMetadataType T),
     ColBytes (ModifyMetadataTransactionBuffer_MetadataIdBytes T) (ModifyMetadataTransactionBuffer_MetadataIdLength T) (ModifyMetadataTransactionBuffer_MetadataId T)
       (ModifyMetadataTransactionBuffer_MutateMetadataId T),
     ColTables (ModifyMetadataTransactionBuffer_ModificationsLength T) (ModifyMetadataTransactionBuffer_Modifications T)
       (MetadataModificationBuffer_columns T)]"

definition MetadataModificationBufferStartValueSizeVector :: "'b fb_api \<Rightarrow> nat \<Rightarrow> ('b, unit) fb_prog" where [fb_defs]:
  "MetadataModificationBufferStartValueSizeVector F numElems = fb_do (fb_StartVector F 1 numElems 1)"

definition MetadataModificationBufferStartKeyVector :: "'b fb_api \<Rightarrow> nat \<Rightarrow> ('b, unit) fb_prog" where [fb_defs]:
  "MetadataModificationBufferStartKeyVector F numElems = fb_do (fb_StartVector F 1 numElems 1)"

definition MetadataModificationBufferStartValueVector :: "'b fb_api \<Rightarrow> nat \<Rightarrow> ('b, unit) fb_prog" where [fb_defs]:
  "MetadataModificationBufferStartValueVector F numElems = fb_do (fb_StartVector F 1 numElems 1)"

definition ModifyMetadataTransactionBufferAddSize :: "'b fb_api \<Rightarrow> u32 \<Rightarrow> ('b, unit) fb_prog" where [fb_defs]:
  "ModifyMetadataTransactionBufferAddSize F sz = fb_do (fb_PrependUint32Slot F 0 sz 0)"

definition ModifyMetadataTransactionBufferAddSignature :: "'b fb_api \<Rightarrow> u32 \<Rightarrow> ('b, unit) fb_prog" where [fb_defs]:
  "ModifyMetadataTransactionBufferAddSignature F signature = fb_do (fb_PrependUOffsetTSlot F 1 signature 0)"

definition ModifyMetadataTransactionBufferStartSignatureVector :: "'b fb_api \<Rightarrow> nat \<Rightarrow> ('b, unit) fb_prog" where [fb_defs]:
  "ModifyMetadataTransactionBufferStartSignatureVector F numElems = fb_do (fb_StartVector F 1 numElems 1)"

definition ModifyMetadataTransactionBufferAddSigner :: "'b fb_api \<Rightarrow> u32 \<Rightarrow> ('b, unit) fb_prog" where [fb_defs]:
  "ModifyMetadataTransactionBufferAddSigner F signer = fb_do (fb_PrependUOffsetTSlot F 2 signer 0)"

definition ModifyMetadataTransactionBufferStartSignerVector :: "'b fb_api \<Rightarrow> nat \<Rightarrow> ('b, unit) fb_prog" where [fb_defs]:
  "ModifyMetadataTransactionBufferStartSignerVector F numElems = fb_do (fb_StartVector F 1 numElems 1)"

definition ModifyMetadataTransactionBufferAddVersion :: "'b fb_api \<Rightarrow> u32 \<Rightarrow> ('b, unit) fb_prog" where [fb_defs]:
  "ModifyMetadataTransactionBufferAddVersion F version = fb_do (fb_PrependUint32Slot F 3 version 0)"

definition ModifyMetadataTransactionBufferAddType :: "'b fb_api \<Rightarrow> u16 \<Rightarrow> ('b, unit) fb_prog" where [fb_defs]:
  "ModifyMetadataTransactionBufferAddType F type_V = fb_do (fb_PrependUint16Slot F 4 type_V 0)"

definition ModifyMetadataTransactionBufferAddMaxFee :: "'b fb_api \<Rightarrow> u32 \<Rightarrow> ('b, unit) fb_prog" where [fb_defs]:
  "ModifyMetadataTransactionBufferAddMaxFee F maxFee = fb_do (fb_PrependUOffsetTSlot F 5 maxFee 0)"

definition ModifyMetadataTransactionBufferStartMaxFeeVector :: "'b fb_api \<Rightarrow> nat \<Rightarrow> ('b, unit) fb_prog" where [fb_defs]:
  "ModifyMetadataTransactionBufferStartMaxFeeVector F numElems = fb_do (fb_StartVector F 4 numElems 4)"

definition ModifyMetadataTransactionBufferAddDeadline :: "'b fb_api \<Rightarrow> u32 \<Rightarrow> ('b, unit) fb_prog" where [fb_defs]:
  "ModifyMetadataTransactionBufferAddDeadline F deadline = fb_do (fb_PrependUOffsetTSlot F 6 deadline 0)"

definition ModifyMetadataTransactionBufferStartDeadlineVector :: "'b fb_api \<Rightarrow> nat \<Rightarrow> ('b, unit) fb_prog" where [fb_defs]:
  "ModifyMetadataTransactionBufferStartDeadlineVector F numElems = fb_do (fb_StartVector F 4 numElems 4)"

definition ModifyMetadataTransactionBufferStartMetadataIdVector :: "'b fb_api \<Rightarrow> nat \<Rightarrow> ('b, unit) fb_prog" where [fb_defs]:
  "ModifyMetadataTransactionBufferStartMetadataIdVector F numElems = fb_do (fb_StartVector F 1 numElems 1)"

definition ModifyMetadataTransactionBufferStartModificationsVector :: "'b fb_api \<Rightarrow> nat \<Rightarrow> ('b, unit) fb_prog" where [fb_defs]:
  "ModifyMetadataTransactionBufferStartModificationsVector F numElems = fb_do (fb_StartVector F 4 numElems 4)"

definition ModifyMetadataTransactionBufferEnd :: "'b fb_api \<Rightarrow> ('b, u32) fb_prog" where [fb_defs]:
  "ModifyMetadataTransactionBufferEnd F = fb_call (fb_EndObject F)"

end
