(* ===== verification/TablesChain.thy ===== *)
theory TablesChain
  imports TablesAssets
begin

text \<open>
  The accessors of the generated tables (\<open>transactions/*_buffer.go\<close>) of aggregates, upgrades and network configurations: how a buffer of the table is
  read and changed in place, and the generated functions that write it as far as \<open>TxBuffers\<close> does not have them already.
  \<open>StartVector\<close> also returns an offset, which is dropped. \<open>X_columns\<close> lists the accessors of the table \<open>X\<close> by slot.
\<close>

section \<open>\<open>transactions/aggregate_transaction_buffer.go\<close>\<close>

type_synonym AggregateTransactionBuffer = Table

definition GetRootAsAggregateTransactionBuffer :: "fb_table \<Rightarrow> byte list \<Rightarrow> u32 \<Rightarrow> AggregateTransactionBuffer result" where [table_defs]:
  "GetRootAsAggregateTransactionBuffer T buf offset = table_root T buf offset"

definition AggregateTransactionBuffer_Init :: "byte list \<Rightarrow> u32 \<Rightarrow> AggregateTransactionBuffer" where
  "AggregateTransactionBuffer_Init buf i = table_Init buf i"

definition AggregateTransactionBuffer_Table :: "AggregateTransactionBuffer \<Rightarrow> Table" where
  "AggregateTransactionBuffer_Table rcv = rcv"

definition AggregateTransactionBuffer_Size :: "fb_table \<Rightarrow> AggregateTransactionBuffer \<Rightarrow> u32 result" where [table_defs]:
  "AggregateTransactionBuffer_Size T = slot_uint32 T 4"

definition AggregateTransactionBuffer_MutateSize :: "fb_table \<Rightarrow> AggregateTransactionBuffer \<Rightarrow> u32 \<Rightarrow> (bool \<times> AggregateTransactionBuffer) result" where [table_defs]:
  "AggregateTransactionBuffer_MutateSize T = (\<lambda>rcv. ft_MutateUint32Slot T rcv 4)"

definition AggregateTransactionBuffer_Signature :: "fb_table \<Rightarrow> AggregateTransactionBuffer \<Rightarrow> int \<Rightarrow> byte result" where [table_defs]:
  "AggregateTransactionBuffer_Signature T = elem_byte T 6"

definition AggregateTransactionBuffer_SignatureLength :: "fb_table \<Rightarrow> AggregateTransactionBuffer \<Rightarrow> int result" where [table_defs]:
  "AggregateTransactionBuffer_SignatureLength T = slot_len T 6"

definition AggregateTransactionBuffer_SignatureBytes :: "fb_table \<Rightarrow> AggregateTransactionBuffer \<Rightarrow> byte list result" where [table_defs]:
  "AggregateTransactionBuffer_SignatureBytes T = slot_bytes T 6"

definition AggregateTransactionBuffer_MutateSignature :: "fb_table \<Rightarrow> AggregateTransactionBuffer \<Rightarrow> int \<Rightarrow> byte \<Rightarrow> (bool \<times> AggregateTransactionBuffer) result" where [table_defs]:
  "AggregateTransactionBuffer_MutateSignature T = set_elem_byte T 6"

definition AggregateTransactionBuffer_Signer :: "fb_table \<Rightarrow> AggregateTransactionBuffer \<Rightarrow> int \<Rightarrow> byte result" where [table_defs]:
  "AggregateTransactionBuffer_Signer T = elem_byte T 8"

definition AggregateTransactionBuffer_SignerLength :: "fb_table \<Rightarrow> AggregateTransactionBuffer \<Rightarrow> int result" where [table_defs]:
  "AggregateTransactionBuffer_SignerLength T = slot_len T 8"

definition AggregateTransactionBuffer_SignerBytes :: "fb_table \<Rightarrow> AggregateTransactionBuffer \<Rightarrow> byte list result" where [table_defs]:
  "AggregateTransactionBuffer_SignerBytes T = slot_bytes T 8"

definition AggregateTransactionBuffer_MutateSigner :: "fb_table \<Rightarrow> AggregateTransactionBuffer \<Rightarrow> int \<Rightarrow> byte \<Rightarrow> (bool \<times> AggregateTransactionBuffer) result" where [table_defs]:
  "AggregateTransactionBuffer_MutateSigner T = set_elem_byte T 8"

definition AggregateTransactionBuffer_Version :: "fb_table \<Rightarrow> AggregateTransactionBuffer \<Rightarrow> u32 result" where [table_defs]:
  "AggregateTransactionBuffer_Version T = slot_uint32 T 10"

definition AggregateTransactionBuffer_MutateVersion :: "fb_table \<Rightarrow> AggregateTransactionBuffer \<Rightarrow> u32 \<Rightarrow> (bool \<times> AggregateTransactionBuffer) result" where [table_defs]:
  "AggregateTransactionBuffer_MutateVersion T = (\<lambda>rcv. ft_MutateUint32Slot T rcv 10)"

definition AggregateTransactionBuffer_Type :: "fb_table \<Rightarrow> AggregateTransactionBuffer \<Rightarrow> u16 result" where [table_defs]:
  "AggregateTransactionBuffer_Type T = slot_uint16 T 12"

definition AggregateTransactionBuffer_MutateType :: "fb_table \<Rightarrow> AggregateTransactionBuffer \<Rightarrow> u16 \<Rightarrow> (bool \<times> AggregateTransactionBuffer) result" where [table_defs]:
  "AggregateTransactionBuffer_MutateType T = (\<lambda>rcv. ft_MutateUint16Slot T rcv 12)"

definition AggregateTransactionBuffer_MaxFee :: "fb_table \<Rightarrow> AggregateTransactionBuffer \<Rightarrow> int \<Rightarrow> u32 result" where [table_defs]:
  "AggregateTransactionBuffer_MaxFee T = elem_uint32 T 14"

definition AggregateTransactionBuffer_MaxFeeLength :: "fb_table \<Rightarrow> AggregateTransactionBuffer \<Rightarrow> int result" where [table_defs]:
  "AggregateTransactionBuffer_MaxFeeLength T = slot_len T 14"

definition AggregateTransactionBuffer_MutateMaxFee :: "fb_table \<Rightarrow> AggregateTransactionBuffer \<Rightarrow> int \<Rightarrow> u32 \<Rightarrow> (bool \<times> AggregateTransactionBuffer) result" where [table_defs]:
  "AggregateTransactionBuffer_MutateMaxFee T = set_elem_uint32 T 14"

definition AggregateTransactionBuffer_Deadline :: "fb_table \<Rightarrow> AggregateTransactionBuffer \<Rightarrow> int \<Rightarrow> u32 result" where [table_defs]:
  "AggregateTransactionBuffer_Deadline T = elem_uint32 T 16"

definition AggregateTransactionBuffer_DeadlineLength :: "fb_table \<Rightarrow> AggregateTransactionBuffer \<Rightarrow> int result" where [table_defs]:
  "AggregateTransactionBuffer_DeadlineLength T = slot_len T 16"

definition AggregateTransactionBuffer_MutateDeadline :: "fb_table \<Rightarrow> AggregateTransactionBuffer \<Rightarrow> int \<Rightarrow> u32 \<Rightarrow> (bool \<times> AggregateTransactionBuffer) result" where [table_defs]:
  "AggregateTransactionBuffer_MutateDeadline T = set_elem_uint32 T 16"

definition AggregateTransactionBuffer_TransactionsSize :: "fb_table \<Rightarrow> AggregateTransactionBuffer \<Rightarrow> u32 result" where [table_defs]:
  "AggregateTransactionBuffer_TransactionsSize T = slot_uint32 T 18"

definition AggregateTransactionBuffer_MutateTransactionsSize :: "fb_table \<Rightarrow> AggregateTransactionBuffer \<Rightarrow> u32 \<Rightarrow> (bool \<times> AggregateTransactionBuffer) result" where [table_defs]:
  "AggregateTransactionBuffer_MutateTransactionsSize T = (\<lambda>rcv. ft_MutateUint32Slot T rcv 18)"

definition AggregateTransactionBuffer_Transactions :: "fb_table \<Rightarrow> AggregateTransactionBuffer \<Rightarrow> int \<Rightarrow> byte result" where [table_defs]:
  "AggregateTransactionBuffer_Transactions T = elem_byte T 20"

definition AggregateTransactionBuffer_TransactionsLength :: "fb_table \<Rightarrow> AggregateTransactionBuffer \<Rightarrow> int result" where [table_defs]:
  "AggregateTransactionBuffer_TransactionsLength T = slot_len T 20"

definition AggregateTransactionBuffer_TransactionsBytes :: "fb_table \<Rightarrow> AggregateTransactionBuffer \<Rightarrow> byte list result" where [table_defs]:
  "AggregateTransactionBuffer_TransactionsBytes T = slot_bytes T 20"

definition AggregateTransactionBuffer_MutateTransactions :: "fb_table \<Rightarrow> AggregateTransactionBuffer \<Rightarrow> int \<Rightarrow> byte \<Rightarrow> (bool \<times> AggregateTransactionBuffer) result" where [table_defs]:
  "AggregateTransactionBuffer_MutateTransactions T = set_elem_byte T 20"

definition AggregateTransactionBuffer_columns :: "fb_table \<Rightarrow> column list" where [column_defs]:
  "AggregateTransactionBuffer_columns T =
    [ColUint32 (AggregateTransactionBuffer_Size T) (AggregateTransactionBuffer_MutateSize T),
     ColBytes (AggregateTransactionBuffer_SignatureBytes T) (AggregateTransactionBuffer_SignatureLength T) (AggregateTransactionBuffer_Signature T)
       (AggregateTransactionBuffer_MutateSignature T),
     ColBytes (AggregateTransactionBuffer_SignerBytes T) (AggregateTransactionBuffer_SignerLength T) (AggregateTransactionBuffer_Signer T)
       (AggregateTransactionBuffer_MutateSigner T),
     ColUint32 (AggregateTransactionBuffer_Version T) (AggregateTransactionBuffer_MutateVersion T),
     ColUint16 (AggregateTransactionBuffer_Type T) (AggregateTransactionBuffer_MutateType T),
     ColWords (AggregateTransactionBuffer_MaxFeeLength T) (AggregateTransactionBuffer_MaxFee T)
       (AggregateTransactionBuffer_MutateMaxFee T),
     ColWords (AggregateTransactionBuffer_DeadlineLength T) (AggregateTransactionBuffer_Deadline T)
       (AggregateTransactionBuffer_MutateDeadline T),
     ColUint32 (AggregateTransactionBuffer_TransactionsSize T) (AggregateTransactionBuffer_MutateTransactionsSize T),
     ColBytes (AggregateTransactionBuffer_TransactionsBytes T) (AggregateTransactionBuffer_TransactionsLength T) (AggregateTransactionBuffer_Transactions T)
       (AggregateTransactionBuffer_MutateTransactions T)]"

definition AggregateTransactionBufferAddSize :: "'b fb_api \<Rightarrow> u32 \<Rightarrow> ('b, unit) fb_prog" where [fb_defs]:
  "AggregateTransactionBufferAddSize F sz = fb_do (fb_PrependUint32Slot F 0 sz 0)"

definition AggregateTransactionBufferAddSignature :: "'b fb_api \<Rightarrow> u32 \<Rightarrow> ('b, unit) fb_prog" where [fb_defs]:
  "AggregateTransactionBufferAddSignature F signature = fb_do (fb_PrependUOffsetTSlot F 1 signature 0)"

definition AggregateTransactionBufferStartSignatureVector :: "'b fb_api \<Rightarrow> nat \<Rightarrow> ('b, unit) fb_prog" where [fb_defs]:
  "AggregateTransactionBufferStartSignatureVector F numElems = fb_do (fb_StartVector F 1 numElems 1)"

definition AggregateTransactionBufferAddSigner :: "'b fb_api \<Rightarrow> u32 \<Rightarrow> ('b, unit) fb_prog" where [fb_defs]:
  "AggregateTransactionBufferAddSigner F signer = fb_do (fb_PrependUOffsetTSlot F 2 signer 0)"

definition AggregateTransactionBufferStartSignerVector :: "'b fb_api \<Rightarrow> nat \<Rightarrow> ('b, unit) fb_prog" where [fb_defs]:
  "AggregateTransactionBufferStartSignerVector F numElems = fb_do (fb_StartVector F 1 numElems 1)"

definition AggregateTransactionBufferAddVersion :: "'b fb_api \<Rightarrow> u32 \<Rightarrow> ('b, unit) fb_prog" where [fb_defs]:
  "AggregateTransactionBufferAddVersion F version = fb_do (fb_PrependUint32Slot F 3 version 0)"

definition AggregateTransactionBufferAddType :: "'b fb_api \<Rightarrow> u16 \<Rightarrow> ('b, unit) fb_prog" where [fb_defs]:
  "AggregateTransactionBufferAddType F type_V = fb_do (fb_PrependUint16Slot F 4 type_V 0)"

definition AggregateTransactionBufferAddMaxFee :: "'b fb_api \<Rightarrow> u32 \<Rightarrow> ('b, unit) fb_prog" where [fb_defs]:
  "AggregateTransactionBufferAddMaxFee F maxFee = fb_do (fb_PrependUOffsetTSlot F 5 maxFee 0)"

definition AggregateTransactionBufferStartMaxFeeVector :: "'b fb_api \<Rightarrow> nat \<Rightarrow> ('b, unit) fb_prog" where [fb_defs]:
  "AggregateTransactionBufferStartMaxFeeVector F numElems = fb_do (fb_StartVector F 4 numElems 4)"

definition AggregateTransactionBufferAddDeadline :: "'b fb_api \<Rightarrow> u32 \<Rightarrow> ('b, unit) fb_prog" where [fb_defs]:
  "AggregateTransactionBufferAddDeadline F deadline = fb_do (fb_PrependUOffsetTSlot F 6 deadline 0)"

definition AggregateTransactionBufferStartDeadlineVector :: "'b fb_api \<Rightarrow> nat \<Rightarrow> ('b, unit) fb_prog" where [fb_defs]:
  "AggregateTransactionBufferStartDeadlineVector F numElems = fb_do (fb_StartVector F 4 numElems 4)"

definition AggregateTransactionBufferStartTransactionsVector :: "'b fb_api \<Rightarrow> nat \<Rightarrow> ('b, unit) fb_prog" where [fb_defs]:
  "AggregateTransactionBufferStartTransactionsVector F numElems = fb_do (fb_StartVector F 1 numElems 1)"

definition AggregateTransactionBufferEnd :: "'b fb_api \<Rightarrow> ('b, u32) fb_prog" where [fb_defs]:
  "AggregateTransactionBufferEnd F = fb_call (fb_EndObject F)"

section \<open>\<open>transactions/blockchain_update_transaction_buffer.go\<close>\<close>

type_synonym BlockchainUpgradeTransactionBuffer = Table

definition GetRootAsBlockchainUpgradeTransactionBuffer :: "fb_table \<Rightarrow> byte list \<Rightarrow> u32 \<Rightarrow> BlockchainUpgradeTransactionBuffer result" where [table_defs]:
  "GetRootAsBlockchainUpgradeTransactionBuffer T buf offset = table_root T buf offset"

definition BlockchainUpgradeTransactionBuffer_Init :: "byte list \<Rightarrow> u32 \<Rightarrow> BlockchainUpgradeTransactionBuffer" where
  "BlockchainUpgradeTransactionBuffer_Init buf i = table_Init buf i"

definition BlockchainUpgradeTransactionBuffer_Table :: "BlockchainUpgradeTransactionBuffer \<Rightarrow> Table" where
  "BlockchainUpgradeTransactionBuffer_Table rcv = rcv"

definition BlockchainUpgradeTransactionBuffer_Size :: "fb_table \<Rightarrow> BlockchainUpgradeTransactionBuffer \<Rightarrow> u32 result" where [table_defs]:
  "BlockchainUpgradeTransactionBuffer_Size T = slot_uint32 T 4"

definition BlockchainUpgradeTransactionBuffer_MutateSize :: "fb_table \<Rightarrow> BlockchainUpgradeTransactionBuffer \<Rightarrow> u32 \<Rightarrow> (bool \<times> BlockchainUpgradeTransactionBuffer) result" where [table_defs]:
  "BlockchainUpgradeTransactionBuffer_MutateSize T = (\<lambda>rcv. ft_MutateUint32Slot T rcv 4)"

definition BlockchainUpgradeTransactionBuffer_Signature :: "fb_table \<Rightarrow> BlockchainUpgradeTransactionBuffer \<Rightarrow> int \<Rightarrow> byte result" where [table_defs]:
  "BlockchainUpgradeTransactionBuffer_Signature T = elem_byte T 6"

definition BlockchainUpgradeTransactionBuffer_SignatureLength :: "fb_table \<Rightarrow> BlockchainUpgradeTransactionBuffer \<Rightarrow> int result" where [table_defs]:
  "BlockchainUpgradeTransactionBuffer_SignatureLength T = slot_len T 6"

definition BlockchainUpgradeTransactionBuffer_SignatureBytes :: "fb_table \<Rightarrow> BlockchainUpgradeTransactionBuffer \<Rightarrow> byte list result" where [table_defs]:
  "BlockchainUpgradeTransactionBuffer_SignatureBytes T = slot_bytes T 6"

definition BlockchainUpgradeTransactionBuffer_MutateSignature :: "fb_table \<Rightarrow> BlockchainUpgradeTransactionBuffer \<Rightarrow> int \<Rightarrow> byte \<Rightarrow> (bool \<times> BlockchainUpgradeTransactionBuffer) result" where [table_defs]:
  "BlockchainUpgradeTransactionBuffer_MutateSignature T = set_elem_byte T 6"

definition BlockchainUpgradeTransactionBuffer_Signer :: "fb_table \<Rightarrow> BlockchainUpgradeTransactionBuffer \<Rightarrow> int \<Rightarrow> byte result" where [table_defs]:
  "BlockchainUpgradeTransactionBuffer_Signer T = elem_byte T 8"

definition BlockchainUpgradeTransactionBuffer_SignerLength :: "fb_table \<Rightarrow> BlockchainUpgradeTransactionBuffer \<Rightarrow> int result" where [table_defs]:
  "BlockchainUpgradeTransactionBuffer_SignerLength T = slot_len T 8"

definition BlockchainUpgradeTransactionBuffer_SignerBytes :: "fb_table \<Rightarrow> BlockchainUpgradeTransactionBuffer \<Rightarrow> byte list result" where [table_defs]:
  "BlockchainUpgradeTransactionBuffer_SignerBytes T = slot_bytes T 8"

definition BlockchainUpgradeTransactionBuffer_MutateSigner :: "fb_table \<Rightarrow> BlockchainUpgradeTransactionBuffer \<Rightarrow> int \<Rightarrow> byte \<Rightarrow> (bool \<times> BlockchainUpgradeTransactionBuffer) result" where [table_defs]:
  "BlockchainUpgradeTransactionBuffer_MutateSigner T = set_elem_byte T 8"

definition BlockchainUpgradeTransactionBuffer_Version :: "fb_table \<Rightarrow> BlockchainUpgradeTransactionBuffer \<Rightarrow> u32 result" where [table_defs]:
  "BlockchainUpgradeTransactionBuffer_Version T = slot_uint32 T 10"

definition BlockchainUpgradeTransactionBuffer_MutateVersion :: "fb_table \<Rightarrow> BlockchainUpgradeTransactionBuffer \<Rightarrow> u32 \<Rightarrow> (bool \<times> BlockchainUpgradeTransactionBuffer) result" where [table_defs]:
  "BlockchainUpgradeTransactionBuffer_MutateVersion T = (\<lambda>rcv. ft_MutateUint32Slot T rcv 10)"

definition BlockchainUpgradeTransactionBuffer_Type :: "fb_table \<Rightarrow> BlockchainUpgradeTransactionBuffer \<Rightarrow> u16 result" where [table_defs]:
  "BlockchainUpgradeTransactionBuffer_Type T = slot_uint16 T 12"

definition BlockchainUpgradeTransactionBuffer_MutateType :: "fb_table \<Rightarrow> BlockchainUpgradeTransactionBuffer \<Rightarrow> u16 \<Rightarrow> (bool \<times> BlockchainUpgradeTransactionBuffer) result" where [table_defs]:
  "BlockchainUpgradeTransactionBuffer_MutateType T = (\<lambda>rcv. ft_MutateUint16Slot T rcv 12)"

definition BlockchainUpgradeTransactionBuffer_MaxFee :: "fb_table \<Rightarrow> BlockchainUpgradeTransactionBuffer \<Rightarrow> int \<Rightarrow> u32 result" where [table_defs]:
  "BlockchainUpgradeTransactionBuffer_MaxFee T = elem_uint32 T 14"

definition BlockchainUpgradeTransactionBuffer_MaxFeeLength :: "fb_table \<Rightarrow> BlockchainUpgradeTransactionBuffer \<Rightarrow> int result" where [table_defs]:
  "BlockchainUpgradeTransactionBuffer_MaxFeeLength T = slot_len T 14"

definition BlockchainUpgradeTransactionBuffer_MutateMaxFee :: "fb_table \<Rightarrow> BlockchainUpgradeTransactionBuffer \<Rightarrow> int \<Rightarrow> u32 \<Rightarrow> (bool \<times> BlockchainUpgradeTransactionBuffer) result" where [table_defs]:
  "BlockchainUpgradeTransactionBuffer_MutateMaxFee T = set_elem_uint32 T 14"

definition BlockchainUpgradeTransactionBuffer_Deadline :: "fb_table \<Rightarrow> BlockchainUpgradeTransactionBuffer \<Rightarrow> int \<Rightarrow> u32 result" where [table_defs]:
  "BlockchainUpgradeTransactionBuffer_Deadline T = elem_uint32 T 16"

definition BlockchainUpgradeTransactionBuffer_DeadlineLength :: "fb_table \<Rightarrow> BlockchainUpgradeTransactionBuffer \<Rightarrow> int result" where [table_defs]:
  "BlockchainUpgradeTransactionBuffer_DeadlineLength T = slot_len T 16"

definition BlockchainUpgradeTransactionBuffer_MutateDeadline :: "fb_table \<Rightarrow> BlockchainUpgradeTransactionBuffer \<Rightarrow> int \<Rightarrow> u32 \<Rightarrow> (bool \<times> BlockchainUpgradeTransactionBuffer) result" where [table_defs]:
  "BlockchainUpgradeTransactionBuffer_MutateDeadline T = set_elem_uint32 T 16"

definition BlockchainUpgradeTransactionBuffer_UpgradePeriod :: "fb_table \<Rightarrow> BlockchainUpgradeTransactionBuffer \<Rightarrow> int \<Rightarrow> u32 result" where [table_defs]:
  "BlockchainUpgradeTransactionBuffer_UpgradePeriod T = elem_uint32 T 18"

definition BlockchainUpgradeTransactionBuffer_UpgradePeriodLength :: "fb_table \<Rightarrow> BlockchainUpgradeTransactionBuffer \<Rightarrow> int result" where [table_defs]:
  "BlockchainUpgradeTransactionBuffer_UpgradePeriodLength T = slot_len T 18"

definition BlockchainUpgradeTransactionBuffer_MutateUpgradePeriod :: "fb_table \<Rightarrow> BlockchainUpgradeTransactionBuffer \<Rightarrow> int \<Rightarrow> u32 \<Rightarrow> (bool \<times> BlockchainUpgradeTransactionBuffer) result" where [table_defs]:
  "BlockchainUpgradeTransactionBuffer_MutateUpgradePeriod T = set_elem_uint32 T 18"

definition BlockchainUpgradeTransactionBuffer_NewBlockChainVersion :: "fb_table \<Rightarrow> BlockchainUpgradeTransactionBuffer \<Rightarrow> int \<Rightarrow> u32 result" where [table_defs]:
  "BlockchainUpgradeTransactionBuffer_NewBlockChainVersion T = elem_uint32 T 20"

definition BlockchainUpgradeTransactionBuffer_NewBlockChainVersionLength :: "fb_table \<Rightarrow> BlockchainUpgradeTransactionBuffer \<Rightarrow> int result" where [table_defs]:
  "BlockchainUpgradeTransactionBuffer_NewBlockChainVersionLength T = slot_len T 20"

definition BlockchainUpgradeTransactionBuffer_MutateNewBlockChainVersion :: "fb_table \<Rightarrow> BlockchainUpgradeTransactionBuffer \<Rightarrow> int \<Rightarrow> u32 \<Rightarrow> (bool \<times> BlockchainUpgradeTransactionBuffer) result" where [table_defs]:
  "BlockchainUpgradeTransactionBuffer_MutateNewBlockChainVersion T = set_elem_uint32 T 20"

definition BlockchainUpgradeTransactionBuffer_columns :: "fb_table \<Rightarrow> column list" where [column_defs]:
  "BlockchainUpgradeTransactionBuffer_columns T =
    [ColUint32 (BlockchainUpgradeTransactionBuffer_Size T) (BlockchainUpgradeTransactionBuffer_MutateSize T),
     ColBytes (BlockchainUpgradeTransactionBuffer_SignatureBytes T) (BlockchainUpgradeTransactionBuffer_SignatureLength T) (BlockchainUpgradeTransactionBuffer_Signature T)
       (BlockchainUpgradeTransactionBuffer_MutateSignature T),
     ColBytes (BlockchainUpgradeTransactionBuffer_SignerBytes T) (BlockchainUpgradeTransactionBuffer_SignerLength T) (BlockchainUpgradeTransactionBuffer_Signer T)
       (BlockchainUpgradeTransactionBuffer_MutateSigner T),
     ColUint32 (BlockchainUpgradeTransactionBuffer_Version T) (BlockchainUpgradeTransactionBuffer_MutateVersion T),
     ColUint16 (BlockchainUpgradeTransactionBuffer_Type T) (BlockchainUpgradeTransactionBuffer_MutateType T),
     ColWords (BlockchainUpgradeTransactionBuffer_MaxFeeLength T) (BlockchainUpgradeTransactionBuffer_MaxFee T)
       (BlockchainUpgradeTransactionBuffer_MutateMaxFee T),
     ColWords (BlockchainUpgradeTransactionBuffer_DeadlineLength T) (BlockchainUpgradeTransactionBuffer_Deadline T)
       (BlockchainUpgradeTransactionBuffer_MutateDeadline T),
     ColWords (BlockchainUpgradeTransactionBuffer_UpgradePeriodLength T) (BlockchainUpgradeTransactionBuffer_UpgradePeriod T)
       (BlockchainUpgradeTransactionBuffer_MutateUpgradePeriod T),
     ColWords (BlockchainUpgradeTransactionBuffer_NewBlockChainVersionLength T) (BlockchainUpgradeTransactionBuffer_NewBlockChainVersion T)
       (BlockchainUpgradeTransactionBuffer_MutateNewBlockChainVersion T)]"

definition BlockchainUpgradeTransactionBufferAddSize :: "'b fb_api \<Rightarrow> u32 \<Rightarrow> ('b, unit) fb_prog" where [fb_defs]:
  "BlockchainUpgradeTransactionBufferAddSize F sz = fb_do (fb_PrependUint32Slot F 0 sz 0)"

definition BlockchainUpgradeTransactionBufferAddSignature :: "'b fb_api \<Rightarrow> u32 \<Rightarrow> ('b, unit) fb_prog" where [fb_defs]:
  "BlockchainUpgradeTransactionBufferAddSignature F signature = fb_do (fb_PrependUOffsetTSlot F 1 signature 0)"

definition BlockchainUpgradeTransactionBufferStartSignatureVector :: "'b fb_api \<Rightarrow> nat \<Rightarrow> ('b, unit) fb_prog" where [fb_defs]:
  "BlockchainUpgradeTransactionBufferStartSignatureVector F numElems = fb_do (fb_StartVector F 1 numElems 1)"

definition BlockchainUpgradeTransactionBufferAddSigner :: "'b fb_api \<Rightarrow> u32 \<Rightarrow> ('b, unit) fb_prog" where [fb_defs]:
  "BlockchainUpgradeTransactionBufferAddSigner F signer = fb_do (fb_PrependUOffsetTSlot F 2 signer 0)"

definition BlockchainUpgradeTransactionBufferStartSignerVector :: "'b fb_api \<Rightarrow> nat \<Rightarrow> ('b, unit) fb_prog" where [fb_defs]:
  "BlockchainUpgradeTransactionBufferStartSignerVector F numElems = fb_do (fb_StartVector F 1 numElems 1)"

definition BlockchainUpgradeTransactionBufferAddVersion :: "'b fb_api \<Rightarrow> u32 \<Rightarrow> ('b, unit) fb_prog" where [fb_defs]:
  "BlockchainUpgradeTransactionBufferAddVersion F version = fb_do (fb_PrependUint32Slot F 3 version 0)"

definition BlockchainUpgradeTransactionBufferAddType :: "'b fb_api \<Rightarrow> u16 \<Rightarrow> ('b, unit) fb_prog" where [fb_defs]:
  "BlockchainUpgradeTransactionBufferAddType F type_V = fb_do (fb_PrependUint16Slot F 4 type_V 0)"

definition BlockchainUpgradeTransactionBufferAddMaxFee :: "'b fb_api \<Rightarrow> u32 \<Rightarrow> ('b, unit) fb_prog" where [fb_defs]:
  "BlockchainUpgradeTransactionBufferAddMaxFee F maxFee = fb_do (fb_PrependUOffsetTSlot F 5 maxFee 0)"

definition BlockchainUpgradeTransactionBufferStartMaxFeeVector :: "'b fb_api \<Rightarrow> nat \<Rightarrow> ('b, unit) fb_prog" where [fb_defs]:
  "BlockchainUpgradeTransactionBufferStartMaxFeeVector F numElems = fb_do (fb_StartVector F 4 numElems 4)"

definition BlockchainUpgradeTransactionBufferAddDeadline :: "'b fb_api \<Rightarrow> u32 \<Rightarrow> ('b, unit) fb_prog" where [fb_defs]:
  "BlockchainUpgradeTransactionBufferAddDeadline F deadline = fb_do (fb_PrependUOffsetTSlot F 6 deadline 0)"

definition BlockchainUpgradeTransactionBufferStartDeadlineVector :: "'b fb_api \<Rightarrow> nat \<Rightarrow> ('b, unit) fb_prog" where [fb_defs]:
  "BlockchainUpgradeTransactionBufferStartDeadlineVector F numElems = fb_do (fb_StartVector F 4 numElems 4)"

definition BlockchainUpgradeTransactionBufferStartUpgradePeriodVector :: "'b fb_api \<Rightarrow> nat \<Rightarrow> ('b, unit) fb_prog" where [fb_defs]:
  "BlockchainUpgradeTransactionBufferStartUpgradePeriodVector F numElems = fb_do (fb_StartVector F 4 numElems 4)"

definition BlockchainUpgradeTransactionBufferStartNewBlockChainVersionVector :: "'b fb_api \<Rightarrow> nat \<Rightarrow> ('b, unit) fb_prog" where [fb_defs]:
  "BlockchainUpgradeTransactionBufferStartNewBlockChainVersionVector F numElems = fb_do (fb_StartVector F 4 numElems 4)"

definition BlockchainUpgradeTransactionBufferEnd :: "'b fb_api \<Rightarrow> ('b, u32) fb_prog" where [fb_defs]:
  "BlockchainUpgradeTransactionBufferEnd F = fb_call (fb_EndObject F)"

section \<open>\<open>transactions/network_config_transaction_buffer.go\<close>\<close>

type_synonym NetworkConfigTransactionBuffer = Table

definition GetRootAsNetworkConfigTransactionBuffer :: "fb_table \<Rightarrow> byte list \<Rightarrow> u32 \<Rightarrow> NetworkConfigTransactionBuffer result" where [table_defs]:
  "GetRootAsNetworkConfigTransactionBuffer T buf offset = table_root T buf offset"

definition NetworkConfigTransactionBuffer_Init :: "byte list \<Rightarrow> u32 \<Rightarrow> NetworkConfigTransactionBuffer" where
  "NetworkConfigTransactionBuffer_Init buf i = table_Init buf i"

definition NetworkConfigTransactionBuffer_Table :: "NetworkConfigTransactionBuffer \<Rightarrow> Table" where
  "NetworkConfigTransactionBuffer_Table rcv = rcv"

definition NetworkConfigTransactionBuffer_Size :: "fb_table \<Rightarrow> NetworkConfigTransactionBuffer \<Rightarrow> u32 result" where [table_defs]:
  "NetworkConfigTransactionBuffer_Size T = slot_uint32 T 4"

definition NetworkConfigTransactionBuffer_MutateSize :: "fb_table \<Rightarrow> NetworkConfigTransactionBuffer \<Rightarrow> u32 \<Rightarrow> (bool \<times> NetworkConfigTransactionBuffer) result" where [table_defs]:
  "NetworkConfigTransactionBuffer_MutateSize T = (\<lambda>rcv. ft_MutateUint32Slot T rcv 4)"

definition NetworkConfigTransactionBuffer_Signature :: "fb_table \<Rightarrow> NetworkConfigTransactionBuffer \<Rightarrow> int \<Rightarrow> byte result" where [table_defs]:
  "NetworkConfigTransactionBuffer_Signature T = elem_byte T 6"

definition NetworkConfigTransactionBuffer_SignatureLength :: "fb_table \<Rightarrow> NetworkConfigTransactionBuffer \<Rightarrow> int result" where [table_defs]:
  "NetworkConfigTransactionBuffer_SignatureLength T = slot_len T 6"

definition NetworkConfigTransactionBuffer_SignatureBytes :: "fb_table \<Rightarrow> NetworkConfigTransactionBuffer \<Rightarrow> byte list result" where [table_defs]:
  "NetworkConfigTransactionBuffer_SignatureBytes T = slot_bytes T 6"

definition NetworkConfigTransactionBuffer_MutateSignature :: "fb_table \<Rightarrow> NetworkConfigTransactionBuffer \<Rightarrow> int \<Rightarrow> byte \<Rightarrow> (bool \<times> NetworkConfigTransactionBuffer) result" where [table_defs]:
  "NetworkConfigTransactionBuffer_MutateSignature T = set_elem_byte T 6"

definition NetworkConfigTransactionBuffer_Signer :: "fb_table \<Rightarrow> NetworkConfigTransactionBuffer \<Rightarrow> int \<Rightarrow> byte result" where [table_defs]:
  "NetworkConfigTransactionBuffer_Signer T = elem_byte T 8"

definition NetworkConfigTransactionBuffer_SignerLength :: "fb_table \<Rightarrow> NetworkConfigTransactionBuffer \<Rightarrow> int result" where [table_defs]:
  "NetworkConfigTransactionBuffer_SignerLength T = slot_len T 8"

definition NetworkConfigTransactionBuffer_SignerBytes :: "fb_table \<Rightarrow> NetworkConfigTransactionBuffer \<Rightarrow> byte list result" where [table_defs]:
  "NetworkConfigTransactionBuffer_SignerBytes T = slot_bytes T 8"

definition NetworkConfigTransactionBuffer_MutateSigner :: "fb_table \<Rightarrow> NetworkConfigTransactionBuffer \<Rightarrow> int \<Rightarrow> byte \<Rightarrow> (bool \<times> NetworkConfigTransactionBuffer) result" where [table_defs]:
  "NetworkConfigTransactionBuffer_MutateSigner T = set_elem_byte T 8"

definition NetworkConfigTransactionBuffer_Version :: "fb_table \<Rightarrow> NetworkConfigTransactionBuffer \<Rightarrow> u32 result" where [table_defs]:
  "NetworkConfigTransactionBuffer_Version T = slot_uint32 T 10"

definition NetworkConfigTransactionBuffer_MutateVersion :: "fb_table \<Rightarrow> NetworkConfigTransactionBuffer \<Rightarrow> u32 \<Rightarrow> (bool \<times> NetworkConfigTransactionBuffer) result" where [table_defs]:
  "NetworkConfigTransactionBuffer_MutateVersion T = (\<lambda>rcv. ft_MutateUint32Slot T rcv 10)"

definition NetworkConfigTransactionBuffer_Type :: "fb_table \<Rightarrow> NetworkConfigTransactionBuffer \<Rightarrow> u16 result" where [table_defs]:
  "NetworkConfigTransactionBuffer_Type T = slot_uint16 T 12"

definition NetworkConfigTransactionBuffer_MutateType :: "fb_table \<Rightarrow> NetworkConfigTransactionBuffer \<Rightarrow> u16 \<Rightarrow> (bool \<times> NetworkConfigTransactionBuffer) result" where [table_defs]:
  "NetworkConfigTransactionBuffer_MutateType T = (\<lambda>rcv. ft_MutateUint16Slot T rcv 12)"

definition NetworkConfigTransactionBuffer_MaxFee :: "fb_table \<Rightarrow> NetworkConfigTransactionBuffer \<Rightarrow> int \<Rightarrow> u32 result" where [table_defs]:
  "NetworkConfigTransactionBuffer_MaxFee T = elem_uint32 T 14"

definition NetworkConfigTransactionBuffer_MaxFeeLength :: "fb_table \<Rightarrow> NetworkConfigTransactionBuffer \<Rightarrow> int result" where [table_defs]:
  "NetworkConfigTransactionBuffer_MaxFeeLength T = slot_len T 14"

definition NetworkConfigTransactionBuffer_MutateMaxFee :: "fb_table \<Rightarrow> NetworkConfigTransactionBuffer \<Rightarrow> int \<Rightarrow> u32 \<Rightarrow> (bool \<times> NetworkConfigTransactionBuffer) result" where [table_defs]:
  "NetworkConfigTransactionBuffer_MutateMaxFee T = set_elem_uint32 T 14"

definition NetworkConfigTransactionBuffer_Deadline :: "fb_table \<Rightarrow> NetworkConfigTransactionBuffer \<Rightarrow> int \<Rightarrow> u32 result" where [table_defs]:
  "NetworkConfigTransactionBuffer_Deadline T = elem_uint32 T 16"

definition NetworkConfigTransactionBuffer_DeadlineLength :: "fb_table \<Rightarrow> NetworkConfigTransactionBuffer \<Rightarrow> int result" where [table_defs]:
  "NetworkConfigTransactionBuffer_DeadlineLength T = slot_len T 16"

definition NetworkConfigTransactionBuffer_MutateDeadline :: "fb_table \<Rightarrow> NetworkConfigTransactionBuffer \<Rightarrow> int \<Rightarrow> u32 \<Rightarrow> (bool \<times> NetworkConfigTransactionBuffer) result" where [table_defs]:
  "NetworkConfigTransactionBuffer_MutateDeadline T = set_elem_uint32 T 16"

definition NetworkConfigTransactionBuffer_ApplyHeightDelta :: "fb_table \<Rightarrow> NetworkConfigTransactionBuffer \<Rightarrow> int \<Rightarrow> u32 result" where [table_defs]:
  "NetworkConfigTransactionBuffer_ApplyHeightDelta T = elem_uint32 T 18"

definition NetworkConfigTransactionBuffer_ApplyHeightDeltaLength :: "fb_table \<Rightarrow> NetworkConfigTransactionBuffer \<Rightarrow> int result" where [table_defs]:
  "NetworkConfigTransactionBuffer_ApplyHeightDeltaLength T = slot_len T 18"

definition NetworkConfigTransactionBuffer_MutateApplyHeightDelta :: "fb_table \<Rightarrow> NetworkConfigTransactionBuffer \<Rightarrow> int \<Rightarrow> u32 \<Rightarrow> (bool \<times> NetworkConfigTransactionBuffer) result" where [table_defs]:
  "NetworkConfigTransactionBuffer_MutateApplyHeightDelta T = set_elem_uint32 T 18"

definition NetworkConfigTransactionBuffer_NetworkConfigSize :: "fb_table \<Rightarrow> NetworkConfigTransactionBuffer \<Rightarrow> u16 result" where [table_defs]:
  "NetworkConfigTransactionBuffer_NetworkConfigSize T = slot_uint16 T 20"

definition NetworkConfigTransactionBuffer_MutateNetworkConfigSize :: "fb_table \<Rightarrow> NetworkConfigTransactionBuffer \<Rightarrow> u16 \<Rightarrow> (bool \<times> NetworkConfigTransactionBuffer) result" where [table_defs]:
  "NetworkConfigTransactionBuffer_MutateNetworkConfigSize T = (\<lambda>rcv. ft_MutateUint16Slot T rcv 20)"

definition NetworkConfigTransactionBuffer_SupportedEntityVersionsSize :: "fb_table \<Rightarrow> NetworkConfigTransactionBuffer \<Rightarrow> u16 result" where [table_defs]:
  "NetworkConfigTransactionBuffer_SupportedEntityVersionsSize T = slot_uint16 T 22"

definition NetworkConfigTransactionBuffer_MutateSupportedEntityVersionsSize :: "fb_table \<Rightarrow> NetworkConfigTransactionBuffer \<Rightarrow> u16 \<Rightarrow> (bool \<times> NetworkConfigTransactionBuffer) result" where [table_defs]:
  "NetworkConfigTransactionBuffer_MutateSupportedEntityVersionsSize T = (\<lambda>rcv. ft_MutateUint16Slot T rcv 22)"

definition NetworkConfigTransactionBuffer_NetworkConfig :: "fb_table \<Rightarrow> NetworkConfigTransactionBuffer \<Rightarrow> int \<Rightarrow> byte result" where [table_defs]:
  "NetworkConfigTransactionBuffer_NetworkConfig T = elem_byte T 24"

definition NetworkConfigTransactionBuffer_NetworkConfigLength :: "fb_table \<Rightarrow> NetworkConfigTransactionBuffer \<Rightarrow> int result" where [table_defs]:
  "NetworkConfigTransactionBuffer_NetworkConfigLength T = slot_len T 24"

definition NetworkConfigTransactionBuffer_NetworkConfigBytes :: "fb_table \<Rightarrow> NetworkConfigTransactionBuffer \<Rightarrow> byte list result" where [table_defs]:
  "NetworkConfigTransactionBuffer_NetworkConfigBytes T = slot_bytes T 24"

definition NetworkConfigTransactionBuffer_MutateNetworkConfig :: "fb_table \<Rightarrow> NetworkConfigTransactionBuffer \<Rightarrow> int \<Rightarrow> byte \<Rightarrow> (bool \<times> NetworkConfigTransactionBuffer) result" where [table_defs]:
  "NetworkConfigTransactionBuffer_MutateNetworkConfig T = set_elem_byte T 24"

definition NetworkConfigTransactionBuffer_SupportedEntityVersions :: "fb_table \<Rightarrow> NetworkConfigTransactionBuffer \<Rightarrow> int \<Rightarrow> byte result" where [table_defs]:
  "NetworkConfigTransactionBuffer_SupportedEntityVersions T = elem_byte T 26"

definition NetworkConfigTransactionBuffer_SupportedEntityVersionsLength :: "fb_table \<Rightarrow> NetworkConfigTransactionBuffer \<Rightarrow> int result" where [table_defs]:
  "NetworkConfigTransactionBuffer_SupportedEntityVersionsLength T = slot_len T 26"

definition NetworkConfigTransactionBuffer_SupportedEntityVersionsBytes :: "fb_table \<Rightarrow> NetworkConfigTransactionBuffer \<Rightarrow> byte list result" where [table_defs]:
  "NetworkConfigTransactionBuffer_SupportedEntityVersionsBytes T = slot_bytes T 26"

definition NetworkConfigTransactionBuffer_MutateSupportedEntityVersions :: "fb_table \<Rightarrow> NetworkConfigTransactionBuffer \<Rightarrow> int \<Rightarrow> byte \<Rightarrow> (bool \<times> NetworkConfigTransactionBuffer) result" where [table_defs]:
  "NetworkConfigTransactionBuffer_MutateSupportedEntityVersions T = set_elem_byte T 26"

definition NetworkConfigTransactionBuffer_columns :: "fb_table \<Rightarrow> column list" where [column_defs]:
  "NetworkConfigTransactionBuffer_columns T =
    [ColUint32 (NetworkConfigTransactionBuffer_Size T) (NetworkConfigTransactionBuffer_MutateSize T),
     ColBytes (NetworkConfigTransactionBuffer_SignatureBytes T) (NetworkConfigTransactionBuffer_SignatureLength T) (NetworkConfigTransactionBuffer_Signature T)
       (NetworkConfigTransactionBuffer_MutateSignature T),
     ColBytes (NetworkConfigTransactionBuffer_SignerBytes T) (NetworkConfigTransactionBuffer_SignerLength T) (NetworkConfigTransactionBuffer_Signer T)
       (NetworkConfigTransactionBuffer_MutateSigner T),
     ColUint32 (NetworkConfigTransactionBuffer_Version T) (NetworkConfigTransactionBuffer_MutateVersion T),
     ColUint16 (NetworkConfigTransactionBuffer_Type T) (NetworkConfigTransactionBuffer_MutateType T),
     ColWords (NetworkConfigTransactionBuffer_MaxFeeLength T) (NetworkConfigTransactionBuffer_MaxFee T)
       (NetworkConfigTransactionBuffer_MutateMaxFee T),
     ColWords (NetworkConfigTransactionBuffer_DeadlineLength T) (NetworkConfigTransactionBuffer_Deadline T)
       (NetworkConfigTransactionBuffer_MutateDeadline T),
     ColWords (NetworkConfigTransactionBuffer_ApplyHeightDeltaLength T) (NetworkConfigTransactionBuffer_ApplyHeightDelta T)
       (NetworkConfigTransactionBuffer_MutateApplyHeightDelta T),
     ColUint16 (NetworkConfigTransactionBuffer_NetworkConfigSize T) (NetworkConfigTransactionBuffer_MutateNetworkConfigSize T),
     ColUint16 (NetworkConfigTransactionBuffer_SupportedEntityVersionsSize T) (NetworkConfigTransactionBuffer_MutateSupportedEntityVersionsSize T),
     ColBytes (NetworkConfigTransactionBuffer_NetworkConfigBytes T) (NetworkConfigTransactionBuffer_NetworkConfigLength T) (NetworkConfigTransactionBuffer_NetworkConfig T)
       (NetworkConfigTransactionBuffer_MutateNetworkConfig T),
     ColBytes (NetworkConfigTransactionBuffer_SupportedEntityVersionsBytes T) (NetworkConfigTransactionBuffer_SupportedEntityVersionsLength T) (NetworkConfigTransactionBuffer_SupportedEntityVersions T)
       (NetworkConfigTransactionBuffer_MutateSupportedEntityVersions T)]"

definition NetworkConfigTransactionBufferAddSize :: "'b fb_api \<Rightarrow> u32 \<Rightarrow> ('b, unit) fb_prog" where [fb_defs]:
  "NetworkConfigTransactionBufferAddSize F sz = fb_do (fb_PrependUint32Slot F 0 sz 0)"

definition NetworkConfigTransactionBufferAddSignature :: "'b fb_api \<Rightarrow> u32 \<Rightarrow> ('b, unit) fb_prog" where [fb_defs]:
  "NetworkConfigTransactionBufferAddSignature F signature = fb_do (fb_PrependUOffsetTSlot F 1 signature 0)"

definition NetworkConfigTransactionBufferStartSignatureVector :: "'b fb_api \<Rightarrow> nat \<Rightarrow> ('b, unit) fb_prog" where [fb_defs]:
  "NetworkConfigTransactionBufferStartSignatureVector F numElems = fb_do (fb_StartVector F 1 numElems 1)"

definition NetworkConfigTransactionBufferAddSigner :: "'b fb_api \<Rightarrow> u32 \<Rightarrow> ('b, unit) fb_prog" where [fb_defs]:
  "NetworkConfigTransactionBufferAddSigner F signer = fb_do (fb_PrependUOffsetTSlot F 2 signer 0)"

definition NetworkConfigTransactionBufferStartSignerVector :: "'b fb_api \<Rightarrow> nat \<Rightarrow> ('b, unit) fb_prog" where [fb_defs]:
  "NetworkConfigTransactionBufferStartSignerVector F numElems = fb_do (fb_StartVector F 1 numElems 1)"

definition NetworkConfigTransactionBufferAddVersion :: "'b fb_api \<Rightarrow> u32 \<Rightarrow> ('b, unit) fb_prog" where [fb_defs]:
  "NetworkConfigTransactionBufferAddVersion F version = fb_do (fb_PrependUint32Slot F 3 version 0)"

definition NetworkConfigTransactionBufferAddType :: "'b fb_api \<Rightarrow> u16 \<Rightarrow> ('b, unit) fb_prog" where [fb_defs]:
  "NetworkConfigTransactionBufferAddType F type_V = fb_do (fb_PrependUint16Slot F 4 type_V 0)"

definition NetworkConfigTransactionBufferAddMaxFee :: "'b fb_api \<Rightarrow> u32 \<Rightarrow> ('b, unit) fb_prog" where [fb_defs]:
  "NetworkConfigTransactionBufferAddMaxFee F maxFee = fb_do (fb_PrependUOffsetTSlot F 5 maxFee 0)"

definition NetworkConfigTransactionBufferStartMaxFeeVector :: "'b fb_api \<Rightarrow> nat \<Rightarrow> ('b, unit) fb_prog" where [fb_defs]:
  "NetworkConfigTransactionBufferStartMaxFeeVector F numElems = fb_do (fb_StartVector F 4 numElems 4)"

definition NetworkConfigTransactionBufferAddDeadline :: "'b fb_api \<Rightarrow> u32 \<Rightarrow> ('b, unit) fb_prog" where [fb_defs]:
  "NetworkConfigTransactionBufferAddDeadline F deadline = fb_do (fb_PrependUOffsetTSlot F 6 deadline 0)"

definition NetworkConfigTransactionBufferStartDeadlineVector :: "'b fb_api \<Rightarrow> nat \<Rightarrow> ('b, unit) fb_prog" where [fb_defs]:
  "NetworkConfigTransactionBufferStartDeadlineVector F numElems = fb_do (fb_StartVector F 4 numElems 4)"

definition NetworkConfigTransactionBufferStartApplyHeightDeltaVector :: "'b fb_api \<Rightarrow> nat \<Rightarrow> ('b, unit) fb_prog" where [fb_defs]:
  "NetworkConfigTransactionBufferStartApplyHeightDeltaVector F numElems = fb_do (fb_StartVector F 4 numElems 4)"

definition NetworkConfigTransactionBufferStartNetworkConfigVector :: "'b fb_api \<Rightarrow> nat \<Rightarrow> ('b, unit) fb_prog" where [fb_defs]:
  "NetworkConfigTransactionBufferStartNetworkConfigVector F numElems = fb_do (fb_StartVector F 1 numElems 1)"

definition NetworkConfigTransactionBufferStartSupportedEntityVersionsVector :: "'b fb_api \<Rightarrow> nat \<Rightarrow> ('b, unit) fb_prog" where [fb_defs]:
  "NetworkConfigTransactionBufferStartSupportedEntityVersionsVector F numElems = fb_do (fb_StartVector F 1 numElems 1)"

end
