(* ===== verification/TablesTransfers.thy ===== *)
theory TablesTransfers
  imports TablesChain
begin

text \<open>
  The accessors of the generated tables (\<open>transactions/*_buffer.go\<close>) of transfers, messages and locks: how a buffer of the table is
  read and changed in place, and the generated functions that write it as far as \<open>TxBuffers\<close> does not have them already.
  \<open>StartVector\<close> also returns an offset, which is dropped. \<open>X_columns\<close> lists the accessors of the table \<open>X\<close> by slot.
\<close>

section \<open>\<open>transactions/message_buffer.go\<close>\<close>

type_synonym MessageBuffer = Table

definition GetRootAsMessageBuffer :: "fb_table \<Rightarrow> byte list \<Rightarrow> u32 \<Rightarrow> MessageBuffer result" where [table_defs]:
  "GetRootAsMessageBuffer T buf offset = table_root T buf offset"

definition MessageBuffer_Init :: "byte list \<Rightarrow> u32 \<Rightarrow> MessageBuffer" where
  "MessageBuffer_Init buf i = table_Init buf i"

definition MessageBuffer_Table :: "MessageBuffer \<Rightarrow> Table" where
  "MessageBuffer_Table rcv = rcv"

definition MessageBuffer_Type :: "fb_table \<Rightarrow> MessageBuffer \<Rightarrow> byte result" where [table_defs]:
  "MessageBuffer_Type T = slot_byte T 4"

definition MessageBuffer_MutateType :: "fb_table \<Rightarrow> MessageBuffer \<Rightarrow> byte \<Rightarrow> (bool \<times> MessageBuffer) result" where [table_defs]:
  "MessageBuffer_MutateType T = (\<lambda>rcv. ft_MutateByteSlot T rcv 4)"

definition MessageBuffer_Payload :: "fb_table \<Rightarrow> MessageBuffer \<Rightarrow> int \<Rightarrow> byte result" where [table_defs]:
  "MessageBuffer_Payload T = elem_byte T 6"

definition MessageBuffer_PayloadLength :: "fb_table \<Rightarrow> MessageBuffer \<Rightarrow> int result" where [table_defs]:
  "MessageBuffer_PayloadLength T = slot_len T 6"

definition MessageBuffer_PayloadBytes :: "fb_table \<Rightarrow> MessageBuffer \<Rightarrow> byte list result" where [table_defs]:
  "MessageBuffer_PayloadBytes T = slot_bytes T 6"

definition MessageBuffer_MutatePayload :: "fb_table \<Rightarrow> MessageBuffer \<Rightarrow> int \<Rightarrow> byte \<Rightarrow> (bool \<times> MessageBuffer) result" where [table_defs]:
  "MessageBuffer_MutatePayload T = set_elem_byte T 6"

definition MessageBuffer_columns :: "fb_table \<Rightarrow> column list" where [column_defs]:
  "MessageBuffer_columns T =
    [ColByte (MessageBuffer_Type T) (MessageBuffer_MutateType T),
     ColBytes (MessageBuffer_PayloadBytes T) (MessageBuffer_PayloadLength T) (MessageBuffer_Payload T)
       (MessageBuffer_MutatePayload T)]"

definition MessageBufferStartPayloadVector :: "'b fb_api \<Rightarrow> nat \<Rightarrow> ('b, unit) fb_prog" where [fb_defs]:
  "MessageBufferStartPayloadVector F numElems = fb_do (fb_StartVector F 1 numElems 1)"

definition MessageBufferEnd :: "'b fb_api \<Rightarrow> ('b, u32) fb_prog" where [fb_defs]:
  "MessageBufferEnd F = fb_call (fb_EndObject F)"

section \<open>\<open>transactions/transfer_transaction_buffer.go\<close>\<close>

type_synonym TransferTransactionBuffer = Table

definition GetRootAsTransferTransactionBuffer :: "fb_table \<Rightarrow> byte list \<Rightarrow> u32 \<Rightarrow> TransferTransactionBuffer result" where [table_defs]:
  "GetRootAsTransferTransactionBuffer T buf offset = table_root T buf offset"

definition TransferTransactionBuffer_Init :: "byte list \<Rightarrow> u32 \<Rightarrow> TransferTransactionBuffer" where
  "TransferTransactionBuffer_Init buf i = table_Init buf i"

definition TransferTransactionBuffer_Table :: "TransferTransactionBuffer \<Rightarrow> Table" where
  "TransferTransactionBuffer_Table rcv = rcv"

definition TransferTransactionBuffer_Size :: "fb_table \<Rightarrow> TransferTransactionBuffer \<Rightarrow> u32 result" where [table_defs]:
  "TransferTransactionBuffer_Size T = slot_uint32 T 4"

definition TransferTransactionBuffer_MutateSize :: "fb_table \<Rightarrow> TransferTransactionBuffer \<Rightarrow> u32 \<Rightarrow> (bool \<times> TransferTransactionBuffer) result" where [table_defs]:
  "TransferTransactionBuffer_MutateSize T = (\<lambda>rcv. ft_MutateUint32Slot T rcv 4)"

definition TransferTransactionBuffer_Signature :: "fb_table \<Rightarrow> TransferTransactionBuffer \<Rightarrow> int \<Rightarrow> byte result" where [table_defs]:
  "TransferTransactionBuffer_Signature T = elem_byte T 6"

definition TransferTransactionBuffer_SignatureLength :: "fb_table \<Rightarrow> TransferTransactionBuffer \<Rightarrow> int result" where [table_defs]:
  "TransferTransactionBuffer_SignatureLength T = slot_len T 6"

definition TransferTransactionBuffer_SignatureBytes :: "fb_table \<Rightarrow> TransferTransactionBuffer \<Rightarrow> byte list result" where [table_defs]:
  "TransferTransactionBuffer_SignatureBytes T = slot_bytes T 6"

definition TransferTransactionBuffer_MutateSignature :: "fb_table \<Rightarrow> TransferTransactionBuffer \<Rightarrow> int \<Rightarrow> byte \<Rightarrow> (bool \<times> TransferTransactionBuffer) result" where [table_defs]:
  "TransferTransactionBuffer_MutateSignature T = set_elem_byte T 6"

definition TransferTransactionBuffer_Signer :: "fb_table \<Rightarrow> TransferTransactionBuffer \<Rightarrow> int \<Rightarrow> byte result" where [table_defs]:
  "TransferTransactionBuffer_Signer T = elem_byte T 8"

definition TransferTransactionBuffer_SignerLength :: "fb_table \<Rightarrow> TransferTransactionBuffer \<Rightarrow> int result" where [table_defs]:
  "TransferTransactionBuffer_SignerLength T = slot_len T 8"

definition TransferTransactionBuffer_SignerBytes :: "fb_table \<Rightarrow> TransferTransactionBuffer \<Rightarrow> byte list result" where [table_defs]:
  "TransferTransactionBuffer_SignerBytes T = slot_bytes T 8"

definition TransferTransactionBuffer_MutateSigner :: "fb_table \<Rightarrow> TransferTransactionBuffer \<Rightarrow> int \<Rightarrow> byte \<Rightarrow> (bool \<times> TransferTransactionBuffer) result" where [table_defs]:
  "TransferTransactionBuffer_MutateSigner T = set_elem_byte T 8"

definition TransferTransactionBuffer_Version :: "fb_table \<Rightarrow> TransferTransactionBuffer \<Rightarrow> u32 result" where [table_defs]:
  "TransferTransactionBuffer_Version T = slot_uint32 T 10"

definition TransferTransactionBuffer_MutateVersion :: "fb_table \<Rightarrow> TransferTransactionBuffer \<Rightarrow> u32 \<Rightarrow> (bool \<times> TransferTransactionBuffer) result" where [table_defs]:
  "TransferTransactionBuffer_MutateVersion T = (\<lambda>rcv. ft_MutateUint32Slot T rcv 10)"

definition TransferTransactionBuffer_Type :: "fb_table \<Rightarrow> TransferTransactionBuffer \<Rightarrow> u16 result" where [table_defs]:
  "TransferTransactionBuffer_Type T = slot_uint16 T 12"

definition TransferTransactionBuffer_MutateType :: "fb_table \<Rightarrow> TransferTransactionBuffer \<Rightarrow> u16 \<Rightarrow> (bool \<times> TransferTransactionBuffer) result" where [table_defs]:
  "TransferTransactionBuffer_MutateType T = (\<lambda>rcv. ft_MutateUint16Slot T rcv 12)"

definition TransferTransactionBuffer_MaxFee :: "fb_table \<Rightarrow> TransferTransactionBuffer \<Rightarrow> int \<Rightarrow> u32 result" where [table_defs]:
  "TransferTransactionBuffer_MaxFee T = elem_uint32 T 14"

definition TransferTransactionBuffer_MaxFeeLength :: "fb_table \<Rightarrow> TransferTransactionBuffer \<Rightarrow> int result" where [table_defs]:
  "TransferTransactionBuffer_MaxFeeLength T = slot_len T 14"

definition TransferTransactionBuffer_MutateMaxFee :: "fb_table \<Rightarrow> TransferTransactionBuffer \<Rightarrow> int \<Rightarrow> u32 \<Rightarrow> (bool \<times> TransferTransactionBuffer) result" where [table_defs]:
  "TransferTransactionBuffer_MutateMaxFee T = set_elem_uint32 T 14"

definition TransferTransactionBuffer_Deadline :: "fb_table \<Rightarrow> TransferTransactionBuffer \<Rightarrow> int \<Rightarrow> u32 result" where [table_defs]:
  "TransferTransactionBuffer_Deadline T = elem_uint32 T 16"

definition TransferTransactionBuffer_DeadlineLength :: "fb_table \<Rightarrow> TransferTransactionBuffer \<Rightarrow> int result" where [table_defs]:
  "TransferTransactionBuffer_DeadlineLength T = slot_len T 16"

definition TransferTransactionBuffer_MutateDeadline :: "fb_table \<Rightarrow> TransferTransactionBuffer \<Rightarrow> int \<Rightarrow> u32 \<Rightarrow> (bool \<times> TransferTransactionBuffer) result" where [table_defs]:
  "TransferTransactionBuffer_MutateDeadline T = set_elem_uint32 T 16"

definition TransferTransactionBuffer_Recipient :: "fb_table \<Rightarrow> TransferTransactionBuffer \<Rightarrow> int \<Rightarrow> byte result" where [table_defs]:
  "TransferTransactionBuffer_Recipient T = elem_byte T 18"

definition TransferTransactionBuffer_RecipientLength :: "fb_table \<Rightarrow> TransferTransactionBuffer \<Rightarrow> int result" where [table_defs]:
  "TransferTransactionBuffer_RecipientLength T = slot_len T 18"

definition TransferTransactionBuffer_RecipientBytes :: "fb_table \<Rightarrow> TransferTransactionBuffer \<Rightarrow> byte list result" where [table_defs]:
  "TransferTransactionBuffer_RecipientBytes T = slot_bytes T 18"

definition TransferTransactionBuffer_MutateRecipient :: "fb_table \<Rightarrow> TransferTransactionBuffer \<Rightarrow> int \<Rightarrow> byte \<Rightarrow> (bool \<times> TransferTransactionBuffer) result" where [table_defs]:
  "TransferTransactionBuffer_MutateRecipient T = set_elem_byte T 18"

definition TransferTransactionBuffer_MessageSize :: "fb_table \<Rightarrow> TransferTransactionBuffer \<Rightarrow> u16 result" where [table_defs]:
  "TransferTransactionBuffer_MessageSize T = slot_uint16 T 20"

definition TransferTransactionBuffer_MutateMessageSize :: "fb_table \<Rightarrow> TransferTransactionBuffer \<Rightarrow> u16 \<Rightarrow> (bool \<times> TransferTransactionBuffer) result" where [table_defs]:
  "TransferTransactionBuffer_MutateMessageSize T = (\<lambda>rcv. ft_MutateUint16Slot T rcv 20)"

definition TransferTransactionBuffer_NumMosaics :: "fb_table \<Rightarrow> TransferTransactionBuffer \<Rightarrow> byte result" where [table_defs]:
  "TransferTransactionBuffer_NumMosaics T = slot_byte T 22"

definition TransferTransactionBuffer_MutateNumMosaics :: "fb_table \<Rightarrow> TransferTransactionBuffer \<Rightarrow> byte \<Rightarrow> (bool \<times> TransferTransactionBuffer) result" where [table_defs]:
  "TransferTransactionBuffer_MutateNumMosaics T = (\<lambda>rcv. ft_MutateByteSlot T rcv 22)"

definition TransferTransactionBuffer_Message :: "fb_table \<Rightarrow> TransferTransactionBuffer \<Rightarrow> MessageBuffer option \<Rightarrow> MessageBuffer option result" where [table_defs]:
  "TransferTransactionBuffer_Message T = slot_table T 24"

definition TransferTransactionBuffer_Mosaics :: "fb_table \<Rightarrow> TransferTransactionBuffer \<Rightarrow> MosaicBuffer \<Rightarrow> int \<Rightarrow> (bool \<times> MosaicBuffer) result" where [table_defs]:
  "TransferTransactionBuffer_Mosaics T = elem_table T 26"

definition TransferTransactionBuffer_MosaicsLength :: "fb_table \<Rightarrow> TransferTransactionBuffer \<Rightarrow> int result" where [table_defs]:
  "TransferTransactionBuffer_MosaicsLength T = slot_len T 26"

definition TransferTransactionBuffer_columns :: "fb_table \<Rightarrow> column list" where [column_defs]:
  "TransferTransactionBuffer_columns T =
    [ColUint32 (TransferTransactionBuffer_Size T) (TransferTransactionBuffer_MutateSize T),
     ColBytes (TransferTransactionBuffer_SignatureBytes T) (TransferTransactionBuffer_SignatureLength T) (TransferTransactionBuffer_Signature T)
       (TransferTransactionBuffer_MutateSignature T),
     ColBytes (TransferTransactionBuffer_SignerBytes T) (TransferTransactionBuffer_SignerLength T) (TransferTransactionBuffer_Signer T)
       (TransferTransactionBuffer_MutateSigner T),
     ColUint32 (TransferTransactionBuffer_Version T) (TransferTransactionBuffer_MutateVersion T),
     ColUint16 (TransferTransactionBuffer_Type T) (TransferTransactionBuffer_MutateType T),
     ColWords (TransferTransactionBuffer_MaxFeeLength T) (TransferTransactionBuffer_MaxFee T)
       (TransferTransactionBuffer_MutateMaxFee T),
     ColWords (TransferTransactionBuffer_DeadlineLength T) (TransferTransactionBuffer_Deadline T)
       (TransferTransactionBuffer_MutateDeadline T),
     ColBytes (TransferTransactionBuffer_RecipientBytes T) (TransferTransactionBuffer_RecipientLength T) (TransferTransactionBuffer_Recipient T)
       (TransferTransactionBuffer_MutateRecipient T),
     ColUint16 (TransferTransactionBuffer_MessageSize T) (TransferTransactionBuffer_MutateMessageSize T),
     ColByte (TransferTransactionBuffer_NumMosaics T) (TransferTransactionBuffer_MutateNumMosaics T),
     ColTable (TransferTransactionBuffer_Message T) (MessageBuffer_columns T),
     ColTables (TransferTransactionBuffer_MosaicsLength T) (TransferTransactionBuffer_Mosaics T)
       (MosaicBuffer_columns T)]"

definition TransferTransactionBufferAddSize :: "'b fb_api \<Rightarrow> u32 \<Rightarrow> ('b, unit) fb_prog" where [fb_defs]:
  "TransferTransactionBufferAddSize F sz = fb_do (fb_PrependUint32Slot F 0 sz 0)"

definition TransferTransactionBufferAddSignature :: "'b fb_api \<Rightarrow> u32 \<Rightarrow> ('b, unit) fb_prog" where [fb_defs]:
  "TransferTransactionBufferAddSignature F signature = fb_do (fb_PrependUOffsetTSlot F 1 signature 0)"

definition TransferTransactionBufferStartSignatureVector :: "'b fb_api \<Rightarrow> nat \<Rightarrow> ('b, unit) fb_prog" where [fb_defs]:
  "TransferTransactionBufferStartSignatureVector F numElems = fb_do (fb_StartVector F 1 numElems 1)"

definition TransferTransactionBufferAddSigner :: "'b fb_api \<Rightarrow> u32 \<Rightarrow> ('b, unit) fb_prog" where [fb_defs]:
  "TransferTransactionBufferAddSigner F signer = fb_do (fb_PrependUOffsetTSlot F 2 signer 0)"

definition TransferTransactionBufferStartSignerVector :: "'b fb_api \<Rightarrow> nat \<Rightarrow> ('b, unit) fb_prog" where [fb_defs]:
  "TransferTransactionBufferStartSignerVector F numElems = fb_do (fb_StartVector F 1 numElems 1)"

definition TransferTransactionBufferAddVersion :: "'b fb_api \<Rightarrow> u32 \<Rightarrow> ('b, unit) fb_prog" where [fb_defs]:
  "TransferTransactionBufferAddVersion F version = fb_do (fb_PrependUint32Slot F 3 version 0)"

definition TransferTransactionBufferAddType :: "'b fb_api \<Rightarrow> u16 \<Rightarrow> ('b, unit) fb_prog" where [fb_defs]:
  "TransferTransactionBufferAddType F type_V = fb_do (fb_PrependUint16Slot F 4 type_V 0)"

definition TransferTransactionBufferAddMaxFee :: "'b fb_api \<Rightarrow> u32 \<Rightarrow> ('b, unit) fb_prog" where [fb_defs]:
  "TransferTransactionBufferAddMaxFee F maxFee = fb_do (fb_PrependUOffsetTSlot F 5 maxFee 0)"

definition TransferTransactionBufferStartMaxFeeVector :: "'b fb_api \<Rightarrow> nat \<Rightarrow> ('b, unit) fb_prog" where [fb_defs]:
  "TransferTransactionBufferStartMaxFeeVector F numElems = fb_do (fb_StartVector F 4 numElems 4)"

definition TransferTransactionBufferAddDeadline :: "'b fb_api \<Rightarrow> u32 \<Rightarrow> ('b, unit) fb_prog" where [fb_defs]:
  "TransferTransactionBufferAddDeadline F deadline = fb_do (fb_PrependUOffsetTSlot F 6 deadline 0)"

definition TransferTransactionBufferStartDeadlineVector :: "'b fb_api \<Rightarrow> nat \<Rightarrow> ('b, unit) fb_prog" where [fb_defs]:
  "TransferTransactionBufferStartDeadlineVector F numElems = fb_do (fb_StartVector F 4 numElems 4)"

definition TransferTransactionBufferStartRecipientVector :: "'b fb_api \<Rightarrow> nat \<Rightarrow> ('b, unit) fb_prog" where [fb_defs]:
  "TransferTransactionBufferStartRecipientVector F numElems = fb_do (fb_StartVector F 1 numElems 1)"

definition TransferTransactionBufferEnd :: "'b fb_api \<Rightarrow> ('b, u32) fb_prog" where [fb_defs]:
  "TransferTransactionBufferEnd F = fb_call (fb_EndObject F)"

section \<open>\<open>transactions/lock_funds_transaction_buffer.go\<close>\<close>

type_synonym LockFundsTransactionBuffer = Table

definition GetRootAsLockFundsTransactionBuffer :: "fb_table \<Rightarrow> byte list \<Rightarrow> u32 \<Rightarrow> LockFundsTransactionBuffer result" where [table_defs]:
  "GetRootAsLockFundsTransactionBuffer T buf offset = table_root T buf offset"

definition LockFundsTransactionBuffer_Init :: "byte list \<Rightarrow> u32 \<Rightarrow> LockFundsTransactionBuffer" where
  "LockFundsTransactionBuffer_Init buf i = table_Init buf i"

definition LockFundsTransactionBuffer_Table :: "LockFundsTransactionBuffer \<Rightarrow> Table" where
  "LockFundsTransactionBuffer_Table rcv = rcv"

definition LockFundsTransactionBuffer_Size :: "fb_table \<Rightarrow> LockFundsTransactionBuffer \<Rightarrow> u32 result" where [table_defs]:
  "LockFundsTransactionBuffer_Size T = slot_uint32 T 4"

definition LockFundsTransactionBuffer_MutateSize :: "fb_table \<Rightarrow> LockFundsTransactionBuffer \<Rightarrow> u32 \<Rightarrow> (bool \<times> LockFundsTransactionBuffer) result" where [table_defs]:
  "LockFundsTransactionBuffer_MutateSize T = (\<lambda>rcv. ft_MutateUint32Slot T rcv 4)"

definition LockFundsTransactionBuffer_Signature :: "fb_table \<Rightarrow> LockFundsTransactionBuffer \<Rightarrow> int \<Rightarrow> byte result" where [table_defs]:
  "LockFundsTransactionBuffer_Signature T = elem_byte T 6"

definition LockFundsTransactionBuffer_SignatureLength :: "fb_table \<Rightarrow> LockFundsTransactionBuffer \<Rightarrow> int result" where [table_defs]:
  "LockFundsTransactionBuffer_SignatureLength T = slot_len T 6"

definition LockFundsTransactionBuffer_SignatureBytes :: "fb_table \<Rightarrow> LockFundsTransactionBuffer \<Rightarrow> byte list result" where [table_defs]:
  "LockFundsTransactionBuffer_SignatureBytes T = slot_bytes T 6"

definition LockFundsTransactionBuffer_MutateSignature :: "fb_table \<Rightarrow> LockFundsTransactionBuffer \<Rightarrow> int \<Rightarrow> byte \<Rightarrow> (bool \<times> LockFundsTransactionBuffer) result" where [table_defs]:
  "LockFundsTransactionBuffer_MutateSignature T = set_elem_byte T 6"

definition LockFundsTransactionBuffer_Signer :: "fb_table \<Rightarrow> LockFundsTransactionBuffer \<Rightarrow> int \<Rightarrow> byte result" where [table_defs]:
  "LockFundsTransactionBuffer_Signer T = elem_byte T 8"

definition LockFundsTransactionBuffer_SignerLength :: "fb_table \<Rightarrow> LockFundsTransactionBuffer \<Rightarrow> int result" where [table_defs]:
  "LockFundsTransactionBuffer_SignerLength T = slot_len T 8"

definition LockFundsTransactionBuffer_SignerBytes :: "fb_table \<Rightarrow> LockFundsTransactionBuffer \<Rightarrow> byte list result" where [table_defs]:
  "LockFundsTransactionBuffer_SignerBytes T = slot_bytes T 8"

definition LockFundsTransactionBuffer_MutateSigner :: "fb_table \<Rightarrow> LockFundsTransactionBuffer \<Rightarrow> int \<Rightarrow> byte \<Rightarrow> (bool \<times> LockFundsTransactionBuffer) result" where [table_defs]:
  "LockFundsTransactionBuffer_MutateSigner T = set_elem_byte T 8"

definition LockFundsTransactionBuffer_Version :: "fb_table \<Rightarrow> LockFundsTransactionBuffer \<Rightarrow> u32 result" where [table_defs]:
  "LockFundsTransactionBuffer_Version T = slot_uint32 T 10"

definition LockFundsTransactionBuffer_MutateVersion :: "fb_table \<Rightarrow> LockFundsTransactionBuffer \<Rightarrow> u32 \<Rightarrow> (bool \<times> LockFundsTransactionBuffer) result" where [table_defs]:
  "LockFundsTransactionBuffer_MutateVersion T = (\<lambda>rcv. ft_MutateUint32Slot T rcv 10)"

definition LockFundsTransactionBuffer_Type :: "fb_table \<Rightarrow> LockFundsTransactionBuffer \<Rightarrow> u16 result" where [table_defs]:
  "LockFundsTransactionBuffer_Type T = slot_uint16 T 12"

definition LockFundsTransactionBuffer_MutateType :: "fb_table \<Rightarrow> LockFundsTransactionBuffer \<Rightarrow> u16 \<Rightarrow> (bool \<times> LockFundsTransactionBuffer) result" where [table_defs]:
  "LockFundsTransactionBuffer_MutateType T = (\<lambda>rcv. ft_MutateUint16Slot T rcv 12)"

definition LockFundsTransactionBuffer_MaxFee :: "fb_table \<Rightarrow> LockFundsTransactionBuffer \<Rightarrow> int \<Rightarrow> u32 result" where [table_defs]:
  "LockFundsTransactionBuffer_MaxFee T = elem_uint32 T 14"

definition LockFundsTransactionBuffer_MaxFeeLength :: "fb_table \<Rightarrow> LockFundsTransactionBuffer \<Rightarrow> int result" where [table_defs]:
  "LockFundsTransactionBuffer_MaxFeeLength T = slot_len T 14"

definition LockFundsTransactionBuffer_MutateMaxFee :: "fb_table \<Rightarrow> LockFundsTransactionBuffer \<Rightarrow> int \<Rightarrow> u32 \<Rightarrow> (bool \<times> LockFundsTransactionBuffer) result" where [table_defs]:
  "LockFundsTransactionBuffer_MutateMaxFee T = set_elem_uint32 T 14"

definition LockFundsTransactionBuffer_Deadline :: "fb_table \<Rightarrow> LockFundsTransactionBuffer \<Rightarrow> int \<Rightarrow> u32 result" where [table_defs]:
  "LockFundsTransactionBuffer_Deadline T = elem_uint32 T 16"

definition LockFundsTransactionBuffer_DeadlineLength :: "fb_table \<Rightarrow> LockFundsTransactionBuffer \<Rightarrow> int result" where [table_defs]:
  "LockFundsTransactionBuffer_DeadlineLength T = slot_len T 16"

definition LockFundsTransactionBuffer_MutateDeadline :: "fb_table \<Rightarrow> LockFundsTransactionBuffer \<Rightarrow> int \<Rightarrow> u32 \<Rightarrow> (bool \<times> LockFundsTransactionBuffer) result" where [table_defs]:
  "LockFundsTransactionBuffer_MutateDeadline T = set_elem_uint32 T 16"

definition LockFundsTransactionBuffer_MosaicId :: "fb_table \<Rightarrow> LockFundsTransactionBuffer \<Rightarrow> int \<Rightarrow> u32 result" where [table_defs]:
  "LockFundsTransactionBuffer_MosaicId T = elem_uint32 T 18"

definition LockFundsTransactionBuffer_MosaicIdLength :: "fb_table \<Rightarrow> LockFundsTransactionBuffer \<Rightarrow> int result" where [table_defs]:
  "LockFundsTransactionBuffer_MosaicIdLength T = slot_len T 18"

definition LockFundsTransactionBuffer_MutateMosaicId :: "fb_table \<Rightarrow> LockFundsTransactionBuffer \<Rightarrow> int \<Rightarrow> u32 \<Rightarrow> (bool \<times> LockFundsTransactionBuffer) result" where [table_defs]:
  "LockFundsTransactionBuffer_MutateMosaicId T = set_elem_uint32 T 18"

definition LockFundsTransactionBuffer_MosaicAmount :: "fb_table \<Rightarrow> LockFundsTransactionBuffer \<Rightarrow> int \<Rightarrow> u32 result" where [table_defs]:
  "LockFundsTransactionBuffer_MosaicAmount T = elem_uint32 T 20"

definition LockFundsTransactionBuffer_MosaicAmountLength :: "fb_table \<Rightarrow> LockFundsTransactionBuffer \<Rightarrow> int result" where [table_defs]:
  "LockFundsTransactionBuffer_MosaicAmountLength T = slot_len T 20"

definition LockFundsTransactionBuffer_MutateMosaicAmount :: "fb_table \<Rightarrow> LockFundsTransactionBuffer \<Rightarrow> int \<Rightarrow> u32 \<Rightarrow> (bool \<times> LockFundsTransactionBuffer) result" where [table_defs]:
  "LockFundsTransactionBuffer_MutateMosaicAmount T = set_elem_uint32 T 20"

definition LockFundsTransactionBuffer_Duration :: "fb_table \<Rightarrow> LockFundsTransactionBuffer \<Rightarrow> int \<Rightarrow> u32 result" where [table_defs]:
  "LockFundsTransactionBuffer_Duration T = elem_uint32 T 22"

definition LockFundsTransactionBuffer_DurationLength :: "fb_table \<Rightarrow> LockFundsTransactionBuffer \<Rightarrow> int result" where [table_defs]:
  "LockFundsTransactionBuffer_DurationLength T = slot_len T 22"

definition LockFundsTransactionBuffer_MutateDuration :: "fb_table \<Rightarrow> LockFundsTransactionBuffer \<Rightarrow> int \<Rightarrow> u32 \<Rightarrow> (bool \<times> LockFundsTransactionBuffer) result" where [table_defs]:
  "LockFundsTransactionBuffer_MutateDuration T = set_elem_uint32 T 22"

definition LockFundsTransactionBuffer_Hash :: "fb_table \<Rightarrow> LockFundsTransactionBuffer \<Rightarrow> int \<Rightarrow> byte result" where [table_defs]:
  "LockFundsTransactionBuffer_Hash T = elem_byte T 24"

definition LockFundsTransactionBuffer_HashLength :: "fb_table \<Rightarrow> LockFundsTransactionBuffer \<Rightarrow> int result" where [table_defs]:
  "LockFundsTransactionBuffer_HashLength T = slot_len T 24"

definition LockFundsTransactionBuffer_HashBytes :: "fb_table \<Rightarrow> LockFundsTransactionBuffer \<Rightarrow> byte list result" where [table_defs]:
  "LockFundsTransactionBuffer_HashBytes T = slot_bytes T 24"

definition LockFundsTransactionBuffer_MutateHash :: "fb_table \<Rightarrow> LockFundsTransactionBuffer \<Rightarrow> int \<Rightarrow> byte \<Rightarrow> (bool \<times> LockFundsTransactionBuffer) result" where [table_defs]:
  "LockFundsTransactionBuffer_MutateHash T = set_elem_byte T 24"

definition LockFundsTransactionBuffer_columns :: "fb_table \<Rightarrow> column list" where [column_defs]:
  "LockFundsTransactionBuffer_columns T =
    [ColUint32 (LockFundsTransactionBuffer_Size T) (LockFundsTransactionBuffer_MutateSize T),
     ColBytes (LockFundsTransactionBuffer_SignatureBytes T) (LockFundsTransactionBuffer_SignatureLength T) (LockFundsTransactionBuffer_Signature T)
       (LockFundsTransactionBuffer_MutateSignature T),
     ColBytes (LockFundsTransactionBuffer_SignerBytes T) (LockFundsTransactionBuffer_SignerLength T) (LockFundsTransactionBuffer_Signer T)
       (LockFundsTransactionBuffer_MutateSigner T),
     ColUint32 (LockFundsTransactionBuffer_Version T) (LockFundsTransactionBuffer_MutateVersion T),
     ColUint16 (LockFundsTransactionBuffer_Type T) (LockFundsTransactionBuffer_MutateType T),
     ColWords (LockFundsTransactionBuffer_MaxFeeLength T) (LockFundsTransactionBuffer_MaxFee T)
       (LockFundsTransactionBuffer_MutateMaxFee T),
     ColWords (LockFundsTransactionBuffer_DeadlineLength T) (LockFundsTransactionBuffer_Deadline T)
       (LockFundsTransactionBuffer_MutateDeadline T),
     ColWords (LockFundsTransactionBuffer_MosaicIdLength T) (LockFundsTransactionBuffer_MosaicId T)
       (LockFundsTransactionBuffer_MutateMosaicId T),
     ColWords (LockFundsTransactionBuffer_MosaicAmountLength T) (LockFundsTransactionBuffer_MosaicAmount T)
       (LockFundsTransactionBuffer_MutateMosaicAmount T),
     ColWords (LockFundsTransactionBuffer_DurationLength T) (LockFundsTransactionBuffer_Duration T)
       (LockFundsTransactionBuffer_MutateDuration T),
     ColBytes (LockFundsTransactionBuffer_HashBytes T) (LockFundsTransactionBuffer_HashLength T) (LockFundsTransactionBuffer_Hash T)
       (LockFundsTransactionBuffer_MutateHash T)]"

definition LockFundsTransactionBufferAddSize :: "'b fb_api \<Rightarrow> u32 \<Rightarrow> ('b, unit) fb_prog" where [fb_defs]:
  "LockFundsTransactionBufferAddSize F sz = fb_do (fb_PrependUint32Slot F 0 sz 0)"

definition LockFundsTransactionBufferAddSignature :: "'b fb_api \<Rightarrow> u32 \<Rightarrow> ('b, unit) fb_prog" where [fb_defs]:
  "LockFundsTransactionBufferAddSignature F signature = fb_do (fb_PrependUOffsetTSlot F 1 signature 0)"

definition LockFundsTransactionBufferStartSignatureVector :: "'b fb_api \<Rightarrow> nat \<Rightarrow> ('b, unit) fb_prog" where [fb_defs]:
  "LockFundsTransactionBufferStartSignatureVector F numElems = fb_do (fb_StartVector F 1 numElems 1)"

definition LockFundsTransactionBufferAddSigner :: "'b fb_api \<Rightarrow> u32 \<Rightarrow> ('b, unit) fb_prog" where [fb_defs]:
  "LockFundsTransactionBufferAddSigner F signer = fb_do (fb_PrependUOffsetTSlot F 2 signer 0)"

definition LockFundsTransactionBufferStartSignerVector :: "'b fb_api \<Rightarrow> nat \<Rightarrow> ('b, unit) fb_prog" where [fb_defs]:
  "LockFundsTransactionBufferStartSignerVector F numElems = fb_do (fb_StartVector F 1 numElems 1)"

definition LockFundsTransactionBufferAddVersion :: "'b fb_api \<Rightarrow> u32 \<Rightarrow> ('b, unit) fb_prog" where [fb_defs]:
  "LockFundsTransactionBufferAddVersion F version = fb_do (fb_PrependUint32Slot F 3 version 0)"

definition LockFundsTransactionBufferAddType :: "'b fb_api \<Rightarrow> u16 \<Rightarrow> ('b, unit) fb_prog" where [fb_defs]:
  "LockFundsTransactionBufferAddType F type_V = fb_do (fb_PrependUint16Slot F 4 type_V 0)"

definition LockFundsTransactionBufferAddMaxFee :: "'b fb_api \<Rightarrow> u32 \<Rightarrow> ('b, unit) fb_prog" where [fb_defs]:
  "LockFundsTransactionBufferAddMaxFee F maxFee = fb_do (fb_PrependUOffsetTSlot F 5 maxFee 0)"

definition LockFundsTransactionBufferStartMaxFeeVector :: "'b fb_api \<Rightarrow> nat \<Rightarrow> ('b, unit) fb_prog" where [fb_defs]:
  "LockFundsTransactionBufferStartMaxFeeVector F numElems = fb_do (fb_StartVector F 4 numElems 4)"

definition LockFundsTransactionBufferAddDeadline :: "'b fb_api \<Rightarrow> u32 \<Rightarrow> ('b, unit) fb_prog" where [fb_defs]:
  "LockFundsTransactionBufferAddDeadline F deadline = fb_do (fb_PrependUOffsetTSlot F 6 deadline 0)"

definition LockFundsTransactionBufferStartDeadlineVector :: "'b fb_api \<Rightarrow> nat \<Rightarrow> ('b, unit) fb_prog" where [fb_defs]:
  "LockFundsTransactionBufferStartDeadlineVector F numElems = fb_do (fb_StartVector F 4 numElems 4)"

definition LockFundsTransactionBufferStartMosaicIdVector :: "'b fb_api \<Rightarrow> nat \<Rightarrow> ('b, unit) fb_prog" where [fb_defs]:
  "LockFundsTransactionBufferStartMosaicIdVector F numElems = fb_do (fb_StartVector F 4 numElems 4)"

definition LockFundsTransactionBufferStartMosaicAmountVector :: "'b fb_api \<Rightarrow> nat \<Rightarrow> ('b, unit) fb_prog" where [fb_defs]:
  "LockFundsTransactionBufferStartMosaicAmountVector F numElems = fb_do (fb_StartVector F 4 numElems 4)"

definition LockFundsTransactionBufferStartDurationVector :: "'b fb_api \<Rightarrow> nat \<Rightarrow> ('b, unit) fb_prog" where [fb_defs]:
  "LockFundsTransactionBufferStartDurationVector F numElems = fb_do (fb_StartVector F 4 numElems 4)"

definition LockFundsTransactionBufferStartHashVector :: "'b fb_api \<Rightarrow> nat \<Rightarrow> ('b, unit) fb_prog" where [fb_defs]:
  "LockFundsTransactionBufferStartHashVector F numElems = fb_do (fb_StartVector F 1 numElems 1)"

definition LockFundsTransactionBufferEnd :: "'b fb_api \<Rightarrow> ('b, u32) fb_prog" where [fb_defs]:
  "LockFundsTransactionBufferEnd F = fb_call (fb_EndObject F)"

section \<open>\<open>transactions/secret_lock_transaction_buffer.go\<close>\<close>

type_synonym SecretLockTransactionBuffer = Table

definition GetRootAsSecretLockTransactionBuffer :: "fb_table \<Rightarrow> byte list \<Rightarrow> u32 \<Rightarrow> SecretLockTransactionBuffer result" where [table_defs]:
  "GetRootAsSecretLockTransactionBuffer T buf offset = table_root T buf offset"

definition SecretLockTransactionBuffer_Init :: "byte list \<Rightarrow> u32 \<Rightarrow> SecretLockTransactionBuffer" where
  "SecretLockTransactionBuffer_Init buf i = table_Init buf i"

definition SecretLockTransactionBuffer_Table :: "SecretLockTransactionBuffer \<Rightarrow> Table" where
  "SecretLockTransactionBuffer_Table rcv = rcv"

definition SecretLockTransactionBuffer_Size :: "fb_table \<Rightarrow> SecretLockTransactionBuffer \<Rightarrow> u32 result" where [table_defs]:
  "SecretLockTransactionBuffer_Size T = slot_uint32 T 4"

definition SecretLockTransactionBuffer_MutateSize :: "fb_table \<Rightarrow> SecretLockTransactionBuffer \<Rightarrow> u32 \<Rightarrow> (bool \<times> SecretLockTransactionBuffer) result" where [table_defs]:
  "SecretLockTransactionBuffer_MutateSize T = (\<lambda>rcv. ft_MutateUint32Slot T rcv 4)"

definition SecretLockTransactionBuffer_Signature :: "fb_table \<Rightarrow> SecretLockTransactionBuffer \<Rightarrow> int \<Rightarrow> byte result" where [table_defs]:
  "SecretLockTransactionBuffer_Signature T = elem_byte T 6"

definition SecretLockTransactionBuffer_SignatureLength :: "fb_table \<Rightarrow> SecretLockTransactionBuffer \<Rightarrow> int result" where [table_defs]:
  "SecretLockTransactionBuffer_SignatureLength T = slot_len T 6"

definition SecretLockTransactionBuffer_SignatureBytes :: "fb_table \<Rightarrow> SecretLockTransactionBuffer \<Rightarrow> byte list result" where [table_defs]:
  "SecretLockTransactionBuffer_SignatureBytes T = slot_bytes T 6"

definition SecretLockTransactionBuffer_MutateSignature :: "fb_table \<Rightarrow> SecretLockTransactionBuffer \<Rightarrow> int \<Rightarrow> byte \<Rightarrow> (bool \<times> SecretLockTransactionBuffer) result" where [table_defs]:
  "SecretLockTransactionBuffer_MutateSignature T = set_elem_byte T 6"

definition SecretLockTransactionBuffer_Signer :: "fb_table \<Rightarrow> SecretLockTransactionBuffer \<Rightarrow> int \<Rightarrow> byte result" where [table_defs]:
  "SecretLockTransactionBuffer_Signer T = elem_byte T 8"

definition SecretLockTransactionBuffer_SignerLength :: "fb_table \<Rightarrow> SecretLockTransactionBuffer \<Rightarrow> int result" where [table_defs]:
  "SecretLockTransactionBuffer_SignerLength T = slot_len T 8"

definition SecretLockTransactionBuffer_SignerBytes :: "fb_table \<Rightarrow> SecretLockTransactionBuffer \<Rightarrow> byte list result" where [table_defs]:
  "SecretLockTransactionBuffer_SignerBytes T = slot_bytes T 8"

definition SecretLockTransactionBuffer_MutateSigner :: "fb_table \<Rightarrow> SecretLockTransactionBuffer \<Rightarrow> int \<Rightarrow> byte \<Rightarrow> (bool \<times> SecretLockTransactionBuffer) result" where [table_defs]:
  "SecretLockTransactionBuffer_MutateSigner T = set_elem_byte T 8"

definition SecretLockTransactionBuffer_Version :: "fb_table \<Rightarrow> SecretLockTransactionBuffer \<Rightarrow> u32 result" where [table_defs]:
  "SecretLockTransactionBuffer_Version T = slot_uint32 T 10"

definition SecretLockTransactionBuffer_MutateVersion :: "fb_table \<Rightarrow> SecretLockTransactionBuffer \<Rightarrow> u32 \<Rightarrow> (bool \<times> SecretLockTransactionBuffer) result" where [table_defs]:
  "SecretLockTransactionBuffer_MutateVersion T = (\<lambda>rcv. ft_MutateUint32Slot T rcv 10)"

definition SecretLockTransactionBuffer_Type :: "fb_table \<Rightarrow> SecretLockTransactionBuffer \<Rightarrow> u16 result" where [table_defs]:
  "SecretLockTransactionBuffer_Type T = slot_uint16 T 12"

definition SecretLockTransactionBuffer_MutateType :: "fb_table \<Rightarrow> SecretLockTransactionBuffer \<Rightarrow> u16 \<Rightarrow> (bool \<times> SecretLockTransactionBuffer) result" where [table_defs]:
  "SecretLockTransactionBuffer_MutateType T = (\<lambda>rcv. ft_MutateUint16Slot T rcv 12)"

definition SecretLockTransactionBuffer_MaxFee :: "fb_table \<Rightarrow> SecretLockTransactionBuffer \<Rightarrow> int \<Rightarrow> u32 result" where [table_defs]:
  "SecretLockTransactionBuffer_MaxFee T = elem_uint32 T 14"

definition SecretLockTransactionBuffer_MaxFeeLength :: "fb_table \<Rightarrow> SecretLockTransactionBuffer \<Rightarrow> int result" where [table_defs]:
  "SecretLockTransactionBuffer_MaxFeeLength T = slot_len T 14"

definition SecretLockTransactionBuffer_MutateMaxFee :: "fb_table \<Rightarrow> SecretLockTransactionBuffer \<Rightarrow> int \<Rightarrow> u32 \<Rightarrow> (bool \<times> SecretLockTransactionBuffer) result" where [table_defs]:
  "SecretLockTransactionBuffer_MutateMaxFee T = set_elem_uint32 T 14"

definition SecretLockTransactionBuffer_Deadline :: "fb_table \<Rightarrow> SecretLockTransactionBuffer \<Rightarrow> int \<Rightarrow> u32 result" where [table_defs]:
  "SecretLockTransactionBuffer_Deadline T = elem_uint32 T 16"

definition SecretLockTransactionBuffer_DeadlineLength :: "fb_table \<Rightarrow> SecretLockTransactionBuffer \<Rightarrow> int result" where [table_defs]:
  "SecretLockTransactionBuffer_DeadlineLength T = slot_len T 16"

definition SecretLockTransactionBuffer_MutateDeadline :: "fb_table \<Rightarrow> SecretLockTransactionBuffer \<Rightarrow> int \<Rightarrow> u32 \<Rightarrow> (bool \<times> SecretLockTransactionBuffer) result" where [table_defs]:
  "SecretLockTransactionBuffer_MutateDeadline T = set_elem_uint32 T 16"

definition SecretLockTransactionBuffer_MosaicId :: "fb_table \<Rightarrow> SecretLockTransactionBuffer \<Rightarrow> int \<Rightarrow> u32 result" where [table_defs]:
  "SecretLockTransactionBuffer_MosaicId T = elem_uint32 T 18"

definition SecretLockTransactionBuffer_MosaicIdLength :: "fb_table \<Rightarrow> SecretLockTransactionBuffer \<Rightarrow> int result" where [table_defs]:
  "SecretLockTransactionBuffer_MosaicIdLength T = slot_len T 18"

definition SecretLockTransactionBuffer_MutateMosaicId :: "fb_table \<Rightarrow> SecretLockTransactionBuffer \<Rightarrow> int \<Rightarrow> u32 \<Rightarrow> (bool \<times> SecretLockTransactionBuffer) result" where [table_defs]:
  "SecretLockTransactionBuffer_MutateMosaicId T = set_elem_uint32 T 18"

definition SecretLockTransactionBuffer_MosaicAmount :: "fb_table \<Rightarrow> SecretLockTransactionBuffer \<Rightarrow> int \<Rightarrow> u32 result" where [table_defs]:
  "SecretLockTransactionBuffer_MosaicAmount T = elem_uint32 T 20"

definition SecretLockTransactionBuffer_MosaicAmountLength :: "fb_table \<Rightarrow> SecretLockTransactionBuffer \<Rightarrow> int result" where [table_defs]:
  "SecretLockTransactionBuffer_MosaicAmountLength T = slot_len T 20"

definition SecretLockTransactionBuffer_MutateMosaicAmount :: "fb_table \<Rightarrow> SecretLockTransactionBuffer \<Rightarrow> int \<Rightarrow> u32 \<Rightarrow> (bool \<times> SecretLockTransactionBuffer) result" where [table_defs]:
  "SecretLockTransactionBuffer_MutateMosaicAmount T = set_elem_uint32 T 20"

definition SecretLockTransactionBuffer_Duration :: "fb_table \<Rightarrow> SecretLockTransactionBuffer \<Rightarrow> int \<Rightarrow> u32 result" where [table_defs]:
  "SecretLockTransactionBuffer_Duration T = elem_uint32 T 22"

definition SecretLockTransactionBuffer_DurationLength :: "fb_table \<Rightarrow> SecretLockTransactionBuffer \<Rightarrow> int result" where [table_defs]:
  "SecretLockTransactionBuffer_DurationLength T = slot_len T 22"

definition SecretLockTransactionBuffer_MutateDuration :: "fb_table \<Rightarrow> SecretLockTransactionBuffer \<Rightarrow> int \<Rightarrow> u32 \<Rightarrow> (bool \<times> SecretLockTransactionBuffer) result" where [table_defs]:
  "SecretLockTransactionBuffer_MutateDuration T = set_elem_uint32 T 22"

definition SecretLockTransactionBuffer_HashAlgorithm :: "fb_table \<Rightarrow> SecretLockTransactionBuffer \<Rightarrow> byte result" where [table_defs]:
  "SecretLockTransactionBuffer_HashAlgorithm T = slot_byte T 24"

definition SecretLockTransactionBuffer_MutateHashAlgorithm :: "fb_table \<Rightarrow> SecretLockTransactionBuffer \<Rightarrow> byte \<Rightarrow> (bool \<times> SecretLockTransactionBuffer) result" where [table_defs]:
  "SecretLockTransactionBuffer_MutateHashAlgorithm T = (\<lambda>rcv. ft_MutateByteSlot T rcv 24)"

definition SecretLockTransactionBuffer_Secret :: "fb_table \<Rightarrow> SecretLockTransactionBuffer \<Rightarrow> int \<Rightarrow> byte result" where [table_defs]:
  "SecretLockTransactionBuffer_Secret T = elem_byte T 26"

definition SecretLockTransactionBuffer_SecretLength :: "fb_table \<Rightarrow> SecretLockTransactionBuffer \<Rightarrow> int result" where [table_defs]:
  "SecretLockTransactionBuffer_SecretLength T = slot_len T 26"

definition SecretLockTransactionBuffer_SecretBytes :: "fb_table \<Rightarrow> SecretLockTransactionBuffer \<Rightarrow> byte list result" where [table_defs]:
  "SecretLockTransactionBuffer_SecretBytes T = slot_bytes T 26"

definition SecretLockTransactionBuffer_MutateSecret :: "fb_table \<Rightarrow> SecretLockTransactionBuffer \<Rightarrow> int \<Rightarrow> byte \<Rightarrow> (bool \<times> SecretLockTransactionBuffer) result" where [table_defs]:
  "SecretLockTransactionBuffer_MutateSecret T = set_elem_byte T 26"

definition SecretLockTransactionBuffer_Recipient :: "fb_table \<Rightarrow> SecretLockTransactionBuffer \<Rightarrow> int \<Rightarrow> byte result" where [table_defs]:
  "SecretLockTransactionBuffer_Recipient T = elem_byte T 28"

definition SecretLockTransactionBuffer_RecipientLength :: "fb_table \<Rightarrow> SecretLockTransactionBuffer \<Rightarrow> int result" where [table_defs]:
  "SecretLockTransactionBuffer_RecipientLength T = slot_len T 28"

definition SecretLockTransactionBuffer_RecipientBytes :: "fb_table \<Rightarrow> SecretLockTransactionBuffer \<Rightarrow> byte list result" where [table_defs]:
  "SecretLockTransactionBuffer_RecipientBytes T = slot_bytes T 28"

definition SecretLockTransactionBuffer_MutateRecipient :: "fb_table \<Rightarrow> SecretLockTransactionBuffer \<Rightarrow> int \<Rightarrow> byte \<Rightarrow> (bool \<times> SecretLockTransactionBuffer) result" where [table_defs]:
  "SecretLockTransactionBuffer_MutateRecipient T = set_elem_byte T 28"

definition SecretLockTransactionBuffer_columns :: "fb_table \<Rightarrow> column list" where [column_defs]:
  "SecretLockTransactionBuffer_columns T =
    [ColUint32 (SecretLockTransactionBuffer_Size T) (SecretLockTransactionBuffer_MutateSize T),
     ColBytes (SecretLockTransactionBuffer_SignatureBytes T) (SecretLockTransactionBuffer_SignatureLength T) (SecretLockTransactionBuffer_Signature T)
       (SecretLockTransactionBuffer_MutateSignature T),
     ColBytes (SecretLockTransactionBuffer_SignerBytes T) (SecretLockTransactionBuffer_SignerLength T) (SecretLockTransactionBuffer_Signer T)
       (SecretLockTransactionBuffer_MutateSigner T),
     ColUint32 (SecretLockTransactionBuffer_Version T) (SecretLockTransactionBuffer_MutateVersion T),
     ColUint16 (SecretLockTransactionBuffer_Type T) (SecretLockTransactionBuffer_MutateType T),
     ColWords (SecretLockTransactionBuffer_MaxFeeLength T) (SecretLockTransactionBuffer_MaxFee T)
       (SecretLockTransactionBuffer_MutateMaxFee T),
     ColWords (SecretLockTransactionBuffer_DeadlineLength T) (SecretLockTransactionBuffer_Deadline T)
       (SecretLockTransactionBuffer_MutateDeadline T),
     ColWords (SecretLockTransactionBuffer_MosaicIdLength T) (SecretLockTransactionBuffer_MosaicId T)
       (SecretLockTransactionBuffer_MutateMosaicId T),
     ColWords (SecretLockTransactionBuffer_MosaicAmountLength T) (SecretLockTransactionBuffer_MosaicAmount T)
       (SecretLockTransactionBuffer_MutateMosaicAmount T),
     ColWords (SecretLockTransactionBuffer_DurationLength T) (SecretLockTransactionBuffer_Duration T)
       (SecretLockTransactionBuffer_MutateDuration T),
     ColByte (SecretLockTransactionBuffer_HashAlgorithm T) (SecretLockTransactionBuffer_MutateHashAlgorithm T),
     ColBytes (SecretLockTransactionBuffer_SecretBytes T) (SecretLockTransactionBuffer_SecretLength T) (SecretLockTransactionBuffer_Secret T)
       (SecretLockTransactionBuffer_MutateSecret T),
     ColBytes (SecretLockTransactionBuffer_RecipientBytes T) (SecretLockTransactionBuffer_RecipientLength T) (SecretLockTransactionBuffer_Recipient T)
       (SecretLockTransactionBuffer_MutateRecipient T)]"

definition SecretLockTransactionBufferAddSize :: "'b fb_api \<Rightarrow> u32 \<Rightarrow> ('b, unit) fb_prog" where [fb_defs]:
  "SecretLockTransactionBufferAddSize F sz = fb_do (fb_PrependUint32Slot F 0 sz 0)"

definition SecretLockTransactionBufferAddSignature :: "'b fb_api \<Rightarrow> u32 \<Rightarrow> ('b, unit) fb_prog" where [fb_defs]:
  "SecretLockTransactionBufferAddSignature F signature = fb_do (fb_PrependUOffsetTSlot F 1 signature 0)"

definition SecretLockTransactionBufferStartSignatureVector :: "'b fb_api \<Rightarrow> nat \<Rightarrow> ('b, unit) fb_prog" where [fb_defs]:
  "SecretLockTransactionBufferStartSignatureVector F numElems = fb_do (fb_StartVector F 1 numElems 1)"

definition SecretLockTransactionBufferAddSigner :: "'b fb_api \<Rightarrow> u32 \<Rightarrow> ('b, unit) fb_prog" where [fb_defs]:
  "SecretLockTransactionBufferAddSigner F signer = fb_do (fb_PrependUOffsetTSlot F 2 signer 0)"

definition SecretLockTransactionBufferStartSignerVector :: "'b fb_api \<Rightarrow> nat \<Rightarrow> ('b, unit) fb_prog" where [fb_defs]:
  "SecretLockTransactionBufferStartSignerVector F numElems = fb_do (fb_StartVector F 1 numElems 1)"

definition SecretLockTransactionBufferAddVersion :: "'b fb_api \<Rightarrow> u32 \<Rightarrow> ('b, unit) fb_prog" where [fb_defs]:
  "SecretLockTransactionBufferAddVersion F version = fb_do (fb_PrependUint32Slot F 3 version 0)"

definition SecretLockTransactionBufferAddType :: "'b fb_api \<Rightarrow> u16 \<Rightarrow> ('b, unit) fb_prog" where [fb_defs]:
  "SecretLockTransactionBufferAddType F type_V = fb_do (fb_PrependUint16Slot F 4 type_V 0)"

definition SecretLockTransactionBufferAddMaxFee :: "'b fb_api \<Rightarrow> u32 \<Rightarrow> ('b, unit) fb_prog" where [fb_defs]:
  "SecretLockTransactionBufferAddMaxFee F maxFee = fb_do (fb_PrependUOffsetTSlot F 5 maxFee 0)"

definition SecretLockTransactionBufferStartMaxFeeVector :: "'b fb_api \<Rightarrow> nat \<Rightarrow> ('b, unit) fb_prog" where [fb_defs]:
  "SecretLockTransactionBufferStartMaxFeeVector F numElems = fb_do (fb_StartVector F 4 numElems 4)"

definition SecretLockTransactionBufferAddDeadline :: "'b fb_api \<Rightarrow> u32 \<Rightarrow> ('b, unit) fb_prog" where [fb_defs]:
  "SecretLockTransactionBufferAddDeadline F deadline = fb_do (fb_PrependUOffsetTSlot F 6 deadline 0)"

definition SecretLockTransactionBufferStartDeadlineVector :: "'b fb_api \<Rightarrow> nat \<Rightarrow> ('b, unit) fb_prog" where [fb_defs]:
  "SecretLockTransactionBufferStartDeadlineVector F numElems = fb_do (fb_StartVector F 4 numElems 4)"

definition SecretLockTransactionBufferStartMosaicIdVector :: "'b fb_api \<Rightarrow> nat \<Rightarrow> ('b, unit) fb_prog" where [fb_defs]:
  "SecretLockTransactionBufferStartMosaicIdVector F numElems = fb_do (fb_StartVector F 4 numElems 4)"

definition SecretLockTransactionBufferStartMosaicAmountVector :: "'b fb_api \<Rightarrow> nat \<Rightarrow> ('b, unit) fb_prog" where [fb_defs]:
  "SecretLockTransactionBufferStartMosaicAmountVector F numElems = fb_do (fb_StartVector F 4 numElems 4)"

definition SecretLockTransactionBufferStartDurationVector :: "'b fb_api \<Rightarrow> nat \<Rightarrow> ('b, unit) fb_prog" where [fb_defs]:
  "SecretLockTransactionBufferStartDurationVector F numElems = fb_do (fb_StartVector F 4 numElems 4)"

definition SecretLockTransactionBufferStartSecretVector :: "'b fb_api \<Rightarrow> nat \<Rightarrow> ('b, unit) fb_prog" where [fb_defs]:
  "SecretLockTransactionBufferStartSecretVector F numElems = fb_do (fb_StartVector F 1 numElems 1)"

definition SecretLockTransactionBufferStartRecipientVector :: "'b fb_api \<Rightarrow> nat \<Rightarrow> ('b, unit) fb_prog" where [fb_defs]:
  "SecretLockTransactionBufferStartRecipientVector F numElems = fb_do (fb_StartVector F 1 numElems 1)"

definition SecretLockTransactionBufferEnd :: "'b fb_api \<Rightarrow> ('b, u32) fb_prog" where [fb_defs]:
  "SecretLockTransactionBufferEnd F = fb_call (fb_EndObject F)"

section \<open>\<open>transactions/secret_proof_transaction_buffer.go\<close>\<close>

type_synonym SecretProofTransactionBuffer = Table

definition GetRootAsSecretProofTransactionBuffer :: "fb_table \<Rightarrow> byte list \<Rightarrow> u32 \<Rightarrow> SecretProofTransactionBuffer result" where [table_defs]:
  "GetRootAsSecretProofTransactionBuffer T buf offset = table_root T buf offset"

definition SecretProofTransactionBuffer_Init :: "byte list \<Rightarrow> u32 \<Rightarrow> SecretProofTransactionBuffer" where
  "SecretProofTransactionBuffer_Init buf i = table_Init buf i"

definition SecretProofTransactionBuffer_Table :: "SecretProofTransactionBuffer \<Rightarrow> Table" where
  "SecretProofTransactionBuffer_Table rcv = rcv"

definition SecretProofTransactionBuffer_Size :: "fb_table \<Rightarrow> SecretProofTransactionBuffer \<Rightarrow> u32 result" where [table_defs]:
  "SecretProofTransactionBuffer_Size T = slot_uint32 T 4"

definition SecretProofTransactionBuffer_MutateSize :: "fb_table \<Rightarrow> SecretProofTransactionBuffer \<Rightarrow> u32 \<Rightarrow> (bool \<times> SecretProofTransactionBuffer) result" where [table_defs]:
  "SecretProofTransactionBuffer_MutateSize T = (\<lambda>rcv. ft_MutateUint32Slot T rcv 4)"

definition SecretProofTransactionBuffer_Signature :: "fb_table \<Rightarrow> SecretProofTransactionBuffer \<Rightarrow> int \<Rightarrow> byte result" where [table_defs]:
  "SecretProofTransactionBuffer_Signature T = elem_byte T 6"

definition SecretProofTransactionBuffer_SignatureLength :: "fb_table \<Rightarrow> SecretProofTransactionBuffer \<Rightarrow> int result" where [table_defs]:
  "SecretProofTransactionBuffer_SignatureLength T = slot_len T 6"

definition SecretProofTransactionBuffer_SignatureBytes :: "fb_table \<Rightarrow> SecretProofTransactionBuffer \<Rightarrow> byte list result" where [table_defs]:
  "SecretProofTransactionBuffer_SignatureBytes T = slot_bytes T 6"

definition SecretProofTransactionBuffer_MutateSignature :: "fb_table \<Rightarrow> SecretProofTransactionBuffer \<Rightarrow> int \<Rightarrow> byte \<Rightarrow> (bool \<times> SecretProofTransactionBuffer) result" where [table_defs]:
  "SecretProofTransactionBuffer_MutateSignature T = set_elem_byte T 6"

definition SecretProofTransactionBuffer_Signer :: "fb_table \<Rightarrow> SecretProofTransactionBuffer \<Rightarrow> int \<Rightarrow> byte result" where [table_defs]:
  "SecretProofTransactionBuffer_Signer T = elem_byte T 8"

definition SecretProofTransactionBuffer_SignerLength :: "fb_table \<Rightarrow> SecretProofTransactionBuffer \<Rightarrow> int result" where [table_defs]:
  "SecretProofTransactionBuffer_SignerLength T = slot_len T 8"

definition SecretProofTransactionBuffer_SignerBytes :: "fb_table \<Rightarrow> SecretProofTransactionBuffer \<Rightarrow> byte list result" where [table_defs]:
  "SecretProofTransactionBuffer_SignerBytes T = slot_bytes T 8"

definition SecretProofTransactionBuffer_MutateSigner :: "fb_table \<Rightarrow> SecretProofTransactionBuffer \<Rightarrow> int \<Rightarrow> byte \<Rightarrow> (bool \<times> SecretProofTransactionBuffer) result" where [table_defs]:
  "SecretProofTransactionBuffer_MutateSigner T = set_elem_byte T 8"

definition SecretProofTransactionBuffer_Version :: "fb_table \<Rightarrow> SecretProofTransactionBuffer \<Rightarrow> u16 result" where [table_defs]:
  "SecretProofTransactionBuffer_Version T = slot_uint16 T 10"

definition SecretProofTransactionBuffer_MutateVersion :: "fb_table \<Rightarrow> SecretProofTransactionBuffer \<Rightarrow> u16 \<Rightarrow> (bool \<times> SecretProofTransactionBuffer) result" where [table_defs]:
  "SecretProofTransactionBuffer_MutateVersion T = (\<lambda>rcv. ft_MutateUint16Slot T rcv 10)"

definition SecretProofTransactionBuffer_Type :: "fb_table \<Rightarrow> SecretProofTransactionBuffer \<Rightarrow> u16 result" where [table_defs]:
  "SecretProofTransactionBuffer_Type T = slot_uint16 T 12"

definition SecretProofTransactionBuffer_MutateType :: "fb_table \<Rightarrow> SecretProofTransactionBuffer \<Rightarrow> u16 \<Rightarrow> (bool \<times> SecretProofTransactionBuffer) result" where [table_defs]:
  "SecretProofTransactionBuffer_MutateType T = (\<lambda>rcv. ft_MutateUint16Slot T rcv 12)"

definition SecretProofTransactionBuffer_MaxFee :: "fb_table \<Rightarrow> SecretProofTransactionBuffer \<Rightarrow> int \<Rightarrow> u32 result" where [table_defs]:
  "SecretProofTransactionBuffer_MaxFee T = elem_uint32 T 14"

definition SecretProofTransactionBuffer_MaxFeeLength :: "fb_table \<Rightarrow> SecretProofTransactionBuffer \<Rightarrow> int result" where [table_defs]:
  "SecretProofTransactionBuffer_MaxFeeLength T = slot_len T 14"

definition SecretProofTransactionBuffer_MutateMaxFee :: "fb_table \<Rightarrow> SecretProofTransactionBuffer \<Rightarrow> int \<Rightarrow> u32 \<Rightarrow> (bool \<times> SecretProofTransactionBuffer) result" where [table_defs]:
  "SecretProofTransactionBuffer_MutateMaxFee T = set_elem_uint32 T 14"

definition SecretProofTransactionBuffer_Deadline :: "fb_table \<Rightarrow> SecretProofTransactionBuffer \<Rightarrow> int \<Rightarrow> u32 result" where [table_defs]:
  "SecretProofTransactionBuffer_Deadline T = elem_uint32 T 16"

definition SecretProofTransactionBuffer_DeadlineLength :: "fb_table \<Rightarrow> SecretProofTransactionBuffer \<Rightarrow> int result" where [table_defs]:
  "SecretProofTransactionBuffer_DeadlineLength T = slot_len T 16"

definition SecretProofTransactionBuffer_MutateDeadline :: "fb_table \<Rightarrow> SecretProofTransactionBuffer \<Rightarrow> int \<Rightarrow> u32 \<Rightarrow> (bool \<times> SecretProofTransactionBuffer) result" where [table_defs]:
  "SecretProofTransactionBuffer_MutateDeadline T = set_elem_uint32 T 16"

definition SecretProofTransactionBuffer_HashAlgorithm :: "fb_table \<Rightarrow> SecretProofTransactionBuffer \<Rightarrow> byte result" where [table_defs]:
  "SecretProofTransactionBuffer_HashAlgorithm T = slot_byte T 18"

definition SecretProofTransactionBuffer_MutateHashAlgorithm :: "fb_table \<Rightarrow> SecretProofTransactionBuffer \<Rightarrow> byte \<Rightarrow> (bool \<times> SecretProofTransactionBuffer) result" where [table_defs]:
  "SecretProofTransactionBuffer_MutateHashAlgorithm T = (\<lambda>rcv. ft_MutateByteSlot T rcv 18)"

definition SecretProofTransactionBuffer_Secret :: "fb_table \<Rightarrow> SecretProofTransactionBuffer \<Rightarrow> int \<Rightarrow> byte result" where [table_defs]:
  "SecretProofTransactionBuffer_Secret T = elem_byte T 20"

definition SecretProofTransactionBuffer_SecretLength :: "fb_table \<Rightarrow> SecretProofTransactionBuffer \<Rightarrow> int result" where [table_defs]:
  "SecretProofTransactionBuffer_SecretLength T = slot_len T 20"

definition SecretProofTransactionBuffer_SecretBytes :: "fb_table \<Rightarrow> SecretProofTransactionBuffer \<Rightarrow> byte list result" where [table_defs]:
  "SecretProofTransactionBuffer_SecretBytes T = slot_bytes T 20"

definition SecretProofTransactionBuffer_MutateSecret :: "fb_table \<Rightarrow> SecretProofTransactionBuffer \<Rightarrow> int \<Rightarrow> byte \<Rightarrow> (bool \<times> SecretProofTransactionBuffer) result" where [table_defs]:
  "SecretProofTransactionBuffer_MutateSecret T = set_elem_byte T 20"

definition SecretProofTransactionBuffer_Recipient :: "fb_table \<Rightarrow> SecretProofTransactionBuffer \<Rightarrow> int \<Rightarrow> byte result" where [table_defs]:
  "SecretProofTransactionBuffer_Recipient T = elem_byte T 22"

definition SecretProofTransactionBuffer_RecipientLength :: "fb_table \<Rightarrow> SecretProofTransactionBuffer \<Rightarrow> int result" where [table_defs]:
  "SecretProofTransactionBuffer_RecipientLength T = slot_len T 22"

definition SecretProofTransactionBuffer_RecipientBytes :: "fb_table \<Rightarrow> SecretProofTransactionBuffer \<Rightarrow> byte list result" where [table_defs]:
  "SecretProofTransactionBuffer_RecipientBytes T = slot_bytes T 22"

definition SecretProofTransactionBuffer_MutateRecipient :: "fb_table \<Rightarrow> SecretProofTransactionBuffer \<Rightarrow> int \<Rightarrow> byte \<Rightarrow> (bool \<times> SecretProofTransactionBuffer) result" where [table_defs]:
  "SecretProofTransactionBuffer_MutateRecipient T = set_elem_byte T 22"

definition SecretProofTransactionBuffer_ProofSize :: "fb_table \<Rightarrow> SecretProofTransactionBuffer \<Rightarrow> u16 result" where [table_defs]:
  "SecretProofTransactionBuffer_ProofSize T = slot_uint16 T 24"

definition SecretProofTransactionBuffer_MutateProofSize :: "fb_table \<Rightarrow> SecretProofTransactionBuffer \<Rightarrow> u16 \<Rightarrow> (bool \<times> SecretProofTransactionBuffer) result" where [table_defs]:
  "SecretProofTransactionBuffer_MutateProofSize T = (\<lambda>rcv. ft_MutateUint16Slot T rcv 24)"

definition SecretProofTransactionBuffer_Proof :: "fb_table \<Rightarrow> SecretProofTransactionBuffer \<Rightarrow> int \<Rightarrow> byte result" where [table_defs]:
  "SecretProofTransactionBuffer_Proof T = elem_byte T 26"

definition SecretProofTransactionBuffer_ProofLength :: "fb_table \<Rightarrow> SecretProofTransactionBuffer \<Rightarrow> int result" where [table_defs]:
  "SecretProofTransactionBuffer_ProofLength T = slot_len T 26"

definition SecretProofTransactionBuffer_ProofBytes :: "fb_table \<Rightarrow> SecretProofTransactionBuffer \<Rightarrow> byte list result" where [table_defs]:
  "SecretProofTransactionBuffer_ProofBytes T = slot_bytes T 26"

definition SecretProofTransactionBuffer_MutateProof :: "fb_table \<Rightarrow> SecretProofTransactionBuffer \<Rightarrow> int \<Rightarrow> byte \<Rightarrow> (bool \<times> SecretProofTransactionBuffer) result" where [table_defs]:
  "SecretProofTransactionBuffer_MutateProof T = set_elem_byte T 26"

definition SecretProofTransactionBuffer_columns :: "fb_table \<Rightarrow> column list" where [column_defs]:
  "SecretProofTransactionBuffer_columns T =
    [ColUint32 (SecretProofTransactionBuffer_Size T) (SecretProofTransactionBuffer_MutateSize T),
     ColBytes (SecretProofTransactionBuffer_SignatureBytes T) (SecretProofTransactionBuffer_SignatureLength T) (SecretProofTransactionBuffer_Signature T)
       (SecretProofTransactionBuffer_MutateSignature T),
     ColBytes (SecretProofTransactionBuffer_SignerBytes T) (SecretProofTransactionBuffer_SignerLength T) (SecretProofTransactionBuffer_Signer T)
       (SecretProofTransactionBuffer_MutateSigner T),
     ColUint16 (SecretProofTransactionBuffer_Version T) (SecretProofTransactionBuffer_MutateVersion T),
     ColUint16 (SecretProofTransactionBuffer_Type T) (SecretProofTransactionBuffer_MutateType T),
     ColWords (SecretProofTransactionBuffer_MaxFeeLength T) (SecretProofTransactionBuffer_MaxFee T)
       (SecretProofTransactionBuffer_MutateMaxFee T),
     ColWords (SecretProofTransactionBuffer_DeadlineLength T) (SecretProofTransactionBuffer_Deadline T)
       (SecretProofTransactionBuffer_MutateDeadline T),
     ColByte (SecretProofTransactionBuffer_HashAlgorithm T) (SecretProofTransactionBuffer_MutateHashAlgorithm T),
     ColBytes (SecretProofTransactionBuffer_SecretBytes T) (SecretProofTransactionBuffer_SecretLength T) (SecretProofTransactionBuffer_Secret T)
       (SecretProofTransactionBuffer_MutateSecret T),
     ColBytes (SecretProofTransactionBuffer_RecipientBytes T) (SecretProofTransactionBuffer_RecipientLength T) (SecretProofTransactionBuffer_Recipient T)
       (SecretProofTransactionBuffer_MutateRecipient T),
     ColUint16 (SecretProofTransactionBuffer_ProofSize T) (SecretProofTransactionBuffer_MutateProofSize T),
     ColBytes (SecretProofTransactionBuffer_ProofBytes T) (SecretProofTransactionBuffer_ProofLength T) (SecretProofTransactionBuffer_Proof T)
       (SecretProofTransactionBuffer_MutateProof T)]"

definition SecretProofTransactionBufferAddSize :: "'b fb_api \<Rightarrow> u32 \<Rightarrow> ('b, unit) fb_prog" where [fb_defs]:
  "SecretProofTransactionBufferAddSize F sz = fb_do (fb_PrependUint32Slot F 0 sz 0)"

definition SecretProofTransactionBufferAddSignature :: "'b fb_api \<Rightarrow> u32 \<Rightarrow> ('b, unit) fb_prog" where [fb_defs]:
  "SecretProofTransactionBufferAddSignature F signature = fb_do (fb_PrependUOffsetTSlot F 1 signature 0)"

definition SecretProofTransactionBufferStartSignatureVector :: "'b fb_api \<Rightarrow> nat \<Rightarrow> ('b, unit) fb_prog" where [fb_defs]:
  "SecretProofTransactionBufferStartSignatureVector F numElems = fb_do (fb_StartVector F 1 numElems 1)"

definition SecretProofTransactionBufferAddSigner :: "'b fb_api \<Rightarrow> u32 \<Rightarrow> ('b, unit) fb_prog" where [fb_defs]:
  "SecretProofTransactionBufferAddSigner F signer = fb_do (fb_PrependUOffsetTSlot F 2 signer 0)"

definition SecretProofTransactionBufferStartSignerVector :: "'b fb_api \<Rightarrow> nat \<Rightarrow> ('b, unit) fb_prog" where [fb_defs]:
  "SecretProofTransactionBufferStartSignerVector F numElems = fb_do (fb_StartVector F 1 numElems 1)"

definition SecretProofTransactionBufferAddVersion :: "'b fb_api \<Rightarrow> u16 \<Rightarrow> ('b, unit) fb_prog" where [fb_defs]:
  "SecretProofTransactionBufferAddVersion F version = fb_do (fb_PrependUint16Slot F 3 version 0)"

definition SecretProofTransactionBufferAddType :: "'b fb_api \<Rightarrow> u16 \<Rightarrow> ('b, unit) fb_prog" where [fb_defs]:
  "SecretProofTransactionBufferAddType F type_V = fb_do (fb_PrependUint16Slot F 4 type_V 0)"

definition SecretProofTransactionBufferAddMaxFee :: "'b fb_api \<Rightarrow> u32 \<Rightarrow> ('b, unit) fb_prog" where [fb_defs]:
  "SecretProofTransactionBufferAddMaxFee F maxFee = fb_do (fb_PrependUOffsetTSlot F 5 maxFee 0)"

definition SecretProofTransactionBufferStartMaxFeeVector :: "'b fb_api \<Rightarrow> nat \<Rightarrow> ('b, unit) fb_prog" where [fb_defs]:
  "SecretProofTransactionBufferStartMaxFeeVector F numElems = fb_do (fb_StartVector F 4 numElems 4)"

definition SecretProofTransactionBufferAddDeadline :: "'b fb_api \<Rightarrow> u32 \<Rightarrow> ('b, unit) fb_prog" where [fb_defs]:
  "SecretProofTransactionBufferAddDeadline F deadline = fb_do (fb_PrependUOffsetTSlot F 6 deadline 0)"

definition SecretProofTransactionBufferStartDeadlineVector :: "'b fb_api \<Rightarrow> nat \<Rightarrow> ('b, unit) fb_prog" where [fb_defs]:
  "SecretProofTransactionBufferStartDeadlineVector F numElems = fb_do (fb_StartVector F 4 numElems 4)"

definition SecretProofTransactionBufferStartSecretVector :: "'b fb_api \<Rightarrow> nat \<Rightarrow> ('b, unit) fb_prog" where [fb_defs]:
  "SecretProofTransactionBufferStartSecretVector F numElems = fb_do (fb_StartVector F 1 numElems 1)"

definition SecretProofTransactionBufferStartRecipientVector :: "'b fb_api \<Rightarrow> nat \<Rightarrow> ('b, unit) fb_prog" where [fb_defs]:
  "SecretProofTransactionBufferStartRecipientVector F numElems = fb_do (fb_StartVector F 1 numElems 1)"

definition SecretProofTransactionBufferStartProofVector :: "'b fb_api \<Rightarrow> nat \<Rightarrow> ('b, unit) fb_prog" where [fb_defs]:
  "SecretProofTransactionBufferStartProofVector F numElems = fb_do (fb_StartVector F 1 numElems 1)"

definition SecretProofTransactionBufferEnd :: "'b fb_api \<Rightarrow> ('b, u32) fb_prog" where [fb_defs]:
  "SecretProofTransactionBufferEnd F = fb_call (fb_EndObject F)"

end
