(* ===== verification/FbAdders.thy ===== *)
theory FbAdders
  imports FbColumns
begin

text \<open>
  The functions that write the slots of a table, one per slot: \<open>adders_at\<close> says that they have the generated shapes, and
  \<open>write_table\<close> opens a table, writes every slot and closes it, as the SDK does. A cell is what one of them is given: a
  number, or the offset of an object written before.
\<close>

datatype 'b adder =
    AddByte "byte \<Rightarrow> ('b, unit) fb_prog"
  | AddInt8 "8 word \<Rightarrow> ('b, unit) fb_prog"
  | AddUint16 "u16 \<Rightarrow> ('b, unit) fb_prog"
  | AddUint32 "u32 \<Rightarrow> ('b, unit) fb_prog"
  | AddRef "u32 \<Rightarrow> ('b, unit) fb_prog"

datatype cell = CellByte byte | CellUint16 u16 | CellUint32 u32 | CellRef u32

fun adder_at :: "'b fb_api \<Rightarrow> nat \<Rightarrow> 'b adder \<Rightarrow> bool" where
  "adder_at F j (AddByte f) \<longleftrightarrow> f = (\<lambda>x. fb_do (fb_PrependByteSlot F j x 0))"
| "adder_at F j (AddInt8 f) \<longleftrightarrow> f = (\<lambda>x. fb_do (fb_PrependInt8Slot F j x 0))"
| "adder_at F j (AddUint16 f) \<longleftrightarrow> f = (\<lambda>x. fb_do (fb_PrependUint16Slot F j x 0))"
| "adder_at F j (AddUint32 f) \<longleftrightarrow> f = (\<lambda>x. fb_do (fb_PrependUint32Slot F j x 0))"
| "adder_at F j (AddRef f) \<longleftrightarrow> f = (\<lambda>x. fb_do (fb_PrependUOffsetTSlot F j x 0))"

fun adders_at :: "'b fb_api \<Rightarrow> nat \<Rightarrow> 'b adder list \<Rightarrow> bool" where
  "adders_at F j [] \<longleftrightarrow> True"
| "adders_at F j (a # as) \<longleftrightarrow> adder_at F j a \<and> adders_at F (Suc j) as"

fun cell_fits :: "'b adder \<Rightarrow> cell \<Rightarrow> bool" where
  "cell_fits (AddByte _) (CellByte _) = True"
| "cell_fits (AddInt8 _) (CellByte _) = True"
| "cell_fits (AddUint16 _) (CellUint16 _) = True"
| "cell_fits (AddUint32 _) (CellUint32 _) = True"
| "cell_fits (AddRef _) (CellRef _) = True"
| "cell_fits _ _ = False"

fun add_cell :: "'b adder \<Rightarrow> cell \<Rightarrow> ('b, unit) fb_prog" where
  "add_cell (AddByte f) (CellByte x) = f x"
| "add_cell (AddInt8 f) (CellByte x) = f x"
| "add_cell (AddUint16 f) (CellUint16 h) = f h"
| "add_cell (AddUint32 f) (CellUint32 y) = f y"
| "add_cell (AddRef f) (CellRef off) = f off"
| "add_cell _ _ = fb_lift (Inl Panicked)"

text \<open>The field that a cell becomes, given the objects written so far.\<close>

fun cell_field :: "(u32 \<Rightarrow> fbval option) \<Rightarrow> cell \<Rightarrow> fbfield" where
  "cell_field vals (CellByte x) = sc8 x"
| "cell_field vals (CellUint16 h) = sc16 h"
| "cell_field vals (CellUint32 y) = sc32 y"
| "cell_field vals (CellRef off) = (case vals off of None \<Rightarrow> Absent | Some v \<Rightarrow> Ref v)"

definition cell_known :: "(u32 \<Rightarrow> fbval option) \<Rightarrow> cell \<Rightarrow> bool" where
  "cell_known vals c \<longleftrightarrow> (\<forall>off. c = CellRef off \<longrightarrow> off \<noteq> 0 \<and> vals off \<noteq> None)"

definition write_table :: "('b, unit) fb_prog \<Rightarrow> 'b adder list \<Rightarrow> ('b, u32) fb_prog \<Rightarrow> cell list \<Rightarrow> ('b, u32) fb_prog" where
  "write_table start adders end cells =
     fb_then start (fb_then (fb_for (\<lambda>(a, c). add_cell a c) (zip adders cells)) end)"

definition table_writer :: "'b fb_api \<Rightarrow> ('b, unit) fb_prog \<Rightarrow> 'b adder list \<Rightarrow> ('b, u32) fb_prog \<Rightarrow> bool" where
  "table_writer F start adders end \<longleftrightarrow>
     start = fb_do (fb_StartObject F (length adders)) \<and> adders_at F 0 adders \<and> end = fb_call (fb_EndObject F) \<and> length adders \<le> 100"

context flatbuffers
begin

lemma add_cell_writes:
  assumes "adder_at F j a" "cell_fits a c" "cell_known (st_vals s) c" "R b s" "st_mode s = InTable fs" "j < length fs" "fs ! j = Absent"
  shows "\<exists>b'. add_cell a c b = Inr ((), b') \<and> R b' (s\<lparr>st_mode := InTable (fs[j := cell_field (st_vals s) c])\<rparr>)"
proof (cases c)
  case (CellRef off)
  then obtain v where v: "st_vals s off = Some v" "off \<noteq> 0"
    using assms(3) by (auto simp: cell_known_def)
  with CellRef assms(1,2) PrependUOffsetTSlot [OF assms(4-7) v] show ?thesis
    by (cases a) (simp_all add: fb_do_def)
qed (use assms(1,2) PrependByteSlot [OF assms(4-7)] PrependInt8Slot [OF assms(4-7)] PrependUint16Slot [OF assms(4-7)]
      PrependUint32Slot [OF assms(4-7)] in \<open>cases a; simp add: fb_do_def sc8_def sc16_def sc32_def\<close>)+

lemma adders_write:
  assumes "adders_at F (length pre) as" "list_all2 cell_fits as cs" "list_all (cell_known (st_vals s)) cs"
    and "R b (s\<lparr>st_mode := InTable (pre @ replicate (length cs) Absent)\<rparr>)"
  shows "\<exists>b'. fb_for (\<lambda>(a, c). add_cell a c) (zip as cs) b = Inr ((), b')
    \<and> R b' (s\<lparr>st_mode := InTable (pre @ map (cell_field (st_vals s)) cs)\<rparr>)"
  using assms
proof (induction as arbitrary: cs pre b)
  case Nil
  then show ?case by (simp add: fb_return_def)
next
  case (Cons a as)
  then obtain c ds where cs: "cs = c # ds" "cell_fits a c" "list_all2 cell_fits as ds" "cell_known (st_vals s) c"
    "list_all (cell_known (st_vals s)) ds"
    by (cases cs) auto
  let ?fs = "pre @ replicate (length cs) Absent"
  let ?pre = "pre @ [cell_field (st_vals s) c]"
  obtain b1 where b1: "add_cell a c b = Inr ((), b1)"
    "R b1 (s\<lparr>st_mode := InTable (?fs[length pre := cell_field (st_vals s) c])\<rparr>)"
    using add_cell_writes [of "length pre" a c "s\<lparr>st_mode := InTable ?fs\<rparr>" b ?fs] Cons.prems cs by (auto simp: nth_append)
  then have "R b1 (s\<lparr>st_mode := InTable (?pre @ replicate (length ds) Absent)\<rparr>)"
    using cs(1) by (simp add: list_update_append)
  then obtain b2 where "fb_for (\<lambda>(a, c). add_cell a c) (zip as ds) b1 = Inr ((), b2)"
    "R b2 (s\<lparr>st_mode := InTable (?pre @ map (cell_field (st_vals s)) ds)\<rparr>)"
    using Cons.IH [of ?pre ds b1] Cons.prems(1) cs(3,5) by auto
  with b1(1) cs(1) show ?case by (auto simp: fb_then_def fb_bind_def)
qed

lemma table_written:
  assumes w: "table_writer F start adders end" and r: "R b s" "st_mode s = Idle l"
    and c: "list_all2 cell_fits adders cells" "list_all (cell_known (st_vals s)) cells"
    and u: "st_used s + 24 + 12 * length cells \<le> fb_limit"
  shows "\<exists>off b'. write_table start adders end cells b = Inr (off, b')
    \<and> fb_root (fb_FinishedBytes F (fb_Finish F off b')) (FTable (map (cell_field (st_vals s)) cells))
    \<and> length (fb_FinishedBytes F (fb_Finish F off b')) < 2 ^ 31"
proof -
  let ?n = "length cells" and ?fs = "map (cell_field (st_vals s)) cells"
  let ?s = "s\<lparr>st_used := st_used s + 24 + 12 * ?n\<rparr>"
  have n: "length adders = ?n" "?n \<le> 100" using c(1) w by (auto simp: table_writer_def dest: list_all2_lengthD)
  have "R (fb_StartObject F ?n b) (?s\<lparr>st_mode := InTable ([] @ replicate ?n Absent)\<rparr>)"
    using StartObject [OF r n(2)] by (cases s) simp
  then obtain b1 where b1: "fb_for (\<lambda>(a, c). add_cell a c) (zip adders cells) (fb_StartObject F ?n b) = Inr ((), b1)"
    "R b1 (?s\<lparr>st_mode := InTable ([] @ ?fs)\<rparr>)"
    using adders_write [of "[]" adders cells ?s] w c by (auto simp: table_writer_def)
  let ?r = "fb_EndObject F b1" and ?t = "?s\<lparr>st_mode := InTable ?fs\<rparr>"
  have new: "new_object R ?t (FTable ?fs) ?r"
    by (rule EndObject) (use b1(2) u in simp_all)
  have "fb_root (fb_FinishedBytes F (fb_Finish F (fst ?r) (snd ?r))) (FTable ?fs)
    \<and> length (fb_FinishedBytes F (fb_Finish F (fst ?r) (snd ?r))) < 2 ^ 31"
    using Finish [of "snd ?r" "stored (fst ?r) (FTable ?fs) ?t" "fst ?r" ?fs] new n(2) u
    by (simp add: new_object_def stored_def)
  moreover have "write_table start adders end cells b = Inr ?r"
    using w b1(1) n(1) by (simp add: write_table_def table_writer_def fb_then_def fb_bind_def fb_do_def fb_call_def)
  ultimately show ?thesis by (intro exI [of _ "fst ?r"] exI [of _ "snd ?r"]) simp
qed

end

section \<open>From the root of a buffer\<close>

context fb_tables
begin

lemma root_reads:
  assumes "fb_root buf (FTable fs)" "length buf < 2 ^ 31"
  shows "table_root T buf 0 = Inr (tab buf (unat (get_u32 buf 0)))" "table_header buf (unat (get_u32 buf 0))"
    "\<forall>i < length fs. slot_is buf (unat (get_u32 buf 0)) (0 + i) (fs ! i)"
  using assms fb_at_table [of buf "unat (get_u32 buf 0)" fs] GetUOffsetT [of buf]
  by (simp_all add: fb_root_def table_root_def table_Init_def subslice_from_def subslice_def)

lemma root_columns:
  assumes "fb_root buf (FTable fs)" "length buf < 2 ^ 31" "columns_at T 0 cols" "columns_fields cols fs"
  shows "\<exists>t. table_root T buf 0 = Inr t \<and> columns_hold cols t fs"
  using root_reads [OF assms(1,2)] columns_hold(2) [OF assms(4,3)] by blast

end

section \<open>Changing a scalar in place\<close>

text \<open>The field of slot \<open>j\<close>, \<open>n\<close> bytes, does not overlap the header of the table and its vtable.\<close>

definition slot_apart :: "byte list \<Rightarrow> nat \<Rightarrow> nat \<Rightarrow> nat \<Rightarrow> bool" where
  "slot_apart buf p j n \<longleftrightarrow> slot_room buf p j n \<and>
     (slot_pos buf p j = 0 \<or> 4 \<le> slot_pos buf p j \<and>
      (p + slot_pos buf p j + n \<le> vtable_at buf p \<or> vtable_at buf p + get_u16 buf (vtable_at buf p) \<le> p + slot_pos buf p j))"

lemma length_poke [simp]: "q + length bs \<le> length buf \<Longrightarrow> length (poke buf q bs) = length buf"
  by (simp add: poke_def)

lemma poke_elsewhere:
  assumes "r + k \<le> q \<or> q + length bs \<le> r" "q + length bs \<le> length buf"
  shows "take k (drop r (poke buf q bs)) = take k (drop r buf)"
proof (rule nth_equalityI)
  show "length (take k (drop r (poke buf q bs))) = length (take k (drop r buf))" using assms(2) by simp
  fix i assume "i < length (take k (drop r (poke buf q bs)))"
  then have i: "i < k" "r + i < length buf" using assms(2) by auto
  have "poke buf q bs ! (r + i) = buf ! (r + i)"
    using assms i by (auto simp: poke_def nth_append min_def)
  with i assms(2) show "take k (drop r (poke buf q bs)) ! i = take k (drop r buf) ! i" by simp
qed

lemma get_poke_elsewhere:
  "r + 4 \<le> q \<or> q + length bs \<le> r \<Longrightarrow> q + length bs \<le> length buf \<Longrightarrow> get_u32 (poke buf q bs) r = get_u32 buf r"
  "r + 2 \<le> q \<or> q + length bs \<le> r \<Longrightarrow> q + length bs \<le> length buf \<Longrightarrow> get_u16 (poke buf q bs) r = get_u16 buf r"
  by (simp_all add: get_u32_def get_u16_def poke_elsewhere)

lemma poke_field: "q + length bs \<le> length buf \<Longrightarrow> field_at (poke buf q bs) q (Scalar bs)"
  by (simp add: poke_def)

lemma vslot_same:
  "get_u16 b vt = get_u16 c vt \<Longrightarrow> get_u16 b (vt + 4 + 2 * j) = get_u16 c (vt + 4 + 2 * j) \<Longrightarrow> vslot b vt j = vslot c vt j"
  by (simp add: vslot_def)

lemma slot_poked:
  assumes h: "table_header buf p" and a: "slot_apart buf p j (length bs)" and o: "slot_pos buf p j \<noteq> 0"
  shows "table_header (poke buf (p + slot_pos buf p j) bs) p"
    "slot_pos (poke buf (p + slot_pos buf p j) bs) p j = slot_pos buf p j"
    "field_at (poke buf (p + slot_pos buf p j) bs) (p + slot_pos buf p j) (Scalar bs)"
proof -
  let ?q = "p + slot_pos buf p j" and ?vt = "vtable_at buf p"
  let ?buf = "poke buf ?q bs"
  have room: "?q + length bs \<le> length buf" using a by (simp add: slot_apart_def slot_room_def)
  have apart: "4 \<le> slot_pos buf p j" "?q + length bs \<le> ?vt \<or> ?vt + get_u16 buf ?vt \<le> ?q" using a o by (auto simp: slot_apart_def)
  have vt: "vtable_at ?buf p = ?vt"
    using get_poke_elsewhere(1) [of p ?q bs buf] room apart(1) by (simp add: vtable_at_def)
  have inside: "4 + 2 * j < get_u16 buf ?vt" using o by (auto simp: vslot_def split: if_splits)
  then have j: "4 + 2 * j + 2 \<le> get_u16 buf ?vt" using h unfolding table_header_def by presburger
  have size: "get_u16 ?buf ?vt = get_u16 buf ?vt"
    by (rule get_poke_elsewhere(2)) (use apart(2) room j in linarith)+
  have entry: "get_u16 ?buf (?vt + 4 + 2 * j) = get_u16 buf (?vt + 4 + 2 * j)"
    by (rule get_poke_elsewhere(2)) (use apart(2) room j in linarith)+
  show "table_header ?buf p" using h vt size room by (simp add: table_header_def)
  show "slot_pos ?buf p j = slot_pos buf p j" unfolding vt by (rule vslot_same [OF size entry])
  show "field_at ?buf ?q (Scalar bs)" by (rule poke_field [OF room])
qed

end
