(* ===== verification/TablesProperties.thy ===== *)
theory TablesProperties
  imports TablesTransfers FbAdders FbReference
begin

text \<open>
  What the generated code of the tables is worth: what its functions write its accessors read, a change in place is read back,
  and the accessors see in a buffer what the schemas of the SDK make of it. The tables are those of \<open>TablesAccounts\<close>,
  \<open>TablesAssets\<close>, \<open>TablesChain\<close> and \<open>TablesTransfers\<close>; one accessor, the version of a secret proof, is too narrow.
\<close>

section \<open>All tables\<close>

text \<open>The functions that write a table, that find it in a buffer, and that read it.\<close>

definition table_code ::
  "'b fb_api \<Rightarrow> fb_table \<Rightarrow>
     (('b, unit) fb_prog \<times> 'b adder list \<times> ('b, u32) fb_prog \<times> (byte list \<Rightarrow> u32 \<Rightarrow> Table result) \<times> column list) list"
where
  "table_code F T =
    [(CosignatoryModificationBufferStart F,
      [AddByte (CosignatoryModificationBufferAddType F),
       AddRef (CosignatoryModificationBufferAddCosignatoryPublicKey F)],
      CosignatoryModificationBufferEnd F, GetRootAsCosignatoryModificationBuffer T, CosignatoryModificationBuffer_columns T),
     (AccountLinkTransactionBufferStart F,
      [AddUint32 (AccountLinkTransactionBufferAddSize F),
       AddRef (AccountLinkTransactionBufferAddSignature F),
       AddRef (AccountLinkTransactionBufferAddSigner F),
       AddUint32 (AccountLinkTransactionBufferAddVersion F),
       AddUint16 (AccountLinkTransactionBufferAddType F),
       AddRef (AccountLinkTransactionBufferAddMaxFee F),
       AddRef (AccountLinkTransactionBufferAddDeadline F),
       AddRef (AccountLinkTransactionBufferAddRemoteAccountKey F),
       AddByte (AccountLinkTransactionBufferAddLinkAction F)],
      AccountLinkTransactionBufferEnd F, GetRootAsAccountLinkTransactionBuffer T, AccountLinkTransactionBuffer_columns T),
     (PropertyModificationBufferStart F,
      [AddByte (PropertyModificationBufferAddModificationType F),
       AddRef (PropertyModificationBufferAddValue F)],
      PropertyModificationBufferEnd F, GetRootAsPropertyModificationBuffer T, PropertyModificationBuffer_columns T),
     (AccountPropertiesTransactionBufferStart F,
      [AddUint32 (AccountPropertiesTransactionBufferAddSize F),
       AddRef (AccountPropertiesTransactionBufferAddSignature F),
       AddRef (AccountPropertiesTransactionBufferAddSigner F),
       AddUint32 (AccountPropertiesTransactionBufferAddVersion F),
       AddUint16 (AccountPropertiesTransactionBufferAddType F),
       AddRef (AccountPropertiesTransactionBufferAddMaxFee F),
       AddRef (AccountPropertiesTransactionBufferAddDeadline F),
       AddByte (AccountPropertiesTransactionBufferAddPropertyType F),
       AddByte (AccountPropertiesTransactionBufferAddModificationCount F),
       AddRef (AccountPropertiesTransactionBufferAddModifications F)],
      AccountPropertiesTransactionBufferEnd F, GetRootAsAccountPropertiesTransactionBuffer T, AccountPropertiesTransactionBuffer_columns T),
     (AliasTransactionBufferStart F,
      [AddUint32 (AliasTransactionBufferAddSize F),
       AddRef (AliasTransactionBufferAddSignature F),
       AddRef (AliasTransactionBufferAddSigner F),
       AddUint32 (AliasTransactionBufferAddVersion F),
       AddUint16 (AliasTransactionBufferAddType F),
       AddRef (AliasTransactionBufferAddMaxFee F),
       AddRef (AliasTransactionBufferAddDeadline F),
       AddByte (AliasTransactionBufferAddActionType F),
       AddRef (AliasTransactionBufferAddNamespaceId F),
       AddRef (AliasTransactionBufferAddAliasId F)],
      AliasTransactionBufferEnd F, GetRootAsAliasTransactionBuffer T, AliasTransactionBuffer_columns T),
     (ModifyMultisigAccountTransactionBufferStart F,
      [AddUint32 (ModifyMultisigAccountTransactionBufferAddSize F),
       AddRef (ModifyMultisigAccountTransactionBufferAddSignature F),
       AddRef (ModifyMultisigAccountTransactionBufferAddSigner F),
       AddUint32 (ModifyMultisigAccountTransactionBufferAddVersion F),
       AddUint16 (ModifyMultisigAccountTransactionBufferAddType F),
       AddRef (ModifyMultisigAccountTransactionBufferAddMaxFee F),
       AddRef (ModifyMultisigAccountTransactionBufferAddDeadline F),
       AddInt8 (ModifyMultisigAccountTransactionBufferAddMinRemovalDelta F),
       AddInt8 (ModifyMultisigAccountTransactionBufferAddMinApprovalDelta F),
       AddByte (ModifyMultisigAccountTransactionBufferAddNumModifications F),
       AddRef (ModifyMultisigAccountTransactionBufferAddModifications F)],
      ModifyMultisigAccountTransactionBufferEnd F, GetRootAsModifyMultisigAccountTransactionBuffer T, ModifyMultisigAccountTransactionBuffer_columns T),
     (ModifyContractTransactionBufferStart F,
      [AddUint32 (ModifyContractTransactionBufferAddSize F),
       AddRef (ModifyContractTransactionBufferAddSignature F),
       AddRef (ModifyContractTransactionBufferAddSigner F),
       AddUint32 (ModifyContractTransactionBufferAddVersion F),
       AddUint16 (ModifyContractTransactionBufferAddType F),
       AddRef (ModifyContractTransactionBufferAddMaxFee F),
       AddRef (ModifyContractTransactionBufferAddDeadline F),
       AddRef (ModifyContractTransactionBufferAddDurationDelta F),
       AddRef (ModifyContractTransactionBufferAddHash F),
       AddByte (ModifyContractTransactionBufferAddNumCustomers F),
       AddByte (ModifyContractTransactionBufferAddNumExecutors F),
       AddByte (ModifyContractTransactionBufferAddNumVerifiers F),
       AddRef (ModifyContractTransactionBufferAddCustomers F),
       AddRef (ModifyContractTransactionBufferAddExecutors F),
       AddRef (ModifyContractTransactionBufferAddVerifiers F)],
      ModifyContractTransactionBufferEnd F, GetRootAsModifyContractTransactionBuffer T, ModifyContractTransactionBuffer_columns T),
     (MosaicBufferStart F,
      [AddRef (MosaicBufferAddId F),
       AddRef (MosaicBufferAddAmount F)],
      MosaicBufferEnd F, GetRootAsMosaicBuffer T, MosaicBuffer_columns T),
     (MosaicPropertyStart F,
      [AddByte (MosaicPropertyAddMosaicPropertyId F),
       AddRef (MosaicPropertyAddValue F)],
      MosaicPropertyEnd F, GetRootAsMosaicProperty T, MosaicProperty_columns T),
     (MosaicDefinitionTransactionBufferStart F,
      [AddUint32 (MosaicDefinitionTransactionBufferAddSize F),
       AddRef (MosaicDefinitionTransactionBufferAddSignature F),
       AddRef (MosaicDefinitionTransactionBufferAddSigner F),
       AddUint32 (MosaicDefinitionTransactionBufferAddVersion F),
       AddUint16 (MosaicDefinitionTransactionBufferAddType F),
       AddRef (MosaicDefinitionTransactionBufferAddMaxFee F),
       AddRef (MosaicDefinitionTransactionBufferAddDeadline F),
       AddUint32 (MosaicDefinitionTransactionBufferAddMosaicNonce F),
       AddRef (MosaicDefinitionTransactionBufferAddMosaicId F),
       AddByte (MosaicDefinitionTransactionBufferAddNumOptionalProperties F),
       AddByte (MosaicDefinitionTransactionBufferAddFlags F),
       AddByte (MosaicDefinitionTransactionBufferAddDivisibility F),
       AddRef (MosaicDefinitionTransactionBufferAddOptionalProperties F)],
      MosaicDefinitionTransactionBufferEnd F, GetRootAsMosaicDefinitionTransactionBuffer T, MosaicDefinitionTransactionBuffer_columns T),
     (MosaicSupplyChangeTransactionBufferStart F,
      [AddUint32 (MosaicSupplyChangeTransactionBufferAddSize F),
       AddRef (MosaicSupplyChangeTransactionBufferAddSignature F),
       AddRef (MosaicSupplyChangeTransactionBufferAddSigner F),
       AddUint32 (MosaicSupplyChangeTransactionBufferAddVersion F),
       AddUint16 (MosaicSupplyChangeTransactionBufferAddType F),
       AddRef (MosaicSupplyChangeTransactionBufferAddMaxFee F),
       AddRef (MosaicSupplyChangeTransactionBufferAddDeadline F),
       AddRef (MosaicSupplyChangeTransactionBufferAddMosaicId F),
       AddByte (MosaicSupplyChangeTransactionBufferAddDirection F),
       AddRef (MosaicSupplyChangeTransactionBufferAddDelta F)],
      MosaicSupplyChangeTransactionBufferEnd F, GetRootAsMosaicSupplyChangeTransactionBuffer T, MosaicSupplyChangeTransactionBuffer_columns T),
     (RegisterNamespaceTransactionBufferStart F,
      [AddUint32 (RegisterNamespaceTransactionBufferAddSize F),
       AddRef (RegisterNamespaceTransactionBufferAddSignature F),
       AddRef (RegisterNamespaceTransactionBufferAddSigner F),
       AddUint32 (RegisterNamespaceTransactionBufferAddVersion F),
       AddUint16 (RegisterNamespaceTransactionBufferAddType F),
       AddRef (RegisterNamespaceTransactionBufferAddMaxFee F),
       AddRef (RegisterNamespaceTransactionBufferAddDeadline F),
       AddByte (RegisterNamespaceTransactionBufferAddNamespaceType F),
       AddRef (RegisterNamespaceTransactionBufferAddDurationParentId F),
       AddRef (RegisterNamespaceTransactionBufferAddNamespaceId F),
       AddByte (RegisterNamespaceTransactionBufferAddNamespaceNameSize F),
       AddRef (RegisterNamespaceTransactionBufferAddNamespaceName F)],
      RegisterNamespaceTransactionBufferEnd F, GetRootAsRegisterNamespaceTransactionBuffer T, RegisterNamespaceTransactionBuffer_columns T),
     (MetadataModificationBufferStart F,
      [AddUint32 (MetadataModificationBufferAddSize F),
       AddByte (MetadataModificationBufferAddModificationType F),
       AddByte (MetadataModificationBufferAddKeySize F),
       AddRef (MetadataModificationBufferAddValueSize F),
       AddRef (MetadataModificationBufferAddKey F),
       AddRef (MetadataModificationBufferAddValue F)],
      MetadataModificationBufferEnd F, GetRootAsMetadataModificationBuffer T, MetadataModificationBuffer_columns T),
     (ModifyMetadataTransactionBufferStart F,
      [AddUint32 (ModifyMetadataTransactionBufferAddSize F),
       AddRef (ModifyMetadataTransactionBufferAddSignature F),
       AddRef (ModifyMetadataTransactionBufferAddSigner F),
       AddUint32 (ModifyMetadataTransactionBufferAddVersion F),
       AddUint16 (ModifyMetadataTransactionBufferAddType F),
       AddRef (ModifyMetadataTransactionBufferAddMaxFee F),
       AddRef (ModifyMetadataTransactionBufferAddDeadline F),
       AddByte (ModifyMetadataTransactionBufferAddMetadataType F),
       AddRef (ModifyMetadataTransactionBufferAddMetadataId F),
       AddRef (ModifyMetadataTransactionBufferAddModifications F)],
      ModifyMetadataTransactionBufferEnd F, GetRootAsModifyMetadataTransactionBuffer T, ModifyMetadataTransactionBuffer_columns T),
     (AggregateTransactionBufferStart F,
      [AddUint32 (AggregateTransactionBufferAddSize F),
       AddRef (AggregateTransactionBufferAddSignature F),
       AddRef (AggregateTransactionBufferAddSigner F),
       AddUint32 (AggregateTransactionBufferAddVersion F),
       AddUint16 (AggregateTransactionBufferAddType F),
       AddRef (AggregateTransactionBufferAddMaxFee F),
       AddRef (AggregateTransactionBufferAddDeadline F),
       AddUint32 (AggregateTransactionBufferAddTransactionsSize F),
       AddRef (AggregateTransactionBufferAddTransactions F)],
      AggregateTransactionBufferEnd F, GetRootAsAggregateTransactionBuffer T, AggregateTransactionBuffer_columns T),
     (BlockchainUpgradeTransactionBufferStart F,
      [AddUint32 (BlockchainUpgradeTransactionBufferAddSize F),
       AddRef (BlockchainUpgradeTransactionBufferAddSignature F),
       AddRef (BlockchainUpgradeTransactionBufferAddSigner F),
       AddUint32 (BlockchainUpgradeTransactionBufferAddVersion F),
       AddUint16 (BlockchainUpgradeTransactionBufferAddType F),
       AddRef (BlockchainUpgradeTransactionBufferAddMaxFee F),
       AddRef (BlockchainUpgradeTransactionBufferAddDeadline F),
       AddRef (BlockchainUpgradeTransactionBufferAddUpgradePeriod F),
       AddRef (BlockchainUpgradeTransactionBufferAddNewBlockChainVersion F)],
      BlockchainUpgradeTransactionBufferEnd F, GetRootAsBlockchainUpgradeTransactionBuffer T, BlockchainUpgradeTransactionBuffer_columns T),
     (NetworkConfigTransactionBufferStart F,
      [AddUint32 (NetworkConfigTransactionBufferAddSize F),
       AddRef (NetworkConfigTransactionBufferAddSignature F),
       AddRef (NetworkConfigTransactionBufferAddSigner F),
       AddUint32 (NetworkConfigTransactionBufferAddVersion F),
       AddUint16 (NetworkConfigTransactionBufferAddType F),
       AddRef (NetworkConfigTransactionBufferAddMaxFee F),
       AddRef (NetworkConfigTransactionBufferAddDeadline F),
       AddRef (NetworkConfigTransactionBufferAddApplyHeightDelta F),
       AddUint16 (NetworkConfigTransactionBufferAddNetworkConfigSize F),
       AddUint16 (NetworkConfigTransactionBufferAddSupportedEntityVersionsSize F),
       AddRef (NetworkConfigTransactionBufferAddNetworkConfig F),
       AddRef (NetworkConfigTransactionBufferAddSupportedEntityVersions F)],
      NetworkConfigTransactionBufferEnd F, GetRootAsNetworkConfigTransactionBuffer T, NetworkConfigTransactionBuffer_columns T),
     (MessageBufferStart F,
      [AddByte (MessageBufferAddType F),
       AddRef (MessageBufferAddPayload F)],
      MessageBufferEnd F, GetRootAsMessageBuffer T, MessageBuffer_columns T),
     (TransferTransactionBufferStart F,
      [AddUint32 (TransferTransactionBufferAddSize F),
       AddRef (TransferTransactionBufferAddSignature F),
       AddRef (TransferTransactionBufferAddSigner F),
       AddUint32 (TransferTransactionBufferAddVersion F),
       AddUint16 (TransferTransactionBufferAddType F),
       AddRef (TransferTransactionBufferAddMaxFee F),
       AddRef (TransferTransactionBufferAddDeadline F),
       AddRef (TransferTransactionBufferAddRecipient F),
       AddUint16 (TransferTransactionBufferAddMessageSize F),
       AddByte (TransferTransactionBufferAddNumMosaics F),
       AddRef (TransferTransactionBufferAddMessage F),
       AddRef (TransferTransactionBufferAddMosaics F)],
      TransferTransactionBufferEnd F, GetRootAsTransferTransactionBuffer T, TransferTransactionBuffer_columns T),
     (LockFundsTransactionBufferStart F,
      [AddUint32 (LockFundsTransactionBufferAddSize F),
       AddRef (LockFundsTransactionBufferAddSignature F),
       AddRef (LockFundsTransactionBufferAddSigner F),
       AddUint32 (LockFundsTransactionBufferAddVersion F),
       AddUint16 (LockFundsTransactionBufferAddType F),
       AddRef (LockFundsTransactionBufferAddMaxFee F),
       AddRef (LockFundsTransactionBufferAddDeadline F),
       AddRef (LockFundsTransactionBufferAddMosaicId F),
       AddRef (LockFundsTransactionBufferAddMosaicAmount F),
       AddRef (LockFundsTransactionBufferAddDuration F),
       AddRef (LockFundsTransactionBufferAddHash F)],
      LockFundsTransactionBufferEnd F, GetRootAsLockFundsTransactionBuffer T, LockFundsTransactionBuffer_columns T),
     (SecretLockTransactionBufferStart F,
      [AddUint32 (SecretLockTransactionBufferAddSize F),
       AddRef (SecretLockTransactionBufferAddSignature F),
       AddRef (SecretLockTransactionBufferAddSigner F),
       AddUint32 (SecretLockTransactionBufferAddVersion F),
       AddUint16 (SecretLockTransactionBufferAddType F),
       AddRef (SecretLockTransactionBufferAddMaxFee F),
       AddRef (SecretLockTransactionBufferAddDeadline F),
       AddRef (SecretLockTransactionBufferAddMosaicId F),
       AddRef (SecretLockTransactionBufferAddMosaicAmount F),
       AddRef (SecretLockTransactionBufferAddDuration F),
       AddByte (SecretLockTransactionBufferAddHashAlgorithm F),
       AddRef (SecretLockTransactionBufferAddSecret F),
       AddRef (SecretLockTransactionBufferAddRecipient F)],
      SecretLockTransactionBufferEnd F, GetRootAsSecretLockTransactionBuffer T, SecretLockTransactionBuffer_columns T),
     (SecretProofTransactionBufferStart F,
      [AddUint32 (SecretProofTransactionBufferAddSize F),
       AddRef (SecretProofTransactionBufferAddSignature F),
       AddRef (SecretProofTransactionBufferAddSigner F),
       AddUint16 (SecretProofTransactionBufferAddVersion F),
       AddUint16 (SecretProofTransactionBufferAddType F),
       AddRef (SecretProofTransactionBufferAddMaxFee F),
       AddRef (SecretProofTransactionBufferAddDeadline F),
       AddByte (SecretProofTransactionBufferAddHashAlgorithm F),
       AddRef (SecretProofTransactionBufferAddSecret F),
       AddRef (SecretProofTransactionBufferAddRecipient F),
       AddUint16 (SecretProofTransactionBufferAddProofSize F),
       AddRef (SecretProofTransactionBufferAddProof F)],
      SecretProofTransactionBufferEnd F, GetRootAsSecretProofTransactionBuffer T, SecretProofTransactionBuffer_columns T)]"

lemma slot_of_eval [simp]: "slot_of 0 = 4" "slot_of (Suc j) = slot_of j + 2"
  by (simp_all add: slot_of_def algebra_simps)

lemma columns_at_parts:
  "columns_at T 0 (CosignatoryModificationBuffer_columns T)"
  "columns_at T 0 (MosaicBuffer_columns T)"
  "columns_at T 0 (MosaicProperty_columns T)"
  "columns_at T 0 (MessageBuffer_columns T)"
  "columns_at T 0 (PropertyModificationBuffer_columns T)"
  "columns_at T 0 (MetadataModificationBuffer_columns T)"
  by (simp_all add: column_defs table_defs)

lemma columns_at_transactions:
  "columns_at T 0 (AccountLinkTransactionBuffer_columns T)"
  "columns_at T 0 (AccountPropertiesTransactionBuffer_columns T)"
  "columns_at T 0 (AliasTransactionBuffer_columns T)"
  "columns_at T 0 (ModifyMultisigAccountTransactionBuffer_columns T)"
  "columns_at T 0 (ModifyContractTransactionBuffer_columns T)"
  "columns_at T 0 (MosaicDefinitionTransactionBuffer_columns T)"
  "columns_at T 0 (MosaicSupplyChangeTransactionBuffer_columns T)"
  "columns_at T 0 (RegisterNamespaceTransactionBuffer_columns T)"
  "columns_at T 0 (ModifyMetadataTransactionBuffer_columns T)"
  "columns_at T 0 (AggregateTransactionBuffer_columns T)"
  "columns_at T 0 (BlockchainUpgradeTransactionBuffer_columns T)"
  "columns_at T 0 (NetworkConfigTransactionBuffer_columns T)"
  "columns_at T 0 (TransferTransactionBuffer_columns T)"
  "columns_at T 0 (LockFundsTransactionBuffer_columns T)"
  "columns_at T 0 (SecretLockTransactionBuffer_columns T)"
  "columns_at T 0 (SecretProofTransactionBuffer_columns T)"
  by (simp_all only: column_defs table_defs columns_at.simps column_at.simps columns_at_parts [unfolded column_defs table_defs]) simp_all

lemma table_roots:
  "GetRootAsCosignatoryModificationBuffer T = table_root T"
  "GetRootAsAccountLinkTransactionBuffer T = table_root T"
  "GetRootAsPropertyModificationBuffer T = table_root T"
  "GetRootAsAccountPropertiesTransactionBuffer T = table_root T"
  "GetRootAsAliasTransactionBuffer T = table_root T"
  "GetRootAsModifyMultisigAccountTransactionBuffer T = table_root T"
  "GetRootAsModifyContractTransactionBuffer T = table_root T"
  "GetRootAsMosaicBuffer T = table_root T"
  "GetRootAsMosaicProperty T = table_root T"
  "GetRootAsMosaicDefinitionTransactionBuffer T = table_root T"
  "GetRootAsMosaicSupplyChangeTransactionBuffer T = table_root T"
  "GetRootAsRegisterNamespaceTransactionBuffer T = table_root T"
  "GetRootAsMetadataModificationBuffer T = table_root T"
  "GetRootAsModifyMetadataTransactionBuffer T = table_root T"
  "GetRootAsAggregateTransactionBuffer T = table_root T"
  "GetRootAsBlockchainUpgradeTransactionBuffer T = table_root T"
  "GetRootAsNetworkConfigTransactionBuffer T = table_root T"
  "GetRootAsMessageBuffer T = table_root T"
  "GetRootAsTransferTransactionBuffer T = table_root T"
  "GetRootAsLockFundsTransactionBuffer T = table_root T"
  "GetRootAsSecretLockTransactionBuffer T = table_root T"
  "GetRootAsSecretProofTransactionBuffer T = table_root T"
  by (simp_all add: fun_eq_iff table_defs)

lemma table_code_writers:
  "list_all (\<lambda>(start, adders, end, root, cols). table_writer F start adders end) (table_code F T)"
  by (simp add: table_code_def table_writer_def fb_defs fun_eq_iff numeral_eq_Suc)

lemma table_code_readers:
  "list_all (\<lambda>(start, adders, end, root, cols). root = table_root T \<and> columns_at T 0 cols) (table_code F T)"
  by (simp add: table_code_def table_roots columns_at_parts columns_at_transactions)

lemma table_code_at:
  "(start, adders, end, root, cols) \<in> set (table_code F T) \<Longrightarrow>
     table_writer F start adders end \<and> root = table_root T \<and> columns_at T 0 cols"
  using table_code_writers [of F T] table_code_readers [of T F] by (auto simp: list_all_iff)

text \<open>
  C33. What the generated functions of a table write, its accessors read: for each of the 22 tables, opening it, writing each of
  its slots from a number or from the offset of an object, closing it and finishing the buffer succeeds, the root of the finished buffer is
  found, and every accessor there returns what was written: scalars, whether stored or left out as defaults, the length, the
  elements and the bytes of vectors, and tables inside the table. So slot numbers, widths and element sizes agree.
\<close>

theorem written_table_reads_back:
  assumes "flatbuffers F R" "fb_tables T" "(start, adders, end, root, cols) \<in> set (table_code F T)"
    and "R b s" "st_mode s = Idle l" "st_used s + 24 + 12 * length cells \<le> fb_limit"
    and "list_all2 cell_fits adders cells" "list_all (cell_known (st_vals s)) cells"
    and "columns_fields cols (map (cell_field (st_vals s)) cells)"
  shows "\<exists>off b' t. write_table start adders end cells b = Inr (off, b')
    \<and> root (fb_FinishedBytes F (fb_Finish F off b')) 0 = Inr t
    \<and> columns_hold cols t (map (cell_field (st_vals s)) cells)"
proof -
  have code: "table_writer F start adders end" "root = table_root T" "columns_at T 0 cols"
    using table_code_at [OF assms(3)] by auto
  from flatbuffers.table_written [OF assms(1) code(1) assms(4,5,7,8,6)] fb_tables.root_columns [OF assms(2) _ _ code(3) assms(9)]
  show ?thesis unfolding code(2) by blast
qed

section \<open>Schemas and accessors\<close>

text \<open>The transactions with their schemas; the secret proof is left out.\<close>

definition transaction_tables ::
  "fb_table \<Rightarrow> (schemaAttribute list \<times> (byte list \<Rightarrow> u32 \<Rightarrow> Table result) \<times> column list) list"
where
  "transaction_tables T =
    [(accountLinkTransactionSchema, GetRootAsAccountLinkTransactionBuffer T, AccountLinkTransactionBuffer_columns T),
     (accountPropertyTransactionSchema, GetRootAsAccountPropertiesTransactionBuffer T, AccountPropertiesTransactionBuffer_columns T),
     (aliasTransactionSchema, GetRootAsAliasTransactionBuffer T, AliasTransactionBuffer_columns T),
     (aggregateTransactionSchema, GetRootAsAggregateTransactionBuffer T, AggregateTransactionBuffer_columns T),
     (networkConfigTransactionSchema, GetRootAsNetworkConfigTransactionBuffer T, NetworkConfigTransactionBuffer_columns T),
     (blockchainUpgradeTransactionSchema, GetRootAsBlockchainUpgradeTransactionBuffer T, BlockchainUpgradeTransactionBuffer_columns T),
     (modifyMetadataTransactionSchema, GetRootAsModifyMetadataTransactionBuffer T, ModifyMetadataTransactionBuffer_columns T),
     (mosaicDefinitionTransactionSchema, GetRootAsMosaicDefinitionTransactionBuffer T, MosaicDefinitionTransactionBuffer_columns T),
     (mosaicSupplyChangeTransactionSchema, GetRootAsMosaicSupplyChangeTransactionBuffer T, MosaicSupplyChangeTransactionBuffer_columns T),
     (transferTransactionSchema, GetRootAsTransferTransactionBuffer T, TransferTransactionBuffer_columns T),
     (modifyMultisigAccountTransactionSchema, GetRootAsModifyMultisigAccountTransactionBuffer T, ModifyMultisigAccountTransactionBuffer_columns T),
     (modifyContractTransactionSchema, GetRootAsModifyContractTransactionBuffer T, ModifyContractTransactionBuffer_columns T),
     (registerNamespaceTransactionSchema, GetRootAsRegisterNamespaceTransactionBuffer T, RegisterNamespaceTransactionBuffer_columns T),
     (lockFundsTransactionSchema, GetRootAsLockFundsTransactionBuffer T, LockFundsTransactionBuffer_columns T),
     (secretLockTransactionSchema, GetRootAsSecretLockTransactionBuffer T, SecretLockTransactionBuffer_columns T)]"

lemma transaction_tables_at:
  "list_all (\<lambda>(sch, root, cols). root = table_root T \<and> columns_at T 0 cols) (transaction_tables T)"
  "list_all (\<lambda>(sch, root, cols). columns_agree sch cols) (transaction_tables T)"
  "list_all (\<lambda>(sch, root, cols). size_list size sch < 1000) (transaction_tables T)"
  by (simp_all add: transaction_tables_def table_roots columns_at_transactions) (simp_all add: schema_defs column_defs)

text \<open>
  C34. The schemas, written by hand, and the generated accessors describe the same tables: for every kind of transaction but the secret
  proof, the bytes that the schema makes of a buffer are those that the accessors read from it, slot by slot, the vectors by
  their elements and the tables inside by their own accessors.
\<close>

theorem schemas_agree_with_accessors:
  assumes "fb_tables T" "(sch, root, cols) \<in> set (transaction_tables T)"
    and "fb_root buf (FTable fs)" "length buf < 2 ^ 31" "get_u32 buf 0 < 256" "columns_fields cols fs"
  shows "\<exists>bs. schema_serialize sch buf = Inr bs \<and> res_bind (root buf 0) (columns_image cols) = Inr bs"
proof -
  have k: "root = table_root T" "columns_at T 0 cols" "columns_agree sch cols" "size_list size sch < 1000"
    using transaction_tables_at [of T] assms(2) by (auto simp: list_all_iff)
  obtain t where t: "table_root T buf 0 = Inr t" "columns_hold cols t fs"
    using fb_tables.root_columns [OF assms(1,3,4) k(2) assms(6)] by blast
  obtain bs where "flatten_fields sch fs = Some bs" "columns_image cols t = Inr bs"
    using columns_read(2) [OF assms(6) k(3) t(2)] by blast
  with schema_serialize_correct [OF assms(3-5) _ k(4)] t(1) k(1) show ?thesis by simp
qed

section \<open>Changes in place\<close>

fun column_width :: "column \<Rightarrow> nat" where
  "column_width (ColByte _ _) = 1"
| "column_width (ColInt8 _ _) = 1"
| "column_width (ColUint16 _ _) = 2"
| "column_width (ColUint32 _ _) = 4"
| "column_width _ = 0"

text \<open>\<open>put\<close> reports whether slot \<open>j\<close> is stored; if it is, \<open>get\<close> reads the new value, and otherwise nothing changes.\<close>

definition put_get :: "(Table \<Rightarrow> 'a :: zero result) \<Rightarrow> (Table \<Rightarrow> 'a \<Rightarrow> (bool \<times> Table) result) \<Rightarrow> byte list \<Rightarrow> nat \<Rightarrow> nat \<Rightarrow> 'a \<Rightarrow> bool" where
  "put_get get put buf p j x \<longleftrightarrow>
     (\<exists>t. put (tab buf p) x = Inr (slot_pos buf p j \<noteq> 0, t)
        \<and> (if slot_pos buf p j = 0 then t = tab buf p \<and> get t = Inr 0 else get t = Inr x))"

lemma columns_at_nth: "columns_at T i cols \<Longrightarrow> j < length cols \<Longrightarrow> i + j < 1000 \<and> column_at T (i + j) (cols ! j)"
proof (induction cols arbitrary: i j)
  case (Cons c cs)
  then show ?case using Cons.IH [of "Suc i" "j - 1"] by (cases j) auto
qed simp

context fb_tables
begin

lemma put_get_scalar:
  assumes h: "table_header buf p" "j < 1000" and a: "slot_apart buf p j (length (enc x))"
    and put: "slot_room buf p j (length (enc x)) \<Longrightarrow> put (tab buf p) x = Inr (slot_written buf p j (enc x))"
    and get: "\<And>buf. get (tab buf p) = with_slot T (slot_of j) (tab buf p) 0 (\<lambda>off. r buf (off + word_of_nat p))"
    and r: "\<And>buf q. field_at buf q (Scalar (enc x)) \<Longrightarrow> length buf < 2 ^ 31 \<Longrightarrow> r buf (word_of_nat q) = Inr x"
  shows "put_get get put buf p j x"
proof (cases "slot_pos buf p j = 0")
  case True
  then show ?thesis
    using put a with_slot_at [OF h] by (simp add: put_get_def slot_apart_def slot_written_def get)
next
  case False
  let ?buf = "poke buf (p + slot_pos buf p j) (enc x)"
  note n = slot_poked [OF h(1) a False]
  have "r ?buf (word_of_nat (p + slot_pos buf p j)) = Inr x"
    by (rule r [OF n(3)]) (use n(1) in \<open>simp add: table_header_def\<close>)
  then have "get (tab ?buf p) = Inr x"
    unfolding get with_slot_at [OF n(1) h(2)] n(2) using False by (simp only: word_add_flip if_False)
  with False put a show ?thesis by (simp add: put_get_def slot_apart_def slot_written_def Let_def)
qed

lemma put_get_slots:
  assumes h: "table_header buf p" "j < 1000"
  shows "slot_apart buf p j 1 \<Longrightarrow> put_get (slot_byte T (slot_of j)) (\<lambda>rcv. ft_MutateByteSlot T rcv (slot_of j)) buf p j x"
    and "slot_apart buf p j 1 \<Longrightarrow> put_get (slot_int8 T (slot_of j)) (\<lambda>rcv. ft_MutateInt8Slot T rcv (slot_of j)) buf p j x"
    and "slot_apart buf p j 2 \<Longrightarrow> put_get (slot_uint16 T (slot_of j)) (\<lambda>rcv. ft_MutateUint16Slot T rcv (slot_of j)) buf p j w"
    and "slot_apart buf p j 4 \<Longrightarrow> put_get (slot_uint32 T (slot_of j)) (\<lambda>rcv. ft_MutateUint32Slot T rcv (slot_of j)) buf p j y"
proof -
  have byte: "ft_GetByte T (tab buf p) (word_of_nat q) = Inr x" "ft_GetInt8 T (tab buf p) (word_of_nat q) = Inr x"
    if "field_at buf q (Scalar [x])" "length buf < 2 ^ 31" for buf q
    using GetByte [OF _ that(2)] GetInt8 [OF _ that(2)] nth_Scalar [OF that(1)] that(1) by simp_all
  have u16: "ft_GetUint16 T (tab buf p) (word_of_nat q) = Inr w" if "field_at buf q (Scalar (le16 w))" "length buf < 2 ^ 31" for buf q
    using GetUint16 [OF _ that(2)] get_u16_Scalar [OF that(1)] that(1) by simp
  have u32: "ft_GetUint32 T (tab buf p) (word_of_nat q) = Inr y" if "field_at buf q (Scalar (le32 y))" "length buf < 2 ^ 31" for buf q
    using GetUint32 [OF _ that(2)] get_u32_Scalar [OF that(1)] that(1) by simp
  show "put_get (slot_byte T (slot_of j)) (\<lambda>rcv. ft_MutateByteSlot T rcv (slot_of j)) buf p j x" if "slot_apart buf p j 1"
    by (rule put_get_scalar [OF h, where enc = "\<lambda>x. [x]" and r = "\<lambda>buf. ft_GetByte T (tab buf p)"])
      (use that MutateByteSlot [OF h] byte in \<open>simp_all add: slot_byte_def slot_of_def\<close>)
  show "put_get (slot_int8 T (slot_of j)) (\<lambda>rcv. ft_MutateInt8Slot T rcv (slot_of j)) buf p j x" if "slot_apart buf p j 1"
    by (rule put_get_scalar [OF h, where enc = "\<lambda>x. [x]" and r = "\<lambda>buf. ft_GetInt8 T (tab buf p)"])
      (use that MutateInt8Slot [OF h] byte in \<open>simp_all add: slot_int8_def slot_of_def\<close>)
  show "put_get (slot_uint16 T (slot_of j)) (\<lambda>rcv. ft_MutateUint16Slot T rcv (slot_of j)) buf p j w" if "slot_apart buf p j 2"
    by (rule put_get_scalar [OF h, where enc = le16 and r = "\<lambda>buf. ft_GetUint16 T (tab buf p)"])
      (use that MutateUint16Slot [OF h] u16 in \<open>simp_all add: slot_uint16_def slot_of_def\<close>)
  show "put_get (slot_uint32 T (slot_of j)) (\<lambda>rcv. ft_MutateUint32Slot T rcv (slot_of j)) buf p j y" if "slot_apart buf p j 4"
    by (rule put_get_scalar [OF h, where enc = le32 and r = "\<lambda>buf. ft_GetUint32 T (tab buf p)"])
      (use that MutateUint32Slot [OF h] u32 in \<open>simp_all add: slot_uint32_def slot_of_def\<close>)
qed

end

text \<open>
  The generated functions that change a scalar in place do so exactly where the scalar is stored: on a table whose field does
  not overlap its header, they report whether the slot is present; if it is, the accessor reads the new value afterwards, zero
  included, and if it was left out because it had its default, the buffer stays as it is and the accessor goes on reading zero.
\<close>

theorem changed_scalar_reads_back:
  assumes "fb_tables T" "(start, adders, end, root, cols) \<in> set (table_code F T)"
    and "table_header buf p" "j < length cols" "slot_apart buf p j (column_width (cols ! j))"
  shows "case cols ! j of
      ColByte get put \<Rightarrow> (\<forall>x. put_get get put buf p j x)
    | ColInt8 get put \<Rightarrow> (\<forall>x. put_get get put buf p j x)
    | ColUint16 get put \<Rightarrow> (\<forall>x. put_get get put buf p j x)
    | ColUint32 get put \<Rightarrow> (\<forall>x. put_get get put buf p j x)
    | _ \<Rightarrow> True"
proof -
  have "columns_at T 0 cols" using table_code_at [OF assms(2)] by blast
  then have j: "j < 1000" "column_at T j (cols ! j)" using columns_at_nth [of T 0 cols j] assms(4) by simp_all
  show ?thesis
    using fb_tables.put_get_slots [OF assms(1,3) j(1)] j(2) assms(5) by (cases "cols ! j") auto
qed

section \<open>The version of a secret proof\<close>

lemma take_le_bytes: "k \<le> m \<Longrightarrow> take k (le_bytes m n) = le_bytes k n"
proof (induction k arbitrary: m n)
  case (Suc k)
  then show ?case by (cases m) simp_all
qed simp

lemma get_u16_of_word: "field_at buf q (Scalar (le32 v)) \<Longrightarrow> word_of_nat (get_u16 buf q) = (ucast v :: u16)"
proof -
  assume "field_at buf q (Scalar (le32 v))"
  then have "take 4 (drop q buf) = le32 v" by simp
  then have "take 2 (drop q buf) = take 2 (le32 v)" using take_take [of 2 4 "drop q buf"] by simp
  also have "\<dots> = le_bytes 2 (unat v)" unfolding le32_def by (rule take_le_bytes) simp
  finally have "get_u16 buf q = unat v mod 256 ^ 2" by (simp only: get_u16_def le_nat_le_bytes)
  then show ?thesis by (simp add: word_unat_eq_iff unsigned_of_nat unsigned_ucast_eq take_bit_eq_mod)
qed

context fb_tables
begin

lemma low_half:
  assumes h: "table_header buf p" "j < 1000" and s: "slot_is buf p j (sc32 v)"
  shows "slot_uint16 T (slot_of j) (tab buf p) = Inr (ucast v)"
proof (cases "v = 0")
  case True
  then show ?thesis using slot_none [OF h] s by (simp add: slot_uint16_def sc32_def)
next
  case False
  let ?q = "p + slot_pos buf p j"
  have s: "slot_is buf p j (Scalar (le32 v))" using s False by (simp add: sc32_def)
  have f: "field_at buf ?q (Scalar (le32 v))" using slot_field(1) [OF s] by simp
  then have "ft_GetUint16 T (tab buf p) (word_of_nat ?q) = Inr (ucast v)"
    using GetUint16 [of ?q buf p] get_u16_of_word [OF f] h(1) by (simp add: table_header_def)
  then show ?thesis
    by (simp only: slot_uint16_def slot_some [OF h s fbfield.distinct(2)] Table.select_convs word_add_flip)
qed

end

text \<open>
  \<open>Version\<close> of a secret proof is declared with 16 bits, where every writer of the SDK stores 32 and every other table
  reads 32: on a table with version \<open>v\<close> it returns the low half, and so loses the network, which is in the top byte.
\<close>

theorem secret_proof_version_is_cut:
  assumes "fb_tables T" "fb_root buf (FTable fs)" "length buf < 2 ^ 31" "3 < length fs" "fs ! 3 = sc32 v"
  shows "\<exists>t. GetRootAsSecretProofTransactionBuffer T buf 0 = Inr t \<and> GetRootAsSecretLockTransactionBuffer T buf 0 = Inr t
    \<and> SecretLockTransactionBuffer_Version T t = Inr v \<and> SecretProofTransactionBuffer_Version T t = Inr (ucast v)"
proof -
  let ?p = "unat (get_u32 buf 0)"
  note r = fb_tables.root_reads [OF assms(1-3)]
  have s: "slot_is buf ?p 3 (sc32 v)" using r(3) assms(4,5) by (metis add_0)
  have "slot_uint32 T (slot_of 3) (tab buf ?p) = Inr v"
    by (rule fb_tables.scalar_reads(4) [OF assms(1) r(2) _ s]) simp
  moreover have "slot_uint16 T (slot_of 3) (tab buf ?p) = Inr (ucast v)"
    by (rule fb_tables.low_half [OF assms(1) r(2) _ s]) simp
  ultimately show ?thesis
    using r(1) by (simp add: table_roots table_defs slot_of_def)
qed

section \<open>Concrete buffers\<close>

text \<open>
  The message \<open>''hi''\<close>, written after its payload with the builder of \<open>FbReference\<close>; an account link all of whose vectors are
  the one empty vector; and a table with nothing but a version, with the network in the top byte.
\<close>

definition sample_payload :: "u32 \<times> refb" where
  "sample_payload = fb_CreateString reference_builder ''hi'' (fb_NewBuilder reference_builder 0)"

definition sample_link_buffer :: "byte list" where
  "sample_link_buffer = [26, 0, 0, 0] @
     [22, 0, 24, 0, 0, 0, 4, 0, 8, 0, 0, 0, 0, 0, 12, 0, 16, 0, 20, 0, 0, 0] @
     [22, 0, 0, 0, 20, 0, 0, 0, 16, 0, 0, 0, 12, 0, 0, 0, 8, 0, 0, 0, 4, 0, 0, 0] @ [0, 0, 0, 0]"

definition sample_link_fields :: "fbfield list" where
  "sample_link_fields = [Absent, Ref (FVec 1 []), Ref (FVec 1 []), Absent, Absent, Ref (FVec 4 []), Ref (FVec 4 []),
     Ref (FVec 1 []), Absent]"

definition sample_version_buffer :: "byte list" where
  "sample_version_buffer = [16, 0, 0, 0] @ [12, 0, 8, 0, 0, 0, 0, 0, 0, 0, 4, 0] @ [12, 0, 0, 0, 1, 0, 0, 0x90]"

lemma sample_link:
  "fb_root sample_link_buffer (FTable sample_link_fields)" "get_u32 sample_link_buffer 0 < 256"
  by code_simp+

lemma sample_version:
  "fb_root sample_version_buffer (FTable [Absent, Absent, Absent, Scalar [1, 0, 0, 0x90]])"
  "slot_pos sample_version_buffer 16 3 = 4" "vtable_at sample_version_buffer 16 = 4" "get_u16 sample_version_buffer 4 = 12"
  by code_simp+

lemma sample_version_header: "table_header sample_version_buffer 16" "slot_apart sample_version_buffer 16 3 4"
  using sample_version(2-4) by (simp_all add: table_header_def slot_apart_def slot_room_def) (simp_all add: sample_version_buffer_def)

lemma schemas_agree_with_accessors_witness:
  "\<exists>bs. schema_serialize accountLinkTransactionSchema sample_link_buffer = Inr bs
     \<and> res_bind (GetRootAsAccountLinkTransactionBuffer reference_tables sample_link_buffer 0)
         (columns_image (AccountLinkTransactionBuffer_columns reference_tables)) = Inr bs"
proof (rule schemas_agree_with_accessors [OF reference_table.fb_tables_axioms _ sample_link(1) _ sample_link(2)])
  show "columns_fields (AccountLinkTransactionBuffer_columns reference_tables) sample_link_fields"
    by (simp add: column_defs sample_link_fields_def sc8_def sc16_def sc32_def byte_vec_def word_vec_def)
qed (simp_all add: transaction_tables_def sample_link_buffer_def)

lemma changed_scalar_reads_back_witness:
  "put_get (SecretLockTransactionBuffer_Version reference_tables) (SecretLockTransactionBuffer_MutateVersion reference_tables)
     sample_version_buffer 16 3 0"
proof -
  have "list_ex (\<lambda>(start, adders, end, root, cols). cols = SecretLockTransactionBuffer_columns reference_tables)
      (table_code reference_builder reference_tables)"
    by (simp add: table_code_def)
  then obtain start adders "end" root where m:
    "(start, adders, end, root, SecretLockTransactionBuffer_columns reference_tables) \<in> set (table_code reference_builder reference_tables)"
    by (auto simp: list_ex_iff)
  have c: "SecretLockTransactionBuffer_columns reference_tables ! 3 =
      ColUint32 (SecretLockTransactionBuffer_Version reference_tables) (SecretLockTransactionBuffer_MutateVersion reference_tables)"
    "3 < length (SecretLockTransactionBuffer_columns reference_tables)"
    by (simp_all add: column_defs)
  show ?thesis
    using changed_scalar_reads_back [OF reference_table.fb_tables_axioms m sample_version_header(1) c(2)] sample_version_header(2)
    by (simp add: c(1))
qed

lemma secret_proof_version_is_cut_witness:
  "\<exists>t. SecretLockTransactionBuffer_Version reference_tables t = Inr 0x90000001
     \<and> SecretProofTransactionBuffer_Version reference_tables t = Inr 1"
proof -
  have "le_bytes (Suc (Suc (Suc (Suc 0)))) (unat (0x90000001 :: u32)) = [1, 0, 0, 0x90]" by simp
  moreover have "4 = Suc (Suc (Suc (Suc 0)))" by simp
  ultimately have "le32 0x90000001 = [1, 0, 0, 0x90]" by (simp only: le32_def)
  then have "Scalar [1, 0, 0, 0x90] = sc32 0x90000001" by (simp add: sc32_def)
  then have "[Absent, Absent, Absent, Scalar [1, 0, 0, 0x90]] ! 3 = sc32 0x90000001" by simp
  from secret_proof_version_is_cut [OF reference_table.fb_tables_axioms sample_version(1) _ _ this] show ?thesis
    by (auto simp: sample_version_buffer_def)
qed

lemma written_table_reads_back_witness:
  "\<exists>off b' t. write_table (MessageBufferStart reference_builder)
       [AddByte (MessageBufferAddType reference_builder), AddRef (MessageBufferAddPayload reference_builder)]
       (MessageBufferEnd reference_builder) [CellByte 1, CellRef (fst sample_payload)] (snd sample_payload) = Inr (off, b')
     \<and> GetRootAsMessageBuffer reference_tables (fb_FinishedBytes reference_builder (fb_Finish reference_builder off b')) 0 = Inr t
     \<and> MessageBuffer_PayloadBytes reference_tables t = Inr (string_bytes ''hi'')"
proof -
  let ?s = "\<lparr>st_mode = Idle 0, st_vals = (\<lambda>_. None), st_used = 22\<rparr>"
  let ?fields = "[sc8 1, Ref (byte_vec (string_bytes ''hi''))]"
  let ?stored = "stored (fst sample_payload) (string_vec ''hi'') ?s"
  let ?cells = "[CellByte 1, CellRef (fst sample_payload)]"
  have "new_object ref_R ?s (string_vec ''hi'') sample_payload"
    unfolding sample_payload_def
    by (rule reference.CreateString [OF reference.NewBuilder]) (simp_all add: fb_limit_def)
  then have n: "fst sample_payload \<noteq> 0" "ref_R (snd sample_payload) ?stored"
    by (simp_all add: new_object_def)
  have f: "map (cell_field (st_vals ?stored)) ?cells = ?fields" by (simp add: stored_def string_vec_eq)
  have c: "columns_fields (MessageBuffer_columns reference_tables) ?fields" by (simp add: column_defs) blast
  have "(MessageBufferStart reference_builder,
      [AddByte (MessageBufferAddType reference_builder), AddRef (MessageBufferAddPayload reference_builder)],
      MessageBufferEnd reference_builder, GetRootAsMessageBuffer reference_tables, MessageBuffer_columns reference_tables)
      \<in> set (table_code reference_builder reference_tables)"
    by (simp add: table_code_def)
  from written_table_reads_back [OF reference.flatbuffers_axioms reference_table.fb_tables_axioms this n(2), of "fst sample_payload" ?cells,
      unfolded f] n(1) c
  obtain off b' t where "write_table (MessageBufferStart reference_builder)
       [AddByte (MessageBufferAddType reference_builder), AddRef (MessageBufferAddPayload reference_builder)]
       (MessageBufferEnd reference_builder) ?cells (snd sample_payload) = Inr (off, b')"
    "GetRootAsMessageBuffer reference_tables (fb_FinishedBytes reference_builder (fb_Finish reference_builder off b')) 0 = Inr t"
    "columns_hold (MessageBuffer_columns reference_tables) t ?fields"
    by (auto simp: stored_def fb_limit_def cell_known_def)
  moreover from this(3) have "MessageBuffer_PayloadBytes reference_tables t = Inr (string_bytes ''hi'')"
    by (simp add: column_defs vec_inject)
  ultimately show ?thesis by blast
qed

end
