(* ===== verification/WsSubscribers.thy ===== *)
theory WsSubscribers
  imports Prelude "HOL-Library.AList"
begin

text \<open>
  The stores of callbacks (\<open>sdk/websocket/subscribers/\<close>). A callback is known by the pointer to it, a value of
  the type variable: what it computes is up to the user. \<open>block.go\<close> keeps one set of pointers, the seven
  others a map from addresses to sets of pointers; they differ in the type of the message only, so one
  definition models them all. A Go map is an association list with distinct keys and a set of pointers
  a distinct list; the order in which Go ranges over either is unspecified, and nothing below depends on
  the order of the lists. Every operation holds the mutex of the store from start to end: it is one step.
\<close>

definition handlersNotFound :: go_error where
  "handlersNotFound = NewError ''handlers not found''"

definition errors_Wrap :: "go_error \<Rightarrow> string \<Rightarrow> go_error" where
  "errors_Wrap err message = (if err = Panicked then Panicked else Wrapped message err)"

section \<open>The operations\<close>

text \<open>\<open>for i ... { m[&handlers[i]] = struct{}{} }\<close> and \<open>for i ... { delete(m, handlers[i]) }\<close>.\<close>

fun put_all :: "'h list \<Rightarrow> 'h list \<Rightarrow> 'h list" where
  "put_all m [] = m"
| "put_all m (p # ps) = put_all (if p \<in> set m then m else m @ [p]) ps"

fun delete_all :: "'h list \<Rightarrow> 'h list \<Rightarrow> 'h list" where
  "delete_all m [] = m"
| "delete_all m (p # ps) = delete_all (removeAll p m) ps"

subsection \<open>Blocks\<close>

record 'h blockSubscriberImpl =
  bs_handlers :: "'h list option"

definition NewBlock :: "'h blockSubscriberImpl" where
  "NewBlock = \<lparr>bs_handlers = Some []\<rparr>"

definition block_AddHandlers :: "'h list \<Rightarrow> 'h blockSubscriberImpl \<Rightarrow> 'h blockSubscriberImpl \<times> unit result" where
  "block_AddHandlers handlers s =
     (case bs_handlers s of
        None \<Rightarrow> (s, Inr ())
      | Some m \<Rightarrow> if handlers = [] then (s, Inr ()) else (s\<lparr>bs_handlers := Some (put_all m handlers)\<rparr>, Inr ()))"

definition block_RemoveHandlers :: "'h list \<Rightarrow> 'h blockSubscriberImpl \<Rightarrow> 'h blockSubscriberImpl \<times> bool result" where
  "block_RemoveHandlers handlers s =
     (let err = errors_Wrap handlersNotFound ''handlers not found in handlers storage'' in
      case bs_handlers s of
        None \<Rightarrow> (s, Inl err)
      | Some m \<Rightarrow>
          if handlers = [] then (s, Inl err)
          else let m = delete_all m handlers in (s\<lparr>bs_handlers := Some m\<rparr>, Inr (\<not> length m > 0)))"

definition block_GetHandlers :: "'h blockSubscriberImpl \<Rightarrow> 'h list" where
  "block_GetHandlers s = (case bs_handlers s of None \<Rightarrow> [] | Some m \<Rightarrow> m)"

definition block_HasHandlers :: "'h blockSubscriberImpl \<Rightarrow> bool" where
  "block_HasHandlers s \<longleftrightarrow> length (block_GetHandlers s) > 0"

subsection \<open>Addresses\<close>

text \<open>The key is the text of the address (the pointer to it is not nil).\<close>

type_synonym 'h subscribers = "(string \<times> 'h list) list"

definition NewSubscribers :: "'h subscribers" where
  "NewSubscribers = []"

definition subs_AddHandlers :: "string \<Rightarrow> 'h list \<Rightarrow> 'h subscribers \<Rightarrow> 'h subscribers \<times> unit result" where
  "subs_AddHandlers a handlers e =
     (if handlers = [] then (e, Inr ())
      else let e = (case map_of e a of None \<Rightarrow> AList.update a [] e | Some _ \<Rightarrow> e)
           in (AList.map_entry a (\<lambda>m. put_all m handlers) e, Inr ()))"

definition subs_RemoveHandlers :: "string \<Rightarrow> 'h list \<Rightarrow> 'h subscribers \<Rightarrow> 'h subscribers \<times> bool result" where
  "subs_RemoveHandlers a handlers e =
     (if handlers = [] then (e, Inr False)
      else case map_of e a of
          None \<Rightarrow> (e, Inl (errors_Wrap handlersNotFound ''handlers not found in handlers storage''))
        | Some external \<Rightarrow>
            if length external = 0
            then (e, Inl (errors_Wrap handlersNotFound ''handlers not found in handlers storage''))
            else let m = delete_all external handlers
                 in (AList.update a m e, Inr (\<not> length m > 0)))"

definition subs_GetHandlers :: "string \<Rightarrow> 'h subscribers \<Rightarrow> 'h list" where
  "subs_GetHandlers a e = (case map_of e a of None \<Rightarrow> [] | Some res \<Rightarrow> res)"

definition subs_HasHandlers :: "string \<Rightarrow> 'h subscribers \<Rightarrow> bool" where
  "subs_HasHandlers a e \<longleftrightarrow> length (subs_GetHandlers a e) > 0"

definition subs_GetAddresses :: "'h subscribers \<Rightarrow> string list" where
  "subs_GetAddresses e = map fst e"

section \<open>Sets of pointers\<close>

lemma set_put_all [simp]: "set (put_all m ps) = set m \<union> set ps"
  by (induction m ps rule: put_all.induct) auto

lemma distinct_put_all: "distinct m \<Longrightarrow> distinct (put_all m ps)"
  by (induction m ps rule: put_all.induct) auto

lemma put_all_eq_Nil [simp]: "put_all m ps = [] \<longleftrightarrow> m = [] \<and> ps = []"
  by (induction m ps rule: put_all.induct) auto

lemma delete_all_eq: "delete_all m ps = filter (\<lambda>x. x \<notin> set ps) m"
  by (induction m ps rule: delete_all.induct) (auto simp: removeAll_filter_not_eq intro!: filter_cong)

lemma errors_Wrap_handlersNotFound [simp]:
  "errors_Wrap handlersNotFound s = Wrapped s handlersNotFound" "Wrapped s e \<noteq> Panicked"
  by (simp_all add: errors_Wrap_def handlersNotFound_def)

section \<open>What a store promises\<close>

text \<open>
  \<open>block_ok\<close> and \<open>subs_ok\<close> say that the lists stand for sets and maps; every operation keeps them.
\<close>

definition block_ok :: "'h blockSubscriberImpl \<Rightarrow> bool" where
  "block_ok s \<longleftrightarrow> bs_handlers s \<noteq> None \<and> distinct (block_GetHandlers s)"

definition subs_ok :: "'h subscribers \<Rightarrow> bool" where
  "subs_ok e \<longleftrightarrow> distinct (map fst e) \<and> (\<forall>a. distinct (subs_GetHandlers a e))"

lemma subs_ok_New [simp]: "subs_ok NewSubscribers" "block_ok NewBlock"
  by (simp_all add: subs_ok_def NewSubscribers_def subs_GetHandlers_def block_ok_def NewBlock_def block_GetHandlers_def)

lemma subs_Get_New [simp]: "subs_GetHandlers a NewSubscribers = []" "block_GetHandlers NewBlock = []"
  by (simp_all add: NewSubscribers_def subs_GetHandlers_def NewBlock_def block_GetHandlers_def)

lemma map_of_map_entry: "map_of (AList.map_entry k f al) x = (if x = k then map_option f (map_of al k) else map_of al x)"
  by (induction al) auto

lemma keys_map_entry: "map fst (AList.map_entry k f al) = map fst al"
  by (induction al) auto

lemma keys_update: "set (map fst (AList.update k v al)) = insert k (set (map fst al))"
  using dom_update [of k v al] by simp

lemma map_of_key: "map_of al k = Some v \<Longrightarrow> k \<in> set (map fst al)"
  by (metis domI dom_map_of_conv_image_fst list.set_map)

lemma subs_Add_Get:
  "subs_GetHandlers b (fst (subs_AddHandlers a ps e)) =
     (if b = a then put_all (subs_GetHandlers a e) ps else subs_GetHandlers b e)"
  by (auto simp: subs_GetHandlers_def subs_AddHandlers_def map_of_map_entry update_conv' split: option.split)

lemma subs_Add_snd [simp]: "snd (subs_AddHandlers a ps e) = Inr ()" "snd (block_AddHandlers ps s) = Inr ()"
  by (simp_all add: subs_AddHandlers_def Let_def block_AddHandlers_def split: option.split)

lemma subs_Add_keys:
  "set (subs_GetAddresses (fst (subs_AddHandlers a ps e))) =
     set (subs_GetAddresses e) \<union> (if ps = [] then {} else {a})"
  by (auto simp: subs_AddHandlers_def subs_GetAddresses_def Let_def keys_map_entry keys_update
        simp del: set_map split: option.split dest: map_of_key)

lemma subs_Add_ok: "subs_ok e \<Longrightarrow> subs_ok (fst (subs_AddHandlers a ps e))"
proof -
  assume ok: "subs_ok e"
  have "distinct (map fst (fst (subs_AddHandlers a ps e)))"
    using ok by (auto simp: subs_ok_def subs_AddHandlers_def Let_def keys_map_entry distinct_update split: option.split)
  then show ?thesis
    using ok by (simp add: subs_ok_def subs_Add_Get distinct_put_all)
qed

lemma subs_Remove_Get:
  "subs_GetHandlers b (fst (subs_RemoveHandlers a ps e)) =
     (if b = a then filter (\<lambda>x. x \<notin> set ps) (subs_GetHandlers a e) else subs_GetHandlers b e)"
  by (auto simp: subs_GetHandlers_def subs_RemoveHandlers_def Let_def update_conv' delete_all_eq split: option.split)

lemma subs_Remove_keys [simp]:
  "set (subs_GetAddresses (fst (subs_RemoveHandlers a ps e))) = set (subs_GetAddresses e)"
  by (auto simp: subs_RemoveHandlers_def subs_GetAddresses_def Let_def keys_update
        simp del: set_map split: option.split dest: map_of_key)

lemma subs_Remove_ok: "subs_ok e \<Longrightarrow> subs_ok (fst (subs_RemoveHandlers a ps e))"
proof -
  assume ok: "subs_ok e"
  have "distinct (map fst (fst (subs_RemoveHandlers a ps e)))"
    using ok by (auto simp: subs_ok_def subs_RemoveHandlers_def Let_def distinct_update split: option.split)
  then show ?thesis
    using ok by (simp add: subs_ok_def subs_Remove_Get)
qed

lemma subs_Remove_snd:
  "snd (subs_RemoveHandlers a ps e) =
     (if ps = [] then Inr False
      else if subs_GetHandlers a e = [] then Inl (Wrapped ''handlers not found in handlers storage'' handlersNotFound)
      else Inr (set (subs_GetHandlers a e) \<subseteq> set ps))"
  by (auto simp: subs_RemoveHandlers_def subs_GetHandlers_def Let_def delete_all_eq filter_empty_conv split: option.split)

lemma subs_Has_iff: "subs_HasHandlers a e \<longleftrightarrow> subs_GetHandlers a e \<noteq> []"
  by (simp add: subs_HasHandlers_def)

lemma subs_Get_key: "subs_GetHandlers a e \<noteq> [] \<Longrightarrow> a \<in> set (subs_GetAddresses e)"
  by (auto simp: subs_GetHandlers_def subs_GetAddresses_def simp del: set_map split: option.splits dest: map_of_key)

lemma block_Has_iff: "block_HasHandlers s \<longleftrightarrow> block_GetHandlers s \<noteq> []"
  by (simp add: block_HasHandlers_def)

lemma block_Add_Get:
  "block_ok s \<Longrightarrow> block_GetHandlers (fst (block_AddHandlers ps s)) = put_all (block_GetHandlers s) ps"
  by (auto simp: block_ok_def block_AddHandlers_def block_GetHandlers_def)

lemma block_Add_ok: "block_ok s \<Longrightarrow> block_ok (fst (block_AddHandlers ps s))"
  by (auto simp: block_ok_def block_AddHandlers_def block_GetHandlers_def distinct_put_all)

lemma block_Remove_Get:
  "block_GetHandlers (fst (block_RemoveHandlers ps s)) = filter (\<lambda>x. x \<notin> set ps) (block_GetHandlers s)"
  by (auto simp: block_RemoveHandlers_def block_GetHandlers_def Let_def delete_all_eq split: option.split)

lemma block_Remove_ok: "block_ok s \<Longrightarrow> block_ok (fst (block_RemoveHandlers ps s))"
  by (auto simp: block_ok_def block_RemoveHandlers_def block_GetHandlers_def Let_def delete_all_eq)

lemma block_Remove_snd:
  "block_ok s \<Longrightarrow> ps \<noteq> [] \<Longrightarrow> snd (block_RemoveHandlers ps s) = Inr (set (block_GetHandlers s) \<subseteq> set ps)"
  by (auto simp: block_ok_def block_RemoveHandlers_def block_GetHandlers_def Let_def delete_all_eq filter_empty_conv)

end
