(* ===== verification/WsConcurrent.thy ===== *)
theory WsConcurrent
  imports WsSubscribers "HOL-Library.Multiset"
begin

text \<open>
  Messages and users at the same time. \<open>Listen\<close> routes every message in a goroutine of its own, every message starts
  a goroutine per callback, and the user adds callbacks meanwhile. A \<open>world\<close> is the store of one channel,
  the addresses the server has a subscription for, and what is in flight; a step is one of the pieces of
  \<open>Handle\<close> (\<open>sdk/websocket/handlers/\<close>), \<open>RouteMessage\<close> (\<open>router.go\<close>) and \<open>AddXHandlers\<close> (\<open>client.go\<close>) between
  two uses of a lock. With \<open>overlap\<close> false a message waits until the one before it for the same address
  has been handled, which the code does not do; the lemmas say what this would guarantee and what happens without it.
  That Go may abort a program that ranges over a map while another goroutine deletes from it is not modelled.
\<close>

section \<open>Worlds and steps\<close>

text \<open>A running \<open>Handle\<close>: callbacks that have not answered, and those that answered true and are not removed yet.\<close>

record 'h delivery =
  dv_address :: string
  dv_waiting :: "'h list"
  dv_removing :: "'h list"

text \<open>A running \<open>AddXHandlers\<close>: before its subscribe message, and before it stores the callbacks.\<close>

datatype 'h adding = Publishing string "'h list" | Storing string "'h list"

record 'h world =
  w_store :: "'h subscribers"
  w_subscribed :: "string set"
  w_deliveries :: "'h delivery multiset"
  w_addings :: "'h adding multiset"
  w_unsubscribing :: "string multiset"
  w_panicked :: bool

definition new_world :: "'h world" where
  "new_world = \<lparr>w_store = NewSubscribers, w_subscribed = {}, w_deliveries = {#}, w_addings = {#},
     w_unsubscribing = {#}, w_panicked = False\<rparr>"

datatype 'h event =
    Deliver string
  | Answer string 'h bool
  | Remove string 'h
  | Finish string
  | Unsubscribe string
  | AddCheck string "'h list"
  | AddPublish string
  | AddStore string

definition delivered :: "string \<Rightarrow> 'h world \<Rightarrow> 'h world" where
  "delivered a w = w\<lparr>w_deliveries := add_mset \<lparr>dv_address = a, dv_waiting = subs_GetHandlers a (w_store w), dv_removing = []\<rparr>
     (w_deliveries w)\<rparr>"

definition answered :: "'h delivery \<Rightarrow> 'h \<Rightarrow> bool \<Rightarrow> 'h world \<Rightarrow> 'h world" where
  "answered d f rm w = w\<lparr>w_deliveries := add_mset
     (d\<lparr>dv_waiting := remove1 f (dv_waiting d), dv_removing := (if rm then f # dv_removing d else dv_removing d)\<rparr>)
     (w_deliveries w - {#d#})\<rparr>"

definition removed :: "'h delivery \<Rightarrow> 'h \<Rightarrow> 'h world \<Rightarrow> 'h world" where
  "removed d f w =
     (case subs_RemoveHandlers (dv_address d) [f] (w_store w) of
        (e, Inl _) \<Rightarrow> w\<lparr>w_panicked := True\<rparr>
      | (e, Inr _) \<Rightarrow> w\<lparr>w_store := e,
          w_deliveries := add_mset (d\<lparr>dv_removing := remove1 f (dv_removing d)\<rparr>) (w_deliveries w - {#d#})\<rparr>)"

definition finished :: "'h delivery \<Rightarrow> 'h world \<Rightarrow> 'h world" where
  "finished d w = w\<lparr>w_deliveries := w_deliveries w - {#d#},
     w_unsubscribing := (if subs_HasHandlers (dv_address d) (w_store w) then w_unsubscribing w
       else add_mset (dv_address d) (w_unsubscribing w))\<rparr>"

definition unsubscribed :: "string \<Rightarrow> 'h world \<Rightarrow> 'h world" where
  "unsubscribed a w = w\<lparr>w_subscribed := w_subscribed w - {a}, w_unsubscribing := w_unsubscribing w - {#a#}\<rparr>"

definition add_checked :: "string \<Rightarrow> 'h list \<Rightarrow> 'h world \<Rightarrow> 'h world" where
  "add_checked a ps w = w\<lparr>w_addings := add_mset
     (if subs_HasHandlers a (w_store w) then Storing a ps else Publishing a ps) (w_addings w)\<rparr>"

definition add_published :: "string \<Rightarrow> 'h list \<Rightarrow> 'h world \<Rightarrow> 'h world" where
  "add_published a ps w = w\<lparr>w_subscribed := insert a (w_subscribed w),
     w_addings := add_mset (Storing a ps) (w_addings w - {#Publishing a ps#})\<rparr>"

definition add_stored :: "string \<Rightarrow> 'h list \<Rightarrow> 'h world \<Rightarrow> 'h world" where
  "add_stored a ps w = w\<lparr>w_store := fst (subs_AddHandlers a ps (w_store w)),
     w_addings := w_addings w - {#Storing a ps#}\<rparr>"

lemmas world_defs = delivered_def answered_def finished_def unsubscribed_def add_checked_def
  add_published_def add_stored_def

inductive world_step :: "bool \<Rightarrow> 'h world \<Rightarrow> 'h event \<Rightarrow> 'h world \<Rightarrow> bool" for overlap where
  Deliver: "\<not> w_panicked w \<Longrightarrow> subs_HasHandlers a (w_store w) \<Longrightarrow> overlap \<or> (\<forall>d \<in># w_deliveries w. dv_address d \<noteq> a) \<Longrightarrow>
    world_step overlap w (Deliver a) (delivered a w)"
| Answer: "\<not> w_panicked w \<Longrightarrow> d \<in># w_deliveries w \<Longrightarrow> f \<in> set (dv_waiting d) \<Longrightarrow>
    world_step overlap w (Answer (dv_address d) f rm) (answered d f rm w)"
| Remove: "\<not> w_panicked w \<Longrightarrow> d \<in># w_deliveries w \<Longrightarrow> f \<in> set (dv_removing d) \<Longrightarrow>
    world_step overlap w (Remove (dv_address d) f) (removed d f w)"
| Finish: "\<not> w_panicked w \<Longrightarrow> d \<in># w_deliveries w \<Longrightarrow> dv_waiting d = [] \<Longrightarrow> dv_removing d = [] \<Longrightarrow>
    world_step overlap w (Finish (dv_address d)) (finished d w)"
| Unsubscribe: "\<not> w_panicked w \<Longrightarrow> a \<in># w_unsubscribing w \<Longrightarrow> world_step overlap w (Unsubscribe a) (unsubscribed a w)"
| AddCheck: "\<not> w_panicked w \<Longrightarrow> ps \<noteq> [] \<Longrightarrow> world_step overlap w (AddCheck a ps) (add_checked a ps w)"
| AddPublish: "\<not> w_panicked w \<Longrightarrow> Publishing a ps \<in># w_addings w \<Longrightarrow>
    world_step overlap w (AddPublish a) (add_published a ps w)"
| AddStore: "\<not> w_panicked w \<Longrightarrow> Storing a ps \<in># w_addings w \<Longrightarrow>
    world_step overlap w (AddStore a) (add_stored a ps w)"

inductive world_run :: "bool \<Rightarrow> 'h world \<Rightarrow> 'h event list \<Rightarrow> 'h world \<Rightarrow> bool" for overlap where
  Stop: "world_run overlap w [] w"
| Step: "world_step overlap w e w' \<Longrightarrow> world_run overlap w' es w'' \<Longrightarrow> world_run overlap w (e # es) w''"

inductive_cases world_run_NilE: "world_run overlap w [] w'"
inductive_cases world_run_ConsE: "world_run overlap w (e # es) w'"

lemma world_run_append:
  "world_run ov w es w' \<Longrightarrow> world_run ov w' fs w'' \<Longrightarrow> world_run ov w (es @ fs) w''"
  by (induction rule: world_run.induct) (auto intro: world_run.intros)

section \<open>No panic without overlap\<close>

text \<open>The callbacks a running \<open>Handle\<close> still has to deal with are in the store, and there is one \<open>Handle\<close> per address.\<close>

definition world_inv :: "'h world \<Rightarrow> bool" where
  "world_inv w \<longleftrightarrow> \<not> w_panicked w \<and> subs_ok (w_store w)
     \<and> (\<forall>d \<in># w_deliveries w. distinct (dv_waiting d @ dv_removing d)
          \<and> set (dv_waiting d @ dv_removing d) \<subseteq> set (subs_GetHandlers (dv_address d) (w_store w)))
     \<and> (\<forall>a. size (filter_mset (\<lambda>d. dv_address d = a) (w_deliveries w)) \<le> 1)"

lemma world_invD:
  assumes "world_inv w" "d \<in># w_deliveries w"
  shows "distinct (dv_waiting d)" "distinct (dv_removing d)" "set (dv_waiting d) \<inter> set (dv_removing d) = {}"
    "set (dv_waiting d) \<subseteq> set (subs_GetHandlers (dv_address d) (w_store w))"
    "set (dv_removing d) \<subseteq> set (subs_GetHandlers (dv_address d) (w_store w))"
  using assms by (auto simp: world_inv_def)

lemma world_inv_unique:
  assumes "world_inv w" "d \<in># w_deliveries w" "d' \<in># w_deliveries w - {#d#}"
  shows "dv_address d' \<noteq> dv_address d"
proof
  assume "dv_address d' = dv_address d"
  moreover obtain E where "w_deliveries w = add_mset d (add_mset d' E)"
    using multi_member_split [OF assms(2)] multi_member_split [OF assms(3)] by auto
  ultimately have "2 \<le> size (filter_mset (\<lambda>x. dv_address x = dv_address d) (w_deliveries w))"
    by simp
  moreover have "size (filter_mset (\<lambda>x. dv_address x = dv_address d) (w_deliveries w)) \<le> 1"
    using assms(1) by (simp add: world_inv_def)
  ultimately show False by simp
qed

text \<open>Replacing a running \<open>Handle\<close> by one of the same address keeps the number per address.\<close>

lemma size_filter_replace:
  assumes "d \<in># D" "dv_address d' = dv_address d"
  shows "size (filter_mset (\<lambda>x. dv_address x = a) (add_mset d' (D - {#d#}))) = size (filter_mset (\<lambda>x. dv_address x = a) D)"
proof -
  obtain E where "D = add_mset d E" using assms(1) by (metis mset_add)
  with assms(2) show ?thesis by simp
qed

lemma world_inv_replace:
  assumes inv: "world_inv w" and d: "d \<in># w_deliveries w" and ad: "dv_address d' = dv_address d"
    and store: "subs_ok e" "\<And>b. b \<noteq> dv_address d \<Longrightarrow> subs_GetHandlers b e = subs_GetHandlers b (w_store w)"
    and d': "distinct (dv_waiting d' @ dv_removing d')"
      "set (dv_waiting d' @ dv_removing d') \<subseteq> set (subs_GetHandlers (dv_address d) e)"
  shows "world_inv (w\<lparr>w_store := e, w_deliveries := add_mset d' (w_deliveries w - {#d#})\<rparr>)"
proof -
  have "distinct (dv_waiting x @ dv_removing x) \<and>
      set (dv_waiting x @ dv_removing x) \<subseteq> set (subs_GetHandlers (dv_address x) e)"
    if "x \<in># w_deliveries w - {#d#}" for x
    using world_inv_unique [OF inv d that] inv in_diffD [OF that] store(2) [of "dv_address x"]
    by (auto simp: world_inv_def)
  with assms show ?thesis
    by (auto simp: world_inv_def size_filter_replace simp del: filter_mset_add_mset)
qed

lemma world_inv_step: "world_step False w ev w' \<Longrightarrow> world_inv w \<Longrightarrow> world_inv w'"
proof (induction rule: world_step.induct)
  case (Deliver w a)
  then have "filter_mset (\<lambda>d. dv_address d = a) (w_deliveries w) = {#}"
    by (auto simp: filter_mset_eq_conv)
  with Deliver show ?case
    by (auto simp: world_inv_def delivered_def subs_ok_def)
next
  case (Answer w d f rm)
  let ?d = "d\<lparr>dv_waiting := remove1 f (dv_waiting d), dv_removing := (if rm then f # dv_removing d else dv_removing d)\<rparr>"
  note i = world_invD [OF Answer(4,2)]
  have "distinct (dv_waiting ?d @ dv_removing ?d)"
    "set (dv_waiting ?d @ dv_removing ?d) \<subseteq> set (subs_GetHandlers (dv_address d) (w_store w))"
    using i Answer(3) set_remove1_subset [of f "dv_waiting d"] by (auto simp: distinct_remove1)
  then have "world_inv (w\<lparr>w_store := w_store w, w_deliveries := add_mset ?d (w_deliveries w - {#d#})\<rparr>)"
    using Answer by (intro world_inv_replace) (auto simp: world_inv_def)
  then show ?case by (simp add: answered_def)
next
  case (Remove w d f)
  let ?d = "d\<lparr>dv_removing := remove1 f (dv_removing d)\<rparr>"
  note i = world_invD [OF Remove(4,2)]
  have mem: "f \<in> set (subs_GetHandlers (dv_address d) (w_store w))"
    using i(5) Remove(3) by auto
  then have "\<exists>b. snd (subs_RemoveHandlers (dv_address d) [f] (w_store w)) = Inr b"
    by (auto simp: subs_Remove_snd)
  then obtain e b where e: "subs_RemoveHandlers (dv_address d) [f] (w_store w) = (e, Inr b)"
    by (metis prod.collapse)
  have get: "subs_GetHandlers x e = (if x = dv_address d then filter (\<lambda>y. y \<noteq> f) (subs_GetHandlers x (w_store w))
      else subs_GetHandlers x (w_store w))" for x
    using subs_Remove_Get [of x "dv_address d" "[f]" "w_store w"] by (simp add: e)
  have "subs_ok e"
    using subs_Remove_ok [of "w_store w" "dv_address d" "[f]"] Remove(4) by (simp add: e world_inv_def)
  moreover have "distinct (dv_waiting ?d @ dv_removing ?d)"
    "set (dv_waiting ?d @ dv_removing ?d) \<subseteq> set (subs_GetHandlers (dv_address d) e)"
    using i Remove(3) by (auto simp: get set_remove1_eq)
  ultimately have "world_inv (w\<lparr>w_store := e, w_deliveries := add_mset ?d (w_deliveries w - {#d#})\<rparr>)"
    using Remove by (intro world_inv_replace) (auto simp: get)
  then show ?case by (simp add: removed_def e)
next
  case (Finish w d)
  have "size (filter_mset (\<lambda>x. dv_address x = a) (w_deliveries w - {#d#})) \<le> 1" for a
  proof -
    have "size (filter_mset (\<lambda>x. dv_address x = a) (w_deliveries w - {#d#}))
        \<le> size (filter_mset (\<lambda>x. dv_address x = a) (w_deliveries w))"
      by (intro size_mset_mono multiset_filter_mono diff_subset_eq_self)
    also have "\<dots> \<le> 1" using Finish by (simp add: world_inv_def)
    finally show ?thesis .
  qed
  with Finish show ?case
    by (auto simp: world_inv_def finished_def simp del: filter_diff_mset dest: in_diffD)
next
  case (AddStore w a ps)
  then show ?case
    by (force simp: world_inv_def add_stored_def subs_Add_Get subs_Add_ok)
qed (auto simp: world_inv_def world_defs)

lemma world_inv_new: "world_inv new_world"
  by (simp add: world_inv_def new_world_def)

lemma world_inv_run: "world_run False w es w' \<Longrightarrow> world_inv w \<Longrightarrow> world_inv w'"
  by (induction rule: world_run.induct) (auto intro: world_inv_step)

section \<open>Everything in flight is handled\<close>

definition internal :: "'h event \<Rightarrow> bool" where
  "internal e \<longleftrightarrow> (case e of Deliver _ \<Rightarrow> False | AddCheck _ _ \<Rightarrow> False | _ \<Rightarrow> True)"

definition adding_work :: "'h adding \<Rightarrow> nat" where
  "adding_work a = (case a of Publishing _ _ \<Rightarrow> 2 | Storing _ _ \<Rightarrow> 1)"

definition delivery_work :: "'h delivery \<Rightarrow> nat" where
  "delivery_work d = 2 * length (dv_waiting d) + length (dv_removing d) + 2"

definition work :: "'h world \<Rightarrow> nat" where
  "work w = sum_mset (image_mset delivery_work (w_deliveries w)) + sum_mset (image_mset adding_work (w_addings w))
     + size (w_unsubscribing w)"

definition quiescent :: "'h world \<Rightarrow> bool" where
  "quiescent w \<longleftrightarrow> w_deliveries w = {#} \<and> w_addings w = {#} \<and> w_unsubscribing w = {#}"

lemma all_zero_iff:
  assumes "\<And>x. g x \<noteq> (0 :: nat)"
  shows "(\<forall>x \<in># M. g x = 0) \<longleftrightarrow> M = {#}"
  using assms by (cases M) auto

lemma work_0_iff: "work w = 0 \<longleftrightarrow> quiescent w"
proof -
  have d: "delivery_work d \<noteq> 0" for d :: "'h delivery" by (simp add: delivery_work_def)
  have x: "adding_work x \<noteq> 0" for x :: "'h adding" by (simp add: adding_work_def split: adding.split)
  show ?thesis
    by (simp add: work_def quiescent_def conj_assoc all_zero_iff [of delivery_work, OF d] all_zero_iff [of adding_work, OF x])
qed

lemma sum_replace:
  "d \<in># D \<Longrightarrow> sum_mset (image_mset g (add_mset d' (D - {#d#}))) + g d = sum_mset (image_mset g D) + (g d' :: nat)"
  by (auto dest!: multi_member_split)

lemma sum_delete: "d \<in># D \<Longrightarrow> sum_mset (image_mset g (D - {#d#})) + (g d :: nat) = sum_mset (image_mset g D)"
  by (auto dest!: multi_member_split)

lemma work_step:
  assumes "world_step ov w e w'" "internal e" "\<not> w_panicked w'"
  shows "work w' < work w"
  using assms
proof (induction rule: world_step.induct)
  case (Answer w d f rm)
  obtain n where "length (dv_waiting d) = Suc n" using Answer(3) by (cases "dv_waiting d") auto
  with Answer sum_replace [OF Answer(2), of delivery_work] show ?case
    by (simp add: work_def answered_def delivery_work_def length_remove1 split: if_splits)
next
  case (Remove w d f)
  obtain n where "length (dv_removing d) = Suc n" using Remove(3) by (cases "dv_removing d") auto
  with Remove sum_replace [OF Remove(2), of delivery_work] show ?case
    by (simp add: work_def removed_def delivery_work_def length_remove1 split: prod.splits sum.splits)
next
  case (Finish w d)
  with sum_delete [OF Finish(2), of delivery_work] show ?case
    by (simp add: work_def finished_def delivery_work_def)
next
  case (Unsubscribe w a)
  then show ?case
    by (auto simp: work_def unsubscribed_def dest!: multi_member_split)
next
  case (AddPublish w a ps)
  with sum_replace [OF AddPublish(2), of adding_work] show ?case
    by (simp add: work_def add_published_def adding_work_def)
next
  case (AddStore w a ps)
  with sum_delete [OF AddStore(2), of adding_work] show ?case
    by (simp add: work_def add_stored_def adding_work_def)
qed (simp_all add: internal_def)

lemma progress:
  assumes "\<not> w_panicked w" "\<not> quiescent w"
  shows "\<exists>e w'. world_step ov w e w' \<and> internal e"
proof -
  from assms(2) consider d where "d \<in># w_deliveries w" | x where "x \<in># w_addings w" | a where "a \<in># w_unsubscribing w"
    by (auto simp: quiescent_def)
  then show ?thesis
  proof cases
    case 1
    show ?thesis
    proof (cases "dv_waiting d")
      case (Cons f fs)
      with world_step.Answer [OF assms(1) 1, of f ov True] show ?thesis
        by (force simp: internal_def)
    next
      case Nil
      show ?thesis
      proof (cases "dv_removing d")
        case (Cons f fs)
        with world_step.Remove [OF assms(1) 1, of f ov] show ?thesis by (force simp: internal_def)
      next
        case rm: Nil
        from world_step.Finish [OF assms(1) 1 Nil rm, of ov] show ?thesis by (force simp: internal_def)
      qed
    qed
  next
    case 2
    with assms(1) show ?thesis
      by (cases x) (force simp: internal_def intro: world_step.AddPublish world_step.AddStore)+
  next
    case 3
    from world_step.Unsubscribe [OF assms(1) 3, of ov] show ?thesis by (force simp: internal_def)
  qed
qed

text \<open>How often the callback \<open>f\<close> of the address \<open>a\<close> still has to be called, and how often it is called in a run.\<close>

definition to_call :: "string \<Rightarrow> 'h \<Rightarrow> 'h world \<Rightarrow> nat" where
  "to_call a f w = sum_mset (image_mset (\<lambda>d. if dv_address d = a then count_list (dv_waiting d) f else 0) (w_deliveries w))"

definition calls :: "string \<Rightarrow> 'h \<Rightarrow> 'h event list \<Rightarrow> nat" where
  "calls a f es = length (filter (\<lambda>e. case e of Answer b g _ \<Rightarrow> b = a \<and> g = f | _ \<Rightarrow> False) es)"

lemma count_list_remove: "g \<in> set xs \<Longrightarrow> count_list (remove1 g xs) f + (if g = f then 1 else 0) = count_list xs f"
  by (induction xs) auto

lemma to_call_step:
  assumes "world_step ov w e w'" "internal e"
  shows "calls a f [e] + to_call a f w' = to_call a f w"
  using assms
proof (induction rule: world_step.induct)
  case (Answer w d g rm)
  let ?n = "\<lambda>d. if dv_address d = a then count_list (dv_waiting d) f else 0"
  have "count_list (remove1 g (dv_waiting d)) f + (if g = f then 1 else 0) = count_list (dv_waiting d) f"
    by (rule count_list_remove [OF Answer(3)])
  with Answer sum_replace [OF Answer(2), of ?n] show ?case
    by (auto simp: to_call_def calls_def answered_def)
next
  case (Remove w d g)
  with sum_replace [OF Remove(2), of "\<lambda>d. if dv_address d = a then count_list (dv_waiting d) f else 0"] show ?case
    by (auto simp: to_call_def calls_def removed_def split: prod.splits sum.splits)
next
  case (Finish w d)
  with sum_delete [OF Finish(2), of "\<lambda>d. if dv_address d = a then count_list (dv_waiting d) f else 0"] show ?case
    by (auto simp: to_call_def calls_def finished_def split: if_splits)
qed (auto simp: internal_def to_call_def calls_def world_defs)

lemma calls_Cons: "calls a f (e # es) = calls a f [e] + calls a f es"
  by (simp add: calls_def)

lemma to_call_run:
  "world_run ov w es w' \<Longrightarrow> list_all internal es \<Longrightarrow> calls a f es + to_call a f w' = to_call a f w"
proof (induction rule: world_run.induct)
  case (Stop w)
  then show ?case by (simp add: calls_def)
next
  case (Step w e w' es w'')
  with to_call_step [OF Step(1), of a f] show ?case
    by (simp add: calls_Cons [of a f e es])
qed

lemma work_run:
  "world_run ov w es w' \<Longrightarrow> list_all internal es \<Longrightarrow> \<not> w_panicked w' \<Longrightarrow> length es + work w' \<le> work w"
proof (induction rule: world_run.induct)
  case (Step w e w' es w'')
  have "\<not> w_panicked w'"
    using Step(2,5) by (cases es) (auto elim!: world_run_NilE world_run_ConsE world_step.cases)
  with work_step [OF Step(1)] Step show ?case by simp
qed simp

lemma handled_eventually:
  assumes "world_inv w"
  shows "\<exists>es w'. world_run False w es w' \<and> list_all internal es \<and> quiescent w'"
  using assms
proof (induction "work w" arbitrary: w rule: less_induct)
  case less
  show ?case
  proof (cases "quiescent w")
    case True
    then show ?thesis by (intro exI [of _ "[]"] exI [of _ w]) (simp add: world_run.Stop)
  next
    case False
    have "\<not> w_panicked w" using less.prems by (simp add: world_inv_def)
    from progress [OF this False] obtain e w1 where e: "world_step False w e w1" "internal e" by blast
    have inv: "world_inv w1" using world_inv_step [OF e(1) less.prems] .
    then have "work w1 < work w" using work_step [OF e] by (simp add: world_inv_def)
    with less.hyps inv obtain es w' where "world_run False w1 es w'" "list_all internal es" "quiescent w'" by blast
    with e show ?thesis by (intro exI [of _ "e # es"] exI [of _ w']) (auto intro: world_run.Step)
  qed
qed

end
