(* ===== verification/WsConcurrentProperties.thy ===== *)
theory WsConcurrentProperties
  imports WsConcurrent
begin

text \<open>
  What holds of messages and users that run at the same time, with the runs that show what goes wrong
  when messages for one address overlap, as the code lets them.
\<close>

section \<open>A concrete run\<close>

text \<open>A user adds the callback 0 for the address A, and a message for it arrives.\<close>

definition sample_world :: "nat world" where
  "sample_world = \<lparr>w_store = [(''A'', [0])], w_subscribed = {''A''},
     w_deliveries = {#\<lparr>dv_address = ''A'', dv_waiting = [0], dv_removing = []\<rparr>#}, w_addings = {#},
     w_unsubscribing = {#}, w_panicked = False\<rparr>"

lemmas sample_world_defs = sample_world_def new_world_def NewSubscribers_def world_defs removed_def
  subs_HasHandlers_def subs_GetHandlers_def subs_AddHandlers_def subs_RemoveHandlers_def

lemma run_step: "world_step ov w e w1 \<Longrightarrow> w1 = w2 \<Longrightarrow> world_run ov w2 es w' \<Longrightarrow> world_run ov w (e # es) w'"
  by (auto intro: world_run.Step)

lemma sample_run_add:
  "world_run ov new_world [AddCheck ''A'' [0 :: nat], AddPublish ''A'', AddStore ''A''] (sample_world\<lparr>w_deliveries := {#}\<rparr>)"
proof -
  let ?w1 = "new_world\<lparr>w_addings := {#Publishing ''A'' [0 :: nat]#}\<rparr>"
  let ?w2 = "new_world\<lparr>w_subscribed := {''A''}, w_addings := {#Storing ''A'' [0 :: nat]#}\<rparr>"
  have 1: "world_step ov new_world (AddCheck ''A'' [0 :: nat]) ?w1"
    using world_step.AddCheck [of new_world "[0 :: nat]" ov "''A''"] by (simp add: sample_world_defs)
  have 2: "world_step ov ?w1 (AddPublish ''A'') ?w2"
    using world_step.AddPublish [of ?w1 "''A''" "[0]" ov] by (simp add: sample_world_defs)
  have 3: "world_step ov ?w2 (AddStore ''A'') (sample_world\<lparr>w_deliveries := {#}\<rparr>)"
    using world_step.AddStore [of ?w2 "''A''" "[0]" ov] by (simp add: sample_world_defs)
  show ?thesis
    by (intro world_run.intros) (fact 1 2 3 world_run.Stop)+
qed

lemma sample_run_deliver: "world_run ov (sample_world\<lparr>w_deliveries := {#}\<rparr>) [Deliver ''A''] sample_world"
  by (rule world_run.Step [OF _ world_run.Stop])
    (use world_step.Deliver [of "sample_world\<lparr>w_deliveries := {#}\<rparr>" "''A''" ov] in \<open>simp add: sample_world_defs\<close>)

lemma sample_run:
  "world_run ov new_world [AddCheck ''A'' [0 :: nat], AddPublish ''A'', AddStore ''A'', Deliver ''A''] sample_world"
  using world_run_append [OF sample_run_add sample_run_deliver] by simp

text \<open>The callback answers true, is removed, and the \<open>Handle\<close> ends with no callback left.\<close>

definition sample_finished :: "nat world" where
  "sample_finished = sample_world\<lparr>w_store := [(''A'', [])], w_deliveries := {#}, w_unsubscribing := {#''A''#}\<rparr>"

lemma sample_run_finish:
  "world_run ov sample_world [Answer ''A'' 0 True, Remove ''A'' 0, Finish ''A''] sample_finished"
proof -
  let ?d0 = "\<lparr>dv_address = ''A'', dv_waiting = [0 :: nat], dv_removing = []\<rparr>"
  let ?d1 = "\<lparr>dv_address = ''A'', dv_waiting = [], dv_removing = [0 :: nat]\<rparr>"
  let ?d2 = "\<lparr>dv_address = ''A'', dv_waiting = [], dv_removing = [] :: nat list\<rparr>"
  let ?w1 = "sample_world\<lparr>w_deliveries := {#?d1#}\<rparr>"
  let ?w2 = "sample_world\<lparr>w_store := [(''A'', [])], w_deliveries := {#?d2#}\<rparr>"
  have 1: "world_step ov sample_world (Answer ''A'' 0 True) ?w1"
    using world_step.Answer [of sample_world ?d0 0 ov True] by (simp add: sample_world_defs)
  have 2: "world_step ov ?w1 (Remove ''A'' 0) ?w2"
    using world_step.Remove [of ?w1 ?d1 0 ov] by (simp add: sample_world_defs)
  have 3: "world_step ov ?w2 (Finish ''A'') sample_finished"
    using world_step.Finish [of ?w2 ?d2 ov] by (simp add: sample_world_defs sample_finished_def)
  show ?thesis
    by (intro world_run.intros) (fact 1 2 3 world_run.Stop)+
qed

section \<open>One message at a time\<close>

text \<open>
  C14. If the messages for one address are handled one after the other, then in every run, whatever the
  callbacks answer, in whatever order their goroutines run, and whatever users add meanwhile, no
  removal of a callback fails: the program does not panic, the stores stay well formed, and a callback that a running
  \<open>Handle\<close> has still to call or to remove is in the store of its address.
\<close>

theorem one_at_a_time_is_safe:
  assumes "world_run False new_world es w"
  shows "\<not> w_panicked w \<and> subs_ok (w_store w)
    \<and> (\<forall>d \<in># w_deliveries w. set (dv_waiting d @ dv_removing d) \<subseteq> set (subs_GetHandlers (dv_address d) (w_store w)))"
  using world_inv_run [OF assms world_inv_new] by (simp add: world_inv_def)

lemma one_at_a_time_is_safe_witness:
  "\<not> w_panicked sample_world \<and> subs_ok (w_store sample_world)
    \<and> w_deliveries sample_world = {#\<lparr>dv_address = ''A'', dv_waiting = [0], dv_removing = []\<rparr>#}
    \<and> set [0] \<subseteq> set (subs_GetHandlers ''A'' (w_store sample_world))"
  using one_at_a_time_is_safe [OF sample_run] by (simp add: sample_world_def)

text \<open>
  C15. Nothing in flight is stuck: from every state that is reached with one message at a time, the running goroutines
  can be run until all is handled; they stop after at most \<open>work w\<close> steps, however they are scheduled; and when
  they have stopped, every callback has been called exactly once for every message that was waiting for it.
\<close>

theorem in_flight_is_handled:
  assumes "world_run False new_world es w"
  shows "(\<exists>fs w'. world_run False w fs w' \<and> list_all internal fs \<and> quiescent w')
    \<and> (\<forall>fs w'. world_run False w fs w' \<and> list_all internal fs \<longrightarrow>
         length fs \<le> work w \<and> (quiescent w' \<longrightarrow> (\<forall>a f. calls a f fs = to_call a f w)))"
proof (intro conjI allI impI; (elim conjE)?)
  have inv: "world_inv w" using world_inv_run [OF assms world_inv_new] .
  show "\<exists>fs w'. world_run False w fs w' \<and> list_all internal fs \<and> quiescent w'"
    by (rule handled_eventually [OF inv])
  fix fs w' a f assume fs: "world_run False w fs w'" "list_all internal fs"
  show "length fs \<le> work w"
    using work_run [OF fs] world_inv_run [OF fs(1) inv] by (simp add: world_inv_def)
  show "calls a f fs = to_call a f w" if "quiescent w'"
    using to_call_run [OF fs, of a f] that by (simp add: to_call_def quiescent_def)
qed

lemma in_flight_is_handled_witness:
  "(\<exists>fs w'. world_run False sample_world fs w' \<and> list_all internal fs \<and> quiescent w')
   \<and> length [Answer ''A'' (0 :: nat) True, Remove ''A'' 0, Finish ''A''] \<le> work sample_world"
  using in_flight_is_handled [OF sample_run] sample_run_finish [of False]
  by (force simp: internal_def)

section \<open>What overlapping does\<close>

text \<open>
  C16. The code does not wait: two messages for one address whose only callback answers true to both are handled at
  the same time, and the second removal finds the store empty and panics.
\<close>

theorem overlapping_messages_panic:
  "\<exists>w. world_run True new_world
     [AddCheck ''A'' [0 :: nat], AddPublish ''A'', AddStore ''A'', Deliver ''A'', Deliver ''A'',
      Answer ''A'' 0 True, Answer ''A'' 0 True, Remove ''A'' 0, Remove ''A'' 0] w \<and> w_panicked w"
proof -
  let ?d0 = "\<lparr>dv_address = ''A'', dv_waiting = [0 :: nat], dv_removing = []\<rparr>"
  let ?d1 = "\<lparr>dv_address = ''A'', dv_waiting = [], dv_removing = [0 :: nat]\<rparr>"
  let ?d2 = "\<lparr>dv_address = ''A'', dv_waiting = [], dv_removing = [] :: nat list\<rparr>"
  let ?w1 = "sample_world\<lparr>w_deliveries := {#?d0, ?d0#}\<rparr>"
  let ?w2 = "sample_world\<lparr>w_deliveries := {#?d1, ?d0#}\<rparr>"
  let ?w3 = "sample_world\<lparr>w_deliveries := {#?d1, ?d1#}\<rparr>"
  let ?w4 = "sample_world\<lparr>w_store := [(''A'', [])], w_deliveries := {#?d2, ?d1#}\<rparr>"
  let ?w5 = "?w4\<lparr>w_panicked := True\<rparr>"
  have 1: "world_step True sample_world (Deliver ''A'') ?w1"
    using world_step.Deliver [of sample_world "''A''" True] by (simp add: sample_world_defs)
  have 2: "world_step True ?w1 (Answer ''A'' 0 True) ?w2"
    using world_step.Answer [of ?w1 ?d0 0 True True] by (simp add: sample_world_defs)
  have 3: "world_step True ?w2 (Answer ''A'' 0 True) ?w3"
    using world_step.Answer [of ?w2 ?d0 0 True True] by (simp add: sample_world_defs)
  have 4: "world_step True ?w3 (Remove ''A'' 0) ?w4"
    using world_step.Remove [of ?w3 ?d1 0 True] by (simp add: sample_world_defs)
  have 5: "world_step True ?w4 (Remove ''A'' 0) ?w5"
    using world_step.Remove [of ?w4 ?d1 0 True] by (simp add: sample_world_defs)
  have "world_run True sample_world
      [Deliver ''A'', Answer ''A'' 0 True, Answer ''A'' 0 True, Remove ''A'' 0, Remove ''A'' 0] ?w5"
    by (intro world_run.intros) (fact 1 2 3 4 5 world_run.Stop)+
  from world_run_append [OF sample_run this] show ?thesis
    by (intro exI [of _ ?w5]) simp
qed

text \<open>
  C17. Even with one message at a time a subscription can be lost: a \<open>Handle\<close> ends with no callback left, a user adds one and
  publishes the subscribe message, and only then the unsubscribe message of the \<open>Handle\<close> is sent. The callback is in the
  store, nothing is in flight, and the server has no subscription for the address.
\<close>

theorem subscription_can_be_lost:
  "\<exists>w. world_run False new_world
     [AddCheck ''A'' [0 :: nat], AddPublish ''A'', AddStore ''A'', Deliver ''A'',
      Answer ''A'' 0 True, Remove ''A'' 0, Finish ''A'',
      AddCheck ''A'' [1], AddPublish ''A'', AddStore ''A'', Unsubscribe ''A''] w
     \<and> quiescent w \<and> \<not> w_panicked w \<and> subs_HasHandlers ''A'' (w_store w) \<and> ''A'' \<notin> w_subscribed w"
proof -
  let ?w1 = "sample_finished\<lparr>w_addings := {#Publishing ''A'' [1]#}\<rparr>"
  let ?w2 = "sample_finished\<lparr>w_addings := {#Storing ''A'' [1]#}\<rparr>"
  let ?w3 = "sample_finished\<lparr>w_store := [(''A'', [1])]\<rparr>"
  let ?w4 = "sample_finished\<lparr>w_store := [(''A'', [1])], w_subscribed := {}, w_unsubscribing := {#}\<rparr>"
  have 1: "world_step False sample_finished (AddCheck ''A'' [1]) ?w1"
    using world_step.AddCheck [of sample_finished "[1]" False "''A''"] by (simp add: sample_world_defs sample_finished_def)
  have 2: "world_step False ?w1 (AddPublish ''A'') ?w2"
    using world_step.AddPublish [of ?w1 "''A''" "[1]" False] by (simp add: sample_world_defs sample_finished_def)
  have 3: "world_step False ?w2 (AddStore ''A'') ?w3"
    using world_step.AddStore [of ?w2 "''A''" "[1]" False] by (simp add: sample_world_defs sample_finished_def)
  have 4: "world_step False ?w3 (Unsubscribe ''A'') ?w4"
    using world_step.Unsubscribe [of ?w3 "''A''" False] by (simp add: sample_world_defs sample_finished_def)
  have "world_run False sample_finished [AddCheck ''A'' [1], AddPublish ''A'', AddStore ''A'', Unsubscribe ''A''] ?w4"
    by (intro world_run.intros) (fact 1 2 3 4 world_run.Stop)+
  from world_run_append [OF world_run_append [OF sample_run sample_run_finish] this] show ?thesis
    by (intro exI [of _ ?w4]) (simp add: quiescent_def sample_finished_def sample_world_defs)
qed

end
