(* ===== verification/SdkClient.thy ===== *)
theory SdkClient
  imports TxDto
begin

text \<open>
  The client of \<open>sdk/sdk.go\<close>: its configuration, the fee it gives the transactions it makes, and how a request
  moves on to another node. The packages \<open>net/http\<close> and \<open>net/url\<close> are parameters: parsing a URL, sending a request, decoding a body.
\<close>

section \<open>Configuration\<close>

record URL =
  url_Scheme :: string
  url_Host :: string
  url_Path :: string
  url_RawQuery :: string

type_synonym FeeCalculationStrategy = u32

definition HighCalculationStrategy :: FeeCalculationStrategy where "HighCalculationStrategy = 2500"
definition MiddleCalculationStrategy :: FeeCalculationStrategy where "MiddleCalculationStrategy = 250"
definition LowCalculationStrategy :: FeeCalculationStrategy where "LowCalculationStrategy = 25"
definition DefaultFeeCalculationStrategy :: FeeCalculationStrategy where
  "DefaultFeeCalculationStrategy = MiddleCalculationStrategy"
definition DefaultMaxFee :: u64 where "DefaultMaxFee = 5 * 1000000"

text \<open>
  The URLs are compared as pointers: \<open>cfg_UsedBaseUrl\<close> is the place of the used one in the list. The configuration of
  reputations is a parameter of the functions that read it (theory \<open>Accounts\<close>).
\<close>

record Config =
  cfg_BaseURLs :: "URL list"
  cfg_UsedBaseUrl :: nat
  cfg_WsReconnectionTimeout :: u64
  cfg_GenerationHash :: "Hash option"
  cfg_NetworkType :: NetworkType
  cfg_FeeCalculationStrategy :: FeeCalculationStrategy

definition NewConfigWithReputation ::
  "(string \<Rightarrow> URL result) \<Rightarrow> string list \<Rightarrow> NetworkType \<Rightarrow> u64 \<Rightarrow> Hash option \<Rightarrow> FeeCalculationStrategy \<Rightarrow> Config result" where
  "NewConfigWithReputation parse baseUrls networkType wsReconnectionTimeout generationHash strategy =
     (if length baseUrls = 0 then Inl (NewError ''empty base urls'')
      else res_bind (mapR parse baseUrls) (\<lambda>urls.
        Inr \<lparr>cfg_BaseURLs = urls, cfg_UsedBaseUrl = 0, cfg_WsReconnectionTimeout = wsReconnectionTimeout,
             cfg_GenerationHash = generationHash, cfg_NetworkType = networkType,
             cfg_FeeCalculationStrategy = strategy\<rparr>))"

definition used_url :: "Config \<Rightarrow> URL" where
  "used_url cfg = cfg_BaseURLs cfg ! cfg_UsedBaseUrl cfg"

definition config_ok :: "Config \<Rightarrow> bool" where
  "config_ok cfg \<longleftrightarrow> cfg_UsedBaseUrl cfg < length (cfg_BaseURLs cfg)"

lemma NewConfigWithReputation_ok:
  "NewConfigWithReputation parse urls nt t gh s = Inr cfg \<Longrightarrow> config_ok cfg"
  by (auto simp: NewConfigWithReputation_def config_ok_def res_bind_Inr_iff dest: mapR_length split: if_splits)

section \<open>Accounts\<close>

definition Client_NewAccountFromPrivateKey :: "'k crypto \<Rightarrow> Config \<Rightarrow> string \<Rightarrow> 'k Account result" where
  "Client_NewAccountFromPrivateKey C cfg pKey =
     NewAccountFromPrivateKey C pKey (cfg_NetworkType cfg) (cfg_GenerationHash cfg)"

definition Client_NewAccountFromPublicKey :: "'k crypto \<Rightarrow> Config \<Rightarrow> string \<Rightarrow> PublicAccount result" where
  "Client_NewAccountFromPublicKey C cfg pKey = NewAccountFromPublicKey C pKey (cfg_NetworkType cfg)"

section \<open>Fees\<close>

text \<open>\<open>int\<close> has 64 bits, and \<open>min\<close> compares them as signed numbers.\<close>

definition go_min :: "u64 \<Rightarrow> u64 \<Rightarrow> u64" where
  "go_min a b = (if sint a < sint b then a else b)"

definition modifyTransaction :: "'k crypto \<Rightarrow> Config \<Rightarrow> Transaction \<Rightarrow> Transaction" where
  "modifyTransaction C cfg tx =
     (let atx = GetAbstractTransaction tx in
      if tx_Type atx = ET_NetworkConfigEntityType \<or> tx_Type atx = ET_BlockchainUpgrade then tx
      else SetAbstractTransaction
        (atx\<lparr>tx_MaxFee := go_min (word_of_nat (Tx_Size C tx) * ucast (cfg_FeeCalculationStrategy cfg)) DefaultMaxFee\<rparr>) tx)"

definition with_fee :: "'k crypto \<Rightarrow> Config \<Rightarrow> ('a \<Rightarrow> Transaction) \<Rightarrow> 'a result \<Rightarrow> Transaction result" where
  "with_fee C cfg con r = res_map (\<lambda>tx. modifyTransaction C cfg (con tx)) r"

definition Client_NewAddressAliasTransaction ::
  "'k crypto \<Rightarrow> Config \<Rightarrow> Deadline option \<Rightarrow> Address option \<Rightarrow> NamespaceId option \<Rightarrow> AliasActionType \<Rightarrow> Transaction result" where
  "Client_NewAddressAliasTransaction C cfg deadline address namespaceId actionType = with_fee C cfg TxAddressAlias
     (NewAddressAliasTransaction deadline address namespaceId actionType (cfg_NetworkType cfg))"

definition Client_NewMosaicAliasTransaction ::
  "'k crypto \<Rightarrow> Config \<Rightarrow> Deadline option \<Rightarrow> MosaicId option \<Rightarrow> NamespaceId option \<Rightarrow> AliasActionType \<Rightarrow> Transaction result" where
  "Client_NewMosaicAliasTransaction C cfg deadline mosaicId namespaceId actionType = with_fee C cfg TxMosaicAlias
     (NewMosaicAliasTransaction deadline mosaicId namespaceId actionType (cfg_NetworkType cfg))"

definition Client_NewAccountLinkTransaction ::
  "'k crypto \<Rightarrow> Config \<Rightarrow> Deadline option \<Rightarrow> PublicAccount option \<Rightarrow> AccountLinkAction \<Rightarrow> Transaction result" where
  "Client_NewAccountLinkTransaction C cfg deadline remoteAccount linkAction = with_fee C cfg TxAccountLink
     (NewAccountLinkTransaction deadline remoteAccount linkAction (cfg_NetworkType cfg))"

definition Client_NewAccountPropertiesAddressTransaction ::
  "'k crypto \<Rightarrow> Config \<Rightarrow> Deadline option \<Rightarrow> PropertyType \<Rightarrow> AccountPropertiesAddressModification list \<Rightarrow> Transaction result" where
  "Client_NewAccountPropertiesAddressTransaction C cfg deadline propertyType modifications = with_fee C cfg TxAccountPropertiesAddress
     (NewAccountPropertiesAddressTransaction deadline propertyType modifications (cfg_NetworkType cfg))"

definition Client_NewAccountPropertiesMosaicTransaction ::
  "'k crypto \<Rightarrow> Config \<Rightarrow> Deadline option \<Rightarrow> PropertyType \<Rightarrow> AccountPropertiesMosaicModification list \<Rightarrow> Transaction result" where
  "Client_NewAccountPropertiesMosaicTransaction C cfg deadline propertyType modifications = with_fee C cfg TxAccountPropertiesMosaic
     (NewAccountPropertiesMosaicTransaction deadline propertyType modifications (cfg_NetworkType cfg))"

definition Client_NewAccountPropertiesEntityTypeTransaction ::
  "'k crypto \<Rightarrow> Config \<Rightarrow> Deadline option \<Rightarrow> PropertyType \<Rightarrow> AccountPropertiesEntityTypeModification list \<Rightarrow> Transaction result" where
  "Client_NewAccountPropertiesEntityTypeTransaction C cfg deadline propertyType modifications = with_fee C cfg TxAccountPropertiesEntityType
     (NewAccountPropertiesEntityTypeTransaction deadline propertyType modifications (cfg_NetworkType cfg))"

definition Client_NewNetworkConfigTransaction ::
  "'k crypto \<Rightarrow> Config \<Rightarrow> Deadline option \<Rightarrow> Duration \<Rightarrow> NetworkConfig option \<Rightarrow> SupportedEntities option \<Rightarrow> Transaction result" where
  "Client_NewNetworkConfigTransaction C cfg deadline delta config entities = with_fee C cfg TxNetworkConfig
     (NewNetworkConfigTransaction deadline delta config entities (cfg_NetworkType cfg))"

definition Client_NewBlockchainUpgradeTransaction ::
  "'k crypto \<Rightarrow> Config \<Rightarrow> Deadline option \<Rightarrow> Duration \<Rightarrow> BlockChainVersion \<Rightarrow> Transaction result" where
  "Client_NewBlockchainUpgradeTransaction C cfg deadline upgradePeriod newBlockChainVersion = with_fee C cfg TxBlockchainUpgrade
     (NewBlockchainUpgradeTransaction deadline upgradePeriod newBlockChainVersion (cfg_NetworkType cfg))"

definition Client_NewCompleteAggregateTransaction ::
  "'k crypto \<Rightarrow> Config \<Rightarrow> Deadline option \<Rightarrow> Transaction list option \<Rightarrow> Transaction result" where
  "Client_NewCompleteAggregateTransaction C cfg deadline innerTxs = with_fee C cfg TxAggregate
     (NewCompleteAggregateTransaction deadline innerTxs (cfg_NetworkType cfg))"

definition Client_NewBondedAggregateTransaction ::
  "'k crypto \<Rightarrow> Config \<Rightarrow> Deadline option \<Rightarrow> Transaction list option \<Rightarrow> Transaction result" where
  "Client_NewBondedAggregateTransaction C cfg deadline innerTxs = with_fee C cfg TxAggregate
     (NewBondedAggregateTransaction deadline innerTxs (cfg_NetworkType cfg))"

definition Client_NewModifyMetadataAddressTransaction ::
  "'k crypto \<Rightarrow> Config \<Rightarrow> Deadline option \<Rightarrow> Address option \<Rightarrow> MetadataModification list \<Rightarrow> Transaction result" where
  "Client_NewModifyMetadataAddressTransaction C cfg deadline address modifications = with_fee C cfg TxModifyMetadataAddress
     (NewModifyMetadataAddressTransaction deadline address modifications (cfg_NetworkType cfg))"

definition Client_NewModifyMetadataMosaicTransaction ::
  "'k crypto \<Rightarrow> Config \<Rightarrow> Deadline option \<Rightarrow> MosaicId option \<Rightarrow> MetadataModification list \<Rightarrow> Transaction result" where
  "Client_NewModifyMetadataMosaicTransaction C cfg deadline mosaicId modifications = with_fee C cfg TxModifyMetadataMosaic
     (NewModifyMetadataMosaicTransaction deadline mosaicId modifications (cfg_NetworkType cfg))"

definition Client_NewModifyMetadataNamespaceTransaction ::
  "'k crypto \<Rightarrow> Config \<Rightarrow> Deadline option \<Rightarrow> NamespaceId option \<Rightarrow> MetadataModification list \<Rightarrow> Transaction result" where
  "Client_NewModifyMetadataNamespaceTransaction C cfg deadline namespaceId modifications = with_fee C cfg TxModifyMetadataNamespace
     (NewModifyMetadataNamespaceTransaction deadline namespaceId modifications (cfg_NetworkType cfg))"

definition Client_NewModifyMultisigAccountTransaction ::
  "'k crypto \<Rightarrow> Config \<Rightarrow> Deadline option \<Rightarrow> 8 word \<Rightarrow> 8 word \<Rightarrow> MultisigCosignatoryModification list \<Rightarrow> Transaction result" where
  "Client_NewModifyMultisigAccountTransaction C cfg deadline minApprovalDelta minRemovalDelta modifications = with_fee C cfg TxModifyMultisigAccount
     (NewModifyMultisigAccountTransaction deadline minApprovalDelta minRemovalDelta modifications (cfg_NetworkType cfg))"

definition Client_NewModifyContractTransaction ::
  "'k crypto \<Rightarrow> Config \<Rightarrow> Deadline option \<Rightarrow> Duration \<Rightarrow> Hash option \<Rightarrow> MultisigCosignatoryModification list \<Rightarrow> MultisigCosignatoryModification list \<Rightarrow> MultisigCosignatoryModification list \<Rightarrow> Transaction result" where
  "Client_NewModifyContractTransaction C cfg deadline durationDelta hash customers executors verifiers = with_fee C cfg TxModifyContract
     (NewModifyContractTransaction deadline durationDelta hash customers executors verifiers (cfg_NetworkType cfg))"

definition Client_NewMosaicDefinitionTransaction ::
  "'k crypto \<Rightarrow> Config \<Rightarrow> Deadline option \<Rightarrow> u32 \<Rightarrow> string \<Rightarrow> MosaicProperties option \<Rightarrow> Transaction result" where
  "Client_NewMosaicDefinitionTransaction C cfg deadline nonce ownerPublicKey mosaicProps = with_fee C cfg TxMosaicDefinition
     (NewMosaicDefinitionTransaction C deadline nonce ownerPublicKey mosaicProps (cfg_NetworkType cfg))"

definition Client_NewMosaicSupplyChangeTransaction ::
  "'k crypto \<Rightarrow> Config \<Rightarrow> Deadline option \<Rightarrow> AssetId option \<Rightarrow> MosaicSupplyType \<Rightarrow> Duration \<Rightarrow> Transaction result" where
  "Client_NewMosaicSupplyChangeTransaction C cfg deadline assetId supplyType delta = with_fee C cfg TxMosaicSupplyChange
     (NewMosaicSupplyChangeTransaction deadline assetId supplyType delta (cfg_NetworkType cfg))"

definition Client_NewTransferTransaction ::
  "'k crypto \<Rightarrow> Config \<Rightarrow> Deadline option \<Rightarrow> Address option \<Rightarrow> Mosaic list option \<Rightarrow> Message option \<Rightarrow> Transaction result" where
  "Client_NewTransferTransaction C cfg deadline recipient mosaics message = with_fee C cfg TxTransfer
     (NewTransferTransaction deadline recipient mosaics message (cfg_NetworkType cfg))"

definition Client_NewTransferTransactionWithNamespace ::
  "'k crypto \<Rightarrow> Config \<Rightarrow> Deadline option \<Rightarrow> NamespaceId option \<Rightarrow> Mosaic list option \<Rightarrow> Message option \<Rightarrow> Transaction result" where
  "Client_NewTransferTransactionWithNamespace C cfg deadline recipient mosaics message = with_fee C cfg TxTransfer
     (NewTransferTransactionWithNamespace deadline recipient mosaics message (cfg_NetworkType cfg))"

definition Client_NewRegisterRootNamespaceTransaction ::
  "'k crypto \<Rightarrow> Config \<Rightarrow> Deadline option \<Rightarrow> string \<Rightarrow> Duration \<Rightarrow> Transaction result" where
  "Client_NewRegisterRootNamespaceTransaction C cfg deadline namespaceName duration = with_fee C cfg TxRegisterNamespace
     (NewRegisterRootNamespaceTransaction C deadline namespaceName duration (cfg_NetworkType cfg))"

definition Client_NewRegisterSubNamespaceTransaction ::
  "'k crypto \<Rightarrow> Config \<Rightarrow> Deadline option \<Rightarrow> string \<Rightarrow> NamespaceId option \<Rightarrow> Transaction result" where
  "Client_NewRegisterSubNamespaceTransaction C cfg deadline namespaceName parentId = with_fee C cfg TxRegisterNamespace
     (NewRegisterSubNamespaceTransaction C deadline namespaceName parentId (cfg_NetworkType cfg))"

definition Client_NewLockFundsTransaction ::
  "'k crypto \<Rightarrow> Config \<Rightarrow> Deadline option \<Rightarrow> Mosaic option \<Rightarrow> Duration \<Rightarrow> SignedTransaction option \<Rightarrow> Transaction result" where
  "Client_NewLockFundsTransaction C cfg deadline mosaic duration signedTx = with_fee C cfg TxLockFunds
     (NewLockFundsTransaction deadline mosaic duration signedTx (cfg_NetworkType cfg))"

definition Client_NewSecretLockTransaction ::
  "'k crypto \<Rightarrow> Config \<Rightarrow> Deadline option \<Rightarrow> Mosaic option \<Rightarrow> Duration \<Rightarrow> Secret option \<Rightarrow> Address option \<Rightarrow> Transaction result" where
  "Client_NewSecretLockTransaction C cfg deadline mosaic duration secret recipient = with_fee C cfg TxSecretLock
     (NewSecretLockTransaction deadline mosaic duration secret recipient (cfg_NetworkType cfg))"

definition Client_NewSecretProofTransaction ::
  "'k crypto \<Rightarrow> Config \<Rightarrow> Deadline option \<Rightarrow> HashType \<Rightarrow> Proof option \<Rightarrow> Address option \<Rightarrow> Transaction result" where
  "Client_NewSecretProofTransaction C cfg deadline hashType proof recipient = with_fee C cfg TxSecretProof
     (NewSecretProofTransaction deadline hashType proof recipient (cfg_NetworkType cfg))"

section \<open>Requests\<close>

record http_response =
  rs_StatusCode :: int
  rs_Body :: "byte list"

text \<open>
  What \<open>do\<close> may return: the error of \<open>http.Client.Do\<close>, which is a \<open>*url.Error\<close>, or any other. \<open>WrappedRequest\<close> is the
  \<open>errors.Wrapf\<close> of the services.
\<close>

datatype request_error =
    UrlError string
  | HttpError "byte list" int
  | ContextError
  | RequestError go_error
  | WrappedRequest string request_error

text \<open>
  \<open>send\<close> is \<open>http.Client.Do\<close> for the request sent to a host, \<open>decode\<close> reads the body into the value the caller wants (an
  end of file is not an error), \<open>cancelled\<close> says whether the context is done.
\<close>

definition client_do ::
  "(string \<Rightarrow> string + http_response) \<Rightarrow> (byte list \<Rightarrow> 'v result) \<Rightarrow> bool \<Rightarrow> string \<Rightarrow> request_error + http_response \<times> 'v" where
  "client_do send decode cancelled host =
     (case send host of
        Inl e \<Rightarrow> Inl (if cancelled then ContextError else UrlError e)
      | Inr resp \<Rightarrow>
          if rs_StatusCode resp > 226 \<or> rs_StatusCode resp < 200 then Inl (HttpError (rs_Body resp) (rs_StatusCode resp))
          else (case decode (rs_Body resp) of
              Inl e \<Rightarrow> Inl (RequestError e)
            | Inr v \<Rightarrow> Inr (resp, v)))"

fun try_others ::
  "(string \<Rightarrow> request_error + 'r) \<Rightarrow> Config \<Rightarrow> request_error \<Rightarrow> nat list \<Rightarrow> Config \<times> (request_error + 'r)" where
  "try_others doRequest cfg err [] = (cfg, Inl err)"
| "try_others doRequest cfg err (u # us) =
     (if cfg_UsedBaseUrl cfg = u then try_others doRequest cfg err us
      else case doRequest (url_Host (cfg_BaseURLs cfg ! u)) of
          Inl e \<Rightarrow> try_others doRequest cfg e us
        | Inr r \<Rightarrow> (cfg\<lparr>cfg_UsedBaseUrl := u\<rparr>, Inr r))"

definition doNewRequest ::
  "(string \<Rightarrow> request_error + 'r) \<Rightarrow> Config \<Rightarrow> Config \<times> (request_error + 'r)" where
  "doNewRequest doRequest cfg =
     (case doRequest (url_Host (used_url cfg)) of
        Inr r \<Rightarrow> (cfg, Inr r)
      | Inl (UrlError e) \<Rightarrow> try_others doRequest cfg (UrlError e) [0..<length (cfg_BaseURLs cfg)]
      | Inl e \<Rightarrow> (cfg, Inl e))"

definition handleResponseStatusCode :: "http_response option \<Rightarrow> (int \<times> go_error) list option \<Rightarrow> unit result" where
  "handleResponseStatusCode resp codeToErrs =
     (case resp of
        None \<Rightarrow> Inl ErrInternalError
      | Some resp \<Rightarrow>
          (case (case codeToErrs of None \<Rightarrow> None | Some m \<Rightarrow> map_of m (rs_StatusCode resp)) of
             Some err \<Rightarrow> Inl err
           | None \<Rightarrow>
               if rs_StatusCode resp \<noteq> 200 \<and> rs_StatusCode resp \<noteq> 202 then Inl ErrNotAcceptedResponseStatusCode
               else Inr ()))"

section \<open>What the client guarantees\<close>

lemma Get_Set_AbstractTransaction [simp]: "GetAbstractTransaction (SetAbstractTransaction a tx) = a"
  by (cases tx) simp_all

lemma Set_Set_AbstractTransaction [simp]:
  "SetAbstractTransaction a (SetAbstractTransaction b tx) = SetAbstractTransaction a tx"
  by (cases tx) simp_all

lemma Set_Get_AbstractTransaction [simp]: "SetAbstractTransaction (GetAbstractTransaction tx) tx = tx"
  by (cases tx) simp_all

lemma go_min_nat: "n < 2 ^ 63 \<Longrightarrow> go_min (word_of_nat n) DefaultMaxFee = word_of_nat (min n 5000000)"
proof -
  assume n: "n < 2 ^ 63"
  then have "sint (word_of_nat n :: u64) = int n"
    by (simp add: sint_uint unsigned_of_nat take_bit_nat_eq_self signed_take_bit_int_eq_self)
  moreover have "sint DefaultMaxFee = 5000000" by (simp add: DefaultMaxFee_def)
  ultimately show ?thesis
    by (auto simp: go_min_def min_def DefaultMaxFee_def)
qed

lemma modifyTransaction_fee:
  assumes "tx_Type (GetAbstractTransaction tx) \<noteq> ET_NetworkConfigEntityType"
    "tx_Type (GetAbstractTransaction tx) \<noteq> ET_BlockchainUpgrade" "Tx_Size C tx < 2 ^ 31"
  shows "modifyTransaction C cfg tx = SetAbstractTransaction ((GetAbstractTransaction tx)\<lparr>tx_MaxFee :=
    word_of_nat (min (Tx_Size C tx * unat (cfg_FeeCalculationStrategy cfg)) 5000000)\<rparr>) tx"
proof -
  let ?s = "cfg_FeeCalculationStrategy cfg"
  have "Tx_Size C tx * unat ?s < 2 ^ 31 * 2 ^ 32"
    using unat_bounds(3) [of ?s] assms(3) by (intro mult_strict_mono) simp_all
  then have "go_min (word_of_nat (Tx_Size C tx * unat ?s)) DefaultMaxFee =
      word_of_nat (min (Tx_Size C tx * unat ?s) 5000000)"
    by (intro go_min_nat) simp
  moreover have "(ucast ?s :: u64) = word_of_nat (unat ?s)"
    by simp
  then have "word_of_nat (Tx_Size C tx) * ucast ?s = (word_of_nat (Tx_Size C tx * unat ?s) :: u64)"
    by (metis of_nat_mult)
  ultimately show ?thesis
    using assms by (simp only: modifyTransaction_def Let_def if_False simp_thms)
qed

lemma upt_split: "[0..<n] = vs @ u # ws \<Longrightarrow> vs = [0..<u] \<and> u < n"
proof -
  assume eq: "[0..<n] = vs @ u # ws"
  have len: "length vs < n" using arg_cong [OF eq, of length] by simp
  have "u = length vs" using arg_cong [OF eq, of "\<lambda>xs. xs ! length vs"] len by simp
  moreover have "vs = [0..<length vs]" using arg_cong [OF eq, of "take (length vs)"] len by simp
  ultimately show ?thesis using len by simp
qed

text \<open>
  \<open>try_others\<close> answers with the first of the other nodes that answers, and makes it the used one; when none does,
  the error is the last one and the configuration is as before.
\<close>

definition is_fail :: "'e + 'a \<Rightarrow> bool" where
  "is_fail r = (case r of Inl _ \<Rightarrow> True | Inr _ \<Rightarrow> False)"

lemma is_fail_simps [simp]: "is_fail (Inl e)" "\<not> is_fail (Inr x)"
  by (simp_all add: is_fail_def)

lemma try_others_Inr:
  "try_others doRequest cfg err us = (cfg', Inr r) \<Longrightarrow>
     \<exists>vs u ws. us = vs @ u # ws \<and> cfg' = cfg\<lparr>cfg_UsedBaseUrl := u\<rparr> \<and> u \<noteq> cfg_UsedBaseUrl cfg
       \<and> doRequest (url_Host (cfg_BaseURLs cfg ! u)) = Inr r
       \<and> (\<forall>v \<in> set vs. v \<noteq> cfg_UsedBaseUrl cfg \<longrightarrow> is_fail (doRequest (url_Host (cfg_BaseURLs cfg ! v))))"
proof (induction doRequest cfg err us rule: try_others.induct)
  case (1 doRequest cfg err)
  then show ?case by simp
next
  case (2 doRequest cfg err u us)
  show ?case
  proof (cases "cfg_UsedBaseUrl cfg \<noteq> u \<and> \<not> is_fail (doRequest (url_Host (cfg_BaseURLs cfg ! u)))")
    case True
    with 2(3) show ?thesis
      by (intro exI [of _ "[]"] exI [of _ u] exI [of _ us]) (auto split: sum.splits)
  next
    case False
    with 2 have "\<exists>vs w ws. us = vs @ w # ws \<and> cfg' = cfg\<lparr>cfg_UsedBaseUrl := w\<rparr> \<and> w \<noteq> cfg_UsedBaseUrl cfg
       \<and> doRequest (url_Host (cfg_BaseURLs cfg ! w)) = Inr r
       \<and> (\<forall>v \<in> set vs. v \<noteq> cfg_UsedBaseUrl cfg \<longrightarrow> is_fail (doRequest (url_Host (cfg_BaseURLs cfg ! v))))"
      by (auto split: if_splits sum.splits)
    then obtain vs w ws where "us = vs @ w # ws" "cfg' = cfg\<lparr>cfg_UsedBaseUrl := w\<rparr>" "w \<noteq> cfg_UsedBaseUrl cfg"
       "doRequest (url_Host (cfg_BaseURLs cfg ! w)) = Inr r"
       "\<forall>v \<in> set vs. v \<noteq> cfg_UsedBaseUrl cfg \<longrightarrow> is_fail (doRequest (url_Host (cfg_BaseURLs cfg ! v)))"
      by blast
    with False show ?thesis
      by (intro exI [of _ "u # vs"] exI [of _ w] exI [of _ ws]) auto
  qed
qed

lemma try_others_Inl:
  "try_others doRequest cfg err us = (cfg', Inl e) \<Longrightarrow>
     cfg' = cfg \<and> (\<forall>v \<in> set us. v \<noteq> cfg_UsedBaseUrl cfg \<longrightarrow> is_fail (doRequest (url_Host (cfg_BaseURLs cfg ! v))))"
  by (induction doRequest cfg err us rule: try_others.induct) (auto split: if_splits sum.splits)

end
