(* ===== verification/WsMessages.thy ===== *)
theory WsMessages
  imports TxDto
begin

text \<open>
  The messages that arrive on the websocket: \<open>sdk/websocket_model.go\<close>, \<open>sdk/message_processors.go\<close> and the
  blocks of \<open>sdk/blockchain_model.go\<close> and \<open>sdk/blockchain_internal.go\<close>. A message is its JSON object, a
  \<open>raw_json\<close>; the record \<open>ws_json\<close> is \<open>json.Unmarshal\<close> into the structures that are not transactions.
\<close>

section \<open>Blocks\<close>

record BlockInfo =
  blk_NetworkType :: NetworkType
  blk_BlockHash :: "Hash option"
  blk_GenerationHash :: "Hash option"
  blk_TotalFee :: Amount
  blk_NumTransactions :: u64
  blk_Signature :: "Signature option"
  blk_Signer :: PublicAccount
  blk_Version :: EntityVersion
  blk_Type :: u64
  blk_Height :: Height
  blk_Timestamp :: Timestamp
  blk_Difficulty :: Difficulty
  blk_FeeMultiplier :: u32
  blk_PreviousBlockHash :: "Hash option"
  blk_BlockTransactionsHash :: "Hash option"
  blk_BlockReceiptsHash :: "Hash option"
  blk_StateHash :: "Hash option"
  blk_Beneficiary :: "PublicAccount option"
  blk_FeeInterest :: u32
  blk_FeeInterestDenominator :: u32

record blockInfoDTO =
  bd_BlockHash :: string
  bd_GenerationHash :: string
  bd_TotalFee :: uint64DTO
  bd_NumTransactions :: u64
  bd_Signature :: string
  bd_Signer :: string
  bd_Version :: u64
  bd_Type :: u64
  bd_Height :: uint64DTO
  bd_Timestamp :: uint64DTO
  bd_Difficulty :: uint64DTO
  bd_FeeMultiplier :: u32
  bd_PreviousBlockHash :: string
  bd_BlockTransactionsHash :: string
  bd_BlockReceiptsHash :: string
  bd_StateHash :: string
  bd_Beneficiary :: string
  bd_FeeInterest :: u32
  bd_FeeInterestDenominator :: u32

definition blockInfoDTO_toStruct :: "'k crypto \<Rightarrow> blockInfoDTO \<Rightarrow> BlockInfo result" where
  "blockInfoDTO_toStruct C dto =
     (let nt = ExtractNetworkType (bd_Version dto) in
      res_bind (NewAccountFromPublicKey C (bd_Signer dto) nt) (\<lambda>pa.
      let v = ExtractVersion (bd_Version dto) in
      res_bind (if bd_Beneficiary dto \<noteq> EmptyPublicKey
        then res_map Some (NewAccountFromPublicKey C (bd_Beneficiary dto) nt) else Inr None) (\<lambda>bpa.
      res_bind (hashDto_Hash (bd_BlockHash dto)) (\<lambda>blockHash.
      res_bind (hashDto_Hash (bd_GenerationHash dto)) (\<lambda>generationHash.
      res_bind (signatureDto_Signature (bd_Signature dto)) (\<lambda>signature.
      res_bind (hashDto_Hash (bd_PreviousBlockHash dto)) (\<lambda>previousBlockHash.
      res_bind (hashDto_Hash (bd_BlockTransactionsHash dto)) (\<lambda>blockTransactionsHash.
      res_bind (hashDto_Hash (bd_BlockReceiptsHash dto)) (\<lambda>blockReceiptsHash.
      res_bind (hashDto_Hash (bd_StateHash dto)) (\<lambda>stateHash.
      res_bind (uint64DTO_toStruct (bd_TotalFee dto)) (\<lambda>totalFee.
      res_bind (uint64DTO_toStruct (bd_Height dto)) (\<lambda>height.
      res_bind (blockchainTimestampDTO_toStruct (bd_Timestamp dto)) (\<lambda>timestamp.
      res_bind (uint64DTO_toStruct (bd_Difficulty dto)) (\<lambda>difficulty.
        Inr \<lparr>blk_NetworkType = nt, blk_BlockHash = blockHash, blk_GenerationHash = generationHash,
             blk_TotalFee = totalFee, blk_NumTransactions = bd_NumTransactions dto, blk_Signature = signature,
             blk_Signer = pa, blk_Version = v, blk_Type = bd_Type dto, blk_Height = height,
             blk_Timestamp = ToTimestamp timestamp, blk_Difficulty = difficulty,
             blk_FeeMultiplier = bd_FeeMultiplier dto, blk_PreviousBlockHash = previousBlockHash,
             blk_BlockTransactionsHash = blockTransactionsHash, blk_BlockReceiptsHash = blockReceiptsHash,
             blk_StateHash = stateHash, blk_Beneficiary = bpa, blk_FeeInterest = bd_FeeInterest dto,
             blk_FeeInterestDenominator = bd_FeeInterestDenominator dto\<rparr>))))))))))))))"

definition blockInfoDTOs_toStruct :: "'k crypto \<Rightarrow> blockInfoDTO list \<Rightarrow> BlockInfo list result" where
  "blockInfoDTOs_toStruct C dtos = mapR (blockInfoDTO_toStruct C) dtos"

type_synonym ChainScore = "u64 \<times> u64"

definition NewChainScore :: "u64 \<Rightarrow> u64 \<Rightarrow> ChainScore" where
  "NewChainScore scoreLow scoreHigh = (scoreLow, scoreHigh)"

record chainScoreDTO =
  csd_ScoreHigh :: uint64DTO
  csd_ScoreLow :: uint64DTO

definition chainScoreDTO_toStruct :: "chainScoreDTO \<Rightarrow> ChainScore result" where
  "chainScoreDTO_toStruct dto =
     res_bind (uint64DTO_toUint64 (csd_ScoreLow dto)) (\<lambda>l.
     res_bind (uint64DTO_toUint64 (csd_ScoreHigh dto)) (\<lambda>h. Inr (NewChainScore l h)))"

section \<open>The other messages\<close>

record statusInfoDto =
  sid_Status :: string
  sid_Hash :: string

record StatusInfo =
  si_Status :: string
  si_Hash :: "Hash option"

record signerInfoDto =
  sgd_Signer :: string
  sgd_Signature :: string
  sgd_ParentHash :: string

record SignerInfo =
  sg_Signer :: string
  sg_Signature :: "Signature option"
  sg_ParentHash :: "Hash option"

record UnconfirmedRemoved = ur_Meta :: TransactionInfo
record unconfirmedRemovedDto = urd_Meta :: "transactionInfoDTO option"
record PartialRemovedInfo = pr_Meta :: TransactionInfo
record partialRemovedInfoDTO = prd_Meta :: "transactionInfoDTO option"

definition unconfirmedRemovedDto_toStruct :: "unconfirmedRemovedDto \<Rightarrow> UnconfirmedRemoved result" where
  "unconfirmedRemovedDto_toStruct dto =
     res_bind (res_bind (deref (urd_Meta dto)) transactionInfoDTO_toStruct) (\<lambda>info. Inr \<lparr>ur_Meta = info\<rparr>)"

definition partialRemovedInfoDTO_toStruct :: "partialRemovedInfoDTO \<Rightarrow> PartialRemovedInfo result" where
  "partialRemovedInfoDTO_toStruct dto =
     res_bind (res_bind (deref (prd_Meta dto)) transactionInfoDTO_toStruct) (\<lambda>info. Inr \<lparr>pr_Meta = info\<rparr>)"

record WsMessageInfo =
  wmi_Address :: "Address option"
  wmi_ChannelName :: string

record wsMessageInfoMetaDTO =
  wmd_ChannelName :: string
  wmd_Address :: string

type_synonym WsMessageInfoDTO = wsMessageInfoMetaDTO

definition WsMessageInfoDTO_ToStruct :: "WsMessageInfoDTO \<Rightarrow> WsMessageInfo result" where
  "WsMessageInfoDTO_ToStruct dto =
     (let msg = \<lparr>wmi_Address = None, wmi_ChannelName = wmd_ChannelName dto\<rparr> in
      if wmd_ChannelName dto = ''block'' then Inr msg
      else res_bind (NewAddressFromBase32 (wmd_Address dto)) (\<lambda>address. Inr (msg\<lparr>wmi_Address := Some address\<rparr>)))"

section \<open>From bytes to messages\<close>

record 'j ws_json =
  jw_info :: "'j \<Rightarrow> WsMessageInfoDTO result"
  jw_block :: "'j \<Rightarrow> blockInfoDTO result"
  jw_unconfirmedRemoved :: "'j \<Rightarrow> unconfirmedRemovedDto result"
  jw_partialRemoved :: "'j \<Rightarrow> partialRemovedInfoDTO result"
  jw_status :: "'j \<Rightarrow> statusInfoDto result"
  jw_cosignature :: "'j \<Rightarrow> signerInfoDto result"

definition json_bytes :: "'j raw_json \<Rightarrow> 'j" where
  "json_bytes m = (case m of Raw b _ \<Rightarrow> b)"

definition MapBlock :: "'k crypto \<Rightarrow> 'j ws_json \<Rightarrow> 'j raw_json \<Rightarrow> BlockInfo result" where
  "MapBlock C W m = res_bind (jw_block W (json_bytes m)) (blockInfoDTO_toStruct C)"

text \<open>The mappers of transactions hold the function that maps one, \<open>MapTransaction\<close> in the client.\<close>

type_synonym 'j mapTransactionFunc = "'j raw_json \<Rightarrow> Transaction result"

definition MapConfirmedAdded :: "'j mapTransactionFunc \<Rightarrow> 'j raw_json \<Rightarrow> Transaction result" where
  "MapConfirmedAdded f m = f m"

definition MapUnconfirmedAdded :: "'j mapTransactionFunc \<Rightarrow> 'j raw_json \<Rightarrow> Transaction result" where
  "MapUnconfirmedAdded f m = f m"

definition MapUnconfirmedRemoved :: "'j ws_json \<Rightarrow> 'j raw_json \<Rightarrow> UnconfirmedRemoved result" where
  "MapUnconfirmedRemoved W m = res_bind (jw_unconfirmedRemoved W (json_bytes m)) unconfirmedRemovedDto_toStruct"

definition MapStatus :: "'j ws_json \<Rightarrow> 'j raw_json \<Rightarrow> StatusInfo result" where
  "MapStatus W m =
     res_bind (jw_status W (json_bytes m)) (\<lambda>dto.
     res_bind (hashDto_Hash (sid_Hash dto)) (\<lambda>hash.
       Inr \<lparr>si_Status = sid_Status dto, si_Hash = hash\<rparr>))"

definition MapPartialAdded :: "'j mapTransactionFunc \<Rightarrow> 'j raw_json \<Rightarrow> Transaction AggregateTransaction result" where
  "MapPartialAdded f m =
     res_bind (f m) (\<lambda>tr. case tr of TxAggregate v \<Rightarrow> Inr v | _ \<Rightarrow> Inl (NewError ''error cast types''))"

definition MapPartialRemoved :: "'j ws_json \<Rightarrow> 'j raw_json \<Rightarrow> PartialRemovedInfo result" where
  "MapPartialRemoved W m = res_bind (jw_partialRemoved W (json_bytes m)) partialRemovedInfoDTO_toStruct"

definition MapCosignature :: "'j ws_json \<Rightarrow> 'j raw_json \<Rightarrow> SignerInfo result" where
  "MapCosignature W m =
     res_bind (jw_cosignature W (json_bytes m)) (\<lambda>dto.
     res_bind (signatureDto_Signature (sgd_Signature dto)) (\<lambda>signature.
     res_bind (hashDto_Hash (sgd_ParentHash dto)) (\<lambda>parentHash.
       Inr \<lparr>sg_Signer = sgd_Signer dto, sg_Signature = signature, sg_ParentHash = parentHash\<rparr>)))"

end
