(* ===== verification/WsHandlers.thy ===== *)
theory WsHandlers
  imports WsMessages WsSubscribers "HOL-Library.Multiset"
begin

text \<open>
  Handling one message (\<open>sdk/websocket/handlers/\<close>): the message is mapped, every callback of the store gets it
  in a goroutine of its own, and one that answers true is removed. \<open>call f m\<close> is what the callback
  behind the pointer \<open>f\<close> answers to \<open>m\<close>. The goroutines of one message take the lock of the store one after the other
  in an order the scheduler chooses: the argument \<open>sched\<close> gives that order. Messages that overlap in
  time are the subject of the theory \<open>WsConcurrent\<close>. The result \<open>Inl Panicked\<close> is the panic that ends the program.
\<close>

section \<open>The goroutines\<close>

fun run_goroutines :: "('h \<Rightarrow> 's \<Rightarrow> 's \<times> bool result) \<Rightarrow> ('h \<Rightarrow> bool) \<Rightarrow> 'h list \<Rightarrow> 's \<Rightarrow> 's result" where
  "run_goroutines remove answer [] s = Inr s"
| "run_goroutines remove answer (f # fs) s =
     (if \<not> answer f then run_goroutines remove answer fs s
      else case remove f s of
          (s, Inl err) \<Rightarrow> Inl Panicked
        | (s, Inr _) \<Rightarrow> run_goroutines remove answer fs s)"

definition handle_message ::
  "('s \<Rightarrow> 'h list) \<Rightarrow> ('h \<Rightarrow> 's \<Rightarrow> 's \<times> bool result) \<Rightarrow> ('s \<Rightarrow> bool)
   \<Rightarrow> ('h \<Rightarrow> 'm \<Rightarrow> bool) \<Rightarrow> ('h list \<Rightarrow> 'h list) \<Rightarrow> 'm \<Rightarrow> 's \<Rightarrow> ('s \<times> bool) result" where
  "handle_message getHandlers removeHandler hasHandlers call sched res s =
     (let handlers = getHandlers s in
      if length handlers = 0 then Inr (s, True)
      else res_map (\<lambda>s. (s, hasHandlers s))
             (run_goroutines removeHandler (\<lambda>f. call f res) (sched handlers) s))"

text \<open>An error of the mapper panics.\<close>

definition must :: "'m result \<Rightarrow> 'm result" where
  "must r = (case r of Inl _ \<Rightarrow> Inl Panicked | Inr x \<Rightarrow> Inr x)"

lemma must_simps [simp]: "must (Inl e) = Inl Panicked" "must (Inr x) = Inr x"
  by (simp_all add: must_def)

definition blockHandler_Handle ::
  "'k crypto \<Rightarrow> 'j ws_json \<Rightarrow> ('h \<Rightarrow> BlockInfo \<Rightarrow> bool) \<Rightarrow> ('h list \<Rightarrow> 'h list) \<Rightarrow> 'j raw_json
   \<Rightarrow> 'h blockSubscriberImpl \<Rightarrow> ('h blockSubscriberImpl \<times> bool) result" where
  "blockHandler_Handle C W call sched resp s =
     res_bind (must (MapBlock C W resp)) (\<lambda>res.
       handle_message block_GetHandlers (\<lambda>f. block_RemoveHandlers [f]) block_HasHandlers call sched res s)"

text \<open>The same code for the stores with addresses; a nil address panics in \<open>GetHandlers\<close>.\<close>

definition address_Handle ::
  "('h \<Rightarrow> 'm \<Rightarrow> bool) \<Rightarrow> ('h list \<Rightarrow> 'h list) \<Rightarrow> 'm result \<Rightarrow> Address option
   \<Rightarrow> 'h subscribers \<Rightarrow> ('h subscribers \<times> bool) result" where
  "address_Handle call sched mapped address e =
     res_bind (must mapped) (\<lambda>res.
     res_bind (deref address) (\<lambda>address.
       let a = addr_Address address in
       handle_message (subs_GetHandlers a) (\<lambda>f. subs_RemoveHandlers a [f]) (subs_HasHandlers a) call sched res e))"

definition confirmedAddedHandler_Handle ::
  "'j mapTransactionFunc \<Rightarrow> ('h \<Rightarrow> Transaction \<Rightarrow> bool) \<Rightarrow> ('h list \<Rightarrow> 'h list) \<Rightarrow> Address option \<Rightarrow> 'j raw_json
   \<Rightarrow> 'h subscribers \<Rightarrow> ('h subscribers \<times> bool) result" where
  "confirmedAddedHandler_Handle f call sched address resp = address_Handle call sched (MapConfirmedAdded f resp) address"

definition unconfirmedAddedHandler_Handle ::
  "'j mapTransactionFunc \<Rightarrow> ('h \<Rightarrow> Transaction \<Rightarrow> bool) \<Rightarrow> ('h list \<Rightarrow> 'h list) \<Rightarrow> Address option \<Rightarrow> 'j raw_json
   \<Rightarrow> 'h subscribers \<Rightarrow> ('h subscribers \<times> bool) result" where
  "unconfirmedAddedHandler_Handle f call sched address resp = address_Handle call sched (MapUnconfirmedAdded f resp) address"

definition unconfirmedRemovedHandler_Handle ::
  "'j ws_json \<Rightarrow> ('h \<Rightarrow> UnconfirmedRemoved \<Rightarrow> bool) \<Rightarrow> ('h list \<Rightarrow> 'h list) \<Rightarrow> Address option \<Rightarrow> 'j raw_json
   \<Rightarrow> 'h subscribers \<Rightarrow> ('h subscribers \<times> bool) result" where
  "unconfirmedRemovedHandler_Handle W call sched address resp = address_Handle call sched (MapUnconfirmedRemoved W resp) address"

definition statusHandler_Handle ::
  "'j ws_json \<Rightarrow> ('h \<Rightarrow> StatusInfo \<Rightarrow> bool) \<Rightarrow> ('h list \<Rightarrow> 'h list) \<Rightarrow> Address option \<Rightarrow> 'j raw_json
   \<Rightarrow> 'h subscribers \<Rightarrow> ('h subscribers \<times> bool) result" where
  "statusHandler_Handle W call sched address resp = address_Handle call sched (MapStatus W resp) address"

definition partialAddedHandler_Handle ::
  "'j mapTransactionFunc \<Rightarrow> ('h \<Rightarrow> Transaction AggregateTransaction \<Rightarrow> bool) \<Rightarrow> ('h list \<Rightarrow> 'h list) \<Rightarrow> Address option \<Rightarrow> 'j raw_json
   \<Rightarrow> 'h subscribers \<Rightarrow> ('h subscribers \<times> bool) result" where
  "partialAddedHandler_Handle f call sched address resp = address_Handle call sched (MapPartialAdded f resp) address"

definition partialRemovedHandler_Handle ::
  "'j ws_json \<Rightarrow> ('h \<Rightarrow> PartialRemovedInfo \<Rightarrow> bool) \<Rightarrow> ('h list \<Rightarrow> 'h list) \<Rightarrow> Address option \<Rightarrow> 'j raw_json
   \<Rightarrow> 'h subscribers \<Rightarrow> ('h subscribers \<times> bool) result" where
  "partialRemovedHandler_Handle W call sched address resp = address_Handle call sched (MapPartialRemoved W resp) address"

definition cosignatureHandler_Handle ::
  "'j ws_json \<Rightarrow> ('h \<Rightarrow> SignerInfo \<Rightarrow> bool) \<Rightarrow> ('h list \<Rightarrow> 'h list) \<Rightarrow> Address option \<Rightarrow> 'j raw_json
   \<Rightarrow> 'h subscribers \<Rightarrow> ('h subscribers \<times> bool) result" where
  "cosignatureHandler_Handle W call sched address resp = address_Handle call sched (MapCosignature W resp) address"

section \<open>The interface of a store\<close>

text \<open>
  What the goroutines rely on: a callback that is in the store is removed without an error, and
  nothing else changes. \<open>rest\<close> is the part of the store that belongs to other addresses.
\<close>

locale subscriber =
  fixes ok :: "'s \<Rightarrow> bool"
    and get :: "'s \<Rightarrow> 'h list"
    and remove :: "'h \<Rightarrow> 's \<Rightarrow> 's \<times> bool result"
    and has :: "'s \<Rightarrow> bool"
    and rest :: "'s \<Rightarrow> 'r"
  assumes get_distinct: "ok s \<Longrightarrow> distinct (get s)"
    and has_get: "has s \<longleftrightarrow> get s \<noteq> []"
    and remove_ok: "ok s \<Longrightarrow> ok (fst (remove f s))"
    and remove_get: "get (fst (remove f s)) = filter (\<lambda>x. x \<noteq> f) (get s)"
    and remove_rest: "rest (fst (remove f s)) = rest s"
    and remove_present: "ok s \<Longrightarrow> f \<in> set (get s) \<Longrightarrow> \<exists>b. snd (remove f s) = Inr b"
begin

lemma remove_step:
  assumes "ok s" "f \<in> set (get s)"
  obtains t b where "remove f s = (t, Inr b)" "ok t" "get t = filter (\<lambda>x. x \<noteq> f) (get s)" "rest t = rest s"
  using assms remove_ok [of s f] remove_get [of f s] remove_rest [of f s] remove_present [of s f]
  by (cases "remove f s") auto

lemma run_goroutines_ok:
  assumes "ok s" "distinct fs" "set fs \<subseteq> set (get s)"
  shows "\<exists>t. run_goroutines remove answer fs s = Inr t \<and> ok t
           \<and> get t = filter (\<lambda>x. \<not> (x \<in> set fs \<and> answer x)) (get s) \<and> rest t = rest s"
  using assms
proof (induction fs arbitrary: s)
  case Nil
  then show ?case by simp
next
  case (Cons f fs)
  show ?case
  proof (cases "answer f")
    case False
    then have "filter (\<lambda>x. \<not> (x \<in> set (f # fs) \<and> answer x)) (get s) =
        filter (\<lambda>x. \<not> (x \<in> set fs \<and> answer x)) (get s)"
      by (auto intro!: filter_cong)
    with Cons.IH [of s] Cons.prems False show ?thesis by simp
  next
    case True
    from Cons.prems obtain t b where t: "remove f s = (t, Inr b)" "ok t"
      "get t = filter (\<lambda>x. x \<noteq> f) (get s)" "rest t = rest s"
      by (auto elim: remove_step [of s f])
    with Cons.prems have "set fs \<subseteq> set (get t)" by auto
    moreover have "filter (\<lambda>x. \<not> (x \<in> set fs \<and> answer x)) (get t) =
        filter (\<lambda>x. \<not> (x \<in> set (f # fs) \<and> answer x)) (get s)"
      using True by (auto simp: t(3) intro!: filter_cong)
    ultimately show ?thesis
      using Cons.IH [of t] Cons.prems True t by simp
  qed
qed

text \<open>
  Whatever the order of the goroutines, no removal fails, exactly the callbacks that answered true
  are gone, the other addresses are as before, and the result says whether a callback is left.
\<close>

lemma handle_message_ok:
  assumes "ok s" "get s \<noteq> []" "mset (sched (get s)) = mset (get s)"
  shows "\<exists>t. handle_message get remove has call sched m s = Inr (t, \<exists>f \<in> set (get s). \<not> call f m)
           \<and> ok t \<and> get t = filter (\<lambda>f. \<not> call f m) (get s) \<and> rest t = rest s"
proof -
  have perm: "set (sched (get s)) = set (get s)" "distinct (sched (get s))"
    using assms(3) mset_eq_setD [OF assms(3)] get_distinct [OF assms(1)] mset_eq_imp_distinct_iff [OF assms(3)]
    by simp_all
  obtain t where t: "run_goroutines remove (\<lambda>f. call f m) (sched (get s)) s = Inr t" "ok t"
    "get t = filter (\<lambda>x. \<not> (x \<in> set (get s) \<and> call x m)) (get s)" "rest t = rest s"
    using run_goroutines_ok [OF assms(1) perm(2), of "\<lambda>f. call f m"] perm(1) by auto
  have "get t = filter (\<lambda>f. \<not> call f m) (get s)"
    unfolding t(3) by (auto intro!: filter_cong)
  with t assms(2) show ?thesis
    by (auto simp: handle_message_def has_get filter_empty_conv)
qed

lemma handle_message_empty: "get s = [] \<Longrightarrow> handle_message get remove has call sched m s = Inr (s, True)"
  by (simp add: handle_message_def)

end

interpretation block_store: subscriber block_ok block_GetHandlers "\<lambda>f. block_RemoveHandlers [f]" block_HasHandlers "\<lambda>s. ()"
proof
  show "distinct (block_GetHandlers s)" if "block_ok s" for s :: "'h blockSubscriberImpl"
    using that by (simp add: block_ok_def)
  show "\<exists>b. snd (block_RemoveHandlers [f] s) = Inr b" if "block_ok s" for s :: "'h blockSubscriberImpl" and f
    using block_Remove_snd [OF that, of "[f]"] by simp
qed (simp_all add: block_Has_iff block_Remove_ok block_Remove_Get)

interpretation address_store: subscriber subs_ok "subs_GetHandlers a" "\<lambda>f. subs_RemoveHandlers a [f]" "subs_HasHandlers a"
  "\<lambda>e b. if b = a then None else Some (subs_GetHandlers b e)" for a
proof
  show "distinct (subs_GetHandlers a e)" if "subs_ok e" for e :: "'h subscribers"
    using that by (simp add: subs_ok_def)
  show "\<exists>b. snd (subs_RemoveHandlers a [f] e) = Inr b" if "f \<in> set (subs_GetHandlers a e)"
    for e :: "'h subscribers" and f
    using that by (auto simp: subs_Remove_snd)
qed (auto simp: subs_Has_iff subs_Remove_ok subs_Remove_Get)

section \<open>What handling a message does\<close>

lemma address_Handle_ok:
  assumes "subs_ok e" "subs_GetHandlers (addr_Address ad) e \<noteq> []"
    and "mset (sched (subs_GetHandlers (addr_Address ad) e)) = mset (subs_GetHandlers (addr_Address ad) e)"
  shows "\<exists>e'. address_Handle call sched (Inr m) (Some ad) e =
                Inr (e', \<exists>f \<in> set (subs_GetHandlers (addr_Address ad) e). \<not> call f m)
           \<and> subs_ok e'
           \<and> (\<forall>b. subs_GetHandlers b e' =
                (if b = addr_Address ad then filter (\<lambda>f. \<not> call f m) (subs_GetHandlers b e) else subs_GetHandlers b e))"
proof -
  let ?a = "addr_Address ad"
  obtain t where t: "handle_message (subs_GetHandlers ?a) (\<lambda>f. subs_RemoveHandlers ?a [f]) (subs_HasHandlers ?a) call sched m e =
        Inr (t, \<exists>f \<in> set (subs_GetHandlers ?a e). \<not> call f m)" "subs_ok t"
    "subs_GetHandlers ?a t = filter (\<lambda>f. \<not> call f m) (subs_GetHandlers ?a e)"
    "(\<lambda>b. if b = ?a then None else Some (subs_GetHandlers b t)) = (\<lambda>b. if b = ?a then None else Some (subs_GetHandlers b e))"
    using address_store.handle_message_ok [where sched = sched and call = call and m = m, OF assms] by blast
  have "subs_GetHandlers b t = subs_GetHandlers b e" if "b \<noteq> ?a" for b
    using fun_cong [OF t(4), of b] that by simp
  with t show ?thesis by (simp add: address_Handle_def)
qed

lemma address_Handle_empty:
  "subs_GetHandlers (addr_Address ad) e = [] \<Longrightarrow> address_Handle call sched (Inr m) (Some ad) e = Inr (e, True)"
  by (simp add: address_Handle_def address_store.handle_message_empty)

lemma blockHandler_Handle_ok:
  assumes "block_ok s" "block_GetHandlers s \<noteq> []"
    and "mset (sched (block_GetHandlers s)) = mset (block_GetHandlers s)" "MapBlock C W resp = Inr m"
  shows "\<exists>t. blockHandler_Handle C W call sched resp s = Inr (t, \<exists>f \<in> set (block_GetHandlers s). \<not> call f m)
           \<and> block_ok t \<and> block_GetHandlers t = filter (\<lambda>f. \<not> call f m) (block_GetHandlers s)"
  using block_store.handle_message_ok [where sched = sched and call = call and m = m, OF assms(1-3)] assms(4)
  by (auto simp: blockHandler_Handle_def)

end
