(* ===== verification/WsClient.thy ===== *)
theory WsClient
  imports SdkClient WsHandlers
begin

text \<open>
  The websocket client (\<open>sdk/websocket/client.go\<close>), its router (\<open>router.go\<close>) and its publisher
  (\<open>message_publisher.go\<close>). A connection is a number; the frames written to the connections are kept in
  the order in which they were written. One record holds the objects that the client, the router and the
  handlers share by pointer. Here every operation runs to its end before the next one begins; the theory
  \<open>WsConcurrent\<close> looks at what happens between.
\<close>

type_synonym Path = string

definition pathWS :: string where "pathWS = ''ws''"
definition pathBlock :: Path where "pathBlock = ''block''"

text \<open>The channels with addresses, and the path of each.\<close>

datatype channel =
    ConfirmedAdded | UnconfirmedAdded | UnconfirmedRemoved | Status | PartialAdded | PartialRemoved | Cosignature

fun channel_path :: "channel \<Rightarrow> Path" where
  "channel_path ConfirmedAdded = ''confirmedAdded''"
| "channel_path UnconfirmedAdded = ''unconfirmedAdded''"
| "channel_path UnconfirmedRemoved = ''unconfirmedRemoved''"
| "channel_path Status = ''status''"
| "channel_path PartialAdded = ''partialAdded''"
| "channel_path PartialRemoved = ''partialRemoved''"
| "channel_path Cosignature = ''cosignature''"

definition topic_path :: "Path \<Rightarrow> string \<Rightarrow> Path" where
  "topic_path p a = p @ ''/'' @ a"

section \<open>The publisher\<close>

datatype ws_frame = subscribeDTO string Path | unsubscribeDTO string Path

record catapultWebsocketMessagePublisher =
  mp_conn :: nat
  mp_sent :: "(nat \<times> ws_frame) list"

definition newMessagePublisher :: "nat \<Rightarrow> catapultWebsocketMessagePublisher" where
  "newMessagePublisher conn = \<lparr>mp_conn = conn, mp_sent = []\<rparr>"

text \<open>\<open>net\<close> is \<open>WriteJSON\<close>: the error of writing a frame to a connection, if there is one.\<close>

type_synonym network = "nat \<Rightarrow> ws_frame \<Rightarrow> go_error option"

definition WriteJSON ::
  "network \<Rightarrow> ws_frame \<Rightarrow> string \<Rightarrow> catapultWebsocketMessagePublisher \<Rightarrow> catapultWebsocketMessagePublisher \<times> unit result" where
  "WriteJSON net frame message p =
     (case net (mp_conn p) frame of
        Some err \<Rightarrow> (p, Inl (errors_Wrap err message))
      | None \<Rightarrow> (p\<lparr>mp_sent := mp_sent p @ [(mp_conn p, frame)]\<rparr>, Inr ()))"

definition PublishSubscribeMessage ::
  "network \<Rightarrow> string \<Rightarrow> Path \<Rightarrow> catapultWebsocketMessagePublisher \<Rightarrow> catapultWebsocketMessagePublisher \<times> unit result" where
  "PublishSubscribeMessage net uid path =
     WriteJSON net (subscribeDTO uid path) ''publishing subscribe message into websocket connection''"

definition PublishUnsubscribeMessage ::
  "network \<Rightarrow> string \<Rightarrow> Path \<Rightarrow> catapultWebsocketMessagePublisher \<Rightarrow> catapultWebsocketMessagePublisher \<times> unit result" where
  "PublishUnsubscribeMessage net uid path =
     WriteJSON net (unsubscribeDTO uid path) ''publishing unsubscribe message into websocket connection''"

definition SetConn :: "nat \<Rightarrow> catapultWebsocketMessagePublisher \<Rightarrow> catapultWebsocketMessagePublisher" where
  "SetConn conn p = p\<lparr>mp_conn := conn\<rparr>"

section \<open>Topics\<close>

text \<open>A topic handler is the handler of a channel with the format of its topic.\<close>

datatype topic = BlockTopic | AddressTopic channel

datatype topic_format = formatBlockTopic | formatPlainTopic

record TopicHandler =
  th_Handler :: topic
  th_Topic :: topic_format

definition Format :: "topic_format \<Rightarrow> WsMessageInfo \<Rightarrow> Path result" where
  "Format t info =
     (case t of
        formatBlockTopic \<Rightarrow> Inr pathBlock
      | formatPlainTopic \<Rightarrow>
          res_map (\<lambda>address. topic_path (wmi_ChannelName info) (addr_Address address)) (deref (wmi_Address info)))"

type_synonym topicHandlers = "(Path \<times> TopicHandler) list"

definition HasHandler :: "Path \<Rightarrow> topicHandlers \<Rightarrow> bool" where
  "HasHandler path h \<longleftrightarrow> map_of h path \<noteq> None"

definition GetHandler :: "Path \<Rightarrow> topicHandlers \<Rightarrow> TopicHandler option" where
  "GetHandler path h = map_of h path"

definition SetTopicHandler :: "Path \<Rightarrow> TopicHandler \<Rightarrow> topicHandlers \<Rightarrow> topicHandlers" where
  "SetTopicHandler path handler h = AList.update path handler h"

section \<open>The client\<close>

text \<open>
  \<open>wc_open\<close>: the fields for the stores and the topic handlers are not nil; \<open>Close\<close> sets them to nil
  together, while the router and the handlers keep their own pointers to the same objects.
  \<open>wc_connectFn\<close>: the field \<open>connectFn\<close> is not nil.
\<close>

record 'h CatapultWebsocketClientImpl =
  wc_conn :: "nat option"
  wc_cancelled :: bool
  wc_UID :: string
  wc_blockSubscriber :: "'h blockSubscriberImpl"
  wc_confirmedAddedSubscribers :: "'h subscribers"
  wc_unconfirmedAddedSubscribers :: "'h subscribers"
  wc_unconfirmedRemovedSubscribers :: "'h subscribers"
  wc_partialAddedSubscribers :: "'h subscribers"
  wc_partialRemovedSubscribers :: "'h subscribers"
  wc_statusSubscribers :: "'h subscribers"
  wc_cosignatureSubscribers :: "'h subscribers"
  wc_open :: bool
  wc_topicHandlers :: topicHandlers
  wc_routerUid :: string
  wc_messagePublisher :: catapultWebsocketMessagePublisher
  wc_connectFn :: bool
  wc_alreadyListening :: bool

fun subs_of :: "channel \<Rightarrow> 'h CatapultWebsocketClientImpl \<Rightarrow> 'h subscribers" where
  "subs_of ConfirmedAdded c = wc_confirmedAddedSubscribers c"
| "subs_of UnconfirmedAdded c = wc_unconfirmedAddedSubscribers c"
| "subs_of UnconfirmedRemoved c = wc_unconfirmedRemovedSubscribers c"
| "subs_of Status c = wc_statusSubscribers c"
| "subs_of PartialAdded c = wc_partialAddedSubscribers c"
| "subs_of PartialRemoved c = wc_partialRemovedSubscribers c"
| "subs_of Cosignature c = wc_cosignatureSubscribers c"

fun set_subs :: "channel \<Rightarrow> 'h subscribers \<Rightarrow> 'h CatapultWebsocketClientImpl \<Rightarrow> 'h CatapultWebsocketClientImpl" where
  "set_subs ConfirmedAdded s c = c\<lparr>wc_confirmedAddedSubscribers := s\<rparr>"
| "set_subs UnconfirmedAdded s c = c\<lparr>wc_unconfirmedAddedSubscribers := s\<rparr>"
| "set_subs UnconfirmedRemoved s c = c\<lparr>wc_unconfirmedRemovedSubscribers := s\<rparr>"
| "set_subs Status s c = c\<lparr>wc_statusSubscribers := s\<rparr>"
| "set_subs PartialAdded s c = c\<lparr>wc_partialAddedSubscribers := s\<rparr>"
| "set_subs PartialRemoved s c = c\<lparr>wc_partialRemovedSubscribers := s\<rparr>"
| "set_subs Cosignature s c = c\<lparr>wc_cosignatureSubscribers := s\<rparr>"

text \<open>\<open>conn\<close> is what \<open>connect\<close> returns.\<close>

definition NewWsClient :: "(nat \<times> string) result \<Rightarrow> 'h CatapultWebsocketClientImpl result" where
  "NewWsClient conn =
     res_map (\<lambda>(conn, uid).
       \<lparr>wc_conn = Some conn, wc_cancelled = False, wc_UID = uid,
        wc_blockSubscriber = NewBlock,
        wc_confirmedAddedSubscribers = NewSubscribers,
        wc_unconfirmedAddedSubscribers = NewSubscribers,
        wc_unconfirmedRemovedSubscribers = NewSubscribers,
        wc_partialAddedSubscribers = NewSubscribers,
        wc_partialRemovedSubscribers = NewSubscribers,
        wc_statusSubscribers = NewSubscribers,
        wc_cosignatureSubscribers = NewSubscribers,
        wc_open = True, wc_topicHandlers = [], wc_routerUid = uid,
        wc_messagePublisher = newMessagePublisher conn,
        wc_connectFn = False, wc_alreadyListening = False\<rparr>) conn"

subsection \<open>Connecting\<close>

definition convertToWsUrl :: "URL \<Rightarrow> URL" where
  "convertToWsUrl url = url\<lparr>url_Scheme := ''ws'', url_Path := pathWS\<rparr>"

fun dial_others :: "(URL \<Rightarrow> nat result) \<Rightarrow> Config \<Rightarrow> go_error \<Rightarrow> nat list \<Rightarrow> Config \<times> nat result" where
  "dial_others dial cfg err [] = (cfg, Inl err)"
| "dial_others dial cfg err (u # us) =
     (if u = cfg_UsedBaseUrl cfg then dial_others dial cfg err us
      else case dial (convertToWsUrl (cfg_BaseURLs cfg ! u)) of
          Inl e \<Rightarrow> dial_others dial cfg e us
        | Inr conn \<Rightarrow> (cfg\<lparr>cfg_UsedBaseUrl := u\<rparr>, Inr conn))"

text \<open>\<open>dial\<close> opens a connection and \<open>readUid\<close> reads the first message of the server from it.\<close>

definition connect :: "(URL \<Rightarrow> nat result) \<Rightarrow> (nat \<Rightarrow> string result) \<Rightarrow> Config \<Rightarrow> Config \<times> (nat \<times> string) result" where
  "connect dial readUid cfg =
     (let (cfg, conn) =
        (case dial (convertToWsUrl (used_url cfg)) of
           Inr conn \<Rightarrow> (cfg, Inr conn)
         | Inl err \<Rightarrow> dial_others dial cfg err [0..<length (cfg_BaseURLs cfg)])
      in (cfg, res_bind conn (\<lambda>conn. res_map (\<lambda>uid. (conn, uid)) (readUid conn))))"

subsection \<open>Adding callbacks\<close>

definition AddBlockHandlers ::
  "network \<Rightarrow> 'h list \<Rightarrow> 'h CatapultWebsocketClientImpl \<Rightarrow> 'h CatapultWebsocketClientImpl \<times> unit result" where
  "AddBlockHandlers net handlers c =
     (if length handlers = 0 then (c, Inr ())
      else if \<not> wc_open c then (c, Inl Panicked)
      else
        let c = (if \<not> HasHandler pathBlock (wc_topicHandlers c)
                 then c\<lparr>wc_topicHandlers := SetTopicHandler pathBlock
                          \<lparr>th_Handler = BlockTopic, th_Topic = formatBlockTopic\<rparr> (wc_topicHandlers c)\<rparr>
                 else c);
            (p, published) = (if \<not> block_HasHandlers (wc_blockSubscriber c)
                 then PublishSubscribeMessage net (wc_UID c) pathBlock (wc_messagePublisher c)
                 else (wc_messagePublisher c, Inr ()));
            c = c\<lparr>wc_messagePublisher := p\<rparr>
        in case published of
             Inl err \<Rightarrow> (c, Inl (errors_Wrap err ''publishing subscribe message into websocket''))
           | Inr _ \<Rightarrow>
               (let (s, added) = block_AddHandlers handlers (wc_blockSubscriber c);
                    c = c\<lparr>wc_blockSubscriber := s\<rparr>
                in case added of
                     Inl err \<Rightarrow> (c, Inl (errors_Wrap err ''adding handlers functions into handlers storage''))
                   | Inr _ \<Rightarrow> (c, Inr ())))"

definition add_address_handlers ::
  "channel \<Rightarrow> network \<Rightarrow> Address \<Rightarrow> 'h list \<Rightarrow> 'h CatapultWebsocketClientImpl
   \<Rightarrow> 'h CatapultWebsocketClientImpl \<times> unit result" where
  "add_address_handlers ch net address handlers c =
     (if length handlers = 0 then (c, Inr ())
      else if \<not> wc_open c then (c, Inl Panicked)
      else
        let c = (if \<not> HasHandler (channel_path ch) (wc_topicHandlers c)
                 then c\<lparr>wc_topicHandlers := SetTopicHandler (channel_path ch)
                          \<lparr>th_Handler = AddressTopic ch, th_Topic = formatPlainTopic\<rparr> (wc_topicHandlers c)\<rparr>
                 else c);
            (p, published) = (if \<not> subs_HasHandlers (addr_Address address) (subs_of ch c)
                 then PublishSubscribeMessage net (wc_UID c) (topic_path (channel_path ch) (addr_Address address)) (wc_messagePublisher c)
                 else (wc_messagePublisher c, Inr ()));
            c = c\<lparr>wc_messagePublisher := p\<rparr>
        in case published of
             Inl err \<Rightarrow> (c, Inl (errors_Wrap err ''publishing subscribe message into websocket''))
           | Inr _ \<Rightarrow>
               (let (s, added) = subs_AddHandlers (addr_Address address) handlers (subs_of ch c);
                    c = set_subs ch s c
                in case added of
                     Inl err \<Rightarrow> (c, Inl (errors_Wrap err ''adding handlers functions into handlers storage''))
                   | Inr _ \<Rightarrow> (c, Inr ())))"

definition AddConfirmedAddedHandlers ::
  "network \<Rightarrow> Address \<Rightarrow> 'h list \<Rightarrow> 'h CatapultWebsocketClientImpl \<Rightarrow> 'h CatapultWebsocketClientImpl \<times> unit result" where
  "AddConfirmedAddedHandlers = add_address_handlers ConfirmedAdded"

definition AddUnconfirmedAddedHandlers ::
  "network \<Rightarrow> Address \<Rightarrow> 'h list \<Rightarrow> 'h CatapultWebsocketClientImpl \<Rightarrow> 'h CatapultWebsocketClientImpl \<times> unit result" where
  "AddUnconfirmedAddedHandlers = add_address_handlers UnconfirmedAdded"

definition AddUnconfirmedRemovedHandlers ::
  "network \<Rightarrow> Address \<Rightarrow> 'h list \<Rightarrow> 'h CatapultWebsocketClientImpl \<Rightarrow> 'h CatapultWebsocketClientImpl \<times> unit result" where
  "AddUnconfirmedRemovedHandlers = add_address_handlers UnconfirmedRemoved"

definition AddPartialAddedHandlers ::
  "network \<Rightarrow> Address \<Rightarrow> 'h list \<Rightarrow> 'h CatapultWebsocketClientImpl \<Rightarrow> 'h CatapultWebsocketClientImpl \<times> unit result" where
  "AddPartialAddedHandlers = add_address_handlers PartialAdded"

definition AddPartialRemovedHandlers ::
  "network \<Rightarrow> Address \<Rightarrow> 'h list \<Rightarrow> 'h CatapultWebsocketClientImpl \<Rightarrow> 'h CatapultWebsocketClientImpl \<times> unit result" where
  "AddPartialRemovedHandlers = add_address_handlers PartialRemoved"

definition AddStatusHandlers ::
  "network \<Rightarrow> Address \<Rightarrow> 'h list \<Rightarrow> 'h CatapultWebsocketClientImpl \<Rightarrow> 'h CatapultWebsocketClientImpl \<times> unit result" where
  "AddStatusHandlers = add_address_handlers Status"

definition AddCosignatureHandlers ::
  "network \<Rightarrow> Address \<Rightarrow> 'h list \<Rightarrow> 'h CatapultWebsocketClientImpl \<Rightarrow> 'h CatapultWebsocketClientImpl \<times> unit result" where
  "AddCosignatureHandlers = add_address_handlers Cosignature"

subsection \<open>Reconnecting and closing\<close>

fun publish_all ::
  "network \<Rightarrow> string \<Rightarrow> Path list \<Rightarrow> catapultWebsocketMessagePublisher \<Rightarrow> catapultWebsocketMessagePublisher \<times> unit result" where
  "publish_all net uid [] p = (p, Inr ())"
| "publish_all net uid (path # paths) p =
     (case PublishSubscribeMessage net uid path p of
        (p, Inl err) \<Rightarrow> (p, Inl err)
      | (p, Inr _) \<Rightarrow> publish_all net uid paths p)"

definition resubscribed_channels :: "channel list" where
  "resubscribed_channels =
     [ConfirmedAdded, Cosignature, PartialAdded, PartialRemoved, Status, UnconfirmedAdded, UnconfirmedRemoved]"

definition channel_topics :: "'h CatapultWebsocketClientImpl \<Rightarrow> channel \<Rightarrow> Path list" where
  "channel_topics c ch = map (topic_path (channel_path ch)) (subs_GetAddresses (subs_of ch c))"

text \<open>\<open>conn\<close> is what \<open>connectFn\<close> returns this time.\<close>

definition reconnect ::
  "network \<Rightarrow> (nat \<times> string) result \<Rightarrow> 'h CatapultWebsocketClientImpl \<Rightarrow> 'h CatapultWebsocketClientImpl \<times> unit result" where
  "reconnect net conn c =
     (if \<not> wc_connectFn c then (c, Inl Panicked)
      else case conn of
          Inl err \<Rightarrow> (c, Inl err)
        | Inr (conn, uid) \<Rightarrow>
            let c = c\<lparr>wc_conn := Some conn, wc_UID := uid,
                      wc_messagePublisher := SetConn conn (wc_messagePublisher c), wc_routerUid := uid\<rparr>
            in if \<not> wc_open c then (c, Inl Panicked)
               else let paths = (if block_HasHandlers (wc_blockSubscriber c) then [pathBlock] else [])
                              @ concat (map (channel_topics c) resubscribed_channels);
                        (p, r) = publish_all net uid paths (wc_messagePublisher c)
                    in (c\<lparr>wc_messagePublisher := p\<rparr>, r))"

text \<open>\<open>closed\<close> is the error of closing the connection, if there is one.\<close>

definition CloseClient ::
  "go_error option \<Rightarrow> 'h CatapultWebsocketClientImpl \<Rightarrow> 'h CatapultWebsocketClientImpl \<times> unit result" where
  "CloseClient closed c =
     (if wc_conn c \<noteq> None \<and> closed \<noteq> None then (c, Inl (the closed))
      else (c\<lparr>wc_conn := None, wc_cancelled := True, wc_alreadyListening := False, wc_open := False\<rparr>, Inr ()))"

section \<open>Routing a message\<close>

text \<open>What the callbacks answer, and the order in which their goroutines run.\<close>

record 'h callbacks =
  cb_sched :: "'h list \<Rightarrow> 'h list"
  cb_block :: "'h \<Rightarrow> BlockInfo \<Rightarrow> bool"
  cb_confirmedAdded :: "'h \<Rightarrow> Transaction \<Rightarrow> bool"
  cb_unconfirmedAdded :: "'h \<Rightarrow> Transaction \<Rightarrow> bool"
  cb_unconfirmedRemoved :: "'h \<Rightarrow> UnconfirmedRemoved \<Rightarrow> bool"
  cb_status :: "'h \<Rightarrow> StatusInfo \<Rightarrow> bool"
  cb_partialAdded :: "'h \<Rightarrow> Transaction AggregateTransaction \<Rightarrow> bool"
  cb_partialRemoved :: "'h \<Rightarrow> PartialRemovedInfo \<Rightarrow> bool"
  cb_cosignature :: "'h \<Rightarrow> SignerInfo \<Rightarrow> bool"

definition sched_ok :: "'h callbacks \<Rightarrow> bool" where
  "sched_ok cb \<longleftrightarrow> (\<forall>fs. mset (cb_sched cb fs) = mset fs)"

fun channel_Handle ::
  "'k crypto \<Rightarrow> 'j json_api \<Rightarrow> 'j ws_json \<Rightarrow> 'h callbacks \<Rightarrow> channel \<Rightarrow> Address option \<Rightarrow> 'j raw_json
   \<Rightarrow> 'h subscribers \<Rightarrow> ('h subscribers \<times> bool) result" where
  "channel_Handle C J W cb ConfirmedAdded address m =
     confirmedAddedHandler_Handle (MapTransaction C J) (cb_confirmedAdded cb) (cb_sched cb) address m"
| "channel_Handle C J W cb UnconfirmedAdded address m =
     unconfirmedAddedHandler_Handle (MapTransaction C J) (cb_unconfirmedAdded cb) (cb_sched cb) address m"
| "channel_Handle C J W cb UnconfirmedRemoved address m =
     unconfirmedRemovedHandler_Handle W (cb_unconfirmedRemoved cb) (cb_sched cb) address m"
| "channel_Handle C J W cb Status address m = statusHandler_Handle W (cb_status cb) (cb_sched cb) address m"
| "channel_Handle C J W cb PartialAdded address m =
     partialAddedHandler_Handle (MapTransaction C J) (cb_partialAdded cb) (cb_sched cb) address m"
| "channel_Handle C J W cb PartialRemoved address m =
     partialRemovedHandler_Handle W (cb_partialRemoved cb) (cb_sched cb) address m"
| "channel_Handle C J W cb Cosignature address m =
     cosignatureHandler_Handle W (cb_cosignature cb) (cb_sched cb) address m"

definition topic_Handle ::
  "'k crypto \<Rightarrow> 'j json_api \<Rightarrow> 'j ws_json \<Rightarrow> 'h callbacks \<Rightarrow> topic \<Rightarrow> Address option \<Rightarrow> 'j raw_json
   \<Rightarrow> 'h CatapultWebsocketClientImpl \<Rightarrow> ('h CatapultWebsocketClientImpl \<times> bool) result" where
  "topic_Handle C J W cb t address m c =
     (case t of
        BlockTopic \<Rightarrow> res_map (\<lambda>(s, left). (c\<lparr>wc_blockSubscriber := s\<rparr>, left))
          (blockHandler_Handle C W (cb_block cb) (cb_sched cb) m (wc_blockSubscriber c))
      | AddressTopic ch \<Rightarrow> res_map (\<lambda>(s, left). (set_subs ch s c, left))
          (channel_Handle C J W cb ch address m (subs_of ch c)))"

definition MapMessageInfo :: "'j ws_json \<Rightarrow> 'j raw_json \<Rightarrow> WsMessageInfo result" where
  "MapMessageInfo W m =
     (case jw_info W (json_bytes m) of
        Inl err \<Rightarrow> Inl (errors_Wrap err ''unmarshaling message info data'')
      | Inr messageInfoDTO \<Rightarrow> WsMessageInfoDTO_ToStruct messageInfoDTO)"

definition RouteMessage ::
  "'k crypto \<Rightarrow> 'j json_api \<Rightarrow> 'j ws_json \<Rightarrow> network \<Rightarrow> 'h callbacks \<Rightarrow> 'j raw_json
   \<Rightarrow> 'h CatapultWebsocketClientImpl \<Rightarrow> 'h CatapultWebsocketClientImpl result" where
  "RouteMessage C J W net cb m c =
     res_bind (must (MapMessageInfo W m)) (\<lambda>messageInfo.
     case GetHandler (wmi_ChannelName messageInfo) (wc_topicHandlers c) of
       None \<Rightarrow> Inl Panicked
     | Some handler \<Rightarrow>
         res_bind (topic_Handle C J W cb (th_Handler handler) (wmi_Address messageInfo) m c) (\<lambda>(c, left).
           if left then Inr c
           else res_bind (Format (th_Topic handler) messageInfo) (\<lambda>path.
             case PublishUnsubscribeMessage net (wc_routerUid c) path (wc_messagePublisher c) of
               (p, Inl err) \<Rightarrow> Inl Panicked
             | (p, Inr _) \<Rightarrow> Inr (c\<lparr>wc_messagePublisher := p\<rparr>))))"

end
