(* ===== verification/WsClientInvariant.thy ===== *)
theory WsClientInvariant
  imports WsClient
begin

text \<open>
  What the websocket client keeps true while it listens, reconnects and gets new callbacks: the server has a
  subscription for every topic with a callback. \<open>client_step\<close> is the loop of \<open>Listen\<close> with the calls of the user
  between its steps; the network, the callbacks and the result of connecting may differ from step to step.
\<close>

section \<open>Channels and paths\<close>

lemma channel_path_inject [simp]: "channel_path ch = channel_path ch' \<longleftrightarrow> ch = ch'"
  by (cases ch; cases ch') simp_all

lemma channel_path_neq_block [simp]: "channel_path ch \<noteq> pathBlock" "pathBlock \<noteq> channel_path ch"
  by (cases ch; simp add: pathBlock_def)+

lemma topic_path_inject [simp]:
  "topic_path (channel_path ch) a = topic_path (channel_path ch') b \<longleftrightarrow> ch = ch' \<and> a = b"
  by (cases ch; cases ch') (simp_all add: topic_path_def)

lemma topic_path_neq_block [simp]:
  "topic_path (channel_path ch) a \<noteq> pathBlock" "pathBlock \<noteq> topic_path (channel_path ch) a"
  by (cases ch; simp add: topic_path_def pathBlock_def)+

lemma all_channels: "ch \<in> set resubscribed_channels"
  by (cases ch) (simp_all add: resubscribed_channels_def)

lemma subs_of_set_subs [simp]: "subs_of ch' (set_subs ch s c) = (if ch' = ch then s else subs_of ch' c)"
  by (cases ch; cases ch') simp_all

lemma set_subs_fields [simp]:
  "wc_conn (set_subs ch s c) = wc_conn c" "wc_UID (set_subs ch s c) = wc_UID c"
  "wc_blockSubscriber (set_subs ch s c) = wc_blockSubscriber c" "wc_open (set_subs ch s c) = wc_open c"
  "wc_topicHandlers (set_subs ch s c) = wc_topicHandlers c" "wc_routerUid (set_subs ch s c) = wc_routerUid c"
  "wc_messagePublisher (set_subs ch s c) = wc_messagePublisher c" "wc_connectFn (set_subs ch s c) = wc_connectFn c"
  by (cases ch; simp)+

lemma subs_of_update [simp]:
  "subs_of ch (c\<lparr>wc_messagePublisher := p\<rparr>) = subs_of ch c" "subs_of ch (c\<lparr>wc_topicHandlers := h\<rparr>) = subs_of ch c"
  "subs_of ch (c\<lparr>wc_blockSubscriber := b\<rparr>) = subs_of ch c" "subs_of ch (c\<lparr>wc_conn := k\<rparr>) = subs_of ch c"
  "subs_of ch (c\<lparr>wc_UID := u\<rparr>) = subs_of ch c" "subs_of ch (c\<lparr>wc_routerUid := u\<rparr>) = subs_of ch c"
  "subs_of ch (c\<lparr>wc_cancelled := x\<rparr>) = subs_of ch c" "subs_of ch (c\<lparr>wc_alreadyListening := x\<rparr>) = subs_of ch c"
  "subs_of ch (c\<lparr>wc_open := x\<rparr>) = subs_of ch c" "subs_of ch (c\<lparr>wc_connectFn := x\<rparr>) = subs_of ch c"
  by (cases ch; simp)+

section \<open>What the server has, and what the client wants\<close>

text \<open>The subscriptions of a user on a connection, after the frames written to it.\<close>

definition apply_frame :: "nat \<Rightarrow> string \<Rightarrow> nat \<times> ws_frame \<Rightarrow> Path set \<Rightarrow> Path set" where
  "apply_frame conn uid x S =
     (if fst x \<noteq> conn then S
      else case snd x of
          subscribeDTO u p \<Rightarrow> if u = uid then insert p S else S
        | unsubscribeDTO u p \<Rightarrow> if u = uid then S - {p} else S)"

definition subscriptions :: "nat \<Rightarrow> string \<Rightarrow> (nat \<times> ws_frame) list \<Rightarrow> Path set" where
  "subscriptions conn uid sent = fold (apply_frame conn uid) sent {}"

definition client_subscriptions :: "'h CatapultWebsocketClientImpl \<Rightarrow> Path set" where
  "client_subscriptions c =
     subscriptions (mp_conn (wc_messagePublisher c)) (wc_routerUid c) (mp_sent (wc_messagePublisher c))"

definition wanted :: "'h CatapultWebsocketClientImpl \<Rightarrow> Path set" where
  "wanted c = {p. p = pathBlock \<and> block_GetHandlers (wc_blockSubscriber c) \<noteq> []}
     \<union> {p. \<exists>ch a. p = topic_path (channel_path ch) a \<and> subs_GetHandlers a (subs_of ch c) \<noteq> []}"

lemma subscriptions_snoc [simp]:
  "subscriptions conn uid (sent @ [x]) = apply_frame conn uid x (subscriptions conn uid sent)"
  by (simp add: subscriptions_def)

lemma apply_frame_simps [simp]:
  "apply_frame conn uid (conn, subscribeDTO uid p) S = insert p S"
  "apply_frame conn uid (conn, unsubscribeDTO uid p) S = S - {p}"
  by (simp_all add: apply_frame_def)

lemma wanted_block [simp]: "pathBlock \<in> wanted c \<longleftrightarrow> block_GetHandlers (wc_blockSubscriber c) \<noteq> []"
  by (auto simp: wanted_def)

lemma wanted_topic [simp]:
  "topic_path (channel_path ch) a \<in> wanted c \<longleftrightarrow> subs_GetHandlers a (subs_of ch c) \<noteq> []"
  by (auto simp: wanted_def)

text \<open>Only the paths of topics matter.\<close>

lemma wanted_cases:
  assumes "p \<in> wanted c"
  obtains "p = pathBlock" "block_GetHandlers (wc_blockSubscriber c) \<noteq> []"
    | ch a where "p = topic_path (channel_path ch) a" "subs_GetHandlers a (subs_of ch c) \<noteq> []"
  using assms by (auto simp: wanted_def)

section \<open>Well-formed clients\<close>

definition topics_ok :: "topicHandlers \<Rightarrow> bool" where
  "topics_ok h \<longleftrightarrow>
     (\<forall>t. map_of h pathBlock = Some t \<longrightarrow> t = \<lparr>th_Handler = BlockTopic, th_Topic = formatBlockTopic\<rparr>)
     \<and> (\<forall>ch t. map_of h (channel_path ch) = Some t \<longrightarrow> t = \<lparr>th_Handler = AddressTopic ch, th_Topic = formatPlainTopic\<rparr>)
     \<and> (\<forall>p. map_of h p \<noteq> None \<longrightarrow> p = pathBlock \<or> (\<exists>ch. p = channel_path ch))"

text \<open>Every callback has the handler of its topic registered, so that a message for it can be routed.\<close>

definition registered :: "'h CatapultWebsocketClientImpl \<Rightarrow> bool" where
  "registered c \<longleftrightarrow>
     (block_GetHandlers (wc_blockSubscriber c) \<noteq> [] \<longrightarrow> HasHandler pathBlock (wc_topicHandlers c))
     \<and> (\<forall>ch a. subs_GetHandlers a (subs_of ch c) \<noteq> [] \<longrightarrow> HasHandler (channel_path ch) (wc_topicHandlers c))"

definition client_ok :: "'h CatapultWebsocketClientImpl \<Rightarrow> bool" where
  "client_ok c \<longleftrightarrow> block_ok (wc_blockSubscriber c) \<and> (\<forall>ch. subs_ok (subs_of ch c))
     \<and> topics_ok (wc_topicHandlers c) \<and> registered c \<and> wc_routerUid c = wc_UID c"

text \<open>The invariant: what is wanted is subscribed, and nothing else is when the client never reconnects.\<close>

definition synced :: "'h CatapultWebsocketClientImpl \<Rightarrow> bool" where
  "synced c \<longleftrightarrow> wanted c \<subseteq> client_subscriptions c"

definition exact :: "'h CatapultWebsocketClientImpl \<Rightarrow> bool" where
  "exact c \<longleftrightarrow> client_subscriptions c \<subseteq> wanted c"

section \<open>Writing frames\<close>

lemma WriteJSON_cases:
  obtains err where "WriteJSON net frame msg p = (p, Inl (errors_Wrap err msg))"
  | "net (mp_conn p) frame = None" "WriteJSON net frame msg p = (p\<lparr>mp_sent := mp_sent p @ [(mp_conn p, frame)]\<rparr>, Inr ())"
  by (cases "net (mp_conn p) frame") (auto simp: WriteJSON_def)

lemma publish_all_ok:
  "publish_all net uid paths p = (p', Inr ()) \<Longrightarrow>
     mp_conn p' = mp_conn p
     \<and> subscriptions (mp_conn p) uid (mp_sent p') = subscriptions (mp_conn p) uid (mp_sent p) \<union> set paths"
proof (induction paths arbitrary: p)
  case Nil
  then show ?case by simp
next
  case (Cons path paths)
  show ?case
    using WriteJSON_cases [of net "subscribeDTO uid path" "''publishing subscribe message into websocket connection''" p]
  proof cases
    case 1
    with Cons.prems show ?thesis by (simp add: PublishSubscribeMessage_def)
  next
    case 2
    with Cons.prems have "publish_all net uid paths (p\<lparr>mp_sent := mp_sent p @ [(mp_conn p, subscribeDTO uid path)]\<rparr>) = (p', Inr ())"
      by (simp add: PublishSubscribeMessage_def)
    from Cons.IH [OF this] show ?thesis by simp
  qed
qed

lemma publish_all_conn: "mp_conn (fst (publish_all net uid paths p)) = mp_conn p"
proof (induction paths arbitrary: p)
  case (Cons path paths)
  show ?case
    using WriteJSON_cases [of net "subscribeDTO uid path" "''publishing subscribe message into websocket connection''" p]
    by cases (simp_all add: PublishSubscribeMessage_def Cons.IH)
qed simp

section \<open>Adding callbacks\<close>

text \<open>The three ways in which adding ends without a panic: nothing to add, the subscribe message fails, or the callbacks are stored.\<close>

definition topic_registered :: "topic \<Rightarrow> 'h CatapultWebsocketClientImpl \<Rightarrow> 'h CatapultWebsocketClientImpl" where
  "topic_registered t c =
     (let (path, th) = (case t of
          BlockTopic \<Rightarrow> (pathBlock, \<lparr>th_Handler = BlockTopic, th_Topic = formatBlockTopic\<rparr>)
        | AddressTopic ch \<Rightarrow> (channel_path ch, \<lparr>th_Handler = AddressTopic ch, th_Topic = formatPlainTopic\<rparr>))
      in if \<not> HasHandler path (wc_topicHandlers c)
         then c\<lparr>wc_topicHandlers := SetTopicHandler path th (wc_topicHandlers c)\<rparr> else c)"

definition with_frame :: "ws_frame \<Rightarrow> 'h CatapultWebsocketClientImpl \<Rightarrow> 'h CatapultWebsocketClientImpl" where
  "with_frame frame c = c\<lparr>wc_messagePublisher := (wc_messagePublisher c)\<lparr>mp_sent :=
     mp_sent (wc_messagePublisher c) @ [(mp_conn (wc_messagePublisher c), frame)]\<rparr>\<rparr>"

lemma topic_registered_fields [simp]:
  "wc_blockSubscriber (topic_registered t c) = wc_blockSubscriber c" "subs_of ch (topic_registered t c) = subs_of ch c"
  "wc_messagePublisher (topic_registered t c) = wc_messagePublisher c" "wc_UID (topic_registered t c) = wc_UID c"
  "wc_routerUid (topic_registered t c) = wc_routerUid c" "wc_connectFn (topic_registered t c) = wc_connectFn c"
  by (simp_all add: topic_registered_def split: topic.split)

lemma topic_registered_publisher [simp]:
  "(topic_registered t c)\<lparr>wc_messagePublisher := wc_messagePublisher c\<rparr> = topic_registered t c"
  by (simp add: topic_registered_def split: topic.split)

lemma with_frame_fields [simp]:
  "wc_blockSubscriber (with_frame f c) = wc_blockSubscriber c" "subs_of ch (with_frame f c) = subs_of ch c"
  "wc_UID (with_frame f c) = wc_UID c" "wc_topicHandlers (with_frame f c) = wc_topicHandlers c"
  "wc_routerUid (with_frame f c) = wc_routerUid c" "wc_connectFn (with_frame f c) = wc_connectFn c"
  by (simp_all add: with_frame_def)

lemma with_frame_subscriptions [simp]:
  "u = wc_routerUid c \<Longrightarrow> client_subscriptions (with_frame (subscribeDTO u p) c) = insert p (client_subscriptions c)"
  "u = wc_routerUid c \<Longrightarrow> client_subscriptions (with_frame (unsubscribeDTO u p) c) = client_subscriptions c - {p}"
  by (simp_all add: with_frame_def client_subscriptions_def)

lemma HasHandler_topic_registered:
  "HasHandler p (wc_topicHandlers c) \<Longrightarrow> HasHandler p (wc_topicHandlers (topic_registered t c))"
  "HasHandler pathBlock (wc_topicHandlers (topic_registered BlockTopic c))"
  "HasHandler (channel_path ch) (wc_topicHandlers (topic_registered (AddressTopic ch) c))"
  by (auto simp: topic_registered_def HasHandler_def SetTopicHandler_def update_conv' split: topic.split)

lemma topics_ok_registered: "topics_ok (wc_topicHandlers c) \<Longrightarrow> topics_ok (wc_topicHandlers (topic_registered t c))"
  by (auto simp: topics_ok_def topic_registered_def SetTopicHandler_def update_conv' split: topic.split)

lemma client_ok_registered: "client_ok c \<Longrightarrow> client_ok (topic_registered t c)"
  by (auto simp: client_ok_def registered_def topics_ok_registered intro: HasHandler_topic_registered)

lemma wanted_same [simp]:
  "wanted (topic_registered t c) = wanted c" "wanted (with_frame f c) = wanted c"
  "client_subscriptions (topic_registered t c) = client_subscriptions c"
  by (simp_all add: wanted_def client_subscriptions_def)

lemma client_ok_with_frame [simp]: "client_ok (with_frame f c) = client_ok c"
  by (simp add: client_ok_def registered_def)

text \<open>Storing callbacks for a topic that is registered.\<close>

definition callbacks_stored :: "channel \<Rightarrow> string \<Rightarrow> 'h list \<Rightarrow> 'h CatapultWebsocketClientImpl \<Rightarrow> 'h CatapultWebsocketClientImpl" where
  "callbacks_stored ch a hs c = set_subs ch (fst (subs_AddHandlers a hs (subs_of ch c))) c"

lemma stored_ok:
  assumes "client_ok c" "HasHandler (channel_path ch) (wc_topicHandlers c)" "hs \<noteq> []"
  shows "client_ok (callbacks_stored ch a hs c)" "wanted (callbacks_stored ch a hs c) = insert (topic_path (channel_path ch) a) (wanted c)"
    "client_subscriptions (callbacks_stored ch a hs c) = client_subscriptions c"
  using assms
  by (auto simp: client_ok_def registered_def callbacks_stored_def subs_Add_ok subs_Add_Get wanted_def client_subscriptions_def)

lemma add_address_handlers_cases:
  assumes "add_address_handlers ch net ad hs c = (c', r)" "r \<noteq> Inl Panicked"
  obtains "c' = c"
  | "c' = topic_registered (AddressTopic ch) c"
  | "hs \<noteq> []" "subs_GetHandlers (addr_Address ad) (subs_of ch c) \<noteq> []"
      "c' = callbacks_stored ch (addr_Address ad) hs (topic_registered (AddressTopic ch) c)"
  | "hs \<noteq> []" "c' = callbacks_stored ch (addr_Address ad) hs
       (with_frame (subscribeDTO (wc_UID c) (topic_path (channel_path ch) (addr_Address ad))) (topic_registered (AddressTopic ch) c))"
proof -
  let ?a = "addr_Address ad"
  let ?c = "topic_registered (AddressTopic ch) c"
  consider "hs = []" | "hs \<noteq> []" "\<not> wc_open c" | "hs \<noteq> []" "wc_open c" by blast
  then show thesis
  proof cases
    case 1
    with assms that(1) show thesis by (simp add: add_address_handlers_def)
  next
    case 2
    with assms show thesis by (simp add: add_address_handlers_def)
  next
    case 3
    have eq: "add_address_handlers ch net ad hs c =
       (let (p, published) = (if \<not> subs_HasHandlers ?a (subs_of ch ?c)
                 then PublishSubscribeMessage net (wc_UID c) (topic_path (channel_path ch) ?a) (wc_messagePublisher ?c)
                 else (wc_messagePublisher ?c, Inr ()));
            c = ?c\<lparr>wc_messagePublisher := p\<rparr>
        in case published of
             Inl err \<Rightarrow> (c, Inl (errors_Wrap err ''publishing subscribe message into websocket''))
           | Inr _ \<Rightarrow> (callbacks_stored ch ?a hs c, Inr ()))"
      using 3 by (simp add: add_address_handlers_def topic_registered_def callbacks_stored_def Let_def case_prod_beta split: sum.split)
    show thesis
    proof (cases "subs_HasHandlers ?a (subs_of ch c)")
      case True
      with eq assms 3 that(3) show thesis by (simp add: subs_Has_iff)
    next
      case False
      show thesis
        using WriteJSON_cases [of net "subscribeDTO (wc_UID c) (topic_path (channel_path ch) ?a)"
          "''publishing subscribe message into websocket connection''" "wc_messagePublisher ?c"]
      proof cases
        case 1
        with eq assms False that(2) show thesis by (simp add: PublishSubscribeMessage_def)
      next
        case 2
        with eq assms False 3 that(4) show thesis by (simp add: PublishSubscribeMessage_def with_frame_def)
      qed
    qed
  qed
qed

lemma add_address_handlers_ok:
  assumes "add_address_handlers ch net ad hs c = (c', r)" "r \<noteq> Inl Panicked" "client_ok c"
  shows "client_ok c' \<and> (synced c \<longrightarrow> synced c') \<and> (exact c \<longrightarrow> exact c') \<and> wc_connectFn c' = wc_connectFn c"
proof -
  have uid: "wc_UID c = wc_routerUid c" using assms(3) by (simp add: client_ok_def)
  note ok = client_ok_registered [OF assms(3), of "AddressTopic ch"]
  note has = HasHandler_topic_registered(3) [of ch c]
  from assms(1,2) show ?thesis
  proof (cases rule: add_address_handlers_cases)
    case 1
    with assms(3) show ?thesis by simp
  next
    case 2
    with ok show ?thesis by (simp add: synced_def exact_def)
  next
    case 3
    with stored_ok [OF ok has 3(1)] show ?thesis
      by (auto simp: synced_def exact_def callbacks_stored_def)
  next
    case 4
    let ?p = "topic_path (channel_path ch) (addr_Address ad)"
    let ?c = "with_frame (subscribeDTO (wc_UID c) ?p) (topic_registered (AddressTopic ch) c)"
    have "client_ok ?c" "HasHandler (channel_path ch) (wc_topicHandlers ?c)" using ok has by simp_all
    from stored_ok [OF this 4(1)] 4(2) show ?thesis
      by (auto simp: synced_def exact_def uid callbacks_stored_def)
  qed
qed

definition block_stored :: "'h list \<Rightarrow> 'h CatapultWebsocketClientImpl \<Rightarrow> 'h CatapultWebsocketClientImpl" where
  "block_stored hs c = c\<lparr>wc_blockSubscriber := fst (block_AddHandlers hs (wc_blockSubscriber c))\<rparr>"

lemma block_stored_ok:
  assumes "client_ok c" "HasHandler pathBlock (wc_topicHandlers c)" "hs \<noteq> []"
  shows "client_ok (block_stored hs c)" "wanted (block_stored hs c) = insert pathBlock (wanted c)"
    "client_subscriptions (block_stored hs c) = client_subscriptions c"
  using assms
  by (auto simp: client_ok_def registered_def block_stored_def block_Add_ok block_Add_Get wanted_def client_subscriptions_def)

lemma AddBlockHandlers_cases:
  assumes "AddBlockHandlers net hs c = (c', r)" "r \<noteq> Inl Panicked"
  obtains "c' = c"
  | "c' = topic_registered BlockTopic c"
  | "hs \<noteq> []" "block_GetHandlers (wc_blockSubscriber c) \<noteq> []" "c' = block_stored hs (topic_registered BlockTopic c)"
  | "hs \<noteq> []" "c' = block_stored hs (with_frame (subscribeDTO (wc_UID c) pathBlock) (topic_registered BlockTopic c))"
proof -
  let ?c = "topic_registered BlockTopic c"
  consider "hs = []" | "hs \<noteq> []" "\<not> wc_open c" | "hs \<noteq> []" "wc_open c" by blast
  then show thesis
  proof cases
    case 1
    with assms that(1) show thesis by (simp add: AddBlockHandlers_def)
  next
    case 2
    with assms show thesis by (simp add: AddBlockHandlers_def)
  next
    case 3
    have eq: "AddBlockHandlers net hs c =
       (let (p, published) = (if \<not> block_HasHandlers (wc_blockSubscriber ?c)
                 then PublishSubscribeMessage net (wc_UID c) pathBlock (wc_messagePublisher ?c)
                 else (wc_messagePublisher ?c, Inr ()));
            c = ?c\<lparr>wc_messagePublisher := p\<rparr>
        in case published of
             Inl err \<Rightarrow> (c, Inl (errors_Wrap err ''publishing subscribe message into websocket''))
           | Inr _ \<Rightarrow> (block_stored hs c, Inr ()))"
      using 3 by (simp add: AddBlockHandlers_def topic_registered_def block_stored_def Let_def case_prod_beta split: sum.split)
    show thesis
    proof (cases "block_HasHandlers (wc_blockSubscriber c)")
      case True
      with eq assms 3 that(3) show thesis by (simp add: block_Has_iff)
    next
      case False
      show thesis
        using WriteJSON_cases [of net "subscribeDTO (wc_UID c) pathBlock"
          "''publishing subscribe message into websocket connection''" "wc_messagePublisher ?c"]
      proof cases
        case 1
        with eq assms False that(2) show thesis by (simp add: PublishSubscribeMessage_def)
      next
        case 2
        with eq assms False 3 that(4) show thesis by (simp add: PublishSubscribeMessage_def with_frame_def)
      qed
    qed
  qed
qed

lemma AddBlockHandlers_ok:
  assumes "AddBlockHandlers net hs c = (c', r)" "r \<noteq> Inl Panicked" "client_ok c"
  shows "client_ok c' \<and> (synced c \<longrightarrow> synced c') \<and> (exact c \<longrightarrow> exact c') \<and> wc_connectFn c' = wc_connectFn c"
proof -
  have uid: "wc_UID c = wc_routerUid c" using assms(3) by (simp add: client_ok_def)
  note ok = client_ok_registered [OF assms(3), of BlockTopic]
  note has = HasHandler_topic_registered(2) [of c]
  from assms(1,2) show ?thesis
  proof (cases rule: AddBlockHandlers_cases)
    case 1
    with assms(3) show ?thesis by simp
  next
    case 2
    with ok show ?thesis by (simp add: synced_def exact_def)
  next
    case 3
    with block_stored_ok [OF ok has 3(1)] show ?thesis
      by (auto simp: synced_def exact_def block_stored_def)
  next
    case 4
    let ?c = "with_frame (subscribeDTO (wc_UID c) pathBlock) (topic_registered BlockTopic c)"
    have "client_ok ?c" "HasHandler pathBlock (wc_topicHandlers ?c)" using ok has by simp_all
    from block_stored_ok [OF this 4(1)] 4(2) show ?thesis
      by (auto simp: synced_def exact_def uid block_stored_def)
  qed
qed

section \<open>Routing\<close>

text \<open>What the callbacks of a channel answer to a message, once it is mapped.\<close>

fun channel_answers ::
  "'k crypto \<Rightarrow> 'j json_api \<Rightarrow> 'j ws_json \<Rightarrow> 'h callbacks \<Rightarrow> channel \<Rightarrow> 'j raw_json \<Rightarrow> ('h \<Rightarrow> bool) result" where
  "channel_answers C J W cb ConfirmedAdded m = res_map (\<lambda>x f. cb_confirmedAdded cb f x) (MapConfirmedAdded (MapTransaction C J) m)"
| "channel_answers C J W cb UnconfirmedAdded m = res_map (\<lambda>x f. cb_unconfirmedAdded cb f x) (MapUnconfirmedAdded (MapTransaction C J) m)"
| "channel_answers C J W cb UnconfirmedRemoved m = res_map (\<lambda>x f. cb_unconfirmedRemoved cb f x) (MapUnconfirmedRemoved W m)"
| "channel_answers C J W cb Status m = res_map (\<lambda>x f. cb_status cb f x) (MapStatus W m)"
| "channel_answers C J W cb PartialAdded m = res_map (\<lambda>x f. cb_partialAdded cb f x) (MapPartialAdded (MapTransaction C J) m)"
| "channel_answers C J W cb PartialRemoved m = res_map (\<lambda>x f. cb_partialRemoved cb f x) (MapPartialRemoved W m)"
| "channel_answers C J W cb Cosignature m = res_map (\<lambda>x f. cb_cosignature cb f x) (MapCosignature W m)"

definition block_answers :: "'k crypto \<Rightarrow> 'j ws_json \<Rightarrow> 'h callbacks \<Rightarrow> 'j raw_json \<Rightarrow> ('h \<Rightarrow> bool) result" where
  "block_answers C W cb m = res_map (\<lambda>x f. cb_block cb f x) (MapBlock C W m)"

lemma address_Handle_answers:
  "address_Handle call sched mapped address e =
     address_Handle (\<lambda>f ans. ans f) sched (res_map (\<lambda>x f. call f x) mapped) address e"
  by (cases mapped; cases address) (simp_all add: address_Handle_def handle_message_def)

lemma channel_Handle_answers:
  "channel_Handle C J W cb ch address m e =
     address_Handle (\<lambda>f ans. ans f) (cb_sched cb) (channel_answers C J W cb ch m) address e"
  by (cases ch) (simp_all only: channel_Handle.simps channel_answers.simps address_Handle_answers [symmetric] confirmedAddedHandler_Handle_def unconfirmedAddedHandler_Handle_def
      unconfirmedRemovedHandler_Handle_def statusHandler_Handle_def partialAddedHandler_Handle_def
      partialRemovedHandler_Handle_def cosignatureHandler_Handle_def)

text \<open>The client after the callbacks of an address that answered true are gone.\<close>

lemma channel_Handle_ok:
  assumes "sched_ok cb" "subs_ok e" "channel_answers C J W cb ch m = Inr ans"
  shows "\<exists>e'. channel_Handle C J W cb ch (Some ad) m e =
      Inr (e', subs_GetHandlers (addr_Address ad) e = [] \<or> subs_GetHandlers (addr_Address ad) e' \<noteq> [])
    \<and> subs_ok e'
    \<and> (\<forall>b. subs_GetHandlers b e' =
         (if b = addr_Address ad then filter (\<lambda>f. \<not> ans f) (subs_GetHandlers b e) else subs_GetHandlers b e))"
proof (cases "subs_GetHandlers (addr_Address ad) e = []")
  case True
  then show ?thesis
    using address_Handle_empty [OF True, of "\<lambda>f ans. ans f"] assms(2,3) by (simp add: channel_Handle_answers)
next
  case False
  have "mset (cb_sched cb (subs_GetHandlers (addr_Address ad) e)) = mset (subs_GetHandlers (addr_Address ad) e)"
    using assms(1) by (simp add: sched_ok_def)
  from address_Handle_ok [where sched = "cb_sched cb" and call = "\<lambda>f ans. ans f" and m = ans, OF assms(2) False this] False assms(3)
  show ?thesis by (auto simp: channel_Handle_answers filter_empty_conv)
qed

lemma blockHandler_ok:
  assumes "sched_ok cb" "block_ok s" "block_answers C W cb m = Inr ans"
  shows "\<exists>t. blockHandler_Handle C W (cb_block cb) (cb_sched cb) m s =
      Inr (t, block_GetHandlers s = [] \<or> block_GetHandlers t \<noteq> [])
    \<and> block_ok t \<and> block_GetHandlers t = filter (\<lambda>f. \<not> ans f) (block_GetHandlers s)"
proof -
  from assms(3) obtain x where x: "MapBlock C W m = Inr x" "ans = (\<lambda>f. cb_block cb f x)"
    by (auto simp: block_answers_def res_map_Inr_iff)
  show ?thesis
  proof (cases "block_GetHandlers s = []")
    case True
    with x assms(2) show ?thesis by (simp add: blockHandler_Handle_def block_store.handle_message_empty)
  next
    case False
    have "mset (cb_sched cb (block_GetHandlers s)) = mset (block_GetHandlers s)"
      using assms(1) by (simp add: sched_ok_def)
    from blockHandler_Handle_ok [where sched = "cb_sched cb" and call = "cb_block cb", OF assms(2) False this x(1)] False x(2)
    show ?thesis by (auto simp: filter_empty_conv)
  qed
qed

text \<open>
  \<open>routed\<close> relates the client before a message for a topic to the client after it: the callbacks that answered true are gone,
  and if none is left of some, the unsubscribe message is written.
\<close>

definition topic_handlers :: "topic \<Rightarrow> string \<Rightarrow> 'h CatapultWebsocketClientImpl \<Rightarrow> 'h list" where
  "topic_handlers t a c = (case t of
     BlockTopic \<Rightarrow> block_GetHandlers (wc_blockSubscriber c) | AddressTopic ch \<Rightarrow> subs_GetHandlers a (subs_of ch c))"

definition path_of :: "topic \<Rightarrow> string \<Rightarrow> Path" where
  "path_of t a = (case t of BlockTopic \<Rightarrow> pathBlock | AddressTopic ch \<Rightarrow> topic_path (channel_path ch) a)"

definition same_topic :: "topic \<Rightarrow> string \<Rightarrow> topic \<Rightarrow> string \<Rightarrow> bool" where
  "same_topic t a t' b \<longleftrightarrow> t = t' \<and> (t = BlockTopic \<or> a = b)"

definition handled :: "topic \<Rightarrow> string \<Rightarrow> ('h \<Rightarrow> bool) \<Rightarrow> 'h CatapultWebsocketClientImpl \<Rightarrow> 'h CatapultWebsocketClientImpl \<Rightarrow> bool" where
  "handled t a ans c c' \<longleftrightarrow>
     (\<forall>t' b. topic_handlers t' b c' =
        (if same_topic t a t' b then filter (\<lambda>f. \<not> ans f) (topic_handlers t' b c) else topic_handlers t' b c))
     \<and> block_ok (wc_blockSubscriber c') \<and> (\<forall>ch. subs_ok (subs_of ch c'))
     \<and> wc_messagePublisher c' = wc_messagePublisher c \<and> wc_topicHandlers c' = wc_topicHandlers c
     \<and> wc_UID c' = wc_UID c \<and> wc_routerUid c' = wc_routerUid c \<and> wc_connectFn c' = wc_connectFn c"

definition topic_answers ::
  "'k crypto \<Rightarrow> 'j json_api \<Rightarrow> 'j ws_json \<Rightarrow> 'h callbacks \<Rightarrow> topic \<Rightarrow> 'j raw_json \<Rightarrow> ('h \<Rightarrow> bool) result" where
  "topic_answers C J W cb t m = (case t of
     BlockTopic \<Rightarrow> block_answers C W cb m | AddressTopic ch \<Rightarrow> channel_answers C J W cb ch m)"

lemma topic_Handle_ok:
  assumes "client_ok c" "sched_ok cb" "topic_answers C J W cb t m = Inr ans"
    and "t = BlockTopic \<or> address = Some ad"
  shows "\<exists>c'. topic_Handle C J W cb t address m c =
      Inr (c', topic_handlers t (addr_Address ad) c = [] \<or> topic_handlers t (addr_Address ad) c' \<noteq> [])
    \<and> handled t (addr_Address ad) ans c c'"
proof (cases t)
  case BlockTopic
  from assms have "block_ok (wc_blockSubscriber c)" "block_answers C W cb m = Inr ans"
    by (simp_all add: client_ok_def topic_answers_def BlockTopic)
  from blockHandler_ok [OF assms(2) this] assms(1) show ?thesis
    by (auto simp: BlockTopic topic_Handle_def handled_def topic_handlers_def same_topic_def client_ok_def split: topic.split)
next
  case (AddressTopic ch)
  from assms have "subs_ok (subs_of ch c)" "channel_answers C J W cb ch m = Inr ans"
    by (simp_all add: client_ok_def topic_answers_def AddressTopic)
  from channel_Handle_ok [OF assms(2) this, of ad] assms(1,4) show ?thesis
    by (auto simp: AddressTopic topic_Handle_def handled_def topic_handlers_def same_topic_def client_ok_def split: topic.split)
qed

lemma topic_Handle_mapping_error:
  assumes "topic_answers C J W cb t m = Inl e"
  shows "topic_Handle C J W cb t address m c = Inl Panicked"
proof -
  have "address_Handle call sched (Inl err) address s = Inl Panicked" for call :: "'x \<Rightarrow> 'y \<Rightarrow> bool" and sched err s
    by (simp add: address_Handle_def)
  with assms show ?thesis
    by (cases t) (auto simp: topic_Handle_def topic_answers_def channel_Handle_answers block_answers_def
        blockHandler_Handle_def res_map_def res_bind_Inl_iff)
qed

lemma wanted_iff: "p \<in> wanted c \<longleftrightarrow> (\<exists>t a. p = path_of t a \<and> topic_handlers t a c \<noteq> [])"
  by (auto simp: wanted_def path_of_def topic_handlers_def split: topic.splits)
    (metis topic.exhaust topic.simps(5,6))+

lemma path_of_inject: "path_of t a = path_of t' b \<longleftrightarrow> same_topic t a t' b"
  by (auto simp: path_of_def same_topic_def split: topic.splits)

lemma handled_ok:
  assumes "handled t a ans c c'" "client_ok c"
  shows "client_ok c'" "client_subscriptions c' = client_subscriptions c" "wc_connectFn c' = wc_connectFn c"
    and "wanted c' = (if topic_handlers t a c' = [] then wanted c - {path_of t a} else wanted c)"
proof -
  have sub: "topic_handlers t' b c \<noteq> []" if "topic_handlers t' b c' \<noteq> []" for t' b
    using assms(1) that by (auto simp: handled_def split: if_splits)
  have "block_GetHandlers (wc_blockSubscriber c) \<noteq> []" if "block_GetHandlers (wc_blockSubscriber c') \<noteq> []"
    using sub [of BlockTopic] that by (simp add: topic_handlers_def)
  moreover have "subs_GetHandlers b (subs_of ch c) \<noteq> []" if "subs_GetHandlers b (subs_of ch c') \<noteq> []" for ch b
    using sub [of "AddressTopic ch" b] that by (simp add: topic_handlers_def)
  ultimately have "registered c'"
    using assms unfolding registered_def client_ok_def handled_def by metis
  then show "client_ok c'" "client_subscriptions c' = client_subscriptions c" "wc_connectFn c' = wc_connectFn c"
    using assms by (simp_all add: client_ok_def handled_def client_subscriptions_def)
  have other: "topic_handlers t' b c' = topic_handlers t' b c" if "\<not> same_topic t a t' b" for t' b
    using assms(1) that by (simp add: handled_def)
  have same: "topic_handlers t' b c' = topic_handlers t a c'" "topic_handlers t' b c = topic_handlers t a c" if "same_topic t a t' b" for t' b
    using that by (auto simp: same_topic_def topic_handlers_def)
  show "wanted c' = (if topic_handlers t a c' = [] then wanted c - {path_of t a} else wanted c)"
  proof (intro set_eqI)
    fix p
    show "p \<in> wanted c' \<longleftrightarrow> p \<in> (if topic_handlers t a c' = [] then wanted c - {path_of t a} else wanted c)"
      using sub other same by (auto simp: wanted_iff path_of_inject) (metis path_of_inject)+
  qed
qed

text \<open>
  The topic a message is for, the key of its callbacks in the stores, and what routing it does once it is mapped.
\<close>

definition message_topic :: "'h CatapultWebsocketClientImpl \<Rightarrow> WsMessageInfo \<Rightarrow> topic option" where
  "message_topic c info = map_option th_Handler (GetHandler (wmi_ChannelName info) (wc_topicHandlers c))"

definition address_key :: "Address option \<Rightarrow> string" where
  "address_key address = (case address of None \<Rightarrow> [] | Some ad \<Rightarrow> addr_Address ad)"

lemma MapMessageInfo_address:
  "MapMessageInfo W m = Inr info \<Longrightarrow> wmi_ChannelName info \<noteq> pathBlock \<Longrightarrow> \<exists>ad. wmi_Address info = Some ad"
  by (auto simp: MapMessageInfo_def WsMessageInfoDTO_ToStruct_def Let_def pathBlock_def res_bind_Inr_iff split: sum.splits if_splits)

lemma message_topic_cases:
  assumes "client_ok c" "MapMessageInfo W m = Inr info" "message_topic c info = Some t"
  obtains th where "GetHandler (wmi_ChannelName info) (wc_topicHandlers c) = Some th" "th_Handler th = t"
    "t = BlockTopic \<or> (\<exists>ad. wmi_Address info = Some ad)"
    "Format (th_Topic th) info = Inr (path_of t (address_key (wmi_Address info)))"
proof -
  from assms(3) obtain th where th: "map_of (wc_topicHandlers c) (wmi_ChannelName info) = Some th" "th_Handler th = t"
    by (auto simp: message_topic_def GetHandler_def)
  have ok: "topics_ok (wc_topicHandlers c)" using assms(1) by (simp add: client_ok_def)
  with th(1) consider "wmi_ChannelName info = pathBlock" | ch where "wmi_ChannelName info = channel_path ch"
    by (auto simp: topics_ok_def)
  then show thesis
  proof cases
    case 1
    with ok th have "th = \<lparr>th_Handler = BlockTopic, th_Topic = formatBlockTopic\<rparr>" by (auto simp: topics_ok_def)
    with th that show thesis by (auto simp: GetHandler_def Format_def path_of_def)
  next
    case 2
    with ok th have th': "th = \<lparr>th_Handler = AddressTopic ch, th_Topic = formatPlainTopic\<rparr>" by (auto simp: topics_ok_def)
    obtain ad where "wmi_Address info = Some ad" using MapMessageInfo_address [OF assms(2)] 2 by auto
    with th th' that 2 show thesis by (auto simp: GetHandler_def Format_def path_of_def address_key_def)
  qed
qed

lemma RouteMessage_ok:
  assumes "client_ok c" "sched_ok cb" "MapMessageInfo W m = Inr info" "message_topic c info = Some t"
    and "topic_answers C J W cb t m = Inr ans"
  defines "a \<equiv> address_key (wmi_Address info)"
  obtains c' where "handled t a ans c c'"
    "RouteMessage C J W net cb m c =
       (if topic_handlers t a c = [] \<or> topic_handlers t a c' \<noteq> [] then Inr c'
        else case net (mp_conn (wc_messagePublisher c)) (unsubscribeDTO (wc_routerUid c) (path_of t a)) of
            None \<Rightarrow> Inr (with_frame (unsubscribeDTO (wc_routerUid c) (path_of t a)) c')
          | Some _ \<Rightarrow> Inl Panicked)"
proof -
  obtain th where th: "GetHandler (wmi_ChannelName info) (wc_topicHandlers c) = Some th" "th_Handler th = t"
    "t = BlockTopic \<or> (\<exists>ad. wmi_Address info = Some ad)" "Format (th_Topic th) info = Inr (path_of t a)"
    using message_topic_cases [OF assms(1,3,4)] unfolding a_def by metis
  from th(3) obtain ad where ad: "t = BlockTopic \<or> wmi_Address info = Some ad" by blast
  have key: "topic_handlers t (addr_Address ad) x = topic_handlers t a x" "handled t (addr_Address ad) ans c x = handled t a ans c x" for x
    using ad by (cases t; auto simp: a_def address_key_def topic_handlers_def handled_def same_topic_def)+
  from topic_Handle_ok [OF assms(1,2,5) ad] obtain c' where c':
    "topic_Handle C J W cb t (wmi_Address info) m c = Inr (c', topic_handlers t a c = [] \<or> topic_handlers t a c' \<noteq> [])"
    "handled t a ans c c'"
    by (auto simp: key)
  then have "wc_messagePublisher c' = wc_messagePublisher c" "wc_routerUid c' = wc_routerUid c"
    by (simp_all add: handled_def)
  with c' th(1,2,4) assms(3) show thesis
    by (intro that [of c']) (auto simp: RouteMessage_def PublishUnsubscribeMessage_def WriteJSON_def with_frame_def split: option.split)
qed

lemma RouteMessage_Inr:
  assumes "client_ok c" "sched_ok cb" "RouteMessage C J W net cb m c = Inr c'"
  obtains info t ans where "MapMessageInfo W m = Inr info" "message_topic c info = Some t" "topic_answers C J W cb t m = Inr ans"
proof -
  from assms(3) obtain info th where
    i: "MapMessageInfo W m = Inr info" "GetHandler (wmi_ChannelName info) (wc_topicHandlers c) = Some th"
    by (cases "MapMessageInfo W m") (auto simp: RouteMessage_def split: option.splits)
  moreover have "topic_Handle C J W cb (th_Handler th) (wmi_Address info) m c \<noteq> Inl Panicked"
    using assms(3) i by (auto simp: RouteMessage_def)
  then have "\<exists>ans. topic_answers C J W cb (th_Handler th) m = Inr ans"
    by (metis topic_Handle_mapping_error sum.exhaust)
  ultimately show thesis using that by (auto simp: message_topic_def)
qed

lemma RouteMessage_keeps:
  assumes "client_ok c" "sched_ok cb" "RouteMessage C J W net cb m c = Inr c'"
  shows "client_ok c' \<and> (synced c \<longrightarrow> synced c') \<and> (exact c \<longrightarrow> exact c') \<and> wc_connectFn c' = wc_connectFn c"
proof -
  obtain info t ans where i: "MapMessageInfo W m = Inr info" "message_topic c info = Some t" "topic_answers C J W cb t m = Inr ans"
    using RouteMessage_Inr [OF assms] .
  let ?a = "address_key (wmi_Address info)"
  obtain d where d: "handled t ?a ans c d" "RouteMessage C J W net cb m c =
       (if topic_handlers t ?a c = [] \<or> topic_handlers t ?a d \<noteq> [] then Inr d
        else case net (mp_conn (wc_messagePublisher c)) (unsubscribeDTO (wc_routerUid c) (path_of t ?a)) of
            None \<Rightarrow> Inr (with_frame (unsubscribeDTO (wc_routerUid c) (path_of t ?a)) d)
          | Some _ \<Rightarrow> Inl Panicked)"
    using RouteMessage_ok [OF assms(1,2) i] .
  note h = handled_ok [OF d(1) assms(1)]
  have uid: "wc_routerUid d = wc_routerUid c" using d(1) by (simp add: handled_def)
  show ?thesis
  proof (cases "topic_handlers t ?a c = [] \<or> topic_handlers t ?a d \<noteq> []")
    case True
    then have "wanted d = wanted c"
      using h(4) by (auto simp: wanted_iff path_of_inject same_topic_def topic_handlers_def)
    with True d(2) assms(3) h show ?thesis by (simp add: synced_def exact_def)
  next
    case False
    with d(2) assms(3) have "c' = with_frame (unsubscribeDTO (wc_routerUid c) (path_of t ?a)) d"
      by (auto split: option.splits)
    with False h uid show ?thesis by (auto simp: synced_def exact_def)
  qed
qed

section \<open>Reconnecting\<close>

lemma set_channel_topics: "set (channel_topics c ch) = topic_path (channel_path ch) ` set (subs_GetAddresses (subs_of ch c))"
  by (simp add: channel_topics_def)

definition reconnect_paths :: "'h CatapultWebsocketClientImpl \<Rightarrow> Path list" where
  "reconnect_paths c = (if block_HasHandlers (wc_blockSubscriber c) then [pathBlock] else [])
     @ concat (map (channel_topics c) resubscribed_channels)"

lemma reconnect_simps:
  "\<not> wc_connectFn c \<Longrightarrow> reconnect net conn c = (c, Inl Panicked)"
  "wc_connectFn c \<Longrightarrow> reconnect net (Inl e) c = (c, Inl e)"
  "wc_connectFn c \<Longrightarrow> \<not> wc_open c \<Longrightarrow> snd (reconnect net (Inr (k, uid)) c) = Inl Panicked"
  by (simp_all add: reconnect_def)

lemma reconnect_open:
  assumes "wc_connectFn c" "wc_open c" "publish_all net uid (reconnect_paths c) (SetConn k (wc_messagePublisher c)) = (p, r)"
  shows "reconnect net (Inr (k, uid)) c =
    (c\<lparr>wc_conn := Some k, wc_UID := uid, wc_messagePublisher := p, wc_routerUid := uid\<rparr>, r)"
proof -
  have topics: "channel_topics (c\<lparr>wc_conn := x, wc_UID := y, wc_messagePublisher := z, wc_routerUid := u\<rparr>) = channel_topics c" for x y z u
    by (rule ext) (simp add: channel_topics_def)
  let ?c = "c\<lparr>wc_conn := Some k, wc_UID := uid, wc_messagePublisher := SetConn k (wc_messagePublisher c), wc_routerUid := uid\<rparr>"
  have "reconnect_paths ?c = reconnect_paths c"
    by (simp only: reconnect_paths_def topics) simp
  with assms(3) have "publish_all net uid (reconnect_paths ?c) (wc_messagePublisher ?c) = (p, r)"
    by simp
  moreover have "reconnect net (Inr (k, uid)) c =
      (let (p, r) = publish_all net uid (reconnect_paths ?c) (wc_messagePublisher ?c) in (?c\<lparr>wc_messagePublisher := p\<rparr>, r))"
    using assms(1,2) unfolding reconnect_def reconnect_paths_def Let_def by (simp del: publish_all.simps split del: if_split)
  ultimately show ?thesis by simp
qed

lemma reconnect_cases:
  assumes "reconnect net conn c = (c', r)" "r \<noteq> Inl Panicked"
  obtains e where "wc_connectFn c" "c' = c" "r = Inl e"
  | k uid p where "wc_connectFn c" "wc_open c" "c' = c\<lparr>wc_conn := Some k, wc_UID := uid, wc_messagePublisher := p, wc_routerUid := uid\<rparr>"
      "publish_all net uid (reconnect_paths c) (SetConn k (wc_messagePublisher c)) = (p, r)"
proof -
  have fn: "wc_connectFn c" using assms reconnect_simps(1) [of c net conn] by auto
  show thesis
  proof (cases conn)
    case (Inl e)
    have "c' = c" "r = Inl e" using assms(1) reconnect_simps(2) [OF fn, of net e] Inl by simp_all
    with fn show thesis by (rule that(1))
  next
    case (Inr x)
    obtain k uid where x: "x = (k, uid)" by (cases x)
    have op: "wc_open c"
    proof (rule ccontr)
      assume "\<not> wc_open c"
      from reconnect_simps(3) [OF fn this, of net k uid] assms show False by (simp add: Inr x)
    qed
    obtain p r' where p: "publish_all net uid (reconnect_paths c) (SetConn k (wc_messagePublisher c)) = (p, r')"
      by fastforce
    have "c' = c\<lparr>wc_conn := Some k, wc_UID := uid, wc_messagePublisher := p, wc_routerUid := uid\<rparr>" "r' = r"
      using reconnect_open [OF fn op p] assms(1) by (simp_all add: Inr x)
    with fn op p that(2) show thesis by blast
  qed
qed

lemma reconnect_keeps:
  assumes "reconnect net conn c = (c', r)" "r \<noteq> Inl Panicked" "client_ok c"
  shows "client_ok c' \<and> wanted c' = wanted c \<and> wc_connectFn c \<and> wc_connectFn c'"
  using assms(1,2)
proof (cases rule: reconnect_cases)
  case 1
  with assms(3) show ?thesis by simp
next
  case 2
  with assms(3) show ?thesis by (simp add: client_ok_def registered_def wanted_def)
qed

lemma reconnect_synced:
  assumes "reconnect net conn c = (c', Inr ())" "client_ok c"
  shows "synced c'"
proof -
  have "Inr () \<noteq> Inl Panicked" by simp
  with assms(1) obtain k uid p where p:
    "c' = c\<lparr>wc_conn := Some k, wc_UID := uid, wc_messagePublisher := p, wc_routerUid := uid\<rparr>"
    "publish_all net uid (reconnect_paths c) (SetConn k (wc_messagePublisher c)) = (p, Inr ())"
    by (cases rule: reconnect_cases) auto
  have sub: "set (reconnect_paths c) \<subseteq> client_subscriptions c'"
    using publish_all_ok [OF p(2)] by (simp add: p(1) client_subscriptions_def SetConn_def)
  have "wanted c \<subseteq> set (reconnect_paths c)"
    using all_channels subs_Get_key
    by (fastforce simp: wanted_def block_Has_iff set_channel_topics reconnect_paths_def)
  moreover have "wanted c' = wanted c"
    using reconnect_keeps [OF assms(1) _ assms(2)] by simp
  ultimately show ?thesis using sub unfolding synced_def by (metis subset_trans)
qed

section \<open>Listening\<close>

text \<open>
  Where the loop that reads messages is. A message is routed whenever its goroutine gets to it; reading fails with
  the error of a closed connection, which starts the loop that reconnects, or with another, which ends
  listening; the calls of the user come at any time.
\<close>

datatype listen_mode = NotListening | Reading | Reconnecting | Stopped

inductive client_step ::
  "'k crypto \<Rightarrow> 'j json_api \<Rightarrow> 'j ws_json \<Rightarrow> 'h CatapultWebsocketClientImpl \<times> listen_mode
   \<Rightarrow> 'h CatapultWebsocketClientImpl \<times> listen_mode \<Rightarrow> bool" for C J W where
  Listen: "\<not> wc_alreadyListening c \<Longrightarrow>
    client_step C J W (c, NotListening) (c\<lparr>wc_alreadyListening := True\<rparr>, Reading)"
| Message: "sched_ok cb \<Longrightarrow> RouteMessage C J W net cb m c = Inr c' \<Longrightarrow> client_step C J W (c, md) (c', md)"
| ConnectionClosed: "client_step C J W (c, Reading) (c, Reconnecting)"
| Reconnected: "reconnect net conn c = (c', Inr ()) \<Longrightarrow> client_step C J W (c, Reconnecting) (c', Reading)"
| NotReconnected: "reconnect net conn c = (c', Inl e) \<Longrightarrow> e \<noteq> Panicked \<Longrightarrow>
    client_step C J W (c, Reconnecting) (c', Reconnecting)"
| ReadingFailed: "client_step C J W (c, Reading) (c\<lparr>wc_conn := None, wc_cancelled := True\<rparr>, Stopped)"
| AddBlock: "AddBlockHandlers net hs c = (c', r) \<Longrightarrow> r \<noteq> Inl Panicked \<Longrightarrow> client_step C J W (c, md) (c', md)"
| AddAddress: "add_address_handlers ch net ad hs c = (c', r) \<Longrightarrow> r \<noteq> Inl Panicked \<Longrightarrow>
    client_step C J W (c, md) (c', md)"
| Closed: "CloseClient closed c = (c', Inr ()) \<Longrightarrow> client_step C J W (c, md) (c', Stopped)"

inductive_cases client_stepE: "client_step C J W s s'"

definition session_inv :: "'h CatapultWebsocketClientImpl \<times> listen_mode \<Rightarrow> bool" where
  "session_inv s \<longleftrightarrow> client_ok (fst s)
     \<and> (snd s = NotListening \<or> snd s = Reading \<or> \<not> wc_connectFn (fst s) \<longrightarrow> synced (fst s))
     \<and> (\<not> wc_connectFn (fst s) \<longrightarrow> exact (fst s))"

lemma client_ok_flags [simp]:
  "client_ok (c\<lparr>wc_alreadyListening := x\<rparr>) = client_ok c" "synced (c\<lparr>wc_alreadyListening := x\<rparr>) = synced c"
  "exact (c\<lparr>wc_alreadyListening := x\<rparr>) = exact c"
  "client_ok (c\<lparr>wc_conn := k, wc_cancelled := x\<rparr>) = client_ok c" "synced (c\<lparr>wc_conn := k, wc_cancelled := x\<rparr>) = synced c"
  "exact (c\<lparr>wc_conn := k, wc_cancelled := x\<rparr>) = exact c"
  "client_ok (c\<lparr>wc_conn := k, wc_cancelled := x, wc_alreadyListening := y, wc_open := z\<rparr>) = client_ok c"
  "synced (c\<lparr>wc_conn := k, wc_cancelled := x, wc_alreadyListening := y, wc_open := z\<rparr>) = synced c"
  "exact (c\<lparr>wc_conn := k, wc_cancelled := x, wc_alreadyListening := y, wc_open := z\<rparr>) = exact c"
  by (simp_all add: client_ok_def registered_def synced_def exact_def wanted_def client_subscriptions_def)

lemma client_step_inv:
  assumes "client_step C J W s s'" "session_inv s"
  shows "session_inv s' \<and> wc_connectFn (fst s') = wc_connectFn (fst s)"
  using assms
proof (induction rule: client_step.induct)
  case (Message cb net m c c' md)
  then show ?case
    using RouteMessage_keeps [OF _ Message(1,2)] by (auto simp: session_inv_def)
next
  case (Reconnected net conn c c')
  then show ?case
    using reconnect_keeps [OF Reconnected(1)] reconnect_synced [OF Reconnected(1)] by (auto simp: session_inv_def)
next
  case (NotReconnected net conn c c' e)
  then show ?case
    using reconnect_keeps [OF NotReconnected(1)] by (auto simp: session_inv_def)
next
  case (AddBlock net hs c c' r md)
  then show ?case
    using AddBlockHandlers_ok [OF AddBlock(1,2)] by (auto simp: session_inv_def)
next
  case (AddAddress ch net ad hs c c' r md)
  then show ?case
    using add_address_handlers_ok [OF AddAddress(1,2)] by (auto simp: session_inv_def)
next
  case (Closed closed c c' md)
  then show ?case
    by (auto simp: session_inv_def CloseClient_def split: if_splits)
qed (auto simp: session_inv_def)

end
