(* ===== verification/WsClientProperties.thy ===== *)
theory WsClientProperties
  imports WsClientInvariant
begin

text \<open>What the websocket client guarantees, and what it does not.\<close>

section \<open>Subscriptions\<close>

lemma new_client_inv:
  assumes "NewWsClient (Inr (conn, uid)) = Inr c"
  shows "session_inv (c\<lparr>wc_connectFn := k\<rparr>, NotListening)"
proof -
  have empty: "subs_of ch c = NewSubscribers" "wc_blockSubscriber c = NewBlock" "wc_topicHandlers c = []"
    "wc_routerUid c = uid" "wc_UID c = uid" "mp_sent (wc_messagePublisher c) = []" for ch
    using assms by (cases ch; auto simp: NewWsClient_def newMessagePublisher_def)+
  then show ?thesis
    by (simp add: session_inv_def client_ok_def registered_def topics_ok_def synced_def exact_def wanted_def
        client_subscriptions_def subscriptions_def)
qed

lemma reachable_inv:
  assumes "(client_step C J W)\<^sup>*\<^sup>* s s'" "session_inv s"
  shows "session_inv s' \<and> wc_connectFn (fst s') = wc_connectFn (fst s)"
  using assms
  by (induction rule: rtranclp_induct) (auto dest: client_step_inv)

text \<open>
  C4. While the client of \<open>NewClient\<close> listens, through any sequence of messages, additions of callbacks, lost
  connections and reconnections: the server has a subscription for every topic with a callback, and every
  such topic has its handler registered, so that a message for it can be routed. When the client cannot
  reconnect there are no other subscriptions.
\<close>

theorem subscriptions_are_kept:
  assumes "NewWsClient (Inr (conn, uid)) = Inr c0"
    and "(client_step C J W)\<^sup>*\<^sup>* (c0\<lparr>wc_connectFn := k\<rparr>, NotListening) (c, md)"
    and "md = NotListening \<or> md = Reading"
  shows "wanted c \<subseteq> client_subscriptions c \<and> registered c \<and> (k \<or> client_subscriptions c = wanted c)"
  using reachable_inv [OF assms(2) new_client_inv [OF assms(1)]] assms(3)
  by (auto simp: session_inv_def synced_def exact_def client_ok_def)

lemma subscriptions_are_kept_witness:
  "\<exists>c0 :: nat CatapultWebsocketClientImpl. NewWsClient (Inr (1, ''u'')) = Inr c0
     \<and> client_subscriptions (fst (AddBlockHandlers (\<lambda>_ _. None) [7] (c0\<lparr>wc_connectFn := False\<rparr>))) =
         wanted (fst (AddBlockHandlers (\<lambda>_ _. None) [7] (c0\<lparr>wc_connectFn := False\<rparr>)))
     \<and> pathBlock \<in> wanted (fst (AddBlockHandlers (\<lambda>_ _. None) [7] (c0\<lparr>wc_connectFn := False\<rparr>)))"
proof -
  obtain c0 :: "nat CatapultWebsocketClientImpl" where c0: "NewWsClient (Inr (1, ''u'')) = Inr c0"
    by (simp add: NewWsClient_def)
  let ?c = "c0\<lparr>wc_connectFn := False\<rparr>"
  let ?d = "fst (AddBlockHandlers (\<lambda>_ _. None) [7] ?c)"
  have r: "snd (AddBlockHandlers (\<lambda>_ _. None) [7] ?c) = Inr ()" "pathBlock \<in> wanted ?d"
    using c0 by (auto simp: NewWsClient_def AddBlockHandlers_def newMessagePublisher_def PublishSubscribeMessage_def
        WriteJSON_def NewBlock_def block_HasHandlers_def block_GetHandlers_def block_AddHandlers_def Let_def)
  have "client_step C J W (?c, NotListening) (?d, NotListening)" for C :: "unit crypto" and J :: "unit json_api" and W
    using r(1) by (intro client_step.AddBlock [where r = "Inr ()" and net = "\<lambda>_ _. None" and hs = "[7]"]) (simp_all add: prod_eq_iff)
  from subscriptions_are_kept [OF c0 r_into_rtranclp [of "client_step _ _ _", OF this]] c0 r(2) show ?thesis
    by blast
qed

section \<open>Routing a message\<close>

text \<open>
  C12. Routing a message whose topic is registered and which can be mapped, whatever the order of the goroutines: the
  callbacks of the topic that answer true are removed, no other store changes, and the unsubscribe message is written
  exactly when the topic had callbacks and has none left; only a failure to write it panics.
\<close>

theorem route_message:
  assumes "client_ok c" "sched_ok cb" "MapMessageInfo W m = Inr info" "message_topic c info = Some t"
    and "topic_answers C J W cb t m = Inr ans"
  shows "\<exists>c'. handled t (address_key (wmi_Address info)) ans c c'
    \<and> RouteMessage C J W net cb m c =
       (if topic_handlers t (address_key (wmi_Address info)) c = []
           \<or> (\<exists>f \<in> set (topic_handlers t (address_key (wmi_Address info)) c). \<not> ans f)
        then Inr c'
        else case net (mp_conn (wc_messagePublisher c))
                 (unsubscribeDTO (wc_routerUid c) (path_of t (address_key (wmi_Address info)))) of
            None \<Rightarrow> Inr (with_frame (unsubscribeDTO (wc_routerUid c) (path_of t (address_key (wmi_Address info)))) c')
          | Some _ \<Rightarrow> Inl Panicked)"
proof -
  let ?a = "address_key (wmi_Address info)"
  obtain c' where c': "handled t ?a ans c c'" "RouteMessage C J W net cb m c =
       (if topic_handlers t ?a c = [] \<or> topic_handlers t ?a c' \<noteq> [] then Inr c'
        else case net (mp_conn (wc_messagePublisher c)) (unsubscribeDTO (wc_routerUid c) (path_of t ?a)) of
            None \<Rightarrow> Inr (with_frame (unsubscribeDTO (wc_routerUid c) (path_of t ?a)) c')
          | Some _ \<Rightarrow> Inl Panicked)"
    using RouteMessage_ok [OF assms] .
  have "topic_handlers t ?a c' = filter (\<lambda>f. \<not> ans f) (topic_handlers t ?a c)"
    using c'(1) by (simp add: handled_def same_topic_def)
  with c' show ?thesis by (intro exI [of _ c']) (auto simp: filter_empty_conv)
qed

text \<open>A status message for an address whose only callback answers true.\<close>

definition sample_ws_address :: string where "sample_ws_address = b32_encode [144, 0, 0, 0, 0]"

definition sample_ws_json :: "unit ws_json" where
  "sample_ws_json = \<lparr>jw_info = (\<lambda>_. Inr \<lparr>wmd_ChannelName = ''status'', wmd_Address = hex_encode [144, 0, 0, 0, 0]\<rparr>),
     jw_block = (\<lambda>_. Inl Panicked), jw_unconfirmedRemoved = (\<lambda>_. Inl Panicked), jw_partialRemoved = (\<lambda>_. Inl Panicked),
     jw_status = (\<lambda>_. Inr \<lparr>sid_Status = ''Failure'', sid_Hash = []\<rparr>), jw_cosignature = (\<lambda>_. Inl Panicked)\<rparr>"

definition sample_callbacks :: "nat callbacks" where
  "sample_callbacks = \<lparr>cb_sched = rev, cb_block = (\<lambda>_ _. True), cb_confirmedAdded = (\<lambda>_ _. True),
     cb_unconfirmedAdded = (\<lambda>_ _. True), cb_unconfirmedRemoved = (\<lambda>_ _. True), cb_status = (\<lambda>f _. f = 7),
     cb_partialAdded = (\<lambda>_ _. True), cb_partialRemoved = (\<lambda>_ _. True), cb_cosignature = (\<lambda>_ _. True)\<rparr>"

definition sample_ws_client :: "nat list \<Rightarrow> nat CatapultWebsocketClientImpl" where
  "sample_ws_client hs = \<lparr>wc_conn = Some 1, wc_cancelled = False, wc_UID = ''u'', wc_blockSubscriber = NewBlock,
     wc_confirmedAddedSubscribers = NewSubscribers, wc_unconfirmedAddedSubscribers = NewSubscribers,
     wc_unconfirmedRemovedSubscribers = NewSubscribers, wc_partialAddedSubscribers = NewSubscribers,
     wc_partialRemovedSubscribers = NewSubscribers, wc_statusSubscribers = [(sample_ws_address, hs)],
     wc_cosignatureSubscribers = NewSubscribers, wc_open = True,
     wc_topicHandlers = [(''status'', \<lparr>th_Handler = AddressTopic Status, th_Topic = formatPlainTopic\<rparr>)],
     wc_routerUid = ''u'', wc_messagePublisher = newMessagePublisher 1, wc_connectFn = False, wc_alreadyListening = True\<rparr>"

lemma sample_subs_of: "subs_of ch (sample_ws_client hs) = (if ch = Status then [(sample_ws_address, hs)] else NewSubscribers)"
  by (cases ch) (simp_all add: sample_ws_client_def)

lemma sample_fields:
  "wc_blockSubscriber (sample_ws_client hs) = NewBlock" "wc_routerUid (sample_ws_client hs) = ''u''"
  "wc_UID (sample_ws_client hs) = ''u''" "wc_messagePublisher (sample_ws_client hs) = newMessagePublisher 1"
  "wc_topicHandlers (sample_ws_client hs) = [(''status'', \<lparr>th_Handler = AddressTopic Status, th_Topic = formatPlainTopic\<rparr>)]"
  by (simp_all add: sample_ws_client_def)

lemma sample_topic_handlers: "topic_handlers (AddressTopic Status) sample_ws_address (sample_ws_client hs) = hs"
  by (simp add: topic_handlers_def sample_subs_of subs_GetHandlers_def)

lemma sample_sched_ok: "sched_ok sample_callbacks"
  by (simp add: sched_ok_def sample_callbacks_def)

lemma sample_ws_client_ok: "distinct hs \<Longrightarrow> client_ok (sample_ws_client hs)"
proof -
  assume d: "distinct hs"
  have get: "subs_GetHandlers a [(sample_ws_address, hs)] = (if a = sample_ws_address then hs else [])" for a
    by (simp add: subs_GetHandlers_def)
  have status: "channel_path ch = ''status'' \<longleftrightarrow> ch = Status" for ch
    using channel_path_inject [of ch Status] by (simp del: channel_path_inject)
  have sub: "subs_ok (subs_of ch (sample_ws_client hs))" for ch
    using d by (cases "ch = Status") (simp_all add: sample_subs_of, simp add: subs_ok_def get)
  have "topics_ok (wc_topicHandlers (sample_ws_client hs))"
    by (auto simp: topics_ok_def sample_fields status pathBlock_def intro: exI [of _ Status])
  moreover have "registered (sample_ws_client hs)"
    by (auto simp: registered_def sample_subs_of sample_fields HasHandler_def)
  ultimately show ?thesis
    using sub by (simp add: client_ok_def sample_fields)
qed

lemma sample_message_info:
  "MapMessageInfo sample_ws_json (Raw () []) =
     Inr \<lparr>wmi_Address = Some \<lparr>addr_Type = 144, addr_Address = sample_ws_address\<rparr>, wmi_ChannelName = ''status''\<rparr>"
proof -
  have "NewAddressFromBase32 (hex_encode [144, 0, 0, 0, 0]) = Inr \<lparr>addr_Type = 144, addr_Address = sample_ws_address\<rparr>"
    using NewAddressFromRaw_b32 [of "[144, 0, 0, 0, 0]" 144 "[0, 0, 0, 0]" 144]
    unfolding NewAddressFromBase32_def sample_ws_address_def hex_decode_encode by (simp add: addressNet_idem)
  then show ?thesis
    by (simp add: MapMessageInfo_def sample_ws_json_def json_bytes_def WsMessageInfoDTO_ToStruct_def)
qed

lemma sample_message_topic:
  "message_topic (sample_ws_client hs) \<lparr>wmi_Address = x, wmi_ChannelName = ''status''\<rparr> = Some (AddressTopic Status)"
  by (simp add: message_topic_def GetHandler_def sample_ws_client_def)

lemma sample_answers:
  "topic_answers C J sample_ws_json sample_callbacks (AddressTopic Status) (Raw () []) = Inr (\<lambda>f. f = 7)"
  by (simp add: topic_answers_def MapStatus_def sample_ws_json_def json_bytes_def hashDto_Hash_def sample_callbacks_def)

lemma route_message_witness:
  "\<forall>J :: unit json_api. \<exists>c'. RouteMessage sample_crypto J sample_ws_json (\<lambda>_ _. None) sample_callbacks (Raw () []) (sample_ws_client [7]) =
       Inr (with_frame (unsubscribeDTO ''u'' (''status/'' @ sample_ws_address)) c')
     \<and> topic_handlers (AddressTopic Status) sample_ws_address c' = []"
proof
  fix J :: "unit json_api"
  have key: "address_key (wmi_Address \<lparr>wmi_Address = Some \<lparr>addr_Type = x, addr_Address = a\<rparr>, wmi_ChannelName = n\<rparr>) = a" for x a n
    by (simp add: address_key_def)
  have path: "path_of (AddressTopic Status) sample_ws_address = ''status/'' @ sample_ws_address"
    by (simp add: path_of_def topic_path_def)
  have ok: "client_ok (sample_ws_client [7])" by (rule sample_ws_client_ok) simp
  obtain c' where c': "handled (AddressTopic Status) sample_ws_address (\<lambda>f. f = 7) (sample_ws_client [7]) c'"
    "RouteMessage sample_crypto J sample_ws_json (\<lambda>_ _. None) sample_callbacks (Raw () []) (sample_ws_client [7]) =
       Inr (with_frame (unsubscribeDTO ''u'' (''status/'' @ sample_ws_address)) c')"
    using route_message [OF ok sample_sched_ok sample_message_info sample_message_topic sample_answers,
        of sample_crypto J "\<lambda>_ _. None"]
    unfolding key path sample_topic_handlers sample_fields by auto
  from c'(1) have "topic_handlers (AddressTopic Status) sample_ws_address c' = []"
    by (simp add: handled_def same_topic_def sample_topic_handlers)
  with c'(2) show "\<exists>c'. RouteMessage sample_crypto J sample_ws_json (\<lambda>_ _. None) sample_callbacks (Raw () []) (sample_ws_client [7]) =
       Inr (with_frame (unsubscribeDTO ''u'' (''status/'' @ sample_ws_address)) c')
     \<and> topic_handlers (AddressTopic Status) sample_ws_address c' = []" by blast
qed

text \<open>
  C32. Routing a message panics, and so ends the program, exactly when its kind cannot be read, no handler is
  registered for its channel, its content cannot be mapped, or the last callback is gone and the unsubscribe message cannot be written.
\<close>

theorem route_message_panics:
  assumes "client_ok c" "sched_ok cb"
  shows "RouteMessage C J W net cb m c = Inl Panicked \<longleftrightarrow>
     (case MapMessageInfo W m of
        Inl _ \<Rightarrow> True
      | Inr info \<Rightarrow>
          (case message_topic c info of
             None \<Rightarrow> True
           | Some t \<Rightarrow>
               (case topic_answers C J W cb t m of
                  Inl _ \<Rightarrow> True
                | Inr ans \<Rightarrow>
                    let hs = topic_handlers t (address_key (wmi_Address info)) c
                    in hs \<noteq> [] \<and> (\<forall>f \<in> set hs. ans f)
                       \<and> net (mp_conn (wc_messagePublisher c))
                           (unsubscribeDTO (wc_routerUid c) (path_of t (address_key (wmi_Address info)))) \<noteq> None)))"
proof (cases "MapMessageInfo W m")
  case (Inl e)
  then show ?thesis by (simp add: RouteMessage_def)
next
  case (Inr info)
  show ?thesis
  proof (cases "message_topic c info")
    case None
    with Inr show ?thesis by (auto simp: RouteMessage_def message_topic_def split: option.splits)
  next
    case (Some t)
    show ?thesis
    proof (cases "topic_answers C J W cb t m")
      case e: (Inl e)
      from Some obtain th where "GetHandler (wmi_ChannelName info) (wc_topicHandlers c) = Some th" "th_Handler th = t"
        by (auto simp: message_topic_def)
      with Inr Some e topic_Handle_mapping_error [OF e] show ?thesis by (simp add: RouteMessage_def)
    next
      case ans: (Inr ans)
      let ?a = "address_key (wmi_Address info)"
      obtain c' where c': "handled t ?a ans c c'" "RouteMessage C J W net cb m c =
           (if topic_handlers t ?a c = [] \<or> topic_handlers t ?a c' \<noteq> [] then Inr c'
            else case net (mp_conn (wc_messagePublisher c)) (unsubscribeDTO (wc_routerUid c) (path_of t ?a)) of
                None \<Rightarrow> Inr (with_frame (unsubscribeDTO (wc_routerUid c) (path_of t ?a)) c')
              | Some _ \<Rightarrow> Inl Panicked)"
        using RouteMessage_ok [OF assms Inr Some ans] .
      have "topic_handlers t ?a c' = filter (\<lambda>f. \<not> ans f) (topic_handlers t ?a c)"
        using c'(1) by (simp add: handled_def same_topic_def)
      with c'(2) Inr Some ans show ?thesis
        by (auto simp: filter_empty_conv Let_def split: option.splits)
    qed
  qed
qed

lemma route_message_panics_witness:
  "\<forall>J :: unit json_api.
     RouteMessage sample_crypto J sample_ws_json (\<lambda>_ _. Some (NewError ''broken pipe'')) sample_callbacks (Raw () [])
       (sample_ws_client [7]) = Inl Panicked
     \<and> RouteMessage sample_crypto J sample_ws_json (\<lambda>_ _. Some (NewError ''broken pipe'')) sample_callbacks (Raw () [])
       (sample_ws_client [7, 8]) \<noteq> Inl Panicked"
proof -
  have ok: "client_ok (sample_ws_client [7])" "client_ok (sample_ws_client [7, 8])"
    by (simp_all add: sample_ws_client_ok)
  show ?thesis
    by (simp add: route_message_panics [OF ok(1) sample_sched_ok] route_message_panics [OF ok(2) sample_sched_ok]
        sample_message_info sample_message_topic sample_answers address_key_def sample_topic_handlers)
qed

section \<open>Connecting\<close>

lemma dial_others_Inr:
  "dial_others dial cfg err us = (cfg', Inr conn) \<Longrightarrow>
     \<exists>vs u ws. us = vs @ u # ws \<and> cfg' = cfg\<lparr>cfg_UsedBaseUrl := u\<rparr> \<and> dial (convertToWsUrl (cfg_BaseURLs cfg ! u)) = Inr conn
       \<and> (\<forall>v \<in> set vs. v \<noteq> cfg_UsedBaseUrl cfg \<longrightarrow> \<not> is_ok (dial (convertToWsUrl (cfg_BaseURLs cfg ! v))))"
proof (induction dial cfg err us rule: dial_others.induct)
  case (1 dial cfg err)
  then show ?case by simp
next
  case (2 dial cfg err u us)
  show ?case
  proof (cases "u \<noteq> cfg_UsedBaseUrl cfg \<and> is_ok (dial (convertToWsUrl (cfg_BaseURLs cfg ! u)))")
    case True
    with 2(3) show ?thesis
      by (intro exI [of _ "[]"] exI [of _ u] exI [of _ us]) (auto split: sum.splits)
  next
    case False
    with 2 have "\<exists>vs w ws. us = vs @ w # ws \<and> cfg' = cfg\<lparr>cfg_UsedBaseUrl := w\<rparr> \<and> dial (convertToWsUrl (cfg_BaseURLs cfg ! w)) = Inr conn
       \<and> (\<forall>v \<in> set vs. v \<noteq> cfg_UsedBaseUrl cfg \<longrightarrow> \<not> is_ok (dial (convertToWsUrl (cfg_BaseURLs cfg ! v))))"
      by (auto split: if_splits sum.splits)
    then obtain vs w ws where "us = vs @ w # ws" "cfg' = cfg\<lparr>cfg_UsedBaseUrl := w\<rparr>" "dial (convertToWsUrl (cfg_BaseURLs cfg ! w)) = Inr conn"
       "\<forall>v \<in> set vs. v \<noteq> cfg_UsedBaseUrl cfg \<longrightarrow> \<not> is_ok (dial (convertToWsUrl (cfg_BaseURLs cfg ! v)))"
      by blast
    with False show ?thesis
      by (intro exI [of _ "u # vs"] exI [of _ w] exI [of _ ws]) auto
  qed
qed

lemma dial_others_Inl:
  "dial_others dial cfg err us = (cfg', Inl e) \<Longrightarrow>
     cfg' = cfg \<and> (\<forall>v \<in> set us. v \<noteq> cfg_UsedBaseUrl cfg \<longrightarrow> \<not> is_ok (dial (convertToWsUrl (cfg_BaseURLs cfg ! v))))"
  by (induction dial cfg err us rule: dial_others.induct) (auto split: if_splits sum.splits)

text \<open>
  \<open>connect\<close> dials the node in use and, only if that fails, the others in their order, always with the scheme and the
  path of websockets; the first that can be dialled is the one in use from then on. When none can be dialled the
  configuration is as before. The user's name is the one the server sends first.
\<close>

theorem connect_fails_over:
  assumes "config_ok cfg" "connect dial readUid cfg = (cfg', r)"
  shows "config_ok cfg'
    \<and> (\<forall>conn uid. r = Inr (conn, uid) \<longrightarrow>
         dial (convertToWsUrl (used_url cfg')) = Inr conn \<and> readUid conn = Inr uid
         \<and> (\<forall>u < cfg_UsedBaseUrl cfg'. cfg' \<noteq> cfg \<longrightarrow> \<not> is_ok (dial (convertToWsUrl (cfg_BaseURLs cfg ! u)))))
    \<and> ((\<forall>u < length (cfg_BaseURLs cfg). \<not> is_ok (dial (convertToWsUrl (cfg_BaseURLs cfg ! u)))) \<longrightarrow> cfg' = cfg \<and> \<not> is_ok r)"
proof (cases "dial (convertToWsUrl (used_url cfg))")
  case (Inr conn)
  with assms have "cfg' = cfg" "r = res_map (\<lambda>uid. (conn, uid)) (readUid conn)"
    by (auto simp: connect_def)
  with Inr assms(1) show ?thesis
    by (auto simp: res_map_Inr_iff used_url_def config_ok_def)
next
  case (Inl err)
  obtain cfg1 x where x: "dial_others dial cfg err [0..<length (cfg_BaseURLs cfg)] = (cfg1, x)"
    by fastforce
  with assms(2) Inl have r: "cfg' = cfg1" "r = res_bind x (\<lambda>conn. res_map (\<lambda>uid. (conn, uid)) (readUid conn))"
    by (auto simp: connect_def)
  show ?thesis
  proof (cases x)
    case e: (Inl e)
    from dial_others_Inl [OF x [unfolded e]] have "cfg1 = cfg" by simp
    with r e assms(1) show ?thesis by simp
  next
    case ok: (Inr conn)
    from dial_others_Inr [OF x [unfolded ok]] obtain vs u ws where u:
      "[0..<length (cfg_BaseURLs cfg)] = vs @ u # ws" "cfg1 = cfg\<lparr>cfg_UsedBaseUrl := u\<rparr>"
      "dial (convertToWsUrl (cfg_BaseURLs cfg ! u)) = Inr conn"
      "\<forall>v \<in> set vs. v \<noteq> cfg_UsedBaseUrl cfg \<longrightarrow> \<not> is_ok (dial (convertToWsUrl (cfg_BaseURLs cfg ! v)))"
      by auto
    have vs: "vs = [0..<u]" "u < length (cfg_BaseURLs cfg)"
      using upt_split [OF u(1)] by simp_all
    have fails: "\<not> is_ok (dial (convertToWsUrl (cfg_BaseURLs cfg ! v)))" if "v < u" for v
      using u(4) Inl that by (cases "v = cfg_UsedBaseUrl cfg") (auto simp: vs(1) used_url_def)
    with r ok u vs(2) show ?thesis
      by (auto simp: res_map_Inr_iff used_url_def config_ok_def)
  qed
qed

lemma connect_fails_over_witness:
  "connect (\<lambda>u. if url_Host u = ''b'' then Inr 5 else Inl (NewError ''down'')) (\<lambda>_. Inr ''u'')
     \<lparr>cfg_BaseURLs = [\<lparr>url_Scheme = ''http'', url_Host = ''a'', url_Path = [], url_RawQuery = []\<rparr>,
        \<lparr>url_Scheme = ''http'', url_Host = ''b'', url_Path = [], url_RawQuery = []\<rparr>],
      cfg_UsedBaseUrl = 0, cfg_WsReconnectionTimeout = 5, cfg_GenerationHash = None, cfg_NetworkType = PublicTest,
      cfg_FeeCalculationStrategy = 250\<rparr>
   = (\<lparr>cfg_BaseURLs = [\<lparr>url_Scheme = ''http'', url_Host = ''a'', url_Path = [], url_RawQuery = []\<rparr>,
        \<lparr>url_Scheme = ''http'', url_Host = ''b'', url_Path = [], url_RawQuery = []\<rparr>],
      cfg_UsedBaseUrl = 1, cfg_WsReconnectionTimeout = 5, cfg_GenerationHash = None, cfg_NetworkType = PublicTest,
      cfg_FeeCalculationStrategy = 250\<rparr>, Inr (5, ''u''))
   \<and> config_ok (fst (connect (\<lambda>u. if url_Host u = ''b'' then Inr 5 else Inl (NewError ''down'')) (\<lambda>_. Inr ''u'')
     \<lparr>cfg_BaseURLs = [\<lparr>url_Scheme = ''http'', url_Host = ''a'', url_Path = [], url_RawQuery = []\<rparr>,
        \<lparr>url_Scheme = ''http'', url_Host = ''b'', url_Path = [], url_RawQuery = []\<rparr>],
      cfg_UsedBaseUrl = 0, cfg_WsReconnectionTimeout = 5, cfg_GenerationHash = None, cfg_NetworkType = PublicTest,
      cfg_FeeCalculationStrategy = 250\<rparr>))"
proof -
  let ?cfg = "\<lambda>n. \<lparr>cfg_BaseURLs = [\<lparr>url_Scheme = ''http'', url_Host = ''a'', url_Path = [], url_RawQuery = []\<rparr>,
        \<lparr>url_Scheme = ''http'', url_Host = ''b'', url_Path = [], url_RawQuery = []\<rparr>],
      cfg_UsedBaseUrl = n, cfg_WsReconnectionTimeout = 5, cfg_GenerationHash = None, cfg_NetworkType = PublicTest,
      cfg_FeeCalculationStrategy = 250\<rparr>"
  let ?dial = "\<lambda>u. if url_Host u = ''b'' then Inr 5 else Inl (NewError ''down'') :: nat result"
  have c: "connect ?dial (\<lambda>_. Inr ''u'') (?cfg 0) = (?cfg 1, Inr (5, ''u''))"
    by (simp add: connect_def used_url_def convertToWsUrl_def upt_rec)
  show ?thesis
    using connect_fails_over [OF _ c] by (simp add: c config_ok_def)
qed

section \<open>What reconnecting does not do\<close>

text \<open>
  C30. The client that \<open>NewClient\<close> makes never reconnects: nothing sets its \<open>connectFn\<close>, in no run, and \<open>reconnect\<close> calls
  it: the first lost connection ends the program.
\<close>

theorem new_client_cannot_reconnect:
  assumes "NewWsClient (Inr (conn, uid)) = Inr c0"
    and "(client_step C J W)\<^sup>*\<^sup>* (c0, NotListening) (c, md)"
  shows "reconnect net r c = (c, Inl Panicked)"
proof -
  have fn: "\<not> wc_connectFn c0" using assms(1) by (auto simp: NewWsClient_def)
  have "session_inv (c0, NotListening)"
    using new_client_inv [OF assms(1), of False] fn by (cases c0) simp
  from reachable_inv [OF assms(2) this] fn show ?thesis
    by (simp add: reconnect_simps(1))
qed

lemma new_client_cannot_reconnect_witness:
  "\<exists>c0 :: nat CatapultWebsocketClientImpl. NewWsClient (Inr (1, ''u'')) = Inr c0
     \<and> reconnect (\<lambda>_ _. None) (Inr (2, ''v'')) c0 = (c0, Inl Panicked)"
proof -
  obtain c0 :: "nat CatapultWebsocketClientImpl" where c0: "NewWsClient (Inr (1, ''u'')) = Inr c0"
    by (simp add: NewWsClient_def)
  with new_client_cannot_reconnect [OF c0 rtranclp.rtrancl_refl] show ?thesis by blast
qed

lemma RouteMessage_topic:
  assumes "RouteMessage C J W net cb m c = Inr c'"
  obtains t address d left p where "topic_Handle C J W cb t address m c = Inr (d, left)" "c' = d\<lparr>wc_messagePublisher := p\<rparr>"
proof -
  from assms obtain info th where i: "MapMessageInfo W m = Inr info" "GetHandler (wmi_ChannelName info) (wc_topicHandlers c) = Some th"
    by (cases "MapMessageInfo W m") (auto simp: RouteMessage_def split: option.splits)
  with assms obtain d left where d: "topic_Handle C J W cb (th_Handler th) (wmi_Address info) m c = Inr (d, left)"
    by (cases "topic_Handle C J W cb (th_Handler th) (wmi_Address info) m c") (auto simp: RouteMessage_def)
  show thesis
  proof (cases left)
    case True
    with assms i d have "c' = d\<lparr>wc_messagePublisher := wc_messagePublisher d\<rparr>" by (simp add: RouteMessage_def)
    with d show thesis by (rule that)
  next
    case False
    with assms i d obtain path where "Format (th_Topic th) info = Inr path"
      by (cases "Format (th_Topic th) info") (auto simp: RouteMessage_def)
    with assms i d False have "c' = d\<lparr>wc_messagePublisher := fst (PublishUnsubscribeMessage net (wc_routerUid d) path (wc_messagePublisher d))\<rparr>"
      by (auto simp: RouteMessage_def split: prod.splits sum.splits)
    with d show thesis by (rule that)
  qed
qed

lemma RouteMessage_flags:
  "RouteMessage C J W net cb m c = Inr c' \<Longrightarrow> wc_open c' = wc_open c \<and> wc_connectFn c' = wc_connectFn c"
  by (erule RouteMessage_topic) (auto simp: topic_Handle_def res_map_Inr_iff split: topic.splits)

lemma run_goroutines_preserve:
  assumes "\<And>f s. P s \<Longrightarrow> P (fst (remove f s))" "run_goroutines remove answer fs s = Inr t" "P s"
  shows "P t"
  using assms(2,3)
proof (induction fs arbitrary: s)
  case (Cons f fs)
  then show ?case using assms(1) [of s f] by (auto split: if_splits prod.splits sum.splits)
qed simp

text \<open>Removing callbacks never removes an address.\<close>

lemma subs_Remove_addresses: "a \<in> set (subs_GetAddresses e) \<Longrightarrow> a \<in> set (subs_GetAddresses (fst (subs_RemoveHandlers b hs e)))"
  using keys_update [of b _ e]
  by (auto simp: subs_GetAddresses_def subs_RemoveHandlers_def Let_def split: option.split simp flip: set_map)

lemma address_Handle_addresses:
  assumes "address_Handle call sched mapped address e = Inr (e', left)" "a \<in> set (subs_GetAddresses e)"
  shows "a \<in> set (subs_GetAddresses e')"
  using assms
  by (auto simp: address_Handle_def handle_message_def Let_def res_bind_Inr_iff res_map_Inr_iff split: if_splits
      elim!: run_goroutines_preserve [where P = "\<lambda>e. a \<in> set (subs_GetAddresses e)", rotated] intro: subs_Remove_addresses)

lemma RouteMessage_addresses:
  assumes "RouteMessage C J W net cb m c = Inr c'" "a \<in> set (subs_GetAddresses (subs_of ch c))"
  shows "a \<in> set (subs_GetAddresses (subs_of ch c'))"
proof -
  obtain t address d left p where d: "topic_Handle C J W cb t address m c = Inr (d, left)" "c' = d\<lparr>wc_messagePublisher := p\<rparr>"
    using RouteMessage_topic [OF assms(1)] .
  have "a \<in> set (subs_GetAddresses (subs_of ch d))"
    using d(1) assms(2)
    by (auto simp: topic_Handle_def res_map_Inr_iff channel_Handle_answers split: topic.splits if_splits dest: address_Handle_addresses)
  with d(2) show ?thesis by auto
qed

text \<open>
  C31. An address whose callbacks are all gone stays a key of its store. When a message for an address with callbacks makes all of them
  answer true and is routed, the client has unsubscribed; but once it has reconnected it is subscribed to the address again, although no callback wants
  its messages. This holds for a well-formed client, for every channel, every address and every order of the goroutines.
\<close>

theorem reconnect_subscribes_without_callbacks:
  assumes "client_ok c" "sched_ok cb" "MapMessageInfo W m = Inr info" "message_topic c info = Some (AddressTopic ch)"
    and "topic_answers C J W cb (AddressTopic ch) m = Inr ans"
    and "topic_handlers (AddressTopic ch) (address_key (wmi_Address info)) c \<noteq> []"
    and "\<And>f. f \<in> set (topic_handlers (AddressTopic ch) (address_key (wmi_Address info)) c) \<Longrightarrow> ans f"
    and "RouteMessage C J W net cb m c = Inr c'" "reconnect net' (Inr (conn, uid)) c' = (c'', Inr ())"
  shows "topic_path (channel_path ch) (address_key (wmi_Address info)) \<notin> client_subscriptions c'
    \<and> topic_path (channel_path ch) (address_key (wmi_Address info)) \<in> client_subscriptions c''
    \<and> topic_path (channel_path ch) (address_key (wmi_Address info)) \<notin> wanted c''"
proof -
  let ?t = "AddressTopic ch" and ?a = "address_key (wmi_Address info)"
  obtain d where d: "handled ?t ?a ans c d" "RouteMessage C J W net cb m c =
       (if topic_handlers ?t ?a c = [] \<or> topic_handlers ?t ?a d \<noteq> [] then Inr d
        else case net (mp_conn (wc_messagePublisher c)) (unsubscribeDTO (wc_routerUid c) (path_of ?t ?a)) of
            None \<Rightarrow> Inr (with_frame (unsubscribeDTO (wc_routerUid c) (path_of ?t ?a)) d)
          | Some _ \<Rightarrow> Inl Panicked)"
    using RouteMessage_ok [OF assms(1-5)] .
  have path: "path_of ?t ?a = topic_path (channel_path ch) ?a" by (simp add: path_of_def)
  have gone: "topic_handlers ?t ?a d = []"
    using d(1) assms(7) by (simp add: handled_def same_topic_def filter_empty_conv)
  have uid: "wc_routerUid c = wc_routerUid d" using d(1) by (simp add: handled_def)
  have c': "c' = with_frame (unsubscribeDTO (wc_routerUid d) (path_of ?t ?a)) d"
    using d(2) gone assms(6,8) uid by (auto split: option.splits)
  have "wanted c' = wanted c - {path_of ?t ?a}"
    using handled_ok(4) [OF d(1) assms(1)] gone by (simp add: c')
  moreover have "client_ok c'" using RouteMessage_keeps [OF assms(1,2,8)] by simp
  note kept = reconnect_keeps [OF assms(9) _ this]
  moreover have "?a \<in> set (subs_GetAddresses (subs_of ch c'))"
    using RouteMessage_addresses [OF assms(8)] subs_Get_key assms(6) by (fastforce simp: topic_handlers_def)
  then have "topic_path (channel_path ch) ?a \<in> set (reconnect_paths c')"
    using all_channels [of ch] by (auto simp: reconnect_paths_def set_channel_topics)
  moreover have "set (reconnect_paths c') \<subseteq> client_subscriptions c''"
    by (rule reconnect_cases [OF assms(9)]) (auto simp: client_subscriptions_def SetConn_def dest!: publish_all_ok)
  ultimately show ?thesis by (auto simp: c' path)
qed

lemma publish_all_silent: "\<exists>p'. publish_all (\<lambda>_ _. None) uid paths p = (p', Inr ())"
  by (induction paths arbitrary: p) (simp_all add: PublishSubscribeMessage_def WriteJSON_def)

lemma reconnect_subscribes_without_callbacks_witness:
  "\<forall>J :: unit json_api. \<exists>c' c''.
     RouteMessage sample_crypto J sample_ws_json (\<lambda>_ _. None) sample_callbacks (Raw () []) ((sample_ws_client [7])\<lparr>wc_connectFn := True\<rparr>) = Inr c'
     \<and> reconnect (\<lambda>_ _. None) (Inr (2, ''v'')) c' = (c'', Inr ())
     \<and> ''status/'' @ sample_ws_address \<notin> client_subscriptions c'
     \<and> ''status/'' @ sample_ws_address \<in> client_subscriptions c'' \<and> ''status/'' @ sample_ws_address \<notin> wanted c''"
proof
  fix J :: "unit json_api"
  let ?c = "(sample_ws_client [7])\<lparr>wc_connectFn := True\<rparr>"
  let ?info = "\<lparr>wmi_Address = Some \<lparr>addr_Type = 144, addr_Address = sample_ws_address\<rparr>, wmi_ChannelName = ''status''\<rparr>"
  have ok: "client_ok ?c"
    using sample_ws_client_ok [of "[7]"] by (simp add: client_ok_def registered_def)
  have topic: "message_topic ?c ?info = Some (AddressTopic Status)"
    using sample_message_topic [of "[7]"] by (simp add: message_topic_def)
  have key: "address_key (wmi_Address ?info) = sample_ws_address" by (simp add: address_key_def)
  have hs: "topic_handlers (AddressTopic Status) (address_key (wmi_Address ?info)) ?c = [7]"
    using sample_topic_handlers [of "[7]"] by (simp add: topic_handlers_def address_key_def)
  obtain c' where c': "RouteMessage sample_crypto J sample_ws_json (\<lambda>_ _. None) sample_callbacks (Raw () []) ?c = Inr c'"
    using RouteMessage_ok [OF ok sample_sched_ok sample_message_info topic sample_answers, of sample_crypto J "\<lambda>_ _. None"]
    by (metis (no_types, lifting) option.case(1))
  have "wc_open ?c" "wc_connectFn ?c" by (simp_all add: sample_ws_client_def)
  with RouteMessage_flags [OF c'] obtain c'' where c'': "reconnect (\<lambda>_ _. None) (Inr (2, ''v'')) c' = (c'', Inr ())"
    using reconnect_open publish_all_silent by metis
  have "topic_path (channel_path Status) (address_key (wmi_Address ?info)) \<notin> client_subscriptions c'
    \<and> topic_path (channel_path Status) (address_key (wmi_Address ?info)) \<in> client_subscriptions c''
    \<and> topic_path (channel_path Status) (address_key (wmi_Address ?info)) \<notin> wanted c''"
    by (rule reconnect_subscribes_without_callbacks [OF ok sample_sched_ok sample_message_info topic sample_answers _ _ c' c''])
      (simp_all only: hs list.set, simp_all)
  moreover have "topic_path (channel_path Status) (address_key (wmi_Address ?info)) = ''status/'' @ sample_ws_address"
    unfolding key by (simp add: topic_path_def)
  ultimately show "\<exists>c' c''. RouteMessage sample_crypto J sample_ws_json (\<lambda>_ _. None) sample_callbacks (Raw () []) ?c = Inr c'
     \<and> reconnect (\<lambda>_ _. None) (Inr (2, ''v'')) c' = (c'', Inr ())
     \<and> ''status/'' @ sample_ws_address \<notin> client_subscriptions c'
     \<and> ''status/'' @ sample_ws_address \<in> client_subscriptions c'' \<and> ''status/'' @ sample_ws_address \<notin> wanted c''"
    using c' c'' by metis
qed

end
