(* ===== verification/SdkClientProperties.thy ===== *)
theory SdkClientProperties
  imports SdkClient TxProperties
begin

text \<open>The fees of the transactions a client makes, and the nodes its requests go to.\<close>

section \<open>Fees\<close>

lemma Tx_Size_Set [simp]: "Tx_Size C (SetAbstractTransaction a tx) = Tx_Size C tx"
proof (cases tx)
  case (TxAggregate x)
  then show ?thesis by (cases x) simp
qed (simp_all add: Size_defs)

lemma Tx_Size_modify [simp]: "Tx_Size C (modifyTransaction C cfg tx) = Tx_Size C tx"
  by (simp add: modifyTransaction_def Let_def)

text \<open>
  C18. The fee is right: a transaction that the client has given its fee, other than a network configuration or an
  upgrade, pays the chosen price for every byte that \<open>generateBytes\<close> writes for it, and never more than
  \<open>DefaultMaxFee\<close>. The product cannot overflow.
\<close>

theorem client_fee:
  assumes "flatbuffers F R" "tx' = modifyTransaction C cfg tx" "fits C tx'" "sized C tx'" "generateBytes C F tx' = Inr bs"
    and "tx_Type (GetAbstractTransaction tx) \<noteq> ET_NetworkConfigEntityType"
    and "tx_Type (GetAbstractTransaction tx) \<noteq> ET_BlockchainUpgrade"
  shows "unat (tx_MaxFee (GetAbstractTransaction tx')) =
      min (length bs * unat (cfg_FeeCalculationStrategy cfg)) (unat DefaultMaxFee)"
proof -
  have w: "wire_bytes C tx' = Inr bs" using assms(5) generateBytes_eq [OF assms(1,3)] by simp
  have len: "length bs = Tx_Size C tx" using wire_bytes_length [OF assms(4) w] assms(2) by simp
  have "length bs < 2 ^ 31" using fits_within [OF assms(3)] w by (simp add: within_def wire_limit_def)
  from modifyTransaction_fee [OF assms(6,7) this [unfolded len], of cfg]
  have fee: "tx_MaxFee (GetAbstractTransaction tx') =
      word_of_nat (min (length bs * unat (cfg_FeeCalculationStrategy cfg)) 5000000)"
    by (simp add: assms(2) len)
  have "unat (word_of_nat n :: u64) = n" if "n \<le> 5000000" for n
    using that by (intro unat_word_of_nat) simp
  then show ?thesis by (simp add: fee DefaultMaxFee_def)
qed

definition sample_config :: Config where
  "sample_config = \<lparr>cfg_BaseURLs = [\<lparr>url_Scheme = ''http'', url_Host = ''a'', url_Path = [], url_RawQuery = []\<rparr>],
     cfg_UsedBaseUrl = 0, cfg_WsReconnectionTimeout = 5, cfg_GenerationHash = None, cfg_NetworkType = MijinTest,
     cfg_FeeCalculationStrategy = DefaultFeeCalculationStrategy\<rparr>"

definition sample_fee_transfer :: Transaction where
  "sample_fee_transfer = modifyTransaction sample_crypto sample_config sample_transfer"

lemma client_fee_witness:
  "\<exists>bs. generateBytes sample_crypto reference_builder sample_fee_transfer = Inr bs \<and> length bs = 169
     \<and> unat (tx_MaxFee (GetAbstractTransaction sample_fee_transfer)) = 42250"
proof -
  obtain s where s: "wire_bytes sample_crypto sample_transfer = Inr s" "length s = 169"
    using sample_transfer_bytes by blast
  have sz: "Tx_Size sample_crypto sample_transfer = 169"
    using wire_bytes_length [OF sample_facts(2) s(1)] s(2) by simp
  have ty: "tx_Type (GetAbstractTransaction sample_transfer) \<noteq> ET_NetworkConfigEntityType"
    "tx_Type (GetAbstractTransaction sample_transfer) \<noteq> ET_BlockchainUpgrade"
    by (simp_all add: sample_transfer_def go_consts)
  have tx: "sample_fee_transfer = SetAbstractTransaction ((GetAbstractTransaction sample_transfer)\<lparr>tx_MaxFee := 42250\<rparr>) sample_transfer"
    using modifyTransaction_fee [OF ty, of sample_crypto sample_config] sz
    by (simp add: sample_fee_transfer_def sample_config_def DefaultFeeCalculationStrategy_def MiddleCalculationStrategy_def)
  have wv: "wire_version (a\<lparr>tx_MaxFee := f\<rparr>) = wire_version a" for a f
    by (simp add: wire_version_def)
  then obtain bs where bs: "wire_bytes sample_crypto sample_fee_transfer = Inr bs" "length bs = 169"
    by (simp add: tx sample_transfer_def sample_address_def sample_decode wire_with_def wire_header_def sample_header [unfolded go_consts]
      TransferTransaction_Size_def TransferTransaction_MessageSize_def NewPlainMessage_def go_sizes go_consts mosaic_wire_def)
  have fits: "fits sample_crypto sample_fee_transfer"
    using bs by (simp add: tx sample_transfer_def within_def wire_limit_def del: wire_bytes.simps)
  have sized: "sized sample_crypto sample_fee_transfer"
    using sample_facts(2) by (simp add: tx sample_transfer_def header_full_def wv TransferTransaction_Size_def TransferTransaction_MessageSize_def)
  have "generateBytes sample_crypto reference_builder sample_fee_transfer = Inr bs"
    using generateBytes_eq [OF reference.flatbuffers_axioms fits] bs(1) by simp
  with client_fee [OF reference.flatbuffers_axioms sample_fee_transfer_def fits sized this ty] bs(2) show ?thesis
    by (simp add: sample_config_def DefaultFeeCalculationStrategy_def MiddleCalculationStrategy_def DefaultMaxFee_def)
qed

section \<open>Requests\<close>

text \<open>
  C19. A request goes to the node in use; only when that one cannot be reached do the others get it, in their order,
  and the first that answers is the one in use from then on. If no answer comes, the configuration is as before, and
  either the error is not one of the connection or every other node has failed too.
\<close>

theorem request_fails_over:
  assumes "config_ok cfg" "doNewRequest doRequest cfg = (cfg', r)"
  shows "config_ok cfg' \<and>
    (case r of
       Inr x \<Rightarrow> doRequest (url_Host (used_url cfg')) = Inr x
         \<and> (cfg' \<noteq> cfg \<longrightarrow>
              (\<forall>u < cfg_UsedBaseUrl cfg'. is_fail (doRequest (url_Host (cfg_BaseURLs cfg ! u)))))
     | Inl e \<Rightarrow> cfg' = cfg \<and> is_fail (doRequest (url_Host (used_url cfg)))
         \<and> ((\<exists>d. doRequest (url_Host (used_url cfg)) = Inl (UrlError d)) \<longrightarrow>
              (\<forall>u < length (cfg_BaseURLs cfg). is_fail (doRequest (url_Host (cfg_BaseURLs cfg ! u))))))"
proof (cases "doRequest (url_Host (used_url cfg))")
  case (Inr x)
  with assms(2) have "cfg' = cfg" "r = Inr x" by (simp_all add: doNewRequest_def)
  with Inr assms(1) show ?thesis by simp
next
  case (Inl e)
  show ?thesis
  proof (cases "\<exists>d. e = UrlError d")
    case False
    with Inl assms(2) have "cfg' = cfg" "r = Inl e" by (cases e; simp add: doNewRequest_def)+
    with False Inl assms(1) show ?thesis by simp
  next
    case True
    then obtain d where d: "e = UrlError d" ..
    with assms(2) Inl have t: "try_others doRequest cfg (UrlError d) [0..<length (cfg_BaseURLs cfg)] = (cfg', r)"
      by (simp add: doNewRequest_def)
    show ?thesis
    proof (cases r)
      case r: (Inl e')
      have all: "cfg' = cfg" "\<forall>v < length (cfg_BaseURLs cfg). v \<noteq> cfg_UsedBaseUrl cfg \<longrightarrow> is_fail (doRequest (url_Host (cfg_BaseURLs cfg ! v)))"
        using try_others_Inl [OF t [unfolded r]] by auto
      moreover have "is_fail (doRequest (url_Host (cfg_BaseURLs cfg ! cfg_UsedBaseUrl cfg)))"
        using Inl by (simp add: used_url_def)
      ultimately show ?thesis using assms(1) r Inl by (auto simp: used_url_def)
    next
      case r: (Inr x)
      from try_others_Inr [OF t [unfolded r]] obtain vs u ws where u:
        "[0..<length (cfg_BaseURLs cfg)] = vs @ u # ws" "cfg' = cfg\<lparr>cfg_UsedBaseUrl := u\<rparr>" "u \<noteq> cfg_UsedBaseUrl cfg"
        "doRequest (url_Host (cfg_BaseURLs cfg ! u)) = Inr x"
        "\<forall>v \<in> set vs. v \<noteq> cfg_UsedBaseUrl cfg \<longrightarrow> is_fail (doRequest (url_Host (cfg_BaseURLs cfg ! v)))"
        by blast
      have vs: "vs = [0..<u]" "u < length (cfg_BaseURLs cfg)"
        using upt_split [OF u(1)] by simp_all
      have "is_fail (doRequest (url_Host (cfg_BaseURLs cfg ! v)))" if "v < u" for v
        using u(5) Inl that by (cases "v = cfg_UsedBaseUrl cfg") (auto simp: vs(1) used_url_def)
      with r u vs(2) show ?thesis by (auto simp: used_url_def config_ok_def)
    qed
  qed
qed

definition sample_nodes :: Config where
  "sample_nodes = sample_config\<lparr>cfg_BaseURLs := cfg_BaseURLs sample_config @
     [\<lparr>url_Scheme = ''http'', url_Host = ''b'', url_Path = [], url_RawQuery = []\<rparr>]\<rparr>"

definition sample_request :: "string \<Rightarrow> request_error + nat" where
  "sample_request host = (if host = ''b'' then Inr 5 else Inl (UrlError ''refused''))"

lemma request_fails_over_witness:
  "doNewRequest sample_request sample_nodes = (sample_nodes\<lparr>cfg_UsedBaseUrl := 1\<rparr>, Inr 5)
   \<and> config_ok (sample_nodes\<lparr>cfg_UsedBaseUrl := 1\<rparr>)
   \<and> sample_request (url_Host (used_url (sample_nodes\<lparr>cfg_UsedBaseUrl := 1\<rparr>))) = Inr 5"
proof -
  have r: "doNewRequest sample_request sample_nodes = (sample_nodes\<lparr>cfg_UsedBaseUrl := 1\<rparr>, Inr 5)"
    by (simp add: doNewRequest_def sample_request_def sample_nodes_def sample_config_def used_url_def upt_rec)
  have "config_ok sample_nodes" by (simp add: config_ok_def sample_nodes_def sample_config_def)
  from request_fails_over [OF this r] r show ?thesis by simp
qed

end
