(* ===== verification/Metadata.thy ===== *)
theory Metadata
  imports TxDto "HOL-Library.AList"
begin

text \<open>
  The metadata of addresses, mosaics and namespaces (\<open>sdk/metadata_model.go\<close>, \<open>sdk/metadata_internal.go\<close>) and the contracts
  (\<open>sdk/contract_model.go\<close>, \<open>sdk/contract_internal.go\<close>) in the form the server reports and as the SDK returns them. The fields
  of an entry are collected into a Go map, here the list of its entries. The embedded structure \<open>MetadataInfo\<close> is a
  record the others extend.
\<close>

section \<open>Metadata\<close>

record MetadataInfo =
  mi_MetadataType :: MetadataType
  mi_Fields :: "(string \<times> string) list"

record AddressMetadataInfo = MetadataInfo +
  ami_Address :: "Address option"

record MosaicMetadataInfo = MetadataInfo +
  mmi_MosaicId :: MosaicId

record NamespaceMetadataInfo = MetadataInfo +
  nmi_NamespaceId :: NamespaceId

type_synonym metadataFieldDTO = "string \<times> string"

record metadataInfoDTO =
  mid_MetadataType :: MetadataType
  mid_Fields :: "metadataFieldDTO list"

record addressMetadataInfoDTO = metadataInfoDTO +
  amid_Address :: string

record mosaicMetadataInfoDTO = metadataInfoDTO +
  mmid_MosaicId :: uint64DTO

record namespaceMetadataInfoDTO = metadataInfoDTO +
  nmid_NamespaceId :: uint64DTO

text \<open>The loop over the fields, and the structure it ends with.\<close>

fun metadata_fields :: "metadataFieldDTO list \<Rightarrow> (string \<times> string) list \<Rightarrow> (string \<times> string) list" where
  "metadata_fields [] m = m"
| "metadata_fields ((k, v) # fs) m = metadata_fields fs (AList.update k v m)"

definition metadataInfoDTO_toStruct :: "'x metadataInfoDTO_scheme \<Rightarrow> MetadataInfo result" where
  "metadataInfoDTO_toStruct ref =
     Inr \<lparr>mi_MetadataType = mid_MetadataType ref, mi_Fields = metadata_fields (mid_Fields ref) []\<rparr>"

definition addressMetadataInfoDTO_toStruct :: "addressMetadataInfoDTO \<Rightarrow> AddressMetadataInfo result" where
  "addressMetadataInfoDTO_toStruct ref =
     res_bind (metadataInfoDTO_toStruct ref) (\<lambda>metadataInfo.
     res_bind (if length (amid_Address ref) \<noteq> 0 then res_map Some (NewAddressFromBase32 (amid_Address ref)) else Inr None) (\<lambda>a.
       Inr (MetadataInfo.extend metadataInfo \<lparr>ami_Address = a\<rparr>)))"

definition mosaicMetadataInfoDTO_toStruct :: "mosaicMetadataInfoDTO \<Rightarrow> MosaicMetadataInfo result" where
  "mosaicMetadataInfoDTO_toStruct ref =
     res_bind (metadataInfoDTO_toStruct ref) (\<lambda>metadataInfo.
     res_bind (mosaicIdDTO_toStruct (mmid_MosaicId ref)) (\<lambda>mosaicId.
       Inr (MetadataInfo.extend metadataInfo \<lparr>mmi_MosaicId = mosaicId\<rparr>)))"

definition namespaceMetadataInfoDTO_toStruct :: "namespaceMetadataInfoDTO \<Rightarrow> NamespaceMetadataInfo result" where
  "namespaceMetadataInfoDTO_toStruct ref =
     res_bind (metadataInfoDTO_toStruct ref) (\<lambda>metadataInfo.
     res_bind (namespaceIdDTO_toStruct (nmid_NamespaceId ref)) (\<lambda>namespaceId.
       Inr (MetadataInfo.extend metadataInfo \<lparr>nmi_NamespaceId = namespaceId\<rparr>)))"

definition addressMetadataInfoDTOs_toStruct :: "addressMetadataInfoDTO list \<Rightarrow> AddressMetadataInfo list result" where
  "addressMetadataInfoDTOs_toStruct dtos = mapR addressMetadataInfoDTO_toStruct dtos"

definition mosaicMetadataInfoDTOs_toStruct :: "mosaicMetadataInfoDTO list \<Rightarrow> MosaicMetadataInfo list result" where
  "mosaicMetadataInfoDTOs_toStruct dtos = mapR mosaicMetadataInfoDTO_toStruct dtos"

definition namespaceMetadataInfoDTOs_toStruct :: "namespaceMetadataInfoDTO list \<Rightarrow> NamespaceMetadataInfo list result" where
  "namespaceMetadataInfoDTOs_toStruct dtos = mapR namespaceMetadataInfoDTO_toStruct dtos"

text \<open>The structures before anything is decoded into them.\<close>

definition zero_addressMetadataInfoDTO :: addressMetadataInfoDTO where
  "zero_addressMetadataInfoDTO = \<lparr>mid_MetadataType = 0, mid_Fields = [], amid_Address = []\<rparr>"

definition zero_mosaicMetadataInfoDTO :: mosaicMetadataInfoDTO where
  "zero_mosaicMetadataInfoDTO = \<lparr>mid_MetadataType = 0, mid_Fields = [], mmid_MosaicId = (0, 0)\<rparr>"

definition zero_namespaceMetadataInfoDTO :: namespaceMetadataInfoDTO where
  "zero_namespaceMetadataInfoDTO = \<lparr>mid_MetadataType = 0, mid_Fields = [], nmid_NamespaceId = (0, 0)\<rparr>"

section \<open>Contracts\<close>

record contractInfoDTO =
  cid_Multisig :: string
  cid_MultisigAddress :: string
  cid_Start :: uint64DTO
  cid_Duration :: uint64DTO
  cid_Hash :: string
  cid_Customers :: "string list"
  cid_Executors :: "string list"
  cid_Verifiers :: "string list"

record ContractInfo =
  coi_Multisig :: string
  coi_MultisigAddress :: Address
  coi_Start :: Height
  coi_Duration :: Duration
  coi_Content :: "Hash option"
  coi_Customers :: "string list"
  coi_Executors :: "string list"
  coi_Verifiers :: "string list"

definition contractInfoDTO_toStruct :: "contractInfoDTO \<Rightarrow> NetworkType \<Rightarrow> ContractInfo result" where
  "contractInfoDTO_toStruct contract networkType =
     res_bind (hashDto_Hash (cid_Hash contract)) (\<lambda>hash.
     res_bind (uint64DTO_toStruct (cid_Start contract)) (\<lambda>start.
     res_bind (uint64DTO_toStruct (cid_Duration contract)) (\<lambda>duration.
       Inr \<lparr>coi_Multisig = cid_Multisig contract,
            coi_MultisigAddress = NewAddress (cid_MultisigAddress contract) networkType,
            coi_Start = start, coi_Duration = duration, coi_Content = hash,
            coi_Customers = cid_Customers contract, coi_Executors = cid_Executors contract,
            coi_Verifiers = cid_Verifiers contract\<rparr>)))"

definition contractInfoDTOs_toStruct :: "contractInfoDTO list \<Rightarrow> NetworkType \<Rightarrow> ContractInfo list result" where
  "contractInfoDTOs_toStruct dtos networkType = mapR (\<lambda>dto. contractInfoDTO_toStruct dto networkType) dtos"

section \<open>The fields\<close>

lemma map_of_metadata_fields: "map_of (metadata_fields fs m) = map_of m ++ map_of (rev fs)"
proof (induction fs m rule: metadata_fields.induct)
  case (2 k v fs m)
  then show ?case
    by (simp add: update_conv') (simp add: map_add_def fun_eq_iff split: option.splits)
qed simp

lemma distinct_metadata_fields: "distinct (map fst m) \<Longrightarrow> distinct (map fst (metadata_fields fs m))"
  by (induction fs m rule: metadata_fields.induct) (auto simp: distinct_update)

lemma metadata_lookup:
  assumes "metadataInfoDTO_toStruct dto = Inr info"
  shows "distinct (map fst (mi_Fields info)) \<and> map_of (mi_Fields info) = map_of (rev (mid_Fields dto))"
  using assms
  by (auto simp: metadataInfoDTO_toStruct_def map_of_metadata_fields distinct_metadata_fields)

lemma toUint64_zero [simp]: "uint64DTO_toUint64 (0, 0) = Inr 0"
  by code_simp

lemma zero_dtos [simp]:
  "addressMetadataInfoDTO_toStruct zero_addressMetadataInfoDTO = Inr \<lparr>mi_MetadataType = 0, mi_Fields = [], ami_Address = None\<rparr>"
  "mosaicMetadataInfoDTO_toStruct zero_mosaicMetadataInfoDTO =
     Inr \<lparr>mi_MetadataType = 0, mi_Fields = [], mmi_MosaicId = newMosaicIdPanic 0\<rparr>"
  "namespaceMetadataInfoDTO_toStruct zero_namespaceMetadataInfoDTO =
     Inr \<lparr>mi_MetadataType = 0, mi_Fields = [], nmi_NamespaceId = newNamespaceIdPanic 0\<rparr>"
  by (simp_all add: addressMetadataInfoDTO_toStruct_def mosaicMetadataInfoDTO_toStruct_def
      namespaceMetadataInfoDTO_toStruct_def metadataInfoDTO_toStruct_def zero_addressMetadataInfoDTO_def
      zero_mosaicMetadataInfoDTO_def zero_namespaceMetadataInfoDTO_def mosaicIdDTO_toStruct_def namespaceIdDTO_toStruct_def
      NewMosaicId_def NewNamespaceId_def hasBits_def NamespaceBit_def MetadataInfo.defs)

end
