(* ===== verification/Namespaces.thy ===== *)
theory Namespaces
  imports SdkClient
begin

text \<open>
  Following the parents of a namespace (\<open>sdk/namespace.go\<close>) and resolving identifiers to mosaics
  (\<open>sdk/resolver.go\<close>). The requests themselves are parameters: \<open>fetch\<close> is the part of
  \<open>GetNamespaceInfo\<close> that asks the server and converts the answer, \<open>getMosaic\<close> and \<open>getMosaics\<close> are the
  operations of \<open>MosaicService\<close>. Every request for a namespace is logged.
\<close>

section \<open>Requests for namespaces\<close>

definition namespace_request ::
  "'k crypto \<Rightarrow> (NamespaceId \<Rightarrow> (http_response \<times> namespaceInfoDTO) result) \<Rightarrow> NamespaceId \<Rightarrow> NamespaceInfo result" where
  "namespace_request C send nsId =
     res_bind (send nsId) (\<lambda>(resp, dto).
     res_bind (handleResponseStatusCode (Some resp) (Some [(404, ErrResourceNotFound), (409, ErrArgumentNotValid)])) (\<lambda>_.
       namespaceInfoDTO_toStruct C dto))"

text \<open>
  A namespace with the one its \<open>Parent\<close> points to: after the conversion that is a structure with nothing but
  the identifier, once the hierarchy is built it is the parent's own.
\<close>

datatype NamespaceTree = ParentStub NamespaceId | FullNamespace NamespaceInfo "NamespaceTree option"

fun tree_id :: "NamespaceTree \<Rightarrow> NamespaceId" where
  "tree_id (ParentStub n) = n"
| "tree_id (FullNamespace i p) = ni_NamespaceId i"

fun tree_parent :: "NamespaceTree \<Rightarrow> NamespaceTree option" where
  "tree_parent (ParentStub n) = None"
| "tree_parent (FullNamespace i p) = p"

fun set_parent :: "NamespaceTree \<Rightarrow> NamespaceTree \<Rightarrow> NamespaceTree" where
  "set_parent p (ParentStub n) = ParentStub n"
| "set_parent p (FullNamespace i _) = FullNamespace i (Some p)"

definition fresh_tree :: "NamespaceInfo \<Rightarrow> NamespaceTree" where
  "fresh_tree i = FullNamespace i (map_option ParentStub (ni_Parent i))"

text \<open>
  \<open>GetNamespaceInfo\<close> and \<open>buildNamespaceHierarchy\<close> call each other without a bound; the first argument is fuel, and
  None says that it did not suffice.
\<close>

fun GetNamespaceInfo_loop ::
    "nat \<Rightarrow> (NamespaceId \<Rightarrow> NamespaceInfo result) \<Rightarrow> NamespaceId \<Rightarrow> NamespaceId list \<Rightarrow> (NamespaceTree result \<times> NamespaceId list) option"
  and buildNamespaceHierarchy ::
    "nat \<Rightarrow> (NamespaceId \<Rightarrow> NamespaceInfo result) \<Rightarrow> NamespaceTree \<Rightarrow> NamespaceId list \<Rightarrow> (NamespaceTree result \<times> NamespaceId list) option"
where
  "GetNamespaceInfo_loop 0 fetch nsId log = None"
| "GetNamespaceInfo_loop (Suc n) fetch nsId log =
     (case fetch nsId of
        Inl e \<Rightarrow> Some (Inl e, log @ [nsId])
      | Inr info \<Rightarrow> buildNamespaceHierarchy n fetch (fresh_tree info) (log @ [nsId]))"
| "buildNamespaceHierarchy 0 fetch nsInfo log = None"
| "buildNamespaceHierarchy (Suc n) fetch nsInfo log =
     (case tree_parent nsInfo of
        None \<Rightarrow> Some (Inr nsInfo, log)
      | Some parent \<Rightarrow>
          if namespaceId_baseInt64 (tree_id parent) = 0 then Some (Inr nsInfo, log)
          else (case GetNamespaceInfo_loop n fetch (tree_id parent) log of
              None \<Rightarrow> None
            | Some (Inl e, log) \<Rightarrow> Some (Inl e, log)
            | Some (Inr parentNsInfo, log) \<Rightarrow>
                (case buildNamespaceHierarchy n fetch parentNsInfo log of
                   None \<Rightarrow> None
                 | Some (Inl e, log) \<Rightarrow> Some (Inl e, log)
                 | Some (Inr p, log) \<Rightarrow> Some (Inr (set_parent p nsInfo), log))))"

definition GetNamespaceInfo ::
  "nat \<Rightarrow> (NamespaceId \<Rightarrow> NamespaceInfo result) \<Rightarrow> NamespaceId option \<Rightarrow> (NamespaceTree result \<times> NamespaceId list) option" where
  "GetNamespaceInfo fuel fetch nsId =
     (case nsId of None \<Rightarrow> Some (Inl ErrNilNamespaceId, []) | Some nsId \<Rightarrow> GetNamespaceInfo_loop fuel fetch nsId [])"

definition tree_info :: "NamespaceTree \<Rightarrow> NamespaceInfo result" where
  "tree_info t = (case t of ParentStub _ \<Rightarrow> Inl Panicked | FullNamespace i _ \<Rightarrow> Inr i)"

text \<open>\<open>info\<close> is what \<open>GetNamespaceInfo\<close> returns.\<close>

definition GetLinkedMosaicId :: "NamespaceInfo result \<Rightarrow> NamespaceId option \<Rightarrow> MosaicId option result" where
  "GetLinkedMosaicId info namespaceId =
     (case namespaceId of None \<Rightarrow> Inl ErrNilAddress
      | Some _ \<Rightarrow> res_map (\<lambda>info. na_mosaicId (ni_Alias info)) info)"

definition GetLinkedAddress :: "NamespaceInfo result \<Rightarrow> NamespaceId option \<Rightarrow> Address option result" where
  "GetLinkedAddress info namespaceId =
     (case namespaceId of None \<Rightarrow> Inl ErrNilAddress
      | Some _ \<Rightarrow> res_map (\<lambda>info. na_address (ni_Alias info)) info)"

section \<open>Resolving mosaics\<close>

definition GetMosaicInfoByAssetId ::
  "(NamespaceId \<Rightarrow> NamespaceInfo result) \<Rightarrow> (MosaicId \<Rightarrow> MosaicInfo result) \<Rightarrow> AssetId option \<Rightarrow> MosaicInfo result" where
  "GetMosaicInfoByAssetId getNamespace getMosaic assetId =
     (case assetId of
        None \<Rightarrow> Inl ErrNilAssetId
      | Some (NamespaceAsset namespaceId) \<Rightarrow>
          res_bind (getNamespace namespaceId) (\<lambda>namespaceInfo.
            case na_mosaicId (ni_Alias namespaceInfo) of
              None \<Rightarrow> Inl (NewError ''Namespace is not aliased to Mosaic'')
            | Some mosaicId \<Rightarrow> getMosaic mosaicId)
      | Some (MosaicAsset mosaicId) \<Rightarrow> getMosaic mosaicId)"

text \<open>The loop that sorts the identifiers; a nil one ends it.\<close>

fun sort_assets :: "AssetId option list \<Rightarrow> NamespaceId list \<Rightarrow> MosaicId list \<Rightarrow> (NamespaceId list \<times> MosaicId list) result" where
  "sort_assets [] namespaceIds mosaicIds = Inr (namespaceIds, mosaicIds)"
| "sort_assets (assetId # assetIds) namespaceIds mosaicIds =
     (case assetId of
        None \<Rightarrow> Inl ErrNilAssetId
      | Some (NamespaceAsset namespaceId) \<Rightarrow> sort_assets assetIds (namespaceIds @ [namespaceId]) mosaicIds
      | Some (MosaicAsset mosaicId) \<Rightarrow> sort_assets assetIds namespaceIds (mosaicIds @ [mosaicId]))"

text \<open>The result starts as a list of nil pointers, one for every identifier.\<close>

definition GetMosaicInfosByAssetIds ::
  "(NamespaceId \<Rightarrow> NamespaceInfo result) \<Rightarrow> (MosaicId \<Rightarrow> MosaicInfo result) \<Rightarrow> (MosaicId list \<Rightarrow> MosaicInfo list result)
   \<Rightarrow> AssetId option list \<Rightarrow> MosaicInfo option list result" where
  "GetMosaicInfosByAssetIds getNamespace getMosaic getMosaics assetIds =
     (if length assetIds = 0 then Inl ErrEmptyAssetIds
      else
        let mosaicInfos = replicate (length assetIds) None in
        res_bind (sort_assets assetIds [] []) (\<lambda>(namespaceIds, mosaicIds).
        res_bind (if length mosaicIds > 0 then res_map (map Some) (getMosaics mosaicIds) else Inr mosaicInfos) (\<lambda>mosaicInfos.
        res_bind (mapR (\<lambda>n. GetMosaicInfoByAssetId getNamespace getMosaic (Some (NamespaceAsset n))) namespaceIds) (\<lambda>infos.
          Inr (mosaicInfos @ map Some infos)))))"

section \<open>Hierarchies\<close>

text \<open>
  \<open>chain fetch n is\<close>: the server answers with the namespaces \<open>is\<close> when it is asked for \<open>n\<close>, for its parent, and so on up to
  a root.
\<close>

fun chain :: "(NamespaceId \<Rightarrow> NamespaceInfo result) \<Rightarrow> NamespaceId \<Rightarrow> NamespaceInfo list \<Rightarrow> bool" where
  "chain fetch n [] \<longleftrightarrow> False"
| "chain fetch n [i] \<longleftrightarrow> fetch n = Inr i \<and> ni_NamespaceId i = n \<and> ni_Parent i = None"
| "chain fetch n (i # is) \<longleftrightarrow> fetch n = Inr i \<and> ni_NamespaceId i = n
     \<and> (\<exists>p. ni_Parent i = Some p \<and> namespaceId_baseInt64 p \<noteq> 0 \<and> chain fetch p is)"

fun hierarchy :: "NamespaceInfo list \<Rightarrow> NamespaceTree" where
  "hierarchy [] = undefined"
| "hierarchy [i] = FullNamespace i None"
| "hierarchy (i # is) = FullNamespace i (Some (hierarchy is))"

lemma tree_id_hierarchy: "chain fetch n is \<Longrightarrow> tree_id (hierarchy is) = n"
  by (cases "is" rule: hierarchy.cases) auto

text \<open>
  Building depends on the parent's identifier only, so that a second run over a hierarchy that is
  already built asks for everything again: \<open>2 ^ k\<close> requests for \<open>k\<close> ancestors.
\<close>

lemma build_chain:
  assumes "chain fetch n (i # is)" "2 * length is < fuel" "t = fresh_tree i \<or> t = hierarchy (i # is)"
  shows "\<exists>l. buildNamespaceHierarchy fuel fetch t log = Some (Inr (hierarchy (i # is)), log @ l)
    \<and> length l = 2 ^ length is - 1"
  using assms
proof (induction "is" arbitrary: n i t fuel log)
  case Nil
  then show ?case by (cases fuel) (auto simp: fresh_tree_def)
next
  case (Cons j js)
  from Cons.prems(1) obtain p where p: "fetch n = Inr i" "ni_Parent i = Some p" "namespaceId_baseInt64 p \<noteq> 0" "chain fetch p (j # js)"
    by auto
  from Cons.prems(2) obtain f where f: "fuel = Suc (Suc f)" "2 * length js < f"
    by (cases fuel; cases "fuel - 1") auto
  have j: "fetch p = Inr j" using p(4) by (cases js) auto
  have t: "\<exists>q. tree_parent t = Some q \<and> tree_id q = p" "set_parent x t = FullNamespace i (Some x)" for x
    using Cons.prems(3) p(2) tree_id_hierarchy [OF p(4)] by (auto simp: fresh_tree_def)
  obtain l1 where l1: "buildNamespaceHierarchy f fetch (fresh_tree j) (log @ [p]) = Some (Inr (hierarchy (j # js)), (log @ [p]) @ l1)"
    "length l1 = 2 ^ length js - 1"
    using Cons.IH [OF p(4) f(2), of "fresh_tree j" "log @ [p]"] by auto
  have "2 * length js < Suc f" using f(2) by simp
  then obtain l2 where l2: "buildNamespaceHierarchy (Suc f) fetch (hierarchy (j # js)) ((log @ [p]) @ l1) =
      Some (Inr (hierarchy (j # js)), ((log @ [p]) @ l1) @ l2)" "length l2 = 2 ^ length js - 1"
    using Cons.IH [OF p(4), of "Suc f" "hierarchy (j # js)" "(log @ [p]) @ l1"] by auto
  have "GetNamespaceInfo_loop (Suc f) fetch p log = Some (Inr (hierarchy (j # js)), (log @ [p]) @ l1)"
    using l1(1) j by simp
  with t(1) l2(1) p(3) have "buildNamespaceHierarchy fuel fetch t log =
      Some (Inr (set_parent (hierarchy (j # js)) t), log @ ([p] @ l1 @ l2))"
    by (auto simp: f(1) simp del: buildNamespaceHierarchy.simps GetNamespaceInfo_loop.simps hierarchy.simps
        simp add: buildNamespaceHierarchy.simps(2) [of "Suc f"])
  moreover have "length ([p] @ l1 @ l2) = 2 ^ length (j # js) - 1"
    using l1(2) l2(2) by (cases "2 ^ length js :: nat") simp_all
  ultimately show ?case by (simp add: t(2))
qed

lemma get_chain:
  assumes "chain fetch n is" "2 * length is \<le> fuel"
  shows "\<exists>l. GetNamespaceInfo_loop fuel fetch n log = Some (Inr (hierarchy is), log @ l) \<and> length l = 2 ^ (length is - 1)"
proof -
  from assms(1) obtain i js where "is": "is = i # js" by (cases "is") auto
  with assms(1) have i: "fetch n = Inr i" by (cases js) auto
  from assms(2) "is" obtain f where f: "fuel = Suc f" "2 * length js < f"
    by (cases fuel) auto
  obtain l where "buildNamespaceHierarchy f fetch (fresh_tree i) (log @ [n]) = Some (Inr (hierarchy (i # js)), (log @ [n]) @ l)"
    "length l = 2 ^ length js - 1"
    using build_chain [of fetch n i js f "fresh_tree i" "log @ [n]"] assms(1) "is" f by auto
  with i f(1) "is" show ?thesis
    by (intro exI [of _ "n # l"]) simp
qed

lemma circle_never_ends:
  assumes "\<And>n. \<exists>i p. fetch n = Inr i \<and> ni_Parent i = Some p \<and> namespaceId_baseInt64 p \<noteq> 0"
  shows "GetNamespaceInfo_loop fuel fetch n log = None
    \<and> ((\<exists>q. tree_parent t = Some q \<and> namespaceId_baseInt64 (tree_id q) \<noteq> 0) \<longrightarrow> buildNamespaceHierarchy fuel fetch t log = None)"
proof (induction fuel arbitrary: n t log)
  case (Suc fuel)
  obtain i p where i: "fetch n = Inr i" "ni_Parent i = Some p" "namespaceId_baseInt64 p \<noteq> 0"
    using assms by blast
  have "tree_parent (fresh_tree i) = Some (ParentStub p)" by (simp add: fresh_tree_def i(2))
  with i(3) have "buildNamespaceHierarchy fuel fetch (fresh_tree i) (log @ [n]) = None"
    using Suc.IH by auto
  with i(1) Suc.IH show ?case by auto
qed simp

section \<open>Properties\<close>

text \<open>
  C25. When the server's answers lead from a namespace to a root, \<open>GetNamespaceInfo\<close> returns, with the whole
  hierarchy; it asks \<open>2 ^ k\<close> times for a namespace with \<open>k\<close> ancestors. Twice the length of the chain is enough fuel.
\<close>

theorem namespace_hierarchy:
  assumes "chain fetch n is"
  shows "\<exists>requests. GetNamespaceInfo (2 * length is) fetch (Some n) = Some (Inr (hierarchy is), requests)
    \<and> length requests = 2 ^ (length is - 1)"
  using get_chain [OF assms order_refl, of "[]"] by (simp add: GetNamespaceInfo_def)

definition sample_alias :: NamespaceAlias where
  "sample_alias = \<lparr>na_mosaicId = Some (newMosaicIdPanic 7), na_address = None, na_Type = MosaicAliasType\<rparr>"

definition sample_namespace :: "u64 \<Rightarrow> NamespaceId option \<Rightarrow> NamespaceInfo" where
  "sample_namespace n p = \<lparr>ni_NamespaceId = \<lparr>namespaceId_baseInt64 = n\<rparr>, ni_Active = True, ni_TypeSpace = Root, ni_Depth = 1,
     ni_Levels = [], ni_Alias = sample_alias, ni_Parent = p,
     ni_Owner = \<lparr>pa_Address = \<lparr>addr_Type = 144, addr_Address = []\<rparr>, pa_PublicKey = []\<rparr>,
     ni_StartHeight = 1, ni_EndHeight = 2\<rparr>"

definition sample_fetch :: "NamespaceId \<Rightarrow> NamespaceInfo result" where
  "sample_fetch n =
     (if namespaceId_baseInt64 n = 3 then Inr (sample_namespace 3 (Some \<lparr>namespaceId_baseInt64 = 2\<rparr>))
      else if namespaceId_baseInt64 n = 2 then Inr (sample_namespace 2 (Some \<lparr>namespaceId_baseInt64 = 1\<rparr>))
      else Inr (sample_namespace 1 None))"

lemma namespace_hierarchy_witness:
  "\<exists>requests. GetNamespaceInfo 6 sample_fetch (Some \<lparr>namespaceId_baseInt64 = 3\<rparr>)
       = Some (Inr (hierarchy [sample_namespace 3 (Some \<lparr>namespaceId_baseInt64 = 2\<rparr>),
           sample_namespace 2 (Some \<lparr>namespaceId_baseInt64 = 1\<rparr>), sample_namespace 1 None]), requests)
     \<and> length requests = 4"
proof -
  let ?is = "[sample_namespace 3 (Some \<lparr>namespaceId_baseInt64 = 2\<rparr>),
      sample_namespace 2 (Some \<lparr>namespaceId_baseInt64 = 1\<rparr>), sample_namespace 1 None]"
  have "chain sample_fetch \<lparr>namespaceId_baseInt64 = 3\<rparr> ?is"
    by (simp add: sample_fetch_def sample_namespace_def)
  from namespace_hierarchy [OF this] show ?thesis by simp
qed

text \<open>
  C26. Nothing protects \<open>GetNamespaceInfo\<close> from a server whose answers have no root: it then asks for ever, whatever
  fuel it is given.
\<close>

theorem namespace_circle:
  assumes "\<And>n. \<exists>i p. fetch n = Inr i \<and> ni_Parent i = Some p \<and> namespaceId_baseInt64 p \<noteq> 0"
  shows "GetNamespaceInfo fuel fetch (Some n) = None"
  using circle_never_ends [OF assms] by (simp add: GetNamespaceInfo_def)

lemma namespace_circle_witness:
  "\<forall>fuel. GetNamespaceInfo fuel (\<lambda>n. Inr (sample_namespace 1 (Some \<lparr>namespaceId_baseInt64 = 1\<rparr>))) (Some \<lparr>namespaceId_baseInt64 = 1\<rparr>) = None"
  by (intro allI namespace_circle) (simp add: sample_namespace_def)

lemma sort_assets_eq:
  "sort_assets (map Some assets) ns ms =
     Inr (ns @ concat (map (\<lambda>a. case a of NamespaceAsset n \<Rightarrow> [n] | MosaicAsset _ \<Rightarrow> []) assets),
          ms @ concat (map (\<lambda>a. case a of NamespaceAsset _ \<Rightarrow> [] | MosaicAsset m \<Rightarrow> [m]) assets))"
  by (induction assets arbitrary: ns ms) (auto split: AssetId.split)

definition namespaces_of :: "AssetId list \<Rightarrow> NamespaceId list" where
  "namespaces_of assets = concat (map (\<lambda>a. case a of NamespaceAsset n \<Rightarrow> [n] | MosaicAsset _ \<Rightarrow> []) assets)"

definition mosaics_of :: "AssetId list \<Rightarrow> MosaicId list" where
  "mosaics_of assets = concat (map (\<lambda>a. case a of NamespaceAsset _ \<Rightarrow> [] | MosaicAsset m \<Rightarrow> [m]) assets)"

lemma resolve_namespaces:
  assumes "\<And>n. n \<in> set ns \<Longrightarrow> getNamespace n = Inr (answer n)"
    and "\<And>n m. n \<in> set ns \<Longrightarrow> na_mosaicId (ni_Alias (answer n)) = Some m \<Longrightarrow> getMosaic m = Inr (info m)"
  shows "mapR (\<lambda>n. GetMosaicInfoByAssetId getNamespace getMosaic (Some (NamespaceAsset n))) ns =
    (if \<exists>n \<in> set ns. na_mosaicId (ni_Alias (answer n)) = None then Inl (NewError ''Namespace is not aliased to Mosaic'')
     else Inr (map (\<lambda>n. info (the (na_mosaicId (ni_Alias (answer n))))) ns))"
  using assms
proof (induction ns)
  case (Cons n ns)
  let ?get = "\<lambda>n. GetMosaicInfoByAssetId getNamespace getMosaic (Some (NamespaceAsset n))"
  have "mapR ?get ns = (if \<exists>n \<in> set ns. na_mosaicId (ni_Alias (answer n)) = None then Inl (NewError ''Namespace is not aliased to Mosaic'')
     else Inr (map (\<lambda>n. info (the (na_mosaicId (ni_Alias (answer n))))) ns))"
    using Cons.prems by (intro Cons.IH) auto
  moreover have "?get n = (case na_mosaicId (ni_Alias (answer n)) of None \<Rightarrow> Inl (NewError ''Namespace is not aliased to Mosaic'')
      | Some m \<Rightarrow> Inr (info m))"
    using Cons.prems by (auto simp: GetMosaicInfoByAssetId_def split: option.split)
  ultimately show ?case by (cases "na_mosaicId (ni_Alias (answer n))") auto
qed simp

text \<open>
  C40. Resolving a list of identifiers, when the server answers for its namespaces, for the mosaics they are aliased to and for
  the mosaics of the list: what the server knows of the mosaics among them, then for every namespace in its
  place the mosaic it is aliased to; but when there is no mosaic among them the list begins with a nil
  pointer for every identifier. When one of the namespaces is not aliased to a mosaic, there is no list but an error.
\<close>

theorem resolve_mosaics:
  assumes "assets \<noteq> []"
    and "\<And>n. n \<in> set (namespaces_of assets) \<Longrightarrow> getNamespace n = Inr (answer n)"
    and "\<And>n m. n \<in> set (namespaces_of assets) \<Longrightarrow> na_mosaicId (ni_Alias (answer n)) = Some m \<Longrightarrow> getMosaic m = Inr (info m)"
    and "mosaics_of assets \<noteq> [] \<Longrightarrow> getMosaics (mosaics_of assets) = Inr infos"
  shows "GetMosaicInfosByAssetIds getNamespace getMosaic getMosaics (map Some assets) =
    (if \<exists>n \<in> set (namespaces_of assets). na_mosaicId (ni_Alias (answer n)) = None
     then Inl (NewError ''Namespace is not aliased to Mosaic'')
     else Inr ((if mosaics_of assets = [] then replicate (length assets) None else map Some infos)
      @ map (\<lambda>n. Some (info (the (na_mosaicId (ni_Alias (answer n)))))) (namespaces_of assets)))"
proof -
  have "mapR (\<lambda>n. GetMosaicInfoByAssetId getNamespace getMosaic (Some (NamespaceAsset n))) (namespaces_of assets) =
      (if \<exists>n \<in> set (namespaces_of assets). na_mosaicId (ni_Alias (answer n)) = None
       then Inl (NewError ''Namespace is not aliased to Mosaic'')
       else Inr (map (\<lambda>n. info (the (na_mosaicId (ni_Alias (answer n))))) (namespaces_of assets)))"
    using assms(2,3) by (intro resolve_namespaces)
  with assms(1,4) show ?thesis
    by (auto simp: GetMosaicInfosByAssetIds_def sort_assets_eq Let_def comp_def simp flip: namespaces_of_def mosaics_of_def)
qed

definition sample_mosaic :: "MosaicId \<Rightarrow> MosaicInfo" where
  "sample_mosaic m = \<lparr>mi_MosaicId = m, mi_Supply = 9, mi_Height = 1,
     mi_Owner = \<lparr>pa_Address = \<lparr>addr_Type = 144, addr_Address = []\<rparr>, pa_PublicKey = []\<rparr>, mi_Revision = 1,
     mi_Properties = \<lparr>mps_SupplyMutable = True, mps_Transferable = True, mps_Divisibility = 0, mps_OptionalProperties = []\<rparr>\<rparr>"

lemma resolve_mosaics_witness:
  "GetMosaicInfosByAssetIds sample_fetch (\<lambda>m. Inr (sample_mosaic m)) (\<lambda>ms. Inr (map sample_mosaic ms))
     (map Some [NamespaceAsset \<lparr>namespaceId_baseInt64 = 1\<rparr>]) = Inr [None, Some (sample_mosaic (newMosaicIdPanic 7))]
   \<and> GetMosaicInfosByAssetIds sample_fetch (\<lambda>m. Inr (sample_mosaic m)) (\<lambda>ms. Inr (map sample_mosaic ms))
     (map Some [NamespaceAsset \<lparr>namespaceId_baseInt64 = 1\<rparr>, MosaicAsset (newMosaicIdPanic 5)]) =
       Inr [Some (sample_mosaic (newMosaicIdPanic 5)), Some (sample_mosaic (newMosaicIdPanic 7))]"
proof -
  have fetch: "\<exists>i. sample_fetch n = Inr i \<and> na_mosaicId (ni_Alias i) = Some (newMosaicIdPanic 7)" for n
    by (simp add: sample_fetch_def sample_namespace_def sample_alias_def)
  then obtain answer where answer: "\<And>n. sample_fetch n = Inr (answer n)"
      "\<And>n. na_mosaicId (ni_Alias (answer n)) = Some (newMosaicIdPanic 7)"
    by metis
  have "GetMosaicInfosByAssetIds sample_fetch (\<lambda>m. Inr (sample_mosaic m)) (\<lambda>ms. Inr (map sample_mosaic ms)) (map Some assets) =
      Inr ((if mosaics_of assets = [] then replicate (length assets) None else map Some (map sample_mosaic (mosaics_of assets)))
        @ map (\<lambda>n. Some (sample_mosaic (newMosaicIdPanic 7))) (namespaces_of assets))" if "assets \<noteq> []" for assets
    by (subst resolve_mosaics [where answer = answer and info = sample_mosaic and infos = "map sample_mosaic (mosaics_of assets)"])
      (simp_all add: that answer)
  from this [of "[NamespaceAsset \<lparr>namespaceId_baseInt64 = 1\<rparr>]"]
    this [of "[NamespaceAsset \<lparr>namespaceId_baseInt64 = 1\<rparr>, MosaicAsset (newMosaicIdPanic 5)]"]
  show ?thesis by (simp add: namespaces_of_def mosaics_of_def)
qed

end
