(* ===== verification/Services.thy ===== *)
theory Services
  imports Metadata SdkClient WsMessages Namespaces NetworkParse
begin

text \<open>
  The services of the client: \<open>sdk/account.go\<close>, \<open>sdk/blockchain.go\<close>, \<open>sdk/contract.go\<close>, \<open>sdk/metadata.go\<close>, \<open>sdk/mosaic.go\<close>,
  \<open>sdk/namespace.go\<close>, \<open>sdk/network.go\<close>, \<open>sdk/transaction.go\<close>, and \<open>NewConfig\<close> of \<open>sdk/sdk.go\<close>, which asks two of them. A call may
  move the client to another node, so that every operation takes the configuration and returns it. The record \<open>rest_api\<close>
  holds what is not the SDK's own: building a URL, the server, decoding a body into a structure.
\<close>

section \<open>Requests\<close>

datatype http_method = MethodGet | MethodPost | MethodPut

text \<open>
  A body: a structure with one list of strings under a name, one that is encoded by its own \<open>MarshalJSON\<close>, and the two
  that announce.
\<close>

datatype request_body =
    NoBody
  | Strings string "string list"
  | Encoded "byte list"
  | signedTransactionDto EntityType string string
  | cosignatureSignedTransactionDto string string string

record rest_request =
  rr_Method :: http_method
  rr_URL :: URL
  rr_Body :: request_body

type_synonym TransactionOrder = string

definition TRANSACTION_ORDER_ASC :: TransactionOrder where "TRANSACTION_ORDER_ASC = ''id''"
definition TRANSACTION_ORDER_DESC :: TransactionOrder where "TRANSACTION_ORDER_DESC = ''-id''"

record AccountTransactionsOption =
  ato_PageSize :: int
  ato_Id :: string
  ato_Ordering :: TransactionOrder

record BlockchainStorageInfo =
  bsi_NumBlocks :: int
  bsi_NumTransactions :: int
  bsi_NumAccounts :: int

text \<open>
  \<open>ra_parse\<close> is \<open>UsedBaseUrl.Parse\<close> with the check of \<open>http.NewRequest\<close>; \<open>ra_encode\<close> is \<open>net.NewUrl(path)\<close> with its parameters
  set and encoded; \<open>ra_parseUrl\<close>, \<open>ra_EncodeValues\<close> and \<open>ra_urlString\<close> are \<open>url.Parse\<close>, \<open>Encode\<close> of \<open>url.Values\<close> and
  \<open>String\<close> of a URL, \<open>ra_Values\<close> is \<open>query.Values\<close> of the package \<open>go-querystring\<close>; \<open>ra_send\<close> is the server; the others decode a body, where an
  empty one leaves the structure as it was made.
\<close>

record 'j rest_api =
  ra_parse :: "URL \<Rightarrow> string \<Rightarrow> URL result"
  ra_encode :: "string \<Rightarrow> (string \<times> string) list \<Rightarrow> string"
  ra_parseUrl :: "string \<Rightarrow> URL result"
  ra_Values :: "AccountTransactionsOption \<Rightarrow> (string \<times> string) list result"
  ra_EncodeValues :: "(string \<times> string) list \<Rightarrow> string"
  ra_urlString :: "URL \<Rightarrow> string"
  ra_send :: "rest_request \<Rightarrow> string + http_response"
  ra_cancelled :: bool
  ra_buffer :: "byte list \<Rightarrow> 'j raw_json result"
  ra_buffers :: "byte list \<Rightarrow> 'j raw_json list result"
  ra_accountProperties :: "byte list \<Rightarrow> accountPropertiesDTO result"
  ra_accountsProperties :: "byte list \<Rightarrow> accountPropertiesDTOs result"
  ra_accountInfo :: "byte list \<Rightarrow> accountInfoDTO result"
  ra_accountInfos :: "byte list \<Rightarrow> accountInfoDTO list result"
  ra_multisig :: "byte list \<Rightarrow> multisigAccountInfoDTO result"
  ra_multisigGraph :: "byte list \<Rightarrow> multisigAccountGraphInfoDTOS result"
  ra_accountNames :: "byte list \<Rightarrow> accountNamesDTOs result"
  ra_block :: "byte list \<Rightarrow> blockInfoDTO result"
  ra_blocks :: "byte list \<Rightarrow> blockInfoDTO list result"
  ra_height :: "byte list \<Rightarrow> uint64DTO result"
  ra_score :: "byte list \<Rightarrow> chainScoreDTO result"
  ra_storage :: "byte list \<Rightarrow> BlockchainStorageInfo result"
  ra_contracts :: "byte list \<Rightarrow> contractInfoDTO list result"
  ra_addressMetadata :: "byte list \<Rightarrow> addressMetadataInfoDTO result"
  ra_mosaicMetadata :: "byte list \<Rightarrow> mosaicMetadataInfoDTO result"
  ra_namespaceMetadata :: "byte list \<Rightarrow> namespaceMetadataInfoDTO result"
  ra_addressMetadatas :: "byte list \<Rightarrow> addressMetadataInfoDTO list result"
  ra_mosaicMetadatas :: "byte list \<Rightarrow> mosaicMetadataInfoDTO list result"
  ra_namespaceMetadatas :: "byte list \<Rightarrow> namespaceMetadataInfoDTO list result"
  ra_mosaic :: "byte list \<Rightarrow> mosaicDefinitionDTO result"
  ra_mosaics :: "byte list \<Rightarrow> mosaicDefinitionDTO list result"
  ra_mosaicNames :: "byte list \<Rightarrow> mosaicNameDTOs result"
  ra_namespace :: "byte list \<Rightarrow> namespaceInfoDTO result"
  ra_namespaces :: "byte list \<Rightarrow> namespaceInfoDTO list result"
  ra_namespaceNames :: "byte list \<Rightarrow> namespaceNameDTOs result"
  ra_network :: "byte list \<Rightarrow> string result"
  ra_config :: "byte list \<Rightarrow> blockchainConfigDTO result"
  ra_upgrade :: "byte list \<Rightarrow> networkVersionDTO result"
  ra_message :: "byte list \<Rightarrow> string result"
  ra_status :: "byte list \<Rightarrow> transactionStatusDTO result"
  ra_statuses :: "byte list \<Rightarrow> transactionStatusDTO list result"

type_synonym 'a answer = "Config \<times> (request_error + 'a)"

definition failed :: "Config \<Rightarrow> go_error \<Rightarrow> 'a answer" where
  "failed cfg e = (cfg, Inl (RequestError e))"

definition answered_with :: "Config \<Rightarrow> 'a result \<Rightarrow> 'a answer" where
  "answered_with cfg r = (cfg, case r of Inl e \<Rightarrow> Inl (RequestError e) | Inr x \<Rightarrow> Inr x)"

definition newRequest :: "'j rest_api \<Rightarrow> Config \<Rightarrow> http_method \<Rightarrow> string \<Rightarrow> request_body \<Rightarrow> rest_request result" where
  "newRequest S cfg mth urlStr body =
     res_map (\<lambda>u. \<lparr>rr_Method = mth, rr_URL = u, rr_Body = body\<rparr>) (ra_parse S (used_url cfg) urlStr)"

definition send_request ::
  "'j rest_api \<Rightarrow> Config \<Rightarrow> http_method \<Rightarrow> string \<Rightarrow> request_body \<Rightarrow> (byte list \<Rightarrow> 'v result) \<Rightarrow> (http_response \<times> 'v) answer" where
  "send_request S cfg mth path body v =
     (case newRequest S cfg mth path body of
        Inl err \<Rightarrow> failed cfg err
      | Inr req \<Rightarrow>
          doNewRequest (client_do (\<lambda>host. ra_send S (req\<lparr>rr_URL := (rr_URL req)\<lparr>url_Host := host\<rparr>\<rparr>)) v (ra_cancelled S)) cfg)"

text \<open>A request, the check of its status, the conversion: the common course of the operations. \<open>k\<close> gets the new configuration.\<close>

definition rest_call ::
  "'j rest_api \<Rightarrow> Config \<Rightarrow> http_method \<Rightarrow> string \<Rightarrow> request_body \<Rightarrow> (byte list \<Rightarrow> 'v result)
   \<Rightarrow> (int \<times> go_error) list option \<Rightarrow> ('v \<Rightarrow> 'a result) \<Rightarrow> 'a answer" where
  "rest_call S cfg mth path body v codes toStruct =
     (case send_request S cfg mth path body v of
        (cfg, Inl err) \<Rightarrow> (cfg, Inl err)
      | (cfg, Inr (resp, dto)) \<Rightarrow> answered_with cfg (res_bind (handleResponseStatusCode (Some resp) codes) (\<lambda>_. toStruct dto)))"

definition not_found_codes :: "(int \<times> go_error) list option" where
  "not_found_codes = Some [(404, ErrResourceNotFound), (409, ErrArgumentNotValid)]"

definition invalid_codes :: "(int \<times> go_error) list option" where
  "invalid_codes = Some [(400, ErrInvalidRequest), (409, ErrArgumentNotValid)]"

definition conflict_codes :: "(int \<times> go_error) list option" where
  "conflict_codes = Some [(409, ErrArgumentNotValid)]"

text \<open>A pointer the code checks before it uses it.\<close>

definition with_pointer :: "Config \<Rightarrow> go_error \<Rightarrow> 'p option \<Rightarrow> ('p \<Rightarrow> 'a answer) \<Rightarrow> 'a answer" where
  "with_pointer cfg err p k = (case p of None \<Rightarrow> failed cfg err | Some x \<Rightarrow> k x)"

definition hex_mosaic :: "MosaicId \<Rightarrow> string" where
  "hex_mosaic m = AssetId_toHexString (MosaicAsset m)"

definition hex_namespace :: "NamespaceId \<Rightarrow> string" where
  "hex_namespace n = AssetId_toHexString (NamespaceAsset n)"

section \<open>Routes\<close>

definition accountsRoute :: string where "accountsRoute = ''/account''"
definition accountRoute :: "string \<Rightarrow> string" where "accountRoute a = ''/account/'' @ a"
definition accountNamesRoute :: string where "accountNamesRoute = ''/account/names''"
definition accountPropertiesRoute :: "string \<Rightarrow> string" where "accountPropertiesRoute a = ''/account/'' @ a @ ''/properties''"
definition accountsPropertiesRoute :: string where "accountsPropertiesRoute = ''/account/properties''"
definition multisigAccountRoute :: "string \<Rightarrow> string" where "multisigAccountRoute a = ''/account/'' @ a @ ''/multisig''"
definition multisigAccountGraphInfoRoute :: "string \<Rightarrow> string" where "multisigAccountGraphInfoRoute a = ''/account/'' @ a @ ''/multisig/graph''"
definition transactionsByAccountRoute :: "string \<Rightarrow> string \<Rightarrow> string" where "transactionsByAccountRoute a p = ''/account/'' @ a @ p"
definition accountTransactionsRoute :: string where "accountTransactionsRoute = ''/transactions''"
definition incomingTransactionsRoute :: string where "incomingTransactionsRoute = ''/transactions/incoming''"
definition outgoingTransactionsRoute :: string where "outgoingTransactionsRoute = ''/transactions/outgoing''"
definition unconfirmedTransactionsRoute :: string where "unconfirmedTransactionsRoute = ''/transactions/unconfirmed''"
definition aggregateTransactionsRoute :: string where "aggregateTransactionsRoute = ''/transactions/partial''"
definition namespaceRoute :: "string \<Rightarrow> string" where "namespaceRoute n = ''/namespace/'' @ n"
definition namespacesFromAccountsRoute :: string where "namespacesFromAccountsRoute = ''/account/namespaces''"
definition namespaceNamesRoute :: string where "namespaceNamesRoute = ''/namespace/names''"
definition namespacesFromAccountRoutes :: "string \<Rightarrow> string" where "namespacesFromAccountRoutes a = ''/account/'' @ a @ ''/namespaces''"
definition mosaicsRoute :: string where "mosaicsRoute = ''/mosaic''"
definition mosaicRoute :: "string \<Rightarrow> string" where "mosaicRoute m = ''/mosaic/'' @ m"
definition mosaicNamesRoute :: string where "mosaicNamesRoute = ''/mosaic/names''"
definition blockHeightRoute :: string where "blockHeightRoute = ''/chain/height''"
definition blockByHeightRoute :: "string \<Rightarrow> string" where "blockByHeightRoute h = ''/block/'' @ h"
definition blockScoreRoute :: string where "blockScoreRoute = ''/chain/score''"
definition blockGetTransactionRoute :: "string \<Rightarrow> string" where "blockGetTransactionRoute h = ''/block/'' @ h @ ''/transactions''"
definition blockInfoRoute :: "string \<Rightarrow> string \<Rightarrow> string" where "blockInfoRoute h l = ''/blocks/'' @ h @ ''/limit/'' @ l"
definition blockStorageRoute :: string where "blockStorageRoute = ''/diagnostic/storage''"
definition contractsInfoRoute :: string where "contractsInfoRoute = ''/contract''"
definition contractsByAccountRoute :: "string \<Rightarrow> string" where "contractsByAccountRoute a = ''/account/'' @ a @ ''/contracts''"
definition metadatasInfoRoute :: string where "metadatasInfoRoute = ''/metadata''"
definition metadataByAccountRoute :: "string \<Rightarrow> string" where "metadataByAccountRoute a = ''/account/'' @ a @ ''/metadata''"
definition metadataByMosaicRoute :: "string \<Rightarrow> string" where "metadataByMosaicRoute m = ''/mosaic/'' @ m @ ''/metadata''"
definition metadataByNamespaceRoute :: "string \<Rightarrow> string" where "metadataByNamespaceRoute n = ''/namespace/'' @ n @ ''/metadata''"
definition networkRoute :: string where "networkRoute = ''/network''"
definition configRoute :: "string \<Rightarrow> string" where "configRoute h = ''/config/'' @ h"
definition upgradeRoute :: "string \<Rightarrow> string" where "upgradeRoute h = ''/upgrade/'' @ h"
definition transactionsRoute :: string where "transactionsRoute = ''/transaction''"
definition transactionRoute :: "string \<Rightarrow> string" where "transactionRoute t = ''/transaction/'' @ t"
definition transactionStatusRoute :: "string \<Rightarrow> string" where "transactionStatusRoute t = ''/transaction/'' @ t @ ''/status''"
definition transactionsStatusRoute :: string where "transactionsStatusRoute = ''/transaction/statuses''"
definition announceAggregateRoute :: string where "announceAggregateRoute = ''/transaction/partial''"
definition announceAggregateCosignatureRoute :: string where "announceAggregateCosignatureRoute = ''/transaction/cosignature''"

section \<open>Accounts\<close>

definition address_strings :: "Address option list \<Rightarrow> string list result" where
  "address_strings as = mapR (\<lambda>a. res_map addr_Address (deref a)) as"

definition GetAccountProperties :: "'j rest_api \<Rightarrow> Config \<Rightarrow> Address option \<Rightarrow> AccountProperties answer" where
  "GetAccountProperties S cfg address = with_pointer cfg ErrNilAddress address (\<lambda>address.
     if length (addr_Address address) = 0 then failed cfg ErrBlankAddress
     else rest_call S cfg MethodGet (ra_encode S (accountPropertiesRoute (addr_Address address)) []) NoBody
       (ra_accountProperties S) not_found_codes (\<lambda>(a, ps). accountPropertiesDTO_toStruct a ps))"

definition GetAccountsProperties :: "'j rest_api \<Rightarrow> Config \<Rightarrow> Address option list \<Rightarrow> AccountProperties list answer" where
  "GetAccountsProperties S cfg as =
     (if length as = 0 then failed cfg ErrEmptyAddressesIds
      else case address_strings as of
          Inl e \<Rightarrow> failed cfg e
        | Inr addrs \<Rightarrow> rest_call S cfg MethodPost accountsPropertiesRoute (Strings ''addresses'' addrs)
            (ra_accountsProperties S) not_found_codes accountPropertiesDTOs_toStruct)"

definition GetAccountInfo ::
  "'k crypto \<Rightarrow> (u64 \<Rightarrow> 'f) \<Rightarrow> 'f reputationConfig \<Rightarrow> 'j rest_api \<Rightarrow> Config \<Rightarrow> Address option \<Rightarrow> 'f AccountInfo answer" where
  "GetAccountInfo C float64 rep S cfg address = with_pointer cfg ErrNilAddress address (\<lambda>address.
     if length (addr_Address address) = 0 then failed cfg ErrBlankAddress
     else rest_call S cfg MethodGet (ra_encode S (accountRoute (addr_Address address)) []) NoBody
       (ra_accountInfo S) not_found_codes (\<lambda>dto. accountInfoDTO_toStruct C float64 dto rep))"

definition GetAccountsInfo ::
  "'k crypto \<Rightarrow> (u64 \<Rightarrow> 'f) \<Rightarrow> 'f reputationConfig \<Rightarrow> 'j rest_api \<Rightarrow> Config \<Rightarrow> Address option list \<Rightarrow> 'f AccountInfo list answer" where
  "GetAccountsInfo C float64 rep S cfg as =
     (if length as = 0 then failed cfg ErrEmptyAddressesIds
      else case address_strings as of
          Inl e \<Rightarrow> failed cfg e
        | Inr addrs \<Rightarrow> rest_call S cfg MethodPost accountsRoute (Strings ''addresses'' addrs)
            (ra_accountInfos S) not_found_codes (\<lambda>dtos. accountInfoDTOs_toStruct C float64 dtos rep))"

definition GetMultisigAccountInfo ::
  "'k crypto \<Rightarrow> 'j rest_api \<Rightarrow> Config \<Rightarrow> Address option \<Rightarrow> MultisigAccountInfo answer" where
  "GetMultisigAccountInfo C S cfg address = with_pointer cfg ErrNilAddress address (\<lambda>address.
     rest_call S cfg MethodGet (ra_encode S (multisigAccountRoute (addr_Address address)) []) NoBody
       (ra_multisig S) not_found_codes (\<lambda>dto. multisigAccountInfoDTO_toStruct C dto (cfg_NetworkType cfg)))"

definition GetMultisigAccountGraphInfo ::
  "'k crypto \<Rightarrow> 'j rest_api \<Rightarrow> Config \<Rightarrow> Address option \<Rightarrow> MultisigAccountGraphInfo answer" where
  "GetMultisigAccountGraphInfo C S cfg address = with_pointer cfg ErrNilAddress address (\<lambda>address.
     rest_call S cfg MethodGet (ra_encode S (multisigAccountGraphInfoRoute (addr_Address address)) []) NoBody
       (ra_multisigGraph S) not_found_codes (\<lambda>dto. multisigAccountGraphInfoDTOS_toStruct C dto (cfg_NetworkType cfg)))"

text \<open>The body is made by \<open>MarshalJSON\<close>, which dereferences every address.\<close>

definition GetAccountNames :: "'j rest_api \<Rightarrow> Config \<Rightarrow> Address option list \<Rightarrow> AccountName list answer" where
  "GetAccountNames S cfg as =
     (if length as = 0 then failed cfg ErrEmptyAddressesIds
      else case res_bind (mapR deref as) addresses_MarshalJSON of
          Inl e \<Rightarrow> failed cfg e
        | Inr body \<Rightarrow> rest_call S cfg MethodPost accountNamesRoute (Encoded body)
            (ra_accountNames S) invalid_codes accountNamesDTOs_toStruct)"

definition addOptions :: "'j rest_api \<Rightarrow> string \<Rightarrow> AccountTransactionsOption option \<Rightarrow> string result" where
  "addOptions S s opt =
     (case opt of
        None \<Rightarrow> Inr s
      | Some opt \<Rightarrow>
          res_bind (ra_parseUrl S s) (\<lambda>u.
          res_bind (ra_Values S opt) (\<lambda>qs.
            Inr (ra_urlString S (u\<lparr>url_RawQuery := ra_EncodeValues S qs\<rparr>)))))"

definition findTransactions ::
  "'k crypto \<Rightarrow> 'j json_api \<Rightarrow> 'j rest_api \<Rightarrow> Config \<Rightarrow> PublicAccount option \<Rightarrow> AccountTransactionsOption option \<Rightarrow> string \<Rightarrow> Transaction list answer" where
  "findTransactions C J S cfg account opt path = with_pointer cfg ErrNilAccount account (\<lambda>account.
     case addOptions S (transactionsByAccountRoute (pa_PublicKey account) path) opt of
       Inl e \<Rightarrow> failed cfg e
     | Inr u \<Rightarrow> rest_call S cfg MethodGet u NoBody Inr conflict_codes (\<lambda>b. MapTransactions C J (ra_buffers S b)))"

definition AccountTransactions ::
  "'k crypto \<Rightarrow> 'j json_api \<Rightarrow> 'j rest_api \<Rightarrow> Config \<Rightarrow> PublicAccount option \<Rightarrow> AccountTransactionsOption option \<Rightarrow> Transaction list answer" where
  "AccountTransactions C J S cfg account opt = findTransactions C J S cfg account opt accountTransactionsRoute"

definition IncomingTransactions ::
  "'k crypto \<Rightarrow> 'j json_api \<Rightarrow> 'j rest_api \<Rightarrow> Config \<Rightarrow> PublicAccount option \<Rightarrow> AccountTransactionsOption option \<Rightarrow> Transaction list answer" where
  "IncomingTransactions C J S cfg account opt = findTransactions C J S cfg account opt incomingTransactionsRoute"

definition OutgoingTransactions ::
  "'k crypto \<Rightarrow> 'j json_api \<Rightarrow> 'j rest_api \<Rightarrow> Config \<Rightarrow> PublicAccount option \<Rightarrow> AccountTransactionsOption option \<Rightarrow> Transaction list answer" where
  "OutgoingTransactions C J S cfg account opt = findTransactions C J S cfg account opt outgoingTransactionsRoute"

definition UnconfirmedTransactions ::
  "'k crypto \<Rightarrow> 'j json_api \<Rightarrow> 'j rest_api \<Rightarrow> Config \<Rightarrow> PublicAccount option \<Rightarrow> AccountTransactionsOption option \<Rightarrow> Transaction list answer" where
  "UnconfirmedTransactions C J S cfg account opt = findTransactions C J S cfg account opt unconfirmedTransactionsRoute"

text \<open>A transaction of another kind makes the type assertion panic.\<close>

definition as_aggregate :: "Transaction \<Rightarrow> Transaction AggregateTransaction result" where
  "as_aggregate tx = (case tx of TxAggregate a \<Rightarrow> Inr a | _ \<Rightarrow> Inl Panicked)"

definition AggregateBondedTransactions ::
  "'k crypto \<Rightarrow> 'j json_api \<Rightarrow> 'j rest_api \<Rightarrow> Config \<Rightarrow> PublicAccount option \<Rightarrow> AccountTransactionsOption option
   \<Rightarrow> Transaction AggregateTransaction list answer" where
  "AggregateBondedTransactions C J S cfg account opt =
     (case findTransactions C J S cfg account opt aggregateTransactionsRoute of
        (cfg, Inl err) \<Rightarrow> (cfg, Inl err)
      | (cfg, Inr txs) \<Rightarrow> answered_with cfg (mapR as_aggregate txs))"

section \<open>The chain\<close>

definition GetBlockByHeight :: "'k crypto \<Rightarrow> 'j rest_api \<Rightarrow> Config \<Rightarrow> Height \<Rightarrow> BlockInfo answer" where
  "GetBlockByHeight C S cfg height =
     (if height = 0 then failed cfg ErrNilOrZeroHeight
      else rest_call S cfg MethodGet (blockByHeightRoute (baseInt64_String height)) NoBody
        (ra_block S) not_found_codes (blockInfoDTO_toStruct C))"

definition GetBlockTransactions ::
  "'k crypto \<Rightarrow> 'j json_api \<Rightarrow> 'j rest_api \<Rightarrow> Config \<Rightarrow> Height \<Rightarrow> Transaction list answer" where
  "GetBlockTransactions C J S cfg height =
     (if height = 0 then failed cfg ErrNilOrZeroHeight
      else rest_call S cfg MethodGet (ra_encode S (blockGetTransactionRoute (baseInt64_String height)) []) NoBody
        Inr not_found_codes (\<lambda>b. MapTransactions C J (ra_buffers S b)))"

definition GetBlocksByHeightWithLimit ::
  "'k crypto \<Rightarrow> 'j rest_api \<Rightarrow> Config \<Rightarrow> Height \<Rightarrow> Amount \<Rightarrow> BlockInfo list answer" where
  "GetBlocksByHeightWithLimit C S cfg height limit =
     (if height = 0 then failed cfg ErrNilOrZeroHeight
      else if limit = 0 then failed cfg ErrNilOrZeroLimit
      else rest_call S cfg MethodGet (ra_encode S (blockInfoRoute (baseInt64_String height) (baseInt64_String limit)) []) NoBody
        (ra_blocks S) conflict_codes (blockInfoDTOs_toStruct C))"

definition GetBlockchainHeight :: "'j rest_api \<Rightarrow> Config \<Rightarrow> Height answer" where
  "GetBlockchainHeight S cfg = rest_call S cfg MethodGet blockHeightRoute NoBody (ra_height S) None uint64DTO_toStruct"

definition GetBlockchainScore :: "'j rest_api \<Rightarrow> Config \<Rightarrow> ChainScore answer" where
  "GetBlockchainScore S cfg = rest_call S cfg MethodGet blockScoreRoute NoBody (ra_score S) None chainScoreDTO_toStruct"

definition GetBlockchainStorage :: "'j rest_api \<Rightarrow> Config \<Rightarrow> BlockchainStorageInfo answer" where
  "GetBlockchainStorage S cfg = rest_call S cfg MethodGet blockStorageRoute NoBody (ra_storage S) None Inr"

section \<open>Contracts\<close>

text \<open>\<open>errors.Wrap\<close> keeps nil, so that only an error is wrapped.\<close>

definition wrap_converting :: "'a result \<Rightarrow> 'a result" where
  "wrap_converting r = (case r of Inl Panicked \<Rightarrow> Inl Panicked
     | Inl e \<Rightarrow> Inl (Wrapped ''within converting dto to []*ContractInfo'' e) | Inr x \<Rightarrow> Inr x)"

text \<open>A request whose error is wrapped with what was asked.\<close>

definition wrapped_call ::
  "'j rest_api \<Rightarrow> Config \<Rightarrow> http_method \<Rightarrow> string \<Rightarrow> request_body \<Rightarrow> string \<Rightarrow> (byte list \<Rightarrow> 'v result)
   \<Rightarrow> (int \<times> go_error) list option \<Rightarrow> ('v \<Rightarrow> 'a result) \<Rightarrow> 'a answer" where
  "wrapped_call S cfg mth path body msg v codes toStruct =
     (case send_request S cfg mth path body v of
        (cfg, Inl err) \<Rightarrow> (cfg, Inl (WrappedRequest (msg @ path) err))
      | (cfg, Inr (resp, dto)) \<Rightarrow> answered_with cfg (res_bind (handleResponseStatusCode (Some resp) codes) (\<lambda>_. toStruct dto)))"

definition GetContractsInfo :: "'j rest_api \<Rightarrow> Config \<Rightarrow> string list option \<Rightarrow> ContractInfo list answer" where
  "GetContractsInfo S cfg contractPubKeys =
     with_pointer cfg (NewError ''contract public key should not be nil'') contractPubKeys (\<lambda>pubKeys.
     wrapped_call S cfg MethodPost contractsInfoRoute (Strings ''publicKeys'' pubKeys) ''within POST request ''
       (ra_contracts S) conflict_codes (\<lambda>dtos. wrap_converting (contractInfoDTOs_toStruct dtos (cfg_NetworkType cfg))))"

definition GetContractsByAddress :: "'j rest_api \<Rightarrow> Config \<Rightarrow> string \<Rightarrow> ContractInfo list answer" where
  "GetContractsByAddress S cfg address =
     (if length address = 0 then failed cfg (NewError ''address should not be blank'')
      else wrapped_call S cfg MethodGet (ra_encode S (contractsByAccountRoute address) []) NoBody ''within GET request ''
        (ra_contracts S) conflict_codes (\<lambda>dtos. wrap_converting (contractInfoDTOs_toStruct dtos (cfg_NetworkType cfg))))"

section \<open>Metadata\<close>

definition GetAddressMetadatasInfo :: "'j rest_api \<Rightarrow> Config \<Rightarrow> string list \<Rightarrow> AddressMetadataInfo list answer" where
  "GetAddressMetadatasInfo S cfg as =
     (if length as = 0 then failed cfg ErrMetadataEmptyAddresses
      else wrapped_call S cfg MethodPost metadatasInfoRoute (Strings ''metadataIds'' as) ''within POST request ''
        (ra_addressMetadatas S) conflict_codes addressMetadataInfoDTOs_toStruct)"

definition GetMosaicMetadatasInfo :: "'j rest_api \<Rightarrow> Config \<Rightarrow> MosaicId list \<Rightarrow> MosaicMetadataInfo list answer" where
  "GetMosaicMetadatasInfo S cfg mosaicIds =
     (if length mosaicIds = 0 then failed cfg ErrMetadataEmptyMosaicIds
      else wrapped_call S cfg MethodPost metadatasInfoRoute (Strings ''metadataIds'' (map hex_mosaic mosaicIds)) ''within POST request ''
        (ra_mosaicMetadatas S) conflict_codes mosaicMetadataInfoDTOs_toStruct)"

definition GetNamespaceMetadatasInfo :: "'j rest_api \<Rightarrow> Config \<Rightarrow> NamespaceId list \<Rightarrow> NamespaceMetadataInfo list answer" where
  "GetNamespaceMetadatasInfo S cfg namespaceIds =
     (if length namespaceIds = 0 then failed cfg ErrMetadataEmptyNamespaceIds
      else wrapped_call S cfg MethodPost metadatasInfoRoute (Strings ''metadataIds'' (map hex_namespace namespaceIds)) ''within POST request ''
        (ra_namespaceMetadatas S) conflict_codes namespaceMetadataInfoDTOs_toStruct)"

text \<open>A response with status 404 is no error here: the structure stays as it was made.\<close>

definition getMetadata ::
  "'j rest_api \<Rightarrow> Config \<Rightarrow> string \<Rightarrow> 'v \<Rightarrow> (byte list \<Rightarrow> 'v result) \<Rightarrow> 'v answer" where
  "getMetadata S cfg url zero v =
     (case send_request S cfg MethodGet url NoBody v of
        (cfg, Inl (HttpError b code)) \<Rightarrow>
          if code \<noteq> 404 then (cfg, Inl (WrappedRequest (''within GET request '' @ url) (HttpError b code))) else (cfg, Inr zero)
      | (cfg, Inl err) \<Rightarrow> (cfg, Inl (WrappedRequest (''within GET request '' @ url) err))
      | (cfg, Inr (resp, dto)) \<Rightarrow> answered_with cfg (res_bind (handleResponseStatusCode (Some resp) conflict_codes) (\<lambda>_. Inr dto)))"

definition then_convert :: "'v answer \<Rightarrow> ('v \<Rightarrow> 'a result) \<Rightarrow> 'a answer" where
  "then_convert a k = (case a of (cfg, Inl err) \<Rightarrow> (cfg, Inl err) | (cfg, Inr dto) \<Rightarrow> answered_with cfg (k dto))"

definition GetMetadataByAddress :: "'j rest_api \<Rightarrow> Config \<Rightarrow> string \<Rightarrow> AddressMetadataInfo answer" where
  "GetMetadataByAddress S cfg address =
     (if length address = 0 then failed cfg ErrMetadataNilAdress
      else then_convert (getMetadata S cfg (ra_encode S (metadataByAccountRoute address) []) zero_addressMetadataInfoDTO (ra_addressMetadata S))
        (\<lambda>dto. res_bind (addressMetadataInfoDTO_toStruct dto) (\<lambda>info.
          if mi_MetadataType info = MetadataNone
          then res_bind (NewAddressFromRaw address) (\<lambda>a. Inr (info\<lparr>mi_MetadataType := MetadataAddressType, ami_Address := Some a\<rparr>))
          else Inr info)))"

definition GetMetadataByMosaicId :: "'j rest_api \<Rightarrow> Config \<Rightarrow> MosaicId option \<Rightarrow> MosaicMetadataInfo answer" where
  "GetMetadataByMosaicId S cfg mosaicId = with_pointer cfg ErrMetadataNilMosaicId mosaicId (\<lambda>mosaicId.
     then_convert (getMetadata S cfg (ra_encode S (metadataByMosaicRoute (hex_mosaic mosaicId)) []) zero_mosaicMetadataInfoDTO (ra_mosaicMetadata S))
        (\<lambda>dto. res_map (\<lambda>info.
          if mi_MetadataType info = MetadataNone
          then info\<lparr>mi_MetadataType := MetadataMosaicType, mmi_MosaicId := mosaicId\<rparr> else info) (mosaicMetadataInfoDTO_toStruct dto)))"

definition GetMetadataByNamespaceId :: "'j rest_api \<Rightarrow> Config \<Rightarrow> NamespaceId option \<Rightarrow> NamespaceMetadataInfo answer" where
  "GetMetadataByNamespaceId S cfg namespaceId = with_pointer cfg ErrMetadataNilNamespaceId namespaceId (\<lambda>namespaceId.
     then_convert (getMetadata S cfg (ra_encode S (metadataByNamespaceRoute (hex_namespace namespaceId)) []) zero_namespaceMetadataInfoDTO (ra_namespaceMetadata S))
        (\<lambda>dto. res_map (\<lambda>info.
          if mi_MetadataType info = MetadataNone
          then info\<lparr>mi_MetadataType := MetadataNamespaceType, nmi_NamespaceId := namespaceId\<rparr> else info) (namespaceMetadataInfoDTO_toStruct dto)))"

section \<open>Mosaics\<close>

definition GetMosaicInfo :: "'k crypto \<Rightarrow> 'j rest_api \<Rightarrow> Config \<Rightarrow> MosaicId option \<Rightarrow> MosaicInfo answer" where
  "GetMosaicInfo C S cfg mosaicId = with_pointer cfg ErrNilMosaicId mosaicId (\<lambda>mosaicId.
     rest_call S cfg MethodGet (ra_encode S (mosaicRoute (hex_mosaic mosaicId)) []) NoBody
       (ra_mosaic S) not_found_codes (\<lambda>dto. mosaicInfoDTO_toStruct C dto (cfg_NetworkType cfg)))"

definition post_encoded ::
  "'j rest_api \<Rightarrow> Config \<Rightarrow> string \<Rightarrow> byte list result \<Rightarrow> (byte list \<Rightarrow> 'v result) \<Rightarrow> ('v \<Rightarrow> 'a result) \<Rightarrow> 'a answer" where
  "post_encoded S cfg path body v toStruct =
     (case body of Inl e \<Rightarrow> failed cfg e
      | Inr body \<Rightarrow> rest_call S cfg MethodPost path (Encoded body) v invalid_codes toStruct)"

definition GetMosaicInfos :: "'k crypto \<Rightarrow> 'j rest_api \<Rightarrow> Config \<Rightarrow> MosaicId list \<Rightarrow> MosaicInfo list answer" where
  "GetMosaicInfos C S cfg mscIds =
     (if length mscIds = 0 then failed cfg ErrEmptyMosaicIds
      else post_encoded S cfg mosaicsRoute (mosaicIds_MarshalJSON mscIds) (ra_mosaics S)
        (\<lambda>dtos. mosaicInfoDTOs_toStruct C dtos (cfg_NetworkType cfg)))"

definition GetMosaicsNames :: "'j rest_api \<Rightarrow> Config \<Rightarrow> MosaicId list \<Rightarrow> MosaicName list answer" where
  "GetMosaicsNames S cfg mscIds =
     (if length mscIds = 0 then failed cfg ErrEmptyMosaicIds
      else post_encoded S cfg mosaicNamesRoute (mosaicIds_MarshalJSON mscIds) (ra_mosaicNames S) mosaicNameDTOs_toStruct)"

section \<open>Namespaces\<close>

fun buildNamespacesHierarchy ::
  "nat \<Rightarrow> (NamespaceId \<Rightarrow> NamespaceInfo result) \<Rightarrow> NamespaceInfo list \<Rightarrow> NamespaceId list
   \<Rightarrow> (NamespaceTree list result \<times> NamespaceId list) option" where
  "buildNamespacesHierarchy fuel fetch [] log = Some (Inr [], log)"
| "buildNamespacesHierarchy fuel fetch (nsInfo # nsInfos) log =
     (case buildNamespaceHierarchy fuel fetch (fresh_tree nsInfo) log of
        None \<Rightarrow> None
      | Some (Inl e, log) \<Rightarrow> Some (Inl e, log)
      | Some (Inr t, log) \<Rightarrow>
          (case buildNamespacesHierarchy fuel fetch nsInfos log of
             None \<Rightarrow> None
           | Some (Inl e, log) \<Rightarrow> Some (Inl e, log)
           | Some (Inr ts, log) \<Rightarrow> Some (Inr (t # ts), log)))"

text \<open>The parameters of the query; then the request, then the parents, which \<open>fetch\<close> asks for. None: the fuel did not suffice.\<close>

definition page_params :: "NamespaceId option \<Rightarrow> int \<Rightarrow> (string \<times> string) list" where
  "page_params nsId pageSize =
     (case nsId of None \<Rightarrow> [] | Some n \<Rightarrow> [(''id'', hex_namespace n)])
     @ (if pageSize > 0 then [(''pageSize'', dec_int pageSize)] else [])"

definition with_hierarchy ::
  "nat \<Rightarrow> (NamespaceId \<Rightarrow> NamespaceInfo result) \<Rightarrow> NamespaceInfo list answer \<Rightarrow> NamespaceTree list answer option" where
  "with_hierarchy fuel fetch a =
     (case a of
        (cfg, Inl err) \<Rightarrow> Some (cfg, Inl err)
      | (cfg, Inr nsInfos) \<Rightarrow> map_option (\<lambda>(r, log). answered_with cfg r) (buildNamespacesHierarchy fuel fetch nsInfos []))"

definition GetNamespaceInfosFromAccount ::
  "'k crypto \<Rightarrow> 'j rest_api \<Rightarrow> nat \<Rightarrow> (NamespaceId \<Rightarrow> NamespaceInfo result) \<Rightarrow> Config \<Rightarrow> Address option \<Rightarrow> NamespaceId option \<Rightarrow> int
   \<Rightarrow> NamespaceTree list answer option" where
  "GetNamespaceInfosFromAccount C S fuel fetch cfg address nsId pageSize =
     with_hierarchy fuel fetch (with_pointer cfg ErrNilAddress address (\<lambda>address.
       rest_call S cfg MethodGet (ra_encode S (namespacesFromAccountRoutes (addr_Address address)) (page_params nsId pageSize)) NoBody
         (ra_namespaces S) conflict_codes (namespaceInfoDTOs_toStruct C)))"

definition GetNamespaceInfosFromAccounts ::
  "'k crypto \<Rightarrow> 'j rest_api \<Rightarrow> nat \<Rightarrow> (NamespaceId \<Rightarrow> NamespaceInfo result) \<Rightarrow> Config \<Rightarrow> Address option list \<Rightarrow> NamespaceId option \<Rightarrow> int
   \<Rightarrow> NamespaceTree list answer option" where
  "GetNamespaceInfosFromAccounts C S fuel fetch cfg addrs nsId pageSize =
     with_hierarchy fuel fetch
       (if length addrs = 0 then failed cfg ErrEmptyAddressesIds
        else post_encoded S cfg (ra_encode S namespacesFromAccountsRoute (page_params nsId pageSize))
          (res_bind (mapR deref addrs) addresses_MarshalJSON) (ra_namespaces S) (namespaceInfoDTOs_toStruct C))"

definition GetNamespaceNames :: "'j rest_api \<Rightarrow> Config \<Rightarrow> NamespaceId list \<Rightarrow> NamespaceName list answer" where
  "GetNamespaceNames S cfg nsIds =
     (if length nsIds = 0 then failed cfg ErrEmptyNamespaceIds
      else post_encoded S cfg namespaceNamesRoute (namespaceIds_MarshalJSON nsIds) (ra_namespaceNames S) namespaceNameDTOs_toStruct)"

section \<open>The network\<close>

definition GetNetworkType :: "'j rest_api \<Rightarrow> Config \<Rightarrow> NetworkType answer" where
  "GetNetworkType S cfg =
     rest_call S cfg MethodGet networkRoute NoBody (ra_network S) None (\<lambda>name.
       let networkType = NetworkTypeFromString name in
       if networkType = NotSupportedNet
       then Inl (NewError (''network '' @ name @ '' is not supported yet by the sdk''))
       else Inr networkType)"

definition GetNetworkConfigAtHeight :: "'k crypto \<Rightarrow> 'j rest_api \<Rightarrow> Config \<Rightarrow> Height \<Rightarrow> BlockchainConfig answer" where
  "GetNetworkConfigAtHeight C S cfg height =
     rest_call S cfg MethodGet (configRoute (baseInt64_String height)) NoBody (ra_config S) None (blockchainConfigDTO_toStruct C)"

definition GetNetworkVersionAtHeight :: "'j rest_api \<Rightarrow> Config \<Rightarrow> Height \<Rightarrow> NetworkVersion answer" where
  "GetNetworkVersionAtHeight S cfg height =
     rest_call S cfg MethodGet (upgradeRoute (baseInt64_String height)) NoBody (ra_upgrade S) None networkVersionDTO_toStruct"

definition and_then :: "'a answer \<Rightarrow> (Config \<Rightarrow> 'a \<Rightarrow> 'b answer) \<Rightarrow> 'b answer" where
  "and_then a k = (case a of (cfg, Inl err) \<Rightarrow> (cfg, Inl err) | (cfg, Inr x) \<Rightarrow> k cfg x)"

definition GetNetworkConfig :: "'k crypto \<Rightarrow> 'j rest_api \<Rightarrow> Config \<Rightarrow> BlockchainConfig answer" where
  "GetNetworkConfig C S cfg = and_then (GetBlockchainHeight S cfg) (GetNetworkConfigAtHeight C S)"

definition GetNetworkVersion :: "'j rest_api \<Rightarrow> Config \<Rightarrow> NetworkVersion answer" where
  "GetNetworkVersion S cfg = and_then (GetBlockchainHeight S cfg) (GetNetworkVersionAtHeight S)"

section \<open>Transactions\<close>

definition GetTransaction :: "'k crypto \<Rightarrow> 'j json_api \<Rightarrow> 'j rest_api \<Rightarrow> Config \<Rightarrow> string \<Rightarrow> Transaction answer" where
  "GetTransaction C J S cfg ident =
     rest_call S cfg MethodGet (ra_encode S (transactionRoute ident) []) NoBody Inr not_found_codes
       (\<lambda>b. res_bind (ra_buffer S b) (MapTransaction C J))"

definition GetTransactions :: "'k crypto \<Rightarrow> 'j json_api \<Rightarrow> 'j rest_api \<Rightarrow> Config \<Rightarrow> string list \<Rightarrow> Transaction list answer" where
  "GetTransactions C J S cfg ids =
     rest_call S cfg MethodPost transactionsRoute (Strings ''transactionIds'' ids) Inr invalid_codes
       (\<lambda>b. MapTransactions C J (ra_buffers S b))"

definition announceTransaction :: "'j rest_api \<Rightarrow> Config \<Rightarrow> request_body \<Rightarrow> string \<Rightarrow> string answer" where
  "announceTransaction S cfg tx path = rest_call S cfg MethodPut path tx (ra_message S) invalid_codes Inr"

definition signed_body :: "SignedTransaction \<Rightarrow> request_body result" where
  "signed_body tx = res_map (\<lambda>h. signedTransactionDto (st_EntityType tx) (st_Payload tx) (Hash_String h)) (deref (st_Hash tx))"

definition announce_body :: "'j rest_api \<Rightarrow> Config \<Rightarrow> request_body result \<Rightarrow> string \<Rightarrow> string answer" where
  "announce_body S cfg dto path = (case dto of Inl e \<Rightarrow> failed cfg e | Inr dto \<Rightarrow> announceTransaction S cfg dto path)"

definition Announce :: "'j rest_api \<Rightarrow> Config \<Rightarrow> SignedTransaction \<Rightarrow> string answer" where
  "Announce S cfg tx = announce_body S cfg (signed_body tx) transactionsRoute"

definition AnnounceAggregateBonded :: "'j rest_api \<Rightarrow> Config \<Rightarrow> SignedTransaction \<Rightarrow> string answer" where
  "AnnounceAggregateBonded S cfg tx = announce_body S cfg (signed_body tx) announceAggregateRoute"

definition AnnounceAggregateBondedCosignature ::
  "'j rest_api \<Rightarrow> Config \<Rightarrow> CosignatureSignedTransaction \<Rightarrow> string answer" where
  "AnnounceAggregateBondedCosignature S cfg c =
     announce_body S cfg
       (res_map (\<lambda>h. cosignatureSignedTransactionDto (Hash_String h) (Signature_String (cs_Signature c)) (cs_Signer c)) (deref (cs_ParentHash c)))
       announceAggregateCosignatureRoute"

definition GetTransactionStatus :: "'j rest_api \<Rightarrow> Config \<Rightarrow> string \<Rightarrow> TransactionStatus answer" where
  "GetTransactionStatus S cfg ident =
     rest_call S cfg MethodGet (transactionStatusRoute ident) NoBody (ra_status S) not_found_codes transactionStatusDTO_toStruct"

definition GetTransactionStatuses :: "'j rest_api \<Rightarrow> Config \<Rightarrow> string list \<Rightarrow> TransactionStatus list answer" where
  "GetTransactionStatuses S cfg hashes =
     rest_call S cfg MethodPost transactionsStatusRoute (Strings ''hashes'' hashes) (ra_statuses S) not_found_codes transactionStatusDTOs_toStruct"

text \<open>
  \<open>Height\<close> is a field of the embedded \<open>TransactionInfo\<close>, a nil pointer of which panics; \<open>int\<close> has 64 bits. The -1 that goes with an
  error is left out.
\<close>

definition GetTransactionEffectiveFee :: "'k crypto \<Rightarrow> 'j json_api \<Rightarrow> 'j rest_api \<Rightarrow> Config \<Rightarrow> string \<Rightarrow> int answer" where
  "GetTransactionEffectiveFee C J S cfg transactionId =
     and_then (GetTransaction C J S cfg transactionId) (\<lambda>cfg tx.
       case tx_TransactionInfo (GetAbstractTransaction tx) of
         None \<Rightarrow> failed cfg Panicked
       | Some info \<Rightarrow> and_then (GetBlockByHeight C S cfg (ti_Height info)) (\<lambda>cfg block.
           (cfg, Inr (sint (ucast (blk_FeeMultiplier block) * word_of_nat (Tx_Size C tx) :: u64)))))"

section \<open>The configuration the network gives\<close>

definition DefaultWebsocketReconnectionTimeout :: u64 where "DefaultWebsocketReconnectionTimeout = 5 * 1000000000"

definition NewConfig ::
  "'k crypto \<Rightarrow> 'j rest_api \<Rightarrow> (string \<Rightarrow> URL result) \<Rightarrow> string list \<Rightarrow> request_error + Config" where
  "NewConfig C S parse baseUrls =
     (case NewConfigWithReputation parse baseUrls NotSupportedNet DefaultWebsocketReconnectionTimeout None DefaultFeeCalculationStrategy of
        Inl e \<Rightarrow> Inl (RequestError e)
      | Inr tempConf \<Rightarrow>
          snd (and_then (GetBlockByHeight C S tempConf 1) (\<lambda>tempConf block.
               and_then (GetNetworkType S tempConf) (\<lambda>tempConf networkType.
                 answered_with tempConf (NewConfigWithReputation parse baseUrls networkType DefaultWebsocketReconnectionTimeout
                   (blk_GenerationHash block) DefaultFeeCalculationStrategy)))))"

end
