(* ===== verification/ServicesProperties.thy ===== *)
theory ServicesProperties
  imports Services SdkClientProperties TxDtoProperties
begin

text \<open>
  What the services promise: every operation leaves a configuration that differs in the used node only, the answers the
  client refuses never reach the table of errors of an operation, an entry without metadata is an empty one, and the two
  operations that are made of others.
\<close>

section \<open>The configuration\<close>

definition moved :: "Config \<Rightarrow> Config \<Rightarrow> bool" where
  "moved cfg cfg' \<longleftrightarrow> (\<exists>u. cfg' = cfg\<lparr>cfg_UsedBaseUrl := u\<rparr>) \<and> (config_ok cfg \<longrightarrow> config_ok cfg')"

lemma moved_refl [simp]: "moved cfg cfg"
  unfolding moved_def by (intro conjI exI [of _ "cfg_UsedBaseUrl cfg"]) simp_all

lemma moved_trans: "moved a b \<Longrightarrow> moved b c \<Longrightarrow> moved a c"
  by (auto simp: moved_def)

lemma moved_same:
  "moved cfg cfg' \<Longrightarrow> cfg_BaseURLs cfg' = cfg_BaseURLs cfg \<and> cfg_NetworkType cfg' = cfg_NetworkType cfg
     \<and> cfg_GenerationHash cfg' = cfg_GenerationHash cfg"
  by (auto simp: moved_def)

lemma doNewRequest_moved: "moved cfg (fst (doNewRequest req cfg))"
proof (cases "doNewRequest req cfg")
  case (Pair cfg' r)
  show ?thesis
  proof (cases "req (url_Host (used_url cfg))")
    case (Inr x)
    then show ?thesis by (simp add: doNewRequest_def)
  next
    case (Inl e)
    show ?thesis
    proof (cases e)
      case (UrlError d)
      with Inl Pair have t: "try_others req cfg e [0..<length (cfg_BaseURLs cfg)] = (cfg', r)"
        by (simp add: doNewRequest_def)
      then show ?thesis
      proof (cases r)
        case r: (Inl e')
        with Pair try_others_Inl [OF t [unfolded r]] show ?thesis by simp
      next
        case r: (Inr x)
        from try_others_Inr [OF t [unfolded r]] obtain vs u ws where
          "[0..<length (cfg_BaseURLs cfg)] = vs @ u # ws" "cfg' = cfg\<lparr>cfg_UsedBaseUrl := u\<rparr>" by blast
        with Pair upt_split show ?thesis by (auto simp: moved_def config_ok_def)
      qed
    qed (use Inl in \<open>simp_all add: doNewRequest_def\<close>)
  qed
qed

lemma send_request_moved: "moved cfg (fst (send_request S cfg mth path body v))"
  by (auto simp: send_request_def failed_def split: sum.split) (metis doNewRequest_moved fst_conv)

lemma answered_with_fst [simp]: "fst (answered_with cfg r) = cfg"
  by (simp add: answered_with_def)

lemma failed_fst [simp]: "fst (failed cfg e) = cfg"
  by (simp add: failed_def)

lemma rest_call_moved: "moved cfg (fst (rest_call S cfg mth path body v codes k))"
  using send_request_moved [of cfg S mth path body v]
  by (auto simp: rest_call_def split: prod.split sum.split)

text \<open>
  An operation of a service, as its callers see it: whatever it answers, the configuration it leaves is the one it got
  but for the node that is used.
\<close>

locale client_operation =
  fixes operation :: "Config \<Rightarrow> 'a answer"
  assumes moves: "moved cfg (fst (operation cfg))"
begin

lemma keeps_config: "operation cfg = (cfg', r) \<Longrightarrow> config_ok cfg \<Longrightarrow> config_ok cfg'"
  using moves [of cfg] by (simp add: moved_def)

lemma keeps_network: "operation cfg = (cfg', r) \<Longrightarrow> cfg_NetworkType cfg' = cfg_NetworkType cfg"
  using moves [of cfg] moved_same by fastforce

lemma then_moves:
  assumes "\<And>cfg x. moved cfg (fst (k cfg x))"
  shows "moved cfg (fst (and_then (operation cfg) k))"
  using moves [of cfg] assms moved_trans
  by (auto simp: and_then_def split: prod.split sum.split)

end

interpretation block_by_height: client_operation "\<lambda>cfg. GetBlockByHeight C S cfg height" for C S height
  by unfold_locales (simp add: GetBlockByHeight_def rest_call_moved)

interpretation transaction_by_id: client_operation "\<lambda>cfg. GetTransaction C J S cfg ident" for C J S ident
  by unfold_locales (simp add: GetTransaction_def rest_call_moved)

interpretation chain_height: client_operation "GetBlockchainHeight S" for S
  by unfold_locales (simp add: GetBlockchainHeight_def rest_call_moved)

interpretation effective_fee: client_operation "\<lambda>cfg. GetTransactionEffectiveFee C J S cfg ident" for C J S ident
  unfolding GetTransactionEffectiveFee_def
  by unfold_locales
    (auto intro!: transaction_by_id.then_moves block_by_height.then_moves split: option.split)

interpretation network_config: client_operation "GetNetworkConfig C S" for C S
  unfolding GetNetworkConfig_def
  by unfold_locales (intro chain_height.then_moves, simp add: GetNetworkConfigAtHeight_def rest_call_moved)

section \<open>Answers that are refused\<close>

lemma client_do_accepts:
  "client_do send v cancelled host = Inr (resp, x) \<Longrightarrow> 200 \<le> rs_StatusCode resp \<and> rs_StatusCode resp \<le> 226"
  by (auto simp: client_do_def split: sum.splits if_splits)

lemma doNewRequest_Inr: "doNewRequest req cfg = (cfg', Inr x) \<Longrightarrow> \<exists>host. req host = Inr x"
  by (auto simp: doNewRequest_def split: sum.splits request_error.splits dest!: try_others_Inr)

lemma send_request_accepts:
  assumes "send_request S cfg mth path body v = (cfg', Inr (resp, x))"
  shows "200 \<le> rs_StatusCode resp \<and> rs_StatusCode resp \<le> 226"
proof -
  from assms obtain req where "doNewRequest (client_do (\<lambda>host. ra_send S (req\<lparr>rr_URL := (rr_URL req)\<lparr>url_Host := host\<rparr>\<rparr>)) v (ra_cancelled S)) cfg
      = (cfg', Inr (resp, x))"
    by (auto simp: send_request_def failed_def split: sum.splits)
  from doNewRequest_Inr [OF this] obtain host where
    "client_do (\<lambda>host. ra_send S (req\<lparr>rr_URL := (rr_URL req)\<lparr>url_Host := host\<rparr>\<rparr>)) v (ra_cancelled S) host = Inr (resp, x)" ..
  then show ?thesis by (rule client_do_accepts)
qed

definition request_to :: "'j rest_api \<Rightarrow> Config \<Rightarrow> http_method \<Rightarrow> string \<Rightarrow> request_body \<Rightarrow> rest_request result" where
  "request_to S cfg mth path body =
     res_map (\<lambda>r. r\<lparr>rr_URL := (rr_URL r)\<lparr>url_Host := url_Host (used_url cfg)\<rparr>\<rparr>) (newRequest S cfg mth path body)"

lemma send_request_refused:
  assumes "request_to S cfg mth path body = Inr req" "ra_send S req = Inr resp"
    "rs_StatusCode resp < 200 \<or> 226 < rs_StatusCode resp"
  shows "send_request S cfg mth path body v = (cfg, Inl (HttpError (rs_Body resp) (rs_StatusCode resp)))"
  using assms
  by (auto simp: request_to_def res_map_Inr_iff send_request_def doNewRequest_def client_do_def)

lemma send_request_accepted:
  assumes "request_to S cfg mth path body = Inr req" "ra_send S req = Inr resp"
    "200 \<le> rs_StatusCode resp" "rs_StatusCode resp \<le> 226" "v (rs_Body resp) = Inr x"
  shows "send_request S cfg mth path body v = (cfg, Inr (resp, x))"
  using assms
  by (auto simp: request_to_def res_map_Inr_iff send_request_def doNewRequest_def client_do_def)

lemma rest_call_refused:
  assumes "request_to S cfg mth path body = Inr req" "ra_send S req = Inr resp"
    "rs_StatusCode resp < 200 \<or> 226 < rs_StatusCode resp"
  shows "rest_call S cfg mth path body v codes k = (cfg, Inl (HttpError (rs_Body resp) (rs_StatusCode resp)))"
  by (simp add: rest_call_def send_request_refused [OF assms])

lemma rest_call_accepted:
  assumes "request_to S cfg mth path body = Inr req" "ra_send S req = Inr resp"
    "rs_StatusCode resp = 200" "v (rs_Body resp) = Inr x" "codes = None \<or> codes = not_found_codes \<or> codes = invalid_codes \<or> codes = conflict_codes"
  shows "rest_call S cfg mth path body v codes k = answered_with cfg (k x)"
proof -
  have "send_request S cfg mth path body v = (cfg, Inr (resp, x))"
    by (rule send_request_accepted) (use assms in simp_all)
  then show ?thesis using assms(3,5)
    by (auto simp: rest_call_def handleResponseStatusCode_def not_found_codes_def invalid_codes_def conflict_codes_def)
qed

lemma getMetadata_missing:
  assumes "request_to S cfg MethodGet url NoBody = Inr req" "ra_send S req = Inr resp" "rs_StatusCode resp = 404"
  shows "getMetadata S cfg url zero v = (cfg, Inr zero)"
proof -
  have "send_request S cfg MethodGet url NoBody v = (cfg, Inl (HttpError (rs_Body resp) 404))"
    using send_request_refused [OF assms(1,2), of v] assms(3) by simp
  then show ?thesis by (simp add: getMetadata_def)
qed

section \<open>A small server\<close>

definition sample_block_dto :: blockInfoDTO where
  "sample_block_dto = \<lparr>bd_BlockHash = [], bd_GenerationHash = hex_encode (replicate 32 9), bd_TotalFee = (0, 0), bd_NumTransactions = 0,
     bd_Signature = [], bd_Signer = sample_key, bd_Version = 0xB8000003, bd_Type = 32835, bd_Height = (1, 0), bd_Timestamp = (0, 0),
     bd_Difficulty = (0, 0), bd_FeeMultiplier = 0, bd_PreviousBlockHash = [], bd_BlockTransactionsHash = [], bd_BlockReceiptsHash = [],
     bd_StateHash = [], bd_Beneficiary = EmptyPublicKey, bd_FeeInterest = 0, bd_FeeInterestDenominator = 0\<rparr>"

text \<open>It answers every request in the same way.\<close>

definition sample_api :: "int \<Rightarrow> nat rest_api" where
  "sample_api code = \<lparr>
     ra_parse = (\<lambda>u path. Inr (u\<lparr>url_Path := path\<rparr>)), ra_encode = (\<lambda>path _. path),
     ra_parseUrl = (\<lambda>_. Inl HexErrLength), ra_Values = (\<lambda>_. Inr []), ra_EncodeValues = (\<lambda>_. []), ra_urlString = url_Path, ra_send = (\<lambda>_. Inr \<lparr>rs_StatusCode = code, rs_Body = []\<rparr>), ra_cancelled = False, ra_buffer = (\<lambda>_. Inl
     Panicked), ra_buffers = (\<lambda>_. Inl Panicked), ra_accountProperties = (\<lambda>_. Inl Panicked),
     ra_accountsProperties = (\<lambda>_. Inl Panicked), ra_accountInfo = (\<lambda>_. Inl Panicked),
     ra_accountInfos = (\<lambda>_. Inl Panicked), ra_multisig = (\<lambda>_. Inl Panicked), ra_multisigGraph
     = (\<lambda>_. Inl Panicked), ra_accountNames = (\<lambda>_. Inl Panicked), ra_block = (\<lambda>_. Inr
     sample_block_dto), ra_blocks = (\<lambda>_. Inl Panicked), ra_height = (\<lambda>_. Inr (7, 0)), ra_score
     = (\<lambda>_. Inl Panicked), ra_storage = (\<lambda>_. Inl Panicked), ra_contracts = (\<lambda>_. Inl
     Panicked), ra_addressMetadata = (\<lambda>_. Inl Panicked), ra_mosaicMetadata = (\<lambda>_. Inl
     Panicked), ra_namespaceMetadata = (\<lambda>_. Inl Panicked), ra_addressMetadatas = (\<lambda>_. Inl
     Panicked), ra_mosaicMetadatas = (\<lambda>_. Inl Panicked), ra_namespaceMetadatas = (\<lambda>_. Inl
     Panicked), ra_mosaic = (\<lambda>_. Inl Panicked), ra_mosaics = (\<lambda>_. Inl Panicked),
     ra_mosaicNames = (\<lambda>_. Inl Panicked), ra_namespace = (\<lambda>_. Inl Panicked), ra_namespaces =
     (\<lambda>_. Inl Panicked), ra_namespaceNames = (\<lambda>_. Inl Panicked), ra_network = (\<lambda>_. Inr
     ''public''), ra_config = (\<lambda>_. Inl Panicked), ra_upgrade = (\<lambda>_. Inl Panicked), ra_message
     = (\<lambda>_. Inr ''packet''), ra_status = (\<lambda>_. Inl Panicked), ra_statuses = (\<lambda>_. Inl
     Panicked)\<rparr>"

lemma sample_api_request:
  "\<exists>req. request_to (sample_api code) cfg mth path body = Inr req"
  by (simp add: request_to_def newRequest_def sample_api_def)

lemma sample_api_send: "ra_send (sample_api code) req = Inr \<lparr>rs_StatusCode = code, rs_Body = []\<rparr>"
  by (simp add: sample_api_def)

lemma sample_block:
  "\<exists>block. GetBlockByHeight sample_crypto (sample_api 200) cfg 1 = (cfg, Inr block)
     \<and> blk_GenerationHash block = Some (replicate 32 9)"
proof -
  obtain ad where "NewAccountFromPublicKey sample_crypto sample_key (ExtractNetworkType 0xB8000003) =
      Inr \<lparr>pa_Address = ad, pa_PublicKey = sample_key\<rparr>"
    using NewAccountFromPublicKey_ok [OF sample_hashes_ok hex_decode_encode] unfolding sample_key_def by blast
  then obtain block where b: "blockInfoDTO_toStruct sample_crypto sample_block_dto = Inr block"
    "blk_GenerationHash block = Some (replicate 32 9)"
    by (simp add: blockInfoDTO_toStruct_def sample_block_dto_def hashDto_Hash_def signatureDto_Signature_def uint64DTO_toStruct_def
        uint64DTO_toUint64_eq blockchainTimestampDTO_toStruct_def StringToHash_def bytesToHash_def hex_decode_encode Let_def
        subslice_def copy_at_whole)
  obtain req where req: "request_to (sample_api 200) cfg MethodGet (blockByHeightRoute (baseInt64_String 1)) NoBody = Inr req"
    using sample_api_request by blast
  have "GetBlockByHeight sample_crypto (sample_api 200) cfg 1 = answered_with cfg (blockInfoDTO_toStruct sample_crypto sample_block_dto)"
    using rest_call_accepted [OF req sample_api_send, of "ra_block (sample_api 200)" sample_block_dto not_found_codes
        "blockInfoDTO_toStruct sample_crypto"]
    by (simp add: GetBlockByHeight_def sample_api_def)
  with b show ?thesis by (simp add: answered_with_def)
qed

lemma sample_network: "GetNetworkType (sample_api 200) cfg = (cfg, Inr Public)"
proof -
  obtain req where req: "request_to (sample_api 200) cfg MethodGet networkRoute NoBody = Inr req"
    using sample_api_request by blast
  show ?thesis
    unfolding GetNetworkType_def
    by (subst rest_call_accepted [OF req sample_api_send, of "ra_network (sample_api 200)" "''public''" None])
      (simp_all add: sample_api_def NetworkTypeFromString_def go_consts answered_with_def)
qed

section \<open>Properties\<close>

text \<open>
  C20. Whatever the server answers, the operations that ask for a block, a transaction, the fee of a transaction or the network's
  configuration keep the client's configuration sound: the used node is one of the nodes, and the nodes, the kind of network and
  the generation hash stay as they were. This covers the operations that send two requests, of which the second starts at the
  node the first one ended at.
\<close>

theorem operations_keep_configuration:
  assumes "config_ok cfg"
    "cfg' \<in> {fst (GetBlockByHeight C S cfg height), fst (GetTransaction C J S cfg ident),
       fst (GetTransactionEffectiveFee C J S cfg ident), fst (GetNetworkConfig C S cfg)}"
  shows "config_ok cfg' \<and> cfg_BaseURLs cfg' = cfg_BaseURLs cfg \<and> cfg_NetworkType cfg' = cfg_NetworkType cfg
    \<and> cfg_GenerationHash cfg' = cfg_GenerationHash cfg"
proof -
  have "moved cfg cfg'"
    using assms(2) block_by_height.moves transaction_by_id.moves effective_fee.moves network_config.moves
    by (elim insertE emptyE) simp_all
  with assms(1) show ?thesis by (auto simp: moved_def)
qed

lemma operations_keep_configuration_witness:
  "config_ok (fst (GetTransactionEffectiveFee sample_crypto sample_json (sample_api 200) sample_nodes ''1''))"
proof -
  have "config_ok sample_nodes" by (simp add: config_ok_def sample_nodes_def sample_config_def)
  from operations_keep_configuration [OF this, of "fst (GetTransactionEffectiveFee sample_crypto sample_json (sample_api 200) sample_nodes ''1'')"
    sample_crypto "sample_api 200" 1 sample_json "''1''"]
  show ?thesis by blast
qed

text \<open>
  C27. An answer with status 404 never becomes the \<open>ErrResourceNotFound\<close> that the operations list for it. The client's \<open>do\<close>
  turns every status outside 200 to 226 into an \<open>HttpError\<close>, which is what asking for an unknown mosaic returns; for every response that
  does reach \<open>handleResponseStatusCode\<close>, the tables of the operations make no difference.
\<close>

theorem status_tables_are_dead:
  assumes "request_to S cfg MethodGet (ra_encode S (mosaicRoute (hex_mosaic m)) []) NoBody = Inr req"
    "ra_send S req = Inr resp" "rs_StatusCode resp = 404"
  shows "GetMosaicInfo C S cfg (Some m) = (cfg, Inl (HttpError (rs_Body resp) 404))
    \<and> (\<forall>cfg cfg' mth path body v resp x. send_request S cfg mth path body v = (cfg', Inr (resp, x :: 'x)) \<longrightarrow>
         (\<forall>codes \<in> {not_found_codes, invalid_codes, conflict_codes}.
            handleResponseStatusCode (Some resp) codes = handleResponseStatusCode (Some resp) None))"
proof (intro conjI allI impI ballI)
  show "GetMosaicInfo C S cfg (Some m) = (cfg, Inl (HttpError (rs_Body resp) 404))"
    using rest_call_refused [OF assms(1,2)] assms(3) by (simp add: GetMosaicInfo_def with_pointer_def)
next
  fix cfg cfg' mth path body v resp codes and x :: 'x
  assume "send_request S cfg mth path body v = (cfg', Inr (resp, x))"
    and codes: "codes \<in> {not_found_codes, invalid_codes, conflict_codes}"
  from send_request_accepts [OF this(1)] codes
  show "handleResponseStatusCode (Some resp) codes = handleResponseStatusCode (Some resp) None"
    by (auto simp: handleResponseStatusCode_def not_found_codes_def invalid_codes_def conflict_codes_def)
qed

lemma status_tables_are_dead_witness:
  "GetMosaicInfo sample_crypto (sample_api 404) sample_nodes (Some (newMosaicIdPanic 5)) = (sample_nodes, Inl (HttpError [] 404))"
proof -
  obtain req where req: "request_to (sample_api 404) sample_nodes MethodGet
      (ra_encode (sample_api 404) (mosaicRoute (hex_mosaic (newMosaicIdPanic 5))) []) NoBody = Inr req"
    using sample_api_request by blast
  show ?thesis using conjunct1 [OF status_tables_are_dead [OF req sample_api_send, where C = sample_crypto]] by simp
qed

text \<open>
  C28. Asking for the metadata of something that has none is no error: when the server answers 404, the three operations return an
  entry without fields, of the right type and with the identifier that was asked for.
\<close>

theorem missing_metadata:
  assumes "\<And>path. \<exists>u. ra_parse S (used_url cfg) path = Inr u" "\<And>req. \<exists>b. ra_send S req = Inr \<lparr>rs_StatusCode = 404, rs_Body = b\<rparr>"
    "NewAddressFromRaw address = Inr a"
  shows "GetMetadataByAddress S cfg address =
      (cfg, Inr \<lparr>mi_MetadataType = MetadataAddressType, mi_Fields = [], ami_Address = Some a\<rparr>)
    \<and> GetMetadataByMosaicId S cfg (Some m) =
      (cfg, Inr \<lparr>mi_MetadataType = MetadataMosaicType, mi_Fields = [], mmi_MosaicId = m\<rparr>)
    \<and> GetMetadataByNamespaceId S cfg (Some n) =
      (cfg, Inr \<lparr>mi_MetadataType = MetadataNamespaceType, mi_Fields = [], nmi_NamespaceId = n\<rparr>)"
proof -
  have missing: "getMetadata S cfg url zero v = (cfg, Inr zero)" for url and zero :: 'v and v
  proof -
    obtain u where u: "ra_parse S (used_url cfg) url = Inr u" using assms(1) by blast
    obtain req where req: "request_to S cfg MethodGet url NoBody = Inr req"
      by (simp add: request_to_def newRequest_def u)
    obtain b where "ra_send S req = Inr \<lparr>rs_StatusCode = 404, rs_Body = b\<rparr>" using assms(2) by blast
    then show ?thesis by (rule getMetadata_missing [OF req]) simp
  qed
  have "address \<noteq> []" using assms(3) empty_raw_address_panics by auto
  then show ?thesis
    by (simp add: GetMetadataByAddress_def GetMetadataByMosaicId_def GetMetadataByNamespaceId_def missing with_pointer_def
        then_convert_def answered_with_def MetadataNone_def assms(3))
qed

lemma missing_metadata_witness:
  "GetMetadataByAddress (sample_api 404) sample_nodes (b32_encode [144, 0, 0, 0, 0]) =
     (sample_nodes, Inr \<lparr>mi_MetadataType = MetadataAddressType, mi_Fields = [],
        ami_Address = Some \<lparr>addr_Type = 144, addr_Address = b32_encode [144, 0, 0, 0, 0]\<rparr>\<rparr>)"
proof -
  have "NewAddressFromRaw (b32_encode [144, 0, 0, 0, 0]) = Inr \<lparr>addr_Type = 144, addr_Address = b32_encode [144, 0, 0, 0, 0]\<rparr>"
    by (rule NewAddressFromRaw_b32 [of _ 144 "[0, 0, 0, 0]"]) (simp_all add: addressNet_idem)
  from missing_metadata [OF _ _ this, of "sample_api 404" sample_nodes] show ?thesis
    by (simp add: sample_api_def)
qed

text \<open>
  C29. The configuration that \<open>NewConfig\<close> makes of some node addresses: the nodes in their order, the first of them in use, the generation
  hash of the block at height 1, the kind of network \<open>GetNetworkType\<close> answers with, which is one the SDK knows, and the middle fees. Both answers come
  from the nodes given: the first of them is asked first for the block, and the node that answered is asked for the network.
\<close>

theorem new_config:
  assumes "NewConfig C S parse baseUrls = Inr cfg"
  shows "mapR parse baseUrls = Inr (cfg_BaseURLs cfg) \<and> config_ok cfg \<and> cfg_UsedBaseUrl cfg = 0
    \<and> cfg_FeeCalculationStrategy cfg = 250
    \<and> cfg_NetworkType cfg \<in> {Mijin, MijinTest, Public, PublicTest, Private, PrivateTest}
    \<and> (\<exists>temp asked asked' block. cfg_BaseURLs temp = cfg_BaseURLs cfg \<and> cfg_UsedBaseUrl temp = 0
         \<and> GetBlockByHeight C S temp 1 = (asked, Inr block) \<and> cfg_GenerationHash cfg = blk_GenerationHash block
         \<and> cfg_BaseURLs asked = cfg_BaseURLs cfg \<and> config_ok asked
         \<and> GetNetworkType S asked = (asked', Inr (cfg_NetworkType cfg)))"
proof -
  from assms obtain temp asked block asked' nt where t:
    "NewConfigWithReputation parse baseUrls NotSupportedNet DefaultWebsocketReconnectionTimeout None DefaultFeeCalculationStrategy = Inr temp"
    "GetBlockByHeight C S temp 1 = (asked, Inr block)" "GetNetworkType S asked = (asked', Inr nt)"
    "NewConfigWithReputation parse baseUrls nt DefaultWebsocketReconnectionTimeout (blk_GenerationHash block) DefaultFeeCalculationStrategy = Inr cfg"
    by (auto simp: NewConfig_def and_then_def answered_with_def split: sum.splits prod.splits)
  have "nt \<in> {Mijin, MijinTest, Public, PublicTest, Private, PrivateTest}"
    using t(3) by (auto simp: GetNetworkType_def rest_call_def answered_with_def NetworkTypeFromString_def Let_def res_bind_Inr_iff
        split: sum.splits prod.splits if_splits)
  moreover have "cfg_BaseURLs asked = cfg_BaseURLs temp" "config_ok asked"
    using block_by_height.moves [of temp C S 1] t(2) moved_same [of temp asked] NewConfigWithReputation_ok [OF t(1)]
    by (simp_all add: moved_def)
  moreover have "\<exists>urls. mapR parse baseUrls = Inr urls \<and> cfg_BaseURLs temp = urls \<and> cfg_UsedBaseUrl temp = 0 \<and> cfg_BaseURLs cfg = urls
      \<and> cfg_UsedBaseUrl cfg = 0 \<and> cfg_GenerationHash cfg = blk_GenerationHash block \<and> cfg_NetworkType cfg = nt
      \<and> cfg_FeeCalculationStrategy cfg = DefaultFeeCalculationStrategy"
    using t(1,4) by (auto simp: NewConfigWithReputation_def res_bind_Inr_iff split: if_splits)
  ultimately show ?thesis
    using t(2,3) NewConfigWithReputation_ok [OF t(4)]
    by (auto simp: DefaultFeeCalculationStrategy_def MiddleCalculationStrategy_def)
qed

definition sample_parse :: "string \<Rightarrow> URL result" where
  "sample_parse s = Inr \<lparr>url_Scheme = ''http'', url_Host = s, url_Path = [], url_RawQuery = []\<rparr>"

lemma new_config_witness:
  "\<exists>cfg. NewConfig sample_crypto (sample_api 200) sample_parse [''a'', ''b''] = Inr cfg
     \<and> config_ok cfg \<and> map url_Host (cfg_BaseURLs cfg) = [''a'', ''b''] \<and> cfg_FeeCalculationStrategy cfg = 250
     \<and> cfg_NetworkType cfg = Public"
proof -
  let ?temp = "\<lparr>cfg_BaseURLs = [\<lparr>url_Scheme = ''http'', url_Host = ''a'', url_Path = [], url_RawQuery = []\<rparr>,
      \<lparr>url_Scheme = ''http'', url_Host = ''b'', url_Path = [], url_RawQuery = []\<rparr>], cfg_UsedBaseUrl = 0,
    cfg_WsReconnectionTimeout = DefaultWebsocketReconnectionTimeout, cfg_GenerationHash = None, cfg_NetworkType = NotSupportedNet,
    cfg_FeeCalculationStrategy = DefaultFeeCalculationStrategy\<rparr>"
  obtain block where "GetBlockByHeight sample_crypto (sample_api 200) ?temp 1 = (?temp, Inr block)"
    using sample_block by blast
  then obtain cfg where cfg: "NewConfig sample_crypto (sample_api 200) sample_parse [''a'', ''b''] = Inr cfg"
    by (simp add: NewConfig_def NewConfigWithReputation_def sample_parse_def and_then_def sample_network answered_with_def)
  from new_config [OF cfg] have new: "mapR sample_parse [''a'', ''b''] = Inr (cfg_BaseURLs cfg)" "config_ok cfg"
      "cfg_FeeCalculationStrategy cfg = 250" and "\<exists>asked asked'. GetNetworkType (sample_api 200) asked = (asked', Inr (cfg_NetworkType cfg))"
    by blast+
  from this(4) have "cfg_NetworkType cfg = Public" by (auto simp: sample_network)
  from new(1) have "cfg_BaseURLs cfg = [\<lparr>url_Scheme = ''http'', url_Host = ''a'', url_Path = [], url_RawQuery = []\<rparr>,
      \<lparr>url_Scheme = ''http'', url_Host = ''b'', url_Path = [], url_RawQuery = []\<rparr>]"
    by (simp add: sample_parse_def)
  with cfg new \<open>cfg_NetworkType cfg = Public\<close> show ?thesis by simp
qed

end
