(* ===== verification/WsStores.thy ===== *)
theory WsStores
  imports WsClient
begin

text \<open>
  The objects of the websocket client, file by file: the stores of \<open>sdk/websocket/subscribers/\<close> other than
  \<open>confirmed_added.go\<close> (theory \<open>WsSubscribers\<close>), each with its own operations; the mappers of
  \<open>sdk/message_processors.go\<close> and the handlers of \<open>sdk/websocket/handlers/\<close> as the structures their constructors
  make; the router of \<open>sdk/websocket/router.go\<close>. The client's \<open>Add\<close> operations put these objects together; the lemmas
  \<open>wired_\<close> show that what they put together handles a message as \<^const>\<open>channel_Handle\<close> of theory \<open>WsClient\<close> does.
\<close>

named_theorems store_defs \<open>the operations of the stores, file by file\<close>

section \<open>The stores by address\<close>

text \<open>
  The six files have the text of \<open>confirmed_added.go\<close> but for the type of the callback: a pointer to a
  \<open>func(*sdk.SignerInfo) bool\<close> in \<open>cosignature.go\<close>, and so on. A callback is known by its pointer in the model, so
  the bodies are those of \<^const>\<open>subs_AddHandlers\<close> and its companions. Each store meets the interface
  \<open>subscriber\<close> on which the goroutines of a message rely.
\<close>

subsection \<open>\<open>cosignature.go\<close>\<close>

type_synonym 'h cosignatureImpl = "'h subscribers"

definition NewCosignature :: "'h cosignatureImpl" where [store_defs]: "NewCosignature = NewSubscribers"

definition cosignatureImpl_AddHandlers :: "string \<Rightarrow> 'h list \<Rightarrow> 'h cosignatureImpl \<Rightarrow> 'h cosignatureImpl \<times> unit result" where
  [store_defs]: "cosignatureImpl_AddHandlers = subs_AddHandlers"

definition cosignatureImpl_RemoveHandlers :: "string \<Rightarrow> 'h list \<Rightarrow> 'h cosignatureImpl \<Rightarrow> 'h cosignatureImpl \<times> bool result" where
  [store_defs]: "cosignatureImpl_RemoveHandlers = subs_RemoveHandlers"

definition cosignatureImpl_HasHandlers :: "string \<Rightarrow> 'h cosignatureImpl \<Rightarrow> bool" where
  [store_defs]: "cosignatureImpl_HasHandlers = subs_HasHandlers"

definition cosignatureImpl_GetHandlers :: "string \<Rightarrow> 'h cosignatureImpl \<Rightarrow> 'h list" where
  [store_defs]: "cosignatureImpl_GetHandlers = subs_GetHandlers"

definition cosignatureImpl_GetAddresses :: "'h cosignatureImpl \<Rightarrow> string list" where
  [store_defs]: "cosignatureImpl_GetAddresses = subs_GetAddresses"

interpretation cosignature_store: subscriber subs_ok "cosignatureImpl_GetHandlers a" "\<lambda>f. cosignatureImpl_RemoveHandlers a [f]"
  "cosignatureImpl_HasHandlers a" "\<lambda>e b. if b = a then None else Some (cosignatureImpl_GetHandlers b e)" for a
  unfolding store_defs by (rule address_store.subscriber_axioms)

subsection \<open>\<open>partial_added.go\<close>\<close>

type_synonym 'h partialAddedImpl = "'h subscribers"

definition NewPartialAdded :: "'h partialAddedImpl" where [store_defs]: "NewPartialAdded = NewSubscribers"

definition partialAddedImpl_AddHandlers :: "string \<Rightarrow> 'h list \<Rightarrow> 'h partialAddedImpl \<Rightarrow> 'h partialAddedImpl \<times> unit result" where
  [store_defs]: "partialAddedImpl_AddHandlers = subs_AddHandlers"

definition partialAddedImpl_RemoveHandlers :: "string \<Rightarrow> 'h list \<Rightarrow> 'h partialAddedImpl \<Rightarrow> 'h partialAddedImpl \<times> bool result" where
  [store_defs]: "partialAddedImpl_RemoveHandlers = subs_RemoveHandlers"

definition partialAddedImpl_HasHandlers :: "string \<Rightarrow> 'h partialAddedImpl \<Rightarrow> bool" where
  [store_defs]: "partialAddedImpl_HasHandlers = subs_HasHandlers"

definition partialAddedImpl_GetHandlers :: "string \<Rightarrow> 'h partialAddedImpl \<Rightarrow> 'h list" where
  [store_defs]: "partialAddedImpl_GetHandlers = subs_GetHandlers"

definition partialAddedImpl_GetAddresses :: "'h partialAddedImpl \<Rightarrow> string list" where
  [store_defs]: "partialAddedImpl_GetAddresses = subs_GetAddresses"

interpretation partialAdded_store: subscriber subs_ok "partialAddedImpl_GetHandlers a" "\<lambda>f. partialAddedImpl_RemoveHandlers a [f]"
  "partialAddedImpl_HasHandlers a" "\<lambda>e b. if b = a then None else Some (partialAddedImpl_GetHandlers b e)" for a
  unfolding store_defs by (rule address_store.subscriber_axioms)

subsection \<open>\<open>partial_removed.go\<close>\<close>

type_synonym 'h partialRemovedImpl = "'h subscribers"

definition NewPartialRemoved :: "'h partialRemovedImpl" where [store_defs]: "NewPartialRemoved = NewSubscribers"

definition partialRemovedImpl_AddHandlers :: "string \<Rightarrow> 'h list \<Rightarrow> 'h partialRemovedImpl \<Rightarrow> 'h partialRemovedImpl \<times> unit result" where
  [store_defs]: "partialRemovedImpl_AddHandlers = subs_AddHandlers"

definition partialRemovedImpl_RemoveHandlers :: "string \<Rightarrow> 'h list \<Rightarrow> 'h partialRemovedImpl \<Rightarrow> 'h partialRemovedImpl \<times> bool result" where
  [store_defs]: "partialRemovedImpl_RemoveHandlers = subs_RemoveHandlers"

definition partialRemovedImpl_HasHandlers :: "string \<Rightarrow> 'h partialRemovedImpl \<Rightarrow> bool" where
  [store_defs]: "partialRemovedImpl_HasHandlers = subs_HasHandlers"

definition partialRemovedImpl_GetHandlers :: "string \<Rightarrow> 'h partialRemovedImpl \<Rightarrow> 'h list" where
  [store_defs]: "partialRemovedImpl_GetHandlers = subs_GetHandlers"

definition partialRemovedImpl_GetAddresses :: "'h partialRemovedImpl \<Rightarrow> string list" where
  [store_defs]: "partialRemovedImpl_GetAddresses = subs_GetAddresses"

interpretation partialRemoved_store: subscriber subs_ok "partialRemovedImpl_GetHandlers a" "\<lambda>f. partialRemovedImpl_RemoveHandlers a [f]"
  "partialRemovedImpl_HasHandlers a" "\<lambda>e b. if b = a then None else Some (partialRemovedImpl_GetHandlers b e)" for a
  unfolding store_defs by (rule address_store.subscriber_axioms)

subsection \<open>\<open>status.go\<close>\<close>

type_synonym 'h statusImpl = "'h subscribers"

definition NewStatus :: "'h statusImpl" where [store_defs]: "NewStatus = NewSubscribers"

definition statusImpl_AddHandlers :: "string \<Rightarrow> 'h list \<Rightarrow> 'h statusImpl \<Rightarrow> 'h statusImpl \<times> unit result" where
  [store_defs]: "statusImpl_AddHandlers = subs_AddHandlers"

definition statusImpl_RemoveHandlers :: "string \<Rightarrow> 'h list \<Rightarrow> 'h statusImpl \<Rightarrow> 'h statusImpl \<times> bool result" where
  [store_defs]: "statusImpl_RemoveHandlers = subs_RemoveHandlers"

definition statusImpl_HasHandlers :: "string \<Rightarrow> 'h statusImpl \<Rightarrow> bool" where
  [store_defs]: "statusImpl_HasHandlers = subs_HasHandlers"

definition statusImpl_GetHandlers :: "string \<Rightarrow> 'h statusImpl \<Rightarrow> 'h list" where
  [store_defs]: "statusImpl_GetHandlers = subs_GetHandlers"

definition statusImpl_GetAddresses :: "'h statusImpl \<Rightarrow> string list" where
  [store_defs]: "statusImpl_GetAddresses = subs_GetAddresses"

interpretation status_store: subscriber subs_ok "statusImpl_GetHandlers a" "\<lambda>f. statusImpl_RemoveHandlers a [f]"
  "statusImpl_HasHandlers a" "\<lambda>e b. if b = a then None else Some (statusImpl_GetHandlers b e)" for a
  unfolding store_defs by (rule address_store.subscriber_axioms)

subsection \<open>\<open>unconfirmed_added.go\<close>\<close>

type_synonym 'h unconfirmedAddedImpl = "'h subscribers"

definition NewUnconfirmedAdded :: "'h unconfirmedAddedImpl" where [store_defs]: "NewUnconfirmedAdded = NewSubscribers"

definition unconfirmedAddedImpl_AddHandlers :: "string \<Rightarrow> 'h list \<Rightarrow> 'h unconfirmedAddedImpl \<Rightarrow> 'h unconfirmedAddedImpl \<times> unit result" where
  [store_defs]: "unconfirmedAddedImpl_AddHandlers = subs_AddHandlers"

definition unconfirmedAddedImpl_RemoveHandlers :: "string \<Rightarrow> 'h list \<Rightarrow> 'h unconfirmedAddedImpl \<Rightarrow> 'h unconfirmedAddedImpl \<times> bool result" where
  [store_defs]: "unconfirmedAddedImpl_RemoveHandlers = subs_RemoveHandlers"

definition unconfirmedAddedImpl_HasHandlers :: "string \<Rightarrow> 'h unconfirmedAddedImpl \<Rightarrow> bool" where
  [store_defs]: "unconfirmedAddedImpl_HasHandlers = subs_HasHandlers"

definition unconfirmedAddedImpl_GetHandlers :: "string \<Rightarrow> 'h unconfirmedAddedImpl \<Rightarrow> 'h list" where
  [store_defs]: "unconfirmedAddedImpl_GetHandlers = subs_GetHandlers"

definition unconfirmedAddedImpl_GetAddresses :: "'h unconfirmedAddedImpl \<Rightarrow> string list" where
  [store_defs]: "unconfirmedAddedImpl_GetAddresses = subs_GetAddresses"

interpretation unconfirmedAdded_store: subscriber subs_ok "unconfirmedAddedImpl_GetHandlers a" "\<lambda>f. unconfirmedAddedImpl_RemoveHandlers a [f]"
  "unconfirmedAddedImpl_HasHandlers a" "\<lambda>e b. if b = a then None else Some (unconfirmedAddedImpl_GetHandlers b e)" for a
  unfolding store_defs by (rule address_store.subscriber_axioms)

subsection \<open>\<open>unconfirmed_removed.go\<close>\<close>

type_synonym 'h unconfirmedRemovedImpl = "'h subscribers"

definition NewUnconfirmedRemoved :: "'h unconfirmedRemovedImpl" where [store_defs]: "NewUnconfirmedRemoved = NewSubscribers"

definition unconfirmedRemovedImpl_AddHandlers :: "string \<Rightarrow> 'h list \<Rightarrow> 'h unconfirmedRemovedImpl \<Rightarrow> 'h unconfirmedRemovedImpl \<times> unit result" where
  [store_defs]: "unconfirmedRemovedImpl_AddHandlers = subs_AddHandlers"

definition unconfirmedRemovedImpl_RemoveHandlers :: "string \<Rightarrow> 'h list \<Rightarrow> 'h unconfirmedRemovedImpl \<Rightarrow> 'h unconfirmedRemovedImpl \<times> bool result" where
  [store_defs]: "unconfirmedRemovedImpl_RemoveHandlers = subs_RemoveHandlers"

definition unconfirmedRemovedImpl_HasHandlers :: "string \<Rightarrow> 'h unconfirmedRemovedImpl \<Rightarrow> bool" where
  [store_defs]: "unconfirmedRemovedImpl_HasHandlers = subs_HasHandlers"

definition unconfirmedRemovedImpl_GetHandlers :: "string \<Rightarrow> 'h unconfirmedRemovedImpl \<Rightarrow> 'h list" where
  [store_defs]: "unconfirmedRemovedImpl_GetHandlers = subs_GetHandlers"

definition unconfirmedRemovedImpl_GetAddresses :: "'h unconfirmedRemovedImpl \<Rightarrow> string list" where
  [store_defs]: "unconfirmedRemovedImpl_GetAddresses = subs_GetAddresses"

interpretation unconfirmedRemoved_store: subscriber subs_ok "unconfirmedRemovedImpl_GetHandlers a" "\<lambda>f. unconfirmedRemovedImpl_RemoveHandlers a [f]"
  "unconfirmedRemovedImpl_HasHandlers a" "\<lambda>e b. if b = a then None else Some (unconfirmedRemovedImpl_GetHandlers b e)" for a
  unfolding store_defs by (rule address_store.subscriber_axioms)

section \<open>The mappers\<close>

text \<open>
  A mapper is an object with one method. Some are functions (\<open>BlockMapperFn\<close> and its like), whose method calls
  the function; the others hold the function that maps a transaction.
\<close>

type_synonym 'j BlockMapperFn = "'j raw_json \<Rightarrow> BlockInfo result"

definition BlockMapperFn_MapBlock :: "'j BlockMapperFn \<Rightarrow> 'j raw_json \<Rightarrow> BlockInfo result" where
  "BlockMapperFn_MapBlock p m = p m"

type_synonym 'j UnconfirmedRemovedMapperFn = "'j raw_json \<Rightarrow> UnconfirmedRemoved result"

definition UnconfirmedRemovedMapperFn_MapUnconfirmedRemoved :: "'j UnconfirmedRemovedMapperFn \<Rightarrow> 'j raw_json \<Rightarrow> UnconfirmedRemoved result" where
  "UnconfirmedRemovedMapperFn_MapUnconfirmedRemoved p m = p m"

type_synonym 'j StatusMapperFn = "'j raw_json \<Rightarrow> StatusInfo result"

definition StatusMapperFn_MapStatus :: "'j StatusMapperFn \<Rightarrow> 'j raw_json \<Rightarrow> StatusInfo result" where
  "StatusMapperFn_MapStatus p m = p m"

type_synonym 'j PartialRemovedMapperFn = "'j raw_json \<Rightarrow> PartialRemovedInfo result"

definition PartialRemovedMapperFn_MapPartialRemoved :: "'j PartialRemovedMapperFn \<Rightarrow> 'j raw_json \<Rightarrow> PartialRemovedInfo result" where
  "PartialRemovedMapperFn_MapPartialRemoved p m = p m"

type_synonym 'j CosignatureMapperFn = "'j raw_json \<Rightarrow> SignerInfo result"

definition CosignatureMapperFn_MapCosignature :: "'j CosignatureMapperFn \<Rightarrow> 'j raw_json \<Rightarrow> SignerInfo result" where
  "CosignatureMapperFn_MapCosignature p m = p m"

record 'j confirmedAddedMapperImpl = cam_mapTransactionFunc :: "'j mapTransactionFunc"

definition NewConfirmedAddedMapper :: "'j mapTransactionFunc \<Rightarrow> 'j confirmedAddedMapperImpl" where
  "NewConfirmedAddedMapper mapTransactionFunc = \<lparr>cam_mapTransactionFunc = mapTransactionFunc\<rparr>"

definition confirmedAddedMapperImpl_MapConfirmedAdded :: "'j confirmedAddedMapperImpl \<Rightarrow> 'j raw_json \<Rightarrow> Transaction result" where
  "confirmedAddedMapperImpl_MapConfirmedAdded ref m = MapConfirmedAdded (cam_mapTransactionFunc ref) m"

record 'j unconfirmedAddedMapperImpl = uam_mapTransactionFunc :: "'j mapTransactionFunc"

definition NewUnconfirmedAddedMapper :: "'j mapTransactionFunc \<Rightarrow> 'j unconfirmedAddedMapperImpl" where
  "NewUnconfirmedAddedMapper mapTransactionFunc = \<lparr>uam_mapTransactionFunc = mapTransactionFunc\<rparr>"

definition unconfirmedAddedMapperImpl_MapUnconfirmedAdded :: "'j unconfirmedAddedMapperImpl \<Rightarrow> 'j raw_json \<Rightarrow> Transaction result" where
  "unconfirmedAddedMapperImpl_MapUnconfirmedAdded ref m = MapUnconfirmedAdded (uam_mapTransactionFunc ref) m"

record 'j partialAddedMapperImpl = pam_mapTransactionFunc :: "'j mapTransactionFunc"

definition NewPartialAddedMapper :: "'j mapTransactionFunc \<Rightarrow> 'j partialAddedMapperImpl" where
  "NewPartialAddedMapper mapTransactionFunc = \<lparr>pam_mapTransactionFunc = mapTransactionFunc\<rparr>"

definition partialAddedMapperImpl_MapPartialAdded :: "'j partialAddedMapperImpl \<Rightarrow> 'j raw_json \<Rightarrow> Transaction AggregateTransaction result" where
  "partialAddedMapperImpl_MapPartialAdded ref m = MapPartialAdded (pam_mapTransactionFunc ref) m"

section \<open>The handlers\<close>

text \<open>
  A handler holds a mapper, which is known by its method, and a pointer to a store. The pointer says
  which of the client's stores it is: the block store or the one of a channel, a \<open>topic\<close>.
\<close>

record 'j blockHandler =
  bh_messageMapper :: "'j raw_json \<Rightarrow> BlockInfo result"
  bh_handlers :: topic

definition NewBlockHandler :: "('j raw_json \<Rightarrow> BlockInfo result) \<Rightarrow> topic \<Rightarrow> 'j blockHandler" where
  "NewBlockHandler messageMapper handlers = \<lparr>bh_messageMapper = messageMapper, bh_handlers = handlers\<rparr>"

record 'j confirmedAddedHandler =
  cah_messageMapper :: "'j raw_json \<Rightarrow> Transaction result"
  cah_handlers :: topic

definition NewConfirmedAddedHandler :: "('j raw_json \<Rightarrow> Transaction result) \<Rightarrow> topic \<Rightarrow> 'j confirmedAddedHandler" where
  "NewConfirmedAddedHandler messageMapper handlers = \<lparr>cah_messageMapper = messageMapper, cah_handlers = handlers\<rparr>"

record 'j unconfirmedAddedHandler =
  uah_messageMapper :: "'j raw_json \<Rightarrow> Transaction result"
  uah_handlers :: topic

definition NewUnconfirmedAddedHandler :: "('j raw_json \<Rightarrow> Transaction result) \<Rightarrow> topic \<Rightarrow> 'j unconfirmedAddedHandler" where
  "NewUnconfirmedAddedHandler messageMapper handlers = \<lparr>uah_messageMapper = messageMapper, uah_handlers = handlers\<rparr>"

record 'j unconfirmedRemovedHandler =
  urh_messageMapper :: "'j raw_json \<Rightarrow> UnconfirmedRemoved result"
  urh_handlers :: topic

definition NewUnconfirmedRemovedHandler :: "('j raw_json \<Rightarrow> UnconfirmedRemoved result) \<Rightarrow> topic \<Rightarrow> 'j unconfirmedRemovedHandler" where
  "NewUnconfirmedRemovedHandler messageMapper handlers = \<lparr>urh_messageMapper = messageMapper, urh_handlers = handlers\<rparr>"

record 'j partialAddedHandler =
  pah_messageMapper :: "'j raw_json \<Rightarrow> Transaction AggregateTransaction result"
  pah_handlers :: topic

definition NewPartialAddedHandler :: "('j raw_json \<Rightarrow> Transaction AggregateTransaction result) \<Rightarrow> topic \<Rightarrow> 'j partialAddedHandler" where
  "NewPartialAddedHandler messageMapper handlers = \<lparr>pah_messageMapper = messageMapper, pah_handlers = handlers\<rparr>"

record 'j partialRemovedHandler =
  prh_messageMapper :: "'j raw_json \<Rightarrow> PartialRemovedInfo result"
  prh_handlers :: topic

definition NewPartialRemovedHandler :: "('j raw_json \<Rightarrow> PartialRemovedInfo result) \<Rightarrow> topic \<Rightarrow> 'j partialRemovedHandler" where
  "NewPartialRemovedHandler messageMapper handlers = \<lparr>prh_messageMapper = messageMapper, prh_handlers = handlers\<rparr>"

record 'j statusHandler =
  sth_messageMapper :: "'j raw_json \<Rightarrow> StatusInfo result"
  sth_handlers :: topic

definition NewStatusHandler :: "('j raw_json \<Rightarrow> StatusInfo result) \<Rightarrow> topic \<Rightarrow> 'j statusHandler" where
  "NewStatusHandler messageMapper handlers = \<lparr>sth_messageMapper = messageMapper, sth_handlers = handlers\<rparr>"

record 'j cosignatureHandler =
  coh_messageMapper :: "'j raw_json \<Rightarrow> SignerInfo result"
  coh_handlers :: topic

definition NewCosignatureHandler :: "('j raw_json \<Rightarrow> SignerInfo result) \<Rightarrow> topic \<Rightarrow> 'j cosignatureHandler" where
  "NewCosignatureHandler messageMapper handlers = \<lparr>coh_messageMapper = messageMapper, coh_handlers = handlers\<rparr>"

section \<open>What the client puts together\<close>

text \<open>
  The interface \<open>Handler\<close>: one constructor per implementation. \<open>Handler_Handle\<close> calls the method \<open>Handle\<close> of
  whichever it is, on the store the handler points to. \<open>wired_handler\<close> is the handler that the \<open>Add\<close> operation
  of a topic makes when it finds none.
\<close>

datatype 'j Handler =
    Handler_Block "'j blockHandler"
  | Handler_ConfirmedAdded "'j confirmedAddedHandler"
  | Handler_UnconfirmedAdded "'j unconfirmedAddedHandler"
  | Handler_UnconfirmedRemoved "'j unconfirmedRemovedHandler"
  | Handler_PartialAdded "'j partialAddedHandler"
  | Handler_PartialRemoved "'j partialRemovedHandler"
  | Handler_Status "'j statusHandler"
  | Handler_Cosignature "'j cosignatureHandler"

definition block_store_of :: "topic \<Rightarrow> 'h CatapultWebsocketClientImpl \<Rightarrow> 'h blockSubscriberImpl result" where
  "block_store_of t c = (case t of BlockTopic \<Rightarrow> Inr (wc_blockSubscriber c) | AddressTopic ch \<Rightarrow> Inl Panicked)"

definition handle_blocks ::
  "'h callbacks \<Rightarrow> 'j blockHandler \<Rightarrow> 'j raw_json \<Rightarrow> 'h CatapultWebsocketClientImpl
   \<Rightarrow> ('h CatapultWebsocketClientImpl \<times> bool) result" where
  "handle_blocks cb h resp c =
     res_bind (must (bh_messageMapper h resp)) (\<lambda>res.
     res_bind (block_store_of (bh_handlers h) c) (\<lambda>s.
     res_map (\<lambda>(s, left). (c\<lparr>wc_blockSubscriber := s\<rparr>, left))
       (handle_message block_GetHandlers (\<lambda>f. block_RemoveHandlers [f]) block_HasHandlers (cb_block cb) (cb_sched cb) res s)))"

definition handle_at ::
  "'h callbacks \<Rightarrow> ('h \<Rightarrow> 'm \<Rightarrow> bool) \<Rightarrow> ('j raw_json \<Rightarrow> 'm result) \<Rightarrow> topic \<Rightarrow> Address option \<Rightarrow> 'j raw_json
   \<Rightarrow> 'h CatapultWebsocketClientImpl \<Rightarrow> ('h CatapultWebsocketClientImpl \<times> bool) result" where
  "handle_at cb call messageMapper store address resp c =
     (case store of
        BlockTopic \<Rightarrow> Inl Panicked
      | AddressTopic ch \<Rightarrow> res_map (\<lambda>(s, left). (set_subs ch s c, left))
          (address_Handle call (cb_sched cb) (messageMapper resp) address (subs_of ch c)))"

fun Handler_Handle ::
  "'h callbacks \<Rightarrow> 'j Handler \<Rightarrow> Address option \<Rightarrow> 'j raw_json
   \<Rightarrow> 'h CatapultWebsocketClientImpl \<Rightarrow> ('h CatapultWebsocketClientImpl \<times> bool) result" where
  "Handler_Handle cb (Handler_Block h) address resp = handle_blocks cb h resp"
| "Handler_Handle cb (Handler_ConfirmedAdded h) address resp = handle_at cb (cb_confirmedAdded cb) (cah_messageMapper h) (cah_handlers h) address resp"
| "Handler_Handle cb (Handler_UnconfirmedAdded h) address resp = handle_at cb (cb_unconfirmedAdded cb) (uah_messageMapper h) (uah_handlers h) address resp"
| "Handler_Handle cb (Handler_UnconfirmedRemoved h) address resp = handle_at cb (cb_unconfirmedRemoved cb) (urh_messageMapper h) (urh_handlers h) address resp"
| "Handler_Handle cb (Handler_PartialAdded h) address resp = handle_at cb (cb_partialAdded cb) (pah_messageMapper h) (pah_handlers h) address resp"
| "Handler_Handle cb (Handler_PartialRemoved h) address resp = handle_at cb (cb_partialRemoved cb) (prh_messageMapper h) (prh_handlers h) address resp"
| "Handler_Handle cb (Handler_Status h) address resp = handle_at cb (cb_status cb) (sth_messageMapper h) (sth_handlers h) address resp"
| "Handler_Handle cb (Handler_Cosignature h) address resp = handle_at cb (cb_cosignature cb) (coh_messageMapper h) (coh_handlers h) address resp"

fun wired_handler :: "'k crypto \<Rightarrow> 'j json_api \<Rightarrow> 'j ws_json \<Rightarrow> topic \<Rightarrow> 'j Handler" where
  "wired_handler C J W BlockTopic =
     Handler_Block (NewBlockHandler (BlockMapperFn_MapBlock (MapBlock C W)) BlockTopic)"
| "wired_handler C J W (AddressTopic ConfirmedAdded) =
     Handler_ConfirmedAdded (NewConfirmedAddedHandler (confirmedAddedMapperImpl_MapConfirmedAdded (NewConfirmedAddedMapper (MapTransaction C J))) (AddressTopic ConfirmedAdded))"
| "wired_handler C J W (AddressTopic UnconfirmedAdded) =
     Handler_UnconfirmedAdded (NewUnconfirmedAddedHandler (unconfirmedAddedMapperImpl_MapUnconfirmedAdded (NewUnconfirmedAddedMapper (MapTransaction C J))) (AddressTopic UnconfirmedAdded))"
| "wired_handler C J W (AddressTopic UnconfirmedRemoved) =
     Handler_UnconfirmedRemoved (NewUnconfirmedRemovedHandler (UnconfirmedRemovedMapperFn_MapUnconfirmedRemoved (MapUnconfirmedRemoved W)) (AddressTopic UnconfirmedRemoved))"
| "wired_handler C J W (AddressTopic PartialAdded) =
     Handler_PartialAdded (NewPartialAddedHandler (partialAddedMapperImpl_MapPartialAdded (NewPartialAddedMapper (MapTransaction C J))) (AddressTopic PartialAdded))"
| "wired_handler C J W (AddressTopic PartialRemoved) =
     Handler_PartialRemoved (NewPartialRemovedHandler (PartialRemovedMapperFn_MapPartialRemoved (MapPartialRemoved W)) (AddressTopic PartialRemoved))"
| "wired_handler C J W (AddressTopic Status) =
     Handler_Status (NewStatusHandler (StatusMapperFn_MapStatus (MapStatus W)) (AddressTopic Status))"
| "wired_handler C J W (AddressTopic Cosignature) =
     Handler_Cosignature (NewCosignatureHandler (CosignatureMapperFn_MapCosignature (MapCosignature W)) (AddressTopic Cosignature))"

lemmas wiring_defs = block_store_of_def handle_blocks_def handle_at_def topic_Handle_def
  BlockMapperFn_MapBlock_def UnconfirmedRemovedMapperFn_MapUnconfirmedRemoved_def StatusMapperFn_MapStatus_def PartialRemovedMapperFn_MapPartialRemoved_def CosignatureMapperFn_MapCosignature_def
  NewConfirmedAddedMapper_def confirmedAddedMapperImpl_MapConfirmedAdded_def NewUnconfirmedAddedMapper_def unconfirmedAddedMapperImpl_MapUnconfirmedAdded_def NewPartialAddedMapper_def partialAddedMapperImpl_MapPartialAdded_def
  NewBlockHandler_def blockHandler_Handle_def NewConfirmedAddedHandler_def confirmedAddedHandler_Handle_def NewUnconfirmedAddedHandler_def unconfirmedAddedHandler_Handle_def NewUnconfirmedRemovedHandler_def unconfirmedRemovedHandler_Handle_def NewPartialAddedHandler_def partialAddedHandler_Handle_def NewPartialRemovedHandler_def partialRemovedHandler_Handle_def NewStatusHandler_def statusHandler_Handle_def NewCosignatureHandler_def cosignatureHandler_Handle_def

lemma wired_block: "Handler_Handle cb (wired_handler C J W BlockTopic) address m c = topic_Handle C J W cb BlockTopic address m c"
  by (cases "MapBlock C W m") (simp_all add: wiring_defs)

lemma wired_channel:
  "Handler_Handle cb (wired_handler C J W (AddressTopic ch)) address m c = topic_Handle C J W cb (AddressTopic ch) address m c"
  by (cases ch) (simp_all add: wiring_defs eta_contract_eq)

section \<open>The router\<close>

text \<open>
  A router shares the publisher and the table of topic handlers with the client; its own are the identifier
  of the connection and the mapper of the messages' infos.
\<close>

type_synonym 'j messageInfoMapperFn = "'j raw_json \<Rightarrow> WsMessageInfo result"

definition messageInfoMapperFn_MapMessageInfo :: "'j messageInfoMapperFn \<Rightarrow> 'j raw_json \<Rightarrow> WsMessageInfo result" where
  "messageInfoMapperFn_MapMessageInfo p m = p m"

record 'j messageRouter =
  mr_uid :: string
  mr_messageInfoMapper :: "'j raw_json \<Rightarrow> WsMessageInfo result"
  mr_topicHandlers :: "(Path \<times> ('j Handler \<times> topic_format)) list"

definition NewRouter :: "'j ws_json \<Rightarrow> string \<Rightarrow> (Path \<times> ('j Handler \<times> topic_format)) list \<Rightarrow> 'j messageRouter" where
  "NewRouter W uid topicHandlers =
     \<lparr>mr_uid = uid, mr_messageInfoMapper = messageInfoMapperFn_MapMessageInfo (MapMessageInfo W),
      mr_topicHandlers = topicHandlers\<rparr>"

definition SetUid :: "string \<Rightarrow> 'j messageRouter \<Rightarrow> 'j messageRouter" where
  "SetUid uid r = r\<lparr>mr_uid := uid\<rparr>"

definition messageRouter_RouteMessage ::
  "network \<Rightarrow> 'h callbacks \<Rightarrow> 'j messageRouter \<Rightarrow> 'j raw_json
   \<Rightarrow> 'h CatapultWebsocketClientImpl \<Rightarrow> 'h CatapultWebsocketClientImpl result" where
  "messageRouter_RouteMessage net cb r m c =
     res_bind (must (mr_messageInfoMapper r m)) (\<lambda>messageInfo.
     case map_of (mr_topicHandlers r) (wmi_ChannelName messageInfo) of
       None \<Rightarrow> Inl Panicked
     | Some (handler, format) \<Rightarrow>
         res_bind (Handler_Handle cb handler (wmi_Address messageInfo) m c) (\<lambda>(c, left).
           if left then Inr c
           else res_bind (Format format messageInfo) (\<lambda>path.
             case PublishUnsubscribeMessage net (mr_uid r) path (wc_messagePublisher c) of
               (p, Inl err) \<Rightarrow> Inl Panicked
             | (p, Inr _) \<Rightarrow> Inr (c\<lparr>wc_messagePublisher := p\<rparr>))))"

text \<open>The router's view of a client: every topic of the table with the handler that was made for it.\<close>

definition wired_topics ::
  "'k crypto \<Rightarrow> 'j json_api \<Rightarrow> 'j ws_json \<Rightarrow> topicHandlers \<Rightarrow> (Path \<times> ('j Handler \<times> topic_format)) list" where
  "wired_topics C J W h = map (\<lambda>(path, t). (path, (wired_handler C J W (th_Handler t), th_Topic t))) h"

definition router_of ::
  "'k crypto \<Rightarrow> 'j json_api \<Rightarrow> 'j ws_json \<Rightarrow> 'h CatapultWebsocketClientImpl \<Rightarrow> 'j messageRouter" where
  "router_of C J W c = NewRouter W (wc_routerUid c) (wired_topics C J W (wc_topicHandlers c))"

lemma map_of_wired: "map_of (wired_topics C J W h) path =
    map_option (\<lambda>t. (wired_handler C J W (th_Handler t), th_Topic t)) (map_of h path)"
  by (induction h) (auto simp: wired_topics_def)

lemma wired_topic: "Handler_Handle cb (wired_handler C J W t) address m c = topic_Handle C J W cb t address m c"
  by (cases t) (simp_all only: wired_block wired_channel)

lemma set_subs_router [simp]: "wc_routerUid (set_subs ch s c) = wc_routerUid c"
  by (cases ch) simp_all

lemma topic_Handle_router: "topic_Handle C J W cb t address m c = Inr (c', left) \<Longrightarrow> wc_routerUid c' = wc_routerUid c"
  by (auto simp: topic_Handle_def res_map_Inr_iff split: topic.splits)

text \<open>
  The objects do what the model of routing says: a router that \<open>NewRouter\<close> makes, with the handlers, mappers and
  stores that the client's operations construct for its topics, routes every message exactly as
  \<open>RouteMessage\<close> does, whose properties the other theories show.
\<close>

lemma wired_router:
  "messageRouter_RouteMessage net cb (router_of C J W c) m c = RouteMessage C J W net cb m c"
  by (cases "MapMessageInfo W m")
    (auto simp: messageRouter_RouteMessage_def RouteMessage_def router_of_def NewRouter_def map_of_wired GetHandler_def
        messageInfoMapperFn_MapMessageInfo_def wired_topic topic_Handle_router
        intro!: res_bind_cong split: option.split)

end
