(* ===== verification/WsRouterProperties.thy ===== *)
theory WsRouterProperties
  imports WsStores WsClientProperties
begin

text \<open>
  What the objects of the websocket client guarantee when they are put together: the router of a client with the handlers, mappers and
  stores that the \<open>Add\<close> operations make.
\<close>

lemma set_subs_self [simp]: "set_subs ch (subs_of ch c) c = c"
  by (cases ch) simp_all

text \<open>A message for a topic without callbacks is mapped and dropped.\<close>

lemma RouteMessage_nobody:
  assumes "client_ok c" "MapMessageInfo W m = Inr info" "message_topic c info = Some t" "topic_answers C J W cb t m = Inr ans"
    and "topic_handlers t (address_key (wmi_Address info)) c = []"
  shows "RouteMessage C J W net cb m c = Inr c"
proof -
  obtain th where th: "GetHandler (wmi_ChannelName info) (wc_topicHandlers c) = Some th" "th_Handler th = t"
    "t = BlockTopic \<or> (\<exists>ad. wmi_Address info = Some ad)"
    using message_topic_cases [OF assms(1-3)] by metis
  have "topic_Handle C J W cb t (wmi_Address info) m c = Inr (c, True)"
  proof (cases t)
    case BlockTopic
    then have "block_GetHandlers (wc_blockSubscriber c) = []" using assms(5) by (simp add: topic_handlers_def)
    moreover obtain b where "MapBlock C W m = Inr b"
      using assms(4) by (auto simp: BlockTopic topic_answers_def block_answers_def res_map_Inr_iff)
    ultimately show ?thesis by (simp add: BlockTopic topic_Handle_def blockHandler_Handle_def block_store.handle_message_empty)
  next
    case (AddressTopic ch)
    then obtain ad where ad: "wmi_Address info = Some ad" using th(3) by auto
    then have "subs_GetHandlers (addr_Address ad) (subs_of ch c) = []"
      using assms(5) by (simp add: AddressTopic topic_handlers_def address_key_def)
    moreover have "channel_answers C J W cb ch m = Inr ans" using assms(4) by (simp add: AddressTopic topic_answers_def)
    ultimately show ?thesis
      by (simp add: AddressTopic ad topic_Handle_def channel_Handle_answers address_Handle_empty)
  qed
  with th(1,2) assms(2) show ?thesis by (simp add: RouteMessage_def)
qed

text \<open>
  C13. Once the callbacks of a topic are done, the client is done with the topic. When a message reaches the router and every callback of its
  topic answers true, they are all gone and those of the other topics are as before; and any further message of the topic that was on its
  way when the client unsubscribed and can be mapped, whatever it says, calls nobody, writes nothing and changes nothing, on whatever
  network. The router is the object \<open>NewRouter\<close> makes, with the handlers, mappers and
  stores that the client's operations construct for its topics.
\<close>

theorem late_messages_are_dropped:
  assumes "client_ok c" "sched_ok cb" "MapMessageInfo W m = Inr info" "message_topic c info = Some t"
    and "topic_answers C J W cb t m = Inr ans"
    and "\<And>f. f \<in> set (topic_handlers t (address_key (wmi_Address info)) c) \<Longrightarrow> ans f"
    and "messageRouter_RouteMessage net cb (router_of C J W c) m c = Inr c'"
    and "MapMessageInfo W m' = Inr info'" "message_topic c info' = Some t"
    and "address_key (wmi_Address info') = address_key (wmi_Address info)" "topic_answers C J W cb' t m' = Inr ans'"
  shows "topic_handlers t (address_key (wmi_Address info)) c' = []
    \<and> (\<forall>t' b. \<not> same_topic t (address_key (wmi_Address info)) t' b \<longrightarrow> topic_handlers t' b c' = topic_handlers t' b c)
    \<and> messageRouter_RouteMessage net' cb' (router_of C J W c') m' c' = Inr c'"
proof -
  let ?a = "address_key (wmi_Address info)"
  obtain d where d: "handled t ?a ans c d" "RouteMessage C J W net cb m c =
       (if topic_handlers t ?a c = [] \<or> topic_handlers t ?a d \<noteq> [] then Inr d
        else case net (mp_conn (wc_messagePublisher c)) (unsubscribeDTO (wc_routerUid c) (path_of t ?a)) of
            None \<Rightarrow> Inr (with_frame (unsubscribeDTO (wc_routerUid c) (path_of t ?a)) d)
          | Some _ \<Rightarrow> Inl Panicked)"
    using RouteMessage_ok [OF assms(1-5)] .
  have routed: "RouteMessage C J W net cb m c = Inr c'" using assms(7) by (simp add: wired_router)
  with d(2) have c': "c' = d \<or> c' = with_frame (unsubscribeDTO (wc_routerUid c) (path_of t ?a)) d"
    by (auto split: if_splits option.splits)
  then have same: "topic_handlers t' b c' = topic_handlers t' b d" for t' b
    by (auto simp: topic_handlers_def split: topic.split)
  have table: "wc_topicHandlers c' = wc_topicHandlers c" using c' d(1) by (auto simp: handled_def)
  have gone: "topic_handlers t ?a c' = []"
    using d(1) assms(6) unfolding same by (simp add: handled_def same_topic_def filter_empty_conv)
  have others: "topic_handlers t' b c' = topic_handlers t' b c" if "\<not> same_topic t ?a t' b" for t' b
    using d(1) that unfolding same by (simp add: handled_def)
  have "client_ok c'" using RouteMessage_keeps [OF assms(1,2) routed] by simp
  moreover have "message_topic c' info' = Some t" using assms(9) by (simp add: message_topic_def table)
  ultimately have "RouteMessage C J W net' cb' m' c' = Inr c'"
    using RouteMessage_nobody [OF _ assms(8) _ assms(11)] gone by (simp add: assms(10))
  with gone others show ?thesis by (simp add: wired_router)
qed

lemma late_messages_are_dropped_witness:
  "\<forall>J :: unit json_api. \<exists>c'.
     messageRouter_RouteMessage (\<lambda>_ _. None) sample_callbacks (router_of sample_crypto J sample_ws_json (sample_ws_client [7])) (Raw () [])
       (sample_ws_client [7]) = Inr c'
     \<and> topic_handlers (AddressTopic Status) sample_ws_address c' = []
     \<and> messageRouter_RouteMessage (\<lambda>_ _. Some (NewError ''broken pipe'')) sample_callbacks (router_of sample_crypto J sample_ws_json c') (Raw () []) c' = Inr c'"
proof
  fix J :: "unit json_api"
  let ?info = "\<lparr>wmi_Address = Some \<lparr>addr_Type = 144, addr_Address = sample_ws_address\<rparr>, wmi_ChannelName = ''status''\<rparr>"
  have ok: "client_ok (sample_ws_client [7])" by (rule sample_ws_client_ok) simp
  have key: "address_key (wmi_Address ?info) = sample_ws_address" by (simp add: address_key_def)
  obtain c' where c': "messageRouter_RouteMessage (\<lambda>_ _. None) sample_callbacks (router_of sample_crypto J sample_ws_json (sample_ws_client [7]))
      (Raw () []) (sample_ws_client [7]) = Inr c'"
    using RouteMessage_ok [OF ok sample_sched_ok sample_message_info sample_message_topic sample_answers, of sample_crypto J "\<lambda>_ _. None"]
    unfolding wired_router by (metis (no_types, lifting) option.case(1))
  have hs: "topic_handlers (AddressTopic Status) (address_key (wmi_Address ?info)) (sample_ws_client [7]) = [7]"
    unfolding key by (rule sample_topic_handlers)
  have "topic_handlers (AddressTopic Status) (address_key (wmi_Address ?info)) c' = []
    \<and> (\<forall>t' b. \<not> same_topic (AddressTopic Status) (address_key (wmi_Address ?info)) t' b \<longrightarrow>
         topic_handlers t' b c' = topic_handlers t' b (sample_ws_client [7]))
    \<and> messageRouter_RouteMessage (\<lambda>_ _. Some (NewError ''broken pipe'')) sample_callbacks (router_of sample_crypto J sample_ws_json c')
        (Raw () []) c' = Inr c'"
    by (rule late_messages_are_dropped [OF ok sample_sched_ok sample_message_info sample_message_topic sample_answers _ c'
          sample_message_info sample_message_topic refl sample_answers]) (simp only: hs list.set, simp)
  with c' show "\<exists>c'. messageRouter_RouteMessage (\<lambda>_ _. None) sample_callbacks (router_of sample_crypto J sample_ws_json (sample_ws_client [7])) (Raw () [])
       (sample_ws_client [7]) = Inr c'
     \<and> topic_handlers (AddressTopic Status) sample_ws_address c' = []
     \<and> messageRouter_RouteMessage (\<lambda>_ _. Some (NewError ''broken pipe'')) sample_callbacks (router_of sample_crypto J sample_ws_json c') (Raw () []) c' = Inr c'"
    unfolding key by metis
qed

end
