(* ===== verification/ClientObjects.thy ===== *)
theory ClientObjects
  imports SdkClient
begin

text \<open>
  The objects behind the client of \<open>sdk/sdk.go\<close>. \<open>NewClient\<close> makes one structure, whose services are pointers to one
  \<open>service\<close> inside it, which points back to the client; three services also hold pointers to other
  services. A client has a place in memory, a number; a pointer to its \<open>common\<close> part is known by that number.
\<close>

type_synonym client_ref = nat

record service = svc_client :: client_ref

text \<open>\<open>(*BlockchainService)(&c.common)\<close>: the pointer with another type.\<close>

datatype service_ref = CommonOf client_ref

record NetworkService =
  ns_service :: service_ref
  ns_BlockchainService :: service_ref

record ResolverService =
  rv_service :: service_ref
  rv_NamespaceService :: service_ref
  rv_MosaicService :: service_ref

record TransactionService =
  tsv_service :: service_ref
  tsv_BlockchainService :: service_ref

record 'h Client =
  cl_client :: 'h
  cl_config :: Config
  cl_common :: service
  cl_Blockchain :: service_ref
  cl_Mosaic :: service_ref
  cl_Namespace :: service_ref
  cl_Network :: NetworkService
  cl_Transaction :: TransactionService
  cl_Resolve :: ResolverService
  cl_Account :: service_ref
  cl_Contract :: service_ref
  cl_Metadata :: service_ref

text \<open>\<open>c\<close> is the place of the new client, \<open>defaultClient\<close> is \<open>http.DefaultClient\<close>.\<close>

definition NewClient :: "'h \<Rightarrow> client_ref \<Rightarrow> 'h option \<Rightarrow> Config \<Rightarrow> 'h Client" where
  "NewClient defaultClient c httpClient conf =
     (let httpClient = (case httpClient of None \<Rightarrow> defaultClient | Some h \<Rightarrow> h);
          common = CommonOf c
      in \<lparr>cl_client = httpClient, cl_config = conf, cl_common = \<lparr>svc_client = c\<rparr>,
          cl_Blockchain = common, cl_Mosaic = common, cl_Namespace = common,
          cl_Network = \<lparr>ns_service = common, ns_BlockchainService = common\<rparr>,
          cl_Transaction = \<lparr>tsv_service = common, tsv_BlockchainService = common\<rparr>,
          cl_Resolve = \<lparr>rv_service = common, rv_NamespaceService = common, rv_MosaicService = common\<rparr>,
          cl_Account = common, cl_Contract = common, cl_Metadata = common\<rparr>)"

definition Client_NetworkType :: "'h Client \<Rightarrow> NetworkType" where
  "Client_NetworkType c = cfg_NetworkType (cl_config c)"

definition Client_GenerationHash :: "'h Client \<Rightarrow> Hash option" where
  "Client_GenerationHash c = cfg_GenerationHash (cl_config c)"

text \<open>\<open>fresh\<close> is the key pair that the generator of the crypto package returns this time.\<close>

definition Client_NewAccount :: "'k crypto \<Rightarrow> 'k result \<Rightarrow> Config \<Rightarrow> 'k Account result" where
  "Client_NewAccount C fresh cfg = NewAccount C fresh (cfg_NetworkType cfg) (cfg_GenerationHash cfg)"

text \<open>\<open>keyString\<close> is \<open>PrivateKey.String\<close> of the crypto package.\<close>

definition AdaptAccount :: "'k crypto \<Rightarrow> ('k \<Rightarrow> string) \<Rightarrow> Config \<Rightarrow> 'k Account \<Rightarrow> 'k Account result" where
  "AdaptAccount C keyString cfg account =
     Client_NewAccountFromPrivateKey C cfg (keyString (cr_PrivateKey C (acc_KeyPair account)))"

section \<open>All services talk through one client\<close>

text \<open>The heap holds the clients; a service reaches its client through its pointer.\<close>

definition client_of :: "(client_ref \<rightharpoonup> 'h Client) \<Rightarrow> service_ref \<Rightarrow> 'h Client result" where
  "client_of heap s = (case s of CommonOf c \<Rightarrow> res_bind (deref (heap c)) (\<lambda>cl. deref (heap (svc_client (cl_common cl)))))"

definition services_of :: "'h Client \<Rightarrow> service_ref list" where
  "services_of c =
     [cl_Blockchain c, cl_Mosaic c, cl_Namespace c, ns_service (cl_Network c), ns_BlockchainService (cl_Network c),
      tsv_service (cl_Transaction c), tsv_BlockchainService (cl_Transaction c), rv_service (cl_Resolve c),
      rv_NamespaceService (cl_Resolve c), rv_MosaicService (cl_Resolve c), cl_Account c, cl_Contract c, cl_Metadata c]"

lemma services_share_client:
  assumes "cl = NewClient defaultClient c httpClient conf" "heap c = Some cl'" "cl_common cl' = cl_common cl" "s \<in> set (services_of cl)"
  shows "client_of heap s = Inr cl'"
  using assms by (auto simp: NewClient_def services_of_def client_of_def Let_def)

text \<open>
  So a request that fails over through one service moves all of them to the other node: whatever the configuration
  of the client has become, every service reads that one.
\<close>

lemma services_see_new_node:
  assumes "cl = NewClient defaultClient c httpClient conf" "s \<in> set (services_of cl)"
  shows "res_map cl_config (client_of (heap(c \<mapsto> cl\<lparr>cl_config := conf'\<rparr>)) s) = Inr conf'"
  using services_share_client [OF assms(1) _ _ assms(2), of "heap(c \<mapsto> cl\<lparr>cl_config := conf'\<rparr>)" "cl\<lparr>cl_config := conf'\<rparr>"]
  by simp

text \<open>
  An adapted account has the key of the old one, and the network and generation hash of the client, if the crypto package
  reads back the private keys it prints and makes of one the key pair it belongs to.
\<close>

lemma adapted_account:
  assumes "cr_NewPrivateKeyfromHexString C (keyString (cr_PrivateKey C (acc_KeyPair account))) = Inr k"
    and "cr_NewKeyPair C (Some k) None = Inr (acc_KeyPair account)"
    and "AdaptAccount C keyString cfg account = Inr account'"
  shows "acc_KeyPair account' = acc_KeyPair account" "acc_generationHash account' = cfg_GenerationHash cfg"
    "NewAccountFromPublicKey C (cr_PublicKey_String C (acc_KeyPair account)) (cfg_NetworkType cfg) = Inr (acc_PublicAccount account')"
  using assms by (auto simp: AdaptAccount_def Client_NewAccountFromPrivateKey_def NewAccountFromPrivateKey_def res_bind_Inr_iff)

end
