(* ===== verification/JsonHooks.thy ===== *)
theory JsonHooks
  imports Accounts
begin

text \<open>
  The hooks the JSON library calls: \<open>UnmarshalJSON\<close> of the properties of an account and of a list of addresses
  (\<open>sdk/account_internal.go\<close>), and \<open>IsEmpty\<close>, \<open>Decode\<close> and \<open>Encode\<close> of a list of namespace identifiers
  (\<open>sdk/namespace_model.go\<close>), which work on unsafe pointers. Decoding a piece of JSON into a structure is a
  parameter.
\<close>

section \<open>Properties of an account\<close>

text \<open>
  \<open>json.Unmarshal\<close> into the four structures the hook declares: the type of the property, and its values read as addresses, as
  mosaic identifiers or as entity types.
\<close>

record 'j property_json =
  pj_PropertyType :: "'j \<Rightarrow> PropertyType result"
  pj_Addresses :: "'j \<Rightarrow> string list result"
  pj_MosaicIds :: "'j \<Rightarrow> uint64DTO list result"
  pj_EntityTypes :: "'j \<Rightarrow> EntityType list result"

definition propertiesDTO_UnmarshalJSON ::
  "'j property_json \<Rightarrow> 'j \<Rightarrow> propertiesDTO \<Rightarrow> propertiesDTO \<times> unit result" where
  "propertiesDTO_UnmarshalJSON J data d =
     (case pj_PropertyType J data of
        Inl err \<Rightarrow> (d, Inl err)
      | Inr temp \<Rightarrow>
          let d = d\<lparr>pd_PropertyType := temp\<rparr> in
          if temp AND AllowAddress \<noteq> 0 then
            (case pj_Addresses J data of
               Inl err \<Rightarrow> (d, Inl err)
             | Inr addresses \<Rightarrow> (d\<lparr>pd_Addresses := addresses\<rparr>, Inr ()))
          else if temp AND AllowMosaic \<noteq> 0 then
            (case pj_MosaicIds J data of
               Inl err \<Rightarrow> (d, Inl err)
             | Inr mosaicIds \<Rightarrow> (d\<lparr>pd_MosaicIds := mosaicIds\<rparr>, Inr ()))
          else if temp AND AllowTransaction \<noteq> 0 then
            (case pj_EntityTypes J data of
               Inl err \<Rightarrow> (d, Inl err)
             | Inr entityTypes \<Rightarrow> (d\<lparr>pd_EntityTypes := entityTypes\<rparr>, Inr ()))
          else (d, Inl (NewError ''not supported PropertyType'')))"

text \<open>
  The library calls the hook on a fresh structure per element of the array; the first error ends the
  decoding. What it makes of the whole \<open>accountPropertiesDTO\<close> is then converted.
\<close>

definition zero_propertiesDTO :: propertiesDTO where
  "zero_propertiesDTO = \<lparr>pd_PropertyType = 0, pd_MosaicIds = [], pd_Addresses = [], pd_EntityTypes = []\<rparr>"

definition decode_property :: "'j property_json \<Rightarrow> 'j \<Rightarrow> propertiesDTO result" where
  "decode_property J data =
     (case propertiesDTO_UnmarshalJSON J data zero_propertiesDTO of
        (d, Inl err) \<Rightarrow> Inl err
      | (d, Inr _) \<Rightarrow> Inr d)"

definition read_account_properties :: "'j property_json \<Rightarrow> string \<Rightarrow> 'j list \<Rightarrow> AccountProperties result" where
  "read_account_properties J address properties =
     res_bind (mapR (decode_property J) properties) (accountPropertiesDTO_toStruct address)"

section \<open>Lists of addresses\<close>

definition addresses_UnmarshalJSON :: "byte list \<Rightarrow> Address list \<Rightarrow> Address list \<times> unit result" where
  "addresses_UnmarshalJSON buf ref = (ref, Inr ())"

section \<open>Lists of namespace identifiers\<close>

text \<open>
  The memory of a \<open>namespaceIds\<close>: its slice is a pointer to the elements and a length. \<open>Decode\<close> writes nil over the first word,
  which is the pointer to the elements, when the JSON value is null. For an array it reads the text \<open>{}\<close> instead, for which \<open>Read\<close> of the library returns
  a map, and asserts that this is a slice of identifiers. \<open>ptr\<close> may be nil; what is then decoded goes to a structure that nobody sees.
\<close>

record namespaceIds =
  nsids_elements :: "NamespaceId list option"
  nsids_len :: nat

datatype jsoniter_value = NullValue | ArrayValue | OtherValue

definition namespaceIds_IsEmpty :: "namespaceIds \<Rightarrow> bool" where
  "namespaceIds_IsEmpty ptr \<longleftrightarrow> nsids_len ptr = 0"

definition namespaceIds_Decode :: "namespaceIds option \<Rightarrow> jsoniter_value \<Rightarrow> namespaceIds option result" where
  "namespaceIds_Decode ptr iter =
     (if iter = NullValue then Inr (map_option (\<lambda>p. p\<lparr>nsids_elements := None\<rparr>) ptr)
      else if iter = ArrayValue then Inl Panicked
      else Inr ptr)"

text \<open>The list in memory; nil elements with a length are read through a nil pointer.\<close>

definition namespaceIds_List :: "namespaceIds \<Rightarrow> NamespaceId list result" where
  "namespaceIds_List p =
     (case nsids_elements p of
        Some es \<Rightarrow> Inr (take (nsids_len p) es)
      | None \<Rightarrow> if nsids_len p = 0 then Inr [] else Inl Panicked)"

definition namespaceIds_Encode :: "namespaceIds \<Rightarrow> byte list \<Rightarrow> byte list result" where
  "namespaceIds_Encode ptr stream =
     res_bind (namespaceIds_List ptr) (\<lambda>list.
       case namespaceIds_MarshalJSON list of
         Inr buf \<Rightarrow> Inr (stream @ buf)
       | Inl err \<Rightarrow> Inr stream)"

text \<open>No list of identifiers is ever decoded: an array panics, and anything else leaves the elements or drops them.\<close>

lemma namespaceIds_array_panics: "namespaceIds_Decode ptr ArrayValue = Inl Panicked"
  by (simp add: namespaceIds_Decode_def)

lemma namespaceIds_null_keeps_length:
  "namespaceIds_Decode (Some p) NullValue = Inr (Some q) \<Longrightarrow>
     nsids_len q = nsids_len p \<and> (namespaceIds_IsEmpty p \<or> namespaceIds_List q = Inl Panicked)"
  by (auto simp: namespaceIds_Decode_def namespaceIds_IsEmpty_def namespaceIds_List_def)

section \<open>What is read of a property\<close>

text \<open>
  The values of a property of one of the six types land in the one list that the type names, unchanged
  but for their conversion.
\<close>

lemma decode_property_cases:
  "decode_property J data =
     res_bind (pj_PropertyType J data) (\<lambda>t.
       if t AND AllowAddress \<noteq> 0 then res_map (\<lambda>v. zero_propertiesDTO\<lparr>pd_PropertyType := t, pd_Addresses := v\<rparr>) (pj_Addresses J data)
       else if t AND AllowMosaic \<noteq> 0 then res_map (\<lambda>v. zero_propertiesDTO\<lparr>pd_PropertyType := t, pd_MosaicIds := v\<rparr>) (pj_MosaicIds J data)
       else if t AND AllowTransaction \<noteq> 0 then res_map (\<lambda>v. zero_propertiesDTO\<lparr>pd_PropertyType := t, pd_EntityTypes := v\<rparr>) (pj_EntityTypes J data)
       else Inl (NewError ''not supported PropertyType''))"
  by (cases "pj_PropertyType J data"; cases "pj_Addresses J data"; cases "pj_MosaicIds J data"; cases "pj_EntityTypes J data")
    (simp_all add: decode_property_def propertiesDTO_UnmarshalJSON_def Let_def)

lemma property_bits:
  "AllowAddress AND AllowAddress \<noteq> 0" "BlockAddress AND AllowAddress \<noteq> 0"
  "AllowMosaic AND AllowAddress = 0" "BlockMosaic AND AllowAddress = 0" "AllowMosaic AND AllowMosaic \<noteq> 0" "BlockMosaic AND AllowMosaic \<noteq> 0"
  "AllowTransaction AND AllowAddress = 0" "BlockTransaction AND AllowAddress = 0"
  "AllowTransaction AND AllowMosaic = 0" "BlockTransaction AND AllowMosaic = 0"
  "AllowTransaction AND AllowTransaction \<noteq> 0" "BlockTransaction AND AllowTransaction \<noteq> 0"
  by (simp_all add: go_consts)

definition known_property :: "PropertyType \<Rightarrow> bool" where
  "known_property t \<longleftrightarrow> t \<in> {AllowAddress, AllowMosaic, AllowTransaction, BlockAddress, BlockMosaic, BlockTransaction}"

lemma property_types_distinct:
  "distinct [AllowAddress, AllowMosaic, AllowTransaction, BlockAddress, BlockMosaic, BlockTransaction]"
  by (simp add: go_consts)

text \<open>
  C35. Reading one property of an account: for each of the six types the values are read as what the type says and set
  the list of that type, and nothing else changes. A type with none of the three low bits is an
  error. Any other type is read, by its lowest bit, and then dropped without an error.
\<close>

theorem property_is_read:
  assumes "pj_PropertyType J data = Inr t"
  shows "res_bind (decode_property J data) (\<lambda>p. account_property_step p props) =
    (if t = AllowAddress then res_bind (pj_Addresses J data) (\<lambda>v. res_map (\<lambda>a. props\<lparr>ap_AllowedAddresses := a\<rparr>) (EncodedStringToAddresses v))
     else if t = BlockAddress then res_bind (pj_Addresses J data) (\<lambda>v. res_map (\<lambda>a. props\<lparr>ap_BlockedAddresses := a\<rparr>) (EncodedStringToAddresses v))
     else if t = AllowMosaic then res_bind (pj_MosaicIds J data) (\<lambda>v. res_map (\<lambda>m. props\<lparr>ap_AllowedMosaicId := m\<rparr>) (mosaicIdDTOs_toStruct v))
     else if t = BlockMosaic then res_bind (pj_MosaicIds J data) (\<lambda>v. res_map (\<lambda>m. props\<lparr>ap_BlockedMosaicId := m\<rparr>) (mosaicIdDTOs_toStruct v))
     else if t = AllowTransaction then res_map (\<lambda>e. props\<lparr>ap_AllowedEntityTypes := e\<rparr>) (pj_EntityTypes J data)
     else if t = BlockTransaction then res_map (\<lambda>e. props\<lparr>ap_BlockedEntityTypes := e\<rparr>) (pj_EntityTypes J data)
     else if t AND AllowAddress \<noteq> 0 then res_map (\<lambda>_. props) (pj_Addresses J data)
     else if t AND AllowMosaic \<noteq> 0 then res_map (\<lambda>_. props) (pj_MosaicIds J data)
     else if t AND AllowTransaction \<noteq> 0 then res_map (\<lambda>_. props) (pj_EntityTypes J data)
     else Inl (NewError ''not supported PropertyType''))"
proof (cases "known_property t")
  case True
  then show ?thesis
    using assms unfolding known_property_def
    by (elim insertE emptyE; cases "pj_Addresses J data"; cases "pj_MosaicIds J data"; cases "pj_EntityTypes J data")
      (simp_all add: decode_property_cases account_property_step_def zero_propertiesDTO_def go_consts)
next
  case False
  then show ?thesis
    using assms unfolding known_property_def
    by (cases "pj_Addresses J data"; cases "pj_MosaicIds J data"; cases "pj_EntityTypes J data")
      (simp_all add: decode_property_cases account_property_step_def zero_propertiesDTO_def)
qed

text \<open>A property that blocks two mosaics.\<close>

definition sample_property_json :: "unit property_json" where
  "sample_property_json =
     \<lparr>pj_PropertyType = (\<lambda>_. Inr BlockMosaic), pj_Addresses = (\<lambda>_. Inl HexErrLength),
      pj_MosaicIds = (\<lambda>_. Inr [(1, 0), (2, 0)]), pj_EntityTypes = (\<lambda>_. Inl HexErrLength)\<rparr>"

theorem property_is_read_witness:
  "res_map ap_BlockedMosaicId (res_bind (decode_property sample_property_json ()) (\<lambda>p. account_property_step p
     \<lparr>ap_Address = \<lparr>addr_Type = 0, addr_Address = []\<rparr>, ap_AllowedAddresses = [], ap_AllowedMosaicId = [], ap_AllowedEntityTypes = [],
      ap_BlockedAddresses = [], ap_BlockedMosaicId = [], ap_BlockedEntityTypes = []\<rparr>))
   = Inr [newMosaicIdPanic 1, newMosaicIdPanic 2]"
  using property_is_read [of sample_property_json "()" BlockMosaic
    "\<lparr>ap_Address = \<lparr>addr_Type = 0, addr_Address = []\<rparr>, ap_AllowedAddresses = [], ap_AllowedMosaicId = [], ap_AllowedEntityTypes = [],
      ap_BlockedAddresses = [], ap_BlockedMosaicId = [], ap_BlockedEntityTypes = []\<rparr>"]
  by (simp add: sample_property_json_def go_consts mosaicIdDTOs_toStruct_def mosaicIdDTO_toStruct_def uint64DTO_toUint64_eq
      NewMosaicId_def u64_of_words_def hasBits_def NamespaceBit_def)

end
