(* ===== verification/SdkErrors.thy ===== *)
theory SdkErrors
  imports Prelude
begin

text \<open>
  The texts of the errors of \<open>sdk/errors.go\<close>, and of errors made in place or wrapped. \<open>RespErr\<close> is the structure
  behind the errors of the REST interface, which \<open>newRespError\<close> makes; the others are made by \<open>errors.New\<close>. The texts of the errors of other packages are an
  argument.
\<close>

record RespErr = re_msg :: string

definition newRespError :: "string \<Rightarrow> RespErr" where
  "newRespError msg = \<lparr>re_msg = msg\<rparr>"

definition RespErr_Error :: "RespErr \<Rightarrow> string" where
  "RespErr_Error r = re_msg r"

text \<open>The errors of the REST interface, as far as \<open>e\<close> is one of them.\<close>

fun catapult_error :: "go_error \<Rightarrow> RespErr option" where
  "catapult_error ErrResourceNotFound = Some (newRespError ''resource is not found'')"
| "catapult_error ErrArgumentNotValid = Some (newRespError ''argument is not valid'')"
| "catapult_error ErrInvalidRequest = Some (newRespError ''request is not valid'')"
| "catapult_error ErrInternalError = Some (newRespError ''response is nil'')"
| "catapult_error ErrNotAcceptedResponseStatusCode = Some (newRespError ''not accepted response status code'')"
| "catapult_error _ = None"

fun sdk_error :: "go_error \<Rightarrow> string option" where
  "sdk_error ErrMetadataEmptyAddresses = Some ''list adresses ids must not by empty''"
| "sdk_error ErrMetadataNilAdress = Some ''adress must not be blank''"
| "sdk_error ErrMetadataEmptyMosaicIds = Some ''list mosaics ids must not by empty''"
| "sdk_error ErrMetadataNilMosaicId = Some ''mosaicId must not be nil''"
| "sdk_error ErrMetadataEmptyNamespaceIds = Some ''list namespaces ids must not by empty''"
| "sdk_error ErrMetadataNilNamespaceId = Some ''namespaceId must not be nil''"
| "sdk_error ErrNilAssetId = Some ''AssetId should not be nil''"
| "sdk_error ErrEmptyAssetIds = Some ''AssetId's array should not be empty''"
| "sdk_error ErrUnknownBlockchainType = Some ''Not supported Blockchain Type''"
| "sdk_error ErrInvalidHashLength = Some ''The length of Hash is invalid''"
| "sdk_error ErrInvalidSignatureLength = Some ''The length of Signature is invalid''"
| "sdk_error ErrEmptyMosaicIds = Some ''list mosaics ids must not by empty''"
| "sdk_error ErrNilMosaicId = Some ''mosaicId must not be nil''"
| "sdk_error ErrWrongBitMosaicId = Some ''mosaicId has 64th bit''"
| "sdk_error ErrInvalidOwnerPublicKey = Some ''public owner key is invalid''"
| "sdk_error ErrNilMosaicProperties = Some ''mosaic properties must not be nil''"
| "sdk_error ErrNamespaceTooManyPart = Some ''too many parts''"
| "sdk_error ErrNilNamespaceId = Some ''namespaceId is nil or zero''"
| "sdk_error ErrWrongBitNamespaceId = Some ''namespaceId doesn't have 64th bit''"
| "sdk_error ErrEmptyNamespaceIds = Some ''list namespace ids must not by empty''"
| "sdk_error ErrInvalidNamespaceName = Some ''namespace name is invalid''"
| "sdk_error ErrNilOrZeroHeight = Some ''block height should not be nil or zero''"
| "sdk_error ErrNilOrZeroLimit = Some ''limit should not be nil or zero''"
| "sdk_error ErrNilSecret = Some ''Secret should not be nil''"
| "sdk_error ErrNilProof = Some ''Proof should not be nil''"
| "sdk_error ErrEmptyAddressesIds = Some ''list of addresses should not be empty''"
| "sdk_error ErrNilAddress = Some ''address is nil''"
| "sdk_error ErrBlankAddress = Some ''address is blank''"
| "sdk_error ErrNilAccount = Some ''account should not be nil''"
| "sdk_error ErrInvalidAddress = Some ''wrong address''"
| "sdk_error ErrInvalidReputationConfig = Some ''default reputation should be greater than 0 and less than 1''"
| "sdk_error _ = None"

fun Error_text :: "(go_error \<Rightarrow> string) \<Rightarrow> go_error \<Rightarrow> string" where
  "Error_text other (NewError msg) = msg"
| "Error_text other (Wrapped msg cause) = msg @ '': '' @ Error_text other cause"
| "Error_text other e =
     (case catapult_error e of
        Some r \<Rightarrow> RespErr_Error r
      | None \<Rightarrow> (case sdk_error e of Some msg \<Rightarrow> msg | None \<Rightarrow> other e))"

text \<open>Every variable of \<open>errors.go\<close> has a text, and no error of another package gets one here.\<close>

lemma error_has_text:
  "(catapult_error e = None \<and> sdk_error e = None) \<longleftrightarrow>
     (case e of NewError _ \<Rightarrow> True | Wrapped _ _ \<Rightarrow> True | HexInvalidByte _ \<Rightarrow> True | HexErrLength \<Rightarrow> True
      | Base32CorruptInput \<Rightarrow> True | PackageError _ \<Rightarrow> True | Panicked \<Rightarrow> True | _ \<Rightarrow> False)"
  by (cases e) simp_all

text \<open>
  Two pairs of variables share a text: by its text the error for a nil mosaic identifier is the one for a
  nil identifier of metadata, and likewise for empty lists of them.
\<close>

lemma errors_with_one_text:
  "Error_text other ErrNilMosaicId = Error_text other ErrMetadataNilMosaicId"
  "Error_text other ErrEmptyMosaicIds = Error_text other ErrMetadataEmptyMosaicIds"
  "ErrNilMosaicId \<noteq> ErrMetadataNilMosaicId" "ErrEmptyMosaicIds \<noteq> ErrMetadataEmptyMosaicIds"
  by simp_all

end
