(* ===== verification/Printing.thy ===== *)
theory Printing
  imports Services WsMessages NetworkParse Namespaces
begin

text \<open>
  The \<open>String\<close> methods of the SDK. Transactions print with \<open>fmt.Sprintf\<close>: \<open>%s\<close> of a value with a \<open>String\<close> method is
  what the method returns, of a nil pointer \<open><nil>\<close> (the method panics on it and \<open>fmt\<close> recovers), of a slice
  its elements in brackets, and \<open>%d\<close> of a number its digits, whether it has a \<open>String\<close> method or not. Most other
  structures print with \<open>StructToString\<close> of the package \<open>go-xpx-utils/str\<close>, which is not in the repository: it is a
  parameter, a function of the name of the structure and its fields, each with its pattern and its value. The text
  of a time depends on the zone of the machine and is a parameter too.
\<close>

section \<open>The verbs of \<open>fmt\<close>\<close>

definition sprint_pointer :: "('a \<Rightarrow> string) \<Rightarrow> 'a option \<Rightarrow> string" where
  "sprint_pointer str p = (case p of None \<Rightarrow> ''<nil>'' | Some x \<Rightarrow> str x)"

fun space_join :: "string list \<Rightarrow> string" where
  "space_join [] = []"
| "space_join [s] = s"
| "space_join (s # t # ss) = s @ '' '' @ space_join (t # ss)"

definition sprint_slice :: "('a \<Rightarrow> string) \<Rightarrow> 'a list \<Rightarrow> string" where
  "sprint_slice str xs = ''['' @ space_join (map str xs) @ '']''"

text \<open>\<open>%x\<close> of an unsigned number: no leading zeros.\<close>

fun hex_nat :: "nat \<Rightarrow> string" where
  "hex_nat n = (if n < 16 then [hex_digit n] else hex_nat (n div 16) @ [hex_digit (n mod 16)])"

declare hex_nat.simps [simp del]

text \<open>
  The shape of the raw string literals: a line break, one line per entry, indented by three tabs, and
  two tabs. \<open>entry n v\<close> is the line \<open>"n": v\<close>.
\<close>

definition indented :: "string list \<Rightarrow> string" where
  "indented ls = [CHR 0x0A] @ concat (map (\<lambda>l. [CHR 0x09, CHR 0x09, CHR 0x09] @ l @ [CHR 0x0A]) ls) @ [CHR 0x09, CHR 0x09]"

definition quoted :: "string \<Rightarrow> string" where
  "quoted s = [CHR 0x22] @ s @ [CHR 0x22]"

definition entry :: "string \<Rightarrow> string \<Rightarrow> string" where
  "entry n v = quoted n @ '': '' @ v"

definition comma :: "string \<Rightarrow> string" where
  "comma s = s @ '',''"

section \<open>Parameters\<close>

text \<open>
  A value that is handed to \<open>NewField\<close>, as reflection sees it: a nil pointer, text, bytes, a truth value, a floating point number, a
  number without and with a \<open>String\<close> method, something else with a \<open>String\<close> method, a structure without one, a slice.
\<close>

datatype 'f str_value =
    NilValue
  | TextValue string
  | BytesValue "byte list"
  | BoolValue bool
  | FloatValue 'f
  | NumberValue int
  | EnumValue string int
  | StringerValue string
  | StructValue "'f str_value list"
  | SliceValue "'f str_value list"

datatype str_pattern = StringPattern | IntPattern | FloatPattern | BooleanPattern | ValuePattern

record 'f str_field =
  sf_name :: string
  sf_pattern :: str_pattern
  sf_value :: "'f str_value"

definition str_NewField :: "string \<Rightarrow> str_pattern \<Rightarrow> 'f str_value \<Rightarrow> 'f str_field" where
  "str_NewField name pattern v = \<lparr>sf_name = name, sf_pattern = pattern, sf_value = v\<rparr>"

record ('k, 'f) printer =
  pr_crypto :: "'k crypto"
  pr_StructToString :: "string \<Rightarrow> 'f str_field list \<Rightarrow> string"
  pr_Time :: "Timestamp \<Rightarrow> string"

definition pointer_value :: "('a \<Rightarrow> string) \<Rightarrow> 'a option \<Rightarrow> 'f str_value" where
  "pointer_value str p = (case p of None \<Rightarrow> NilValue | Some x \<Rightarrow> StringerValue (str x))"

definition slice_value :: "('a \<Rightarrow> string) \<Rightarrow> 'a list \<Rightarrow> 'f str_value" where
  "slice_value str xs = SliceValue (map (\<lambda>x. StringerValue (str x)) xs)"

definition texts_value :: "string list \<Rightarrow> 'f str_value" where
  "texts_value ts = SliceValue (map TextValue ts)"

section \<open>Numbers, enumerations, times\<close>

definition NetworkType_String :: "NetworkType \<Rightarrow> string" where
  "NetworkType_String nt = dec_nat (unat nt)"

definition HashType_String :: "HashType \<Rightarrow> string" where
  "HashType_String ht = dec_nat (unat ht)"

definition MosaicSupplyType_String :: "MosaicSupplyType \<Rightarrow> string" where
  "MosaicSupplyType_String tx = dec_nat (unat tx)"

definition EntityType_String :: "EntityType \<Rightarrow> string" where
  "EntityType_String t = ''0x'' @ hex_nat (unat t)"

definition MultisigCosignatoryModificationType_String :: "MultisigCosignatoryModificationType \<Rightarrow> string" where
  "MultisigCosignatoryModificationType_String t = dec_nat (unat t)"

definition MetadataModificationType_String :: "MetadataModificationType \<Rightarrow> string" where
  "MetadataModificationType_String t = dec_nat (unat t)"

definition MetadataType_String :: "MetadataType \<Rightarrow> string" where
  "MetadataType_String t = dec_nat (unat t)"

definition ChainScore_String :: "ChainScore \<Rightarrow> string" where
  "ChainScore_String m = ''[ '' @ dec_nat (unat (fst m)) @ '', '' @ dec_nat (unat (snd m)) @ '' ]''"

definition MosaicId_String :: "MosaicId \<Rightarrow> string" where
  "MosaicId_String m = AssetId_toHexString (MosaicAsset m)"

definition NamespaceId_String :: "NamespaceId \<Rightarrow> string" where
  "NamespaceId_String m = AssetId_toHexString (NamespaceAsset m)"

text \<open>\<open>Deadline\<close> and \<open>Timestamp\<close> embed a time and have its \<open>String\<close> method.\<close>

definition Deadline_String :: "('k, 'f) printer \<Rightarrow> Deadline \<Rightarrow> string" where
  "Deadline_String P d = pr_Time P (dl_Timestamp d)"

definition enum_value :: "('a::len word \<Rightarrow> string) \<Rightarrow> 'a word \<Rightarrow> 'f str_value" where
  "enum_value str x = EnumValue (str x) (uint x)"

definition int64_value :: "baseInt64 \<Rightarrow> 'f str_value" where
  "int64_value x = EnumValue (baseInt64_String x) (sint x)"

section \<open>Accounts\<close>

definition Address_String :: "('k, 'f) printer \<Rightarrow> Address \<Rightarrow> string" where
  "Address_String P ad =
     pr_StructToString P []
       [str_NewField ''Type'' IntPattern (enum_value NetworkType_String (addr_Type ad)),
        str_NewField ''Address'' StringPattern (TextValue (addr_Address ad))]"

definition PublicAccount_String :: "('k, 'f) printer \<Rightarrow> PublicAccount \<Rightarrow> string" where
  "PublicAccount_String P ref =
     ''Address: '' @ Address_String P (pa_Address ref) @ '', PublicKey: '' @ quoted (pa_PublicKey ref)"

definition AccountProperties_String :: "('k, 'f) printer \<Rightarrow> AccountProperties \<Rightarrow> string" where
  "AccountProperties_String P a =
     pr_StructToString P ''AccountProperties''
       [str_NewField ''Address'' StringPattern (StringerValue (Address_String P (ap_Address a))),
        str_NewField ''AllowedAddresses'' StringPattern (slice_value (Address_String P) (ap_AllowedAddresses a)),
        str_NewField ''AllowedMosaicId'' StringPattern (slice_value MosaicId_String (ap_AllowedMosaicId a)),
        str_NewField ''AllowedEntityTypes'' StringPattern (SliceValue (map (enum_value EntityType_String) (ap_AllowedEntityTypes a))),
        str_NewField ''BlockedAddresses'' StringPattern (slice_value (Address_String P) (ap_BlockedAddresses a)),
        str_NewField ''BlockedMosaicId'' StringPattern (slice_value MosaicId_String (ap_BlockedMosaicId a)),
        str_NewField ''BlockedEntityTypes'' StringPattern (SliceValue (map (enum_value EntityType_String) (ap_BlockedEntityTypes a)))]"

definition MultisigAccountInfo_String :: "('k, 'f) printer \<Rightarrow> MultisigAccountInfo \<Rightarrow> string" where
  "MultisigAccountInfo_String P ref =
     pr_StructToString P ''MultisigAccountInfo''
       [str_NewField ''Account'' StringPattern (StringerValue (PublicAccount_String P (mai_Account ref))),
        str_NewField ''MinApproval'' IntPattern (NumberValue (sint (mai_MinApproval ref))),
        str_NewField ''MinRemoval'' IntPattern (NumberValue (sint (mai_MinRemoval ref))),
        str_NewField ''Cosignatories'' StringPattern (slice_value (PublicAccount_String P) (mai_Cosignatories ref)),
        str_NewField ''MultisigAccounts'' StringPattern (slice_value (PublicAccount_String P) (mai_MultisigAccounts ref))]"

definition AccountName_String :: "('k, 'f) printer \<Rightarrow> AccountName \<Rightarrow> string" where
  "AccountName_String P a =
     pr_StructToString P ''AccountName''
       [str_NewField ''Address'' StringPattern (StringerValue (Address_String P (an_Address a))),
        str_NewField ''Names'' StringPattern (texts_value (an_Names a))]"

section \<open>Assets\<close>

definition Mosaic_String :: "('k, 'f) printer \<Rightarrow> Mosaic \<Rightarrow> string" where
  "Mosaic_String P m =
     pr_StructToString P ''MosaicId''
       [str_NewField ''AssetId'' StringPattern (StringerValue (AssetId_String (mosaic_AssetId m))),
        str_NewField ''Amount'' StringPattern (int64_value (mosaic_Amount m))]"

definition AccountInfo_String :: "('k, 'f) printer \<Rightarrow> 'f AccountInfo \<Rightarrow> string" where
  "AccountInfo_String P a =
     pr_StructToString P ''AccountInfo''
       [str_NewField ''Address'' StringPattern (StringerValue (Address_String P (ai_Address a))),
        str_NewField ''AddressHeight'' StringPattern (int64_value (ai_AddressHeight a)),
        str_NewField ''PublicKey'' StringPattern (TextValue (ai_PublicKey a)),
        str_NewField ''PublicKeyHeight'' StringPattern (int64_value (ai_PublicKeyHeight a)),
        str_NewField ''AccountType'' IntPattern (NumberValue (uint (ai_AccountType a))),
        str_NewField ''LinkedAccount'' StringPattern (pointer_value (PublicAccount_String P) (ai_LinkedAccount a)),
        str_NewField ''Mosaics'' StringPattern (slice_value (Mosaic_String P) (ai_Mosaics a)),
        str_NewField ''Reputation'' FloatPattern (FloatValue (ai_Reputation a))]"

definition MosaicProperty_String :: "('k, 'f) printer \<Rightarrow> MosaicProperty \<Rightarrow> string" where
  "MosaicProperty_String P mp =
     pr_StructToString P ''MosaicProperty''
       [str_NewField ''Id'' IntPattern (NumberValue (uint (mp_Id mp))),
        str_NewField ''Value'' IntPattern (int64_value (mp_Value mp))]"

text \<open>The elements of \<open>OptionalProperties\<close> are values, and the \<open>String\<close> method belongs to the pointer.\<close>

definition MosaicProperties_String :: "('k, 'f) printer \<Rightarrow> MosaicProperties \<Rightarrow> string" where
  "MosaicProperties_String P mp =
     pr_StructToString P ''MosaicProperties''
       [str_NewField ''SupplyMutable'' BooleanPattern (BoolValue (mps_SupplyMutable mp)),
        str_NewField ''Transferable'' BooleanPattern (BoolValue (mps_Transferable mp)),
        str_NewField ''Divisibility'' IntPattern (NumberValue (uint (mps_Divisibility mp))),
        str_NewField ''OptionalProperties'' ValuePattern
          (SliceValue (map (\<lambda>p. StructValue [NumberValue (uint (mp_Id p)), int64_value (mp_Value p)]) (mps_OptionalProperties mp)))]"

definition MosaicInfo_String :: "('k, 'f) printer \<Rightarrow> MosaicInfo \<Rightarrow> string" where
  "MosaicInfo_String P m =
     pr_StructToString P ''MosaicInfo''
       [str_NewField ''MosaicId'' StringPattern (StringerValue (MosaicId_String (mi_MosaicId m))),
        str_NewField ''Supply'' StringPattern (int64_value (mi_Supply m)),
        str_NewField ''Height'' StringPattern (int64_value (mi_Height m)),
        str_NewField ''Owner'' StringPattern (StringerValue (PublicAccount_String P (mi_Owner m))),
        str_NewField ''Revision'' IntPattern (NumberValue (uint (mi_Revision m))),
        str_NewField ''Properties'' StringPattern (StringerValue (MosaicProperties_String P (mi_Properties m)))]"

definition MosaicName_String :: "('k, 'f) printer \<Rightarrow> MosaicName \<Rightarrow> string" where
  "MosaicName_String P m =
     pr_StructToString P ''MosaicName''
       [str_NewField ''MosaicId'' StringPattern (StringerValue (MosaicId_String (mname_MosaicId m))),
        str_NewField ''Names'' StringPattern (texts_value (mname_Names m))]"

definition NamespaceName_String :: "('k, 'f) printer \<Rightarrow> NamespaceName \<Rightarrow> string" where
  "NamespaceName_String P n =
     pr_StructToString P ''NamespaceName''
       [str_NewField ''NamespaceId'' StringPattern (StringerValue (NamespaceId_String (nname_NamespaceId n))),
        str_NewField ''FullName'' StringPattern (TextValue (nname_FullName n))]"

definition NamespaceAlias_Address :: "NamespaceAlias \<Rightarrow> Address option" where
  "NamespaceAlias_Address ref = na_address ref"

definition NamespaceAlias_MosaicId :: "NamespaceAlias \<Rightarrow> MosaicId option" where
  "NamespaceAlias_MosaicId ref = na_mosaicId ref"

definition NamespaceAlias_String :: "('k, 'f) printer \<Rightarrow> NamespaceAlias \<Rightarrow> string" where
  "NamespaceAlias_String P ref =
     (let type_field = str_NewField ''Type'' IntPattern (NumberValue (uint (na_Type ref))) in
      if na_Type ref = AddressAliasType then
        pr_StructToString P ''NamespaceAlias''
          [str_NewField ''Address'' StringPattern (pointer_value (Address_String P) (NamespaceAlias_Address ref)), type_field]
      else if na_Type ref = MosaicAliasType then
        pr_StructToString P ''NamespaceAlias''
          [str_NewField ''MosaicId'' StringPattern (pointer_value MosaicId_String (NamespaceAlias_MosaicId ref)), type_field]
      else pr_StructToString P ''NamespaceAlias'' [type_field])"

definition print_namespace ::
  "('k, 'f) printer \<Rightarrow> NamespaceId \<Rightarrow> bool \<Rightarrow> NamespaceType \<Rightarrow> int \<Rightarrow> NamespaceId list \<Rightarrow> NamespaceAlias option
   \<Rightarrow> string option \<Rightarrow> PublicAccount option \<Rightarrow> Height \<Rightarrow> Height \<Rightarrow> string" where
  "print_namespace P namespaceId active typeSpace depth levels alias parent owner startHeight endHeight =
     pr_StructToString P ''NamespaceInfo''
       [str_NewField ''NamespaceId'' StringPattern (StringerValue (NamespaceId_String namespaceId)),
        str_NewField ''Active'' BooleanPattern (BoolValue active),
        str_NewField ''TypeSpace'' IntPattern (NumberValue (uint typeSpace)),
        str_NewField ''Depth'' IntPattern (NumberValue depth),
        str_NewField ''Levels'' StringPattern (slice_value NamespaceId_String levels),
        str_NewField ''Alias'' StringPattern (pointer_value (NamespaceAlias_String P) alias),
        str_NewField ''Parent'' StringPattern (pointer_value (\<lambda>s. s) parent),
        str_NewField ''Owner'' StringPattern (pointer_value (PublicAccount_String P) owner),
        str_NewField ''StartHeight'' StringPattern (int64_value startHeight),
        str_NewField ''EndHeight'' StringPattern (int64_value endHeight)]"

text \<open>A parent that is a stub has its identifier and the zero values of the other fields.\<close>

fun NamespaceInfo_String :: "('k, 'f) printer \<Rightarrow> NamespaceTree \<Rightarrow> string" where
  "NamespaceInfo_String P (ParentStub n) = print_namespace P n False 0 0 [] None None None 0 0"
| "NamespaceInfo_String P (FullNamespace i parent) =
     print_namespace P (ni_NamespaceId i) (ni_Active i) (ni_TypeSpace i) (ni_Depth i) (ni_Levels i) (Some (ni_Alias i))
       (map_option (NamespaceInfo_String P) parent) (Some (ni_Owner i)) (ni_StartHeight i) (ni_EndHeight i)"

section \<open>The chain, the network, contracts\<close>

definition BlockInfo_String :: "('k, 'f) printer \<Rightarrow> BlockInfo \<Rightarrow> string" where
  "BlockInfo_String P b =
     pr_StructToString P ''BlockInfo''
       [str_NewField ''NetworkType'' IntPattern (enum_value NetworkType_String (blk_NetworkType b)),
        str_NewField ''BlockHash'' StringPattern (pointer_value Hash_String (blk_BlockHash b)),
        str_NewField ''GenerationHash'' StringPattern (pointer_value Hash_String (blk_GenerationHash b)),
        str_NewField ''TotalFee'' StringPattern (int64_value (blk_TotalFee b)),
        str_NewField ''NumTransactions'' IntPattern (NumberValue (uint (blk_NumTransactions b))),
        str_NewField ''Signature'' StringPattern (pointer_value Signature_String (blk_Signature b)),
        str_NewField ''Signer'' StringPattern (StringerValue (PublicAccount_String P (blk_Signer b))),
        str_NewField ''Version'' IntPattern (NumberValue (uint (blk_Version b))),
        str_NewField ''Type'' IntPattern (NumberValue (uint (blk_Type b))),
        str_NewField ''Height'' StringPattern (int64_value (blk_Height b)),
        str_NewField ''Timestamp'' StringPattern (StringerValue (pr_Time P (blk_Timestamp b))),
        str_NewField ''Difficulty'' StringPattern (int64_value (blk_Difficulty b)),
        str_NewField ''FeeMultiplier'' IntPattern (NumberValue (uint (blk_FeeMultiplier b))),
        str_NewField ''PreviousBlockHash'' StringPattern (pointer_value Hash_String (blk_PreviousBlockHash b)),
        str_NewField ''BlockTransactionsHash'' StringPattern (pointer_value Hash_String (blk_BlockTransactionsHash b)),
        str_NewField ''BlockReceiptsHash'' StringPattern (pointer_value Hash_String (blk_BlockReceiptsHash b)),
        str_NewField ''StateHash'' StringPattern (pointer_value Hash_String (blk_StateHash b)),
        str_NewField ''Beneficiary'' StringPattern (pointer_value (PublicAccount_String P) (blk_Beneficiary b)),
        str_NewField ''FeeInterest'' IntPattern (NumberValue (uint (blk_FeeInterest b))),
        str_NewField ''FeeInterestDenominator'' IntPattern (NumberValue (uint (blk_FeeInterestDenominator b)))]"

definition BlockchainStorageInfo_String :: "('k, 'f) printer \<Rightarrow> BlockchainStorageInfo \<Rightarrow> string" where
  "BlockchainStorageInfo_String P b =
     pr_StructToString P ''BlockchainStorageInfo''
       [str_NewField ''NumBlocks'' IntPattern (NumberValue (bsi_NumBlocks b)),
        str_NewField ''NumTransactions'' IntPattern (NumberValue (bsi_NumTransactions b)),
        str_NewField ''NumAccounts'' IntPattern (NumberValue (bsi_NumAccounts b))]"

definition Entity_String :: "('k, 'f) printer \<Rightarrow> Entity \<Rightarrow> string" where
  "Entity_String P e =
     pr_StructToString P ''Entity''
       [str_NewField ''Name'' StringPattern (TextValue (ent_Name e)),
        str_NewField ''Type'' StringPattern (enum_value EntityType_String (ent_Type e)),
        str_NewField ''SupportedVersions'' StringPattern (SliceValue (map (\<lambda>v. NumberValue (uint v)) (ent_SupportedVersions e)))]"

definition BlockchainConfig_String :: "('k, 'f) printer \<Rightarrow> BlockchainConfig \<Rightarrow> string" where
  "BlockchainConfig_String P nc =
     pr_StructToString P ''NetworkConfig''
       [str_NewField ''StartedHeight'' StringPattern (int64_value (bcc_StartedHeight nc)),
        str_NewField ''NetworkConfig'' StringPattern (StringerValue (NetworkConfig_String (bcc_NetworkConfig nc))),
        str_NewField ''SupportedEntityVersions'' StringPattern
          (StringerValue (SupportedEntities_String (pr_crypto P) (bcc_SupportedEntityVersions nc)))]"

definition NetworkVersion_String :: "('k, 'f) printer \<Rightarrow> NetworkVersion \<Rightarrow> string" where
  "NetworkVersion_String P nv =
     pr_StructToString P ''NetworkVersion''
       [str_NewField ''StartedHeight'' StringPattern (int64_value (nv_StartedHeight nv)),
        str_NewField ''BlockChainVersion'' StringPattern
          (EnumValue (BlockChainVersion_String (nv_BlockChainVersion nv)) (uint (nv_BlockChainVersion nv)))]"

definition ContractInfo_String :: "('k, 'f) printer \<Rightarrow> ContractInfo \<Rightarrow> string" where
  "ContractInfo_String P ref =
     pr_StructToString P ''ContractInfo''
       [str_NewField ''Multisig'' StringPattern (TextValue (coi_Multisig ref)),
        str_NewField ''MultisigAddress'' StringPattern (StringerValue (Address_String P (coi_MultisigAddress ref))),
        str_NewField ''Start'' IntPattern (int64_value (coi_Start ref)),
        str_NewField ''Duration'' IntPattern (int64_value (coi_Duration ref)),
        str_NewField ''Content'' StringPattern (pointer_value Hash_String (coi_Content ref)),
        str_NewField ''Customers'' StringPattern (texts_value (coi_Customers ref)),
        str_NewField ''Executors'' StringPattern (texts_value (coi_Executors ref)),
        str_NewField ''Verifiers'' StringPattern (texts_value (coi_Verifiers ref))]"

section \<open>Numbers can be read back\<close>

definition hex_digit_value :: "char \<Rightarrow> nat" where
  "hex_digit_value c = (case from_hex_char c of Some n \<Rightarrow> n | None \<Rightarrow> 0)"

definition hex_value :: "string \<Rightarrow> nat" where
  "hex_value s = foldl (\<lambda>a c. 16 * a + hex_digit_value c) 0 s"

lemma hex_digit_value [simp]: "n < 16 \<Longrightarrow> hex_digit_value (hex_digit n) = n"
  by (simp add: hex_digit_value_def from_hex_char_digit)

lemma hex_value_hex_nat [simp]: "hex_value (hex_nat n) = n"
proof (induction n rule: hex_nat.induct)
  case (1 n)
  then show ?case
    by (subst hex_nat.simps) (auto simp: hex_value_def)
qed

lemma EntityType_String_inject [simp]: "EntityType_String t = EntityType_String u \<longleftrightarrow> t = u"
  by (auto simp: EntityType_String_def word_unat_eq_iff dest: arg_cong [where f = hex_value])

lemma enumeration_texts_inject [simp]:
  "NetworkType_String n = NetworkType_String n' \<longleftrightarrow> n = n'"
  "HashType_String h = HashType_String h' \<longleftrightarrow> h = h'"
  "MosaicSupplyType_String m = MosaicSupplyType_String m' \<longleftrightarrow> m = m'"
  "MultisigCosignatoryModificationType_String c = MultisigCosignatoryModificationType_String c' \<longleftrightarrow> c = c'"
  "MetadataModificationType_String d = MetadataModificationType_String d' \<longleftrightarrow> d = d'"
  "MetadataType_String e = MetadataType_String e' \<longleftrightarrow> e = e'"
  by (simp_all add: NetworkType_String_def HashType_String_def MosaicSupplyType_String_def
      MultisigCosignatoryModificationType_String_def MetadataModificationType_String_def MetadataType_String_def
      word_unat_eq_iff)

text \<open>The entity type of a transfer, and a network type, which prints as a number and not by its name.\<close>

lemma printed_enumerations:
  "EntityType_String ET_Transfer = ''0x4154''" "NetworkType_String MijinTest = ''144''"
  by (simp_all add: EntityType_String_def hex_nat.simps hex_digit_def NetworkType_String_def go_consts dec_nat.simps char_of_def bit_0)

end
