(* ===== verification/PrintTransactions.thy ===== *)
theory PrintTransactions
  imports Printing
begin

text \<open>
  The \<open>String\<close> methods of transactions and of their parts (\<open>sdk/transaction_model.go\<close>, \<open>sdk/secret.go\<close>,
  \<open>sdk/message.go\<close>). A line of a format is an \<open>entry\<close>, with a comma where the format has one; what looks odd is
  in the formats: the quotes of \<open>MerkleComponentHash\<close> and of the fields of a status, the lone quote before an embedded structure,
  the missing commas.
\<close>

section \<open>Secrets, proofs, messages\<close>

definition Secret_String :: "Secret \<Rightarrow> string" where
  "Secret_String s =
     [CHR 0x22] @ ''[ Type'' @ [CHR 0x22] @ '': '' @ dec_nat (unat (secret_Type s)) @ '', '' @
     entry ''Hash'' (Secret_HashString s) @ '' ]''"

definition Proof_String :: "Proof \<Rightarrow> string" where
  "Proof_String p = ''[ '' @ Proof_ProofString p @ '' ]''"

definition PlainMessage_String :: "('k, 'f) printer \<Rightarrow> byte list \<Rightarrow> string" where
  "PlainMessage_String P payload =
     pr_StructToString P ''PlainMessage''
       [str_NewField ''Type'' IntPattern (NumberValue (uint (Message_Type (PlainMessage payload)))),
        str_NewField ''Payload'' StringPattern (BytesValue (Message_Payload (PlainMessage payload)))]"

definition SecureMessage_String :: "('k, 'f) printer \<Rightarrow> byte list \<Rightarrow> string" where
  "SecureMessage_String P encodedData =
     pr_StructToString P ''SecureMessage''
       [str_NewField ''Type'' IntPattern (NumberValue (uint (Message_Type (SecureMessage encodedData)))),
        str_NewField ''EncodedData'' StringPattern (BytesValue (Message_Payload (SecureMessage encodedData)))]"

definition Message_String :: "('k, 'f) printer \<Rightarrow> Message \<Rightarrow> string" where
  "Message_String P m =
     (case m of PlainMessage payload \<Rightarrow> PlainMessage_String P payload
      | SecureMessage encodedData \<Rightarrow> SecureMessage_String P encodedData)"

text \<open>\<open>string(m.payload)\<close>\<close>

definition PlainMessage_Message :: "byte list \<Rightarrow> string" where
  "PlainMessage_Message payload = bytes_string payload"

section \<open>The common part\<close>

definition TransactionInfo_String :: "TransactionInfo \<Rightarrow> string" where
  "TransactionInfo_String ti = indented
     [comma (entry ''Height'' (baseInt64_String (ti_Height ti))),
      comma (entry ''Index'' (dec_nat (unat (ti_Index ti)))),
      comma (entry ''Id'' (ti_Id ti)),
      comma (entry ''TransactionHash'' (sprint_pointer Hash_String (ti_TransactionHash ti))),
      comma (quoted ''MerkleComponentHash:'' @ '' '' @ sprint_pointer Hash_String (ti_MerkleComponentHash ti)),
      comma (entry ''AggregateHash'' (sprint_pointer Hash_String (ti_AggregateHash ti))),
      entry ''AggregateId'' (ti_AggregateId ti)]"

definition AbstractTransaction_String :: "('k, 'f) printer \<Rightarrow> AbstractTransaction \<Rightarrow> string" where
  "AbstractTransaction_String P tx = indented
     [comma (entry ''NetworkType'' (NetworkType_String (tx_NetworkType tx))),
      comma (entry ''TransactionInfo'' (sprint_pointer TransactionInfo_String (tx_TransactionInfo tx))),
      comma (entry ''Type'' (EntityType_String (tx_Type tx))),
      comma (entry ''Version'' (dec_nat (unat (tx_Version tx)))),
      comma (entry ''MaxFee'' (baseInt64_String (tx_MaxFee tx))),
      comma (entry ''Deadline'' (sprint_pointer (Deadline_String P) (tx_Deadline tx))),
      comma (entry ''Signature'' (tx_Signature tx)),
      entry ''Signer'' (sprint_pointer (PublicAccount_String P) (tx_Signer tx))]"

section \<open>Account properties\<close>

definition AccountPropertiesAddressModification_String :: "AccountPropertiesAddressModification \<Rightarrow> string" where
  "AccountPropertiesAddressModification_String m = indented
     [comma (entry ''ModificationType'' (dec_nat (unat (apam_ModificationType m)))),
      comma (entry ''Address'' (addr_Address (apam_Address m)))]"

definition AccountPropertiesAddressTransaction_String :: "('k, 'f) printer \<Rightarrow> AccountPropertiesAddressTransaction \<Rightarrow> string" where
  "AccountPropertiesAddressTransaction_String P tx = indented
     [comma (entry ''AbstractTransaction'' (AbstractTransaction_String P (apa_AbstractTransaction tx))),
      comma (entry ''PropertyType'' (dec_nat (unat (apa_PropertyType tx)))),
      comma (entry ''Modifications'' (sprint_slice AccountPropertiesAddressModification_String (apa_Modifications tx)))]"

definition AccountPropertiesMosaicModification_String :: "AccountPropertiesMosaicModification \<Rightarrow> string" where
  "AccountPropertiesMosaicModification_String m = indented
     [comma (entry ''ModificationType'' (dec_nat (unat (apmm_ModificationType m)))),
      comma (entry ''AssetId'' (AssetId_String (apmm_AssetId m)))]"

definition AccountPropertiesMosaicTransaction_String :: "('k, 'f) printer \<Rightarrow> AccountPropertiesMosaicTransaction \<Rightarrow> string" where
  "AccountPropertiesMosaicTransaction_String P tx = indented
     [comma (entry ''AbstractTransaction'' (AbstractTransaction_String P (apm_AbstractTransaction tx))),
      comma (entry ''PropertyType'' (dec_nat (unat (apm_PropertyType tx)))),
      comma (entry ''Modifications'' (sprint_slice AccountPropertiesMosaicModification_String (apm_Modifications tx)))]"

definition AccountPropertiesEntityTypeModification_String :: "AccountPropertiesEntityTypeModification \<Rightarrow> string" where
  "AccountPropertiesEntityTypeModification_String m = indented
     [comma (entry ''ModificationType'' (dec_nat (unat (apem_ModificationType m)))),
      comma (entry ''EntityType'' (EntityType_String (apem_EntityType m)))]"

definition AccountPropertiesEntityTypeTransaction_String :: "('k, 'f) printer \<Rightarrow> AccountPropertiesEntityTypeTransaction \<Rightarrow> string" where
  "AccountPropertiesEntityTypeTransaction_String P tx = indented
     [comma (entry ''AbstractTransaction'' (AbstractTransaction_String P (ape_AbstractTransaction tx))),
      comma (entry ''PropertyType'' (dec_nat (unat (ape_PropertyType tx)))),
      comma (entry ''Modifications'' (sprint_slice AccountPropertiesEntityTypeModification_String (ape_Modifications tx)))]"

section \<open>Aliases, links, the network\<close>

definition AliasTransaction_String :: "('k, 'f) printer \<Rightarrow> AliasTransaction \<Rightarrow> string" where
  "AliasTransaction_String P tx = indented
     [comma (entry ''AbstractTransaction'' (AbstractTransaction_String P (al_AbstractTransaction tx))),
      comma (entry ''NamespaceId'' (AssetId_toHexString (NamespaceAsset (al_NamespaceId tx))))]"

definition AddressAliasTransaction_String :: "('k, 'f) printer \<Rightarrow> AddressAliasTransaction \<Rightarrow> string" where
  "AddressAliasTransaction_String P tx = indented
     [comma ([CHR 0x22] @ AliasTransaction_String P (aal_AliasTransaction tx)),
      comma (entry ''Address'' (Address_String P (aal_Address tx)))]"

definition MosaicAliasTransaction_String :: "('k, 'f) printer \<Rightarrow> MosaicAliasTransaction \<Rightarrow> string" where
  "MosaicAliasTransaction_String P tx = indented
     [comma ([CHR 0x22] @ AliasTransaction_String P (mal_AliasTransaction tx)),
      comma (entry ''MosaicId'' (AssetId_toHexString (MosaicAsset (mal_MosaicId tx))))]"

definition AccountLinkTransaction_String :: "('k, 'f) printer \<Rightarrow> AccountLinkTransaction \<Rightarrow> string" where
  "AccountLinkTransaction_String P tx = indented
     [comma (entry ''AbstractTransaction'' (AbstractTransaction_String P (link_AbstractTransaction tx))),
      comma (entry ''RemoteAccount'' (PublicAccount_String P (link_RemoteAccount tx))),
      entry ''LinkAction'' (dec_nat (unat (link_LinkAction tx)))]"

definition NetworkConfigTransaction_String :: "('k, 'f) printer \<Rightarrow> NetworkConfigTransaction \<Rightarrow> string" where
  "NetworkConfigTransaction_String P tx = indented
     [comma (entry ''AbstractTransaction'' (AbstractTransaction_String P (nct_AbstractTransaction tx))),
      comma (entry ''ApplyHeightDelta'' (baseInt64_String (nct_ApplyHeightDelta tx))),
      comma (entry ''NetworkConfig'' (NetworkConfig_String (nct_NetworkConfig tx))),
      entry ''SupportedEntities'' (SupportedEntities_String (pr_crypto P) (nct_SupportedEntities tx))]"

definition BlockchainUpgradeTransaction_String :: "('k, 'f) printer \<Rightarrow> BlockchainUpgradeTransaction \<Rightarrow> string" where
  "BlockchainUpgradeTransaction_String P tx = indented
     [comma (entry ''AbstractTransaction'' (AbstractTransaction_String P (bu_AbstractTransaction tx))),
      comma (entry ''UpgradePeriod'' (baseInt64_String (bu_UpgradePeriod tx))),
      entry ''NewBlockChainVersion'' (BlockChainVersion_String (bu_NewBlockChainVersion tx))]"

section \<open>Aggregates and cosignatures\<close>

definition AggregateTransactionCosignature_String :: "('k, 'f) printer \<Rightarrow> AggregateTransactionCosignature \<Rightarrow> string" where
  "AggregateTransactionCosignature_String P agt = indented
     [comma (entry ''Signature'' (ac_Signature agt)),
      entry ''Signer'' (PublicAccount_String P (ac_Signer agt))]"

text \<open>\<open>str\<close> prints an inner transaction.\<close>

definition AggregateTransaction_String ::
  "('k, 'f) printer \<Rightarrow> ('t \<Rightarrow> string) \<Rightarrow> 't AggregateTransaction \<Rightarrow> string" where
  "AggregateTransaction_String P str tx = indented
     [comma (entry ''AbstractTransaction'' (AbstractTransaction_String P (ag_AbstractTransaction tx))),
      comma (entry ''InnerTransactions'' (sprint_slice str (ag_InnerTransactions tx))),
      entry ''Cosignatures'' (sprint_slice (sprint_pointer (AggregateTransactionCosignature_String P)) (ag_Cosignatures tx))]"

lemma AggregateTransaction_String_cong [fundef_cong]:
  "a = b \<Longrightarrow> (\<And>t. t \<in> set (ag_InnerTransactions b) \<Longrightarrow> f t = g t)
   \<Longrightarrow> AggregateTransaction_String P f a = AggregateTransaction_String P g b"
  by (auto simp: AggregateTransaction_String_def sprint_slice_def intro!: arg_cong [where f = space_join] cong: map_cong)

section \<open>Metadata\<close>

text \<open>The first two entries of a modification have a tab before the colon or a blank and a tab.\<close>

definition MetadataModification_String :: "MetadataModification \<Rightarrow> string" where
  "MetadataModification_String m = indented
     [comma (quoted ''Type'' @ [CHR 0x09] @ '': '' @ MetadataModificationType_String (mm_Type m)),
      comma (quoted ''Key'' @ '' '' @ [CHR 0x09] @ '': '' @ mm_Key m),
      quoted ''Value'' @ '' : '' @ mm_Value m]"

definition ModifyMetadataTransaction_String :: "('k, 'f) printer \<Rightarrow> ModifyMetadataTransaction \<Rightarrow> string" where
  "ModifyMetadataTransaction_String P tx = indented
     [comma (entry ''AbstractTransaction'' (AbstractTransaction_String P (mmt_AbstractTransaction tx))),
      comma (entry ''MetadataType'' (MetadataType_String (mmt_MetadataType tx))),
      entry ''Modifications'' (sprint_slice MetadataModification_String (mmt_Modifications tx))]"

definition ModifyMetadataAddressTransaction_String :: "('k, 'f) printer \<Rightarrow> ModifyMetadataAddressTransaction \<Rightarrow> string" where
  "ModifyMetadataAddressTransaction_String P tx = indented
     [comma ([CHR 0x22] @ ModifyMetadataTransaction_String P (mma_ModifyMetadataTransaction tx)),
      comma (entry ''Address'' (sprint_pointer (Address_String P) (mma_Address tx)))]"

definition ModifyMetadataMosaicTransaction_String :: "('k, 'f) printer \<Rightarrow> ModifyMetadataMosaicTransaction \<Rightarrow> string" where
  "ModifyMetadataMosaicTransaction_String P tx = indented
     [comma ([CHR 0x22] @ ModifyMetadataTransaction_String P (mmm_ModifyMetadataTransaction tx)),
      comma (entry ''MosaicId'' (sprint_pointer MosaicId_String (mmm_MosaicId tx)))]"

definition ModifyMetadataNamespaceTransaction_String :: "('k, 'f) printer \<Rightarrow> ModifyMetadataNamespaceTransaction \<Rightarrow> string" where
  "ModifyMetadataNamespaceTransaction_String P tx = indented
     [comma ([CHR 0x22] @ ModifyMetadataTransaction_String P (mmn_ModifyMetadataTransaction tx)),
      comma (entry ''NamespaceId'' (sprint_pointer NamespaceId_String (mmn_NamespaceId tx)))]"

section \<open>Mosaics, transfers, multisig accounts, contracts, namespaces\<close>

definition MosaicDefinitionTransaction_String :: "('k, 'f) printer \<Rightarrow> MosaicDefinitionTransaction \<Rightarrow> string" where
  "MosaicDefinitionTransaction_String P tx = indented
     [comma (entry ''AbstractTransaction'' (AbstractTransaction_String P (mdt_AbstractTransaction tx))),
      comma (entry ''MosaicProperties'' (MosaicProperties_String P (mdt_MosaicProperties tx))),
      comma (entry ''MosaicNonce'' (dec_nat (unat (mdt_MosaicNonce tx)))),
      entry ''MosaicId'' (MosaicId_String (mdt_MosaicId tx))]"

definition MosaicSupplyChangeTransaction_String :: "('k, 'f) printer \<Rightarrow> MosaicSupplyChangeTransaction \<Rightarrow> string" where
  "MosaicSupplyChangeTransaction_String P tx = indented
     [comma (entry ''AbstractTransaction'' (AbstractTransaction_String P (msc_AbstractTransaction tx))),
      comma (entry ''MosaicSupplyType'' (MosaicSupplyType_String (msc_MosaicSupplyType tx))),
      comma (entry ''AssetId'' (AssetId_String (msc_AssetId tx))),
      entry ''Delta'' (dec_int (sint (msc_Delta tx)))]"

definition TransferTransaction_String :: "('k, 'f) printer \<Rightarrow> TransferTransaction \<Rightarrow> string" where
  "TransferTransaction_String P tx = indented
     [comma (entry ''AbstractTransaction'' (AbstractTransaction_String P (tr_AbstractTransaction tx))),
      comma (entry ''Mosaics'' (sprint_slice (Mosaic_String P) (tr_Mosaics tx))),
      comma (entry ''Address'' (Address_String P (tr_Recipient tx))),
      comma (entry ''Message'' (Message_String P (tr_Message tx)))]"

definition MultisigCosignatoryModification_String :: "('k, 'f) printer \<Rightarrow> MultisigCosignatoryModification \<Rightarrow> string" where
  "MultisigCosignatoryModification_String P m = indented
     [comma (entry ''Type'' (MultisigCosignatoryModificationType_String (mcm_Type m))),
      entry ''PublicAccount'' (PublicAccount_String P (mcm_PublicAccount m))]"

definition ModifyMultisigAccountTransaction_String :: "('k, 'f) printer \<Rightarrow> ModifyMultisigAccountTransaction \<Rightarrow> string" where
  "ModifyMultisigAccountTransaction_String P tx = indented
     [comma (entry ''AbstractTransaction'' (AbstractTransaction_String P (mms_AbstractTransaction tx))),
      comma (entry ''MinApprovalDelta'' (dec_int (sint (mms_MinApprovalDelta tx)))),
      comma (entry ''MinRemovalDelta'' (dec_int (sint (mms_MinRemovalDelta tx)))),
      entry ''Modifications'' (sprint_slice (MultisigCosignatoryModification_String P) (mms_Modifications tx))]"

definition ModifyContractTransaction_String :: "('k, 'f) printer \<Rightarrow> ModifyContractTransaction \<Rightarrow> string" where
  "ModifyContractTransaction_String P tx = indented
     [comma (entry ''AbstractTransaction'' (AbstractTransaction_String P (mct_AbstractTransaction tx))),
      comma (entry ''DurationDelta'' (dec_int (sint (mct_DurationDelta tx)))),
      comma (entry ''Content'' (sprint_pointer Hash_String (mct_Hash tx))),
      comma (entry ''Customers'' (sprint_slice (MultisigCosignatoryModification_String P) (mct_Customers tx))),
      comma (entry ''Executors'' (sprint_slice (MultisigCosignatoryModification_String P) (mct_Executors tx))),
      entry ''Verifiers'' (sprint_slice (MultisigCosignatoryModification_String P) (mct_Verifiers tx))]"

definition RegisterNamespaceTransaction_String :: "('k, 'f) printer \<Rightarrow> RegisterNamespaceTransaction \<Rightarrow> string" where
  "RegisterNamespaceTransaction_String P tx = indented
     [comma (entry ''AbstractTransaction'' (AbstractTransaction_String P (rn_AbstractTransaction tx))),
      comma (entry ''NamespaceName'' (rn_NamspaceName tx)),
      comma (entry ''NamespaceId'' (NamespaceId_String (rn_NamespaceId tx))),
      entry ''Duration'' (dec_int (sint (rn_Duration tx)))]"

section \<open>Locks\<close>

definition LockFundsTransaction_String :: "('k, 'f) printer \<Rightarrow> LockFundsTransaction \<Rightarrow> string" where
  "LockFundsTransaction_String P tx = indented
     [comma (entry ''AbstractTransaction'' (AbstractTransaction_String P (lf_AbstractTransaction tx))),
      comma (entry ''Mosaic'' (Mosaic_String P (lf_Mosaic tx))),
      comma (entry ''Duration'' (dec_int (sint (lf_Duration tx)))),
      entry ''SignedTxHash'' (sprint_pointer Hash_String (st_Hash (lf_SignedTransaction tx)))]"

definition SecretLockTransaction_String :: "('k, 'f) printer \<Rightarrow> SecretLockTransaction \<Rightarrow> string" where
  "SecretLockTransaction_String P tx = indented
     [comma (entry ''AbstractTransaction'' (AbstractTransaction_String P (sl_AbstractTransaction tx))),
      comma (entry ''Mosaic'' (Mosaic_String P (sl_Mosaic tx))),
      comma (entry ''Duration'' (dec_int (sint (sl_Duration tx)))),
      comma (entry ''Secret'' (Secret_String (sl_Secret tx))),
      entry ''Recipient'' (Address_String P (sl_Recipient tx))]"

definition SecretProofTransaction_String :: "('k, 'f) printer \<Rightarrow> SecretProofTransaction \<Rightarrow> string" where
  "SecretProofTransaction_String P tx = indented
     [comma (entry ''AbstractTransaction'' (AbstractTransaction_String P (sp_AbstractTransaction tx))),
      comma (entry ''HashType'' (HashType_String (sp_HashType tx))),
      entry ''Proof'' (Proof_String (sp_Proof tx)),
      entry ''Recipient'' (Address_String P (sp_Recipient tx))]"

section \<open>The interface\<close>

fun Transaction_String :: "('k, 'f) printer \<Rightarrow> Transaction \<Rightarrow> string" where
  "Transaction_String P (TxAccountPropertiesAddress tx) = AccountPropertiesAddressTransaction_String P tx"
| "Transaction_String P (TxAccountPropertiesMosaic tx) = AccountPropertiesMosaicTransaction_String P tx"
| "Transaction_String P (TxAccountPropertiesEntityType tx) = AccountPropertiesEntityTypeTransaction_String P tx"
| "Transaction_String P (TxAddressAlias tx) = AddressAliasTransaction_String P tx"
| "Transaction_String P (TxMosaicAlias tx) = MosaicAliasTransaction_String P tx"
| "Transaction_String P (TxAccountLink tx) = AccountLinkTransaction_String P tx"
| "Transaction_String P (TxNetworkConfig tx) = NetworkConfigTransaction_String P tx"
| "Transaction_String P (TxBlockchainUpgrade tx) = BlockchainUpgradeTransaction_String P tx"
| "Transaction_String P (TxAggregate (AggregateTransaction atx inner cosignatures)) =
     AggregateTransaction_String P (Transaction_String P) (AggregateTransaction atx inner cosignatures)"
| "Transaction_String P (TxModifyMetadataAddress tx) = ModifyMetadataAddressTransaction_String P tx"
| "Transaction_String P (TxModifyMetadataMosaic tx) = ModifyMetadataMosaicTransaction_String P tx"
| "Transaction_String P (TxModifyMetadataNamespace tx) = ModifyMetadataNamespaceTransaction_String P tx"
| "Transaction_String P (TxMosaicDefinition tx) = MosaicDefinitionTransaction_String P tx"
| "Transaction_String P (TxMosaicSupplyChange tx) = MosaicSupplyChangeTransaction_String P tx"
| "Transaction_String P (TxTransfer tx) = TransferTransaction_String P tx"
| "Transaction_String P (TxModifyMultisigAccount tx) = ModifyMultisigAccountTransaction_String P tx"
| "Transaction_String P (TxModifyContract tx) = ModifyContractTransaction_String P tx"
| "Transaction_String P (TxRegisterNamespace tx) = RegisterNamespaceTransaction_String P tx"
| "Transaction_String P (TxLockFunds tx) = LockFundsTransaction_String P tx"
| "Transaction_String P (TxSecretLock tx) = SecretLockTransaction_String P tx"
| "Transaction_String P (TxSecretProof tx) = SecretProofTransaction_String P tx"

definition CosignatureTransaction_String :: "('k, 'f) printer \<Rightarrow> CosignatureTransaction \<Rightarrow> string" where
  "CosignatureTransaction_String P tx =
     entry ''TransactionToCosign'' (AggregateTransaction_String P (Transaction_String P) (ct_TransactionToCosign tx))"

definition TransactionStatus_String :: "('k, 'f) printer \<Rightarrow> TransactionStatus \<Rightarrow> string" where
  "TransactionStatus_String P ts = indented
     [comma (quoted ''Group:'' @ '' '' @ ts_Group ts),
      comma (quoted ''Status:'' @ '' '' @ ts_Status ts),
      comma (entry ''Hash'' (sprint_pointer Hash_String (ts_Hash ts))),
      comma (entry ''Deadline'' (Deadline_String P (ts_Deadline ts))),
      entry ''Height'' (baseInt64_String (ts_Height ts))]"

section \<open>Secrets and proofs can be told apart by their text\<close>

lemma ToUpper_hex_inject: "ToUpper (hex_encode xs) = ToUpper (hex_encode ys) \<longleftrightarrow> xs = ys"
  by (metis hex_decode_upper sum.inject(2))

lemma Proof_String_inject: "Proof_String p = Proof_String q \<longleftrightarrow> p = q"
  by (cases p; cases q) (auto simp: Proof_String_def Proof_ProofString_def ToUpper_hex_inject)

lemma Secret_String_determines_hash:
  "secret_Type s = secret_Type t \<Longrightarrow> Secret_String s = Secret_String t \<longleftrightarrow> s = t"
  by (cases s; cases t) (auto simp: Secret_String_def Secret_HashString_def entry_def ToUpper_hex_inject)

end
