(* ===== verification/Spec2Isabelle.thy ===== *)
theory Spec2Isabelle
  imports SchemaProperties TxSigning NetworkRoundtrip TxReportProperties TablesProperties WsConcurrentProperties
    WsClientProperties SdkClientProperties ServicesProperties Namespaces
    WsRouterProperties ClientObjects JsonHooks SdkErrors PrintTransactions
begin

text \<open>
  A model of the ProximaX Sirius chain SDK for Go (\<open>sdk/\<close>, \<open>sdk/websocket/\<close>, and what it uses of
  \<open>transactions/\<close>), and what makes it correct. The SDK builds transactions, writes them in the binary form of the
  chain, signs and announces them, reads what REST nodes report, and calls back on the messages of a web socket.

  Every theory opens with what it holds; this is the map, from the bottom up.

  \<^bold>\<open>Values.\<close> \<open>Prelude\<close> has the results of fallible functions (\<open>Inl\<close> an error of \<open>sdk/errors.go\<close>, \<open>Inl Panicked\<close> a run-time panic, which
  nothing in the SDK recovers from; \<open>SdkErrors\<close> has their texts), the loops that stop at the first error, slices and \<open>copy\<close>; \<open>Encoding\<close> has hexadecimal, base32, decimal and
  little-endian forms with their inverses. \<open>SdkModel\<close>: hashes, 64-bit values, versions and times (\<open>sdk_model.go\<close>, \<open>util.go\<close>, \<open>sdk_internal.go\<close>).
  \<open>Constants\<close>: sizes, types and versions. \<open>AssetIds\<close>: mosaics and namespaces (\<open>mosaic_*.go\<close>, \<open>namespace_*.go\<close>). \<open>Accounts\<close>: addresses, accounts and
  their REST forms (\<open>account_*.go\<close>). \<open>JsonHooks\<close>: the hooks that the JSON
  library calls, for the properties of an account and for lists of namespaces. \<open>Secrets\<close>: proofs, secrets and messages. \<open>Network\<close>, \<open>NetworkParse\<close>, \<open>NetworkRoundtrip\<close>: the text of
  a network configuration, printed and read back in whatever order the loops visit its maps (\<open>network_model.go\<close>, \<open>network_internal.go\<close>).

  \<^bold>\<open>Transactions.\<close> \<open>Transactions\<close> and \<open>TxConstructors\<close>: a record for every structure of \<open>transaction_model.go\<close>, the datatype \<open>Transaction\<close> for the
  interface, every constructor, \<open>Size\<close>. \<open>FbBuilder\<close>: the FlatBuffers builder as a record of functions and, in the locale \<open>flatbuffers\<close>, the laws the SDK
  relies on; \<open>FbFormat\<close>, \<open>FbReference\<close>: a builder that meets them, the locale's interpretation. \<open>TxBuffers\<close>: the generated writers. \<open>Schema\<close>,
  \<open>TxSchemas\<close>: the schemas that turn a buffer into the chain's bytes, with every read out of range. \<open>TxBytes\<close>: every \<open>generateBytes\<close>.
  \<open>TxWire\<close> states the bytes a transaction should have, \<open>FbSymbolic\<close> and \<open>TxRefine\<close> show that \<open>generateBytes\<close> makes them, for every
  builder that meets the laws, and \<open>TxSizes\<close>, \<open>TxProperties\<close>, \<open>SchemaProperties\<close> draw the consequences. \<open>Signing\<close>, \<open>TxSigning\<close>: payloads, hashes and
  cosignatures. \<open>TxDto\<close>, \<open>TxDtoProperties\<close>: the REST form of a transaction and \<open>MapTransaction\<close>; \<open>TxReport\<close> states what a node
  reports of a transaction, and \<open>TxReportProperties\<close> that \<open>MapTransaction\<close> reads that transaction back, the maps of a network configuration as maps.

  \<^bold>\<open>Generated tables.\<close> \<open>FbTable\<close>: the table readers of the FlatBuffers package as a record with laws (locale \<open>fb_tables\<close>) and an instance,
  and the shapes of generated accessors. \<open>TablesAccounts\<close>, \<open>TablesAssets\<close>, \<open>TablesChain\<close>, \<open>TablesTransfers\<close>: every generated function of the 22
  tables that \<open>TxBuffers\<close> does not have. \<open>FbColumns\<close>, \<open>FbAdders\<close>: tables as lists of columns and of writers, with the theory of reading, writing
  and changing them; \<open>TablesProperties\<close> applies it to all tables, and compares the accessors with the schemas. The SDK itself reads
  its buffers by the schemas only.

  \<^bold>\<open>The client.\<close> \<open>SdkClient\<close>: configuration, fees, a request and its failover to another node (\<open>sdk.go\<close>). \<open>Namespaces\<close>: hierarchies of namespaces and the
  resolver (\<open>namespace.go\<close>, \<open>resolver.go\<close>). \<open>Metadata\<close>: metadata and contracts. \<open>Services\<close>: all operations of the services, and \<open>NewConfig\<close>;
  \<open>ServicesProperties\<close> has the locale \<open>client_operation\<close>, which the operations instantiate.

  \<open>ClientObjects\<close>: the structure that \<open>NewClient\<close> makes, whose services share one client.

  \<^bold>\<open>Printing.\<close> \<open>Printing\<close>, \<open>PrintTransactions\<close>: the \<open>String\<close> methods, with \<open>fmt.Sprintf\<close> written out. What the text determines is shown for
  numbers, enumerations, secrets and proofs.

  \<^bold>\<open>The web socket.\<close> \<open>WsMessages\<close>: the messages and their mappers. \<open>WsSubscribers\<close>: the stores of callbacks (\<open>subscribers/\<close>). \<open>WsHandlers\<close>: handling a
  message (\<open>handlers/\<close>), against the locale \<open>subscriber\<close> that both kinds of store meet. \<open>WsClient\<close>: client, router and publisher (\<open>client.go\<close>,
  \<open>router.go\<close>, \<open>message_publisher.go\<close>); \<open>WsClientInvariant\<close>: its steps \<open>client_step\<close> and their invariant, that what the client
  holds callbacks for is what the server has been asked to send. \<open>WsConcurrent\<close>: the steps of messages whose handling overlaps in time. \<open>WsStores\<close>: the stores,
  mappers, handlers and the router as the objects that the code's constructors make, and that what the client puts together of them routes a message as
  \<open>RouteMessage\<close> of \<open>WsClient\<close> does; \<open>WsClientProperties\<close> and \<open>WsRouterProperties\<close> show what routing and reconnecting do.

  \<^bold>\<open>Bounds and fuel.\<close> A buffer is bounded by \<open>wire_limit\<close>, \<open>2 ^ 20\<close> bytes, far below the \<open>2 ^ 31\<close> at which the real builder panics and
  above what the chain takes; \<open>fits\<close> states it of a transaction. \<open>GetNamespaceInfo_loop\<close> has fuel because the code may not end; twice the
  length of the chain of parents is enough, and when the parents form a circle no fuel is. All other recursions are total.

  \<^bold>\<open>Parameters.\<close> Cryptography and the hash functions (\<open>crypto\<close>), the FlatBuffers builder (\<open>fb_api\<close>), JSON decoding (\<open>json_api\<close>, \<open>ws_json\<close>, fields
  of \<open>rest_api\<close>), HTTP, URLs, query strings and the dialling of sockets,
  \<open>StructToString\<close> and the text of a time (\<open>printer\<close>). What the proofs need of them is a named hypothesis (\<open>hashes_ok\<close>, \<open>signer_ok\<close>, \<open>cipher_laws\<close>, the
  laws of \<open>flatbuffers\<close>), and each has an instance. Go strings are lists of characters below 256. A Go map is the list of its entries in the order in
  which it is visited. Goroutines that wait for each other run in an order the scheduler picks, an argument of the model; a data race that Go leaves
  undefined (the shared \<open>err\<close> of a handler, the map it ranges over while callbacks are removed) is not represented.

  \<^bold>\<open>Not modelled.\<close> Mocks (generated for the tests), examples (programs that call the SDK against a live node) and tests. Pointers that every
  constructor checks are plain values, so that the panics of methods on structures assembled by hand with nil fields are outside the model.
\<close>

end
